(* ===== verification/Prelude.thy ===== *)
theory Prelude
  imports Complex_Main "HOL-Library.Char_ord" "HOL-Library.List_Lexorder"
begin

section \<open>Python in HOL: exceptions, checks, strings and tuples\<close>

text \<open>
  This theory holds what every component of the model shares.

  \<^item> A Python exception is a value of \<open>exn\<close>; a call that may raise returns \<open>exn + 'a\<close>,
    with the exception on the left. A \<open>__post_init__\<close> body is a list of guards in source order;
    each guard is \<open>raise_if bad e\<close> and \<open>first_raise\<close> is the first one that fires.
    \<open>construct_with\<close> runs it, as the constructor of a dataclass does.
  \<^item> A Python \<open>str\<close> is a \<open>string\<close>: the list of its code points, restricted to the range
    U+0000 to U+00FF that the type \<open>char\<close> holds. \<open>isascii\<close>, \<open>len\<close> and the UTF-8 length
    are exact for these strings.
  \<^item> A tuple or a list is a HOL list; \<open>dict.fromkeys\<close> on a sequence is \<open>py_unique\<close>.
  \<^item> A \<open>float\<close> is a rational number: comparisons and differences are exact, rounding is not
    modelled.
\<close>

named_theorems check_simps \<open>equations that run a list of guards\<close>
named_theorems text_simps \<open>equations about Python strings\<close>

subsection \<open>Exceptions and guards\<close>

datatype exn =
    ValueError string
  | TypeError string
  | AttributeError string
  | KeyError string
  | ExecutionContractError string
  | GovernanceError string
  | LeakageError string
  | ProposalSchemaError string
  | PermissionError string
  | LLMSchemaError string
  | LLMBudgetExceededError string
  | GraphRecursionError

text \<open>
  \<open>ExecutionContractError\<close>, \<open>GovernanceError\<close>, \<open>LeakageError\<close> and \<open>ProposalSchemaError\<close> are
  subclasses of \<open>ValueError\<close>.
\<close>

fun is_value_error :: "exn \<Rightarrow> bool" where
  "is_value_error (ValueError _) = True"
| "is_value_error (ExecutionContractError _) = True"
| "is_value_error (GovernanceError _) = True"
| "is_value_error (LeakageError _) = True"
| "is_value_error (ProposalSchemaError _) = True"
| "is_value_error _ = False"

type_synonym 'a result = "exn + 'a"

definition raise_if :: "bool \<Rightarrow> 'e \<Rightarrow> 'e option" where
  "raise_if bad e = (if bad then Some e else None)"

fun first_raise :: "'e option list \<Rightarrow> 'e option" where
  "first_raise [] = None"
| "first_raise (Some e # _) = Some e"
| "first_raise (None # cs) = first_raise cs"

definition construct_with :: "('a \<Rightarrow> exn option) \<Rightarrow> 'a \<Rightarrow> 'a result" where
  "construct_with post_init x = (case post_init x of None \<Rightarrow> Inr x | Some e \<Rightarrow> Inl e)"

definition and_then :: "'e + 'a \<Rightarrow> ('a \<Rightarrow> 'e + 'b) \<Rightarrow> 'e + 'b" where
  "and_then m f = (case m of Inl e \<Rightarrow> Inl e | Inr x \<Rightarrow> f x)"

fun map_raise :: "('a \<Rightarrow> 'e + 'b) \<Rightarrow> 'a list \<Rightarrow> 'e + 'b list" where
  "map_raise f [] = Inr []"
| "map_raise f (x # xs) =
     and_then (f x) (\<lambda>y. and_then (map_raise f xs) (\<lambda>ys. Inr (y # ys)))"

lemma raise_if_simps [simp, check_simps]:
  "raise_if True e = Some e" "raise_if False e = None"
  by (simp_all add: raise_if_def)

lemma raise_if_None [simp, check_simps]: "raise_if b e = None \<longleftrightarrow> \<not> b"
  by (simp add: raise_if_def)

lemma raise_if_Some [simp]: "raise_if b e = Some e' \<longleftrightarrow> b \<and> e' = e"
  by (auto simp: raise_if_def)

lemma first_raise_Cons:
  "first_raise (c # cs) = (case c of None \<Rightarrow> first_raise cs | Some e \<Rightarrow> Some e)"
  by (cases c) simp_all

lemma first_raise_None_Cons [simp]:
  "first_raise (c # cs) = None \<longleftrightarrow> c = None \<and> first_raise cs = None"
  by (cases c) simp_all

lemma first_raise_None_iff: "first_raise cs = None \<longleftrightarrow> (\<forall>c \<in> set cs. c = None)"
  by (induction cs) auto

lemma first_raise_append:
  "first_raise (cs @ ds) = (case first_raise cs of None \<Rightarrow> first_raise ds | Some e \<Rightarrow> Some e)"
  by (induction cs rule: first_raise.induct) auto

lemma first_raise_Some_set: "first_raise cs = Some e \<Longrightarrow> Some e \<in> set cs"
  by (induction cs rule: first_raise.induct) auto

lemma construct_with_Inr [simp]: "construct_with p x = Inr y \<longleftrightarrow> p x = None \<and> y = x"
  by (auto simp: construct_with_def split: option.splits)

lemma construct_with_Inl [simp]: "construct_with p x = Inl e \<longleftrightarrow> p x = Some e"
  by (auto simp: construct_with_def split: option.splits)

lemma and_then_simps [simp]: "and_then (Inl e) f = Inl e" "and_then (Inr x) f = f x"
  by (simp_all add: and_then_def)

lemma and_then_Inr: "and_then m f = Inr y \<longleftrightarrow> (\<exists>x. m = Inr x \<and> f x = Inr y)"
  by (cases m) auto

lemma and_then_Inl: "and_then m f = Inl e \<longleftrightarrow> m = Inl e \<or> (\<exists>x. m = Inr x \<and> f x = Inl e)"
  by (cases m) auto

lemma map_raise_Inr_length: "map_raise f xs = Inr ys \<Longrightarrow> length ys = length xs"
  by (induction xs arbitrary: ys) (auto simp: and_then_Inr)

lemma map_raise_all_Inr:
  "(\<And>x. x \<in> set xs \<Longrightarrow> f (g x) = Inr (h x)) \<Longrightarrow> map_raise f (map g xs) = Inr (map h xs)"
  by (induction xs) auto

lemma map_raise_Inr_nth:
  "map_raise f xs = Inr ys \<Longrightarrow> list_all2 (\<lambda>x y. f x = Inr y) xs ys"
  by (induction xs arbitrary: ys) (auto simp: and_then_Inr)

subsection \<open>Sequences\<close>

text \<open>\<open>tuple(dict.fromkeys(xs))\<close>: the first occurrence of every element, in order.\<close>

fun py_unique_acc :: "'a list \<Rightarrow> 'a list \<Rightarrow> 'a list" where
  "py_unique_acc seen [] = []"
| "py_unique_acc seen (x # xs) =
     (if x \<in> set seen then py_unique_acc seen xs else x # py_unique_acc (x # seen) xs)"

definition py_unique :: "'a list \<Rightarrow> 'a list" where
  "py_unique xs = py_unique_acc [] xs"

lemma set_py_unique_acc: "set (py_unique_acc seen xs) = set xs - set seen"
  by (induction xs arbitrary: seen) auto

lemma set_py_unique [simp]: "set (py_unique xs) = set xs"
  by (simp add: py_unique_def set_py_unique_acc)

lemma distinct_py_unique_acc: "distinct (py_unique_acc seen xs)"
  by (induction xs arbitrary: seen) (auto simp: set_py_unique_acc)

lemma distinct_py_unique [simp]: "distinct (py_unique xs)"
  by (simp add: py_unique_def distinct_py_unique_acc)

lemma py_unique_acc_id:
  "distinct xs \<Longrightarrow> set xs \<inter> set seen = {} \<Longrightarrow> py_unique_acc seen xs = xs"
  by (induction xs arbitrary: seen) auto

lemma py_unique_id [simp]: "distinct xs \<Longrightarrow> py_unique xs = xs"
  by (simp add: py_unique_def py_unique_acc_id)

lemma py_unique_Nil [simp]: "py_unique xs = [] \<longleftrightarrow> xs = []"
  by (metis set_py_unique set_empty)

text \<open>\<open>len(set(xs)) != len(xs)\<close> is the negation of \<open>distinct xs\<close>.\<close>

lemma card_set_distinct: "(length (remdups xs) = length xs) \<longleftrightarrow> distinct xs"
  by (simp add: length_remdups_eq)

text \<open>\<open>tuple(sorted(set(xs)))\<close>.\<close>

definition sorted_set :: "'a::linorder list \<Rightarrow> 'a list" where
  "sorted_set xs = sort (remdups xs)"

lemma sorted_set_props [simp]:
  "set (sorted_set xs) = set xs" "distinct (sorted_set xs)" "sorted (sorted_set xs)"
  by (simp_all add: sorted_set_def)

lemma sorted_set_eqI: "set xs = set ys \<Longrightarrow> sorted_set xs = sorted_set ys"
  by (rule sorted_distinct_set_unique) simp_all

lemma length_sorted_set: "length (sorted_set xs) = card (set xs)"
  using distinct_card [of "sorted_set xs"] by simp

subsection \<open>Strings\<close>

definition code :: "char \<Rightarrow> nat" where
  "code c = of_char c"

definition isascii :: "string \<Rightarrow> bool" where
  "isascii s = list_all (\<lambda>c. code c < 128) s"

definition has_control :: "string \<Rightarrow> bool" where
  "has_control s = list_ex (\<lambda>c. code c < 32) s"

definition has_nul :: "string \<Rightarrow> bool" where
  "has_nul s = list_ex (\<lambda>c. code c = 0) s"

definition hex_digits :: string where
  "hex_digits = ''0123456789abcdef''"

definition is_hex :: "string \<Rightarrow> bool" where
  "is_hex s = list_all (\<lambda>c. c \<in> set hex_digits) s"

definition is_sha256_text :: "string \<Rightarrow> bool" where
  "is_sha256_text s = (length s = 64 \<and> is_hex s)"

text \<open>UTF-8: one byte below U+0080, two bytes from there to U+00FF.\<close>

definition utf8_char :: "char \<Rightarrow> string" where
  "utf8_char c = (if code c < 128 then [c]
     else [char_of (192 + code c div 64), char_of (128 + code c mod 64)])"

definition utf8 :: "string \<Rightarrow> string" where
  "utf8 s = concat (map utf8_char s)"

definition startswith :: "string \<Rightarrow> string \<Rightarrow> bool" where
  "startswith s p = (take (length p) s = p)"

definition endswith :: "string \<Rightarrow> string \<Rightarrow> bool" where
  "endswith s p = (length p \<le> length s \<and> drop (length s - length p) s = p)"

fun contains :: "string \<Rightarrow> string \<Rightarrow> bool" where
  "contains [] p = (p = [])"
| "contains (c # s) p = (startswith (c # s) p \<or> contains s p)"

text \<open>\<open>s.split(c)\<close> for a single separator character, and \<open>sep.join(xs)\<close>.\<close>

fun split_on :: "char \<Rightarrow> string \<Rightarrow> string list" where
  "split_on d [] = [[]]"
| "split_on d (c # s) =
     (if c = d then [] # split_on d s
      else (case split_on d s of [] \<Rightarrow> [[c]] | w # ws \<Rightarrow> (c # w) # ws))"

fun join :: "string \<Rightarrow> string list \<Rightarrow> string" where
  "join sep [] = []"
| "join sep [w] = w"
| "join sep (w # v # ws) = w @ sep @ join sep (v # ws)"

definition replace_char :: "char \<Rightarrow> char \<Rightarrow> string \<Rightarrow> string" where
  "replace_char a b s = map (\<lambda>c. if c = a then b else c) s"

lemma isascii_Cons [simp]: "isascii (c # s) \<longleftrightarrow> code c < 128 \<and> isascii s"
  by (simp add: isascii_def)

lemma isascii_Nil [simp]: "isascii []"
  by (simp add: isascii_def)

lemma isascii_append [simp]: "isascii (s @ t) \<longleftrightarrow> isascii s \<and> isascii t"
  by (simp add: isascii_def)

lemma utf8_ascii [simp]: "isascii s \<Longrightarrow> utf8 s = s"
  by (induction s) (auto simp: utf8_def utf8_char_def)

lemma length_utf8_ge: "length s \<le> length (utf8 s)"
  by (induction s) (auto simp: utf8_def utf8_char_def)

lemma length_utf8_append [simp]: "utf8 (s @ t) = utf8 s @ utf8 t"
  by (simp add: utf8_def)

lemma hex_digit_ascii: "\<forall>c \<in> set hex_digits. code c < 128"
  by (simp add: hex_digits_def code_def)

lemma is_hex_isascii: "is_hex s \<Longrightarrow> isascii s"
  using hex_digit_ascii by (auto simp: is_hex_def isascii_def list_all_iff)

lemma split_on_nonempty [simp]: "split_on d s \<noteq> []"
  by (cases s) (auto split: list.splits)

lemma join_Cons: "ws \<noteq> [] \<Longrightarrow> join sep (w # ws) = w @ sep @ join sep ws"
  by (cases ws) simp_all

lemma join_split_on [text_simps]: "join [d] (split_on d s) = s"
proof (induction s)
  case Nil
  then show ?case by simp
next
  case (Cons c s)
  obtain w ws where w: "split_on d s = w # ws"
    using split_on_nonempty by (metis neq_Nil_conv)
  show ?case
  proof (cases "c = d")
    case True
    then show ?thesis using Cons by (simp add: join_Cons)
  next
    case False
    with Cons w show ?thesis by (cases ws) auto
  qed
qed

lemma split_on_no_sep: "w \<in> set (split_on d s) \<Longrightarrow> d \<notin> set w"
proof (induction s arbitrary: w)
  case Nil
  then show ?case by simp
next
  case (Cons c s)
  then show ?case by (auto split: if_splits list.splits)
qed

lemma startswith_append [simp]: "startswith (p @ s) p"
  by (simp add: startswith_def)

lemma startswith_iff: "startswith s p \<longleftrightarrow> (\<exists>t. s = p @ t)"
  by (metis append_eq_conv_conj append_take_drop_id startswith_def)

lemma endswith_iff: "endswith s p \<longleftrightarrow> (\<exists>t. s = t @ p)"
proof
  assume "endswith s p"
  then have "s = take (length s - length p) s @ p"
    by (metis append_take_drop_id endswith_def)
  then show "\<exists>t. s = t @ p" ..
next
  assume "\<exists>t. s = t @ p"
  then show "endswith s p" by (auto simp: endswith_def)
qed

end
