(* ===== verification/Sha256.thy ===== *)
theory Sha256
  imports Prelude "HOL-Library.Word"
begin

unbundle bit_operations_syntax

section \<open>hashlib.sha256(...).hexdigest()\<close>

text \<open>
  The hash that the repository's contracts use for every content address, written out from
  FIPS 180-4 on 32-bit words so that a digest is a value of the model and not an unknown. A byte
  string is a \<open>string\<close> (a \<open>char\<close> is one byte). The lemmas show what the contracts rely on: the hex
  digest of any input is 64 lowercase hexadecimal characters, and the padded message is a whole
  number of blocks. The constants of the standard are written in decimal. Nothing is assumed about collisions.
\<close>

type_synonym word32 = "32 word"

definition sha_k :: "word32 list" where
  "sha_k = [
    1116352408, 1899447441, 3049323471, 3921009573, 961987163, 1508970993, 2453635748, 2870763221,
    3624381080, 310598401, 607225278, 1426881987, 1925078388, 2162078206, 2614888103, 3248222580,
    3835390401, 4022224774, 264347078, 604807628, 770255983, 1249150122, 1555081692, 1996064986,
    2554220882, 2821834349, 2952996808, 3210313671, 3336571891, 3584528711, 113926993, 338241895,
    666307205, 773529912, 1294757372, 1396182291, 1695183700, 1986661051, 2177026350, 2456956037,
    2730485921, 2820302411, 3259730800, 3345764771, 3516065817, 3600352804, 4094571909, 275423344,
    430227734, 506948616, 659060556, 883997877, 958139571, 1322822218, 1537002063, 1747873779,
    1955562222, 2024104815, 2227730452, 2361852424, 2428436474, 2756734187, 3204031479, 3329325298]"

definition rotr :: "nat \<Rightarrow> word32 \<Rightarrow> word32" where
  "rotr n x = drop_bit n x OR push_bit (32 - n) x"

definition small_sigma0 :: "word32 \<Rightarrow> word32" where
  "small_sigma0 x = rotr 7 x XOR rotr 18 x XOR drop_bit 3 x"

definition small_sigma1 :: "word32 \<Rightarrow> word32" where
  "small_sigma1 x = rotr 17 x XOR rotr 19 x XOR drop_bit 10 x"

definition big_sigma0 :: "word32 \<Rightarrow> word32" where
  "big_sigma0 x = rotr 2 x XOR rotr 13 x XOR rotr 22 x"

definition big_sigma1 :: "word32 \<Rightarrow> word32" where
  "big_sigma1 x = rotr 6 x XOR rotr 11 x XOR rotr 25 x"

definition choose_bits :: "word32 \<Rightarrow> word32 \<Rightarrow> word32 \<Rightarrow> word32" where
  "choose_bits x y z = (x AND y) XOR (NOT x AND z)"

definition majority_bits :: "word32 \<Rightarrow> word32 \<Rightarrow> word32 \<Rightarrow> word32" where
  "majority_bits x y z = (x AND y) XOR (x AND z) XOR (y AND z)"

text \<open>The message schedule, built backwards: the head is the newest word.\<close>

fun extend_schedule :: "nat \<Rightarrow> word32 list \<Rightarrow> word32 list" where
  "extend_schedule 0 ws = ws"
| "extend_schedule (Suc n) ws =
     extend_schedule n
       ((small_sigma1 (ws ! 1) + ws ! 6 + small_sigma0 (ws ! 14) + ws ! 15) # ws)"

datatype hash_state = HashState word32 word32 word32 word32 word32 word32 word32 word32

fun sha_round :: "hash_state \<Rightarrow> word32 \<Rightarrow> word32 \<Rightarrow> hash_state" where
  "sha_round (HashState a b c d e f g h) k w =
     (let t1 = h + big_sigma1 e + choose_bits e f g + k + w;
          t2 = big_sigma0 a + majority_bits a b c
      in HashState (t1 + t2) a b c (d + t1) e f g)"

fun sha_rounds :: "hash_state \<Rightarrow> word32 list \<Rightarrow> word32 list \<Rightarrow> hash_state" where
  "sha_rounds s (k # ks) (w # ws) = sha_rounds (sha_round s k w) ks ws"
| "sha_rounds s _ _ = s"

fun add_state :: "hash_state \<Rightarrow> hash_state \<Rightarrow> hash_state" where
  "add_state (HashState a b c d e f g h) (HashState a' b' c' d' e' f' g' h') =
     HashState (a + a') (b + b') (c + c') (d + d') (e + e') (f + f') (g + g') (h + h')"

definition compress :: "hash_state \<Rightarrow> word32 list \<Rightarrow> hash_state" where
  "compress s block = add_state s (sha_rounds s sha_k (rev (extend_schedule 48 (rev block))))"

definition sha_init :: hash_state where
  "sha_init = HashState 1779033703 3144134277 1013904242 2773480762
     1359893119 2600822924 528734635 1541459225"

text \<open>Padding to a multiple of 64 bytes: 0x80, zeros, the bit length in eight bytes.\<close>

fun big_endian :: "nat \<Rightarrow> int \<Rightarrow> int list" where
  "big_endian 0 n = []"
| "big_endian (Suc k) n = (n div 256 ^ k) mod 256 # big_endian k n"

definition sha_pad :: "int list \<Rightarrow> int list" where
  "sha_pad bs = bs @ 128 # replicate ((119 - length bs mod 64) mod 64) 0
     @ big_endian 8 (8 * int (length bs))"

fun to_words :: "int list \<Rightarrow> word32 list" where
  "to_words (a # b # c # d # bs) =
     word_of_int (a * 16777216 + b * 65536 + c * 256 + d) # to_words bs"
| "to_words _ = []"

text \<open>Blocks of 16 words; the list is consumed 16 at a time, so its length bounds the fuel.\<close>

fun sha_blocks :: "nat \<Rightarrow> hash_state \<Rightarrow> word32 list \<Rightarrow> hash_state" where
  "sha_blocks 0 s ws = s"
| "sha_blocks (Suc n) s ws = sha_blocks n (compress s (take 16 ws)) (drop 16 ws)"

definition hex_digit :: "nat \<Rightarrow> char" where
  "hex_digit n = hex_digits ! n"

fun hex_of_int :: "nat \<Rightarrow> int \<Rightarrow> string" where
  "hex_of_int 0 n = []"
| "hex_of_int (Suc k) n = hex_digit (nat ((n div 16 ^ k) mod 16)) # hex_of_int k n"

fun hash_words :: "hash_state \<Rightarrow> word32 list" where
  "hash_words (HashState a b c d e f g h) = [a, b, c, d, e, f, g, h]"

definition sha256_state :: "string \<Rightarrow> hash_state" where
  "sha256_state s =
     (let ws = to_words (sha_pad (map of_char s)) in sha_blocks (length ws div 16) sha_init ws)"

definition sha256_hex :: "string \<Rightarrow> string" where
  "sha256_hex s = concat (map (\<lambda>w. hex_of_int 8 (uint w)) (hash_words (sha256_state s)))"

subsection \<open>The shape of a digest\<close>

lemma length_hex_of_int [simp]: "length (hex_of_int k n) = k"
  by (induction k) simp_all

lemma hex_digit_in: "n < 16 \<Longrightarrow> hex_digit n \<in> set hex_digits"
  unfolding hex_digit_def by (rule nth_mem) (simp add: hex_digits_def)

lemma is_hex_of_int: "is_hex (hex_of_int k n)"
  by (induction k) (auto simp: is_hex_def hex_digit_in)

lemma is_hex_append: "is_hex (s @ t) \<longleftrightarrow> is_hex s \<and> is_hex t"
  by (simp add: is_hex_def)

lemma sha256_hex_length: "length (sha256_hex s) = 64"
  by (cases "sha256_state s") (simp add: sha256_hex_def)

lemma sha256_hex_is_hex: "is_hex (sha256_hex s)"
  by (cases "sha256_state s") (simp add: sha256_hex_def is_hex_append is_hex_of_int)

lemma sha256_hex_text [simp]: "is_sha256_text (sha256_hex s)"
  by (simp add: is_sha256_text_def sha256_hex_length sha256_hex_is_hex)

lemma sha_pad_blocks: "64 dvd length (sha_pad bs)"
proof -
  define r where "r = length bs mod 64"
  define q where "q = length bs div 64"
  have be: "length (big_endian k n) = k" for k n by (induction k) simp_all
  have len: "length bs = 64 * q + r" and r: "r < 64" by (simp_all add: q_def r_def)
  have "length (sha_pad bs) = 64 * q + (r + 1 + (119 - r) mod 64 + 8)"
    using len r by (simp add: sha_pad_def be)
  moreover have "(119 - r) mod 64 = (if r \<le> 55 then 55 - r else 119 - r)"
  proof (cases "r \<le> 55")
    case True
    then have "119 - r = (55 - r) + 64" by simp
    then have "(119 - r) mod 64 = (55 - r) mod 64" by (metis mod_add_self2)
    with True show ?thesis by simp
  next
    case False
    with r show ?thesis by simp
  qed
  then have "r + 1 + (119 - r) mod 64 + 8 = (if r \<le> 55 then 64 else 128)"
    using r by simp
  then have "64 dvd (r + 1 + (119 - r) mod 64 + 8)" by (simp only: split: if_split) simp
  ultimately show ?thesis by simp
qed

end
