(* ===== verification/PyValue.thy ===== *)
theory PyValue
  imports Sha256 "HOL-Library.Multiset"
begin

section \<open>JSON-shaped Python values and their canonical serialisation\<close>

text \<open>
  The contracts pass untyped values (decoded JSON, the results of \<open>as_dict\<close>) through \<open>pyval\<close>:
  \<open>None\<close>, booleans, integers, floats, strings, lists (and tuples) and dictionaries. A dictionary is
  the list of its items in insertion order, with distinct keys where it comes from Python. A float
  is opaque: it is carried as the text of its \<open>repr\<close>, which is all the contracts do with one.

  \<open>dumps\<close> is \<open>json.dumps(value, sort_keys=True, separators=(",", ":"), ensure_ascii=True)\<close>, and
  \<open>object_sha256\<close> / \<open>canonical_hash\<close> hash it. Python's \<open>==\<close> between these values is \<open>py_eq\<close>
  (dictionaries regardless of order). \<open>iterate\<close> is \<open>tuple(value)\<close>: a list gives its items, a string
  its characters, a dictionary its keys and anything else a TypeError.
\<close>

datatype pyval =
    PyNone
  | PyBool bool
  | PyInt int
  | PyFloat string
  | PyStr string
  | PyList "pyval list"
  | PyDict "(string \<times> pyval) list"

type_synonym pydict = "(string \<times> pyval) list"

definition strs :: "string list \<Rightarrow> pyval" where
  "strs xs = PyList (map PyStr xs)"

definition opt_str :: "string option \<Rightarrow> pyval" where
  "opt_str x = (case x of None \<Rightarrow> PyNone | Some s \<Rightarrow> PyStr s)"

definition opt_int :: "int option \<Rightarrow> pyval" where
  "opt_int x = (case x of None \<Rightarrow> PyNone | Some i \<Rightarrow> PyInt i)"

subsection \<open>Dictionaries\<close>

definition keys :: "(string \<times> 'a) list \<Rightarrow> string list" where
  "keys d = map fst d"

definition wf_dict :: "(string \<times> 'a) list \<Rightarrow> bool" where
  "wf_dict d = distinct (keys d)"

text \<open>\<open>set(value) != expected\<close> is the negation of \<open>has_exactly\<close>.\<close>

definition has_exactly :: "(string \<times> 'a) list \<Rightarrow> string list \<Rightarrow> bool" where
  "has_exactly d ks = (list_all (\<lambda>k. k \<in> set ks) (keys d) \<and> list_all (\<lambda>k. k \<in> set (keys d)) ks)"

definition get_item :: "(string \<times> 'a) list \<Rightarrow> string \<Rightarrow> 'a result" where
  "get_item d k = (case map_of d k of None \<Rightarrow> Inl (KeyError k) | Some v \<Rightarrow> Inr v)"

text \<open>\<open>dict(pairs)\<close>: a later pair with the same key replaces the value, the position stays.\<close>

fun dict_set :: "string \<Rightarrow> 'a \<Rightarrow> (string \<times> 'a) list \<Rightarrow> (string \<times> 'a) list" where
  "dict_set k v [] = [(k, v)]"
| "dict_set k v ((k', v') # d) = (if k = k' then (k, v) # d else (k', v') # dict_set k v d)"

definition dict_of :: "(string \<times> 'a) list \<Rightarrow> (string \<times> 'a) list" where
  "dict_of ps = foldl (\<lambda>d p. dict_set (fst p) (snd p) d) [] ps"

definition dict_pop :: "string \<Rightarrow> (string \<times> 'a) list \<Rightarrow> (string \<times> 'a) list" where
  "dict_pop k d = filter (\<lambda>p. fst p \<noteq> k) d"

text \<open>\<open>tuple(sorted(d.items()))\<close> for a dictionary: the keys are distinct, so they decide.\<close>

definition sorted_items :: "(string \<times> 'a) list \<Rightarrow> (string \<times> 'a) list" where
  "sorted_items d = sort_key fst d"

lemma keys_simps [simp]: "keys [] = []" "keys ((k, v) # d) = k # keys d"
  by (simp_all add: keys_def)

lemma keys_append [simp]: "keys (d @ e) = keys d @ keys e"
  by (simp add: keys_def)

lemma keys_single [simp]: "keys [p] = [fst p]"
  by (simp add: keys_def)

lemma set_keys_map_of: "k \<in> set (keys d) \<longleftrightarrow> map_of d k \<noteq> None"
  by (induction d) auto

lemma has_exactly_iff: "has_exactly d ks \<longleftrightarrow> set (keys d) = set ks"
  by (auto simp: has_exactly_def list_all_iff)

lemma has_exactly_same [simp]: "has_exactly d (keys d)"
  by (simp add: has_exactly_iff)

lemma get_item_Inr: "get_item d k = Inr v \<longleftrightarrow> map_of d k = Some v"
  by (simp add: get_item_def split: option.splits)

lemma get_item_Cons [simp]:
  "get_item ((k', v) # d) k = (if k = k' then Inr v else get_item d k)"
  by (simp add: get_item_def)

lemma get_item_no_error: "k \<in> set (keys d) \<Longrightarrow> \<exists>v. get_item d k = Inr v"
  by (auto simp: get_item_def set_keys_map_of split: option.splits)

lemma map_of_dict_set: "map_of (dict_set k v d) = (map_of d)(k \<mapsto> v)"
  by (induction d) auto

lemma keys_dict_set: "set (keys (dict_set k v d)) = insert k (set (keys d))"
  by (induction d) (auto split: if_splits)

lemma wf_dict_set: "wf_dict d \<Longrightarrow> wf_dict (dict_set k v d)"
  by (induction d) (auto simp: wf_dict_def keys_dict_set)

lemma dict_of_append: "dict_of (xs @ [p]) = dict_set (fst p) (snd p) (dict_of xs)"
  by (simp add: dict_of_def)

lemma dict_of_Nil [simp]: "dict_of [] = []"
  by (simp add: dict_of_def)

lemma wf_dict_of [simp]: "wf_dict (dict_of ps)"
  by (induction ps rule: rev_induct) (simp_all add: dict_of_append wf_dict_set wf_dict_def [of "[]"])

lemma map_of_dict_of: "map_of (dict_of ps) = map_of (rev ps)"
  by (induction ps rule: rev_induct) (auto simp: dict_of_append map_of_dict_set)

lemma set_keys_dict_of [simp]: "set (keys (dict_of ps)) = set (keys ps)"
  by (induction ps rule: rev_induct) (simp_all add: dict_of_append keys_dict_set)

lemma dict_set_fresh: "k \<notin> set (keys d) \<Longrightarrow> dict_set k v d = d @ [(k, v)]"
  by (induction d) auto

lemma dict_of_wf [simp]: "wf_dict ps \<Longrightarrow> dict_of ps = ps"
  by (induction ps rule: rev_induct) (auto simp: dict_of_append wf_dict_def dict_set_fresh)

lemma length_dict_of: "length (dict_of ps) = length ps \<longleftrightarrow> wf_dict ps"
proof
  assume "length (dict_of ps) = length ps"
  then have "card (set (keys ps)) = length (keys ps)"
    using wf_dict_of [of ps] distinct_card [of "keys (dict_of ps)"]
    by (simp add: wf_dict_def) (simp add: keys_def)
  then show "wf_dict ps" by (simp add: wf_dict_def card_distinct)
qed simp

lemma wf_dict_sorted_items [simp]: "wf_dict (sorted_items d) = wf_dict d"
  by (simp add: wf_dict_def keys_def sorted_items_def distinct_map)

lemma set_sorted_items [simp]: "set (sorted_items d) = set d"
  by (simp add: sorted_items_def)

lemma length_sorted_items [simp]: "length (sorted_items d) = length d"
  by (simp add: sorted_items_def)

lemma map_of_sorted_items: "wf_dict d \<Longrightarrow> map_of (sorted_items d) = map_of d"
proof (rule ext)
  fix k
  assume wf: "wf_dict d"
  then have "map_of (sorted_items d) k = Some v \<longleftrightarrow> map_of d k = Some v" for v
    using wf_dict_sorted_items [of d] set_sorted_items [of d]
    by (simp add: wf_dict_def keys_def map_of_eq_Some_iff)
  then show "map_of (sorted_items d) k = map_of d k" by (metis not_Some_eq)
qed

subsection \<open>Equality and the canonical form\<close>

text \<open>
  \<open>==\<close> on these values compares dictionaries regardless of the order of their items and a boolean
  with an integer as numbers (\<open>True == 1\<close>); \<open>canon\<close> sorts the items of every dictionary and turns
  booleans into integers. Floats are compared by their text, and a float never equals an integer
  here.
\<close>

primrec canon :: "pyval \<Rightarrow> pyval" where
  "canon PyNone = PyNone"
| "canon (PyBool b) = PyInt (if b then 1 else 0)"
| "canon (PyInt i) = PyInt i"
| "canon (PyFloat t) = PyFloat t"
| "canon (PyStr s) = PyStr s"
| "canon (PyList xs) = PyList (map canon xs)"
| "canon (PyDict d) = PyDict (sorted_items (map (map_prod id canon) d))"

definition py_eq :: "pyval \<Rightarrow> pyval \<Rightarrow> bool" where
  "py_eq v w = (canon v = canon w)"

lemma py_eq_refl [simp]: "py_eq v v"
  by (simp add: py_eq_def)

lemma py_eq_str [simp]: "py_eq v (PyStr s) \<longleftrightarrow> v = PyStr s"
  by (cases v) (simp_all add: py_eq_def)

subsection \<open>json.dumps and the content hash\<close>

definition escape_char :: "char \<Rightarrow> string" where
  "escape_char c =
     (if code c = 34 then [CHR 0x5C, CHR 0x22]
      else if code c = 92 then [CHR 0x5C, CHR 0x5C]
      else if code c = 10 then [CHR 0x5C, CHR ''n'']
      else if code c = 13 then [CHR 0x5C, CHR ''r'']
      else if code c = 9 then [CHR 0x5C, CHR ''t'']
      else if code c = 12 then [CHR 0x5C, CHR ''f'']
      else if code c = 8 then [CHR 0x5C, CHR ''b'']
      else if 32 \<le> code c \<and> code c < 127 then [c]
      else CHR 0x5C # ''u'' @ hex_of_int 4 (int (code c)))"

definition dump_str :: "string \<Rightarrow> string" where
  "dump_str s = [CHR 0x22] @ concat (map escape_char s) @ [CHR 0x22]"

fun decimal_digits :: "nat \<Rightarrow> string" where
  "decimal_digits n =
     (if n < 10 then [char_of (48 + n)] else decimal_digits (n div 10) @ [char_of (48 + n mod 10)])"

definition dump_int :: "int \<Rightarrow> string" where
  "dump_int i = (if i < 0 then ''-'' @ decimal_digits (nat (- i)) else decimal_digits (nat i))"

definition dump_item :: "string \<times> string \<Rightarrow> string" where
  "dump_item p = dump_str (fst p) @ '':'' @ snd p"

primrec dumps :: "pyval \<Rightarrow> string" where
  "dumps PyNone = ''null''"
| "dumps (PyBool b) = (if b then ''true'' else ''false'')"
| "dumps (PyInt i) = dump_int i"
| "dumps (PyFloat t) = t"
| "dumps (PyStr s) = dump_str s"
| "dumps (PyList xs) = ''['' @ join '','' (map dumps xs) @ '']''"
| "dumps (PyDict d) =
     ''{'' @ join '','' (map dump_item (sorted_items (map (map_prod id dumps) d))) @ ''}''"

definition object_sha256 :: "pyval \<Rightarrow> string" where
  "object_sha256 v = sha256_hex (dumps v)"

lemma object_sha256_text [simp]: "is_sha256_text (object_sha256 v)"
  by (simp add: object_sha256_def)

lemma length_object_sha256 [simp]: "length (object_sha256 v) = 64"
  using object_sha256_text [of v] by (simp add: is_sha256_text_def)

lemma is_hex_object_sha256 [simp]: "is_hex (object_sha256 v)"
  using object_sha256_text [of v] by (simp add: is_sha256_text_def)

declare decimal_digits.simps [simp del]

text \<open>The order of the items of a dictionary does not reach the text, hence not the hash.\<close>

lemma sorted_items_perm:
  assumes "wf_dict d" "mset d = mset e"
  shows "sorted_items d = sorted_items e"
proof -
  have inj: "inj_on fst (set d)"
    using assms(1) by (simp add: wf_dict_def keys_def distinct_map)
  show ?thesis
    unfolding sorted_items_def
    by (rule sort_key_inj_key_eq) (use assms inj in simp_all)
qed

subsection \<open>Conversions the decoders use\<close>

text \<open>\<open>tuple(value)\<close>, truth, hashing into a set, and the lookup of a \<open>StrEnum\<close> member by value.\<close>

fun iterate :: "pyval \<Rightarrow> pyval list result" where
  "iterate (PyList xs) = Inr xs"
| "iterate (PyStr s) = Inr (map (\<lambda>c. PyStr [c]) s)"
| "iterate (PyDict d) = Inr (map PyStr (keys d))"
| "iterate _ = Inl (TypeError ''object is not iterable'')"

fun truthy :: "pyval \<Rightarrow> bool" where
  "truthy PyNone = False"
| "truthy (PyBool b) = b"
| "truthy (PyInt i) = (i \<noteq> 0)"
| "truthy (PyFloat t) = (t \<noteq> ''0.0'' \<and> t \<noteq> ''-0.0'')"
| "truthy (PyStr s) = (s \<noteq> [])"
| "truthy (PyList xs) = (xs \<noteq> [])"
| "truthy (PyDict d) = (d \<noteq> [])"

fun hashable :: "pyval \<Rightarrow> bool" where
  "hashable (PyList _) = False"
| "hashable (PyDict _) = False"
| "hashable _ = True"

fun as_str :: "pyval \<Rightarrow> string option" where
  "as_str (PyStr s) = Some s"
| "as_str _ = None"

definition str_list :: "pyval list \<Rightarrow> string list option" where
  "str_list vs = (if list_all (\<lambda>v. as_str v \<noteq> None) vs then Some (map (the \<circ> as_str) vs) else None)"

definition enum_member :: "('a \<Rightarrow> string) \<Rightarrow> 'a list \<Rightarrow> pyval \<Rightarrow> 'a result" where
  "enum_member val members v =
     (case find (\<lambda>x. v = PyStr (val x)) members of
        None \<Rightarrow> Inl (ValueError ''not a valid enumeration value'')
      | Some x \<Rightarrow> Inr x)"

lemma as_str_Some [simp]: "as_str v = Some s \<longleftrightarrow> v = PyStr s"
  by (cases v) auto

lemma str_list_Some: "str_list vs = Some ss \<longleftrightarrow> vs = map PyStr ss"
proof
  assume "str_list vs = Some ss"
  then show "vs = map PyStr ss"
    by (force simp: str_list_def list_all_iff split: if_splits intro!: map_idI [symmetric])
qed (auto simp: str_list_def list_all_iff comp_def)

lemma str_list_map [simp]: "str_list (map PyStr ss) = Some ss"
  by (simp add: str_list_Some)

lemma iterate_strs [simp]: "iterate (strs xs) = Inr (map PyStr xs)"
  by (simp add: strs_def)

lemma find_inj:
  "inj_on val (set members) \<Longrightarrow> x \<in> set members \<Longrightarrow> find (\<lambda>y. val x = val y) members = Some x"
  by (induction members) (auto simp: inj_on_def)

lemma enum_member_value:
  "inj_on val (set members) \<Longrightarrow> x \<in> set members \<Longrightarrow>
   enum_member val members (PyStr (val x)) = Inr x"
  by (simp add: enum_member_def find_inj)

lemma enum_member_Inr: "enum_member val members v = Inr x \<Longrightarrow> v = PyStr (val x)"
  by (auto simp: enum_member_def find_Some_iff split: option.splits)

lemma map_of_append_notin: "k \<notin> set (keys d) \<Longrightarrow> map_of (d @ e) k = map_of e k"
  by (induction d) auto

subsection \<open>Sealed contracts\<close>

text \<open>
  Most contracts are exchanged as a dictionary with one more key that holds the hash of the rest,
  and are read back by a parser that rejects another hash. \<open>sealed_contract\<close> is that interface: a
  content, the key of the seal, a decoder of the fields and the parser. Its laws say what the
  parser accepts and that the decoder inverts the content of a valid object; its lemmas are the
  round trip and the integrity facts, and every contract of the model interprets it.
\<close>

locale sealed_contract =
  fixes content :: "'a \<Rightarrow> pydict"
    and seal_key :: string
    and valid :: "'a \<Rightarrow> bool"
    and decode :: "pydict \<Rightarrow> 'a result"
    and parse :: "pydict \<Rightarrow> 'a result"
  assumes parse_accepts: "parse d = Inr x \<longleftrightarrow>
      has_exactly d (seal_key # keys (content x)) \<and> decode d = Inr x \<and>
      map_of d seal_key = Some (PyStr (object_sha256 (PyDict (content x))))"
    and seal_fresh: "seal_key \<notin> set (keys (content x))"
    and decode_valid: "decode d = Inr x \<Longrightarrow> valid x"
    and decode_content:
      "valid x \<Longrightarrow> decode (content x @ [(seal_key, h)]) = Inr x"
begin

definition sealed :: "'a \<Rightarrow> pydict" where
  "sealed x = content x @ [(seal_key, PyStr (object_sha256 (PyDict (content x))))]"

lemma keys_sealed: "set (keys (sealed x)) = insert seal_key (set (keys (content x)))"
  by (simp add: sealed_def)

lemma sealed_seal: "map_of (sealed x) seal_key = Some (PyStr (object_sha256 (PyDict (content x))))"
  using seal_fresh [of x] by (simp add: sealed_def map_of_append_notin del: map_of_append)

lemma round_trip: "valid x \<Longrightarrow> parse (sealed x) = Inr x"
  using decode_content [of x] keys_sealed [of x] sealed_seal [of x]
  by (simp add: parse_accepts has_exactly_iff sealed_def)

lemma parse_valid: "parse d = Inr x \<Longrightarrow> valid x"
  using decode_valid parse_accepts by blast

lemma parse_seal:
  "parse d = Inr x \<Longrightarrow> map_of d seal_key = Some (PyStr (object_sha256 (PyDict (content x))))"
  by (simp add: parse_accepts)

lemma parse_normalises: "parse d = Inr x \<Longrightarrow> parse (sealed x) = Inr x"
  by (intro round_trip parse_valid)

lemma wrong_seal_rejected:
  assumes "decode d = Inr x"
    and "map_of d seal_key \<noteq> Some (PyStr (object_sha256 (PyDict (content x))))"
  shows "parse d \<noteq> Inr y"
  using assms by (auto simp: parse_accepts)

lemma sealed_inj: "valid x \<Longrightarrow> valid y \<Longrightarrow> sealed x = sealed y \<Longrightarrow> x = y"
  by (metis round_trip sum.inject(2))

end

end
