(* ===== verification/Recommendation.thy ===== *)
theory Recommendation
  imports PyValue
begin

section \<open>packages/recommendation_core/policy.py: evidence fusion\<close>

text \<open>
  The advisory policy that turns six evidence components into SHIP, REVIEW, HOLD or UNKNOWN. The
  records are the frozen dataclasses of the module, each with its \<open>post_init\<close> guards in source
  order; the two readers rebuild them from untyped dictionaries, and \<open>fuse_recommendation\<close> is the
  policy. Fields that the code never checks the type of (the authority flags and the evidence IDs
  of a decision) are untyped here too.

  The lemmas show the precedence of the four outcomes, that fusion is monotone in caution, that
  the LLM suggestion cannot change the outcome, that fusing valid inputs never raises, and the
  round trip and integrity of the sealed decision.
\<close>

subsection \<open>Enumerations\<close>

datatype recommendation = SHIP | REVIEW | HOLD | UNKNOWN

fun recommendation_value :: "recommendation \<Rightarrow> string" where
  "recommendation_value SHIP = ''SHIP''"
| "recommendation_value REVIEW = ''REVIEW''"
| "recommendation_value HOLD = ''HOLD''"
| "recommendation_value UNKNOWN = ''UNKNOWN''"

definition recommendations :: "recommendation list" where
  "recommendations = [SHIP, REVIEW, HOLD, UNKNOWN]"

datatype component_status = AVAILABLE | MISSING | FAILED

fun component_status_value :: "component_status \<Rightarrow> string" where
  "component_status_value AVAILABLE = ''available''"
| "component_status_value MISSING = ''missing''"
| "component_status_value FAILED = ''failed''"

definition component_statuses :: "component_status list" where
  "component_statuses = [AVAILABLE, MISSING, FAILED]"

text \<open>The order of caution: \<open>HOLD > UNKNOWN > REVIEW > SHIP\<close>.\<close>

fun caution :: "recommendation \<Rightarrow> nat" where
  "caution SHIP = 0"
| "caution REVIEW = 1"
| "caution UNKNOWN = 2"
| "caution HOLD = 3"

instantiation recommendation :: linorder
begin

definition less_eq_recommendation :: "recommendation \<Rightarrow> recommendation \<Rightarrow> bool" where
  "less_eq_recommendation a b = (caution a \<le> caution b)"

definition less_recommendation :: "recommendation \<Rightarrow> recommendation \<Rightarrow> bool" where
  "less_recommendation a b = (caution a < caution b)"

instance
proof
  fix a b :: recommendation
  assume "a \<le> b" "b \<le> a"
  then have "caution a = caution b" by (simp add: less_eq_recommendation_def)
  then show "a = b" by (cases a; cases b) simp_all
qed (auto simp: less_eq_recommendation_def less_recommendation_def)

end

subsection \<open>ComponentEvidence\<close>

record component_evidence =
  ce_status :: component_status
  ce_fact :: string
  ce_evidence_ids :: "string list"
  ce_deterministic_hold :: bool

definition component_evidence_post_init :: "component_evidence \<Rightarrow> exn option" where
  "component_evidence_post_init c = first_raise [
     raise_if (\<not> (1 \<le> length (ce_fact c) \<and> length (ce_fact c) \<le> 128))
       (ValueError ''component evidence is invalid''),
     raise_if (length (ce_evidence_ids c) > 32 \<or> \<not> distinct (ce_evidence_ids c) \<or>
         \<not> list_all (\<lambda>i. 1 \<le> length i \<and> length i \<le> 192 \<and> isascii i) (ce_evidence_ids c))
       (ValueError ''component evidence IDs are invalid''),
     raise_if (ce_status c \<noteq> AVAILABLE \<and> ce_deterministic_hold c)
       (ValueError ''unavailable evidence cannot assert a deterministic hold'')]"

definition component_evidence_as_dict :: "component_evidence \<Rightarrow> pydict" where
  "component_evidence_as_dict c = [
     (''deterministic_hold'', PyBool (ce_deterministic_hold c)),
     (''evidence_ids'', strs (ce_evidence_ids c)),
     (''fact'', PyStr (ce_fact c)),
     (''status'', PyStr (component_status_value (ce_status c)))]"

subsection \<open>RecommendationInputsV1\<close>

record recommendation_inputs =
  ri_model_risk :: component_evidence
  ri_retrieval :: component_evidence
  ri_generated_tests :: component_evidence
  ri_execution :: component_evidence
  ri_differential :: component_evidence
  ri_mutation :: component_evidence
  ri_mutation_score_percent :: "int option"
  ri_llm_suggestion :: "recommendation option"

definition mandatory :: "string list" where
  "mandatory = [''model_risk'', ''retrieval'', ''generated_tests'', ''execution'',
     ''differential'', ''mutation'']"

text \<open>\<open>{name: getattr(inputs, name) for name in _MANDATORY}\<close>\<close>

definition input_components :: "recommendation_inputs \<Rightarrow> (string \<times> component_evidence) list" where
  "input_components i = [
     (''model_risk'', ri_model_risk i), (''retrieval'', ri_retrieval i),
     (''generated_tests'', ri_generated_tests i), (''execution'', ri_execution i),
     (''differential'', ri_differential i), (''mutation'', ri_mutation i)]"

definition recommendation_inputs_post_init :: "recommendation_inputs \<Rightarrow> exn option" where
  "recommendation_inputs_post_init i = first_raise [
     raise_if (case ri_mutation_score_percent i of None \<Rightarrow> False
         | Some score \<Rightarrow> \<not> (0 \<le> score \<and> score \<le> 100))
       (ValueError ''mutation score is invalid''),
     raise_if (ce_status (ri_mutation i) = AVAILABLE \<and> ri_mutation_score_percent i = None)
       (ValueError ''available mutation evidence requires a score'')]"

definition recommendation_inputs_as_dict :: "recommendation_inputs \<Rightarrow> pydict" where
  "recommendation_inputs_as_dict i =
     map (\<lambda>(name, c). (name, PyDict (component_evidence_as_dict c))) (input_components i) @
     [(''llm_suggestion'', opt_str (map_option recommendation_value (ri_llm_suggestion i))),
      (''mutation_score_percent'', opt_int (ri_mutation_score_percent i))]"

text \<open>Inputs whose components and own fields passed their constructors.\<close>

definition valid_inputs :: "recommendation_inputs \<Rightarrow> bool" where
  "valid_inputs i =
     (recommendation_inputs_post_init i = None \<and>
      list_all (\<lambda>(name, c). component_evidence_post_init c = None) (input_components i))"

subsection \<open>recommendation_inputs_from_dict\<close>

text \<open>
  Every exception inside the \<open>try\<close> of the reader becomes the same \<open>ValueError\<close>, so the inner
  readers need not tell them apart.
\<close>

definition inputs_error :: exn where
  "inputs_error = ValueError ''recommendation inputs schema is invalid''"

definition component_from_dict :: "pyval \<Rightarrow> component_evidence result" where
  "component_from_dict item = (case item of
     PyDict d \<Rightarrow>
       (if \<not> has_exactly d [''deterministic_hold'', ''evidence_ids'', ''fact'', ''status'']
        then Inl inputs_error
        else and_then (get_item d ''status'') (\<lambda>status.
          and_then (enum_member component_status_value component_statuses status) (\<lambda>st.
          and_then (get_item d ''fact'') (\<lambda>fact.
          and_then (get_item d ''evidence_ids'') (\<lambda>ids.
          and_then (iterate ids) (\<lambda>items.
          and_then (get_item d ''deterministic_hold'') (\<lambda>hold.
            (case (as_str fact, str_list items, hold) of
               (Some f, Some is, PyBool h) \<Rightarrow>
                 construct_with component_evidence_post_init
                   \<lparr>ce_status = st, ce_fact = f, ce_evidence_ids = is, ce_deterministic_hold = h\<rparr>
             | _ \<Rightarrow> Inl inputs_error))))))))
   | _ \<Rightarrow> Inl inputs_error)"

definition score_from :: "pyval \<Rightarrow> int option result" where
  "score_from v = (case v of PyNone \<Rightarrow> Inr None | PyInt i \<Rightarrow> Inr (Some i) | _ \<Rightarrow> Inl inputs_error)"

definition suggestion_from :: "pyval \<Rightarrow> recommendation option result" where
  "suggestion_from v = (case v of PyNone \<Rightarrow> Inr None
     | _ \<Rightarrow> and_then (enum_member recommendation_value recommendations v) (\<lambda>r. Inr (Some r)))"

definition recommendation_inputs_from_dict :: "pyval \<Rightarrow> recommendation_inputs result" where
  "recommendation_inputs_from_dict value = (case value of
     PyDict d \<Rightarrow>
       (if \<not> has_exactly d (mandatory @ [''llm_suggestion'', ''mutation_score_percent''])
        then Inl inputs_error
        else
          (case and_then (get_item d ''llm_suggestion'') suggestion_from of
             Inl _ \<Rightarrow> Inl inputs_error
           | Inr suggestion \<Rightarrow>
               (case map_raise (\<lambda>name. and_then (get_item d name) component_from_dict) mandatory of
                  Inr [c1, c2, c3, c4, c5, c6] \<Rightarrow>
                    (case and_then (get_item d ''mutation_score_percent'') score_from of
                       Inl _ \<Rightarrow> Inl inputs_error
                     | Inr score \<Rightarrow>
                         (case construct_with recommendation_inputs_post_init
                            \<lparr>ri_model_risk = c1, ri_retrieval = c2, ri_generated_tests = c3,
                             ri_execution = c4, ri_differential = c5, ri_mutation = c6,
                             ri_mutation_score_percent = score, ri_llm_suggestion = suggestion\<rparr> of
                            Inl _ \<Rightarrow> Inl inputs_error
                          | Inr i \<Rightarrow> Inr i))
                | _ \<Rightarrow> Inl inputs_error)))
   | _ \<Rightarrow> Inl inputs_error)"

subsection \<open>RecommendationDecisionV1\<close>

definition RECOMMENDATION_POLICY_VERSION :: string where
  "RECOMMENDATION_POLICY_VERSION = ''recommendation-fusion-v1''"

definition MUTATION_REVIEW_THRESHOLD_PERCENT :: int where
  "MUTATION_REVIEW_THRESHOLD_PERCENT = 50"

record recommendation_decision =
  rd_recommendation :: recommendation
  rd_reason_codes :: "string list"
  rd_evidence_ids :: "pyval list"
  rd_inputs_sha256 :: string
  rd_policy_version :: string
  rd_advisory_only :: pyval
  rd_auto_merge :: pyval

definition recommendation_decision_post_init :: "recommendation_decision \<Rightarrow> exn option" where
  "recommendation_decision_post_init d = first_raise [
     raise_if (rd_policy_version d \<noteq> RECOMMENDATION_POLICY_VERSION)
       (ValueError ''recommendation policy version is unsupported''),
     raise_if (\<not> truthy (rd_advisory_only d) \<or> truthy (rd_auto_merge d))
       (ValueError ''recommendation cannot authorize merge or deploy''),
     raise_if (length (rd_inputs_sha256 d) \<noteq> 64 \<or> \<not> is_hex (rd_inputs_sha256 d))
       (ValueError ''recommendation input hash is invalid''),
     raise_if (rd_reason_codes d = [] \<or> length (rd_reason_codes d) > 16 \<or>
         \<not> distinct (rd_reason_codes d) \<or>
         \<not> list_all (\<lambda>r. 1 \<le> length r \<and> length r \<le> 128 \<and> isascii r) (rd_reason_codes d) \<or>
         length (rd_evidence_ids d) > 192)
       (ValueError ''recommendation evidence or reasons are invalid''),
     raise_if (\<not> list_all hashable (rd_evidence_ids d)) (TypeError ''unhashable type''),
     raise_if (\<not> distinct (map canon (rd_evidence_ids d)))
       (ValueError ''recommendation evidence or reasons are invalid'')]"

definition recommendation_decision_content :: "recommendation_decision \<Rightarrow> pydict" where
  "recommendation_decision_content d = [
     (''advisory_only'', rd_advisory_only d),
     (''auto_merge'', rd_auto_merge d),
     (''evidence_ids'', PyList (rd_evidence_ids d)),
     (''inputs_sha256'', PyStr (rd_inputs_sha256 d)),
     (''policy_version'', PyStr (rd_policy_version d)),
     (''reason_codes'', strs (rd_reason_codes d)),
     (''recommendation'', PyStr (recommendation_value (rd_recommendation d)))]"

definition decision_sha256 :: "recommendation_decision \<Rightarrow> string" where
  "decision_sha256 d = object_sha256 (PyDict (recommendation_decision_content d))"

definition recommendation_decision_as_dict :: "recommendation_decision \<Rightarrow> pydict" where
  "recommendation_decision_as_dict d =
     recommendation_decision_content d @ [(''decision_sha256'', PyStr (decision_sha256 d))]"

subsection \<open>recommendation_decision_from_dict\<close>

definition decision_keys :: "string list" where
  "decision_keys = [''advisory_only'', ''auto_merge'', ''decision_sha256'', ''evidence_ids'',
     ''inputs_sha256'', ''policy_version'', ''reason_codes'', ''recommendation'']"

definition decision_error :: exn where
  "decision_error = ValueError ''recommendation decision schema is invalid''"

definition decision_fields :: "pydict \<Rightarrow> recommendation_decision result" where
  "decision_fields d =
     (case and_then (get_item d ''recommendation'') (\<lambda>r.
         and_then (enum_member recommendation_value recommendations r) (\<lambda>rec.
         and_then (get_item d ''reason_codes'') (\<lambda>codes.
         and_then (iterate codes) (\<lambda>reasons.
         and_then (get_item d ''evidence_ids'') (\<lambda>ids.
         and_then (iterate ids) (\<lambda>evidence.
         and_then (get_item d ''inputs_sha256'') (\<lambda>h.
         and_then (get_item d ''policy_version'') (\<lambda>version.
         and_then (get_item d ''advisory_only'') (\<lambda>advisory.
         and_then (get_item d ''auto_merge'') (\<lambda>merge.
           (case (str_list reasons, as_str h, as_str version) of
              (Some rs, Some hash, Some ver) \<Rightarrow>
                construct_with recommendation_decision_post_init
                  \<lparr>rd_recommendation = rec, rd_reason_codes = rs, rd_evidence_ids = evidence,
                   rd_inputs_sha256 = hash, rd_policy_version = ver,
                   rd_advisory_only = advisory, rd_auto_merge = merge\<rparr>
            | _ \<Rightarrow> Inl decision_error))))))))))) of
        Inl _ \<Rightarrow> Inl decision_error
      | Inr x \<Rightarrow> Inr x)"

definition decision_from_items :: "pydict \<Rightarrow> recommendation_decision result" where
  "decision_from_items d =
     (if \<not> has_exactly d decision_keys then Inl decision_error
      else and_then (decision_fields d) (\<lambda>x.
        if map_of d ''decision_sha256'' \<noteq> Some (PyStr (decision_sha256 x))
        then Inl (ValueError ''recommendation decision hash mismatch'') else Inr x))"

definition recommendation_decision_from_dict :: "pyval \<Rightarrow> recommendation_decision result" where
  "recommendation_decision_from_dict value =
     (case value of PyDict d \<Rightarrow> decision_from_items d | _ \<Rightarrow> Inl decision_error)"

subsection \<open>fuse_recommendation\<close>

definition fusion_evidence_ids :: "recommendation_inputs \<Rightarrow> string list" where
  "fusion_evidence_ids i =
     sorted_set (concat (map (\<lambda>(_, c). ce_evidence_ids c) (input_components i)))"

definition hold_reasons :: "recommendation_inputs \<Rightarrow> string list" where
  "hold_reasons i = map (\<lambda>(name, _). name @ ''_deterministic_hold'')
     (filter (\<lambda>(_, c). ce_deterministic_hold c) (input_components i))"

definition unavailable_reasons :: "recommendation_inputs \<Rightarrow> string list" where
  "unavailable_reasons i = map (\<lambda>(name, c). name @ ''_'' @ component_status_value (ce_status c))
     (filter (\<lambda>(_, c). ce_status c \<noteq> AVAILABLE) (input_components i))"

definition low_mutation_score :: "recommendation_inputs \<Rightarrow> bool" where
  "low_mutation_score i = (case ri_mutation_score_percent i of None \<Rightarrow> False
     | Some score \<Rightarrow> score < MUTATION_REVIEW_THRESHOLD_PERCENT)"

definition asks_review :: "component_evidence \<Rightarrow> bool" where
  "asks_review c = (ce_fact c \<in> set [''review'', ''warning'', ''survived''])"

definition fusion_outcome :: "recommendation_inputs \<Rightarrow> recommendation \<times> string list" where
  "fusion_outcome i =
     (let holds = hold_reasons i in
      if holds \<noteq> [] then (HOLD, holds)
      else let unavailable = unavailable_reasons i in
        if unavailable \<noteq> [] then (UNKNOWN, unavailable)
        else if low_mutation_score i then (REVIEW, [''mutation_score_below_review_threshold''])
        else if list_ex (\<lambda>(_, c). asks_review c) (input_components i)
        then (REVIEW, [''available_evidence_requires_human_review''])
        else (SHIP, [''all_mandatory_evidence_clear'']))"

definition fuse_recommendation :: "recommendation_inputs \<Rightarrow> recommendation_decision result" where
  "fuse_recommendation i =
     construct_with recommendation_decision_post_init
       \<lparr>rd_recommendation = fst (fusion_outcome i), rd_reason_codes = snd (fusion_outcome i),
        rd_evidence_ids = map PyStr (fusion_evidence_ids i),
        rd_inputs_sha256 = object_sha256 (PyDict (recommendation_inputs_as_dict i)),
        rd_policy_version = RECOMMENDATION_POLICY_VERSION,
        rd_advisory_only = PyBool True, rd_auto_merge = PyBool False\<rparr>"

subsection \<open>Shape of the components\<close>

lemmas recommendation_post_init_defs =
  component_evidence_post_init_def recommendation_inputs_post_init_def
  recommendation_decision_post_init_def

lemma enum_values_inj:
  "inj_on recommendation_value (set recommendations)"
  "inj_on component_status_value (set component_statuses)"
  by (auto simp: inj_on_def recommendations_def component_statuses_def)

lemma enum_complete [simp]: "r \<in> set recommendations" "st \<in> set component_statuses"
  by (cases r, simp_all add: recommendations_def) (cases st, simp_all add: component_statuses_def)

lemma recommendation_member [simp]:
  "enum_member recommendation_value recommendations (PyStr (recommendation_value r)) = Inr r"
  by (simp add: enum_member_value enum_values_inj)

lemma component_status_member [simp]:
  "enum_member component_status_value component_statuses (PyStr (component_status_value st)) = Inr st"
  by (simp add: enum_member_value enum_values_inj)

lemma valid_inputs_component:
  "valid_inputs i \<Longrightarrow> (name, c) \<in> set (input_components i) \<Longrightarrow> component_evidence_post_init c = None"
  by (auto simp: valid_inputs_def list_all_iff)

lemma distinct_map_filterI: "distinct (map f xs) \<Longrightarrow> distinct (map f (filter P xs))"
  by (rule distinct_map_filter)

definition good_reasons :: "string list \<Rightarrow> bool" where
  "good_reasons rs = (rs \<noteq> [] \<and> length rs \<le> 16 \<and> distinct rs \<and>
     list_all (\<lambda>r. 1 \<le> length r \<and> length r \<le> 128 \<and> isascii r) rs)"

lemma ascii_reason_words:
  "isascii ''_deterministic_hold''" "isascii ''_''" "isascii (component_status_value st)"
  "isascii ''mutation_score_below_review_threshold''"
  "isascii ''available_evidence_requires_human_review''" "isascii ''all_mandatory_evidence_clear''"
  by (cases st; simp add: isascii_def code_def)+

lemma input_names:
  "map fst (input_components i) = mandatory"
  by (simp add: input_components_def mandatory_def)

lemma input_name_ascii:
  "(name, c) \<in> set (input_components i) \<Longrightarrow> isascii name \<and> 1 \<le> length name \<and> length name \<le> 20"
  by (auto simp: input_components_def isascii_def code_def)

lemma hold_reasons_good: "hold_reasons i \<noteq> [] \<Longrightarrow> good_reasons (hold_reasons i)"
proof -
  have "length (hold_reasons i) \<le> length (input_components i)"
    by (simp add: hold_reasons_def)
  then have "length (hold_reasons i) \<le> 16" by (simp add: input_components_def)
  moreover have "distinct (hold_reasons i)"
    unfolding hold_reasons_def by (rule distinct_map_filterI) (simp add: input_components_def)
  ultimately show "hold_reasons i \<noteq> [] \<Longrightarrow> good_reasons (hold_reasons i)"
    using input_name_ascii [of _ _ i] ascii_reason_words
    by (fastforce simp: good_reasons_def hold_reasons_def list_all_iff)
qed

lemma unavailable_reasons_good: "unavailable_reasons i \<noteq> [] \<Longrightarrow> good_reasons (unavailable_reasons i)"
proof -
  have len: "length (component_status_value st) \<le> 9" for st by (cases st) simp_all
  have "length (unavailable_reasons i) \<le> length (input_components i)"
    by (simp add: unavailable_reasons_def)
  then have "length (unavailable_reasons i) \<le> 16" by (simp add: input_components_def)
  moreover have "distinct (unavailable_reasons i)"
    unfolding unavailable_reasons_def
    by (rule distinct_map_filterI) (simp add: input_components_def)
  moreover have "1 \<le> length r \<and> length r \<le> 128 \<and> isascii r"
    if "r \<in> set (unavailable_reasons i)" for r
  proof -
    from that obtain name c where
      "(name, c) \<in> set (input_components i)" "r = name @ ''_'' @ component_status_value (ce_status c)"
      by (auto simp: unavailable_reasons_def)
    then show ?thesis
      using input_name_ascii [of name c i] ascii_reason_words len [of "ce_status c"] by simp
  qed
  ultimately show "unavailable_reasons i \<noteq> [] \<Longrightarrow> good_reasons (unavailable_reasons i)"
    by (simp add: good_reasons_def list_all_iff)
qed

lemma fusion_reasons_good: "good_reasons (snd (fusion_outcome i))"
  using hold_reasons_good [of i] unavailable_reasons_good [of i] ascii_reason_words
  by (auto simp: fusion_outcome_def Let_def) (simp_all add: good_reasons_def)

lemma fusion_evidence_bound:
  assumes "valid_inputs i"
  shows "length (fusion_evidence_ids i) \<le> 192"
proof -
  have "list_all (\<lambda>(_, c). length (ce_evidence_ids c) \<le> 32) (input_components i)"
    using assms by (auto simp: valid_inputs_def list_all_iff component_evidence_post_init_def)
  then have bound: "length (ce_evidence_ids (ri_model_risk i)) \<le> 32"
    "length (ce_evidence_ids (ri_retrieval i)) \<le> 32"
    "length (ce_evidence_ids (ri_generated_tests i)) \<le> 32"
    "length (ce_evidence_ids (ri_execution i)) \<le> 32"
    "length (ce_evidence_ids (ri_differential i)) \<le> 32"
    "length (ce_evidence_ids (ri_mutation i)) \<le> 32"
    by (simp_all add: input_components_def)
  have "length (fusion_evidence_ids i)
      \<le> length (concat (map (\<lambda>(_, c). ce_evidence_ids c) (input_components i)))"
    by (simp add: fusion_evidence_ids_def sorted_set_def)
  also have "\<dots> \<le> 6 * 32"
    using bound by (simp add: input_components_def)
  finally show ?thesis by simp
qed

lemma distinct_canon_strs: "distinct ss \<Longrightarrow> distinct (map canon (map PyStr ss))"
  by (simp add: distinct_map inj_on_def)

lemma fuse_valid:
  assumes "valid_inputs i"
  shows "\<exists>d. fuse_recommendation i = Inr d \<and> rd_recommendation d = fst (fusion_outcome i) \<and>
    rd_reason_codes d = snd (fusion_outcome i) \<and>
    rd_evidence_ids d = map PyStr (fusion_evidence_ids i) \<and>
    rd_advisory_only d = PyBool True \<and> rd_auto_merge d = PyBool False"
  using fusion_reasons_good [of i] fusion_evidence_bound [OF assms]
    distinct_canon_strs [of "fusion_evidence_ids i"]
  by (auto simp: fuse_recommendation_def recommendation_decision_post_init_def good_reasons_def
      list_all_iff fusion_evidence_ids_def)

subsection \<open>Round trips\<close>

lemma score_from_opt_int [simp]: "score_from (opt_int x) = Inr x"
  by (cases x) (simp_all add: score_from_def opt_int_def)

lemma suggestion_from_value [simp]:
  "suggestion_from (opt_str (map_option recommendation_value x)) = Inr x"
  by (cases x) (simp_all add: suggestion_from_def opt_str_def)

lemma component_evidence_eta [simp]:
  "\<lparr>ce_status = ce_status c, ce_fact = ce_fact c, ce_evidence_ids = ce_evidence_ids c,
    ce_deterministic_hold = ce_deterministic_hold c\<rparr> = c"
  by simp

lemma recommendation_decision_eta [simp]:
  "\<lparr>rd_recommendation = rd_recommendation x, rd_reason_codes = rd_reason_codes x,
    rd_evidence_ids = rd_evidence_ids x, rd_inputs_sha256 = rd_inputs_sha256 x,
    rd_policy_version = rd_policy_version x, rd_advisory_only = rd_advisory_only x,
    rd_auto_merge = rd_auto_merge x\<rparr> = x"
  by simp

lemma recommendation_inputs_eta [simp]:
  "\<lparr>ri_model_risk = ri_model_risk i, ri_retrieval = ri_retrieval i,
    ri_generated_tests = ri_generated_tests i, ri_execution = ri_execution i,
    ri_differential = ri_differential i, ri_mutation = ri_mutation i,
    ri_mutation_score_percent = ri_mutation_score_percent i,
    ri_llm_suggestion = ri_llm_suggestion i\<rparr> = i"
  by simp

lemma component_round_trip:
  "component_evidence_post_init c = None \<Longrightarrow>
   component_from_dict (PyDict (component_evidence_as_dict c)) = Inr c"
  by (simp add: component_from_dict_def component_evidence_as_dict_def has_exactly_iff)

interpretation decision_seal: sealed_contract recommendation_decision_content
  "''decision_sha256''" "\<lambda>d. recommendation_decision_post_init d = None"
  decision_fields decision_from_items
proof
  fix d x
  have "set (''decision_sha256'' # keys (recommendation_decision_content x)) = set decision_keys"
    by (auto simp: recommendation_decision_content_def decision_keys_def)
  then show "decision_from_items d = Inr x \<longleftrightarrow>
      has_exactly d (''decision_sha256'' # keys (recommendation_decision_content x)) \<and>
      decision_fields d = Inr x \<and>
      map_of d ''decision_sha256'' =
        Some (PyStr (object_sha256 (PyDict (recommendation_decision_content x))))"
    by (auto simp: decision_from_items_def has_exactly_iff decision_sha256_def and_then_Inr
        split: if_splits)
next
  fix x
  show "''decision_sha256'' \<notin> set (keys (recommendation_decision_content x))"
    by (simp add: recommendation_decision_content_def)
next
  fix d x
  assume "decision_fields d = Inr x"
  then show "recommendation_decision_post_init x = None"
    by (auto simp: decision_fields_def and_then_Inr split: sum.splits option.splits)
next
  fix x h
  assume "recommendation_decision_post_init x = None"
  then show "decision_fields (recommendation_decision_content x @ [(''decision_sha256'', h)]) = Inr x"
    by (simp add: decision_fields_def recommendation_decision_content_def strs_def construct_with_def)
qed

lemma decision_as_dict_sealed: "recommendation_decision_as_dict d = decision_seal.sealed d"
  by (simp add: recommendation_decision_as_dict_def decision_seal.sealed_def decision_sha256_def)

lemma fusion_outcome_cases: "fst (fusion_outcome i) =
    (if \<exists>(n, c) \<in> set (input_components i). ce_deterministic_hold c then HOLD
     else if \<exists>(n, c) \<in> set (input_components i). ce_status c \<noteq> AVAILABLE then UNKNOWN
     else if low_mutation_score i \<or> (\<exists>(n, c) \<in> set (input_components i). asks_review c) then REVIEW
     else SHIP)"
proof -
  have holds: "(\<exists>(n, c) \<in> set (input_components i). ce_deterministic_hold c) \<longleftrightarrow> hold_reasons i \<noteq> []"
    by (auto simp: hold_reasons_def filter_empty_conv)
  have missing: "(\<exists>(n, c) \<in> set (input_components i). ce_status c \<noteq> AVAILABLE) \<longleftrightarrow>
      unavailable_reasons i \<noteq> []"
    by (auto simp: unavailable_reasons_def filter_empty_conv)
  show ?thesis
    unfolding holds missing by (simp add: fusion_outcome_def Let_def list_ex_iff)
qed

text \<open>Evidence that is no better: every reason for caution is still there, or a stronger one is.\<close>

definition no_better :: "component_evidence \<Rightarrow> component_evidence \<Rightarrow> bool" where
  "no_better c' c =
     ((ce_deterministic_hold c \<longrightarrow> ce_deterministic_hold c') \<and>
      (ce_status c \<noteq> AVAILABLE \<longrightarrow> ce_status c' \<noteq> AVAILABLE \<or> ce_deterministic_hold c') \<and>
      (asks_review c \<longrightarrow> asks_review c' \<or> ce_status c' \<noteq> AVAILABLE \<or> ce_deterministic_hold c'))"

definition weaker_evidence :: "recommendation_inputs \<Rightarrow> recommendation_inputs \<Rightarrow> bool" where
  "weaker_evidence i' i =
     (list_all2 (\<lambda>p' p. no_better (snd p') (snd p)) (input_components i') (input_components i) \<and>
      (low_mutation_score i \<longrightarrow> low_mutation_score i'))"

lemma weaker_evidence_matches:
  assumes "weaker_evidence i' i" "(n, c) \<in> set (input_components i)"
  shows "\<exists>n' c'. (n', c') \<in> set (input_components i') \<and> no_better c' c"
  using assms unfolding weaker_evidence_def
  by (metis in_set_conv_nth list_all2_conv_all_nth prod.collapse snd_conv)

lemma graded_mono:
  assumes "h \<longrightarrow> h'" "u \<longrightarrow> u' \<or> h'" "r \<longrightarrow> r' \<or> u' \<or> h'"
  shows "(if h then HOLD else if u then UNKNOWN else if r then REVIEW else SHIP)
    \<le> (if h' then HOLD else if u' then UNKNOWN else if r' then REVIEW else SHIP)"
  using assms by (auto simp: less_eq_recommendation_def)

lemma fusion_outcome_mono:
  assumes "weaker_evidence i' i"
  shows "fst (fusion_outcome i) \<le> fst (fusion_outcome i')"
proof -
  note matched = weaker_evidence_matches [OF assms]
  let ?H = "\<lambda>i. \<exists>(n, c) \<in> set (input_components i). ce_deterministic_hold c"
  let ?U = "\<lambda>i. \<exists>(n, c) \<in> set (input_components i). ce_status c \<noteq> AVAILABLE"
  let ?R = "\<lambda>i. low_mutation_score i \<or> (\<exists>(n, c) \<in> set (input_components i). asks_review c)"
  have h: "?H i \<longrightarrow> ?H i'"
    using matched unfolding no_better_def by blast
  have u: "?U i \<longrightarrow> ?U i' \<or> ?H i'"
    using matched unfolding no_better_def by blast
  have r: "?R i \<longrightarrow> ?R i' \<or> ?U i' \<or> ?H i'"
    using matched assms unfolding no_better_def weaker_evidence_def by blast
  show ?thesis
    unfolding fusion_outcome_cases by (rule graded_mono [OF h u r])
qed

subsection \<open>Properties\<close>

text \<open>
  C1: On every valid input fusion returns a decision: HOLD when a component asserts a
  deterministic hold, otherwise UNKNOWN when one is unavailable, otherwise REVIEW when the mutation
  score is below the threshold or a fact asks for review, and SHIP only when none of these holds.
  The decision is advisory, never authorises a merge, and cites exactly the evidence of the inputs.
\<close>

theorem fuse_precedence:
  assumes "valid_inputs i"
  shows "\<exists>d. fuse_recommendation i = Inr d \<and>
    rd_recommendation d =
      (if \<exists>(n, c) \<in> set (input_components i). ce_deterministic_hold c then HOLD
       else if \<exists>(n, c) \<in> set (input_components i). ce_status c \<noteq> AVAILABLE then UNKNOWN
       else if low_mutation_score i \<or> (\<exists>(n, c) \<in> set (input_components i). asks_review c) then REVIEW
       else SHIP) \<and>
    rd_advisory_only d = PyBool True \<and> rd_auto_merge d = PyBool False \<and>
    set (rd_evidence_ids d) = (\<Union>(n, c) \<in> set (input_components i). PyStr ` set (ce_evidence_ids c))"
proof -
  obtain d where d: "fuse_recommendation i = Inr d" "rd_recommendation d = fst (fusion_outcome i)"
      "rd_evidence_ids d = map PyStr (fusion_evidence_ids i)"
      "rd_advisory_only d = PyBool True" "rd_auto_merge d = PyBool False"
    using fuse_valid [OF assms] by blast
  note outcome = fusion_outcome_cases [of i]
  have ids: "set (map PyStr (fusion_evidence_ids i))
      = (\<Union>(n, c) \<in> set (input_components i). PyStr ` set (ce_evidence_ids c))"
    by (auto simp: fusion_evidence_ids_def)
  show ?thesis
    unfolding ids [symmetric] outcome [symmetric]
    using d by (intro exI [of _ d]) simp
qed

definition clear_component :: component_evidence where
  "clear_component = \<lparr>ce_status = AVAILABLE, ce_fact = ''clear'', ce_evidence_ids = [''e1''],
     ce_deterministic_hold = False\<rparr>"

definition clear_inputs :: recommendation_inputs where
  "clear_inputs = \<lparr>ri_model_risk = clear_component, ri_retrieval = clear_component,
     ri_generated_tests = clear_component, ri_execution = clear_component,
     ri_differential = clear_component, ri_mutation = clear_component,
     ri_mutation_score_percent = Some 80, ri_llm_suggestion = Some HOLD\<rparr>"

lemma clear_inputs_valid [simp]: "valid_inputs clear_inputs"
  by (simp add: valid_inputs_def clear_inputs_def clear_component_def input_components_def
      recommendation_post_init_defs isascii_def code_def)

theorem fuse_precedence_witness:
  "valid_inputs clear_inputs \<and> (\<exists>d. fuse_recommendation clear_inputs = Inr d \<and> rd_recommendation d = SHIP)"
proof -
  have "low_mutation_score clear_inputs = False"
    "\<not> (\<exists>(n, c) \<in> set (input_components clear_inputs). asks_review c)"
    by (simp_all add: low_mutation_score_def clear_inputs_def MUTATION_REVIEW_THRESHOLD_PERCENT_def
        input_components_def asks_review_def clear_component_def)
  moreover have "\<not> (\<exists>(n, c) \<in> set (input_components clear_inputs). ce_deterministic_hold c)"
    "\<not> (\<exists>(n, c) \<in> set (input_components clear_inputs). ce_status c \<noteq> AVAILABLE)"
    by (simp_all add: clear_inputs_def input_components_def clear_component_def)
  ultimately show ?thesis
    using fuse_precedence [OF clear_inputs_valid] by (simp only: clear_inputs_valid) metis
qed

text \<open>
  C2: Fusion is monotone in caution. Making the evidence no better, component by component (adding a
  hold, losing a component, a fact that asks for review, a lower mutation score), never moves the
  recommendation towards SHIP in the order SHIP < REVIEW < UNKNOWN < HOLD.
\<close>

theorem fuse_monotone_caution:
  assumes "valid_inputs i" "valid_inputs i'" "weaker_evidence i' i"
    and "fuse_recommendation i = Inr d" "fuse_recommendation i' = Inr d'"
  shows "rd_recommendation d \<le> rd_recommendation d'"
  using fuse_valid [OF assms(1)] fuse_valid [OF assms(2)] fusion_outcome_mono [OF assms(3)] assms(4,5)
  by auto

definition failed_component :: component_evidence where
  "failed_component = \<lparr>ce_status = FAILED, ce_fact = ''failed'', ce_evidence_ids = [],
     ce_deterministic_hold = False\<rparr>"

definition failed_inputs :: recommendation_inputs where
  "failed_inputs = clear_inputs\<lparr>ri_execution := failed_component\<rparr>"

theorem fuse_monotone_caution_witness:
  "valid_inputs clear_inputs \<and> valid_inputs failed_inputs \<and> weaker_evidence failed_inputs clear_inputs \<and>
   (\<exists>d d'. fuse_recommendation clear_inputs = Inr d \<and> fuse_recommendation failed_inputs = Inr d' \<and>
     rd_recommendation d \<le> rd_recommendation d')"
proof -
  have v: "valid_inputs failed_inputs"
    by (simp add: valid_inputs_def failed_inputs_def failed_component_def clear_inputs_def
        clear_component_def input_components_def recommendation_post_init_defs isascii_def code_def)
  have w: "weaker_evidence failed_inputs clear_inputs"
    by (simp add: weaker_evidence_def failed_inputs_def failed_component_def clear_inputs_def
        clear_component_def input_components_def no_better_def asks_review_def low_mutation_score_def)
  obtain d d' where "fuse_recommendation clear_inputs = Inr d" "fuse_recommendation failed_inputs = Inr d'"
    using fuse_valid [OF clear_inputs_valid] fuse_valid [OF v] by blast
  then show ?thesis
    using fuse_monotone_caution [OF clear_inputs_valid v w] v w by auto
qed

text \<open>
  The LLM suggestion is never decisive. Changing it, whatever the inputs, changes neither
  whether fusion succeeds nor the recommendation, its reasons, its citations or its authority flags;
  only the hash of the inputs may differ.
\<close>

theorem llm_suggestion_not_decisive:
  "(case fuse_recommendation (i\<lparr>ri_llm_suggestion := s\<rparr>) of
      Inl e \<Rightarrow> fuse_recommendation i = Inl e
    | Inr d \<Rightarrow> (\<exists>h. fuse_recommendation i = Inr (d\<lparr>rd_inputs_sha256 := h\<rparr>)))"
proof -
  have same: "input_components (i\<lparr>ri_llm_suggestion := s\<rparr>) = input_components i"
    "low_mutation_score (i\<lparr>ri_llm_suggestion := s\<rparr>) = low_mutation_score i"
    by (simp_all add: input_components_def low_mutation_score_def)
  then have "fusion_outcome (i\<lparr>ri_llm_suggestion := s\<rparr>) = fusion_outcome i"
    "fusion_evidence_ids (i\<lparr>ri_llm_suggestion := s\<rparr>) = fusion_evidence_ids i"
    by (simp_all add: fusion_outcome_def hold_reasons_def unavailable_reasons_def fusion_evidence_ids_def)
  then show ?thesis
    by (simp add: fuse_recommendation_def construct_with_def recommendation_decision_post_init_def
        split: option.splits)
qed

text \<open>
  Decisions survive serialisation, and reading one back is an integrity check: the dictionary
  of a valid decision is read back as that decision, while any dictionary the reader accepts is
  advisory, claims no merge authority and carries the hash of its own content.
\<close>

theorem decision_round_trip_and_integrity:
  "(recommendation_decision_post_init d = None \<longrightarrow>
      recommendation_decision_from_dict (PyDict (recommendation_decision_as_dict d)) = Inr d) \<and>
   (recommendation_decision_from_dict (PyDict v) = Inr d \<longrightarrow>
      truthy (rd_advisory_only d) \<and> \<not> truthy (rd_auto_merge d) \<and>
      map_of v ''decision_sha256'' = Some (PyStr (decision_sha256 d)))"
  using decision_seal.round_trip [of d] decision_seal.parse_valid [of v d] decision_seal.parse_seal [of v d]
  by (simp add: recommendation_decision_from_dict_def decision_as_dict_sealed decision_sha256_def
      recommendation_decision_post_init_def)

text \<open>
  The inputs of a decision survive serialisation: the dictionary of valid inputs is read back as
  the same inputs, so the stored hash of the inputs can be recomputed from their record.
\<close>

theorem inputs_round_trip:
  assumes "valid_inputs i"
  shows "recommendation_inputs_from_dict (PyDict (recommendation_inputs_as_dict i)) = Inr i"
proof -
  have cs: "component_evidence_post_init (ri_model_risk i) = None"
    "component_evidence_post_init (ri_retrieval i) = None"
    "component_evidence_post_init (ri_generated_tests i) = None"
    "component_evidence_post_init (ri_execution i) = None"
    "component_evidence_post_init (ri_differential i) = None"
    "component_evidence_post_init (ri_mutation i) = None"
    using assms by (simp_all add: valid_inputs_def input_components_def)
  define D where "D = recommendation_inputs_as_dict i"
  have items: "get_item D ''model_risk'' = Inr (PyDict (component_evidence_as_dict (ri_model_risk i)))"
    "get_item D ''retrieval'' = Inr (PyDict (component_evidence_as_dict (ri_retrieval i)))"
    "get_item D ''generated_tests'' = Inr (PyDict (component_evidence_as_dict (ri_generated_tests i)))"
    "get_item D ''execution'' = Inr (PyDict (component_evidence_as_dict (ri_execution i)))"
    "get_item D ''differential'' = Inr (PyDict (component_evidence_as_dict (ri_differential i)))"
    "get_item D ''mutation'' = Inr (PyDict (component_evidence_as_dict (ri_mutation i)))"
    "get_item D ''llm_suggestion'' = Inr (opt_str (map_option recommendation_value (ri_llm_suggestion i)))"
    "get_item D ''mutation_score_percent'' = Inr (opt_int (ri_mutation_score_percent i))"
    by (simp_all add: D_def recommendation_inputs_as_dict_def input_components_def)
  have exact: "has_exactly D (mandatory @ [''llm_suggestion'', ''mutation_score_percent''])"
    by (simp add: D_def recommendation_inputs_as_dict_def input_components_def mandatory_def
        has_exactly_iff)
  have comps: "map_raise (\<lambda>name. and_then (get_item D name) component_from_dict) mandatory =
      Inr [ri_model_risk i, ri_retrieval i, ri_generated_tests i, ri_execution i,
        ri_differential i, ri_mutation i]"
    by (simp add: mandatory_def items component_round_trip cs)
  have "recommendation_inputs_post_init i = None"
    using assms by (simp add: valid_inputs_def)
  then show ?thesis
    unfolding D_def [symmetric]
    by (simp add: recommendation_inputs_from_dict_def exact comps items construct_with_def)
qed

theorem inputs_round_trip_witness:
  "valid_inputs clear_inputs \<and>
   recommendation_inputs_from_dict (PyDict (recommendation_inputs_as_dict clear_inputs)) = Inr clear_inputs"
  using inputs_round_trip [OF clear_inputs_valid] by simp

definition clear_decision :: recommendation_decision where
  "clear_decision = \<lparr>rd_recommendation = SHIP, rd_reason_codes = [''all_mandatory_evidence_clear''],
     rd_evidence_ids = [], rd_inputs_sha256 = replicate 64 CHR ''0'',
     rd_policy_version = RECOMMENDATION_POLICY_VERSION, rd_advisory_only = PyBool True,
     rd_auto_merge = PyBool False\<rparr>"

lemma clear_decision_ok: "recommendation_decision_post_init clear_decision = None"
  by (simp add: recommendation_decision_post_init_def clear_decision_def is_hex_def hex_digits_def
      list_all_iff isascii_def code_def)

theorem decision_round_trip_and_integrity_witness:
  "recommendation_decision_from_dict (PyDict (recommendation_decision_as_dict clear_decision)) = Inr clear_decision \<and>
   map_of (recommendation_decision_as_dict clear_decision) ''decision_sha256'' =
     Some (PyStr (decision_sha256 clear_decision))"
  using decision_round_trip_and_integrity [of clear_decision "recommendation_decision_as_dict clear_decision"]
    clear_decision_ok by blast

end
