(* ===== verification/AgentContracts.thy ===== *)
theory AgentContracts
  imports Recommendation
begin

section \<open>packages/agent_core/contracts.py: contracts of an advisory investigation\<close>

text \<open>
  The frozen dataclasses that the investigation graph exchanges, each with its \<open>__post_init__\<close>
  guards in source order and its dictionary. Fields have their annotated types, so the guards that
  only test a type are vacuous. Times are rational numbers; where a dictionary holds a float, the
  text that Python prints for it (after rounding to the given number of digits) is the parameter
  \<open>float_text\<close>, since CPython's float printing is not code of the repository.
\<close>

type_synonym float_text = "nat option \<Rightarrow> rat \<Rightarrow> string"

subsection \<open>Shared guards\<close>

definition identifier_guard :: "string \<Rightarrow> nat \<Rightarrow> string \<Rightarrow> exn option" where
  "identifier_guard field maximum value = raise_if
     (\<not> (1 \<le> length value \<and> length value \<le> maximum) \<or> \<not> isascii value \<or> has_control value)
     (ValueError (field @ '' must be bounded printable ASCII''))"

definition text_guard :: "string \<Rightarrow> nat \<Rightarrow> string \<Rightarrow> exn option" where
  "text_guard field maximum value = raise_if
     (\<not> (1 \<le> length value \<and> length value \<le> maximum) \<or> has_nul value)
     (ValueError (field @ '' must contain 1..'' @ decimal_digits maximum @ '' safe characters''))"

definition identifiers_guard :: "string \<Rightarrow> nat \<Rightarrow> string list \<Rightarrow> exn option" where
  "identifiers_guard field maximum values = first_raise
     (raise_if (length values > maximum \<or> \<not> distinct values)
        (ValueError (field @ '' must be a bounded unique tuple'')) #
      map (identifier_guard field 192) values)"

definition is_identifier :: "nat \<Rightarrow> string \<Rightarrow> bool" where
  "is_identifier maximum value =
     (1 \<le> length value \<and> length value \<le> maximum \<and> isascii value \<and> \<not> has_control value)"

definition is_text :: "nat \<Rightarrow> string \<Rightarrow> bool" where
  "is_text maximum value = (1 \<le> length value \<and> length value \<le> maximum \<and> \<not> has_nul value)"

definition are_identifiers :: "nat \<Rightarrow> string list \<Rightarrow> bool" where
  "are_identifiers maximum values =
     (length values \<le> maximum \<and> distinct values \<and> list_all (is_identifier 192) values)"

lemma identifier_guard_None [simp, check_simps]:
  "identifier_guard field maximum value = None \<longleftrightarrow> is_identifier maximum value"
  by (auto simp: identifier_guard_def is_identifier_def)

lemma text_guard_None [simp, check_simps]:
  "text_guard field maximum value = None \<longleftrightarrow> is_text maximum value"
  by (auto simp: text_guard_def is_text_def)

lemma identifiers_guard_None [simp, check_simps]:
  "identifiers_guard field maximum values = None \<longleftrightarrow> are_identifiers maximum values"
  by (auto simp: identifiers_guard_def are_identifiers_def first_raise_None_iff list_all_iff)

subsection \<open>Enumerations\<close>

datatype evidence_category =
  CAT_FEATURE | CAT_GRAPH | CAT_RETRIEVAL | CAT_RISK | CAT_TEST_RESULT | CAT_EXECUTION

fun category_value :: "evidence_category \<Rightarrow> string" where
  "category_value CAT_FEATURE = ''feature''"
| "category_value CAT_GRAPH = ''graph''"
| "category_value CAT_RETRIEVAL = ''retrieval''"
| "category_value CAT_RISK = ''risk''"
| "category_value CAT_TEST_RESULT = ''test_result''"
| "category_value CAT_EXECUTION = ''execution''"

datatype tool_name =
  GET_FEATURES | GET_GRAPH | SEARCH_HISTORY | GET_RISK | GET_TEST_RESULTS | GET_EXECUTION_EVIDENCE

fun tool_value :: "tool_name \<Rightarrow> string" where
  "tool_value GET_FEATURES = ''get_features''"
| "tool_value GET_GRAPH = ''get_graph''"
| "tool_value SEARCH_HISTORY = ''search_history''"
| "tool_value GET_RISK = ''get_risk''"
| "tool_value GET_TEST_RESULTS = ''get_test_results''"
| "tool_value GET_EXECUTION_EVIDENCE = ''get_execution_evidence''"

datatype tool_status = TOOL_COMPLETED | TOOL_MISSING | TOOL_FAILED

fun tool_status_value :: "tool_status \<Rightarrow> string" where
  "tool_status_value TOOL_COMPLETED = ''completed''"
| "tool_status_value TOOL_MISSING = ''missing''"
| "tool_status_value TOOL_FAILED = ''failed''"

datatype agent_node =
  CHANGE_ANALYST | HISTORICAL_INVESTIGATOR | RISK_SYNTHESIZER | TEST_PLANNER | EXECUTION_READER
| EVIDENCE_CRITIC | RECOMMENDATION_COMPOSER

fun node_value :: "agent_node \<Rightarrow> string" where
  "node_value CHANGE_ANALYST = ''change_analyst''"
| "node_value HISTORICAL_INVESTIGATOR = ''historical_investigator''"
| "node_value RISK_SYNTHESIZER = ''risk_synthesizer''"
| "node_value TEST_PLANNER = ''test_planner''"
| "node_value EXECUTION_READER = ''execution_reader''"
| "node_value EVIDENCE_CRITIC = ''evidence_critic''"
| "node_value RECOMMENDATION_COMPOSER = ''recommendation_composer''"

datatype termination_reason =
  Completed | Cancelled | StepBudgetExceeded | ToolBudgetExceeded | LlmBudgetExceeded
| WallTimeExceeded | NodeTimeout | LoopDetected | ToolFailure | ProviderFailure | CriticRejected

fun termination_value :: "termination_reason \<Rightarrow> string" where
  "termination_value Completed = ''completed''"
| "termination_value Cancelled = ''cancelled''"
| "termination_value StepBudgetExceeded = ''step_budget_exceeded''"
| "termination_value ToolBudgetExceeded = ''tool_budget_exceeded''"
| "termination_value LlmBudgetExceeded = ''llm_budget_exceeded''"
| "termination_value WallTimeExceeded = ''wall_time_exceeded''"
| "termination_value NodeTimeout = ''node_timeout''"
| "termination_value LoopDetected = ''loop_detected''"
| "termination_value ToolFailure = ''tool_failure''"
| "termination_value ProviderFailure = ''provider_failure''"
| "termination_value CriticRejected = ''critic_rejected''"

datatype critic_verdict = ACCEPT | REJECT

fun verdict_value :: "critic_verdict \<Rightarrow> string" where
  "verdict_value ACCEPT = ''pass''"
| "verdict_value REJECT = ''reject''"

subsection \<open>EvidenceReference\<close>

record evidence_reference =
  er_evidence_id :: string
  er_category :: evidence_category
  er_summary :: string
  er_source_reference :: string
  er_fact_codes :: "string list"

definition evidence_reference_post_init :: "evidence_reference \<Rightarrow> exn option" where
  "evidence_reference_post_init e = first_raise [
     identifier_guard ''evidence_id'' 192 (er_evidence_id e),
     text_guard ''evidence summary'' 500 (er_summary e),
     text_guard ''source reference'' 1200 (er_source_reference e),
     identifiers_guard ''fact codes'' 32 (er_fact_codes e),
     raise_if (er_fact_codes e = []) (ValueError ''evidence must name at least one structured fact'')]"

definition evidence_reference_safe_dict :: "evidence_reference \<Rightarrow> pydict" where
  "evidence_reference_safe_dict e = [
     (''category'', PyStr (category_value (er_category e))),
     (''evidence_id'', PyStr (er_evidence_id e)),
     (''fact_codes'', strs (er_fact_codes e)),
     (''source_reference'', PyStr (er_source_reference e)),
     (''summary'', PyStr (er_summary e))]"

subsection \<open>AgentLimits\<close>

record agent_limits =
  max_steps :: int
  max_tool_calls :: int
  max_llm_calls :: int
  max_input_tokens :: int
  max_output_tokens :: int
  max_cost_microusd :: int
  max_wall_time_seconds :: rat
  per_node_timeout_seconds :: rat
  max_evidence_per_tool :: int

definition default_limits :: agent_limits where
  "default_limits = \<lparr>max_steps = 8, max_tool_calls = 8, max_llm_calls = 5,
     max_input_tokens = 16384, max_output_tokens = 4096, max_cost_microusd = 100000,
     max_wall_time_seconds = 30, per_node_timeout_seconds = 10, max_evidence_per_tool = 10\<rparr>"

definition bounds_guard :: "string \<Rightarrow> int \<Rightarrow> int \<Rightarrow> int \<Rightarrow> exn option" where
  "bounds_guard field value minimum maximum = raise_if (\<not> (minimum \<le> value \<and> value \<le> maximum))
     (ValueError (field @ '' must be between '' @ dump_int minimum @ '' and '' @ dump_int maximum))"

definition agent_limits_post_init :: "agent_limits \<Rightarrow> exn option" where
  "agent_limits_post_init l = first_raise [
     bounds_guard ''max_steps'' (max_steps l) 1 32,
     bounds_guard ''max_tool_calls'' (max_tool_calls l) 1 32,
     bounds_guard ''max_llm_calls'' (max_llm_calls l) 1 16,
     bounds_guard ''max_input_tokens'' (max_input_tokens l) 256 262144,
     bounds_guard ''max_output_tokens'' (max_output_tokens l) 64 32768,
     bounds_guard ''max_cost_microusd'' (max_cost_microusd l) 1 100000000,
     bounds_guard ''max_evidence_per_tool'' (max_evidence_per_tool l) 1 50,
     raise_if (\<not> (1 / 10 \<le> max_wall_time_seconds l \<and> max_wall_time_seconds l \<le> 600))
       (ValueError ''max_wall_time_seconds must be between 0.1 and 600.0''),
     raise_if (\<not> (1 / 10 \<le> per_node_timeout_seconds l \<and> per_node_timeout_seconds l \<le> 300))
       (ValueError ''per_node_timeout_seconds must be between 0.1 and 300.0''),
     raise_if (per_node_timeout_seconds l > max_wall_time_seconds l)
       (ValueError ''per-node timeout cannot exceed the graph wall-time budget'')]"

definition agent_limits_as_dict :: "float_text \<Rightarrow> agent_limits \<Rightarrow> pydict" where
  "agent_limits_as_dict float_text l = [
     (''max_cost_microusd'', PyInt (max_cost_microusd l)),
     (''max_evidence_per_tool'', PyInt (max_evidence_per_tool l)),
     (''max_input_tokens'', PyInt (max_input_tokens l)),
     (''max_llm_calls'', PyInt (max_llm_calls l)),
     (''max_output_tokens'', PyInt (max_output_tokens l)),
     (''max_steps'', PyInt (max_steps l)),
     (''max_tool_calls'', PyInt (max_tool_calls l)),
     (''max_wall_time_seconds'', PyFloat (float_text None (max_wall_time_seconds l))),
     (''per_node_timeout_seconds'', PyFloat (float_text None (per_node_timeout_seconds l)))]"

lemma bounds_guard_None [simp, check_simps]:
  "bounds_guard field value minimum maximum = None \<longleftrightarrow> minimum \<le> value \<and> value \<le> maximum"
  by (auto simp: bounds_guard_def)

subsection \<open>AgentUsage and NodeProviderUsage\<close>

record agent_usage =
  u_steps :: int
  u_tool_calls :: int
  u_tool_errors :: int
  u_llm_calls :: int
  u_input_tokens :: int
  u_output_tokens :: int
  u_cost_microusd :: int

definition zero_usage :: agent_usage where
  "zero_usage = \<lparr>u_steps = 0, u_tool_calls = 0, u_tool_errors = 0, u_llm_calls = 0,
     u_input_tokens = 0, u_output_tokens = 0, u_cost_microusd = 0\<rparr>"

definition agent_usage_post_init :: "agent_usage \<Rightarrow> exn option" where
  "agent_usage_post_init u = first_raise [
     raise_if (list_ex (\<lambda>v. v < 0) [u_steps u, u_tool_calls u, u_tool_errors u, u_llm_calls u,
         u_input_tokens u, u_output_tokens u, u_cost_microusd u])
       (ValueError ''agent usage counters must be non-negative integers''),
     raise_if (u_tool_errors u > u_tool_calls u)
       (ValueError ''tool errors cannot exceed tool calls'')]"

definition agent_usage_as_dict :: "agent_usage \<Rightarrow> pydict" where
  "agent_usage_as_dict u = [
     (''cost_microusd'', PyInt (u_cost_microusd u)),
     (''input_tokens'', PyInt (u_input_tokens u)),
     (''llm_calls'', PyInt (u_llm_calls u)),
     (''output_tokens'', PyInt (u_output_tokens u)),
     (''steps'', PyInt (u_steps u)),
     (''tool_calls'', PyInt (u_tool_calls u)),
     (''tool_errors'', PyInt (u_tool_errors u))]"

record node_provider_usage =
  pu_input_tokens :: int
  pu_output_tokens :: int
  pu_cost_microusd :: int
  pu_elapsed_ms :: rat

definition node_provider_usage_post_init :: "node_provider_usage \<Rightarrow> exn option" where
  "node_provider_usage_post_init u = raise_if
     (list_ex (\<lambda>v. v < 0) [pu_input_tokens u, pu_output_tokens u, pu_cost_microusd u] \<or>
      pu_elapsed_ms u < 0)
     (ValueError ''node provider usage is invalid'')"

subsection \<open>AgentClaim, NodeInput and NodeOutput\<close>

record agent_claim =
  ac_statement :: string
  ac_evidence_ids :: "string list"
  ac_fact_codes :: "string list"
  ac_hypothesis :: bool

definition agent_claim_post_init :: "agent_claim \<Rightarrow> exn option" where
  "agent_claim_post_init c = first_raise [
     text_guard ''claim statement'' 800 (ac_statement c),
     identifiers_guard ''claim evidence IDs'' 16 (ac_evidence_ids c),
     identifiers_guard ''claim fact codes'' 16 (ac_fact_codes c),
     raise_if (\<not> ac_hypothesis c \<and> (ac_evidence_ids c = [] \<or> ac_fact_codes c = []))
       (ValueError ''factual claims require citations and structured facts'')]"

definition agent_claim_as_dict :: "agent_claim \<Rightarrow> pydict" where
  "agent_claim_as_dict c = [
     (''evidence_ids'', strs (ac_evidence_ids c)),
     (''fact_codes'', strs (ac_fact_codes c)),
     (''hypothesis'', PyBool (ac_hypothesis c)),
     (''statement'', PyStr (ac_statement c))]"

record node_input =
  ni_node :: agent_node
  ni_snapshot_id :: string
  ni_evidence :: "evidence_reference list"
  ni_missing_categories :: "evidence_category list"
  ni_policy_recommendation :: recommendation
  ni_max_input_tokens :: int
  ni_max_output_tokens :: int
  ni_max_cost_microusd :: int
  ni_timeout_seconds :: rat
  ni_cancelled :: bool

definition node_input_post_init :: "node_input \<Rightarrow> exn option" where
  "node_input_post_init n = first_raise [
     identifier_guard ''node snapshot_id'' 192 (ni_snapshot_id n),
     raise_if (length (ni_evidence n) > 100 \<or> \<not> distinct (map er_evidence_id (ni_evidence n)))
       (ValueError ''node evidence is invalid''),
     raise_if (length (ni_missing_categories n) > 6 \<or> \<not> distinct (ni_missing_categories n))
       (ValueError ''node missing categories are invalid''),
     raise_if (\<not> (1 \<le> ni_max_input_tokens n \<and> ni_max_input_tokens n \<le> 262144))
       (ValueError ''node input-token limit is invalid''),
     raise_if (\<not> (1 \<le> ni_max_output_tokens n \<and> ni_max_output_tokens n \<le> 32768))
       (ValueError ''node output-token limit is invalid''),
     raise_if (\<not> (1 \<le> ni_max_cost_microusd n \<and> ni_max_cost_microusd n \<le> 100000000))
       (ValueError ''node cost limit is invalid''),
     raise_if (\<not> (1 / 10 \<le> ni_timeout_seconds n \<and> ni_timeout_seconds n \<le> 300))
       (ValueError ''node timeout is invalid'')]"

record node_output =
  no_node :: agent_node
  no_safe_summary :: string
  no_claims :: "agent_claim list"
  no_usage :: node_provider_usage
  no_proposed_recommendation :: "recommendation option"

definition node_output_post_init :: "node_output \<Rightarrow> exn option" where
  "node_output_post_init out = first_raise [
     text_guard ''node summary'' 1000 (no_safe_summary out),
     raise_if (length (no_claims out) > 20) (ValueError ''node output exceeds the claim limit'')]"

text \<open>What a provider can return: an output whose parts passed their own constructors.\<close>

definition constructed_output :: "node_output \<Rightarrow> bool" where
  "constructed_output out =
     (node_output_post_init out = None \<and> node_provider_usage_post_init (no_usage out) = None \<and>
      list_all (\<lambda>c. agent_claim_post_init c = None) (no_claims out))"

subsection \<open>AgentDraft and CriticResult\<close>

record agent_draft =
  ad_proposed_recommendation :: recommendation
  ad_claims :: "agent_claim list"
  ad_missing_categories :: "evidence_category list"
  ad_confidence :: string
  ad_advisory_only :: bool
  ad_auto_merge :: bool

definition agent_draft_post_init :: "agent_draft \<Rightarrow> exn option" where
  "agent_draft_post_init d = first_raise [
     raise_if (length (ad_claims d) > 80 \<or> \<not> distinct (ad_missing_categories d))
       (ValueError ''draft collections are invalid''),
     raise_if (ad_confidence d \<notin> set [''low'', ''medium'', ''high''])
       (ValueError ''draft confidence is invalid''),
     raise_if (\<not> ad_advisory_only d \<or> ad_auto_merge d)
       (ValueError ''agent drafts cannot authorize merge or deploy'')]"

definition agent_draft_as_dict :: "agent_draft \<Rightarrow> pydict" where
  "agent_draft_as_dict d = [
     (''advisory_only'', PyBool (ad_advisory_only d)),
     (''auto_merge'', PyBool (ad_auto_merge d)),
     (''claims'', PyList (map (\<lambda>c. PyDict (agent_claim_as_dict c)) (ad_claims d))),
     (''confidence'', PyStr (ad_confidence d)),
     (''missing_categories'', strs (map category_value (ad_missing_categories d))),
     (''proposed_recommendation'', PyStr (recommendation_value (ad_proposed_recommendation d)))]"

record critic_result =
  cr_verdict :: critic_verdict
  cr_reason_codes :: "string list"
  cr_claim_count :: int
  cr_supported_claim_count :: int

definition critic_result_post_init :: "critic_result \<Rightarrow> exn option" where
  "critic_result_post_init c = first_raise [
     identifiers_guard ''critic reason codes'' 32 (cr_reason_codes c),
     raise_if (\<not> (0 \<le> cr_supported_claim_count c \<and> cr_supported_claim_count c \<le> cr_claim_count c))
       (ValueError ''critic claim counts are invalid''),
     raise_if (cr_verdict c = REJECT \<and> cr_reason_codes c = [])
       (ValueError ''a rejecting critic must give reason codes'')]"

definition groundedness_rate :: "critic_result \<Rightarrow> rat" where
  "groundedness_rate c = (if cr_claim_count c = 0 then 1
     else of_int (cr_supported_claim_count c) / of_int (cr_claim_count c))"

definition critic_result_as_dict :: "float_text \<Rightarrow> critic_result \<Rightarrow> pydict" where
  "critic_result_as_dict float_text c = [
     (''claim_count'', PyInt (cr_claim_count c)),
     (''groundedness_rate'', PyFloat (float_text (Some 12) (groundedness_rate c))),
     (''reason_codes'', strs (cr_reason_codes c)),
     (''supported_claim_count'', PyInt (cr_supported_claim_count c)),
     (''verdict'', PyStr (verdict_value (cr_verdict c)))]"

subsection \<open>AgentTraceEvent\<close>

record agent_trace_event =
  te_sequence :: int
  te_event_type :: string
  te_node :: agent_node
  te_status :: string
  te_summary :: string
  te_evidence_ids :: "string list"
  te_elapsed_ms :: rat

definition agent_trace_event_post_init :: "agent_trace_event \<Rightarrow> exn option" where
  "agent_trace_event_post_init t = first_raise [
     raise_if (te_sequence t < 0) (ValueError ''trace sequence is invalid''),
     identifier_guard ''trace event type'' 32 (te_event_type t),
     identifier_guard ''trace status'' 64 (te_status t),
     text_guard ''trace summary'' 1000 (te_summary t),
     identifiers_guard ''trace evidence IDs'' 64 (te_evidence_ids t),
     raise_if (te_elapsed_ms t < 0) (ValueError ''trace elapsed time is invalid'')]"

definition agent_trace_event_as_dict :: "float_text \<Rightarrow> agent_trace_event \<Rightarrow> pydict" where
  "agent_trace_event_as_dict float_text t = [
     (''elapsed_ms'', PyFloat (float_text (Some 6) (te_elapsed_ms t))),
     (''event_type'', PyStr (te_event_type t)),
     (''evidence_ids'', strs (te_evidence_ids t)),
     (''node'', PyStr (node_value (te_node t))),
     (''sequence'', PyInt (te_sequence t)),
     (''status'', PyStr (te_status t)),
     (''summary'', PyStr (te_summary t))]"

subsection \<open>InvestigationRequest and InvestigationResult\<close>

definition AGENT_GRAPH_VERSION :: string where
  "AGENT_GRAPH_VERSION = ''bounded-investigation-graph-v1''"

definition AGENT_STATE_SCHEMA_VERSION :: string where
  "AGENT_STATE_SCHEMA_VERSION = ''agent-state-v1''"

record investigation_request =
  rq_run_id :: string
  rq_snapshot_id :: string
  rq_evidence :: "evidence_reference list"
  rq_policy_decision :: recommendation_decision
  rq_limits :: agent_limits
  rq_cancelled :: bool
  rq_graph_version :: string
  rq_state_schema_version :: string

definition investigation_request_post_init :: "investigation_request \<Rightarrow> exn option" where
  "investigation_request_post_init r = first_raise [
     identifier_guard ''run_id'' 192 (rq_run_id r),
     identifier_guard ''snapshot_id'' 192 (rq_snapshot_id r),
     raise_if (length (rq_evidence r) > 100) (ValueError ''investigation evidence exceeds 100 references''),
     identifiers_guard ''investigation evidence IDs'' 100 (map er_evidence_id (rq_evidence r)),
     raise_if (rq_graph_version r \<noteq> AGENT_GRAPH_VERSION)
       (ValueError ''agent graph version is unsupported''),
     raise_if (rq_state_schema_version r \<noteq> AGENT_STATE_SCHEMA_VERSION)
       (ValueError ''agent state schema version is unsupported'')]"

definition request_sha256 :: "float_text \<Rightarrow> investigation_request \<Rightarrow> string" where
  "request_sha256 float_text r = object_sha256 (PyDict [
     (''evidence'', PyList (map (\<lambda>e. PyDict (evidence_reference_safe_dict e)) (rq_evidence r))),
     (''graph_version'', PyStr (rq_graph_version r)),
     (''limits'', PyDict (agent_limits_as_dict float_text (rq_limits r))),
     (''policy_decision_sha256'', PyStr (decision_sha256 (rq_policy_decision r))),
     (''run_id'', PyStr (rq_run_id r)),
     (''snapshot_id'', PyStr (rq_snapshot_id r)),
     (''state_schema_version'', PyStr (rq_state_schema_version r))])"

text \<open>A request whose parts passed their own constructors.\<close>

definition constructed_request :: "investigation_request \<Rightarrow> bool" where
  "constructed_request r =
     (investigation_request_post_init r = None \<and> agent_limits_post_init (rq_limits r) = None \<and>
      recommendation_decision_post_init (rq_policy_decision r) = None \<and>
      list_all (\<lambda>e. evidence_reference_post_init e = None) (rq_evidence r))"

record investigation_result =
  rs_run_id :: string
  rs_snapshot_id :: string
  rs_recommendation :: recommendation
  rs_termination_reason :: termination_reason
  rs_partial :: bool
  rs_evidence_ids :: "string list"
  rs_draft :: "agent_draft option"
  rs_critic :: "critic_result option"
  rs_trace :: "agent_trace_event list"
  rs_usage :: agent_usage
  rs_error_codes :: "string list"
  rs_policy_decision_sha256 :: string
  rs_request_sha256 :: string
  rs_graph_version :: string
  rs_state_schema_version :: string
  rs_advisory_only :: bool
  rs_auto_merge :: bool

definition hash_guard :: "string \<Rightarrow> string \<Rightarrow> exn option" where
  "hash_guard field value = raise_if (length value \<noteq> 64 \<or> \<not> is_hex value)
     (ValueError (field @ '' is invalid''))"

definition investigation_result_post_init :: "investigation_result \<Rightarrow> exn option" where
  "investigation_result_post_init r = first_raise [
     identifier_guard ''result run_id'' 192 (rs_run_id r),
     identifier_guard ''result snapshot_id'' 192 (rs_snapshot_id r),
     identifiers_guard ''result evidence IDs'' 100 (rs_evidence_ids r),
     identifiers_guard ''result error codes'' 32 (rs_error_codes r),
     raise_if (\<not> rs_advisory_only r \<or> rs_auto_merge r)
       (ValueError ''agent results cannot authorize merge or deploy''),
     hash_guard ''policy decision hash'' (rs_policy_decision_sha256 r),
     hash_guard ''request hash'' (rs_request_sha256 r),
     raise_if (rs_termination_reason r = Completed \<and> rs_partial r)
       (ValueError ''a completed result cannot be partial''),
     raise_if (rs_termination_reason r \<noteq> Completed \<and> \<not> rs_partial r)
       (ValueError ''a non-completed result must be partial'')]"

definition investigation_result_safe_dict :: "float_text \<Rightarrow> investigation_result \<Rightarrow> pydict" where
  "investigation_result_safe_dict float_text r = [
     (''advisory_only'', PyBool (rs_advisory_only r)),
     (''auto_merge'', PyBool (rs_auto_merge r)),
     (''critic'', (case rs_critic r of None \<Rightarrow> PyNone
        | Some c \<Rightarrow> PyDict (critic_result_as_dict float_text c))),
     (''draft'', (case rs_draft r of None \<Rightarrow> PyNone | Some d \<Rightarrow> PyDict (agent_draft_as_dict d))),
     (''error_codes'', strs (rs_error_codes r)),
     (''evidence_ids'', strs (rs_evidence_ids r)),
     (''graph_version'', PyStr (rs_graph_version r)),
     (''partial'', PyBool (rs_partial r)),
     (''policy_decision_sha256'', PyStr (rs_policy_decision_sha256 r)),
     (''recommendation'', PyStr (recommendation_value (rs_recommendation r))),
     (''request_sha256'', PyStr (rs_request_sha256 r)),
     (''run_id'', PyStr (rs_run_id r)),
     (''snapshot_id'', PyStr (rs_snapshot_id r)),
     (''state_schema_version'', PyStr (rs_state_schema_version r)),
     (''termination_reason'', PyStr (termination_value (rs_termination_reason r))),
     (''trace'', PyList (map (\<lambda>t. PyDict (agent_trace_event_as_dict float_text t)) (rs_trace r))),
     (''usage'', PyDict (agent_usage_as_dict (rs_usage r)))]"

definition result_sha256 :: "float_text \<Rightarrow> investigation_result \<Rightarrow> string" where
  "result_sha256 float_text r = object_sha256 (PyDict (investigation_result_safe_dict float_text r))"

lemmas agent_post_init_defs =
  evidence_reference_post_init_def agent_limits_post_init_def agent_usage_post_init_def
  node_provider_usage_post_init_def agent_claim_post_init_def node_input_post_init_def
  node_output_post_init_def agent_draft_post_init_def critic_result_post_init_def
  agent_trace_event_post_init_def investigation_request_post_init_def
  investigation_result_post_init_def

end
