(* ===== verification/AgentTools.thy ===== *)
theory AgentTools
  imports AgentContracts
begin

section \<open>packages/agent_core/tools.py and critic.py: bounded tools and the deterministic critic\<close>

text \<open>
  The read-only tools over evidence that is already authorised, and the critic that checks a draft
  against that evidence and the deterministic policy. The lemmas show that a tool returns only
  authorised evidence of its own category within its limit, and what the critic's acceptance means.
\<close>

subsection \<open>Tools\<close>

fun tool_category :: "tool_name \<Rightarrow> evidence_category" where
  "tool_category GET_FEATURES = CAT_FEATURE"
| "tool_category GET_GRAPH = CAT_GRAPH"
| "tool_category SEARCH_HISTORY = CAT_RETRIEVAL"
| "tool_category GET_RISK = CAT_RISK"
| "tool_category GET_TEST_RESULTS = CAT_TEST_RESULT"
| "tool_category GET_EXECUTION_EVIDENCE = CAT_EXECUTION"

record tool_result =
  tr_tool :: tool_name
  tr_status :: tool_status
  tr_evidence :: "evidence_reference list"
  tr_truncated :: bool
  tr_summary :: string
  tr_error_code :: "string option"

definition tool_result_post_init :: "tool_result \<Rightarrow> exn option" where
  "tool_result_post_init r = first_raise [
     raise_if (tr_status r = TOOL_FAILED \<and> (tr_error_code r = None \<or> tr_error_code r = Some []))
       (ValueError ''failed tools require a safe error code''),
     raise_if (tr_status r \<noteq> TOOL_FAILED \<and> tr_error_code r \<noteq> None)
       (ValueError ''successful/missing tools cannot carry an error'')]"

text \<open>
  \<open>BoundedInvestigationTools\<close>: the evidence, the limit per tool and the tools that are made to
  fail. Every \<open>tool_name\<close> is a key of \<open>TOOL_CATEGORY\<close>, so the allowlist checks never fire.
\<close>

record investigation_tools =
  it_evidence :: "evidence_reference list"
  it_limit :: int
  it_failed_tools :: "tool_name list"

definition investigation_tools_init ::
    "evidence_reference list \<Rightarrow> agent_limits \<Rightarrow> tool_name list \<Rightarrow> investigation_tools" where
  "investigation_tools_init evidence limits failed_tools =
     \<lparr>it_evidence = evidence, it_limit = max_evidence_per_tool limits, it_failed_tools = failed_tools\<rparr>"

definition lower_bool :: "bool \<Rightarrow> string" where
  "lower_bool b = (if b then ''true'' else ''false'')"

definition tool_read :: "investigation_tools \<Rightarrow> tool_name \<Rightarrow> tool_result result" where
  "tool_read ts tool =
     (if tool \<in> set (it_failed_tools ts) then
        construct_with tool_result_post_init
          \<lparr>tr_tool = tool, tr_status = TOOL_FAILED, tr_evidence = [], tr_truncated = False,
           tr_summary = tool_value tool @ '' failed with a safe provider-neutral status.'',
           tr_error_code = Some (tool_value tool @ ''_failed'')\<rparr>
      else
        (let matching = filter (\<lambda>e. er_category e = tool_category tool) (it_evidence ts);
             selected = take (nat (it_limit ts)) matching;
             truncated = (length matching > length selected)
         in if selected = [] then
              construct_with tool_result_post_init
                \<lparr>tr_tool = tool, tr_status = TOOL_MISSING, tr_evidence = [], tr_truncated = False,
                 tr_summary = tool_value tool @ '' returned no authorized evidence.'',
                 tr_error_code = None\<rparr>
            else
              construct_with tool_result_post_init
                \<lparr>tr_tool = tool, tr_status = TOOL_COMPLETED, tr_evidence = selected,
                 tr_truncated = truncated,
                 tr_summary = tool_value tool @ '' returned '' @
                   decimal_digits (length selected) @ '' authorized reference(s); truncated='' @
                   lower_bool truncated @ ''.'',
                 tr_error_code = None\<rparr>))"

lemma tool_value_nonempty [simp]: "tool_value t \<noteq> []"
  by (cases t) simp_all

lemma tool_read_total: "\<exists>r. tool_read ts tool = Inr r"
  by (simp add: tool_read_def Let_def tool_result_post_init_def construct_with_def)

lemma tool_read_evidence:
  assumes "tool_read ts tool = Inr r"
  shows "set (tr_evidence r) \<subseteq> set (it_evidence ts)"
    and "e \<in> set (tr_evidence r) \<Longrightarrow> er_category e = tool_category tool"
    and "length (tr_evidence r) \<le> nat (it_limit ts)"
    and "tr_status r = TOOL_COMPLETED \<longleftrightarrow> tr_evidence r \<noteq> []"
    and "tr_tool r = tool"
  using assms
  by (auto simp: tool_read_def Let_def tool_result_post_init_def construct_with_def
      dest!: in_set_takeD split: if_splits)

lemma tool_read_status:
  assumes "tool_read ts tool = Inr r"
  shows "tr_status r = TOOL_FAILED \<longleftrightarrow> tool \<in> set (it_failed_tools ts)"
    and "tr_error_code r = (if tr_status r = TOOL_FAILED then Some (tool_value tool @ ''_failed'') else None)"
  using assms
  by (auto simp: tool_read_def Let_def tool_result_post_init_def construct_with_def split: if_splits)

lemma tool_read_distinct:
  assumes "tool_read ts tool = Inr r" "distinct (map er_evidence_id (it_evidence ts))"
  shows "distinct (map er_evidence_id (tr_evidence r))"
  using assms
  by (auto simp: tool_read_def Let_def construct_with_def distinct_map_filter distinct_take
      simp flip: take_map split: if_splits option.splits)

subsection \<open>The critic\<close>

definition evidence_by_id :: "evidence_reference list \<Rightarrow> string \<Rightarrow> evidence_reference option" where
  "evidence_by_id evidence = map_of (rev (map (\<lambda>e. (er_evidence_id e, e)) evidence))"

datatype claim_finding = CitationNotReturned | NotEntailed | Supported

definition judge_claim :: "evidence_reference list \<Rightarrow> agent_claim \<Rightarrow> claim_finding" where
  "judge_claim evidence claim =
     (let cited = map (evidence_by_id evidence) (ac_evidence_ids claim) in
      if list_ex (\<lambda>c. c = None) cited then CitationNotReturned
      else if \<not> list_all (\<lambda>f. f \<in> set (concat (map (\<lambda>c. er_fact_codes (the c)) cited))) (ac_fact_codes claim)
      then NotEntailed
      else Supported)"

definition factual_claims :: "agent_draft \<Rightarrow> agent_claim list" where
  "factual_claims draft = filter (\<lambda>c. \<not> ac_hypothesis c) (ad_claims draft)"

definition execution_failed :: "evidence_reference list \<Rightarrow> bool" where
  "execution_failed evidence = list_ex
     (\<lambda>e. er_category e = CAT_EXECUTION \<and> ''execution:failed'' \<in> set (er_fact_codes e)) evidence"

definition critic_reasons ::
    "agent_draft \<Rightarrow> evidence_reference list \<Rightarrow> recommendation_decision \<Rightarrow> string list" where
  "critic_reasons draft evidence policy_decision =
     map (\<lambda>f. case f of CitationNotReturned \<Rightarrow> ''citation_not_returned_by_tool''
                | NotEntailed \<Rightarrow> ''claim_not_entailed_by_structured_facts'' | Supported \<Rightarrow> '''')
       (filter (\<lambda>f. f \<noteq> Supported) (map (judge_claim evidence) (factual_claims draft))) @
     (if ad_proposed_recommendation draft \<noteq> rd_recommendation policy_decision
      then [''recommendation_conflicts_with_deterministic_policy''] else []) @
     (if ad_missing_categories draft \<noteq> [] \<and> ad_confidence draft \<noteq> ''low''
      then [''missing_evidence_requires_low_confidence''] else []) @
     (if execution_failed evidence \<and> ad_proposed_recommendation draft = SHIP
      then [''execution_failure_cannot_ship''] else []) @
     (if \<not> ad_advisory_only draft \<or> ad_auto_merge draft then [''agent_authority_violation''] else [])"

definition critique_draft ::
    "agent_draft \<Rightarrow> evidence_reference list \<Rightarrow> recommendation_decision \<Rightarrow> critic_result result" where
  "critique_draft draft evidence policy_decision =
     (let ordered = sorted_set (critic_reasons draft evidence policy_decision) in
      construct_with critic_result_post_init
        \<lparr>cr_verdict = (if ordered \<noteq> [] then REJECT else ACCEPT), cr_reason_codes = ordered,
         cr_claim_count = int (length (factual_claims draft)),
         cr_supported_claim_count =
           int (length (filter (\<lambda>c. judge_claim evidence c = Supported) (factual_claims draft)))\<rparr>)"

definition critic_reason_words :: "string list" where
  "critic_reason_words = [''citation_not_returned_by_tool'', ''claim_not_entailed_by_structured_facts'',
     ''recommendation_conflicts_with_deterministic_policy'', ''missing_evidence_requires_low_confidence'',
     ''execution_failure_cannot_ship'', ''agent_authority_violation'']"

lemma critic_reasons_words: "set (critic_reasons draft evidence p) \<subseteq> set critic_reason_words"
  by (auto simp: critic_reasons_def critic_reason_words_def split: claim_finding.splits)

lemma critic_reason_words_identifiers: "list_all (is_identifier 192) critic_reason_words"
  by (simp add: critic_reason_words_def is_identifier_def isascii_def has_control_def code_def)

lemma critic_reasons_ok: "are_identifiers 32 (sorted_set (critic_reasons draft evidence p))"
proof -
  let ?rs = "critic_reasons draft evidence p"
  have "card (set ?rs) \<le> card (set critic_reason_words)"
    by (rule card_mono) (simp_all add: critic_reasons_words)
  also have "\<dots> \<le> 6" using card_length [of critic_reason_words] by (simp add: critic_reason_words_def)
  finally have "length (sorted_set ?rs) \<le> 32" by (simp add: length_sorted_set)
  then show ?thesis
    using critic_reasons_words [of draft evidence p] critic_reason_words_identifiers
    by (auto simp: are_identifiers_def list_all_iff)
qed

lemma critique_total:
  "\<exists>c. critique_draft draft evidence p = Inr c \<and>
     cr_reason_codes c = sorted_set (critic_reasons draft evidence p) \<and>
     (cr_verdict c = ACCEPT \<longleftrightarrow> critic_reasons draft evidence p = [])"
proof -
  have "sorted_set rs = [] \<longleftrightarrow> rs = []" for rs :: "string list"
    by (metis set_empty sorted_set_props(1))
  note empty = this
  let ?ordered = "sorted_set (critic_reasons draft evidence p)"
  let ?supported = "filter (\<lambda>c. judge_claim evidence c = Supported) (factual_claims draft)"
  define x where "x = \<lparr>cr_verdict = (if ?ordered \<noteq> [] then REJECT else ACCEPT),
    cr_reason_codes = ?ordered, cr_claim_count = int (length (factual_claims draft)),
    cr_supported_claim_count = int (length ?supported)\<rparr>"
  have "critic_result_post_init x = None"
    using critic_reasons_ok [of draft evidence p]
    by (simp add: x_def critic_result_post_init_def)
  then have "critique_draft draft evidence p = Inr x"
    by (simp add: critique_draft_def Let_def x_def)
  then show ?thesis by (simp add: x_def empty)
qed

lemma critique_counts:
  "critique_draft draft evidence p = Inr c \<Longrightarrow>
     0 \<le> cr_supported_claim_count c \<and> cr_supported_claim_count c \<le> cr_claim_count c"
  by (auto simp: critique_draft_def Let_def critic_result_post_init_def)

text \<open>What acceptance means, claim by claim.\<close>

lemma judge_claim_Supported:
  "judge_claim evidence claim = Supported \<longleftrightarrow>
     (\<forall>i \<in> set (ac_evidence_ids claim). evidence_by_id evidence i \<noteq> None) \<and>
     (\<forall>f \<in> set (ac_fact_codes claim). \<exists>i \<in> set (ac_evidence_ids claim).
        \<exists>e. evidence_by_id evidence i = Some e \<and> f \<in> set (er_fact_codes e))"
proof -
  let ?look = "evidence_by_id evidence" and ?ids = "ac_evidence_ids claim"
  have facts: "f \<in> set (concat (map (\<lambda>c. er_fact_codes (the c)) (map ?look ?ids))) \<longleftrightarrow>
      (\<exists>i \<in> set ?ids. f \<in> set (er_fact_codes (the (?look i))))" for f
    by simp
  have judged: "judge_claim evidence claim = Supported \<longleftrightarrow> (\<forall>i \<in> set ?ids. ?look i \<noteq> None) \<and>
      (\<forall>f \<in> set (ac_fact_codes claim). \<exists>i \<in> set ?ids. f \<in> set (er_fact_codes (the (?look i))))"
    unfolding judge_claim_def Let_def list_all_iff list_ex_iff facts
    by (simp add: image_iff) (metis not_Some_eq)
  show ?thesis
  proof (cases "\<forall>i \<in> set ?ids. ?look i \<noteq> None")
    case True
    then have "f \<in> set (er_fact_codes (the (?look i))) \<longleftrightarrow>
        (\<exists>e. ?look i = Some e \<and> f \<in> set (er_fact_codes e))" if "i \<in> set ?ids" for i f
      using that by auto
    then show ?thesis unfolding judged by (meson True)
  next
    case False
    then show ?thesis unfolding judged by blast
  qed
qed

lemma evidence_by_id_Some: "evidence_by_id evidence i = Some e \<Longrightarrow> e \<in> set evidence \<and> er_evidence_id e = i"
  by (auto simp: evidence_by_id_def dest!: map_of_SomeD)

lemma critic_accepts_iff:
  "critic_reasons draft evidence p = [] \<longleftrightarrow>
     (\<forall>c \<in> set (factual_claims draft). judge_claim evidence c = Supported) \<and>
     ad_proposed_recommendation draft = rd_recommendation p \<and>
     (ad_missing_categories draft \<noteq> [] \<longrightarrow> ad_confidence draft = ''low'') \<and>
     (execution_failed evidence \<longrightarrow> ad_proposed_recommendation draft \<noteq> SHIP) \<and>
     ad_advisory_only draft \<and> \<not> ad_auto_merge draft"
  by (auto simp: critic_reasons_def filter_empty_conv)

end
