(* ===== verification/AgentGuards.thy ===== *)
theory AgentGuards
  imports AgentTools
begin

section \<open>packages/agent_core/guards.py: budgets, time, cancellation and loop detection\<close>

text \<open>
  \<open>BudgetGuard\<close> is the mutable object that every node of the graph consults. Its fields are a
  record that the operations pass on, also when they raise, since Python keeps the counters that
  were updated before the raise. The two callables it is given are functions of the call index:
  \<open>g_clock i\<close> is the \<open>i\<close>-th reading of the clock, \<open>g_cancel i\<close> the \<open>i\<close>-th answer of the
  cancellation check. An operation raises an \<open>AgentStopError\<close> (\<open>Stop\<close>, an expected end) or another
  exception (\<open>Crash\<close>, which nothing in the graph catches).

  The lemmas show the budget invariant: whatever is called in whatever order, the counters never
  exceed their limits, and the constructor of \<open>AgentUsage\<close> never rejects an update.
\<close>

datatype raised = Stop termination_reason string | Crash exn

record budget_guard =
  g_limits :: agent_limits
  g_cancel :: "nat \<Rightarrow> bool"
  g_clock :: "nat \<Rightarrow> rat"
  g_polls :: nat
  g_reads :: nat
  g_started :: rat
  g_usage :: agent_usage
  g_visited :: "(agent_node \<times> string) list"

type_synonym 'a guarded = "budget_guard \<Rightarrow> (raised + 'a) \<times> budget_guard"

definition return_g :: "'a \<Rightarrow> 'a guarded" where
  "return_g x g = (Inr x, g)"

definition stop_g :: "termination_reason \<Rightarrow> string \<Rightarrow> 'a guarded" where
  "stop_g reason error_code g = (Inl (Stop reason error_code), g)"

definition crash_g :: "exn \<Rightarrow> 'a guarded" where
  "crash_g e g = (Inl (Crash e), g)"

definition bind_g :: "'a guarded \<Rightarrow> ('a \<Rightarrow> 'b guarded) \<Rightarrow> 'b guarded" where
  "bind_g m f g = (case m g of (Inl e, g') \<Rightarrow> (Inl e, g') | (Inr x, g') \<Rightarrow> f x g')"

definition lift_g :: "'a result \<Rightarrow> 'a guarded" where
  "lift_g r = (case r of Inl e \<Rightarrow> crash_g e | Inr x \<Rightarrow> return_g x)"

definition get_g :: "(budget_guard \<Rightarrow> 'a) \<Rightarrow> 'a guarded" where
  "get_g f g = (Inr (f g), g)"

definition guard_init :: "agent_limits \<Rightarrow> (nat \<Rightarrow> bool) \<Rightarrow> (nat \<Rightarrow> rat) \<Rightarrow> budget_guard" where
  "guard_init limits cancel clock =
     \<lparr>g_limits = limits, g_cancel = cancel, g_clock = clock, g_polls = 0, g_reads = 1,
      g_started = clock 0, g_usage = zero_usage, g_visited = []\<rparr>"

definition read_clock :: "rat guarded" where
  "read_clock g = (Inr (g_clock g (g_reads g)), g\<lparr>g_reads := Suc (g_reads g)\<rparr>)"

definition poll_cancel :: "bool guarded" where
  "poll_cancel g = (Inr (g_cancel g (g_polls g)), g\<lparr>g_polls := Suc (g_polls g)\<rparr>)"

text \<open>\<open>self._usage = replace(self._usage, ...)\<close> runs the constructor of \<open>AgentUsage\<close>.\<close>

definition replace_usage :: "(agent_usage \<Rightarrow> agent_usage) \<Rightarrow> unit guarded" where
  "replace_usage f g = (case agent_usage_post_init (f (g_usage g)) of
      Some e \<Rightarrow> (Inl (Crash e), g)
    | None \<Rightarrow> (Inr (), g\<lparr>g_usage := f (g_usage g)\<rparr>))"

definition common_check :: "unit guarded" where
  "common_check =
     bind_g poll_cancel (\<lambda>cancelled.
       if cancelled then stop_g Cancelled ''agent_cancelled''
       else bind_g read_clock (\<lambda>now.
         bind_g (get_g (\<lambda>g. now - g_started g > max_wall_time_seconds (g_limits g))) (\<lambda>late.
           if late then stop_g WallTimeExceeded ''agent_wall_time_exceeded'' else return_g ())))"

definition enter_node :: "agent_node \<Rightarrow> string \<Rightarrow> rat guarded" where
  "enter_node node state_signature =
     bind_g common_check (\<lambda>_.
     bind_g (get_g (\<lambda>g. u_steps (g_usage g) \<ge> max_steps (g_limits g))) (\<lambda>exhausted.
       if exhausted then stop_g StepBudgetExceeded ''agent_step_budget_exceeded''
       else bind_g (get_g (\<lambda>g. (node, state_signature) \<in> set (g_visited g))) (\<lambda>again.
         if again then stop_g LoopDetected ''agent_loop_detected''
         else bind_g (\<lambda>g. (Inr (), g\<lparr>g_visited := (node, state_signature) # g_visited g\<rparr>)) (\<lambda>_.
           bind_g (replace_usage (\<lambda>u. u\<lparr>u_steps := u_steps u + 1\<rparr>)) (\<lambda>_. read_clock)))))"

definition finish_node :: "rat \<Rightarrow> rat guarded" where
  "finish_node started =
     bind_g read_clock (\<lambda>now. let elapsed = now - started in
       bind_g (get_g (\<lambda>g. elapsed > per_node_timeout_seconds (g_limits g))) (\<lambda>late.
         if late then stop_g NodeTimeout ''agent_node_timeout''
         else bind_g common_check (\<lambda>_. return_g (max 0 (elapsed * 1000)))))"

definition reserve_tool :: "unit guarded" where
  "reserve_tool =
     bind_g common_check (\<lambda>_.
     bind_g (get_g (\<lambda>g. u_tool_calls (g_usage g) \<ge> max_tool_calls (g_limits g))) (\<lambda>exhausted.
       if exhausted then stop_g ToolBudgetExceeded ''agent_tool_budget_exceeded''
       else replace_usage (\<lambda>u. u\<lparr>u_tool_calls := u_tool_calls u + 1\<rparr>)))"

definition record_tool_error :: "unit guarded" where
  "record_tool_error = replace_usage (\<lambda>u. u\<lparr>u_tool_errors := u_tool_errors u + 1\<rparr>)"

definition reserve_llm :: "(int \<times> int \<times> int) guarded" where
  "reserve_llm =
     bind_g common_check (\<lambda>_.
     bind_g (get_g (\<lambda>g. u_llm_calls (g_usage g) \<ge> max_llm_calls (g_limits g))) (\<lambda>exhausted.
       if exhausted then stop_g LlmBudgetExceeded ''agent_llm_call_budget_exceeded''
       else bind_g (get_g (\<lambda>g. (max_input_tokens (g_limits g) - u_input_tokens (g_usage g),
                               max_output_tokens (g_limits g) - u_output_tokens (g_usage g),
                               max_cost_microusd (g_limits g) - u_cost_microusd (g_usage g))))
         (\<lambda>(remaining_input, remaining_output, remaining_cost).
           if min remaining_input (min remaining_output remaining_cost) \<le> 0
           then stop_g LlmBudgetExceeded ''agent_llm_budget_exceeded''
           else bind_g (replace_usage (\<lambda>u. u\<lparr>u_llm_calls := u_llm_calls u + 1\<rparr>))
             (\<lambda>_. return_g (remaining_input, remaining_output, remaining_cost)))))"

definition over_llm_limits :: "budget_guard \<Rightarrow> bool" where
  "over_llm_limits g =
     (u_input_tokens (g_usage g) > max_input_tokens (g_limits g) \<or>
      u_output_tokens (g_usage g) > max_output_tokens (g_limits g) \<or>
      u_cost_microusd (g_usage g) > max_cost_microusd (g_limits g))"

definition add_llm_usage :: "node_provider_usage \<Rightarrow> agent_usage \<Rightarrow> agent_usage" where
  "add_llm_usage usage u = u\<lparr>u_input_tokens := u_input_tokens u + pu_input_tokens usage,
     u_output_tokens := u_output_tokens u + pu_output_tokens usage,
     u_cost_microusd := u_cost_microusd u + pu_cost_microusd usage\<rparr>"

text \<open>Both branches of the code store the updated usage before or instead of raising.\<close>

definition record_llm :: "node_provider_usage \<Rightarrow> unit guarded" where
  "record_llm usage =
     bind_g (replace_usage (add_llm_usage usage)) (\<lambda>_.
     bind_g (get_g over_llm_limits) (\<lambda>over.
       if over then stop_g LlmBudgetExceeded ''agent_llm_budget_exceeded'' else return_g ()))"

subsection \<open>The budget invariant\<close>

definition budget_inv :: "budget_guard \<Rightarrow> bool" where
  "budget_inv g =
     (agent_usage_post_init (g_usage g) = None \<and>
      u_steps (g_usage g) \<le> max_steps (g_limits g) \<and>
      u_tool_calls (g_usage g) \<le> max_tool_calls (g_limits g) \<and>
      u_llm_calls (g_usage g) \<le> max_llm_calls (g_limits g) \<and>
      int (length (g_visited g)) = u_steps (g_usage g) \<and> distinct (g_visited g))"

definition same_frame :: "budget_guard \<Rightarrow> budget_guard \<Rightarrow> bool" where
  "same_frame g g' = (g_limits g' = g_limits g \<and> g_cancel g' = g_cancel g \<and> g_clock g' = g_clock g \<and>
     g_started g' = g_started g)"

text \<open>What a guard can stop an investigation with while its nodes are entered once each.\<close>

definition guard_stops :: "(termination_reason \<times> string) list" where
  "guard_stops = [(Cancelled, ''agent_cancelled''), (WallTimeExceeded, ''agent_wall_time_exceeded''),
     (StepBudgetExceeded, ''agent_step_budget_exceeded''), (NodeTimeout, ''agent_node_timeout''),
     (ToolBudgetExceeded, ''agent_tool_budget_exceeded''),
     (LlmBudgetExceeded, ''agent_llm_call_budget_exceeded''),
     (LlmBudgetExceeded, ''agent_llm_budget_exceeded''),
     (LlmBudgetExceeded, ''agent_llm_input_budget_exceeded''),
     (ProviderFailure, ''agent_provider_failure''), (ProviderFailure, ''agent_provider_node_mismatch'')]"

fun expected_stop :: "raised \<Rightarrow> bool" where
  "expected_stop (Stop reason error_code) = ((reason, error_code) \<in> set guard_stops)"
| "expected_stop (Crash _) = False"

text \<open>A counter of tokens or cost can pass its limit, but then the stop is that of the provider's budget.\<close>

fun llm_stop :: "raised \<Rightarrow> bool" where
  "llm_stop (Stop reason error_code) = (reason = LlmBudgetExceeded)"
| "llm_stop (Crash _) = False"

definition stopped_ok :: "raised \<Rightarrow> budget_guard \<Rightarrow> bool" where
  "stopped_ok r g = (expected_stop r \<and> budget_inv g \<and> (over_llm_limits g \<longrightarrow> llm_stop r))"

definition running :: "budget_guard \<Rightarrow> bool" where
  "running g = (budget_inv g \<and> agent_limits_post_init (g_limits g) = None \<and> \<not> over_llm_limits g)"

text \<open>
  \<open>safe Q m P\<close>: from a running guard with \<open>Q\<close>, the operation \<open>m\<close> keeps the limits and callables;
  it returns a value with \<open>P\<close> in a running guard, or it raises one of the expected stops with every
  counter of steps and calls still within its limit, and with the tokens and the cost within theirs unless
  the stop is that of the provider's budget.
\<close>

definition safe ::
    "(budget_guard \<Rightarrow> bool) \<Rightarrow> 'a guarded \<Rightarrow> ('a \<Rightarrow> budget_guard \<Rightarrow> bool) \<Rightarrow> bool" where
  "safe Q m P \<longleftrightarrow> (\<forall>g. running g \<longrightarrow> Q g \<longrightarrow>
     same_frame g (snd (m g)) \<and>
     (case fst (m g) of
        Inl r \<Rightarrow> stopped_ok r (snd (m g))
      | Inr x \<Rightarrow> running (snd (m g)) \<and> P x (snd (m g))))"

lemma same_frame_refl [simp]: "same_frame g g"
  by (simp add: same_frame_def)

lemma same_frame_trans: "same_frame g g' \<Longrightarrow> same_frame g' g'' \<Longrightarrow> same_frame g g''"
  by (simp add: same_frame_def)

lemma running_inv: "running g \<Longrightarrow> budget_inv g"
  by (simp add: running_def)

lemma guard_init_running:
  "agent_limits_post_init l = None \<Longrightarrow> running (guard_init l cancel clock)"
  by (simp add: running_def over_llm_limits_def budget_inv_def guard_init_def zero_usage_def
      agent_usage_post_init_def agent_limits_post_init_def)

lemma safe_return: "(\<And>g. running g \<Longrightarrow> Q g \<Longrightarrow> P x g) \<Longrightarrow> safe Q (return_g x) P"
  by (simp add: safe_def return_g_def)

lemma safe_stop: "(reason, error_code) \<in> set guard_stops \<Longrightarrow> safe Q (stop_g reason error_code) P"
  by (simp add: safe_def stop_g_def running_def stopped_ok_def)

lemma safe_get: "(\<And>g. running g \<Longrightarrow> Q g \<Longrightarrow> P (f g) g) \<Longrightarrow> safe Q (get_g f) P"
  by (simp add: safe_def get_g_def)

lemma safe_bind:
  assumes "safe Q m R" "\<And>x. safe (R x) (f x) P"
  shows "safe Q (bind_g m f) P"
proof -
  have "same_frame g (snd (bind_g m f g)) \<and>
      (case fst (bind_g m f g) of Inl r \<Rightarrow> stopped_ok r (snd (bind_g m f g))
       | Inr x \<Rightarrow> running (snd (bind_g m f g)) \<and> P x (snd (bind_g m f g)))"
    if g: "running g" "Q g" for g
  proof (cases "m g")
    case (Pair r g')
    show ?thesis
    proof (cases r)
      case (Inl e)
      then show ?thesis using assms(1) g Pair unfolding safe_def by (fastforce simp: bind_g_def)
    next
      case (Inr x)
      then have step: "running g'" "R x g'" "same_frame g g'"
        using assms(1) g Pair unfolding safe_def by fastforce+
      have eq: "bind_g m f g = f x g'" using Pair Inr by (simp add: bind_g_def)
      show ?thesis
        using assms(2) [of x] step unfolding eq safe_def by (blast intro: same_frame_trans)
    qed
  qed
  then show ?thesis by (simp add: safe_def)
qed

lemma safe_if: "(b \<Longrightarrow> safe Q m P) \<Longrightarrow> (\<not> b \<Longrightarrow> safe Q n P) \<Longrightarrow> safe Q (if b then m else n) P"
  by simp

lemma safe_weaken:
  assumes "safe Q m R" "\<And>g. Q' g \<Longrightarrow> Q g" "\<And>x g. R x g \<Longrightarrow> P x g"
  shows "safe Q' m P"
  using assms unfolding safe_def by (fastforce split: sum.splits)

lemma bind_return [simp]: "bind_g (return_g x) f = f x"
  by (simp add: fun_eq_iff bind_g_def return_g_def)

lemma lift_Inr [simp]: "lift_g (Inr x) = return_g x"
  by (simp add: lift_g_def)

lemma safe_lift: "r = Inr x \<Longrightarrow> safe Q (return_g x) P \<Longrightarrow> safe Q (lift_g r) P"
  by (simp add: lift_g_def)

text \<open>
  \<open>stage k l u\<close>: the entered nodes all come before position \<open>k\<close> in the graph, the limits are \<open>l\<close>,
  and the counters satisfy \<open>u\<close>.
\<close>

fun node_position :: "agent_node \<Rightarrow> nat" where
  "node_position CHANGE_ANALYST = 0"
| "node_position HISTORICAL_INVESTIGATOR = 1"
| "node_position RISK_SYNTHESIZER = 2"
| "node_position TEST_PLANNER = 3"
| "node_position EXECUTION_READER = 4"
| "node_position EVIDENCE_CRITIC = 5"
| "node_position RECOMMENDATION_COMPOSER = 6"

definition stage :: "nat \<Rightarrow> agent_limits \<Rightarrow> (agent_usage \<Rightarrow> bool) \<Rightarrow> budget_guard \<Rightarrow> bool" where
  "stage k l u g =
     ((\<forall>(m, _) \<in> set (g_visited g). node_position m < k) \<and> g_limits g = l \<and> u (g_usage g))"

lemma common_check_safe: "safe (stage k l u) common_check (\<lambda>_. stage k l u)"
  unfolding safe_def common_check_def
  by (auto simp: bind_g_def poll_cancel_def read_clock_def get_g_def stop_g_def return_g_def
      guard_stops_def running_def budget_inv_def over_llm_limits_def stage_def same_frame_def stopped_ok_def)

lemma read_clock_safe: "safe (stage k l u) read_clock (\<lambda>_. stage k l u)"
  unfolding safe_def
  by (auto simp: read_clock_def running_def budget_inv_def over_llm_limits_def stage_def same_frame_def)

lemma get_stage: "safe (stage k l u) (get_g (\<lambda>g. f (g_limits g) (g_usage g)))
    (\<lambda>x. stage k l (\<lambda>v. u v \<and> x = f l v))"
  by (rule safe_get) (simp add: stage_def)

lemma replace_usage_safe:
  assumes "\<And>g. running g \<Longrightarrow> u (g_usage g) \<Longrightarrow> g_limits g = l \<Longrightarrow> running (g\<lparr>g_usage := f (g_usage g)\<rparr>)"
    and "\<And>v. u v \<Longrightarrow> w (f v)"
  shows "safe (stage k l u) (replace_usage f) (\<lambda>_. stage k l w)"
proof -
  have "agent_usage_post_init (f (g_usage g)) = None" if "running g" "stage k l u g" for g
    using assms(1) [of g] that by (simp add: running_def budget_inv_def stage_def)
  then show ?thesis
    using assms unfolding safe_def
    by (auto simp: replace_usage_def stage_def same_frame_def)
qed

subsection \<open>What each operation guarantees\<close>

lemmas guard_op_defs = bind_g_def poll_cancel_def read_clock_def get_g_def stop_g_def return_g_def

lemma enter_node_safe:
  assumes "node_position node < k"
  shows "safe (stage (node_position node) l u) (enter_node node state_signature)
    (\<lambda>_. stage k l (\<lambda>v. \<exists>w. u w \<and> v = w\<lparr>u_steps := u_steps w + 1\<rparr>))"
proof -
  let ?enter = "\<lambda>g. (Inr () :: raised + unit, g\<lparr>g_visited := (node, state_signature) # g_visited g\<rparr>)"
  let ?move = "bind_g ?enter (\<lambda>_. bind_g (replace_usage (\<lambda>u. u\<lparr>u_steps := u_steps u + 1\<rparr>)) (\<lambda>_. read_clock))"
  let ?P = "\<lambda>_. stage k l (\<lambda>v. \<exists>w. u w \<and> v = w\<lparr>u_steps := u_steps w + 1\<rparr>)"
  have move: "safe (\<lambda>g. stage (node_position node) l u g \<and> u_steps (g_usage g) < max_steps (g_limits g)) ?move ?P"
  proof -
    have "fst (?move g) = Inr (g_clock g (g_reads g))" "running (snd (?move g))"
      "same_frame g (snd (?move g))" "?P x (snd (?move g))"
      if g: "running g" "stage (node_position node) l u g" "u_steps (g_usage g) < max_steps (g_limits g)" for g x
    proof -
      have fresh: "(node, state_signature) \<notin> set (g_visited g)"
        using g(2) by (auto simp: stage_def)
      have ok: "agent_usage_post_init (g_usage g\<lparr>u_steps := u_steps (g_usage g) + 1\<rparr>) = None"
        using g(1) by (simp add: running_def budget_inv_def agent_usage_post_init_def)
      show "fst (?move g) = Inr (g_clock g (g_reads g))" "same_frame g (snd (?move g))"
        using ok by (simp_all add: guard_op_defs replace_usage_def same_frame_def)
      show "running (snd (?move g))"
        using ok g fresh
        by (simp add: guard_op_defs replace_usage_def running_def budget_inv_def over_llm_limits_def)
      show "?P x (snd (?move g))"
        using ok g assms by (auto simp: guard_op_defs replace_usage_def stage_def)
    qed
    then show ?thesis by (simp add: safe_def)
  qed
  show ?thesis
    unfolding enter_node_def
    apply (rule safe_bind [OF common_check_safe])
    apply (rule safe_bind [where R = "\<lambda>x g. stage (node_position node) l u g \<and>
        (x \<longleftrightarrow> max_steps (g_limits g) \<le> u_steps (g_usage g))"])
     apply (rule safe_get, simp)
    apply (rule safe_if, rule safe_stop, simp add: guard_stops_def)
    apply (rule safe_bind [where R = "\<lambda>x g. (stage (node_position node) l u g \<and>
        u_steps (g_usage g) < max_steps (g_limits g)) \<and> \<not> x"])
     apply (rule safe_get, auto simp: stage_def)[1]
    apply (rule safe_if, simp add: safe_def, rule safe_weaken [OF move], simp_all)
    done
qed

lemma finish_node_safe: "safe (stage k l u) (finish_node started) (\<lambda>ms g. stage k l u g \<and> 0 \<le> ms)"
  unfolding finish_node_def Let_def
  apply (rule safe_bind [OF read_clock_safe])
  apply (rule safe_bind [where R = "\<lambda>_. stage k l u"], rule safe_get, simp)
  apply (rule safe_if, rule safe_stop, simp add: guard_stops_def)
  apply (rule safe_bind [OF common_check_safe])
  apply (rule safe_return, simp)
  done

lemma reserve_tool_safe: "safe (stage k l u) reserve_tool
    (\<lambda>_. stage k l (\<lambda>v. \<exists>w. u w \<and> v = w\<lparr>u_tool_calls := u_tool_calls w + 1\<rparr> \<and> u_tool_errors v < u_tool_calls v))"
  unfolding reserve_tool_def
  apply (rule safe_bind [OF common_check_safe])
  apply (rule safe_bind [where R = "\<lambda>x. stage k l (\<lambda>v. u v \<and> (x \<longleftrightarrow> max_tool_calls l \<le> u_tool_calls v) \<and>
      u_tool_errors v \<le> u_tool_calls v)"])
   apply (rule safe_get)
   apply (simp add: stage_def running_def budget_inv_def agent_usage_post_init_def)
  apply (rule safe_if, rule safe_stop, simp add: guard_stops_def)
  apply (rule replace_usage_safe)
   apply (simp add: running_def budget_inv_def agent_usage_post_init_def over_llm_limits_def)
  apply force
  done

lemma record_tool_error_safe:
  assumes "\<And>v. u v \<Longrightarrow> u_tool_errors v < u_tool_calls v"
  shows "safe (stage k l u) record_tool_error
    (\<lambda>_. stage k l (\<lambda>v. \<exists>w. u w \<and> v = w\<lparr>u_tool_errors := u_tool_errors w + 1\<rparr>))"
  unfolding record_tool_error_def
proof (rule replace_usage_safe)
  fix g
  assume "running g" "u (g_usage g)"
  then show "running (g\<lparr>g_usage := (g_usage g)\<lparr>u_tool_errors := u_tool_errors (g_usage g) + 1\<rparr>\<rparr>)"
    using assms [of "g_usage g"]
    by (simp add: running_def budget_inv_def agent_usage_post_init_def over_llm_limits_def)
qed auto

text \<open>What remains for the next request to the provider is positive and within the limits.\<close>

definition remaining_ok :: "agent_limits \<Rightarrow> int \<times> int \<times> int \<Rightarrow> bool" where
  "remaining_ok l r = (case r of (i, out, c) \<Rightarrow> 1 \<le> i \<and> i \<le> max_input_tokens l \<and>
     1 \<le> out \<and> out \<le> max_output_tokens l \<and> 1 \<le> c \<and> c \<le> max_cost_microusd l)"

lemma reserve_llm_safe: "safe (stage k l u) reserve_llm
    (\<lambda>r g. stage k l (\<lambda>v. \<exists>w. u w \<and> v = w\<lparr>u_llm_calls := u_llm_calls w + 1\<rparr>) g \<and> remaining_ok l r)"
proof -
  define upper where "upper = (\<lambda>(i, out, c). i \<le> max_input_tokens l \<and> out \<le> max_output_tokens l \<and>
    c \<le> max_cost_microusd l)"
  let ?bump = "\<lambda>u. u\<lparr>u_llm_calls := u_llm_calls u + 1\<rparr>"
  have rest: "safe (stage k l (\<lambda>v. u v \<and> u_llm_calls v < max_llm_calls l \<and> upper (i, out, c)))
     (if min i (min out c) \<le> 0 then stop_g LlmBudgetExceeded ''agent_llm_budget_exceeded''
      else bind_g (replace_usage ?bump) (\<lambda>_. return_g (i, out, c)))
     (\<lambda>r g. stage k l (\<lambda>v. \<exists>w. u w \<and> v = ?bump w) g \<and> remaining_ok l r)" for i out c
    apply (rule safe_if, rule safe_stop, simp add: guard_stops_def)
    apply (rule safe_bind)
     apply (rule replace_usage_safe [where w = "\<lambda>v. (\<exists>w. u w \<and> v = ?bump w) \<and> upper (i, out, c)"])
      apply (simp add: running_def budget_inv_def agent_usage_post_init_def over_llm_limits_def)
     apply force
    apply (rule safe_return)
    apply (auto simp: stage_def remaining_ok_def upper_def)
    done
  show ?thesis
    unfolding reserve_llm_def
    apply (rule safe_bind [OF common_check_safe])
    apply (rule safe_bind [where R = "\<lambda>x. stage k l (\<lambda>v. u v \<and> (x \<longleftrightarrow> max_llm_calls l \<le> u_llm_calls v))"])
     apply (rule safe_get, simp add: stage_def)
    apply (rule safe_if, rule safe_stop, simp add: guard_stops_def)
    apply (rule safe_bind [where R = "\<lambda>r. stage k l (\<lambda>v. u v \<and> u_llm_calls v < max_llm_calls l \<and> upper r)"])
     apply (rule safe_get, simp add: stage_def running_def budget_inv_def agent_usage_post_init_def upper_def)
    subgoal for a b r using rest by (cases r) simp
    done
qed

lemma record_llm_safe:
  assumes "node_provider_usage_post_init usage = None"
  shows "safe (stage k l u) (record_llm usage)
    (\<lambda>_. stage k l (\<lambda>v. \<exists>w. u w \<and> v = add_llm_usage usage w))"
proof -
  have "same_frame g (snd (record_llm usage g)) \<and>
      (case fst (record_llm usage g) of Inl r \<Rightarrow> stopped_ok r (snd (record_llm usage g))
       | Inr x \<Rightarrow> running (snd (record_llm usage g)) \<and>
           stage k l (\<lambda>v. \<exists>w. u w \<and> v = add_llm_usage usage w) (snd (record_llm usage g)))"
    if g: "running g" "stage k l u g" for g
  proof -
    have ok: "agent_usage_post_init (add_llm_usage usage (g_usage g)) = None"
      using assms g(1) by (simp add: running_def budget_inv_def agent_usage_post_init_def
          node_provider_usage_post_init_def add_llm_usage_def)
    then show ?thesis
      using g by (auto simp: record_llm_def guard_op_defs replace_usage_def running_def budget_inv_def
          stage_def same_frame_def guard_stops_def add_llm_usage_def over_llm_limits_def stopped_ok_def)
  qed
  then show ?thesis by (simp add: safe_def)
qed

end
