(* ===== verification/AgentGraph.thy ===== *)
theory AgentGraph
  imports AgentGuards
begin

section \<open>packages/agent_core/graph.py: the bounded investigation\<close>

text \<open>
  The state of the graph, its nodes, its edges and \<open>run_investigation\<close>. A node maps the state and
  the guard to a new state and guard; an \<open>AgentStopError\<close> inside a node gives the state the node
  started from, marked as stopped, with the guard as it is at the raise. Any other exception leaves
  the graph.

  The provider is a parameter: \<open>provider n input\<close> is its answer to its \<open>n\<close>-th request, \<open>None\<close> for
  any exception it raises. LangGraph is a parameter too: \<open>engine node route limit start state\<close> is
  the state that the compiled graph returns, and \<open>follows_edges\<close> is what the code relies on.
\<close>

record agent_graph_state =
  gs_request :: investigation_request
  gs_collected :: "evidence_reference list"
  gs_outputs :: "node_output list"
  gs_missing_categories :: "evidence_category list"
  gs_trace :: "agent_trace_event list"
  gs_errors :: "string list"
  gs_draft :: "agent_draft option"
  gs_critic :: "critic_result option"
  gs_termination :: "termination_reason option"
  gs_partial :: bool

type_synonym provider = "int \<Rightarrow> node_input \<Rightarrow> node_output option"

definition NODE_TOOLS :: "(agent_node \<times> tool_name list) list" where
  "NODE_TOOLS = [
     (CHANGE_ANALYST, [GET_FEATURES, GET_GRAPH]),
     (HISTORICAL_INVESTIGATOR, [SEARCH_HISTORY]),
     (RISK_SYNTHESIZER, [GET_RISK]),
     (TEST_PLANNER, [GET_TEST_RESULTS]),
     (EXECUTION_READER, [GET_EXECUTION_EVIDENCE])]"

definition signature :: "agent_graph_state \<Rightarrow> agent_node \<Rightarrow> string" where
  "signature s node = sha256_hex (utf8 (join ''|''
     (node_value node # map er_evidence_id (gs_collected s) @ gs_errors s)))"

definition trace_event :: "nat \<Rightarrow> string \<Rightarrow> agent_node \<Rightarrow> string \<Rightarrow> string \<Rightarrow> string list \<Rightarrow> rat \<Rightarrow>
    agent_trace_event result" where
  "trace_event sequence event_type node status summary evidence_ids elapsed_ms =
     construct_with agent_trace_event_post_init
       \<lparr>te_sequence = int sequence, te_event_type = event_type, te_node = node, te_status = status,
        te_summary = summary, te_evidence_ids = evidence_ids, te_elapsed_ms = elapsed_ms\<rparr>"

definition event :: "agent_graph_state \<Rightarrow> string \<Rightarrow> agent_node \<Rightarrow> string \<Rightarrow> string \<Rightarrow> string list \<Rightarrow> rat \<Rightarrow>
    agent_trace_event result" where
  "event s = trace_event (length (gs_trace s))"

definition stop_state :: "agent_graph_state \<Rightarrow> termination_reason \<Rightarrow> string \<Rightarrow> agent_node \<Rightarrow>
    agent_graph_state result" where
  "stop_state s reason error_code node =
     and_then (event s ''termination'' node (termination_value reason)
         (''Investigation stopped: '' @ error_code @ ''.'') [] 0)
       (\<lambda>e. Inr (s\<lparr>gs_errors := py_unique (gs_errors s @ [error_code]), gs_partial := True,
          gs_termination := Some reason, gs_trace := gs_trace s @ [e]\<rparr>))"

text \<open>\<open>try: ... except AgentStopError as stop: return _stop_state(state, stop, node=node)\<close>.\<close>

definition catch_stop :: "agent_graph_state \<Rightarrow> agent_node \<Rightarrow> agent_graph_state guarded \<Rightarrow>
    budget_guard \<Rightarrow> exn + agent_graph_state \<times> budget_guard" where
  "catch_stop s node body g = (case body g of
      (Inr s', g') \<Rightarrow> Inr (s', g')
    | (Inl (Stop reason error_code), g') \<Rightarrow>
        and_then (stop_state s reason error_code node) (\<lambda>s'. Inr (s', g'))
    | (Inl (Crash e), _) \<Rightarrow> Inl e)"

subsection \<open>Provider nodes\<close>

record collecting =
  co_collected :: "evidence_reference list"
  co_missing :: "evidence_category list"
  co_errors :: "string list"
  co_trace :: "agent_trace_event list"

text \<open>The loop over \<open>result.evidence\<close> with the set \<open>known\<close> of identifiers.\<close>

fun collect_new :: "evidence_reference list \<Rightarrow> evidence_reference list \<Rightarrow> evidence_reference list" where
  "collect_new collected [] = collected"
| "collect_new collected (reference # rest) =
     (if er_evidence_id reference \<in> set (map er_evidence_id collected)
      then collect_new collected rest
      else collect_new (collected @ [reference]) rest)"

definition category_tuple :: "evidence_category list \<Rightarrow> evidence_category list" where
  "category_tuple missing = sort_key category_value (remdups missing)"

definition apply_tool_result :: "agent_node \<Rightarrow> tool_name \<Rightarrow> tool_result \<Rightarrow> collecting \<Rightarrow> collecting result" where
  "apply_tool_result node tool r acc =
     and_then (trace_event (length (co_trace acc)) ''tool'' node (tool_status_value (tr_status r))
         (tr_summary r) (map er_evidence_id (tr_evidence r)) 0)
       (\<lambda>e. Inr \<lparr>
          co_collected = collect_new (co_collected acc) (tr_evidence r),
          co_missing = (if tr_status r \<noteq> TOOL_COMPLETED then tool_category tool # co_missing acc
                        else co_missing acc),
          co_errors = (case tr_status r of
              TOOL_FAILED \<Rightarrow> co_errors acc @ (case tr_error_code r of None \<Rightarrow> [] | Some c \<Rightarrow> [c])
            | _ \<Rightarrow> co_errors acc),
          co_trace = co_trace acc @ [e]\<rparr>)"

fun tool_loop :: "(tool_name \<Rightarrow> tool_result result) \<Rightarrow> agent_node \<Rightarrow> tool_name list \<Rightarrow> collecting \<Rightarrow>
    collecting guarded" where
  "tool_loop read node [] acc = return_g acc"
| "tool_loop read node (tool # rest) acc =
     bind_g reserve_tool (\<lambda>_.
     bind_g (lift_g (read tool)) (\<lambda>r.
     bind_g (if tr_status r = TOOL_FAILED then record_tool_error else return_g ()) (\<lambda>_.
     bind_g (lift_g (apply_tool_result node tool r acc)) (\<lambda>acc'.
       tool_loop read node rest acc'))))"

definition build_node_input :: "agent_graph_state \<Rightarrow> agent_node \<Rightarrow> collecting \<Rightarrow> int \<times> int \<times> int \<Rightarrow>
    node_input result" where
  "build_node_input s node acc remaining = (case remaining of (remaining_input, remaining_output, remaining_cost) \<Rightarrow>
     construct_with node_input_post_init
       \<lparr>ni_node = node, ni_snapshot_id = rq_snapshot_id (gs_request s), ni_evidence = co_collected acc,
        ni_missing_categories = category_tuple (co_missing acc),
        ni_policy_recommendation = rd_recommendation (rq_policy_decision (gs_request s)),
        ni_max_input_tokens = remaining_input,
        ni_max_output_tokens = min remaining_output (max_output_tokens (rq_limits (gs_request s))),
        ni_max_cost_microusd = remaining_cost,
        ni_timeout_seconds = min (per_node_timeout_seconds (rq_limits (gs_request s)))
          (max_wall_time_seconds (rq_limits (gs_request s))),
        ni_cancelled = False\<rparr>)"

definition ask_provider :: "provider \<Rightarrow> agent_node \<Rightarrow> node_input \<Rightarrow> int \<times> int \<times> int \<Rightarrow> node_output guarded" where
  "ask_provider provider node node_input remaining =
     (if fst remaining \<le> 0 then stop_g LlmBudgetExceeded ''agent_llm_input_budget_exceeded''
      else bind_g (get_g (\<lambda>g. provider (u_llm_calls (g_usage g)) node_input)) (\<lambda>answer. case answer of
          None \<Rightarrow> stop_g ProviderFailure ''agent_provider_failure''
        | Some output \<Rightarrow>
            if no_node output \<noteq> node then stop_g ProviderFailure ''agent_provider_node_mismatch''
            else return_g output))"

definition cited_ids :: "node_output \<Rightarrow> string list" where
  "cited_ids output = py_unique (concat (map ac_evidence_ids (no_claims output)))"

text \<open>The tail of a provider node, once the provider has answered.\<close>

definition complete_node :: "agent_node \<Rightarrow> agent_graph_state \<Rightarrow> collecting \<Rightarrow> rat \<Rightarrow> node_output \<Rightarrow>
    agent_graph_state guarded" where
  "complete_node node s acc started out =
     bind_g (record_llm (no_usage out)) (\<lambda>_.
     bind_g (finish_node started) (\<lambda>elapsed_ms.
     bind_g (lift_g (trace_event (length (co_trace acc)) ''node'' node ''completed''
         (no_safe_summary out) (cited_ids out) elapsed_ms)) (\<lambda>e.
       return_g (s\<lparr>gs_collected := co_collected acc, gs_errors := py_unique (co_errors acc),
         gs_missing_categories := category_tuple (co_missing acc),
         gs_outputs := gs_outputs s @ [out], gs_trace := co_trace acc @ [e]\<rparr>))))"

definition consult_provider :: "provider \<Rightarrow> agent_node \<Rightarrow> agent_graph_state \<Rightarrow> collecting \<Rightarrow> rat \<Rightarrow>
    int \<times> int \<times> int \<Rightarrow> agent_graph_state guarded" where
  "consult_provider provider node s acc started remaining =
     bind_g (lift_g (build_node_input s node acc remaining)) (\<lambda>node_input.
     bind_g (ask_provider provider node node_input remaining) (\<lambda>out.
       complete_node node s acc started out))"

definition provider_body :: "investigation_tools \<Rightarrow> provider \<Rightarrow> agent_node \<Rightarrow> agent_graph_state \<Rightarrow>
    agent_graph_state guarded" where
  "provider_body ts provider node s =
     bind_g (enter_node node (signature s node)) (\<lambda>started.
     bind_g (case map_of NODE_TOOLS node of
         None \<Rightarrow> crash_g (KeyError (node_value node))
       | Some names \<Rightarrow> tool_loop (tool_read ts) node names
           \<lparr>co_collected = gs_collected s, co_missing = gs_missing_categories s,
            co_errors = gs_errors s, co_trace = gs_trace s\<rparr>) (\<lambda>acc.
     bind_g reserve_llm (\<lambda>remaining.
       consult_provider provider node s acc started remaining)))"

definition provider_node :: "investigation_tools \<Rightarrow> provider \<Rightarrow> agent_node \<Rightarrow> agent_graph_state \<Rightarrow>
    budget_guard \<Rightarrow> exn + agent_graph_state \<times> budget_guard" where
  "provider_node ts provider node s = catch_stop s node (provider_body ts provider node s)"

subsection \<open>Critic and composer\<close>

definition last_proposal :: "node_output list \<Rightarrow> recommendation" where
  "last_proposal outputs =
     (case filter (\<lambda>out. no_proposed_recommendation out \<noteq> None) (rev outputs) of
        [] \<Rightarrow> UNKNOWN
      | output # _ \<Rightarrow> the (no_proposed_recommendation output))"

definition build_draft :: "agent_graph_state \<Rightarrow> agent_draft result" where
  "build_draft s = construct_with agent_draft_post_init
     \<lparr>ad_proposed_recommendation = last_proposal (gs_outputs s),
      ad_claims = concat (map no_claims (gs_outputs s)),
      ad_missing_categories = gs_missing_categories s,
      ad_confidence = (if gs_missing_categories s \<noteq> [] \<or> gs_errors s \<noteq> [] then ''low'' else ''high''),
      ad_advisory_only = True, ad_auto_merge = False\<rparr>"

definition critic_body :: "agent_graph_state \<Rightarrow> agent_graph_state guarded" where
  "critic_body s =
     bind_g (enter_node EVIDENCE_CRITIC (signature s EVIDENCE_CRITIC)) (\<lambda>started.
     bind_g (lift_g (build_draft s)) (\<lambda>draft.
     bind_g (lift_g (critique_draft draft (gs_collected s) (rq_policy_decision (gs_request s)))) (\<lambda>critic.
     bind_g (finish_node started) (\<lambda>elapsed_ms.
     bind_g (lift_g (event s ''critic'' EVIDENCE_CRITIC (verdict_value (cr_verdict critic))
         (if cr_verdict critic = ACCEPT
          then ''Deterministic schema, citation, fact-entailment, and policy checks passed.''
          else ''Deterministic critic rejected the draft.'')
         (map er_evidence_id (gs_collected s)) elapsed_ms)) (\<lambda>e.
       if cr_verdict critic = REJECT then
         return_g (s\<lparr>gs_critic := Some critic, gs_draft := Some draft,
           gs_errors := py_unique (gs_errors s @ cr_reason_codes critic), gs_partial := True,
           gs_termination := Some CriticRejected, gs_trace := gs_trace s @ [e]\<rparr>)
       else
         return_g (s\<lparr>gs_critic := Some critic, gs_draft := Some draft,
           gs_trace := gs_trace s @ [e]\<rparr>))))))"

definition critic_node :: "agent_graph_state \<Rightarrow> budget_guard \<Rightarrow> exn + agent_graph_state \<times> budget_guard" where
  "critic_node s = catch_stop s EVIDENCE_CRITIC (critic_body s)"

definition composer_body :: "agent_graph_state \<Rightarrow> agent_graph_state guarded" where
  "composer_body s =
     bind_g (enter_node RECOMMENDATION_COMPOSER (signature s RECOMMENDATION_COMPOSER)) (\<lambda>started.
       let failed = (gs_errors s \<noteq> []);
           termination = (if failed then ToolFailure else Completed);
           status = (if failed then ''partial'' else ''completed'');
           summary = (if failed
             then ''Tool evidence was incomplete; the safe partial recommendation is UNKNOWN.''
             else ''Deterministic policy was preserved for human review.'')
       in bind_g (finish_node started) (\<lambda>elapsed_ms.
          bind_g (lift_g (event s ''result'' RECOMMENDATION_COMPOSER status summary
              (map er_evidence_id (gs_collected s)) elapsed_ms)) (\<lambda>e.
            return_g (s\<lparr>gs_partial := failed, gs_termination := Some termination,
              gs_trace := gs_trace s @ [e]\<rparr>))))"

definition composer_node :: "agent_graph_state \<Rightarrow> budget_guard \<Rightarrow> exn + agent_graph_state \<times> budget_guard" where
  "composer_node s = catch_stop s RECOMMENDATION_COMPOSER (composer_body s)"

subsection \<open>Edges and the whole run\<close>

fun run_node :: "investigation_tools \<Rightarrow> provider \<Rightarrow> agent_node \<Rightarrow> agent_graph_state \<times> budget_guard \<Rightarrow>
    exn + agent_graph_state \<times> budget_guard" where
  "run_node ts provider EVIDENCE_CRITIC (s, g) = critic_node s g"
| "run_node ts provider RECOMMENDATION_COMPOSER (s, g) = composer_node s g"
| "run_node ts provider node (s, g) = provider_node ts provider node s g"

text \<open>\<open>continue_or_end following s\<close>: the \<open>continue\<close> target, or \<open>None\<close> for \<open>END\<close>.\<close>

definition continue_or_end :: "agent_node \<Rightarrow> agent_graph_state \<Rightarrow> agent_node option" where
  "continue_or_end following s = (if gs_termination s \<noteq> None then None else Some following)"

definition after_tests :: "agent_graph_state \<Rightarrow> agent_node option" where
  "after_tests s =
     (if gs_termination s \<noteq> None then None
      else if list_ex (\<lambda>e. er_category e = CAT_EXECUTION) (rq_evidence (gs_request s))
      then Some EXECUTION_READER else Some EVIDENCE_CRITIC)"

fun next_node :: "agent_node \<Rightarrow> agent_graph_state \<times> budget_guard \<Rightarrow> agent_node option" where
  "next_node CHANGE_ANALYST (s, g) = continue_or_end HISTORICAL_INVESTIGATOR s"
| "next_node HISTORICAL_INVESTIGATOR (s, g) = continue_or_end RISK_SYNTHESIZER s"
| "next_node RISK_SYNTHESIZER (s, g) = continue_or_end TEST_PLANNER s"
| "next_node TEST_PLANNER (s, g) = after_tests s"
| "next_node EXECUTION_READER (s, g) = continue_or_end EVIDENCE_CRITIC s"
| "next_node EVIDENCE_CRITIC (s, g) = continue_or_end RECOMMENDATION_COMPOSER s"
| "next_node RECOMMENDATION_COMPOSER (s, g) = None"

text \<open>
  \<open>edge_run node route k n s\<close>: the run that starts at node \<open>n\<close> and follows the edges, when it ends
  or raises within \<open>k\<close> nodes. A graph engine follows the edges when it returns that outcome for
  every recursion limit above the number of nodes; nothing is said of longer runs.
\<close>

fun edge_run :: "('n \<Rightarrow> 's \<Rightarrow> exn + 's) \<Rightarrow> ('n \<Rightarrow> 's \<Rightarrow> 'n option) \<Rightarrow> nat \<Rightarrow> 'n \<Rightarrow> 's \<Rightarrow>
    (exn + 's) option" where
  "edge_run node route 0 n s = None"
| "edge_run node route (Suc k) n s = (case node n s of
      Inl e \<Rightarrow> Some (Inl e)
    | Inr s' \<Rightarrow> (case route n s' of None \<Rightarrow> Some (Inr s') | Some n' \<Rightarrow> edge_run node route k n' s'))"

type_synonym graph_world = "agent_graph_state \<times> budget_guard"

type_synonym graph_engine = "(agent_node \<Rightarrow> graph_world \<Rightarrow> exn + graph_world) \<Rightarrow>
  (agent_node \<Rightarrow> graph_world \<Rightarrow> agent_node option) \<Rightarrow> nat \<Rightarrow> agent_node \<Rightarrow> graph_world \<Rightarrow> exn + graph_world"

definition follows_edges :: "graph_engine \<Rightarrow> bool" where
  "follows_edges engine \<longleftrightarrow> (\<forall>node route limit k start s r.
     edge_run node route k start s = Some r \<longrightarrow> k < limit \<longrightarrow> engine node route limit start s = r)"

definition initial_state :: "investigation_request \<Rightarrow> agent_graph_state" where
  "initial_state request = \<lparr>gs_request = request, gs_collected = [], gs_outputs = [],
     gs_missing_categories = [], gs_trace = [], gs_errors = [], gs_draft = None, gs_critic = None,
     gs_termination = None, gs_partial = False\<rparr>"

definition safe_recommendation :: "agent_graph_state \<Rightarrow> recommendation" where
  "safe_recommendation s =
     (let policy = rd_recommendation (rq_policy_decision (gs_request s)) in
      if gs_termination s = Some Completed then policy
      else if policy = HOLD then HOLD else UNKNOWN)"

definition investigation_guard :: "investigation_request \<Rightarrow> (nat \<Rightarrow> bool) \<Rightarrow> (nat \<Rightarrow> rat) \<Rightarrow> budget_guard" where
  "investigation_guard request cancellation clock =
     guard_init (rq_limits request) (\<lambda>i. rq_cancelled request \<or> cancellation i) clock"

definition run_investigation :: "graph_engine \<Rightarrow> float_text \<Rightarrow> investigation_request \<Rightarrow>
    investigation_tools \<Rightarrow> provider \<Rightarrow> (nat \<Rightarrow> bool) \<Rightarrow> (nat \<Rightarrow> rat) \<Rightarrow> investigation_result result" where
  "run_investigation engine float_text request ts provider cancellation clock =
     and_then (engine (run_node ts provider) next_node (nat (max_steps (rq_limits request)) + 2)
         CHANGE_ANALYST (initial_state request, investigation_guard request cancellation clock))
       (\<lambda>(final, guard).
          let termination = (case gs_termination final of None \<Rightarrow> ProviderFailure | Some t \<Rightarrow> t);
              errors = (if gs_termination final = None
                then py_unique (gs_errors final @ [''agent_missing_termination'']) else gs_errors final)
          in construct_with investigation_result_post_init
            \<lparr>rs_run_id = rq_run_id request, rs_snapshot_id = rq_snapshot_id request,
             rs_recommendation = safe_recommendation final, rs_termination_reason = termination,
             rs_partial = (termination \<noteq> Completed),
             rs_evidence_ids = map er_evidence_id (gs_collected final),
             rs_draft = gs_draft final, rs_critic = gs_critic final, rs_trace = gs_trace final,
             rs_usage = g_usage guard, rs_error_codes = errors,
             rs_policy_decision_sha256 = decision_sha256 (rq_policy_decision request),
             rs_request_sha256 = request_sha256 float_text request,
             rs_graph_version = AGENT_GRAPH_VERSION, rs_state_schema_version = AGENT_STATE_SCHEMA_VERSION,
             rs_advisory_only = True, rs_auto_merge = False\<rparr>)"

end
