(* ===== verification/AgentRun.thy ===== *)
theory AgentRun
  imports AgentGraph
begin

section \<open>Runs of the bounded investigation\<close>

text \<open>
  The interface that the tools offer to the nodes (locale \<open>evidence_tools\<close>, interpreted on
  \<open>tool_read\<close>), the invariant of the graph's state at every node, the three kinds of node, and the
  run from \<open>START\<close> to \<open>END\<close>. The properties of \<open>run_investigation\<close> follow from one lemma,
  \<open>run_investigation_returns\<close>: the run ends within the recursion limit in a state with \<open>final_ok\<close>.
\<close>

subsection \<open>The interface of the tools\<close>

text \<open>
  What the provider nodes rely on: a read never raises, returns only authorised evidence without
  duplicates, and reports a failure exactly for a failing tool, with its error code.
\<close>

definition failure_code :: "tool_name \<Rightarrow> string" where
  "failure_code t = tool_value t @ ''_failed''"

definition authorised_ok :: "evidence_reference list \<Rightarrow> bool" where
  "authorised_ok evidence = (length evidence \<le> 64 \<and> distinct (map er_evidence_id evidence) \<and>
     list_all (\<lambda>e. evidence_reference_post_init e = None) evidence)"

definition trace_ok :: "agent_trace_event list \<Rightarrow> bool" where
  "trace_ok trace = (map te_sequence trace = map int [0..<length trace])"

definition evidence_ok :: "evidence_reference list \<Rightarrow> evidence_reference list \<Rightarrow> bool" where
  "evidence_ok authorised collected =
     (set collected \<subseteq> set authorised \<and> distinct (map er_evidence_id collected))"

definition collecting_ok :: "evidence_reference list \<Rightarrow> collecting \<Rightarrow> bool" where
  "collecting_ok authorised acc = (evidence_ok authorised (co_collected acc) \<and>
     trace_ok (co_trace acc) \<and> set (co_errors acc) \<subseteq> range failure_code)"

lemma trace_ok_snoc: "trace_ok trace \<Longrightarrow> te_sequence e = int (length trace) \<Longrightarrow> trace_ok (trace @ [e])"
  by (simp add: trace_ok_def)

lemma collect_new_set: "set (collect_new collected new) \<subseteq> set collected \<union> set new"
  by (induction new arbitrary: collected) (auto, fastforce)

lemma collect_new_ids:
  "set (map er_evidence_id (collect_new collected new)) = er_evidence_id ` (set collected \<union> set new)"
  by (induction new arbitrary: collected) (auto simp: image_Un)

lemma collect_new_distinct:
  "distinct (map er_evidence_id collected) \<Longrightarrow> distinct (map er_evidence_id (collect_new collected new))"
  by (induction new arbitrary: collected) auto

lemma evidence_ok_collect:
  "evidence_ok authorised collected \<Longrightarrow> set new \<subseteq> set authorised \<Longrightarrow>
     evidence_ok authorised (collect_new collected new)"
  using collect_new_set [of collected new] collect_new_distinct [of collected new]
  by (auto simp: evidence_ok_def)

lemma authorised_identifiers:
  assumes "authorised_ok authorised" "evidence_ok authorised collected" "64 \<le> n"
  shows "are_identifiers n (map er_evidence_id collected)"
proof -
  have "length collected \<le> length authorised"
    using assms by (metis authorised_ok_def distinct_card distinct_map evidence_ok_def card_mono
        finite_set)
  moreover have "is_identifier 192 (er_evidence_id e)" if "e \<in> set collected" for e
    using assms that by (auto simp: authorised_ok_def evidence_ok_def list_all_iff
        evidence_reference_post_init_def)
  ultimately show ?thesis
    using assms by (auto simp: are_identifiers_def list_all_iff evidence_ok_def authorised_ok_def)
qed

lemma trace_event_ok:
  assumes "is_identifier 32 ty" "is_identifier 64 st" "is_text 1000 su" "are_identifiers 64 ids" "0 \<le> ms"
  shows "\<exists>e. trace_event n ty node st su ids ms = Inr e \<and> te_sequence e = int n"
  using assms by (simp add: trace_event_def agent_trace_event_post_init_def)

locale evidence_tools =
  fixes read :: "tool_name \<Rightarrow> tool_result result"
    and authorised :: "evidence_reference list"
    and failing :: "tool_name list"
  assumes read_total: "\<exists>r. read t = Inr r"
    and read_authorised: "read t = Inr r \<Longrightarrow> set (tr_evidence r) \<subseteq> set authorised"
    and read_distinct: "read t = Inr r \<Longrightarrow> distinct (map er_evidence_id authorised) \<Longrightarrow>
      distinct (map er_evidence_id (tr_evidence r))"
    and read_failed: "read t = Inr r \<Longrightarrow> tr_status r = TOOL_FAILED \<longleftrightarrow> t \<in> set failing"
    and read_error: "read t = Inr r \<Longrightarrow>
      tr_error_code r = (if tr_status r = TOOL_FAILED then Some (failure_code t) else None)"
    and read_summary: "read t = Inr r \<Longrightarrow> length authorised \<le> 100 \<Longrightarrow> is_text 1000 (tr_summary r)"
begin

lemma tool_result_applies:
  assumes "read t = Inr r" "authorised_ok authorised" "collecting_ok authorised acc"
  shows "\<exists>acc'. apply_tool_result node t r acc = Inr acc' \<and> collecting_ok authorised acc' \<and>
    set (co_errors acc) \<subseteq> set (co_errors acc') \<and> (t \<in> set failing \<longrightarrow> failure_code t \<in> set (co_errors acc'))"
proof -
  have new: "evidence_ok authorised (tr_evidence r)"
    using assms read_authorised read_distinct by (simp add: evidence_ok_def authorised_ok_def)
  have "is_identifier 32 ''tool''" "is_identifier 64 (tool_status_value (tr_status r))"
    by (cases "tr_status r"; simp add: is_identifier_def isascii_def has_control_def code_def)+
  then obtain e where e: "trace_event (length (co_trace acc)) ''tool'' node
      (tool_status_value (tr_status r)) (tr_summary r) (map er_evidence_id (tr_evidence r)) 0 = Inr e"
      "te_sequence e = int (length (co_trace acc))"
    using trace_event_ok read_summary [OF assms(1)] assms(2) authorised_identifiers [OF assms(2) new]
    by (fastforce simp: authorised_ok_def)
  show ?thesis
    using assms(3) e read_failed [OF assms(1)] read_error [OF assms(1)]
    by (auto simp: apply_tool_result_def collecting_ok_def trace_ok_snoc
        evidence_ok_collect read_authorised [OF assms(1)] split: tool_status.splits)
qed

lemma tool_loop_safe:
  assumes "authorised_ok authorised" "collecting_ok authorised acc"
  shows "safe (stage k l (\<lambda>v. u_steps v = c)) (tool_loop read node ts acc) (\<lambda>acc' g.
    stage k l (\<lambda>v. u_steps v = c) g \<and> collecting_ok authorised acc' \<and>
    set (co_errors acc) \<subseteq> set (co_errors acc') \<and>
    (\<forall>t \<in> set ts. t \<in> set failing \<longrightarrow> failure_code t \<in> set (co_errors acc')))"
  using assms(2)
proof (induction ts arbitrary: acc)
  case Nil
  then show ?case by (simp add: safe_return)
next
  case (Cons t ts)
  obtain r where r: "read t = Inr r" using read_total by blast
  obtain acc' where acc': "apply_tool_result node t r acc = Inr acc'" "collecting_ok authorised acc'"
      "set (co_errors acc) \<subseteq> set (co_errors acc')"
      "t \<in> set failing \<longrightarrow> failure_code t \<in> set (co_errors acc')"
    using tool_result_applies [OF r assms(1) Cons.prems] by blast
  let ?steps = "\<lambda>v. u_steps v = c"
  let ?reserved = "\<lambda>v. u_steps v = c \<and> u_tool_errors v < u_tool_calls v"
  have reserve: "safe (stage k l ?steps) reserve_tool (\<lambda>_. stage k l ?reserved)"
    by (rule safe_weaken [OF reserve_tool_safe]) (auto simp: stage_def)
  have count_error: "safe (stage k l ?reserved)
      (if tr_status r = TOOL_FAILED then record_tool_error else return_g ()) (\<lambda>_. stage k l ?steps)"
  proof (rule safe_if)
    show "safe (stage k l ?reserved) record_tool_error (\<lambda>_. stage k l ?steps)"
      by (rule safe_weaken [OF record_tool_error_safe [where u = ?reserved]]) (auto simp: stage_def)
    show "safe (stage k l ?reserved) (return_g ()) (\<lambda>_. stage k l ?steps)"
      by (rule safe_return) (simp add: stage_def)
  qed
  have rest: "safe (stage k l ?steps) (tool_loop read node ts acc') (\<lambda>acc'' g.
    stage k l ?steps g \<and> collecting_ok authorised acc'' \<and> set (co_errors acc) \<subseteq> set (co_errors acc'') \<and>
    (\<forall>t' \<in> set (t # ts). t' \<in> set failing \<longrightarrow> failure_code t' \<in> set (co_errors acc'')))"
    by (rule safe_weaken [OF Cons.IH [OF acc'(2)]]) (use acc'(3,4) in auto)
  have "tool_loop read node (t # ts) acc =
     bind_g reserve_tool (\<lambda>_. bind_g (return_g r) (\<lambda>r.
       bind_g (if tr_status r = TOOL_FAILED then record_tool_error else return_g ()) (\<lambda>_.
       bind_g (lift_g (apply_tool_result node t r acc)) (\<lambda>acc'. tool_loop read node ts acc'))))"
    by (simp add: r lift_g_def)
  also have "\<dots> = bind_g reserve_tool (\<lambda>_.
       bind_g (if tr_status r = TOOL_FAILED then record_tool_error else return_g ()) (\<lambda>_.
         tool_loop read node ts acc'))"
    by (simp add: acc'(1) lift_g_def bind_return)
  finally show ?case
    using safe_bind [OF reserve safe_bind [OF count_error rest]] by simp
qed

end

lemma has_nul_append [simp]: "has_nul (s @ t) \<longleftrightarrow> has_nul s \<or> has_nul t"
  by (simp add: has_nul_def)

lemma digit_char_code: "d < 10 \<Longrightarrow> code (char_of (48 + d)) = 48 + d"
  by (simp add: code_def)

lemma decimal_digits_no_nul [simp]: "\<not> has_nul (decimal_digits n)"
proof (induction n rule: decimal_digits.induct)
  case (1 n)
  have "n mod 10 < 10" by simp
  with 1 show ?case
    by (subst decimal_digits.simps) (auto simp: has_nul_def digit_char_code)
qed

lemma length_decimal_digits: "length (decimal_digits n) \<le> n + 1"
proof (induction n rule: decimal_digits.induct)
  case (1 n)
  then show ?case by (subst decimal_digits.simps) auto
qed

lemma has_nul_Cons [simp]: "has_nul (c # s) \<longleftrightarrow> code c = 0 \<or> has_nul s"
  by (simp add: has_nul_def)

lemma has_nul_Nil [simp]: "\<not> has_nul []"
  by (simp add: has_nul_def)

lemma count_summary_text:
  assumes "n \<le> 100"
  shows "is_text 1000 (tool_value tool @ '' returned '' @ decimal_digits n @
    '' authorized reference(s); truncated='' @ lower_bool b @ ''.'')"
proof -
  have "length (tool_value tool) \<le> 22" "\<not> has_nul (tool_value tool)"
    by (cases tool; simp add: code_def)+
  moreover have "length (lower_bool b) \<le> 5" "\<not> has_nul (lower_bool b)"
    by (simp_all add: lower_bool_def code_def)
  moreover have "length (decimal_digits n) \<le> 101"
    using length_decimal_digits [of n] assms by simp
  ultimately show ?thesis by (simp add: is_text_def code_def)
qed

lemma tool_summary_text:
  assumes "tool_read ts tool = Inr r" "length (it_evidence ts) \<le> 100"
  shows "is_text 1000 (tr_summary r)"
proof -
  let ?matching = "filter (\<lambda>e. er_category e = tool_category tool) (it_evidence ts)"
  have "length ?matching \<le> 100"
    using assms(2) length_filter_le le_trans by blast
  then have n: "length (take (nat (it_limit ts)) ?matching) \<le> 100" by simp
  have "is_text 1000 (tool_value tool @ '' failed with a safe provider-neutral status.'')"
    "is_text 1000 (tool_value tool @ '' returned no authorized evidence.'')"
    by (cases tool; simp add: is_text_def code_def)+
  then show ?thesis
    using assms(1) count_summary_text [OF n, of tool]
    unfolding tool_read_def Let_def
    by (auto simp only: construct_with_Inr tool_result.simps split: if_splits)
qed

interpretation bounded_tools: evidence_tools "tool_read ts" "it_evidence ts" "it_failed_tools ts" for ts
  by unfold_locales (auto simp: tool_read_total tool_read_evidence(1) tool_read_distinct
    tool_read_status failure_code_def tool_summary_text dest: tool_read_evidence(1))

subsection \<open>The invariant of the nodes\<close>

definition good_output :: "node_output \<Rightarrow> bool" where
  "good_output out =
     (constructed_output out \<and> length (no_claims out) \<le> 16 \<and> length (cited_ids out) \<le> 64)"

definition good_provider :: "provider \<Rightarrow> bool" where
  "good_provider provider \<longleftrightarrow> (\<forall>n input out. provider n input = Some out \<longrightarrow> good_output out)"

definition failures_noted :: "investigation_tools \<Rightarrow> agent_node list \<Rightarrow> string list \<Rightarrow> bool" where
  "failures_noted ts passed errors \<longleftrightarrow> (\<forall>n \<in> set passed. \<forall>t \<in> set (the (map_of NODE_TOOLS n)).
     t \<in> set (it_failed_tools ts) \<longrightarrow> failure_code t \<in> set errors)"

definition node_inv :: "investigation_tools \<Rightarrow> investigation_request \<Rightarrow> agent_node list \<Rightarrow>
    agent_graph_state \<Rightarrow> bool" where
  "node_inv ts rq passed s \<longleftrightarrow>
     gs_request s = rq \<and> gs_termination s = None \<and> evidence_ok (it_evidence ts) (gs_collected s) \<and>
     trace_ok (gs_trace s) \<and> set (gs_errors s) \<subseteq> range failure_code \<and> distinct (gs_errors s) \<and>
     length (gs_outputs s) \<le> length passed \<and> list_all good_output (gs_outputs s) \<and>
     distinct (gs_missing_categories s) \<and> failures_noted ts passed (gs_errors s)"

definition setting_ok :: "investigation_tools \<Rightarrow> investigation_request \<Rightarrow> bool" where
  "setting_ok ts rq \<longleftrightarrow> constructed_request rq \<and> authorised_ok (it_evidence ts)"

lemma category_tuple_distinct [simp]: "distinct (category_tuple missing)"
  by (simp add: category_tuple_def)

lemma category_tuple_length [simp]: "\<not> 6 < length (category_tuple missing)"
proof -
  let ?all = "[CAT_FEATURE, CAT_GRAPH, CAT_RETRIEVAL, CAT_RISK, CAT_TEST_RESULT, CAT_EXECUTION]"
  have "x \<in> set ?all" for x by (cases x) simp_all
  then have "card (set (category_tuple missing)) \<le> card (set ?all)"
    by (intro card_mono) auto
  also have "card (set ?all) = 6" by simp
  finally show ?thesis by (simp add: distinct_card)
qed

lemma setting_limits: "setting_ok ts rq \<Longrightarrow> agent_limits_post_init (rq_limits rq) = None"
  by (simp add: setting_ok_def constructed_request_def)

lemma node_input_ok:
  assumes "setting_ok ts rq" "gs_request s = rq" "evidence_ok (it_evidence ts) (co_collected acc)"
    "remaining_ok (rq_limits rq) remaining"
  shows "\<exists>n. build_node_input s node acc remaining = Inr n"
proof -
  have "are_identifiers 64 (map er_evidence_id (co_collected acc))"
    using authorised_identifiers assms(1,3) by (auto simp: setting_ok_def)
  then show ?thesis
    using assms
    by (cases remaining)
      (auto simp: build_node_input_def node_input_post_init_def setting_ok_def constructed_request_def
        investigation_request_post_init_def agent_limits_post_init_def remaining_ok_def
        are_identifiers_def min_def)
qed

lemma cited_identifiers: "good_output out \<Longrightarrow> are_identifiers 64 (cited_ids out)"
  by (auto simp: good_output_def constructed_output_def are_identifiers_def cited_ids_def
      list_all_iff agent_claim_post_init_def)

lemma ask_provider_safe:
  assumes "good_provider provider" "1 \<le> fst remaining"
  shows "safe (stage k l u) (ask_provider provider node i remaining)
    (\<lambda>out g. stage k l u g \<and> good_output out)"
proof -
  have answer: "safe (stage k l u) (get_g (\<lambda>g. provider (u_llm_calls (g_usage g)) i))
      (\<lambda>a g. stage k l u g \<and> (\<forall>out. a = Some out \<longrightarrow> good_output out))"
    using assms(1) by (auto intro: safe_get simp: good_provider_def)
  have use: "safe (\<lambda>g. stage k l u g \<and> (\<forall>out. a = Some out \<longrightarrow> good_output out))
      (case a of None \<Rightarrow> stop_g ProviderFailure ''agent_provider_failure''
       | Some output \<Rightarrow> if no_node output \<noteq> node
           then stop_g ProviderFailure ''agent_provider_node_mismatch'' else return_g output)
      (\<lambda>out g. stage k l u g \<and> good_output out)" for a
    by (cases a) (auto intro!: safe_stop safe_return simp: guard_stops_def)
  show ?thesis
    using assms(2) safe_bind [OF answer use] by (simp add: ask_provider_def)
qed

lemma node_event_ok:
  assumes "good_output out" "0 \<le> ms"
  shows "\<exists>e. trace_event n ''node'' node ''completed'' (no_safe_summary out) (cited_ids out) ms = Inr e \<and>
    te_sequence e = int n"
  using assms cited_identifiers [OF assms(1)]
  by (intro trace_event_ok)
    (simp_all add: good_output_def constructed_output_def node_output_post_init_def
      is_identifier_def isascii_def has_control_def code_def)

abbreviation at_step :: "nat \<Rightarrow> agent_limits \<Rightarrow> int \<Rightarrow> budget_guard \<Rightarrow> bool" where
  "at_step k l c \<equiv> stage k l (\<lambda>v. u_steps v = c)"

lemma enter_at_step:
  assumes "node_position node < k"
  shows "safe (at_step (node_position node) l c) (enter_node node sg) (\<lambda>_. at_step k l (c + 1))"
  by (rule safe_weaken [OF enter_node_safe [OF assms, where u = "\<lambda>v. u_steps v = c"]])
    (auto simp: stage_def)

definition acc_inv :: "investigation_tools \<Rightarrow> agent_node list \<Rightarrow> collecting \<Rightarrow> bool" where
  "acc_inv ts passed acc \<longleftrightarrow> collecting_ok (it_evidence ts) acc \<and> failures_noted ts passed (co_errors acc)"

lemma complete_node_safe:
  assumes "node_inv ts rq passed s" "acc_inv ts (node # passed) acc" "good_output out"
  shows "safe (at_step k l c) (complete_node node s acc started out)
    (\<lambda>s' g. at_step k l c g \<and> node_inv ts rq (node # passed) s')"
  unfolding complete_node_def
proof (rule safe_bind, rule safe_weaken [OF record_llm_safe [where u = "\<lambda>v. u_steps v = c"]])
  show "node_provider_usage_post_init (no_usage out) = None"
    using assms(3) by (simp add: good_output_def constructed_output_def)
  show "at_step k l c g \<Longrightarrow> at_step k l c g" for g .
  show "stage k l (\<lambda>v. \<exists>w. u_steps w = c \<and> v = add_llm_usage (no_usage out) w) g \<Longrightarrow> at_step k l c g" for g
    by (auto simp: stage_def add_llm_usage_def)
  let ?tail = "\<lambda>ms. bind_g (lift_g (trace_event (length (co_trace acc)) ''node'' node ''completed''
         (no_safe_summary out) (cited_ids out) ms)) (\<lambda>e.
       return_g (s\<lparr>gs_collected := co_collected acc, gs_errors := py_unique (co_errors acc),
         gs_missing_categories := category_tuple (co_missing acc),
         gs_outputs := gs_outputs s @ [out], gs_trace := co_trace acc @ [e]\<rparr>))"
  have "safe (\<lambda>g. at_step k l c g \<and> 0 \<le> ms) (?tail ms)
      (\<lambda>s' g. at_step k l c g \<and> node_inv ts rq (node # passed) s')" for ms
  proof (cases "0 \<le> ms")
    case True
    then obtain e where e: "trace_event (length (co_trace acc)) ''node'' node ''completed''
        (no_safe_summary out) (cited_ids out) ms = Inr e" "te_sequence e = int (length (co_trace acc))"
      using node_event_ok [OF assms(3)] by blast
    have "node_inv ts rq (node # passed) (s\<lparr>gs_collected := co_collected acc,
        gs_errors := py_unique (co_errors acc), gs_missing_categories := category_tuple (co_missing acc),
        gs_outputs := gs_outputs s @ [out], gs_trace := co_trace acc @ [e]\<rparr>)"
      using assms e(2)
      by (auto simp: node_inv_def acc_inv_def collecting_ok_def trace_ok_snoc failures_noted_def)
    then show ?thesis by (simp add: e(1)) (rule safe_return, simp)
  qed (simp add: safe_def)
  then show "safe (at_step k l c) (bind_g (finish_node started) ?tail)
      (\<lambda>s' g. at_step k l c g \<and> node_inv ts rq (node # passed) s')"
    by (rule safe_bind [OF finish_node_safe])
qed

lemma safe_conj: "(b \<Longrightarrow> safe Q m P) \<Longrightarrow> safe (\<lambda>g. Q g \<and> b) m P"
  by (cases b) (simp_all add: safe_def)

lemma consult_provider_safe:
  assumes "setting_ok ts rq" "good_provider provider" "node_inv ts rq passed s"
    "acc_inv ts (node # passed) acc" "remaining_ok (rq_limits rq) remaining"
  shows "safe (at_step k l c) (consult_provider provider node s acc started remaining)
    (\<lambda>s' g. at_step k l c g \<and> node_inv ts rq (node # passed) s')"
proof -
  have "evidence_ok (it_evidence ts) (co_collected acc)" "gs_request s = rq"
    using assms by (simp_all add: acc_inv_def collecting_ok_def node_inv_def)
  then obtain i where i: "build_node_input s node acc remaining = Inr i"
    using node_input_ok assms(1,5) by blast
  have "1 \<le> fst remaining" using assms(5) by (cases remaining) (simp add: remaining_ok_def)
  note ask = ask_provider_safe [OF assms(2) this, of k l "\<lambda>v. u_steps v = c" node i]
  show ?thesis
    using safe_bind [OF ask safe_conj [OF complete_node_safe [OF assms(3,4)]]]
    by (simp add: consult_provider_def i)
qed

lemma provider_body_safe:
  assumes "setting_ok ts rq" "good_provider provider" "node_inv ts rq passed s"
    "node_position node < 5" "l = rq_limits rq"
  shows "safe (at_step (node_position node) l c) (provider_body ts provider node s)
    (\<lambda>s' g. at_step (Suc (node_position node)) l (c + 1) g \<and> node_inv ts rq (node # passed) s')"
proof -
  let ?here = "at_step (Suc (node_position node)) l (c + 1)"
  define acc0 where "acc0 = \<lparr>co_collected = gs_collected s, co_missing = gs_missing_categories s,
    co_errors = gs_errors s, co_trace = gs_trace s\<rparr>"
  obtain names where names: "map_of NODE_TOOLS node = Some names"
    using assms(4) by (cases node) (simp_all add: NODE_TOOLS_def)
  have auth: "authorised_ok (it_evidence ts)" using assms(1) by (simp add: setting_ok_def)
  have acc0: "collecting_ok (it_evidence ts) acc0"
    using assms(3) by (simp add: collecting_ok_def node_inv_def acc0_def)
  have tools: "safe ?here (tool_loop (tool_read ts) node names acc0)
      (\<lambda>acc g. ?here g \<and> acc_inv ts (node # passed) acc)"
    by (rule safe_weaken [OF bounded_tools.tool_loop_safe [OF auth acc0]])
      (use assms(3) names in \<open>auto simp: acc_inv_def failures_noted_def node_inv_def acc0_def\<close>)
  have reserve: "safe ?here reserve_llm (\<lambda>r g. ?here g \<and> remaining_ok l r)"
    by (rule safe_weaken [OF reserve_llm_safe [where u = "\<lambda>v. u_steps v = c + 1"]])
      (auto simp: stage_def)
  have consult: "safe ?here (bind_g reserve_llm (consult_provider provider node s acc started))
      (\<lambda>s' g. ?here g \<and> node_inv ts rq (node # passed) s')" if "acc_inv ts (node # passed) acc"
      for acc started
    by (rule safe_bind [OF reserve safe_conj [OF consult_provider_safe [OF assms(1-3) that]]])
      (simp add: assms(5))
  show ?thesis
    using safe_bind [OF enter_at_step safe_bind [OF tools safe_conj [OF consult]]]
    by (simp add: provider_body_def names acc0_def)
qed

subsection \<open>Stopping, criticising, composing\<close>

lemma stop_state_ok:
  assumes "(reason, error_code) \<in> set guard_stops"
  shows "\<exists>e. te_sequence e = int (length (gs_trace s)) \<and> stop_state s reason error_code node =
    Inr (s\<lparr>gs_errors := py_unique (gs_errors s @ [error_code]), gs_partial := True,
      gs_termination := Some reason, gs_trace := gs_trace s @ [e]\<rparr>)"
proof -
  have "is_identifier 32 ''termination''" "is_identifier 64 (termination_value reason)"
    by (simp add: is_identifier_def isascii_def has_control_def code_def)
      (cases reason; simp add: is_identifier_def isascii_def has_control_def code_def)
  moreover have "is_text 1000 (''Investigation stopped: '' @ error_code @ ''.'')"
    using assms by (auto simp: guard_stops_def is_text_def code_def)
  moreover have "are_identifiers 64 []" by (simp add: are_identifiers_def)
  ultimately obtain e where "event s ''termination'' node (termination_value reason)
      (''Investigation stopped: '' @ error_code @ ''.'') [] 0 = Inr e"
      "te_sequence e = int (length (gs_trace s))"
    unfolding event_def using trace_event_ok by (metis order_refl)
  then show ?thesis by (auto simp: stop_state_def)
qed

lemma catch_stop_ok:
  assumes "safe Q body P" "running g" "Q g"
  obtains (finished) s' g' where "catch_stop s node body g = Inr (s', g')" "same_frame g g'" "running g'" "P s' g'"
  | (stopped) reason error_code e g' where "(reason, error_code) \<in> set guard_stops"
      "te_sequence e = int (length (gs_trace s))" "same_frame g g'" "budget_inv g'"
      "over_llm_limits g' \<longrightarrow> reason = LlmBudgetExceeded"
      "catch_stop s node body g = Inr (s\<lparr>gs_errors := py_unique (gs_errors s @ [error_code]),
         gs_partial := True, gs_termination := Some reason, gs_trace := gs_trace s @ [e]\<rparr>, g')"
proof (cases "body g")
  case (Pair r g')
  have body: "same_frame g g'" "case r of Inl x \<Rightarrow> stopped_ok x g' | Inr s' \<Rightarrow> running g' \<and> P s' g'"
    using assms(1) [unfolded safe_def, rule_format, OF assms(2,3)] Pair by (auto split: sum.splits)
  show thesis
  proof (cases r)
    case (Inr s')
    then show thesis using body Pair finished by (simp add: catch_stop_def)
  next
    case (Inl x)
    then obtain reason error_code where x: "x = Stop reason error_code" "(reason, error_code) \<in> set guard_stops"
      using body(2) by (cases x) (auto simp: stopped_ok_def)
    then show thesis
      using stop_state_ok [OF x(2), of s node] body Pair Inl stopped by (auto simp: catch_stop_def stopped_ok_def)
  qed
qed

lemma running_under: "running g \<Longrightarrow> \<not> over_llm_limits g"
  by (simp add: running_def)

text \<open>What a run of the graph ends with.\<close>

definition consulted :: "investigation_request \<Rightarrow> agent_node list" where
  "consulted rq = [CHANGE_ANALYST, HISTORICAL_INVESTIGATOR, RISK_SYNTHESIZER, TEST_PLANNER] @
     (if list_ex (\<lambda>e. er_category e = CAT_EXECUTION) (rq_evidence rq) then [EXECUTION_READER] else [])"

definition accepted :: "investigation_request \<Rightarrow> agent_graph_state \<Rightarrow> bool" where
  "accepted rq s \<longleftrightarrow> (\<exists>d c. gs_draft s = Some d \<and> gs_critic s = Some c \<and> cr_verdict c = ACCEPT \<and>
     critique_draft d (gs_collected s) (rq_policy_decision rq) = Inr c)"

definition final_ok :: "investigation_tools \<Rightarrow> investigation_request \<Rightarrow> agent_graph_state \<Rightarrow>
    budget_guard \<Rightarrow> bool" where
  "final_ok ts rq s g \<longleftrightarrow>
     gs_request s = rq \<and> evidence_ok (it_evidence ts) (gs_collected s) \<and> trace_ok (gs_trace s) \<and>
     are_identifiers 32 (gs_errors s) \<and> budget_inv g \<and> g_limits g = rq_limits rq \<and>
     (\<exists>t. gs_termination s = Some t \<and> t \<noteq> LoopDetected \<and> (over_llm_limits g \<longrightarrow> t = LlmBudgetExceeded) \<and>
        (t = Completed \<longrightarrow> running g \<and> gs_errors s = [] \<and> accepted rq s \<and>
           failures_noted ts (consulted rq) []))"

lemma error_codes_ok:
  assumes "set errors \<subseteq> range failure_code \<union> set critic_reason_words \<union> snd ` set guard_stops"
    "distinct errors"
  shows "are_identifiers 32 errors"
proof -
  let ?all = "map failure_code [GET_FEATURES, GET_GRAPH, SEARCH_HISTORY, GET_RISK, GET_TEST_RESULTS,
    GET_EXECUTION_EVIDENCE] @ critic_reason_words @ map snd guard_stops"
  have "t \<in> set [GET_FEATURES, GET_GRAPH, SEARCH_HISTORY, GET_RISK, GET_TEST_RESULTS,
    GET_EXECUTION_EVIDENCE]" for t by (cases t) simp_all
  then have "range failure_code \<subseteq> set (map failure_code [GET_FEATURES, GET_GRAPH, SEARCH_HISTORY,
    GET_RISK, GET_TEST_RESULTS, GET_EXECUTION_EVIDENCE])" by (auto simp only: set_map)
  then have sub: "set errors \<subseteq> set ?all" using assms(1) by (simp only: set_append set_map) blast
  have ids: "list_all (is_identifier 192) ?all"
    using critic_reason_words_identifiers
    by (simp add: guard_stops_def failure_code_def is_identifier_def isascii_def has_control_def code_def)
  have "length errors = card (set errors)" using assms(2) by (simp add: distinct_card)
  also have "\<dots> \<le> card (set ?all)" by (rule card_mono [OF finite_set sub])
  also have "\<dots> \<le> length ?all" by (rule card_length)
  also have "\<dots> \<le> 32" by (simp add: critic_reason_words_def guard_stops_def)
  finally show ?thesis
    using ids sub assms(2) by (auto simp: are_identifiers_def list_all_iff)
qed

lemma stopped_final_ok:
  assumes "gs_request s = rq" "evidence_ok (it_evidence ts) (gs_collected s)" "trace_ok (gs_trace s)"
    "set (gs_errors s) \<subseteq> range failure_code" "(reason, error_code) \<in> set guard_stops"
    "te_sequence e = int (length (gs_trace s))" "budget_inv g" "g_limits g = rq_limits rq"
    "over_llm_limits g \<longrightarrow> reason = LlmBudgetExceeded"
  shows "final_ok ts rq (s\<lparr>gs_errors := py_unique (gs_errors s @ [error_code]), gs_partial := True,
    gs_termination := Some reason, gs_trace := gs_trace s @ [e]\<rparr>) g"
proof -
  have "are_identifiers 32 (py_unique (gs_errors s @ [error_code]))"
    using assms(4,5) by (intro error_codes_ok) force+
  moreover have "reason \<noteq> LoopDetected" "reason \<noteq> Completed"
    using assms(5) by (auto simp: guard_stops_def)
  ultimately show ?thesis using assms by (simp add: final_ok_def trace_ok_snoc)
qed

lemma build_draft_ok:
  assumes "node_inv ts rq passed s" "length passed \<le> 5"
  shows "\<exists>d. build_draft s = Inr d"
proof -
  have count: "length (concat (map no_claims outs)) \<le> 16 * length outs"
    if "list_all good_output outs" for outs
    using that by (induction outs) (auto simp: good_output_def)
  have "list_all good_output (gs_outputs s)" "length (gs_outputs s) \<le> 5"
    using assms by (simp_all add: node_inv_def)
  then have "length (concat (map no_claims (gs_outputs s))) \<le> 80"
    using count [of "gs_outputs s"] by linarith
  then show ?thesis
    using assms(1) by (simp add: build_draft_def agent_draft_post_init_def node_inv_def)
qed

definition composer_inv :: "investigation_tools \<Rightarrow> investigation_request \<Rightarrow> agent_graph_state \<Rightarrow> bool" where
  "composer_inv ts rq s \<longleftrightarrow>
     gs_request s = rq \<and> gs_termination s = None \<and> evidence_ok (it_evidence ts) (gs_collected s) \<and>
     trace_ok (gs_trace s) \<and> set (gs_errors s) \<subseteq> range failure_code \<and> distinct (gs_errors s) \<and>
     failures_noted ts (consulted rq) (gs_errors s) \<and> accepted rq s"

lemma evidence_event_ok:
  assumes "setting_ok ts rq" "evidence_ok (it_evidence ts) (gs_collected s)"
    "is_identifier 32 ty" "is_identifier 64 st" "is_text 1000 su" "0 \<le> ms"
  obtains e where "event s ty node st su (map er_evidence_id (gs_collected s)) ms = Inr e"
    "te_sequence e = int (length (gs_trace s))"
  using trace_event_ok [OF assms(3-5) _ assms(6)] authorised_identifiers [OF _ assms(2)] assms(1)
  unfolding event_def setting_ok_def by (metis order_refl)

lemma critic_words:
  "is_identifier 32 ''critic''" "is_identifier 64 (verdict_value v)"
  "is_text 1000 (if v = ACCEPT
     then ''Deterministic schema, citation, fact-entailment, and policy checks passed.''
     else ''Deterministic critic rejected the draft.'')"
  by (simp add: is_identifier_def isascii_def has_control_def code_def,
      cases v, simp_all add: is_identifier_def isascii_def has_control_def is_text_def code_def)

lemma critic_body_safe:
  assumes "setting_ok ts rq" "node_inv ts rq passed s" "length passed \<le> 5"
    "set (consulted rq) \<subseteq> set passed" "l = rq_limits rq"
  shows "safe (at_step 5 l c) (critic_body s) (\<lambda>s' g. at_step 6 l (c + 1) g \<and>
    (composer_inv ts rq s' \<or> gs_termination s' = Some CriticRejected \<and> final_ok ts rq s' g))"
proof -
  let ?P = "\<lambda>s' g. at_step 6 l (c + 1) g \<and>
    (composer_inv ts rq s' \<or> gs_termination s' = Some CriticRejected \<and> final_ok ts rq s' g)"
  let ?p = "rq_policy_decision rq"
  have inv: "gs_request s = rq" "evidence_ok (it_evidence ts) (gs_collected s)" "trace_ok (gs_trace s)"
    "set (gs_errors s) \<subseteq> range failure_code" "distinct (gs_errors s)" "gs_termination s = None"
    using assms(2) by (simp_all add: node_inv_def)
  obtain d where d: "build_draft s = Inr d" using build_draft_ok assms(2,3) by blast
  obtain v where v: "critique_draft d (gs_collected s) ?p = Inr v"
      "cr_reason_codes v = sorted_set (critic_reasons d (gs_collected s) ?p)"
    using critique_total by blast
  have codes: "are_identifiers 32 (py_unique (gs_errors s @ cr_reason_codes v))"
    using critic_reasons_words [of d "gs_collected s" ?p] inv(4)
    by (intro error_codes_ok) (auto simp: v(2))
  have noted: "failures_noted ts (consulted rq) (gs_errors s)"
    using assms(2,4) by (auto simp: node_inv_def failures_noted_def)
  have done_ok: "safe (\<lambda>g. at_step 6 l (c + 1) g \<and> 0 \<le> ms)
     (bind_g (lift_g (event s ''critic'' EVIDENCE_CRITIC (verdict_value (cr_verdict v))
         (if cr_verdict v = ACCEPT
          then ''Deterministic schema, citation, fact-entailment, and policy checks passed.''
          else ''Deterministic critic rejected the draft.'')
         (map er_evidence_id (gs_collected s)) ms)) (\<lambda>e.
       if cr_verdict v = REJECT then
         return_g (s\<lparr>gs_critic := Some v, gs_draft := Some d,
           gs_errors := py_unique (gs_errors s @ cr_reason_codes v), gs_partial := True,
           gs_termination := Some CriticRejected, gs_trace := gs_trace s @ [e]\<rparr>)
       else return_g (s\<lparr>gs_critic := Some v, gs_draft := Some d, gs_trace := gs_trace s @ [e]\<rparr>))) ?P" for ms
  proof (cases "0 \<le> ms")
    case True
    obtain e where e: "event s ''critic'' EVIDENCE_CRITIC (verdict_value (cr_verdict v))
         (if cr_verdict v = ACCEPT
          then ''Deterministic schema, citation, fact-entailment, and policy checks passed.''
          else ''Deterministic critic rejected the draft.'')
         (map er_evidence_id (gs_collected s)) ms = Inr e" "te_sequence e = int (length (gs_trace s))"
      using evidence_event_ok [OF assms(1) inv(2) critic_words True] .
    show ?thesis
    proof (cases "cr_verdict v")
      case ACCEPT
      then show ?thesis unfolding e(1) lift_Inr bind_return
        using inv noted v(1) e(2)
        by (auto intro!: safe_return simp: composer_inv_def accepted_def trace_ok_snoc)
    next
      case REJECT
      then show ?thesis unfolding e(1) lift_Inr bind_return
        using inv codes e(2)
        by (auto intro!: safe_return simp: final_ok_def trace_ok_snoc running_inv stage_def assms(5) dest: running_under)
    qed
  qed (simp add: safe_def)
  have enter: "safe (at_step 5 l c) (enter_node EVIDENCE_CRITIC sg) (\<lambda>_. at_step 6 l (c + 1))" for sg
    using enter_at_step [of EVIDENCE_CRITIC 6] by simp
  show ?thesis
    unfolding critic_body_def inv(1) d v(1) lift_Inr bind_return
    by (rule safe_bind [OF enter safe_bind [OF finish_node_safe done_ok]])
qed

lemma composer_body_safe:
  assumes "setting_ok ts rq" "composer_inv ts rq s" "l = rq_limits rq"
  shows "safe (at_step 6 l c) (composer_body s) (\<lambda>s' g. final_ok ts rq s' g)"
proof -
  let ?failed = "gs_errors s \<noteq> []"
  have inv: "gs_request s = rq" "evidence_ok (it_evidence ts) (gs_collected s)" "trace_ok (gs_trace s)"
    "set (gs_errors s) \<subseteq> range failure_code" "distinct (gs_errors s)" "accepted rq s"
    "failures_noted ts (consulted rq) (gs_errors s)"
    using assms(2) by (simp_all add: composer_inv_def)
  have codes: "are_identifiers 32 (gs_errors s)" using inv(4,5) by (intro error_codes_ok) auto
  have words: "is_identifier 32 ''result''" "is_identifier 64 (if b then ''partial'' else ''completed'')"
    "is_text 1000 (if b then ''Tool evidence was incomplete; the safe partial recommendation is UNKNOWN.''
       else ''Deterministic policy was preserved for human review.'')" for b
    by (simp_all add: is_identifier_def isascii_def has_control_def is_text_def code_def)
  have compose: "safe (\<lambda>g. at_step 7 l (c + 1) g \<and> 0 \<le> ms)
     (bind_g (lift_g (event s ''result'' RECOMMENDATION_COMPOSER (if ?failed then ''partial'' else ''completed'')
        (if ?failed then ''Tool evidence was incomplete; the safe partial recommendation is UNKNOWN.''
         else ''Deterministic policy was preserved for human review.'')
        (map er_evidence_id (gs_collected s)) ms)) (\<lambda>e.
      return_g (s\<lparr>gs_partial := ?failed, gs_termination := Some (if ?failed then ToolFailure else Completed),
        gs_trace := gs_trace s @ [e]\<rparr>))) (\<lambda>s' g. final_ok ts rq s' g)" for ms
  proof (cases "0 \<le> ms")
    case True
    obtain e where e: "event s ''result'' RECOMMENDATION_COMPOSER (if ?failed then ''partial'' else ''completed'')
        (if ?failed then ''Tool evidence was incomplete; the safe partial recommendation is UNKNOWN.''
         else ''Deterministic policy was preserved for human review.'')
        (map er_evidence_id (gs_collected s)) ms = Inr e" "te_sequence e = int (length (gs_trace s))"
      using evidence_event_ok [OF assms(1) inv(2) words(1) words(2) words(3) True] .
    show ?thesis unfolding e(1) lift_Inr bind_return
      using inv codes e(2)
      by (auto intro!: safe_return simp: final_ok_def trace_ok_snoc running_inv stage_def assms(3)
          accepted_def dest: running_under)
  qed (simp add: safe_def)
  have enter: "safe (at_step 6 l c) (enter_node RECOMMENDATION_COMPOSER sg) (\<lambda>_. at_step 7 l (c + 1))" for sg
    using enter_at_step [of RECOMMENDATION_COMPOSER 7] by simp
  show ?thesis
    unfolding composer_body_def Let_def
    by (rule safe_bind [OF enter safe_bind [OF finish_node_safe compose]])
qed

subsection \<open>The run of the graph\<close>

definition ready :: "investigation_request \<Rightarrow> agent_node \<Rightarrow> int \<Rightarrow> budget_guard \<Rightarrow> bool" where
  "ready rq node c g \<longleftrightarrow> running g \<and> at_step (node_position node) (rq_limits rq) c g"

lemma final_termination: "final_ok ts rq s g \<Longrightarrow> gs_termination s \<noteq> None"
  by (auto simp: final_ok_def)

lemma provider_node_step:
  assumes "setting_ok ts rq" "good_provider provider" "node_inv ts rq passed s" "ready rq node c g"
    "node_position node < 5"
  obtains (final) s' g' where "provider_node ts provider node s g = Inr (s', g')" "final_ok ts rq s' g'"
  | (onward) s' g' where "provider_node ts provider node s g = Inr (s', g')"
      "node_inv ts rq (node # passed) s'" "running g'"
      "at_step (Suc (node_position node)) (rq_limits rq) (c + 1) g'"
proof -
  have g: "running g" "at_step (node_position node) (rq_limits rq) c g"
    using assms(4) by (simp_all add: ready_def)
  have inv: "gs_request s = rq" "evidence_ok (it_evidence ts) (gs_collected s)" "trace_ok (gs_trace s)"
    "set (gs_errors s) \<subseteq> range failure_code" "g_limits g = rq_limits rq"
    using assms(3) g(2) by (simp_all add: node_inv_def stage_def)
  show thesis
  proof (rule catch_stop_ok [OF provider_body_safe [OF assms(1,2,3,5) refl] g])
    fix s' g'
    assume "catch_stop s node (provider_body ts provider node s) g = Inr (s', g')" "running g'"
      "at_step (Suc (node_position node)) (rq_limits rq) (c + 1) g' \<and> node_inv ts rq (node # passed) s'"
    then show thesis using onward by (simp add: provider_node_def)
  next
    fix reason error_code e g'
    assume stop: "(reason, error_code) \<in> set guard_stops" "te_sequence e = int (length (gs_trace s))"
      "same_frame g g'" "budget_inv g'" "over_llm_limits g' \<longrightarrow> reason = LlmBudgetExceeded"
      "catch_stop s node (provider_body ts provider node s) g = Inr (s\<lparr>gs_errors :=
         py_unique (gs_errors s @ [error_code]), gs_partial := True, gs_termination := Some reason,
         gs_trace := gs_trace s @ [e]\<rparr>, g')"
    show thesis
      by (rule final [OF stop(6) [folded provider_node_def]],
          rule stopped_final_ok [OF inv(1-4) stop(1,2,4)])
        (use stop(3,5) inv(5) in \<open>simp_all add: same_frame_def\<close>)
  qed
qed

lemma critic_node_step:
  assumes "setting_ok ts rq" "node_inv ts rq passed s" "length passed \<le> 5"
    "set (consulted rq) \<subseteq> set passed" "ready rq EVIDENCE_CRITIC c g"
  obtains (final) s' g' where "critic_node s g = Inr (s', g')" "final_ok ts rq s' g'"
  | (onward) s' g' where "critic_node s g = Inr (s', g')" "composer_inv ts rq s'" "running g'"
      "at_step 6 (rq_limits rq) (c + 1) g'"
proof -
  have g: "running g" "at_step 5 (rq_limits rq) c g"
    using assms(5) by (simp_all add: ready_def)
  have inv: "gs_request s = rq" "evidence_ok (it_evidence ts) (gs_collected s)" "trace_ok (gs_trace s)"
    "set (gs_errors s) \<subseteq> range failure_code" "g_limits g = rq_limits rq"
    using assms(2) g(2) by (simp_all add: node_inv_def stage_def)
  show thesis
  proof (rule catch_stop_ok [OF critic_body_safe [OF assms(1-4) refl] g])
    fix s' g'
    assume "catch_stop s EVIDENCE_CRITIC (critic_body s) g = Inr (s', g')" "running g'"
      "at_step 6 (rq_limits rq) (c + 1) g' \<and>
       (composer_inv ts rq s' \<or> gs_termination s' = Some CriticRejected \<and> final_ok ts rq s' g')"
    then show thesis using onward final by (auto simp: critic_node_def)
  next
    fix reason error_code e g'
    assume stop: "(reason, error_code) \<in> set guard_stops" "te_sequence e = int (length (gs_trace s))"
      "same_frame g g'" "budget_inv g'" "over_llm_limits g' \<longrightarrow> reason = LlmBudgetExceeded"
      "catch_stop s EVIDENCE_CRITIC (critic_body s) g = Inr (s\<lparr>gs_errors :=
         py_unique (gs_errors s @ [error_code]), gs_partial := True, gs_termination := Some reason,
         gs_trace := gs_trace s @ [e]\<rparr>, g')"
    show thesis
      by (rule final [OF stop(6) [folded critic_node_def]],
          rule stopped_final_ok [OF inv(1-4) stop(1,2,4)])
        (use stop(3,5) inv(5) in \<open>simp_all add: same_frame_def\<close>)
  qed
qed

lemma composer_node_step:
  assumes "setting_ok ts rq" "composer_inv ts rq s" "ready rq RECOMMENDATION_COMPOSER c g"
  obtains s' g' where "composer_node s g = Inr (s', g')" "final_ok ts rq s' g'"
proof -
  have g: "running g" "at_step 6 (rq_limits rq) c g"
    using assms(3) by (simp_all add: ready_def)
  have inv: "gs_request s = rq" "evidence_ok (it_evidence ts) (gs_collected s)" "trace_ok (gs_trace s)"
    "set (gs_errors s) \<subseteq> range failure_code" "g_limits g = rq_limits rq"
    using assms(2) g(2) by (simp_all add: composer_inv_def stage_def)
  show thesis
  proof (rule catch_stop_ok [OF composer_body_safe [OF assms(1,2) refl] g])
    fix s' g'
    assume "catch_stop s RECOMMENDATION_COMPOSER (composer_body s) g = Inr (s', g')"
      "final_ok ts rq s' g'"
    then show thesis using that by (simp add: composer_node_def)
  next
    fix reason error_code e g'
    assume stop: "(reason, error_code) \<in> set guard_stops" "te_sequence e = int (length (gs_trace s))"
      "same_frame g g'" "budget_inv g'" "over_llm_limits g' \<longrightarrow> reason = LlmBudgetExceeded"
      "catch_stop s RECOMMENDATION_COMPOSER (composer_body s) g = Inr (s\<lparr>gs_errors :=
         py_unique (gs_errors s @ [error_code]), gs_partial := True, gs_termination := Some reason,
         gs_trace := gs_trace s @ [e]\<rparr>, g')"
    show thesis
      by (rule that [OF stop(6) [folded composer_node_def]],
          rule stopped_final_ok [OF inv(1-4) stop(1,2,4)])
        (use stop(3,5) inv(5) in \<open>simp_all add: same_frame_def\<close>)
  qed
qed

text \<open>
  From node \<open>n\<close> the run ends, with every node that goes on consuming a step: at most one node more
  than the steps that are left.
\<close>

definition ends_well :: "investigation_tools \<Rightarrow> provider \<Rightarrow> investigation_request \<Rightarrow> agent_node \<Rightarrow>
    agent_graph_state \<Rightarrow> budget_guard \<Rightarrow> bool" where
  "ends_well ts provider rq n s g \<longleftrightarrow> (\<exists>s' g'. final_ok ts rq s' g' \<and>
     edge_run (run_node ts provider) next_node (Suc (nat (max_steps (rq_limits rq) - u_steps (g_usage g))))
       n (s, g) = Some (Inr (s', g')))"

lemma ends_well_final:
  assumes "run_node ts provider n (s, g) = Inr (s', g')" "final_ok ts rq s' g'"
  shows "ends_well ts provider rq n s g"
proof -
  have "next_node n (s', g') = None"
    using final_termination [OF assms(2)] by (cases n) (auto simp: continue_or_end_def after_tests_def)
  then show ?thesis using assms by (auto simp: ends_well_def)
qed

lemma ends_well_onward:
  assumes "run_node ts provider n (s, g) = Inr (s', g')" "next_node n (s', g') = Some n'"
    "ends_well ts provider rq n' s' g'" "ready rq n c g" "running g'" "at_step k (rq_limits rq) (c + 1) g'"
  shows "ends_well ts provider rq n s g"
proof -
  have "u_steps (g_usage g) = c" "u_steps (g_usage g') = c + 1" "c + 1 \<le> max_steps (rq_limits rq)"
    using assms(4-6) by (auto simp: ready_def stage_def running_def budget_inv_def)
  then have "nat (max_steps (rq_limits rq) - u_steps (g_usage g)) =
      Suc (nat (max_steps (rq_limits rq) - u_steps (g_usage g')))" by simp
  then show ?thesis using assms(1-3) by (auto simp: ends_well_def)
qed

lemma ready_next:
  "running g \<Longrightarrow> at_step k (rq_limits rq) c g \<Longrightarrow> k \<le> node_position n \<Longrightarrow> ready rq n c g"
  by (fastforce simp: ready_def stage_def)

lemma composer_ends_well:
  assumes "setting_ok ts rq" "composer_inv ts rq s" "ready rq RECOMMENDATION_COMPOSER c g"
  shows "ends_well ts provider rq RECOMMENDATION_COMPOSER s g"
  by (rule composer_node_step [OF assms]) (rule ends_well_final, simp_all)

lemma critic_ends_well:
  assumes "setting_ok ts rq" "node_inv ts rq passed s" "length passed \<le> 5"
    "set (consulted rq) \<subseteq> set passed" "ready rq EVIDENCE_CRITIC c g"
  shows "ends_well ts provider rq EVIDENCE_CRITIC s g"
proof (rule critic_node_step [OF assms])
  fix s' g'
  assume step: "critic_node s g = Inr (s', g')" "composer_inv ts rq s'" "running g'"
    "at_step 6 (rq_limits rq) (c + 1) g'"
  have "ends_well ts provider rq RECOMMENDATION_COMPOSER s' g'"
    by (rule composer_ends_well [OF assms(1) step(2) ready_next [OF step(3,4)]]) simp
  then show ?thesis
    using step(1,2)
    by (intro ends_well_onward [OF _ _ _ assms(5) step(3,4)])
      (simp_all add: continue_or_end_def composer_inv_def)
qed (rule ends_well_final, simp_all)

lemma provider_ends_well:
  assumes "setting_ok ts rq" "good_provider provider" "node_inv ts rq passed s" "ready rq node c g"
    "node_position node < 5"
    "\<And>s' g'. node_inv ts rq (node # passed) s' \<Longrightarrow> running g' \<Longrightarrow>
       at_step (Suc (node_position node)) (rq_limits rq) (c + 1) g' \<Longrightarrow>
       \<exists>n'. next_node node (s', g') = Some n' \<and> ends_well ts provider rq n' s' g'"
  shows "ends_well ts provider rq node s g"
proof -
  have run: "run_node ts provider node (s, g) = provider_node ts provider node s g"
    using assms(5) by (cases node) simp_all
  show ?thesis
  proof (rule provider_node_step [OF assms(1-5)])
    fix s' g'
    assume step: "provider_node ts provider node s g = Inr (s', g')"
      "node_inv ts rq (node # passed) s'" "running g'"
      "at_step (Suc (node_position node)) (rq_limits rq) (c + 1) g'"
    obtain n' where "next_node node (s', g') = Some n'" "ends_well ts provider rq n' s' g'"
      using assms(6) step(2-4) by blast
    then show ?thesis
      using step(1) run by (intro ends_well_onward [OF _ _ _ assms(4) step(3,4)]) simp_all
  qed (rule ends_well_final, simp_all add: run)
qed

lemma investigation_ends_well:
  assumes "setting_ok ts rq" "good_provider provider"
  shows "ends_well ts provider rq CHANGE_ANALYST (initial_state rq) (investigation_guard rq cancellation clock)"
proof -
  let ?ends = "ends_well ts provider rq"
  note prov = provider_ends_well [OF assms]
  note critic = critic_ends_well [OF assms(1), where provider = provider]
  let ?passed = "[TEST_PLANNER, RISK_SYNTHESIZER, HISTORICAL_INVESTIGATOR, CHANGE_ANALYST]"
  have execution: "?ends EXECUTION_READER s g"
    if inv: "node_inv ts rq ?passed s" and r: "ready rq EXECUTION_READER c g" for s g c
  proof (rule prov [OF inv r])
    fix s' g'
    assume st: "node_inv ts rq (EXECUTION_READER # ?passed) s'" "running g'"
      "at_step (Suc (node_position EXECUTION_READER)) (rq_limits rq) (c + 1) g'"
    show "\<exists>n'. next_node EXECUTION_READER (s', g') = Some n' \<and> ?ends n' s' g'"
      using critic [OF st(1) _ _ ready_next [OF st(2,3)]] st(1)
      by (auto simp: continue_or_end_def node_inv_def consulted_def)
  qed simp
  have tests: "?ends TEST_PLANNER s g"
    if inv: "node_inv ts rq [RISK_SYNTHESIZER, HISTORICAL_INVESTIGATOR, CHANGE_ANALYST] s" and r: "ready rq TEST_PLANNER c g" for s g c
  proof (rule prov [OF inv r])
    fix s' g'
    assume st: "node_inv ts rq (TEST_PLANNER # [RISK_SYNTHESIZER, HISTORICAL_INVESTIGATOR, CHANGE_ANALYST]) s'" "running g'"
      "at_step (Suc (node_position TEST_PLANNER)) (rq_limits rq) (c + 1) g'"
    show "\<exists>n'. next_node TEST_PLANNER (s', g') = Some n' \<and> ?ends n' s' g'"
      using critic [OF st(1) _ _ ready_next [OF st(2,3)]]
        execution [OF st(1) ready_next [OF st(2,3)]] st(1)
      by (auto simp: after_tests_def node_inv_def consulted_def)
  qed simp
  have risk: "?ends RISK_SYNTHESIZER s g"
    if inv: "node_inv ts rq [HISTORICAL_INVESTIGATOR, CHANGE_ANALYST] s" and r: "ready rq RISK_SYNTHESIZER c g" for s g c
  proof (rule prov [OF inv r])
    fix s' g'
    assume st: "node_inv ts rq (RISK_SYNTHESIZER # [HISTORICAL_INVESTIGATOR, CHANGE_ANALYST]) s'" "running g'"
      "at_step (Suc (node_position RISK_SYNTHESIZER)) (rq_limits rq) (c + 1) g'"
    show "\<exists>n'. next_node RISK_SYNTHESIZER (s', g') = Some n' \<and> ?ends n' s' g'"
      using tests [OF st(1) ready_next [OF st(2,3)]] st(1)
      by (simp add: continue_or_end_def node_inv_def)
  qed simp
  have history: "?ends HISTORICAL_INVESTIGATOR s g"
    if inv: "node_inv ts rq [CHANGE_ANALYST] s" and r: "ready rq HISTORICAL_INVESTIGATOR c g" for s g c
  proof (rule prov [OF inv r])
    fix s' g'
    assume st: "node_inv ts rq (HISTORICAL_INVESTIGATOR # [CHANGE_ANALYST]) s'" "running g'"
      "at_step (Suc (node_position HISTORICAL_INVESTIGATOR)) (rq_limits rq) (c + 1) g'"
    show "\<exists>n'. next_node HISTORICAL_INVESTIGATOR (s', g') = Some n' \<and> ?ends n' s' g'"
      using risk [OF st(1) ready_next [OF st(2,3)]] st(1)
      by (simp add: continue_or_end_def node_inv_def)
  qed simp
  have analyst: "?ends CHANGE_ANALYST s g"
    if inv: "node_inv ts rq [] s" and r: "ready rq CHANGE_ANALYST c g" for s g c
  proof (rule prov [OF inv r])
    fix s' g'
    assume st: "node_inv ts rq (CHANGE_ANALYST # []) s'" "running g'"
      "at_step (Suc (node_position CHANGE_ANALYST)) (rq_limits rq) (c + 1) g'"
    show "\<exists>n'. next_node CHANGE_ANALYST (s', g') = Some n' \<and> ?ends n' s' g'"
      using history [OF st(1) ready_next [OF st(2,3)]] st(1)
      by (simp add: continue_or_end_def node_inv_def)
  qed simp
  have "node_inv ts rq [] (initial_state rq)"
    by (simp add: node_inv_def initial_state_def evidence_ok_def trace_ok_def failures_noted_def)
  moreover have "ready rq CHANGE_ANALYST 0 (investigation_guard rq cancellation clock)"
    using guard_init_running [OF setting_limits [OF assms(1)]]
    by (simp add: ready_def investigation_guard_def guard_init_def stage_def zero_usage_def)
  ultimately show ?thesis by (rule analyst)
qed

definition result_of :: "float_text \<Rightarrow> investigation_request \<Rightarrow> agent_graph_state \<Rightarrow>
    budget_guard \<Rightarrow> investigation_result" where
  "result_of float_text rq s g =
      \<lparr>rs_run_id = rq_run_id rq, rs_snapshot_id = rq_snapshot_id rq,
       rs_recommendation = safe_recommendation s, rs_termination_reason = the (gs_termination s),
       rs_partial = (gs_termination s \<noteq> Some Completed),
       rs_evidence_ids = map er_evidence_id (gs_collected s),
       rs_draft = gs_draft s, rs_critic = gs_critic s, rs_trace = gs_trace s,
       rs_usage = g_usage g, rs_error_codes = gs_errors s,
       rs_policy_decision_sha256 = decision_sha256 (rq_policy_decision rq),
       rs_request_sha256 = request_sha256 float_text rq,
       rs_graph_version = AGENT_GRAPH_VERSION, rs_state_schema_version = AGENT_STATE_SCHEMA_VERSION,
       rs_advisory_only = True, rs_auto_merge = False\<rparr>"

text \<open>The engine's recursion limit exceeds what the run needs, so the run is what it returns.\<close>

lemma run_investigation_returns:
  assumes "follows_edges engine" "setting_ok ts rq" "good_provider provider"
  obtains s g where "final_ok ts rq s g"
    "run_investigation engine float_text rq ts provider cancellation clock = Inr (result_of float_text rq s g)"
proof -
  let ?g0 = "investigation_guard rq cancellation clock"
  obtain s g where run: "final_ok ts rq s g"
    "edge_run (run_node ts provider) next_node (Suc (nat (max_steps (rq_limits rq) - u_steps (g_usage ?g0))))
       CHANGE_ANALYST (initial_state rq, ?g0) = Some (Inr (s, g))"
    using investigation_ends_well [OF assms(2,3)] unfolding ends_well_def by blast
  have "u_steps (g_usage ?g0) = 0"
    by (simp add: investigation_guard_def guard_init_def zero_usage_def)
  with run(2) have engine: "engine (run_node ts provider) next_node (nat (max_steps (rq_limits rq)) + 2)
      CHANGE_ANALYST (initial_state rq, ?g0) = Inr (s, g)"
    using assms(1) unfolding follows_edges_def by fastforce
  have final: "evidence_ok (it_evidence ts) (gs_collected s)" "are_identifiers 32 (gs_errors s)"
    using run(1) by (simp_all add: final_ok_def)
  obtain t where t: "gs_termination s = Some t" using run(1) by (auto simp: final_ok_def)
  have "are_identifiers 100 (map er_evidence_id (gs_collected s))"
    by (rule authorised_identifiers [OF _ final(1)]) (use assms(2) in \<open>simp_all add: setting_ok_def\<close>)
  moreover have "is_identifier 192 (rq_run_id rq)" "is_identifier 192 (rq_snapshot_id rq)"
    using assms(2) by (simp_all add: setting_ok_def constructed_request_def investigation_request_post_init_def)
  moreover have "is_sha256_text (decision_sha256 (rq_policy_decision rq))"
    "is_sha256_text (request_sha256 float_text rq)"
    by (simp_all add: decision_sha256_def request_sha256_def object_sha256_def)
  ultimately show thesis
    using that [OF run(1)] final(2)
    by (simp add: run_investigation_def engine [simplified] t Let_def investigation_result_post_init_def
        hash_guard_def is_sha256_text_def result_of_def)
qed

subsection \<open>Properties of an investigation\<close>

text \<open>
  C3: For a constructed request, tools over at most 64 distinct authorised references, and a provider
  whose answers are constructed outputs with at most 16 claims and at most 64 cited references each,
  \<open>run_investigation\<close> returns a result; it never authorises a merge; its recommendation is the one of
  the deterministic policy exactly when the investigation completed, and otherwise only \<open>HOLD\<close> (when
  the policy holds) or \<open>UNKNOWN\<close>; and it ends neither in the recursion limit of the graph nor in the
  loop detection. The code admits up to 100 references and 20 claims: beyond the bounds above it can
  raise instead, see \<open>critic_raises_beyond_64_references\<close> and \<open>critic_raises_beyond_80_claims\<close>.
\<close>

theorem investigation_recommendation_is_safe:
  assumes "follows_edges engine" "setting_ok ts rq" "good_provider provider"
  shows "\<exists>r. run_investigation engine float_text rq ts provider cancellation clock = Inr r \<and>
    rs_advisory_only r \<and> \<not> rs_auto_merge r \<and>
    rs_recommendation r =
      (if rs_termination_reason r = Completed then rd_recommendation (rq_policy_decision rq)
       else if rd_recommendation (rq_policy_decision rq) = HOLD then HOLD else UNKNOWN) \<and>
    (rs_partial r \<longleftrightarrow> rs_termination_reason r \<noteq> Completed) \<and>
    rs_termination_reason r \<noteq> LoopDetected"
proof (rule run_investigation_returns [OF assms])
  fix s g
  assume "final_ok ts rq s g" and run: "run_investigation engine float_text rq ts provider cancellation clock =
    Inr (result_of float_text rq s g)"
  then obtain t where "gs_termination s = Some t" "gs_request s = rq" "t \<noteq> LoopDetected"
    by (auto simp: final_ok_def)
  then show ?thesis unfolding run by (simp add: result_of_def safe_recommendation_def Let_def)
qed

text \<open>
  C4: For a setting and a provider as in C3, an investigation ends as \<open>completed\<close> only when it has no error code, every tool it consulted
  (those of the four first nodes, and the execution evidence when the request holds some) worked,
  the critic accepted its draft, and hence: the draft proposes the recommendation of the policy,
  every factual claim cites collected evidence whose fact codes include the facts it claims, the
  confidence is \<open>low\<close> when evidence is missing, and token and cost totals are within the limits.
\<close>

theorem completed_means_verified:
  assumes "follows_edges engine" "setting_ok ts rq" "good_provider provider"
    and "run_investigation engine float_text rq ts provider cancellation clock = Inr r"
    and "rs_termination_reason r = Completed"
  shows "rs_error_codes r = [] \<and> failures_noted ts (consulted rq) [] \<and>
    (\<exists>d c evidence. rs_draft r = Some d \<and> rs_critic r = Some c \<and> cr_verdict c = ACCEPT \<and>
      rs_evidence_ids r = map er_evidence_id evidence \<and> set evidence \<subseteq> set (it_evidence ts) \<and>
      ad_proposed_recommendation d = rd_recommendation (rq_policy_decision rq) \<and>
      (ad_missing_categories d \<noteq> [] \<longrightarrow> ad_confidence d = ''low'') \<and>
      (\<forall>claim \<in> set (factual_claims d). \<forall>f \<in> set (ac_fact_codes claim).
         \<exists>e \<in> set evidence. er_evidence_id e \<in> set (ac_evidence_ids claim) \<and> f \<in> set (er_fact_codes e))) \<and>
    u_input_tokens (rs_usage r) \<le> max_input_tokens (rq_limits rq) \<and>
    u_output_tokens (rs_usage r) \<le> max_output_tokens (rq_limits rq) \<and>
    u_cost_microusd (rs_usage r) \<le> max_cost_microusd (rq_limits rq)"
proof (rule run_investigation_returns [OF assms(1-3)])
  fix s g
  assume fin: "final_ok ts rq s g" and "run_investigation engine float_text rq ts provider cancellation clock =
    Inr (result_of float_text rq s g)"
  with assms(4,5) have r: "r = result_of float_text rq s g" "gs_termination s = Some Completed"
    by (auto simp: final_ok_def result_of_def)
  have ok: "running g" "gs_errors s = []" "failures_noted ts (consulted rq) []"
    "g_limits g = rq_limits rq" "set (gs_collected s) \<subseteq> set (it_evidence ts)"
    using fin r(2) by (auto simp: final_ok_def evidence_ok_def)
  have "accepted rq s" using fin r(2) by (auto simp: final_ok_def)
  then obtain d c where dc: "gs_draft s = Some d" "gs_critic s = Some c" "cr_verdict c = ACCEPT"
      "critique_draft d (gs_collected s) (rq_policy_decision rq) = Inr c"
    by (auto simp: accepted_def)
  then have none: "critic_reasons d (gs_collected s) (rq_policy_decision rq) = []"
    using critique_total [of d "gs_collected s" "rq_policy_decision rq"] by auto
  have "\<exists>e \<in> set (gs_collected s). er_evidence_id e \<in> set (ac_evidence_ids claim) \<and> f \<in> set (er_fact_codes e)"
    if "claim \<in> set (factual_claims d)" "f \<in> set (ac_fact_codes claim)" for claim f
  proof -
    have "judge_claim (gs_collected s) claim = Supported"
      using none that(1) by (simp add: critic_accepts_iff)
    with that(2) obtain i e where "i \<in> set (ac_evidence_ids claim)" "f \<in> set (er_fact_codes e)"
        "evidence_by_id (gs_collected s) i = Some e"
      by (auto simp: judge_claim_Supported)
    then show ?thesis using evidence_by_id_Some [of "gs_collected s" i e] by auto
  qed
  then show ?thesis
    using ok dc none
    by (auto simp: r(1) result_of_def critic_accepts_iff running_def over_llm_limits_def
        intro!: exI [of _ "gs_collected s"])
qed

text \<open>
  C5: Whatever the tools, the clock and the cancellation check do, and for a setting and a provider as in C3, the
  result of an investigation counts at most the allowed steps, tool calls and provider calls, no counter is negative,
  and there are no more tool errors than tool calls. The tokens and the cost are recorded before they are checked, so
  the last answer of the provider may take them past their limits; but then the investigation has ended because of the
  provider's budget, and in every result that ended otherwise they are within their limits.
\<close>

theorem investigation_within_budget:
  assumes "follows_edges engine" "setting_ok ts rq" "good_provider provider"
    and "run_investigation engine float_text rq ts provider cancellation clock = Inr r"
  shows "u_steps (rs_usage r) \<le> max_steps (rq_limits rq) \<and>
    u_tool_calls (rs_usage r) \<le> max_tool_calls (rq_limits rq) \<and>
    u_llm_calls (rs_usage r) \<le> max_llm_calls (rq_limits rq) \<and>
    (rs_termination_reason r \<noteq> LlmBudgetExceeded \<longrightarrow>
      u_input_tokens (rs_usage r) \<le> max_input_tokens (rq_limits rq) \<and>
      u_output_tokens (rs_usage r) \<le> max_output_tokens (rq_limits rq) \<and>
      u_cost_microusd (rs_usage r) \<le> max_cost_microusd (rq_limits rq)) \<and>
    0 \<le> u_steps (rs_usage r) \<and> 0 \<le> u_llm_calls (rs_usage r) \<and> 0 \<le> u_input_tokens (rs_usage r) \<and>
    0 \<le> u_output_tokens (rs_usage r) \<and> 0 \<le> u_cost_microusd (rs_usage r) \<and>
    0 \<le> u_tool_errors (rs_usage r) \<and> u_tool_errors (rs_usage r) \<le> u_tool_calls (rs_usage r)"
proof (rule run_investigation_returns [OF assms(1-3)])
  fix s g
  assume fin: "final_ok ts rq s g" and "run_investigation engine float_text rq ts provider cancellation clock =
    Inr (result_of float_text rq s g)"
  with assms(4) have r: "r = result_of float_text rq s g" by simp
  from fin have "budget_inv g" "g_limits g = rq_limits rq"
    "over_llm_limits g \<longrightarrow> gs_termination s = Some LlmBudgetExceeded" by (auto simp: final_ok_def)
  then show ?thesis
    by (auto simp: r result_of_def over_llm_limits_def budget_inv_def agent_usage_post_init_def)
qed

text \<open>
  C6: For a setting and a provider as in C3, the evidence identifiers of a result are distinct and authorised, and the events of its trace
  are numbered 0, 1, 2, ... without a gap.
\<close>

theorem investigation_evidence_and_trace:
  assumes "follows_edges engine" "setting_ok ts rq" "good_provider provider"
    and "run_investigation engine float_text rq ts provider cancellation clock = Inr r"
  shows "distinct (rs_evidence_ids r) \<and>
    set (rs_evidence_ids r) \<subseteq> er_evidence_id ` set (it_evidence ts) \<and>
    map te_sequence (rs_trace r) = map int [0..<length (rs_trace r)]"
proof (rule run_investigation_returns [OF assms(1-3)])
  fix s g
  assume "final_ok ts rq s g" and "run_investigation engine float_text rq ts provider cancellation clock =
    Inr (result_of float_text rq s g)"
  with assms(4) have "r = result_of float_text rq s g" and "final_ok ts rq s g" by simp_all
  then show ?thesis
    by (simp add: result_of_def final_ok_def evidence_ok_def trace_ok_def image_mono)
qed

text \<open>
  A node collects at most 100 references, but a trace event holds at most 64: with more than 64
  collected references, the critic node of an investigation that nothing else stops raises the
  \<open>ValueError\<close> of the event's constructor, which nothing in the graph catches.
\<close>

theorem critic_raises_beyond_64_references:
  assumes "64 < length (gs_collected s)" "build_draft s = Inr d"
    and "running g" "EVIDENCE_CRITIC \<notin> fst ` set (g_visited g)" "u_steps (g_usage g) < max_steps (g_limits g)"
    and "\<And>i. \<not> g_cancel g i" "\<And>i. g_clock g i = g_started g"
  shows "critic_node s g = Inl (ValueError ''trace evidence IDs must be a bounded unique tuple'')"
proof -
  let ?p = "rq_policy_decision (gs_request s)"
  obtain v where v: "critique_draft d (gs_collected s) ?p = Inr v" using critique_total by blast
  have limits: "agent_limits_post_init (g_limits g) = None" using assms(3) by (simp add: running_def)
  have fresh: "(EVIDENCE_CRITIC, sg) \<notin> set (g_visited g)" for sg using assms(4) by force
  have time: "\<not> max_wall_time_seconds (g_limits g) < 0" "\<not> per_node_timeout_seconds (g_limits g) < 0"
    using limits by (auto simp: agent_limits_post_init_def)
  have post: "agent_usage_post_init (g_usage g\<lparr>u_steps := u_steps (g_usage g) + 1\<rparr>) = None"
    using assms(3) by (simp add: running_def budget_inv_def agent_usage_post_init_def)
  have crash: "event s ''critic'' EVIDENCE_CRITIC (verdict_value (cr_verdict v))
      (if cr_verdict v = ACCEPT
       then ''Deterministic schema, citation, fact-entailment, and policy checks passed.''
       else ''Deterministic critic rejected the draft.'') (map er_evidence_id (gs_collected s)) 0 =
      Inl (ValueError ''trace evidence IDs must be a bounded unique tuple'')"
    using assms(1) critic_words(1) critic_words(2,3) [of "cr_verdict v"]
    by (simp add: event_def trace_event_def construct_with_def agent_trace_event_post_init_def
        identifiers_guard_def identifier_guard_def text_guard_def is_identifier_def is_text_def)
  show ?thesis
    using assms(5-7) time fresh post crash
    by (simp add: critic_node_def critic_body_def catch_stop_def enter_node_def finish_node_def
        common_check_def guard_op_defs replace_usage_def assms(2) v Let_def lift_g_def crash_g_def)
qed

text \<open>
  A provider may answer each of the five nodes with 20 claims, but the draft of their 100 claims holds at
  most 80: the critic node raises the \<open>ValueError\<close> of the draft's constructor.
\<close>

theorem critic_raises_beyond_80_claims:
  assumes "80 < length (concat (map no_claims (gs_outputs s)))"
    and "running g" "EVIDENCE_CRITIC \<notin> fst ` set (g_visited g)" "u_steps (g_usage g) < max_steps (g_limits g)"
    and "\<And>i. \<not> g_cancel g i" "\<And>i. g_clock g i = g_started g"
  shows "critic_node s g = Inl (ValueError ''draft collections are invalid'')"
proof -
  have limits: "agent_limits_post_init (g_limits g) = None" using assms(2) by (simp add: running_def)
  have fresh: "(EVIDENCE_CRITIC, sg) \<notin> set (g_visited g)" for sg using assms(3) by force
  have time: "\<not> max_wall_time_seconds (g_limits g) < 0" using limits by (auto simp: agent_limits_post_init_def)
  have post: "agent_usage_post_init (g_usage g\<lparr>u_steps := u_steps (g_usage g) + 1\<rparr>) = None"
    using assms(2) by (simp add: running_def budget_inv_def agent_usage_post_init_def)
  have "build_draft s = Inl (ValueError ''draft collections are invalid'')"
    using assms(1) by (simp add: build_draft_def construct_with_def agent_draft_post_init_def)
  then show ?thesis
    using assms(4-6) time fresh post
    by (simp add: critic_node_def critic_body_def catch_stop_def enter_node_def common_check_def guard_op_defs
        replace_usage_def Let_def lift_g_def crash_g_def)
qed

subsection \<open>A concrete investigation\<close>

text \<open>A graph engine that follows the edges, and an investigation without evidence.\<close>

definition run_edges :: graph_engine where
  "run_edges node route limit start s =
     (case edge_run node route limit start s of None \<Rightarrow> Inl GraphRecursionError | Some r \<Rightarrow> r)"

lemma edge_run_mono:
  "edge_run node route k n s = Some r \<Longrightarrow> k \<le> m \<Longrightarrow> edge_run node route m n s = Some r"
proof (induction k arbitrary: n s m)
  case (Suc k)
  then obtain m' where "m = Suc m'" "k \<le> m'" by (cases m) auto
  with Suc show ?case by (auto split: sum.splits option.splits)
qed simp

lemma run_edges_follows: "follows_edges run_edges"
  by (auto simp: follows_edges_def run_edges_def dest: edge_run_mono [OF _ less_imp_le])

definition sample_decision :: recommendation_decision where
  "sample_decision = \<lparr>rd_recommendation = SHIP, rd_reason_codes = [''all_clear''],
     rd_evidence_ids = [], rd_inputs_sha256 = replicate 64 CHR ''0'',
     rd_policy_version = RECOMMENDATION_POLICY_VERSION, rd_advisory_only = PyBool True,
     rd_auto_merge = PyBool False\<rparr>"

definition sample_request :: investigation_request where
  "sample_request = \<lparr>rq_run_id = ''run-1'', rq_snapshot_id = ''snapshot-1'', rq_evidence = [],
     rq_policy_decision = sample_decision, rq_limits = default_limits, rq_cancelled = False,
     rq_graph_version = AGENT_GRAPH_VERSION, rq_state_schema_version = AGENT_STATE_SCHEMA_VERSION\<rparr>"

definition sample_tools :: investigation_tools where
  "sample_tools = \<lparr>it_evidence = [], it_limit = 10, it_failed_tools = []\<rparr>"

definition sample_provider :: provider where
  "sample_provider n i = Some \<lparr>no_node = ni_node i, no_safe_summary = ''done'', no_claims = [],
     no_usage = \<lparr>pu_input_tokens = 1, pu_output_tokens = 1, pu_cost_microusd = 1, pu_elapsed_ms = 0\<rparr>,
     no_proposed_recommendation = Some SHIP\<rparr>"

lemma sample_setting: "setting_ok sample_tools sample_request"
  by (simp add: setting_ok_def constructed_request_def authorised_ok_def sample_tools_def
      sample_request_def sample_decision_def investigation_request_post_init_def
      agent_limits_post_init_def default_limits_def recommendation_decision_post_init_def
      is_identifier_def isascii_def has_control_def code_def are_identifiers_def is_hex_def
      hex_digits_def list_all_iff RECOMMENDATION_POLICY_VERSION_def)

lemma sample_provider_good: "good_provider sample_provider"
  by (simp add: good_provider_def sample_provider_def good_output_def constructed_output_def
      node_output_post_init_def node_provider_usage_post_init_def is_text_def code_def cited_ids_def)

lemmas guard_run_defs = enter_node_def finish_node_def common_check_def guard_op_defs
  replace_usage_def reserve_tool_def reserve_llm_def record_llm_def add_llm_usage_def
  over_llm_limits_def agent_usage_post_init_def crash_g_def

lemmas node_run_defs = provider_node_def provider_body_def consult_provider_def complete_node_def
  ask_provider_def build_node_input_def node_input_post_init_def NODE_TOOLS_def tool_read_def
  tool_result_post_init_def apply_tool_result_def catch_stop_def trace_event_def event_def
  agent_trace_event_post_init_def construct_with_def category_tuple_def cited_ids_def
  critic_node_def critic_body_def build_draft_def agent_draft_post_init_def last_proposal_def
  composer_node_def composer_body_def continue_or_end_def after_tests_def

lemma sample_run: "\<exists>s g. edge_run (run_node sample_tools sample_provider) next_node (Suc (Suc (Suc (Suc (Suc (Suc (Suc 0))))))) CHANGE_ANALYST
   (initial_state sample_request, investigation_guard sample_request (\<lambda>_. False) (\<lambda>_. 0)) = Some (Inr (s, g)) \<and>
   gs_termination s = Some Completed"
  by (simp add: initial_state_def investigation_guard_def guard_init_def
    guard_run_defs node_run_defs Let_def 
    sample_request_def default_limits_def sample_tools_def zero_usage_def sample_provider_def sample_decision_def
    critique_draft_def critic_reasons_def factual_claims_def execution_failed_def critic_result_post_init_def sorted_set_def
    is_identifier_def isascii_def has_control_def code_def is_text_def are_identifiers_def
   identifier_guard_def text_guard_def identifiers_guard_def)

definition sample_investigation :: "investigation_result result" where
  "sample_investigation = run_investigation run_edges (\<lambda>_ _. ''0.0'') sample_request sample_tools
     sample_provider (\<lambda>_. False) (\<lambda>_. 0)"

lemma sample_completed: "\<exists>r. sample_investigation = Inr r \<and> rs_termination_reason r = Completed"
proof -
  obtain s g where e: "edge_run (run_node sample_tools sample_provider) next_node
      (Suc (Suc (Suc (Suc (Suc (Suc (Suc 0))))))) CHANGE_ANALYST (initial_state sample_request,
      investigation_guard sample_request (\<lambda>_. False) (\<lambda>_. 0)) = Some (Inr (s, g))"
      and t: "gs_termination s = Some Completed"
    using sample_run by blast
  have "run_edges (run_node sample_tools sample_provider) next_node 10 CHANGE_ANALYST
      (initial_state sample_request, investigation_guard sample_request (\<lambda>_. False) (\<lambda>_. 0)) = Inr (s, g)"
    unfolding run_edges_def by (subst edge_run_mono [OF e, of 10]) simp_all
  note run = this t
  have limit: "nat (max_steps (rq_limits sample_request)) + 2 = 10"
    by (simp add: sample_request_def default_limits_def)
  obtain s' g' where "sample_investigation = Inr (result_of (\<lambda>_ _. ''0.0'') sample_request s' g')"
    using run_investigation_returns [OF run_edges_follows sample_setting sample_provider_good]
    unfolding sample_investigation_def by blast
  then show ?thesis
    using run unfolding sample_investigation_def run_investigation_def limit by auto
qed

theorem investigation_recommendation_is_safe_witness:
  "\<exists>r. sample_investigation = Inr r \<and> rs_recommendation r = SHIP \<and> \<not> rs_auto_merge r"
proof -
  obtain r where r: "sample_investigation = Inr r" "rs_termination_reason r = Completed"
    using sample_completed by blast
  then show ?thesis
    using investigation_recommendation_is_safe [OF run_edges_follows sample_setting sample_provider_good,
        of "\<lambda>_ _. ''0.0''" "\<lambda>_. False" "\<lambda>_. 0"]
    by (auto simp: sample_investigation_def sample_request_def sample_decision_def)
qed

theorem completed_means_verified_witness:
  "\<exists>r d. sample_investigation = Inr r \<and> rs_error_codes r = [] \<and> rs_draft r = Some d \<and>
     ad_proposed_recommendation d = SHIP \<and> u_input_tokens (rs_usage r) \<le> 16384"
proof -
  obtain r where r: "sample_investigation = Inr r" "rs_termination_reason r = Completed"
    using sample_completed by blast
  show ?thesis
    using completed_means_verified [OF run_edges_follows sample_setting sample_provider_good
        r(1) [unfolded sample_investigation_def] r(2)] r(1)
    by (auto simp: sample_request_def sample_decision_def default_limits_def)
qed

theorem investigation_within_budget_witness:
  "\<exists>r. sample_investigation = Inr r \<and> u_steps (rs_usage r) \<le> 8 \<and> u_llm_calls (rs_usage r) \<le> 5"
proof -
  obtain r where r: "sample_investigation = Inr r" using sample_completed by blast
  show ?thesis
    using investigation_within_budget [OF run_edges_follows sample_setting sample_provider_good
        r [unfolded sample_investigation_def]] r
    by (auto simp: sample_request_def default_limits_def)
qed

theorem investigation_evidence_and_trace_witness:
  "\<exists>r. sample_investigation = Inr r \<and> rs_evidence_ids r = [] \<and>
     map te_sequence (rs_trace r) = map int [0..<length (rs_trace r)]"
proof -
  obtain r where r: "sample_investigation = Inr r" using sample_completed by blast
  show ?thesis
    using investigation_evidence_and_trace [OF run_edges_follows sample_setting sample_provider_good
        r [unfolded sample_investigation_def]] r
    by (auto simp: sample_tools_def)
qed

definition sample_reference :: "nat \<Rightarrow> evidence_reference" where
  "sample_reference n = \<lparr>er_evidence_id = ''e'' @ decimal_digits n, er_category = CAT_RETRIEVAL,
     er_summary = ''s'', er_source_reference = ''r'', er_fact_codes = [''f'']\<rparr>"

theorem critic_raises_beyond_64_references_witness:
  "critic_node (initial_state sample_request\<lparr>gs_collected := map sample_reference [0..<65]\<rparr>)
     (guard_init default_limits (\<lambda>_. False) (\<lambda>_. 0)) =
   Inl (ValueError ''trace evidence IDs must be a bounded unique tuple'')"
proof (rule critic_raises_beyond_64_references)
  show "64 < length (gs_collected (initial_state sample_request\<lparr>gs_collected := map sample_reference [0..<65]\<rparr>))"
    by simp
  show "build_draft (initial_state sample_request\<lparr>gs_collected := map sample_reference [0..<65]\<rparr>) = Inr
     \<lparr>ad_proposed_recommendation = UNKNOWN, ad_claims = [], ad_missing_categories = [],
      ad_confidence = ''high'', ad_advisory_only = True, ad_auto_merge = False\<rparr>"
    by (simp add: build_draft_def initial_state_def agent_draft_post_init_def last_proposal_def)
  show "running (guard_init default_limits (\<lambda>_. False) (\<lambda>_. 0))"
    by (rule guard_init_running) (simp add: default_limits_def agent_limits_post_init_def)
qed (simp_all add: guard_init_def default_limits_def zero_usage_def)

end
