(* ===== verification/Json.thy ===== *)
theory Json
  imports PyValue
begin

section \<open>json.loads\<close>

text \<open>
  The reader of JSON text, as the contracts use it: \<open>json.loads(raw, object_pairs_hook=hook,
  parse_constant=constant)\<close>. \<open>lex\<close> splits the text into tokens and stops with \<open>TBad\<close> at the first
  character that no token starts with; \<open>expect_value\<close> and \<open>after_value\<close> run over the tokens with a
  stack of the open arrays and objects, and call the hook when an object closes, so errors come in
  the order of the text. Every syntax error is the \<open>ValueError\<close> that \<open>JSONDecodeError\<close> is.

  \<^item> A float keeps the text \<open>float_repr t\<close> that Python would print for it: \<open>float_repr\<close> is a
    parameter, CPython's conversion is not modelled.
  \<^item> An integer of more than 4300 digits is a \<open>ValueError\<close>, as in CPython.
  \<^item> An escape above U+00FF has no \<open>char\<close>: such a document is outside the model, and is rejected.

  The main lemma: reading what \<open>dumps\<close> wrote gives the value back, with the items of every
  dictionary in sorted order.
\<close>

datatype token =
    TLBrace | TRBrace | TLBracket | TRBracket | TColon | TComma
  | TText string
  | TScalar pyval
  | TConst string
  | TBad

definition is_digit :: "char \<Rightarrow> bool" where
  "is_digit c = (48 \<le> code c \<and> code c \<le> 57)"

definition hex_value :: "char \<Rightarrow> nat option" where
  "hex_value c =
     (if is_digit c then Some (code c - 48)
      else if 97 \<le> code c \<and> code c \<le> 102 then Some (code c - 87)
      else if 65 \<le> code c \<and> code c \<le> 70 then Some (code c - 55)
      else None)"

definition hex4 :: "char \<Rightarrow> char \<Rightarrow> char \<Rightarrow> char \<Rightarrow> nat option" where
  "hex4 a b c d = (case (hex_value a, hex_value b, hex_value c, hex_value d) of
     (Some w, Some x, Some y, Some z) \<Rightarrow> Some (((w * 16 + x) * 16 + y) * 16 + z) | _ \<Rightarrow> None)"

definition simple_escape :: "char \<Rightarrow> char option" where
  "simple_escape e = map_of [(CHR 0x22, CHR 0x22), (CHR 0x5C, CHR 0x5C), (CHR ''/'', CHR ''/''),
     (CHR ''b'', CHR 0x08), (CHR ''f'', CHR 0x0C), (CHR ''n'', CHR 0x0A), (CHR ''r'', CHR 0x0D),
     (CHR ''t'', CHR 0x09)] e"

definition prepend :: "char \<Rightarrow> (string \<times> string) option \<Rightarrow> (string \<times> string) option" where
  "prepend c r = map_option (\<lambda>(t, rest). (c # t, rest)) r"

text \<open>The characters after an opening quote: the decoded text and what follows the closing quote.\<close>

fun lex_string :: "string \<Rightarrow> (string \<times> string) option" where
  "lex_string [] = None"
| "lex_string (c # s) =
     (if code c = 34 then Some ([], s)
      else if code c = 92 then
        (case s of
           [] \<Rightarrow> None
         | e # s' \<Rightarrow>
             if e = CHR ''u'' then
               (case s' of
                  a # b # x # y # s'' \<Rightarrow>
                    (case hex4 a b x y of
                       None \<Rightarrow> None
                     | Some n \<Rightarrow> if n < 256 then prepend (char_of n) (lex_string s'') else None)
                | _ \<Rightarrow> None)
             else (case simple_escape e of None \<Rightarrow> None | Some c' \<Rightarrow> prepend c' (lex_string s')))
      else if code c < 32 then None
      else prepend c (lex_string s))"

definition digits_value :: "string \<Rightarrow> int" where
  "digits_value ds = foldl (\<lambda>n c. 10 * n + int (code c - 48)) 0 ds"

definition split_digits :: "string \<Rightarrow> string \<times> string" where
  "split_digits s = (takeWhile is_digit s, dropWhile is_digit s)"

text \<open>\<open>(\.[0-9]+)?\<close> and \<open>([eE][-+]?[0-9]+)?\<close>: what matches and the rest.\<close>

definition lex_fraction :: "string \<Rightarrow> string \<times> string" where
  "lex_fraction s = (case s of
     c # s' \<Rightarrow> if c = CHR ''.'' \<and> fst (split_digits s') \<noteq> []
       then (c # fst (split_digits s'), snd (split_digits s')) else ([], s)
   | [] \<Rightarrow> ([], s))"

definition lex_exponent :: "string \<Rightarrow> string \<times> string" where
  "lex_exponent s = (case s of
     c # s' \<Rightarrow>
       (let (sign, t) = (case s' of x # s'' \<Rightarrow> if x = CHR ''-'' \<or> x = CHR ''+'' then ([x], s'') else ([], s')
                         | [] \<Rightarrow> ([], s'))
        in if (c = CHR ''e'' \<or> c = CHR ''E'') \<and> fst (split_digits t) \<noteq> []
           then (c # sign @ fst (split_digits t), snd (split_digits t)) else ([], s))
   | [] \<Rightarrow> ([], s))"

text \<open>\<open>0|[1-9][0-9]*\<close>.\<close>

definition lex_integer :: "string \<Rightarrow> (string \<times> string) option" where
  "lex_integer s = (case s of
     [] \<Rightarrow> None
   | c # s' \<Rightarrow> if c = CHR ''0'' then Some ([c], s')
               else if is_digit c then Some (split_digits s) else None)"

definition lex_number :: "(string \<Rightarrow> string) \<Rightarrow> string \<Rightarrow> (token \<times> string) option" where
  "lex_number float_repr s =
     (let (negative, s1) = (case s of c # s' \<Rightarrow> if c = CHR ''-'' then (True, s') else (False, s)
                            | [] \<Rightarrow> (False, s))
      in case lex_integer s1 of
           None \<Rightarrow> None
         | Some (ds, s2) \<Rightarrow>
             (let (frac, s3) = lex_fraction s2; (ex, s4) = lex_exponent s3 in
              Some (if frac = [] \<and> ex = [] then
                      (if length ds > 4300 then TBad
                       else TScalar (PyInt (if negative then - digits_value ds else digits_value ds)))
                    else TScalar (PyFloat (float_repr ((if negative then ''-'' else '''') @ ds @ frac @ ex))),
                    s4)))"

definition json_words :: "(string \<times> token) list" where
  "json_words = [(''null'', TScalar PyNone), (''true'', TScalar (PyBool True)),
     (''false'', TScalar (PyBool False)), (''NaN'', TConst ''NaN''), (''Infinity'', TConst ''Infinity''),
     (''-Infinity'', TConst ''-Infinity'')]"

definition lex_word :: "string \<Rightarrow> (token \<times> string) option" where
  "lex_word s = (case find (\<lambda>p. startswith s (fst p)) json_words of
     None \<Rightarrow> None | Some (w, t) \<Rightarrow> Some (t, drop (length w) s))"

definition structural :: "char \<Rightarrow> token option" where
  "structural c = map_of [(CHR ''{'', TLBrace), (CHR ''}'', TRBrace), (CHR ''['', TLBracket),
     (CHR '']'', TRBracket), (CHR '':'', TColon), (CHR '','', TComma)] c"

definition is_space :: "char \<Rightarrow> bool" where
  "is_space c = (code c \<in> {32, 9, 10, 13})"

definition lex_token :: "(string \<Rightarrow> string) \<Rightarrow> string \<Rightarrow> (token \<times> string) option" where
  "lex_token float_repr s = (case s of
     [] \<Rightarrow> None
   | c # s' \<Rightarrow>
       (case structural c of
          Some t \<Rightarrow> Some (t, s')
        | None \<Rightarrow>
            if code c = 34 then map_option (\<lambda>(t, rest). (TText t, rest)) (lex_string s')
            else (case lex_word s of
                Some r \<Rightarrow> Some r
              | None \<Rightarrow> lex_number float_repr s)))"

lemma prepend_Some: "prepend c r = Some (t, rest) \<longleftrightarrow> (\<exists>u. r = Some (u, rest) \<and> t = c # u)"
  by (cases r) (auto simp: prepend_def)

lemma lex_string_shorter: "lex_string s = Some (t, rest) \<Longrightarrow> length rest < length s"
proof (induction s arbitrary: t rest rule: lex_string.induct)
  case (2 c s)
  then show ?case
    by (auto simp: prepend_Some split: if_splits list.splits option.splits; fastforce)
qed simp

lemma split_digits_length: "length (snd (split_digits s)) \<le> length s"
  by (simp add: split_digits_def length_dropWhile_le)

lemma lex_fraction_length: "length (snd (lex_fraction s)) \<le> length s"
  by (cases s) (auto simp: lex_fraction_def intro: le_SucI split_digits_length)

lemma lex_exponent_length: "length (snd (lex_exponent s)) \<le> length s"
  by (auto simp: lex_exponent_def split_digits_def le_SucI length_dropWhile_le split: list.splits)

lemma lex_integer_shorter: "lex_integer s = Some (ds, rest) \<Longrightarrow> length rest < length s"
  by (auto simp: lex_integer_def split_digits_def le_imp_less_Suc length_dropWhile_le
      split: list.splits if_splits)

lemma lex_number_shorter:
  assumes "lex_number fr s = Some (t, rest)"
  shows "length rest < length s"
proof -
  define s1 where "s1 = (case s of c # s' \<Rightarrow> if c = CHR ''-'' then s' else s | [] \<Rightarrow> s)"
  have "length s1 \<le> length s" by (simp add: s1_def split: list.splits)
  moreover obtain ds s2 where two: "lex_integer s1 = Some (ds, s2)"
      "rest = snd (lex_exponent (snd (lex_fraction s2)))"
    using assms by (auto simp: lex_number_def s1_def Let_def split: list.splits option.splits if_splits prod.splits)
  moreover have "length s2 < length s1" using two(1) by (rule lex_integer_shorter)
  moreover have "length rest \<le> length s2"
    unfolding two(2) using lex_exponent_length lex_fraction_length le_trans by blast
  ultimately show ?thesis by linarith
qed

lemma find_SomeD: "find P xs = Some x \<Longrightarrow> P x \<and> x \<in> set xs"
  by (induction xs) (auto split: if_splits)

lemma lex_word_shorter:
  assumes "lex_word s = Some (t, rest)"
  shows "length rest < length s"
proof -
  obtain w where "find (\<lambda>p. startswith s (fst p)) json_words = Some (w, t)" "rest = drop (length w) s"
    using assms by (auto simp: lex_word_def split: option.splits)
  then have "startswith s w" "(w, t) \<in> set json_words"
    by (auto dest!: find_SomeD)
  moreover from this(2) have "w \<noteq> []" by (auto simp: json_words_def)
  ultimately show ?thesis
    using \<open>rest = drop (length w) s\<close> by (auto simp: startswith_iff)
qed

lemma lex_token_shorter: "lex_token fr s = Some (t, rest) \<Longrightarrow> length rest < length s"
  by (auto simp: lex_token_def dest: lex_string_shorter lex_word_shorter lex_number_shorter
      split: list.splits option.splits if_splits; fastforce dest: lex_string_shorter)

function lex :: "(string \<Rightarrow> string) \<Rightarrow> string \<Rightarrow> token list" where
  "lex float_repr [] = []"
| "lex float_repr (c # s) =
     (if is_space c then lex float_repr s
      else (case lex_token float_repr (c # s) of
          None \<Rightarrow> [TBad]
        | Some (t, rest) \<Rightarrow> t # lex float_repr rest))"
  by pat_completeness auto
termination
  by (relation "measure (\<lambda>(_, s). length s)") (auto dest: lex_token_shorter)

subsection \<open>Values from tokens\<close>

datatype frame = Elements "pyval list" | Members "(string \<times> pyval) list" string

type_synonym pairs_hook = "(string \<times> pyval) list \<Rightarrow> pyval result"
type_synonym constant_hook = "string \<Rightarrow> pyval result"

definition json_error :: exn where
  "json_error = ValueError ''JSONDecodeError''"

definition skip_token :: "token \<Rightarrow> token list \<Rightarrow> token list option" where
  "skip_token t ts = (case ts of [] \<Rightarrow> None | t' # ts' \<Rightarrow> if t' = t then Some ts' else None)"

definition member_key :: "token list \<Rightarrow> (string \<times> token list) option" where
  "member_key ts = (case ts of
     t # ts' \<Rightarrow> (case t of TText k \<Rightarrow> map_option (Pair k) (skip_token TColon ts') | _ \<Rightarrow> None)
   | [] \<Rightarrow> None)"

lemma skip_token_Some: "skip_token t ts = Some ts' \<longleftrightarrow> ts = t # ts'"
  by (auto simp: skip_token_def split: list.splits)

lemma member_key_Some: "member_key ts = Some (k, ts') \<longleftrightarrow> ts = TText k # TColon # ts'"
  by (auto simp: member_key_def skip_token_Some split: list.splits token.splits)

function expect_value :: "pairs_hook \<Rightarrow> constant_hook \<Rightarrow> frame list \<Rightarrow> token list \<Rightarrow> pyval result"
and after_value :: "pairs_hook \<Rightarrow> constant_hook \<Rightarrow> frame list \<Rightarrow> pyval \<Rightarrow> token list \<Rightarrow> pyval result" where
  "expect_value hook on_const st ts = (case ts of
     [] \<Rightarrow> Inl json_error
   | t # ts1 \<Rightarrow> (case t of
       TScalar v \<Rightarrow> after_value hook on_const st v ts1
     | TText s \<Rightarrow> after_value hook on_const st (PyStr s) ts1
     | TConst s \<Rightarrow> (case on_const s of Inl e \<Rightarrow> Inl e | Inr v \<Rightarrow> after_value hook on_const st v ts1)
     | TLBracket \<Rightarrow> (case skip_token TRBracket ts1 of
           Some ts2 \<Rightarrow> after_value hook on_const st (PyList []) ts2
         | None \<Rightarrow> expect_value hook on_const (Elements [] # st) ts1)
     | TLBrace \<Rightarrow> (case skip_token TRBrace ts1 of
           Some ts2 \<Rightarrow> (case hook [] of Inl e \<Rightarrow> Inl e | Inr v \<Rightarrow> after_value hook on_const st v ts2)
         | None \<Rightarrow> (case member_key ts1 of
               None \<Rightarrow> Inl json_error
             | Some (k, ts2) \<Rightarrow> expect_value hook on_const (Members [] k # st) ts2))
     | _ \<Rightarrow> Inl json_error))"
| "after_value hook on_const st v ts = (case st of
     [] \<Rightarrow> (if ts = [] then Inr v else Inl json_error)
   | f # st' \<Rightarrow> (case ts of
       [] \<Rightarrow> Inl json_error
     | t # ts1 \<Rightarrow> (case f of
         Elements vs \<Rightarrow>
           if t = TComma then expect_value hook on_const (Elements (vs @ [v]) # st') ts1
           else if t = TRBracket then after_value hook on_const st' (PyList (vs @ [v])) ts1
           else Inl json_error
       | Members items k \<Rightarrow>
           if t = TComma then (case member_key ts1 of
               None \<Rightarrow> Inl json_error
             | Some (k', ts2) \<Rightarrow> expect_value hook on_const (Members (items @ [(k, v)]) k' # st') ts2)
           else if t = TRBrace then (case hook (items @ [(k, v)]) of
               Inl e \<Rightarrow> Inl e
             | Inr w \<Rightarrow> after_value hook on_const st' w ts1)
           else Inl json_error)))"
  by pat_completeness auto
termination
  by (relation "measure (\<lambda>p. case p of Inl (_, _, _, ts) \<Rightarrow> length ts | Inr (_, _, _, _, ts) \<Rightarrow> length ts)")
    (auto simp: skip_token_Some member_key_Some)

declare expect_value.simps [simp del] after_value.simps [simp del]

definition json_loads :: "(string \<Rightarrow> string) \<Rightarrow> pairs_hook \<Rightarrow> constant_hook \<Rightarrow> string \<Rightarrow> pyval result" where
  "json_loads float_repr hook on_const raw = expect_value hook on_const [] (lex float_repr raw)"

subsection \<open>Reading what dumps wrote\<close>

text \<open>
  Values without floats, with distinct keys and integers that CPython reads back; and the value
  with the items of every dictionary sorted.
\<close>

primrec plain :: "pyval \<Rightarrow> bool" where
  "plain PyNone = True"
| "plain (PyBool b) = True"
| "plain (PyInt i) = (length (decimal_digits (nat \<bar>i\<bar>)) \<le> 4300)"
| "plain (PyFloat t) = False"
| "plain (PyStr s) = True"
| "plain (PyList xs) = list_all (\<lambda>b. b) (map plain xs)"
| "plain (PyDict d) = (wf_dict d \<and> list_all snd (map (map_prod id plain) d))"

primrec ordered :: "pyval \<Rightarrow> pyval" where
  "ordered PyNone = PyNone"
| "ordered (PyBool b) = PyBool b"
| "ordered (PyInt i) = PyInt i"
| "ordered (PyFloat t) = PyFloat t"
| "ordered (PyStr s) = PyStr s"
| "ordered (PyList xs) = PyList (map ordered xs)"
| "ordered (PyDict d) = PyDict (sorted_items (map (map_prod id ordered) d))"

definition delimited :: "string \<Rightarrow> bool" where
  "delimited rest = (rest = [] \<or> hd rest \<in> {CHR '','', CHR '']'', CHR ''}''})"

lemma hex_value_digit: "n < 16 \<Longrightarrow> hex_value (hex_digit n) = Some n"
proof -
  assume "n < 16"
  then have "n \<in> set [0..<16]" by simp
  moreover have "\<forall>n \<in> set [0..<16]. hex_value (hex_digit n) = Some n"
    by (simp add: upt_rec hex_value_def hex_digit_def hex_digits_def is_digit_def code_def)
  ultimately show ?thesis by blast
qed

lemma hex4_of_int: "n < 256 \<Longrightarrow> \<exists>a b x y. hex_of_int 4 (int n) = [a, b, x, y] \<and> hex4 a b x y = Some n"
proof -
  assume n: "n < 256"
  have d: "int n div 4096 mod 16 = 0" "int n div 256 mod 16 = 0" "int n div 16 mod 16 = int (n div 16)"
    "int n mod 16 = int (n mod 16)"
    using n by (simp_all add: zdiv_int zmod_int)
  have four: "(4::nat) = Suc (Suc (Suc (Suc 0)))" by simp
  have "hex_of_int 4 (int n) = [hex_digit 0, hex_digit 0, hex_digit (n div 16), hex_digit (n mod 16)]"
    unfolding four by (simp add: d)
  moreover have "hex_value (hex_digit (n div 16)) = Some (n div 16)" "hex_value (hex_digit 0) = Some 0"
    using n by (simp_all add: hex_value_digit)
  ultimately show ?thesis
    by (simp add: hex4_def hex_value_digit)
qed

lemma code_less [simp]: "code c < 256"
  by (simp add: code_def)

lemma char_of_code [simp]: "char_of (code c) = c"
  by (simp add: code_def)

lemma code_eq_char: "code c = n \<Longrightarrow> c = char_of n"
  by (metis char_of_code)

lemma lex_string_unicode:
  assumes "hex4 a b x y = Some n" "n < 256"
  shows "lex_string (CHR 0x5C # CHR ''u'' # a # b # x # y # s) = prepend (char_of n) (lex_string s)"
  by (subst lex_string.simps) (simp add: code_def assms)

lemma lex_string_escape: "lex_string (escape_char c @ s) = prepend c (lex_string s)"
proof -
  consider (special) "code c \<in> {34, 92, 10, 13, 9, 12, 8}"
    | (plain) "code c \<notin> {34, 92}" "32 \<le> code c" "code c < 127"
    | (hex) "code c \<notin> {34, 92, 10, 13, 9, 12, 8}" "\<not> (32 \<le> code c \<and> code c < 127)" by auto
  then show ?thesis
  proof cases
    case special
    then have "code c \<in> code ` {CHR 0x22, CHR 0x5C, CHR 0x0A, CHR 0x0D, CHR 0x09, CHR 0x0C, CHR 0x08}"
      by (simp add: code_def)
    then have "c \<in> {CHR 0x22, CHR 0x5C, CHR 0x0A, CHR 0x0D, CHR 0x09, CHR 0x0C, CHR 0x08}"
      by (metis (no_types, lifting) char_of_code imageE)
    then show ?thesis
      by (auto simp: escape_char_def code_def simple_escape_def)
  next
    case plain
    then show ?thesis by (simp add: escape_char_def)
  next
    case hex
    obtain a b x y where u: "hex_of_int 4 (int (code c)) = [a, b, x, y]" "hex4 a b x y = Some (code c)"
      using hex4_of_int [of "code c"] code_less [of c] by blast
    have "escape_char c = CHR 0x5C # CHR ''u'' # [a, b, x, y]"
      using hex unfolding escape_char_def u(1) by simp
    then show ?thesis
      using lex_string_unicode [OF u(2) code_less] by simp
  qed
qed

lemma lex_string_dump: "lex_string (concat (map escape_char s) @ CHR 0x22 # rest) = Some (s, rest)"
  by (induction s) (simp_all add: lex_string_escape prepend_def code_def)

declare lex.simps(2) [simp del]

lemma lex_token_step:
  "lex_token fr (c # s) = Some (t, rest) \<Longrightarrow> \<not> is_space c \<Longrightarrow> lex fr (c # s) = t # lex fr rest"
  by (simp add: lex.simps(2))

lemma lex_structural [simp]:
  "lex fr (CHR ''{'' # s) = TLBrace # lex fr s" "lex fr (CHR ''}'' # s) = TRBrace # lex fr s"
  "lex fr (CHR ''['' # s) = TLBracket # lex fr s" "lex fr (CHR '']'' # s) = TRBracket # lex fr s"
  "lex fr (CHR '':'' # s) = TColon # lex fr s" "lex fr (CHR '','' # s) = TComma # lex fr s"
  by (rule lex_token_step; simp add: lex_token_def structural_def is_space_def code_def)+

lemma lex_dump_str: "lex fr (dump_str s @ rest) = TText s # lex fr rest"
proof -
  have "structural (CHR 0x22) = None" "code (CHR 0x22) = 34" "\<not> is_space (CHR 0x22)"
    by (simp_all add: structural_def code_def is_space_def)
  then show ?thesis
    unfolding dump_str_def append.simps append_assoc
    by (intro lex_token_step) (simp_all add: lex_token_def lex_string_dump)
qed

lemma lex_words:
  "lex fr (''null'' @ s) = TScalar PyNone # lex fr s"
  "lex fr (''true'' @ s) = TScalar (PyBool True) # lex fr s"
  "lex fr (''false'' @ s) = TScalar (PyBool False) # lex fr s"
  unfolding append.simps
  by (rule lex_token_step; simp add: lex_token_def structural_def is_space_def code_def lex_word_def
      json_words_def startswith_def)+

lemma is_digit_char [simp]: "(k::nat) < 10 \<Longrightarrow> is_digit (char_of (48 + k))"
  by (simp add: is_digit_def code_def)

lemma zero_char: "char_of (48::nat) = CHR ''0''"
proof -
  have "code CHR ''0'' = 48" by (simp add: code_def)
  then show ?thesis by (metis char_of_code)
qed

lemma decimal_digits_all: "list_all is_digit (decimal_digits n)"
proof (induction n rule: decimal_digits.induct)
  case (1 n)
  then show ?case by (subst decimal_digits.simps) simp
qed

lemma digits_value_snoc: "digits_value (ds @ [c]) = 10 * digits_value ds + int (code c - 48)"
  by (simp add: digits_value_def)

lemma digits_value_decimal: "digits_value (decimal_digits n) = int n"
proof (induction n rule: decimal_digits.induct)
  case (1 n)
  have m: "n mod 10 < 10" by simp
  have n: "int n = 10 * int (n div 10) + int (n mod 10)" by presburger
  show ?case
  proof (cases "n < 10")
    case True
    then show ?thesis by (subst decimal_digits.simps) (simp add: digits_value_def code_def)
  next
    case False
    with 1 m have "digits_value (decimal_digits n) = 10 * int (n div 10) + int (n mod 10)"
      by (subst decimal_digits.simps) (simp add: digits_value_snoc code_def)
    then show ?thesis using n by simp
  qed
qed

lemma decimal_digits_head: "n \<noteq> 0 \<Longrightarrow> \<exists>c cs. decimal_digits n = c # cs \<and> c \<noteq> CHR ''0''"
proof (induction n rule: decimal_digits.induct)
  case (1 n)
  show ?case
  proof (cases "n < 10")
    case True
    then have "code (char_of (48 + n)) \<noteq> code CHR ''0''" using 1(2) by (simp add: code_def)
    then have "char_of (48 + n) \<noteq> CHR ''0''" by metis
    with True show ?thesis by (subst decimal_digits.simps) simp
  next
    case False
    then have "n div 10 \<noteq> 0" by simp
    then show ?thesis using 1(1) False by (subst decimal_digits.simps) auto
  qed
qed

definition no_digit_head :: "string \<Rightarrow> bool" where
  "no_digit_head s = (s = [] \<or> \<not> is_digit (hd s) \<and> hd s \<notin> {CHR ''.'', CHR ''e'', CHR ''E''})"

lemma delimited_no_digit: "delimited s \<Longrightarrow> no_digit_head s"
  by (auto simp: delimited_def no_digit_head_def is_digit_def code_def)

lemma split_digits_all:
  assumes "list_all is_digit ds" "no_digit_head s"
  shows "split_digits (ds @ s) = (ds, s)"
proof -
  have "takeWhile is_digit s = []" "dropWhile is_digit s = s"
    using assms(2) by (cases s; simp add: no_digit_head_def)+
  then show ?thesis
    using assms(1) by (simp add: split_digits_def list_all_iff)
qed

lemma lex_integer_decimal:
  assumes "no_digit_head s"
  shows "lex_integer (decimal_digits n @ s) = Some (decimal_digits n, s)"
proof (cases "n = 0")
  case True
  then show ?thesis by (simp add: decimal_digits.simps [of 0] lex_integer_def zero_char)
next
  case False
  then obtain c cs where c: "decimal_digits n = c # cs" "c \<noteq> CHR ''0''"
    using decimal_digits_head by blast
  then have "is_digit c" using decimal_digits_all [of n] by simp
  with c show ?thesis
    using split_digits_all [OF decimal_digits_all assms, of n] by (simp add: lex_integer_def)
qed

lemma decimal_digits_nonempty: "\<exists>c cs. decimal_digits n = c # cs \<and> is_digit c"
proof -
  have "decimal_digits n \<noteq> []" by (subst decimal_digits.simps) simp
  then show ?thesis using decimal_digits_all [of n] by (cases "decimal_digits n") auto
qed

lemma lex_number_dump:
  assumes "no_digit_head s" "length (decimal_digits (nat \<bar>i\<bar>)) \<le> 4300"
  shows "lex_number fr (dump_int i @ s) = Some (TScalar (PyInt i), s)"
proof -
  have frac: "lex_fraction s = ([], s)" "lex_exponent s = ([], s)"
    using assms(1) by (cases s; auto simp: lex_fraction_def lex_exponent_def no_digit_head_def split: list.splits)+
  have head: "\<exists>c cs. decimal_digits (nat i) = c # cs \<and> c \<noteq> CHR ''-''"
    using decimal_digits_nonempty [of "nat i"] by (auto simp: is_digit_def code_def)
  show ?thesis
  proof (cases "i < 0")
    case True
    then show ?thesis
      using assms(2) frac by (simp add: dump_int_def lex_number_def lex_integer_decimal [OF assms(1)]
          digits_value_decimal)
  next
    case False
    then show ?thesis
      using assms(2) frac head lex_integer_decimal [OF assms(1), of "nat i"] digits_value_decimal [of "nat i"] by (auto simp: dump_int_def lex_number_def)
  qed
qed

lemma digit_or_minus:
  assumes "is_digit c \<or> c = CHR ''-''"
  shows "structural c = None \<and> code c \<noteq> 34 \<and> \<not> is_space c"
proof -
  have n: "code c = 45 \<or> 48 \<le> code c \<and> code c \<le> 57"
    using assms by (auto simp: is_digit_def code_def)
  moreover have "structural c = None"
  proof (rule ccontr)
    assume "structural c \<noteq> None"
    then have "c \<in> set ''{}[]:,''"
      by (auto simp: structural_def split: if_splits)
    then have "code c \<in> code ` set ''{}[]:,''" by (rule imageI)
    then have "code c \<in> {123, 125, 91, 93, 58, 44}" by (simp add: code_def)
    with n show False by auto
  qed
  ultimately show ?thesis by (auto simp: is_space_def)
qed

lemma word_heads:
  assumes "c \<notin> set ''ntfNI''" "\<not> (c = CHR ''-'' \<and> s \<noteq> [] \<and> hd s = CHR ''I'')"
  shows "lex_word (c # s) = None"
proof (rule ccontr)
  assume "lex_word (c # s) \<noteq> None"
  then obtain w t where "find (\<lambda>p. startswith (c # s) (fst p)) json_words = Some (w, t)"
    by (auto simp: lex_word_def split: option.splits)
  then have "startswith (c # s) w" "(w, t) \<in> set json_words"
    by (auto dest!: find_SomeD)
  then obtain rest where "c # s = w @ rest" "w \<in> set (map fst json_words)"
    by (force simp: startswith_iff)
  with assms show False unfolding json_words_def list.map fst_conv by auto
qed

lemma lex_dump_int:
  assumes "no_digit_head s" "length (decimal_digits (nat \<bar>i\<bar>)) \<le> 4300"
  shows "lex fr (dump_int i @ s) = TScalar (PyInt i) # lex fr s"
proof -
  obtain d ds where d: "decimal_digits (nat \<bar>i\<bar>) = d # ds" "is_digit d"
    using decimal_digits_nonempty by blast
  have no_word: "d \<notin> set ''ntfNI''" "d \<noteq> CHR ''-''" "d \<noteq> CHR ''I''"
    using d(2) by (auto simp: is_digit_def code_def)
  obtain c cs where c: "dump_int i = c # cs" "is_digit c \<or> c = CHR ''-''" "lex_word (c # cs @ s) = None"
  proof (cases "i < 0")
    case True
    then have "dump_int i = CHR ''-'' # d # ds" using d(1) by (simp add: dump_int_def)
    moreover have "lex_word (CHR ''-'' # (d # ds) @ s) = None"
      using no_word(3) by (intro word_heads) auto
    ultimately show ?thesis using that [of "CHR ''-''" "d # ds"] by simp
  next
    case False
    then have "dump_int i = d # ds" using d(1) by (simp add: dump_int_def)
    moreover have "lex_word (d # ds @ s) = None" using no_word by (intro word_heads) auto
    ultimately show ?thesis using d(2) that [of d ds] by simp
  qed
  have "lex_token fr (c # cs @ s) = Some (TScalar (PyInt i), s)"
    using lex_number_dump [OF assms, of fr] digit_or_minus [OF c(2)] c(3)
    by (simp add: lex_token_def c(1))
  then show ?thesis
    using digit_or_minus [OF c(2)] by (simp add: c(1) lex_token_step)
qed

text \<open>A hook keeps items with distinct keys as a dictionary.\<close>

definition keeps_distinct :: "pairs_hook \<Rightarrow> bool" where
  "keeps_distinct hook \<longleftrightarrow> (\<forall>d. wf_dict d \<longrightarrow> hook d = Inr (PyDict d))"

lemma delimited_simps [simp]: "delimited []" "delimited (CHR '','' # s)" "delimited (CHR '']'' # s)"
  "delimited (CHR ''}'' # s)"
  by (simp_all add: delimited_def)

lemma insort_key_map_prod:
  "insort_key fst (map_prod id f p) (map (map_prod id f) xs) = map (map_prod id f) (insort_key fst p xs)"
  by (induction xs) auto

lemma sorted_items_map: "sorted_items (map (map_prod id f) d) = map (map_prod id f) (sorted_items d)"
  by (induction d) (simp_all add: sorted_items_def insort_key_map_prod del: id_apply)

lemma map_prod_id: "map_prod id f = (\<lambda>q. (fst q, f (snd q)))"
  "map_prod (\<lambda>a. a) f = (\<lambda>q. (fst q, f (snd q)))"
  by auto

lemma expect_scalar [simp]:
  "expect_value hook on_const st (TScalar v # ts) = after_value hook on_const st v ts"
  "expect_value hook on_const st (TText s # ts) = after_value hook on_const st (PyStr s) ts"
  by (simp_all add: expect_value.simps [of hook on_const st])

lemma after_elements [simp]:
  "after_value hook on_const (Elements vs # st) v (TComma # ts) =
     expect_value hook on_const (Elements (vs @ [v]) # st) ts"
  "after_value hook on_const (Elements vs # st) v (TRBracket # ts) =
     after_value hook on_const st (PyList (vs @ [v])) ts"
  by (simp_all add: after_value.simps [of hook on_const "Elements vs # st"])

lemma after_members [simp]:
  "after_value hook on_const (Members items k # st) v (TComma # TText k' # TColon # ts) =
     expect_value hook on_const (Members (items @ [(k, v)]) k' # st) ts"
  "after_value hook on_const (Members items k # st) v (TRBrace # ts) =
     (case hook (items @ [(k, v)]) of Inl e \<Rightarrow> Inl e | Inr w \<Rightarrow> after_value hook on_const st w ts)"
  by (simp_all add: after_value.simps [of hook on_const "Members items k # st"] member_key_def skip_token_def)

lemma expect_open [simp]:
  "expect_value hook on_const st (TLBracket # TRBracket # ts) = after_value hook on_const st (PyList []) ts"
  "t \<noteq> TRBracket \<Longrightarrow> expect_value hook on_const st (TLBracket # t # ts) =
     expect_value hook on_const (Elements [] # st) (t # ts)"
  "expect_value hook on_const st (TLBrace # TRBrace # ts) =
     (case hook [] of Inl e \<Rightarrow> Inl e | Inr v \<Rightarrow> after_value hook on_const st v ts)"
  "expect_value hook on_const st (TLBrace # TText k # TColon # ts) =
     expect_value hook on_const (Members [] k # st) ts"
  by (simp_all add: expect_value.simps [of hook on_const st "TLBracket # t # ts" for t ts]
      expect_value.simps [of hook on_const st "TLBrace # ts" for ts] skip_token_def member_key_def)

definition reads_back :: "pairs_hook \<Rightarrow> constant_hook \<Rightarrow> (string \<Rightarrow> string) \<Rightarrow> pyval \<Rightarrow> bool" where
  "reads_back hook on_const fr v \<longleftrightarrow> (\<forall>st rest. delimited rest \<longrightarrow>
     expect_value hook on_const st (lex fr (dumps v @ rest)) =
     after_value hook on_const st (ordered v) (lex fr rest))"

lemma reads_elements:
  assumes "\<And>z. z \<in> set (x # xs) \<Longrightarrow> reads_back hook on_const fr z"
  shows "expect_value hook on_const (Elements vs # st) (lex fr (join '','' (map dumps (x # xs)) @ '']'' @ rest)) =
    after_value hook on_const st (PyList (vs @ map ordered (x # xs))) (lex fr rest)"
  using assms
proof (induction xs arbitrary: vs x)
  case Nil
  then show ?case by (simp add: reads_back_def)
next
  case (Cons y ys)
  have "reads_back hook on_const fr x" by (rule Cons.prems) simp
  moreover have "expect_value hook on_const (Elements (vs @ [ordered x]) # st)
      (lex fr (join '','' (map dumps (y # ys)) @ '']'' @ rest)) =
      after_value hook on_const st (PyList ((vs @ [ordered x]) @ map ordered (y # ys))) (lex fr rest)"
    by (rule Cons.IH) (use Cons.prems in auto)
  ultimately show ?case by (simp add: reads_back_def)
qed

lemma reads_members:
  assumes "\<And>q. q \<in> set (p # ps) \<Longrightarrow> reads_back hook on_const fr (snd q)"
  shows "expect_value hook on_const (Members items (fst p) # st)
      (lex fr (dumps (snd p) @ concat (map (\<lambda>q. '','' @ dump_item (map_prod id dumps q)) ps) @ ''}'' @ rest)) =
    (case hook (items @ map (map_prod id ordered) (p # ps)) of
       Inl e \<Rightarrow> Inl e | Inr w \<Rightarrow> after_value hook on_const st w (lex fr rest))"
  using assms
proof (induction ps arbitrary: items p)
  case Nil
  then show ?case by (cases p) (simp add: reads_back_def)
next
  case (Cons q qs)
  have "reads_back hook on_const fr (snd p)" by (rule Cons.prems) simp
  moreover have "expect_value hook on_const (Members (items @ [map_prod id ordered p]) (fst q) # st)
      (lex fr (dumps (snd q) @ concat (map (\<lambda>q. '','' @ dump_item (map_prod id dumps q)) qs) @ ''}'' @ rest)) =
    (case hook ((items @ [map_prod id ordered p]) @ map (map_prod id ordered) (q # qs)) of
       Inl e \<Rightarrow> Inl e | Inr w \<Rightarrow> after_value hook on_const st w (lex fr rest))"
    by (rule Cons.IH) (use Cons.prems in auto)
  ultimately show ?case
    by (cases p; cases q) (simp add: reads_back_def dump_item_def lex_dump_str map_prod_id)
qed

lemma join_items: "join '','' (x # xs) = x @ concat (map (\<lambda>y. '','' @ y) xs)"
  by (induction xs arbitrary: x) auto

lemma dumps_first_token: "\<exists>t ts. lex fr (dumps v @ rest) = t # ts \<and> t \<noteq> TRBracket" if "plain v" "delimited rest"
  using that
  by (cases v) (auto simp: lex_words [unfolded append.simps] lex_dump_str lex_dump_int delimited_no_digit)

lemma dumps_reads_back: "keeps_distinct hook \<Longrightarrow> plain v \<Longrightarrow> reads_back hook on_const fr v"
proof (induction v)
  case (PyList xs)
  then have parts: "reads_back hook on_const fr x" if "x \<in> set xs" for x
    using that by (simp add: list_all_iff)
  show ?case
  proof (cases xs)
    case Nil
    then show ?thesis by (simp add: reads_back_def)
  next
    case (Cons x ys)
    have "\<exists>t ts. lex fr (join '','' (map dumps xs) @ '']'' @ rest) = t # ts \<and> t \<noteq> TRBracket" for rest
    proof -
      have "plain x" using PyList.prems(2) Cons by simp
      then have "\<exists>t ts. lex fr (dumps x @ tail) = t # ts \<and> t \<noteq> TRBracket" if "delimited tail" for tail
        using dumps_first_token that by blast
      then show ?thesis using Cons by (cases ys) simp_all
    qed
    then have "expect_value hook on_const st (TLBracket # lex fr (join '','' (map dumps xs) @ '']'' @ rest)) =
        expect_value hook on_const (Elements [] # st) (lex fr (join '','' (map dumps xs) @ '']'' @ rest))" for st rest
      by (metis expect_open(2))
    moreover have "expect_value hook on_const (Elements [] # st)
        (lex fr (join '','' (map dumps (x # ys)) @ '']'' @ rest)) =
        after_value hook on_const st (PyList ([] @ map ordered (x # ys))) (lex fr rest)" for st rest
      by (rule reads_elements) (simp add: parts Cons)
    ultimately show ?thesis using Cons by (simp add: reads_back_def)
  qed
next
  case (PyDict d)
  have wf: "wf_dict d" using PyDict.prems by simp
  have parts: "reads_back hook on_const fr (snd q)" if "q \<in> set (sorted_items d)" for q
  proof -
    from that have q: "q \<in> set d" by simp
    moreover have "snd q \<in> Basic_BNFs.snds q" by (cases q) simp
    moreover have "plain (snd q)" using q PyDict.prems(2) by (auto simp: list_all_iff)
    ultimately show ?thesis using PyDict.IH PyDict.prems(1) by blast
  qed
  have kept: "hook (map (map_prod id ordered) (sorted_items d)) =
      Inr (PyDict (map (map_prod id ordered) (sorted_items d)))"
  proof -
    have "keys (map (map_prod id ordered) (sorted_items d)) = keys (sorted_items d)"
      by (simp add: keys_def)
    then show ?thesis
      using PyDict.prems(1) wf wf_dict_sorted_items [of d] by (simp add: keeps_distinct_def wf_dict_def)
  qed
  show ?case
  proof (cases "sorted_items d")
    case Nil
    then show ?thesis
      using kept by (simp add: reads_back_def sorted_items_map)
  next
    case (Cons p ps)
    then have "reads_back hook on_const fr (snd z)" if "z \<in> set (p # ps)" for z
      using parts that by simp
    then have "expect_value hook on_const (Members [] (fst p) # st)
        (lex fr (dumps (snd p) @ concat (map (\<lambda>q. '','' @ dump_item (map_prod id dumps q)) ps) @ ''}'' @ rest)) =
        (case hook ([] @ map (map_prod id ordered) (p # ps)) of
           Inl e \<Rightarrow> Inl e | Inr w \<Rightarrow> after_value hook on_const st w (lex fr rest))" for st rest
      by (rule reads_members)
    then show ?thesis
      using Cons kept
      by (cases p) (simp add: reads_back_def sorted_items_map [unfolded map_prod_id] join_items comp_def dump_item_def lex_dump_str map_prod_id)
  qed
qed (auto simp: reads_back_def lex_words [unfolded append.simps] lex_dump_str lex_dump_int delimited_no_digit)

lemma json_loads_dumps:
  assumes "keeps_distinct hook" "plain v"
  shows "json_loads fr hook on_const (dumps v) = Inr (ordered v)"
proof -
  have "expect_value hook on_const [] (lex fr (dumps v @ [])) = after_value hook on_const [] (ordered v) (lex fr [])"
    using dumps_reads_back [OF assms] delimited_simps(1) unfolding reads_back_def by blast
  then show ?thesis by (simp add: json_loads_def after_value.simps [of hook on_const "[]"])
qed

end
