(* ===== verification/ExecutionContracts.thy ===== *)
theory ExecutionContracts
  imports Json
begin

section \<open>packages/execution_contracts/contracts.py: execution plans and results\<close>

text \<open>
  The contracts that cross the boundary to the fixture runner. A field whose type no code checks
  before it is compared is a \<open>pyval\<close>, as it comes out of the JSON text; the guards then compare it
  as Python does. \<open>_load_unique_json\<close> is \<open>load_unique_json\<close> on the text itself; the plan and the
  result are read back by \<open>parse_execution_plan_json\<close> and \<open>parse_execution_result_json\<close>. The
  regular expressions are written as predicates: a fixed prefix and a number of lower-case
  hexadecimal digits; \<open>str(UUID(item)) == item\<close> holds exactly for the canonical text of a UUID.
\<close>

definition ece :: "string \<Rightarrow> exn" where
  "ece c = ExecutionContractError c"

definition EXECUTION_PLAN_SCHEMA_VERSION :: string where
  "EXECUTION_PLAN_SCHEMA_VERSION = ''releaseproof.execution-plan.v1''"

definition EXECUTION_RESULT_SCHEMA_VERSION :: string where
  "EXECUTION_RESULT_SCHEMA_VERSION = ''releaseproof.execution-result.v1''"

definition RUNNER_VERSION :: string where
  "RUNNER_VERSION = ''releaseproof-fixture-runner-v1''"

definition FIXTURE_ID :: string where
  "FIXTURE_ID = ''releaseproof-fictional-python-v1''"

definition CONTROLLED_FIXTURE_TREE_SHA256 :: string where
  "CONTROLLED_FIXTURE_TREE_SHA256 =
     ''70b1ebeb3d2257fa88667f06d8df3690de118dd277ec993f805d1851c17b4673''"

definition SAFE_ENV :: "(string \<times> pyval) list" where
  "SAFE_ENV = [(''LANG'', PyStr ''C.UTF-8''), (''PYTHONDONTWRITEBYTECODE'', PyStr ''1''),
     (''PYTEST_DISABLE_PLUGIN_AUTOLOAD'', PyStr ''1''), (''PYTHONHASHSEED'', PyStr ''0'')]"

definition EXPECTED_ARTIFACTS :: "pyval list" where
  "EXPECTED_ARTIFACTS = [PyStr ''runner-result-json-v1'']"

definition RESOURCE_FIELDS :: "string list" where
  "RESOURCE_FIELDS = [''cpu_millis'', ''memory_bytes'', ''output_bytes'', ''pids'',
     ''wall_time_seconds'', ''writable_tmpfs_bytes'']"

subsection \<open>Regular expressions and identifiers\<close>

definition is_checkout_sha :: "string \<Rightarrow> bool" where
  "is_checkout_sha s = (length s = 40 \<and> is_hex s)"

definition image_prefix :: string where
  "image_prefix = ''releaseproof/fixture-runner@sha256:''"

definition is_image :: "string \<Rightarrow> bool" where
  "is_image s = (startswith s image_prefix \<and> is_sha256_text (drop (length image_prefix) s))"

definition is_uuid_text :: "string \<Rightarrow> bool" where
  "is_uuid_text s = (length s = 36 \<and>
     list_all (\<lambda>i. if i \<in> {8, 13, 18, 23} then s ! i = CHR ''-'' else s ! i \<in> set hex_digits) [0..<36])"

text \<open>\<open>pattern.fullmatch(value) is None\<close>: a TypeError on anything but a string.\<close>

definition no_match :: "(string \<Rightarrow> bool) \<Rightarrow> pyval \<Rightarrow> string \<Rightarrow> exn option" where
  "no_match p v error_code = (case v of
      PyStr s \<Rightarrow> raise_if (\<not> p s) (ece error_code)
    | _ \<Rightarrow> Some (TypeError ''expected string or bytes-like object''))"

definition checksum :: "pyval \<Rightarrow> string \<Rightarrow> exn option" where
  "checksum v error_code = raise_if (case v of PyStr s \<Rightarrow> \<not> is_sha256_text s | _ \<Rightarrow> True) (ece error_code)"

definition exact_keys :: "pydict \<Rightarrow> string list \<Rightarrow> string \<Rightarrow> exn option" where
  "exact_keys d expected error_code = raise_if (\<not> has_exactly d expected) (ece error_code)"

lemma no_match_None: "no_match p v c = None \<longleftrightarrow> (\<exists>s. v = PyStr s \<and> p s)"
  by (cases v) (simp_all add: no_match_def)

lemma checksum_None: "checksum v c = None \<longleftrightarrow> (\<exists>s. v = PyStr s \<and> is_sha256_text s)"
  by (cases v) (simp_all add: checksum_def)

subsection \<open>Enumerations\<close>

datatype host_profile = DEDICATED_ROOTLESS_FIXTURE | EPHEMERAL_CI_FIXTURE

fun host_profile_value :: "host_profile \<Rightarrow> string" where
  "host_profile_value DEDICATED_ROOTLESS_FIXTURE = ''dedicated-rootless-fixture-v1''"
| "host_profile_value EPHEMERAL_CI_FIXTURE = ''ephemeral-ci-fixture-v1''"

definition host_profiles :: "host_profile list" where
  "host_profiles = [DEDICATED_ROOTLESS_FIXTURE, EPHEMERAL_CI_FIXTURE]"

datatype execution_outcome =
  EO_PASSED | EO_FAILED | EO_TIMEOUT | EO_KILLED | EO_ISOLATION_FAILURE | EO_RUNNER_UNAVAILABLE

fun outcome_value :: "execution_outcome \<Rightarrow> string" where
  "outcome_value EO_PASSED = ''passed''"
| "outcome_value EO_FAILED = ''failed''"
| "outcome_value EO_TIMEOUT = ''timeout''"
| "outcome_value EO_KILLED = ''killed''"
| "outcome_value EO_ISOLATION_FAILURE = ''isolation_failure''"
| "outcome_value EO_RUNNER_UNAVAILABLE = ''runner_unavailable''"

definition execution_outcomes :: "execution_outcome list" where
  "execution_outcomes = [EO_PASSED, EO_FAILED, EO_TIMEOUT, EO_KILLED, EO_ISOLATION_FAILURE,
     EO_RUNNER_UNAVAILABLE]"

lemma host_profile_member [simp]:
  "enum_member host_profile_value host_profiles (PyStr (host_profile_value p)) = Inr p"
  by (cases p) (simp_all add: enum_member_def host_profiles_def)

lemma outcome_member [simp]:
  "enum_member outcome_value execution_outcomes (PyStr (outcome_value x)) = Inr x"
  by (cases x) (simp_all add: enum_member_def execution_outcomes_def)

subsection \<open>ResourceLimitsV1\<close>

record resource_limits =
  rl_cpu_millis :: int
  rl_memory_bytes :: int
  rl_pids :: int
  rl_wall_time_seconds :: int
  rl_output_bytes :: int
  rl_writable_tmpfs_bytes :: int

definition default_resources :: resource_limits where
  "default_resources = \<lparr>rl_cpu_millis = 500, rl_memory_bytes = 268435456, rl_pids = 64,
     rl_wall_time_seconds = 15, rl_output_bytes = 65536, rl_writable_tmpfs_bytes = 67108864\<rparr>"

definition in_range :: "int \<Rightarrow> int \<Rightarrow> int \<Rightarrow> bool" where
  "in_range lo x hi = (lo \<le> x \<and> x \<le> hi)"

definition resource_limits_post_init :: "resource_limits \<Rightarrow> exn option" where
  "resource_limits_post_init r = first_raise [
     raise_if (\<not> in_range 100 (rl_cpu_millis r) 1000) (ece ''cpu_limit_invalid''),
     raise_if (\<not> in_range 134217728 (rl_memory_bytes r) 536870912) (ece ''memory_limit_invalid''),
     raise_if (\<not> in_range 16 (rl_pids r) 128) (ece ''pid_limit_invalid''),
     raise_if (\<not> in_range 2 (rl_wall_time_seconds r) 60) (ece ''timeout_invalid''),
     raise_if (\<not> in_range 4096 (rl_output_bytes r) 65536) (ece ''output_limit_invalid''),
     raise_if (\<not> in_range 16777216 (rl_writable_tmpfs_bytes r) 134217728) (ece ''disk_limit_invalid'')]"

definition resource_limits_as_dict :: "resource_limits \<Rightarrow> pydict" where
  "resource_limits_as_dict r = [
     (''cpu_millis'', PyInt (rl_cpu_millis r)),
     (''memory_bytes'', PyInt (rl_memory_bytes r)),
     (''output_bytes'', PyInt (rl_output_bytes r)),
     (''pids'', PyInt (rl_pids r)),
     (''wall_time_seconds'', PyInt (rl_wall_time_seconds r)),
     (''writable_tmpfs_bytes'', PyInt (rl_writable_tmpfs_bytes r))]"

fun int_of :: "pyval \<Rightarrow> int" where
  "int_of (PyInt i) = i"
| "int_of _ = 0"

fun is_int :: "pyval \<Rightarrow> bool" where
  "is_int (PyInt _) = True"
| "is_int _ = False"

definition item_int :: "pydict \<Rightarrow> string \<Rightarrow> int" where
  "item_int d k = (case map_of d k of Some v \<Rightarrow> int_of v | None \<Rightarrow> 0)"

text \<open>After the two guards every field is present and an integer, so \<open>item_int\<close> reads it.\<close>

definition resource_limits_from_dict :: "pyval \<Rightarrow> resource_limits result" where
  "resource_limits_from_dict value = (case value of
      PyDict d \<Rightarrow>
        (case first_raise [
             exact_keys d RESOURCE_FIELDS ''resources_invalid'',
             raise_if (list_ex (\<lambda>(_, v). \<not> is_int v) d) (ece ''resources_invalid'')] of
           Some e \<Rightarrow> Inl e
         | None \<Rightarrow> construct_with resource_limits_post_init
             \<lparr>rl_cpu_millis = item_int d ''cpu_millis'', rl_memory_bytes = item_int d ''memory_bytes'',
              rl_pids = item_int d ''pids'', rl_wall_time_seconds = item_int d ''wall_time_seconds'',
              rl_output_bytes = item_int d ''output_bytes'',
              rl_writable_tmpfs_bytes = item_int d ''writable_tmpfs_bytes''\<rparr>)
    | _ \<Rightarrow> Inl (ece ''resources_invalid''))"

lemma resource_limits_eta [simp]:
  "\<lparr>rl_cpu_millis = rl_cpu_millis r, rl_memory_bytes = rl_memory_bytes r, rl_pids = rl_pids r,
    rl_wall_time_seconds = rl_wall_time_seconds r, rl_output_bytes = rl_output_bytes r,
    rl_writable_tmpfs_bytes = rl_writable_tmpfs_bytes r\<rparr> = r"
  by simp

lemma resource_limits_round_trip:
  assumes "resource_limits_post_init r = None"
  shows "resource_limits_from_dict (PyDict (resource_limits_as_dict r)) = Inr r"
  using assms
  by (simp add: resource_limits_from_dict_def resource_limits_as_dict_def exact_keys_def
      has_exactly_iff RESOURCE_FIELDS_def item_int_def)

lemma resource_limits_valid: "resource_limits_from_dict v = Inr r \<Longrightarrow> resource_limits_post_init r = None"
  by (auto simp: resource_limits_from_dict_def split: pyval.splits option.splits)

subsection \<open>FixtureExecutionInputV1\<close>

record fixture_execution_input =
  fi_proposal_hash :: string
  fi_file_path :: string
  fi_patch :: string

definition fixture_execution_input_post_init :: "fixture_execution_input \<Rightarrow> exn option" where
  "fixture_execution_input_post_init i = first_raise [
     checksum (PyStr (fi_proposal_hash i)) ''proposal_hash_invalid'',
     raise_if (\<not> startswith (fi_file_path i) ''tests/generated/test_'' \<or>
         \<not> endswith (fi_file_path i) ''.py'' \<or> contains (fi_file_path i) ''..'' \<or>
         contains (fi_file_path i) [CHR 0x5C])
       (ece ''input_path_invalid''),
     raise_if (\<not> (1 \<le> length (utf8 (fi_patch i)) \<and> length (utf8 (fi_patch i)) \<le> 65536) \<or>
         has_nul (fi_patch i))
       (ece ''input_patch_invalid'')]"

definition fixture_execution_input_as_dict :: "fixture_execution_input \<Rightarrow> pydict" where
  "fixture_execution_input_as_dict i = [
     (''file_path'', PyStr (fi_file_path i)), (''patch'', PyStr (fi_patch i)),
     (''proposal_hash'', PyStr (fi_proposal_hash i))]"

definition input_sha256 :: "fixture_execution_input \<Rightarrow> string" where
  "input_sha256 i = object_sha256 (PyDict (fixture_execution_input_as_dict i))"

subsection \<open>ExecutionPlanV1\<close>

record execution_plan =
  ep_organization_id :: pyval
  ep_repository_id :: pyval
  ep_snapshot_id :: pyval
  ep_checkout_sha :: pyval
  ep_proposal_id :: pyval
  ep_proposal_hash :: pyval
  ep_proposal_input_sha256 :: pyval
  ep_fixture_tree_sha256 :: pyval
  ep_image :: pyval
  ep_commands :: "pyval list list"
  ep_resources :: resource_limits
  ep_host_profile :: host_profile
  ep_schema_version :: pyval
  ep_fixture_id :: pyval
  ep_runner_version :: pyval
  ep_network :: pyval
  ep_mounts :: "pyval list"
  ep_environment :: "(string \<times> pyval) list"
  ep_expected_artifacts :: "pyval list"

definition is_uuid :: "pyval \<Rightarrow> bool" where
  "is_uuid v = (case v of PyStr s \<Rightarrow> is_uuid_text s | _ \<Rightarrow> False)"

definition pytest_command :: "pyval list" where
  "pytest_command = [PyStr ''python'', PyStr ''-m'', PyStr ''pytest'', PyStr ''-q'']"

definition command_guard :: "pyval list \<Rightarrow> exn option" where
  "command_guard command =
     (if take 4 command \<noteq> pytest_command \<or> length command \<noteq> 5 then Some (ece ''command_not_allowed'')
      else (case command ! 4 of
          PyStr path \<Rightarrow> raise_if (\<not> startswith path ''tests/generated/test_'' \<or> \<not> endswith path ''.py'')
            (ece ''command_not_allowed'')
        | _ \<Rightarrow> Some (AttributeError ''startswith'')))"

definition execution_plan_post_init :: "execution_plan \<Rightarrow> exn option" where
  "execution_plan_post_init p = first_raise ([
     raise_if (ep_schema_version p \<noteq> PyStr EXECUTION_PLAN_SCHEMA_VERSION) (ece ''plan_schema_unsupported''),
     raise_if (ep_fixture_id p \<noteq> PyStr FIXTURE_ID \<or> ep_runner_version p \<noteq> PyStr RUNNER_VERSION)
       (ece ''runner_identity_invalid''),
     raise_if (ep_network p \<noteq> PyStr ''none'' \<or> ep_mounts p \<noteq> []) (ece ''isolation_policy_invalid''),
     raise_if (\<not> py_eq (PyDict (dict_of (ep_environment p))) (PyDict SAFE_ENV) \<or>
         length (ep_environment p) \<noteq> length SAFE_ENV)
       (ece ''environment_policy_invalid''),
     raise_if (ep_expected_artifacts p \<noteq> EXPECTED_ARTIFACTS) (ece ''artifact_policy_invalid''),
     no_match is_image (ep_image p) ''image_not_allowed'',
     no_match is_checkout_sha (ep_checkout_sha p) ''checkout_sha_invalid'',
     checksum (ep_proposal_hash p) ''proposal_hash_invalid'',
     checksum (ep_proposal_input_sha256 p) ''proposal_input_hash_invalid'',
     checksum (ep_fixture_tree_sha256 p) ''fixture_tree_hash_invalid'',
     raise_if (ep_fixture_tree_sha256 p \<noteq> PyStr CONTROLLED_FIXTURE_TREE_SHA256)
       (ece ''fixture_tree_not_allowed''),
     raise_if (list_ex (\<lambda>v. \<not> is_uuid v)
         [ep_organization_id p, ep_repository_id p, ep_snapshot_id p, ep_proposal_id p])
       (ece ''identifier_invalid''),
     raise_if (\<not> (1 \<le> length (ep_commands p) \<and> length (ep_commands p) \<le> 5)) (ece ''commands_invalid'')] @
     map command_guard (ep_commands p))"

definition execution_plan_content :: "execution_plan \<Rightarrow> pydict" where
  "execution_plan_content p = [
     (''checkout_sha'', ep_checkout_sha p),
     (''commands'', PyList (map PyList (ep_commands p))),
     (''environment'', PyDict (dict_of (ep_environment p))),
     (''expected_artifacts'', PyList (ep_expected_artifacts p)),
     (''fixture_id'', ep_fixture_id p),
     (''fixture_tree_sha256'', ep_fixture_tree_sha256 p),
     (''host_profile'', PyStr (host_profile_value (ep_host_profile p))),
     (''image'', ep_image p),
     (''mounts'', PyList (ep_mounts p)),
     (''network'', ep_network p),
     (''organization_id'', ep_organization_id p),
     (''proposal_hash'', ep_proposal_hash p),
     (''proposal_id'', ep_proposal_id p),
     (''proposal_input_sha256'', ep_proposal_input_sha256 p),
     (''repository_id'', ep_repository_id p),
     (''resources'', PyDict (resource_limits_as_dict (ep_resources p))),
     (''runner_version'', ep_runner_version p),
     (''schema_version'', ep_schema_version p),
     (''snapshot_id'', ep_snapshot_id p)]"

definition plan_sha256 :: "execution_plan \<Rightarrow> string" where
  "plan_sha256 p = object_sha256 (PyDict (execution_plan_content p))"

definition execution_plan_as_dict :: "execution_plan \<Rightarrow> pydict" where
  "execution_plan_as_dict p = execution_plan_content p @ [(''plan_sha256'', PyStr (plan_sha256 p))]"

definition plan_canonical_bytes :: "execution_plan \<Rightarrow> string" where
  "plan_canonical_bytes p = dumps (PyDict (execution_plan_as_dict p))"

subsection \<open>SafeOutputV1\<close>

record safe_output =
  so_excerpt :: pyval
  so_sha256 :: pyval
  so_original_bytes :: pyval
  so_truncated :: pyval

fun is_bool :: "pyval \<Rightarrow> bool" where
  "is_bool (PyBool _) = True"
| "is_bool _ = False"

definition safe_output_post_init :: "safe_output \<Rightarrow> exn option" where
  "safe_output_post_init out = first_raise [
     checksum (so_sha256 out) ''output_hash_invalid'',
     raise_if (case (so_excerpt out, so_original_bytes out) of
         (PyStr s, PyInt n) \<Rightarrow> n < 0 \<or> length (utf8 s) > 65536 \<or> \<not> is_bool (so_truncated out)
       | _ \<Rightarrow> True) (ece ''output_invalid'')]"

text \<open>
  \<open>capture\<close> decodes the first \<open>limit\<close> bytes of the raw output with replacement characters; the
  decoder is \<open>bytes.decode("utf-8", errors="replace")\<close>, passed as \<open>decode_replace\<close>.
\<close>

definition safe_output_capture :: "(string \<Rightarrow> string) \<Rightarrow> string \<Rightarrow> nat \<Rightarrow> safe_output result" where
  "safe_output_capture decode_replace raw limit =
     construct_with safe_output_post_init
       \<lparr>so_excerpt = PyStr (decode_replace (take limit raw)), so_sha256 = PyStr (sha256_hex raw),
        so_original_bytes = PyInt (int (length raw)), so_truncated = PyBool (length raw > limit)\<rparr>"

definition safe_output_as_dict :: "safe_output \<Rightarrow> pydict" where
  "safe_output_as_dict out = [(''excerpt'', so_excerpt out), (''original_bytes'', so_original_bytes out),
     (''sha256'', so_sha256 out), (''truncated'', so_truncated out)]"

definition output_fields :: "string list" where
  "output_fields = [''excerpt'', ''original_bytes'', ''sha256'', ''truncated'']"

definition output_from :: "pyval \<Rightarrow> safe_output result" where
  "output_from value = (case value of
      PyDict d \<Rightarrow>
        (case exact_keys d output_fields ''output_invalid'' of
           Some e \<Rightarrow> Inl e
         | None \<Rightarrow>
             and_then (get_item d ''excerpt'') (\<lambda>excerpt.
             and_then (get_item d ''sha256'') (\<lambda>h.
             and_then (get_item d ''original_bytes'') (\<lambda>size.
             and_then (get_item d ''truncated'') (\<lambda>truncated.
               construct_with safe_output_post_init
                 \<lparr>so_excerpt = excerpt, so_sha256 = h, so_original_bytes = size,
                  so_truncated = truncated\<rparr>)))))
    | _ \<Rightarrow> Inl (ece ''output_invalid''))"

lemma safe_output_eta [simp]:
  "\<lparr>so_excerpt = so_excerpt out, so_sha256 = so_sha256 out, so_original_bytes = so_original_bytes out,
    so_truncated = so_truncated out\<rparr> = out"
  by simp

lemma output_round_trip:
  "safe_output_post_init out = None \<Longrightarrow> output_from (PyDict (safe_output_as_dict out)) = Inr out"
  by (simp add: output_from_def safe_output_as_dict_def exact_keys_def output_fields_def has_exactly_iff)

lemma output_valid: "output_from v = Inr out \<Longrightarrow> safe_output_post_init out = None"
  by (auto simp: output_from_def and_then_Inr split: pyval.splits option.splits)

subsection \<open>ExecutionResultV1\<close>

record execution_result =
  er_plan_sha256 :: pyval
  er_image :: pyval
  er_attempt :: pyval
  er_outcome :: execution_outcome
  er_elapsed_milliseconds :: pyval
  er_exit_code :: pyval
  er_stdout :: safe_output
  er_stderr :: safe_output
  er_timed_out :: pyval
  er_killed :: pyval
  er_cleanup_succeeded :: pyval
  er_isolation_checks :: "(string \<times> bool) list"
  er_artifacts :: "pyval list"
  er_schema_version :: pyval
  er_runner_version :: pyval

text \<open>\<open>type(v) is not int or not lo <= v <= hi\<close>.\<close>

definition bad_int :: "int \<Rightarrow> pyval \<Rightarrow> int \<Rightarrow> bool" where
  "bad_int lo v hi = (case v of PyInt i \<Rightarrow> \<not> in_range lo i hi | _ \<Rightarrow> True)"

definition execution_result_post_init :: "execution_result \<Rightarrow> exn option" where
  "execution_result_post_init r = first_raise [
     checksum (er_plan_sha256 r) ''plan_hash_invalid'',
     no_match is_image (er_image r) ''image_not_allowed'',
     raise_if (bad_int 1 (er_attempt r) 20) (ece ''attempt_invalid''),
     raise_if (bad_int 0 (er_elapsed_milliseconds r) 120000) (ece ''result_timing_invalid''),
     raise_if (er_exit_code r \<noteq> PyNone \<and> bad_int (- 1) (er_exit_code r) 255) (ece ''exit_code_invalid''),
     raise_if (er_schema_version r \<noteq> PyStr EXECUTION_RESULT_SCHEMA_VERSION \<or>
         er_runner_version r \<noteq> PyStr RUNNER_VERSION) (ece ''result_identity_invalid''),
     raise_if (er_artifacts r \<noteq> EXPECTED_ARTIFACTS) (ece ''result_artifacts_invalid''),
     raise_if (length (dict_of (er_isolation_checks r)) \<noteq> length (er_isolation_checks r) \<or>
         \<not> (1 \<le> length (dict_of (er_isolation_checks r)) \<and> length (dict_of (er_isolation_checks r)) \<le> 20))
       (ece ''isolation_checks_invalid''),
     raise_if (er_outcome r = EO_PASSED \<and>
         (\<not> list_all snd (dict_of (er_isolation_checks r)) \<or> \<not> py_eq (er_exit_code r) (PyInt 0)))
       (ece ''passed_result_invalid''),
     raise_if (\<not> py_eq (er_timed_out r) (PyBool (er_outcome r = EO_TIMEOUT))) (ece ''timeout_result_invalid''),
     raise_if (er_outcome r = EO_TIMEOUT \<and> \<not> truthy (er_killed r)) (ece ''timeout_kill_invalid''),
     raise_if (list_ex (\<lambda>v. \<not> is_bool v) [er_timed_out r, er_killed r, er_cleanup_succeeded r])
       (ece ''result_flags_invalid'')]"

definition execution_result_content :: "execution_result \<Rightarrow> pydict" where
  "execution_result_content r = [
     (''artifacts'', PyList (er_artifacts r)),
     (''attempt'', er_attempt r),
     (''cleanup_succeeded'', er_cleanup_succeeded r),
     (''elapsed_milliseconds'', er_elapsed_milliseconds r),
     (''exit_code'', er_exit_code r),
     (''image'', er_image r),
     (''isolation_checks'', PyDict (map (map_prod id PyBool) (dict_of (er_isolation_checks r)))),
     (''killed'', er_killed r),
     (''outcome'', PyStr (outcome_value (er_outcome r))),
     (''plan_sha256'', er_plan_sha256 r),
     (''runner_version'', er_runner_version r),
     (''schema_version'', er_schema_version r),
     (''stderr'', PyDict (safe_output_as_dict (er_stderr r))),
     (''stdout'', PyDict (safe_output_as_dict (er_stdout r))),
     (''timed_out'', er_timed_out r)]"

definition execution_result_sha256 :: "execution_result \<Rightarrow> string" where
  "execution_result_sha256 r = object_sha256 (PyDict (execution_result_content r))"

definition execution_result_as_dict :: "execution_result \<Rightarrow> pydict" where
  "execution_result_as_dict r = execution_result_content r @ [(''result_sha256'', PyStr (execution_result_sha256 r))]"

definition result_canonical_bytes :: "execution_result \<Rightarrow> string" where
  "result_canonical_bytes r = dumps (PyDict (execution_result_as_dict r))"

subsection \<open>Reading JSON documents\<close>

definition unique_pairs :: pairs_hook where
  "unique_pairs values =
     (if wf_dict values then Inr (PyDict values) else Inl (ece ''duplicate_json_key''))"

definition reject_constant :: constant_hook where
  "reject_constant value = Inl (ValueError [])"

definition load_unique_json :: "(string \<Rightarrow> string) \<Rightarrow> nat \<Rightarrow> string \<Rightarrow> pydict result" where
  "load_unique_json float_repr maximum_bytes raw =
     (if length (utf8 raw) > maximum_bytes then Inl (ece ''payload_too_large'')
      else (case json_loads float_repr unique_pairs reject_constant raw of
          Inl (ExecutionContractError c) \<Rightarrow> Inl (ece c)
        | Inl _ \<Rightarrow> Inl (ece ''invalid_json'')
        | Inr (PyDict d) \<Rightarrow> Inr d
        | Inr _ \<Rightarrow> Inl (ece ''invalid_json_shape'')))"

definition plan_keys :: "string list" where
  "plan_keys = [''checkout_sha'', ''commands'', ''environment'', ''expected_artifacts'', ''fixture_id'',
     ''fixture_tree_sha256'', ''host_profile'', ''image'', ''mounts'', ''network'', ''organization_id'',
     ''plan_sha256'', ''proposal_hash'', ''proposal_id'', ''proposal_input_sha256'', ''repository_id'',
     ''resources'', ''runner_version'', ''schema_version'', ''snapshot_id'']"

text \<open>\<open>sorted(value.items())\<close>: an AttributeError on anything but a dictionary.\<close>

definition sorted_items_of :: "pyval \<Rightarrow> (string \<times> pyval) list result" where
  "sorted_items_of v = (case v of PyDict d \<Rightarrow> Inr (sorted_items d) | _ \<Rightarrow> Inl (AttributeError ''items''))"

definition plan_fields :: "pydict \<Rightarrow> execution_plan result" where
  "plan_fields d =
     and_then (get_item d ''organization_id'') (\<lambda>organization_id.
     and_then (get_item d ''repository_id'') (\<lambda>repository_id.
     and_then (get_item d ''snapshot_id'') (\<lambda>snapshot_id.
     and_then (get_item d ''checkout_sha'') (\<lambda>checkout_sha.
     and_then (get_item d ''proposal_id'') (\<lambda>proposal_id.
     and_then (get_item d ''proposal_hash'') (\<lambda>proposal_hash.
     and_then (get_item d ''proposal_input_sha256'') (\<lambda>proposal_input.
     and_then (get_item d ''fixture_tree_sha256'') (\<lambda>tree.
     and_then (get_item d ''image'') (\<lambda>image.
     and_then (get_item d ''commands'') (\<lambda>raw_commands.
     and_then (iterate raw_commands) (\<lambda>items.
     and_then (map_raise iterate items) (\<lambda>commands.
     and_then (get_item d ''resources'') (\<lambda>raw_resources.
     and_then (resource_limits_from_dict raw_resources) (\<lambda>resources.
     and_then (get_item d ''host_profile'') (\<lambda>raw_profile.
     and_then (enum_member host_profile_value host_profiles raw_profile) (\<lambda>profile.
     and_then (get_item d ''schema_version'') (\<lambda>schema.
     and_then (get_item d ''fixture_id'') (\<lambda>fixture.
     and_then (get_item d ''runner_version'') (\<lambda>runner.
     and_then (get_item d ''network'') (\<lambda>network.
     and_then (get_item d ''mounts'') (\<lambda>raw_mounts.
     and_then (iterate raw_mounts) (\<lambda>mounts.
     and_then (get_item d ''environment'') (\<lambda>raw_environment.
     and_then (sorted_items_of raw_environment) (\<lambda>environment.
     and_then (get_item d ''expected_artifacts'') (\<lambda>raw_artifacts.
     and_then (iterate raw_artifacts) (\<lambda>artifacts.
       construct_with execution_plan_post_init
         \<lparr>ep_organization_id = organization_id, ep_repository_id = repository_id,
          ep_snapshot_id = snapshot_id, ep_checkout_sha = checkout_sha, ep_proposal_id = proposal_id,
          ep_proposal_hash = proposal_hash, ep_proposal_input_sha256 = proposal_input,
          ep_fixture_tree_sha256 = tree, ep_image = image, ep_commands = commands,
          ep_resources = resources, ep_host_profile = profile, ep_schema_version = schema,
          ep_fixture_id = fixture, ep_runner_version = runner, ep_network = network,
          ep_mounts = mounts, ep_environment = environment,
          ep_expected_artifacts = artifacts\<rparr>))))))))))))))))))))))))))"

text \<open>\<open>except (...) as error\<close>: contract errors are raised again, the others get one code.\<close>

fun recode_plan_error :: "exn \<Rightarrow> exn" where
  "recode_plan_error (ExecutionContractError c) = ece c"
| "recode_plan_error (GraphRecursionError) = GraphRecursionError"
| "recode_plan_error _ = ece ''plan_values_invalid''"

definition plan_decode :: "pydict \<Rightarrow> execution_plan result" where
  "plan_decode d = map_sum recode_plan_error id (plan_fields d)"

definition plan_from_items :: "pydict \<Rightarrow> execution_plan result" where
  "plan_from_items d = (case exact_keys d plan_keys ''plan_fields_invalid'' of
      Some e \<Rightarrow> Inl e
    | None \<Rightarrow> and_then (plan_decode d) (\<lambda>p.
        if map_of d ''plan_sha256'' \<noteq> Some (PyStr (plan_sha256 p)) then Inl (ece ''plan_hash_mismatch'')
        else Inr p))"

definition parse_execution_plan_json :: "(string \<Rightarrow> string) \<Rightarrow> string \<Rightarrow> execution_plan result" where
  "parse_execution_plan_json float_repr raw =
     and_then (load_unique_json float_repr 131072 raw) plan_from_items"

definition result_keys :: "string list" where
  "result_keys = [''artifacts'', ''attempt'', ''cleanup_succeeded'', ''elapsed_milliseconds'',
     ''exit_code'', ''image'', ''isolation_checks'', ''killed'', ''outcome'', ''plan_sha256'',
     ''result_sha256'', ''runner_version'', ''schema_version'', ''stderr'', ''stdout'', ''timed_out'']"

fun bool_of :: "pyval \<Rightarrow> bool" where
  "bool_of (PyBool b) = b"
| "bool_of _ = False"

definition isolation_checks_of :: "pyval \<Rightarrow> (string \<times> bool) list result" where
  "isolation_checks_of v = (case v of
      PyDict d \<Rightarrow> if list_ex (\<lambda>(_, x). \<not> is_bool x) d then Inl (ece ''isolation_checks_invalid'')
                  else Inr (sorted_items (map (map_prod id bool_of) d))
    | _ \<Rightarrow> Inl (ece ''isolation_checks_invalid''))"

definition result_fields :: "pydict \<Rightarrow> execution_result result" where
  "result_fields d =
     and_then (get_item d ''isolation_checks'') (\<lambda>raw_checks.
     and_then (isolation_checks_of raw_checks) (\<lambda>checks.
     and_then (get_item d ''plan_sha256'') (\<lambda>plan.
     and_then (get_item d ''image'') (\<lambda>image.
     and_then (get_item d ''attempt'') (\<lambda>attempt.
     and_then (get_item d ''outcome'') (\<lambda>raw_outcome.
     and_then (enum_member outcome_value execution_outcomes raw_outcome) (\<lambda>outcome.
     and_then (get_item d ''elapsed_milliseconds'') (\<lambda>elapsed.
     and_then (get_item d ''exit_code'') (\<lambda>exit_code.
     and_then (get_item d ''stdout'') (\<lambda>raw_stdout.
     and_then (output_from raw_stdout) (\<lambda>stdout.
     and_then (get_item d ''stderr'') (\<lambda>raw_stderr.
     and_then (output_from raw_stderr) (\<lambda>stderr.
     and_then (get_item d ''timed_out'') (\<lambda>timed_out.
     and_then (get_item d ''killed'') (\<lambda>killed.
     and_then (get_item d ''cleanup_succeeded'') (\<lambda>cleanup.
     and_then (get_item d ''artifacts'') (\<lambda>raw_artifacts.
     and_then (iterate raw_artifacts) (\<lambda>artifacts.
     and_then (get_item d ''schema_version'') (\<lambda>schema.
     and_then (get_item d ''runner_version'') (\<lambda>runner.
       construct_with execution_result_post_init
         \<lparr>er_plan_sha256 = plan, er_image = image, er_attempt = attempt, er_outcome = outcome,
          er_elapsed_milliseconds = elapsed, er_exit_code = exit_code, er_stdout = stdout,
          er_stderr = stderr, er_timed_out = timed_out, er_killed = killed,
          er_cleanup_succeeded = cleanup, er_isolation_checks = checks, er_artifacts = artifacts,
          er_schema_version = schema, er_runner_version = runner\<rparr>))))))))))))))))))))"

fun recode_result_error :: "exn \<Rightarrow> exn" where
  "recode_result_error (ExecutionContractError c) = ece c"
| "recode_result_error (AttributeError m) = AttributeError m"
| "recode_result_error (GraphRecursionError) = GraphRecursionError"
| "recode_result_error _ = ece ''result_values_invalid''"

definition result_decode :: "pydict \<Rightarrow> execution_result result" where
  "result_decode d = map_sum recode_result_error id (result_fields d)"

definition result_from_items :: "pydict \<Rightarrow> execution_result result" where
  "result_from_items d = (case exact_keys d result_keys ''result_fields_invalid'' of
      Some e \<Rightarrow> Inl e
    | None \<Rightarrow> and_then (result_decode d) (\<lambda>r.
        if map_of d ''result_sha256'' \<noteq> Some (PyStr (execution_result_sha256 r)) then Inl (ece ''result_hash_mismatch'')
        else Inr r))"

definition parse_execution_result_json :: "(string \<Rightarrow> string) \<Rightarrow> string \<Rightarrow> execution_result result" where
  "parse_execution_result_json float_repr raw =
     and_then (load_unique_json float_repr 196608 raw) result_from_items"

end
