(* ===== verification/ExecutionProofs.thy ===== *)
theory ExecutionProofs
  imports ExecutionContracts
begin

section \<open>Execution plans and results travel as canonical JSON\<close>

text \<open>
  The interface \<open>json_contract\<close> extends \<open>sealed_contract\<close> by the JSON text; the execution plan
  and the execution result interpret it. The properties say what an accepted document guarantees,
  that valid objects are read back from their canonical text, and where the reader's limits and
  checks fall short.
\<close>

subsection \<open>Contracts that travel as canonical JSON\<close>

text \<open>
  A sealed contract whose decoder reads its dictionary only by key; an object is \<open>strict\<close> when its
  nested dictionaries are in sorted order. The JSON text of a valid, strict object without floats,
  when it is within the size limit of the reader, is read back as that object.
\<close>

locale json_contract = sealed_contract content seal_key valid decode parse
  for content :: "'a \<Rightarrow> pydict" and seal_key valid decode parse +
  fixes strict :: "'a \<Rightarrow> bool" and limit :: nat
  assumes decode_lookup: "map_of d = map_of e \<Longrightarrow> decode d = decode e"
    and content_ordered: "valid x \<Longrightarrow> strict x \<Longrightarrow> (k, v) \<in> set (content x) \<Longrightarrow> ordered v = v"
begin

definition read_json :: "(string \<Rightarrow> string) \<Rightarrow> string \<Rightarrow> 'a result" where
  "read_json fr raw = and_then (load_unique_json fr limit raw) parse"

lemma sealed_plain:
  assumes "plain (PyDict (content x))"
  shows "plain (PyDict (sealed x))"
  using assms seal_fresh [of x]
  by (simp add: sealed_def wf_dict_def list_all_iff)

lemma sealed_ordered:
  assumes "valid x" "strict x"
  shows "ordered (PyDict (sealed x)) = PyDict (sorted_items (sealed x))"
proof -
  have "ordered (snd p) = snd p" if p: "p \<in> set (sealed x)" for p
  proof (cases "p \<in> set (content x)")
    case True
    then show ?thesis using content_ordered [OF assms, of "fst p" "snd p"] by simp
  next
    case False
    then show ?thesis using p by (simp add: sealed_def)
  qed
  then have "map (map_prod id ordered) (sealed x) = sealed x"
    by (intro map_idI) (auto simp: map_prod_id)
  then show ?thesis by simp
qed

lemma json_round_trip:
  assumes "valid x" "strict x" "plain (PyDict (content x))"
    and "length (utf8 (dumps (PyDict (sealed x)))) \<le> limit"
  shows "read_json fr (dumps (PyDict (sealed x))) = Inr x"
proof -
  have "keeps_distinct unique_pairs" by (simp add: keeps_distinct_def unique_pairs_def)
  then have load: "load_unique_json fr limit (dumps (PyDict (sealed x))) = Inr (sorted_items (sealed x))"
    using json_loads_dumps [OF _ sealed_plain [OF assms(3)]] assms(4) sealed_ordered [OF assms(1,2)]
    by (simp add: load_unique_json_def)
  have wf: "wf_dict (sealed x)" using sealed_plain [OF assms(3)] by simp
  then have look: "map_of (sorted_items (sealed x)) = map_of (sealed x)"
    by (rule map_of_sorted_items)
  have "set (keys (sorted_items (sealed x))) = set (keys (sealed x))"
    by (simp add: keys_def)
  moreover have "decode (sorted_items (sealed x)) = Inr x"
    using decode_lookup [OF look] decode_content [OF assms(1)] by (simp add: sealed_def)
  ultimately show ?thesis
    using keys_sealed [of x] sealed_seal [of x]
    by (simp del: dumps.simps add: read_json_def load parse_accepts has_exactly_iff look)
qed

lemma json_too_large:
  "limit < length (utf8 raw) \<Longrightarrow> read_json fr raw = Inl (ece ''payload_too_large'')"
  by (simp add: read_json_def load_unique_json_def)

lemma json_valid: "read_json fr raw = Inr x \<Longrightarrow> valid x"
  by (auto simp: read_json_def and_then_Inr dest: parse_valid)

lemma json_seal:
  assumes "read_json fr raw = Inr x"
  shows "\<exists>d. load_unique_json fr limit raw = Inr d \<and>
    map_of d seal_key = Some (PyStr (object_sha256 (PyDict (content x))))"
  using assms by (auto simp: read_json_def and_then_Inr dest: parse_seal)

end

lemma get_item_cong: "map_of d = map_of e \<Longrightarrow> get_item d = get_item e"
  by (simp add: fun_eq_iff get_item_def)

lemma length_decimal_digits_bound: "0 < k \<Longrightarrow> n < 10 ^ k \<Longrightarrow> length (decimal_digits n) \<le> k"
proof (induction k arbitrary: n rule: nat_induct)
  case (Suc k)
  show ?case
  proof (cases "n < 10")
    case False
    have "n div 10 < 10 ^ k" using Suc.prems(2) by (simp add: less_mult_imp_div_less mult.commute)
    moreover from False this have "0 < k" by (cases k) auto
    ultimately have "length (decimal_digits (n div 10)) \<le> k" by (intro Suc.IH)
    then show ?thesis using False by (subst decimal_digits.simps) simp
  qed (subst decimal_digits.simps, simp)
qed simp

lemma plain_small_int: "\<bar>i\<bar> < 10 ^ 9 \<Longrightarrow> plain (PyInt i)"
  using length_decimal_digits_bound [of 9 "nat \<bar>i\<bar>"] by (simp add: nat_less_iff)

definition safe_environment :: "(string \<times> pyval) list" where
  "safe_environment = sorted_items SAFE_ENV"

lemma safe_environment_eq: "safe_environment = [(''LANG'', PyStr ''C.UTF-8''),
    (''PYTEST_DISABLE_PLUGIN_AUTOLOAD'', PyStr ''1''), (''PYTHONDONTWRITEBYTECODE'', PyStr ''1''),
    (''PYTHONHASHSEED'', PyStr ''0'')]"
  by (simp add: safe_environment_def sorted_items_def SAFE_ENV_def)

lemma canon_str: "canon v = PyStr s \<longleftrightarrow> v = PyStr s"
  by (cases v) simp_all

lemma canon_strings:
  "map (\<lambda>q. (fst q, canon (snd q))) xs = map (\<lambda>q. (fst q, canon (snd q))) ys \<Longrightarrow>
   list_all (\<lambda>p. \<exists>s. snd p = PyStr s) ys \<Longrightarrow> xs = ys"
proof (induction ys arbitrary: xs)
  case (Cons y ys)
  obtain x xs' where x: "xs = x # xs'" using Cons.prems(1) by (cases xs) simp_all
  have "x = y" using Cons.prems x by (cases x; cases y) (auto simp: canon_str)
  then show ?case using Cons x by simp
qed simp

lemma canon_safe_env:
  assumes "py_eq (PyDict d) (PyDict SAFE_ENV)"
  shows "sorted_items d = safe_environment"
proof -
  have "map (map_prod id canon) (sorted_items d) = map (map_prod id canon) (sorted_items SAFE_ENV)"
    using assms unfolding py_eq_def canon.simps sorted_items_map pyval.inject .
  then have "map (\<lambda>q. (fst q, canon (snd q))) (sorted_items d) =
      map (\<lambda>q. (fst q, canon (snd q))) (sorted_items SAFE_ENV)"
    unfolding map_prod_id .
  then show ?thesis
    unfolding safe_environment_def
    by (rule canon_strings) (simp add: safe_environment_eq [unfolded safe_environment_def])
qed

lemma environment_ok:
  assumes "py_eq (PyDict (dict_of e)) (PyDict SAFE_ENV)" "length e = length SAFE_ENV" "sorted_items e = e"
  shows "e = safe_environment"
proof -
  have s: "sorted_items (dict_of e) = safe_environment" by (rule canon_safe_env [OF assms(1)])
  then have "length (dict_of e) = length e"
    using assms(2) length_sorted_items [of "dict_of e"] by (simp add: safe_environment_def)
  then have "wf_dict e" by (simp add: length_dict_of)
  then show ?thesis using s assms(3) by simp
qed

lemma sorted_items_idem [simp]: "sorted_items (sorted_items d) = sorted_items d"
  by (simp add: sorted_items_def sort_key_id_if_sorted)

subsection \<open>Plans\<close>

definition safe_path :: "string \<Rightarrow> bool" where
  "safe_path path = (startswith path ''tests/generated/test_'' \<and> endswith path ''.py'')"

lemma command_guard_None:
  "command_guard c = None \<longleftrightarrow> (\<exists>path. c = pytest_command @ [PyStr path] \<and> safe_path path)"
proof
  assume a: "command_guard c = None"
  then have c: "take 4 c = pytest_command" "length c = 5"
    by (auto simp: command_guard_def split: if_splits)
  then have "c = pytest_command @ [c ! 4]"
    by (metis Suc_numeral add_One_commute append_take_drop_id lessI numeral_plus_one one_plus_numeral_commute
        semiring_norm(5) take_Suc_conv_app_nth take_all_iff order_refl)
  with a c show "\<exists>path. c = pytest_command @ [PyStr path] \<and> safe_path path"
    by (auto simp: command_guard_def safe_path_def split: pyval.splits)
next
  assume "\<exists>path. c = pytest_command @ [PyStr path] \<and> safe_path path"
  then show "command_guard c = None"
    by (auto simp: command_guard_def safe_path_def pytest_command_def)
qed

definition plan_shape :: "execution_plan \<Rightarrow> bool" where
  "plan_shape p \<longleftrightarrow>
     ep_schema_version p = PyStr EXECUTION_PLAN_SCHEMA_VERSION \<and> ep_fixture_id p = PyStr FIXTURE_ID \<and>
     ep_runner_version p = PyStr RUNNER_VERSION \<and> ep_network p = PyStr ''none'' \<and> ep_mounts p = [] \<and>
     ep_expected_artifacts p = EXPECTED_ARTIFACTS \<and>
     (\<exists>s. ep_image p = PyStr s \<and> is_image s) \<and> (\<exists>s. ep_checkout_sha p = PyStr s \<and> is_checkout_sha s) \<and>
     (\<exists>s. ep_proposal_hash p = PyStr s \<and> is_sha256_text s) \<and>
     (\<exists>s. ep_proposal_input_sha256 p = PyStr s \<and> is_sha256_text s) \<and>
     ep_fixture_tree_sha256 p = PyStr CONTROLLED_FIXTURE_TREE_SHA256 \<and>
     (\<exists>s. ep_organization_id p = PyStr s \<and> is_uuid_text s) \<and> (\<exists>s. ep_repository_id p = PyStr s \<and> is_uuid_text s) \<and>
     (\<exists>s. ep_snapshot_id p = PyStr s \<and> is_uuid_text s) \<and> (\<exists>s. ep_proposal_id p = PyStr s \<and> is_uuid_text s) \<and>
     1 \<le> length (ep_commands p) \<and> length (ep_commands p) \<le> 5 \<and>
     (\<forall>c \<in> set (ep_commands p). \<exists>path. c = pytest_command @ [PyStr path] \<and> safe_path path)"

lemma is_uuid_iff: "is_uuid v \<longleftrightarrow> (\<exists>s. v = PyStr s \<and> is_uuid_text s)"
  by (cases v) (simp_all add: is_uuid_def)

lemma plan_post_init_shape: "execution_plan_post_init p = None \<Longrightarrow> plan_shape p"
  by (simp add: execution_plan_post_init_def first_raise_append no_match_None checksum_None plan_shape_def
      first_raise_None_iff command_guard_None is_uuid_iff split: option.splits)

definition valid_plan :: "execution_plan \<Rightarrow> bool" where
  "valid_plan p \<longleftrightarrow> execution_plan_post_init p = None \<and> ep_environment p = safe_environment \<and>
     resource_limits_post_init (ep_resources p) = None"

lemma execution_plan_eta [simp]:
  "\<lparr>ep_organization_id = ep_organization_id p, ep_repository_id = ep_repository_id p,
    ep_snapshot_id = ep_snapshot_id p, ep_checkout_sha = ep_checkout_sha p,
    ep_proposal_id = ep_proposal_id p, ep_proposal_hash = ep_proposal_hash p,
    ep_proposal_input_sha256 = ep_proposal_input_sha256 p,
    ep_fixture_tree_sha256 = ep_fixture_tree_sha256 p, ep_image = ep_image p,
    ep_commands = ep_commands p, ep_resources = ep_resources p, ep_host_profile = ep_host_profile p,
    ep_schema_version = ep_schema_version p, ep_fixture_id = ep_fixture_id p,
    ep_runner_version = ep_runner_version p, ep_network = ep_network p, ep_mounts = ep_mounts p,
    ep_environment = ep_environment p, ep_expected_artifacts = ep_expected_artifacts p\<rparr> = p"
  by simp

lemma map_raise_lists [simp]: "map_raise iterate (map PyList xss) = Inr xss"
  using map_raise_all_Inr [of xss iterate PyList "\<lambda>x. x"] by simp

lemma safe_environment_wf [simp]: "wf_dict safe_environment" "dict_of safe_environment = safe_environment"
  "sorted_items safe_environment = safe_environment"
  by (simp_all add: safe_environment_eq wf_dict_def sorted_items_def)

lemma keys_plan_content: "keys (execution_plan_content p) = filter (\<lambda>k. k \<noteq> ''plan_sha256'') plan_keys"
  by (simp add: execution_plan_content_def plan_keys_def)

lemma map_sum_Inr: "map_sum f id r = Inr x \<longleftrightarrow> r = Inr x"
  by (cases r) simp_all

lemma plan_fields_content:
  assumes "valid_plan p"
  shows "plan_fields (execution_plan_content p @ [(''plan_sha256'', h)]) = Inr p"
proof -
  have env: "dict_of (ep_environment p) = ep_environment p"
    "sorted_items (ep_environment p) = ep_environment p"
    and ok: "execution_plan_post_init p = None" "resource_limits_post_init (ep_resources p) = None"
    using assms by (simp_all add: valid_plan_def)
  show ?thesis
    by (simp add: plan_fields_def execution_plan_content_def resource_limits_round_trip ok
        sorted_items_of_def env)
qed

lemma sorted_items_of_sorted: "sorted_items_of v = Inr e \<Longrightarrow> sorted_items e = e"
  by (auto simp: sorted_items_of_def split: pyval.splits)

lemma plan_fields_valid:
  assumes "plan_fields d = Inr p"
  shows "valid_plan p"
proof -
  obtain raw e where "resource_limits_from_dict raw = Inr (ep_resources p)"
    "sorted_items_of e = Inr (ep_environment p)" "execution_plan_post_init p = None"
    using assms by (auto simp: plan_fields_def and_then_Inr)
  moreover from this(2) have "sorted_items (ep_environment p) = ep_environment p"
    by (rule sorted_items_of_sorted)
  moreover from calculation(3) have "py_eq (PyDict (dict_of (ep_environment p))) (PyDict SAFE_ENV)"
    "length (ep_environment p) = length SAFE_ENV"
    by (simp_all add: execution_plan_post_init_def)
  ultimately show ?thesis
    using environment_ok resource_limits_valid by (auto simp: valid_plan_def)
qed

lemma resources_plain:
  assumes "resource_limits_post_init r = None"
  shows "plain (PyDict (resource_limits_as_dict r))"
  using assms plain_small_int
  by (simp add: resource_limits_post_init_def in_range_def resource_limits_as_dict_def wf_dict_def del: plain.simps(3))

lemma resources_ordered [simp]:
  "ordered (PyDict (resource_limits_as_dict r)) = PyDict (resource_limits_as_dict r)"
  by (simp add: resource_limits_as_dict_def sorted_items_def)

lemma plan_content_plain:
  assumes "valid_plan p"
  shows "(k, v) \<in> set (execution_plan_content p) \<Longrightarrow> ordered v = v"
    "plain (PyDict (execution_plan_content p))"
proof -
  have shape: "plan_shape p" and env: "dict_of (ep_environment p) = ep_environment p"
    "ep_environment p = safe_environment" and res: "resource_limits_post_init (ep_resources p) = None"
    using assms plan_post_init_shape by (auto simp: valid_plan_def)
  have commands: "plain (PyList c)" "ordered (PyList c) = PyList c" if "c \<in> set (ep_commands p)" for c
    using shape that by (auto simp: plan_shape_def pytest_command_def)
  have nested: "plain (PyDict safe_environment)" "ordered (PyDict safe_environment) = PyDict safe_environment"
    by (simp_all add: safe_environment_eq wf_dict_def sorted_items_def)
  have wf: "wf_dict (execution_plan_content p)"
    by (simp add: wf_dict_def execution_plan_content_def)
  have "plain v \<and> ordered v = v" if "(k, v) \<in> set (execution_plan_content p)" for k v
    using that shape env commands nested res resources_plain [OF res]
    by (auto simp: execution_plan_content_def plan_shape_def EXPECTED_ARTIFACTS_def list_all_iff
        intro!: map_idI simp del: plain.simps(7) ordered.simps(7))
  then show "(k, v) \<in> set (execution_plan_content p) \<Longrightarrow> ordered v = v"
    "plain (PyDict (execution_plan_content p))"
    using wf by (fastforce simp: list_all_iff)+
qed

interpretation plan_json: json_contract execution_plan_content "''plan_sha256''" valid_plan plan_decode
  plan_from_items valid_plan 131072
proof
  fix d x
  have "set (''plan_sha256'' # keys (execution_plan_content x)) = set plan_keys"
    by (auto simp: execution_plan_content_def plan_keys_def)
  then show "plan_from_items d = Inr x \<longleftrightarrow>
      has_exactly d (''plan_sha256'' # keys (execution_plan_content x)) \<and> plan_decode d = Inr x \<and>
      map_of d ''plan_sha256'' = Some (PyStr (object_sha256 (PyDict (execution_plan_content x))))"
    by (auto simp: plan_from_items_def exact_keys_def has_exactly_iff plan_sha256_def and_then_Inr
        split: if_splits option.splits)
next
  fix x
  show "''plan_sha256'' \<notin> set (keys (execution_plan_content x))"
    by (simp add: execution_plan_content_def)
next
  fix d x
  show "plan_decode d = Inr x \<Longrightarrow> valid_plan x"
    by (simp add: plan_decode_def map_sum_Inr plan_fields_valid)
next
  fix x h
  show "valid_plan x \<Longrightarrow> plan_decode (execution_plan_content x @ [(''plan_sha256'', h)]) = Inr x"
    by (simp add: plan_decode_def plan_fields_content)
next
  fix d e :: pydict
  assume "map_of d = map_of e"
  then have "get_item d = get_item e" by (rule get_item_cong)
  then show "plan_decode d = plan_decode e" by (simp add: plan_decode_def plan_fields_def)
qed (rule plan_content_plain(1))

lemma parse_plan_json: "parse_execution_plan_json = plan_json.read_json"
  by (simp add: fun_eq_iff parse_execution_plan_json_def plan_json.read_json_def)

lemma plan_sealed: "execution_plan_as_dict p = plan_json.sealed p"
  by (simp add: execution_plan_as_dict_def plan_json.sealed_def plan_sha256_def)

subsection \<open>Results\<close>

definition valid_result :: "execution_result \<Rightarrow> bool" where
  "valid_result r \<longleftrightarrow> execution_result_post_init r = None \<and> safe_output_post_init (er_stdout r) = None \<and>
     safe_output_post_init (er_stderr r) = None \<and> sorted_items (er_isolation_checks r) = er_isolation_checks r"

lemma execution_result_eta [simp]:
  "\<lparr>er_plan_sha256 = er_plan_sha256 r, er_image = er_image r, er_attempt = er_attempt r,
    er_outcome = er_outcome r, er_elapsed_milliseconds = er_elapsed_milliseconds r,
    er_exit_code = er_exit_code r, er_stdout = er_stdout r, er_stderr = er_stderr r,
    er_timed_out = er_timed_out r, er_killed = er_killed r,
    er_cleanup_succeeded = er_cleanup_succeeded r, er_isolation_checks = er_isolation_checks r,
    er_artifacts = er_artifacts r, er_schema_version = er_schema_version r,
    er_runner_version = er_runner_version r\<rparr> = r"
  by simp

lemma bool_items [simp]: "map (map_prod id bool_of) (map (map_prod id PyBool) ck) = ck"
  by (induction ck) auto

lemma isolation_checks_of_items:
  "isolation_checks_of (PyDict (map (map_prod id PyBool) ck)) = Inr (sorted_items ck)"
proof -
  have "\<not> list_ex (\<lambda>(_, x). \<not> is_bool x) (map (map_prod id PyBool) ck)"
    by (auto simp: list_ex_iff)
  then show ?thesis unfolding isolation_checks_of_def pyval.case bool_items by (simp only: if_False)
qed

lemma isolation_checks_of_sorted: "isolation_checks_of v = Inr ck \<Longrightarrow> sorted_items ck = ck"
  by (auto simp: isolation_checks_of_def split: pyval.splits if_splits)

lemma bad_int_iff: "\<not> bad_int lo v hi \<longleftrightarrow> (\<exists>i. v = PyInt i \<and> in_range lo i hi)"
  by (cases v) (simp_all add: bad_int_def)

lemma is_bool_iff: "is_bool v \<longleftrightarrow> (\<exists>b. v = PyBool b)"
  by (cases v) simp_all

definition result_shape :: "execution_result \<Rightarrow> bool" where
  "result_shape r \<longleftrightarrow>
     (\<exists>s. er_plan_sha256 r = PyStr s \<and> is_sha256_text s) \<and> (\<exists>s. er_image r = PyStr s \<and> is_image s) \<and>
     (\<exists>i. er_attempt r = PyInt i \<and> in_range 1 i 20) \<and>
     (\<exists>i. er_elapsed_milliseconds r = PyInt i \<and> in_range 0 i 120000) \<and>
     (er_exit_code r = PyNone \<or> (\<exists>i. er_exit_code r = PyInt i \<and> in_range (- 1) i 255)) \<and>
     er_schema_version r = PyStr EXECUTION_RESULT_SCHEMA_VERSION \<and>
     er_runner_version r = PyStr RUNNER_VERSION \<and> er_artifacts r = EXPECTED_ARTIFACTS \<and>
     wf_dict (er_isolation_checks r) \<and> er_isolation_checks r \<noteq> [] \<and> length (er_isolation_checks r) \<le> 20 \<and>
     (er_outcome r = EO_PASSED \<longrightarrow> list_all snd (er_isolation_checks r) \<and> er_exit_code r = PyInt 0) \<and>
     er_timed_out r = PyBool (er_outcome r = EO_TIMEOUT) \<and>
     (er_outcome r = EO_TIMEOUT \<longrightarrow> er_killed r = PyBool True) \<and>
     (\<exists>b. er_killed r = PyBool b) \<and> (\<exists>b. er_cleanup_succeeded r = PyBool b)"

lemma result_post_init_shape:
  assumes "execution_result_post_init r = None"
  shows "result_shape r"
proof -
  have wf: "wf_dict (er_isolation_checks r)"
    using assms by (simp add: execution_result_post_init_def length_dict_of)
  have flags: "\<exists>b. er_timed_out r = PyBool b" "\<exists>b. er_killed r = PyBool b" "\<exists>b. er_cleanup_succeeded r = PyBool b"
    using assms by (simp_all add: execution_result_post_init_def is_bool_iff)
  moreover have "er_timed_out r = PyBool (er_outcome r = EO_TIMEOUT)"
    using assms flags(1) by (auto simp: execution_result_post_init_def py_eq_def split: if_splits)
  moreover have "er_outcome r = EO_TIMEOUT \<longrightarrow> er_killed r = PyBool True"
    using assms flags(2) by (auto simp: execution_result_post_init_def)
  moreover have "er_exit_code r = PyNone \<or> (\<exists>i. er_exit_code r = PyInt i \<and> in_range (- 1) i 255)"
    using assms by (auto simp: execution_result_post_init_def simp flip: bad_int_iff)
  moreover from this have "py_eq (er_exit_code r) (PyInt 0) \<longleftrightarrow> er_exit_code r = PyInt 0"
    by (auto simp: py_eq_def)
  ultimately show ?thesis
    using assms wf
    by (simp add: execution_result_post_init_def result_shape_def checksum_None no_match_None bad_int_iff Suc_le_eq)
qed

lemma keys_result_content: "set (''result_sha256'' # keys (execution_result_content r)) = set result_keys"
  by (auto simp: execution_result_content_def result_keys_def)

lemma result_fields_content:
  assumes "valid_result r"
  shows "result_fields (execution_result_content r @ [(''result_sha256'', h)]) = Inr r"
proof -
  have ok: "execution_result_post_init r = None" "safe_output_post_init (er_stdout r) = None"
    "safe_output_post_init (er_stderr r) = None" "sorted_items (er_isolation_checks r) = er_isolation_checks r"
    using assms by (simp_all add: valid_result_def)
  have "dict_of (er_isolation_checks r) = er_isolation_checks r"
    using result_post_init_shape [OF ok(1)] by (simp add: result_shape_def)
  note checks = isolation_checks_of_items [of "dict_of (er_isolation_checks r)", unfolded this ok(4)]
  show ?thesis
    by (simp add: result_fields_def execution_result_content_def checks output_round_trip ok
        \<open>dict_of (er_isolation_checks r) = er_isolation_checks r\<close>)
qed

lemma result_fields_valid:
  assumes "result_fields d = Inr r"
  shows "valid_result r"
proof -
  obtain c o1 o2 where "isolation_checks_of c = Inr (er_isolation_checks r)"
    "output_from o1 = Inr (er_stdout r)" "output_from o2 = Inr (er_stderr r)"
    "execution_result_post_init r = None"
    using assms by (auto simp: result_fields_def and_then_Inr)
  then show ?thesis
    using isolation_checks_of_sorted output_valid by (auto simp: valid_result_def)
qed

lemma output_plain:
  assumes "safe_output_post_init out = None" "\<exists>n. so_original_bytes out = PyInt n \<and> n < 10 ^ 9"
  shows "plain (PyDict (safe_output_as_dict out))"
    "ordered (PyDict (safe_output_as_dict out)) = PyDict (safe_output_as_dict out)"
proof -
  obtain n s h b where f: "so_original_bytes out = PyInt n" "0 \<le> n" "n < 10 ^ 9" "so_excerpt out = PyStr s"
    "so_sha256 out = PyStr h" "so_truncated out = PyBool b"
    using assms by (auto simp: safe_output_post_init_def checksum_None is_bool_iff split: pyval.splits)
  then have "plain (PyInt n)" by (intro plain_small_int) simp
  then show "plain (PyDict (safe_output_as_dict out))"
    "ordered (PyDict (safe_output_as_dict out)) = PyDict (safe_output_as_dict out)"
    using f by (simp_all add: safe_output_as_dict_def wf_dict_def sorted_items_def)
qed

lemma output_ordered [simp]:
  assumes "safe_output_post_init out = None"
  shows "ordered (PyDict (safe_output_as_dict out)) = PyDict (safe_output_as_dict out)"
proof -
  obtain n s h b where "so_original_bytes out = PyInt n" "so_excerpt out = PyStr s"
    "so_sha256 out = PyStr h" "so_truncated out = PyBool b"
    using assms by (auto simp: safe_output_post_init_def checksum_None is_bool_iff split: pyval.splits)
  then show ?thesis by (simp add: safe_output_as_dict_def sorted_items_def)
qed

lemma checks_ordered:
  assumes "sorted_items ck = ck"
  shows "ordered (PyDict (map (map_prod id PyBool) ck)) = PyDict (map (map_prod id PyBool) ck)"
proof -
  have "map (map_prod id ordered) (map (map_prod id PyBool) ck) = map (map_prod id PyBool) ck"
    by (auto simp: map_prod_id)
  then show ?thesis
    by (simp add: sorted_items_map assms del: map_map)
qed

lemma result_content_ordered:
  assumes "valid_result r" "(k, v) \<in> set (execution_result_content r)"
  shows "ordered v = v"
proof -
  have ok: "result_shape r" "safe_output_post_init (er_stdout r) = None"
    "safe_output_post_init (er_stderr r) = None" "sorted_items (er_isolation_checks r) = er_isolation_checks r"
    using assms(1) result_post_init_shape by (auto simp: valid_result_def)
  have "dict_of (er_isolation_checks r) = er_isolation_checks r" using ok(1) by (simp add: result_shape_def)
  then show ?thesis
    using assms(2) ok checks_ordered [OF ok(4)]
    by (auto simp: execution_result_content_def result_shape_def EXPECTED_ARTIFACTS_def
        simp del: ordered.simps(7))
qed

definition small_output :: "safe_output \<Rightarrow> bool" where
  "small_output out = (case so_original_bytes out of PyInt n \<Rightarrow> n < 10 ^ 9 | _ \<Rightarrow> False)"

lemma small_output_iff: "small_output out \<longleftrightarrow> (\<exists>n. so_original_bytes out = PyInt n \<and> n < 10 ^ 9)"
  by (cases "so_original_bytes out") (simp_all add: small_output_def)

lemma result_content_plain:
  assumes "valid_result r" "small_output (er_stdout r)" "small_output (er_stderr r)"
  shows "plain (PyDict (execution_result_content r))"
proof -
  have ok: "result_shape r" "safe_output_post_init (er_stdout r) = None"
    "safe_output_post_init (er_stderr r) = None"
    using assms(1) result_post_init_shape by (auto simp: valid_result_def)
  have outs: "plain (PyDict (safe_output_as_dict (er_stdout r)))" "plain (PyDict (safe_output_as_dict (er_stderr r)))"
    using output_plain(1) ok assms(2,3) by (simp_all add: small_output_iff)
  have wf: "dict_of (er_isolation_checks r) = er_isolation_checks r" "wf_dict (er_isolation_checks r)"
    using ok(1) by (simp_all add: result_shape_def)
  then have checks: "plain (PyDict (map (map_prod id PyBool) (er_isolation_checks r)))"
    by (auto simp: wf_dict_def keys_def list_all_iff comp_def)
  have ints: "plain (er_attempt r)" "plain (er_elapsed_milliseconds r)" "plain (er_exit_code r)"
    using ok(1) plain_small_int
    by (auto simp: result_shape_def in_range_def simp del: plain.simps(3))
  have "wf_dict (execution_result_content r)" by (simp add: wf_dict_def execution_result_content_def)
  moreover have "plain v" if "(k, v) \<in> set (execution_result_content r)" for k v
    using that ok(1) outs checks ints wf(1)
    by (auto simp: execution_result_content_def result_shape_def EXPECTED_ARTIFACTS_def
        simp del: plain.simps(3,7))
  ultimately show ?thesis by (fastforce simp: list_all_iff)
qed

interpretation result_json: json_contract execution_result_content "''result_sha256''" valid_result
  result_decode result_from_items valid_result 196608
proof
  fix d x
  show "result_from_items d = Inr x \<longleftrightarrow>
      has_exactly d (''result_sha256'' # keys (execution_result_content x)) \<and> result_decode d = Inr x \<and>
      map_of d ''result_sha256'' = Some (PyStr (object_sha256 (PyDict (execution_result_content x))))"
    using keys_result_content [of x]
    by (auto simp: result_from_items_def exact_keys_def has_exactly_iff execution_result_sha256_def
        and_then_Inr split: if_splits option.splits)
next
  fix x
  show "''result_sha256'' \<notin> set (keys (execution_result_content x))"
    by (simp add: execution_result_content_def)
next
  fix d x
  show "result_decode d = Inr x \<Longrightarrow> valid_result x"
    by (simp add: result_decode_def map_sum_Inr result_fields_valid)
next
  fix x h
  show "valid_result x \<Longrightarrow> result_decode (execution_result_content x @ [(''result_sha256'', h)]) = Inr x"
    by (simp add: result_decode_def result_fields_content)
next
  fix d e :: pydict
  assume "map_of d = map_of e"
  then have "get_item d = get_item e" by (rule get_item_cong)
  then show "result_decode d = result_decode e" by (simp add: result_decode_def result_fields_def)
qed (rule result_content_ordered)

lemma parse_result_json: "parse_execution_result_json = result_json.read_json"
  by (simp add: fun_eq_iff parse_execution_result_json_def result_json.read_json_def)

lemma result_sealed: "execution_result_as_dict r = result_json.sealed r"
  by (simp add: execution_result_as_dict_def result_json.sealed_def execution_result_sha256_def)

subsection \<open>Sizes of canonical texts\<close>

lemma isascii_concat: "isascii (concat xss) \<longleftrightarrow> list_all isascii xss"
  by (induction xss) simp_all

lemma isascii_join: "isascii sep \<Longrightarrow> isascii (join sep ws) \<longleftrightarrow> list_all isascii ws"
  by (induction sep ws rule: join.induct) auto

lemma escape_ascii: "isascii (escape_char c)"
proof -
  have "isascii (hex_of_int 4 n)" for n by (rule is_hex_isascii) (rule is_hex_of_int)
  then show ?thesis by (simp add: escape_char_def) (simp add: code_def)
qed

lemma dump_str_ascii: "isascii (dump_str s)"
  by (simp add: dump_str_def isascii_concat list_all_iff escape_ascii) (simp add: code_def)

lemma decimal_digits_ascii: "isascii (decimal_digits n)"
  using decimal_digits_all [of n] by (auto simp: isascii_def is_digit_def list_all_iff)

lemma dumps_ascii: "plain v \<Longrightarrow> isascii (dumps v)"
proof (induction v)
  case (PyList xs)
  then show ?case by (simp add: isascii_join list_all_iff code_def)
next
  case (PyDict d)
  have "isascii (dump_item p)" if "p \<in> set (sorted_items (map (map_prod id dumps) d))" for p
  proof -
    from that obtain k v where kv: "(k, v) \<in> set d" "p = (k, dumps v)" by auto
    moreover have "plain v" using kv(1) PyDict.prems by (fastforce simp: list_all_iff)
    ultimately have "isascii (dumps v)" using PyDict.IH by force
    then show ?thesis using kv(2) by (simp add: dump_item_def dump_str_ascii) (simp add: code_def)
  qed
  then show ?case by (simp add: isascii_join list_all_iff code_def)
qed (simp_all add: dump_int_def decimal_digits_ascii dump_str_ascii code_def)

lemma length_join_ge: "w \<in> set ws \<Longrightarrow> length w \<le> length (join sep ws)"
  by (induction sep ws rule: join.induct) auto

lemma length_dumps_member:
  assumes "(k, v) \<in> set d"
  shows "length (dumps v) < length (dumps (PyDict d))"
proof -
  have "dump_item (k, dumps v) \<in> set (map dump_item (sorted_items (map (map_prod id dumps) d)))"
    using assms by force
  from length_join_ge [OF this, of "'',''"] show ?thesis by (simp add: dump_item_def)
qed

lemma length_dump_control:
  assumes "list_all (\<lambda>c. code c < 8) s"
  shows "6 * length s \<le> length (dump_str s)"
proof -
  have "length (escape_char c) = 6" if "code c < 8" for c
    using that by (simp add: escape_char_def)
  then have "length (concat (map escape_char s)) = 6 * length s"
    using assms by (induction s) simp_all
  then show ?thesis by (simp add: dump_str_def)
qed

text \<open>An upper bound of the length that can be computed without sorting.\<close>

primrec dumps_bound :: "pyval \<Rightarrow> nat" where
  "dumps_bound PyNone = 4"
| "dumps_bound (PyBool b) = 5"
| "dumps_bound (PyInt i) = length (dump_int i)"
| "dumps_bound (PyFloat t) = length t"
| "dumps_bound (PyStr s) = 6 * length s + 2"
| "dumps_bound (PyList xs) = sum_list (map Suc (map dumps_bound xs)) + 2"
| "dumps_bound (PyDict d) =
     sum_list (map (\<lambda>p. 6 * length (fst p) + 4 + snd p) (map (map_prod id dumps_bound) d)) + 2"

lemma length_escape: "length (escape_char c) \<le> 6"
  by (simp add: escape_char_def)

lemma length_dump_str: "length (dump_str s) \<le> 6 * length s + 2"
proof -
  have "length (concat (map escape_char s)) \<le> 6 * length s"
  proof (induction s)
    case (Cons c s)
    then show ?case using length_escape [of c] by simp
  qed simp
  then show ?thesis by (simp add: dump_str_def)
qed

lemma length_join_le: "length (join [c] ws) \<le> sum_list (map (\<lambda>w. Suc (length w)) ws)"
proof (induction ws)
  case (Cons w ws)
  then show ?case by (cases ws) simp_all
qed simp

lemma sum_list_sorted_items:
  fixes f :: "string \<times> 'a \<Rightarrow> nat"
  shows "sum_list (map f (sorted_items d)) = sum_list (map f d)"
proof -
  have "mset (map f (sorted_items d)) = mset (map f d)" by (simp add: sorted_items_def)
  then show ?thesis by (metis sum_mset_sum_list)
qed

lemma length_dumps_bound: "length (dumps v) \<le> dumps_bound v"
proof (induction v)
  case (PyList xs)
  have "length (join '','' (map dumps xs)) \<le> sum_list (map (\<lambda>w. Suc (length w)) (map dumps xs))"
    by (rule length_join_le)
  also have "\<dots> \<le> sum_list (map Suc (map dumps_bound xs))"
    unfolding map_map by (rule sum_list_mono) (simp add: PyList)
  finally show ?case by simp
next
  case (PyDict d)
  have item: "Suc (length (dump_item (k, dumps v))) \<le> 6 * length k + 4 + dumps_bound v"
    if "(k, v) \<in> set d" for k v
  proof -
    have "length (dumps v) \<le> dumps_bound v" using PyDict that by force
    then show ?thesis using length_dump_str [of k] by (simp add: dump_item_def)
  qed
  have "length (join '','' (map dump_item (sorted_items (map (map_prod id dumps) d)))) \<le>
      sum_list (map (\<lambda>p. Suc (length (dump_item p))) (sorted_items (map (map_prod id dumps) d)))"
    by (rule le_trans [OF length_join_le]) (simp add: comp_def)
  also have "\<dots> = sum_list (map (\<lambda>p. Suc (length (dump_item (map_prod id dumps p)))) d)"
    by (simp add: sum_list_sorted_items comp_def)
  also have "\<dots> \<le> sum_list (map (\<lambda>p. 6 * length (fst p) + 4 + dumps_bound (snd p)) d)"
    by (rule sum_list_mono) (use item in \<open>force simp: map_prod_id\<close>)
  finally show ?case by (simp add: comp_def map_prod_id)
qed (use length_dump_str in simp_all)

subsection \<open>Properties\<close>

text \<open>
  C7: A JSON document that \<open>parse_execution_plan_json\<close> accepts describes an isolated run: no
  network, no mounts, exactly the four allowed environment variables, the controlled fixture tree
  and the pinned runner image, between one and five commands, each \<open>python -m pytest -q\<close> on a path
  that starts with \<open>tests/generated/test_\<close> and ends with \<open>.py\<close>, and each of its six resource
  limits (processor, memory, processes, wall time, output and writable disk) lies within its bounds;
  and the document carries the hash of that content.
\<close>

theorem accepted_plan_is_isolated:
  assumes "parse_execution_plan_json fr raw = Inr p"
  shows "ep_network p = PyStr ''none'' \<and> ep_mounts p = [] \<and>
    set (ep_environment p) = set SAFE_ENV \<and> length (ep_environment p) = 4 \<and>
    ep_fixture_tree_sha256 p = PyStr CONTROLLED_FIXTURE_TREE_SHA256 \<and>
    (\<exists>s. ep_image p = PyStr s \<and> is_image s) \<and>
    1 \<le> length (ep_commands p) \<and> length (ep_commands p) \<le> 5 \<and>
    (\<forall>c \<in> set (ep_commands p). \<exists>path. c = pytest_command @ [PyStr path] \<and> safe_path path) \<and>
    in_range 2 (rl_wall_time_seconds (ep_resources p)) 60 \<and>
    in_range 134217728 (rl_memory_bytes (ep_resources p)) 536870912 \<and>
    in_range 16 (rl_pids (ep_resources p)) 128 \<and>
    in_range 100 (rl_cpu_millis (ep_resources p)) 1000 \<and>
    in_range 4096 (rl_output_bytes (ep_resources p)) 65536 \<and>
    in_range 16777216 (rl_writable_tmpfs_bytes (ep_resources p)) 134217728 \<and>
    (\<exists>d. load_unique_json fr 131072 raw = Inr d \<and> map_of d ''plan_sha256'' = Some (PyStr (plan_sha256 p)))"
proof -
  have read: "plan_json.read_json fr raw = Inr p" using assms by (simp add: parse_plan_json)
  then have "valid_plan p" by (rule plan_json.json_valid)
  then have ok: "plan_shape p" "ep_environment p = safe_environment" "resource_limits_post_init (ep_resources p) = None"
    using plan_post_init_shape by (auto simp: valid_plan_def)
  have "set safe_environment = set SAFE_ENV" "length safe_environment = 4"
    by (simp_all add: safe_environment_def SAFE_ENV_def)
  then show ?thesis
    using ok plan_json.json_seal [OF read]
    by (simp add: plan_shape_def resource_limits_post_init_def plan_sha256_def)
qed

text \<open>
  C8: Every valid plan whose canonical text is within the reader's limit is read back unchanged
  from that text.
\<close>

theorem plan_json_round_trip:
  assumes "valid_plan p" "length (utf8 (plan_canonical_bytes p)) \<le> 131072"
  shows "parse_execution_plan_json fr (plan_canonical_bytes p) = Inr p"
  using plan_json.json_round_trip [OF assms(1) assms(1) plan_content_plain(2) [OF assms(1)]] assms(2)
  by (simp add: parse_plan_json plan_canonical_bytes_def plan_sealed del: dumps.simps)

text \<open>
  A JSON document that \<open>parse_execution_result_json\<close> accepts is consistent: a passed outcome
  has exit code 0 and every isolation check true, the timed-out flag is set exactly for the timeout
  outcome, a timeout was killed, the attempt and the elapsed time are within bounds, between one and
  twenty isolation checks have distinct names, and the document carries the hash of its content.
\<close>

theorem accepted_result_is_consistent:
  assumes "parse_execution_result_json fr raw = Inr r"
  shows "(er_outcome r = EO_PASSED \<longrightarrow> er_exit_code r = PyInt 0 \<and> list_all snd (er_isolation_checks r)) \<and>
    er_timed_out r = PyBool (er_outcome r = EO_TIMEOUT) \<and>
    (er_outcome r = EO_TIMEOUT \<longrightarrow> er_killed r = PyBool True) \<and>
    (\<exists>i. er_attempt r = PyInt i \<and> in_range 1 i 20) \<and>
    (\<exists>i. er_elapsed_milliseconds r = PyInt i \<and> in_range 0 i 120000) \<and>
    er_isolation_checks r \<noteq> [] \<and> length (er_isolation_checks r) \<le> 20 \<and> wf_dict (er_isolation_checks r) \<and>
    (\<exists>d. load_unique_json fr 196608 raw = Inr d \<and>
       map_of d ''result_sha256'' = Some (PyStr (execution_result_sha256 r)))"
proof -
  have read: "result_json.read_json fr raw = Inr r" using assms by (simp add: parse_result_json)
  then have "valid_result r" by (rule result_json.json_valid)
  then have "result_shape r" using result_post_init_shape by (simp add: valid_result_def)
  then show ?thesis
    using result_json.json_seal [OF read] by (simp add: result_shape_def execution_result_sha256_def)
qed

text \<open>
  Every valid result whose outputs count fewer than \<open>10 ^ 9\<close> bytes and whose canonical text is
  within the reader's limit is read back unchanged from that text.
\<close>

theorem result_json_round_trip:
  assumes "valid_result r" "small_output (er_stdout r)" "small_output (er_stderr r)"
    and "length (utf8 (result_canonical_bytes r)) \<le> 196608"
  shows "parse_execution_result_json fr (result_canonical_bytes r) = Inr r"
  using result_json.json_round_trip [OF assms(1) assms(1) result_content_plain [OF assms(1-3)]] assms(4)
  by (simp add: parse_result_json result_canonical_bytes_def result_sealed del: dumps.simps)

text \<open>
  The reader's limit is below what a valid result can need: when the captured standard output
  holds 32768 control characters or more (65536 bytes are allowed), the canonical text of the
  result is longer than 196608 bytes and its own parser rejects it as too large.
\<close>

theorem escaped_output_exceeds_reader_limit:
  assumes "so_excerpt (er_stdout r) = PyStr s" "list_all (\<lambda>c. code c < 8) s" "32768 \<le> length s"
  shows "parse_execution_result_json fr (result_canonical_bytes r) = Inl (ExecutionContractError ''payload_too_large'')"
proof -
  have "196608 \<le> length (dumps (PyStr s))"
    using length_dump_control [OF assms(2)] assms(3) by simp
  also have "length (dumps (PyStr s)) < length (dumps (PyDict (safe_output_as_dict (er_stdout r))))"
    by (rule length_dumps_member [of "''excerpt''"]) (simp add: safe_output_as_dict_def assms(1))
  also have "\<dots> < length (dumps (PyDict (execution_result_as_dict r)))"
    by (rule length_dumps_member [of "''stdout''"])
      (simp add: execution_result_as_dict_def execution_result_content_def)
  also have "\<dots> \<le> length (utf8 (result_canonical_bytes r))"
    unfolding result_canonical_bytes_def by (rule length_utf8_ge)
  finally show ?thesis
    using result_json.json_too_large by (simp add: parse_result_json ece_def)
qed

text \<open>
  The path check of a plan's command lacks the parent-directory test that the execution input
  has: a path with \<open>..\<close> can be part of an accepted command, while no execution input may carry it.
\<close>

theorem command_path_may_leave_directory:
  assumes "safe_path path" "contains path ''..''" "is_sha256_text h"
  shows "command_guard (pytest_command @ [PyStr path]) = None \<and>
    construct_with fixture_execution_input_post_init
      \<lparr>fi_proposal_hash = h, fi_file_path = path, fi_patch = patch\<rparr> =
      Inl (ExecutionContractError ''input_path_invalid'')"
proof -
  have "checksum (PyStr h) c = None" for c using assms(3) by (simp add: checksum_def)
  then show ?thesis
    using assms(1,2)
    by (auto simp: command_guard_None fixture_execution_input_post_init_def construct_with_def ece_def)
qed

subsection \<open>Concrete plans and results\<close>

definition zeros :: "nat \<Rightarrow> string" where
  "zeros n = replicate n CHR ''0''"

lemma zeros_hex: "is_hex (zeros n)" "is_sha256_text (zeros 64)" "is_checkout_sha (zeros 40)"
  "length (zeros n) = n"
  by (simp_all add: zeros_def is_hex_def hex_digits_def list_all_iff is_sha256_text_def is_checkout_sha_def)

lemma sample_image: "is_image (image_prefix @ zeros 64)"
  by (simp add: is_image_def zeros_hex)

definition sample_uuid :: string where
  "sample_uuid = ''00000000-0000-0000-0000-000000000000''"

lemma sample_uuid_ok: "is_uuid_text sample_uuid"
  by (simp add: is_uuid_text_def sample_uuid_def hex_digits_def upt_rec)

definition sample_plan :: execution_plan where
  "sample_plan = \<lparr>ep_organization_id = PyStr sample_uuid, ep_repository_id = PyStr sample_uuid,
     ep_snapshot_id = PyStr sample_uuid, ep_checkout_sha = PyStr (zeros 40),
     ep_proposal_id = PyStr sample_uuid, ep_proposal_hash = PyStr (zeros 64),
     ep_proposal_input_sha256 = PyStr (zeros 64),
     ep_fixture_tree_sha256 = PyStr CONTROLLED_FIXTURE_TREE_SHA256,
     ep_image = PyStr (image_prefix @ zeros 64),
     ep_commands = [pytest_command @ [PyStr ''tests/generated/test_a.py'']],
     ep_resources = default_resources, ep_host_profile = DEDICATED_ROOTLESS_FIXTURE,
     ep_schema_version = PyStr EXECUTION_PLAN_SCHEMA_VERSION, ep_fixture_id = PyStr FIXTURE_ID,
     ep_runner_version = PyStr RUNNER_VERSION, ep_network = PyStr ''none'', ep_mounts = [],
     ep_environment = safe_environment, ep_expected_artifacts = EXPECTED_ARTIFACTS\<rparr>"

lemma tree_hash_ok: "is_sha256_text CONTROLLED_FIXTURE_TREE_SHA256"
  by (simp add: CONTROLLED_FIXTURE_TREE_SHA256_def is_sha256_text_def is_hex_def hex_digits_def)

lemma sample_path_ok: "safe_path ''tests/generated/test_a.py''"
  by (simp add: safe_path_def startswith_def endswith_def)

lemma safe_environment_eq_env: "py_eq (PyDict safe_environment) (PyDict SAFE_ENV)"
  by (simp add: py_eq_def safe_environment_def sorted_items_map)

lemma sample_plan_valid: "valid_plan sample_plan"
proof -
  have "command_guard (pytest_command @ [PyStr ''tests/generated/test_a.py'']) = None"
    using sample_path_ok by (auto simp: command_guard_None)
  then show ?thesis
    by (simp add: valid_plan_def sample_plan_def execution_plan_post_init_def first_raise_append
        no_match_def checksum_def zeros_hex sample_image sample_uuid_ok is_uuid_def tree_hash_ok
        safe_environment_eq_env resource_limits_post_init_def default_resources_def in_range_def
        del: canon.simps)
      (simp add: safe_environment_def)
qed

lemma sample_plan_size: "length (utf8 (plan_canonical_bytes sample_plan)) \<le> 131072"
proof -
  have "isascii (plan_canonical_bytes sample_plan)"
    using plan_json.sealed_plain [OF plan_content_plain(2) [OF sample_plan_valid]]
    unfolding plan_canonical_bytes_def plan_sealed by (rule dumps_ascii)
  moreover have "dumps_bound (PyDict (execution_plan_as_dict sample_plan)) \<le> 131072"
    by (simp add: execution_plan_as_dict_def execution_plan_content_def sample_plan_def
        resource_limits_as_dict_def default_resources_def safe_environment_eq EXPECTED_ARTIFACTS_def
        plan_sha256_def pytest_command_def zeros_hex sample_uuid_def CONTROLLED_FIXTURE_TREE_SHA256_def
        image_prefix_def EXECUTION_PLAN_SCHEMA_VERSION_def FIXTURE_ID_def RUNNER_VERSION_def
        dump_int_def decimal_digits.simps dict_of_def)
  ultimately show ?thesis
    using length_dumps_bound [of "PyDict (execution_plan_as_dict sample_plan)"]
    unfolding plan_canonical_bytes_def by (simp del: dumps.simps dumps_bound.simps)
qed

theorem accepted_plan_is_isolated_witness:
  "\<exists>p. parse_execution_plan_json id (plan_canonical_bytes sample_plan) = Inr p \<and> ep_network p = PyStr ''none'' \<and>
     ep_mounts p = []"
proof -
  have "plan_json.read_json id (dumps (PyDict (plan_json.sealed sample_plan))) = Inr sample_plan"
    using sample_plan_size plan_json.json_round_trip [OF sample_plan_valid sample_plan_valid plan_content_plain(2) [OF sample_plan_valid]]
    by (simp add: plan_canonical_bytes_def plan_sealed del: dumps.simps)
  then have "parse_execution_plan_json id (plan_canonical_bytes sample_plan) = Inr sample_plan"
    by (simp add: parse_plan_json plan_canonical_bytes_def plan_sealed del: dumps.simps)
  with accepted_plan_is_isolated [OF this] show ?thesis by blast
qed

theorem plan_json_round_trip_witness:
  "parse_execution_plan_json id (plan_canonical_bytes sample_plan) = Inr sample_plan"
  by (rule plan_json_round_trip [OF sample_plan_valid sample_plan_size])

definition empty_output :: safe_output where
  "empty_output = \<lparr>so_excerpt = PyStr [], so_sha256 = PyStr (zeros 64), so_original_bytes = PyInt 0,
     so_truncated = PyBool False\<rparr>"

definition sample_result :: "safe_output \<Rightarrow> execution_result" where
  "sample_result out = \<lparr>er_plan_sha256 = PyStr (zeros 64), er_image = PyStr (image_prefix @ zeros 64),
     er_attempt = PyInt 1, er_outcome = EO_PASSED, er_elapsed_milliseconds = PyInt 10,
     er_exit_code = PyInt 0, er_stdout = out, er_stderr = empty_output,
     er_timed_out = PyBool False, er_killed = PyBool False, er_cleanup_succeeded = PyBool True,
     er_isolation_checks = [(''network'', True)], er_artifacts = EXPECTED_ARTIFACTS,
     er_schema_version = PyStr EXECUTION_RESULT_SCHEMA_VERSION, er_runner_version = PyStr RUNNER_VERSION\<rparr>"

lemma empty_output_ok: "safe_output_post_init empty_output = None" "small_output empty_output"
  by (simp_all add: safe_output_post_init_def empty_output_def checksum_def zeros_hex utf8_def small_output_def)

lemma sample_result_valid: "safe_output_post_init out = None \<Longrightarrow> valid_result (sample_result out)"
  by (simp add: valid_result_def sample_result_def execution_result_post_init_def checksum_def no_match_def
      zeros_hex sample_image bad_int_def in_range_def dict_of_def py_eq_def sorted_items_def empty_output_ok)

lemma sample_result_size: "length (utf8 (result_canonical_bytes (sample_result empty_output))) \<le> 196608"
proof -
  let ?r = "sample_result empty_output"
  have valid: "valid_result ?r" by (rule sample_result_valid [OF empty_output_ok(1)])
  have "small_output (er_stdout ?r)" "small_output (er_stderr ?r)"
    by (simp_all add: sample_result_def empty_output_ok)
  from result_json.sealed_plain [OF result_content_plain [OF valid this]]
  have "isascii (result_canonical_bytes ?r)"
    unfolding result_canonical_bytes_def result_sealed by (rule dumps_ascii)
  moreover have "dumps_bound (PyDict (execution_result_as_dict ?r)) \<le> 196608"
    by (simp add: execution_result_as_dict_def execution_result_content_def sample_result_def
        EXPECTED_ARTIFACTS_def execution_result_sha256_def zeros_hex image_prefix_def
        EXECUTION_RESULT_SCHEMA_VERSION_def RUNNER_VERSION_def dump_int_def decimal_digits.simps
        dict_of_def safe_output_as_dict_def empty_output_def)
  ultimately show ?thesis
    using length_dumps_bound [of "PyDict (execution_result_as_dict ?r)"]
    unfolding result_canonical_bytes_def by (simp del: dumps.simps dumps_bound.simps)
qed

lemma sample_result_read:
  "parse_execution_result_json id (result_canonical_bytes (sample_result empty_output)) =
     Inr (sample_result empty_output)"
proof -
  let ?r = "sample_result empty_output"
  have valid: "valid_result ?r" by (rule sample_result_valid [OF empty_output_ok(1)])
  have "small_output (er_stdout ?r)" "small_output (er_stderr ?r)"
    by (simp_all add: sample_result_def empty_output_ok)
  then have "result_json.read_json id (dumps (PyDict (result_json.sealed ?r))) = Inr ?r"
    using sample_result_size result_json.json_round_trip [OF valid valid result_content_plain [OF valid]]
    by (simp add: result_canonical_bytes_def result_sealed del: dumps.simps)
  then show ?thesis
    by (simp add: parse_result_json result_canonical_bytes_def result_sealed del: dumps.simps)
qed

theorem accepted_result_is_consistent_witness:
  "\<exists>r. parse_execution_result_json id (result_canonical_bytes (sample_result empty_output)) = Inr r \<and>
     er_timed_out r = PyBool (er_outcome r = EO_TIMEOUT) \<and> er_isolation_checks r \<noteq> []"
  using accepted_result_is_consistent [OF sample_result_read] sample_result_read by blast

theorem result_json_round_trip_witness:
  "parse_execution_result_json id (result_canonical_bytes (sample_result empty_output)) =
     Inr (sample_result empty_output)"
  by (rule result_json_round_trip [OF sample_result_valid [OF empty_output_ok(1)]])
    (use sample_result_size in \<open>simp_all add: sample_result_def empty_output_ok\<close>)

definition control_output :: safe_output where
  "control_output = \<lparr>so_excerpt = PyStr (replicate 40000 CHR 0x01), so_sha256 = PyStr (zeros 64),
     so_original_bytes = PyInt 40000, so_truncated = PyBool False\<rparr>"

theorem escaped_output_exceeds_reader_limit_witness:
  "valid_result (sample_result control_output) \<and>
   parse_execution_result_json id (result_canonical_bytes (sample_result control_output)) =
     Inl (ExecutionContractError ''payload_too_large'')"
proof
  have "isascii (replicate n CHR 0x01)" for n by (simp add: isascii_def list_all_iff code_def)
  then have "safe_output_post_init control_output = None"
    by (simp add: safe_output_post_init_def control_output_def checksum_def zeros_hex)
  then show "valid_result (sample_result control_output)" by (rule sample_result_valid)
  show "parse_execution_result_json id (result_canonical_bytes (sample_result control_output)) =
     Inl (ExecutionContractError ''payload_too_large'')"
    by (rule escaped_output_exceeds_reader_limit [where s = "replicate 40000 CHR 0x01"])
      (simp_all add: sample_result_def control_output_def list_all_iff code_def)
qed

theorem command_path_may_leave_directory_witness:
  "command_guard (pytest_command @ [PyStr ''tests/generated/test_x/../../../setup.py'']) = None"
  by (rule command_path_may_leave_directory [OF _ _ zeros_hex(2), THEN conjunct1])
    (simp_all add: safe_path_def startswith_def endswith_def)

end
