(* ===== verification/Differential.thy ===== *)
theory Differential
  imports ExecutionProofs
begin

section \<open>packages/execution_contracts/differential.py: differential plans and results\<close>

text \<open>
  The plan of a differential run (base revision against candidate revision of the controlled
  fixture), the observation of one workload, the comparison of two observations and the result
  with its mutation outcomes, with their parsers over the JSON text. As in
  \<open>ExecutionContracts\<close>, a field that no code types before it is used is a \<open>pyval\<close>. The bundle hash
  of a directory tree walks the file system and is not modelled.
\<close>

definition DIFFERENTIAL_PLAN_SCHEMA_VERSION :: string where
  "DIFFERENTIAL_PLAN_SCHEMA_VERSION = ''releaseproof.differential-plan.v1''"

definition DIFFERENTIAL_RESULT_SCHEMA_VERSION :: string where
  "DIFFERENTIAL_RESULT_SCHEMA_VERSION = ''releaseproof.differential-result.v1''"

definition DIFFERENTIAL_RUNNER_VERSION :: string where
  "DIFFERENTIAL_RUNNER_VERSION = ''releaseproof-differential-runner-v1''"

definition DIFFERENTIAL_WORKLOAD_VERSION :: string where
  "DIFFERENTIAL_WORKLOAD_VERSION = ''releaseproof.fixture-workload.v1''"

definition NONDETERMINISM_MASK_VERSION :: string where
  "NONDETERMINISM_MASK_VERSION = ''releaseproof.fixture-mask.v1''"

definition MUTATION_SET_VERSION :: string where
  "MUTATION_SET_VERSION = ''releaseproof.fixture-mutations.v1''"

definition DIFFERENTIAL_FIXTURE_BUNDLE_SHA256 :: string where
  "DIFFERENTIAL_FIXTURE_BUNDLE_SHA256 =
     ''8e3554c97d41207213554f092e2bcb439560164ae0fcb744c5b56e6adf81f87e''"

definition BASE_FIXTURE_SHA :: string where
  "BASE_FIXTURE_SHA = ''a043cc1f93e40f7f14c1de107a4364177ae25392''"

definition CANDIDATE_REVISIONS :: "(string \<times> string) list" where
  "CANDIDATE_REVISIONS = [(''identical'', BASE_FIXTURE_SHA),
     (''probe_timeout'', ''082df2491655a5bff0452212476a2e40c6af40547''),
     (''tax_regression'', ''703143e8e75a685bd5385ec6f7e8016795451c8d'')]"

definition ALLOWED_MUTATIONS :: "string list" where
  "ALLOWED_MUTATIONS = [''negative_guard_removed'', ''tax_rate_forced'']"

definition ALLOWED_MASK_PATHS :: "string list" where
  "ALLOWED_MASK_PATHS = [''http.headers.x-request-id'', ''state.updated_at'']"

definition SAFE_ENVIRONMENT :: "(string \<times> pyval) list" where
  "SAFE_ENVIRONMENT = [(''LANG'', PyStr ''C.UTF-8''), (''PYTEST_DISABLE_PLUGIN_AUTOLOAD'', PyStr ''1''),
     (''PYTHONDONTWRITEBYTECODE'', PyStr ''1''), (''PYTHONHASHSEED'', PyStr ''0'')]"

definition LIMITATIONS :: "string list" where
  "LIMITATIONS = [''synthetic_fixture_only'', ''bounded_mutation_operators_not_exhaustive'',
     ''latency_is_descriptive_not_a_performance_regression_gate'']"

subsection \<open>Enumerations\<close>

datatype differential_outcome = NO_DIFFERENCE | DIFFERENCE | BASE_FAILED | DIFF_UNKNOWN

fun differential_outcome_value :: "differential_outcome \<Rightarrow> string" where
  "differential_outcome_value NO_DIFFERENCE = ''no_difference''"
| "differential_outcome_value DIFFERENCE = ''difference''"
| "differential_outcome_value BASE_FAILED = ''base_failed''"
| "differential_outcome_value DIFF_UNKNOWN = ''unknown''"

definition differential_outcomes :: "differential_outcome list" where
  "differential_outcomes = [NO_DIFFERENCE, DIFFERENCE, BASE_FAILED, DIFF_UNKNOWN]"

datatype workload_outcome = W_PASSED | W_FAILED | W_TIMEOUT | W_UNAVAILABLE

fun workload_outcome_value :: "workload_outcome \<Rightarrow> string" where
  "workload_outcome_value W_PASSED = ''passed''"
| "workload_outcome_value W_FAILED = ''failed''"
| "workload_outcome_value W_TIMEOUT = ''timeout''"
| "workload_outcome_value W_UNAVAILABLE = ''unavailable''"

definition workload_outcomes :: "workload_outcome list" where
  "workload_outcomes = [W_PASSED, W_FAILED, W_TIMEOUT, W_UNAVAILABLE]"

datatype mutation_outcome = KILLED | SURVIVED | INCONCLUSIVE

fun mutation_outcome_value :: "mutation_outcome \<Rightarrow> string" where
  "mutation_outcome_value KILLED = ''killed''"
| "mutation_outcome_value SURVIVED = ''survived''"
| "mutation_outcome_value INCONCLUSIVE = ''inconclusive''"

definition mutation_outcomes :: "mutation_outcome list" where
  "mutation_outcomes = [KILLED, SURVIVED, INCONCLUSIVE]"

lemma differential_outcome_member [simp]:
  "enum_member differential_outcome_value differential_outcomes (PyStr (differential_outcome_value x)) = Inr x"
  by (cases x) (simp_all add: enum_member_def differential_outcomes_def)

lemma workload_outcome_member [simp]:
  "enum_member workload_outcome_value workload_outcomes (PyStr (workload_outcome_value x)) = Inr x"
  by (cases x) (simp_all add: enum_member_def workload_outcomes_def)

lemma mutation_outcome_member [simp]:
  "enum_member mutation_outcome_value mutation_outcomes (PyStr (mutation_outcome_value x)) = Inr x"
  by (cases x) (simp_all add: enum_member_def mutation_outcomes_def)

subsection \<open>Guards on single values\<close>

definition uuid_guard :: "pyval \<Rightarrow> exn option" where
  "uuid_guard v = raise_if (\<not> is_uuid v) (ece ''differential_identifier_invalid'')"

text \<open>
  \<open>_sha256\<close> never tests the type of its argument. \<open>len(value)\<close> is a TypeError on a scalar that is
  not a string; a list or a dictionary of 64 items is iterated, and each item (each key) is looked
  up as a substring of the digits, with a TypeError on the first item that is no string.
\<close>

fun hex_members :: "pyval list \<Rightarrow> string \<Rightarrow> exn option" where
  "hex_members [] c = None"
| "hex_members (PyStr s # vs) c = (if contains hex_digits s then hex_members vs c else Some (ece c))"
| "hex_members (_ # vs) c = Some (TypeError ''requires string as left operand'')"

definition sha256_guard :: "pyval \<Rightarrow> string \<Rightarrow> exn option" where
  "sha256_guard v c = (case iterate v of
      Inl _ \<Rightarrow> Some (TypeError ''object has no len()'')
    | Inr items \<Rightarrow> if length items \<noteq> 64 then Some (ece c) else hex_members items c)"

text \<open>
  \<open>a < b\<close> is defined between two strings, between two numbers and between two lists whose first
  differing items are comparable; \<open>sorted\<close> raises a TypeError when it meets another pair.
\<close>

fun is_number :: "pyval \<Rightarrow> bool" where
  "is_number (PyInt _) = True"
| "is_number (PyBool _) = True"
| "is_number (PyFloat _) = True"
| "is_number _ = False"

fun comparable :: "pyval \<Rightarrow> pyval \<Rightarrow> bool"
  and comparable_items :: "pyval list \<Rightarrow> pyval list \<Rightarrow> bool"
where
  "comparable (PyStr _) (PyStr _) = True"
| "comparable (PyList vs) (PyList ws) = comparable_items vs ws"
| "comparable v w = (is_number v \<and> is_number w)"
| "comparable_items (v # vs) (w # ws) = (if py_eq v w then comparable_items vs ws else comparable v w)"
| "comparable_items _ _ = True"

fun sortable :: "pyval list \<Rightarrow> bool" where
  "sortable [] = True"
| "sortable (v # vs) = (list_all (comparable v) vs \<and> sortable vs)"

definition mask_guard :: "pyval list \<Rightarrow> exn option" where
  "mask_guard masks = (if \<not> sortable masks then Some (TypeError ''not supported between instances'')
     else raise_if (case str_list masks of None \<Rightarrow> True | Some ss \<Rightarrow> sort ss \<noteq> ALLOWED_MASK_PATHS)
       (ece ''mask_policy_invalid''))"

definition mutation_set_guard :: "pyval list \<Rightarrow> exn option" where
  "mutation_set_guard ids = first_raise [
     raise_if (ids = [] \<or> length ids > length ALLOWED_MUTATIONS) (ece ''mutation_set_invalid''),
     raise_if (list_ex (\<lambda>v. \<not> hashable v) ids) (TypeError ''unhashable type''),
     raise_if (\<not> distinct ids \<or> list_ex (\<lambda>v. v \<notin> set (map PyStr ALLOWED_MUTATIONS)) ids)
       (ece ''mutation_set_invalid'')]"

text \<open>\<open>_CANDIDATE_REVISIONS.get(variant) != candidate_sha\<close>: a missing key gives \<open>None\<close>.\<close>

definition candidate_revision :: "pyval \<Rightarrow> pyval" where
  "candidate_revision variant = (case variant of
      PyStr s \<Rightarrow> opt_str (map_of CANDIDATE_REVISIONS s)
    | _ \<Rightarrow> PyNone)"

definition candidate_guard :: "pyval \<Rightarrow> pyval \<Rightarrow> exn option" where
  "candidate_guard variant sha =
     (if \<not> hashable variant then Some (TypeError ''unhashable type'')
      else raise_if (candidate_revision variant \<noteq> sha) (ece ''differential_candidate_not_allowed''))"

subsection \<open>DifferentialPlanV1\<close>

record differential_plan =
  dp_organization_id :: pyval
  dp_repository_id :: pyval
  dp_snapshot_id :: pyval
  dp_execution_plan_id :: pyval
  dp_execution_approval_id :: pyval
  dp_execution_plan_sha256 :: pyval
  dp_proposal_hash :: pyval
  dp_proposal_input_sha256 :: pyval
  dp_base_sha :: pyval
  dp_candidate_sha :: pyval
  dp_candidate_variant :: pyval
  dp_image :: pyval
  dp_resources :: resource_limits
  dp_host_profile :: host_profile
  dp_mutation_ids :: "pyval list"
  dp_mask_paths :: "pyval list"
  dp_schema_version :: pyval
  dp_runner_version :: pyval
  dp_workload_version :: pyval
  dp_mask_policy_version :: pyval
  dp_mutation_set_version :: pyval
  dp_fixture_bundle_sha256 :: pyval
  dp_network :: pyval
  dp_mounts :: "pyval list"
  dp_environment :: "(string \<times> pyval) list"

definition differential_plan_post_init :: "differential_plan \<Rightarrow> exn option" where
  "differential_plan_post_init p = first_raise [
     uuid_guard (dp_organization_id p),
     uuid_guard (dp_repository_id p),
     uuid_guard (dp_snapshot_id p),
     uuid_guard (dp_execution_plan_id p),
     uuid_guard (dp_execution_approval_id p),
     sha256_guard (dp_execution_plan_sha256 p) ''execution_plan_hash_invalid'',
     sha256_guard (dp_proposal_hash p) ''proposal_hash_invalid'',
     sha256_guard (dp_proposal_input_sha256 p) ''proposal_input_hash_invalid'',
     sha256_guard (dp_fixture_bundle_sha256 p) ''differential_bundle_hash_invalid'',
     raise_if (dp_fixture_bundle_sha256 p \<noteq> PyStr DIFFERENTIAL_FIXTURE_BUNDLE_SHA256)
       (ece ''differential_bundle_not_allowed''),
     raise_if (dp_base_sha p \<noteq> PyStr BASE_FIXTURE_SHA) (ece ''differential_base_not_allowed''),
     candidate_guard (dp_candidate_variant p) (dp_candidate_sha p),
     no_match is_image (dp_image p) ''image_not_allowed'',
     raise_if (dp_schema_version p \<noteq> PyStr DIFFERENTIAL_PLAN_SCHEMA_VERSION \<or>
         dp_runner_version p \<noteq> PyStr DIFFERENTIAL_RUNNER_VERSION \<or>
         dp_workload_version p \<noteq> PyStr DIFFERENTIAL_WORKLOAD_VERSION \<or>
         dp_mask_policy_version p \<noteq> PyStr NONDETERMINISM_MASK_VERSION \<or>
         dp_mutation_set_version p \<noteq> PyStr MUTATION_SET_VERSION)
       (ece ''differential_version_unsupported''),
     raise_if (dp_network p \<noteq> PyStr ''none'' \<or> dp_mounts p \<noteq> [] \<or> dp_environment p \<noteq> SAFE_ENVIRONMENT)
       (ece ''isolation_policy_invalid''),
     mutation_set_guard (dp_mutation_ids p),
     mask_guard (dp_mask_paths p)]"

definition differential_plan_content :: "differential_plan \<Rightarrow> pydict" where
  "differential_plan_content p = [
     (''base_sha'', dp_base_sha p),
     (''candidate_sha'', dp_candidate_sha p),
     (''candidate_variant'', dp_candidate_variant p),
     (''environment'', PyDict (dict_of (dp_environment p))),
     (''execution_approval_id'', dp_execution_approval_id p),
     (''execution_plan_id'', dp_execution_plan_id p),
     (''execution_plan_sha256'', dp_execution_plan_sha256 p),
     (''fixture_bundle_sha256'', dp_fixture_bundle_sha256 p),
     (''host_profile'', PyStr (host_profile_value (dp_host_profile p))),
     (''image'', dp_image p),
     (''mask_paths'', PyList (dp_mask_paths p)),
     (''mask_policy_version'', dp_mask_policy_version p),
     (''mounts'', PyList (dp_mounts p)),
     (''mutation_ids'', PyList (dp_mutation_ids p)),
     (''mutation_set_version'', dp_mutation_set_version p),
     (''network'', dp_network p),
     (''organization_id'', dp_organization_id p),
     (''proposal_hash'', dp_proposal_hash p),
     (''proposal_input_sha256'', dp_proposal_input_sha256 p),
     (''repository_id'', dp_repository_id p),
     (''resources'', PyDict (resource_limits_as_dict (dp_resources p))),
     (''runner_version'', dp_runner_version p),
     (''schema_version'', dp_schema_version p),
     (''snapshot_id'', dp_snapshot_id p),
     (''workload_version'', dp_workload_version p)]"

text \<open>
  \<open>canonical_json_bytes\<close> refuses an infinite float, which JSON text such as \<open>1e999\<close> can produce in
  a field no guard types.
\<close>

primrec finite_value :: "pyval \<Rightarrow> bool" where
  "finite_value PyNone = True"
| "finite_value (PyBool b) = True"
| "finite_value (PyInt i) = True"
| "finite_value (PyFloat t) = (t \<noteq> ''inf'' \<and> t \<noteq> ''-inf'' \<and> t \<noteq> ''nan'')"
| "finite_value (PyStr s) = True"
| "finite_value (PyList xs) = list_all (\<lambda>b. b) (map finite_value xs)"
| "finite_value (PyDict d) = list_all snd (map (map_prod id finite_value) d)"

definition canonical_sha256 :: "pyval \<Rightarrow> string result" where
  "canonical_sha256 v = (if finite_value v then Inr (object_sha256 v) else Inl (ece ''non_canonical_payload''))"

definition differential_plan_sha256 :: "differential_plan \<Rightarrow> string" where
  "differential_plan_sha256 p = object_sha256 (PyDict (differential_plan_content p))"

definition differential_plan_as_dict :: "differential_plan \<Rightarrow> pydict" where
  "differential_plan_as_dict p =
     differential_plan_content p @ [(''plan_sha256'', PyStr (differential_plan_sha256 p))]"

definition differential_plan_bytes :: "differential_plan \<Rightarrow> string" where
  "differential_plan_bytes p = dumps (PyDict (differential_plan_as_dict p))"

subsection \<open>WorkloadObservationV1\<close>

record workload_observation =
  wo_outcome :: workload_outcome
  wo_test_exit_code :: pyval
  wo_test_elapsed_milliseconds :: pyval
  wo_probe_exit_code :: pyval
  wo_probe_elapsed_milliseconds :: pyval
  wo_http :: pyval
  wo_state :: pyval
  wo_events :: "pyval list"
  wo_stdout :: safe_output
  wo_stderr :: safe_output

text \<open>\<open>isinstance(v, str) and len(v) <= n\<close>, for one value and for all values of a dictionary.\<close>

definition short_str :: "nat \<Rightarrow> pyval \<Rightarrow> bool" where
  "short_str n v = (case v of PyStr s \<Rightarrow> length s \<le> n | _ \<Rightarrow> False)"

definition item_or_none :: "pyval \<Rightarrow> string \<Rightarrow> pyval" where
  "item_or_none v k = (case v of
      PyDict d \<Rightarrow> (case map_of d k of Some x \<Rightarrow> x | None \<Rightarrow> PyNone)
    | _ \<Rightarrow> PyNone)"

text \<open>
  \<open>set(value)\<close> is a TypeError on what cannot be iterated or hashed. A list of exactly the expected
  names passes the comparison of the sets and fails in the subscript that follows.
\<close>

definition dict_with_keys :: "pyval \<Rightarrow> string list \<Rightarrow> string \<Rightarrow> exn option" where
  "dict_with_keys v expected c = (case iterate v of
      Inl e \<Rightarrow> Some e
    | Inr items \<Rightarrow> first_raise [
        raise_if (list_ex (\<lambda>x. \<not> hashable x) items) (TypeError ''unhashable type''),
        raise_if (\<not> list_all (\<lambda>x. x \<in> set (map PyStr expected)) items \<or>
            \<not> list_all (\<lambda>k. PyStr k \<in> set items) expected) (ece c),
        raise_if (case v of PyDict _ \<Rightarrow> False | _ \<Rightarrow> True) (TypeError ''indices must be integers'')])"

definition http_keys :: "string list" where
  "http_keys = [''body'', ''headers'', ''schema'', ''status'']"

definition bad_body :: "pyval \<Rightarrow> bool" where
  "bad_body v = (case v of
      PyDict d \<Rightarrow> \<not> has_exactly d [''currency'', ''total''] \<or> \<not> list_all (\<lambda>p. short_str 32 (snd p)) d
    | _ \<Rightarrow> True)"

definition bad_headers :: "pyval \<Rightarrow> bool" where
  "bad_headers v = (case v of
      PyDict d \<Rightarrow> list_ex (\<lambda>k. k \<notin> {''content-type'', ''x-request-id''}) (keys d) \<or>
        \<not> list_all (\<lambda>p. short_str 128 (snd p)) d
    | _ \<Rightarrow> True)"

definition http_schema :: pyval where
  "http_schema = PyDict [(''currency'', PyStr ''string''), (''total'', PyStr ''string'')]"

definition http_guard :: "pyval \<Rightarrow> exn option" where
  "http_guard http = (if http = PyNone then None
     else first_raise [
       dict_with_keys http http_keys ''workload_http_invalid'',
       raise_if (bad_body (item_or_none http ''body'') \<or> bad_headers (item_or_none http ''headers'') \<or>
           \<not> py_eq (item_or_none http ''schema'') http_schema \<or>
           bad_int 100 (item_or_none http ''status'') 599)
         (ece ''workload_http_invalid'')])"

definition state_keys :: "string list" where
  "state_keys = [''quote_count'', ''updated_at'']"

definition state_guard :: "pyval \<Rightarrow> exn option" where
  "state_guard state = (if state = PyNone then None
     else first_raise [
       dict_with_keys state state_keys ''workload_state_invalid'',
       raise_if (bad_int 0 (item_or_none state ''quote_count'') 1000 \<or>
           \<not> short_str 64 (item_or_none state ''updated_at'')) (ece ''workload_state_invalid'')])"

definition bad_event :: "pyval \<Rightarrow> bool" where
  "bad_event v = (case v of
      PyDict d \<Rightarrow> \<not> has_exactly d [''name'', ''sequence''] \<or> \<not> short_str 128 (item_or_none v ''name'') \<or>
        bad_int 0 (item_or_none v ''sequence'') 1000
    | _ \<Rightarrow> True)"

definition bad_exit_code :: "pyval \<Rightarrow> bool" where
  "bad_exit_code v = (v \<noteq> PyNone \<and> bad_int (- 1) v 255)"

definition workload_observation_post_init :: "workload_observation \<Rightarrow> exn option" where
  "workload_observation_post_init w = first_raise [
     raise_if (bad_int 0 (wo_test_elapsed_milliseconds w) 120000 \<or>
         bad_int 0 (wo_probe_elapsed_milliseconds w) 120000) (ece ''workload_timing_invalid''),
     raise_if (bad_exit_code (wo_test_exit_code w) \<or> bad_exit_code (wo_probe_exit_code w))
       (ece ''workload_exit_code_invalid''),
     raise_if (wo_outcome w = W_PASSED \<and> (wo_test_exit_code w \<noteq> PyInt 0 \<or> wo_probe_exit_code w \<noteq> PyInt 0 \<or>
         wo_http w = PyNone)) (ece ''passed_workload_invalid''),
     raise_if (length (wo_events w) > 32) (ece ''workload_events_invalid''),
     http_guard (wo_http w),
     state_guard (wo_state w),
     raise_if (list_ex bad_event (wo_events w)) (ece ''workload_events_invalid'')]"

definition workload_observation_as_dict :: "workload_observation \<Rightarrow> pydict" where
  "workload_observation_as_dict w = [
     (''events'', PyList (wo_events w)),
     (''http'', wo_http w),
     (''outcome'', PyStr (workload_outcome_value (wo_outcome w))),
     (''probe_elapsed_milliseconds'', wo_probe_elapsed_milliseconds w),
     (''probe_exit_code'', wo_probe_exit_code w),
     (''state'', wo_state w),
     (''stderr'', PyDict (safe_output_as_dict (wo_stderr w))),
     (''stdout'', PyDict (safe_output_as_dict (wo_stdout w))),
     (''test_elapsed_milliseconds'', wo_test_elapsed_milliseconds w),
     (''test_exit_code'', wo_test_exit_code w)]"

subsection \<open>MutationResultV1\<close>

record mutation_result =
  mr_mutation_id :: pyval
  mr_outcome :: mutation_outcome
  mr_elapsed_milliseconds :: pyval
  mr_exit_code :: pyval

definition mutation_result_post_init :: "mutation_result \<Rightarrow> exn option" where
  "mutation_result_post_init m = first_raise [
     raise_if (mr_mutation_id m \<notin> set (map PyStr ALLOWED_MUTATIONS)) (ece ''mutation_result_invalid''),
     raise_if (bad_int 0 (mr_elapsed_milliseconds m) 120000) (ece ''mutation_result_invalid''),
     raise_if (bad_exit_code (mr_exit_code m)) (ece ''mutation_result_invalid'')]"

definition mutation_result_as_dict :: "mutation_result \<Rightarrow> pydict" where
  "mutation_result_as_dict m = [
     (''elapsed_milliseconds'', mr_elapsed_milliseconds m),
     (''exit_code'', mr_exit_code m),
     (''mutation_id'', mr_mutation_id m),
     (''outcome'', PyStr (mutation_outcome_value (mr_outcome m)))]"

subsection \<open>compare_observations\<close>

definition http_differences :: "pyval \<Rightarrow> pyval \<Rightarrow> string list" where
  "http_differences base candidate =
     (if base \<noteq> PyNone \<and> candidate \<noteq> PyNone then
        (if \<not> py_eq (item_or_none base ''status'') (item_or_none candidate ''status'')
         then [''http.status''] else []) @
        (if \<not> py_eq (item_or_none base ''schema'') (item_or_none candidate ''schema'')
         then [''http.schema''] else []) @
        (if \<not> py_eq (item_or_none base ''body'') (item_or_none candidate ''body'')
         then [''http.body''] else [])
      else if \<not> py_eq base candidate then [''http.missing''] else [])"

definition selected_state :: "pyval \<Rightarrow> pyval" where
  "selected_state state = (case state of
      PyDict d \<Rightarrow> PyDict (filter (\<lambda>p. fst p \<noteq> ''updated_at'') d)
    | _ \<Rightarrow> PyNone)"

definition observed_differences :: "workload_observation \<Rightarrow> workload_observation \<Rightarrow> string list" where
  "observed_differences base candidate =
     (if wo_outcome candidate \<noteq> W_PASSED then [''tests.outcome''] else []) @
     http_differences (wo_http base) (wo_http candidate) @
     (if \<not> py_eq (selected_state (wo_state base)) (selected_state (wo_state candidate))
      then [''state.selected''] else []) @
     (if \<not> py_eq (PyList (wo_events base)) (PyList (wo_events candidate)) then [''events.selected''] else [])"

definition compare_observations ::
  "workload_observation \<Rightarrow> workload_observation \<Rightarrow> differential_outcome \<times> string list" where
  "compare_observations base candidate =
     (if wo_outcome base \<noteq> W_PASSED then (BASE_FAILED, [])
      else if wo_outcome candidate \<in> {W_TIMEOUT, W_UNAVAILABLE} then (DIFF_UNKNOWN, [])
      else let differences = observed_differences base candidate in
        if differences \<noteq> [] then (DIFFERENCE, differences) else (NO_DIFFERENCE, []))"

subsection \<open>DifferentialResultV1\<close>

record differential_result =
  dr_plan_sha256 :: pyval
  dr_image :: pyval
  dr_attempt :: pyval
  dr_base :: workload_observation
  dr_candidate :: workload_observation
  dr_outcome :: differential_outcome
  dr_differences :: "pyval list"
  dr_mutations :: "mutation_result list"
  dr_isolation_checks :: "(string \<times> pyval) list"
  dr_cleanup_succeeded :: pyval
  dr_limitations :: "pyval list"
  dr_schema_version :: pyval
  dr_runner_version :: pyval
  dr_workload_version :: pyval
  dr_mask_policy_version :: pyval
  dr_mutation_set_version :: pyval

definition differential_result_post_init :: "differential_result \<Rightarrow> exn option" where
  "differential_result_post_init r = first_raise [
     sha256_guard (dr_plan_sha256 r) ''differential_plan_hash_invalid'',
     no_match is_image (dr_image r) ''image_not_allowed'',
     raise_if (bad_int 1 (dr_attempt r) 20) (ece ''attempt_invalid''),
     raise_if (dr_outcome r \<noteq> fst (compare_observations (dr_base r) (dr_candidate r)) \<or>
         dr_differences r \<noteq> map PyStr (snd (compare_observations (dr_base r) (dr_candidate r))))
       (ece ''differential_comparison_invalid''),
     raise_if (dr_mutations r = [] \<or> \<not> distinct (map mr_mutation_id (dr_mutations r)))
       (ece ''mutation_results_invalid''),
     raise_if (\<not> (1 \<le> length (dict_of (dr_isolation_checks r)) \<and> length (dict_of (dr_isolation_checks r)) \<le> 20) \<or>
         length (dict_of (dr_isolation_checks r)) \<noteq> length (dr_isolation_checks r))
       (ece ''isolation_checks_invalid''),
     raise_if (list_ex (\<lambda>p. \<not> is_bool (snd p)) (dict_of (dr_isolation_checks r)))
       (ece ''isolation_checks_invalid''),
     raise_if (\<not> is_bool (dr_cleanup_succeeded r)) (ece ''cleanup_invalid''),
     raise_if (dr_limitations r \<noteq> map PyStr LIMITATIONS) (ece ''differential_limitations_invalid''),
     raise_if (dr_schema_version r \<noteq> PyStr DIFFERENTIAL_RESULT_SCHEMA_VERSION \<or>
         dr_runner_version r \<noteq> PyStr DIFFERENTIAL_RUNNER_VERSION \<or>
         dr_workload_version r \<noteq> PyStr DIFFERENTIAL_WORKLOAD_VERSION \<or>
         dr_mask_policy_version r \<noteq> PyStr NONDETERMINISM_MASK_VERSION \<or>
         dr_mutation_set_version r \<noteq> PyStr MUTATION_SET_VERSION)
       (ece ''differential_result_version_invalid'')]"

definition mutation_killed :: "differential_result \<Rightarrow> nat" where
  "mutation_killed r = length (filter (\<lambda>m. mr_outcome m = KILLED) (dr_mutations r))"

definition mutation_total :: "differential_result \<Rightarrow> nat" where
  "mutation_total r = length (filter (\<lambda>m. mr_outcome m \<noteq> INCONCLUSIVE) (dr_mutations r))"

definition differential_result_content :: "differential_result \<Rightarrow> pydict" where
  "differential_result_content r = [
     (''attempt'', dr_attempt r),
     (''base'', PyDict (workload_observation_as_dict (dr_base r))),
     (''candidate'', PyDict (workload_observation_as_dict (dr_candidate r))),
     (''cleanup_succeeded'', dr_cleanup_succeeded r),
     (''differences'', PyList (dr_differences r)),
     (''image'', dr_image r),
     (''isolation_checks'', PyDict (dict_of (dr_isolation_checks r))),
     (''limitations'', PyList (dr_limitations r)),
     (''mask_policy_version'', dr_mask_policy_version r),
     (''mutation_killed'', PyInt (int (mutation_killed r))),
     (''mutation_set_version'', dr_mutation_set_version r),
     (''mutation_total'', PyInt (int (mutation_total r))),
     (''mutations'', PyList (map (\<lambda>m. PyDict (mutation_result_as_dict m)) (dr_mutations r))),
     (''outcome'', PyStr (differential_outcome_value (dr_outcome r))),
     (''plan_sha256'', dr_plan_sha256 r),
     (''runner_version'', dr_runner_version r),
     (''schema_version'', dr_schema_version r),
     (''workload_version'', dr_workload_version r)]"

definition differential_result_sha256 :: "differential_result \<Rightarrow> string" where
  "differential_result_sha256 r = object_sha256 (PyDict (differential_result_content r))"

definition differential_result_as_dict :: "differential_result \<Rightarrow> pydict" where
  "differential_result_as_dict r =
     differential_result_content r @ [(''result_sha256'', PyStr (differential_result_sha256 r))]"

subsection \<open>The parsers\<close>

definition differential_plan_keys :: "string list" where
  "differential_plan_keys = [''organization_id'', ''repository_id'', ''snapshot_id'', ''execution_plan_id'',
     ''execution_approval_id'', ''execution_plan_sha256'', ''proposal_hash'', ''proposal_input_sha256'',
     ''base_sha'', ''candidate_sha'', ''candidate_variant'', ''image'', ''resources'', ''host_profile'',
     ''mutation_ids'', ''mask_paths'', ''schema_version'', ''runner_version'', ''workload_version'',
     ''mask_policy_version'', ''mutation_set_version'', ''fixture_bundle_sha256'', ''network'', ''mounts'',
     ''environment'']"

definition differential_plan_fields :: "pydict \<Rightarrow> differential_plan result" where
  "differential_plan_fields d =
     and_then (get_item d ''environment'') (\<lambda>raw_environment.
     and_then (sorted_items_of raw_environment) (\<lambda>environment.
     and_then (get_item d ''host_profile'') (\<lambda>raw_profile.
     and_then (enum_member host_profile_value host_profiles raw_profile) (\<lambda>profile.
     and_then (get_item d ''mask_paths'') (\<lambda>raw_masks.
     and_then (iterate raw_masks) (\<lambda>masks.
     and_then (get_item d ''mounts'') (\<lambda>raw_mounts.
     and_then (iterate raw_mounts) (\<lambda>mounts.
     and_then (get_item d ''mutation_ids'') (\<lambda>raw_mutations.
     and_then (iterate raw_mutations) (\<lambda>mutations.
     and_then (get_item d ''resources'') (\<lambda>raw_resources.
     and_then (resource_limits_from_dict raw_resources) (\<lambda>resources.
     and_then (get_item d ''organization_id'') (\<lambda>organization_id.
     and_then (get_item d ''repository_id'') (\<lambda>repository_id.
     and_then (get_item d ''snapshot_id'') (\<lambda>snapshot_id.
     and_then (get_item d ''execution_plan_id'') (\<lambda>execution_plan_id.
     and_then (get_item d ''execution_approval_id'') (\<lambda>execution_approval_id.
     and_then (get_item d ''execution_plan_sha256'') (\<lambda>execution_plan_sha256.
     and_then (get_item d ''proposal_hash'') (\<lambda>proposal_hash.
     and_then (get_item d ''proposal_input_sha256'') (\<lambda>proposal_input_sha256.
     and_then (get_item d ''base_sha'') (\<lambda>base_sha.
     and_then (get_item d ''candidate_sha'') (\<lambda>candidate_sha.
     and_then (get_item d ''candidate_variant'') (\<lambda>candidate_variant.
     and_then (get_item d ''image'') (\<lambda>image.
     and_then (get_item d ''schema_version'') (\<lambda>schema_version.
     and_then (get_item d ''runner_version'') (\<lambda>runner_version.
     and_then (get_item d ''workload_version'') (\<lambda>workload_version.
     and_then (get_item d ''mask_policy_version'') (\<lambda>mask_policy_version.
     and_then (get_item d ''mutation_set_version'') (\<lambda>mutation_set_version.
     and_then (get_item d ''fixture_bundle_sha256'') (\<lambda>fixture_bundle_sha256.
     and_then (get_item d ''network'') (\<lambda>network.
       construct_with differential_plan_post_init
         \<lparr>dp_organization_id = organization_id, dp_repository_id = repository_id,
          dp_snapshot_id = snapshot_id, dp_execution_plan_id = execution_plan_id,
          dp_execution_approval_id = execution_approval_id,
          dp_execution_plan_sha256 = execution_plan_sha256, dp_proposal_hash = proposal_hash,
          dp_proposal_input_sha256 = proposal_input_sha256, dp_base_sha = base_sha,
          dp_candidate_sha = candidate_sha, dp_candidate_variant = candidate_variant,
          dp_image = image, dp_resources = resources, dp_host_profile = profile,
          dp_mutation_ids = mutations, dp_mask_paths = masks, dp_schema_version = schema_version,
          dp_runner_version = runner_version, dp_workload_version = workload_version,
          dp_mask_policy_version = mask_policy_version,
          dp_mutation_set_version = mutation_set_version,
          dp_fixture_bundle_sha256 = fixture_bundle_sha256, dp_network = network,
          dp_mounts = mounts, dp_environment = environment\<rparr>)))))))))))))))))))))))))))))))"

fun recode_differential_plan_error :: "exn \<Rightarrow> exn" where
  "recode_differential_plan_error (ExecutionContractError c) = ece c"
| "recode_differential_plan_error (GraphRecursionError) = GraphRecursionError"
| "recode_differential_plan_error _ = ece ''differential_plan_values_invalid''"

definition differential_plan_decode :: "pydict \<Rightarrow> differential_plan result" where
  "differential_plan_decode d =
     and_then (map_sum recode_differential_plan_error id (differential_plan_fields d)) (\<lambda>p.
       and_then (canonical_sha256 (PyDict (differential_plan_content p))) (\<lambda>_. Inr p))"

definition differential_plan_from_items :: "pydict \<Rightarrow> differential_plan result" where
  "differential_plan_from_items d =
     (case exact_keys (dict_pop ''plan_sha256'' d) differential_plan_keys ''differential_plan_fields_invalid'' of
        Some e \<Rightarrow> Inl e
      | None \<Rightarrow> and_then (differential_plan_decode d) (\<lambda>p.
          if map_of d ''plan_sha256'' \<noteq> Some (PyStr (differential_plan_sha256 p))
          then Inl (ece ''differential_plan_hash_mismatch'') else Inr p))"

definition parse_differential_plan_json :: "(string \<Rightarrow> string) \<Rightarrow> string \<Rightarrow> differential_plan result" where
  "parse_differential_plan_json float_repr raw =
     and_then (load_unique_json float_repr 196608 raw) differential_plan_from_items"

definition observation_keys :: "string list" where
  "observation_keys = [''events'', ''http'', ''outcome'', ''probe_elapsed_milliseconds'',
     ''probe_exit_code'', ''state'', ''stderr'', ''stdout'', ''test_elapsed_milliseconds'',
     ''test_exit_code'']"

definition observation_fields :: "pydict \<Rightarrow> workload_observation result" where
  "observation_fields d =
     and_then (get_item d ''events'') (\<lambda>raw_events.
     and_then (iterate raw_events) (\<lambda>events.
     and_then (get_item d ''outcome'') (\<lambda>raw_outcome.
     and_then (enum_member workload_outcome_value workload_outcomes raw_outcome) (\<lambda>outcome.
     and_then (get_item d ''stderr'') (\<lambda>raw_stderr.
     and_then (output_from raw_stderr) (\<lambda>stderr.
     and_then (get_item d ''stdout'') (\<lambda>raw_stdout.
     and_then (output_from raw_stdout) (\<lambda>stdout.
     and_then (get_item d ''test_exit_code'') (\<lambda>test_exit_code.
     and_then (get_item d ''test_elapsed_milliseconds'') (\<lambda>test_elapsed.
     and_then (get_item d ''probe_exit_code'') (\<lambda>probe_exit_code.
     and_then (get_item d ''probe_elapsed_milliseconds'') (\<lambda>probe_elapsed.
     and_then (get_item d ''http'') (\<lambda>http.
     and_then (get_item d ''state'') (\<lambda>state.
       construct_with workload_observation_post_init
         \<lparr>wo_outcome = outcome, wo_test_exit_code = test_exit_code,
          wo_test_elapsed_milliseconds = test_elapsed, wo_probe_exit_code = probe_exit_code,
          wo_probe_elapsed_milliseconds = probe_elapsed, wo_http = http, wo_state = state,
          wo_events = events, wo_stdout = stdout, wo_stderr = stderr\<rparr>))))))))))))))"

text \<open>\<open>except (KeyError, TypeError, ValueError)\<close>: other exceptions pass unchanged.\<close>

fun recode_values :: "string \<Rightarrow> exn \<Rightarrow> exn" where
  "recode_values c (ExecutionContractError m) = ece m"
| "recode_values c (AttributeError m) = AttributeError m"
| "recode_values c (GraphRecursionError) = GraphRecursionError"
| "recode_values c _ = ece c"

definition observation_from :: "pyval \<Rightarrow> workload_observation result" where
  "observation_from value = (case value of
      PyDict d \<Rightarrow>
        (case exact_keys d observation_keys ''workload_observation_invalid'' of
           Some e \<Rightarrow> Inl e
         | None \<Rightarrow> map_sum (recode_values ''workload_observation_invalid'') id (observation_fields d))
    | _ \<Rightarrow> Inl (ece ''workload_observation_invalid''))"

text \<open>\<open>item["..."]\<close> on anything but a dictionary is a TypeError; other keys are ignored.\<close>

definition subscript :: "pyval \<Rightarrow> string \<Rightarrow> pyval result" where
  "subscript v k = (case v of
      PyDict d \<Rightarrow> get_item d k
    | _ \<Rightarrow> Inl (TypeError ''indices must be integers''))"

definition mutation_result_from :: "pyval \<Rightarrow> mutation_result result" where
  "mutation_result_from item =
     and_then (subscript item ''mutation_id'') (\<lambda>mutation_id.
     and_then (subscript item ''outcome'') (\<lambda>raw_outcome.
     and_then (enum_member mutation_outcome_value mutation_outcomes raw_outcome) (\<lambda>outcome.
     and_then (subscript item ''elapsed_milliseconds'') (\<lambda>elapsed.
     and_then (subscript item ''exit_code'') (\<lambda>exit_code.
       construct_with mutation_result_post_init
         \<lparr>mr_mutation_id = mutation_id, mr_outcome = outcome, mr_elapsed_milliseconds = elapsed,
          mr_exit_code = exit_code\<rparr>)))))"

definition differential_result_keys :: "string list" where
  "differential_result_keys = [''plan_sha256'', ''image'', ''attempt'', ''base'', ''candidate'', ''outcome'',
     ''differences'', ''mutations'', ''isolation_checks'', ''cleanup_succeeded'', ''limitations'',
     ''schema_version'', ''runner_version'', ''workload_version'', ''mask_policy_version'',
     ''mutation_set_version'', ''mutation_killed'', ''mutation_total'']"

definition items_of :: "pyval \<Rightarrow> (string \<times> pyval) list result" where
  "items_of v = (case v of PyDict d \<Rightarrow> Inr d | _ \<Rightarrow> Inl (ece ''isolation_checks_invalid''))"

definition differential_result_fields :: "pydict \<Rightarrow> differential_result result" where
  "differential_result_fields d =
     and_then (get_item d ''isolation_checks'') (\<lambda>raw_checks.
     and_then (items_of raw_checks) (\<lambda>checks.
     and_then (get_item d ''base'') (\<lambda>raw_base.
     and_then (observation_from raw_base) (\<lambda>base.
     and_then (get_item d ''candidate'') (\<lambda>raw_candidate.
     and_then (observation_from raw_candidate) (\<lambda>candidate.
     and_then (get_item d ''differences'') (\<lambda>raw_differences.
     and_then (iterate raw_differences) (\<lambda>differences.
     and_then (get_item d ''limitations'') (\<lambda>raw_limitations.
     and_then (iterate raw_limitations) (\<lambda>limitations.
     and_then (get_item d ''mutations'') (\<lambda>raw_mutations.
     and_then (iterate raw_mutations) (\<lambda>items.
     and_then (map_raise mutation_result_from items) (\<lambda>mutations.
     and_then (get_item d ''outcome'') (\<lambda>raw_outcome.
     and_then (enum_member differential_outcome_value differential_outcomes raw_outcome) (\<lambda>outcome.
     and_then (get_item d ''plan_sha256'') (\<lambda>plan.
     and_then (get_item d ''image'') (\<lambda>image.
     and_then (get_item d ''attempt'') (\<lambda>attempt.
     and_then (get_item d ''cleanup_succeeded'') (\<lambda>cleanup.
     and_then (get_item d ''schema_version'') (\<lambda>schema_version.
     and_then (get_item d ''runner_version'') (\<lambda>runner_version.
     and_then (get_item d ''workload_version'') (\<lambda>workload_version.
     and_then (get_item d ''mask_policy_version'') (\<lambda>mask_policy_version.
     and_then (get_item d ''mutation_set_version'') (\<lambda>mutation_set_version.
       construct_with differential_result_post_init
         \<lparr>dr_plan_sha256 = plan, dr_image = image, dr_attempt = attempt, dr_base = base,
          dr_candidate = candidate, dr_outcome = outcome, dr_differences = differences,
          dr_mutations = mutations, dr_isolation_checks = sorted_items checks,
          dr_cleanup_succeeded = cleanup, dr_limitations = limitations,
          dr_schema_version = schema_version, dr_runner_version = runner_version,
          dr_workload_version = workload_version, dr_mask_policy_version = mask_policy_version,
          dr_mutation_set_version = mutation_set_version\<rparr>))))))))))))))))))))))))"

text \<open>\<open>supplied != n\<close> for a small number: \<open>True == 1\<close> and \<open>1.0 == 1\<close> hold in Python.\<close>

definition eq_count :: "pyval \<Rightarrow> nat \<Rightarrow> bool" where
  "eq_count v n = (case v of
      PyInt i \<Rightarrow> i = int n
    | PyBool b \<Rightarrow> (if b then n = 1 else n = 0)
    | PyFloat t \<Rightarrow> t = dump_int (int n) @ ''.0'' \<or> n = 0 \<and> t = ''-0.0''
    | _ \<Rightarrow> False)"

definition count_matches :: "pydict \<Rightarrow> string \<Rightarrow> nat \<Rightarrow> bool" where
  "count_matches d k n = (case map_of d k of Some v \<Rightarrow> eq_count v n | None \<Rightarrow> False)"

definition differential_result_decode :: "pydict \<Rightarrow> differential_result result" where
  "differential_result_decode d =
     and_then (map_sum (recode_values ''differential_result_values_invalid'') id (differential_result_fields d))
       (\<lambda>r. and_then (canonical_sha256 (PyDict (differential_result_content r))) (\<lambda>_.
         if count_matches d ''mutation_killed'' (mutation_killed r) \<and>
            count_matches d ''mutation_total'' (mutation_total r)
         then Inr r else Inl (ece ''differential_result_hash_mismatch'')))"

definition differential_result_from_items :: "pydict \<Rightarrow> differential_result result" where
  "differential_result_from_items d =
     (case exact_keys (dict_pop ''result_sha256'' d) differential_result_keys
         ''differential_result_fields_invalid'' of
        Some e \<Rightarrow> Inl e
      | None \<Rightarrow> and_then (differential_result_decode d) (\<lambda>r.
          if map_of d ''result_sha256'' \<noteq> Some (PyStr (differential_result_sha256 r))
          then Inl (ece ''differential_result_hash_mismatch'') else Inr r))"

definition parse_differential_result_json :: "(string \<Rightarrow> string) \<Rightarrow> string \<Rightarrow> differential_result result" where
  "parse_differential_result_json float_repr raw =
     and_then (load_unique_json float_repr 393216 raw) differential_result_from_items"

end
