(* ===== verification/DifferentialProofs.thy ===== *)
theory DifferentialProofs
  imports Differential
begin

section \<open>Differential plans and results: what the parsers and the comparison guarantee\<close>

text \<open>
  The differential plan interprets \<open>json_contract\<close> (an object is strict when the fields that no
  guard types are strings), the result interprets \<open>sealed_contract\<close>. The properties cover the
  isolation of an accepted plan, the comparison of two observations (what it reports, and which
  parts of an observation it never looks at), the consistency of an accepted result, and three
  gaps of the guards.
\<close>

subsection \<open>Plans\<close>

lemma candidate_guard_None:
  "candidate_guard v sha = None \<longleftrightarrow> hashable v \<and> candidate_revision v = sha"
  by (simp add: candidate_guard_def)

lemma mutation_set_guard_None:
  "mutation_set_guard ids = None \<longleftrightarrow>
   ids \<noteq> [] \<and> distinct ids \<and> set ids \<subseteq> set (map PyStr ALLOWED_MUTATIONS)"
proof
  assume guard: "mutation_set_guard ids = None"
  then show "ids \<noteq> [] \<and> distinct ids \<and> set ids \<subseteq> set (map PyStr ALLOWED_MUTATIONS)"
    by (auto simp: mutation_set_guard_def list_ex_iff)
next
  assume *: "ids \<noteq> [] \<and> distinct ids \<and> set ids \<subseteq> set (map PyStr ALLOWED_MUTATIONS)"
  then have "length ids \<le> length (map PyStr ALLOWED_MUTATIONS)"
    using card_mono [of "set (map PyStr ALLOWED_MUTATIONS)" "set ids"]
      card_length [of "map PyStr ALLOWED_MUTATIONS"]
    by (simp add: distinct_card del: set_map)
  moreover have "hashable v" if "v \<in> set ids" for v using * that by auto
  ultimately show "mutation_set_guard ids = None"
    using * by (auto simp: mutation_set_guard_def list_ex_iff)
qed

lemma comparable_strings [simp]: "sortable (map PyStr ss)"
  by (induction ss) (auto simp: list_all_iff)

lemma mask_guard_None:
  "mask_guard masks = None \<longleftrightarrow> (\<exists>ss. masks = map PyStr ss \<and> sort ss = ALLOWED_MASK_PATHS)"
  by (auto simp: mask_guard_def str_list_Some inj_map_eq_map inj_def split: option.splits)

lemma contains_single: "contains s [c] \<longleftrightarrow> c \<in> set s"
  by (induction s) (auto simp: startswith_def)

lemma hex_members_str: "hex_members (map (\<lambda>c. PyStr [c]) s) e = None \<longleftrightarrow> is_hex s"
  by (induction s) (auto simp: is_hex_def contains_single)

lemma sha256_guard_str: "sha256_guard (PyStr s) e = None \<longleftrightarrow> is_sha256_text s"
  by (simp add: sha256_guard_def hex_members_str is_sha256_text_def)

lemma bundle_hash_ok: "is_sha256_text DIFFERENTIAL_FIXTURE_BUNDLE_SHA256"
  by (simp add: DIFFERENTIAL_FIXTURE_BUNDLE_SHA256_def is_sha256_text_def is_hex_def hex_digits_def)

definition differential_plan_shape :: "differential_plan \<Rightarrow> bool" where
  "differential_plan_shape p \<longleftrightarrow>
     (\<exists>s. dp_organization_id p = PyStr s) \<and> (\<exists>s. dp_repository_id p = PyStr s) \<and>
     (\<exists>s. dp_snapshot_id p = PyStr s) \<and> (\<exists>s. dp_execution_plan_id p = PyStr s) \<and>
     (\<exists>s. dp_execution_approval_id p = PyStr s) \<and>
     dp_fixture_bundle_sha256 p = PyStr DIFFERENTIAL_FIXTURE_BUNDLE_SHA256 \<and>
     dp_base_sha p = PyStr BASE_FIXTURE_SHA \<and>
     dp_candidate_sha p = candidate_revision (dp_candidate_variant p) \<and>
     (\<exists>s. dp_image p = PyStr s \<and> is_image s) \<and>
     dp_schema_version p = PyStr DIFFERENTIAL_PLAN_SCHEMA_VERSION \<and>
     dp_runner_version p = PyStr DIFFERENTIAL_RUNNER_VERSION \<and>
     dp_workload_version p = PyStr DIFFERENTIAL_WORKLOAD_VERSION \<and>
     dp_mask_policy_version p = PyStr NONDETERMINISM_MASK_VERSION \<and>
     dp_mutation_set_version p = PyStr MUTATION_SET_VERSION \<and>
     dp_network p = PyStr ''none'' \<and> dp_mounts p = [] \<and> dp_environment p = SAFE_ENVIRONMENT \<and>
     dp_mutation_ids p \<noteq> [] \<and> distinct (dp_mutation_ids p) \<and>
     set (dp_mutation_ids p) \<subseteq> set (map PyStr ALLOWED_MUTATIONS) \<and>
     (\<exists>ss. dp_mask_paths p = map PyStr ss \<and> sort ss = ALLOWED_MASK_PATHS)"

lemma uuid_guard_None: "uuid_guard v = None \<longleftrightarrow> (\<exists>s. v = PyStr s \<and> is_uuid_text s)"
  by (simp add: uuid_guard_def is_uuid_iff)

lemma differential_plan_post_init_shape:
  assumes "differential_plan_post_init p = None"
  shows "differential_plan_shape p"
  using assms
  by (auto simp: differential_plan_post_init_def differential_plan_shape_def uuid_guard_None
      candidate_guard_None no_match_None mutation_set_guard_None mask_guard_None simp del: set_map)

definition valid_differential_plan :: "differential_plan \<Rightarrow> bool" where
  "valid_differential_plan p \<longleftrightarrow> differential_plan_post_init p = None \<and>
     resource_limits_post_init (dp_resources p) = None \<and>
     finite_value (PyDict (differential_plan_content p))"

fun is_str :: "pyval \<Rightarrow> bool" where
  "is_str (PyStr _) = True"
| "is_str _ = False"

lemma is_str_iff: "is_str v \<longleftrightarrow> (\<exists>s. v = PyStr s)"
  by (cases v) simp_all

definition typed_differential_plan :: "differential_plan \<Rightarrow> bool" where
  "typed_differential_plan p \<longleftrightarrow> list_all is_str [dp_execution_plan_sha256 p, dp_proposal_hash p,
     dp_proposal_input_sha256 p, dp_candidate_variant p]"

lemma differential_plan_eta [simp]:
  "\<lparr>dp_organization_id = dp_organization_id p, dp_repository_id = dp_repository_id p,
    dp_snapshot_id = dp_snapshot_id p, dp_execution_plan_id = dp_execution_plan_id p,
    dp_execution_approval_id = dp_execution_approval_id p,
    dp_execution_plan_sha256 = dp_execution_plan_sha256 p, dp_proposal_hash = dp_proposal_hash p,
    dp_proposal_input_sha256 = dp_proposal_input_sha256 p, dp_base_sha = dp_base_sha p,
    dp_candidate_sha = dp_candidate_sha p, dp_candidate_variant = dp_candidate_variant p,
    dp_image = dp_image p, dp_resources = dp_resources p, dp_host_profile = dp_host_profile p,
    dp_mutation_ids = dp_mutation_ids p, dp_mask_paths = dp_mask_paths p,
    dp_schema_version = dp_schema_version p, dp_runner_version = dp_runner_version p,
    dp_workload_version = dp_workload_version p, dp_mask_policy_version = dp_mask_policy_version p,
    dp_mutation_set_version = dp_mutation_set_version p,
    dp_fixture_bundle_sha256 = dp_fixture_bundle_sha256 p, dp_network = dp_network p,
    dp_mounts = dp_mounts p, dp_environment = dp_environment p\<rparr> = p"
  by simp

lemma SAFE_ENVIRONMENT_wf [simp]: "wf_dict SAFE_ENVIRONMENT" "dict_of SAFE_ENVIRONMENT = SAFE_ENVIRONMENT"
  "sorted_items SAFE_ENVIRONMENT = SAFE_ENVIRONMENT"
  by (simp_all add: SAFE_ENVIRONMENT_def wf_dict_def sorted_items_def)

lemma differential_plan_fields_content:
  assumes "valid_differential_plan p"
  shows "differential_plan_fields (differential_plan_content p @ [(''plan_sha256'', h)]) = Inr p"
proof -
  have ok: "differential_plan_post_init p = None" "resource_limits_post_init (dp_resources p) = None"
    using assms by (simp_all add: valid_differential_plan_def)
  then have env: "dp_environment p = SAFE_ENVIRONMENT"
    using differential_plan_post_init_shape by (simp add: differential_plan_shape_def)
  have fields: "sorted_items_of (PyDict (dict_of (dp_environment p))) = Inr (dp_environment p)"
    by (simp add: env sorted_items_of_def)
  show ?thesis
    by (simp add: differential_plan_fields_def differential_plan_content_def resource_limits_round_trip ok fields)
qed

lemma differential_plan_fields_valid:
  assumes "differential_plan_fields d = Inr p"
  shows "differential_plan_post_init p = None \<and> resource_limits_post_init (dp_resources p) = None"
proof -
  obtain raw where "resource_limits_from_dict raw = Inr (dp_resources p)"
    "differential_plan_post_init p = None"
    using assms by (auto simp: differential_plan_fields_def and_then_Inr)
  then show ?thesis using resource_limits_valid by blast
qed

lemma canonical_sha256_Inr:
  "canonical_sha256 v = Inr h \<longleftrightarrow> finite_value v \<and> h = object_sha256 v"
  by (auto simp: canonical_sha256_def)

lemma differential_plan_decode_Inr:
  "differential_plan_decode d = Inr p \<longleftrightarrow>
   differential_plan_fields d = Inr p \<and> finite_value (PyDict (differential_plan_content p))"
  by (auto simp: differential_plan_decode_def and_then_Inr map_sum_Inr canonical_sha256_Inr
      simp del: finite_value.simps)

lemma keys_dict_pop: "set (keys (dict_pop k d)) = set (keys d) - {k}"
  by (auto simp: keys_def dict_pop_def)

lemma has_exactly_dict_pop:
  assumes "k \<notin> set ks" "map_of d k \<noteq> None"
  shows "has_exactly (dict_pop k d) ks \<longleftrightarrow> has_exactly d (k # ks)"
proof -
  have "k \<in> set (keys d)" using assms(2) by (simp only: set_keys_map_of not_False_eq_True)
  then show ?thesis using assms(1) by (auto simp: has_exactly_iff keys_dict_pop)
qed

lemma keys_differential_plan: "set (keys (differential_plan_content p)) = set differential_plan_keys"
  by (auto simp: differential_plan_content_def differential_plan_keys_def)

lemma typed_plan_items:
  assumes "differential_plan_shape p" "typed_differential_plan p"
    "resource_limits_post_init (dp_resources p) = None" "(k, v) \<in> set (differential_plan_content p)"
  shows "ordered v = v \<and> plain v"
proof -
  have env: "plain (PyDict SAFE_ENVIRONMENT)" "ordered (PyDict SAFE_ENVIRONMENT) = PyDict SAFE_ENVIRONMENT"
    by (simp_all add: SAFE_ENVIRONMENT_def wf_dict_def sorted_items_def)
  have mutations: "ordered v = v \<and> plain v" if "v \<in> set (dp_mutation_ids p)" for v
    using that assms(1) by (auto simp: differential_plan_shape_def)
  then have ids: "ordered (PyList (dp_mutation_ids p)) = PyList (dp_mutation_ids p)"
    "plain (PyList (dp_mutation_ids p))"
    by (auto simp: list_all_iff intro!: map_idI)
  have masks: "ordered (PyList (dp_mask_paths p)) = PyList (dp_mask_paths p)" "plain (PyList (dp_mask_paths p))"
    using assms(1) by (auto simp: differential_plan_shape_def list_all_iff)
  have nil: "ordered (PyList []) = PyList []" "plain (PyList [])" by simp_all
  have sha: "ordered (dp_candidate_sha p) = dp_candidate_sha p \<and> plain (dp_candidate_sha p)"
    using assms(1,2) by (auto simp: differential_plan_shape_def typed_differential_plan_def
        candidate_revision_def opt_str_def is_str_iff split: option.splits)
  show ?thesis
    using assms(4) assms(1,2) env ids masks nil sha resources_plain [OF assms(3)]
    by (auto simp: differential_plan_content_def differential_plan_shape_def typed_differential_plan_def is_str_iff
        simp del: plain.simps(6,7) ordered.simps(6,7))
qed

lemma typed_plan_plain:
  assumes "valid_differential_plan p" "typed_differential_plan p"
  shows "plain (PyDict (differential_plan_content p))"
proof -
  have "wf_dict (differential_plan_content p)" by (simp add: wf_dict_def differential_plan_content_def)
  moreover have "plain v" if "(k, v) \<in> set (differential_plan_content p)" for k v
    using typed_plan_items [OF _ assms(2) _ that] assms(1) differential_plan_post_init_shape
    by (simp add: valid_differential_plan_def)
  ultimately show ?thesis by (fastforce simp: list_all_iff)
qed

interpretation dplan_json: json_contract differential_plan_content "''plan_sha256''" valid_differential_plan
  differential_plan_decode differential_plan_from_items typed_differential_plan 196608
proof
  fix d p
  have fresh: "''plan_sha256'' \<notin> set differential_plan_keys"
    by (simp add: differential_plan_keys_def)
  show "differential_plan_from_items d = Inr p \<longleftrightarrow>
      has_exactly d (''plan_sha256'' # keys (differential_plan_content p)) \<and> differential_plan_decode d = Inr p \<and>
      map_of d ''plan_sha256'' = Some (PyStr (object_sha256 (PyDict (differential_plan_content p))))"
  proof (cases "map_of d ''plan_sha256''")
    case None
    then show ?thesis
      by (auto simp: differential_plan_from_items_def and_then_Inr split: if_splits option.splits)
  next
    case (Some h)
    then have "has_exactly (dict_pop ''plan_sha256'' d) differential_plan_keys \<longleftrightarrow>
        has_exactly d (''plan_sha256'' # keys (differential_plan_content p))"
      using has_exactly_dict_pop [OF fresh, of d] keys_differential_plan [of p] by (simp add: has_exactly_iff)
    then show ?thesis
      by (auto simp: differential_plan_from_items_def exact_keys_def differential_plan_sha256_def and_then_Inr
          split: if_splits option.splits)
  qed
next
  fix p
  show "''plan_sha256'' \<notin> set (keys (differential_plan_content p))"
    by (simp add: differential_plan_content_def)
next
  fix d p
  show "differential_plan_decode d = Inr p \<Longrightarrow> valid_differential_plan p"
    using differential_plan_fields_valid unfolding valid_differential_plan_def differential_plan_decode_Inr by blast
next
  fix p h
  show "valid_differential_plan p \<Longrightarrow>
      differential_plan_decode (differential_plan_content p @ [(''plan_sha256'', h)]) = Inr p"
    unfolding differential_plan_decode_Inr
    using differential_plan_fields_content valid_differential_plan_def by blast
next
  fix d e :: pydict
  assume "map_of d = map_of e"
  then have "get_item d = get_item e" by (rule get_item_cong)
  then show "differential_plan_decode d = differential_plan_decode e"
    by (simp add: differential_plan_decode_def differential_plan_fields_def)
next
  fix p k v
  show "valid_differential_plan p \<Longrightarrow> typed_differential_plan p \<Longrightarrow>
      (k, v) \<in> set (differential_plan_content p) \<Longrightarrow> ordered v = v"
    using typed_plan_items differential_plan_post_init_shape by (auto simp: valid_differential_plan_def)
qed

lemma parse_differential_plan: "parse_differential_plan_json = dplan_json.read_json"
  by (simp add: fun_eq_iff parse_differential_plan_json_def dplan_json.read_json_def)

lemma differential_plan_sealed: "differential_plan_as_dict p = dplan_json.sealed p"
  by (simp add: differential_plan_as_dict_def dplan_json.sealed_def differential_plan_sha256_def)

subsection \<open>Observations and their comparison\<close>

lemma py_eq_None [simp]: "py_eq PyNone v \<longleftrightarrow> v = PyNone" "py_eq v PyNone \<longleftrightarrow> v = PyNone"
  by (cases v; simp add: py_eq_def)+

lemma py_eq_sym: "py_eq v w \<longleftrightarrow> py_eq w v"
  by (auto simp: py_eq_def)

lemma py_eq_trans: "py_eq u v \<Longrightarrow> py_eq v w \<Longrightarrow> py_eq u w"
  by (simp add: py_eq_def)

text \<open>The projection of an observation on which the comparison decides.\<close>

definition http_projection :: "pyval \<Rightarrow> pyval list" where
  "http_projection http = (if http = PyNone then []
     else [item_or_none http ''status'', item_or_none http ''schema'', item_or_none http ''body''])"

definition projection :: "workload_observation \<Rightarrow> pyval list" where
  "projection w = http_projection (wo_http w) @ [selected_state (wo_state w), PyList (wo_events w)]"

lemma http_differences_Nil:
  "http_differences v w = [] \<longleftrightarrow> list_all2 py_eq (http_projection v) (http_projection w)"
  by (auto simp: http_differences_def http_projection_def)

lemma length_http_projection: "length (http_projection v) = (if v = PyNone then 0 else 3)"
  by (simp add: http_projection_def)

lemma observed_differences_Nil:
  "observed_differences base candidate = [] \<longleftrightarrow>
   wo_outcome candidate = W_PASSED \<and> list_all2 py_eq (projection base) (projection candidate)"
proof (cases "length (http_projection (wo_http base)) = length (http_projection (wo_http candidate))")
  case True
  then show ?thesis
    by (auto simp: observed_differences_def projection_def http_differences_Nil list_all2_append)
next
  case False
  then have "\<not> list_all2 py_eq (http_projection (wo_http base)) (http_projection (wo_http candidate))"
    "\<not> list_all2 py_eq (projection base) (projection candidate)"
    by (auto simp: projection_def dest: list_all2_lengthD)
  then show ?thesis by (simp add: observed_differences_def http_differences_Nil)
qed

lemma masked_header_items:
  "item_or_none (PyDict (dict_set ''headers'' h d)) k = (if k = ''headers'' then h else item_or_none (PyDict d) k)"
  by (simp add: item_or_none_def map_of_dict_set)

lemma filter_dict_set: "k = j \<Longrightarrow> filter (\<lambda>p. fst p \<noteq> k) (dict_set j v d) = filter (\<lambda>p. fst p \<noteq> k) d"
  by (induction d) auto

text \<open>
  What the comparison looks at, written apart from it: a member of the HTTP exchange (\<open>None\<close> when
  it is absent), and the state without its time stamp.
\<close>

fun member_of :: "string \<Rightarrow> pyval \<Rightarrow> pyval" where
  "member_of k (PyDict d) = (if k \<in> fst ` set d then the (map_of d k) else PyNone)"
| "member_of k _ = PyNone"

fun untimed :: "pyval \<Rightarrow> pyval" where
  "untimed (PyDict d) = PyDict [(k, v). (k, v) \<leftarrow> d, k \<noteq> ''updated_at'']"
| "untimed _ = PyNone"

definition comparable :: "workload_observation \<Rightarrow> workload_observation \<Rightarrow> bool" where
  "comparable base candidate \<longleftrightarrow>
     wo_outcome base = W_PASSED \<and> wo_outcome candidate \<notin> {W_TIMEOUT, W_UNAVAILABLE}"

lemma member_of_item: "item_or_none v k = member_of k v"
proof (cases v)
  case (PyDict d)
  then show ?thesis
    by (cases "map_of d k") (auto simp: item_or_none_def map_of_eq_None_iff dest: map_of_SomeD intro: rev_image_eqI
        split: option.split)
qed (simp_all add: item_or_none_def)

lemma selected_state_untimed: "selected_state v = untimed v"
proof -
  have "filter (\<lambda>p. fst p \<noteq> k) d = [(j, w). (j, w) \<leftarrow> d, j \<noteq> k]" for k and d :: pydict
    by (induction d) auto
  then show ?thesis by (cases v) (simp_all add: selected_state_def)
qed

lemma reported_names:
  "snd (compare_observations base candidate) =
   (if comparable base candidate then observed_differences base candidate else [])"
  by (simp add: compare_observations_def comparable_def Let_def)

lemma reported_outcome:
  "fst (compare_observations base candidate) =
   (if wo_outcome base \<noteq> W_PASSED then BASE_FAILED
    else if wo_outcome candidate \<in> {W_TIMEOUT, W_UNAVAILABLE} then DIFF_UNKNOWN
    else if observed_differences base candidate \<noteq> [] then DIFFERENCE else NO_DIFFERENCE)"
  by (simp add: compare_observations_def Let_def)

lemma http_names:
  "set (http_differences v w) =
   (if v = PyNone \<or> w = PyNone then (if (v = PyNone) \<noteq> (w = PyNone) then {''http.missing''} else {})
    else (if py_eq (member_of ''status'' v) (member_of ''status'' w) then {} else {''http.status''}) \<union>
         (if py_eq (member_of ''schema'' v) (member_of ''schema'' w) then {} else {''http.schema''}) \<union>
         (if py_eq (member_of ''body'' v) (member_of ''body'' w) then {} else {''http.body''}))"
  by (cases "v = PyNone"; cases "w = PyNone") (simp_all add: http_differences_def member_of_item)

lemma observed_names:
  "''tests.outcome'' \<in> set (observed_differences b c) \<longleftrightarrow> wo_outcome c \<noteq> W_PASSED"
  "''http.missing'' \<in> set (observed_differences b c) \<longleftrightarrow> (wo_http b = PyNone) \<noteq> (wo_http c = PyNone)"
  "''http.status'' \<in> set (observed_differences b c) \<longleftrightarrow> wo_http b \<noteq> PyNone \<and> wo_http c \<noteq> PyNone \<and>
     \<not> py_eq (member_of ''status'' (wo_http b)) (member_of ''status'' (wo_http c))"
  "''http.schema'' \<in> set (observed_differences b c) \<longleftrightarrow> wo_http b \<noteq> PyNone \<and> wo_http c \<noteq> PyNone \<and>
     \<not> py_eq (member_of ''schema'' (wo_http b)) (member_of ''schema'' (wo_http c))"
  "''http.body'' \<in> set (observed_differences b c) \<longleftrightarrow> wo_http b \<noteq> PyNone \<and> wo_http c \<noteq> PyNone \<and>
     \<not> py_eq (member_of ''body'' (wo_http b)) (member_of ''body'' (wo_http c))"
  "''state.selected'' \<in> set (observed_differences b c) \<longleftrightarrow>
     \<not> py_eq (untimed (wo_state b)) (untimed (wo_state c))"
  "''events.selected'' \<in> set (observed_differences b c) \<longleftrightarrow> \<not> py_eq (PyList (wo_events b)) (PyList (wo_events c))"
  by (simp_all add: observed_differences_def http_names selected_state_untimed)

lemma observed_distinct: "distinct (observed_differences b c)"
proof -
  have "distinct (http_differences v w)" for v w by (simp add: http_differences_def)
  then show ?thesis by (simp add: observed_differences_def http_names)
qed

lemma observed_known:
  "set (observed_differences b c) \<subseteq> {''tests.outcome'', ''http.status'', ''http.schema'',
     ''http.body'', ''http.missing'', ''state.selected'', ''events.selected''}"
  by (auto simp: observed_differences_def http_differences_def)

lemma reported_known:
  "set (if x then observed_differences b c else []) \<subseteq> {''tests.outcome'', ''http.status'', ''http.schema'',
     ''http.body'', ''http.missing'', ''state.selected'', ''events.selected''}"
  using observed_known by (cases x) simp_all

text \<open>
  C10: The outcome "no difference" means exactly that both workloads passed and that the selected
  facts agree: the presence, status, schema and body of the HTTP exchange, the state without its
  time stamp, and the events. A difference is reported exactly when the list of differences is not
  empty, a failing base is always reported as such, and a candidate that timed out or was unavailable
  always leaves the outcome unknown. Each of the seven names is in the list exactly when the base
  passed, the candidate neither timed out nor was unavailable, and the very fact it names differs; no
  name stands in the list twice and no other name occurs in it.
\<close>

theorem no_difference_iff_projections_agree:
  "(fst (compare_observations base candidate) = NO_DIFFERENCE \<longleftrightarrow>
     wo_outcome base = W_PASSED \<and> wo_outcome candidate = W_PASSED \<and>
     list_all2 py_eq (projection base) (projection candidate)) \<and>
   (fst (compare_observations base candidate) = DIFFERENCE \<longleftrightarrow>
     snd (compare_observations base candidate) \<noteq> []) \<and>
   (fst (compare_observations base candidate) = BASE_FAILED \<longleftrightarrow> wo_outcome base \<noteq> W_PASSED) \<and>
   (fst (compare_observations base candidate) = DIFF_UNKNOWN \<longleftrightarrow>
     wo_outcome base = W_PASSED \<and> wo_outcome candidate \<in> {W_TIMEOUT, W_UNAVAILABLE}) \<and>
   (''tests.outcome'' \<in> set (snd (compare_observations base candidate)) \<longleftrightarrow>
     comparable base candidate \<and> wo_outcome candidate \<noteq> W_PASSED) \<and>
   (''http.missing'' \<in> set (snd (compare_observations base candidate)) \<longleftrightarrow>
     comparable base candidate \<and> (wo_http base = PyNone) \<noteq> (wo_http candidate = PyNone)) \<and>
   (''http.status'' \<in> set (snd (compare_observations base candidate)) \<longleftrightarrow>
     comparable base candidate \<and> wo_http base \<noteq> PyNone \<and> wo_http candidate \<noteq> PyNone \<and>
     \<not> py_eq (member_of ''status'' (wo_http base)) (member_of ''status'' (wo_http candidate))) \<and>
   (''http.schema'' \<in> set (snd (compare_observations base candidate)) \<longleftrightarrow>
     comparable base candidate \<and> wo_http base \<noteq> PyNone \<and> wo_http candidate \<noteq> PyNone \<and>
     \<not> py_eq (member_of ''schema'' (wo_http base)) (member_of ''schema'' (wo_http candidate))) \<and>
   (''http.body'' \<in> set (snd (compare_observations base candidate)) \<longleftrightarrow>
     comparable base candidate \<and> wo_http base \<noteq> PyNone \<and> wo_http candidate \<noteq> PyNone \<and>
     \<not> py_eq (member_of ''body'' (wo_http base)) (member_of ''body'' (wo_http candidate))) \<and>
   (''state.selected'' \<in> set (snd (compare_observations base candidate)) \<longleftrightarrow>
     comparable base candidate \<and> \<not> py_eq (untimed (wo_state base)) (untimed (wo_state candidate))) \<and>
   (''events.selected'' \<in> set (snd (compare_observations base candidate)) \<longleftrightarrow>
     comparable base candidate \<and> \<not> py_eq (PyList (wo_events base)) (PyList (wo_events candidate))) \<and>
   distinct (snd (compare_observations base candidate)) \<and>
   set (snd (compare_observations base candidate)) \<subseteq> {''tests.outcome'', ''http.status'', ''http.schema'',
     ''http.body'', ''http.missing'', ''state.selected'', ''events.selected''}"
proof -
  have decision: "(fst (compare_observations base candidate) = NO_DIFFERENCE \<longleftrightarrow>
       wo_outcome base = W_PASSED \<and> wo_outcome candidate = W_PASSED \<and>
       list_all2 py_eq (projection base) (projection candidate))"
    using observed_differences_Nil [of base candidate]
    by (cases "wo_outcome candidate") (simp_all add: compare_observations_def Let_def)
  show ?thesis
    unfolding decision reported_names
    by (intro conjI reported_known) (simp_all add: reported_outcome observed_names observed_distinct comparable_def)
qed

definition with_headers :: "pyval \<Rightarrow> pyval \<Rightarrow> pyval" where
  "with_headers http h = (case http of PyDict d \<Rightarrow> PyDict (dict_set ''headers'' h d) | v \<Rightarrow> v)"

definition with_time :: "pyval \<Rightarrow> pyval \<Rightarrow> pyval" where
  "with_time state t = (case state of PyDict d \<Rightarrow> PyDict (dict_set ''updated_at'' t d) | v \<Rightarrow> v)"

text \<open>An observation with other response headers, another time stamp, other timings and outputs.\<close>

definition masked :: "pyval \<times> pyval \<times> pyval \<times> pyval \<times> safe_output \<times> safe_output \<Rightarrow>
    workload_observation \<Rightarrow> workload_observation" where
  "masked m w = (case m of (h, t, e1, e2, o1, o2) \<Rightarrow>
     w\<lparr>wo_http := with_headers (wo_http w) h, wo_state := with_time (wo_state w) t,
       wo_test_elapsed_milliseconds := e1, wo_probe_elapsed_milliseconds := e2,
       wo_stdout := o1, wo_stderr := o2\<rparr>)"

lemma with_headers_None [simp]: "with_headers v h = PyNone \<longleftrightarrow> v = PyNone"
  by (simp add: with_headers_def split: pyval.splits)

lemma with_headers_item [simp]:
  "k \<noteq> ''headers'' \<Longrightarrow> item_or_none (with_headers v h) k = item_or_none v k"
  by (simp add: with_headers_def masked_header_items split: pyval.splits)

lemma http_differences_masked: "http_differences (with_headers v h) (with_headers w k) = http_differences v w"
proof -
  have None: "with_headers PyNone j = PyNone" for j by (simp add: with_headers_def)
  show ?thesis
    by (cases "v = PyNone"; cases "w = PyNone") (simp_all add: http_differences_def None)
qed

lemma selected_state_masked: "selected_state (with_time v t) = selected_state v"
  by (simp add: with_time_def selected_state_def filter_dict_set split: pyval.splits)

lemma masked_fields [simp]:
  "wo_outcome (masked m w) = wo_outcome w" "wo_events (masked m w) = wo_events w"
  by (cases m, simp add: masked_def)+

lemma observed_differences_masked:
  "observed_differences (masked m base) (masked n candidate) = observed_differences base candidate"
proof -
  obtain h t e1 e2 o1 o2 where m: "m = (h, t, e1, e2, o1, o2)" by (cases m)
  obtain k u f1 f2 q1 q2 where n: "n = (k, u, f1, f2, q1, q2)" by (cases n)
  show ?thesis
    by (simp add: observed_differences_def m n masked_def http_differences_masked selected_state_masked)
qed

text \<open>
  C9: The nondeterminism masks hold by construction: replacing the response headers, the
  \<open>updated_at\<close> time stamp, the timings and the captured outputs of either observation by anything
  changes neither the outcome nor the list of differences.
\<close>

theorem comparison_ignores_masked_fields:
  "compare_observations (masked m base) (masked n candidate) = compare_observations base candidate"
  by (simp add: compare_observations_def observed_differences_masked)

subsection \<open>Accepted plans\<close>

text \<open>
  A JSON document that \<open>parse_differential_plan_json\<close> accepts describes an isolated run on the
  controlled fixture: no network, no mounts, exactly the safe environment, the pinned fixture bundle
  and base revision, the runner image, at least one and only allowed mutations without repetition,
  both masks, and the document carries the hash of that content.
\<close>

theorem accepted_differential_plan_is_isolated:
  assumes "parse_differential_plan_json fr raw = Inr p"
  shows "dp_network p = PyStr ''none'' \<and> dp_mounts p = [] \<and> dp_environment p = SAFE_ENVIRONMENT \<and>
    dp_fixture_bundle_sha256 p = PyStr DIFFERENTIAL_FIXTURE_BUNDLE_SHA256 \<and>
    dp_base_sha p = PyStr BASE_FIXTURE_SHA \<and> (\<exists>s. dp_image p = PyStr s \<and> is_image s) \<and>
    dp_mutation_ids p \<noteq> [] \<and> distinct (dp_mutation_ids p) \<and>
    set (dp_mutation_ids p) \<subseteq> set (map PyStr ALLOWED_MUTATIONS) \<and>
    set (dp_mask_paths p) = set (map PyStr ALLOWED_MASK_PATHS) \<and>
    in_range 2 (rl_wall_time_seconds (dp_resources p)) 60 \<and>
    in_range 134217728 (rl_memory_bytes (dp_resources p)) 536870912 \<and>
    (\<exists>d. load_unique_json fr 196608 raw = Inr d \<and>
      map_of d ''plan_sha256'' = Some (PyStr (differential_plan_sha256 p)))"
proof -
  have read: "dplan_json.read_json fr raw = Inr p" using assms by (simp add: parse_differential_plan)
  then have "valid_differential_plan p" by (rule dplan_json.json_valid)
  then have ok: "differential_plan_shape p" "resource_limits_post_init (dp_resources p) = None"
    using differential_plan_post_init_shape by (auto simp: valid_differential_plan_def)
  then obtain ss where ss: "dp_mask_paths p = map PyStr ss" "sort ss = ALLOWED_MASK_PATHS"
    by (auto simp: differential_plan_shape_def)
  then have "set ss = set ALLOWED_MASK_PATHS" by (metis set_sort)
  then show ?thesis
    using ok ss(1) dplan_json.json_seal [OF read]
    by (simp add: differential_plan_shape_def resource_limits_post_init_def differential_plan_sha256_def)
qed

text \<open>
  Every valid plan whose untyped fields are strings and whose canonical text is within the
  reader's limit is read back unchanged from that text.
\<close>

theorem differential_plan_round_trip:
  assumes "valid_differential_plan p" "typed_differential_plan p"
    and "length (utf8 (differential_plan_bytes p)) \<le> 196608"
  shows "parse_differential_plan_json fr (differential_plan_bytes p) = Inr p"
  using dplan_json.json_round_trip [OF assms(1,2) typed_plan_plain [OF assms(1,2)]] assms(3)
  by (simp add: parse_differential_plan differential_plan_bytes_def differential_plan_sealed del: dumps.simps)

definition unknown_candidate :: "string \<Rightarrow> differential_plan \<Rightarrow> differential_plan" where
  "unknown_candidate variant p = p\<lparr>dp_candidate_variant := PyStr variant, dp_candidate_sha := PyNone\<rparr>"

lemma unknown_candidate_valid:
  assumes "valid_differential_plan p" "typed_differential_plan p"
    and "variant \<notin> set (map fst CANDIDATE_REVISIONS)"
  shows "valid_differential_plan (unknown_candidate variant p)"
    "typed_differential_plan (unknown_candidate variant p)"
proof -
  have "map_of CANDIDATE_REVISIONS variant = None"
    using assms(3) by (simp add: map_of_eq_None_iff)
  then have "candidate_guard (PyStr variant) PyNone = None"
    by (simp add: candidate_guard_None candidate_revision_def opt_str_def)
  moreover have "finite_value (PyDict (differential_plan_content (unknown_candidate variant p)))"
    using assms(1) by (simp add: valid_differential_plan_def differential_plan_content_def unknown_candidate_def)
  ultimately show "valid_differential_plan (unknown_candidate variant p)"
    using assms(1) bundle_hash_ok
    by (simp add: valid_differential_plan_def differential_plan_post_init_def sha256_guard_str
        unknown_candidate_def del: finite_value.simps)
  show "typed_differential_plan (unknown_candidate variant p)"
    using assms(2) by (simp add: typed_differential_plan_def unknown_candidate_def)
qed

text \<open>
  The candidate check does not confine the candidate: for a variant outside the table of
  revisions, the absent table entry equals an absent revision, so a valid plan stays valid and its
  own text is accepted when its variant becomes any unknown name and its candidate revision null.
\<close>

theorem unknown_candidate_is_accepted:
  assumes "valid_differential_plan p" "typed_differential_plan p"
    and "variant \<notin> set (map fst CANDIDATE_REVISIONS)"
    and "length (utf8 (differential_plan_bytes (unknown_candidate variant p))) \<le> 196608"
  shows "parse_differential_plan_json fr (differential_plan_bytes
      (p\<lparr>dp_candidate_variant := PyStr variant, dp_candidate_sha := PyNone\<rparr>)) =
    Inr (p\<lparr>dp_candidate_variant := PyStr variant, dp_candidate_sha := PyNone\<rparr>)"
proof -
  note ok = unknown_candidate_valid [OF assms(1-3)]
  have "parse_differential_plan_json fr (differential_plan_bytes (unknown_candidate variant p)) =
      Inr (unknown_candidate variant p)"
    using dplan_json.json_round_trip [OF ok typed_plan_plain [OF ok]] assms(4)
    by (simp add: parse_differential_plan differential_plan_bytes_def differential_plan_sealed del: dumps.simps)
  then show ?thesis by (simp add: unknown_candidate_def)
qed

text \<open>
  The revision that the table names for the variant \<open>probe_timeout\<close> is no commit SHA: it has
  41 digits, while the execution plan's own check asks for exactly 40, which the other two pass.
\<close>

theorem probe_timeout_revision_is_not_a_commit:
  "(\<exists>s. candidate_revision (PyStr ''probe_timeout'') = PyStr s \<and> \<not> is_checkout_sha s \<and> length s = 41) \<and>
   (\<exists>s. candidate_revision (PyStr ''tax_regression'') = PyStr s \<and> is_checkout_sha s) \<and>
   (\<exists>s. candidate_revision (PyStr ''identical'') = PyStr s \<and> is_checkout_sha s)"
  by (simp add: candidate_revision_def CANDIDATE_REVISIONS_def opt_str_def is_checkout_sha_def BASE_FIXTURE_SHA_def
      is_hex_def hex_digits_def)

subsection \<open>Results\<close>

definition valid_observation :: "workload_observation \<Rightarrow> bool" where
  "valid_observation w \<longleftrightarrow> workload_observation_post_init w = None \<and>
     safe_output_post_init (wo_stdout w) = None \<and> safe_output_post_init (wo_stderr w) = None"

lemma workload_observation_eta [simp]:
  "\<lparr>wo_outcome = wo_outcome w, wo_test_exit_code = wo_test_exit_code w,
    wo_test_elapsed_milliseconds = wo_test_elapsed_milliseconds w,
    wo_probe_exit_code = wo_probe_exit_code w,
    wo_probe_elapsed_milliseconds = wo_probe_elapsed_milliseconds w, wo_http = wo_http w,
    wo_state = wo_state w, wo_events = wo_events w, wo_stdout = wo_stdout w,
    wo_stderr = wo_stderr w\<rparr> = w"
  by simp

lemma observation_round_trip:
  assumes "valid_observation w"
  shows "observation_from (PyDict (workload_observation_as_dict w)) = Inr w"
proof -
  have keys: "exact_keys (workload_observation_as_dict w) observation_keys c = None" for c
    by (simp add: exact_keys_def has_exactly_iff workload_observation_as_dict_def observation_keys_def)
  have "observation_fields (workload_observation_as_dict w) = Inr w"
    using assms by (simp add: observation_fields_def workload_observation_as_dict_def output_round_trip
        valid_observation_def)
  then show ?thesis by (simp add: observation_from_def keys)
qed

lemma observation_from_valid:
  assumes "observation_from v = Inr w"
  shows "valid_observation w"
proof -
  obtain d where "observation_fields d = Inr w"
    using assms by (auto simp: observation_from_def map_sum_Inr split: pyval.splits option.splits)
  then obtain o1 o2 where "output_from o1 = Inr (wo_stderr w)" "output_from o2 = Inr (wo_stdout w)"
    "workload_observation_post_init w = None"
    by (auto simp: observation_fields_def and_then_Inr)
  then show ?thesis using output_valid by (auto simp: valid_observation_def)
qed

lemma mutation_result_eta [simp]:
  "\<lparr>mr_mutation_id = mr_mutation_id m, mr_outcome = mr_outcome m,
    mr_elapsed_milliseconds = mr_elapsed_milliseconds m, mr_exit_code = mr_exit_code m\<rparr> = m"
  by simp

lemma mutation_round_trip:
  "mutation_result_post_init m = None \<Longrightarrow> mutation_result_from (PyDict (mutation_result_as_dict m)) = Inr m"
  by (simp add: mutation_result_from_def mutation_result_as_dict_def subscript_def)

lemma mutation_from_valid: "mutation_result_from v = Inr m \<Longrightarrow> mutation_result_post_init m = None"
  by (auto simp: mutation_result_from_def and_then_Inr)

definition valid_differential_result :: "differential_result \<Rightarrow> bool" where
  "valid_differential_result r \<longleftrightarrow> differential_result_post_init r = None \<and>
     valid_observation (dr_base r) \<and> valid_observation (dr_candidate r) \<and>
     list_all (\<lambda>m. mutation_result_post_init m = None) (dr_mutations r) \<and>
     sorted_items (dr_isolation_checks r) = dr_isolation_checks r \<and>
     finite_value (PyDict (differential_result_content r))"

lemma differential_result_eta [simp]:
  "\<lparr>dr_plan_sha256 = dr_plan_sha256 r, dr_image = dr_image r, dr_attempt = dr_attempt r,
    dr_base = dr_base r, dr_candidate = dr_candidate r, dr_outcome = dr_outcome r,
    dr_differences = dr_differences r, dr_mutations = dr_mutations r,
    dr_isolation_checks = dr_isolation_checks r, dr_cleanup_succeeded = dr_cleanup_succeeded r,
    dr_limitations = dr_limitations r, dr_schema_version = dr_schema_version r,
    dr_runner_version = dr_runner_version r, dr_workload_version = dr_workload_version r,
    dr_mask_policy_version = dr_mask_policy_version r,
    dr_mutation_set_version = dr_mutation_set_version r\<rparr> = r"
  by simp

lemma differential_result_fields_content:
  assumes "valid_differential_result r"
  shows "differential_result_fields (differential_result_content r @ e) = Inr r"
proof -
  have post: "differential_result_post_init r = None"
    and sorted: "sorted_items (dr_isolation_checks r) = dr_isolation_checks r"
    and obs: "observation_from (PyDict (workload_observation_as_dict (dr_base r))) = Inr (dr_base r)"
      "observation_from (PyDict (workload_observation_as_dict (dr_candidate r))) = Inr (dr_candidate r)"
    using assms observation_round_trip by (simp_all add: valid_differential_result_def)
  have muts: "map_raise mutation_result_from (map (\<lambda>m. PyDict (mutation_result_as_dict m)) (dr_mutations r)) =
      Inr (dr_mutations r)"
    using assms mutation_round_trip map_raise_all_Inr [of "dr_mutations r" mutation_result_from _ "\<lambda>m. m"]
    by (simp add: valid_differential_result_def list_all_iff)
  have "wf_dict (dr_isolation_checks r)"
    using post by (simp add: differential_result_post_init_def length_dict_of)
  then show ?thesis
    by (simp add: differential_result_fields_def differential_result_content_def items_of_def obs muts post sorted)
qed

lemma differential_result_fields_valid:
  assumes "differential_result_fields d = Inr r"
  shows "differential_result_post_init r = None" "valid_observation (dr_base r)"
    "valid_observation (dr_candidate r)"
    "list_all (\<lambda>m. mutation_result_post_init m = None) (dr_mutations r)"
    "sorted_items (dr_isolation_checks r) = dr_isolation_checks r"
proof -
  obtain o1 o2 items where "observation_from o1 = Inr (dr_base r)" "observation_from o2 = Inr (dr_candidate r)"
    and muts: "map_raise mutation_result_from items = Inr (dr_mutations r)"
    and "differential_result_post_init r = None" "sorted_items (dr_isolation_checks r) = dr_isolation_checks r"
    using assms by (auto simp: differential_result_fields_def and_then_Inr)
  then show "differential_result_post_init r = None" "valid_observation (dr_base r)"
    "valid_observation (dr_candidate r)" "sorted_items (dr_isolation_checks r) = dr_isolation_checks r"
    using observation_from_valid by blast+
  have "list_all2 (\<lambda>x y. mutation_result_from x = Inr y) items (dr_mutations r)"
    using muts by (rule map_raise_Inr_nth)
  then show "list_all (\<lambda>m. mutation_result_post_init m = None) (dr_mutations r)"
    by (induction rule: list_all2_induct) (auto dest: mutation_from_valid)
qed

lemma differential_result_decode_Inr:
  "differential_result_decode d = Inr r \<longleftrightarrow>
   differential_result_fields d = Inr r \<and> finite_value (PyDict (differential_result_content r)) \<and>
   count_matches d ''mutation_killed'' (mutation_killed r) \<and> count_matches d ''mutation_total'' (mutation_total r)"
  by (auto simp: differential_result_decode_def and_then_Inr map_sum_Inr canonical_sha256_Inr
      simp del: finite_value.simps)

lemma keys_differential_result: "set (keys (differential_result_content r)) = set differential_result_keys"
  by (auto simp: differential_result_content_def differential_result_keys_def)

text \<open>A result in normal form: its nested dictionaries are sorted.\<close>

definition sorted_differential_result :: "differential_result \<Rightarrow> bool" where
  "sorted_differential_result r \<longleftrightarrow> list_all (\<lambda>p. ordered (snd p) = snd p) (differential_result_content r)"

interpretation dresult: json_contract differential_result_content "''result_sha256''"
  valid_differential_result differential_result_decode differential_result_from_items
  sorted_differential_result 393216
proof
  fix d r
  have fresh: "''result_sha256'' \<notin> set differential_result_keys"
    by (simp add: differential_result_keys_def)
  show "differential_result_from_items d = Inr r \<longleftrightarrow>
      has_exactly d (''result_sha256'' # keys (differential_result_content r)) \<and>
      differential_result_decode d = Inr r \<and>
      map_of d ''result_sha256'' = Some (PyStr (object_sha256 (PyDict (differential_result_content r))))"
  proof (cases "map_of d ''result_sha256''")
    case None
    then show ?thesis
      by (auto simp: differential_result_from_items_def and_then_Inr split: if_splits option.splits)
  next
    case (Some h)
    then have "has_exactly (dict_pop ''result_sha256'' d) differential_result_keys \<longleftrightarrow>
        has_exactly d (''result_sha256'' # keys (differential_result_content r))"
      using has_exactly_dict_pop [OF fresh, of d] keys_differential_result [of r] by (simp add: has_exactly_iff)
    then show ?thesis
      by (auto simp: differential_result_from_items_def exact_keys_def differential_result_sha256_def and_then_Inr
          split: if_splits option.splits)
  qed
next
  fix r
  show "''result_sha256'' \<notin> set (keys (differential_result_content r))"
    by (simp add: differential_result_content_def)
next
  fix d r
  show "differential_result_decode d = Inr r \<Longrightarrow> valid_differential_result r"
    using differential_result_fields_valid unfolding valid_differential_result_def differential_result_decode_Inr
    by blast
next
  fix r h
  assume valid: "valid_differential_result r"
  have "count_matches (differential_result_content r @ e) ''mutation_killed'' (mutation_killed r)"
    "count_matches (differential_result_content r @ e) ''mutation_total'' (mutation_total r)" for e
    by (simp_all add: count_matches_def differential_result_content_def eq_count_def)
  then show "differential_result_decode (differential_result_content r @ [(''result_sha256'', h)]) = Inr r"
    unfolding differential_result_decode_Inr
    using differential_result_fields_content [OF valid] valid valid_differential_result_def by blast
next
  fix d e :: pydict
  assume same: "map_of d = map_of e"
  then have "get_item d = get_item e" by (rule get_item_cong)
  with same show "differential_result_decode d = differential_result_decode e"
    by (simp add: differential_result_decode_def differential_result_fields_def count_matches_def)
next
  fix r k v
  show "sorted_differential_result r \<Longrightarrow> (k, v) \<in> set (differential_result_content r) \<Longrightarrow> ordered v = v"
    by (force simp: sorted_differential_result_def list_all_iff)
qed

lemma parse_differential_result: "parse_differential_result_json = dresult.read_json"
  by (simp add: fun_eq_iff parse_differential_result_json_def dresult.read_json_def)

lemma differential_result_sealed: "differential_result_as_dict r = dresult.sealed r"
  by (simp add: differential_result_as_dict_def dresult.sealed_def differential_result_sha256_def)

lemma mutation_counts:
  "mutation_killed r \<le> mutation_total r" "mutation_total r \<le> length (dr_mutations r)"
proof -
  have "length (filter (\<lambda>m. mr_outcome m = KILLED) ms) \<le> length (filter (\<lambda>m. mr_outcome m \<noteq> INCONCLUSIVE) ms)" for ms
    by (induction ms) auto
  then show "mutation_killed r \<le> mutation_total r" "mutation_total r \<le> length (dr_mutations r)"
    by (simp_all add: mutation_killed_def mutation_total_def)
qed

lemma distinct_mutations_bound:
  assumes "list_all (\<lambda>m. mutation_result_post_init m = None) ms" "distinct (map mr_mutation_id ms)"
  shows "length ms \<le> 2"
proof -
  have "set (map mr_mutation_id ms) \<subseteq> set (map PyStr ALLOWED_MUTATIONS)"
    using assms(1) by (auto simp: list_all_iff mutation_result_post_init_def)
  then have "card (set (map mr_mutation_id ms)) \<le> card (set (map PyStr ALLOWED_MUTATIONS))"
    by (intro card_mono) auto
  also have "\<dots> \<le> 2" using card_length [of "map PyStr ALLOWED_MUTATIONS"] by (simp add: ALLOWED_MUTATIONS_def)
  finally show ?thesis using distinct_card [OF assms(2)] by simp
qed

text \<open>
  C11: A JSON document that \<open>parse_differential_result_json\<close> accepts reports what its own observations
  show: outcome and differences are those of \<open>compare_observations\<close>, a reported "no difference" has
  two passed workloads, the mutations are distinct and at most two, the killed mutations are among
  the conclusive ones, between one and twenty isolation checks are present with boolean values, and
  the document carries the hash of that content.
\<close>

theorem accepted_differential_result_is_derived:
  assumes "parse_differential_result_json fr raw = Inr r"
  shows "compare_observations (dr_base r) (dr_candidate r) =
      (dr_outcome r, map (\<lambda>v. the (as_str v)) (dr_differences r)) \<and>
    (dr_outcome r = NO_DIFFERENCE \<longrightarrow>
      wo_test_exit_code (dr_base r) = PyInt 0 \<and> wo_test_exit_code (dr_candidate r) = PyInt 0) \<and>
    dr_mutations r \<noteq> [] \<and> length (dr_mutations r) \<le> 2 \<and>
    mutation_killed r \<le> mutation_total r \<and> mutation_total r \<le> length (dr_mutations r) \<and>
    dr_isolation_checks r \<noteq> [] \<and> length (dr_isolation_checks r) \<le> 20 \<and>
    list_all (\<lambda>p. is_bool (snd p)) (dr_isolation_checks r) \<and>
    (\<exists>d. load_unique_json fr 393216 raw = Inr d \<and>
      map_of d ''result_sha256'' = Some (PyStr (differential_result_sha256 r)))"
proof -
  obtain d where load: "load_unique_json fr 393216 raw = Inr d" and parse: "differential_result_from_items d = Inr r"
    using assms by (auto simp: parse_differential_result_json_def and_then_Inr)
  from parse have "valid_differential_result r" by (rule dresult.parse_valid)
  then have post: "differential_result_post_init r = None"
    and obs: "valid_observation (dr_base r)" "valid_observation (dr_candidate r)"
    and muts: "list_all (\<lambda>m. mutation_result_post_init m = None) (dr_mutations r)"
    by (simp_all add: valid_differential_result_def)
  have wf: "wf_dict (dr_isolation_checks r)"
    using post by (simp add: differential_result_post_init_def length_dict_of)
  have distinct: "distinct (map mr_mutation_id (dr_mutations r))"
    using post by (simp add: differential_result_post_init_def)
  have compare: "compare_observations (dr_base r) (dr_candidate r) =
      (dr_outcome r, map (\<lambda>v. the (as_str v)) (dr_differences r))"
    using post by (simp add: differential_result_post_init_def comp_def prod_eq_iff)
  have codes: "wo_test_exit_code w = PyInt 0" if "valid_observation w" "wo_outcome w = W_PASSED" for w
    using that by (simp add: valid_observation_def workload_observation_post_init_def)
  have "wo_outcome (dr_base r) = W_PASSED \<and> wo_outcome (dr_candidate r) = W_PASSED"
    if "dr_outcome r = NO_DIFFERENCE"
    using that compare observed_differences_Nil [of "dr_base r" "dr_candidate r"]
    by (auto simp: compare_observations_def Let_def split: if_splits)
  then show ?thesis
    using compare codes obs mutation_counts distinct_mutations_bound [OF muts distinct] post wf load
      dresult.parse_seal [OF parse]
    by (auto simp: differential_result_post_init_def differential_result_sha256_def list_all_iff list_ex_iff Suc_le_eq)
qed

text \<open>
  Every valid differential result in normal form without floats is read back unchanged from its
  canonical text, when that is within the reader's limit, and a document with its content and any
  other hash is rejected.
\<close>

theorem differential_result_round_trip:
  assumes "valid_differential_result r" "sorted_differential_result r"
    and "plain (PyDict (differential_result_content r))"
    and "length (utf8 (dumps (PyDict (differential_result_as_dict r)))) \<le> 393216"
  shows "parse_differential_result_json fr (dumps (PyDict (differential_result_as_dict r))) = Inr r \<and>
    (h \<noteq> differential_result_sha256 r \<longrightarrow>
      differential_result_from_items (differential_result_content r @ [(''result_sha256'', PyStr h)]) \<noteq> Inr q)"
proof -
  have "differential_result_decode (differential_result_content r @ [(''result_sha256'', PyStr h)]) = Inr r"
    by (rule dresult.decode_content [OF assms(1)])
  moreover have "map_of (differential_result_content r @ [(''result_sha256'', PyStr h)]) ''result_sha256'' =
      Some (PyStr h)"
    using dresult.seal_fresh [of r] by (subst map_of_append_notin) simp_all
  ultimately have "h \<noteq> differential_result_sha256 r \<Longrightarrow>
      differential_result_from_items (differential_result_content r @ [(''result_sha256'', PyStr h)]) \<noteq> Inr q"
    using dresult.wrong_seal_rejected [of "differential_result_content r @ [(''result_sha256'', PyStr h)]" r]
    by (simp add: differential_result_sha256_def)
  then show ?thesis
    using dresult.json_round_trip [OF assms(1-3)] assms(4)
    by (auto simp: differential_result_sealed parse_differential_result simp del: dumps.simps)
qed

subsection \<open>Concrete plans and results\<close>

definition sample_differential_plan :: differential_plan where
  "sample_differential_plan = \<lparr>dp_organization_id = PyStr sample_uuid, dp_repository_id = PyStr sample_uuid,
     dp_snapshot_id = PyStr sample_uuid, dp_execution_plan_id = PyStr sample_uuid,
     dp_execution_approval_id = PyStr sample_uuid, dp_execution_plan_sha256 = PyStr (zeros 64),
     dp_proposal_hash = PyStr (zeros 64), dp_proposal_input_sha256 = PyStr (zeros 64),
     dp_base_sha = PyStr BASE_FIXTURE_SHA, dp_candidate_sha = PyStr BASE_FIXTURE_SHA,
     dp_candidate_variant = PyStr ''identical'', dp_image = PyStr (image_prefix @ zeros 64),
     dp_resources = default_resources, dp_host_profile = DEDICATED_ROOTLESS_FIXTURE,
     dp_mutation_ids = map PyStr ALLOWED_MUTATIONS, dp_mask_paths = map PyStr ALLOWED_MASK_PATHS,
     dp_schema_version = PyStr DIFFERENTIAL_PLAN_SCHEMA_VERSION,
     dp_runner_version = PyStr DIFFERENTIAL_RUNNER_VERSION,
     dp_workload_version = PyStr DIFFERENTIAL_WORKLOAD_VERSION,
     dp_mask_policy_version = PyStr NONDETERMINISM_MASK_VERSION,
     dp_mutation_set_version = PyStr MUTATION_SET_VERSION,
     dp_fixture_bundle_sha256 = PyStr DIFFERENTIAL_FIXTURE_BUNDLE_SHA256, dp_network = PyStr ''none'',
     dp_mounts = [], dp_environment = SAFE_ENVIRONMENT\<rparr>"

lemma default_resources_ok: "resource_limits_post_init default_resources = None"
  by (simp add: resource_limits_post_init_def default_resources_def in_range_def)

lemma sample_differential_plan_valid: "valid_differential_plan sample_differential_plan"
proof -
  have masks: "mask_guard (map PyStr ALLOWED_MASK_PATHS) = None"
    unfolding mask_guard_None by (rule exI [of _ ALLOWED_MASK_PATHS]) (simp add: ALLOWED_MASK_PATHS_def)
  have mutations: "mutation_set_guard (map PyStr ALLOWED_MUTATIONS) = None"
    by (simp add: mutation_set_guard_None ALLOWED_MUTATIONS_def)
  have candidate: "candidate_guard (PyStr ''identical'') (PyStr BASE_FIXTURE_SHA) = None"
    by (simp add: candidate_guard_None candidate_revision_def CANDIDATE_REVISIONS_def opt_str_def)
  have "finite_value (PyDict (differential_plan_content sample_differential_plan))"
    by (simp add: sample_differential_plan_def differential_plan_content_def SAFE_ENVIRONMENT_def dict_of_def
        resource_limits_as_dict_def list_all_iff)
  moreover have "differential_plan_post_init sample_differential_plan = None"
    by (simp add: sample_differential_plan_def differential_plan_post_init_def
        uuid_guard_None sample_uuid_ok sha256_guard_str zeros_hex bundle_hash_ok no_match_def sample_image
        masks mutations candidate)
  ultimately show ?thesis
    by (simp add: valid_differential_plan_def default_resources_ok sample_differential_plan_def)
qed

lemma sample_differential_plan_typed: "typed_differential_plan sample_differential_plan"
  by (simp add: typed_differential_plan_def sample_differential_plan_def)

lemma differential_plan_size:
  assumes "valid_differential_plan p" "typed_differential_plan p"
    "dumps_bound (PyDict (differential_plan_as_dict p)) \<le> 196608"
  shows "length (utf8 (differential_plan_bytes p)) \<le> 196608"
proof -
  have "isascii (differential_plan_bytes p)"
    using dplan_json.sealed_plain [OF typed_plan_plain [OF assms(1,2)]]
    unfolding differential_plan_bytes_def differential_plan_sealed by (rule dumps_ascii)
  then show ?thesis
    using assms(3) length_dumps_bound [of "PyDict (differential_plan_as_dict p)"]
    unfolding differential_plan_bytes_def by (simp del: dumps.simps dumps_bound.simps)
qed

lemmas sample_plan_text = differential_plan_as_dict_def differential_plan_content_def
  sample_differential_plan_def resource_limits_as_dict_def default_resources_def SAFE_ENVIRONMENT_def
  differential_plan_sha256_def zeros_hex sample_uuid_def BASE_FIXTURE_SHA_def image_prefix_def
  DIFFERENTIAL_FIXTURE_BUNDLE_SHA256_def DIFFERENTIAL_PLAN_SCHEMA_VERSION_def
  DIFFERENTIAL_RUNNER_VERSION_def DIFFERENTIAL_WORKLOAD_VERSION_def NONDETERMINISM_MASK_VERSION_def
  MUTATION_SET_VERSION_def ALLOWED_MUTATIONS_def ALLOWED_MASK_PATHS_def dump_int_def
  decimal_digits.simps dict_of_def

lemma sample_differential_plan_size: "length (utf8 (differential_plan_bytes sample_differential_plan)) \<le> 196608"
  by (rule differential_plan_size [OF sample_differential_plan_valid sample_differential_plan_typed])
    (simp add: sample_plan_text)

theorem differential_plan_round_trip_witness:
  "parse_differential_plan_json id (differential_plan_bytes sample_differential_plan) = Inr sample_differential_plan"
  by (rule differential_plan_round_trip
      [OF sample_differential_plan_valid sample_differential_plan_typed sample_differential_plan_size])

lemma sample_differential_plan_read:
  "parse_differential_plan_json id (differential_plan_bytes sample_differential_plan) = Inr sample_differential_plan"
  using dplan_json.json_round_trip [OF sample_differential_plan_valid sample_differential_plan_typed
      typed_plan_plain [OF sample_differential_plan_valid sample_differential_plan_typed]]
    sample_differential_plan_size
  by (simp add: parse_differential_plan differential_plan_bytes_def differential_plan_sealed del: dumps.simps)

theorem accepted_differential_plan_is_isolated_witness:
  "\<exists>p. parse_differential_plan_json id (differential_plan_bytes sample_differential_plan) = Inr p \<and>
     dp_network p = PyStr ''none'' \<and> dp_mounts p = [] \<and> dp_base_sha p = PyStr BASE_FIXTURE_SHA"
  using accepted_differential_plan_is_isolated [OF sample_differential_plan_read] sample_differential_plan_read
  by blast

theorem unknown_candidate_is_accepted_witness:
  "parse_differential_plan_json id (differential_plan_bytes
      (sample_differential_plan\<lparr>dp_candidate_variant := PyStr ''other'', dp_candidate_sha := PyNone\<rparr>)) =
    Inr (sample_differential_plan\<lparr>dp_candidate_variant := PyStr ''other'', dp_candidate_sha := PyNone\<rparr>)"
proof (rule unknown_candidate_is_accepted [OF sample_differential_plan_valid sample_differential_plan_typed])
  show unknown: "''other'' \<notin> set (map fst CANDIDATE_REVISIONS)"
    by (simp add: CANDIDATE_REVISIONS_def)
  show "length (utf8 (differential_plan_bytes (unknown_candidate ''other'' sample_differential_plan))) \<le> 196608"
    by (rule differential_plan_size [OF unknown_candidate_valid
          [OF sample_differential_plan_valid sample_differential_plan_typed unknown]])
      (simp add: unknown_candidate_def sample_plan_text)
qed

definition sample_http :: pyval where
  "sample_http = PyDict [
     (''body'', PyDict [(''currency'', PyStr ''EUR''), (''total'', PyStr ''12.00'')]),
     (''headers'', PyDict [(''x-request-id'', PyStr ''r-1'')]),
     (''schema'', http_schema), (''status'', PyInt 200)]"

definition sample_observation :: workload_observation where
  "sample_observation = \<lparr>wo_outcome = W_PASSED, wo_test_exit_code = PyInt 0,
     wo_test_elapsed_milliseconds = PyInt 5, wo_probe_exit_code = PyInt 0,
     wo_probe_elapsed_milliseconds = PyInt 7, wo_http = sample_http,
     wo_state = PyDict [(''quote_count'', PyInt 1), (''updated_at'', PyStr ''t'')],
     wo_events = [PyDict [(''name'', PyStr ''quoted''), (''sequence'', PyInt 0)]],
     wo_stdout = empty_output, wo_stderr = empty_output\<rparr>"

definition sample_differential_result :: differential_result where
  "sample_differential_result = \<lparr>dr_plan_sha256 = PyStr (zeros 64),
     dr_image = PyStr (image_prefix @ zeros 64), dr_attempt = PyInt 1, dr_base = sample_observation,
     dr_candidate = sample_observation, dr_outcome = NO_DIFFERENCE, dr_differences = [],
     dr_mutations = [\<lparr>mr_mutation_id = PyStr ''tax_rate_forced'', mr_outcome = KILLED,
       mr_elapsed_milliseconds = PyInt 3, mr_exit_code = PyInt 1\<rparr>],
     dr_isolation_checks = [(''network_none'', PyBool True)], dr_cleanup_succeeded = PyBool True,
     dr_limitations = map PyStr LIMITATIONS,
     dr_schema_version = PyStr DIFFERENTIAL_RESULT_SCHEMA_VERSION,
     dr_runner_version = PyStr DIFFERENTIAL_RUNNER_VERSION,
     dr_workload_version = PyStr DIFFERENTIAL_WORKLOAD_VERSION,
     dr_mask_policy_version = PyStr NONDETERMINISM_MASK_VERSION,
     dr_mutation_set_version = PyStr MUTATION_SET_VERSION\<rparr>"

lemma sample_http_ok: "http_guard sample_http = None"
  by (simp add: http_guard_def sample_http_def dict_with_keys_def http_keys_def bad_body_def bad_headers_def
      item_or_none_def short_str_def has_exactly_iff http_schema_def bad_int_def in_range_def)

lemma sample_observation_valid: "valid_observation sample_observation"
  by (simp add: valid_observation_def sample_observation_def workload_observation_post_init_def sample_http_ok
      empty_output_ok bad_int_def in_range_def bad_exit_code_def state_guard_def dict_with_keys_def state_keys_def
      item_or_none_def short_str_def bad_event_def has_exactly_iff)
    (simp add: sample_http_def)

lemma sample_no_difference: "compare_observations sample_observation sample_observation = (NO_DIFFERENCE, [])"
proof -
  have "observed_differences sample_observation sample_observation = []"
    by (simp add: observed_differences_def http_differences_def sample_observation_def)
  then show ?thesis by (simp add: compare_observations_def sample_observation_def)
qed

lemmas sample_result_text = differential_result_content_def sample_differential_result_def
  workload_observation_as_dict_def mutation_result_as_dict_def sample_observation_def sample_http_def
  http_schema_def empty_output_def safe_output_as_dict_def LIMITATIONS_def dict_of_def

lemma sample_differential_result_valid: "valid_differential_result sample_differential_result"
  by (simp add: valid_differential_result_def sample_differential_result_def differential_result_post_init_def
      sha256_guard_str zeros_hex no_match_def sample_image bad_int_def in_range_def sample_no_difference
      dict_of_def sample_observation_valid mutation_result_post_init_def ALLOWED_MUTATIONS_def
      bad_exit_code_def sorted_items_def)
    (simp add: sample_result_text)

lemma sample_differential_result_sorted: "sorted_differential_result sample_differential_result"
  by (simp add: sorted_differential_result_def sample_result_text sorted_items_def)

lemma sample_differential_result_plain: "plain (PyDict (differential_result_content sample_differential_result))"
  by (simp add: sample_result_text wf_dict_def decimal_digits.simps mutation_killed_def mutation_total_def)

lemma dumps_bound_items:
  "dumps_bound (PyDict []) = 2"
  "dumps_bound (PyDict ((k, v) # d)) = 6 * length k + 4 + dumps_bound v + dumps_bound (PyDict d)"
  by simp_all

lemma sample_observation_bound: "dumps_bound (PyDict (workload_observation_as_dict sample_observation)) = 2854"
  by (simp del: dumps_bound.simps(7) add: dumps_bound_items workload_observation_as_dict_def sample_observation_def
      sample_http_def http_schema_def empty_output_def safe_output_as_dict_def zeros_hex dump_int_def
      decimal_digits.simps)

lemma sample_mutation_counts:
  "mutation_killed sample_differential_result = 1" "mutation_total sample_differential_result = 1"
  by (simp_all add: mutation_killed_def mutation_total_def sample_differential_result_def)

lemma sample_result_bounds:
  "dumps_bound (PyList (dr_limitations sample_differential_result)) = 725"
  "dumps_bound (PyList (map (\<lambda>m. PyDict (mutation_result_as_dict m)) (dr_mutations sample_differential_result))) = 435"
  "dumps_bound (PyDict (dict_of (dr_isolation_checks sample_differential_result))) = 83"
  "dumps_bound (PyStr (object_sha256 v)) = 386"
  "dumps_bound (dr_image sample_differential_result) \<le> 700"
  "dumps_bound (dr_plan_sha256 sample_differential_result) \<le> 700"
  "dumps_bound (dr_mask_policy_version sample_differential_result) \<le> 700"
  "dumps_bound (dr_mutation_set_version sample_differential_result) \<le> 700"
  "dumps_bound (dr_runner_version sample_differential_result) \<le> 700"
  "dumps_bound (dr_schema_version sample_differential_result) \<le> 700"
  "dumps_bound (dr_workload_version sample_differential_result) \<le> 700"
  "dumps_bound (dr_attempt sample_differential_result) = 1"
  "dumps_bound (dr_cleanup_succeeded sample_differential_result) = 5"
  "dumps_bound (PyList (dr_differences sample_differential_result)) = 2"
  "dumps_bound (PyStr (differential_outcome_value (dr_outcome sample_differential_result))) \<le> 700"
  "dr_base sample_differential_result = sample_observation"
  "dr_candidate sample_differential_result = sample_observation"
  "dumps_bound (PyInt (int 1)) = 1"
  by (simp_all add: sample_differential_result_def LIMITATIONS_def mutation_result_as_dict_def dump_int_def
      decimal_digits.simps dict_of_def zeros_hex image_prefix_def DIFFERENTIAL_RESULT_SCHEMA_VERSION_def
      DIFFERENTIAL_RUNNER_VERSION_def DIFFERENTIAL_WORKLOAD_VERSION_def NONDETERMINISM_MASK_VERSION_def
      MUTATION_SET_VERSION_def)

lemma sample_differential_result_bound:
  "dumps_bound (PyDict (differential_result_as_dict sample_differential_result)) \<le> 393216"
  unfolding differential_result_as_dict_def differential_result_content_def append_Cons append_Nil
    dumps_bound_items differential_result_sha256_def sample_mutation_counts sample_result_bounds
    sample_observation_bound
  using sample_result_bounds(5-11,15)
  by (simp del: dumps_bound.simps)

lemma sample_differential_result_size:
  "length (utf8 (dumps (PyDict (differential_result_as_dict sample_differential_result)))) \<le> 393216"
proof -
  have "isascii (dumps (PyDict (differential_result_as_dict sample_differential_result)))"
    using dresult.sealed_plain [OF sample_differential_result_plain]
    unfolding differential_result_sealed by (rule dumps_ascii)
  moreover have "dumps_bound (PyDict (differential_result_as_dict sample_differential_result)) \<le> 393216"
    by (rule sample_differential_result_bound)
  ultimately show ?thesis
    using length_dumps_bound [of "PyDict (differential_result_as_dict sample_differential_result)"]
    by (simp del: dumps.simps dumps_bound.simps)
qed

lemma sample_differential_result_read:
  "parse_differential_result_json id (dumps (PyDict (differential_result_as_dict sample_differential_result))) =
     Inr sample_differential_result"
  using dresult.json_round_trip [OF sample_differential_result_valid sample_differential_result_sorted
      sample_differential_result_plain] sample_differential_result_size
  by (simp add: differential_result_sealed parse_differential_result del: dumps.simps)

theorem differential_result_round_trip_witness:
  "parse_differential_result_json id (dumps (PyDict (differential_result_as_dict sample_differential_result))) =
     Inr sample_differential_result"
  using differential_result_round_trip [OF sample_differential_result_valid sample_differential_result_sorted
      sample_differential_result_plain sample_differential_result_size] by blast

theorem accepted_differential_result_is_derived_witness:
  "\<exists>r. parse_differential_result_json id (dumps (PyDict (differential_result_as_dict sample_differential_result))) = Inr r \<and>
     mutation_killed r \<le> mutation_total r \<and> length (dr_mutations r) \<le> 2"
  using accepted_differential_result_is_derived [OF sample_differential_result_read] sample_differential_result_read
  by blast

end
