(* ===== verification/ChangeContracts.thy ===== *)
theory ChangeContracts
  imports PyValue
begin

section \<open>packages/change_intel/contracts.py: the records of change intelligence\<close>

text \<open>
  The frozen dataclasses of the package with their \<open>as_dict\<close>, the canonical hash, and the part of
  \<open>pathlib.PurePosixPath\<close> (Python 3.13) and \<open>str.casefold\<close> that the package uses. A float is a
  rational number; the text of its \<open>repr\<close> is the parameter \<open>float_repr\<close> of the functions that
  hash one, and \<open>isoformat\<close> is the text of a datetime. A datetime is an instant in microseconds:
  aware (the instant in UTC and its offset) or naive.
\<close>

definition DIFF_SCHEMA_VERSION :: string where
  "DIFF_SCHEMA_VERSION = ''change-diff-v1''"

definition FEATURE_SCHEMA_VERSION :: string where
  "FEATURE_SCHEMA_VERSION = ''change-features-v1''"

definition GRAPH_SCHEMA_VERSION :: string where
  "GRAPH_SCHEMA_VERSION = ''python-import-graph-v1''"

definition HISTORY_SCHEMA_VERSION :: string where
  "HISTORY_SCHEMA_VERSION = ''repository-history-v1''"

definition EVIDENCE_SCHEMA_VERSION :: string where
  "EVIDENCE_SCHEMA_VERSION = ''deterministic-risk-factor-v1''"

definition EXTRACTOR_VERSION :: string where
  "EXTRACTOR_VERSION = ''releaseproof-change-intel-v1''"

definition canonical_hash :: "pyval \<Rightarrow> string" where
  "canonical_hash v = sha256_hex (utf8 (dumps v))"

subsection \<open>Files and diffs\<close>

record raw_changed_file =
  rf_path :: string
  rf_additions :: int
  rf_deletions :: int
  rf_status :: string
  rf_previous_path :: "string option"
  rf_patch :: "string option"

record normalized_file =
  nf_path :: string
  nf_previous_path :: "string option"
  nf_additions :: int
  nf_deletions :: int
  nf_status :: string
  nf_language :: string
  nf_file_type :: string
  nf_patch :: "string option"
  nf_patch_truncated :: bool
  nf_is_binary :: bool
  nf_is_generated :: bool
  nf_is_vendored :: bool
  nf_sensitive_tags :: "string list"

definition normalized_file_as_dict :: "normalized_file \<Rightarrow> pydict" where
  "normalized_file_as_dict f = [
     (''additions'', PyInt (nf_additions f)),
     (''deletions'', PyInt (nf_deletions f)),
     (''file_type'', PyStr (nf_file_type f)),
     (''is_binary'', PyBool (nf_is_binary f)),
     (''is_generated'', PyBool (nf_is_generated f)),
     (''is_vendored'', PyBool (nf_is_vendored f)),
     (''language'', PyStr (nf_language f)),
     (''patch'', opt_str (nf_patch f)),
     (''patch_truncated'', PyBool (nf_patch_truncated f)),
     (''path'', PyStr (nf_path f)),
     (''previous_path'', opt_str (nf_previous_path f)),
     (''sensitive_tags'', strs (nf_sensitive_tags f)),
     (''status'', PyStr (nf_status f))]"

record normalized_diff =
  nd_schema_version :: string
  nd_files :: "normalized_file list"
  nd_total_patch_bytes :: int
  nd_patch_set_truncated :: bool
  nd_diff_hash :: string

definition normalized_diff_as_dict :: "normalized_diff \<Rightarrow> pydict" where
  "normalized_diff_as_dict d = [
     (''diff_hash'', PyStr (nd_diff_hash d)),
     (''files'', PyList (map (\<lambda>f. PyDict (normalized_file_as_dict f)) (nd_files d))),
     (''patch_set_truncated'', PyBool (nd_patch_set_truncated d)),
     (''schema_version'', PyStr (nd_schema_version d)),
     (''total_patch_bytes'', PyInt (nd_total_patch_bytes d))]"

record source_file =
  sf_path :: string
  sf_content :: string

record source_tree =
  st_repository_key :: string
  st_revision :: string
  st_files :: "source_file list"

subsection \<open>The import graph and the blast radius\<close>

record graph_finding =
  gf_code :: string
  gf_path :: string
  gf_detail :: string

definition graph_finding_as_dict :: "graph_finding \<Rightarrow> pydict" where
  "graph_finding_as_dict f =
     [(''code'', PyStr (gf_code f)), (''detail'', PyStr (gf_detail f)), (''path'', PyStr (gf_path f))]"

definition string_pair :: "string \<times> string \<Rightarrow> pyval" where
  "string_pair p = strs [fst p, snd p]"

record import_graph =
  ig_schema_version :: string
  ig_available :: bool
  ig_modules :: "(string \<times> string) list"
  ig_edges :: "(string \<times> string) list"
  ig_findings :: "graph_finding list"
  ig_graph_hash :: string

definition import_graph_as_dict :: "import_graph \<Rightarrow> pydict" where
  "import_graph_as_dict g = [
     (''available'', PyBool (ig_available g)),
     (''edges'', PyList (map string_pair (ig_edges g))),
     (''findings'', PyList (map (\<lambda>f. PyDict (graph_finding_as_dict f)) (ig_findings g))),
     (''graph_hash'', PyStr (ig_graph_hash g)),
     (''modules'', PyList (map string_pair (ig_modules g))),
     (''schema_version'', PyStr (ig_schema_version g))]"

record blast_path =
  bp_changed_module :: string
  bp_affected_module :: string
  bp_distance :: nat
  bp_modules :: "string list"

definition blast_path_as_dict :: "blast_path \<Rightarrow> pydict" where
  "blast_path_as_dict p = [
     (''affected_module'', PyStr (bp_affected_module p)),
     (''changed_module'', PyStr (bp_changed_module p)),
     (''distance'', PyInt (int (bp_distance p))),
     (''modules'', strs (bp_modules p))]"

record blast_radius =
  br_graph_schema_version :: string
  br_available :: bool
  br_changed_modules :: "string list"
  br_direct_modules :: "string list"
  br_transitive_modules :: "string list"
  br_impacted_tests :: "string list"
  br_max_depth :: "nat option"
  br_evidence_paths :: "blast_path list"
  br_missing_changed_paths :: "string list"
  br_sensitive_tags :: "string list"
  br_truncated :: bool

definition opt_nat :: "nat option \<Rightarrow> pyval" where
  "opt_nat x = opt_int (map_option int x)"

definition blast_radius_as_dict :: "blast_radius \<Rightarrow> pydict" where
  "blast_radius_as_dict b = [
     (''available'', PyBool (br_available b)),
     (''changed_modules'', strs (br_changed_modules b)),
     (''direct_modules'', strs (br_direct_modules b)),
     (''evidence_paths'', PyList (map (\<lambda>p. PyDict (blast_path_as_dict p)) (br_evidence_paths b))),
     (''graph_schema_version'', PyStr (br_graph_schema_version b)),
     (''impacted_tests'', strs (br_impacted_tests b)),
     (''max_depth'', opt_nat (br_max_depth b)),
     (''missing_changed_paths'', strs (br_missing_changed_paths b)),
     (''sensitive_tags'', strs (br_sensitive_tags b)),
     (''transitive_modules'', strs (br_transitive_modules b)),
     (''truncated'', PyBool (br_truncated b))]"

definition str_dict :: "(string \<times> string) list \<Rightarrow> pyval" where
  "str_dict d = PyDict (sorted_items (map (\<lambda>(k, v). (k, PyStr v)) d))"

subsection \<open>History\<close>

datatype datetime = Aware int int | Naive int

fun instant :: "datetime \<Rightarrow> int" where
  "instant (Aware t _) = t"
| "instant (Naive t) = t"

fun is_aware :: "datetime \<Rightarrow> bool" where
  "is_aware (Aware _ _) = True"
| "is_aware (Naive _) = False"

text \<open>
  \<open>a < b\<close> is a TypeError between an aware and a naive datetime; \<open>==\<close> between them is false. Adding a
  duration keeps the kind.
\<close>

definition earlier :: "datetime \<Rightarrow> datetime \<Rightarrow> bool result" where
  "earlier a b = (if is_aware a = is_aware b then Inr (instant a < instant b)
     else Inl (TypeError ''cannot compare offset-naive and offset-aware datetimes''))"

definition same_time :: "datetime \<Rightarrow> datetime \<Rightarrow> bool" where
  "same_time a b = (is_aware a = is_aware b \<and> instant a = instant b)"

fun plus_duration :: "datetime \<Rightarrow> int \<Rightarrow> datetime" where
  "plus_duration (Aware t offset) d = Aware (t + d) offset"
| "plus_duration (Naive t) d = Naive (t + d)"

definition days :: "int \<Rightarrow> int" where
  "days n = n * 86400000000"

record historical_file_change =
  hf_path :: string
  hf_additions :: int
  hf_deletions :: int

record historical_change =
  hc_observed_at :: datetime
  hc_files :: "historical_file_change list"
  hc_author_key :: "string option"
  hc_failed_check_proxy :: "bool option"

record historical_statistics =
  hs_schema_version :: string
  hs_prediction_time :: int
  hs_window_days :: int
  hs_included_changes :: nat
  hs_excluded_future_changes :: nat
  hs_target_file_touches :: nat
  hs_target_module_touches :: nat
  hs_line_churn :: int
  hs_prior_failure_proxy_count :: "nat option"
  hs_failure_proxy_observations :: nat
  hs_ownership_familiarity :: "rat option"
  hs_missing :: "string list"
  hs_truncated :: bool

definition opt_float :: "(rat \<Rightarrow> string) \<Rightarrow> rat option \<Rightarrow> pyval" where
  "opt_float float_repr x = (case x of None \<Rightarrow> PyNone | Some r \<Rightarrow> PyFloat (float_repr r))"

definition historical_statistics_as_dict ::
  "(rat \<Rightarrow> string) \<Rightarrow> (datetime \<Rightarrow> string) \<Rightarrow> historical_statistics \<Rightarrow> pydict" where
  "historical_statistics_as_dict float_repr isoformat h = [
     (''excluded_future_changes'', PyInt (int (hs_excluded_future_changes h))),
     (''failure_proxy_observations'', PyInt (int (hs_failure_proxy_observations h))),
     (''included_changes'', PyInt (int (hs_included_changes h))),
     (''line_churn'', PyInt (hs_line_churn h)),
     (''missing'', strs (hs_missing h)),
     (''ownership_familiarity'', opt_float float_repr (hs_ownership_familiarity h)),
     (''prediction_time'', PyStr (isoformat (Aware (hs_prediction_time h) 0))),
     (''prior_failure_proxy_count'', opt_nat (hs_prior_failure_proxy_count h)),
     (''schema_version'', PyStr (hs_schema_version h)),
     (''target_file_touches'', PyInt (int (hs_target_file_touches h))),
     (''target_module_touches'', PyInt (int (hs_target_module_touches h))),
     (''truncated'', PyBool (hs_truncated h)),
     (''window_days'', PyInt (hs_window_days h))]"

subsection \<open>Paths and case folding\<close>

text \<open>
  \<open>str.casefold\<close> on code points below U+0100: upper-case letters are lowered and the sharp s becomes
  two letters. The micro sign is kept (Python maps it to U+03BC, outside the range); folded text is
  only compared with ASCII text.
\<close>

definition casefold_char :: "char \<Rightarrow> string" where
  "casefold_char c =
     (if 65 \<le> code c \<and> code c \<le> 90 \<or> 192 \<le> code c \<and> code c \<le> 222 \<and> code c \<noteq> 215
      then [char_of (code c + 32)]
      else if code c = 223 then ''ss'' else [c])"

definition casefold :: "string \<Rightarrow> string" where
  "casefold s = concat (map casefold_char s)"

definition strip_char :: "char \<Rightarrow> string \<Rightarrow> string" where
  "strip_char c s = rev (dropWhile (\<lambda>x. x = c) (rev (dropWhile (\<lambda>x. x = c) s)))"

text \<open>\<open>value.replace("\\", "/")\<close>.\<close>

definition forward_slashes :: "string \<Rightarrow> string" where
  "forward_slashes s = replace_char (CHR 0x5C) (CHR ''/'') s"

text \<open>
  \<open>PurePosixPath(s).parts\<close>: a root for one or three leading slashes (\<open>/\<close>) or exactly two (\<open>//\<close>), then
  the components that are neither empty nor a single dot.
\<close>

definition posix_root :: "string \<Rightarrow> string list" where
  "posix_root s = (if startswith s ''//'' \<and> \<not> startswith s ''///'' then [''//'']
     else if startswith s ''/'' then [''/''] else [])"

definition posix_names :: "string \<Rightarrow> string list" where
  "posix_names s = filter (\<lambda>p. p \<noteq> [] \<and> p \<noteq> ''.'') (split_on (CHR ''/'') s)"

definition posix_parts :: "string \<Rightarrow> string list" where
  "posix_parts s = posix_root s @ posix_names s"

definition posix_name :: "string \<Rightarrow> string" where
  "posix_name s = (if posix_names s = [] then [] else last (posix_names s))"

text \<open>The last dot splits a name when it is neither its first nor its last character.\<close>

definition after_last_dot :: "string \<Rightarrow> nat" where
  "after_last_dot s = length (takeWhile (\<lambda>c. c \<noteq> CHR ''.'') (rev s))"

definition name_suffix :: "string \<Rightarrow> string" where
  "name_suffix n = (let k = after_last_dot n in
     if 0 < k \<and> k + 1 < length n then drop (length n - (k + 1)) n else [])"

definition name_stem :: "string \<Rightarrow> string" where
  "name_stem n = take (length n - length (name_suffix n)) n"

definition posix_suffix :: "string \<Rightarrow> string" where
  "posix_suffix s = name_suffix (posix_name s)"

lemma posix_names_safe: "p \<in> set (posix_names s) \<Longrightarrow> p \<noteq> [] \<and> p \<noteq> ''.'' \<and> CHR ''/'' \<notin> set p"
  using split_on_no_sep by (auto simp: posix_names_def)

lemma name_stem_suffix: "name_stem n @ name_suffix n = n"
  by (simp add: name_stem_def name_suffix_def Let_def)

end
