(* ===== verification/ChangeDiffs.thy ===== *)
theory ChangeDiffs
  imports ChangeContracts
begin

section \<open>packages/change_intel/diffs.py: normalisation of changed files\<close>

text \<open>
  Paths are made relative and checked segment by segment, files are classified by name, patches are
  cut at a whole character within a per-file and a total byte budget. \<open>normalize_diff\<close> walks the
  files sorted by their raw path; its loop state is a record.
\<close>

definition MAX_CHANGED_FILES :: nat where "MAX_CHANGED_FILES = 1000"

definition MAX_PATCH_BYTES :: nat where "MAX_PATCH_BYTES = 65536"

definition MAX_TOTAL_PATCH_BYTES :: nat where "MAX_TOTAL_PATCH_BYTES = 1048576"

definition ALLOWED_STATUSES :: "string list" where
  "ALLOWED_STATUSES = [''added'', ''modified'', ''removed'', ''renamed'', ''copied'', ''changed'']"

definition LANGUAGES :: "(string \<times> string) list" where
  "LANGUAGES = [(''.css'', ''css''), (''.html'', ''html''), (''.js'', ''javascript''),
     (''.json'', ''json''), (''.jsx'', ''javascript''), (''.md'', ''markdown''),
     (''.py'', ''python''), (''.sh'', ''shell''), (''.sql'', ''sql''), (''.toml'', ''toml''),
     (''.ts'', ''typescript''), (''.tsx'', ''typescript''), (''.yaml'', ''yaml''), (''.yml'', ''yaml'')]"

definition BINARY_SUFFIXES :: "string list" where
  "BINARY_SUFFIXES = [''.7z'', ''.bin'', ''.class'', ''.dll'', ''.exe'', ''.gif'', ''.gz'', ''.ico'',
     ''.jar'', ''.jpeg'', ''.jpg'', ''.pdf'', ''.png'', ''.pyc'', ''.so'', ''.tar'', ''.webp'', ''.zip'']"

definition DEPENDENCY_FILES :: "string list" where
  "DEPENDENCY_FILES = [''package-lock.json'', ''package.json'', ''poetry.lock'', ''pyproject.toml'',
     ''requirements.txt'', ''uv.lock'']"

subsection \<open>Paths\<close>

definition diff_path :: "string \<Rightarrow> string result" where
  "diff_path value =
     (let normalized = strip_char (CHR ''/'') (forward_slashes value); parts = posix_parts normalized in
      if normalized = [] \<or> length (utf8 normalized) > 1024
      then Inl (ValueError ''changed path must be a bounded repository-relative path'')
      else if list_ex (\<lambda>part. part \<in> {[], ''.'', ''..''}) parts
      then Inl (ValueError ''changed path contains an unsafe segment'')
      else Inr (join ''/'' parts))"

subsection \<open>Patches\<close>

text \<open>
  Decoding of UTF-8 bytes that encode code points below U+0100; \<open>None\<close> is a UnicodeDecodeError.
\<close>

fun utf8_decode :: "string \<Rightarrow> string option" where
  "utf8_decode [] = Some []"
| "utf8_decode (b # bs) =
     (if code b < 128 then map_option (Cons b) (utf8_decode bs)
      else if code b = 194 \<or> code b = 195 then
        (case bs of
           [] \<Rightarrow> None
         | b' # bs' \<Rightarrow> if 128 \<le> code b' \<and> code b' < 192
             then map_option (Cons (char_of ((code b - 192) * 64 + (code b' - 128)))) (utf8_decode bs')
             else None)
      else None)"

text \<open>\<open>value.replace("\r\n", "\n")\<close>.\<close>

fun unix_newlines :: "string \<Rightarrow> string" where
  "unix_newlines [] = []"
| "unix_newlines [c] = [c]"
| "unix_newlines (c # d # s) =
     (if c = CHR 0x0D \<and> d = CHR 0x0A then d # unix_newlines s else c # unix_newlines (d # s))"

fun decode_longest :: "string \<Rightarrow> nat \<Rightarrow> string" where
  "decode_longest bytes 0 = []"
| "decode_longest bytes (Suc n) =
     (case utf8_decode (take (Suc n) bytes) of Some s \<Rightarrow> s | None \<Rightarrow> decode_longest bytes n)"

definition truncate_utf8 :: "string \<Rightarrow> nat \<Rightarrow> string \<times> bool" where
  "truncate_utf8 value maximum =
     (if length (utf8 value) \<le> maximum then (unix_newlines value, False)
      else (unix_newlines (decode_longest (utf8 value) maximum), True))"

subsection \<open>Classification\<close>

definition any_in :: "string list \<Rightarrow> string list \<Rightarrow> bool" where
  "any_in parts names = list_ex (\<lambda>p. p \<in> set names) parts"

definition any_token :: "string \<Rightarrow> string list \<Rightarrow> bool" where
  "any_token s tokens = list_ex (contains s) tokens"

definition file_language :: "string \<Rightarrow> string \<Rightarrow> string" where
  "file_language name suffix =
     (if name \<in> {''dockerfile'', ''containerfile''} then ''dockerfile''
      else if suffix \<in> set BINARY_SUFFIXES then ''binary''
      else (case map_of LANGUAGES suffix of Some l \<Rightarrow> l | None \<Rightarrow> ''unknown''))"

definition is_generated_path :: "string list \<Rightarrow> bool" where
  "is_generated_path parts = any_in parts [''dist'', ''generated'', ''build'']"

definition is_vendored_path :: "string list \<Rightarrow> bool" where
  "is_vendored_path parts = any_in parts [''vendor'', ''vendored'', ''node_modules'', ''third_party'']"

definition file_type_of :: "string \<Rightarrow> string \<Rightarrow> string list \<Rightarrow> string" where
  "file_type_of name suffix parts =
     (if suffix \<in> set BINARY_SUFFIXES then ''binary''
      else if is_generated_path parts then ''generated''
      else if is_vendored_path parts then ''vendored''
      else if name \<in> set DEPENDENCY_FILES \<or> endswith name ''.lock'' then ''dependency''
      else if ''migrations'' \<in> set parts \<and> suffix \<in> {''.py'', ''.sql''} then ''migration''
      else if any_in parts [''test'', ''tests''] \<or> startswith name ''test_'' then ''test''
      else if suffix \<in> {''.md'', ''.rst'', ''.txt''} \<and> \<not> contains name ''requirements'' then ''documentation''
      else if suffix \<in> {''.toml'', ''.yaml'', ''.yml'', ''.json'', ''.ini'', ''.cfg''} then ''configuration''
      else if file_language name suffix \<notin> {''unknown'', ''binary''} then ''source''
      else ''other'')"

definition sensitive_tags :: "string \<Rightarrow> string list \<Rightarrow> string list" where
  "sensitive_tags file_type parts =
     (let joined = join ''/'' parts in sorted_set (
        (if any_token joined [''auth'', ''identity'', ''permission'', ''security''] then [''auth_security''] else []) @
        (if file_type = ''migration'' \<or> any_token joined [''schema'', ''database''] then [''database_schema''] else []) @
        (if any_in parts [''.github'', ''deploy'', ''infra'', ''terraform'', ''k8s''] then [''deployment_ci''] else []) @
        (if file_type = ''dependency'' then [''dependency_supply_chain''] else []) @
        (if any_token joined [''api'', ''urls'', ''routes''] then [''api_surface''] else [])))"

record classification =
  cl_language :: string
  cl_file_type :: string
  cl_is_binary :: bool
  cl_is_generated :: bool
  cl_is_vendored :: bool
  cl_tags :: "string list"

definition classify :: "string \<Rightarrow> classification" where
  "classify path =
     (let name = casefold (posix_name path); parts = map casefold (posix_parts path);
        suffix = casefold (posix_suffix path); file_type = file_type_of name suffix parts in
      \<lparr>cl_language = file_language name suffix, cl_file_type = file_type,
       cl_is_binary = (suffix \<in> set BINARY_SUFFIXES), cl_is_generated = is_generated_path parts,
       cl_is_vendored = is_vendored_path parts, cl_tags = sensitive_tags file_type parts\<rparr>)"

subsection \<open>normalize_diff\<close>

record diff_state =
  ds_files :: "normalized_file list"
  ds_consumed :: nat
  ds_truncated :: bool
  ds_seen :: "string list"

definition previous_path_of :: "raw_changed_file \<Rightarrow> string option result" where
  "previous_path_of item = (case rf_previous_path item of
      None \<Rightarrow> Inr None
    | Some p \<Rightarrow> if p = [] then Inr None else and_then (diff_path p) (\<lambda>q. Inr (Some q)))"

definition file_patch :: "raw_changed_file \<Rightarrow> bool \<Rightarrow> nat \<Rightarrow> (string \<times> bool) option" where
  "file_patch item is_binary consumed = (case rf_patch item of
      None \<Rightarrow> None
    | Some patch \<Rightarrow> if is_binary then None
        else Some (truncate_utf8 patch (min MAX_PATCH_BYTES (MAX_TOTAL_PATCH_BYTES - consumed))))"

definition accept_file ::
  "raw_changed_file \<Rightarrow> string \<Rightarrow> string option \<Rightarrow> classification \<Rightarrow> (string \<times> bool) option \<Rightarrow>
   diff_state \<Rightarrow> diff_state" where
  "accept_file item path previous cl patch st =
     (let cut = (case patch of None \<Rightarrow> False | Some (_, t) \<Rightarrow> t);
          size = (case patch of None \<Rightarrow> 0 | Some (s, _) \<Rightarrow> length (utf8 s)) in
      \<lparr>ds_files = ds_files st @ [\<lparr>nf_path = path, nf_previous_path = previous,
         nf_additions = rf_additions item, nf_deletions = rf_deletions item,
         nf_status = rf_status item, nf_language = cl_language cl,
         nf_file_type = cl_file_type cl, nf_patch = map_option fst patch,
         nf_patch_truncated = cut, nf_is_binary = cl_is_binary cl,
         nf_is_generated = cl_is_generated cl, nf_is_vendored = cl_is_vendored cl,
         nf_sensitive_tags = cl_tags cl\<rparr>],
       ds_consumed = ds_consumed st + size,
       ds_truncated = (ds_truncated st \<or> patch \<noteq> None \<and> (MAX_TOTAL_PATCH_BYTES - ds_consumed st = 0 \<or> cut)),
       ds_seen = path # ds_seen st\<rparr>)"

definition normalize_file :: "raw_changed_file \<Rightarrow> diff_state \<Rightarrow> diff_state result" where
  "normalize_file item st =
     and_then (diff_path (rf_path item)) (\<lambda>path.
       if path \<in> set (ds_seen st) then Inl (ValueError ''changed-file paths must be unique'')
       else if rf_status item \<notin> set ALLOWED_STATUSES then Inl (ValueError ''changed-file status is unsupported'')
       else if rf_additions item < 0 \<or> rf_deletions item < 0 then Inl (ValueError ''line counts cannot be negative'')
       else and_then (previous_path_of item) (\<lambda>previous.
         if rf_status item = ''renamed'' \<and> previous = None
         then Inl (ValueError ''renamed files require previous_path'')
         else let cl = classify path in
           Inr (accept_file item path previous cl (file_patch item (cl_is_binary cl) (ds_consumed st)) st)))"

fun normalize_files :: "raw_changed_file list \<Rightarrow> diff_state \<Rightarrow> diff_state result" where
  "normalize_files [] st = Inr st"
| "normalize_files (item # items) st = and_then (normalize_file item st) (normalize_files items)"

definition diff_payload :: "diff_state \<Rightarrow> pydict" where
  "diff_payload st = [
     (''files'', PyList (map (\<lambda>f. PyDict (normalized_file_as_dict f)) (ds_files st))),
     (''patch_set_truncated'', PyBool (ds_truncated st)),
     (''schema_version'', PyStr DIFF_SCHEMA_VERSION),
     (''total_patch_bytes'', PyInt (int (ds_consumed st)))]"

definition normalize_diff :: "raw_changed_file list \<Rightarrow> normalized_diff result" where
  "normalize_diff changed_files =
     (if length changed_files > MAX_CHANGED_FILES
      then Inl (ValueError ''changed-file count exceeds the deterministic limit'')
      else and_then (normalize_files (sort_key (\<lambda>f. forward_slashes (rf_path f)) changed_files)
          \<lparr>ds_files = [], ds_consumed = 0, ds_truncated = False, ds_seen = []\<rparr>)
        (\<lambda>st. Inr \<lparr>nd_schema_version = DIFF_SCHEMA_VERSION, nd_files = ds_files st,
            nd_total_patch_bytes = int (ds_consumed st), nd_patch_set_truncated = ds_truncated st,
            nd_diff_hash = canonical_hash (PyDict (diff_payload st))\<rparr>))"

end
