(* ===== verification/ChangeGraph.thy ===== *)
theory ChangeGraph
  imports ChangeDiffs "HOL-Library.Product_Lexorder"
begin

section \<open>packages/change_intel/graph.py: import graph and blast radius\<close>

text \<open>
  Python source is parsed by the standard library's \<open>ast\<close>; the model takes the parser as the
  parameter \<open>parse\<close>, which gives the nodes of \<open>ast.walk\<close> in order, reduced to what the code looks
  at, or \<open>None\<close> for a SyntaxError or ValueError. Everything the package does with the nodes is
  modelled: module names, relative imports, the search for an internal target, the findings and the
  breadth-first search over reversed imports.
\<close>

definition MAX_SOURCE_FILES :: nat where "MAX_SOURCE_FILES = 5000"

definition MAX_SOURCE_FILE_BYTES :: nat where "MAX_SOURCE_FILE_BYTES = 262144"

definition MAX_SOURCE_TREE_BYTES :: nat where "MAX_SOURCE_TREE_BYTES = 5242880"

definition MAX_GRAPH_EDGES :: nat where "MAX_GRAPH_EDGES = 25000"

definition MAX_BLAST_NODES :: nat where "MAX_BLAST_NODES = 1000"

definition DEFAULT_BLAST_DEPTH :: nat where "DEFAULT_BLAST_DEPTH = 5"

subsection \<open>Module names\<close>

definition source_path :: "string \<Rightarrow> string result" where
  "source_path path =
     (let normalized = strip_char (CHR ''/'') (forward_slashes path); parts = posix_parts normalized in
      if normalized = [] \<or> list_ex (\<lambda>part. part \<in> {[], ''.'', ''..''}) parts
      then Inl (ValueError ''source path must be repository-relative'')
      else Inr (join ''/'' parts))"

definition without_source_root :: "string list \<Rightarrow> string list" where
  "without_source_root parts =
     (if parts \<noteq> [] \<and> hd parts \<in> {''src'', ''lib''} then tl parts else parts)"

text \<open>\<open>with_suffix("")\<close> drops the suffix of the last part.\<close>

definition module_name_of :: "string \<Rightarrow> string option" where
  "module_name_of path =
     (if casefold (posix_suffix path) \<noteq> ''.py'' then None
      else let parts = without_source_root (butlast (posix_parts path) @ [name_stem (posix_name path)]);
             named = (if parts \<noteq> [] \<and> last parts = ''__init__'' then butlast parts else parts) in
        if named = [] then None else Some (join ''.'' named))"

definition resolve_relative :: "string \<Rightarrow> string option \<Rightarrow> nat \<Rightarrow> string" where
  "resolve_relative modname imported level =
     (let package = butlast (split_on (CHR ''.'') modname);
        prefix = take (length package - (level - 1)) package in
      join ''.'' (prefix @ (case imported of
          None \<Rightarrow> []
        | Some m \<Rightarrow> if m = [] then [] else split_on (CHR ''.'') m)))"

definition parents :: "string list \<Rightarrow> string list" where
  "parents parts = map (\<lambda>k. join ''.'' (take k parts)) (rev [1..<length parts])"

definition internal_target :: "string \<Rightarrow> string list \<Rightarrow> string option" where
  "internal_target candidate modules =
     (if candidate \<in> set modules then Some candidate
      else find (\<lambda>parent. parent \<in> set modules) (parents (split_on (CHR ''.'') candidate)))"

subsection \<open>Import statements\<close>

datatype py_node =
    Import "string list"
  | ImportFrom "string option" "string list" nat
  | CallName string nat
  | CallAttribute "string option" string nat
  | OtherNode

definition import_base :: "string \<Rightarrow> string option \<Rightarrow> nat \<Rightarrow> string" where
  "import_base modname imported level =
     (if level \<noteq> 0 then resolve_relative modname imported level
      else (case imported of None \<Rightarrow> [] | Some m \<Rightarrow> m))"

definition alias_candidates :: "string \<Rightarrow> string \<Rightarrow> string list" where
  "alias_candidates base alias =
     (let expanded = (if base \<noteq> [] \<and> alias \<noteq> ''*'' then base @ ''.'' @ alias else base) in
      filter (\<lambda>c. c \<noteq> []) [expanded, base])"

fun node_candidates :: "string \<Rightarrow> py_node \<Rightarrow> string list" where
  "node_candidates modname (Import names) = names"
| "node_candidates modname (ImportFrom imported names level) =
     concat (map (alias_candidates (import_base modname imported level)) names)"
| "node_candidates modname _ = []"

definition import_targets :: "py_node list \<Rightarrow> string \<Rightarrow> string list \<Rightarrow> string list \<times> string list" where
  "import_targets tree modname modules =
     (let candidates = concat (map (node_candidates modname) tree) in
      (remdups (filter (\<lambda>t. t \<noteq> modname) (List.map_filter (\<lambda>c. internal_target c modules) candidates)),
       sorted_set (map (\<lambda>c. hd (split_on (CHR ''.'') c))
         (filter (\<lambda>c. internal_target c modules = None) candidates))))"

definition dynamic_finding :: "string \<Rightarrow> string \<Rightarrow> nat \<Rightarrow> graph_finding" where
  "dynamic_finding finding_code path line = \<lparr>gf_code = finding_code, gf_path = path,
     gf_detail = ''dynamic import at line '' @ decimal_digits line @ '' is not resolved''\<rparr>"

fun dynamic_findings :: "string \<Rightarrow> py_node list \<Rightarrow> graph_finding list" where
  "dynamic_findings path [] = []"
| "dynamic_findings path (CallName name line # nodes) =
     (if name = ''__import__'' then [dynamic_finding ''dynamic_import_builtin'' path line] else []) @
     dynamic_findings path nodes"
| "dynamic_findings path (CallAttribute owner attr line # nodes) =
     (if attr = ''import_module'' \<and> owner = Some ''importlib''
      then [dynamic_finding ''dynamic_import_importlib'' path line] else []) @
     dynamic_findings path nodes"
| "dynamic_findings path (_ # nodes) = dynamic_findings path nodes"

subsection \<open>The import graph\<close>

definition unavailable_graph :: "string \<Rightarrow> import_graph" where
  "unavailable_graph finding_code =
     \<lparr>ig_schema_version = GRAPH_SCHEMA_VERSION, ig_available = False, ig_modules = [], ig_edges = [],
      ig_findings = [\<lparr>gf_code = finding_code, gf_path = [], gf_detail = ''base source tree unavailable''\<rparr>],
      ig_graph_hash = canonical_hash (PyDict [
        (''available'', PyBool False), (''edges'', PyList []),
        (''findings'', PyList [PyDict [(''code'', PyStr finding_code),
           (''detail'', PyStr ''base source tree unavailable''), (''path'', PyStr [])]]),
        (''modules'', PyList []), (''schema_version'', PyStr GRAPH_SCHEMA_VERSION)])\<rparr>"

record tree_state =
  ts_paths :: "(string \<times> string) list"
  ts_total :: nat
  ts_findings :: "graph_finding list"

definition read_source :: "source_file \<Rightarrow> tree_state \<Rightarrow> tree_state result" where
  "read_source f st = and_then (source_path (sf_path f)) (\<lambda>path.
     if path \<in> set (keys (ts_paths st)) then Inl (ValueError ''source-tree paths must be unique'')
     else let size = length (utf8 (sf_content f)) in
       if size > MAX_SOURCE_FILE_BYTES
       then Inr (st\<lparr>ts_findings := ts_findings st @ [\<lparr>gf_code = ''source_file_too_large'', gf_path = path,
           gf_detail = ''file was not parsed''\<rparr>]\<rparr>)
       else if ts_total st + size > MAX_SOURCE_TREE_BYTES
       then Inl (ValueError ''source tree exceeds the total-byte limit'')
       else Inr (st\<lparr>ts_paths := ts_paths st @ [(path, sf_content f)], ts_total := ts_total st + size\<rparr>))"

fun read_sources :: "source_file list \<Rightarrow> tree_state \<Rightarrow> tree_state result" where
  "read_sources [] st = Inr st"
| "read_sources (f # fs) st = and_then (read_source f st) (read_sources fs)"

record edge_state =
  es_edges :: "(string \<times> string) list"
  es_findings :: "graph_finding list"

definition suffix_text :: "string \<Rightarrow> string" where
  "suffix_text path = (let s = casefold (posix_suffix path) in if s = [] then ''none'' else s)"

definition file_edges ::
  "(string \<Rightarrow> string \<Rightarrow> py_node list option) \<Rightarrow> string list \<Rightarrow> string \<times> string \<Rightarrow> edge_state \<Rightarrow> edge_state result"
where
  "file_edges parse modules file st = (case file of (path, content) \<Rightarrow>
     (case module_name_of path of
        None \<Rightarrow> Inr (st\<lparr>es_findings := es_findings st @ [\<lparr>gf_code = ''unsupported_language'', gf_path = path,
            gf_detail = ''no graph adapter for suffix '' @ suffix_text path\<rparr>]\<rparr>)
      | Some modname \<Rightarrow> (case parse path content of
            None \<Rightarrow> Inr (st\<lparr>es_findings := es_findings st @ [\<lparr>gf_code = ''python_parse_error'', gf_path = path,
                gf_detail = ''Python source did not parse''\<rparr>]\<rparr>)
          | Some tree \<Rightarrow>
              (let (targets, external) = import_targets tree modname modules;
                 edges = remdups (es_edges st @ map (\<lambda>t. (modname, t)) targets) in
               if length edges > MAX_GRAPH_EDGES then Inl (ValueError ''import graph exceeds the edge limit'')
               else Inr \<lparr>es_edges = edges,
                 es_findings = es_findings st @ dynamic_findings path tree @
                   map (\<lambda>m. \<lparr>gf_code = ''external_import'', gf_path = path, gf_detail = m\<rparr>) external\<rparr>))))"

fun all_edges ::
  "(string \<Rightarrow> string \<Rightarrow> py_node list option) \<Rightarrow> string list \<Rightarrow> (string \<times> string) list \<Rightarrow> edge_state \<Rightarrow> edge_state result"
where
  "all_edges parse modules [] st = Inr st"
| "all_edges parse modules (f # fs) st =
     and_then (file_edges parse modules f st) (all_edges parse modules fs)"

definition module_paths :: "(string \<times> string) list \<Rightarrow> (string \<times> string) list" where
  "module_paths paths = sort (List.map_filter (\<lambda>p. map_option (\<lambda>m. (m, p)) (module_name_of p)) (keys paths))"

definition graph_payload ::
  "(string \<times> string) list \<Rightarrow> (string \<times> string) list \<Rightarrow> graph_finding list \<Rightarrow> pydict" where
  "graph_payload modules edges findings = [
     (''available'', PyBool True),
     (''edges'', PyList (map string_pair edges)),
     (''findings'', PyList (map (\<lambda>f. PyDict (graph_finding_as_dict f)) findings)),
     (''modules'', PyList (map string_pair modules)),
     (''schema_version'', PyStr GRAPH_SCHEMA_VERSION)]"

definition build_python_import_graph ::
  "(string \<Rightarrow> string \<Rightarrow> py_node list option) \<Rightarrow> source_tree \<Rightarrow> import_graph result" where
  "build_python_import_graph parse tree =
     (if length (st_files tree) > MAX_SOURCE_FILES
      then Inl (ValueError ''source tree exceeds the file-count limit'')
      else and_then (read_sources (st_files tree) \<lparr>ts_paths = [], ts_total = 0, ts_findings = []\<rparr>) (\<lambda>st.
        let path_by_module = dict_of (module_paths (ts_paths st));
            modules = sorted_items path_by_module in
        and_then (all_edges parse (keys path_by_module) (sorted_items (ts_paths st))
            \<lparr>es_edges = [], es_findings = ts_findings st\<rparr>) (\<lambda>es.
          let edges = sorted_set (es_edges es);
              findings = sort_key (\<lambda>f. [gf_path f, gf_code f, gf_detail f]) (es_findings es) in
          Inr \<lparr>ig_schema_version = GRAPH_SCHEMA_VERSION, ig_available = True, ig_modules = modules,
               ig_edges = edges, ig_findings = findings,
               ig_graph_hash = canonical_hash (PyDict (graph_payload modules edges findings))\<rparr>)))"

subsection \<open>The blast radius\<close>

definition dependents :: "(string \<times> string) list \<Rightarrow> string \<Rightarrow> string list" where
  "dependents edges m = sorted_set (map fst (filter (\<lambda>e. snd e = m) edges))"

type_synonym queue_entry = "string \<times> string list \<times> nat"

fun visit_dependents ::
  "string list \<Rightarrow> string list \<Rightarrow> nat \<Rightarrow> string list \<Rightarrow> (string \<times> blast_path) list \<Rightarrow> queue_entry list \<Rightarrow>
   (string \<times> blast_path) list \<times> queue_entry list \<times> bool"
where
  "visit_dependents changed current distance [] paths queue = (paths, queue, False)"
| "visit_dependents changed current distance (d # ds) paths queue =
     (if d \<in> set changed \<or> d \<in> set (keys paths)
      then visit_dependents changed current distance ds paths queue
      else let paths' = paths @ [(d, \<lparr>bp_changed_module = hd current, bp_affected_module = d,
               bp_distance = Suc distance, bp_modules = current @ [d]\<rparr>)] in
        if length paths' \<ge> MAX_BLAST_NODES then (paths', [], True)
        else visit_dependents changed current distance ds paths' (queue @ [(d, current @ [d], Suc distance)]))"

text \<open>Every pass of the loop takes one entry off the queue and queues only modules it discovers.\<close>

definition undiscovered :: "(string \<times> string) list \<Rightarrow> (string \<times> blast_path) list \<Rightarrow> nat" where
  "undiscovered edges paths = card (fst ` set edges - set (keys paths))"

lemma visit_dependents_measure:
  assumes "set ds \<subseteq> fst ` set edges"
    "visit_dependents changed current distance ds paths queue = (paths', queue', stop)"
  shows "length queue' + undiscovered edges paths' \<le> length queue + undiscovered edges paths"
  using assms
proof (induction ds arbitrary: paths queue)
  case (Cons d ds)
  let ?new = "paths @ [(d, \<lparr>bp_changed_module = hd current, bp_affected_module = d,
      bp_distance = Suc distance, bp_modules = current @ [d]\<rparr>)]"
  show ?case
  proof (cases "d \<in> set changed \<or> d \<in> set (keys paths)")
    case True
    then show ?thesis using Cons by auto
  next
    case False
    have "fst ` set edges - set (keys ?new) = (fst ` set edges - set (keys paths)) - {d}" by auto
    moreover have "d \<in> fst ` set edges - set (keys paths)" using Cons.prems(1) False by simp
    ultimately have less: "Suc (undiscovered edges ?new) = undiscovered edges paths"
      unfolding undiscovered_def by (metis card_Suc_Diff1 finite_Diff finite_imageI finite_set)
    show ?thesis
    proof (cases "length ?new \<ge> MAX_BLAST_NODES")
      case True
      then show ?thesis using Cons.prems(2) False less by (auto simp: Let_def)
    next
      case stop: False
      have "visit_dependents changed current distance ds ?new (queue @ [(d, current @ [d], Suc distance)]) =
          (paths', queue', stop)"
        using Cons.prems(2) False stop by (simp add: Let_def)
      then have "length queue' + undiscovered edges paths' \<le>
          length (queue @ [(d, current @ [d], Suc distance)]) + undiscovered edges ?new"
        using Cons.prems(1) by (intro Cons.IH) auto
      then show ?thesis using less by simp
    qed
  qed
qed simp

function blast_loop ::
  "(string \<times> string) list \<Rightarrow> string list \<Rightarrow> nat \<Rightarrow> (string \<times> blast_path) list \<Rightarrow> queue_entry list \<Rightarrow> bool \<Rightarrow>
   (string \<times> blast_path) list \<times> bool"
where
  "blast_loop edges changed max_depth paths [] truncated = (paths, truncated)"
| "blast_loop edges changed max_depth paths ((m, current, distance) # queue) truncated =
     (if distance \<ge> max_depth
      then blast_loop edges changed max_depth paths queue (truncated \<or> dependents edges m \<noteq> [])
      else (case visit_dependents changed current distance (dependents edges m) paths queue of
          (paths', queue', stop) \<Rightarrow> blast_loop edges changed max_depth paths' queue' (truncated \<or> stop)))"
  by pat_completeness auto

lemma dependents_sources: "set (dependents edges m) \<subseteq> fst ` set edges"
  by (auto simp: dependents_def)

termination blast_loop
proof (relation "measure (\<lambda>(edges, changed, max_depth, paths, queue, truncated).
    length queue + undiscovered edges paths)")
  fix edges changed max_depth paths m current distance queue truncated x y xa ya
  assume "(x, y) = visit_dependents changed current distance (dependents edges m) paths queue" "(xa, ya) = y"
  then have "visit_dependents changed current distance (dependents edges m) paths queue = (x, xa, ya)" by simp
  from visit_dependents_measure [OF dependents_sources this]
  show "((edges, changed, max_depth, x, xa, truncated \<or> ya),
      (edges, changed, max_depth, paths, (m, current, distance) # queue, truncated))
    \<in> measure (\<lambda>(edges, changed, max_depth, paths, queue, truncated). length queue + undiscovered edges paths)"
    by simp
qed simp_all

definition is_test_module :: "(string \<times> string) list \<Rightarrow> string \<Rightarrow> bool" where
  "is_test_module modules m =
     (let path = (case map_of (dict_of modules) m of Some p \<Rightarrow> p | None \<Rightarrow> []) in
      contains (''/'' @ path) ''/tests/'' \<or> startswith (posix_name path) ''test_'')"

definition compute_blast_radius :: "normalized_diff \<Rightarrow> import_graph \<Rightarrow> nat \<Rightarrow> blast_radius result" where
  "compute_blast_radius diff graph max_depth =
     (if max_depth < 1 \<or> max_depth > 20 then Inl (ValueError ''blast-radius depth must be between 1 and 20'')
      else let module_by_path = dict_of (map (\<lambda>(m, p). (p, m)) (ig_modules graph));
          paths = map nf_path (nd_files diff);
          changed = sorted_set (List.map_filter (map_of module_by_path) paths);
          tags = sorted_set (concat (map nf_sensitive_tags (nd_files diff))) in
        if \<not> ig_available graph then Inr
          \<lparr>br_graph_schema_version = ig_schema_version graph, br_available = False,
           br_changed_modules = [], br_direct_modules = [], br_transitive_modules = [],
           br_impacted_tests = [], br_max_depth = None, br_evidence_paths = [],
           br_missing_changed_paths = sort paths, br_sensitive_tags = tags, br_truncated = False\<rparr>
        else let (found, truncated) =
            blast_loop (ig_edges graph) changed max_depth [] (map (\<lambda>m. (m, [m], 0)) changed) False in
          Inr \<lparr>br_graph_schema_version = ig_schema_version graph, br_available = True,
           br_changed_modules = changed,
           br_direct_modules = sort (keys (filter (\<lambda>(_, p). bp_distance p = 1) found)),
           br_transitive_modules = sort (keys (filter (\<lambda>(_, p). bp_distance p > 1) found)),
           br_impacted_tests = sort (filter (is_test_module (ig_modules graph)) (keys found)),
           br_max_depth = Some (fold max (map (\<lambda>(_, p). bp_distance p) found) 0),
           br_evidence_paths = map snd (sorted_items found),
           br_missing_changed_paths = sort (filter (\<lambda>p. map_of module_by_path p = None) paths),
           br_sensitive_tags = tags, br_truncated = truncated\<rparr>)"

end
