(* ===== verification/BlastRadius.thy ===== *)
theory BlastRadius
  imports ChangeGraph
begin

section \<open>The blast radius is a shortest-path search over reversed imports\<close>

text \<open>
  The breadth-first loop keeps an invariant (\<open>bfs_core\<close> and \<open>bfs_closed\<close>): every recorded module is
  reached by a chain of imports from a changed module, no shorter chain exists, the queue holds
  entries of two neighbouring distances in order, and every recorded module is queued, processed or
  at the depth limit. It gives soundness, minimality and, when the result is not marked truncated,
  completeness of the blast radius.
\<close>

subsection \<open>Chains of imports\<close>

text \<open>A chain starts at a module and goes on with modules that import their predecessor.\<close>

fun chain :: "(string \<times> string) list \<Rightarrow> string list \<Rightarrow> bool" where
  "chain edges [] = False"
| "chain edges [m] = True"
| "chain edges (m # d # ms) = ((d, m) \<in> set edges \<and> chain edges (d # ms))"

definition chain_to :: "(string \<times> string) list \<Rightarrow> string list \<Rightarrow> string \<Rightarrow> string list \<Rightarrow> bool" where
  "chain_to edges changed m ms \<longleftrightarrow> chain edges ms \<and> hd ms \<in> set changed \<and> last ms = m"

definition minimal :: "(string \<times> string) list \<Rightarrow> string list \<Rightarrow> string \<Rightarrow> nat \<Rightarrow> bool" where
  "minimal edges changed m k \<longleftrightarrow> (\<forall>ms. chain_to edges changed m ms \<longrightarrow> Suc k \<le> length ms)"

lemma chain_nonempty [simp]: "chain edges ms \<Longrightarrow> ms \<noteq> []"
  by auto

lemma chain_snoc: "ms \<noteq> [] \<Longrightarrow> chain edges (ms @ [d]) \<longleftrightarrow> chain edges ms \<and> (d, last ms) \<in> set edges"
proof (induction edges ms rule: chain.induct)
  case (3 edges m d' ms)
  then show ?case by (cases ms) auto
qed auto

lemma chain_to_snoc:
  assumes "chain_to edges changed m ms" "(d, m) \<in> set edges"
  shows "chain_to edges changed d (ms @ [d])"
  using assms by (auto simp: chain_to_def chain_snoc hd_append)

lemma dependents_iff: "d \<in> set (dependents edges m) \<longleftrightarrow> (d, m) \<in> set edges"
  by (force simp: dependents_def)

subsection \<open>The invariant\<close>

definition recorded :: "string list \<Rightarrow> (string \<times> blast_path) list \<Rightarrow> string \<Rightarrow> nat option" where
  "recorded changed paths m = (if m \<in> set changed then Some 0 else map_option bp_distance (map_of paths m))"

definition evidence_ok :: "(string \<times> string) list \<Rightarrow> string list \<Rightarrow> nat \<Rightarrow> string \<Rightarrow> blast_path \<Rightarrow> bool" where
  "evidence_ok edges changed max_depth m p \<longleftrightarrow> bp_affected_module p = m \<and> m \<notin> set changed \<and>
     bp_changed_module p = hd (bp_modules p) \<and> chain_to edges changed m (bp_modules p) \<and>
     length (bp_modules p) = Suc (bp_distance p) \<and> 1 \<le> bp_distance p \<and> bp_distance p \<le> max_depth \<and>
     minimal edges changed m (bp_distance p)"

definition queue_ok :: "(string \<times> string) list \<Rightarrow> string list \<Rightarrow> (string \<times> blast_path) list \<Rightarrow> queue_entry \<Rightarrow> bool" where
  "queue_ok edges changed paths e \<longleftrightarrow> (case e of (m, current, k) \<Rightarrow>
     chain_to edges changed m current \<and> length current = Suc k \<and> recorded changed paths m = Some k)"

definition bfs_core ::
  "(string \<times> string) list \<Rightarrow> string list \<Rightarrow> nat \<Rightarrow> nat \<Rightarrow> (string \<times> blast_path) list \<Rightarrow> queue_entry list \<Rightarrow> bool" where
  "bfs_core edges changed max_depth level paths queue \<longleftrightarrow> distinct (keys paths) \<and>
     (\<forall>(m, p) \<in> set paths. evidence_ok edges changed max_depth m p) \<and>
     (\<forall>e \<in> set queue. queue_ok edges changed paths e \<and> snd (snd e) \<in> {level, Suc level}) \<and>
     sorted (map (\<lambda>e. snd (snd e)) queue)"

definition closed_at :: "(string \<times> string) list \<Rightarrow> string list \<Rightarrow> (string \<times> blast_path) list \<Rightarrow> string \<Rightarrow> bool" where
  "closed_at edges changed paths m \<longleftrightarrow> (\<forall>d. (d, m) \<in> set edges \<longrightarrow> recorded changed paths d \<noteq> None)"

definition bfs_closed ::
  "(string \<times> string) list \<Rightarrow> string list \<Rightarrow> nat \<Rightarrow> (string \<times> blast_path) list \<Rightarrow> string set \<Rightarrow> bool" where
  "bfs_closed edges changed max_depth paths pending \<longleftrightarrow>
     (\<forall>m k. recorded changed paths m = Some k \<longrightarrow>
        m \<in> pending \<or> closed_at edges changed paths m \<or> max_depth \<le> k)"

lemma recorded_append:
  "recorded changed paths m = Some k \<Longrightarrow> recorded changed (paths @ qs) m = Some k"
  by (auto simp: recorded_def map_add_Some_iff split: if_splits)

lemma recorded_known: "recorded changed paths m \<noteq> None \<longleftrightarrow> m \<in> set changed \<or> m \<in> set (keys paths)"
  by (auto simp: recorded_def set_keys_map_of)

text \<open>When an entry of distance \<open>k\<close> is taken off, every module within distance \<open>k\<close> is recorded.\<close>

lemma all_within_recorded:
  assumes core: "bfs_core edges changed max_depth k paths ((m, current, k) # queue)"
    and closed: "bfs_closed edges changed max_depth paths (fst ` set ((m, current, k) # queue))"
    and "k < max_depth" "chain edges ms" "hd ms \<in> set changed" "length ms \<le> Suc k"
  shows "recorded changed paths (last ms) \<noteq> None"
  using assms(4-6)
proof (induction ms rule: rev_induct)
  case (snoc d ms)
  show ?case
  proof (cases "ms = []")
    case True
    then show ?thesis using snoc.prems by (simp add: recorded_def)
  next
    case False
    then have ms: "chain edges ms" "(d, last ms) \<in> set edges" "hd ms \<in> set changed" "length ms \<le> k"
      using snoc.prems chain_snoc by auto
    then have "recorded changed paths (last ms) \<noteq> None" using snoc.IH by simp
    then obtain j where j: "recorded changed paths (last ms) = Some j" by blast
    have "j < length ms"
    proof (cases "last ms \<in> set changed")
      case True
      then show ?thesis using j False by (simp add: recorded_def)
    next
      case notin: False
      then obtain p where p: "map_of paths (last ms) = Some p" "bp_distance p = j"
        using j by (auto simp: recorded_def)
      then have "evidence_ok edges changed max_depth (last ms) p"
        using core map_of_SomeD by (fastforce simp: bfs_core_def)
      then show ?thesis using ms p(2) by (auto simp: evidence_ok_def minimal_def chain_to_def)
    qed
    with ms(4) have "j < k" by simp
    then have "last ms \<notin> fst ` set ((m, current, k) # queue)"
      using core j by (fastforce simp: bfs_core_def queue_ok_def)
    then have "closed_at edges changed paths (last ms)"
      using closed j \<open>j < k\<close> \<open>k < max_depth\<close> unfolding bfs_closed_def by (meson leD order_less_trans)
    then show ?thesis using ms(2) by (simp add: closed_at_def)
  qed
qed simp

subsection \<open>The loop keeps the invariant\<close>

definition discovery :: "string list \<Rightarrow> nat \<Rightarrow> string \<Rightarrow> blast_path" where
  "discovery current k d = \<lparr>bp_changed_module = hd current, bp_affected_module = d,
     bp_distance = Suc k, bp_modules = current @ [d]\<rparr>"

lemma visit_dependents_Cons:
  "visit_dependents changed current k (d # ds) paths queue =
     (if recorded changed paths d \<noteq> None then visit_dependents changed current k ds paths queue
      else if length paths + 1 \<ge> MAX_BLAST_NODES then (paths @ [(d, discovery current k d)], [], True)
      else visit_dependents changed current k ds (paths @ [(d, discovery current k d)])
        (queue @ [(d, current @ [d], Suc k)]))"
  unfolding recorded_known by (simp add: discovery_def Let_def)

declare visit_dependents.simps(2) [simp del]

lemma core_discover:
  assumes core: "bfs_core edges changed max_depth k paths queue"
    and entry: "chain_to edges changed m current" "length current = Suc k" and "k < max_depth"
    and edge: "(d, m) \<in> set edges" and new: "recorded changed paths d = None"
    and known: "\<forall>ms. chain edges ms \<and> hd ms \<in> set changed \<and> length ms \<le> Suc k \<longrightarrow>
      recorded changed paths (last ms) \<noteq> None"
  shows "bfs_core edges changed max_depth k (paths @ [(d, discovery current k d)])
    (queue @ [(d, current @ [d], Suc k)])"
proof -
  let ?paths = "paths @ [(d, discovery current k d)]"
  have fresh: "d \<notin> set changed" "d \<notin> set (keys paths)"
    using new recorded_known [of changed paths d] by simp_all
  have chain: "chain_to edges changed d (current @ [d])" by (rule chain_to_snoc [OF entry(1) edge])
  have minimal: "minimal edges changed d (Suc k)"
    unfolding minimal_def
  proof (intro allI impI)
    fix ms assume "chain_to edges changed d ms"
    then show "Suc (Suc k) \<le> length ms"
      using known new unfolding chain_to_def by (metis not_less_eq_eq)
  qed
  have evidence: "evidence_ok edges changed max_depth d (discovery current k d)"
    using fresh chain minimal entry \<open>k < max_depth\<close>
    by (simp add: evidence_ok_def discovery_def hd_append chain_to_def)
      (metis chain.simps(1) hd_append2)
  have "recorded changed ?paths d = Some (Suc k)"
    using fresh set_keys_map_of [of d paths] by (simp add: recorded_def discovery_def map_add_def)
  then have "queue_ok edges changed ?paths (d, current @ [d], Suc k)"
    using chain entry(2) by (simp add: queue_ok_def)
  moreover have "queue_ok edges changed ?paths e" if "e \<in> set queue" for e
  proof -
    obtain n c j where e: "e = (n, c, j)" by (cases e)
    then show ?thesis using core that recorded_append [of changed paths n j]
      by (fastforce simp: bfs_core_def queue_ok_def)
  qed
  moreover have "sorted (map (\<lambda>e. snd (snd e)) (queue @ [(d, current @ [d], Suc k)]))"
    using core by (fastforce simp: bfs_core_def sorted_append)
  ultimately show ?thesis
    using core fresh evidence by (auto simp: bfs_core_def)
qed

lemma visit_keeps_core:
  assumes "bfs_core edges changed max_depth k paths queue"
    and entry: "chain_to edges changed m current" "length current = Suc k" "k < max_depth"
    and "\<forall>d \<in> set ds. (d, m) \<in> set edges"
    and "\<forall>ms. chain edges ms \<and> hd ms \<in> set changed \<and> length ms \<le> Suc k \<longrightarrow>
      recorded changed paths (last ms) \<noteq> None"
    and "visit_dependents changed current k ds paths queue = (paths', queue', stop)"
  shows "bfs_core edges changed max_depth k paths' queue' \<and>
    (\<exists>qs. paths' = paths @ qs \<and> (\<not> stop \<longrightarrow> fst ` set queue' = fst ` set queue \<union> set (keys qs))) \<and>
    (\<not> stop \<longrightarrow> (\<forall>d \<in> set ds. recorded changed paths' d \<noteq> None)) \<and> (stop \<longrightarrow> queue' = [])"
  using assms(1,5-)
proof (induction ds arbitrary: paths queue)
  case (Cons d ds)
  let ?new = "paths @ [(d, discovery current k d)]"
  have edge: "(d, m) \<in> set edges" "\<forall>d \<in> set ds. (d, m) \<in> set edges" using Cons.prems(2) by simp_all
  show ?case
  proof (cases "recorded changed paths d")
    case (Some j)
    then have visit: "visit_dependents changed current k ds paths queue = (paths', queue', stop)"
      using Cons.prems(4) by (simp add: visit_dependents_Cons)
    note IH = Cons.IH [OF Cons.prems(1) edge(2) Cons.prems(3) visit]
    moreover from IH obtain qs where "paths' = paths @ qs" by blast
    then have "recorded changed paths' d \<noteq> None" using recorded_append [OF Some] by simp
    ultimately show ?thesis by simp
  next
    case None
    have core: "bfs_core edges changed max_depth k ?new (queue @ [(d, current @ [d], Suc k)])"
      by (rule core_discover [OF Cons.prems(1) entry edge(1) None Cons.prems(3)])
    have d: "recorded changed ?new d \<noteq> None" unfolding recorded_known by simp
    show ?thesis
    proof (cases "length paths + 1 \<ge> MAX_BLAST_NODES")
      case True
      then have "paths' = ?new" "queue' = []" "stop"
        using Cons.prems(4) None by (simp_all add: visit_dependents_Cons)
      then show ?thesis using core by (simp add: bfs_core_def)
    next
      case False
      then have visit: "visit_dependents changed current k ds ?new (queue @ [(d, current @ [d], Suc k)]) =
          (paths', queue', stop)"
        using Cons.prems(4) None by (simp add: visit_dependents_Cons)
      have known: "\<forall>ms. chain edges ms \<and> hd ms \<in> set changed \<and> length ms \<le> Suc k \<longrightarrow>
          recorded changed ?new (last ms) \<noteq> None"
        using Cons.prems(3) recorded_append by blast
      note IH = Cons.IH [OF core edge(2) known visit]
      then obtain qs where qs: "paths' = ?new @ qs"
        "\<not> stop \<longrightarrow> fst ` set queue' = fst ` set (queue @ [(d, current @ [d], Suc k)]) \<union> set (keys qs)"
        by blast
      have "recorded changed paths' d \<noteq> None" using d recorded_append qs(1) by blast
      moreover have "paths' = paths @ ((d, discovery current k d) # qs)" using qs(1) by simp
      ultimately show ?thesis using IH qs(2)
        by (auto intro!: exI [of _ "(d, discovery current k d) # qs"])
    qed
  qed
qed (simp add: exI [of _ "[]"])

definition head_level :: "queue_entry list \<Rightarrow> nat" where
  "head_level queue = (case queue of [] \<Rightarrow> 0 | e # _ \<Rightarrow> snd (snd e))"

definition all_closed ::
  "(string \<times> string) list \<Rightarrow> string list \<Rightarrow> (string \<times> blast_path) list \<Rightarrow> string set \<Rightarrow> bool" where
  "all_closed edges changed paths pending \<longleftrightarrow>
     (\<forall>m. recorded changed paths m \<noteq> None \<longrightarrow> m \<in> pending \<or> closed_at edges changed paths m)"

lemma core_head:
  assumes "bfs_core edges changed max_depth k paths queue"
  shows "bfs_core edges changed max_depth (head_level queue) paths queue"
proof (cases queue)
  case (Cons e es)
  have "snd (snd e) \<le> snd (snd e')" if "e' \<in> set queue" for e'
    using assms that Cons by (auto simp: bfs_core_def)
  moreover have "snd (snd e') \<in> {k, Suc k}" if "e' \<in> set queue" for e'
    using assms that by (simp add: bfs_core_def)
  moreover have "snd (snd e) \<in> {k, Suc k}" using assms Cons by (simp add: bfs_core_def)
  ultimately have "snd (snd e') \<in> {snd (snd e), Suc (snd (snd e))}" if "e' \<in> set queue" for e'
    using that by fastforce
  then show ?thesis using assms Cons by (simp add: bfs_core_def head_level_def)
qed (use assms in \<open>simp add: bfs_core_def head_level_def\<close>)

lemma core_tail: "bfs_core edges changed max_depth k paths (e # queue) \<Longrightarrow> bfs_core edges changed max_depth k paths queue"
  by (simp add: bfs_core_def)

lemma closed_at_append: "closed_at edges changed paths m \<Longrightarrow> closed_at edges changed (paths @ qs) m"
  unfolding closed_at_def using recorded_append by blast

lemma recorded_split:
  assumes "recorded changed (paths @ qs) m = Some k" "m \<notin> set (keys qs)"
  shows "recorded changed paths m = Some k"
proof -
  have "map_of qs m = None" using assms(2) set_keys_map_of [of m qs] by simp
  then show ?thesis using assms(1) by (simp add: recorded_def map_add_def split: if_splits option.splits)
qed

lemma visit_keeps_closed:
  assumes "\<not> stop \<longrightarrow> fst ` set queue' = fst ` set queue \<union> set (keys qs)"
    and "\<forall>d \<in> set (dependents edges m). recorded changed (paths @ qs) d \<noteq> None" "\<not> stop"
  shows "bfs_closed edges changed D paths (fst ` set ((m, current, k) # queue)) \<Longrightarrow>
      bfs_closed edges changed D (paths @ qs) (fst ` set queue')"
    and "all_closed edges changed paths (fst ` set ((m, current, k) # queue)) \<Longrightarrow>
      all_closed edges changed (paths @ qs) (fst ` set queue')"
proof -
  have m: "closed_at edges changed (paths @ qs) m"
    using assms(2) by (simp add: closed_at_def dependents_iff)
  have pending: "fst ` set queue' = fst ` set queue \<union> set (keys qs)" using assms by simp
  show "bfs_closed edges changed D (paths @ qs) (fst ` set queue')"
    if "bfs_closed edges changed D paths (fst ` set ((m, current, k) # queue))"
    unfolding bfs_closed_def pending
  proof (intro allI impI)
    fix n j assume n: "recorded changed (paths @ qs) n = Some j"
    show "n \<in> fst ` set queue \<union> set (keys qs) \<or> closed_at edges changed (paths @ qs) n \<or> D \<le> j"
    proof (cases "n \<in> set (keys qs)")
      case False
      then have "n \<in> insert m (fst ` set queue) \<or> closed_at edges changed paths n \<or> D \<le> j"
        using that recorded_split [OF n] by (simp add: bfs_closed_def)
      then show ?thesis using m closed_at_append by blast
    qed simp
  qed
  show "all_closed edges changed (paths @ qs) (fst ` set queue')"
    if "all_closed edges changed paths (fst ` set ((m, current, k) # queue))"
    unfolding all_closed_def pending
  proof (intro allI impI)
    fix n assume "recorded changed (paths @ qs) n \<noteq> None"
    then obtain j where n: "recorded changed (paths @ qs) n = Some j" by blast
    show "n \<in> fst ` set queue \<union> set (keys qs) \<or> closed_at edges changed (paths @ qs) n"
    proof (cases "n \<in> set (keys qs)")
      case False
      then have "n \<in> insert m (fst ` set queue) \<or> closed_at edges changed paths n"
        using that recorded_split [OF n] by (simp add: all_closed_def)
      then show ?thesis using m closed_at_append by blast
    qed simp
  qed
qed

definition bfs_inv ::
  "(string \<times> string) list \<Rightarrow> string list \<Rightarrow> nat \<Rightarrow> (string \<times> blast_path) list \<Rightarrow> queue_entry list \<Rightarrow> bool \<Rightarrow> bool"
where
  "bfs_inv edges changed max_depth paths queue truncated \<longleftrightarrow>
     bfs_core edges changed max_depth (head_level queue) paths queue \<and>
     (queue \<noteq> [] \<longrightarrow> bfs_closed edges changed max_depth paths (fst ` set queue)) \<and>
     (\<not> truncated \<longrightarrow> all_closed edges changed paths (fst ` set queue))"

lemma bfs_inv_deep:
  assumes "bfs_inv edges changed D paths ((m, current, k) # queue) truncated" "D \<le> k"
  shows "bfs_inv edges changed D paths queue (truncated \<or> dependents edges m \<noteq> [])"
proof -
  have core: "bfs_core edges changed D k paths ((m, current, k) # queue)"
    using assms(1) by (simp add: bfs_inv_def head_level_def)
  then have m: "recorded changed paths m = Some k" by (simp add: bfs_core_def queue_ok_def)
  have closed: "bfs_closed edges changed D paths (fst ` set ((m, current, k) # queue))"
    using assms(1) by (simp add: bfs_inv_def)
  have "bfs_closed edges changed D paths (fst ` set queue)"
    unfolding bfs_closed_def
  proof (intro allI impI)
    fix n j assume n: "recorded changed paths n = Some j"
    with closed have "n = m \<or> n \<in> fst ` set queue \<or> closed_at edges changed paths n \<or> D \<le> j"
      unfolding bfs_closed_def by simp
    then show "n \<in> fst ` set queue \<or> closed_at edges changed paths n \<or> D \<le> j"
      using m n assms(2) by auto
  qed
  moreover have "all_closed edges changed paths (fst ` set queue)"
    if "\<not> truncated" "dependents edges m = []"
  proof -
    have "closed_at edges changed paths m"
      using that(2) dependents_iff [of _ edges m] by (simp add: closed_at_def)
    then show ?thesis using assms(1) that(1) by (auto simp: bfs_inv_def all_closed_def)
  qed
  ultimately show ?thesis using core_head [OF core_tail [OF core]] by (simp add: bfs_inv_def)
qed

lemma bfs_inv_visit:
  assumes inv: "bfs_inv edges changed D paths ((m, current, k) # queue) truncated" and "k < D"
    and visit: "visit_dependents changed current k (dependents edges m) paths queue = (paths', queue', stop)"
  shows "bfs_inv edges changed D paths' queue' (truncated \<or> stop)"
proof -
  have core: "bfs_core edges changed D k paths ((m, current, k) # queue)"
    and closed: "bfs_closed edges changed D paths (fst ` set ((m, current, k) # queue))"
    using inv by (simp_all add: bfs_inv_def head_level_def)
  have entry: "chain_to edges changed m current" "length current = Suc k"
    using core by (simp_all add: bfs_core_def queue_ok_def)
  have edges: "\<forall>d \<in> set (dependents edges m). (d, m) \<in> set edges" by (simp add: dependents_iff)
  have known: "\<forall>ms. chain edges ms \<and> hd ms \<in> set changed \<and> length ms \<le> Suc k \<longrightarrow>
      recorded changed paths (last ms) \<noteq> None"
    using all_within_recorded [OF core closed \<open>k < D\<close>] by blast
  note step = visit_keeps_core [OF core_tail [OF core] entry \<open>k < D\<close> edges known visit]
  then obtain qs where qs: "paths' = paths @ qs" "\<not> stop \<longrightarrow> fst ` set queue' = fst ` set queue \<union> set (keys qs)"
    by blast
  show ?thesis
  proof (cases stop)
    case True
    have "queue' = []" "bfs_core edges changed D k paths' queue'" using step True by blast+
    then show ?thesis using True core_head [of edges changed D k paths' queue'] by (simp add: bfs_inv_def)
  next
    case False
    then have deps: "\<forall>d \<in> set (dependents edges m). recorded changed (paths @ qs) d \<noteq> None"
      using step qs(1) by simp
    note keep = visit_keeps_closed [OF qs(2) deps False]
    have "bfs_core edges changed D (head_level queue') paths' queue'"
      by (rule core_head [OF conjunct1 [OF step]])
    moreover have "bfs_closed edges changed D paths' (fst ` set queue')"
      using keep(1) [OF closed] qs(1) by simp
    moreover have "all_closed edges changed paths' (fst ` set queue')" if "\<not> truncated"
    proof -
      have "all_closed edges changed paths (fst ` set ((m, current, k) # queue))"
        using inv that by (simp add: bfs_inv_def)
      then show ?thesis unfolding qs(1) by (rule keep(2))
    qed
    ultimately show ?thesis using False by (simp add: bfs_inv_def)
  qed
qed

lemma blast_loop_inv:
  "bfs_inv edges changed D paths queue truncated \<Longrightarrow>
   blast_loop edges changed D paths queue truncated = (found, truncated') \<Longrightarrow>
   bfs_inv edges changed D found [] truncated'"
proof (induction edges changed D paths queue truncated rule: blast_loop.induct)
  case (2 edges changed max_depth paths m current distance queue truncated)
  show ?case
  proof (cases "max_depth \<le> distance")
    case True
    then show ?thesis using "2.IH"(1) "2.prems" bfs_inv_deep by simp
  next
    case False
    obtain paths' queue' stop where visit:
      "visit_dependents changed current distance (dependents edges m) paths queue = (paths', queue', stop)"
      by (cases "visit_dependents changed current distance (dependents edges m) paths queue")
    have "bfs_inv edges changed max_depth paths' queue' (truncated \<or> stop)"
      by (rule bfs_inv_visit [OF "2.prems"(1) _ visit]) (use False in simp)
    then show ?thesis
      using "2.IH"(2) [OF False visit [symmetric] refl] "2.prems"(2) False visit by simp
  qed
qed simp

lemma bfs_inv_start: "bfs_inv edges changed D [] (map (\<lambda>m. (m, [m], 0)) changed) False"
proof -
  have "recorded changed [] m = (if m \<in> set changed then Some 0 else None)" for m
    by (simp add: recorded_def)
  moreover have "sorted (map (\<lambda>m. 0::nat) changed)" by (induction changed) auto
  ultimately show ?thesis
    by (auto simp: bfs_inv_def bfs_core_def bfs_closed_def all_closed_def queue_ok_def chain_to_def head_level_def
        comp_def image_image split: list.splits if_splits)
qed

lemma all_closed_chain:
  assumes "all_closed edges changed paths {}" "chain edges ms" "hd ms \<in> set changed"
  shows "recorded changed paths (last ms) \<noteq> None"
  using assms(2,3)
proof (induction ms rule: rev_induct)
  case (snoc d ms)
  show ?case
  proof (cases "ms = []")
    case True
    then show ?thesis using snoc.prems by (simp add: recorded_def)
  next
    case False
    then have "recorded changed paths (last ms) \<noteq> None" "(d, last ms) \<in> set edges"
      using snoc chain_snoc by auto
    then show ?thesis using assms(1) by (simp add: all_closed_def closed_at_def)
  qed
qed simp

subsection \<open>Properties\<close>

lemma blast_loop_result:
  assumes "blast_loop edges changed D [] (map (\<lambda>m. (m, [m], 0)) changed) False = (found, truncated)"
  shows "distinct (keys found)" "\<forall>(m, p) \<in> set found. evidence_ok edges changed D m p"
    "\<not> truncated \<longrightarrow> all_closed edges changed found {}"
  using blast_loop_inv [OF bfs_inv_start assms] by (simp_all add: bfs_inv_def bfs_core_def)

lemma blast_radius_run:
  assumes "compute_blast_radius diff graph D = Inr b" "br_available b"
  obtains found where
    "blast_loop (ig_edges graph) (br_changed_modules b) D [] (map (\<lambda>m. (m, [m], 0)) (br_changed_modules b)) False =
       (found, br_truncated b)"
    "br_evidence_paths b = map snd (sorted_items found)"
    "br_direct_modules b = sort (keys (filter (\<lambda>(_, p). bp_distance p = 1) found))"
    "br_transitive_modules b = sort (keys (filter (\<lambda>(_, p). bp_distance p > 1) found))"
    "D \<le> 20"
  using assms by (auto simp: compute_blast_radius_def Let_def split: if_splits prod.splits)

text \<open>
  C12: Every reported blast path is evidence and the best there is: it is a chain of modules from a
  changed module to the affected one, each importing its predecessor; its distance is its number of
  imports, between one and the depth limit; no shorter chain from any changed module exists; no
  changed module is reported as affected and no module twice; the direct and transitive modules
  are the affected modules at distance one and beyond.
\<close>

theorem blast_paths_are_shortest_chains:
  assumes "compute_blast_radius diff graph D = Inr b" "br_available b"
  shows "(\<forall>p \<in> set (br_evidence_paths b).
      chain (ig_edges graph) (bp_modules p) \<and> hd (bp_modules p) = bp_changed_module p \<and>
      bp_changed_module p \<in> set (br_changed_modules b) \<and> last (bp_modules p) = bp_affected_module p \<and>
      bp_affected_module p \<notin> set (br_changed_modules b) \<and>
      length (bp_modules p) = Suc (bp_distance p) \<and> 1 \<le> bp_distance p \<and> bp_distance p \<le> D \<and>
      (\<forall>ms. chain (ig_edges graph) ms \<and> hd ms \<in> set (br_changed_modules b) \<and> last ms = bp_affected_module p \<longrightarrow>
        Suc (bp_distance p) \<le> length ms)) \<and>
    distinct (map bp_affected_module (br_evidence_paths b)) \<and>
    set (br_direct_modules b) = bp_affected_module ` {p \<in> set (br_evidence_paths b). bp_distance p = 1} \<and>
    set (br_transitive_modules b) = bp_affected_module ` {p \<in> set (br_evidence_paths b). bp_distance p > 1}"
proof (rule blast_radius_run [OF assms])
  fix found
  assume run: "blast_loop (ig_edges graph) (br_changed_modules b) D []
      (map (\<lambda>m. (m, [m], 0)) (br_changed_modules b)) False = (found, br_truncated b)"
    and b: "br_evidence_paths b = map snd (sorted_items found)"
      "br_direct_modules b = sort (keys (filter (\<lambda>(_, p). bp_distance p = 1) found))"
      "br_transitive_modules b = sort (keys (filter (\<lambda>(_, p). bp_distance p > 1) found))"
  note ok = blast_loop_result [OF run]
  have paths: "set (br_evidence_paths b) = snd ` set found" by (simp add: b(1))
  have key: "bp_affected_module (snd e) = fst e" if "e \<in> set found" for e
    using ok(2) that by (auto simp: evidence_ok_def)
  have "map bp_affected_module (br_evidence_paths b) = map fst (sorted_items found)"
    using key by (auto simp: b(1))
  moreover have "distinct (map fst (sorted_items found))"
    using ok(1) wf_dict_sorted_items [of found] by (simp add: wf_dict_def keys_def)
  ultimately have "distinct (map bp_affected_module (br_evidence_paths b))" by simp
  moreover have "set (keys (filter (\<lambda>(_, p). P p) found)) = bp_affected_module ` {p \<in> snd ` set found. P p}" for P
    using key by (force simp: keys_def image_iff)
  moreover have "\<forall>p \<in> snd ` set found. \<exists>m. evidence_ok (ig_edges graph) (br_changed_modules b) D m p"
    using ok(2) by force
  ultimately show ?thesis
    unfolding paths b(2,3) set_sort evidence_ok_def chain_to_def minimal_def by (intro conjI ballI) metis+
qed

text \<open>
  C13: A blast radius that is not marked truncated is complete: every module that reaches a changed
  module by imports, along a chain of any length, is a changed module or reported with a path.
\<close>

theorem untruncated_blast_radius_is_complete:
  assumes "compute_blast_radius diff graph D = Inr b" "br_available b" "\<not> br_truncated b"
    and "chain (ig_edges graph) ms" "hd ms \<in> set (br_changed_modules b)"
  shows "last ms \<in> set (br_changed_modules b) \<or> last ms \<in> bp_affected_module ` set (br_evidence_paths b)"
proof (rule blast_radius_run [OF assms(1,2)])
  fix found
  assume run: "blast_loop (ig_edges graph) (br_changed_modules b) D []
      (map (\<lambda>m. (m, [m], 0)) (br_changed_modules b)) False = (found, br_truncated b)"
    and b: "br_evidence_paths b = map snd (sorted_items found)"
  note ok = blast_loop_result [OF run]
  then have "recorded (br_changed_modules b) found (last ms) \<noteq> None"
    using assms(3) all_closed_chain [OF _ assms(4,5)] by blast
  then have "last ms \<in> set (br_changed_modules b) \<or> last ms \<in> fst ` set found"
    unfolding recorded_known by (simp add: keys_def)
  moreover have "bp_affected_module (snd e) = fst e" if "e \<in> set found" for e
    using ok(2) that by (auto simp: evidence_ok_def)
  ultimately show ?thesis by (force simp: b image_image)
qed

subsection \<open>The import graph\<close>

lemma internal_target_member: "internal_target c modules = Some t \<Longrightarrow> t \<in> set modules"
  by (auto simp: internal_target_def find_Some_iff split: if_splits)

lemma import_targets_members:
  "t \<in> set (fst (import_targets tree m modules)) \<Longrightarrow> t \<in> set modules \<and> t \<noteq> m"
  by (auto simp: import_targets_def Let_def map_filter_def dest: internal_target_member)

definition edges_ok :: "string list \<Rightarrow> edge_state \<Rightarrow> bool" where
  "edges_ok modules st \<longleftrightarrow> length (es_edges st) \<le> MAX_GRAPH_EDGES \<and> distinct (es_edges st) \<and>
     (\<forall>(a, b) \<in> set (es_edges st). a \<in> set modules \<and> b \<in> set modules \<and> a \<noteq> b)"

lemma file_edges_ok:
  assumes "edges_ok modules st" "file_edges parse modules f st = Inr st'"
    and "\<forall>m. module_name_of (fst f) = Some m \<longrightarrow> m \<in> set modules"
  shows "edges_ok modules st'"
proof -
  obtain path content where f: "f = (path, content)" by (cases f)
  show ?thesis
  proof (cases "module_name_of path")
    case None
    then show ?thesis using assms(1,2) f by (auto simp: file_edges_def edges_ok_def)
  next
    case (Some m)
    show ?thesis
    proof (cases "parse path content")
      case None
      then show ?thesis using assms(1,2) f Some by (auto simp: file_edges_def edges_ok_def)
    next
      case tree: (Some tree)
      obtain targets external where t: "import_targets tree m modules = (targets, external)" by fastforce
      have "set targets \<subseteq> set modules - {m}" using import_targets_members [of _ tree m modules] t by auto
      moreover have "m \<in> set modules" using assms(3) f Some by simp
      moreover have "es_edges st' = remdups (es_edges st @ map (\<lambda>t. (m, t)) targets) \<and>
          length (es_edges st') \<le> MAX_GRAPH_EDGES"
        using assms(2) f Some tree t by (auto simp: file_edges_def Let_def split: if_splits)
      ultimately show ?thesis using assms(1) by (auto simp: edges_ok_def)
    qed
  qed
qed

lemma all_edges_ok:
  "edges_ok modules st \<Longrightarrow> all_edges parse modules fs st = Inr st' \<Longrightarrow>
   \<forall>f \<in> set fs. \<forall>m. module_name_of (fst f) = Some m \<longrightarrow> m \<in> set modules \<Longrightarrow> edges_ok modules st'"
proof (induction fs arbitrary: st)
  case (Cons f fs)
  then obtain st1 where st1: "file_edges parse modules f st = Inr st1" "all_edges parse modules fs st1 = Inr st'"
    by (auto simp: and_then_Inr)
  then have "edges_ok modules st1" using Cons.prems file_edges_ok by simp
  then show ?case using Cons.IH st1(2) Cons.prems(3) by simp
qed simp

lemma module_paths_keys: "set (keys (module_paths paths)) = {m. \<exists>p \<in> set (keys paths). module_name_of p = Some m}"
  by (force simp: module_paths_def keys_def map_filter_def)

text \<open>
  A built import graph is well formed: its modules are distinct and sorted, its at most 25000
  edges are distinct, sorted and join two different modules of the graph, and it is available.
\<close>

theorem import_graph_is_well_formed:
  assumes "build_python_import_graph parse tree = Inr g"
  shows "ig_available g \<and> distinct (map fst (ig_modules g)) \<and> sorted (map fst (ig_modules g)) \<and>
    distinct (ig_edges g) \<and> sorted (ig_edges g) \<and> length (ig_edges g) \<le> 25000 \<and>
    (\<forall>(a, b) \<in> set (ig_edges g). a \<noteq> b \<and> a \<in> fst ` set (ig_modules g) \<and> b \<in> fst ` set (ig_modules g))"
proof -
  obtain st es where st: "read_sources (st_files tree) \<lparr>ts_paths = [], ts_total = 0, ts_findings = []\<rparr> = Inr st"
    and es: "all_edges parse (keys (dict_of (module_paths (ts_paths st)))) (sorted_items (ts_paths st))
        \<lparr>es_edges = [], es_findings = ts_findings st\<rparr> = Inr es"
    and g: "ig_available g" "ig_modules g = sorted_items (dict_of (module_paths (ts_paths st)))"
      "ig_edges g = sorted_set (es_edges es)"
    using assms by (auto simp: build_python_import_graph_def and_then_Inr Let_def split: if_splits)
  let ?modules = "dict_of (module_paths (ts_paths st))"
  have "\<forall>f \<in> set (sorted_items (ts_paths st)). \<forall>m. module_name_of (fst f) = Some m \<longrightarrow> m \<in> set (keys ?modules)"
    unfolding set_keys_dict_of module_paths_keys by (auto simp: keys_def)
  then have ok: "edges_ok (keys ?modules) es"
    by (intro all_edges_ok [OF _ es]) (simp_all add: edges_ok_def)
  have "sorted (map fst (sorted_items ?modules))" by (simp add: sorted_items_def)
  moreover have "distinct (map fst (sorted_items ?modules))"
    using wf_dict_sorted_items [of ?modules] wf_dict_of [of "module_paths (ts_paths st)"]
    by (simp add: wf_dict_def keys_def)
  moreover have "length (sorted_set (es_edges es)) \<le> 25000"
    using ok by (simp add: edges_ok_def sorted_set_def distinct_remdups_id MAX_GRAPH_EDGES_def)
  ultimately show ?thesis
    using ok g by (auto simp: edges_ok_def keys_def)
qed

lemma alias_in_candidates:
  "base \<noteq> [] \<Longrightarrow> alias \<noteq> ''*'' \<Longrightarrow> base @ ''.'' @ alias \<in> set (alias_candidates base alias)"
  by (simp add: alias_candidates_def Let_def)

lemma split_dotted: "CHR ''.'' \<notin> set p \<Longrightarrow> split_on (CHR ''.'') (p @ CHR ''.'' # s) = p # split_on (CHR ''.'') s"
  "CHR ''.'' \<notin> set p \<Longrightarrow> split_on (CHR ''.'') p = [p]"
  by (induction p) auto

lemma import_targetsI:
  "c \<in> set (concat (map (node_candidates m) tree)) \<Longrightarrow> internal_target c modules = Some t \<Longrightarrow> t \<noteq> m \<Longrightarrow>
   t \<in> set (fst (import_targets tree m modules))"
  by (simp add: import_targets_def Let_def map_filter_def) force

text \<open>
  A relative import of a sibling is lost in a package's own \<open>__init__.py\<close>: the module of
  \<open>pkg/__init__.py\<close> is \<open>pkg\<close>, whose last component the resolution drops as if it were a plain
  module, so \<open>from . import x\<close> there yields neither an edge nor a finding, while the same statement
  in the plain module \<open>pkg.m\<close> yields the edge to \<open>pkg.x\<close>.
\<close>

theorem relative_import_in_package_is_lost:
  assumes "CHR ''.'' \<notin> set pkg" "pkg \<noteq> []" "CHR ''.'' \<notin> set m" "x \<noteq> ''*''" "m \<noteq> x"
    and "pkg @ ''.'' @ x \<in> set modules"
  shows "import_targets [ImportFrom None [x] 1] pkg modules = ([], []) \<and>
    pkg @ ''.'' @ x \<in> set (fst (import_targets [ImportFrom None [x] 1] (pkg @ ''.'' @ m) modules))"
proof
  have "import_base pkg None 1 = []"
    by (simp add: import_base_def resolve_relative_def split_dotted assms(1))
  then show "import_targets [ImportFrom None [x] 1] pkg modules = ([], [])"
    by (simp add: import_targets_def alias_candidates_def map_filter_def sorted_set_def)
next
  have "import_base (pkg @ ''.'' @ m) None 1 = pkg"
    by (simp add: import_base_def resolve_relative_def split_dotted assms(1,3))
  then have "pkg @ ''.'' @ x \<in> set (node_candidates (pkg @ ''.'' @ m) (ImportFrom None [x] 1))"
    using alias_in_candidates [OF assms(2,4)] by simp
  moreover have "internal_target (pkg @ ''.'' @ x) modules = Some (pkg @ ''.'' @ x)"
    using assms(6) by (simp add: internal_target_def)
  ultimately show "pkg @ ''.'' @ x \<in> set (fst (import_targets [ImportFrom None [x] 1] (pkg @ ''.'' @ m) modules))"
    using assms(5) by (intro import_targetsI) auto
qed

subsection \<open>Concrete graphs\<close>

definition sample_graph :: import_graph where
  "sample_graph = \<lparr>ig_schema_version = GRAPH_SCHEMA_VERSION, ig_available = True,
     ig_modules = [(''a'', ''a.py''), (''b'', ''b.py''), (''c'', ''c.py'')],
     ig_edges = [(''b'', ''a''), (''c'', ''b'')], ig_findings = [], ig_graph_hash = []\<rparr>"

definition sample_change :: normalized_diff where
  "sample_change = \<lparr>nd_schema_version = DIFF_SCHEMA_VERSION, nd_files = [\<lparr>nf_path = ''a.py'',
     nf_previous_path = None, nf_additions = 1, nf_deletions = 0, nf_status = ''modified'',
     nf_language = ''python'', nf_file_type = ''source'', nf_patch = None, nf_patch_truncated = False,
     nf_is_binary = False, nf_is_generated = False, nf_is_vendored = False, nf_sensitive_tags = []\<rparr>],
     nd_total_patch_bytes = 0, nd_patch_set_truncated = False, nd_diff_hash = []\<rparr>"

lemma sample_blast:
  "\<exists>b. compute_blast_radius sample_change sample_graph 5 = Inr b \<and> br_available b \<and> \<not> br_truncated b \<and>
     br_changed_modules b = [''a''] \<and> br_direct_modules b = [''b''] \<and> br_transitive_modules b = [''c'']"
  by (simp add: compute_blast_radius_def sample_change_def sample_graph_def Let_def dict_of_def map_filter_def
      sorted_set_def dependents_def visit_dependents_Cons recorded_def MAX_BLAST_NODES_def discovery_def)

theorem blast_paths_are_shortest_chains_witness:
  "\<exists>b. compute_blast_radius sample_change sample_graph 5 = Inr b \<and>
     set (br_transitive_modules b) = bp_affected_module ` {p \<in> set (br_evidence_paths b). bp_distance p > 1} \<and>
     br_transitive_modules b = [''c'']"
proof -
  obtain b where b: "compute_blast_radius sample_change sample_graph 5 = Inr b" "br_available b"
    "br_transitive_modules b = [''c'']" using sample_blast by blast
  from blast_paths_are_shortest_chains [OF b(1,2)] b show ?thesis by blast
qed

theorem untruncated_blast_radius_is_complete_witness:
  "\<exists>b. compute_blast_radius sample_change sample_graph 5 = Inr b \<and>
     (''c'' \<in> set (br_changed_modules b) \<or> ''c'' \<in> bp_affected_module ` set (br_evidence_paths b))"
proof -
  obtain b where b: "compute_blast_radius sample_change sample_graph 5 = Inr b" "br_available b" "\<not> br_truncated b"
    "br_changed_modules b = [''a'']" using sample_blast by blast
  have "chain (ig_edges sample_graph) [''a'', ''b'', ''c'']" by (simp add: sample_graph_def)
  from untruncated_blast_radius_is_complete [OF b(1-3) this] b show ?thesis by simp
qed

definition sample_parse :: "string \<Rightarrow> string \<Rightarrow> py_node list option" where
  "sample_parse path content = Some (if content = ''from . import a'' then [ImportFrom None [''a''] 1] else [])"

definition sample_tree :: source_tree where
  "sample_tree = \<lparr>st_repository_key = ''r'', st_revision = ''1'', st_files =
     [\<lparr>sf_path = ''p/a.py'', sf_content = []\<rparr>, \<lparr>sf_path = ''p/b.py'', sf_content = ''from . import a''\<rparr>]\<rparr>"

lemma sample_source_paths: "source_path ''p/a.py'' = Inr ''p/a.py''" "source_path ''p/b.py'' = Inr ''p/b.py''"
  by (simp_all add: source_path_def strip_char_def forward_slashes_def replace_char_def posix_parts_def
      posix_root_def posix_names_def startswith_def Let_def)

lemma sample_module_names: "module_name_of ''p/a.py'' = Some ''p.a''" "module_name_of ''p/b.py'' = Some ''p.b''"
  by (simp_all add: module_name_of_def posix_suffix_def posix_name_def posix_names_def posix_parts_def posix_root_def
      startswith_def name_suffix_def name_stem_def after_last_dot_def Let_def casefold_def casefold_char_def code_def
      without_source_root_def)

lemma sample_targets:
  "import_targets [] m modules = ([], [])"
  "import_targets [ImportFrom None [''a''] 1] ''p.b'' [''p.a'', ''p.b''] = ([''p.a''], [''p''])"
  by (simp_all add: import_targets_def import_base_def resolve_relative_def alias_candidates_def Let_def
      internal_target_def parents_def map_filter_def sorted_set_def)

lemma sample_read: "read_sources (st_files sample_tree) \<lparr>ts_paths = [], ts_total = 0, ts_findings = []\<rparr> =
    Inr \<lparr>ts_paths = [(''p/a.py'', []), (''p/b.py'', ''from . import a'')], ts_total = 15, ts_findings = []\<rparr>"
  by (simp add: sample_tree_def read_source_def sample_source_paths MAX_SOURCE_FILE_BYTES_def
      MAX_SOURCE_TREE_BYTES_def utf8_def utf8_char_def code_def)

lemma sample_module_paths:
  "module_paths [(''p/a.py'', c), (''p/b.py'', d)] = [(''p.a'', ''p/a.py''), (''p.b'', ''p/b.py'')]"
  by (simp add: module_paths_def sample_module_names)

lemma sample_tree_graph: "\<exists>g. build_python_import_graph sample_parse sample_tree = Inr g \<and>
    ig_edges g = [(''p.b'', ''p.a'')]"
proof -
  have dict: "dict_of [(''p.a'', ''p/a.py''), (''p.b'', ''p/b.py'')] = [(''p.a'', ''p/a.py''), (''p.b'', ''p/b.py'')]"
    by (simp add: dict_of_def)
  have sorted: "sorted_items [(''p/a.py'', c), (''p/b.py'', d)] = [(''p/a.py'', c), (''p/b.py'', d)]" for c d :: string
    by (simp add: sorted_items_def)
  have limit: "\<not> MAX_SOURCE_FILES < length (st_files sample_tree)"
    by (simp add: MAX_SOURCE_FILES_def sample_tree_def)
  have "all_edges sample_parse [''p.a'', ''p.b''] [(''p/a.py'', []), (''p/b.py'', ''from . import a'')]
      \<lparr>es_edges = [], es_findings = []\<rparr> = Inr \<lparr>es_edges = [(''p.b'', ''p.a'')], es_findings =
        [\<lparr>gf_code = ''external_import'', gf_path = ''p/b.py'', gf_detail = ''p''\<rparr>]\<rparr>"
    by (simp add: file_edges_def sample_module_names sample_parse_def sample_targets sample_targets(2) [simplified] MAX_GRAPH_EDGES_def)
  then show ?thesis
    using limit by (simp add: build_python_import_graph_def sample_read sample_module_paths dict sorted Let_def
        sorted_set_def del: all_edges.simps)
qed

theorem import_graph_is_well_formed_witness:
  "\<exists>g. build_python_import_graph sample_parse sample_tree = Inr g \<and> ig_edges g = [(''p.b'', ''p.a'')] \<and>
     distinct (ig_edges g) \<and> length (ig_edges g) \<le> 25000"
proof -
  obtain g where g: "build_python_import_graph sample_parse sample_tree = Inr g" "ig_edges g = [(''p.b'', ''p.a'')]"
    using sample_tree_graph by blast
  from import_graph_is_well_formed [OF g(1)] g show ?thesis by blast
qed

theorem relative_import_in_package_is_lost_witness:
  "import_targets [ImportFrom None [''x''] 1] ''pkg'' [''pkg.x''] = ([], []) \<and>
   ''pkg.x'' \<in> set (fst (import_targets [ImportFrom None [''x''] 1] ''pkg.m'' [''pkg.x'']))"
  using relative_import_in_package_is_lost [of "''pkg''" "''m''" "''x''" "[''pkg.x'']"] by simp

end
