(* ===== verification/Governance.thy ===== *)
theory Governance
  imports ChangeContracts
begin

section \<open>packages/ml_core/governance.py: experiments, model lifecycle, feedback and drift\<close>

text \<open>
  Strings are typed where the dataclasses declare them so; a safe scalar is a \<open>pyval\<close> without
  containers. The floats of the drift monitor are real numbers, so the \<open>isfinite\<close> guards on them
  never fire; \<open>round12\<close> is \<open>round(x, 12)\<close> and \<open>float_repr\<close> the text of a float, both parameters.
  \<open>urlparse\<close> is modelled for printable ASCII text; whether a bracketed host is an IP literal is the
  parameter \<open>valid_host\<close>.
\<close>

definition FORMAL_EXPERIMENT_SCHEMA_VERSION :: string where
  "FORMAL_EXPERIMENT_SCHEMA_VERSION = ''formal-experiment-v1''"

definition EVALUATION_REGISTRY_SCHEMA_VERSION :: string where
  "EVALUATION_REGISTRY_SCHEMA_VERSION = ''evaluation-registry-entry-v1''"

definition DRIFT_POLICY_VERSION :: string where
  "DRIFT_POLICY_VERSION = ''data-quality-drift-policy-v1''"

definition DRIFT_ASSESSMENT_SCHEMA_VERSION :: string where
  "DRIFT_ASSESSMENT_SCHEMA_VERSION = ''data-quality-drift-assessment-v1''"

definition REQUIRED_COMPATIBILITY_CHECKS :: "string list" where
  "REQUIRED_COMPATIBILITY_CHECKS = [''artifact_checksum'', ''evaluation_gate'', ''feature_schema'',
     ''input_schema'', ''privacy_license'', ''runtime'']"

definition ge :: "string \<Rightarrow> exn" where
  "ge m = GovernanceError m"

subsection \<open>Enumerations\<close>

datatype experiment_kind = HEURISTIC | CLASSICAL | SEMANTIC | K_RETRIEVAL | K_LLM | K_AGENT

fun experiment_kind_value :: "experiment_kind \<Rightarrow> string" where
  "experiment_kind_value HEURISTIC = ''heuristic''"
| "experiment_kind_value CLASSICAL = ''classical''"
| "experiment_kind_value SEMANTIC = ''semantic''"
| "experiment_kind_value K_RETRIEVAL = ''retrieval''"
| "experiment_kind_value K_LLM = ''llm''"
| "experiment_kind_value K_AGENT = ''agent''"

datatype data_scope = PUBLIC_SYNTHETIC | PUBLIC_APPROVED | ORGANIZATION_LOCAL

fun data_scope_value :: "data_scope \<Rightarrow> string" where
  "data_scope_value PUBLIC_SYNTHETIC = ''public_synthetic''"
| "data_scope_value PUBLIC_APPROVED = ''public_approved''"
| "data_scope_value ORGANIZATION_LOCAL = ''organization_local''"

datatype evaluation_component = E_RETRIEVAL | E_LLM | E_AGENT

fun evaluation_component_value :: "evaluation_component \<Rightarrow> string" where
  "evaluation_component_value E_RETRIEVAL = ''retrieval''"
| "evaluation_component_value E_LLM = ''llm''"
| "evaluation_component_value E_AGENT = ''agent''"

datatype model_lifecycle = CANDIDATE | STAGING | ACTIVE | RETIRED

datatype lifecycle_action = REGISTER | PROMOTE_TO_STAGING | ACTIVATE | RETIRE | ROLLBACK

fun lifecycle_action_value :: "lifecycle_action \<Rightarrow> string" where
  "lifecycle_action_value REGISTER = ''register''"
| "lifecycle_action_value PROMOTE_TO_STAGING = ''promote_to_staging''"
| "lifecycle_action_value ACTIVATE = ''activate''"
| "lifecycle_action_value RETIRE = ''retire''"
| "lifecycle_action_value ROLLBACK = ''rollback''"

datatype outcome_kind = NO_ISSUE | REVERT | HOTFIX | INCIDENT | MANUAL_LABEL | OUTCOME_UNKNOWN

datatype drift_decision = DRIFT_PASS | DRIFT_REVIEW | DRIFT_INSUFFICIENT_DATA | DRIFT_INCOMPATIBLE_SCHEMA

fun drift_decision_value :: "drift_decision \<Rightarrow> string" where
  "drift_decision_value DRIFT_PASS = ''pass''"
| "drift_decision_value DRIFT_REVIEW = ''review''"
| "drift_decision_value DRIFT_INSUFFICIENT_DATA = ''insufficient_data''"
| "drift_decision_value DRIFT_INCOMPATIBLE_SCHEMA = ''incompatible_schema''"

subsection \<open>Guards\<close>

definition bounded_text :: "string \<Rightarrow> string \<Rightarrow> nat \<Rightarrow> exn option" where
  "bounded_text value field maximum =
     raise_if (\<not> (1 \<le> length value \<and> length value \<le> maximum) \<or> \<not> isascii value \<or> has_control value)
       (ge (field @ '' must be bounded printable ASCII''))"

definition checksum_guard :: "string \<Rightarrow> string \<Rightarrow> exn option" where
  "checksum_guard value field =
     raise_if (\<not> is_sha256_text value) (ge (field @ '' must be a lowercase SHA-256''))"

definition code_sha_guard :: "string \<Rightarrow> exn option" where
  "code_sha_guard value = raise_if (length value \<notin> {40, 64} \<or> \<not> is_hex value)
     (ge ''code_sha must be a lowercase immutable Git SHA'')"

definition scalar_guard :: "string \<Rightarrow> string \<times> pyval \<Rightarrow> exn option" where
  "scalar_guard field item = (case item of (key, value) \<Rightarrow> first_raise [
     bounded_text key (field @ '' key'') 128,
     raise_if (case value of PyFloat t \<Rightarrow> t \<in> {''inf'', ''-inf'', ''nan''} | _ \<Rightarrow> False)
       (ge (field @ '' values must be finite'')),
     (case value of PyStr s \<Rightarrow> bounded_text s (field @ '' value'') 512 | _ \<Rightarrow> None)])"

definition safe_mapping :: "pydict \<Rightarrow> string \<Rightarrow> nat \<Rightarrow> pydict result" where
  "safe_mapping values field maximum_items =
     (case first_raise (raise_if (\<not> (1 \<le> length values \<and> length values \<le> maximum_items))
           (ge (field @ '' must contain 1..'' @ decimal_digits maximum_items @ '' values'')) #
         map (scalar_guard field) values) of
        Some e \<Rightarrow> Inl e
      | None \<Rightarrow> Inr (sorted_items values))"

definition mapping_guard :: "pydict \<Rightarrow> string \<Rightarrow> nat \<Rightarrow> exn option" where
  "mapping_guard values field maximum_items =
     (case safe_mapping values field maximum_items of Inl e \<Rightarrow> Some e | Inr _ \<Rightarrow> None)"

subsection \<open>ArtifactReference\<close>

record artifact_reference =
  ar_role :: string
  ar_uri :: string
  ar_sha256 :: string

definition is_alpha :: "char \<Rightarrow> bool" where
  "is_alpha c = (65 \<le> code c \<and> code c \<le> 90 \<or> 97 \<le> code c \<and> code c \<le> 122)"

definition is_scheme_char :: "char \<Rightarrow> bool" where
  "is_scheme_char c = (is_alpha c \<or> 48 \<le> code c \<and> code c \<le> 57 \<or> c \<in> set ''+-.'')"

definition before :: "char \<Rightarrow> string \<Rightarrow> string" where
  "before c s = takeWhile (\<lambda>x. x \<noteq> c) s"

definition after :: "char \<Rightarrow> string \<Rightarrow> string" where
  "after c s = drop (Suc (length (before c s))) s"

record parsed_url =
  pu_scheme :: string
  pu_netloc :: string
  pu_query :: string
  pu_fragment :: string

text \<open>\<open>urlparse\<close> on printable ASCII: leading spaces are dropped, the scheme is lowered.\<close>

definition url_scheme :: "string \<Rightarrow> string \<times> string" where
  "url_scheme url = (let scheme = before (CHR '':'') url in
     if CHR '':'' \<in> set url \<and> scheme \<noteq> [] \<and> is_alpha (hd scheme) \<and> list_all is_scheme_char scheme
     then (casefold scheme, after (CHR '':'') url) else ([], url))"

definition urlparse :: "string \<Rightarrow> parsed_url" where
  "urlparse text =
     (case url_scheme (dropWhile (\<lambda>c. c = CHR '' '') text) of (scheme, rest) \<Rightarrow>
        let has_netloc = startswith rest ''//'';
            netloc = (if has_netloc then takeWhile (\<lambda>c. c \<notin> set ''/?#'') (drop 2 rest) else []);
            path = (if has_netloc then drop (2 + length netloc) rest else rest) in
        \<lparr>pu_scheme = scheme, pu_netloc = netloc,
         pu_query = after (CHR ''?'') (before (CHR ''#'') path), pu_fragment = after (CHR ''#'') path\<rparr>)"

definition user_info :: "string \<Rightarrow> string" where
  "user_info netloc = (if CHR ''@'' \<in> set netloc
     then rev (after (CHR ''@'') (rev netloc)) else [])"

text \<open>A bracket without its partner, or with a host that is no IP literal, is a plain ValueError.\<close>

definition bad_brackets :: "(string \<Rightarrow> bool) \<Rightarrow> string \<Rightarrow> bool" where
  "bad_brackets valid_host netloc =
     (let opened = CHR ''['' \<in> set netloc; shut = CHR '']'' \<in> set netloc in
      opened \<noteq> shut \<or> opened \<and> shut \<and> \<not> valid_host netloc)"

definition artifact_reference_post_init :: "(string \<Rightarrow> bool) \<Rightarrow> artifact_reference \<Rightarrow> exn option" where
  "artifact_reference_post_init valid_host a =
     (let url = urlparse (ar_uri a); user = user_info (pu_netloc url) in first_raise [
     bounded_text (ar_role a) ''artifact role'' 64,
     bounded_text (ar_uri a) ''artifact URI'' 1024,
     raise_if (bad_brackets valid_host (pu_netloc url)) (ValueError ''Invalid IPv6 URL''),
     raise_if (pu_scheme url \<notin> {''artifact'', ''s3'', ''mlflow-artifacts''})
       (ge ''artifact URI scheme is not allowlisted''),
     raise_if (before (CHR '':'') user \<noteq> [] \<or> after (CHR '':'') user \<noteq> [] \<or> pu_query url \<noteq> [] \<or>
         pu_fragment url \<noteq> []) (ge ''artifact URI cannot contain credentials, query, or fragment''),
     checksum_guard (ar_sha256 a) ''artifact checksum''])"

definition artifact_reference_as_dict :: "artifact_reference \<Rightarrow> pydict" where
  "artifact_reference_as_dict a =
     [(''role'', PyStr (ar_role a)), (''sha256'', PyStr (ar_sha256 a)), (''uri'', PyStr (ar_uri a))]"

subsection \<open>FormalExperimentRecord\<close>

record formal_experiment =
  fe_experiment_name :: string
  fe_run_name :: string
  fe_kind :: experiment_kind
  fe_dataset_version :: string
  fe_dataset_manifest_sha256 :: string
  fe_feature_schema_version :: string
  fe_code_sha :: string
  fe_parameters :: pydict
  fe_metrics :: pydict
  fe_environment :: pydict
  fe_artifacts :: "artifact_reference list"
  fe_data_scope :: data_scope
  fe_synthetic :: bool
  fe_contains_customer_code :: bool
  fe_schema_version :: string

definition formal_experiment_post_init :: "formal_experiment \<Rightarrow> exn option" where
  "formal_experiment_post_init r = first_raise [
     raise_if (fe_schema_version r \<noteq> FORMAL_EXPERIMENT_SCHEMA_VERSION)
       (ge ''formal experiment schema is unsupported''),
     bounded_text (fe_experiment_name r) ''experiment name'' 128,
     bounded_text (fe_run_name r) ''run name'' 128,
     bounded_text (fe_dataset_version r) ''dataset version'' 128,
     checksum_guard (fe_dataset_manifest_sha256 r) ''dataset manifest checksum'',
     bounded_text (fe_feature_schema_version r) ''feature schema version'' 128,
     code_sha_guard (fe_code_sha r),
     mapping_guard (fe_parameters r) ''experiment parameters'' 64,
     mapping_guard (fe_metrics r) ''experiment metrics'' 64,
     mapping_guard (fe_environment r) ''experiment environment'' 64,
     raise_if (\<not> (1 \<le> length (fe_artifacts r) \<and> length (fe_artifacts r) \<le> 32))
       (ge ''formal experiment must name 1..32 immutable artifacts''),
     raise_if (\<not> distinct (map ar_role (fe_artifacts r)))
       (ge ''formal experiment artifact roles must be unique''),
     raise_if (fe_contains_customer_code r \<and> fe_data_scope r \<noteq> ORGANIZATION_LOCAL)
       (ge ''customer code cannot be recorded in a shared/public experiment''),
     raise_if (fe_synthetic r \<noteq> (fe_data_scope r = PUBLIC_SYNTHETIC))
       (ge ''synthetic flag and data scope disagree'')]"

definition formal_experiment_as_dict :: "formal_experiment \<Rightarrow> pydict result" where
  "formal_experiment_as_dict r =
     and_then (safe_mapping (fe_environment r) ''experiment environment'' 64) (\<lambda>environment.
     and_then (safe_mapping (fe_metrics r) ''experiment metrics'' 64) (\<lambda>metrics.
     and_then (safe_mapping (fe_parameters r) ''experiment parameters'' 64) (\<lambda>parameters. Inr [
       (''artifacts'', PyList (map (\<lambda>a. PyDict (artifact_reference_as_dict a)) (fe_artifacts r))),
       (''code_sha'', PyStr (fe_code_sha r)),
       (''contains_customer_code'', PyBool (fe_contains_customer_code r)),
       (''data_scope'', PyStr (data_scope_value (fe_data_scope r))),
       (''dataset_manifest_sha256'', PyStr (fe_dataset_manifest_sha256 r)),
       (''dataset_version'', PyStr (fe_dataset_version r)),
       (''environment'', PyDict environment),
       (''experiment_name'', PyStr (fe_experiment_name r)),
       (''feature_schema_version'', PyStr (fe_feature_schema_version r)),
       (''kind'', PyStr (experiment_kind_value (fe_kind r))),
       (''metrics'', PyDict metrics),
       (''parameters'', PyDict parameters),
       (''run_name'', PyStr (fe_run_name r)),
       (''schema_version'', PyStr (fe_schema_version r)),
       (''synthetic'', PyBool (fe_synthetic r))])))"

definition formal_experiment_sha256 :: "formal_experiment \<Rightarrow> string result" where
  "formal_experiment_sha256 r = and_then (formal_experiment_as_dict r) (\<lambda>d. Inr (canonical_hash (PyDict d)))"

subsection \<open>EvaluationRegistryEntry\<close>

record evaluation_entry =
  ee_component :: evaluation_component
  ee_evaluation_dataset_version :: string
  ee_evaluation_dataset_sha256 :: string
  ee_configuration_versions :: pydict
  ee_aggregate_metrics :: pydict
  ee_result_artifact :: artifact_reference
  ee_license_spdx :: string
  ee_synthetic :: bool
  ee_contains_customer_code :: bool
  ee_schema_version :: string

definition evaluation_entry_post_init :: "evaluation_entry \<Rightarrow> exn option" where
  "evaluation_entry_post_init e = first_raise [
     raise_if (ee_schema_version e \<noteq> EVALUATION_REGISTRY_SCHEMA_VERSION)
       (ge ''evaluation registry schema is unsupported''),
     bounded_text (ee_evaluation_dataset_version e) ''evaluation dataset version'' 128,
     checksum_guard (ee_evaluation_dataset_sha256 e) ''evaluation dataset checksum'',
     mapping_guard (ee_configuration_versions e) ''evaluation configuration'' 32,
     mapping_guard (ee_aggregate_metrics e) ''aggregate metrics'' 64,
     bounded_text (ee_license_spdx e) ''evaluation license'' 64,
     raise_if (ee_contains_customer_code e)
       (ge ''shared evaluation registry cannot contain customer code'')]"

definition evaluation_entry_as_dict :: "evaluation_entry \<Rightarrow> pydict result" where
  "evaluation_entry_as_dict e =
     and_then (safe_mapping (ee_aggregate_metrics e) ''aggregate metrics'' 64) (\<lambda>metrics.
     and_then (safe_mapping (ee_configuration_versions e) ''evaluation configuration'' 32) (\<lambda>versions. Inr [
       (''aggregate_metrics'', PyDict metrics),
       (''component'', PyStr (evaluation_component_value (ee_component e))),
       (''configuration_versions'', PyDict versions),
       (''contains_customer_code'', PyBool (ee_contains_customer_code e)),
       (''evaluation_dataset_sha256'', PyStr (ee_evaluation_dataset_sha256 e)),
       (''evaluation_dataset_version'', PyStr (ee_evaluation_dataset_version e)),
       (''license_spdx'', PyStr (ee_license_spdx e)),
       (''result_artifact'', PyDict (artifact_reference_as_dict (ee_result_artifact e))),
       (''schema_version'', PyStr (ee_schema_version e)),
       (''synthetic'', PyBool (ee_synthetic e))]))"

definition evaluation_entry_sha256 :: "evaluation_entry \<Rightarrow> string result" where
  "evaluation_entry_sha256 e = and_then (evaluation_entry_as_dict e) (\<lambda>d. Inr (canonical_hash (PyDict d)))"

subsection \<open>Compatibility and approval\<close>

record compatibility_report =
  cr_checks :: pydict
  cr_report_sha256 :: string

definition is_true :: "pyval \<Rightarrow> bool" where
  "is_true v = (v = PyBool True)"

definition is_boolean :: "pyval \<Rightarrow> bool" where
  "is_boolean v = (v = PyBool True \<or> v = PyBool False)"

definition compatibility_report_post_init :: "compatibility_report \<Rightarrow> exn option" where
  "compatibility_report_post_init c = first_raise [
     raise_if (\<not> has_exactly (cr_checks c) REQUIRED_COMPATIBILITY_CHECKS)
       (ge ''compatibility report must contain the exact required checks''),
     raise_if (\<not> list_all (\<lambda>p. is_boolean (snd p)) (cr_checks c))
       (ge ''compatibility checks must be booleans''),
     raise_if (cr_report_sha256 c \<noteq> canonical_hash (PyDict (sorted_items (cr_checks c))))
       (ge ''compatibility report checksum is invalid'')]"

definition compatibility_passed :: "compatibility_report \<Rightarrow> bool" where
  "compatibility_passed c = list_all (\<lambda>p. is_true (snd p)) (cr_checks c)"

definition compatibility_report_as_dict :: "compatibility_report \<Rightarrow> pydict" where
  "compatibility_report_as_dict c = [
     (''checks'', PyDict (sorted_items (cr_checks c))),
     (''passed'', PyBool (compatibility_passed c)),
     (''report_sha256'', PyStr (cr_report_sha256 c))]"

record promotion_approval =
  pa_artifact_sha256 :: string
  pa_approved_action :: lifecycle_action
  pa_reviewer_id :: string
  pa_reviewer_role :: string
  pa_reason :: string
  pa_evaluation_sha256 :: string
  pa_compatibility :: compatibility_report

definition promotion_approval_post_init :: "promotion_approval \<Rightarrow> exn option" where
  "promotion_approval_post_init a = first_raise [
     checksum_guard (pa_artifact_sha256 a) ''approved artifact checksum'',
     bounded_text (pa_reviewer_id a) ''reviewer ID'' 128,
     raise_if (pa_reviewer_role a \<notin> {''owner'', ''admin''})
       (ge ''model transitions require Owner/Admin approval''),
     bounded_text (pa_reason a) ''approval reason'' 1000,
     checksum_guard (pa_evaluation_sha256 a) ''evaluation checksum'']"

definition promotion_approval_as_dict :: "promotion_approval \<Rightarrow> pydict" where
  "promotion_approval_as_dict a = [
     (''approved_action'', PyStr (lifecycle_action_value (pa_approved_action a))),
     (''artifact_sha256'', PyStr (pa_artifact_sha256 a)),
     (''compatibility'', PyDict (compatibility_report_as_dict (pa_compatibility a))),
     (''evaluation_sha256'', PyStr (pa_evaluation_sha256 a)),
     (''reason'', PyStr (pa_reason a)),
     (''reviewer_id'', PyStr (pa_reviewer_id a)),
     (''reviewer_role'', PyStr (pa_reviewer_role a))]"

definition approval_sha256 :: "promotion_approval \<Rightarrow> string" where
  "approval_sha256 a = canonical_hash (PyDict (promotion_approval_as_dict a))"

subsection \<open>The model lifecycle\<close>

fun expected_action :: "model_lifecycle option \<Rightarrow> model_lifecycle \<Rightarrow> lifecycle_action option" where
  "expected_action None CANDIDATE = Some REGISTER"
| "expected_action (Some CANDIDATE) STAGING = Some PROMOTE_TO_STAGING"
| "expected_action (Some STAGING) ACTIVE = Some ACTIVATE"
| "expected_action (Some ACTIVE) RETIRED = Some RETIRE"
| "expected_action (Some RETIRED) ACTIVE = Some ROLLBACK"
| "expected_action _ _ = None"

definition validate_model_transition ::
  "model_lifecycle option \<Rightarrow> model_lifecycle \<Rightarrow> lifecycle_action \<Rightarrow> promotion_approval option \<Rightarrow> exn option"
where
  "validate_model_transition current target action approval =
     (if expected_action current target \<noteq> Some action
      then Some (ge ''model lifecycle transition is not allowed'')
      else if action = REGISTER
      then raise_if (approval \<noteq> None) (ge ''candidate registration does not accept promotion approval'')
      else (case approval of
          None \<Rightarrow> Some (ge ''model transition requires approved passing compatibility evidence'')
        | Some a \<Rightarrow> first_raise [
            raise_if (\<not> compatibility_passed (pa_compatibility a))
              (ge ''model transition requires approved passing compatibility evidence''),
            raise_if (pa_approved_action a \<noteq> action)
              (ge ''model approval does not authorize this lifecycle action'')]))"

end
