(* ===== verification/Drift.thy ===== *)
theory Drift
  imports Governance
begin

section \<open>packages/ml_core/governance.py: feedback eligibility and drift assessment\<close>

text \<open>
  The second half of the module: which deployment outcome may be learned from, and the data-quality
  drift monitor with its profiles and policy. \<open>math.log\<close> is the natural logarithm on the reals.
\<close>

subsection \<open>Feedback eligibility\<close>

record feedback_eligibility =
  fb_organization_training_eligible :: bool
  fb_shared_training_eligible :: bool
  fb_reason :: string

definition evaluate_feedback_eligibility ::
  "datetime \<Rightarrow> datetime \<Rightarrow> datetime \<Rightarrow> datetime \<Rightarrow> datetime \<Rightarrow> outcome_kind \<Rightarrow> bool \<Rightarrow> bool \<Rightarrow> bool \<Rightarrow>
   feedback_eligibility result" where
  "evaluate_feedback_eligibility snapshot started ended observed ingested outcome provenance_known
     learning_enabled opt_in =
     (case first_raise [
        raise_if (list_ex (\<lambda>t. \<not> is_aware t) [snapshot, started, ended, observed, ingested])
          (ge ''feedback timestamps must be timezone aware''),
        raise_if (instant started < instant snapshot)
          (ge ''outcome window cannot start before the prediction snapshot''),
        raise_if (instant ended \<le> instant started) (ge ''outcome window must have positive duration''),
        raise_if (\<not> (instant started \<le> instant observed \<and> instant observed \<le> instant ended))
          (ge ''outcome signal must fall inside its declared observation window''),
        raise_if (instant ingested < instant ended)
          (ge ''deployment outcome cannot be ingested before its window completes'')] of
        Some e \<Rightarrow> Inl e
      | None \<Rightarrow> let (reason, eligible) =
          (if outcome = OUTCOME_UNKNOWN \<or> \<not> provenance_known then (''outcome_or_provenance_unknown'', False)
           else if \<not> learning_enabled then (''organization_learning_disabled'', False)
           else if \<not> opt_in then (''outcome_not_explicitly_opted_in'', False)
           else (''eligible_for_organization_local_learning'', True)) in
        Inr \<lparr>fb_organization_training_eligible = eligible, fb_shared_training_eligible = False,
             fb_reason = reason\<rparr>)"

subsection \<open>Profiles\<close>

record feature_profile =
  fp_name :: string
  fp_row_count :: int
  fp_missing_count :: int
  fp_histogram :: "int list"

definition feature_profile_post_init :: "feature_profile \<Rightarrow> exn option" where
  "feature_profile_post_init f = first_raise [
     bounded_text (fp_name f) ''feature name'' 128,
     raise_if (fp_row_count f < 1 \<or> \<not> (0 \<le> fp_missing_count f \<and> fp_missing_count f \<le> fp_row_count f))
       (ge ''feature profile counts are invalid''),
     raise_if (\<not> (2 \<le> length (fp_histogram f) \<and> length (fp_histogram f) \<le> 50) \<or>
         list_ex (\<lambda>v. v < 0) (fp_histogram f))
       (ge ''feature histogram must contain 2..50 non-negative bins''),
     raise_if (sum_list (fp_histogram f) \<noteq> fp_row_count f - fp_missing_count f)
       (ge ''feature histogram count does not match non-missing rows'')]"

definition missing_rate :: "feature_profile \<Rightarrow> real" where
  "missing_rate f = real_of_int (fp_missing_count f) / real_of_int (fp_row_count f)"

definition feature_profile_as_dict :: "(real \<Rightarrow> string) \<Rightarrow> (real \<Rightarrow> real) \<Rightarrow> feature_profile \<Rightarrow> pydict" where
  "feature_profile_as_dict float_repr round12 f = [
     (''histogram'', PyList (map PyInt (fp_histogram f))),
     (''missing_count'', PyInt (fp_missing_count f)),
     (''missing_rate'', PyFloat (float_repr (round12 (missing_rate f)))),
     (''name'', PyStr (fp_name f)),
     (''row_count'', PyInt (fp_row_count f))]"

record performance_profile =
  pp_metric_name :: string
  pp_value :: real
  pp_labeled_row_count :: int

definition performance_profile_post_init :: "performance_profile \<Rightarrow> exn option" where
  "performance_profile_post_init p = first_raise [
     bounded_text (pp_metric_name p) ''performance metric'' 128,
     raise_if (pp_labeled_row_count p < 0) (ge ''labeled row count cannot be negative'')]"

record monitoring_profile =
  mp_feature_schema_version :: string
  mp_features :: "feature_profile list"
  mp_performance :: "performance_profile option"

definition monitoring_profile_post_init :: "monitoring_profile \<Rightarrow> exn option" where
  "monitoring_profile_post_init m = first_raise [
     bounded_text (mp_feature_schema_version m) ''feature schema version'' 128,
     raise_if (mp_features m = [] \<or> length (mp_features m) > 256)
       (ge ''monitoring profile must contain 1..256 features''),
     raise_if (\<not> distinct (map fp_name (mp_features m))) (ge ''monitoring feature names must be unique''),
     raise_if (length (remdups (map fp_row_count (mp_features m))) \<noteq> 1)
       (ge ''monitoring features must describe one shared row set'')]"

definition profile_row_count :: "monitoring_profile \<Rightarrow> int" where
  "profile_row_count m = fp_row_count (hd (mp_features m))"

definition monitoring_profile_as_dict :: "(real \<Rightarrow> string) \<Rightarrow> (real \<Rightarrow> real) \<Rightarrow> monitoring_profile \<Rightarrow> pydict" where
  "monitoring_profile_as_dict float_repr round12 m = [
     (''feature_schema_version'', PyStr (mp_feature_schema_version m)),
     (''features'', PyList (map (\<lambda>f. PyDict (feature_profile_as_dict float_repr round12 f)) (mp_features m))),
     (''performance'', (case mp_performance m of
         None \<Rightarrow> PyNone
       | Some p \<Rightarrow> PyDict [(''labeled_row_count'', PyInt (pp_labeled_row_count p)),
           (''metric_name'', PyStr (pp_metric_name p)), (''value'', PyFloat (float_repr (pp_value p)))])),
     (''row_count'', PyInt (profile_row_count m))]"

definition profile_sha256 :: "(real \<Rightarrow> string) \<Rightarrow> (real \<Rightarrow> real) \<Rightarrow> monitoring_profile \<Rightarrow> string" where
  "profile_sha256 float_repr round12 m = canonical_hash (PyDict (monitoring_profile_as_dict float_repr round12 m))"

subsection \<open>Policy and assessment\<close>

record drift_policy =
  dpol_minimum_rows :: int
  dpol_minimum_labeled_rows :: int
  dpol_maximum_missingness_delta :: real
  dpol_maximum_population_stability_index :: real
  dpol_maximum_performance_drop :: real
  dpol_version :: string

definition drift_policy_post_init :: "drift_policy \<Rightarrow> exn option" where
  "drift_policy_post_init p = first_raise [
     raise_if (dpol_version p \<noteq> DRIFT_POLICY_VERSION) (ge ''drift policy version is unsupported''),
     raise_if (dpol_minimum_rows p < 2 \<or> dpol_minimum_labeled_rows p < 2)
       (ge ''drift minimum sample sizes are invalid''),
     raise_if (list_ex (\<lambda>v. v < 0) [dpol_maximum_missingness_delta p,
         dpol_maximum_population_stability_index p, dpol_maximum_performance_drop p])
       (ge ''drift thresholds must be finite and non-negative'')]"

definition drift_policy_as_dict :: "(real \<Rightarrow> string) \<Rightarrow> drift_policy \<Rightarrow> pydict" where
  "drift_policy_as_dict float_repr p = [
     (''maximum_missingness_delta'', PyFloat (float_repr (dpol_maximum_missingness_delta p))),
     (''maximum_performance_drop'', PyFloat (float_repr (dpol_maximum_performance_drop p))),
     (''maximum_population_stability_index'',
        PyFloat (float_repr (dpol_maximum_population_stability_index p))),
     (''minimum_labeled_rows'', PyInt (dpol_minimum_labeled_rows p)),
     (''minimum_rows'', PyInt (dpol_minimum_rows p)),
     (''version'', PyStr (dpol_version p))]"

record drift_assessment =
  da_decision :: drift_decision
  da_reason_codes :: "string list"
  da_schema_match :: bool
  da_row_count :: int
  da_missingness_delta :: "(string \<times> real) list"
  da_population_stability_index :: "(string \<times> real) list"
  da_performance_drop :: "real option"
  da_reference_profile_sha256 :: string
  da_current_profile_sha256 :: string
  da_policy :: drift_policy
  da_human_review_required :: bool
  da_automatic_retraining_allowed :: bool
  da_automatic_promotion_allowed :: bool
  da_schema_version :: string

definition float_items :: "(real \<Rightarrow> string) \<Rightarrow> (string \<times> real) list \<Rightarrow> pyval" where
  "float_items float_repr d = PyDict (sorted_items (map (\<lambda>(k, x). (k, PyFloat (float_repr x))) d))"

definition drift_assessment_as_dict :: "(real \<Rightarrow> string) \<Rightarrow> drift_assessment \<Rightarrow> pydict" where
  "drift_assessment_as_dict float_repr a = [
     (''automatic_promotion_allowed'', PyBool (da_automatic_promotion_allowed a)),
     (''automatic_retraining_allowed'', PyBool (da_automatic_retraining_allowed a)),
     (''current_profile_sha256'', PyStr (da_current_profile_sha256 a)),
     (''decision'', PyStr (drift_decision_value (da_decision a))),
     (''human_review_required'', PyBool (da_human_review_required a)),
     (''missingness_delta'', float_items float_repr (da_missingness_delta a)),
     (''policy'', PyDict (drift_policy_as_dict float_repr (da_policy a))),
     (''population_stability_index'', float_items float_repr (da_population_stability_index a)),
     (''performance_drop'',
        (case da_performance_drop a of None \<Rightarrow> PyNone | Some x \<Rightarrow> PyFloat (float_repr x))),
     (''reason_codes'', strs (da_reason_codes a)),
     (''reference_profile_sha256'', PyStr (da_reference_profile_sha256 a)),
     (''row_count'', PyInt (da_row_count a)),
     (''schema_match'', PyBool (da_schema_match a)),
     (''schema_version'', PyStr (da_schema_version a))]"

definition assessment_sha256 :: "(real \<Rightarrow> string) \<Rightarrow> drift_assessment \<Rightarrow> string" where
  "assessment_sha256 float_repr a = canonical_hash (PyDict (drift_assessment_as_dict float_repr a))"

definition psi_epsilon :: real where "psi_epsilon = 1 / 1000000"

definition psi_term :: "int \<Rightarrow> int \<Rightarrow> int \<times> int \<Rightarrow> real" where
  "psi_term reference_total current_total p =
     (let r = max (real_of_int (fst p) / real_of_int reference_total) psi_epsilon;
          c = max (real_of_int (snd p) / real_of_int current_total) psi_epsilon in
      (c - r) * ln (c / r))"

definition population_stability_index :: "int list \<Rightarrow> int list \<Rightarrow> real result" where
  "population_stability_index reference current =
     (if length reference \<noteq> length current
      then Inl (ge ''drift histograms must use identical versioned bins'')
      else if sum_list reference = 0 \<or> sum_list current = 0
      then Inl (ge ''drift histograms require observed non-missing values'')
      else Inr (sum_list (map (psi_term (sum_list reference) (sum_list current)) (zip reference current))))"

definition features_by_name :: "monitoring_profile \<Rightarrow> (string \<times> feature_profile) list" where
  "features_by_name m = dict_of (map (\<lambda>f. (fp_name f, f)) (mp_features m))"

definition feature_named :: "monitoring_profile \<Rightarrow> string \<Rightarrow> feature_profile" where
  "feature_named m n = the (map_of (features_by_name m) n)"

definition profiles_match :: "monitoring_profile \<Rightarrow> monitoring_profile \<Rightarrow> bool" where
  "profiles_match reference current =
     (mp_feature_schema_version reference = mp_feature_schema_version current \<and>
      has_exactly (features_by_name reference) (keys (features_by_name current)))"

definition missingness_deltas :: "(real \<Rightarrow> real) \<Rightarrow> monitoring_profile \<Rightarrow> monitoring_profile \<Rightarrow> (string \<times> real) list"
where
  "missingness_deltas round12 reference current =
     map (\<lambda>n. (n, round12 (missing_rate (feature_named current n) - missing_rate (feature_named reference n))))
       (sort (keys (features_by_name reference)))"

definition stability_indices ::
  "(real \<Rightarrow> real) \<Rightarrow> monitoring_profile \<Rightarrow> monitoring_profile \<Rightarrow> (string \<times> real) list result" where
  "stability_indices round12 reference current =
     map_raise (\<lambda>n. and_then (population_stability_index (fp_histogram (feature_named reference n))
         (fp_histogram (feature_named current n))) (\<lambda>x. Inr (n, round12 x)))
       (sort (keys (features_by_name reference)))"

definition performance_comparison ::
  "(real \<Rightarrow> real) \<Rightarrow> monitoring_profile \<Rightarrow> monitoring_profile \<Rightarrow> drift_policy \<Rightarrow> (real option \<times> bool) result"
where
  "performance_comparison round12 reference current policy =
     (case (mp_performance reference, mp_performance current) of
        (Some r, Some c) \<Rightarrow>
          if pp_metric_name r \<noteq> pp_metric_name c then Inl (ge ''performance metric identities must match'')
          else Inr (Some (round12 (pp_value r - pp_value c)),
            pp_labeled_row_count r \<ge> dpol_minimum_labeled_rows policy \<and>
            pp_labeled_row_count c \<ge> dpol_minimum_labeled_rows policy)
      | _ \<Rightarrow> Inr (None, False))"

definition enough_rows :: "monitoring_profile \<Rightarrow> monitoring_profile \<Rightarrow> drift_policy \<Rightarrow> bool" where
  "enough_rows reference current policy = (profile_row_count reference \<ge> dpol_minimum_rows policy \<and>
     profile_row_count current \<ge> dpol_minimum_rows policy)"

definition labels_missing :: "monitoring_profile \<Rightarrow> monitoring_profile \<Rightarrow> bool \<Rightarrow> bool" where
  "labels_missing reference current sufficient =
     ((mp_performance reference = None) \<noteq> (mp_performance current = None) \<or>
      mp_performance reference \<noteq> None \<and> \<not> sufficient)"

definition drift_reasons ::
  "monitoring_profile \<Rightarrow> monitoring_profile \<Rightarrow> drift_policy \<Rightarrow> (string \<times> real) list \<Rightarrow> (string \<times> real) list \<Rightarrow>
   real option \<times> bool \<Rightarrow> string list" where
  "drift_reasons reference current policy missingness psi performance =
     (if list_ex (\<lambda>p. \<bar>snd p\<bar> > dpol_maximum_missingness_delta policy) missingness then [''missingness_shift''] else []) @
     (if list_ex (\<lambda>p. snd p > dpol_maximum_population_stability_index policy) psi then [''distribution_shift''] else []) @
     (if snd performance \<and> (case fst performance of None \<Rightarrow> False | Some x \<Rightarrow> x > dpol_maximum_performance_drop policy)
      then [''performance_shift''] else []) @
     (if \<not> enough_rows reference current policy then [''insufficient_feature_rows''] else []) @
     (if labels_missing reference current (snd performance) then [''insufficient_labeled_outcomes''] else [])"

definition drift_decision_of :: "bool \<Rightarrow> string list \<Rightarrow> drift_decision" where
  "drift_decision_of sufficient reasons =
     (if \<not> sufficient \<or> ''insufficient_labeled_outcomes'' \<in> set reasons then DRIFT_INSUFFICIENT_DATA
      else if ''missingness_shift'' \<in> set reasons \<or> ''distribution_shift'' \<in> set reasons \<or>
        ''performance_shift'' \<in> set reasons then DRIFT_REVIEW
      else DRIFT_PASS)"

definition assess_drift ::
  "(real \<Rightarrow> string) \<Rightarrow> (real \<Rightarrow> real) \<Rightarrow> monitoring_profile \<Rightarrow> monitoring_profile \<Rightarrow> drift_policy \<Rightarrow>
   drift_assessment result" where
  "assess_drift float_repr round12 reference current policy =
     (if \<not> profiles_match reference current then Inr
        \<lparr>da_decision = DRIFT_INCOMPATIBLE_SCHEMA, da_reason_codes = [''feature_schema_mismatch''],
         da_schema_match = False, da_row_count = profile_row_count current, da_missingness_delta = [],
         da_population_stability_index = [], da_performance_drop = None,
         da_reference_profile_sha256 = profile_sha256 float_repr round12 reference,
         da_current_profile_sha256 = profile_sha256 float_repr round12 current, da_policy = policy,
         da_human_review_required = True, da_automatic_retraining_allowed = False,
         da_automatic_promotion_allowed = False, da_schema_version = DRIFT_ASSESSMENT_SCHEMA_VERSION\<rparr>
      else let missingness = missingness_deltas round12 reference current in
        and_then (stability_indices round12 reference current) (\<lambda>psi.
        and_then (performance_comparison round12 reference current policy) (\<lambda>performance.
          let reasons = drift_reasons reference current policy missingness psi performance;
              decision = drift_decision_of (enough_rows reference current policy) reasons in
          Inr \<lparr>da_decision = decision, da_reason_codes = reasons, da_schema_match = True,
               da_row_count = profile_row_count current, da_missingness_delta = missingness,
               da_population_stability_index = psi, da_performance_drop = fst performance,
               da_reference_profile_sha256 = profile_sha256 float_repr round12 reference,
               da_current_profile_sha256 = profile_sha256 float_repr round12 current, da_policy = policy,
               da_human_review_required = (decision \<noteq> DRIFT_PASS), da_automatic_retraining_allowed = False,
               da_automatic_promotion_allowed = False, da_schema_version = DRIFT_ASSESSMENT_SCHEMA_VERSION\<rparr>)))"

end
