(* ===== verification/DatasetContracts.thy ===== *)
theory DatasetContracts
  imports ChangeContracts
begin

section \<open>packages/dataset_core/contracts.py: provenance, labels, rows and manifests\<close>

text \<open>
  The records of the dataset pipeline. \<open>isoformat\<close> is \<open>datetime.isoformat\<close>, a parameter of the
  functions that print a time.
\<close>

definition SOURCE_ADMISSION_SCHEMA_VERSION :: string where
  "SOURCE_ADMISSION_SCHEMA_VERSION = ''source-admission-v1''"

definition LABEL_RULE_VERSION :: string where
  "LABEL_RULE_VERSION = ''proxy-label-rule-v1''"

definition SPLIT_RULE_VERSION :: string where
  "SPLIT_RULE_VERSION = ''temporal-split-v1''"

definition require_aware :: "datetime \<Rightarrow> string \<Rightarrow> exn option" where
  "require_aware value field = raise_if (\<not> is_aware value) (ValueError (field @ '' must be timezone-aware''))"

definition require_sha :: "string \<Rightarrow> string \<Rightarrow> exn option" where
  "require_sha value field = raise_if (\<not> (length value = 40 \<and> is_hex value))
     (ValueError (field @ '' must be a lowercase 40-character commit SHA''))"

definition require_checksum :: "string \<Rightarrow> string \<Rightarrow> exn option" where
  "require_checksum value field = raise_if (\<not> is_sha256_text value)
     (ValueError (field @ '' must be a lowercase SHA-256 checksum''))"

subsection \<open>Enumerations\<close>

datatype source_kind = FIXTURE | PUBLIC_REPOSITORY

fun source_kind_value :: "source_kind \<Rightarrow> string" where
  "source_kind_value FIXTURE = ''fixture''"
| "source_kind_value PUBLIC_REPOSITORY = ''public_repository''"

datatype acquisition_method = FIXTURE_BUNDLE | GITHUB_API

fun acquisition_method_value :: "acquisition_method \<Rightarrow> string" where
  "acquisition_method_value FIXTURE_BUNDLE = ''fixture_bundle''"
| "acquisition_method_value GITHUB_API = ''github_api''"

datatype proxy_outcome_kind =
  EXPLICIT_REVERT | P_HOTFIX | RAPID_FOLLOWUP_FIX | FAILED_REQUIRED_CHECK | NO_PROXY_OBSERVED | AMBIGUOUS

fun proxy_outcome_kind_value :: "proxy_outcome_kind \<Rightarrow> string" where
  "proxy_outcome_kind_value EXPLICIT_REVERT = ''explicit_revert''"
| "proxy_outcome_kind_value P_HOTFIX = ''hotfix''"
| "proxy_outcome_kind_value RAPID_FOLLOWUP_FIX = ''rapid_followup_fix''"
| "proxy_outcome_kind_value FAILED_REQUIRED_CHECK = ''failed_required_check''"
| "proxy_outcome_kind_value NO_PROXY_OBSERVED = ''no_proxy_observed''"
| "proxy_outcome_kind_value AMBIGUOUS = ''ambiguous''"

datatype proxy_label = POSITIVE | NEGATIVE | LABEL_UNKNOWN

fun proxy_label_value :: "proxy_label \<Rightarrow> string" where
  "proxy_label_value POSITIVE = ''proxy_positive''"
| "proxy_label_value NEGATIVE = ''proxy_negative''"
| "proxy_label_value LABEL_UNKNOWN = ''unknown''"

datatype dataset_split = TRAIN | VALIDATION | TEST | EXCLUDED

fun dataset_split_value :: "dataset_split \<Rightarrow> string" where
  "dataset_split_value TRAIN = ''train''"
| "dataset_split_value VALIDATION = ''validation''"
| "dataset_split_value TEST = ''test''"
| "dataset_split_value EXCLUDED = ''excluded''"

subsection \<open>SourceAdmission\<close>

record source_admission =
  sa_source_id :: string
  sa_source_kind :: source_kind
  sa_repository_numeric_id :: int
  sa_canonical_url :: string
  sa_license_spdx :: string
  sa_license_evidence_sha256 :: string
  sa_license_version :: string
  sa_terms_url :: string
  sa_terms_reviewed_at :: datetime
  sa_acquisition_method :: acquisition_method
  sa_allowed_fields :: "string list"
  sa_allowed_artifacts :: "string list"
  sa_redistribution_allowed :: bool
  sa_redistribution_notes :: string
  sa_retention_days :: "int option"
  sa_attribution :: string
  sa_as_of :: datetime
  sa_observation_window_days :: int
  sa_reviewer :: string
  sa_approved :: bool
  sa_synthetic :: bool
  sa_max_records :: int
  sa_rate_limit_per_hour :: "int option"
  sa_schema_version :: string

definition below_one :: "int option \<Rightarrow> bool" where
  "below_one x = (case x of None \<Rightarrow> False | Some i \<Rightarrow> i < 1)"

definition source_admission_post_init :: "source_admission \<Rightarrow> exn option" where
  "source_admission_post_init a = first_raise ([
     raise_if (sa_schema_version a \<noteq> SOURCE_ADMISSION_SCHEMA_VERSION)
       (ValueError ''source admission schema is incompatible''),
     raise_if (sa_source_id a = [] \<or> length (sa_source_id a) > 128) (ValueError ''source_id must be bounded''),
     raise_if (sa_repository_numeric_id a < 1) (ValueError ''repository_numeric_id must be positive''),
     raise_if (sa_source_kind a = PUBLIC_REPOSITORY \<and> \<not> startswith (sa_canonical_url a) ''https://github.com/'')
       (ValueError ''public sources require a canonical GitHub HTTPS URL''),
     raise_if (sa_source_kind a = FIXTURE \<and> \<not> startswith (sa_canonical_url a) ''fixture://'')
       (ValueError ''fixture sources require a fixture URL''),
     raise_if (sa_license_spdx a = [] \<or> sa_license_version a = [])
       (ValueError ''license identity and version are required''),
     require_checksum (sa_license_evidence_sha256 a) ''license evidence'',
     raise_if (sa_terms_url a = [] \<or> sa_reviewer a = []) (ValueError ''terms evidence and reviewer are required''),
     require_aware (sa_terms_reviewed_at a) ''terms_reviewed_at'',
     require_aware (sa_as_of a) ''as_of'',
     raise_if (sa_allowed_fields a = [] \<or> sa_allowed_artifacts a = [])
       (ValueError ''allowed fields and artifacts cannot be empty''),
     raise_if (\<not> distinct (sa_allowed_fields a)) (ValueError ''allowed fields must be unique''),
     raise_if (below_one (sa_retention_days a)) (ValueError ''retention_days must be positive when present''),
     raise_if (sa_observation_window_days a < 1 \<or> sa_observation_window_days a > 365)
       (ValueError ''observation window must be between 1 and 365 days''),
     raise_if (sa_max_records a < 1 \<or> sa_max_records a > 100000)
       (ValueError ''max_records must be between 1 and 100000''),
     raise_if (below_one (sa_rate_limit_per_hour a)) (ValueError ''rate limit must be positive when present'')] @
     (if sa_source_kind a = PUBLIC_REPOSITORY then [
        raise_if (sa_synthetic a) (ValueError ''public source cannot be marked synthetic''),
        raise_if (sa_acquisition_method a \<noteq> GITHUB_API)
          (ValueError ''public source acquisition must use the approved API''),
        raise_if (sa_rate_limit_per_hour a = None) (ValueError ''public API admission requires a rate limit'')]
      else [raise_if (sa_acquisition_method a \<noteq> FIXTURE_BUNDLE)
          (ValueError ''fixture source acquisition must use the fixture bundle'')]))"

definition source_admission_content :: "(datetime \<Rightarrow> string) \<Rightarrow> source_admission \<Rightarrow> pydict" where
  "source_admission_content isoformat a = [
     (''acquisition_method'', PyStr (acquisition_method_value (sa_acquisition_method a))),
     (''allowed_artifacts'', strs (sa_allowed_artifacts a)),
     (''allowed_fields'', strs (sa_allowed_fields a)),
     (''approved'', PyBool (sa_approved a)),
     (''as_of'', PyStr (isoformat (sa_as_of a))),
     (''attribution'', PyStr (sa_attribution a)),
     (''canonical_url'', PyStr (sa_canonical_url a)),
     (''license_evidence_sha256'', PyStr (sa_license_evidence_sha256 a)),
     (''license_spdx'', PyStr (sa_license_spdx a)),
     (''license_version'', PyStr (sa_license_version a)),
     (''max_records'', PyInt (sa_max_records a)),
     (''observation_window_days'', PyInt (sa_observation_window_days a)),
     (''rate_limit_per_hour'', opt_int (sa_rate_limit_per_hour a)),
     (''redistribution_allowed'', PyBool (sa_redistribution_allowed a)),
     (''redistribution_notes'', PyStr (sa_redistribution_notes a)),
     (''repository_numeric_id'', PyInt (sa_repository_numeric_id a)),
     (''retention_days'', opt_int (sa_retention_days a)),
     (''reviewer'', PyStr (sa_reviewer a)),
     (''schema_version'', PyStr (sa_schema_version a)),
     (''source_id'', PyStr (sa_source_id a)),
     (''source_kind'', PyStr (source_kind_value (sa_source_kind a))),
     (''synthetic'', PyBool (sa_synthetic a)),
     (''terms_reviewed_at'', PyStr (isoformat (sa_terms_reviewed_at a))),
     (''terms_url'', PyStr (sa_terms_url a))]"

definition admission_hash :: "(datetime \<Rightarrow> string) \<Rightarrow> source_admission \<Rightarrow> string" where
  "admission_hash isoformat a = canonical_hash (PyDict (source_admission_content isoformat a))"

definition source_admission_as_dict :: "(datetime \<Rightarrow> string) \<Rightarrow> bool \<Rightarrow> source_admission \<Rightarrow> pydict" where
  "source_admission_as_dict isoformat include_hash a = source_admission_content isoformat a @
     (if include_hash then [(''admission_hash'', PyStr (admission_hash isoformat a))] else [])"

subsection \<open>Snapshots and labels\<close>

record outcome_observation =
  oo_kind :: proxy_outcome_kind
  oo_observed_at :: "datetime option"
  oo_evidence_refs :: "string list"
  oo_note :: string

record extracted_snapshot =
  xs_source_id :: string
  xs_snapshot_id :: string
  xs_repository_numeric_id :: int
  xs_prediction_time :: datetime
  xs_base_sha :: string
  xs_head_sha :: string
  xs_changed_files :: "raw_changed_file list"
  xs_commit_count :: "int option"
  xs_outcome :: "outcome_observation option"
  xs_snapshot_hash :: string

record extracted_source =
  xr_admission :: source_admission
  xr_payload_hash :: string
  xr_records :: "extracted_snapshot list"

record label_assignment =
  la_label :: proxy_label
  la_rule_id :: string
  la_reason :: string
  la_outcome_kind :: "proxy_outcome_kind option"
  la_observed_at :: "datetime option"
  la_evidence_refs :: "string list"

definition label_assignment_as_dict :: "(datetime \<Rightarrow> string) \<Rightarrow> label_assignment \<Rightarrow> pydict" where
  "label_assignment_as_dict isoformat l = [
     (''evidence_refs'', strs (la_evidence_refs l)),
     (''label'', PyStr (proxy_label_value (la_label l))),
     (''observed_at'', opt_str (map_option isoformat (la_observed_at l))),
     (''outcome_kind'', opt_str (map_option proxy_outcome_kind_value (la_outcome_kind l))),
     (''reason'', PyStr (la_reason l)),
     (''rule_id'', PyStr (la_rule_id l))]"

subsection \<open>Rows, leakage report and manifest\<close>

record feature_row =
  fr_snapshot_id :: string
  fr_source_id :: string
  fr_repository_numeric_id :: int
  fr_prediction_time :: datetime
  fr_head_sha :: string
  fr_snapshot_hash :: string
  fr_diff_hash :: string
  fr_near_duplicate_hash :: string
  fr_feature_schema_version :: string
  fr_extractor_version :: string
  fr_feature_values :: pydict
  fr_feature_missing :: "(string \<times> string) list"
  fr_feature_provenance :: "(string \<times> string) list"
  fr_feature_hash :: string
  fr_label :: label_assignment
  fr_split :: dataset_split
  fr_row_hash :: string

definition feature_row_as_dict :: "(datetime \<Rightarrow> string) \<Rightarrow> feature_row \<Rightarrow> pydict" where
  "feature_row_as_dict isoformat r = [
     (''diff_hash'', PyStr (fr_diff_hash r)),
     (''extractor_version'', PyStr (fr_extractor_version r)),
     (''feature_hash'', PyStr (fr_feature_hash r)),
     (''feature_missing'', str_dict (fr_feature_missing r)),
     (''feature_provenance'', str_dict (fr_feature_provenance r)),
     (''feature_schema_version'', PyStr (fr_feature_schema_version r)),
     (''feature_values'', PyDict (sorted_items (fr_feature_values r))),
     (''head_sha'', PyStr (fr_head_sha r)),
     (''label'', PyDict (label_assignment_as_dict isoformat (fr_label r))),
     (''near_duplicate_hash'', PyStr (fr_near_duplicate_hash r)),
     (''prediction_time'', PyStr (isoformat (fr_prediction_time r))),
     (''repository_numeric_id'', PyInt (fr_repository_numeric_id r)),
     (''row_hash'', PyStr (fr_row_hash r)),
     (''snapshot_hash'', PyStr (fr_snapshot_hash r)),
     (''snapshot_id'', PyStr (fr_snapshot_id r)),
     (''source_id'', PyStr (fr_source_id r)),
     (''split'', PyStr (dataset_split_value (fr_split r)))]"

record leakage_report =
  lr_schema_version :: string
  lr_passed_checks :: "string list"
  lr_violations :: "string list"
  lr_report_hash :: string

definition leakage_report_as_dict :: "leakage_report \<Rightarrow> pydict" where
  "leakage_report_as_dict r = [
     (''passed_checks'', strs (lr_passed_checks r)),
     (''report_hash'', PyStr (lr_report_hash r)),
     (''schema_version'', PyStr (lr_schema_version r)),
     (''violations'', strs (lr_violations r))]"

end
