(* ===== verification/ChangeHistory.thy ===== *)
theory ChangeHistory
  imports ChangeContracts
begin

section \<open>packages/change_intel/history.py: statistics of the changes before the prediction\<close>

text \<open>
  A change enters the statistics when it was observed before the prediction time and not before the
  window starts; the loop's counters are a record. An instant is compared in UTC.
\<close>

definition MAX_HISTORY_CHANGES :: nat where "MAX_HISTORY_CHANGES = 10000"

definition DEFAULT_HISTORY_WINDOW_DAYS :: int where "DEFAULT_HISTORY_WINDOW_DAYS = 90"

definition aware_instant :: "datetime \<Rightarrow> int result" where
  "aware_instant t = (case t of
      Naive _ \<Rightarrow> Inl (ValueError ''history timestamps must be timezone-aware'')
    | Aware i _ \<Rightarrow> Inr i)"

definition module_area :: "string \<Rightarrow> string" where
  "module_area path =
     (let all = posix_parts path;
          parts = (if all \<noteq> [] \<and> hd all \<in> {''src'', ''lib''} then tl all else all) in
      if length parts \<le> 1 then (if parts \<noteq> [] then hd parts else path)
      else join ''/'' (butlast parts))"

fun split_history ::
  "int \<Rightarrow> int \<Rightarrow> historical_change list \<Rightarrow> (historical_change list \<times> nat) result" where
  "split_history start prediction [] = Inr ([], 0)"
| "split_history start prediction (c # cs) =
     and_then (aware_instant (hc_observed_at c)) (\<lambda>observed.
     and_then (split_history start prediction cs) (\<lambda>(included, future).
       Inr (if observed \<ge> prediction then (included, Suc future)
            else if observed \<ge> start then (c # included, future)
            else (included, future))))"

record history_counts =
  ht_file_touches :: nat
  ht_module_touches :: nat
  ht_churn :: int
  ht_failures :: nat
  ht_failure_observations :: nat
  ht_familiar :: nat
  ht_ownership_observations :: nat

definition no_counts :: history_counts where
  "no_counts = \<lparr>ht_file_touches = 0, ht_module_touches = 0, ht_churn = 0, ht_failures = 0,
     ht_failure_observations = 0, ht_familiar = 0, ht_ownership_observations = 0\<rparr>"

definition touched_paths :: "historical_change \<Rightarrow> string list" where
  "touched_paths c = map (\<lambda>f. forward_slashes (hf_path f)) (hc_files c)"

definition target_churn :: "string list \<Rightarrow> historical_change \<Rightarrow> int" where
  "target_churn targets c = sum_list (map (\<lambda>f. hf_additions f + hf_deletions f)
     (filter (\<lambda>f. forward_slashes (hf_path f) \<in> set targets) (hc_files c)))"

definition count_change :: "string list \<Rightarrow> string option \<Rightarrow> historical_change \<Rightarrow> history_counts \<Rightarrow> history_counts"
where
  "count_change targets author c h =
     (let overlaps_files = list_ex (\<lambda>p. p \<in> set targets) (touched_paths c);
          overlaps_modules = list_ex (\<lambda>a. a \<in> set (map module_area targets)) (map module_area (touched_paths c));
          checked = overlaps_modules \<and> hc_failed_check_proxy c \<noteq> None;
          owned = overlaps_modules \<and> author \<noteq> None \<and> hc_author_key c \<noteq> None in
      \<lparr>ht_file_touches = ht_file_touches h + of_bool overlaps_files,
       ht_module_touches = ht_module_touches h + of_bool overlaps_modules,
       ht_churn = ht_churn h + (if overlaps_files then target_churn targets c else 0),
       ht_failures = ht_failures h + of_bool (checked \<and> hc_failed_check_proxy c = Some True),
       ht_failure_observations = ht_failure_observations h + of_bool checked,
       ht_familiar = ht_familiar h + of_bool (owned \<and> hc_author_key c = author),
       ht_ownership_observations = ht_ownership_observations h + of_bool owned\<rparr>)"

definition history_missing :: "historical_change list \<Rightarrow> history_counts \<Rightarrow> string option \<Rightarrow> bool \<Rightarrow> string list" where
  "history_missing included h author truncated =
     (if included = [] then [''repository_history''] else []) @
     (if ht_failure_observations h = 0 then [''prior_failure_proxy''] else []) @
     (if author = None then [''current_author_key'']
      else if ht_ownership_observations h = 0 then [''ownership_history''] else []) @
     (if truncated then [''history_truncated''] else [])"

definition compute_historical_statistics ::
  "normalized_diff \<Rightarrow> historical_change list \<Rightarrow> datetime \<Rightarrow> string option \<Rightarrow> int \<Rightarrow> bool \<Rightarrow>
   historical_statistics result" where
  "compute_historical_statistics diff history prediction_time author window_days truncated =
     and_then (aware_instant prediction_time) (\<lambda>prediction.
       if window_days < 1 \<or> window_days > 3650
       then Inl (ValueError ''history window must be between 1 and 3650 days'')
       else if length history > MAX_HISTORY_CHANGES
       then Inl (ValueError ''history exceeds the deterministic record limit'')
       else and_then (split_history (prediction - days window_days) prediction history) (\<lambda>(included, future).
         let ordered = sort_key (\<lambda>c. instant (hc_observed_at c)) included;
             targets = map nf_path (nd_files diff);
             h = fold (count_change targets author) ordered no_counts in
         Inr \<lparr>hs_schema_version = HISTORY_SCHEMA_VERSION, hs_prediction_time = prediction,
              hs_window_days = window_days, hs_included_changes = length ordered,
              hs_excluded_future_changes = future, hs_target_file_touches = ht_file_touches h,
              hs_target_module_touches = ht_module_touches h, hs_line_churn = ht_churn h,
              hs_prior_failure_proxy_count =
                (if ht_failure_observations h \<noteq> 0 then Some (ht_failures h) else None),
              hs_failure_proxy_observations = ht_failure_observations h,
              hs_ownership_familiarity =
                (if ht_ownership_observations h \<noteq> 0
                 then Some (rat_of_nat (ht_familiar h) / rat_of_nat (ht_ownership_observations h)) else None),
              hs_missing = history_missing ordered h author truncated, hs_truncated = truncated\<rparr>))"

subsection \<open>Nothing from the future is used\<close>

definition visible :: "int \<Rightarrow> int \<Rightarrow> historical_change \<Rightarrow> bool" where
  "visible start prediction c \<longleftrightarrow> start \<le> instant (hc_observed_at c) \<and> instant (hc_observed_at c) < prediction"

definition future :: "int \<Rightarrow> historical_change \<Rightarrow> bool" where
  "future prediction c \<longleftrightarrow> prediction \<le> instant (hc_observed_at c)"

lemma split_history_Inr:
  "split_history start prediction cs = Inr (included, n) \<longleftrightarrow>
   list_all (\<lambda>c. is_aware (hc_observed_at c)) cs \<and> included = filter (visible start prediction) cs \<and>
   n = length (filter (future prediction) cs)"
proof (induction cs arbitrary: included n)
  case (Cons c cs)
  show ?case
  proof (cases "hc_observed_at c")
    case (Aware t z)
    then show ?thesis
      by (auto simp: aware_instant_def and_then_Inr Cons.IH visible_def future_def split: prod.splits)
  next
    case (Naive t)
    then show ?thesis by (simp add: aware_instant_def)
  qed
qed auto

lemma count_change_bounds:
  assumes "ht_failures h \<le> ht_failure_observations h" "ht_failure_observations h \<le> ht_module_touches h"
    "ht_familiar h \<le> ht_ownership_observations h" "ht_ownership_observations h \<le> ht_module_touches h"
    "ht_file_touches h \<le> ht_module_touches h"
  shows "ht_failures (count_change ts a c h) \<le> ht_failure_observations (count_change ts a c h)"
    "ht_failure_observations (count_change ts a c h) \<le> ht_module_touches (count_change ts a c h)"
    "ht_familiar (count_change ts a c h) \<le> ht_ownership_observations (count_change ts a c h)"
    "ht_ownership_observations (count_change ts a c h) \<le> ht_module_touches (count_change ts a c h)"
    "ht_file_touches (count_change ts a c h) \<le> ht_module_touches (count_change ts a c h)"
    "ht_module_touches (count_change ts a c h) \<le> Suc (ht_module_touches h)"
proof -
  have "list_ex (\<lambda>p. p \<in> set ts) (touched_paths c) \<Longrightarrow>
      list_ex (\<lambda>a. a \<in> set (map module_area ts)) (map module_area (touched_paths c))"
    by (auto simp: list_ex_iff)
  then show "ht_file_touches (count_change ts a c h) \<le> ht_module_touches (count_change ts a c h)"
    using assms by (auto simp: count_change_def Let_def)
qed (use assms in \<open>auto simp: count_change_def Let_def\<close>)

definition counts_ok :: "nat \<Rightarrow> history_counts \<Rightarrow> bool" where
  "counts_ok n h \<longleftrightarrow> ht_failures h \<le> ht_failure_observations h \<and> ht_failure_observations h \<le> ht_module_touches h \<and>
     ht_familiar h \<le> ht_ownership_observations h \<and> ht_ownership_observations h \<le> ht_module_touches h \<and>
     ht_file_touches h \<le> ht_module_touches h \<and> ht_module_touches h \<le> n"

lemma fold_counts_ok:
  "counts_ok n h \<Longrightarrow> counts_ok (n + length cs) (fold (count_change ts a) cs h)"
proof (induction cs arbitrary: n h)
  case (Cons c cs)
  then have "counts_ok (Suc n) (count_change ts a c h)"
    using count_change_bounds [of h ts a c] by (simp add: counts_ok_def)
  from Cons.IH [OF this] show ?case by simp
qed simp

text \<open>
  The statistics never look at the prediction time or later, nor before the window: replacing,
  adding or removing changes outside the window changes at most the count of excluded changes.
\<close>

lemma history_ignores_changes_outside_window:
  assumes "compute_historical_statistics diff history (Aware t z) author w truncated = Inr h"
    and "filter (visible (t - days w) t) history' = filter (visible (t - days w) t) history"
    and "list_all (\<lambda>c. is_aware (hc_observed_at c)) history'" "length history' \<le> 10000"
  shows "compute_historical_statistics diff history' (Aware t z) author w truncated =
    Inr (h\<lparr>hs_excluded_future_changes := length (filter (future t) history')\<rparr>)"
proof -
  obtain included n where split: "split_history (t - days w) t history = Inr (included, n)"
    using assms(1)
    by (auto simp: compute_historical_statistics_def aware_instant_def and_then_Inr split: if_splits)
  then have included: "included = filter (visible (t - days w) t) history'"
    using assms(2) by (simp add: split_history_Inr)
  have split': "split_history (t - days w) t history' = Inr (included, length (filter (future t) history'))"
    using assms(3) included by (simp add: split_history_Inr)
  show ?thesis
    using assms(1,4) split split'
    by (auto simp: compute_historical_statistics_def aware_instant_def MAX_HISTORY_CHANGES_def Let_def
        split: if_splits)
qed

text \<open>
  The statistics are consistent: familiarity is a fraction between zero and one, the failures
  are at most the failure observations, these at most the module touches, the file touches at most
  the module touches, all at most the included changes, and the failure count is reported exactly
  when there are observations.
\<close>

theorem history_statistics_are_consistent:
  assumes "compute_historical_statistics diff history t author w truncated = Inr h"
  shows "(\<forall>q. hs_ownership_familiarity h = Some q \<longrightarrow> 0 \<le> q \<and> q \<le> 1) \<and>
    (hs_prior_failure_proxy_count h = None \<longleftrightarrow> hs_failure_proxy_observations h = 0) \<and>
    (\<forall>n. hs_prior_failure_proxy_count h = Some n \<longrightarrow> n \<le> hs_failure_proxy_observations h) \<and>
    hs_failure_proxy_observations h \<le> hs_target_module_touches h \<and>
    hs_target_file_touches h \<le> hs_target_module_touches h \<and>
    hs_target_module_touches h \<le> hs_included_changes h \<and>
    hs_included_changes h + hs_excluded_future_changes h \<le> length history"
proof -
  obtain p included n where p: "aware_instant t = Inr p"
    and split: "split_history (p - days w) p history = Inr (included, n)"
    and h: "h = (let ordered = sort_key (\<lambda>c. instant (hc_observed_at c)) included;
             targets = map nf_path (nd_files diff);
             k = fold (count_change targets author) ordered no_counts in
         \<lparr>hs_schema_version = HISTORY_SCHEMA_VERSION, hs_prediction_time = p,
              hs_window_days = w, hs_included_changes = length ordered,
              hs_excluded_future_changes = n, hs_target_file_touches = ht_file_touches k,
              hs_target_module_touches = ht_module_touches k, hs_line_churn = ht_churn k,
              hs_prior_failure_proxy_count =
                (if ht_failure_observations k \<noteq> 0 then Some (ht_failures k) else None),
              hs_failure_proxy_observations = ht_failure_observations k,
              hs_ownership_familiarity =
                (if ht_ownership_observations k \<noteq> 0
                 then Some (rat_of_nat (ht_familiar k) / rat_of_nat (ht_ownership_observations k)) else None),
              hs_missing = history_missing ordered k author truncated, hs_truncated = truncated\<rparr>)"
    using assms by (force simp: compute_historical_statistics_def and_then_Inr Let_def split: if_splits)
  define k where "k = fold (count_change (map nf_path (nd_files diff)) author)
    (sort_key (\<lambda>c. instant (hc_observed_at c)) included) no_counts"
  have "counts_ok 0 no_counts" by (simp add: counts_ok_def no_counts_def)
  from fold_counts_ok [OF this, of "sort_key (\<lambda>c. instant (hc_observed_at c)) included"]
  have k: "counts_ok (length included) k" by (simp add: k_def)
  have "length (filter (visible s q) cs) + length (filter (future q) cs) \<le> length cs" for s q cs
    by (induction cs) (auto simp: visible_def future_def)
  then have "length included + n \<le> length history" using split by (simp add: split_history_Inr)
  moreover have "rat_of_nat (ht_familiar k) / rat_of_nat (ht_ownership_observations k) \<le> 1"
    using k by (simp add: counts_ok_def divide_le_eq)
  ultimately show ?thesis
    using k unfolding h Let_def k_def [symmetric] counts_ok_def by simp
qed

definition sample_history :: "int \<Rightarrow> historical_change" where
  "sample_history t = \<lparr>hc_observed_at = Aware t 0, hc_files = [], hc_author_key = None, hc_failed_check_proxy = None\<rparr>"

definition empty_diff :: normalized_diff where
  "empty_diff = \<lparr>nd_schema_version = DIFF_SCHEMA_VERSION, nd_files = [], nd_total_patch_bytes = 0,
     nd_patch_set_truncated = False, nd_diff_hash = []\<rparr>"

lemma sample_statistics:
  "\<exists>h. compute_historical_statistics empty_diff [sample_history 5] (Aware 10 0) None 1 False = Inr h"
  by (simp add: compute_historical_statistics_def aware_instant_def MAX_HISTORY_CHANGES_def sample_history_def
      days_def Let_def)

theorem history_statistics_are_consistent_witness:
  "\<exists>h. compute_historical_statistics empty_diff [sample_history 5] (Aware 10 0) None 1 False = Inr h \<and>
     hs_target_module_touches h \<le> hs_included_changes h"
  using sample_statistics history_statistics_are_consistent by blast

end
