(* ===== verification/ChangeFeatures.thy ===== *)
theory ChangeFeatures
  imports Complex_Main ChangeGraph ChangeHistory
begin

section \<open>packages/change_intel/features.py and pipeline.py: the feature schema and the analysis\<close>

text \<open>
  The prediction-time features of a change, the risk factors that explain them, and \<open>analyze_change\<close>,
  which runs normalisation, import graph, blast radius, history and features in order. Concentration
  and entropy are computed on the reals; \<open>round8\<close> is \<open>round(x, 8)\<close> and \<open>float_repr\<close> the text of a
  float, parameters as are \<open>isoformat\<close> and the Python parser \<open>parse\<close>.
\<close>

subsection \<open>The schema\<close>

record feature_definition =
  fd_name :: string
  fd_value_type :: string
  fd_default :: pyval
  fd_nullable :: bool
  fd_source :: string

definition feature_definition_as_dict :: "feature_definition \<Rightarrow> pydict" where
  "feature_definition_as_dict d = [
     (''default'', fd_default d),
     (''name'', PyStr (fd_name d)),
     (''nullable'', PyBool (fd_nullable d)),
     (''source'', PyStr (fd_source d)),
     (''value_type'', PyStr (fd_value_type d))]"

definition feature_def :: "string \<Rightarrow> string \<Rightarrow> pyval \<Rightarrow> bool \<Rightarrow> string \<Rightarrow> feature_definition" where
  "feature_def name value_type initial nullable source =
     \<lparr>fd_name = name, fd_value_type = value_type, fd_default = initial, fd_nullable = nullable,
      fd_source = source\<rparr>"

definition FEATURE_DEFINITIONS :: "feature_definition list" where
  "FEATURE_DEFINITIONS = [
     feature_def ''files_changed'' ''integer'' (PyInt 0) False ''snapshot.changed_files'',
     feature_def ''lines_added'' ''integer'' (PyInt 0) False ''snapshot.changed_files'',
     feature_def ''lines_deleted'' ''integer'' (PyInt 0) False ''snapshot.changed_files'',
     feature_def ''python_files_changed'' ''integer'' (PyInt 0) False ''normalized_diff'',
     feature_def ''test_files_changed'' ''integer'' (PyInt 0) False ''normalized_diff'',
     feature_def ''migration_files_changed'' ''integer'' (PyInt 0) False ''normalized_diff'',
     feature_def ''dependency_files_changed'' ''integer'' (PyInt 0) False ''normalized_diff'',
     feature_def ''sensitive_files_changed'' ''integer'' (PyInt 0) False ''normalized_diff'',
     feature_def ''renamed_files'' ''integer'' (PyInt 0) False ''normalized_diff'',
     feature_def ''deleted_files'' ''integer'' (PyInt 0) False ''normalized_diff'',
     feature_def ''binary_files'' ''integer'' (PyInt 0) False ''normalized_diff'',
     feature_def ''generated_files'' ''integer'' (PyInt 0) False ''normalized_diff'',
     feature_def ''vendored_files'' ''integer'' (PyInt 0) False ''normalized_diff'',
     feature_def ''change_concentration'' ''float'' (PyFloat ''0.0'') False ''normalized_diff'',
     feature_def ''change_entropy'' ''float'' (PyFloat ''0.0'') False ''normalized_diff'',
     feature_def ''commit_count'' ''integer'' PyNone True ''snapshot.commit_count'',
     feature_def ''blast_direct_modules'' ''integer'' PyNone True ''python_graph'',
     feature_def ''blast_transitive_modules'' ''integer'' PyNone True ''python_graph'',
     feature_def ''blast_impacted_tests'' ''integer'' PyNone True ''python_graph'',
     feature_def ''blast_max_depth'' ''integer'' PyNone True ''python_graph'',
     feature_def ''historical_file_touches_90d'' ''integer'' PyNone True ''pre_change_history'',
     feature_def ''historical_module_touches_90d'' ''integer'' PyNone True ''pre_change_history'',
     feature_def ''historical_line_churn_90d'' ''integer'' PyNone True ''pre_change_history'',
     feature_def ''prior_failure_proxy_count_90d'' ''integer'' PyNone True ''pre_change_history'',
     feature_def ''ownership_familiarity_90d'' ''float'' PyNone True ''pre_change_history'']"

definition feature_names :: "string list" where
  "feature_names = map fd_name FEATURE_DEFINITIONS"

record feature_set =
  fs_schema_version :: string
  fs_extractor_version :: string
  fs_values :: pydict
  fs_missing :: "(string \<times> string) list"
  fs_provenance :: "(string \<times> string) list"
  fs_feature_hash :: string

definition feature_set_as_dict :: "feature_set \<Rightarrow> pydict" where
  "feature_set_as_dict f = [
     (''extractor_version'', PyStr (fs_extractor_version f)),
     (''feature_hash'', PyStr (fs_feature_hash f)),
     (''missing'', str_dict (fs_missing f)),
     (''provenance'', str_dict (fs_provenance f)),
     (''schema_version'', PyStr (fs_schema_version f)),
     (''values'', PyDict (sorted_items (fs_values f)))]"

subsection \<open>The distribution of the change\<close>

definition log2 :: "real \<Rightarrow> real" where
  "log2 x = ln x / ln 2"

definition change_sizes :: "normalized_diff \<Rightarrow> int list" where
  "change_sizes diff = map (\<lambda>f. nf_additions f + nf_deletions f) (nd_files diff)"

text \<open>\<open>math.log2\<close> of a negative number is a ValueError.\<close>

definition distribution :: "(real \<Rightarrow> real) \<Rightarrow> normalized_diff \<Rightarrow> (real \<times> real) result" where
  "distribution round8 diff =
     (let changes = change_sizes diff; total = sum_list changes in
      if changes = [] \<or> total = 0 then Inr (0, 0)
      else let proportions = map (\<lambda>c. real_of_int c / real_of_int total) (filter (\<lambda>c. c \<noteq> 0) changes);
             concentration = (case proportions of [] \<Rightarrow> 0 | p # ps \<Rightarrow> fold max ps p) in
        if list_ex (\<lambda>p. p < 0) proportions then Inl (ValueError ''math domain error'')
        else Inr (round8 concentration, round8 (- sum_list (map (\<lambda>p. p * log2 p) proportions))))"

subsection \<open>The feature values\<close>

definition value_guard :: "string \<times> pyval \<Rightarrow> exn option" where
  "value_guard item = (case item of (name, value) \<Rightarrow>
     (case find (\<lambda>d. fd_name d = name) FEATURE_DEFINITIONS of
        None \<Rightarrow> Some (KeyError name)
      | Some d \<Rightarrow>
          if value = PyNone
          then raise_if (\<not> fd_nullable d) (ValueError (''feature '' @ name @ '' cannot be null''))
          else first_raise [
            raise_if (fd_value_type d = ''integer'' \<and> (case value of PyInt _ \<Rightarrow> False | _ \<Rightarrow> True))
              (ValueError (''feature '' @ name @ '' must be an integer'')),
            raise_if (fd_value_type d = ''float'' \<and> (case value of PyInt _ \<Rightarrow> False | PyFloat _ \<Rightarrow> False | _ \<Rightarrow> True))
              (ValueError (''feature '' @ name @ '' must be a float''))]))"

definition validate_values :: "pydict \<Rightarrow> exn option" where
  "validate_values values =
     (if \<not> has_exactly values feature_names
      then Some (ValueError ''feature payload does not exactly match schema v1'')
      else first_raise (map value_guard values))"

definition type_count :: "normalized_diff \<Rightarrow> string \<Rightarrow> pyval" where
  "type_count diff t = PyInt (int (length (filter (\<lambda>f. nf_file_type f = t) (nd_files diff))))"

definition files_with :: "normalized_diff \<Rightarrow> (normalized_file \<Rightarrow> bool) \<Rightarrow> pyval" where
  "files_with diff p = PyInt (int (length (filter p (nd_files diff))))"

definition blast_complete :: "blast_radius \<Rightarrow> bool" where
  "blast_complete b = (br_available b \<and> br_missing_changed_paths b = [] \<and> \<not> br_truncated b)"

definition history_available :: "historical_statistics \<Rightarrow> bool" where
  "history_available h = (''repository_history'' \<notin> set (hs_missing h))"

definition when_known :: "bool \<Rightarrow> pyval \<Rightarrow> pyval" where
  "when_known b v = (if b then v else PyNone)"

definition feature_values ::
  "(real \<Rightarrow> string) \<Rightarrow> normalized_diff \<Rightarrow> blast_radius \<Rightarrow> historical_statistics \<Rightarrow> int option \<Rightarrow> real \<times> real \<Rightarrow> pydict"
where
  "feature_values float_repr diff blast history commit_count spread = [
     (''binary_files'', type_count diff ''binary''),
     (''blast_direct_modules'', when_known (blast_complete blast) (PyInt (int (length (br_direct_modules blast))))),
     (''blast_impacted_tests'', when_known (blast_complete blast) (PyInt (int (length (br_impacted_tests blast))))),
     (''blast_max_depth'', when_known (blast_complete blast) (opt_nat (br_max_depth blast))),
     (''blast_transitive_modules'',
        when_known (blast_complete blast) (PyInt (int (length (br_transitive_modules blast))))),
     (''change_concentration'', PyFloat (float_repr (fst spread))),
     (''change_entropy'', PyFloat (float_repr (snd spread))),
     (''commit_count'', opt_int commit_count),
     (''deleted_files'', files_with diff (\<lambda>f. nf_status f = ''removed'')),
     (''dependency_files_changed'', type_count diff ''dependency''),
     (''files_changed'', PyInt (int (length (nd_files diff)))),
     (''generated_files'', type_count diff ''generated''),
     (''historical_file_touches_90d'',
        when_known (history_available history) (PyInt (int (hs_target_file_touches history)))),
     (''historical_line_churn_90d'', when_known (history_available history) (PyInt (hs_line_churn history))),
     (''historical_module_touches_90d'',
        when_known (history_available history) (PyInt (int (hs_target_module_touches history)))),
     (''lines_added'', PyInt (sum_list (map nf_additions (nd_files diff)))),
     (''lines_deleted'', PyInt (sum_list (map nf_deletions (nd_files diff)))),
     (''migration_files_changed'', type_count diff ''migration''),
     (''ownership_familiarity_90d'', opt_float (float_repr \<circ> of_rat) (hs_ownership_familiarity history)),
     (''prior_failure_proxy_count_90d'', opt_nat (hs_prior_failure_proxy_count history)),
     (''python_files_changed'', files_with diff (\<lambda>f. nf_language f = ''python'')),
     (''renamed_files'', files_with diff (\<lambda>f. nf_status f = ''renamed'')),
     (''sensitive_files_changed'', files_with diff (\<lambda>f. nf_sensitive_tags f \<noteq> [])),
     (''test_files_changed'', type_count diff ''test''),
     (''vendored_files'', type_count diff ''vendored'')]"

definition feature_missing :: "blast_radius \<Rightarrow> historical_statistics \<Rightarrow> int option \<Rightarrow> (string \<times> string) list" where
  "feature_missing blast history commit_count =
     (if commit_count = None
      then [(''commit_count'', ''snapshot did not provide a bounded commit count'')] else []) @
     (if \<not> blast_complete blast
      then map (\<lambda>n. (n, if \<not> br_available blast
             then ''base source tree was unavailable for static graph analysis''
             else ''static graph coverage was partial or bounded''))
        [''blast_direct_modules'', ''blast_impacted_tests'', ''blast_max_depth'', ''blast_transitive_modules'']
      else []) @
     (if \<not> history_available history
      then map (\<lambda>n. (n, ''no repository history existed before prediction time''))
        [''historical_file_touches_90d'', ''historical_line_churn_90d'', ''historical_module_touches_90d'']
      else []) @
     (if hs_prior_failure_proxy_count history = None
      then [(''prior_failure_proxy_count_90d'', ''no pre-change check proxy observations'')] else []) @
     (if hs_ownership_familiarity history = None
      then [(''ownership_familiarity_90d'', ''opaque author/history coverage unavailable'')] else [])"

definition feature_provenance :: "(string \<times> string) list" where
  "feature_provenance = map (\<lambda>d. (fd_name d, fd_source d)) FEATURE_DEFINITIONS"

definition feature_payload :: "pydict \<Rightarrow> (string \<times> string) list \<Rightarrow> pydict" where
  "feature_payload values missing = [
     (''definitions'', PyList (map (\<lambda>d. PyDict (feature_definition_as_dict d)) FEATURE_DEFINITIONS)),
     (''extractor_version'', PyStr EXTRACTOR_VERSION),
     (''missing'', str_dict missing),
     (''provenance'', str_dict feature_provenance),
     (''schema_version'', PyStr FEATURE_SCHEMA_VERSION),
     (''values'', PyDict (sorted_items values))]"

definition extract_feature_set ::
  "(real \<Rightarrow> string) \<Rightarrow> (real \<Rightarrow> real) \<Rightarrow> normalized_diff \<Rightarrow> blast_radius \<Rightarrow> historical_statistics \<Rightarrow> int option \<Rightarrow>
   feature_set result" where
  "extract_feature_set float_repr round8 diff blast history commit_count =
     (if (case commit_count of None \<Rightarrow> False | Some c \<Rightarrow> c < 1 \<or> c > 10000)
      then Inl (ValueError ''commit_count must be between 1 and 10000'')
      else and_then (distribution round8 diff) (\<lambda>spread.
        let values = feature_values float_repr diff blast history commit_count spread;
            missing = feature_missing blast history commit_count in
        case validate_values values of
          Some e \<Rightarrow> Inl e
        | None \<Rightarrow> Inr \<lparr>fs_schema_version = FEATURE_SCHEMA_VERSION, fs_extractor_version = EXTRACTOR_VERSION,
            fs_values = values, fs_missing = missing, fs_provenance = feature_provenance,
            fs_feature_hash = canonical_hash (PyDict (feature_payload values missing))\<rparr>))"

subsection \<open>Risk factors\<close>

record risk_factor =
  rk_rule_id :: string
  rk_title :: string
  rk_value :: pyval
  rk_reason :: string
  rk_source_refs :: "string list"
  rk_missing :: bool

definition risk_factor_as_dict :: "risk_factor \<Rightarrow> pydict" where
  "risk_factor_as_dict r = [
     (''missing'', PyBool (rk_missing r)),
     (''reason'', PyStr (rk_reason r)),
     (''rule_id'', PyStr (rk_rule_id r)),
     (''source_refs'', strs (rk_source_refs r)),
     (''title'', PyStr (rk_title r)),
     (''value'', rk_value r)]"

text \<open>\<open>str.title\<close> on the ASCII feature names: a letter is raised when no letter precedes it.\<close>

fun title_case :: "bool \<Rightarrow> string \<Rightarrow> string" where
  "title_case after_letter [] = []"
| "title_case after_letter (c # s) =
     (if 97 \<le> code c \<and> code c \<le> 122 then (if after_letter then c else char_of (code c - 32)) # title_case True s
      else if 65 \<le> code c \<and> code c \<le> 90 then (if after_letter then char_of (code c + 32) else c) # title_case True s
      else c # title_case False s)"

definition bounded_title :: "string \<Rightarrow> string \<Rightarrow> string" where
  "bounded_title prefix value =
     (let combined = prefix @ value in if length combined \<le> 256 then combined else take 253 combined @ ''...'')"

definition feature_factor :: "feature_set \<Rightarrow> feature_definition \<Rightarrow> risk_factor result" where
  "feature_factor features d =
     and_then (get_item (fs_values features) (fd_name d)) (\<lambda>value.
       let reason = map_of (fs_missing features) (fd_name d) in
       Inr \<lparr>rk_rule_id = EVIDENCE_SCHEMA_VERSION @ ''.feature.'' @ fd_name d,
            rk_title = title_case False (replace_char (CHR ''_'') (CHR '' '') (fd_name d)),
            rk_value = value,
            rk_reason = (if reason = None \<or> reason = Some []
              then ''Deterministic value from '' @ fd_source d @ ''.'' else the reason),
            rk_source_refs = [fd_source d],
            rk_missing = (reason \<noteq> None)\<rparr>)"

definition file_factor :: "normalized_file \<Rightarrow> risk_factor" where
  "file_factor f =
     \<lparr>rk_rule_id = EVIDENCE_SCHEMA_VERSION @ ''.changed_file'',
      rk_title = bounded_title ''Changed file: '' (nf_path f),
      rk_value = PyDict [(''additions'', PyInt (nf_additions f)), (''deletions'', PyInt (nf_deletions f)),
        (''file_type'', PyStr (nf_file_type f)), (''language'', PyStr (nf_language f)),
        (''status'', PyStr (nf_status f))],
      rk_reason = ''Normalized immutable snapshot fact.'',
      rk_source_refs = [''snapshot.changed_files:'' @ nf_path f], rk_missing = False\<rparr>"

definition path_factor :: "blast_path \<Rightarrow> risk_factor" where
  "path_factor p =
     \<lparr>rk_rule_id = EVIDENCE_SCHEMA_VERSION @ ''.blast_path'',
      rk_title = bounded_title ''Affected module: '' (bp_affected_module p),
      rk_value = PyDict (blast_path_as_dict p),
      rk_reason = ''Static reverse-import reachability; not a dynamic call graph.'',
      rk_source_refs = map (\<lambda>m. ''python_module:'' @ m) (bp_modules p), rk_missing = False\<rparr>"

definition missing_paths_factor :: "string list \<Rightarrow> risk_factor" where
  "missing_paths_factor paths =
     \<lparr>rk_rule_id = EVIDENCE_SCHEMA_VERSION @ ''.graph_missing_paths'',
      rk_title = ''Files outside the supported Python graph'',
      rk_value = PyDict [(''paths'', strs paths)],
      rk_reason = ''No supported Python module node was available for these changed paths.'',
      rk_source_refs = map (\<lambda>p. ''snapshot.changed_files:'' @ p) paths, rk_missing = True\<rparr>"

definition render_risk_factors :: "normalized_diff \<Rightarrow> blast_radius \<Rightarrow> feature_set \<Rightarrow> risk_factor list result" where
  "render_risk_factors diff blast features =
     and_then (map_raise (feature_factor features) FEATURE_DEFINITIONS) (\<lambda>factors.
       Inr (factors @ map file_factor (nd_files diff) @ map path_factor (br_evidence_paths blast) @
         (if br_missing_changed_paths blast \<noteq> [] then [missing_paths_factor (br_missing_changed_paths blast)]
          else [])))"

subsection \<open>pipeline.py\<close>

record change_result =
  ci_normalized_diff :: normalized_diff
  ci_graph :: import_graph
  ci_blast_radius :: blast_radius
  ci_history :: historical_statistics
  ci_features :: feature_set
  ci_risk_factors :: "risk_factor list"
  ci_result_hash :: string

definition change_payload ::
  "(real \<Rightarrow> string) \<Rightarrow> (datetime \<Rightarrow> string) \<Rightarrow> normalized_diff \<Rightarrow> import_graph \<Rightarrow> blast_radius \<Rightarrow>
   historical_statistics \<Rightarrow> feature_set \<Rightarrow> risk_factor list \<Rightarrow> pydict" where
  "change_payload float_repr isoformat diff graph blast history features factors = [
     (''blast_radius'', PyDict (blast_radius_as_dict blast)),
     (''features'', PyDict (feature_set_as_dict features)),
     (''graph'', PyDict (import_graph_as_dict graph)),
     (''history'', PyDict (historical_statistics_as_dict (float_repr \<circ> of_rat) isoformat history)),
     (''normalized_diff'', PyDict (normalized_diff_as_dict diff)),
     (''risk_factors'', PyList (map (\<lambda>r. PyDict (risk_factor_as_dict r)) factors))]"

definition change_result_as_dict :: "(real \<Rightarrow> string) \<Rightarrow> (datetime \<Rightarrow> string) \<Rightarrow> change_result \<Rightarrow> pydict" where
  "change_result_as_dict float_repr isoformat r = [
     (''blast_radius'', PyDict (blast_radius_as_dict (ci_blast_radius r))),
     (''features'', PyDict (feature_set_as_dict (ci_features r))),
     (''graph'', PyDict (import_graph_as_dict (ci_graph r))),
     (''history'', PyDict (historical_statistics_as_dict (float_repr \<circ> of_rat) isoformat (ci_history r))),
     (''normalized_diff'', PyDict (normalized_diff_as_dict (ci_normalized_diff r))),
     (''result_hash'', PyStr (ci_result_hash r)),
     (''risk_factors'', PyList (map (\<lambda>f. PyDict (risk_factor_as_dict f)) (ci_risk_factors r)))]"

definition source_graph :: "(string \<Rightarrow> string \<Rightarrow> py_node list option) \<Rightarrow> source_tree option \<Rightarrow> import_graph result" where
  "source_graph parse source_tree = (case source_tree of
      Some tree \<Rightarrow> build_python_import_graph parse tree
    | None \<Rightarrow> Inr (unavailable_graph ''source_tree_unavailable''))"

definition analyze_change ::
  "(real \<Rightarrow> string) \<Rightarrow> (real \<Rightarrow> real) \<Rightarrow> (datetime \<Rightarrow> string) \<Rightarrow> (string \<Rightarrow> string \<Rightarrow> py_node list option) \<Rightarrow>
   raw_changed_file list \<Rightarrow> datetime \<Rightarrow> historical_change list \<Rightarrow> source_tree option \<Rightarrow> string option \<Rightarrow>
   int option \<Rightarrow> bool \<Rightarrow> change_result result" where
  "analyze_change float_repr round8 isoformat parse changed_files prediction_time history source_tree author
     commit_count truncated =
     and_then (normalize_diff changed_files) (\<lambda>diff.
     and_then (source_graph parse source_tree) (\<lambda>graph.
     and_then (compute_blast_radius diff graph DEFAULT_BLAST_DEPTH) (\<lambda>blast.
     and_then (compute_historical_statistics diff history prediction_time author DEFAULT_HISTORY_WINDOW_DAYS
         truncated) (\<lambda>statistics.
     and_then (extract_feature_set float_repr round8 diff blast statistics commit_count) (\<lambda>features.
     and_then (render_risk_factors diff blast features) (\<lambda>factors.
       Inr \<lparr>ci_normalized_diff = diff, ci_graph = graph, ci_blast_radius = blast, ci_history = statistics,
            ci_features = features, ci_risk_factors = factors,
            ci_result_hash = canonical_hash (PyDict
              (change_payload float_repr isoformat diff graph blast statistics features factors))\<rparr>))))))"

end
