(* ===== verification/DatasetSplits.thy ===== *)
theory DatasetSplits
  imports DatasetContracts ChangeFeatures
begin

section \<open>packages/dataset_core/labels.py and splits.py: proxy labels, temporal splits, leakage checks\<close>

text \<open>
  Labels come from an observation that closes inside a complete window; rows are assigned to a split
  by prediction time; \<open>run_leakage_checks\<close> collects every violation in order and fails closed.
\<close>

subsection \<open>Labels\<close>

definition POSITIVE_KINDS :: "proxy_outcome_kind list" where
  "POSITIVE_KINDS = [EXPLICIT_REVERT, P_HOTFIX, RAPID_FOLLOWUP_FIX, FAILED_REQUIRED_CHECK]"

definition KNOWN_LABEL_WEAKNESSES :: "string list" where
  "KNOWN_LABEL_WEAKNESSES = [
     ''A revert, hotfix, rapid follow-up fix or required-check failure is a proxy, not proof of a production incident.'',
     ''No observed proxy after a complete window is not proof that a change was defect-free.'',
     ''Repository practices affect which proxy outcomes are recorded and can bias comparisons.'',
     ''The synthetic fixture measures pipeline behavior only and cannot estimate customer performance.'']"

definition assignment ::
  "proxy_label \<Rightarrow> string \<Rightarrow> string \<Rightarrow> proxy_outcome_kind option \<Rightarrow> datetime option \<Rightarrow> string list \<Rightarrow> label_assignment"
where
  "assignment label rule reason kind observed refs =
     \<lparr>la_label = label, la_rule_id = LABEL_RULE_VERSION @ ''.'' @ rule, la_reason = reason,
      la_outcome_kind = kind, la_observed_at = observed, la_evidence_refs = refs\<rparr>"

definition window_end :: "extracted_snapshot \<Rightarrow> source_admission \<Rightarrow> datetime" where
  "window_end snapshot admission =
     plus_duration (xs_prediction_time snapshot) (days (sa_observation_window_days admission))"

text \<open>The rules for an outcome with an observation time, in order.\<close>

definition label_observed ::
  "extracted_snapshot \<Rightarrow> source_admission \<Rightarrow> outcome_observation \<Rightarrow> datetime \<Rightarrow> label_assignment result" where
  "label_observed snapshot admission outcome observed =
     and_then (earlier observed (xs_prediction_time snapshot)) (\<lambda>predates.
     if predates then Inl (ValueError ''outcome observation predates the prediction timestamp'')
     else and_then (earlier (sa_as_of admission) observed) (\<lambda>exceeds.
     if exceeds then Inl (ValueError ''outcome observation exceeds the admitted as_of cutoff'')
     else and_then (earlier (window_end snapshot admission) observed) (\<lambda>outside.
     if outside then Inr (assignment LABEL_UNKNOWN ''outside_window''
       ''Outcome evidence occurred after the declared observation window.''
       (Some (oo_kind outcome)) (Some observed) (oo_evidence_refs outcome))
     else if oo_kind outcome \<in> set POSITIVE_KINDS
     then Inr (assignment POSITIVE (proxy_outcome_kind_value (oo_kind outcome))
       (''Observed '' @ proxy_outcome_kind_value (oo_kind outcome) @
        '' within the complete proxy window; this is not an incident label.'')
       (Some (oo_kind outcome)) (Some observed) (oo_evidence_refs outcome))
     else if oo_kind outcome = NO_PROXY_OBSERVED
     then if \<not> same_time observed (window_end snapshot admission)
       then Inl (ValueError ''negative proxy observation must close the complete observation window'')
       else Inr (assignment NEGATIVE ''no_proxy_observed''
         ''No configured positive proxy was observed during the complete window; this is not proof of safety.''
         (Some (oo_kind outcome)) (Some observed) (oo_evidence_refs outcome))
     else Inl (ValueError ''outcome kind is not handled by proxy-label rule v1''))))"

definition assign_proxy_label :: "extracted_snapshot \<Rightarrow> source_admission \<Rightarrow> label_assignment result" where
  "assign_proxy_label snapshot admission =
     and_then (earlier (sa_as_of admission) (window_end snapshot admission)) (\<lambda>incomplete.
     if incomplete then Inr (assignment LABEL_UNKNOWN ''incomplete_window''
       ''Required outcome-observation window was incomplete at the admitted as_of cutoff.''
       (map_option oo_kind (xs_outcome snapshot)) (Option.bind (xs_outcome snapshot) oo_observed_at)
       (case xs_outcome snapshot of None \<Rightarrow> [] | Some outcome \<Rightarrow> oo_evidence_refs outcome))
     else (case xs_outcome snapshot of
       None \<Rightarrow> Inr (assignment LABEL_UNKNOWN ''missing_outcome''
         ''No auditable proxy-outcome observation was supplied.'' None None [])
     | Some outcome \<Rightarrow>
         if oo_kind outcome = AMBIGUOUS then Inr (assignment LABEL_UNKNOWN ''ambiguous''
           ''Outcome evidence was explicitly ambiguous and remains unknown.''
           (Some (oo_kind outcome)) (oo_observed_at outcome) (oo_evidence_refs outcome))
         else (case oo_observed_at outcome of
             None \<Rightarrow> Inr (assignment LABEL_UNKNOWN ''missing_observation_time''
               ''Outcome evidence lacked an observation timestamp.''
               (Some (oo_kind outcome)) None (oo_evidence_refs outcome))
           | Some observed \<Rightarrow> label_observed snapshot admission outcome observed)))"

subsection \<open>Temporal splits\<close>

definition LEAKAGE_REPORT_SCHEMA_VERSION :: string where
  "LEAKAGE_REPORT_SCHEMA_VERSION = ''leakage-report-v1''"

definition BANNED_PREDICTOR_TOKENS :: "string list" where
  "BANNED_PREDICTOR_TOKENS = [''author_key'', ''incident'', ''label'', ''outcome'', ''revert'', ''rollback'']"

record split_policy =
  sp_train_before :: datetime
  sp_validation_before :: datetime
  sp_test_before :: datetime
  sp_version :: string

definition split_policy_post_init :: "split_policy \<Rightarrow> exn option" where
  "split_policy_post_init p = first_raise [
     require_aware (sp_train_before p) ''train_before'',
     require_aware (sp_validation_before p) ''validation_before'',
     require_aware (sp_test_before p) ''test_before'',
     raise_if (\<not> (instant (sp_train_before p) < instant (sp_validation_before p) \<and>
         instant (sp_validation_before p) < instant (sp_test_before p)))
       (ValueError ''temporal split boundaries must be strictly increasing''),
     raise_if (sp_version p \<noteq> SPLIT_RULE_VERSION) (ValueError ''temporal split policy version is incompatible'')]"

definition assign_split :: "split_policy \<Rightarrow> datetime \<Rightarrow> proxy_label \<Rightarrow> dataset_split result" where
  "assign_split p prediction_time label =
     (if \<not> is_aware prediction_time then Inl (ValueError ''prediction_time must be timezone-aware'')
      else if label = LABEL_UNKNOWN then Inr EXCLUDED
      else and_then (earlier prediction_time (sp_train_before p)) (\<lambda>train. if train then Inr TRAIN
      else and_then (earlier prediction_time (sp_validation_before p)) (\<lambda>validation. if validation then Inr VALIDATION
      else and_then (earlier prediction_time (sp_test_before p)) (\<lambda>test. if test then Inr TEST
      else Inr EXCLUDED))))"

definition split_policy_as_dict :: "(datetime \<Rightarrow> string) \<Rightarrow> split_policy \<Rightarrow> pydict" where
  "split_policy_as_dict isoformat p = [
     (''mode'', PyStr ''temporal''),
     (''test_before'', PyStr (isoformat (sp_test_before p))),
     (''train_before'', PyStr (isoformat (sp_train_before p))),
     (''validation_before'', PyStr (isoformat (sp_validation_before p))),
     (''version'', PyStr (sp_version p))]"

definition split_assignment_hash :: "feature_row list \<Rightarrow> string" where
  "split_assignment_hash rows = canonical_hash (PyDict (dict_of
     (map (\<lambda>r. (fr_snapshot_id r, PyStr (dataset_split_value (fr_split r)))) (sort_key fr_snapshot_id rows))))"

subsection \<open>Leakage checks\<close>

text \<open>The fingerprints are text in the record, so the TypeError of the source has no branch.\<close>

definition included_rows :: "feature_row list \<Rightarrow> feature_row list" where
  "included_rows rows = filter (\<lambda>r. fr_split r \<noteq> EXCLUDED) rows"

definition locations :: "(feature_row \<Rightarrow> string) \<Rightarrow> feature_row list \<Rightarrow> string \<Rightarrow> dataset_split list" where
  "locations attribute rows value =
     remdups (map fr_split (filter (\<lambda>r. attribute r = value) (included_rows rows)))"

definition cross_split_duplicates :: "feature_row list \<Rightarrow> (feature_row \<Rightarrow> string) \<Rightarrow> string list" where
  "cross_split_duplicates rows attribute =
     sorted_set (filter (\<lambda>v. length (locations attribute rows v) > 1) (map attribute (included_rows rows)))"

definition predictor_text :: "feature_row \<Rightarrow> string" where
  "predictor_text r = casefold (join '' '' (keys (fr_feature_values r) @ keys (fr_feature_provenance r) @
     map snd (fr_feature_provenance r)))"

definition violation_if :: "bool \<Rightarrow> string \<Rightarrow> string list" where
  "violation_if b violation = (if b then [violation] else [])"

definition observed_too_early :: "feature_row \<Rightarrow> bool result" where
  "observed_too_early r = (case la_observed_at (fr_label r) of
      None \<Rightarrow> Inr True
    | Some observed \<Rightarrow> earlier observed (fr_prediction_time r))"

definition row_violations :: "split_policy \<Rightarrow> feature_row \<Rightarrow> string list result" where
  "row_violations policy r =
     and_then (assign_split policy (fr_prediction_time r) (la_label (fr_label r))) (\<lambda>expected.
     and_then (if la_label (fr_label r) \<noteq> LABEL_UNKNOWN then observed_too_early r else Inr False) (\<lambda>early.
       Inr (
         violation_if (fr_split r \<noteq> expected) (''split_assignment:'' @ fr_snapshot_id r) @
         violation_if (fr_feature_schema_version r \<noteq> FEATURE_SCHEMA_VERSION) (''feature_schema:'' @ fr_snapshot_id r) @
         violation_if (\<not> has_exactly (fr_feature_values r) feature_names) (''feature_shape:'' @ fr_snapshot_id r) @
         violation_if (list_ex (\<lambda>token. contains (predictor_text r) token) BANNED_PREDICTOR_TOKENS)
           (''outcome_predictor:'' @ fr_snapshot_id r) @
         (if la_label (fr_label r) \<noteq> LABEL_UNKNOWN
          then violation_if early (''future_information:'' @ fr_snapshot_id r)
          else violation_if (fr_split r \<noteq> EXCLUDED) (''unknown_not_excluded:'' @ fr_snapshot_id r)))))"

definition fingerprint_checks :: "(string \<times> (feature_row \<Rightarrow> string)) list" where
  "fingerprint_checks = [(''head_sha_cross_split'', fr_head_sha), (''diff_hash_cross_split'', fr_diff_hash),
     (''near_duplicate_cross_split'', fr_near_duplicate_hash), (''row_hash_cross_split'', fr_row_hash)]"

definition duplicate_violations :: "feature_row list \<Rightarrow> string list" where
  "duplicate_violations rows = concat (map (\<lambda>(check, attribute).
     map (\<lambda>v. check @ '':'' @ v) (cross_split_duplicates rows attribute)) fingerprint_checks)"

definition PASSED_CHECKS :: "string list" where
  "PASSED_CHECKS = [''prediction_time_only_features'', ''no_author_identity_predictor'',
     ''no_outcome_derived_predictor'', ''complete_observation_before_inclusion'', ''fixed_temporal_assignment'',
     ''no_head_sha_across_splits'', ''no_diff_hash_across_splits'', ''no_near_duplicate_across_splits'',
     ''exact_feature_schema'']"

definition leakage_report_of :: "string list \<Rightarrow> leakage_report" where
  "leakage_report_of violations =
     (let passed = (if violations = [] then PASSED_CHECKS else []) in
      \<lparr>lr_schema_version = LEAKAGE_REPORT_SCHEMA_VERSION, lr_passed_checks = passed,
       lr_violations = sort violations,
       lr_report_hash = canonical_hash (PyDict [
         (''passed_checks'', strs passed),
         (''schema_version'', PyStr LEAKAGE_REPORT_SCHEMA_VERSION),
         (''violations'', strs (sort violations))])\<rparr>)"

definition run_leakage_checks :: "feature_row list \<Rightarrow> split_policy \<Rightarrow> leakage_report result" where
  "run_leakage_checks rows policy =
     and_then (map_raise (row_violations policy) rows) (\<lambda>per_row.
       let report = leakage_report_of (concat per_row @ duplicate_violations rows) in
       if lr_violations report \<noteq> []
       then Inl (LeakageError (''dataset leakage checks failed: '' @ join '', '' (lr_violations report)))
       else Inr report)"

end
