(* ===== verification/PyText.thy ===== *)
theory PyText
  imports ChangeContracts
begin

section \<open>Python text: character classes, lines and regular expressions\<close>

text \<open>
  The classes of \<open>re\<close> and \<open>str\<close> on code points below U+0100, \<open>str.strip\<close>, \<open>str.splitlines\<close> and the
  fragment of the \<open>re\<close> module the program uses: sequences, ordered alternatives, greedy and lazy
  repetition of a character class, and the word boundary. \<open>match_lengths\<close> lists the lengths a
  backtracking matcher tries, in its order, so the first one is what \<open>re\<close> returns.
\<close>

subsection \<open>Character classes\<close>

definition is_space :: "char \<Rightarrow> bool" where
  "is_space c = (let n = code c in 9 \<le> n \<and> n \<le> 13 \<or> 28 \<le> n \<and> n \<le> 32 \<or> n = 133 \<or> n = 160)"

definition is_digit :: "char \<Rightarrow> bool" where
  "is_digit c = (48 \<le> code c \<and> code c \<le> 57)"

definition is_letter :: "char \<Rightarrow> bool" where
  "is_letter c = (65 \<le> code c \<and> code c \<le> 90 \<or> 97 \<le> code c \<and> code c \<le> 122)"

definition is_word :: "char \<Rightarrow> bool" where
  "is_word c = (let n = code c in is_letter c \<or> is_digit c \<or> n = 95 \<or>
     n = 170 \<or> n = 178 \<or> n = 179 \<or> n = 181 \<or> n = 185 \<or> n = 186 \<or> 188 \<le> n \<and> n \<le> 190 \<or>
     192 \<le> n \<and> n \<noteq> 215 \<and> n \<noteq> 247)"

definition strip_space :: "string \<Rightarrow> string" where
  "strip_space s = rev (dropWhile is_space (rev (dropWhile is_space s)))"

definition rstrip_space :: "string \<Rightarrow> string" where
  "rstrip_space s = rev (dropWhile is_space (rev s))"

subsection \<open>Lines\<close>

definition is_line_end :: "char \<Rightarrow> bool" where
  "is_line_end c = (let n = code c in 10 \<le> n \<and> n \<le> 13 \<or> 28 \<le> n \<and> n \<le> 30 \<or> n = 133)"

text \<open>\<open>splitlines\<close>: a trailing line end opens no further line, and CR LF is one line end.\<close>

function split_lines :: "string \<Rightarrow> string list" where
  "split_lines s = (if s = [] then []
     else let line = takeWhile (\<lambda>c. \<not> is_line_end c) s; rest = drop (length line) s in
       line # (case rest of
           [] \<Rightarrow> []
         | [_] \<Rightarrow> []
         | c # d # cs \<Rightarrow> if code c = 13 \<and> code d = 10 then split_lines cs else split_lines (d # cs)))"
  by pat_completeness auto

termination split_lines
proof (relation "measure length")
  fix s line rest :: string and c :: char and ds :: string and d :: char and cs :: string
  assume "s \<noteq> []" "line = takeWhile (\<lambda>c. \<not> is_line_end c) s" "rest = drop (length line) s"
    and c: "rest = c # ds" "ds = d # cs"
  have "length rest \<le> length s" by (simp add: \<open>rest = drop (length line) s\<close>)
  then show "(cs, s) \<in> measure length" using c by simp
next
  fix s line rest :: string and c :: char and ds :: string and d :: char and cs :: string
  assume "s \<noteq> []" "line = takeWhile (\<lambda>c. \<not> is_line_end c) s" "rest = drop (length line) s"
    and c: "rest = c # ds" "ds = d # cs"
  have "length rest \<le> length s" by (simp add: \<open>rest = drop (length line) s\<close>)
  then show "(d # cs, s) \<in> measure length" using c by simp
qed simp

declare split_lines.simps [simp del]

subsection \<open>Regular expressions\<close>

datatype regex =
    Eps
  | Chars "char \<Rightarrow> bool"
  | Seq regex regex
  | Alt regex regex
  | Rep bool nat "char \<Rightarrow> bool"
  | Edge

definition literal :: "string \<Rightarrow> regex" where
  "literal s = foldr (\<lambda>c r. Seq (Chars (\<lambda>d. d = c)) r) s Eps"

text \<open>A literal under \<open>(?i)\<close>.\<close>

definition lower :: "char \<Rightarrow> char" where
  "lower c = (if 65 \<le> code c \<and> code c \<le> 90 then char_of (code c + 32) else c)"

definition literal_i :: "string \<Rightarrow> regex" where
  "literal_i s = foldr (\<lambda>c r. Seq (Chars (\<lambda>d. lower d = c)) r) s Eps"

definition alternatives :: "regex list \<Rightarrow> regex" where
  "alternatives rs = foldr Alt (butlast rs) (last rs)"

definition sequence :: "regex list \<Rightarrow> regex" where
  "sequence rs = foldr Seq rs Eps"

definition before_char :: "char option \<Rightarrow> bool" where
  "before_char p = (case p of None \<Rightarrow> False | Some c \<Rightarrow> is_word c)"

definition next_char :: "string \<Rightarrow> char option" where
  "next_char s = (case s of [] \<Rightarrow> None | c # _ \<Rightarrow> Some c)"

definition last_char :: "char option \<Rightarrow> string \<Rightarrow> char option" where
  "last_char p s = (if s = [] then p else Some (last s))"

fun match_lengths :: "regex \<Rightarrow> char option \<Rightarrow> string \<Rightarrow> nat list" where
  "match_lengths Eps p s = [0]"
| "match_lengths (Chars f) p s = (case s of [] \<Rightarrow> [] | c # _ \<Rightarrow> if f c then [1] else [])"
| "match_lengths (Seq r q) p s =
     concat (map (\<lambda>n. map ((+) n) (match_lengths q (last_char p (take n s)) (drop n s))) (match_lengths r p s))"
| "match_lengths (Alt r q) p s = match_lengths r p s @ match_lengths q p s"
| "match_lengths (Rep greedy m f) p s =
     (let ns = [m..<Suc (length (takeWhile f s))] in if greedy then rev ns else ns)"
| "match_lengths Edge p s = (if before_char p \<noteq> before_char (next_char s) then [0] else [])"

text \<open>\<open>pattern.sub(replacement, s)\<close> for patterns that match no empty string.\<close>

function re_sub :: "regex \<Rightarrow> string \<Rightarrow> char option \<Rightarrow> string \<Rightarrow> string" where
  "re_sub r new p s = (case s of
      [] \<Rightarrow> []
    | c # cs \<Rightarrow> (case match_lengths r p s of
        [] \<Rightarrow> c # re_sub r new (Some c) cs
      | n # _ \<Rightarrow> if n = 0 then c # re_sub r new (Some c) cs
          else new @ re_sub r new (last_char p (take n s)) (drop n s)))"
  by pat_completeness auto

termination by (relation "measure (\<lambda>(r, new, p, s). length s)") auto

declare re_sub.simps [simp del]

lemma match_lengths_bound: "n \<in> set (match_lengths r p s) \<Longrightarrow> n \<le> length s"
proof (induction r arbitrary: p s n)
  case (Seq r q)
  then obtain k m where "k \<in> set (match_lengths r p s)" "m \<in> set (match_lengths q (last_char p (take k s)) (drop k s))"
    "n = k + m" by auto
  with Seq.IH show ?case by fastforce
next
  case (Rep greedy m f)
  then show ?case using length_takeWhile_le [of f s] by (auto simp: Let_def split: if_splits)
qed (auto split: list.splits if_splits)

end
