(* ===== verification/DatasetMaterialize.thy ===== *)
theory DatasetMaterialize
  imports DatasetSplits PyText
begin

section \<open>packages/dataset_core/materialize.py: rows and manifest of a dataset\<close>

text \<open>
  Every admitted snapshot is analysed with no history and no source tree, labelled, assigned to a
  split and hashed; the leakage checks must pass before a manifest exists. The parameters are those of
  \<open>analyze_change\<close>, gathered in a record.
\<close>

definition EXTRACTION_SCHEMA_VERSION :: string where
  "EXTRACTION_SCHEMA_VERSION = ''fixture-extraction-v1''"

definition MATERIALIZATION_VERSION :: string where
  "MATERIALIZATION_VERSION = ''feature-materialization-v1''"

definition DATASET_MANIFEST_SCHEMA_VERSION :: string where
  "DATASET_MANIFEST_SCHEMA_VERSION = ''dataset-manifest-v1''"

record text_services =
  ts_float_repr :: "real \<Rightarrow> string"
  ts_round8 :: "real \<Rightarrow> real"
  ts_isoformat :: "datetime \<Rightarrow> string"
  ts_parse :: "string \<Rightarrow> string \<Rightarrow> py_node list option"

subsection \<open>The near-duplicate skeleton\<close>

text \<open>\<open>findall\<close> of a run of ASCII letters and underscores, a run of digits, or one mark.\<close>

function patch_tokens :: "string \<Rightarrow> string list" where
  "patch_tokens s = (case s of
      [] \<Rightarrow> []
    | c # cs \<Rightarrow>
        if is_letter c \<or> c = CHR ''_''
        then casefold (takeWhile (\<lambda>d. is_letter d \<or> d = CHR ''_'') s) #
          patch_tokens (dropWhile (\<lambda>d. is_letter d \<or> d = CHR ''_'') cs)
        else if is_digit c then ''<number>'' # patch_tokens (dropWhile is_digit cs)
        else if \<not> is_word c \<and> \<not> is_space c then casefold [c] # patch_tokens cs
        else patch_tokens cs)"
  by pat_completeness auto

termination by (relation "measure length") (auto simp: le_imp_less_Suc length_dropWhile_le)

declare patch_tokens.simps [simp del]

definition skeleton_file :: "normalized_file \<Rightarrow> pyval" where
  "skeleton_file f = PyDict [
     (''file_type'', PyStr (nf_file_type f)),
     (''language'', PyStr (nf_language f)),
     (''patch_tokens'', strs (patch_tokens (case nf_patch f of None \<Rightarrow> [] | Some p \<Rightarrow> p))),
     (''status'', PyStr (nf_status f))]"

definition near_duplicate_hash :: "normalized_diff \<Rightarrow> string" where
  "near_duplicate_hash diff = canonical_hash (PyDict [
     (''algorithm'', PyStr ''patch-token-skeleton-v1''),
     (''files'', PyList (map skeleton_file (nd_files diff)))])"

subsection \<open>Rows\<close>

definition plain_str_dict :: "(string \<times> string) list \<Rightarrow> pyval" where
  "plain_str_dict d = PyDict (map (\<lambda>(k, v). (k, PyStr v)) d)"

definition row_payload ::
  "(datetime \<Rightarrow> string) \<Rightarrow> extracted_snapshot \<Rightarrow> change_result \<Rightarrow> label_assignment \<Rightarrow> dataset_split \<Rightarrow> pydict" where
  "row_payload isoformat snapshot result label split = [
     (''diff_hash'', PyStr (nd_diff_hash (ci_normalized_diff result))),
     (''extractor_version'', PyStr (fs_extractor_version (ci_features result))),
     (''feature_hash'', PyStr (fs_feature_hash (ci_features result))),
     (''feature_missing'', plain_str_dict (fs_missing (ci_features result))),
     (''feature_provenance'', plain_str_dict (fs_provenance (ci_features result))),
     (''feature_schema_version'', PyStr (fs_schema_version (ci_features result))),
     (''feature_values'', PyDict (fs_values (ci_features result))),
     (''head_sha'', PyStr (xs_head_sha snapshot)),
     (''label'', PyDict (label_assignment_as_dict isoformat label)),
     (''materialization_version'', PyStr MATERIALIZATION_VERSION),
     (''near_duplicate_hash'', PyStr (near_duplicate_hash (ci_normalized_diff result))),
     (''prediction_time'', PyStr (isoformat (xs_prediction_time snapshot))),
     (''repository_numeric_id'', PyInt (xs_repository_numeric_id snapshot)),
     (''snapshot_hash'', PyStr (xs_snapshot_hash snapshot)),
     (''snapshot_id'', PyStr (xs_snapshot_id snapshot)),
     (''source_id'', PyStr (xs_source_id snapshot)),
     (''split'', PyStr (dataset_split_value split))]"

definition row_of ::
  "(datetime \<Rightarrow> string) \<Rightarrow> extracted_snapshot \<Rightarrow> change_result \<Rightarrow> label_assignment \<Rightarrow> dataset_split \<Rightarrow> feature_row" where
  "row_of isoformat snapshot result label split =
     \<lparr>fr_snapshot_id = xs_snapshot_id snapshot, fr_source_id = xs_source_id snapshot,
      fr_repository_numeric_id = xs_repository_numeric_id snapshot,
      fr_prediction_time = xs_prediction_time snapshot, fr_head_sha = xs_head_sha snapshot,
      fr_snapshot_hash = xs_snapshot_hash snapshot,
      fr_diff_hash = nd_diff_hash (ci_normalized_diff result),
      fr_near_duplicate_hash = near_duplicate_hash (ci_normalized_diff result),
      fr_feature_schema_version = fs_schema_version (ci_features result),
      fr_extractor_version = fs_extractor_version (ci_features result),
      fr_feature_values = fs_values (ci_features result),
      fr_feature_missing = fs_missing (ci_features result),
      fr_feature_provenance = fs_provenance (ci_features result),
      fr_feature_hash = fs_feature_hash (ci_features result),
      fr_label = label, fr_split = split,
      fr_row_hash = canonical_hash (PyDict (row_payload isoformat snapshot result label split))\<rparr>"

definition materialized_row ::
  "text_services \<Rightarrow> source_admission \<Rightarrow> split_policy \<Rightarrow> extracted_snapshot \<Rightarrow> feature_row result" where
  "materialized_row ts admission policy snapshot =
     and_then (analyze_change (ts_float_repr ts) (ts_round8 ts) (ts_isoformat ts) (ts_parse ts)
       (xs_changed_files snapshot) (xs_prediction_time snapshot) [] None None (xs_commit_count snapshot) False)
       (\<lambda>result.
     and_then (assign_proxy_label snapshot admission) (\<lambda>label.
     and_then (assign_split policy (xs_prediction_time snapshot) (la_label label)) (\<lambda>split.
       Inr (row_of (ts_isoformat ts) snapshot result label split))))"

subsection \<open>The manifest\<close>

record dataset_manifest =
  dm_dataset_version :: string
  dm_extraction_code_commit :: string
  dm_extraction_version :: string
  dm_source_admissions :: "source_admission list"
  dm_source_payload_hashes :: "(string \<times> string) list"
  dm_label_rule_version :: string
  dm_feature_schema_version :: string
  dm_feature_extractor_version :: string
  dm_split_rule_version :: string
  dm_split_policy :: pydict
  dm_split_assignments :: "(string \<times> string) list"
  dm_split_hash :: string
  dm_exclusions :: "(string \<times> string) list"
  dm_counts :: pydict
  dm_leakage_report :: leakage_report
  dm_synthetic :: bool
  dm_usage_notes :: string
  dm_license_notes :: string
  dm_known_label_weaknesses :: "string list"
  dm_lineage :: "(string \<times> string) list"
  dm_manifest_hash :: string
  dm_schema_version :: string

definition dataset_manifest_as_dict :: "(datetime \<Rightarrow> string) \<Rightarrow> dataset_manifest \<Rightarrow> pydict" where
  "dataset_manifest_as_dict isoformat m = [
     (''counts'', PyDict (dm_counts m)),
     (''dataset_version'', PyStr (dm_dataset_version m)),
     (''exclusions'', str_dict (dm_exclusions m)),
     (''extraction_code_commit'', PyStr (dm_extraction_code_commit m)),
     (''extraction_version'', PyStr (dm_extraction_version m)),
     (''feature_extractor_version'', PyStr (dm_feature_extractor_version m)),
     (''feature_schema_version'', PyStr (dm_feature_schema_version m)),
     (''known_label_weaknesses'', strs (dm_known_label_weaknesses m)),
     (''label_rule_version'', PyStr (dm_label_rule_version m)),
     (''leakage_report'', PyDict (leakage_report_as_dict (dm_leakage_report m))),
     (''license_notes'', PyStr (dm_license_notes m)),
     (''lineage'', str_dict (dm_lineage m)),
     (''manifest_hash'', PyStr (dm_manifest_hash m)),
     (''schema_version'', PyStr (dm_schema_version m)),
     (''source_admissions'',
        PyList (map (\<lambda>a. PyDict (source_admission_as_dict isoformat True a)) (dm_source_admissions m))),
     (''source_payload_hashes'', str_dict (dm_source_payload_hashes m)),
     (''split_assignments'', str_dict (dm_split_assignments m)),
     (''split_hash'', PyStr (dm_split_hash m)),
     (''split_policy'', PyDict (dm_split_policy m)),
     (''split_rule_version'', PyStr (dm_split_rule_version m)),
     (''synthetic'', PyBool (dm_synthetic m)),
     (''usage_notes'', PyStr (dm_usage_notes m))]"

record dataset_build =
  db_manifest :: dataset_manifest
  db_rows :: "feature_row list"

definition dataset_build_as_dict :: "(datetime \<Rightarrow> string) \<Rightarrow> dataset_build \<Rightarrow> pydict" where
  "dataset_build_as_dict isoformat b = [
     (''manifest'', PyDict (dataset_manifest_as_dict isoformat (db_manifest b))),
     (''rows'', PyList (map (\<lambda>r. PyDict (feature_row_as_dict isoformat r)) (db_rows b)))]"

definition counter :: "string list \<Rightarrow> pydict" where
  "counter xs = sorted_items (map (\<lambda>x. (x, PyInt (int (count_list xs x)))) (remdups xs))"

definition row_counts :: "text_services \<Rightarrow> feature_row list \<Rightarrow> pydict" where
  "row_counts ts rows =
     (let included = included_rows rows;
          positive = length (filter (\<lambda>r. la_label (fr_label r) = POSITIVE) included);
          labels = map (\<lambda>r. proxy_label_value (la_label (fr_label r))) rows in [
     (''class_balance'', PyDict (counter labels)),
     (''included_rows'', PyInt (int (length included))),
     (''positive_prevalence'', (if included = [] then PyNone
        else PyFloat (ts_float_repr ts (ts_round8 ts (real positive / real (length included)))))),
     (''split_counts'', PyDict (counter (map (\<lambda>r. dataset_split_value (fr_split r)) rows))),
     (''total_rows'', PyInt (int (length rows))),
     (''unknown_rows'', PyInt (int (count_list labels ''unknown'')))])"

definition usage_notes :: string where
  "usage_notes = ''Synthetic fixture evaluation for pipeline and heuristic behavior only; not a customer, incident, accuracy, or production-performance claim.''"

definition license_notes :: "source_admission \<Rightarrow> string" where
  "license_notes a = sa_license_spdx a @ '' evidence '' @ sa_license_evidence_sha256 a @ ''; redistribution_allowed='' @
     (if sa_redistribution_allowed a then ''True'' else ''False'') @ ''.''"

definition lineage_of :: "text_services \<Rightarrow> extracted_source \<Rightarrow> string \<Rightarrow> (string \<times> string) list" where
  "lineage_of ts source commit = [(''admission_hash'', admission_hash (ts_isoformat ts) (xr_admission source)),
     (''extraction_code_commit'', commit), (''feature_extractor_version'', EXTRACTOR_VERSION),
     (''source_payload_hash'', xr_payload_hash source)]"

definition assignments_of :: "feature_row list \<Rightarrow> (string \<times> string) list" where
  "assignments_of rows = dict_of (map (\<lambda>r. (fr_snapshot_id r, dataset_split_value (fr_split r))) rows)"

definition exclusions_of :: "feature_row list \<Rightarrow> (string \<times> string) list" where
  "exclusions_of rows = dict_of (map (\<lambda>r. (fr_snapshot_id r, la_reason (fr_label r)))
     (filter (\<lambda>r. fr_split r = EXCLUDED) rows))"

text \<open>The payload that the manifest's hash is taken of: a dictionary of its own, built before the manifest.\<close>

definition manifest_payload ::
  "text_services \<Rightarrow> string \<Rightarrow> extracted_source \<Rightarrow> split_policy \<Rightarrow> string \<Rightarrow> feature_row list \<Rightarrow> leakage_report \<Rightarrow>
   pydict" where
  "manifest_payload ts version source policy commit rows report = (let admission = xr_admission source in [
     (''counts'', PyDict (row_counts ts rows)),
     (''dataset_version'', PyStr version),
     (''exclusions'', PyDict (sorted_items (map (\<lambda>(k, v). (k, PyStr v)) (exclusions_of rows)))),
     (''extraction_code_commit'', PyStr commit),
     (''extraction_version'', PyStr EXTRACTION_SCHEMA_VERSION),
     (''feature_extractor_version'', PyStr EXTRACTOR_VERSION),
     (''feature_schema_version'', PyStr FEATURE_SCHEMA_VERSION),
     (''known_label_weaknesses'', strs KNOWN_LABEL_WEAKNESSES),
     (''label_rule_version'', PyStr LABEL_RULE_VERSION),
     (''leakage_report'', PyDict (leakage_report_as_dict report)),
     (''license_notes'', PyStr (license_notes admission)),
     (''lineage'', PyDict (map (\<lambda>(k, v). (k, PyStr v)) (lineage_of ts source commit))),
     (''schema_version'', PyStr DATASET_MANIFEST_SCHEMA_VERSION),
     (''source_admissions'', PyList [PyDict (source_admission_as_dict (ts_isoformat ts) True admission)]),
     (''source_payload_hashes'', PyDict [(sa_source_id admission, PyStr (xr_payload_hash source))]),
     (''split_assignments'', PyDict (sorted_items (map (\<lambda>(k, v). (k, PyStr v)) (assignments_of rows)))),
     (''split_hash'', PyStr (split_assignment_hash rows)),
     (''split_policy'', PyDict (split_policy_as_dict (ts_isoformat ts) policy)),
     (''split_rule_version'', PyStr (sp_version policy)),
     (''synthetic'', PyBool (sa_synthetic admission)),
     (''usage_notes'', PyStr usage_notes)])"

definition manifest_of ::
  "text_services \<Rightarrow> string \<Rightarrow> extracted_source \<Rightarrow> split_policy \<Rightarrow> string \<Rightarrow> feature_row list \<Rightarrow> leakage_report \<Rightarrow>
   dataset_manifest" where
  "manifest_of ts version source policy commit rows report =
     (let admission = xr_admission source in
      \<lparr>dm_dataset_version = version, dm_extraction_code_commit = commit,
       dm_extraction_version = EXTRACTION_SCHEMA_VERSION, dm_source_admissions = [admission],
       dm_source_payload_hashes = [(sa_source_id admission, xr_payload_hash source)],
       dm_label_rule_version = LABEL_RULE_VERSION, dm_feature_schema_version = FEATURE_SCHEMA_VERSION,
       dm_feature_extractor_version = EXTRACTOR_VERSION, dm_split_rule_version = sp_version policy,
       dm_split_policy = split_policy_as_dict (ts_isoformat ts) policy,
       dm_split_assignments = assignments_of rows, dm_split_hash = split_assignment_hash rows,
       dm_exclusions = exclusions_of rows,
       dm_counts = row_counts ts rows, dm_leakage_report = report, dm_synthetic = sa_synthetic admission,
       dm_usage_notes = usage_notes, dm_license_notes = license_notes admission,
       dm_known_label_weaknesses = KNOWN_LABEL_WEAKNESSES, dm_lineage = lineage_of ts source commit,
       dm_manifest_hash = canonical_hash (PyDict (manifest_payload ts version source policy commit rows report)),
       dm_schema_version = DATASET_MANIFEST_SCHEMA_VERSION\<rparr>)"

definition build_dataset ::
  "text_services \<Rightarrow> string \<Rightarrow> extracted_source \<Rightarrow> split_policy \<Rightarrow> string \<Rightarrow> dataset_build result" where
  "build_dataset ts version source policy commit =
     (if version = [] \<or> length version > 128 then Inl (ValueError ''dataset_version must be bounded'')
      else (case require_sha commit ''extraction_code_commit'' of
          Some e \<Rightarrow> Inl e
        | None \<Rightarrow>
          and_then (map_raise (materialized_row ts (xr_admission source) policy) (xr_records source)) (\<lambda>rows.
          and_then (run_leakage_checks rows policy) (\<lambda>report.
            Inr \<lparr>db_manifest = manifest_of ts version source policy commit rows report, db_rows = rows\<rparr>))))"

end
