(* ===== verification/DatasetExtraction.thy ===== *)
theory DatasetExtraction
  imports DatasetMaterialize
begin

section \<open>packages/dataset_core/extraction.py: fail-closed parsing of admitted inputs\<close>

text \<open>
  Decoded JSON enters the dataset only through these parsers: exact key sets, bounded strings, no
  coercion of booleans to integers. \<open>fromisoformat\<close> is the standard library's parser of a time text,
  a parameter (\<open>None\<close> for its ValueError).
\<close>

definition MAX_CHANGED_FILES_PER_SNAPSHOT :: nat where "MAX_CHANGED_FILES_PER_SNAPSHOT = 1000"

definition MAX_TOTAL_RECORDS :: int where "MAX_TOTAL_RECORDS = 100000"

definition MAX_EVIDENCE_REFS :: nat where "MAX_EVIDENCE_REFS = 32"

definition RECORD_FIELDS :: "string list" where
  "RECORD_FIELDS = [''base_sha'', ''changed_files'', ''commit_count'', ''head_sha'', ''outcome'',
     ''prediction_time'', ''repository_numeric_id'', ''snapshot_id'']"

definition CHANGED_FILE_FIELDS :: "string list" where
  "CHANGED_FILE_FIELDS = [''additions'', ''deletions'', ''patch'', ''path'', ''previous_path'', ''status'']"

definition OUTCOME_FIELDS :: "string list" where
  "OUTCOME_FIELDS = [''evidence_refs'', ''kind'', ''note'', ''observed_at'']"

subsection \<open>Typed reads\<close>

definition x_mapping :: "pyval \<Rightarrow> string \<Rightarrow> pydict result" where
  "x_mapping value field = (case value of PyDict d \<Rightarrow> Inr d
     | _ \<Rightarrow> Inl (ValueError (field @ '' must be an object'')))"

definition x_list :: "pyval \<Rightarrow> string \<Rightarrow> pyval list result" where
  "x_list value field = (case value of PyList xs \<Rightarrow> Inr xs
     | _ \<Rightarrow> Inl (ValueError (field @ '' must be a list'')))"

definition x_string :: "pyval \<Rightarrow> string \<Rightarrow> nat \<Rightarrow> string result" where
  "x_string value field maximum =
     (let bad = Inl (ValueError (field @ '' must be a bounded non-empty string'')) in
      case value of PyStr s \<Rightarrow> if s = [] \<or> length (utf8 s) > maximum then bad else Inr s | _ \<Rightarrow> bad)"

definition x_integer :: "pyval \<Rightarrow> string \<Rightarrow> int \<Rightarrow> int result" where
  "x_integer value field minimum =
     (let bad = Inl (ValueError (field @ '' must be an integer at least '' @ dump_int minimum)) in
      case value of PyInt i \<Rightarrow> if i < minimum then bad else Inr i | _ \<Rightarrow> bad)"

definition x_optional_integer :: "pyval \<Rightarrow> string \<Rightarrow> int \<Rightarrow> int option result" where
  "x_optional_integer value field minimum =
     (if value = PyNone then Inr None else and_then (x_integer value field minimum) (\<lambda>i. Inr (Some i)))"

definition utc_suffix :: "string \<Rightarrow> string" where
  "utc_suffix s = concat (map (\<lambda>c. if c = CHR ''Z'' then ''+00:00'' else [c]) s)"

definition x_datetime :: "(string \<Rightarrow> datetime option) \<Rightarrow> pyval \<Rightarrow> string \<Rightarrow> datetime result" where
  "x_datetime fromisoformat value field =
     and_then (x_string value field 64) (\<lambda>text.
       (case fromisoformat (utc_suffix text) of
          None \<Rightarrow> Inl (ValueError (field @ '' must be an ISO-8601 datetime''))
        | Some t \<Rightarrow> (case require_aware t field of Some e \<Rightarrow> Inl e | None \<Rightarrow> Inr t)))"

definition x_optional_datetime :: "(string \<Rightarrow> datetime option) \<Rightarrow> pyval \<Rightarrow> string \<Rightarrow> datetime option result" where
  "x_optional_datetime fromisoformat value field =
     (if value = PyNone then Inr None else and_then (x_datetime fromisoformat value field) (\<lambda>t. Inr (Some t)))"

definition x_string_tuple :: "pyval \<Rightarrow> string \<Rightarrow> nat \<Rightarrow> string list result" where
  "x_string_tuple value field maximum =
     and_then (x_list value field) (\<lambda>values.
       if length values > maximum then Inl (ValueError (field @ '' exceeds its item limit''))
       else and_then (map_raise (\<lambda>item. x_string item field 1200) values) (\<lambda>items.
         if \<not> distinct items then Inl (ValueError (field @ '' cannot contain duplicates'')) else Inr items))"

definition x_bool :: "pyval \<Rightarrow> bool" where
  "x_bool v = (v = PyBool True)"

definition is_bool :: "pyval \<Rightarrow> bool" where
  "is_bool v = (case v of PyBool _ \<Rightarrow> True | _ \<Rightarrow> False)"

definition recode_value_error :: "string \<Rightarrow> 'a result \<Rightarrow> 'a result" where
  "recode_value_error message r = (case r of
      Inl e \<Rightarrow> if is_value_error e then Inl (ValueError message) else Inl e
    | Inr x \<Rightarrow> Inr x)"

subsection \<open>The admission\<close>

definition ADMISSION_FIELDS :: "string list" where
  "ADMISSION_FIELDS = [''acquisition_method'', ''allowed_artifacts'', ''allowed_fields'', ''approved'', ''as_of'',
     ''attribution'', ''canonical_url'', ''license_evidence_sha256'', ''license_spdx'', ''license_version'',
     ''max_records'', ''observation_window_days'', ''rate_limit_per_hour'', ''redistribution_allowed'',
     ''redistribution_notes'', ''repository_numeric_id'', ''retention_days'', ''reviewer'', ''schema_version'',
     ''source_id'', ''source_kind'', ''synthetic'', ''terms_reviewed_at'', ''terms_url'']"

definition source_kinds :: "source_kind list" where "source_kinds = [FIXTURE, PUBLIC_REPOSITORY]"

definition acquisition_methods :: "acquisition_method list" where
  "acquisition_methods = [FIXTURE_BUNDLE, GITHUB_API]"

definition proxy_outcome_kinds :: "proxy_outcome_kind list" where
  "proxy_outcome_kinds =
     [EXPLICIT_REVERT, P_HOTFIX, RAPID_FOLLOWUP_FIX, FAILED_REQUIRED_CHECK, NO_PROXY_OBSERVED, AMBIGUOUS]"

definition item :: "pydict \<Rightarrow> string \<Rightarrow> pyval" where
  "item payload k = (case map_of payload k of Some v \<Rightarrow> v | None \<Rightarrow> PyNone)"

definition admission_kinds :: "pydict \<Rightarrow> (source_kind \<times> acquisition_method) result" where
  "admission_kinds payload =
     recode_value_error ''source kind or acquisition method is unsupported''
       (and_then (x_string (item payload ''source_kind'') ''source_kind'' 1200) (\<lambda>k.
        and_then (enum_member source_kind_value source_kinds (PyStr k)) (\<lambda>kind.
        and_then (x_string (item payload ''acquisition_method'') ''acquisition_method'' 1200) (\<lambda>m.
        and_then (enum_member acquisition_method_value acquisition_methods (PyStr m)) (\<lambda>acquisition.
          Inr (kind, acquisition))))))"

definition admission_fields ::
  "(string \<Rightarrow> datetime option) \<Rightarrow> pydict \<Rightarrow> source_kind \<Rightarrow> acquisition_method \<Rightarrow> source_admission result" where
  "admission_fields fromisoformat payload kind acquisition =
     and_then (x_string (item payload ''source_id'') ''source_id'' 128) (\<lambda>source_id.
     and_then (x_integer (item payload ''repository_numeric_id'') ''repository_numeric_id'' 1) (\<lambda>repository.
     and_then (x_string (item payload ''canonical_url'') ''canonical_url'' 1200) (\<lambda>url.
     and_then (x_string (item payload ''license_spdx'') ''license_spdx'' 64) (\<lambda>spdx.
     and_then (x_string (item payload ''license_evidence_sha256'') ''license_evidence_sha256'' 64) (\<lambda>evidence.
     and_then (x_string (item payload ''license_version'') ''license_version'' 1200) (\<lambda>license_version.
     and_then (x_string (item payload ''terms_url'') ''terms_url'' 1200) (\<lambda>terms_url.
     and_then (x_datetime fromisoformat (item payload ''terms_reviewed_at'') ''terms_reviewed_at'') (\<lambda>reviewed.
     and_then (x_string_tuple (item payload ''allowed_fields'') ''allowed_fields'' 64) (\<lambda>fields.
     and_then (x_string_tuple (item payload ''allowed_artifacts'') ''allowed_artifacts'' 64) (\<lambda>artifacts.
     and_then (x_string (item payload ''redistribution_notes'') ''redistribution_notes'' 1200) (\<lambda>notes.
     and_then (x_optional_integer (item payload ''retention_days'') ''retention_days'' 1) (\<lambda>retention.
     and_then (x_string (item payload ''attribution'') ''attribution'' 1200) (\<lambda>attribution.
     and_then (x_datetime fromisoformat (item payload ''as_of'') ''as_of'') (\<lambda>as_of.
     and_then (x_integer (item payload ''observation_window_days'') ''observation_window_days'' 1) (\<lambda>window.
     and_then (x_string (item payload ''reviewer'') ''reviewer'' 1200) (\<lambda>reviewer.
     and_then (x_integer (item payload ''max_records'') ''max_records'' 1) (\<lambda>max_records.
     and_then (x_optional_integer (item payload ''rate_limit_per_hour'') ''rate_limit_per_hour'' 1) (\<lambda>rate.
     and_then (x_string (item payload ''schema_version'') ''schema_version'' 64) (\<lambda>schema.
     construct_with source_admission_post_init
       \<lparr>sa_source_id = source_id, sa_source_kind = kind, sa_repository_numeric_id = repository,
        sa_canonical_url = url, sa_license_spdx = spdx, sa_license_evidence_sha256 = evidence,
        sa_license_version = license_version, sa_terms_url = terms_url, sa_terms_reviewed_at = reviewed,
        sa_acquisition_method = acquisition, sa_allowed_fields = fields, sa_allowed_artifacts = artifacts,
        sa_redistribution_allowed = x_bool (item payload ''redistribution_allowed''),
        sa_redistribution_notes = notes, sa_retention_days = retention, sa_attribution = attribution,
        sa_as_of = as_of, sa_observation_window_days = window, sa_reviewer = reviewer,
        sa_approved = x_bool (item payload ''approved''), sa_synthetic = x_bool (item payload ''synthetic''),
        sa_max_records = max_records, sa_rate_limit_per_hour = rate, sa_schema_version = schema\<rparr>)))))))))))))))))))"

definition parse_source_admission :: "(string \<Rightarrow> datetime option) \<Rightarrow> pydict \<Rightarrow> source_admission result" where
  "parse_source_admission fromisoformat payload =
     (if \<not> has_exactly payload ADMISSION_FIELDS
      then Inl (ValueError ''source admission must exactly match schema v1'')
      else if \<not> is_bool (item payload ''approved'') \<or> \<not> is_bool (item payload ''redistribution_allowed'')
      then Inl (ValueError ''admission approval and redistribution flags must be booleans'')
      else if \<not> is_bool (item payload ''synthetic'')
      then Inl (ValueError ''admission synthetic flag must be boolean'')
      else and_then (admission_kinds payload) (\<lambda>(kind, acquisition).
        admission_fields fromisoformat payload kind acquisition))"

subsection \<open>Changed files and outcomes\<close>

definition is_text_or_null :: "pyval \<Rightarrow> bool" where
  "is_text_or_null v = (case v of PyNone \<Rightarrow> True | PyStr _ \<Rightarrow> True | _ \<Rightarrow> False)"

definition x_changed_file :: "pyval \<Rightarrow> raw_changed_file result" where
  "x_changed_file value =
     and_then (x_mapping value ''changed file'') (\<lambda>d.
       if \<not> has_exactly d CHANGED_FILE_FIELDS
       then Inl (ValueError ''changed file must exactly match its extraction schema'')
       else if \<not> is_text_or_null (item d ''patch'') then Inl (ValueError ''changed file patch must be text or null'')
       else if \<not> is_text_or_null (item d ''previous_path'') then Inl (ValueError ''previous path must be text or null'')
       else and_then (x_string (item d ''path'') ''changed file path'' 1200) (\<lambda>path.
         and_then (x_integer (item d ''additions'') ''additions'' 0) (\<lambda>additions.
         and_then (x_integer (item d ''deletions'') ''deletions'' 0) (\<lambda>deletions.
         and_then (x_string (item d ''status'') ''status'' 32) (\<lambda>status.
           Inr \<lparr>rf_path = path, rf_additions = additions, rf_deletions = deletions, rf_status = status,
                rf_previous_path = as_str (item d ''previous_path''), rf_patch = as_str (item d ''patch'')\<rparr>)))))"

definition x_outcome :: "(string \<Rightarrow> datetime option) \<Rightarrow> pyval \<Rightarrow> outcome_observation option result" where
  "x_outcome fromisoformat value =
     (if value = PyNone then Inr None
      else and_then (x_mapping value ''outcome'') (\<lambda>d.
        if \<not> has_exactly d OUTCOME_FIELDS
        then Inl (ValueError ''outcome must exactly match its extraction schema'')
        else and_then (recode_value_error ''outcome kind is unsupported''
            (and_then (x_string (item d ''kind'') ''outcome kind'' 64) (\<lambda>k.
              enum_member proxy_outcome_kind_value proxy_outcome_kinds (PyStr k)))) (\<lambda>kind.
          and_then (x_optional_datetime fromisoformat (item d ''observed_at'') ''outcome observed_at'') (\<lambda>observed.
          and_then (x_string_tuple (item d ''evidence_refs'') ''outcome evidence_refs'' MAX_EVIDENCE_REFS) (\<lambda>refs.
          and_then (x_string (item d ''note'') ''outcome note'' 1200) (\<lambda>text.
            Inr (Some \<lparr>oo_kind = kind, oo_observed_at = observed, oo_evidence_refs = refs, oo_note = text\<rparr>)))))))"

subsection \<open>Snapshots\<close>

definition raw_file_dict :: "raw_changed_file \<Rightarrow> pyval" where
  "raw_file_dict f = PyDict [
     (''additions'', PyInt (rf_additions f)), (''deletions'', PyInt (rf_deletions f)),
     (''patch'', opt_str (rf_patch f)), (''path'', PyStr (rf_path f)),
     (''previous_path'', opt_str (rf_previous_path f)), (''status'', PyStr (rf_status f))]"

definition snapshot_payload :: "(datetime \<Rightarrow> string) \<Rightarrow> extracted_snapshot \<Rightarrow> pydict" where
  "snapshot_payload isoformat x = [
     (''base_sha'', PyStr (xs_base_sha x)),
     (''changed_files'', PyList (map raw_file_dict (xs_changed_files x))),
     (''commit_count'', opt_int (xs_commit_count x)),
     (''head_sha'', PyStr (xs_head_sha x)),
     (''prediction_time'', PyStr (isoformat (xs_prediction_time x))),
     (''repository_numeric_id'', PyInt (xs_repository_numeric_id x)),
     (''snapshot_id'', PyStr (xs_snapshot_id x)),
     (''source_id'', PyStr (xs_source_id x))]"

definition guarded :: "exn option \<Rightarrow> 'a result \<Rightarrow> 'a result" where
  "guarded g r = (case g of Some e \<Rightarrow> Inl e | None \<Rightarrow> r)"

text \<open>One pass of the loop over the raw records.\<close>

definition x_record ::
  "(string \<Rightarrow> datetime option) \<Rightarrow> (datetime \<Rightarrow> string) \<Rightarrow> source_admission \<Rightarrow> string list \<Rightarrow> pyval \<Rightarrow>
   extracted_snapshot result" where
  "x_record fromisoformat isoformat admission seen raw =
     and_then (x_mapping raw ''record'') (\<lambda>d.
     guarded (raise_if (\<not> has_exactly d RECORD_FIELDS)
       (ValueError ''source record must exactly match extraction schema v1''))
     (and_then (x_string (item d ''snapshot_id'') ''snapshot_id'' 128) (\<lambda>snapshot_id.
     guarded (raise_if (snapshot_id \<in> set seen) (ValueError ''snapshot IDs must be unique within a source''))
     (and_then (x_integer (item d ''repository_numeric_id'') ''repository_numeric_id'' 1) (\<lambda>repository.
     guarded (raise_if (repository \<noteq> sa_repository_numeric_id admission)
       (ValueError ''snapshot repository identity does not match admission''))
     (and_then (x_datetime fromisoformat (item d ''prediction_time'') ''prediction_time'') (\<lambda>prediction.
     and_then (earlier (sa_as_of admission) prediction) (\<lambda>late.
     guarded (raise_if late (ValueError ''snapshot prediction time exceeds the admitted as_of cutoff''))
     (and_then (x_string (item d ''base_sha'') ''base_sha'' 40) (\<lambda>base.
     and_then (x_string (item d ''head_sha'') ''head_sha'' 40) (\<lambda>head.
     guarded (require_sha base ''base_sha'') (guarded (require_sha head ''head_sha'')
     (and_then (x_list (item d ''changed_files'') ''changed_files'') (\<lambda>raw_files.
     and_then (map_raise x_changed_file raw_files) (\<lambda>files.
     guarded (raise_if (length files > MAX_CHANGED_FILES_PER_SNAPSHOT)
       (ValueError ''snapshot changed-file count exceeds the extraction limit''))
     (and_then (x_optional_integer (item d ''commit_count'') ''commit_count'' 1) (\<lambda>commits.
     guarded (raise_if (case commits of None \<Rightarrow> False | Some c \<Rightarrow> c > 10000)
       (ValueError ''commit_count exceeds the feature contract''))
     (and_then (x_outcome fromisoformat (item d ''outcome'')) (\<lambda>outcome.
       let snapshot = \<lparr>xs_source_id = sa_source_id admission, xs_snapshot_id = snapshot_id,
         xs_repository_numeric_id = repository, xs_prediction_time = prediction, xs_base_sha = base,
         xs_head_sha = head, xs_changed_files = files, xs_commit_count = commits, xs_outcome = outcome,
         xs_snapshot_hash = []\<rparr> in
       Inr (snapshot\<lparr>xs_snapshot_hash :=
         canonical_hash (PyDict (snapshot_payload isoformat snapshot))\<rparr>))))))))))))))))))))"

fun x_records ::
  "(string \<Rightarrow> datetime option) \<Rightarrow> (datetime \<Rightarrow> string) \<Rightarrow> source_admission \<Rightarrow> string list \<Rightarrow> pyval list \<Rightarrow>
   extracted_snapshot list result" where
  "x_records fromisoformat isoformat admission seen [] = Inr []"
| "x_records fromisoformat isoformat admission seen (raw # raws) =
     and_then (x_record fromisoformat isoformat admission seen raw) (\<lambda>snapshot.
     and_then (x_records fromisoformat isoformat admission (xs_snapshot_id snapshot # seen) raws) (\<lambda>rest.
       Inr (snapshot # rest)))"

definition record_limit :: "source_admission \<Rightarrow> int" where
  "record_limit admission = (let limit = min MAX_TOTAL_RECORDS (sa_max_records admission) in
     case sa_rate_limit_per_hour admission of None \<Rightarrow> limit | Some rate \<Rightarrow> min limit rate)"

definition admission_permits :: "source_admission \<Rightarrow> exn option" where
  "admission_permits a = first_raise [
     raise_if (\<not> sa_approved a) (PermissionError ''source admission is not approved''),
     raise_if (''feature_rows'' \<notin> set (sa_allowed_artifacts a))
       (PermissionError ''source admission does not permit feature materialization''),
     raise_if (sa_source_kind a = PUBLIC_REPOSITORY \<and> sa_retention_days a = None)
       (PermissionError ''public source admission must declare a retention limit''),
     raise_if (sa_source_kind a = PUBLIC_REPOSITORY \<and> sa_redistribution_notes a = [])
       (PermissionError ''public source admission must declare redistribution limits'')]"

definition payload_guard :: "source_admission \<Rightarrow> pydict \<Rightarrow> exn option" where
  "payload_guard a payload = first_raise [
     raise_if (\<not> has_exactly payload [''records'', ''schema_version'', ''source_id''])
       (ValueError ''source payload must exactly match extraction schema v1''),
     raise_if (item payload ''schema_version'' \<noteq> PyStr EXTRACTION_SCHEMA_VERSION)
       (ValueError ''source payload extraction schema is incompatible''),
     raise_if (item payload ''source_id'' \<noteq> PyStr (sa_source_id a))
       (ValueError ''source payload does not match its admission record''),
     raise_if (\<not> list_all (\<lambda>k. k \<in> set (sa_allowed_fields a)) RECORD_FIELDS)
       (PermissionError ''source admission does not allow every required snapshot field'')]"

definition extract_approved_source ::
  "(string \<Rightarrow> datetime option) \<Rightarrow> (datetime \<Rightarrow> string) \<Rightarrow> source_admission \<Rightarrow> pydict \<Rightarrow> extracted_source result" where
  "extract_approved_source fromisoformat isoformat admission payload =
     guarded (admission_permits admission) (guarded (payload_guard admission payload)
     (and_then (x_list (item payload ''records'') ''records'') (\<lambda>raws.
     guarded (raise_if (int (length raws) > record_limit admission)
       (ValueError ''source record count exceeds its admission limit''))
     (and_then (x_records fromisoformat isoformat admission [] raws) (\<lambda>records.
       Inr \<lparr>xr_admission = admission, xr_payload_hash = canonical_hash (PyDict payload),
            xr_records = sort_key (\<lambda>x. (instant (xs_prediction_time x), xs_snapshot_id x)) records\<rparr>)))))"

end
