(* ===== verification/DatasetSplitProofs.thy ===== *)
theory DatasetSplitProofs
  imports DatasetSplits
begin

section \<open>Labels close inside their window and no row leaks across splits\<close>

text \<open>
  A label other than unknown needs a complete observation window and an observation inside it; the
  leakage checks accept exactly the row sets without a leak; and the assigned splits follow the
  order of time.
\<close>

subsection \<open>Labels\<close>

lemma earlier_Inr: "earlier a b = Inr x \<longleftrightarrow> is_aware a = is_aware b \<and> x = (instant a < instant b)"
  by (auto simp: earlier_def)

lemma assignment_simps [simp]:
  "la_label (assignment l r m k t e) = l" "la_outcome_kind (assignment l r m k t e) = k"
  "la_observed_at (assignment l r m k t e) = t" "la_evidence_refs (assignment l r m k t e) = e"
  by (simp_all add: assignment_def)

definition observed_within :: "extracted_snapshot \<Rightarrow> source_admission \<Rightarrow> outcome_observation \<Rightarrow> datetime \<Rightarrow> bool" where
  "observed_within s a u t \<longleftrightarrow> xs_outcome s = Some u \<and> oo_observed_at u = Some t \<and>
     instant (window_end s a) \<le> instant (sa_as_of a) \<and> instant (xs_prediction_time s) \<le> instant t \<and>
     instant t \<le> instant (window_end s a)"

lemma label_observed_label:
  assumes "label_observed s a u t = Inr l" "xs_outcome s = Some u" "oo_observed_at u = Some t"
    "instant (window_end s a) \<le> instant (sa_as_of a)"
  shows "la_label l = POSITIVE \<longleftrightarrow> observed_within s a u t \<and> oo_kind u \<in> set POSITIVE_KINDS"
    "la_label l = NEGATIVE \<longleftrightarrow>
      observed_within s a u t \<and> oo_kind u = NO_PROXY_OBSERVED \<and> instant t = instant (window_end s a)"
    "la_observed_at l = Some t" "la_outcome_kind l = Some (oo_kind u)"
proof -
  have k: "NO_PROXY_OBSERVED \<notin> set POSITIVE_KINDS" by (simp add: POSITIVE_KINDS_def)
  show "la_label l = POSITIVE \<longleftrightarrow> observed_within s a u t \<and> oo_kind u \<in> set POSITIVE_KINDS"
    "la_label l = NEGATIVE \<longleftrightarrow>
      observed_within s a u t \<and> oo_kind u = NO_PROXY_OBSERVED \<and> instant t = instant (window_end s a)"
    "la_observed_at l = Some t" "la_outcome_kind l = Some (oo_kind u)"
    using assms k
    by (auto simp: label_observed_def and_then_Inr earlier_Inr observed_within_def same_time_def split: if_splits)
qed

text \<open>
  C19: A proxy label is positive exactly when a configured positive outcome was observed between the
  prediction and the end of a window that was complete at the admission's cutoff, and negative exactly
  when the absence of a proxy was observed at the very end of such a window; everything else that
  does not raise stays unknown.
\<close>

theorem labels_need_a_complete_window:
  assumes "assign_proxy_label s a = Inr l"
  shows "(la_label l = POSITIVE \<longleftrightarrow>
      (\<exists>u t. observed_within s a u t \<and> oo_kind u \<in> set POSITIVE_KINDS)) \<and>
    (la_label l = NEGATIVE \<longleftrightarrow>
      (\<exists>u t. observed_within s a u t \<and> oo_kind u = NO_PROXY_OBSERVED \<and> instant t = instant (window_end s a)))"
proof -
  have k: "AMBIGUOUS \<notin> set POSITIVE_KINDS" by (simp add: POSITIVE_KINDS_def)
  show ?thesis
  proof (cases "\<exists>u t. xs_outcome s = Some u \<and> oo_observed_at u = Some t \<and> oo_kind u \<noteq> AMBIGUOUS \<and>
      \<not> instant (sa_as_of a) < instant (window_end s a)")
    case True
    then obtain u t where ot: "xs_outcome s = Some u" "oo_observed_at u = Some t" "oo_kind u \<noteq> AMBIGUOUS"
      "instant (window_end s a) \<le> instant (sa_as_of a)" by auto
    then have "label_observed s a u t = Inr l"
      using assms by (auto simp: assign_proxy_label_def and_then_Inr earlier_Inr)
    from label_observed_label [OF this ot(1,2,4)] show ?thesis using ot by (auto simp: observed_within_def)
  next
    case False
    then have "la_label l = LABEL_UNKNOWN"
      using assms by (auto simp: assign_proxy_label_def and_then_Inr earlier_Inr split: if_splits option.splits)
    then show ?thesis using False k by (auto simp: observed_within_def)
  qed
qed

subsection \<open>Splits\<close>

lemma assign_split_order:
  assumes "assign_split p t l = Inr s" "assign_split p t' l' = Inr s'"
    "(s, s') \<in> {(TRAIN, VALIDATION), (TRAIN, TEST), (VALIDATION, TEST)}"
  shows "instant t < instant t'"
  using assms by (auto simp: assign_split_def and_then_Inr earlier_Inr split: if_splits)

lemma assign_split_label:
  "assign_split p t l = Inr s \<Longrightarrow> s \<noteq> EXCLUDED \<Longrightarrow> l \<noteq> LABEL_UNKNOWN"
  by (auto simp: assign_split_def split: if_splits)

subsection \<open>Leakage\<close>

definition same_fingerprint :: "feature_row \<Rightarrow> feature_row \<Rightarrow> bool" where
  "same_fingerprint r r' \<longleftrightarrow> fr_head_sha r = fr_head_sha r' \<or> fr_diff_hash r = fr_diff_hash r' \<or>
     fr_near_duplicate_hash r = fr_near_duplicate_hash r' \<or> fr_row_hash r = fr_row_hash r'"

definition row_sound :: "split_policy \<Rightarrow> feature_row \<Rightarrow> bool" where
  "row_sound p r \<longleftrightarrow> assign_split p (fr_prediction_time r) (la_label (fr_label r)) = Inr (fr_split r) \<and>
     fr_feature_schema_version r = FEATURE_SCHEMA_VERSION \<and> set (keys (fr_feature_values r)) = set feature_names \<and>
     (\<forall>token \<in> set BANNED_PREDICTOR_TOKENS. \<not> contains (predictor_text r) token) \<and>
     (la_label (fr_label r) \<noteq> LABEL_UNKNOWN \<longrightarrow> (\<exists>t. la_observed_at (fr_label r) = Some t \<and>
        is_aware t \<and> instant (fr_prediction_time r) \<le> instant t))"

lemma violation_if_Nil [simp]: "violation_if b v = [] \<longleftrightarrow> \<not> b"
  by (simp add: violation_if_def)

lemma assign_split_aware: "assign_split p t l = Inr s \<Longrightarrow> is_aware t"
  by (auto simp: assign_split_def split: if_splits)

lemma row_violations_Nil: "row_violations p r = Inr [] \<longleftrightarrow> row_sound p r"
proof
  assume "row_violations p r = Inr []"
  then obtain s e where s: "assign_split p (fr_prediction_time r) (la_label (fr_label r)) = Inr s"
    and e: "(if la_label (fr_label r) \<noteq> LABEL_UNKNOWN then observed_too_early r else Inr False) = Inr e"
    and v: "fr_split r = s" "fr_feature_schema_version r = FEATURE_SCHEMA_VERSION"
      "has_exactly (fr_feature_values r) feature_names"
      "\<not> list_ex (\<lambda>token. contains (predictor_text r) token) BANNED_PREDICTOR_TOKENS"
      "la_label (fr_label r) \<noteq> LABEL_UNKNOWN \<Longrightarrow> \<not> e"
    unfolding row_violations_def and_then_Inr by (auto split: if_splits)
  then show "row_sound p r"
    using assign_split_aware [OF s]
    by (auto simp: row_sound_def has_exactly_iff list_ex_iff observed_too_early_def earlier_Inr split: option.splits)
next
  assume r: "row_sound p r"
  then have a: "is_aware (fr_prediction_time r)" by (auto simp: row_sound_def dest: assign_split_aware)
  show "row_violations p r = Inr []"
  proof (cases "la_label (fr_label r) = LABEL_UNKNOWN")
    case True
    with r have "fr_split r = EXCLUDED" by (auto simp: row_sound_def dest: assign_split_label)
    then show ?thesis using r True by (simp add: row_violations_def row_sound_def has_exactly_iff list_ex_iff)
  next
    case False
    with r a have "observed_too_early r = Inr False"
      by (auto simp: row_sound_def observed_too_early_def earlier_Inr)
    then show ?thesis using r False by (simp add: row_violations_def row_sound_def has_exactly_iff list_ex_iff)
  qed
qed

lemma card_le_one_iff: "finite A \<Longrightarrow> x \<in> A \<Longrightarrow> card A \<le> 1 \<longleftrightarrow> (\<forall>y \<in> A. y = x)"
  unfolding One_nat_def card_le_Suc0_iff_eq by metis

lemma sorted_set_Nil: "sorted_set xs = [] \<longleftrightarrow> xs = []"
  by (metis set_empty sorted_set_props(1))

lemma locations_single:
  assumes "r \<in> set rows" "fr_split r \<noteq> EXCLUDED" "attribute r = v"
  shows "length (locations attribute rows v) \<le> 1 \<longleftrightarrow>
    (\<forall>r' \<in> set rows. fr_split r' \<noteq> EXCLUDED \<and> attribute r' = v \<longrightarrow> fr_split r' = fr_split r)"
proof -
  let ?L = "fr_split ` {r' \<in> set rows. fr_split r' \<noteq> EXCLUDED \<and> attribute r' = v}"
  have L: "length (locations attribute rows v) = card ?L"
    by (auto simp: locations_def included_rows_def length_remdups_card_conv intro!: arg_cong [of _ _ card])
  have "fr_split r \<in> ?L" using assms by auto
  then have "card ?L \<le> 1 \<longleftrightarrow> (\<forall>x \<in> ?L. x = fr_split r)"
    by (intro card_le_one_iff) simp_all
  then show ?thesis unfolding L by blast
qed

lemma cross_split_duplicates_Nil:
  "cross_split_duplicates rows attribute = [] \<longleftrightarrow>
   (\<forall>r \<in> set rows. \<forall>r' \<in> set rows. fr_split r \<noteq> EXCLUDED \<and> fr_split r' \<noteq> EXCLUDED \<and>
      attribute r = attribute r' \<longrightarrow> fr_split r = fr_split r')"
proof -
  have "cross_split_duplicates rows attribute = [] \<longleftrightarrow>
      (\<forall>r \<in> set rows. fr_split r \<noteq> EXCLUDED \<longrightarrow> length (locations attribute rows (attribute r)) \<le> 1)"
    by (auto simp: cross_split_duplicates_def sorted_set_Nil filter_empty_conv included_rows_def not_less)
  then show ?thesis using locations_single [of _ rows attribute] by (simp add: eq_commute) blast
qed

lemma sort_Nil_iff: "sort xs = [] \<longleftrightarrow> xs = []"
  by (metis length_0_conv length_sort)

lemma leakage_report_violations: "lr_violations (leakage_report_of vs) = [] \<longleftrightarrow> vs = []"
  by (simp add: leakage_report_of_def Let_def sort_Nil_iff)

lemma map_raise_Nils: "(\<exists>ys. map_raise f xs = Inr ys \<and> concat ys = []) \<longleftrightarrow> (\<forall>x \<in> set xs. f x = Inr [])"
proof (induction xs)
  case (Cons x xs)
  show ?case
  proof (cases "f x")
    case (Inr y)
    then show ?thesis using Cons by (auto simp: and_then_Inr)
  qed simp
qed simp

lemma duplicate_violations_Nil:
  "duplicate_violations rows = [] \<longleftrightarrow>
   (\<forall>r \<in> set rows. \<forall>r' \<in> set rows. fr_split r \<noteq> EXCLUDED \<and> fr_split r' \<noteq> EXCLUDED \<and>
      same_fingerprint r r' \<longrightarrow> fr_split r = fr_split r')"
  unfolding duplicate_violations_def fingerprint_checks_def list.map concat.simps append_is_Nil_conv prod.case
    map_is_Nil_conv cross_split_duplicates_Nil same_fingerprint_def by blast

lemma run_leakage_checks_Inr:
  "run_leakage_checks rows policy = Inr report \<longleftrightarrow>
   (\<forall>r \<in> set rows. row_sound policy r) \<and> duplicate_violations rows = [] \<and> report = leakage_report_of []"
proof -
  have "run_leakage_checks rows policy = Inr report \<longleftrightarrow>
      (\<exists>ys. map_raise (row_violations policy) rows = Inr ys \<and> concat ys = []) \<and>
      duplicate_violations rows = [] \<and> report = leakage_report_of []"
    unfolding run_leakage_checks_def and_then_Inr Let_def leakage_report_violations append_is_Nil_conv
    by (auto split: if_splits simp del: concat_eq_Nil_conv)
  then show ?thesis unfolding map_raise_Nils row_violations_Nil .
qed

text \<open>
  C20: The leakage checks accept a set of rows exactly when every row is sound (its split is the one
  the policy assigns, the feature schema matches exactly, no predictor text mentions an outcome or
  an author, and a labelled row was observed at or after its prediction) and no two included rows in
  different splits share a head commit, a diff, a near-duplicate skeleton or a row hash; and then
  every training row predates every validation row and these every test row.
\<close>

theorem leakage_checks_accept_exactly_sound_rows:
  "((\<exists>report. run_leakage_checks rows policy = Inr report) \<longleftrightarrow>
     (\<forall>r \<in> set rows. row_sound policy r) \<and>
     (\<forall>r \<in> set rows. \<forall>r' \<in> set rows. fr_split r \<noteq> EXCLUDED \<and> fr_split r' \<noteq> EXCLUDED \<and>
        same_fingerprint r r' \<longrightarrow> fr_split r = fr_split r')) \<and>
   ((\<forall>r \<in> set rows. row_sound policy r) \<longrightarrow>
     (\<forall>r \<in> set rows. \<forall>r' \<in> set rows.
        (fr_split r, fr_split r') \<in> {(TRAIN, VALIDATION), (TRAIN, TEST), (VALIDATION, TEST)} \<longrightarrow>
        instant (fr_prediction_time r) < instant (fr_prediction_time r')))"
proof (intro conjI impI ballI)
  fix r r'
  assume "\<forall>r \<in> set rows. row_sound policy r" "r \<in> set rows" "r' \<in> set rows"
    and s: "(fr_split r, fr_split r') \<in> {(TRAIN, VALIDATION), (TRAIN, TEST), (VALIDATION, TEST)}"
  then have "assign_split policy (fr_prediction_time r) (la_label (fr_label r)) = Inr (fr_split r)"
    "assign_split policy (fr_prediction_time r') (la_label (fr_label r')) = Inr (fr_split r')"
    by (auto simp: row_sound_def)
  from assign_split_order [OF this s] show "instant (fr_prediction_time r) < instant (fr_prediction_time r')" .
qed (simp add: run_leakage_checks_Inr duplicate_violations_Nil)

subsection \<open>Witnesses\<close>

definition sample_admission :: source_admission where
  "sample_admission = \<lparr>sa_source_id = ''s'', sa_source_kind = FIXTURE, sa_repository_numeric_id = 1,
     sa_canonical_url = ''fixture://x'', sa_license_spdx = ''MIT'', sa_license_evidence_sha256 = [],
     sa_license_version = ''1'', sa_terms_url = ''t'', sa_terms_reviewed_at = Aware 0 0,
     sa_acquisition_method = FIXTURE_BUNDLE, sa_allowed_fields = [], sa_allowed_artifacts = [],
     sa_redistribution_allowed = False, sa_redistribution_notes = [], sa_retention_days = None,
     sa_attribution = [], sa_as_of = Aware (days 3) 0, sa_observation_window_days = 1, sa_reviewer = ''r'',
     sa_approved = True, sa_synthetic = True, sa_max_records = 1, sa_rate_limit_per_hour = None,
     sa_schema_version = SOURCE_ADMISSION_SCHEMA_VERSION\<rparr>"

definition sample_snapshot :: extracted_snapshot where
  "sample_snapshot = \<lparr>xs_source_id = ''s'', xs_snapshot_id = ''a'', xs_repository_numeric_id = 1,
     xs_prediction_time = Aware 0 0, xs_base_sha = [], xs_head_sha = [], xs_changed_files = [],
     xs_commit_count = None, xs_outcome = Some \<lparr>oo_kind = P_HOTFIX, oo_observed_at = Some (Aware 5 0),
       oo_evidence_refs = [], oo_note = ''n''\<rparr>, xs_snapshot_hash = []\<rparr>"

theorem labels_need_a_complete_window_witness:
  "\<exists>l. assign_proxy_label sample_snapshot sample_admission = Inr l \<and>
     (la_label l = POSITIVE \<longleftrightarrow> (\<exists>u t. observed_within sample_snapshot sample_admission u t \<and>
        oo_kind u \<in> set POSITIVE_KINDS))"
proof -
  have "\<exists>l. assign_proxy_label sample_snapshot sample_admission = Inr l"
    by (simp add: assign_proxy_label_def label_observed_def earlier_def window_end_def sample_snapshot_def
        sample_admission_def days_def POSITIVE_KINDS_def)
  then show ?thesis using labels_need_a_complete_window by blast
qed

definition sample_row :: "string \<Rightarrow> int \<Rightarrow> dataset_split \<Rightarrow> feature_row" where
  "sample_row i t split = \<lparr>fr_snapshot_id = i, fr_source_id = ''s'', fr_repository_numeric_id = 1,
     fr_prediction_time = Aware t 0, fr_head_sha = i, fr_snapshot_hash = i, fr_diff_hash = i,
     fr_near_duplicate_hash = i, fr_feature_schema_version = FEATURE_SCHEMA_VERSION,
     fr_extractor_version = EXTRACTOR_VERSION, fr_feature_values = map (\<lambda>n. (n, PyNone)) feature_names,
     fr_feature_missing = [], fr_feature_provenance = feature_provenance, fr_feature_hash = i,
     fr_label = assignment POSITIVE [] [] None (Some (Aware t 0)) [], fr_split = split, fr_row_hash = i\<rparr>"

definition sample_policy :: split_policy where
  "sample_policy = \<lparr>sp_train_before = Aware 10 0, sp_validation_before = Aware 20 0, sp_test_before = Aware 30 0,
     sp_version = SPLIT_RULE_VERSION\<rparr>"

text \<open>The schema's own names never look like an outcome: a token without a space lies inside one word.\<close>

lemma contains_iff: "contains s t \<longleftrightarrow> (\<exists>a b. s = a @ t @ b)"
proof (induction s)
  case Nil
  then show ?case by (auto simp: startswith_iff)
next
  case (Cons c s)
  have "(\<exists>a b. c # s = a @ t @ b) \<longleftrightarrow> (\<exists>b. c # s = t @ b) \<or> (\<exists>a b. s = a @ t @ b)"
    by (auto simp: Cons_eq_append_conv)
  then show ?case using Cons by (simp add: startswith_iff)
qed

lemma infix_word:
  assumes "a @ t @ b = u @ d # v" "d \<notin> set t" "t \<noteq> []"
  shows "(\<exists>a b. u = a @ t @ b) \<or> (\<exists>a b. v = a @ t @ b)"
proof -
  consider (right) us where "a = u @ us" "us @ t @ b = d # v" | (left) us where "a @ us = u" "t @ b = us @ d # v"
    using assms(1) by (auto simp: append_eq_append_conv2)
  then show ?thesis
  proof cases
    case right
    then have "us \<noteq> []" using assms(2,3) by (cases t) auto
    then show ?thesis using right by (cases us) auto
  next
    case left
    then have "\<exists>ws. us = t @ ws" using assms(2) by (auto simp: append_eq_append_conv2 append_eq_Cons_conv)
    then show ?thesis using left by auto
  qed
qed

lemma contains_join:
  assumes "contains (join [d] ws) t" "d \<notin> set t" "t \<noteq> []"
  shows "\<exists>w \<in> set ws. contains w t"
  using assms
proof (induction ws)
  case (Cons w ws)
  show ?case
  proof (cases "ws = []")
    case False
    then have "join [d] (w # ws) = w @ d # join [d] ws" by (simp add: join_Cons)
    with Cons.prems obtain a b where "a @ t @ b = w @ d # join [d] ws" by (auto simp: contains_iff)
    from infix_word [OF this Cons.prems(2,3)] have "contains w t \<or> contains (join [d] ws) t"
      by (auto simp: contains_iff)
    then show ?thesis using Cons by auto
  qed (use Cons in simp)
qed (simp add: startswith_iff)

definition plain_chars :: string where
  "plain_chars = ''abcdefghijklmnopqrstuvwxyz0123456789_. ''"

lemma casefold_plain_char: "c \<in> set plain_chars \<Longrightarrow> casefold_char c = [c]"
  by (auto simp: plain_chars_def casefold_char_def code_def)

lemma casefold_plain: "list_all (\<lambda>c. c \<in> set plain_chars) s \<Longrightarrow> casefold s = s"
  by (induction s) (simp_all add: casefold_def casefold_plain_char)

definition schema_words :: "string list" where
  "schema_words = feature_names @ map fst feature_provenance @ map snd feature_provenance"

lemma schema_words_plain: "list_all (list_all (\<lambda>c. c \<in> set plain_chars)) schema_words"
  by code_simp

lemma schema_words_clean: "list_all (\<lambda>w. list_all (\<lambda>t. \<not> contains w t) BANNED_PREDICTOR_TOKENS) schema_words"
  by code_simp

lemma tokens_are_words: "list_all (\<lambda>t. CHR '' '' \<notin> set t \<and> t \<noteq> []) BANNED_PREDICTOR_TOKENS"
  by code_simp

lemma join_plain:
  "list_all (list_all (\<lambda>c. c \<in> set plain_chars)) ws \<Longrightarrow> list_all (\<lambda>c. c \<in> set plain_chars) (join '' '' ws)"
proof (induction ws)
  case (Cons w ws)
  then show ?case by (cases "ws = []") (simp_all add: join_Cons, simp add: plain_chars_def)
qed simp

lemma schema_predictors:
  "t \<in> set BANNED_PREDICTOR_TOKENS \<Longrightarrow> \<not> contains (casefold (join '' '' schema_words)) t"
  using contains_join [of "CHR '' ''" schema_words t] schema_words_clean tokens_are_words
  unfolding casefold_plain [OF join_plain [OF schema_words_plain]] list_all_iff by blast

lemma sample_row_sound: "row_sound sample_policy (sample_row i 5 TRAIN)" "row_sound sample_policy (sample_row j 15 VALIDATION)"
proof -
  have "keys (map (\<lambda>n. (n, PyNone)) feature_names) = feature_names" by (simp add: keys_def comp_def)
  then have "predictor_text (sample_row i t s) = casefold (join '' '' schema_words)" for i t s
    by (simp add: predictor_text_def sample_row_def schema_words_def) (simp add: keys_def)
  then have "\<forall>k \<in> set BANNED_PREDICTOR_TOKENS. \<not> contains (predictor_text (sample_row i t s)) k" for i t s
    using schema_predictors by simp
  then show "row_sound sample_policy (sample_row i 5 TRAIN)" "row_sound sample_policy (sample_row j 15 VALIDATION)"
    unfolding row_sound_def
    by (simp_all add: sample_row_def sample_policy_def assign_split_def earlier_def keys_def comp_def)
qed

theorem leakage_checks_accept_exactly_sound_rows_witness:
  "(\<exists>report. run_leakage_checks [sample_row ''a'' 5 TRAIN, sample_row ''b'' 15 VALIDATION] sample_policy = Inr report) \<and>
   instant (fr_prediction_time (sample_row ''a'' 5 TRAIN)) < instant (fr_prediction_time (sample_row ''b'' 15 VALIDATION))"
proof -
  let ?rows = "[sample_row ''a'' 5 TRAIN, sample_row ''b'' 15 VALIDATION]"
  have s: "\<forall>r \<in> set ?rows. row_sound sample_policy r" using sample_row_sound by simp
  moreover have "\<forall>r \<in> set ?rows. \<forall>r' \<in> set ?rows. fr_split r \<noteq> EXCLUDED \<and> fr_split r' \<noteq> EXCLUDED \<and>
      same_fingerprint r r' \<longrightarrow> fr_split r = fr_split r'"
    by (simp add: same_fingerprint_def sample_row_def)
  ultimately have "\<exists>report. run_leakage_checks ?rows sample_policy = Inr report"
    using leakage_checks_accept_exactly_sound_rows [of ?rows sample_policy] by blast
  moreover have "instant (fr_prediction_time (sample_row ''a'' 5 TRAIN)) <
      instant (fr_prediction_time (sample_row ''b'' 15 VALIDATION))" by (simp add: sample_row_def)
  ultimately show ?thesis by blast
qed

end
