(* ===== verification/ChangeDiffProofs.thy ===== *)
theory ChangeDiffProofs
  imports ChangeDiffs
begin

section \<open>Normalised diffs: bounds, order independence and truncation\<close>

text \<open>
  What \<open>normalize_diff\<close> guarantees for every accepted set of files: distinct relative paths, the
  patch budgets, independence of the order of the input; and that a patch is cut at the longest
  prefix of whole characters that fits.
\<close>

subsection \<open>Truncation\<close>

text \<open>The longest prefix of whole characters whose encoding has at most \<open>n\<close> bytes.\<close>

fun fitting :: "string \<Rightarrow> nat \<Rightarrow> string" where
  "fitting [] n = []"
| "fitting (c # s) n =
     (if length (utf8_char c) \<le> n then c # fitting s (n - length (utf8_char c)) else [])"

lemma utf8_simps [simp]: "utf8 [] = []" "utf8 (c # s) = utf8_char c @ utf8 s"
  by (simp_all add: utf8_def)

lemma code_lt: "code c < 256"
  by (simp add: code_def)

lemma char_of_code_id: "char_of (code c) = c"
  by (simp add: code_def)

lemma code_char_of: "n < 256 \<Longrightarrow> code (char_of n) = n"
  by (simp add: code_def)

lemma utf8_char_cases:
  obtains (one) "code c < 128" "utf8_char c = [c]"
  | (two) "128 \<le> code c" "utf8_char c = [char_of (192 + code c div 64), char_of (128 + code c mod 64)]"
    "code (char_of (192 + code c div 64)) \<in> {194, 195}"
    "code (char_of (192 + code c div 64)) = 192 + code c div 64"
    "code (char_of (128 + code c mod 64)) = 128 + code c mod 64"
proof (cases "code c < 128")
  case True
  then show ?thesis using one by (simp add: utf8_char_def)
next
  case False
  have "code c < 256" by (rule code_lt)
  with False have "code c div 64 = 2 \<or> code c div 64 = 3" by linarith
  moreover have "128 + code c mod 64 < 256" using mod_less_divisor [of 64 "code c"] by linarith
  moreover have "192 + code c div 64 < 256" using \<open>code c < 256\<close> by linarith
  ultimately show ?thesis using False two by (auto simp: utf8_char_def code_char_of)
qed

lemma length_utf8_char: "length (utf8_char c) = (if code c < 128 then 1 else 2)"
  by (simp add: utf8_char_def)

lemma utf8_decode_char: "utf8_decode (utf8_char c @ rest) = map_option (Cons c) (utf8_decode rest)"
proof (cases c rule: utf8_char_cases)
  case two
  have "(code (char_of (192 + code c div 64)) - 192) * 64 + (code (char_of (128 + code c mod 64)) - 128) = code c"
    using two(4,5) div_mult_mod_eq [of "code c" 64] by simp
  moreover have "code c mod 64 < 64" by simp
  ultimately show ?thesis using two by (auto simp: char_of_code_id)
qed simp

lemma utf8_decode_append: "utf8_decode (utf8 p @ rest) = map_option (append p) (utf8_decode rest)"
  by (induction p) (simp_all add: utf8_decode_char option.map_comp comp_def option.map_ident)

lemma utf8_decode_lead:
  assumes "\<not> code c < 128"
  shows "utf8_decode (take 1 (utf8_char c)) = None"
  by (cases c rule: utf8_char_cases) (use assms in auto)

lemma fitting_split:
  assumes "n \<le> length (utf8 v)"
  shows "\<exists>t. v = fitting v n @ t \<and>
    (length (utf8 (fitting v n)) = n \<or>
     Suc (length (utf8 (fitting v n))) = n \<and> (\<exists>c u. t = c # u \<and> \<not> code c < 128))"
  using assms
proof (induction v n rule: fitting.induct)
  case (2 c s n)
  show ?case
  proof (cases "length (utf8_char c) \<le> n")
    case True
    then have "n - length (utf8_char c) \<le> length (utf8 s)" using "2.prems" by simp
    then show ?thesis using "2.IH" [OF True] True by auto
  next
    case False
    then have "n = 0 \<or> n = 1 \<and> \<not> code c < 128" by (auto simp: length_utf8_char split: if_splits)
    then show ?thesis using False by auto
  qed
qed simp

lemma fitting_pred:
  assumes "Suc n \<le> length (utf8 v)" "length (utf8 (fitting v (Suc n))) = n"
  shows "fitting v n = fitting v (Suc n)"
  using assms
proof (induction v arbitrary: n)
  case (Cons c s)
  have two: "length (utf8_char c) = 1 \<or> length (utf8_char c) = 2" by (simp add: length_utf8_char)
  show ?case
  proof (cases "length (utf8_char c) \<le> n")
    case True
    then obtain m where m: "n = m + length (utf8_char c)" by (metis le_add_diff_inverse2)
    then have "fitting s m = fitting s (Suc m)" using Cons by (intro Cons.IH) auto
    then show ?thesis using m by simp
  next
    case False
    with Cons.prems(2) two show ?thesis by (auto split: if_splits)
  qed
qed simp

lemma decode_longest_fitting: "n \<le> length (utf8 v) \<Longrightarrow> decode_longest (utf8 v) n = fitting v n"
proof (induction n)
  case 0
  then show ?case by (cases v) (simp_all add: length_utf8_char)
next
  case (Suc n)
  let ?p = "fitting v (Suc n)"
  obtain t where v: "v = ?p @ t" and fits: "length (utf8 ?p) = Suc n \<or>
      Suc (length (utf8 ?p)) = Suc n \<and> (\<exists>c u. t = c # u \<and> \<not> code c < 128)"
    using fitting_split [OF Suc.prems] by blast
  have split: "utf8 v = utf8 ?p @ utf8 t" using v by (metis length_utf8_append)
  from fits show ?case
  proof
    assume "length (utf8 ?p) = Suc n"
    then have "take (Suc n) (utf8 v) = utf8 ?p @ []" using split by simp
    then show ?thesis using utf8_decode_append [of ?p "[]"] by simp
  next
    assume *: "Suc (length (utf8 ?p)) = Suc n \<and> (\<exists>c u. t = c # u \<and> \<not> code c < 128)"
    then obtain c u where c: "t = c # u" "\<not> code c < 128" by blast
    then have "take (Suc n) (utf8 v) = utf8 ?p @ take 1 (utf8_char c)"
      using * split by (simp add: length_utf8_char)
    then have "utf8_decode (take (Suc n) (utf8 v)) = None"
      using utf8_decode_append [of ?p "take 1 (utf8_char c)"] utf8_decode_lead [OF c(2)] by simp
    then show ?thesis using Suc fitting_pred [OF Suc.prems] * by simp
  qed
qed

lemma length_fitting: "length (utf8 (fitting v n)) \<le> n"
  by (induction v n rule: fitting.induct) auto

lemma fitting_longest:
  assumes "v = p @ t" "length (utf8 p) \<le> n"
  shows "\<exists>q. fitting v n = p @ q"
  using assms by (induction p arbitrary: v n) (auto simp: le_diff_conv2)

lemma length_unix_newlines: "length (utf8 (unix_newlines s)) \<le> length (utf8 s)"
  by (induction s rule: unix_newlines.induct) auto

lemma truncate_utf8_fitting:
  "truncate_utf8 v m = (unix_newlines (fitting v m), length (utf8 v) > m)"
proof (cases "length (utf8 v) \<le> m")
  case True
  then have "fitting v m = v"
    using fitting_longest [of v v "[]" m] fitting_longest [of v "[]" v m] length_fitting
    by (induction v m rule: fitting.induct) (auto split: if_splits)
  then show ?thesis using True by (simp add: truncate_utf8_def)
next
  case False
  then show ?thesis by (simp add: truncate_utf8_def decode_longest_fitting)
qed

text \<open>
  Cutting a patch never splits a character: \<open>truncate_utf8\<close> returns the longest prefix of whole
  characters whose UTF-8 encoding fits the limit, with newlines normalised, never more bytes than
  the limit, and reports a cut exactly when the text did not fit.
\<close>

theorem truncation_keeps_longest_prefix:
  "\<exists>p t. v = p @ t \<and> truncate_utf8 v m = (unix_newlines p, length (utf8 v) > m) \<and>
     length (utf8 p) \<le> m \<and> length (utf8 (unix_newlines p)) \<le> m \<and>
     (t = [] \<or> length (utf8 (p @ [hd t])) > m)"
proof (intro exI conjI)
  let ?p = "fitting v m"
  have prefix: "\<exists>t. v = fitting v m @ t" for v m
    by (induction v m rule: fitting.induct) auto
  then show v: "v = ?p @ drop (length ?p) v" by (metis append_eq_conv_conj)
  show "truncate_utf8 v m = (unix_newlines ?p, length (utf8 v) > m)" by (rule truncate_utf8_fitting)
  show "length (utf8 ?p) \<le> m" by (rule length_fitting)
  then show "length (utf8 (unix_newlines ?p)) \<le> m" using length_unix_newlines le_trans by blast
  show "drop (length ?p) v = [] \<or> length (utf8 (?p @ [hd (drop (length ?p) v)])) > m"
  proof (rule disjCI)
    assume fits: "\<not> m < length (utf8 (?p @ [hd (drop (length ?p) v)]))"
    show "drop (length ?p) v = []"
    proof (rule ccontr)
      assume ne: "drop (length ?p) v \<noteq> []"
      then have eq: "v = (?p @ [hd (drop (length ?p) v)]) @ tl (drop (length ?p) v)"
        using v by simp
      have "length (utf8 (?p @ [hd (drop (length ?p) v)])) \<le> m" using fits by simp
      then have "\<exists>q. ?p = (?p @ [hd (drop (length ?p) v)]) @ q" by (rule fitting_longest [OF eq])
      then obtain q where "?p = (?p @ [hd (drop (length ?p) v)]) @ q" ..
      from arg_cong [OF this, of length] show False by simp
    qed
  qed
qed

subsection \<open>The accepted diff\<close>

text \<open>A repository-relative path: its segments are proper names, or it is empty.\<close>

definition relative_path :: "string \<Rightarrow> bool" where
  "relative_path p \<longleftrightarrow> p = [] \<or> (\<forall>w \<in> set (split_on (CHR ''/'') p). w \<noteq> [] \<and> w \<noteq> ''.'' \<and> w \<noteq> ''..'')"

lemma split_on_append_sep:
  "d \<notin> set w \<Longrightarrow> split_on d (w @ d # s) = w # split_on d s"
  "d \<notin> set w \<Longrightarrow> split_on d w = [w]"
  by (induction w) auto

lemma split_on_join:
  assumes "ws \<noteq> []" "\<forall>w \<in> set ws. d \<notin> set w"
  shows "split_on d (join [d] ws) = ws"
  using assms
proof (induction ws rule: list_nonempty_induct)
  case (cons w ws)
  then show ?case by (simp add: join_Cons split_on_append_sep)
qed (simp add: split_on_append_sep)

lemma strip_char_head: "\<exists>t. strip_char c s = [] \<or> strip_char c s = t \<and> hd t \<noteq> c"
proof (cases "strip_char c s")
  case (Cons x xs)
  let ?u = "dropWhile (\<lambda>x. x = c) s"
  obtain z where z: "rev ?u = takeWhile (\<lambda>x. x = c) (rev ?u) @ dropWhile (\<lambda>x. x = c) (rev ?u)"
    by simp
  have "?u = strip_char c s @ rev (takeWhile (\<lambda>x. x = c) (rev ?u))"
    unfolding strip_char_def by (metis rev_append rev_rev_ident takeWhile_dropWhile_id)
  then have "hd ?u = x" "?u \<noteq> []" using Cons by (metis append_Cons list.sel(1), force)
  then have "x \<noteq> c" using hd_dropWhile [of "\<lambda>x. x = c" s] by auto
  then show ?thesis using Cons by simp
qed simp

lemma no_root: "\<not> startswith s ''/'' \<Longrightarrow> posix_root s = []"
  by (cases s) (auto simp: posix_root_def startswith_def)

lemma diff_path_relative:
  assumes "diff_path v = Inr p"
  shows "relative_path p"
proof -
  let ?n = "strip_char (CHR ''/'') (forward_slashes v)"
  have ok: "?n \<noteq> []" "\<not> list_ex (\<lambda>part. part \<in> {[], ''.'', ''..''}) (posix_parts ?n)"
    and p: "p = join ''/'' (posix_parts ?n)"
    using assms by (auto simp: diff_path_def Let_def split: if_splits)
  have "\<not> startswith ?n ''/''"
    using strip_char_head [of "CHR ''/''" "forward_slashes v"] ok(1) by (cases ?n) (auto simp: startswith_def)
  then have parts: "posix_parts ?n = posix_names ?n" by (simp add: posix_parts_def no_root)
  show ?thesis
  proof (cases "posix_names ?n = []")
    case True
    then show ?thesis using p parts by (simp add: relative_path_def)
  next
    case False
    then have "split_on (CHR ''/'') p = posix_names ?n"
      using posix_names_safe p parts by (metis split_on_join)
    then show ?thesis using ok(2) parts by (auto simp: relative_path_def list_ex_iff)
  qed
qed

definition patch_bytes :: "normalized_file \<Rightarrow> nat" where
  "patch_bytes f = (case nf_patch f of None \<Rightarrow> 0 | Some s \<Rightarrow> length (utf8 s))"

definition file_ok :: "normalized_file \<Rightarrow> bool" where
  "file_ok f \<longleftrightarrow> relative_path (nf_path f) \<and> 0 \<le> nf_additions f \<and> 0 \<le> nf_deletions f \<and>
     nf_status f \<in> set ALLOWED_STATUSES \<and> (nf_status f = ''renamed'' \<longrightarrow> nf_previous_path f \<noteq> None) \<and>
     patch_bytes f \<le> MAX_PATCH_BYTES \<and> (nf_is_binary f \<longrightarrow> nf_patch f = None)"

definition diff_state_ok :: "diff_state \<Rightarrow> bool" where
  "diff_state_ok st \<longleftrightarrow> distinct (map nf_path (ds_files st)) \<and> set (ds_seen st) = nf_path ` set (ds_files st) \<and>
     ds_consumed st = sum_list (map patch_bytes (ds_files st)) \<and> ds_consumed st \<le> MAX_TOTAL_PATCH_BYTES \<and>
     list_all file_ok (ds_files st) \<and> (\<forall>f \<in> set (ds_files st). nf_patch_truncated f \<longrightarrow> ds_truncated st)"

lemma truncated_size: "length (utf8 (fst (truncate_utf8 v m))) \<le> m"
  unfolding truncate_utf8_fitting fst_conv using length_unix_newlines length_fitting le_trans by blast

lemma normalize_file_ok:
  assumes "diff_state_ok st" "normalize_file item st = Inr st'"
  shows "diff_state_ok st' \<and> length (ds_files st') = Suc (length (ds_files st))"
proof -
  obtain path previous where path: "diff_path (rf_path item) = Inr path" "path \<notin> set (ds_seen st)"
    and status: "rf_status item \<in> set ALLOWED_STATUSES" "0 \<le> rf_additions item" "0 \<le> rf_deletions item"
    and previous: "\<not> (rf_status item = ''renamed'' \<and> previous = None)"
    and st': "st' = accept_file item path previous (classify path)
      (file_patch item (cl_is_binary (classify path)) (ds_consumed st)) st"
    using assms(2) unfolding normalize_file_def Let_def
    by (force simp: and_then_Inr not_less split: if_splits)
  let ?patch = "file_patch item (cl_is_binary (classify path)) (ds_consumed st)"
  have size: "length (utf8 s) \<le> MAX_PATCH_BYTES \<and> length (utf8 s) \<le> MAX_TOTAL_PATCH_BYTES - ds_consumed st \<and>
      \<not> cl_is_binary (classify path)" if found: "?patch = Some (s, t)" for s t
  proof -
    obtain v where v: "rf_patch item = Some v" "\<not> cl_is_binary (classify path)"
      "(s, t) = truncate_utf8 v (min MAX_PATCH_BYTES (MAX_TOTAL_PATCH_BYTES - ds_consumed st))"
      using found by (auto simp: file_patch_def split: option.splits if_splits)
    then have "s = fst (truncate_utf8 v (min MAX_PATCH_BYTES (MAX_TOTAL_PATCH_BYTES - ds_consumed st)))"
      by (metis fst_conv)
    then show ?thesis using truncated_size [of v "min MAX_PATCH_BYTES (MAX_TOTAL_PATCH_BYTES - ds_consumed st)"] v(2)
      by simp
  qed
  have rel: "relative_path path" using path(1) by (rule diff_path_relative)
  show ?thesis
  proof (cases ?patch)
    case None
    then show ?thesis using assms(1) path(2) status previous rel
      by (auto simp: st' accept_file_def diff_state_ok_def file_ok_def patch_bytes_def Let_def)
  next
    case (Some q)
    obtain s t where q: "q = (s, t)" by (cases q)
    then show ?thesis using assms(1) path(2) status previous rel Some size [of s t]
      by (auto simp: st' accept_file_def diff_state_ok_def file_ok_def patch_bytes_def Let_def)
  qed
qed

lemma normalize_files_ok:
  "diff_state_ok st \<Longrightarrow> normalize_files items st = Inr st' \<Longrightarrow>
   diff_state_ok st' \<and> length (ds_files st') = length (ds_files st) + length items"
proof (induction items arbitrary: st)
  case (Cons item items)
  then obtain st1 where st1: "normalize_file item st = Inr st1" "normalize_files items st1 = Inr st'"
    by (auto simp: and_then_Inr)
  then have ok: "diff_state_ok st1 \<and> length (ds_files st1) = Suc (length (ds_files st))"
    using Cons.prems(1) normalize_file_ok by blast
  then show ?case using Cons.IH [of st1] st1(2) by simp
qed simp

text \<open>
  Every accepted diff is bounded and well formed: it lists each of the at most 1000 input files
  once, under distinct repository-relative paths without empty, dot or parent segments, with
  non-negative line counts and an allowed status; a binary file carries no patch, each patch has at
  most 65536 bytes, the total is the sum of the patches and at most 1048576, and a cut of any patch
  marks the whole diff.
\<close>

theorem normalized_diff_is_bounded:
  assumes "normalize_diff items = Inr d"
  shows "length (nd_files d) = length items \<and> length items \<le> 1000 \<and> distinct (map nf_path (nd_files d)) \<and>
    (\<forall>f \<in> set (nd_files d). file_ok f) \<and>
    nd_total_patch_bytes d = int (sum_list (map patch_bytes (nd_files d))) \<and>
    nd_total_patch_bytes d \<le> 1048576 \<and>
    (\<forall>f \<in> set (nd_files d). nf_patch_truncated f \<longrightarrow> nd_patch_set_truncated d)"
proof -
  let ?st = "\<lparr>ds_files = [], ds_consumed = 0, ds_truncated = False, ds_seen = []\<rparr>"
  obtain st where st: "normalize_files (sort_key (\<lambda>f. forward_slashes (rf_path f)) items) ?st = Inr st"
    and d: "nd_files d = ds_files st" "nd_total_patch_bytes d = int (ds_consumed st)"
      "nd_patch_set_truncated d = ds_truncated st" and len: "length items \<le> 1000"
    using assms by (auto simp: normalize_diff_def and_then_Inr MAX_CHANGED_FILES_def split: if_splits)
  have "diff_state_ok ?st" by (simp add: diff_state_ok_def)
  from normalize_files_ok [OF this st] show ?thesis
    using d len by (simp add: diff_state_ok_def MAX_TOTAL_PATCH_BYTES_def list_all_iff)
qed

subsection \<open>Order independence\<close>

lemma accept_file_path:
  "\<exists>f. ds_files (accept_file item path previous cl patch st) = ds_files st @ [f] \<and> nf_path f = path"
  by (simp add: accept_file_def Let_def)

lemma normalize_file_path:
  assumes "normalize_file item st = Inr st1"
  shows "\<exists>f. ds_files st1 = ds_files st @ [f] \<and> diff_path (rf_path item) = Inr (nf_path f)"
proof -
  obtain path previous cl patch where "diff_path (rf_path item) = Inr path"
    "st1 = accept_file item path previous cl patch st"
    using assms unfolding normalize_file_def Let_def by (force simp: and_then_Inr split: if_splits)
  then show ?thesis using accept_file_path [of item path previous cl patch st] by auto
qed

lemma normalize_files_paths:
  "normalize_files items st = Inr st' \<Longrightarrow>
   \<exists>fs. ds_files st' = ds_files st @ fs \<and>
     map (\<lambda>item. diff_path (rf_path item)) items = map (\<lambda>f. Inr (nf_path f)) fs"
proof (induction items arbitrary: st)
  case (Cons item items)
  then obtain st1 where st1: "normalize_file item st = Inr st1" "normalize_files items st1 = Inr st'"
    by (auto simp: and_then_Inr)
  from st1(1) obtain f where f: "ds_files st1 = ds_files st @ [f]" "diff_path (rf_path item) = Inr (nf_path f)"
    using normalize_file_path by blast
  from Cons.IH [OF st1(2)] obtain fs where "ds_files st' = ds_files st1 @ fs"
    "map (\<lambda>item. diff_path (rf_path item)) items = map (\<lambda>f. Inr (nf_path f)) fs" by blast
  then show ?case using f by (intro exI [of _ "f # fs"]) simp
qed simp

lemma diff_path_slashes: "forward_slashes v = forward_slashes w \<Longrightarrow> diff_path v = diff_path w"
  by (simp add: diff_path_def)

lemma distinct_map_factor: "distinct (map g xs) \<Longrightarrow> (\<And>x y. f x = f y \<Longrightarrow> g x = g y) \<Longrightarrow> distinct (map f xs)"
proof (induction xs)
  case (Cons x xs)
  have "f x \<notin> f ` set xs"
  proof
    assume "f x \<in> f ` set xs"
    then obtain y where "y \<in> set xs" "f x = f y" by blast
    from Cons.prems(2) [OF this(2)] \<open>y \<in> set xs\<close> have "g x \<in> g ` set xs" by simp
    moreover have "g x \<notin> g ` set xs" using Cons.prems(1) by simp
    ultimately show False by contradiction
  qed
  moreover have "distinct (map g xs)" using Cons.prems(1) by simp
  from Cons.IH [OF this Cons.prems(2)] have "distinct (map f xs)" .
  ultimately show ?case by simp
qed simp

lemma normalized_keys_distinct:
  assumes "normalize_diff items = Inr d"
  shows "distinct (map (\<lambda>f. forward_slashes (rf_path f)) items)"
proof -
  let ?st = "\<lparr>ds_files = [], ds_consumed = 0, ds_truncated = False, ds_seen = []\<rparr>"
  let ?key = "\<lambda>f. forward_slashes (rf_path f)"
  obtain st where st: "normalize_files (sort_key ?key items) ?st = Inr st"
    using assms by (auto simp: normalize_diff_def and_then_Inr split: if_splits)
  have "diff_state_ok ?st" by (simp add: diff_state_ok_def)
  from normalize_files_ok [OF this st] have "distinct (map nf_path (ds_files st))"
    by (simp add: diff_state_ok_def)
  then have "distinct (map (\<lambda>f. Inr (nf_path f) :: string result) (ds_files st))"
    by (simp add: distinct_map inj_on_def)
  moreover obtain fs where "ds_files st = [] @ fs"
    "map (\<lambda>item. diff_path (rf_path item)) (sort_key ?key items) = map (\<lambda>f. Inr (nf_path f)) fs"
    using normalize_files_paths [OF st] unfolding diff_state.simps by blast
  ultimately have "distinct (map (\<lambda>item. diff_path (rf_path item)) (sort_key ?key items))"
    by (simp only: append_Nil)
  then have "distinct (map ?key (sort_key ?key items))"
    by (rule distinct_map_factor) (rule diff_path_slashes)
  moreover have "mset (map ?key (sort_key ?key items)) = mset (map ?key items)" by simp
  ultimately show ?thesis using mset_eq_imp_distinct_iff by blast
qed

text \<open>
  The order in which the changed files arrive does not matter: every permutation of an accepted
  input is accepted with the same diff, hash included.
\<close>

theorem normalized_diff_ignores_order:
  assumes "normalize_diff items = Inr d" "mset items' = mset items"
  shows "normalize_diff items' = Inr d"
proof -
  let ?key = "\<lambda>f. forward_slashes (rf_path f)"
  have "inj_on ?key (set items)"
    using normalized_keys_distinct [OF assms(1)] by (simp add: distinct_map)
  then have "sort_key ?key items' = sort_key ?key items"
    using assms(2) by (intro sort_key_inj_key_eq) (auto dest: mset_eq_setD)
  moreover have "length items' = length items" using assms(2) by (rule mset_eq_length)
  ultimately show ?thesis using assms(1) unfolding normalize_diff_def by (simp only:)
qed

text \<open>
  A changed file whose path is a single dot, alone or repeated behind slashes, passes the path
  check although it names no file: it is accepted with the empty path.
\<close>

theorem dot_path_becomes_empty:
  assumes "rf_path f = ''.'' \<or> rf_path f = ''/./.'' \<or> rf_path f = [CHR ''.'', CHR 0x5C]"
    and "rf_status f = ''modified''" "0 \<le> rf_additions f" "0 \<le> rf_deletions f" "rf_previous_path f = None"
  shows "\<exists>d. normalize_diff [f] = Inr d \<and> map nf_path (nd_files d) = [[]]"
proof -
  note run = diff_path_def strip_char_def forward_slashes_def replace_char_def posix_parts_def
    posix_root_def posix_names_def startswith_def length_utf8_char code_def Let_def
  have "diff_path ''.'' = Inr []" by (simp add: run)
  moreover have "diff_path ''/./.'' = Inr []" by (simp add: run)
  moreover have "diff_path [CHR ''.'', CHR 0x5C] = Inr []" by (simp add: run)
  ultimately have "diff_path (rf_path f) = Inr []" using assms(1) by metis
  then show ?thesis
    using assms(2-5) by (simp add: normalize_diff_def MAX_CHANGED_FILES_def normalize_file_def ALLOWED_STATUSES_def
        previous_path_of_def accept_file_def Let_def)
qed

subsection \<open>Concrete diffs\<close>

definition sample_file :: "string \<Rightarrow> raw_changed_file" where
  "sample_file path = \<lparr>rf_path = path, rf_additions = 3, rf_deletions = 1, rf_status = ''modified'',
     rf_previous_path = None, rf_patch = None\<rparr>"

lemma sample_diff: "\<exists>d. normalize_diff [sample_file ''b.py'', sample_file ''a.py''] = Inr d"
  by (simp add: normalize_diff_def MAX_CHANGED_FILES_def normalize_file_def ALLOWED_STATUSES_def
      previous_path_of_def accept_file_def Let_def sample_file_def diff_path_def strip_char_def
      forward_slashes_def replace_char_def posix_parts_def posix_root_def posix_names_def startswith_def
      length_utf8_char code_def)

theorem normalized_diff_is_bounded_witness:
  "\<exists>d. normalize_diff [sample_file ''b.py'', sample_file ''a.py''] = Inr d \<and> length (nd_files d) = 2 \<and>
     distinct (map nf_path (nd_files d)) \<and> nd_total_patch_bytes d \<le> 1048576"
proof -
  obtain d where d: "normalize_diff [sample_file ''b.py'', sample_file ''a.py''] = Inr d"
    using sample_diff by blast
  from normalized_diff_is_bounded [OF this] d show ?thesis by simp
qed

theorem normalized_diff_ignores_order_witness:
  "\<exists>d. normalize_diff [sample_file ''b.py'', sample_file ''a.py''] = Inr d \<and>
     normalize_diff [sample_file ''a.py'', sample_file ''b.py''] = Inr d"
proof -
  obtain d where d: "normalize_diff [sample_file ''b.py'', sample_file ''a.py''] = Inr d"
    using sample_diff by blast
  have "mset [sample_file ''a.py'', sample_file ''b.py''] = mset [sample_file ''b.py'', sample_file ''a.py'']"
    by simp
  from normalized_diff_ignores_order [OF d this] d show ?thesis by blast
qed

theorem dot_path_becomes_empty_witness:
  "\<exists>d. normalize_diff [sample_file ''.''] = Inr d \<and> map nf_path (nd_files d) = [[]]"
  by (rule dot_path_becomes_empty) (simp_all add: sample_file_def)

theorem truncation_keeps_longest_prefix_witness:
  "\<exists>p t. ''abc'' = p @ t \<and> truncate_utf8 ''abc'' 2 = (unix_newlines p, length (utf8 ''abc'') > 2) \<and>
     length (utf8 p) \<le> 2 \<and> length (utf8 (unix_newlines p)) \<le> 2 \<and>
     (t = [] \<or> length (utf8 (p @ [hd t])) > 2)"
  by (rule truncation_keeps_longest_prefix)

end
