(* ===== verification/ChangeAnalysis.thy ===== *)
theory ChangeAnalysis
  imports ChangeFeatures ChangeDiffProofs
begin

section \<open>The analysis of a change: total, explained and blind to the future\<close>

text \<open>
  The feature extraction of a normalised diff cannot fail except on the commit count, every null
  feature has a recorded reason and exactly one risk factor, and the features do not depend on any
  history record outside the window before the prediction time.
\<close>

lemma normalized_file_ok: "normalize_diff items = Inr d \<Longrightarrow> f \<in> set (nd_files d) \<Longrightarrow> file_ok f"
proof -
  assume d: "normalize_diff items = Inr d" and f: "f \<in> set (nd_files d)"
  let ?st = "\<lparr>ds_files = [], ds_consumed = 0, ds_truncated = False, ds_seen = []\<rparr>"
  obtain st where st: "normalize_files (sort_key (\<lambda>f. forward_slashes (rf_path f)) items) ?st = Inr st"
    "nd_files d = ds_files st"
    using d by (auto simp: normalize_diff_def and_then_Inr split: if_splits)
  have "diff_state_ok ?st" by (simp add: diff_state_ok_def)
  from normalize_files_ok [OF this st(1)] show "file_ok f"
    using f st(2) by (auto simp: diff_state_ok_def list_all_iff)
qed

lemma nonneg_sum_list: "\<forall>x \<in> set xs. (0::int) \<le> x \<Longrightarrow> 0 \<le> sum_list xs"
  by (induction xs) auto

lemma distribution_total:
  assumes "\<forall>f \<in> set (nd_files d). file_ok f"
  shows "\<exists>p. distribution round8 d = Inr p"
proof -
  have nonneg: "\<forall>c \<in> set (change_sizes d). 0 \<le> c" using assms by (auto simp: change_sizes_def file_ok_def)
  have "\<not> list_ex (\<lambda>p. p < 0) (map (\<lambda>c. real_of_int c / real_of_int (sum_list (change_sizes d)))
      (filter (\<lambda>c. c \<noteq> 0) (change_sizes d)))"
    using nonneg nonneg_sum_list [OF nonneg] by (auto simp: list_ex_iff not_less)
  then show ?thesis by (simp add: distribution_def Let_def)
qed

definition KEYS :: "string list" where
  "KEYS = [''binary_files'', ''blast_direct_modules'',
    ''blast_impacted_tests'', ''blast_max_depth'', ''blast_transitive_modules'', ''change_concentration'',
    ''change_entropy'', ''commit_count'', ''deleted_files'', ''dependency_files_changed'', ''files_changed'',
    ''generated_files'', ''historical_file_touches_90d'', ''historical_line_churn_90d'',
    ''historical_module_touches_90d'', ''lines_added'', ''lines_deleted'', ''migration_files_changed'',
    ''ownership_familiarity_90d'', ''prior_failure_proxy_count_90d'', ''python_files_changed'',
    ''renamed_files'', ''sensitive_files_changed'', ''test_files_changed'', ''vendored_files'']"

lemma feature_keys: "map fst (feature_values fr d b h c s) = KEYS"
  by (simp add: feature_values_def KEYS_def)

lemma feature_keys_exact: "has_exactly (feature_values fr d b h c s) feature_names"
  unfolding has_exactly_def keys_def feature_keys by code_simp

lemma feature_names_distinct: "distinct feature_names"
  by code_simp

text \<open>A statement about every item is one about the list of names and the list of values.\<close>

lemma list_all_items: "list_all (\<lambda>(n, v). P (f n) v) d \<longleftrightarrow> list_all2 P (map f (map fst d)) (map snd d)"
  by (induction d) auto

definition fits :: "string \<Rightarrow> bool \<Rightarrow> pyval \<Rightarrow> bool" where
  "fits value_type nullable v = (case v of PyNone \<Rightarrow> nullable | PyInt _ \<Rightarrow> True
     | PyFloat _ \<Rightarrow> value_type = ''float'' | _ \<Rightarrow> False)"

lemma value_guard_fits:
  assumes "find (\<lambda>d. fd_name d = n) FEATURE_DEFINITIONS = Some d" "fits (fd_value_type d) (fd_nullable d) v"
  shows "value_guard (n, v) = None"
  using assms by (cases v) (auto simp: value_guard_def fits_def)

lemma fits_simps [simp]:
  "fits t n (type_count d k)" "fits t n (files_with d p)" "fits t n (PyInt i)" "fits ''float'' n (PyFloat x)"
  "fits t True (when_known b (PyInt i))" "fits t True (opt_int c)" "fits t True (opt_nat m)"
  "fits t True (when_known b (opt_nat m))" "fits ''float'' True (opt_float f q)"
  by (simp_all add: fits_def type_count_def files_with_def when_known_def opt_int_def opt_nat_def opt_float_def
      split: option.splits)

definition kind_of :: "string \<Rightarrow> (string \<times> bool) option" where
  "kind_of n = map_option (\<lambda>d. (fd_value_type d, fd_nullable d)) (find (\<lambda>d. fd_name d = n) FEATURE_DEFINITIONS)"

lemma kinds: "map kind_of KEYS = map (\<lambda>(t, n). Some (if t then ''integer'' else ''float'', n))
    [(True, False), (True, True), (True, True), (True, True), (True, True), (False, False), (False, False),
     (True, True), (True, False), (True, False), (True, False), (True, False), (True, True), (True, True),
     (True, True), (True, False), (True, False), (True, False), (False, True), (True, True), (True, False),
     (True, False), (True, False), (True, False), (True, False)]"
  by code_simp

lemma feature_values_fit:
  "list_all (\<lambda>(n, v). case kind_of n of None \<Rightarrow> False | Some (t, k) \<Rightarrow> fits t k v) (feature_values fr d b h c s)"
  unfolding list_all_items [where P = "\<lambda>kind v. case kind of None \<Rightarrow> False | Some (t, k) \<Rightarrow> fits t k v"]
    feature_keys kinds
  by (simp add: feature_values_def)

lemma validate_feature_values: "validate_values (feature_values fr d b h c s) = None"
proof -
  have "value_guard p = None" if p: "p \<in> set (feature_values fr d b h c s)" for p
  proof -
    obtain n v where nv: "p = (n, v)" by (cases p)
    with p feature_values_fit [of fr d b h c s] obtain e where
      "find (\<lambda>d. fd_name d = n) FEATURE_DEFINITIONS = Some e" "fits (fd_value_type e) (fd_nullable e) v"
      by (auto simp: list_all_iff kind_of_def split: option.splits)
    then show ?thesis by (simp add: nv value_guard_fits)
  qed
  then show ?thesis by (simp add: validate_values_def feature_keys_exact first_raise_None_iff)
qed

subsection \<open>Null features and their reasons\<close>

definition BLAST_KEYS :: "string list" where
  "BLAST_KEYS = [''blast_direct_modules'', ''blast_impacted_tests'', ''blast_max_depth'', ''blast_transitive_modules'']"

definition HISTORY_KEYS :: "string list" where
  "HISTORY_KEYS = [''historical_file_touches_90d'', ''historical_line_churn_90d'', ''historical_module_touches_90d'']"

text \<open>Which of the five reasons can make a feature null.\<close>

definition reasons_of :: "string \<Rightarrow> bool list" where
  "reasons_of n = [n = ''commit_count'', n \<in> set BLAST_KEYS, n \<in> set HISTORY_KEYS,
     n = ''prior_failure_proxy_count_90d'', n = ''ownership_familiarity_90d'']"

definition some_reason :: "bool list \<Rightarrow> bool list \<Rightarrow> bool" where
  "some_reason active possible = list_ex (\<lambda>(a, p). a \<and> p) (zip active possible)"

definition active_reasons :: "blast_radius \<Rightarrow> historical_statistics \<Rightarrow> int option \<Rightarrow> bool list" where
  "active_reasons b h c = [c = None, \<not> blast_complete b, \<not> history_available h,
     hs_prior_failure_proxy_count h = None, hs_ownership_familiarity h = None]"

lemma set_if: "n \<in> set (if b then xs else []) \<longleftrightarrow> b \<and> n \<in> set xs"
  by simp

lemma missing_keys: "n \<in> set (keys (feature_missing b h c)) \<longleftrightarrow> some_reason (active_reasons b h c) (reasons_of n)"
proof -
  have k: "map fst (if q then xs else []) = (if q then map fst xs else [])" for q and xs :: "(string \<times> string) list"
    by simp
  have f: "map fst (map (\<lambda>n. (n, r n)) xs) = xs" for r :: "string \<Rightarrow> string" and xs
    by (simp add: comp_def)
  have "set (keys (feature_missing b h c)) =
      set (if c = None then [''commit_count''] else []) \<union> set (if \<not> blast_complete b then BLAST_KEYS else []) \<union>
      set (if \<not> history_available h then HISTORY_KEYS else []) \<union>
      set (if hs_prior_failure_proxy_count h = None then [''prior_failure_proxy_count_90d''] else []) \<union>
      set (if hs_ownership_familiarity h = None then [''ownership_familiarity_90d''] else [])"
    unfolding feature_missing_def keys_def map_append k f set_append BLAST_KEYS_def HISTORY_KEYS_def
    by (simp only: list.map fst_conv Un_assoc)
  then have e: "n \<in> set (keys (feature_missing b h c)) \<longleftrightarrow>
      c = None \<and> n \<in> set [''commit_count''] \<or> \<not> blast_complete b \<and> n \<in> set BLAST_KEYS \<or>
      \<not> history_available h \<and> n \<in> set HISTORY_KEYS \<or>
      hs_prior_failure_proxy_count h = None \<and> n \<in> set [''prior_failure_proxy_count_90d''] \<or>
      hs_ownership_familiarity h = None \<and> n \<in> set [''ownership_familiarity_90d'']"
    by (simp only: Un_iff set_if disj_assoc)
  show ?thesis unfolding e some_reason_def active_reasons_def reasons_of_def by simp
qed

lemma reasons: "map reasons_of KEYS = map (\<lambda>k. map (\<lambda>i. i = k) [1, 2, 3, 4, 5])
    [0, 2, 2, 2, 2, 0, 0, 1, 0, 0, 0, 0, 3, 3, 3, 0, 0, 0, 5, 4, 0, 0, 0, 0, 0::nat]"
  by code_simp

lemma null_simps:
  "(when_known b (PyInt i) = PyNone) = (\<not> b)" "(opt_int c = PyNone) = (c = None)" "(opt_nat m = PyNone) = (m = None)"
  "(opt_float f q = PyNone) = (q = None)" "(type_count d k = PyNone) = False" "(files_with d p = PyNone) = False"
  "m \<noteq> None \<Longrightarrow> (when_known b (opt_nat m) = PyNone) = (\<not> b)"
  by (auto simp: when_known_def opt_int_def opt_nat_def opt_float_def type_count_def files_with_def
      split: option.splits)

lemma max_depth_known:
  assumes "compute_blast_radius d g n = Inr b"
  shows "br_max_depth b \<noteq> None \<or> \<not> blast_complete b"
  using assms by (auto simp: compute_blast_radius_def blast_complete_def Let_def split: if_splits prod.splits)

lemma null_iff_missing:
  assumes "br_max_depth b \<noteq> None \<or> \<not> blast_complete b"
  shows "list_all (\<lambda>(n, v). (v = PyNone) = (n \<in> set (keys (feature_missing b h c)))) (feature_values fr d b h c s)"
proof -
  have "(when_known (blast_complete b) (opt_nat (br_max_depth b)) = PyNone) = (\<not> blast_complete b)"
    using assms by (auto simp: when_known_def opt_nat_def opt_int_def split: option.splits)
  then show ?thesis
    unfolding missing_keys feature_keys reasons
      list_all_items [where P = "\<lambda>r v. (v = PyNone) = some_reason (active_reasons b h c) r"]
    by (simp add: feature_values_def null_simps some_reason_def active_reasons_def)
qed

lemma extract_feature_set_Inr:
  assumes "\<forall>f \<in> set (nd_files d). file_ok f"
  shows "(\<exists>f. extract_feature_set fr round8 d b h c = Inr f) \<longleftrightarrow>
    (case c of None \<Rightarrow> True | Some n \<Rightarrow> 1 \<le> n \<and> n \<le> 10000)"
  using distribution_total [OF assms, of round8]
  by (auto simp: extract_feature_set_def validate_feature_values Let_def split: option.splits)

lemma extract_feature_set_parts:
  assumes "extract_feature_set fr round8 d b h c = Inr f"
  shows "\<exists>s. fs_values f = feature_values fr d b h c s" "fs_missing f = feature_missing b h c"
    "set (keys (fs_values f)) = set feature_names"
proof -
  obtain s where s: "fs_values f = feature_values fr d b h c s" "fs_missing f = feature_missing b h c"
    using assms by (auto simp: extract_feature_set_def and_then_Inr Let_def split: if_splits option.splits)
  then show "\<exists>s. fs_values f = feature_values fr d b h c s" "fs_missing f = feature_missing b h c" by blast+
  show "set (keys (fs_values f)) = set feature_names"
    using feature_keys_exact by (simp add: s(1) has_exactly_iff)
qed

lemma map_raise_total:
  assumes "\<And>x. x \<in> set xs \<Longrightarrow> f x = Inr (g x)"
  shows "map_raise f xs = Inr (map g xs)"
  using assms by (induction xs) simp_all

definition factor_of :: "feature_set \<Rightarrow> feature_definition \<Rightarrow> risk_factor" where
  "factor_of f d = (case feature_factor f d of Inr r \<Rightarrow> r | Inl _ \<Rightarrow> missing_paths_factor [])"

lemma feature_factor_total:
  assumes "fd_name d \<in> set (keys (fs_values f))"
  shows "feature_factor f d = Inr (factor_of f d)"
    "rk_value (factor_of f d) = the (map_of (fs_values f) (fd_name d))"
    "rk_missing (factor_of f d) = (fd_name d \<in> set (keys (fs_missing f)))"
proof -
  obtain v where v: "get_item (fs_values f) (fd_name d) = Inr v" using get_item_no_error [OF assms] by blast
  then have m: "map_of (fs_values f) (fd_name d) = Some v" by (simp add: get_item_Inr)
  show "feature_factor f d = Inr (factor_of f d)"
    "rk_value (factor_of f d) = the (map_of (fs_values f) (fd_name d))"
    "rk_missing (factor_of f d) = (fd_name d \<in> set (keys (fs_missing f)))"
    by (simp_all add: factor_of_def feature_factor_def Let_def set_keys_map_of v m)
qed

lemma render_total:
  assumes "set (keys (fs_values f)) = set feature_names"
  shows "render_risk_factors d b f = Inr (map (factor_of f) FEATURE_DEFINITIONS @ map file_factor (nd_files d) @
    map path_factor (br_evidence_paths b) @
    (if br_missing_changed_paths b \<noteq> [] then [missing_paths_factor (br_missing_changed_paths b)] else []))"
proof -
  have "map_raise (feature_factor f) FEATURE_DEFINITIONS = Inr (map (factor_of f) FEATURE_DEFINITIONS)"
    by (rule map_raise_total, rule feature_factor_total(1)) (simp add: assms feature_names_def)
  then show ?thesis by (simp add: render_risk_factors_def)
qed

subsection \<open>The pipeline\<close>

lemma analyze_change_Inr:
  "analyze_change fr round8 isof parse files t history tree author c tr = Inr r \<longleftrightarrow>
    (\<exists>d g b h f ks. normalize_diff files = Inr d \<and> source_graph parse tree = Inr g \<and>
       compute_blast_radius d g DEFAULT_BLAST_DEPTH = Inr b \<and>
       compute_historical_statistics d history t author DEFAULT_HISTORY_WINDOW_DAYS tr = Inr h \<and>
       extract_feature_set fr round8 d b h c = Inr f \<and> render_risk_factors d b f = Inr ks \<and>
       r = \<lparr>ci_normalized_diff = d, ci_graph = g, ci_blast_radius = b, ci_history = h, ci_features = f,
         ci_risk_factors = ks, ci_result_hash = canonical_hash (PyDict (change_payload fr isof d g b h f ks))\<rparr>)"
  by (simp add: analyze_change_def and_then_Inr eq_commute [of _ r])

lemma blast_radius_total: "\<exists>b. compute_blast_radius d g DEFAULT_BLAST_DEPTH = Inr b"
  by (simp add: compute_blast_radius_def DEFAULT_BLAST_DEPTH_def Let_def split: prod.splits)

lemma analysis_stages:
  "(\<exists>r. analyze_change float_repr round8 isoformat parse files t history tree author commits truncated = Inr r) \<longleftrightarrow>
   (\<exists>d. normalize_diff files = Inr d \<and> (\<exists>g. source_graph parse tree = Inr g) \<and>
     (\<exists>h. compute_historical_statistics d history t author 90 truncated = Inr h)) \<and>
   (case commits of None \<Rightarrow> True | Some n \<Rightarrow> 1 \<le> n \<and> n \<le> 10000)" (is "?run \<longleftrightarrow> ?stages \<and> ?commits")
proof
  assume ?run
  then obtain d g b h f where "normalize_diff files = Inr d" "source_graph parse tree = Inr g"
    "compute_historical_statistics d history t author 90 truncated = Inr h"
    "extract_feature_set float_repr round8 d b h commits = Inr f"
    unfolding analyze_change_Inr DEFAULT_HISTORY_WINDOW_DAYS_def by blast
  then show "?stages \<and> ?commits" using extract_feature_set_Inr normalized_file_ok by blast
next
  assume stages: "?stages \<and> ?commits"
  then obtain d g h where s: "normalize_diff files = Inr d" "source_graph parse tree = Inr g"
    "compute_historical_statistics d history t author 90 truncated = Inr h" by blast
  obtain b where b: "compute_blast_radius d g DEFAULT_BLAST_DEPTH = Inr b" using blast_radius_total by blast
  obtain f where f: "extract_feature_set float_repr round8 d b h commits = Inr f"
    using extract_feature_set_Inr normalized_file_ok [OF s(1)] stages by blast
  obtain ks where "render_risk_factors d b f = Inr ks"
    using render_total extract_feature_set_parts(3) [OF f] by blast
  with s b f show ?run unfolding analyze_change_Inr DEFAULT_HISTORY_WINDOW_DAYS_def by blast
qed

text \<open>
  The analysis of a change succeeds exactly when its inputs do: the changed files normalise, the
  source tree (when present) gives a graph, the history is accepted and the commit count is absent or
  between 1 and 10000. Blast radius, feature extraction, schema validation and the risk factors never
  raise on a normalised diff.
\<close>

theorem analysis_fails_only_on_inputs:
  "(\<exists>r. analyze_change float_repr round8 isoformat parse files t history tree author commits truncated = Inr r) \<longleftrightarrow>
   (\<exists>d. normalize_diff files = Inr d \<and> (\<exists>g. source_graph parse tree = Inr g) \<and>
     (\<exists>h. compute_historical_statistics d history t author 90 truncated = Inr h)) \<and>
   (case commits of None \<Rightarrow> True | Some n \<Rightarrow> 1 \<le> n \<and> n \<le> 10000)"
  by (rule analysis_stages)

text \<open>
  Every analysis reports exactly the features of the schema; a feature is null exactly when a
  reason is recorded for it; and the first risk factors are the features in schema order, each with
  the feature's value and marked missing exactly when the reason is recorded.
\<close>

theorem analysis_explains_null_features:
  assumes "analyze_change float_repr round8 isoformat parse files t history tree author commits truncated = Inr r"
  defines "values \<equiv> fs_values (ci_features r)" and "missing \<equiv> keys (fs_missing (ci_features r))"
  shows "set (keys values) = set feature_names \<and> (\<forall>(n, v) \<in> set values. v = PyNone \<longleftrightarrow> n \<in> set missing) \<and>
    map rk_value (take 25 (ci_risk_factors r)) = map (the \<circ> map_of values) feature_names \<and>
    map rk_missing (take 25 (ci_risk_factors r)) = map (\<lambda>n. n \<in> set missing) feature_names"
proof -
  obtain d g b h f ks where b: "compute_blast_radius d g DEFAULT_BLAST_DEPTH = Inr b"
    and f: "extract_feature_set float_repr round8 d b h commits = Inr f"
    and ks: "render_risk_factors d b f = Inr ks" and r: "ci_features r = f" "ci_risk_factors r = ks"
    using assms(1) unfolding analyze_change_Inr by auto
  note parts = extract_feature_set_parts [OF f]
  obtain s where s: "fs_values f = feature_values float_repr d b h commits s" using parts(1) by blast
  have null: "\<forall>(n, v) \<in> set (fs_values f). v = PyNone \<longleftrightarrow> n \<in> set (keys (fs_missing f))"
    using null_iff_missing [OF max_depth_known [OF b]] unfolding s parts(2) list_all_iff by blast
  have n: "length FEATURE_DEFINITIONS = 25" by (simp add: FEATURE_DEFINITIONS_def)
  have t: "take 25 ks = map (factor_of f) FEATURE_DEFINITIONS"
    using ks unfolding render_total [OF parts(3)] by (auto simp: n simp del: append.simps)
  have known: "fd_name d \<in> set (keys (fs_values f))" if "d \<in> set FEATURE_DEFINITIONS" for d
    using that by (simp add: parts(3) feature_names_def)
  show ?thesis
    unfolding values_def missing_def r t feature_names_def
    using null parts(3) feature_factor_total(2,3) [OF known] by (simp add: feature_names_def)
qed

text \<open>
  C18: No feature looks into the future: if two histories contain the same records in the window
  before the prediction time, the analysis gives the same features with the same feature hash, the
  same risk factors, graph and blast radius, whatever the histories say at or after the prediction.
\<close>

theorem features_are_blind_to_the_future:
  assumes "analyze_change float_repr round8 isoformat parse files (Aware t z) history tree author commits truncated =
      Inr r"
    and "filter (visible (t - days 90) t) history' = filter (visible (t - days 90) t) history"
    and "list_all (\<lambda>c. is_aware (hc_observed_at c)) history'" "length history' \<le> 10000"
  shows "\<exists>r'. analyze_change float_repr round8 isoformat parse files (Aware t z) history' tree author commits truncated =
      Inr r' \<and> ci_features r' = ci_features r \<and> ci_risk_factors r' = ci_risk_factors r \<and>
    ci_blast_radius r' = ci_blast_radius r \<and> ci_graph r' = ci_graph r"
proof -
  obtain d g b h f ks where s: "normalize_diff files = Inr d" "source_graph parse tree = Inr g"
      "compute_blast_radius d g DEFAULT_BLAST_DEPTH = Inr b"
    and h: "compute_historical_statistics d history (Aware t z) author 90 truncated = Inr h"
    and f: "extract_feature_set float_repr round8 d b h commits = Inr f" "render_risk_factors d b f = Inr ks"
    and r: "ci_features r = f" "ci_risk_factors r = ks" "ci_blast_radius r = b" "ci_graph r = g"
    using assms(1) unfolding analyze_change_Inr DEFAULT_HISTORY_WINDOW_DAYS_def by auto
  let ?h = "h\<lparr>hs_excluded_future_changes := length (filter (future t) history')\<rparr>"
  have h': "compute_historical_statistics d history' (Aware t z) author 90 truncated = Inr ?h"
    by (rule history_ignores_changes_outside_window [OF h assms(2-4)])
  have "extract_feature_set float_repr round8 d b ?h commits = extract_feature_set float_repr round8 d b h commits"
    by (simp add: extract_feature_set_def feature_values_def feature_missing_def history_available_def Let_def)
  with f have "extract_feature_set float_repr round8 d b ?h commits = Inr f" by simp
  with s h' f r show ?thesis unfolding analyze_change_Inr DEFAULT_HISTORY_WINDOW_DAYS_def by auto
qed

subsection \<open>Witnesses\<close>

definition sample_analysis :: "historical_change list \<Rightarrow> change_result result" where
  "sample_analysis history = analyze_change (\<lambda>_. ''0.0'') (\<lambda>x. x) (\<lambda>_. []) (\<lambda>_ _. None) [] (Aware 10 0) history
     None None None False"

lemma sample_analysis_runs: "\<exists>r. sample_analysis [sample_history 5] = Inr r"
proof -
  have "\<exists>d. normalize_diff [] = Inr d" by (simp add: normalize_diff_def)
  then obtain d where d: "normalize_diff [] = Inr d" by blast
  have "\<exists>h. compute_historical_statistics d [sample_history 5] (Aware 10 0) None 90 False = Inr h"
    by (simp add: compute_historical_statistics_def aware_instant_def MAX_HISTORY_CHANGES_def sample_history_def
        days_def Let_def)
  with d show ?thesis
    unfolding sample_analysis_def analysis_stages by (auto simp: source_graph_def)
qed

theorem analysis_explains_null_features_witness:
  "\<exists>r. sample_analysis [sample_history 5] = Inr r \<and>
     set (keys (fs_values (ci_features r))) = set feature_names"
  using sample_analysis_runs analysis_explains_null_features unfolding sample_analysis_def by blast

theorem features_are_blind_to_the_future_witness:
  "\<exists>r r'. sample_analysis [sample_history 5] = Inr r \<and> sample_analysis [sample_history 20, sample_history 5] = Inr r' \<and>
     ci_features r' = ci_features r"
proof -
  obtain r where r: "sample_analysis [sample_history 5] = Inr r" using sample_analysis_runs by blast
  have "filter (visible (10 - days 90) 10) [sample_history 20, sample_history 5] =
      filter (visible (10 - days 90) 10) [sample_history 5]"
    by (simp add: visible_def sample_history_def)
  from features_are_blind_to_the_future [OF r [unfolded sample_analysis_def] this]
  show ?thesis using r by (auto simp: sample_analysis_def sample_history_def)
qed

end
