(* ===== verification/DatasetBuildProofs.thy ===== *)
theory DatasetBuildProofs
  imports DatasetExtraction DatasetSplitProofs ChangeAnalysis
begin

section \<open>From an admitted payload to a dataset without leaks\<close>

text \<open>
  Materialised rows are sound by construction, so a dataset is refused only when a fingerprint
  crosses splits; a built dataset keeps every snapshot exactly once and its included rows were
  labelled inside a window that had closed before the admission's cutoff.
\<close>

lemma guarded_Inr [simp]: "guarded g r = Inr x \<longleftrightarrow> g = None \<and> r = Inr x"
  by (auto simp: guarded_def split: option.splits)

lemma map_raise_list_all2: "map_raise f xs = Inr ys \<longleftrightarrow> list_all2 (\<lambda>x y. f x = Inr y) xs ys"
proof (induction xs arbitrary: ys)
  case (Cons x xs)
  show ?case by (cases ys) (auto simp: and_then_Inr Cons)
qed auto

lemma list_all2_right: "list_all2 P xs ys \<Longrightarrow> y \<in> set ys \<Longrightarrow> \<exists>x \<in> set xs. P x y"
  by (induction rule: list_all2_induct) auto

subsection \<open>Rows\<close>

lemma known_label_observed:
  assumes "assign_proxy_label s a = Inr l" "la_label l \<noteq> LABEL_UNKNOWN"
  shows "\<exists>u t. observed_within s a u t \<and> la_observed_at l = Some t \<and> is_aware t = is_aware (xs_prediction_time s)"
proof -
  obtain u t where ut: "xs_outcome s = Some u" "oo_observed_at u = Some t" "label_observed s a u t = Inr l"
      "instant (window_end s a) \<le> instant (sa_as_of a)"
    using assms by (auto simp: assign_proxy_label_def and_then_Inr earlier_Inr split: if_splits option.splits)
  from ut(3) have "is_aware t = is_aware (xs_prediction_time s)"
    by (auto simp: label_observed_def and_then_Inr earlier_Inr)
  moreover have "la_label l = POSITIVE \<or> la_label l = NEGATIVE" using assms(2) by (cases "la_label l") auto
  ultimately show ?thesis using label_observed_label [OF ut(3,1,2,4)] by blast
qed

lemma clean_predictors:
  assumes "set ws \<subseteq> set schema_words" "t \<in> set BANNED_PREDICTOR_TOKENS"
  shows "\<not> contains (casefold (join '' '' ws)) t"
proof -
  have "list_all (list_all (\<lambda>c. c \<in> set plain_chars)) ws"
    using assms(1) schema_words_plain by (auto simp: list_all_iff)
  then show ?thesis
    using contains_join [of "CHR '' ''" ws t] schema_words_clean tokens_are_words assms
    unfolding casefold_plain [OF join_plain [OF \<open>list_all _ ws\<close>]] list_all_iff by blast
qed

lemma materialized_row_parts:
  assumes "materialized_row ts a p x = Inr r"
  obtains c l s where "analyze_change (ts_float_repr ts) (ts_round8 ts) (ts_isoformat ts) (ts_parse ts)
      (xs_changed_files x) (xs_prediction_time x) [] None None (xs_commit_count x) False = Inr c"
    "assign_proxy_label x a = Inr l" "assign_split p (xs_prediction_time x) (la_label l) = Inr s"
    "r = row_of (ts_isoformat ts) x c l s"
  using assms by (auto simp: materialized_row_def and_then_Inr)

lemma extract_feature_set_versions:
  assumes "extract_feature_set fr round8 d b h c = Inr f"
  shows "fs_schema_version f = FEATURE_SCHEMA_VERSION" "fs_provenance f = feature_provenance"
  using assms by (auto simp: extract_feature_set_def and_then_Inr Let_def split: if_splits option.splits)

lemma analysis_features:
  assumes "analyze_change fr round8 isof parse files t history tree author commits truncated = Inr r"
  shows "fs_schema_version (ci_features r) = FEATURE_SCHEMA_VERSION"
    "fs_provenance (ci_features r) = feature_provenance"
    "set (keys (fs_values (ci_features r))) = set feature_names"
proof -
  obtain d b h where f: "extract_feature_set fr round8 d b h commits = Inr (ci_features r)"
    using assms unfolding analyze_change_Inr by auto
  show "fs_schema_version (ci_features r) = FEATURE_SCHEMA_VERSION"
    "fs_provenance (ci_features r) = feature_provenance" by (rule extract_feature_set_versions [OF f])+
  show "set (keys (fs_values (ci_features r))) = set feature_names" by (rule extract_feature_set_parts(3) [OF f])
qed

lemma materialized_row_sound:
  assumes "materialized_row ts a p x = Inr r"
  shows "row_sound p r"
proof -
  obtain c l s where c: "analyze_change (ts_float_repr ts) (ts_round8 ts) (ts_isoformat ts) (ts_parse ts)
      (xs_changed_files x) (xs_prediction_time x) [] None None (xs_commit_count x) False = Inr c"
    and l: "assign_proxy_label x a = Inr l" and s: "assign_split p (xs_prediction_time x) (la_label l) = Inr s"
    and r: "r = row_of (ts_isoformat ts) x c l s"
    by (rule materialized_row_parts [OF assms])
  note f = analysis_features [OF c]
  have "predictor_text r = casefold (join '' '' (keys (fs_values (ci_features c)) @ keys feature_provenance @
      map snd feature_provenance))" by (simp add: predictor_text_def r row_of_def f(2))
  moreover have "set (keys (fs_values (ci_features c)) @ keys feature_provenance @ map snd feature_provenance)
      \<subseteq> set schema_words"
    unfolding set_append f(3) schema_words_def keys_def [of feature_provenance] by blast
  ultimately have clean: "\<forall>t \<in> set BANNED_PREDICTOR_TOKENS. \<not> contains (predictor_text r) t"
    using clean_predictors by simp
  have "\<exists>t. la_observed_at l = Some t \<and> is_aware t \<and> instant (xs_prediction_time x) \<le> instant t"
    if "la_label l \<noteq> LABEL_UNKNOWN"
    using known_label_observed [OF l that] assign_split_aware [OF s] by (auto simp: observed_within_def)
  then show ?thesis using s clean f(1,3) by (simp add: row_sound_def r row_of_def)
qed

definition crosses_splits :: "feature_row list \<Rightarrow> bool" where
  "crosses_splits rows \<longleftrightarrow> (\<exists>r \<in> set rows. \<exists>r' \<in> set rows. fr_split r \<noteq> EXCLUDED \<and> fr_split r' \<noteq> EXCLUDED \<and>
     same_fingerprint r r' \<and> fr_split r \<noteq> fr_split r')"

lemma duplicate_violations_crosses: "duplicate_violations rows = [] \<longleftrightarrow> \<not> crosses_splits rows"
  unfolding duplicate_violations_Nil crosses_splits_def by blast

lemma build_dataset_Inr:
  "build_dataset ts v source policy commit = Inr b \<longleftrightarrow>
   v \<noteq> [] \<and> length v \<le> 128 \<and> require_sha commit ''extraction_code_commit'' = None \<and>
   (\<exists>rows. map_raise (materialized_row ts (xr_admission source) policy) (xr_records source) = Inr rows \<and>
      \<not> crosses_splits rows \<and>
      b = \<lparr>db_manifest = manifest_of ts v source policy commit rows
             (leakage_report_of []), db_rows = rows\<rparr>)"
proof -
  have "\<forall>r \<in> set rows. row_sound policy r"
    if "map_raise (materialized_row ts (xr_admission source) policy) (xr_records source) = Inr rows" for rows
    using list_all2_right [OF that [unfolded map_raise_list_all2]] materialized_row_sound by blast
  then show ?thesis
    unfolding build_dataset_def
    by (auto simp: and_then_Inr run_leakage_checks_Inr duplicate_violations_crosses split: option.splits)
qed

text \<open>
  C21: Rows are sound by construction: a dataset builds exactly when its version is bounded, the
  commit is a full SHA, every snapshot materialises, and no two included rows of different splits
  share a head commit, a diff, a near-duplicate skeleton or a row hash. The other leakage checks can
  never refuse a materialised row.
\<close>

theorem dataset_builds_exactly_without_duplicates:
  "(\<exists>b. build_dataset ts v source policy commit = Inr b) \<longleftrightarrow>
   1 \<le> length v \<and> length v \<le> 128 \<and> length commit = 40 \<and> is_hex commit \<and>
   (\<exists>rows. map_raise (materialized_row ts (xr_admission source) policy) (xr_records source) = Inr rows \<and>
      \<not> crosses_splits rows)"
proof -
  have "v \<noteq> [] \<longleftrightarrow> 1 \<le> length v" by (simp add: Suc_le_eq)
  then show ?thesis unfolding build_dataset_Inr by (auto simp: require_sha_def)
qed

subsection \<open>The extracted snapshots\<close>

definition snapshot_admitted :: "source_admission \<Rightarrow> extracted_snapshot \<Rightarrow> bool" where
  "snapshot_admitted a x \<longleftrightarrow> xs_source_id x = sa_source_id a \<and>
     xs_repository_numeric_id x = sa_repository_numeric_id a \<and> is_aware (xs_prediction_time x) \<and>
     is_aware (sa_as_of a) \<and> instant (xs_prediction_time x) \<le> instant (sa_as_of a) \<and>
     length (xs_head_sha x) = 40 \<and> is_hex (xs_head_sha x)"

lemma x_datetime_aware: "x_datetime fi v field = Inr t \<Longrightarrow> is_aware t"
  by (auto simp: x_datetime_def and_then_Inr require_aware_def split: option.splits)

lemma x_record_Inr:
  assumes "x_record fi isof a seen raw = Inr x"
  shows "xs_snapshot_id x \<notin> set seen \<and> snapshot_admitted a x"
proof -
  obtain d i repository prediction base head files commits outcome late where
    "i \<notin> set seen" "repository = sa_repository_numeric_id a"
    "x_datetime fi (item d ''prediction_time'') ''prediction_time'' = Inr prediction"
    "earlier (sa_as_of a) prediction = Inr late" "\<not> late" "require_sha head ''head_sha'' = None"
    "xs_snapshot_id x = i" "xs_source_id x = sa_source_id a" "xs_repository_numeric_id x = repository"
    "xs_prediction_time x = prediction" "xs_head_sha x = head"
    using assms unfolding x_record_def and_then_Inr guarded_Inr raise_if_None Let_def by auto
  then show ?thesis
    by (auto simp: snapshot_admitted_def earlier_Inr require_sha_def dest: x_datetime_aware)
qed

lemma x_records_Inr:
  "x_records fi isof a seen raws = Inr xs \<Longrightarrow>
   (\<forall>x \<in> set xs. snapshot_admitted a x) \<and> distinct (map xs_snapshot_id xs) \<and>
   set seen \<inter> set (map xs_snapshot_id xs) = {} \<and> length xs = length raws"
proof (induction raws arbitrary: seen xs)
  case (Cons raw raws)
  then obtain x ys where x: "x_record fi isof a seen raw = Inr x"
    and ys: "x_records fi isof a (xs_snapshot_id x # seen) raws = Inr ys" "xs = x # ys"
    by (auto simp: and_then_Inr)
  from x_record_Inr [OF x] Cons.IH [OF ys(1)] show ?case using ys(2) by auto
qed simp

lemma extract_Inr:
  assumes "extract_approved_source fi isof a payload = Inr source"
  shows "xr_admission source = a" "\<forall>x \<in> set (xr_records source). snapshot_admitted a x"
    "distinct (map xs_snapshot_id (xr_records source))" "sa_approved a"
    "int (length (xr_records source)) \<le> record_limit a"
proof -
  obtain raws xs where xs: "x_records fi isof a [] raws = Inr xs" "int (length raws) \<le> record_limit a"
      "admission_permits a = None"
    and source: "source = \<lparr>xr_admission = a, xr_payload_hash = canonical_hash (PyDict payload),
      xr_records = sort_key (\<lambda>x. (instant (xs_prediction_time x), xs_snapshot_id x)) xs\<rparr>"
    using assms unfolding extract_approved_source_def and_then_Inr guarded_Inr raise_if_None by auto
  note x = x_records_Inr [OF xs(1)]
  have "mset (map xs_snapshot_id (xr_records source)) = mset (map xs_snapshot_id xs)" by (simp add: source)
  then show "distinct (map xs_snapshot_id (xr_records source))" using x by (metis mset_eq_imp_distinct_iff)
  show "xr_admission source = a" "\<forall>x \<in> set (xr_records source). snapshot_admitted a x"
    "int (length (xr_records source)) \<le> record_limit a" "sa_approved a"
    using x xs(2,3) by (simp_all add: source admission_permits_def)
qed

subsection \<open>The built dataset\<close>

definition closed_inside :: "source_admission \<Rightarrow> feature_row \<Rightarrow> bool" where
  "closed_inside a r \<longleftrightarrow> (\<exists>t. la_observed_at (fr_label r) = Some t \<and>
     instant (fr_prediction_time r) \<le> instant t \<and>
     instant t \<le> instant (fr_prediction_time r) + days (sa_observation_window_days a) \<and>
     instant (fr_prediction_time r) + days (sa_observation_window_days a) \<le> instant (sa_as_of a))"

lemma instant_plus: "instant (plus_duration t d) = instant t + d"
  by (cases t) auto

lemma materialized_row_closed:
  assumes "materialized_row ts a p x = Inr r" "fr_split r \<noteq> EXCLUDED"
  shows "closed_inside a r"
proof -
  obtain c l s where l: "assign_proxy_label x a = Inr l" and s: "assign_split p (xs_prediction_time x) (la_label l) = Inr s"
    and r: "r = row_of (ts_isoformat ts) x c l s"
    by (rule materialized_row_parts [OF assms(1)])
  have "la_label l \<noteq> LABEL_UNKNOWN" using assign_split_label [OF s] assms(2) by (simp add: r row_of_def)
  from known_label_observed [OF l this] show ?thesis
    by (auto simp: closed_inside_def observed_within_def window_end_def instant_plus r row_of_def)
qed

lemma materialized_row_id: "materialized_row ts a p x = Inr r \<Longrightarrow> fr_snapshot_id r = xs_snapshot_id x"
  by (erule materialized_row_parts) (simp add: row_of_def)

text \<open>
  C22: A dataset built from an admitted payload has one row per snapshot, under distinct snapshot ids
  and within the admission's record limit; every included row was labelled by an observation between
  its prediction and the end of a window that had closed by the admission's cutoff; no two included
  rows of different splits share a fingerprint, and training rows predate validation rows, which
  predate test rows; the manifest lists the split of every row and the reason of exactly the excluded
  ones, and its hash is that of the rest of its dictionary.
\<close>

theorem built_dataset_is_sound:
  assumes "extract_approved_source fromisoformat isoformat a payload = Inr source"
    and "build_dataset ts v source policy commit = Inr b"
  defines "rows \<equiv> db_rows b" and "m \<equiv> db_manifest b"
  shows "map fr_snapshot_id rows = map xs_snapshot_id (xr_records source) \<and> distinct (map fr_snapshot_id rows) \<and>
    int (length rows) \<le> record_limit a \<and> sa_approved a \<and>
    (\<forall>r \<in> set rows. fr_split r \<noteq> EXCLUDED \<longrightarrow> closed_inside a r) \<and> \<not> crosses_splits rows \<and>
    (\<forall>r \<in> set rows. \<forall>r' \<in> set rows.
       (fr_split r, fr_split r') \<in> {(TRAIN, VALIDATION), (TRAIN, TEST), (VALIDATION, TEST)} \<longrightarrow>
       instant (fr_prediction_time r) < instant (fr_prediction_time r')) \<and>
    dm_split_assignments m = map (\<lambda>r. (fr_snapshot_id r, dataset_split_value (fr_split r))) rows \<and>
    dm_exclusions m = map (\<lambda>r. (fr_snapshot_id r, la_reason (fr_label r))) (filter (\<lambda>r. fr_split r = EXCLUDED) rows) \<and>
    dm_manifest_hash m = canonical_hash (PyDict (dict_pop ''manifest_hash''
      (dataset_manifest_as_dict (ts_isoformat ts) m)))"
proof -
  note source = extract_Inr [OF assms(1)]
  have run: "map_raise (materialized_row ts a policy) (xr_records source) = Inr rows"
    and clean: "\<not> crosses_splits rows"
    and m: "m = manifest_of ts v source policy commit rows (leakage_report_of [])"
    using assms(2) unfolding build_dataset_Inr rows_def m_def source(1) by auto
  have pairs: "list_all2 (\<lambda>x r. materialized_row ts a policy x = Inr r) (xr_records source) rows"
    using run unfolding map_raise_list_all2 .
  then have row: "\<exists>x. materialized_row ts a policy x = Inr r" if "r \<in> set rows" for r
    using list_all2_right [OF pairs that] by blast
  have ids: "map fr_snapshot_id rows = map xs_snapshot_id (xr_records source)"
    using pairs by (induction rule: list_all2_induct) (simp_all add: materialized_row_id)
  have sound: "assign_split policy (fr_prediction_time r) (la_label (fr_label r)) = Inr (fr_split r)"
    if "r \<in> set rows" for r
    using row [OF that] materialized_row_sound by (auto simp: row_sound_def)
  have distinct: "distinct (map fr_snapshot_id rows)" using source(3) by (simp only: ids)
  have "wf_dict (map (\<lambda>r. (fr_snapshot_id r, f r)) (filter P rows))" for f :: "feature_row \<Rightarrow> string" and P
    using distinct_map_filter [OF distinct] by (simp add: wf_dict_def keys_def comp_def)
  then have dicts: "dict_of (map (\<lambda>r. (fr_snapshot_id r, f r)) (filter P rows)) =
      map (\<lambda>r. (fr_snapshot_id r, f r)) (filter P rows)" for f :: "feature_row \<Rightarrow> string" and P by simp
  have "dm_split_assignments m = map (\<lambda>r. (fr_snapshot_id r, dataset_split_value (fr_split r))) rows"
    using dicts [of "\<lambda>r. dataset_split_value (fr_split r)" "\<lambda>_. True"]
    by (simp add: m manifest_of_def assignments_of_def Let_def)
  moreover have "dm_exclusions m =
      map (\<lambda>r. (fr_snapshot_id r, la_reason (fr_label r))) (filter (\<lambda>r. fr_split r = EXCLUDED) rows)"
    using dicts by (simp add: m manifest_of_def exclusions_of_def Let_def)
  moreover have "dm_manifest_hash m = canonical_hash (PyDict (dict_pop ''manifest_hash''
      (dataset_manifest_as_dict (ts_isoformat ts) m)))"
    by (simp add: m manifest_of_def manifest_payload_def lineage_of_def dict_pop_def dataset_manifest_as_dict_def
        str_dict_def sorted_items_def Let_def)
  moreover have "length rows = length (xr_records source)" using pairs by (simp add: list_all2_lengthD)
  moreover have "\<forall>r \<in> set rows. fr_split r \<noteq> EXCLUDED \<longrightarrow> closed_inside a r"
    using row materialized_row_closed by blast
  moreover have "instant (fr_prediction_time r) < instant (fr_prediction_time r')"
    if "r \<in> set rows" "r' \<in> set rows"
      "(fr_split r, fr_split r') \<in> {(TRAIN, VALIDATION), (TRAIN, TEST), (VALIDATION, TEST)}" for r r'
    using assign_split_order [OF sound [OF that(1)] sound [OF that(2)] that(3)] .
  ultimately show ?thesis using ids distinct clean source(4,5) by auto
qed

subsection \<open>Witnesses\<close>

definition sample_sha :: string where "sample_sha = replicate 40 (CHR ''a'')"

definition approved_admission :: source_admission where
  "approved_admission = sample_admission\<lparr>sa_allowed_fields := RECORD_FIELDS, sa_allowed_artifacts := [''feature_rows'']\<rparr>"

definition sample_outcome :: pyval where
  "sample_outcome = PyDict [(''kind'', PyStr ''hotfix''), (''observed_at'', PyStr ''t''), (''evidence_refs'', PyList []),
     (''note'', PyStr ''n'')]"

definition sample_record :: pyval where
  "sample_record = PyDict [(''base_sha'', PyStr sample_sha), (''changed_files'', PyList []), (''commit_count'', PyNone),
     (''head_sha'', PyStr sample_sha), (''outcome'', sample_outcome), (''prediction_time'', PyStr ''t''),
     (''repository_numeric_id'', PyInt 1), (''snapshot_id'', PyStr ''a'')]"

definition sample_payload :: pydict where
  "sample_payload = [(''records'', PyList [sample_record]), (''schema_version'', PyStr EXTRACTION_SCHEMA_VERSION),
     (''source_id'', PyStr ''s'')]"

definition midnight :: "string \<Rightarrow> datetime option" where
  "midnight text = Some (Aware 0 0)"

definition sample_services :: text_services where
  "sample_services = \<lparr>ts_float_repr = (\<lambda>_. ''0.0''), ts_round8 = (\<lambda>x. x), ts_isoformat = (\<lambda>_. ''t''),
     ts_parse = (\<lambda>_ _. None)\<rparr>"

lemma sample_sha_text: "x_string (PyStr sample_sha) f 40 = Inr sample_sha" "require_sha sample_sha f = None"
proof -
  have "isascii sample_sha" by (simp add: isascii_def sample_sha_def list_all_iff code_def)
  moreover have l: "length sample_sha = 40" by (simp add: sample_sha_def)
  ultimately show "x_string (PyStr sample_sha) f 40 = Inr sample_sha" by (auto simp: x_string_def)
  have "is_hex sample_sha" by (simp add: is_hex_def sample_sha_def hex_digits_def list_all_iff)
  then show "require_sha sample_sha f = None" by (simp add: require_sha_def l)
qed

lemma short_text: "s \<noteq> [] \<Longrightarrow> isascii s \<Longrightarrow> length s \<le> n \<Longrightarrow> x_string (PyStr s) f n = Inr s"
  by (auto simp: x_string_def)

lemma sample_texts: "isascii ''t''" "isascii ''a''" "isascii ''n''" "isascii ''hotfix''"
  by (simp_all add: code_def)

lemma sample_time: "x_datetime midnight (PyStr ''t'') f = Inr (Aware 0 0)"
  using short_text [of "''t''" 64] sample_texts by (simp add: x_datetime_def midnight_def require_aware_def)

definition hotfix_observed :: outcome_observation where
  "hotfix_observed = \<lparr>oo_kind = P_HOTFIX, oo_observed_at = Some (Aware 0 0), oo_evidence_refs = [], oo_note = ''n''\<rparr>"

lemma sample_outcome_reads: "x_outcome midnight sample_outcome = Inr (Some hotfix_observed)"
  using sample_texts
  by (simp add: x_outcome_def sample_outcome_def x_mapping_def has_exactly_def OUTCOME_FIELDS_def item_def
      recode_value_error_def enum_member_def proxy_outcome_kinds_def x_optional_datetime_def sample_time
      x_string_tuple_def x_list_def short_text hotfix_observed_def
      del: isascii_Cons)

lemma sample_record_reads:
  "\<exists>x. x_record midnight (\<lambda>_. ''t'') approved_admission [] sample_record = Inr x \<and> xs_changed_files x = [] \<and>
     xs_commit_count x = None \<and> xs_prediction_time x = Aware 0 0 \<and> xs_outcome x = Some hotfix_observed"
  using sample_texts
  by (simp add: x_record_def sample_record_def x_mapping_def has_exactly_def RECORD_FIELDS_def item_def short_text
      x_integer_def sample_time approved_admission_def sample_admission_def earlier_def days_def sample_sha_text
      x_list_def MAX_CHANGED_FILES_PER_SNAPSHOT_def x_optional_integer_def sample_outcome_reads guarded_def Let_def
      del: isascii_Cons)

lemma sample_extraction:
  "\<exists>x source. extract_approved_source midnight (\<lambda>_. ''t'') approved_admission sample_payload = Inr source \<and>
     xr_records source = [x] \<and> xr_admission source = approved_admission \<and> xs_changed_files x = [] \<and>
     xs_commit_count x = None \<and> xs_prediction_time x = Aware 0 0 \<and> xs_outcome x = Some hotfix_observed"
proof -
  obtain x where x: "x_record midnight (\<lambda>_. ''t'') approved_admission [] sample_record = Inr x"
    "xs_changed_files x = []" "xs_commit_count x = None" "xs_prediction_time x = Aware 0 0"
    "xs_outcome x = Some hotfix_observed" using sample_record_reads by blast
  have "admission_permits approved_admission = None"
    by (simp add: admission_permits_def approved_admission_def sample_admission_def)
  moreover have "payload_guard approved_admission sample_payload = None"
    by (simp add: payload_guard_def sample_payload_def has_exactly_def item_def approved_admission_def
        sample_admission_def list_all_iff)
  moreover have "x_list (item sample_payload ''records'') ''records'' = Inr [sample_record]"
    by (simp add: x_list_def item_def sample_payload_def)
  moreover have "record_limit approved_admission = 1"
    by (simp add: record_limit_def approved_admission_def sample_admission_def MAX_TOTAL_RECORDS_def Let_def)
  ultimately show ?thesis
    using x by (simp add: extract_approved_source_def guarded_def)
qed

lemma sample_row_materializes:
  assumes "xs_changed_files x = []" "xs_commit_count x = None" "xs_prediction_time x = Aware 0 0"
    "xs_outcome x = Some hotfix_observed"
  shows "\<exists>r. materialized_row sample_services approved_admission sample_policy x = Inr r \<and> fr_split r = TRAIN"
proof -
  have "\<exists>d. normalize_diff [] = Inr d" by (simp add: normalize_diff_def)
  then obtain d where d: "normalize_diff [] = Inr d" by blast
  moreover have "\<exists>h. compute_historical_statistics d [] (Aware 0 0) None 90 False = Inr h"
    by (simp add: compute_historical_statistics_def aware_instant_def MAX_HISTORY_CHANGES_def Let_def)
  ultimately have "\<exists>c. analyze_change (\<lambda>_. ''0.0'') (\<lambda>x. x) (\<lambda>_. ''t'') (\<lambda>_ _. None) [] (Aware 0 0) [] None None None
      False = Inr c" unfolding analysis_stages by (auto simp: source_graph_def)
  then obtain c where c: "analyze_change (\<lambda>_. ''0.0'') (\<lambda>x. x) (\<lambda>_. ''t'') (\<lambda>_ _. None) [] (Aware 0 0) [] None None
      None False = Inr c" by blast
  have "\<exists>l. assign_proxy_label x approved_admission = Inr l \<and> la_label l = POSITIVE"
    using assms
    by (simp add: assign_proxy_label_def label_observed_def earlier_def window_end_def approved_admission_def
        sample_admission_def days_def POSITIVE_KINDS_def hotfix_observed_def)
  moreover have "assign_split sample_policy (Aware 0 0) POSITIVE = Inr TRAIN"
    by (simp add: assign_split_def sample_policy_def earlier_def)
  ultimately show ?thesis
    using assms c by (auto simp: materialized_row_def sample_services_def row_of_def)
qed

theorem built_dataset_is_sound_witness:
  "\<exists>source b. extract_approved_source midnight (\<lambda>_. ''t'') approved_admission sample_payload = Inr source \<and>
     build_dataset sample_services ''v1'' source sample_policy sample_sha = Inr b \<and>
     (\<exists>r \<in> set (db_rows b). fr_split r = TRAIN \<and> closed_inside approved_admission r)"
proof -
  obtain x source where source: "extract_approved_source midnight (\<lambda>_. ''t'') approved_admission sample_payload =
      Inr source" "xr_records source = [x]" "xr_admission source = approved_admission"
    and x: "xs_changed_files x = []" "xs_commit_count x = None" "xs_prediction_time x = Aware 0 0"
      "xs_outcome x = Some hotfix_observed" using sample_extraction by blast
  obtain r where r: "materialized_row sample_services approved_admission sample_policy x = Inr r" "fr_split r = TRAIN"
    using sample_row_materializes [OF x] by blast
  then have "map_raise (materialized_row sample_services (xr_admission source) sample_policy) (xr_records source) =
      Inr [r]" by (simp add: source(2,3))
  moreover have "\<not> crosses_splits [r]" by (simp add: crosses_splits_def)
  ultimately obtain b where b: "build_dataset sample_services ''v1'' source sample_policy sample_sha = Inr b"
    "db_rows b = [r]"
    using sample_sha_text(2) unfolding build_dataset_Inr by fastforce
  from built_dataset_is_sound [OF source(1) b(1)] show ?thesis using source(1) b r(2) by auto
qed

theorem dataset_builds_exactly_without_duplicates_witness:
  "\<exists>source. xr_records source = [] \<and> (\<exists>b. build_dataset sample_services ''v1'' source sample_policy sample_sha = Inr b)"
proof -
  have "length sample_sha = 40" "is_hex sample_sha"
    using sample_sha_text(2) by (simp_all add: require_sha_def)
  then have "\<exists>b. build_dataset sample_services ''v1''
      \<lparr>xr_admission = approved_admission, xr_payload_hash = [], xr_records = []\<rparr> sample_policy sample_sha = Inr b"
    unfolding dataset_builds_exactly_without_duplicates by (simp add: crosses_splits_def)
  then show ?thesis by (metis extracted_source.select_convs(3))
qed

end
