(* ===== verification/Baseline.thy ===== *)
theory Baseline
  imports DatasetMaterialize
begin

section \<open>packages/ml_core/baseline.py: the deterministic risk score and its evaluation\<close>

text \<open>
  A score is a sum of integer points, so it is exact. The metrics of the evaluation are rational
  numbers; \<open>round8 x\<close> is \<open>round(x, 8)\<close> and \<open>float_repr\<close> the text of a float, both parameters.
\<close>

definition BASELINE_SCHEMA_VERSION :: string where
  "BASELINE_SCHEMA_VERSION = ''deterministic-risk-score-v1''"

definition BASELINE_ARTIFACT_VERSION :: string where
  "BASELINE_ARTIFACT_VERSION = ''deterministic-heuristic-v1''"

definition THRESHOLD_POLICY_VERSION :: string where
  "THRESHOLD_POLICY_VERSION = ''deterministic-threshold-v1''"

definition EVALUATION_SCHEMA_VERSION :: string where
  "EVALUATION_SCHEMA_VERSION = ''heuristic-evaluation-v1''"

definition CANDIDATE_THRESHOLDS :: "int list" where
  "CANDIDATE_THRESHOLDS = [20, 30, 40, 50]"

definition SELECTED_THRESHOLD :: int where "SELECTED_THRESHOLD = 30"

definition MINIMUM_VALIDATION_RECALL :: rat where "MINIMUM_VALIDATION_RECALL = 3 / 4"

datatype risk_band = LOW_RISK | MEDIUM_RISK | HIGH_RISK | UNKNOWN_RISK

fun risk_band_value :: "risk_band \<Rightarrow> string" where
  "risk_band_value LOW_RISK = ''low''"
| "risk_band_value MEDIUM_RISK = ''medium''"
| "risk_band_value HIGH_RISK = ''high''"
| "risk_band_value UNKNOWN_RISK = ''unknown''"

subsection \<open>Rules and scores\<close>

record rule_contribution =
  rc_rule_id :: string
  rc_points :: int
  rc_reason :: string
  rc_source_features :: "string list"

definition rule_contribution_as_dict :: "rule_contribution \<Rightarrow> pydict" where
  "rule_contribution_as_dict c = [
     (''points'', PyInt (rc_points c)),
     (''reason'', PyStr (rc_reason c)),
     (''rule_id'', PyStr (rc_rule_id c)),
     (''source_features'', strs (rc_source_features c))]"

text \<open>The probability of a heuristic score is always \<open>None\<close>, so the record has no field for it.\<close>

record heuristic_score =
  hs_schema_version :: string
  hs_artifact_version :: string
  hs_artifact_hash :: string
  hs_feature_schema_version :: string
  hs_threshold_policy_version :: string
  hs_threshold :: int
  hs_score :: "int option"
  hs_band :: risk_band
  hs_proxy_prediction :: "bool option"
  hs_contributions :: "rule_contribution list"
  hs_missing_required :: "string list"
  hs_result_hash :: string

definition opt_bool :: "bool option \<Rightarrow> pyval" where
  "opt_bool x = (case x of None \<Rightarrow> PyNone | Some b \<Rightarrow> PyBool b)"

definition heuristic_score_as_dict :: "heuristic_score \<Rightarrow> pydict" where
  "heuristic_score_as_dict s = [
     (''artifact_hash'', PyStr (hs_artifact_hash s)),
     (''artifact_version'', PyStr (hs_artifact_version s)),
     (''band'', PyStr (risk_band_value (hs_band s))),
     (''calibrated_probability'', PyNone),
     (''contributions'', PyList (map (\<lambda>c. PyDict (rule_contribution_as_dict c)) (hs_contributions s))),
     (''feature_schema_version'', PyStr (hs_feature_schema_version s)),
     (''missing_required'', strs (hs_missing_required s)),
     (''proxy_prediction'', opt_bool (hs_proxy_prediction s)),
     (''result_hash'', PyStr (hs_result_hash s)),
     (''schema_version'', PyStr (hs_schema_version s)),
     (''score'', opt_int (hs_score s)),
     (''threshold'', PyInt (hs_threshold s)),
     (''threshold_policy_version'', PyStr (hs_threshold_policy_version s))]"

definition rule_declaration :: "string \<Rightarrow> int \<Rightarrow> string \<Rightarrow> pyval" where
  "rule_declaration rule_id points condition = PyDict
     [(''rule_id'', PyStr rule_id), (''points'', PyInt points), (''condition'', PyStr condition)]"

definition RULE_DECLARATIONS :: "pyval list" where
  "RULE_DECLARATIONS = [
     rule_declaration ''large_change'' 20 ''lines_added + lines_deleted >= 100'',
     rule_declaration ''many_files'' 15 ''files_changed >= 4'',
     rule_declaration ''migration'' 25 ''migration_files_changed >= 1'',
     rule_declaration ''dependency'' 15 ''dependency_files_changed >= 1'',
     rule_declaration ''sensitive'' 25 ''sensitive_files_changed >= 1'',
     rule_declaration ''no_tests'' 10 ''test_files_changed == 0'',
     rule_declaration ''large_deletion'' 10 ''lines_deleted >= 50'',
     rule_declaration ''wide_blast'' 15 ''blast_transitive_modules >= 5'',
     rule_declaration ''prior_failure_proxies'' 15 ''prior_failure_proxy_count_90d >= 2'']"

definition REQUIRED_FEATURES :: "string list" where
  "REQUIRED_FEATURES = [''dependency_files_changed'', ''files_changed'', ''lines_added'', ''lines_deleted'',
     ''migration_files_changed'', ''sensitive_files_changed'', ''test_files_changed'']"

definition baseline_artifact_hash :: string where
  "baseline_artifact_hash = canonical_hash (PyDict [
     (''artifact_version'', PyStr BASELINE_ARTIFACT_VERSION),
     (''bands'', PyDict [(''high_min'', PyInt 40), (''low_max'', PyInt 19), (''medium_max'', PyInt 39)]),
     (''candidate_thresholds'', PyList (map PyInt CANDIDATE_THRESHOLDS)),
     (''feature_schema_version'', PyStr FEATURE_SCHEMA_VERSION),
     (''rules'', PyList RULE_DECLARATIONS),
     (''schema_version'', PyStr BASELINE_SCHEMA_VERSION),
     (''selected_threshold'', PyInt SELECTED_THRESHOLD),
     (''threshold_policy_version'', PyStr THRESHOLD_POLICY_VERSION)])"

definition feature_integer :: "pydict \<Rightarrow> string \<Rightarrow> int option result" where
  "feature_integer values name = (case map_of values name of
      None \<Rightarrow> Inr None
    | Some PyNone \<Rightarrow> Inr None
    | Some (PyInt i) \<Rightarrow> Inr (Some i)
    | Some _ \<Rightarrow> Inl (ValueError (''baseline feature '' @ name @ '' must be an integer'')))"

definition score_payload ::
  "int option \<Rightarrow> risk_band \<Rightarrow> bool option \<Rightarrow> rule_contribution list \<Rightarrow> string list \<Rightarrow> pydict" where
  "score_payload score band prediction contributions missing_required = [
     (''artifact_hash'', PyStr baseline_artifact_hash),
     (''artifact_version'', PyStr BASELINE_ARTIFACT_VERSION),
     (''band'', PyStr (risk_band_value band)),
     (''calibrated_probability'', PyNone),
     (''contributions'', PyList (map (\<lambda>c. PyDict (rule_contribution_as_dict c)) contributions)),
     (''feature_schema_version'', PyStr FEATURE_SCHEMA_VERSION),
     (''missing_required'', strs missing_required),
     (''proxy_prediction'', opt_bool prediction),
     (''schema_version'', PyStr BASELINE_SCHEMA_VERSION),
     (''score'', opt_int score),
     (''threshold'', PyInt SELECTED_THRESHOLD),
     (''threshold_policy_version'', PyStr THRESHOLD_POLICY_VERSION)]"

text \<open>Both returns of \<open>score_features\<close> build the payload, hash it and fill the record from the same values.\<close>

definition make_score ::
  "int option \<Rightarrow> risk_band \<Rightarrow> bool option \<Rightarrow> rule_contribution list \<Rightarrow> string list \<Rightarrow> heuristic_score" where
  "make_score score band prediction contributions missing_required =
     \<lparr>hs_schema_version = BASELINE_SCHEMA_VERSION, hs_artifact_version = BASELINE_ARTIFACT_VERSION,
       hs_artifact_hash = baseline_artifact_hash, hs_feature_schema_version = FEATURE_SCHEMA_VERSION,
       hs_threshold_policy_version = THRESHOLD_POLICY_VERSION, hs_threshold = SELECTED_THRESHOLD,
       hs_score = score, hs_band = band, hs_proxy_prediction = prediction, hs_contributions = contributions,
       hs_missing_required = missing_required,
       hs_result_hash = canonical_hash (PyDict (score_payload score band prediction contributions missing_required))\<rparr>"

text \<open>\<open>if condition: add(rule_id, points, reason, *features)\<close>.\<close>

definition add_rule :: "bool \<Rightarrow> string \<Rightarrow> int \<Rightarrow> string \<Rightarrow> string list \<Rightarrow> rule_contribution list" where
  "add_rule condition rule_id points reason features = (if condition
     then [\<lparr>rc_rule_id = BASELINE_ARTIFACT_VERSION @ ''.'' @ rule_id, rc_points = points, rc_reason = reason,
       rc_source_features = features\<rparr>] else [])"

definition required_rules :: "(string \<Rightarrow> int) \<Rightarrow> rule_contribution list" where
  "required_rules n =
     add_rule (n ''lines_added'' + n ''lines_deleted'' \<ge> 100) ''large_change'' 20 ''At least 100 changed lines.''
       [''lines_added'', ''lines_deleted''] @
     add_rule (n ''files_changed'' \<ge> 4) ''many_files'' 15 ''At least four files changed.'' [''files_changed''] @
     add_rule (n ''migration_files_changed'' \<ge> 1) ''migration'' 25 ''A migration/schema file changed.''
       [''migration_files_changed''] @
     add_rule (n ''dependency_files_changed'' \<ge> 1) ''dependency'' 15 ''A dependency manifest or lockfile changed.''
       [''dependency_files_changed''] @
     add_rule (n ''sensitive_files_changed'' \<ge> 1) ''sensitive'' 25 ''A deterministic sensitive-area path changed.''
       [''sensitive_files_changed''] @
     add_rule (n ''test_files_changed'' = 0) ''no_tests'' 10 ''No test file changed in this snapshot.''
       [''test_files_changed''] @
     add_rule (n ''lines_deleted'' \<ge> 50) ''large_deletion'' 10 ''At least 50 lines were deleted.'' [''lines_deleted'']"

definition reaches :: "int option \<Rightarrow> int \<Rightarrow> bool" where
  "reaches x bound = (case x of None \<Rightarrow> False | Some i \<Rightarrow> i \<ge> bound)"

definition optional_rules :: "int option \<Rightarrow> int option \<Rightarrow> rule_contribution list" where
  "optional_rules blast prior_failures =
     add_rule (reaches blast 5) ''wide_blast'' 15 ''Static blast radius reached at least five modules.''
       [''blast_transitive_modules''] @
     add_rule (reaches prior_failures 2) ''prior_failure_proxies'' 15
       ''At least two pre-change check-failure proxies touched this area.'' [''prior_failure_proxy_count_90d'']"

definition parsed_features :: "pydict \<Rightarrow> (string \<times> int option) list result" where
  "parsed_features values = map_raise (\<lambda>name. and_then (feature_integer values name) (\<lambda>v. Inr (name, v))) REQUIRED_FEATURES"

text \<open>\<open>parsed[name] or 0\<close>.\<close>

definition parsed_or_zero :: "(string \<times> int option) list \<Rightarrow> string \<Rightarrow> int" where
  "parsed_or_zero parsed name = (case map_of parsed name of Some (Some i) \<Rightarrow> i | _ \<Rightarrow> 0)"

definition band_of :: "int \<Rightarrow> risk_band" where
  "band_of score = (if score < 20 then LOW_RISK else if score < 40 then MEDIUM_RISK else HIGH_RISK)"

definition known_score :: "rule_contribution list \<Rightarrow> heuristic_score" where
  "known_score contributions = (let score = min 100 (sum_list (map rc_points contributions)) in
     make_score (Some score) (band_of score) (Some (score \<ge> SELECTED_THRESHOLD)) contributions [])"

definition score_features :: "string \<Rightarrow> pydict \<Rightarrow> heuristic_score result" where
  "score_features feature_schema_version values =
     (if feature_schema_version \<noteq> FEATURE_SCHEMA_VERSION
      then Inl (ValueError ''baseline feature schema is incompatible'')
      else and_then (parsed_features values) (\<lambda>parsed.
        let missing_required = sort (map fst (filter (\<lambda>p. snd p = None) parsed)) in
        if missing_required \<noteq> [] then Inr (make_score None UNKNOWN_RISK None [] missing_required)
        else and_then (feature_integer values ''blast_transitive_modules'') (\<lambda>blast.
          and_then (feature_integer values ''prior_failure_proxy_count_90d'') (\<lambda>prior_failures.
          Inr (known_score (required_rules (parsed_or_zero parsed) @ optional_rules blast prior_failures))))))"

end
