(* ===== verification/BaselineEvaluation.thy ===== *)
theory BaselineEvaluation
  imports Baseline
begin

section \<open>packages/ml_core/baseline.py: the frozen evaluation\<close>

text \<open>
  The confusion counts at each candidate threshold, the ranking metrics, the choice of the threshold on
  the validation rows, and the report. The ranking metrics are the step-wise average precision and the
  pairwise_points statistic behind the area under the ROC curve.
\<close>

definition is_positive :: "feature_row \<Rightarrow> bool" where
  "is_positive row = (la_label (fr_label row) = POSITIVE)"

definition eligible_rows :: "feature_row list \<Rightarrow> dataset_split \<Rightarrow> feature_row list" where
  "eligible_rows rows split = filter (\<lambda>row. fr_split row = split \<and>
     la_label (fr_label row) \<in> {POSITIVE, NEGATIVE}) rows"

definition known_score_of :: "string \<Rightarrow> feature_row \<Rightarrow> (int \<times> bool) result" where
  "known_score_of message row =
     and_then (score_features (fr_feature_schema_version row) (fr_feature_values row)) (\<lambda>s. case hs_score s of
       None \<Rightarrow> Inl (ValueError message)
     | Some score \<Rightarrow> Inr (score, is_positive row))"

subsection \<open>Confusion\<close>

record confusion_counts =
  cf_true_positive :: nat
  cf_false_positive :: nat
  cf_true_negative :: nat
  cf_false_negative :: nat

definition no_counts :: confusion_counts where
  "no_counts = \<lparr>cf_true_positive = 0, cf_false_positive = 0, cf_true_negative = 0, cf_false_negative = 0\<rparr>"

definition count_row :: "bool \<Rightarrow> bool \<Rightarrow> confusion_counts \<Rightarrow> confusion_counts" where
  "count_row predicted actual c =
     (if predicted \<and> actual then c\<lparr>cf_true_positive := cf_true_positive c + 1\<rparr>
      else if predicted then c\<lparr>cf_false_positive := cf_false_positive c + 1\<rparr>
      else if actual then c\<lparr>cf_false_negative := cf_false_negative c + 1\<rparr>
      else c\<lparr>cf_true_negative := cf_true_negative c + 1\<rparr>)"

fun count_rows :: "int \<Rightarrow> (int \<times> bool) list \<Rightarrow> confusion_counts \<Rightarrow> confusion_counts" where
  "count_rows threshold [] c = c"
| "count_rows threshold ((score, actual) # rest) c =
     count_rows threshold rest (count_row (score \<ge> threshold) actual c)"

definition quotient_or_zero :: "nat \<Rightarrow> nat \<Rightarrow> rat" where
  "quotient_or_zero a b = (if b = 0 then 0 else of_nat a / of_nat b)"

definition precision_of :: "confusion_counts \<Rightarrow> rat" where
  "precision_of c = quotient_or_zero (cf_true_positive c) (cf_true_positive c + cf_false_positive c)"

definition recall_of :: "confusion_counts \<Rightarrow> rat" where
  "recall_of c = quotient_or_zero (cf_true_positive c) (cf_true_positive c + cf_false_negative c)"

definition f1_of :: "confusion_counts \<Rightarrow> rat" where
  "f1_of c = (let precision = precision_of c; recall = recall_of c in
     if precision + recall = 0 then 0 else 2 * precision * recall / (precision + recall))"

record threshold_metrics =
  tm_counts :: confusion_counts
  tm_f1 :: rat
  tm_precision :: rat
  tm_prevalence :: "rat option"
  tm_recall :: rat
  tm_row_count :: nat
  tm_threshold :: int

definition confusion :: "(rat \<Rightarrow> rat) \<Rightarrow> feature_row list \<Rightarrow> int \<Rightarrow> threshold_metrics result" where
  "confusion round8 rows threshold =
     and_then (map_raise (known_score_of ''evaluation row produced UNKNOWN from required deterministic features'') rows)
       (\<lambda>predictions. let c = count_rows threshold predictions no_counts in
         Inr \<lparr>tm_counts = c, tm_f1 = round8 (f1_of c), tm_precision = round8 (precision_of c),
           tm_prevalence = (if rows = [] then None
             else Some (round8 (of_nat (cf_true_positive c + cf_false_negative c) / of_nat (length rows)))),
           tm_recall = round8 (recall_of c), tm_row_count = length rows, tm_threshold = threshold\<rparr>)"

definition opt_float :: "(rat \<Rightarrow> string) \<Rightarrow> rat option \<Rightarrow> pyval" where
  "opt_float float_repr x = (case x of None \<Rightarrow> PyNone | Some r \<Rightarrow> PyFloat (float_repr r))"

definition threshold_metrics_dict :: "(rat \<Rightarrow> string) \<Rightarrow> threshold_metrics \<Rightarrow> pydict" where
  "threshold_metrics_dict float_repr m = (let c = tm_counts m in [
     (''false_negative'', PyInt (int (cf_false_negative c))),
     (''false_positive'', PyInt (int (cf_false_positive c))),
     (''f1'', PyFloat (float_repr (tm_f1 m))),
     (''negative_count'', PyInt (int (cf_true_negative c + cf_false_positive c))),
     (''positive_count'', PyInt (int (cf_true_positive c + cf_false_negative c))),
     (''precision'', PyFloat (float_repr (tm_precision m))),
     (''prevalence'', opt_float float_repr (tm_prevalence m)),
     (''recall'', PyFloat (float_repr (tm_recall m))),
     (''row_count'', PyInt (int (tm_row_count m))),
     (''threshold'', PyInt (tm_threshold m)),
     (''true_negative'', PyInt (int (cf_true_negative c))),
     (''true_positive'', PyInt (int (cf_true_positive c)))])"

subsection \<open>Ranking\<close>

text \<open>The loop over the scores in descending order; a group holds the labels of one score.\<close>

definition score_group :: "(int \<times> bool) list \<Rightarrow> int \<Rightarrow> bool list" where
  "score_group scored score = map snd (filter (\<lambda>p. fst p = score) scored)"

fun precision_loop ::
  "(int \<times> bool) list \<Rightarrow> nat \<Rightarrow> int list \<Rightarrow> nat \<Rightarrow> nat \<Rightarrow> rat \<Rightarrow> rat \<Rightarrow> rat" where
  "precision_loop scored positives [] true_positive false_positive previous_recall area = area"
| "precision_loop scored positives (score # scores) true_positive false_positive previous_recall area =
     (let group = score_group scored score;
        hits = length (filter id group);
        tp = true_positive + hits;
        fp = false_positive + (length group - hits);
        recall = of_nat tp / of_nat positives;
        precision = of_nat tp / of_nat (tp + fp) in
      precision_loop scored positives scores tp fp recall (area + (recall - previous_recall) * precision))"

definition average_precision :: "(int \<times> bool) list \<Rightarrow> rat" where
  "average_precision scored = precision_loop scored (length (filter snd scored))
     (rev (sort (remdups (map fst scored)))) 0 0 0 0"

definition pair_points :: "int \<Rightarrow> int \<Rightarrow> rat" where
  "pair_points positive_score negative_score =
     (if positive_score > negative_score then 1 else if positive_score = negative_score then 1 / 2 else 0)"

definition pairwise_points :: "int list \<Rightarrow> int list \<Rightarrow> rat" where
  "pairwise_points positives negatives = sum_list (map (\<lambda>p. sum_list (map (pair_points p) negatives)) positives)"

definition roc_auc :: "(int \<times> bool) list \<Rightarrow> rat" where
  "roc_auc scored = (let positives = map fst (filter snd scored); negatives = map fst (filter (\<lambda>p. \<not> snd p) scored) in
     pairwise_points positives negatives / of_nat (length positives * length negatives))"

record ranking_metrics =
  rk_average_precision :: "rat option"
  rk_roc_auc :: "rat option"

definition ranking_metrics_of :: "(rat \<Rightarrow> rat) \<Rightarrow> feature_row list \<Rightarrow> ranking_metrics result" where
  "ranking_metrics_of round8 rows =
     and_then (map_raise (known_score_of ''ranking evaluation cannot include UNKNOWN scores'') rows) (\<lambda>scored.
       if filter snd scored = [] \<or> filter (\<lambda>p. \<not> snd p) scored = []
       then Inr \<lparr>rk_average_precision = None, rk_roc_auc = None\<rparr>
       else Inr \<lparr>rk_average_precision = Some (round8 (average_precision scored)),
         rk_roc_auc = Some (round8 (roc_auc scored))\<rparr>)"

definition ranking_metrics_dict :: "(rat \<Rightarrow> string) \<Rightarrow> ranking_metrics \<Rightarrow> pydict" where
  "ranking_metrics_dict float_repr m = [
     (''pr_auc_average_precision'', opt_float float_repr (rk_average_precision m)),
     (''roc_auc'', opt_float float_repr (rk_roc_auc m))]"

subsection \<open>The threshold\<close>

definition threshold_table :: "(rat \<Rightarrow> rat) \<Rightarrow> feature_row list \<Rightarrow> threshold_metrics list result" where
  "threshold_table round8 rows = map_raise (confusion round8 rows) CANDIDATE_THRESHOLDS"

definition selection_key :: "threshold_metrics \<Rightarrow> rat \<times> rat \<times> int" where
  "selection_key m = (tm_precision m, tm_f1 m, tm_threshold m)"

fun key_less :: "rat \<times> rat \<times> int \<Rightarrow> rat \<times> rat \<times> int \<Rightarrow> bool" where
  "key_less (p, f, t) (p', f', t') = (p < p' \<or> p = p' \<and> (f < f' \<or> f = f' \<and> t < t'))"

text \<open>\<open>max(rows, key=...)\<close>: the first row with a largest key.\<close>

fun max_row :: "threshold_metrics \<Rightarrow> threshold_metrics list \<Rightarrow> threshold_metrics" where
  "max_row best [] = best"
| "max_row best (m # ms) = max_row (if key_less (selection_key best) (selection_key m) then m else best) ms"

definition selected_from_validation :: "threshold_metrics list \<Rightarrow> int result" where
  "selected_from_validation table =
     (case filter (\<lambda>m. tm_recall m \<ge> MINIMUM_VALIDATION_RECALL) table of
        [] \<Rightarrow> Inl (ValueError ''no candidate threshold meets the frozen validation recall floor'')
      | m # ms \<Rightarrow> Inr (tm_threshold (max_row m ms)))"

subsection \<open>The report\<close>

definition raw_prediction :: "feature_row \<Rightarrow> pyval result" where
  "raw_prediction row =
     and_then (score_features (fr_feature_schema_version row) (fr_feature_values row)) (\<lambda>s. Inr (PyDict [
       (''actual_proxy_label'', PyStr (proxy_label_value (la_label (fr_label row)))),
       (''band'', PyStr (risk_band_value (hs_band s))),
       (''predicted_proxy_positive'', opt_bool (hs_proxy_prediction s)),
       (''score'', opt_int (hs_score s)),
       (''snapshot_id'', PyStr (fr_snapshot_id row)),
       (''split'', PyStr (dataset_split_value (fr_split row)))]))"

definition raw_predictions :: "feature_row list \<Rightarrow> pyval list result" where
  "raw_predictions rows = map_raise raw_prediction
     (filter (\<lambda>row. fr_split row \<noteq> EXCLUDED) (sort_key fr_snapshot_id rows))"

definition split_metrics ::
  "(rat \<Rightarrow> rat) \<Rightarrow> (rat \<Rightarrow> string) \<Rightarrow> dataset_split \<times> feature_row list \<Rightarrow> (string \<times> pyval) result" where
  "split_metrics round8 float_repr item = (case item of (split, rows) \<Rightarrow>
     and_then (confusion round8 rows SELECTED_THRESHOLD) (\<lambda>c.
     and_then (ranking_metrics_of round8 rows) (\<lambda>r.
     Inr (dataset_split_value split, PyDict (threshold_metrics_dict float_repr c @ ranking_metrics_dict float_repr r)))))"

definition BASELINE_LIMITATIONS :: "string list" where
  "BASELINE_LIMITATIONS = [
     ''All rows are synthetic and measure implementation behavior only.'',
     ''Proxy labels are not production incidents or proof of change causality.'',
     ''One admitted fixture repository permits temporal but not repository-holdout evaluation.'',
     ''Small split counts make every metric unstable and unsuitable for product claims.'']"

definition table_json :: "(rat \<Rightarrow> string) \<Rightarrow> threshold_metrics list \<Rightarrow> pyval" where
  "table_json float_repr table = PyList (map (\<lambda>m. PyDict (threshold_metrics_dict float_repr m)) table)"

definition evaluation_payload ::
  "(rat \<Rightarrow> string) \<Rightarrow> dataset_manifest \<Rightarrow> pydict \<Rightarrow> pyval list \<Rightarrow> threshold_metrics list \<Rightarrow>
   threshold_metrics list \<Rightarrow> pydict" where
  "evaluation_payload float_repr manifest metrics predictions test_table validation_table = [
     (''baseline_artifact_hash'', PyStr baseline_artifact_hash),
     (''baseline_artifact_version'', PyStr BASELINE_ARTIFACT_VERSION),
     (''calibration'', PyStr ''not_applicable_score_not_probability''),
     (''candidate_thresholds'', PyList (map PyInt CANDIDATE_THRESHOLDS)),
     (''dataset_manifest_hash'', PyStr (dm_manifest_hash manifest)),
     (''dataset_version'', PyStr (dm_dataset_version manifest)),
     (''evaluation_schema_version'', PyStr EVALUATION_SCHEMA_VERSION),
     (''feature_schema_version'', PyStr (dm_feature_schema_version manifest)),
     (''limitations'', strs BASELINE_LIMITATIONS),
     (''metrics'', PyDict metrics),
     (''minimum_validation_recall'', PyFloat (float_repr MINIMUM_VALIDATION_RECALL)),
     (''raw_predictions'', PyList predictions),
     (''selected_threshold'', PyInt SELECTED_THRESHOLD),
     (''selection_rule'', PyStr ''validation_only_max_precision_then_f1_then_threshold_with_recall_floor''),
     (''split_hash'', PyStr (dm_split_hash manifest)),
     (''synthetic'', PyBool True),
     (''test_thresholds'', table_json float_repr test_table),
     (''threshold_policy_version'', PyStr THRESHOLD_POLICY_VERSION),
     (''validation_thresholds'', table_json float_repr validation_table)]"

definition evaluate_baseline :: "(rat \<Rightarrow> rat) \<Rightarrow> (rat \<Rightarrow> string) \<Rightarrow> dataset_build \<Rightarrow> pydict result" where
  "evaluate_baseline round8 float_repr dataset =
     (let validation_rows = eligible_rows (db_rows dataset) VALIDATION;
        test_rows = eligible_rows (db_rows dataset) TEST;
        train_rows = eligible_rows (db_rows dataset) TRAIN in
      if validation_rows = [] \<or> test_rows = []
      then Inl (ValueError ''baseline evaluation requires non-empty validation and test splits'')
      else
        and_then (threshold_table round8 validation_rows) (\<lambda>validation_table.
        and_then (selected_from_validation validation_table) (\<lambda>selected.
        if selected \<noteq> SELECTED_THRESHOLD
        then Inl (ValueError ''frozen threshold policy does not match validation-only selection'')
        else
          and_then (raw_predictions (db_rows dataset)) (\<lambda>predictions.
          and_then (map_raise (split_metrics round8 float_repr)
            [(TRAIN, train_rows), (VALIDATION, validation_rows), (TEST, test_rows)]) (\<lambda>metrics.
          and_then (threshold_table round8 test_rows) (\<lambda>test_table.
          let payload = evaluation_payload float_repr (db_manifest dataset) metrics predictions test_table validation_table in
          Inr (payload @ [(''evaluation_hash'', PyStr (canonical_hash (PyDict payload)))])))))))"

end
