(* ===== verification/BaselineProofs.thy ===== *)
theory BaselineProofs
  imports BaselineEvaluation
begin

section \<open>The risk baseline: scores, thresholds and ranking metrics\<close>

text \<open>
  When a score is known and what it then is, that it never falls when the change gets riskier, that the
  frozen threshold is the best one on the validation rows, and the range of the ranking metrics.
\<close>

subsection \<open>Scores\<close>

definition feature_or_zero :: "pydict \<Rightarrow> string \<Rightarrow> int" where
  "feature_or_zero vs name = (case map_of vs name of Some (PyInt i) \<Rightarrow> i | _ \<Rightarrow> 0)"

definition feature_known :: "pydict \<Rightarrow> string \<Rightarrow> bool" where
  "feature_known vs name = (case map_of vs name of None \<Rightarrow> False | Some v \<Rightarrow> v \<noteq> PyNone)"

definition int_feature :: "pydict \<Rightarrow> string \<Rightarrow> int option" where
  "int_feature vs name = (case map_of vs name of Some (PyInt i) \<Rightarrow> Some i | _ \<Rightarrow> None)"

lemma feature_integer_Inr:
  "feature_integer vs name = Inr x \<Longrightarrow> x = int_feature vs name \<and> (x = None \<longleftrightarrow> \<not> feature_known vs name)"
  by (auto simp: feature_integer_def int_feature_def feature_known_def split: option.splits pyval.splits)

lemma parsed_features_Inr:
  assumes "parsed_features vs = Inr parsed"
  shows "parsed = map (\<lambda>n. (n, int_feature vs n)) REQUIRED_FEATURES"
    "\<forall>n \<in> set REQUIRED_FEATURES. int_feature vs n = None \<longleftrightarrow> \<not> feature_known vs n"
proof -
  have step: "and_then (feature_integer vs n) (\<lambda>v. Inr (n, v)) = Inr y \<Longrightarrow>
      y = (n, int_feature vs n) \<and> (int_feature vs n = None \<longleftrightarrow> \<not> feature_known vs n)" for n y
    by (auto simp: and_then_Inr dest!: feature_integer_Inr)
  from assms have all: "list_all2 (\<lambda>n y. and_then (feature_integer vs n) (\<lambda>v. Inr (n, v)) = Inr y)
      REQUIRED_FEATURES parsed" unfolding parsed_features_def by (rule map_raise_Inr_nth)
  then have "list_all2 (\<lambda>n y. y = (n, int_feature vs n)) REQUIRED_FEATURES parsed"
    by (rule list_all2_mono) (use step in blast)
  then show "parsed = map (\<lambda>n. (n, int_feature vs n)) REQUIRED_FEATURES"
    by (simp add: list_all2_conv_all_nth list_eq_iff_nth_eq)
  show "\<forall>n \<in> set REQUIRED_FEATURES. int_feature vs n = None \<longleftrightarrow> \<not> feature_known vs n"
    using list_all2_mono [OF all, of "\<lambda>n y. int_feature vs n = None \<longleftrightarrow> \<not> feature_known vs n"] step
    by (simp add: list_all2_conv_all_nth all_set_conv_all_nth)
qed

lemma parsed_or_zero_map:
  "n \<in> set ns \<Longrightarrow> parsed_or_zero (map (\<lambda>n. (n, int_feature vs n)) ns) n = feature_or_zero vs n"
  by (induction ns) (auto simp: parsed_or_zero_def int_feature_def feature_or_zero_def split: option.splits pyval.splits)

text \<open>The rules read required features only.\<close>

lemma required_rules_cong:
  "(\<And>k. k \<in> set REQUIRED_FEATURES \<Longrightarrow> f k = g k) \<Longrightarrow> required_rules f = required_rules g"
  by (simp add: required_rules_def REQUIRED_FEATURES_def)

definition all_rules :: "pydict \<Rightarrow> rule_contribution list" where
  "all_rules vs = required_rules (feature_or_zero vs) @
     optional_rules (int_feature vs ''blast_transitive_modules'') (int_feature vs ''prior_failure_proxy_count_90d'')"

definition missing_features :: "pydict \<Rightarrow> string list" where
  "missing_features vs = sort (filter (\<lambda>n. \<not> feature_known vs n) REQUIRED_FEATURES)"

lemma filter_missing:
  "map fst (filter (\<lambda>p. snd p = None) (map (\<lambda>n. (n, f n)) ns)) = filter (\<lambda>n. f n = None) ns"
  by (induction ns) auto

lemma score_features_Inr:
  assumes "score_features version vs = Inr s"
  shows "version = FEATURE_SCHEMA_VERSION \<and> (if missing_features vs = [] then s = known_score (all_rules vs)
    else s = make_score None UNKNOWN_RISK None [] (missing_features vs))"
proof -
  from assms obtain parsed where v: "version = FEATURE_SCHEMA_VERSION" and p: "parsed_features vs = Inr parsed"
    by (auto simp: score_features_def and_then_Inr split: if_splits)
  note m = parsed_features_Inr [OF p]
  have missing: "sort (map fst (filter (\<lambda>p. snd p = None) parsed)) = missing_features vs"
    unfolding m(1) filter_missing missing_features_def using m(2) by (metis (mono_tags, lifting) filter_cong)
  show ?thesis
  proof (cases "missing_features vs = []")
    case False
    with assms v p missing show ?thesis by (simp add: score_features_def Let_def)
  next
    case True
    with assms v p missing obtain b f where "feature_integer vs ''blast_transitive_modules'' = Inr b"
        "feature_integer vs ''prior_failure_proxy_count_90d'' = Inr f"
        "s = known_score (required_rules (parsed_or_zero parsed) @ optional_rules b f)"
      by (auto simp: score_features_def Let_def and_then_Inr)
    moreover have "required_rules (parsed_or_zero parsed) = required_rules (feature_or_zero vs)"
      by (rule required_rules_cong) (simp add: m(1) parsed_or_zero_map)
    ultimately show ?thesis using True v by (auto simp: all_rules_def dest!: feature_integer_Inr)
  qed
qed

definition points :: "rule_contribution list \<Rightarrow> int" where
  "points cs = sum_list (map rc_points cs)"

lemma points_simps [simp]:
  "points [] = 0" "points (cs @ ds) = points cs + points ds"
  "points (add_rule b r p t fs) = (if b then p else 0)"
  by (simp_all add: points_def add_rule_def)

lemma points_nonneg: "0 \<le> points (all_rules vs)"
  by (simp add: all_rules_def required_rules_def optional_rules_def)

lemma known_score_simps [simp]:
  "hs_score (known_score cs) = Some (min 100 (points cs))" "hs_band (known_score cs) = band_of (min 100 (points cs))"
  "hs_proxy_prediction (known_score cs) = Some (min 100 (points cs) \<ge> 30)" "hs_contributions (known_score cs) = cs"
  "hs_missing_required (known_score cs) = []"
  by (simp_all add: known_score_def make_score_def points_def Let_def SELECTED_THRESHOLD_def)

text \<open>
  The deterministic score is known exactly when every required feature is present; otherwise the band is UNKNOWN,
  there is no prediction, and the missing features are named in sorted order. A known score is the capped sum of the
  points of the rules that fired, lies in 0..100, and decides band and prediction. The stored hash is that of the
  rest of the record.
\<close>

theorem score_is_known_with_all_features:
  assumes "score_features version vs = Inr s"
  shows "hs_missing_required s = missing_features vs \<and>
    (missing_features vs \<noteq> [] \<longrightarrow> hs_score s = None \<and> hs_band s = UNKNOWN_RISK \<and> hs_proxy_prediction s = None) \<and>
    (missing_features vs = [] \<longrightarrow> (\<exists>n. hs_score s = Some n \<and> n = min 100 (points (hs_contributions s)) \<and>
      0 \<le> n \<and> n \<le> 100 \<and> hs_band s = band_of n \<and> hs_proxy_prediction s = Some (n \<ge> 30))) \<and>
    hs_result_hash s = canonical_hash (PyDict (dict_pop ''result_hash'' (heuristic_score_as_dict s)))"
proof -
  have hash: "hs_result_hash (make_score n b p cs m) =
      canonical_hash (PyDict (dict_pop ''result_hash'' (heuristic_score_as_dict (make_score n b p cs m))))" for n b p cs m
    by (simp add: make_score_def heuristic_score_as_dict_def dict_pop_def score_payload_def)
  have known: "\<exists>n b p cs m. known_score r = make_score n b p cs m" for r
    unfolding known_score_def Let_def by blast
  show ?thesis
  proof (cases "missing_features vs = []")
    case True
    with score_features_Inr [OF assms] have s: "s = known_score (all_rules vs)" by simp
    with True hash known [of "all_rules vs"] points_nonneg [of vs] show ?thesis by auto
  next
    case False
    with score_features_Inr [OF assms] have s: "s = make_score None UNKNOWN_RISK None [] (missing_features vs)" by simp
    with False hash show ?thesis by (simp add: make_score_def)
  qed
qed

definition sample_features :: pydict where
  "sample_features = [(''dependency_files_changed'', PyInt 1), (''files_changed'', PyInt 4), (''lines_added'', PyInt 60),
     (''lines_deleted'', PyInt 40), (''migration_files_changed'', PyInt 0), (''sensitive_files_changed'', PyInt 0),
     (''test_files_changed'', PyInt 2), (''blast_transitive_modules'', PyNone)]"

lemma sample_score: "score_features FEATURE_SCHEMA_VERSION sample_features = Inr (known_score (all_rules sample_features))"
  by (simp add: score_features_def parsed_features_def REQUIRED_FEATURES_def feature_integer_def sample_features_def
      all_rules_def int_feature_def Let_def parsed_or_zero_def feature_or_zero_def required_rules_def)

lemma sample_missing: "missing_features sample_features = []"
  by (simp add: missing_features_def REQUIRED_FEATURES_def feature_known_def sample_features_def)

lemma sample_points: "points (all_rules sample_features) = 50"
  by (simp add: all_rules_def required_rules_def optional_rules_def reaches_def int_feature_def feature_or_zero_def
      sample_features_def)

theorem score_is_known_with_all_features_witness:
  "hs_score (known_score (all_rules sample_features)) = Some 50 \<and>
   hs_band (known_score (all_rules sample_features)) = HIGH_RISK"
  using score_is_known_with_all_features [OF sample_score] sample_missing sample_points by (auto simp: band_of_def)

subsection \<open>Monotonicity\<close>

definition rising_features :: "string list" where
  "rising_features = [''dependency_files_changed'', ''files_changed'', ''lines_added'', ''lines_deleted'',
     ''migration_files_changed'', ''sensitive_files_changed'']"

text \<open>\<open>None\<close> is below every number.\<close>

fun opt_le :: "int option \<Rightarrow> int option \<Rightarrow> bool" where
  "opt_le None _ = True"
| "opt_le (Some i) (Some j) = (i \<le> j)"
| "opt_le (Some i) None = False"

definition no_less_risky :: "pydict \<Rightarrow> pydict \<Rightarrow> bool" where
  "no_less_risky v w = (list_all (\<lambda>k. feature_or_zero v k \<le> feature_or_zero w k) rising_features \<and>
     (feature_or_zero v ''test_files_changed'' = 0 \<longrightarrow> feature_or_zero w ''test_files_changed'' = 0) \<and>
     opt_le (int_feature v ''blast_transitive_modules'') (int_feature w ''blast_transitive_modules'') \<and>
     opt_le (int_feature v ''prior_failure_proxy_count_90d'') (int_feature w ''prior_failure_proxy_count_90d''))"

fun band_rank :: "risk_band \<Rightarrow> nat" where
  "band_rank LOW_RISK = 0"
| "band_rank MEDIUM_RISK = 1"
| "band_rank HIGH_RISK = 2"
| "band_rank UNKNOWN_RISK = 3"

lemma reaches_mono: "opt_le x y \<Longrightarrow> reaches x b \<Longrightarrow> reaches y b"
  by (cases "(x, y)" rule: opt_le.cases) (auto simp: reaches_def)

lemma rule_mono: "(a \<longrightarrow> b) \<Longrightarrow> 0 \<le> p \<Longrightarrow> (if a then p else 0) \<le> (if b then p else (0 :: int))"
  by simp

lemma optional_mono: "opt_le x x' \<Longrightarrow> opt_le y y' \<Longrightarrow> points (optional_rules x y) \<le> points (optional_rules x' y')"
  unfolding optional_rules_def points_simps by (intro add_mono rule_mono) (auto dest: reaches_mono)

lemma required_mono:
  assumes "list_all (\<lambda>k. f k \<le> g k) rising_features" "f ''test_files_changed'' = 0 \<longrightarrow> g ''test_files_changed'' = 0"
  shows "points (required_rules f) \<le> points (required_rules g)"
  unfolding required_rules_def points_simps by (intro add_mono rule_mono) (use assms in \<open>auto simp: rising_features_def\<close>)

lemma rules_mono: "no_less_risky v w \<Longrightarrow> points (all_rules v) \<le> points (all_rules w)"
  unfolding all_rules_def points_simps by (intro add_mono required_mono optional_mono) (simp_all add: no_less_risky_def)

lemma band_mono: "a \<le> b \<Longrightarrow> band_rank (band_of a) \<le> band_rank (band_of b)"
  by (simp add: band_of_def)

lemma known_points:
  assumes "score_features version vs = Inr s" "hs_score s \<noteq> None"
  shows "s = known_score (all_rules vs)"
  using score_features_Inr [OF assms(1)] assms(2) by (auto simp: make_score_def split: if_splits)

text \<open>
  C14: A riskier change never gets a lower score: when no counted feature decreases, a known blast radius or failure
  count stays known, and tests are not added where there were none, then the score does not fall, nor does the band,
  and a positive prediction stays positive.
\<close>

theorem riskier_change_never_scores_lower:
  assumes "score_features version v = Inr s" "score_features version w = Inr t" "no_less_risky v w"
    and "hs_score s = Some a" "hs_score t = Some b"
  shows "a \<le> b \<and> band_rank (hs_band s) \<le> band_rank (hs_band t) \<and>
    (hs_proxy_prediction s = Some True \<longrightarrow> hs_proxy_prediction t = Some True)"
proof -
  have s: "s = known_score (all_rules v)" and t: "t = known_score (all_rules w)"
    using known_points assms by auto
  have "min 100 (points (all_rules v)) \<le> min 100 (points (all_rules w))"
    using rules_mono [OF assms(3)] by simp
  with s t assms(4,5) band_mono show ?thesis by auto
qed

definition sample_riskier :: pydict where
  "sample_riskier = (''migration_files_changed'', PyInt 1) # sample_features"

lemma sample_riskier_score:
  "score_features FEATURE_SCHEMA_VERSION sample_riskier = Inr (known_score (all_rules sample_riskier))"
  by (simp add: score_features_def parsed_features_def REQUIRED_FEATURES_def feature_integer_def sample_features_def
      sample_riskier_def all_rules_def int_feature_def Let_def parsed_or_zero_def feature_or_zero_def required_rules_def)

theorem riskier_change_never_scores_lower_witness:
  "points (all_rules sample_features) \<le> min 100 (points (all_rules sample_riskier))"
proof -
  have "no_less_risky sample_features sample_riskier"
    by (simp add: no_less_risky_def rising_features_def feature_or_zero_def int_feature_def sample_features_def
        sample_riskier_def)
  from riskier_change_never_scores_lower [OF sample_score sample_riskier_score this known_score_simps(1) known_score_simps(1)]
    sample_points show ?thesis by simp
qed

subsection \<open>Confusion counts and the threshold\<close>

definition hits :: "int \<Rightarrow> (int \<times> bool) list \<Rightarrow> nat" where
  "hits t ps = length (filter (\<lambda>p. snd p \<and> fst p \<ge> t) ps)"

definition positives :: "(int \<times> bool) list \<Rightarrow> nat" where
  "positives ps = length (filter snd ps)"

definition false_alarms :: "int \<Rightarrow> (int \<times> bool) list \<Rightarrow> nat" where
  "false_alarms t ps = length (filter (\<lambda>p. \<not> snd p \<and> fst p \<ge> t) ps)"

lemma count_rows_acc:
  "cf_true_positive (count_rows t ps c) = cf_true_positive c + hits t ps \<and>
   cf_false_positive (count_rows t ps c) = cf_false_positive c + false_alarms t ps \<and>
   cf_true_positive (count_rows t ps c) + cf_false_negative (count_rows t ps c) =
     cf_true_positive c + cf_false_negative c + positives ps \<and>
   cf_true_negative (count_rows t ps c) + cf_false_positive (count_rows t ps c) + positives ps =
     cf_true_negative c + cf_false_positive c + length ps"
proof (induction t ps c rule: count_rows.induct)
  case (2 t score actual rest c)
  then show ?case
    by (cases actual; cases "t \<le> score") (simp_all add: count_row_def hits_def false_alarms_def positives_def)
qed (simp add: hits_def false_alarms_def positives_def)

lemma counts:
  "cf_true_positive (count_rows t ps no_counts) = hits t ps"
  "cf_false_positive (count_rows t ps no_counts) = false_alarms t ps"
  "cf_true_positive (count_rows t ps no_counts) + cf_false_negative (count_rows t ps no_counts) = positives ps"
  "cf_true_negative (count_rows t ps no_counts) + cf_false_positive (count_rows t ps no_counts) + positives ps = length ps"
  using count_rows_acc [of t ps no_counts] by (simp_all add: no_counts_def)

lemma length_filter_mono: "(\<And>x. x \<in> set xs \<Longrightarrow> P x \<Longrightarrow> Q x) \<Longrightarrow> length (filter P xs) \<le> length (filter Q xs)"
  by (induction xs) (auto simp: le_SucI)

lemma hits_le: "hits t ps \<le> positives ps"
  unfolding hits_def positives_def by (rule length_filter_mono) simp

lemma hits_antimono: "t \<le> t' \<Longrightarrow> hits t' ps \<le> hits t ps"
  unfolding hits_def by (rule length_filter_mono) simp

lemma quotient_mono: "a \<le> b \<Longrightarrow> quotient_or_zero a n \<le> quotient_or_zero b n"
  by (simp add: quotient_or_zero_def divide_right_mono)

text \<open>A higher threshold finds no more of the positive rows.\<close>

lemma recall_antimono: "t \<le> t' \<Longrightarrow> recall_of (count_rows t' ps no_counts) \<le> recall_of (count_rows t ps no_counts)"
  unfolding recall_of_def counts(3) unfolding counts(1) by (intro quotient_mono hits_antimono)

lemma key_less_linear: "key_less x z \<Longrightarrow> \<not> key_less y z \<Longrightarrow> key_less x y"
  by (cases x; cases y; cases z) auto

lemma key_less_asym: "key_less x y \<Longrightarrow> \<not> key_less y x"
  by (cases x; cases y) auto

lemma key_less_irrefl: "\<not> key_less x x"
  by (cases x) simp

lemma max_row_best:
  "max_row best ms \<in> set (best # ms) \<and> (\<forall>m \<in> set (best # ms). \<not> key_less (selection_key (max_row best ms)) (selection_key m))"
proof (induction best ms rule: max_row.induct)
  case (2 best m ms)
  let ?b = "if key_less (selection_key best) (selection_key m) then m else best"
  have top: "\<not> key_less (selection_key (max_row ?b ms)) (selection_key ?b)" using 2 by simp
  have "\<not> key_less (selection_key (max_row ?b ms)) (selection_key x)" if "x \<in> {best, m}" for x
  proof
    assume "key_less (selection_key (max_row ?b ms)) (selection_key x)"
    moreover have "\<not> key_less (selection_key ?b) (selection_key x)"
      using that by (auto simp: key_less_irrefl dest: key_less_asym)
    ultimately show False using top key_less_linear by blast
  qed
  with 2 show ?case by auto
qed (simp add: key_less_irrefl)

lemma confusion_threshold: "confusion round8 rows t = Inr m \<Longrightarrow> tm_threshold m = t"
  by (auto simp: confusion_def and_then_Inr Let_def)

lemma selected_best:
  assumes "threshold_table round8 rows = Inr table" "selected_from_validation table = Inr t"
  obtains m where "m \<in> set table" "tm_threshold m = t" "confusion round8 rows t = Inr m"
    "tm_recall m \<ge> MINIMUM_VALIDATION_RECALL"
    "\<And>m'. m' \<in> set table \<Longrightarrow> tm_recall m' \<ge> MINIMUM_VALIDATION_RECALL \<Longrightarrow>
      \<not> key_less (selection_key m) (selection_key m')"
proof -
  from assms(2) obtain b ms where f: "filter (\<lambda>m. tm_recall m \<ge> MINIMUM_VALIDATION_RECALL) table = b # ms"
    and t: "t = tm_threshold (max_row b ms)" by (auto simp: selected_from_validation_def split: list.splits)
  let ?m = "max_row b ms"
  have all: "x \<in> set (b # ms) \<longleftrightarrow> x \<in> set table \<and> tm_recall x \<ge> MINIMUM_VALIDATION_RECALL" for x
    unfolding f [symmetric] by auto
  note best = max_row_best [of b ms]
  from best all have m: "?m \<in> set table" "tm_recall ?m \<ge> MINIMUM_VALIDATION_RECALL" by blast+
  from assms(1) have "list_all2 (\<lambda>x y. confusion round8 rows x = Inr y) CANDIDATE_THRESHOLDS table"
    unfolding threshold_table_def by (rule map_raise_Inr_nth)
  with m(1) obtain x where "confusion round8 rows x = Inr ?m"
    by (auto simp: in_set_conv_nth list_all2_conv_all_nth)
  with confusion_threshold t have "confusion round8 rows t = Inr ?m" by blast
  with that m t best all show thesis by blast
qed

text \<open>
  The measures of a threshold, written apart from the evaluation over the scored rows: a list of pairs of a score and
  whether the row is positive. The quotients are zero where the code has no divisor.
\<close>

definition share :: "nat \<Rightarrow> nat \<Rightarrow> rat" where
  "share a n = (if n = 0 then 0 else of_nat a / of_nat n)"

definition precision_at :: "int \<Rightarrow> (int \<times> bool) list \<Rightarrow> rat" where
  "precision_at t ps = share (hits t ps) (hits t ps + false_alarms t ps)"

definition recall_at :: "int \<Rightarrow> (int \<times> bool) list \<Rightarrow> rat" where
  "recall_at t ps = share (hits t ps) (positives ps)"

definition f1_at :: "int \<Rightarrow> (int \<times> bool) list \<Rightarrow> rat" where
  "f1_at t ps = (let p = precision_at t ps; r = recall_at t ps in
     if p + r = 0 then 0 else 2 * p * r / (p + r))"

lemma measures:
  "precision_of (count_rows t ps no_counts) = precision_at t ps"
  "recall_of (count_rows t ps no_counts) = recall_at t ps"
  "f1_of (count_rows t ps no_counts) = f1_at t ps"
proof -
  show precision: "precision_of (count_rows t ps no_counts) = precision_at t ps"
    unfolding precision_of_def precision_at_def quotient_or_zero_def share_def counts(1,2) ..
  show recall: "recall_of (count_rows t ps no_counts) = recall_at t ps"
    unfolding recall_of_def recall_at_def quotient_or_zero_def share_def counts(3) unfolding counts(1) ..
  show "f1_of (count_rows t ps no_counts) = f1_at t ps"
    unfolding f1_of_def f1_at_def precision recall ..
qed

lemma confusion_at:
  assumes "confusion round8 rows t = Inr m"
    "map_raise (known_score_of ''evaluation row produced UNKNOWN from required deterministic features'') rows = Inr ps"
  shows "tm_counts m = count_rows t ps no_counts" "tm_precision m = round8 (precision_at t ps)"
    "tm_recall m = round8 (recall_at t ps)" "tm_f1 m = round8 (f1_at t ps)" "tm_threshold m = t"
  using assms by (auto simp: confusion_def Let_def measures)

lemma counts_total: "cf_true_negative (count_rows t ps no_counts) = length (filter (\<lambda>p. \<not> snd p \<and> fst p < t) ps)"
proof -
  have "length ps = positives ps + length (filter (\<lambda>p. \<not> snd p) ps)"
    by (simp add: positives_def sum_length_filter_compl)
  moreover have "length (filter (\<lambda>p. \<not> snd p) ps) = false_alarms t ps + length (filter (\<lambda>p. \<not> snd p \<and> fst p < t) ps)"
    by (induction ps) (auto simp: false_alarms_def)
  ultimately show ?thesis using counts(2,4) [of t ps] by linarith
qed

lemma counts_missed: "cf_false_negative (count_rows t ps no_counts) = length (filter (\<lambda>p. snd p \<and> fst p < t) ps)"
proof -
  have "positives ps = hits t ps + length (filter (\<lambda>p. snd p \<and> fst p < t) ps)"
    by (induction ps) (auto simp: positives_def hits_def)
  with counts(1,3) [of t ps] show ?thesis by linarith
qed

text \<open>A row, and what the evaluation makes of it: its score and whether its label is positive.\<close>

definition row_scored :: "feature_row \<Rightarrow> int \<times> bool \<Rightarrow> bool" where
  "row_scored row p \<longleftrightarrow> (\<exists>s. score_features (fr_feature_schema_version row) (fr_feature_values row) = Inr s \<and>
     hs_score s = Some (fst p)) \<and> snd p = (la_label (fr_label row) = POSITIVE)"

lemma scored_rows:
  assumes "map_raise (known_score_of message) rows = Inr ps"
  shows "list_all2 row_scored rows ps"
proof -
  have "row_scored row p" if "known_score_of message row = Inr p" for row p
    using that by (auto simp: known_score_of_def and_then_Inr row_scored_def is_positive_def split: option.splits)
  with map_raise_Inr_nth [OF assms] show ?thesis by (auto intro: list_all2_mono)
qed

text \<open>
  C15: An evaluation is reported only when the frozen threshold 30 is the one that the labelled validation rows select.
  Let \<open>ps\<close> be the scores and labels of these rows. The four counts of the threshold are the numbers of positive
  rows at or above it, of negative rows at or above it, of negative rows below it and of positive rows below it; its
  precision, recall and F1 are the rounded quotients of these numbers; the recall reaches three quarters; and no
  candidate threshold that reaches the recall floor has a larger precision, or the same precision and a larger F1, or
  both the same and is itself larger. No test or training row is consulted.
\<close>

theorem frozen_threshold_is_best_on_validation:
  assumes "evaluate_baseline round8 float_repr dataset = Inr report"
  shows "\<exists>m ps. confusion round8 (filter (\<lambda>row. fr_split row = VALIDATION \<and>
      (la_label (fr_label row) = POSITIVE \<or> la_label (fr_label row) = NEGATIVE)) (db_rows dataset)) 30 = Inr m \<and>
    list_all2 row_scored (filter (\<lambda>row. fr_split row = VALIDATION \<and>
      (la_label (fr_label row) = POSITIVE \<or> la_label (fr_label row) = NEGATIVE)) (db_rows dataset)) ps \<and>
    cf_true_positive (tm_counts m) = length (filter (\<lambda>p. snd p \<and> fst p \<ge> 30) ps) \<and>
    cf_false_positive (tm_counts m) = length (filter (\<lambda>p. \<not> snd p \<and> fst p \<ge> 30) ps) \<and>
    cf_true_negative (tm_counts m) = length (filter (\<lambda>p. \<not> snd p \<and> fst p < 30) ps) \<and>
    cf_false_negative (tm_counts m) = length (filter (\<lambda>p. snd p \<and> fst p < 30) ps) \<and>
    tm_precision m = round8 (precision_at 30 ps) \<and> tm_recall m = round8 (recall_at 30 ps) \<and>
    tm_f1 m = round8 (f1_at 30 ps) \<and> round8 (recall_at 30 ps) \<ge> 3 / 4 \<and>
    (\<forall>t \<in> set CANDIDATE_THRESHOLDS. round8 (recall_at t ps) \<ge> 3 / 4 \<longrightarrow>
      round8 (precision_at t ps) < round8 (precision_at 30 ps) \<or>
      round8 (precision_at t ps) = round8 (precision_at 30 ps) \<and>
        (round8 (f1_at t ps) < round8 (f1_at 30 ps) \<or> round8 (f1_at t ps) = round8 (f1_at 30 ps) \<and> t \<le> 30))"
proof -
  let ?rows = "eligible_rows (db_rows dataset) VALIDATION"
  let ?known = "known_score_of ''evaluation row produced UNKNOWN from required deterministic features''"
  from assms obtain table where t: "threshold_table round8 ?rows = Inr table"
      "selected_from_validation table = Inr SELECTED_THRESHOLD"
    by (auto simp: evaluate_baseline_def Let_def and_then_Inr split: if_splits)
  obtain m where m: "confusion round8 ?rows 30 = Inr m" "tm_recall m \<ge> MINIMUM_VALIDATION_RECALL"
      and best: "\<And>m'. m' \<in> set table \<Longrightarrow> tm_recall m' \<ge> MINIMUM_VALIDATION_RECALL \<Longrightarrow>
        \<not> key_less (selection_key m) (selection_key m')"
    by (rule selected_best [OF t]) (simp add: SELECTED_THRESHOLD_def)
  from m(1) obtain ps where ps: "map_raise ?known ?rows = Inr ps" by (auto simp: confusion_def and_then_Inr)
  note at_30 = confusion_at [OF m(1) ps]
  have row: "\<exists>m' \<in> set table. confusion round8 ?rows t = Inr m'" if "t \<in> set CANDIDATE_THRESHOLDS" for t
    using map_raise_Inr_nth [OF t(1) [unfolded threshold_table_def]] that
    by (auto simp: list_all2_conv_all_nth in_set_conv_nth)
  have rest: "round8 (precision_at t ps) < round8 (precision_at 30 ps) \<or>
      round8 (precision_at t ps) = round8 (precision_at 30 ps) \<and>
        (round8 (f1_at t ps) < round8 (f1_at 30 ps) \<or> round8 (f1_at t ps) = round8 (f1_at 30 ps) \<and> t \<le> 30)"
    if floor: "t \<in> set CANDIDATE_THRESHOLDS" "round8 (recall_at t ps) \<ge> 3 / 4" for t
  proof -
    from row [OF floor(1)] obtain m' where m': "m' \<in> set table" "confusion round8 ?rows t = Inr m'" by blast
    note at_t = confusion_at [OF m'(2) ps]
    from best [OF m'(1)] floor(2) have "\<not> key_less (selection_key m) (selection_key m')"
      by (simp add: at_t MINIMUM_VALIDATION_RECALL_def)
    then show ?thesis by (auto simp: selection_key_def at_t at_30)
  qed
  have rows: "filter (\<lambda>row. fr_split row = VALIDATION \<and>
      (la_label (fr_label row) = POSITIVE \<or> la_label (fr_label row) = NEGATIVE)) (db_rows dataset) = ?rows"
    by (simp add: eligible_rows_def)
  show ?thesis
    unfolding rows using m scored_rows [OF ps] at_30 counts(1,2) [of 30 ps] rest
    by (intro exI [of _ m] exI [of _ ps])
      (simp add: counts_total counts_missed hits_def false_alarms_def MINIMUM_VALIDATION_RECALL_def)
qed

definition sample_baseline_row :: "dataset_split \<Rightarrow> feature_row" where
  "sample_baseline_row split = \<lparr>fr_snapshot_id = ''s'', fr_source_id = [], fr_repository_numeric_id = 1,
     fr_prediction_time = Aware 0 0, fr_head_sha = [], fr_snapshot_hash = [], fr_diff_hash = [],
     fr_near_duplicate_hash = [], fr_feature_schema_version = FEATURE_SCHEMA_VERSION, fr_extractor_version = [],
     fr_feature_values = (''lines_added'', PyInt 10) # sample_features, fr_feature_missing = [],
     fr_feature_provenance = [], fr_feature_hash = [],
     fr_label = \<lparr>la_label = POSITIVE, la_rule_id = [], la_reason = [], la_outcome_kind = None, la_observed_at = None,
       la_evidence_refs = []\<rparr>, fr_split = split, fr_row_hash = []\<rparr>"

definition sample_manifest :: dataset_manifest where
  "sample_manifest = \<lparr>dm_dataset_version = [], dm_extraction_code_commit = [], dm_extraction_version = [],
     dm_source_admissions = [], dm_source_payload_hashes = [], dm_label_rule_version = [],
     dm_feature_schema_version = FEATURE_SCHEMA_VERSION, dm_feature_extractor_version = [], dm_split_rule_version = [],
     dm_split_policy = [], dm_split_assignments = [], dm_split_hash = [], dm_exclusions = [], dm_counts = [],
     dm_leakage_report = \<lparr>lr_schema_version = [], lr_passed_checks = [], lr_violations = [], lr_report_hash = []\<rparr>,
     dm_synthetic = True, dm_usage_notes = [], dm_license_notes = [], dm_known_label_weaknesses = [], dm_lineage = [],
     dm_manifest_hash = [], dm_schema_version = []\<rparr>"

definition sample_dataset :: dataset_build where
  "sample_dataset = \<lparr>db_manifest = sample_manifest, db_rows = [sample_baseline_row VALIDATION, sample_baseline_row TEST]\<rparr>"

abbreviation sample_row_features :: pydict where
  "sample_row_features \<equiv> (''lines_added'', PyInt 10) # sample_features"

lemma sample_row_score:
  "score_features FEATURE_SCHEMA_VERSION sample_row_features = Inr (known_score (all_rules sample_row_features))"
  by (simp add: score_features_def parsed_features_def REQUIRED_FEATURES_def feature_integer_def sample_features_def
      all_rules_def int_feature_def Let_def parsed_or_zero_def feature_or_zero_def required_rules_def)

lemma sample_row_points: "points (all_rules sample_row_features) = 30"
  by (simp add: all_rules_def required_rules_def optional_rules_def reaches_def int_feature_def feature_or_zero_def
      sample_features_def)

lemma sample_row_known: "known_score_of message (sample_baseline_row split) = Inr (30, True)"
  using sample_row_score sample_row_points
  by (simp add: known_score_of_def sample_baseline_row_def is_positive_def)

lemma sample_eligible:
  "eligible_rows (db_rows sample_dataset) VALIDATION = [sample_baseline_row VALIDATION]"
  "eligible_rows (db_rows sample_dataset) TEST = [sample_baseline_row TEST]"
  "eligible_rows (db_rows sample_dataset) TRAIN = []"
  by (simp_all add: sample_dataset_def eligible_rows_def sample_baseline_row_def)

definition sample_table_row :: "int \<Rightarrow> threshold_metrics" where
  "sample_table_row t = (let found = t \<le> 30; x = (if found then 1 else 0) in
     \<lparr>tm_counts = \<lparr>cf_true_positive = (if found then 1 else 0), cf_false_positive = 0, cf_true_negative = 0,
        cf_false_negative = (if found then 0 else 1)\<rparr>, tm_f1 = x, tm_precision = x, tm_prevalence = Some 1, tm_recall = x,
      tm_row_count = 1, tm_threshold = t\<rparr>)"

lemma sample_confusion: "confusion id [sample_baseline_row split] t = Inr (sample_table_row t)"
  by (cases "t \<le> 30") (simp_all add: confusion_def sample_row_known sample_table_row_def count_row_def no_counts_def
      f1_of_def precision_of_def recall_of_def quotient_or_zero_def Let_def)

lemma sample_table: "threshold_table id [sample_baseline_row split] = Inr (map sample_table_row CANDIDATE_THRESHOLDS)"
  by (simp add: threshold_table_def CANDIDATE_THRESHOLDS_def sample_confusion)

lemma sample_selected: "selected_from_validation (map sample_table_row CANDIDATE_THRESHOLDS) = Inr SELECTED_THRESHOLD"
  by (simp add: selected_from_validation_def CANDIDATE_THRESHOLDS_def sample_table_row_def MINIMUM_VALIDATION_RECALL_def
      selection_key_def SELECTED_THRESHOLD_def Let_def)

lemma sample_predictions: "\<exists>ps. raw_predictions (db_rows sample_dataset) = Inr ps"
  using sample_row_score
  by (simp add: raw_predictions_def raw_prediction_def sample_dataset_def sample_baseline_row_def)

lemma sample_metrics: "\<exists>ms. map_raise (split_metrics id r)
    [(TRAIN, []), (VALIDATION, [sample_baseline_row VALIDATION]), (TEST, [sample_baseline_row TEST])] = Inr ms"
  by (simp add: split_metrics_def sample_confusion ranking_metrics_of_def sample_row_known)
    (simp add: confusion_def)

lemma sample_report: "\<exists>report. evaluate_baseline id (\<lambda>_. ''1.0'') sample_dataset = Inr report"
proof -
  obtain ps where "raw_predictions (db_rows sample_dataset) = Inr ps" using sample_predictions by blast
  moreover obtain ms where "map_raise (split_metrics id (\<lambda>_. ''1.0''))
      [(TRAIN, []), (VALIDATION, [sample_baseline_row VALIDATION]), (TEST, [sample_baseline_row TEST])] = Inr ms"
    using sample_metrics by blast
  ultimately show ?thesis unfolding evaluate_baseline_def Let_def sample_eligible sample_table and_then_simps sample_selected
    by simp
qed

theorem frozen_threshold_is_best_on_validation_witness:
  "\<exists>m ps. confusion id (filter (\<lambda>row. fr_split row = VALIDATION \<and>
      (la_label (fr_label row) = POSITIVE \<or> la_label (fr_label row) = NEGATIVE)) (db_rows sample_dataset)) 30 = Inr m \<and>
    tm_recall m = recall_at 30 ps \<and> recall_at 30 ps \<ge> 3 / 4"
proof -
  obtain report where "evaluate_baseline id (\<lambda>_. ''1.0'') sample_dataset = Inr report" using sample_report by blast
  from frozen_threshold_is_best_on_validation [OF this] show ?thesis by auto
qed

subsection \<open>Ranking metrics\<close>

lemma pair_points_range: "0 \<le> pair_points p n" "pair_points p n \<le> 1" "pair_points p n = 1 \<longleftrightarrow> n < p"
  by (simp_all add: pair_points_def)

lemma bounded_sum_list:
  fixes f :: "'a \<Rightarrow> rat"
  assumes "\<And>x. x \<in> set xs \<Longrightarrow> 0 \<le> f x \<and> f x \<le> c"
  shows "0 \<le> sum_list (map f xs) \<and> sum_list (map f xs) \<le> of_nat (length xs) * c \<and>
    (sum_list (map f xs) = of_nat (length xs) * c \<longleftrightarrow> (\<forall>x \<in> set xs. f x = c))"
  using assms
proof (induction xs)
  case (Cons x xs)
  then have IH: "0 \<le> sum_list (map f xs)" "sum_list (map f xs) \<le> of_nat (length xs) * c"
      "sum_list (map f xs) = of_nat (length xs) * c \<longleftrightarrow> (\<forall>x \<in> set xs. f x = c)" and x: "0 \<le> f x" "f x \<le> c" by auto
  have "f x + sum_list (map f xs) = c + of_nat (length xs) * c \<longleftrightarrow> f x = c \<and> sum_list (map f xs) = of_nat (length xs) * c"
    using IH(2) x(2) by linarith
  with IH x show ?case by (auto simp: algebra_simps)
qed simp

lemma pairwise_range:
  "0 \<le> pairwise_points ps ns \<and> pairwise_points ps ns \<le> of_nat (length ps * length ns) \<and>
   (pairwise_points ps ns = of_nat (length ps * length ns) \<longleftrightarrow> (\<forall>p \<in> set ps. \<forall>n \<in> set ns. n < p))"
proof -
  have row: "0 \<le> sum_list (map (pair_points p) ns) \<and> sum_list (map (pair_points p) ns) \<le> of_nat (length ns) \<and>
      (sum_list (map (pair_points p) ns) = of_nat (length ns) \<longleftrightarrow> (\<forall>n \<in> set ns. n < p))" for p
    using bounded_sum_list [of ns "pair_points p" 1] by (simp add: pair_points_range)
  show ?thesis
    using bounded_sum_list [of ps "\<lambda>p. sum_list (map (pair_points p) ns)" "of_nat (length ns)"] row
    by (simp add: pairwise_points_def)
qed

definition hits_in :: "(int \<times> bool) list \<Rightarrow> int list \<Rightarrow> nat" where
  "hits_in scored scores = sum_list (map (\<lambda>s. length (filter id (score_group scored s))) scores)"

lemma group_hits: "length (filter id (score_group scored s)) = length (filter (\<lambda>p. snd p \<and> fst p = s) scored)"
  by (induction scored) (auto simp: score_group_def)

lemma hits_in_all: "distinct scores \<Longrightarrow> hits_in scored scores = length (filter (\<lambda>p. snd p \<and> fst p \<in> set scores) scored)"
proof (induction scored)
  case (Cons p scored)
  have "hits_in (p # scored) scores = hits_in scored scores + (if snd p \<and> fst p \<in> set scores then 1 else 0)"
    using Cons.prems unfolding hits_in_def group_hits
    by (induction scores) auto
  with Cons show ?case by simp
qed (simp add: hits_in_def score_group_def)

lemma step_below:
  fixes r :: rat
  assumes "r \<le> s" "0 \<le> q" "q \<le> 1" "0 \<le> a" "a \<le> r"
  shows "0 \<le> a + (s - r) * q \<and> a + (s - r) * q \<le> s"
proof -
  have "(s - r) * q \<le> (s - r) * 1" using assms by (intro mult_left_mono) simp_all
  moreover have "0 \<le> (s - r) * q" using assms by simp
  ultimately show ?thesis using assms by (simp add: algebra_simps)
qed

lemma share_le_1: "of_nat a / of_nat (a + b) \<le> (1 :: rat)"
proof (cases "a + b = 0")
  case False
  then have "(0 :: rat) < of_nat (a + b)" by (simp only: of_nat_0_less_iff)
  then show ?thesis by (simp add: pos_divide_le_eq)
qed simp

lemma precision_loop_range:
  assumes "0 < n" "tp + hits_in scored scores = n" "r = of_nat tp / of_nat n" "0 \<le> a" "a \<le> r"
  shows "0 \<le> precision_loop scored n scores tp fp r a \<and> precision_loop scored n scores tp fp r a \<le> 1"
  using assms
proof (induction scored n scores tp fp r a rule: precision_loop.induct)
  case (2 scored n score scores tp fp r a)
  let ?g = "score_group scored score"
  let ?tp = "tp + length (filter id ?g)" and ?fp = "fp + (length ?g - length (filter id ?g))"
  have "r \<le> of_nat ?tp / of_nat n" using 2(2,4) by (simp add: divide_right_mono)
  moreover have "of_nat ?tp / of_nat (?tp + ?fp) \<le> (1 :: rat)" by (rule share_le_1)
  ultimately have "0 \<le> a + (of_nat ?tp / of_nat n - r) * (of_nat ?tp / of_nat (?tp + ?fp)) \<and>
      a + (of_nat ?tp / of_nat n - r) * (of_nat ?tp / of_nat (?tp + ?fp)) \<le> of_nat ?tp / of_nat n"
    using 2(5,6) by (intro step_below) simp_all
  moreover have "?tp + hits_in scored scores = n" using 2(3) by (simp add: hits_in_def)
  ultimately show ?case using 2(1) [OF refl refl refl refl refl refl 2(2)] by (simp add: Let_def del: of_nat_add)
qed (simp add: hits_in_def)

lemma fraction_range:
  "0 < (c :: rat) \<Longrightarrow> 0 \<le> a \<and> a \<le> c \<and> (a = c \<longleftrightarrow> Q) \<Longrightarrow> 0 \<le> a / c \<and> a / c \<le> 1 \<and> (a / c = 1 \<longleftrightarrow> Q)"
  by (auto simp: divide_le_eq_1 divide_eq_eq)

text \<open>
  On rows with both labels the ranking metrics are fractions before rounding, and the area under the ROC curve is 1
  exactly when every positive row scores above every negative one.
\<close>

theorem baseline_ranking_metrics_are_fractions:
  assumes "\<exists>p \<in> set scored. snd p" "\<exists>p \<in> set scored. \<not> snd p"
  shows "0 \<le> average_precision scored \<and> average_precision scored \<le> 1 \<and> 0 \<le> roc_auc scored \<and> roc_auc scored \<le> 1 \<and>
    (roc_auc scored = 1 \<longleftrightarrow> (\<forall>p \<in> set scored. \<forall>q \<in> set scored. snd p \<longrightarrow> \<not> snd q \<longrightarrow> fst q < fst p))"
proof -
  let ?ps = "map fst (filter snd scored)" and ?ns = "map fst (filter (\<lambda>p. \<not> snd p) scored)"
  let ?scores = "rev (sort (remdups (map fst scored)))"
  have ps: "filter snd scored \<noteq> []" and "filter (\<lambda>p. \<not> snd p) scored \<noteq> []"
    using assms by (auto simp: filter_empty_conv)
  then have pos: "0 < length ?ps * length ?ns" by simp
  then have auc: "roc_auc scored = pairwise_points ?ps ?ns / of_nat (length ?ps * length ?ns)" "(0 :: rat) < of_nat (length ?ps * length ?ns)"
    unfolding roc_auc_def Let_def by (simp_all only: of_nat_0_less_iff)
  have pairs: "(\<forall>p \<in> set ?ps. \<forall>n \<in> set ?ns. n < p) \<longleftrightarrow>
      (\<forall>p \<in> set scored. \<forall>q \<in> set scored. snd p \<longrightarrow> \<not> snd q \<longrightarrow> fst q < fst p)" by fastforce
  have roc: "0 \<le> roc_auc scored \<and> roc_auc scored \<le> 1 \<and>
      (roc_auc scored = 1 \<longleftrightarrow> (\<forall>p \<in> set scored. \<forall>q \<in> set scored. snd p \<longrightarrow> \<not> snd q \<longrightarrow> fst q < fst p))"
    unfolding auc(1) pairs [symmetric] by (rule fraction_range [OF auc(2) pairwise_range])
  have "hits_in scored ?scores = length (filter snd scored)"
    by (subst hits_in_all) (simp_all, intro arg_cong [where f = length] filter_cong, auto)
  with ps precision_loop_range [of "length (filter snd scored)" 0 scored ?scores 0 0 0] roc show ?thesis
    by (simp add: average_precision_def)
qed

theorem baseline_ranking_metrics_are_fractions_witness: "roc_auc [(30, True), (20, False)] = 1"
  using baseline_ranking_metrics_are_fractions [of "[(30, True), (20, False)]"] by auto

end
