(* ===== verification/AiContracts.thy ===== *)
theory AiContracts
  imports PyText
begin

section \<open>packages/ai_core/contracts.py: evidence, requests and suggestions of the advisory model\<close>

text \<open>
  The records that cross the boundary to a language model, each with its guards. Timeouts are
  rational numbers, so the \<open>isfinite\<close> guards on them never fire. \<open>LLMBudgetExceededError\<close> is no
  ValueError.
\<close>

datatype content_class = C_METADATA | C_DETERMINISTIC_EVIDENCE | C_RETRIEVAL_EXCERPT | C_DIFF_EXCERPT | C_SOURCE_EXCERPT

fun content_class_value :: "content_class \<Rightarrow> string" where
  "content_class_value C_METADATA = ''metadata''"
| "content_class_value C_DETERMINISTIC_EVIDENCE = ''deterministic_evidence''"
| "content_class_value C_RETRIEVAL_EXCERPT = ''retrieval_excerpt''"
| "content_class_value C_DIFF_EXCERPT = ''diff_excerpt''"
| "content_class_value C_SOURCE_EXCERPT = ''source_excerpt''"

datatype severity = SEV_LOW | SEV_MEDIUM | SEV_HIGH | SEV_CRITICAL

fun severity_value :: "severity \<Rightarrow> string" where
  "severity_value SEV_LOW = ''low''"
| "severity_value SEV_MEDIUM = ''medium''"
| "severity_value SEV_HIGH = ''high''"
| "severity_value SEV_CRITICAL = ''critical''"

definition severities :: "severity list" where
  "severities = [SEV_LOW, SEV_MEDIUM, SEV_HIGH, SEV_CRITICAL]"

datatype confidence = CONF_LOW | CONF_MEDIUM | CONF_HIGH

fun confidence_value :: "confidence \<Rightarrow> string" where
  "confidence_value CONF_LOW = ''low''"
| "confidence_value CONF_MEDIUM = ''medium''"
| "confidence_value CONF_HIGH = ''high''"

definition confidences :: "confidence list" where
  "confidences = [CONF_LOW, CONF_MEDIUM, CONF_HIGH]"

subsection \<open>Guards\<close>

definition validate_identifier :: "string \<Rightarrow> string \<Rightarrow> nat \<Rightarrow> exn option" where
  "validate_identifier value field maximum = first_raise [
     raise_if (value = [] \<or> length value > maximum \<or> \<not> isascii value)
       (ValueError (field @ '' must be 1..'' @ decimal_digits maximum @ '' ASCII characters'')),
     raise_if (has_control value) (ValueError (field @ '' contains control characters''))]"

definition validate_text :: "string \<Rightarrow> string \<Rightarrow> nat \<Rightarrow> exn option" where
  "validate_text value field maximum =
     raise_if (value = [] \<or> length value > maximum \<or> has_nul value)
       (ValueError (field @ '' must contain 1..'' @ decimal_digits maximum @ '' characters''))"

definition validate_references :: "string list \<Rightarrow> string \<Rightarrow> bool \<Rightarrow> exn option" where
  "validate_references values field allow_empty = first_raise (
     raise_if (values = [] \<and> \<not> allow_empty \<or> length values > 50 \<or> \<not> distinct values)
       (ValueError (field @ '' must contain a bounded unique reference list'')) #
     map (\<lambda>v. validate_identifier v field 160) values)"

subsection \<open>Evidence and budget\<close>

record evidence_context =
  ec_evidence_id :: string
  ec_content_class :: content_class
  ec_content :: string
  ec_source_reference :: string

definition evidence_context_post_init :: "evidence_context \<Rightarrow> exn option" where
  "evidence_context_post_init e = first_raise [
     validate_identifier (ec_evidence_id e) ''evidence_id'' 160,
     validate_text (ec_content e) ''evidence content'' 16000,
     validate_text (ec_source_reference e) ''source_reference'' 1200]"

record llm_budget =
  lb_max_input_bytes :: int
  lb_max_input_tokens :: int
  lb_max_output_tokens :: int
  lb_max_cost_microusd :: int
  lb_connect_timeout_seconds :: rat
  lb_read_timeout_seconds :: rat
  lb_max_attempts :: int
  lb_retry_backoff_seconds :: rat

definition outside :: "'a::linorder \<Rightarrow> 'a \<Rightarrow> 'a \<Rightarrow> bool" where
  "outside low_bound value high_bound = (\<not> (low_bound \<le> value \<and> value \<le> high_bound))"

definition llm_budget_post_init :: "llm_budget \<Rightarrow> exn option" where
  "llm_budget_post_init b = first_raise [
     raise_if (outside 256 (lb_max_input_bytes b) 262144) (ValueError ''max_input_bytes must be between 256 and 262144''),
     raise_if (outside 256 (lb_max_input_tokens b) 262144) (ValueError ''max_input_tokens must be between 256 and 262144''),
     raise_if (outside 64 (lb_max_output_tokens b) 8192) (ValueError ''max_output_tokens must be between 64 and 8192''),
     raise_if (outside 1 (lb_max_cost_microusd b) 100000000)
       (ValueError ''max_cost_microusd must be between 1 and 100000000''),
     raise_if (outside (1 / 10) (lb_connect_timeout_seconds b) 60)
       (ValueError ''connect timeout must be between 0.1 and 60 seconds''),
     raise_if (outside (1 / 10) (lb_read_timeout_seconds b) 300)
       (ValueError ''read timeout must be between 0.1 and 300 seconds''),
     raise_if (outside 1 (lb_max_attempts b) 3) (ValueError ''max_attempts must be between 1 and 3''),
     raise_if (outside 0 (lb_retry_backoff_seconds b) 5) (ValueError ''retry backoff must be between 0 and 5 seconds'')]"

subsection \<open>Requests\<close>

record prompt_identity =
  pi_prompt_version :: string
  pi_prompt_sha256 :: string
  pi_schema_version :: string
  pi_schema_sha256 :: string

definition prompt_identity_post_init :: "prompt_identity \<Rightarrow> exn option" where
  "prompt_identity_post_init p = first_raise [
     validate_identifier (pi_prompt_version p) ''prompt_version'' 64,
     validate_identifier (pi_schema_version p) ''schema_version'' 64,
     raise_if (\<not> is_sha256_text (pi_prompt_sha256 p)) (ValueError ''prompt_sha256 must be a lowercase SHA-256''),
     raise_if (\<not> is_sha256_text (pi_schema_sha256 p)) (ValueError ''schema_sha256 must be a lowercase SHA-256'')]"

record llm_request =
  lq_change_id :: string
  lq_evidence :: "evidence_context list"
  lq_instructions :: string
  lq_input_text :: string
  lq_prompt :: prompt_identity
  lq_budget :: llm_budget
  lq_cancelled :: bool

definition conservative_input_tokens :: "llm_request \<Rightarrow> int" where
  "conservative_input_tokens r = int (length (utf8 (lq_instructions r))) + int (length (utf8 (lq_input_text r)))"

definition allowed_evidence_ids :: "llm_request \<Rightarrow> string list" where
  "allowed_evidence_ids r = map ec_evidence_id (lq_evidence r)"

definition llm_request_post_init :: "llm_request \<Rightarrow> exn option" where
  "llm_request_post_init r = first_raise [
     validate_identifier (lq_change_id r) ''change_id'' 160,
     raise_if (length (lq_evidence r) > 50) (ValueError ''evidence exceeds 50 items''),
     raise_if (\<not> distinct (allowed_evidence_ids r)) (ValueError ''evidence IDs must be unique''),
     validate_text (lq_instructions r) ''instructions'' 16000,
     validate_text (lq_input_text r) ''input_text'' 262144,
     raise_if (conservative_input_tokens r > lb_max_input_bytes (lq_budget r))
       (LLMBudgetExceededError ''provider input exceeds the byte budget''),
     raise_if (conservative_input_tokens r > lb_max_input_tokens (lq_budget r))
       (LLMBudgetExceededError ''provider input exceeds the conservative token budget'')]"

subsection \<open>Suggestions\<close>

record grounded_risk =
  gr_statement :: string
  gr_severity :: severity
  gr_confidence :: confidence
  gr_evidence_ids :: "string list"

definition grounded_risk_post_init :: "grounded_risk \<Rightarrow> exn option" where
  "grounded_risk_post_init r = first_raise [
     validate_text (gr_statement r) ''risk statement'' 800,
     validate_references (gr_evidence_ids r) ''risk evidence IDs'' False]"

definition grounded_risk_as_dict :: "grounded_risk \<Rightarrow> pydict" where
  "grounded_risk_as_dict r = [
     (''statement'', PyStr (gr_statement r)),
     (''severity'', PyStr (severity_value (gr_severity r))),
     (''confidence'', PyStr (confidence_value (gr_confidence r))),
     (''evidence_ids'', strs (gr_evidence_ids r))]"

record risk_hypothesis =
  rh_statement :: string
  rh_severity :: severity
  rh_confidence :: confidence
  rh_evidence_ids :: "string list"
  rh_uncertainty :: string

definition risk_hypothesis_post_init :: "risk_hypothesis \<Rightarrow> exn option" where
  "risk_hypothesis_post_init h = first_raise [
     validate_text (rh_statement h) ''hypothesis statement'' 800,
     validate_references (rh_evidence_ids h) ''hypothesis evidence IDs'' True,
     validate_text (rh_uncertainty h) ''hypothesis uncertainty'' 500]"

definition risk_hypothesis_as_dict :: "risk_hypothesis \<Rightarrow> pydict" where
  "risk_hypothesis_as_dict h = [
     (''statement'', PyStr (rh_statement h)),
     (''severity'', PyStr (severity_value (rh_severity h))),
     (''confidence'', PyStr (confidence_value (rh_confidence h))),
     (''evidence_ids'', strs (rh_evidence_ids h)),
     (''uncertainty'', PyStr (rh_uncertainty h))]"

record requested_test =
  rt_description :: string
  rt_rationale :: string
  rt_evidence_ids :: "string list"

definition requested_test_post_init :: "requested_test \<Rightarrow> exn option" where
  "requested_test_post_init t = first_raise [
     validate_text (rt_description t) ''requested test'' 800,
     validate_text (rt_rationale t) ''test rationale'' 800,
     validate_references (rt_evidence_ids t) ''test evidence IDs'' True]"

definition requested_test_as_dict :: "requested_test \<Rightarrow> pydict" where
  "requested_test_as_dict t = [
     (''description'', PyStr (rt_description t)),
     (''rationale'', PyStr (rt_rationale t)),
     (''evidence_ids'', strs (rt_evidence_ids t))]"

record suggestion =
  sg_summary :: string
  sg_summary_evidence_ids :: "string list"
  sg_risks :: "grounded_risk list"
  sg_hypotheses :: "risk_hypothesis list"
  sg_requested_tests :: "requested_test list"
  sg_missing_information :: "string list"
  sg_uncertainty :: string
  sg_insufficient_evidence :: bool

definition suggestion_post_init :: "suggestion \<Rightarrow> exn option" where
  "suggestion_post_init s = first_raise ([
     validate_text (sg_summary s) ''summary'' 2000,
     validate_references (sg_summary_evidence_ids s) ''summary evidence IDs'' (sg_insufficient_evidence s),
     raise_if (length (sg_risks s) > 20 \<or> length (sg_hypotheses s) > 20 \<or> length (sg_requested_tests s) > 20)
       (ValueError ''suggestion item counts exceed the strict schema''),
     raise_if (length (sg_missing_information s) > 20) (ValueError ''missing information exceeds 20 items'')] @
     map (\<lambda>m. validate_text m ''missing information'' 500) (sg_missing_information s) @ [
     validate_text (sg_uncertainty s) ''uncertainty'' 1000,
     raise_if (sg_insufficient_evidence s \<and> sg_risks s \<noteq> [])
       (ValueError ''insufficient-evidence output cannot contain grounded risks''),
     raise_if (\<not> sg_insufficient_evidence s \<and> sg_summary_evidence_ids s = [])
       (ValueError ''a sufficient-evidence summary requires citations'')])"

definition cited_evidence_ids :: "suggestion \<Rightarrow> string list" where
  "cited_evidence_ids s = py_unique (sg_summary_evidence_ids s @ concat (map gr_evidence_ids (sg_risks s)) @
     concat (map rh_evidence_ids (sg_hypotheses s)) @ concat (map rt_evidence_ids (sg_requested_tests s)))"

definition suggestion_as_dict :: "suggestion \<Rightarrow> pydict" where
  "suggestion_as_dict s = [
     (''summary'', PyStr (sg_summary s)),
     (''summary_evidence_ids'', strs (sg_summary_evidence_ids s)),
     (''risks'', PyList (map (\<lambda>r. PyDict (grounded_risk_as_dict r)) (sg_risks s))),
     (''hypotheses'', PyList (map (\<lambda>h. PyDict (risk_hypothesis_as_dict h)) (sg_hypotheses s))),
     (''requested_tests'', PyList (map (\<lambda>t. PyDict (requested_test_as_dict t)) (sg_requested_tests s))),
     (''missing_information'', strs (sg_missing_information s)),
     (''uncertainty'', PyStr (sg_uncertainty s)),
     (''insufficient_evidence'', PyBool (sg_insufficient_evidence s))]"

subsection \<open>Responses\<close>

record provider_usage =
  pv_input_tokens :: int
  pv_output_tokens :: int
  pv_total_tokens :: int
  pv_cost_microusd :: int

definition provider_usage_post_init :: "provider_usage \<Rightarrow> exn option" where
  "provider_usage_post_init u = first_raise [
     raise_if (min (min (pv_input_tokens u) (pv_output_tokens u)) (min (pv_total_tokens u) (pv_cost_microusd u)) < 0)
       (ValueError ''provider usage values cannot be negative''),
     raise_if (pv_total_tokens u < pv_input_tokens u + pv_output_tokens u)
       (ValueError ''total tokens cannot be lower than input plus output tokens'')]"

definition provider_usage_as_dict :: "provider_usage \<Rightarrow> pydict" where
  "provider_usage_as_dict u = [
     (''input_tokens'', PyInt (pv_input_tokens u)),
     (''output_tokens'', PyInt (pv_output_tokens u)),
     (''total_tokens'', PyInt (pv_total_tokens u)),
     (''cost_microusd'', PyInt (pv_cost_microusd u))]"

record llm_response =
  lr_suggestion :: suggestion
  lr_provider_name :: string
  lr_model_id :: string
  lr_adapter_version :: string
  lr_sdk_version :: string
  lr_usage :: provider_usage
  lr_elapsed_ms :: rat

definition llm_response_post_init :: "llm_response \<Rightarrow> exn option" where
  "llm_response_post_init r = first_raise [
     validate_identifier (lr_provider_name r) ''provider_name'' 160,
     validate_identifier (lr_model_id r) ''model_id'' 160,
     validate_identifier (lr_adapter_version r) ''adapter_version'' 160,
     validate_identifier (lr_sdk_version r) ''sdk_version'' 160,
     raise_if (lr_elapsed_ms r < 0) (ValueError ''elapsed_ms must be finite and non-negative'')]"

end
