(* ===== verification/StrictJson.thy ===== *)
theory StrictJson
  imports Json
begin

section \<open>Strict readers of model output (ai_core/schema.py and proposals.py)\<close>

text \<open>
  Both readers hook \<open>json.loads\<close> the same way, check the shape of every object and read typed members;
  they differ in the exception \<open>err\<close> they raise. The locale \<open>strict_reader\<close> says what such a reader
  promises: it reads back the canonical text of every valid object, what it accepts is valid, and
  everything it refuses is refused with its own error.
\<close>

subsection \<open>Hooks and typed reads\<close>

definition reject_nonfinite :: constant_hook where
  "reject_nonfinite value = Inl (ValueError (''non-finite JSON constant is forbidden: '' @ value))"

definition unique_object :: pairs_hook where
  "unique_object pairs =
     (if wf_dict pairs then Inr (PyDict pairs) else Inl (ValueError ''duplicate JSON object keys are forbidden''))"

definition read_object :: "(string \<Rightarrow> exn) \<Rightarrow> string list \<Rightarrow> string \<Rightarrow> pyval \<Rightarrow> pydict result" where
  "read_object err expected field value = (case value of
      PyDict d \<Rightarrow> if has_exactly d expected then Inr d else Inl (err (field @ '' has an invalid object shape''))
    | _ \<Rightarrow> Inl (err (field @ '' has an invalid object shape'')))"

definition read_string :: "(string \<Rightarrow> exn) \<Rightarrow> string \<Rightarrow> pyval \<Rightarrow> string result" where
  "read_string err field value = (case value of PyStr s \<Rightarrow> Inr s | _ \<Rightarrow> Inl (err (field @ '' must be a string'')))"

fun all_strings :: "pyval list \<Rightarrow> string list option" where
  "all_strings [] = Some []"
| "all_strings (PyStr s # vs) = map_option (Cons s) (all_strings vs)"
| "all_strings (_ # vs) = None"

definition read_strings :: "(string \<Rightarrow> exn) \<Rightarrow> string \<Rightarrow> pyval \<Rightarrow> string list result" where
  "read_strings err field value = (case value of
      PyList vs \<Rightarrow> (case all_strings vs of
          Some ss \<Rightarrow> Inr ss | None \<Rightarrow> Inl (err (field @ '' must be a string array'')))
    | _ \<Rightarrow> Inl (err (field @ '' must be a string array'')))"

definition read_items :: "(string \<Rightarrow> exn) \<Rightarrow> string \<Rightarrow> pyval \<Rightarrow> pyval list result" where
  "read_items err field value = (case value of PyList vs \<Rightarrow> Inr vs | _ \<Rightarrow> Inl (err (field @ '' must be an array'')))"

definition read_flag :: "(string \<Rightarrow> exn) \<Rightarrow> string \<Rightarrow> pyval \<Rightarrow> bool result" where
  "read_flag err message value = (case value of PyBool b \<Rightarrow> Inr b | _ \<Rightarrow> Inl (err message))"

text \<open>\<open>Severity(value)\<close> and \<open>ConfidenceCategory(value)\<close>.\<close>

definition member_of :: "('a \<Rightarrow> string) \<Rightarrow> 'a list \<Rightarrow> string \<Rightarrow> 'a result" where
  "member_of value_of members value = (case find (\<lambda>m. value_of m = value) members of
      Some m \<Rightarrow> Inr m | None \<Rightarrow> Inl (ValueError (value @ '' is not a valid member'')))"

definition string_at :: "(string \<Rightarrow> exn) \<Rightarrow> pydict \<Rightarrow> string \<Rightarrow> string \<Rightarrow> string result" where
  "string_at err d key field = and_then (get_item d key) (read_string err field)"

definition strings_at :: "(string \<Rightarrow> exn) \<Rightarrow> pydict \<Rightarrow> string \<Rightarrow> string \<Rightarrow> string list result" where
  "strings_at err d key field = and_then (get_item d key) (read_strings err field)"

subsection \<open>What a call may raise\<close>

definition raises_only :: "(exn \<Rightarrow> bool) \<Rightarrow> 'a result \<Rightarrow> bool" where
  "raises_only allowed m = (case m of Inl e \<Rightarrow> allowed e | Inr _ \<Rightarrow> True)"

text \<open>The exceptions a strict reader translates, beside its own.\<close>

fun translated :: "exn \<Rightarrow> bool" where
  "translated (KeyError _) = True"
| "translated (TypeError _) = True"
| "translated e = is_value_error e"

definition reader_raises :: "(string \<Rightarrow> exn) \<Rightarrow> exn \<Rightarrow> bool" where
  "reader_raises err e \<longleftrightarrow> translated e \<or> (\<exists>m. e = err m)"

named_theorems raise_rules \<open>what the typed reads may raise\<close>

lemma raises_only_Inr [raise_rules]: "raises_only p (Inr x)"
  by (simp add: raises_only_def)

lemma raises_only_Inl: "raises_only p (Inl e) \<longleftrightarrow> p e"
  by (simp add: raises_only_def)

lemma raises_onlyD: "raises_only p m \<Longrightarrow> m = Inl e \<Longrightarrow> p e"
  by (simp add: raises_only_def)

lemma raises_only_and_then [raise_rules]:
  "raises_only p m \<Longrightarrow> (\<And>x. raises_only p (f x)) \<Longrightarrow> raises_only p (and_then m f)"
  by (cases m) (simp_all add: raises_only_def)

lemma raises_only_map_raise [raise_rules]: "(\<And>x. raises_only p (f x)) \<Longrightarrow> raises_only p (map_raise f xs)"
  by (induction xs) (simp_all add: raises_only_Inr raises_only_and_then)

lemma raises_only_construct [raise_rules]:
  "(\<And>e. post_init x = Some e \<Longrightarrow> p e) \<Longrightarrow> raises_only p (construct_with post_init x)"
  by (simp add: construct_with_def raises_only_def split: option.splits)

lemma map_raise_list_all:
  "map_raise f vs = Inr xs \<Longrightarrow> (\<And>v x. f v = Inr x \<Longrightarrow> p x) \<Longrightarrow> list_all p xs"
  by (induction vs arbitrary: xs) (auto simp: and_then_Inr)

lemma first_raise_None_append:
  "first_raise (cs @ ds) = None \<longleftrightarrow> first_raise cs = None \<and> first_raise ds = None"
  by (simp add: first_raise_append split: option.split)

lemma first_raise_from: "first_raise cs = Some e \<Longrightarrow> list_all (\<lambda>c. \<forall>e. c = Some e \<longrightarrow> p e) cs \<Longrightarrow> p e"
  by (induction cs rule: first_raise.induct) auto

lemma value_error_translated: "is_value_error e \<Longrightarrow> translated e"
  by (cases e) simp_all

lemma reader_raises_err [simp]: "reader_raises err (err m)"
  by (auto simp: reader_raises_def)

lemma reader_raises_value_error: "is_value_error e \<Longrightarrow> reader_raises err e"
  by (simp add: reader_raises_def value_error_translated)

lemma typed_reads_raise [raise_rules]:
  "raises_only (reader_raises err) (read_object err ks field v)"
  "raises_only (reader_raises err) (read_string err field v)"
  "raises_only (reader_raises err) (read_strings err field v)"
  "raises_only (reader_raises err) (read_items err field v)"
  "raises_only (reader_raises err) (read_flag err field v)"
  by (auto simp: raises_only_def read_flag_def read_object_def read_string_def read_strings_def read_items_def split: pyval.splits
    option.splits)

lemma get_item_raises [raise_rules]: "raises_only (reader_raises err) (get_item d k)"
  by (simp add: raises_only_def get_item_def reader_raises_def split: option.splits)

lemma member_raises [raise_rules]: "raises_only (reader_raises err) (member_of value_of members v)"
  by (simp add: raises_only_def member_of_def reader_raises_def split: option.splits)

lemma at_raises [raise_rules]:
  "raises_only (reader_raises err) (string_at err d k field)"
  "raises_only (reader_raises err) (strings_at err d k field)"
  unfolding string_at_def strings_at_def by (intro raise_rules)+

text \<open>\<open>json.loads\<close> raises only value errors when its hooks do.\<close>

lemma expect_value_raises:
  assumes "\<And>ps e. hook ps = Inl e \<Longrightarrow> is_value_error e" "\<And>c e. on_const c = Inl e \<Longrightarrow> is_value_error e"
  shows "raises_only is_value_error (expect_value hook on_const st ts)"
    "raises_only is_value_error (after_value hook on_const st v ts')"
  using assms
proof (induction hook on_const st ts and hook on_const st v ts' rule: expect_value_after_value.induct)
  case (1 hook on_const st ts)
  then show ?case
    by (subst expect_value.simps)
      (auto simp: raises_only_Inl raises_only_Inr json_error_def split: list.split token.split option.split sum.split)
next
  case (2 hook on_const st v ts)
  then show ?case
    by (subst after_value.simps)
      (auto simp: raises_only_Inl raises_only_Inr json_error_def split: list.split frame.split option.split sum.split)
qed

lemma json_loads_raises:
  "raises_only (reader_raises err) (json_loads fr unique_object reject_nonfinite raw)"
proof -
  have "raises_only is_value_error (json_loads fr unique_object reject_nonfinite raw)"
    unfolding json_loads_def
    by (rule expect_value_raises) (auto simp: unique_object_def reject_nonfinite_def split: if_splits)
  then show ?thesis by (simp add: raises_only_def reader_raises_value_error split: sum.splits)
qed

subsection \<open>Reading what was written\<close>

lemma all_strings_map [simp]: "all_strings (map PyStr xs) = Some xs"
  by (induction xs) simp_all

lemma read_strings_strs [simp]: "read_strings err field (strs xs) = Inr xs"
  by (simp add: read_strings_def strs_def)

lemma read_string_PyStr [simp]: "read_string err field (PyStr s) = Inr s"
  by (simp add: read_string_def)

lemma read_items_PyList [simp]: "read_items err field (PyList vs) = Inr vs"
  by (simp add: read_items_def)

lemma read_flag_PyBool [simp]: "read_flag err field (PyBool b) = Inr b"
  by (simp add: read_flag_def)

lemma ordered_strs [simp]: "ordered (strs xs) = strs xs"
  by (induction xs) (simp_all add: strs_def)

lemma plain_strs [simp]: "plain (strs xs)"
  by (simp add: strs_def list_all_iff)

lemma ordered_dict: "ordered (PyDict d) = PyDict (sorted_items (map (map_prod id ordered) d))"
  by simp

text \<open>A dictionary that was written and read back is the old one to every typed read.\<close>

definition reread :: "pydict \<Rightarrow> pydict" where
  "reread d = sorted_items (map (map_prod id ordered) d)"

lemma keys_map_ordered [simp]: "keys (map (map_prod id ordered) d) = keys d"
  by (simp add: keys_def)

lemma map_of_reread: "wf_dict d \<Longrightarrow> map_of (reread d) k = map_option ordered (map_of d k)"
proof -
  assume "wf_dict d"
  then have "map_of (reread d) k = map_of (map (map_prod id ordered) d) k"
    unfolding reread_def by (subst map_of_sorted_items) (simp_all add: wf_dict_def)
  also have "\<dots> = map_option ordered (map_of d k)" by (induction d) auto
  finally show ?thesis .
qed

lemma has_exactly_reread [simp]: "has_exactly (reread d) ks \<longleftrightarrow> has_exactly d ks"
  by (simp add: has_exactly_iff reread_def sorted_items_def keys_def image_image)

lemma get_item_reread: "wf_dict d \<Longrightarrow> get_item (reread d) k = map_sum id ordered (get_item d k)"
  by (simp add: get_item_def map_of_reread split: option.splits)

lemma read_object_reread:
  "has_exactly d ks \<Longrightarrow> read_object err ks field (ordered (PyDict d)) = Inr (reread d)"
  by (simp add: read_object_def reread_def [symmetric])

locale strict_reader =
  fixes content :: "'a \<Rightarrow> pydict" and valid :: "'a \<Rightarrow> bool" and decode :: "pydict \<Rightarrow> 'a result"
    and expected :: "string list" and field :: string and err :: "string \<Rightarrow> exn" and translate :: "exn \<Rightarrow> exn"
  assumes content_exact: "has_exactly (content x) expected"
    and content_plain: "plain (PyDict (content x))"
    and decode_content: "valid x \<Longrightarrow> decode (reread (content x)) = Inr x"
    and decode_valid: "decode d = Inr x \<Longrightarrow> valid x"
    and decode_raises: "raises_only (reader_raises err) (decode d)"
    and translates: "reader_raises err e \<Longrightarrow> \<exists>m. translate e = err m"
begin

definition read :: "(string \<Rightarrow> string) \<Rightarrow> string \<Rightarrow> 'a result" where
  "read fr raw = map_sum translate id (
     and_then (json_loads fr unique_object reject_nonfinite raw) (\<lambda>decoded.
     and_then (read_object err expected field decoded) decode))"

lemma reads_back: "valid x \<Longrightarrow> read fr (dumps (PyDict (content x))) = Inr x"
  using json_loads_dumps [OF _ content_plain, where hook = unique_object and fr = fr and on_const = reject_nonfinite]
  by (simp del: dumps.simps ordered.simps add: read_def keeps_distinct_def unique_object_def
    read_object_reread content_exact decode_content)

lemma read_valid: "read fr raw = Inr x \<Longrightarrow> valid x"
  by (cases "json_loads fr unique_object reject_nonfinite raw")
    (auto simp: read_def and_then_Inr map_sum_def split: sum.splits dest: decode_valid)

lemma read_raises: "read fr raw = Inl e \<Longrightarrow> \<exists>m. e = err m"
proof -
  assume read: "read fr raw = Inl e"
  define m where "m = and_then (json_loads fr unique_object reject_nonfinite raw) (\<lambda>decoded.
     and_then (read_object err expected field decoded) decode)"
  have "raises_only (reader_raises err) m"
    unfolding m_def by (intro raise_rules json_loads_raises decode_raises)
  moreover obtain e0 where "m = Inl e0" "e = translate e0"
    using read by (cases m) (simp_all add: read_def m_def [symmetric])
  ultimately show ?thesis using translates by (auto simp: raises_only_def)
qed

end

end
