(* ===== verification/AiSchema.thy ===== *)
theory AiSchema
  imports AiContracts StrictJson
begin

section \<open>packages/ai_core/schema.py, evaluation.py and prompting.py\<close>

text \<open>
  The reader of a model's suggestion, its citation check, the groundedness metrics and the
  serialisation of a request. A comprehension builds its items one after another, so the first
  exception wins; every \<open>ValueError\<close>, \<open>KeyError\<close> or \<open>TypeError\<close> becomes an \<open>LLMSchemaError\<close>. The
  prompt text and the identity of the prompt, read from files, are parameters; \<open>round(x, 12)\<close> is the
  parameter \<open>round12\<close>.
\<close>

definition MAX_PROVIDER_OUTPUT_BYTES :: nat where "MAX_PROVIDER_OUTPUT_BYTES = 64 * 1024"

definition suggestion_root_keys :: "string list" where
  "suggestion_root_keys = [''summary'', ''summary_evidence_ids'', ''risks'', ''hypotheses'', ''requested_tests'',
     ''missing_information'', ''uncertainty'', ''insufficient_evidence'']"

definition risk_keys :: "string list" where
  "risk_keys = [''statement'', ''severity'', ''confidence'', ''evidence_ids'']"

definition hypothesis_keys :: "string list" where
  "hypothesis_keys = risk_keys @ [''uncertainty'']"

definition test_keys :: "string list" where
  "test_keys = [''description'', ''rationale'', ''evidence_ids'']"

subsection \<open>parse_suggestion_json\<close>

definition read_risk :: "pyval \<Rightarrow> grounded_risk result" where
  "read_risk value =
     and_then (read_object LLMSchemaError risk_keys ''risk'' value) (\<lambda>item.
     and_then (string_at LLMSchemaError item ''statement'' ''risk.statement'') (\<lambda>statement.
     and_then (and_then (string_at LLMSchemaError item ''severity'' ''risk.severity'') (member_of severity_value severities)) (\<lambda>sev.
     and_then (and_then (string_at LLMSchemaError item ''confidence'' ''risk.confidence'')
       (member_of confidence_value confidences)) (\<lambda>conf.
     and_then (strings_at LLMSchemaError item ''evidence_ids'' ''risk.evidence_ids'') (\<lambda>ids.
       construct_with grounded_risk_post_init
         \<lparr>gr_statement = statement, gr_severity = sev, gr_confidence = conf, gr_evidence_ids = ids\<rparr>)))))"

definition read_hypothesis :: "pyval \<Rightarrow> risk_hypothesis result" where
  "read_hypothesis value =
     and_then (read_object LLMSchemaError hypothesis_keys ''hypothesis'' value) (\<lambda>item.
     and_then (string_at LLMSchemaError item ''statement'' ''hypothesis.statement'') (\<lambda>statement.
     and_then (and_then (string_at LLMSchemaError item ''severity'' ''hypothesis.severity'')
       (member_of severity_value severities)) (\<lambda>sev.
     and_then (and_then (string_at LLMSchemaError item ''confidence'' ''hypothesis.confidence'')
       (member_of confidence_value confidences)) (\<lambda>conf.
     and_then (strings_at LLMSchemaError item ''evidence_ids'' ''hypothesis.evidence_ids'') (\<lambda>ids.
     and_then (string_at LLMSchemaError item ''uncertainty'' ''hypothesis.uncertainty'') (\<lambda>uncertainty.
       construct_with risk_hypothesis_post_init
         \<lparr>rh_statement = statement, rh_severity = sev, rh_confidence = conf, rh_evidence_ids = ids,
          rh_uncertainty = uncertainty\<rparr>))))))"

definition read_test :: "pyval \<Rightarrow> requested_test result" where
  "read_test value =
     and_then (read_object LLMSchemaError test_keys ''requested_test'' value) (\<lambda>item.
     and_then (string_at LLMSchemaError item ''description'' ''test.description'') (\<lambda>description.
     and_then (string_at LLMSchemaError item ''rationale'' ''test.rationale'') (\<lambda>rationale.
     and_then (strings_at LLMSchemaError item ''evidence_ids'' ''test.evidence_ids'') (\<lambda>ids.
       construct_with requested_test_post_init
         \<lparr>rt_description = description, rt_rationale = rationale, rt_evidence_ids = ids\<rparr>))))"

definition read_list :: "pydict \<Rightarrow> string \<Rightarrow> (pyval \<Rightarrow> 'a result) \<Rightarrow> 'a list result" where
  "read_list d key read_item = and_then (and_then (get_item d key) (read_items LLMSchemaError key)) (map_raise read_item)"

definition suggestion_fields :: "pydict \<Rightarrow> suggestion result" where
  "suggestion_fields d =
     and_then (read_list d ''risks'' read_risk) (\<lambda>risks.
     and_then (read_list d ''hypotheses'' read_hypothesis) (\<lambda>hypotheses.
     and_then (read_list d ''requested_tests'' read_test) (\<lambda>tests.
     and_then (and_then (get_item d ''insufficient_evidence'')
       (read_flag LLMSchemaError ''insufficient_evidence must be boolean'')) (\<lambda>insufficient.
     and_then (string_at LLMSchemaError d ''summary'' ''summary'') (\<lambda>summary.
     and_then (strings_at LLMSchemaError d ''summary_evidence_ids'' ''summary_evidence_ids'') (\<lambda>ids.
     and_then (strings_at LLMSchemaError d ''missing_information'' ''missing_information'') (\<lambda>missing.
     and_then (string_at LLMSchemaError d ''uncertainty'' ''uncertainty'') (\<lambda>uncertainty.
       construct_with suggestion_post_init
         \<lparr>sg_summary = summary, sg_summary_evidence_ids = ids, sg_risks = risks, sg_hypotheses = hypotheses,
          sg_requested_tests = tests, sg_missing_information = missing, sg_uncertainty = uncertainty,
          sg_insufficient_evidence = insufficient\<rparr>))))))))"

definition strict_schema_error :: "exn \<Rightarrow> exn" where
  "strict_schema_error e = (case e of
      LLMSchemaError m \<Rightarrow> e
    | KeyError _ \<Rightarrow> LLMSchemaError ''provider output failed strict schema validation''
    | TypeError _ \<Rightarrow> LLMSchemaError ''provider output failed strict schema validation''
    | _ \<Rightarrow> if is_value_error e then LLMSchemaError ''provider output failed strict schema validation'' else e)"

definition parse_suggestion_json :: "(string \<Rightarrow> string) \<Rightarrow> string \<Rightarrow> suggestion result" where
  "parse_suggestion_json float_repr raw =
     (if raw = [] then Inl (LLMSchemaError ''provider output must be non-empty text'')
      else if length (utf8 raw) > MAX_PROVIDER_OUTPUT_BYTES
      then Inl (LLMSchemaError ''provider output exceeds the strict byte bound'')
      else map_sum strict_schema_error id (
        and_then (json_loads float_repr unique_object reject_nonfinite raw) (\<lambda>decoded.
        and_then (read_object LLMSchemaError suggestion_root_keys ''root'' decoded) suggestion_fields)))"

definition validate_suggestion_citations :: "suggestion \<Rightarrow> string list \<Rightarrow> exn option" where
  "validate_suggestion_citations s allowed = first_raise [
     raise_if (\<not> list_all (\<lambda>i. i \<in> set allowed) (cited_evidence_ids s))
       (LLMSchemaError ''provider output cites evidence outside the request''),
     raise_if (allowed = [] \<and> \<not> sg_insufficient_evidence s)
       (LLMSchemaError ''provider output claims sufficient evidence without evidence'')]"

subsection \<open>evaluate_suggestion\<close>

record suggestion_metrics =
  sm_citation_support_rate :: rat
  sm_unsupported_claim_rate :: rat
  sm_claim_count :: nat
  sm_supported_claim_count :: nat

definition evaluate_suggestion :: "(rat \<Rightarrow> rat) \<Rightarrow> suggestion \<Rightarrow> string list \<Rightarrow> suggestion_metrics" where
  "evaluate_suggestion round12 s allowed =
     (let claim_references = sg_summary_evidence_ids s # map gr_evidence_ids (sg_risks s);
          abstains = sg_insufficient_evidence s \<and> allowed = [];
          claim_count = (if abstains then 0 else length claim_references);
          supported = (if abstains then 0
            else length (filter (\<lambda>refs. refs \<noteq> [] \<and> list_all (\<lambda>i. i \<in> set allowed) refs) claim_references));
          rate = (if claim_count = 0 then 1 else of_nat supported / of_nat claim_count) in
      \<lparr>sm_citation_support_rate = round12 rate, sm_unsupported_claim_rate = round12 (1 - rate),
       sm_claim_count = claim_count, sm_supported_claim_count = supported\<rparr>)"

subsection \<open>build_analysis_request\<close>

definition evidence_item :: "evidence_context \<Rightarrow> pyval" where
  "evidence_item e = PyDict [
     (''content'', PyStr (ec_content e)),
     (''content_class'', PyStr (content_class_value (ec_content_class e))),
     (''evidence_id'', PyStr (ec_evidence_id e)),
     (''source_reference'', PyStr (ec_source_reference e))]"

definition input_payload :: "string \<Rightarrow> evidence_context list \<Rightarrow> pyval" where
  "input_payload change_id evidence = PyDict [
     (''change_id'', PyStr change_id), (''evidence'', PyList (map evidence_item evidence))]"

definition build_analysis_request ::
  "string \<Rightarrow> prompt_identity \<Rightarrow> string \<Rightarrow> evidence_context list \<Rightarrow> llm_budget \<Rightarrow> bool \<Rightarrow> llm_request result"
where
  "build_analysis_request prompt_text prompt change_id evidence budget cancelled =
     construct_with llm_request_post_init
       \<lparr>lq_change_id = change_id, lq_evidence = evidence, lq_instructions = prompt_text,
        lq_input_text = dumps (input_payload change_id evidence), lq_prompt = prompt, lq_budget = budget,
        lq_cancelled = cancelled\<rparr>"

end
