(* ===== verification/AiPolicy.thy ===== *)
theory AiPolicy
  imports AiContracts
begin

section \<open>packages/ai_core/policy.py: privacy routing and redaction\<close>

text \<open>
  A date is its ordinal (\<open>date.toordinal\<close>). \<open>route_evidence\<close> returns a decision; its redaction
  rebuilds every \<open>EvidenceContext\<close>, whose guard may raise.
\<close>

definition ROUTER_VERSION :: string where "ROUTER_VERSION = ''privacy-router-v1''"

definition REDACTION_VERSION :: string where "REDACTION_VERSION = ''deterministic-redaction-v1''"

definition TERMS_REVIEW_MAX_AGE_DAYS :: int where "TERMS_REVIEW_MAX_AGE_DAYS = 365"

datatype routing_mode = LOCAL_ONLY | HOSTED_REDACTED | HOSTED_ALLOWED

fun routing_mode_value :: "routing_mode \<Rightarrow> string" where
  "routing_mode_value LOCAL_ONLY = ''local_only''"
| "routing_mode_value HOSTED_REDACTED = ''hosted_redacted''"
| "routing_mode_value HOSTED_ALLOWED = ''hosted_allowed''"

datatype provider_kind = P_DETERMINISTIC_FAKE | P_LOCAL | P_HOSTED

fun provider_kind_value :: "provider_kind \<Rightarrow> string" where
  "provider_kind_value P_DETERMINISTIC_FAKE = ''deterministic_fake''"
| "provider_kind_value P_LOCAL = ''local''"
| "provider_kind_value P_HOSTED = ''hosted''"

datatype training_use = T_UNKNOWN | T_NOT_USED_FOR_TRAINING | T_CONTRACT_REVIEWED

datatype retention_mode = R_UNKNOWN | R_PROVIDER_STANDARD | R_CUSTOM_DURATION | R_CONTRACTUAL_ZERO_RETENTION

subsection \<open>Configuration\<close>

record provider_configuration =
  pc_provider_name :: string
  pc_model_id :: string
  pc_kind :: provider_kind
  pc_region :: string
  pc_training_use_mode :: training_use
  pc_retention_mode :: retention_mode
  pc_retention_days :: "int option"
  pc_supports_response_storage_disabled :: bool

definition short_ascii :: "string \<Rightarrow> string \<Rightarrow> nat \<Rightarrow> exn option" where
  "short_ascii value field maximum =
     raise_if (value = [] \<or> length value > maximum \<or> \<not> isascii value) (ValueError (field @ '' is invalid''))"

definition provider_configuration_post_init :: "provider_configuration \<Rightarrow> exn option" where
  "provider_configuration_post_init p = first_raise [
     short_ascii (pc_provider_name p) ''provider_name'' 128,
     short_ascii (pc_model_id p) ''model_id'' 160,
     short_ascii (pc_region p) ''region'' 64,
     raise_if (case pc_retention_days p of None \<Rightarrow> False | Some d \<Rightarrow> outside 0 d 3650)
       (ValueError ''retention_days must be null or between 0 and 3650''),
     raise_if (pc_retention_mode p = R_UNKNOWN \<and> pc_retention_days p \<noteq> None)
       (ValueError ''unknown provider retention cannot claim a duration'')]"

record privacy_policy =
  pp_policy_id :: string
  pp_policy_version :: int
  pp_policy_sha256 :: string
  pp_routing_mode :: routing_mode
  pp_allowed_providers :: "string list"
  pp_allowed_models :: "string list"
  pp_allowed_content_classes :: "content_class list"
  pp_max_transmitted_bytes :: int
  pp_max_input_tokens :: int
  pp_max_output_tokens :: int
  pp_max_cost_microusd :: int
  pp_redaction_version :: string
  pp_training_use_mode :: training_use
  pp_terms_reviewed_on :: "int option"
  pp_retention_mode :: retention_mode
  pp_retention_days :: "int option"
  pp_allowed_regions :: "string list"
  pp_response_storage_disabled :: bool
  pp_connect_timeout_seconds :: rat
  pp_read_timeout_seconds :: rat
  pp_max_attempts :: int
  pp_retry_backoff_seconds :: rat

definition privacy_policy_post_init :: "privacy_policy \<Rightarrow> exn option" where
  "privacy_policy_post_init p = first_raise [
     raise_if (pp_policy_version p < 1 \<or> length (pp_policy_sha256 p) \<noteq> 64) (ValueError ''policy identity is invalid''),
     raise_if (pp_policy_id p = [] \<or> \<not> isascii (pp_policy_id p)) (ValueError ''policy_id is invalid''),
     raise_if ((pp_allowed_providers p = [] \<or> \<not> distinct (pp_allowed_providers p)) \<or>
         (pp_allowed_models p = [] \<or> \<not> distinct (pp_allowed_models p)) \<or>
         (pp_allowed_content_classes p = [] \<or> \<not> distinct (pp_allowed_content_classes p)))
       (ValueError ''policy allowlists must be non-empty and unique''),
     raise_if (outside 256 (pp_max_transmitted_bytes p) 131072) (ValueError ''policy transmitted-byte budget is invalid''),
     raise_if (outside 256 (pp_max_input_tokens p) 262144) (ValueError ''policy input-token budget is invalid''),
     raise_if (outside 64 (pp_max_output_tokens p) 8192) (ValueError ''policy output-token budget is invalid''),
     raise_if (outside 1 (pp_max_cost_microusd p) 100000000) (ValueError ''policy cost budget is invalid'')]"

subsection \<open>Redaction\<close>

definition bearer_pattern :: regex where
  "bearer_pattern = sequence [Edge, literal_i ''bearer'', Rep True 1 is_space,
     Rep True 8 (\<lambda>c. is_letter c \<or> is_digit c \<or> c \<in> set ''._~+/=-'')]"

definition secret_pattern :: regex where
  "secret_pattern = sequence [Edge,
     alternatives [literal_i ''authorization'',
       sequence [literal_i ''api'', Alt (Chars (\<lambda>c. c \<in> set ''_-'')) Eps, literal_i ''key''],
       literal_i ''token'', literal_i ''secret'', literal_i ''password''],
     Rep True 0 is_space, Chars (\<lambda>c. c \<in> set '':=''), Rep True 0 is_space, Rep True 1 (\<lambda>c. \<not> is_space c)]"

definition key_pattern :: regex where
  "key_pattern = sequence [Edge,
     Alt (sequence [literal ''gh'', Chars (\<lambda>c. c \<in> set ''pousr''), literal ''_'']) (literal ''sk-''),
     Rep True 8 (\<lambda>c. is_letter c \<or> is_digit c \<or> c \<in> set ''_-'')]"

definition private_key_pattern :: regex where
  "private_key_pattern = sequence [literal ''-----BEGIN '',
     Rep True 1 (\<lambda>c. 65 \<le> code c \<and> code c \<le> 90 \<or> c = CHR '' ''), literal ''PRIVATE KEY-----'',
     Rep False 0 (\<lambda>_. True), literal ''-----END '',
     Rep True 1 (\<lambda>c. 65 \<le> code c \<and> code c \<le> 90 \<or> c = CHR '' ''), literal ''PRIVATE KEY-----'']"

definition REDACTIONS :: "regex list" where
  "REDACTIONS = [bearer_pattern, secret_pattern, key_pattern, private_key_pattern]"

definition redact :: "string \<Rightarrow> string" where
  "redact value = fold (\<lambda>pattern text. re_sub pattern ''[REDACTED]'' None text) REDACTIONS value"

definition redact_text :: "string \<Rightarrow> string \<Rightarrow> string result" where
  "redact_text value version = (if version \<noteq> REDACTION_VERSION
     then Inl (ValueError ''redaction version is unsupported'') else Inr (redact value))"

definition redact_context :: "string \<Rightarrow> evidence_context \<Rightarrow> evidence_context result" where
  "redact_context version e =
     and_then (redact_text (ec_content e) version) (\<lambda>content.
     and_then (redact_text (ec_source_reference e) version) (\<lambda>reference.
       construct_with evidence_context_post_init
         (e\<lparr>ec_content := content, ec_source_reference := reference\<rparr>)))"

subsection \<open>Decisions\<close>

record routing_decision =
  rd_allowed :: bool
  rd_reason_code :: string
  rd_router_version :: string
  rd_policy_id :: string
  rd_policy_version :: int
  rd_policy_sha256 :: string
  rd_routing_mode :: string
  rd_provider_name :: string
  rd_model_id :: string
  rd_provider_kind :: string
  rd_region :: string
  rd_redaction_version :: "string option"
  rd_transmitted_content_classes :: "string list"
  rd_transmitted_bytes :: int

definition routing_decision_as_dict :: "routing_decision \<Rightarrow> pydict" where
  "routing_decision_as_dict d = [
     (''allowed'', PyBool (rd_allowed d)),
     (''reason_code'', PyStr (rd_reason_code d)),
     (''router_version'', PyStr (rd_router_version d)),
     (''policy_id'', PyStr (rd_policy_id d)),
     (''policy_version'', PyInt (rd_policy_version d)),
     (''policy_sha256'', PyStr (rd_policy_sha256 d)),
     (''routing_mode'', PyStr (rd_routing_mode d)),
     (''provider_name'', PyStr (rd_provider_name d)),
     (''model_id'', PyStr (rd_model_id d)),
     (''provider_kind'', PyStr (rd_provider_kind d)),
     (''region'', PyStr (rd_region d)),
     (''redaction_version'', opt_str (rd_redaction_version d)),
     (''transmitted_content_classes'', strs (rd_transmitted_content_classes d)),
     (''transmitted_bytes'', PyInt (rd_transmitted_bytes d))]"

record routing_result =
  rr_decision :: routing_decision
  rr_evidence :: "evidence_context list"

definition evidence_bytes :: "evidence_context list \<Rightarrow> int" where
  "evidence_bytes es = sum_list (map (\<lambda>e. int (length (utf8 (ec_content e)))) es)"

definition routing ::
  "privacy_policy \<Rightarrow> provider_configuration \<Rightarrow> bool \<Rightarrow> string \<Rightarrow> evidence_context list \<Rightarrow> string option \<Rightarrow> routing_result"
where
  "routing policy provider allowed reason evidence redaction_version =
     \<lparr>rr_decision = \<lparr>rd_allowed = allowed, rd_reason_code = reason, rd_router_version = ROUTER_VERSION,
        rd_policy_id = pp_policy_id policy, rd_policy_version = pp_policy_version policy,
        rd_policy_sha256 = pp_policy_sha256 policy,
        rd_routing_mode = routing_mode_value (pp_routing_mode policy),
        rd_provider_name = pc_provider_name provider, rd_model_id = pc_model_id provider,
        rd_provider_kind = provider_kind_value (pc_kind provider), rd_region = pc_region provider,
        rd_redaction_version = redaction_version,
        rd_transmitted_content_classes =
          sorted_set (map (\<lambda>e. content_class_value (ec_content_class e)) evidence),
        rd_transmitted_bytes = evidence_bytes evidence\<rparr>,
      rr_evidence = (if allowed then evidence else [])\<rparr>"

definition denied :: "privacy_policy \<Rightarrow> provider_configuration \<Rightarrow> string \<Rightarrow> routing_result" where
  "denied policy provider reason = routing policy provider False reason [] None"

definition stale_terms :: "privacy_policy \<Rightarrow> int \<Rightarrow> bool" where
  "stale_terms policy today = (case pp_terms_reviewed_on policy of
      None \<Rightarrow> True
    | Some reviewed \<Rightarrow> outside (today - TERMS_REVIEW_MAX_AGE_DAYS) reviewed today)"

text \<open>The checks of a hosted provider, in order; \<open>None\<close> when all pass.\<close>

definition hosted_refusal :: "privacy_policy \<Rightarrow> provider_configuration \<Rightarrow> int \<Rightarrow> string option" where
  "hosted_refusal policy provider today =
     (if stale_terms policy today \<or> pp_training_use_mode policy = T_UNKNOWN \<or>
         pc_training_use_mode provider = T_UNKNOWN \<or> pc_training_use_mode provider \<noteq> pp_training_use_mode policy
      then Some ''training_terms_incompatible''
      else if pp_retention_mode policy = R_UNKNOWN \<or> pc_retention_mode provider = R_UNKNOWN \<or>
         pc_retention_mode provider \<noteq> pp_retention_mode policy \<or> pc_retention_days provider \<noteq> pp_retention_days policy
      then Some ''retention_incompatible''
      else if pc_region provider \<notin> set (pp_allowed_regions policy) then Some ''region_not_allowed''
      else if pp_response_storage_disabled policy \<and> \<not> pc_supports_response_storage_disabled provider
      then Some ''response_storage_control_unavailable''
      else None)"

definition route_refusal ::
  "privacy_policy \<Rightarrow> provider_configuration \<Rightarrow> evidence_context list \<Rightarrow> string option" where
  "route_refusal policy provider evidence =
     (if pc_provider_name provider \<notin> set (pp_allowed_providers policy) then Some ''provider_not_allowed''
      else if pc_model_id provider \<notin> set (pp_allowed_models policy) then Some ''model_not_allowed''
      else if list_ex (\<lambda>e. ec_content_class e \<notin> set (pp_allowed_content_classes policy)) evidence
      then Some ''content_class_not_allowed''
      else if pp_routing_mode policy = LOCAL_ONLY \<and> pc_kind provider = P_HOSTED then Some ''hosted_route_disabled''
      else if pp_routing_mode policy \<noteq> LOCAL_ONLY \<and> pc_kind provider \<noteq> P_HOSTED
      then Some ''hosted_provider_required''
      else if pp_routing_mode policy = HOSTED_REDACTED \<and> pp_redaction_version policy \<noteq> REDACTION_VERSION
      then Some ''redaction_version_incompatible''
      else None)"

definition routed_evidence :: "privacy_policy \<Rightarrow> evidence_context list \<Rightarrow> evidence_context list result" where
  "routed_evidence policy evidence =
     (if pp_routing_mode policy = HOSTED_REDACTED
      then map_raise (redact_context (pp_redaction_version policy)) evidence else Inr evidence)"

definition route_evidence ::
  "privacy_policy \<Rightarrow> provider_configuration \<Rightarrow> evidence_context list \<Rightarrow> int \<Rightarrow> routing_result result" where
  "route_evidence policy provider evidence today =
     (case route_refusal policy provider evidence of
        Some reason \<Rightarrow> Inr (denied policy provider reason)
      | None \<Rightarrow> and_then (routed_evidence policy evidence) (\<lambda>routed.
          let redaction_version = (if pp_routing_mode policy = HOSTED_REDACTED
                then Some (pp_redaction_version policy) else None) in
          (case (if pc_kind provider = P_HOSTED then hosted_refusal policy provider today else None) of
             Some reason \<Rightarrow> Inr (denied policy provider reason)
           | None \<Rightarrow>
               if evidence_bytes routed > pp_max_transmitted_bytes policy
               then Inr (denied policy provider ''transmission_size_exceeded'')
               else Inr (routing policy provider True ''route_allowed'' routed redaction_version))))"

subsection \<open>What is routed\<close>

text \<open>The evidence with the texts as they are, or redacted.\<close>

definition may_route :: "privacy_policy \<Rightarrow> provider_configuration \<Rightarrow> int \<Rightarrow> bool" where
  "may_route policy provider today \<longleftrightarrow>
     pc_provider_name provider \<in> set (pp_allowed_providers policy) \<and>
     pc_model_id provider \<in> set (pp_allowed_models policy) \<and>
     (pp_routing_mode policy = LOCAL_ONLY \<longleftrightarrow> pc_kind provider \<noteq> P_HOSTED) \<and>
     (pp_routing_mode policy = HOSTED_REDACTED \<longrightarrow> pp_redaction_version policy = REDACTION_VERSION) \<and>
     (pc_kind provider = P_HOSTED \<longrightarrow>
        (\<exists>d. pp_terms_reviewed_on policy = Some d \<and> today - 365 \<le> d \<and> d \<le> today) \<and>
        pc_training_use_mode provider = pp_training_use_mode policy \<and> pp_training_use_mode policy \<noteq> T_UNKNOWN \<and>
        pc_retention_mode provider = pp_retention_mode policy \<and> pp_retention_mode policy \<noteq> R_UNKNOWN \<and>
        pc_retention_days provider = pp_retention_days policy \<and>
        pc_region provider \<in> set (pp_allowed_regions policy) \<and>
        (pp_response_storage_disabled policy \<longrightarrow> pc_supports_response_storage_disabled provider))"

definition redacted :: "evidence_context \<Rightarrow> evidence_context" where
  "redacted e = e\<lparr>ec_content := redact (ec_content e), ec_source_reference := redact (ec_source_reference e)\<rparr>"

definition outgoing :: "privacy_policy \<Rightarrow> evidence_context list \<Rightarrow> evidence_context list" where
  "outgoing policy evidence = (if pp_routing_mode policy = HOSTED_REDACTED then map redacted evidence else evidence)"

lemma hosted_refusal_None: "hosted_refusal policy provider today = None \<longleftrightarrow>
    (\<exists>d. pp_terms_reviewed_on policy = Some d \<and> today - 365 \<le> d \<and> d \<le> today) \<and>
    pc_training_use_mode provider = pp_training_use_mode policy \<and> pp_training_use_mode policy \<noteq> T_UNKNOWN \<and>
    pc_retention_mode provider = pp_retention_mode policy \<and> pp_retention_mode policy \<noteq> R_UNKNOWN \<and>
    pc_retention_days provider = pp_retention_days policy \<and>
    pc_region provider \<in> set (pp_allowed_regions policy) \<and>
    (pp_response_storage_disabled policy \<longrightarrow> pc_supports_response_storage_disabled provider)"
  by (auto simp: hosted_refusal_def stale_terms_def outside_def TERMS_REVIEW_MAX_AGE_DAYS_def split: option.splits)

lemma route_refusal_None: "route_refusal policy provider evidence = None \<longleftrightarrow>
    pc_provider_name provider \<in> set (pp_allowed_providers policy) \<and>
    pc_model_id provider \<in> set (pp_allowed_models policy) \<and>
    (\<forall>e \<in> set evidence. ec_content_class e \<in> set (pp_allowed_content_classes policy)) \<and>
    (pp_routing_mode policy = LOCAL_ONLY \<longleftrightarrow> pc_kind provider \<noteq> P_HOSTED) \<and>
    (pp_routing_mode policy = HOSTED_REDACTED \<longrightarrow> pp_redaction_version policy = REDACTION_VERSION)"
  by (auto simp: route_refusal_def list_ex_iff)

lemma redact_context_Inr: "redact_context v e = Inr e' \<longleftrightarrow>
    v = REDACTION_VERSION \<and> e' = redacted e \<and> evidence_context_post_init (redacted e) = None"
  by (auto simp: redact_context_def redact_text_def and_then_Inr redacted_def)

lemma map_redact_Inr: "map_raise (redact_context v) es = Inr es' \<Longrightarrow> es' = map redacted es"
  by (induction es arbitrary: es') (auto simp: and_then_Inr redact_context_Inr)

lemma routed_evidence_Inr: "routed_evidence policy evidence = Inr routed \<Longrightarrow> routed = outgoing policy evidence"
  by (auto simp: routed_evidence_def outgoing_def map_redact_Inr split: if_splits)

lemma routing_simps [simp]:
  "rd_allowed (rr_decision (routing p v a r e x)) = a" "rr_evidence (routing p v a r e x) = (if a then e else [])"
  "rd_transmitted_bytes (rr_decision (routing p v a r e x)) = evidence_bytes e"
  "rd_transmitted_content_classes (rr_decision (routing p v a r e x)) =
     sorted_set (map (\<lambda>e. content_class_value (ec_content_class e)) e)"
  by (simp_all add: routing_def)

lemma route_evidence_allowed:
  assumes "route_evidence policy provider evidence today = Inr r"
  shows "rd_allowed (rr_decision r) \<longleftrightarrow> may_route policy provider today \<and>
    (\<forall>e \<in> set evidence. ec_content_class e \<in> set (pp_allowed_content_classes policy)) \<and>
    evidence_bytes (outgoing policy evidence) \<le> pp_max_transmitted_bytes policy"
    "rd_allowed (rr_decision r) \<Longrightarrow> rr_evidence r = outgoing policy evidence"
    "\<not> rd_allowed (rr_decision r) \<Longrightarrow> r = denied policy provider (rd_reason_code (rr_decision r))"
    "rd_transmitted_bytes (rr_decision r) = evidence_bytes (rr_evidence r)"
proof -
  have "(rd_allowed (rr_decision r) \<longleftrightarrow> may_route policy provider today \<and>
      (\<forall>e \<in> set evidence. ec_content_class e \<in> set (pp_allowed_content_classes policy)) \<and>
      evidence_bytes (outgoing policy evidence) \<le> pp_max_transmitted_bytes policy) \<and>
    (rd_allowed (rr_decision r) \<longrightarrow> rr_evidence r = outgoing policy evidence) \<and>
    (\<not> rd_allowed (rr_decision r) \<longrightarrow> r = denied policy provider (rd_reason_code (rr_decision r))) \<and>
    rd_transmitted_bytes (rr_decision r) = evidence_bytes (rr_evidence r)"
  proof (cases "route_refusal policy provider evidence")
    case (Some reason)
    then have "\<not> (may_route policy provider today \<and>
        (\<forall>e \<in> set evidence. ec_content_class e \<in> set (pp_allowed_content_classes policy)))"
      using route_refusal_None [of policy provider evidence] by (auto simp: may_route_def)
    then show ?thesis using assms Some by (auto simp: route_evidence_def denied_def routing_def evidence_bytes_def)
  next
    case None
    then obtain routed where routed: "routed_evidence policy evidence = Inr routed"
      using assms by (auto simp: route_evidence_def and_then_Inr)
    note same = routed_evidence_Inr [OF routed]
    show ?thesis
    proof (cases "if pc_kind provider = P_HOSTED then hosted_refusal policy provider today else None")
      case (Some reason)
      then have "\<not> may_route policy provider today"
        using hosted_refusal_None [of policy provider today] by (auto simp: may_route_def split: if_splits)
      then show ?thesis
        using assms None Some routed by (auto simp: route_evidence_def denied_def routing_def evidence_bytes_def)
    next
      case ok: None
      then have "may_route policy provider today"
        using None hosted_refusal_None [of policy provider today] route_refusal_None [of policy provider evidence]
        by (auto simp: may_route_def split: if_splits)
      moreover have "\<forall>e \<in> set evidence. ec_content_class e \<in> set (pp_allowed_content_classes policy)"
        using None by (simp add: route_refusal_None)
      ultimately show ?thesis
        using assms None ok routed same
        by (auto simp: route_evidence_def denied_def routing_def evidence_bytes_def Let_def split: if_splits)
    qed
  qed
  then show "rd_allowed (rr_decision r) \<longleftrightarrow> may_route policy provider today \<and>
    (\<forall>e \<in> set evidence. ec_content_class e \<in> set (pp_allowed_content_classes policy)) \<and>
    evidence_bytes (outgoing policy evidence) \<le> pp_max_transmitted_bytes policy"
    "rd_allowed (rr_decision r) \<Longrightarrow> rr_evidence r = outgoing policy evidence"
    "\<not> rd_allowed (rr_decision r) \<Longrightarrow> r = denied policy provider (rd_reason_code (rr_decision r))"
    "rd_transmitted_bytes (rr_decision r) = evidence_bytes (rr_evidence r)" by blast+
qed

end
