(* ===== verification/AiProofs.thy ===== *)
theory AiProofs
  imports AiSchema AiPolicy
begin

section \<open>What the advisory model may see and say\<close>

text \<open>
  The suggestion reader interprets \<open>strict_reader\<close>. The properties: a valid suggestion survives its
  JSON text; an accepted one cites only evidence of its request and everything else is refused with
  an \<open>LLMSchemaError\<close>; privacy routing lets evidence out exactly under the policy's conditions.
\<close>

subsection \<open>Suggestions are read strictly\<close>

definition suggestion_valid :: "suggestion \<Rightarrow> bool" where
  "suggestion_valid s \<longleftrightarrow> suggestion_post_init s = None \<and>
     list_all (\<lambda>r. grounded_risk_post_init r = None) (sg_risks s) \<and>
     list_all (\<lambda>h. risk_hypothesis_post_init h = None) (sg_hypotheses s) \<and>
     list_all (\<lambda>t. requested_test_post_init t = None) (sg_requested_tests s)"

lemma member_severity [simp]: "member_of severity_value severities (severity_value x) = Inr x"
  by (cases x) (simp_all add: member_of_def severities_def)

lemma member_confidence [simp]: "member_of confidence_value confidences (confidence_value x) = Inr x"
  by (cases x) (simp_all add: member_of_def confidences_def)

lemma risk_dict [simp]: "wf_dict (grounded_risk_as_dict r)" "has_exactly (grounded_risk_as_dict r) risk_keys"
  by (simp_all add: wf_dict_def grounded_risk_as_dict_def has_exactly_iff risk_keys_def)

lemma hypothesis_dict [simp]:
  "wf_dict (risk_hypothesis_as_dict h)" "has_exactly (risk_hypothesis_as_dict h) hypothesis_keys"
  by (auto simp: wf_dict_def risk_hypothesis_as_dict_def has_exactly_iff risk_keys_def hypothesis_keys_def)

lemma test_dict [simp]: "wf_dict (requested_test_as_dict t)" "has_exactly (requested_test_as_dict t) test_keys"
  by (simp_all add: wf_dict_def requested_test_as_dict_def has_exactly_iff test_keys_def)

lemma suggestion_dict [simp]:
  "wf_dict (suggestion_as_dict s)" "has_exactly (suggestion_as_dict s) suggestion_root_keys"
  by (simp_all add: wf_dict_def suggestion_as_dict_def has_exactly_iff suggestion_root_keys_def)

lemma read_risk_back:
  "grounded_risk_post_init r = None \<Longrightarrow> read_risk (ordered (PyDict (grounded_risk_as_dict r))) = Inr r"
  by (cases r, simp del: ordered.simps add: read_risk_def read_object_reread string_at_def strings_at_def get_item_reread)
    (simp add: grounded_risk_as_dict_def)

lemma read_hypothesis_back:
  "risk_hypothesis_post_init h = None \<Longrightarrow> read_hypothesis (ordered (PyDict (risk_hypothesis_as_dict h))) = Inr h"
  by (cases h, simp del: ordered.simps add: read_hypothesis_def read_object_reread string_at_def strings_at_def get_item_reread)
    (simp add: risk_hypothesis_as_dict_def)

lemma read_test_back:
  "requested_test_post_init t = None \<Longrightarrow> read_test (ordered (PyDict (requested_test_as_dict t))) = Inr t"
  by (cases t, simp del: ordered.simps add: read_test_def read_object_reread string_at_def strings_at_def get_item_reread)
    (simp add: requested_test_as_dict_def)

lemma read_list_back:
  assumes "wf_dict d" "get_item d k = Inr (PyList (map (\<lambda>x. PyDict (as_dict x)) xs))"
    and "\<And>x. x \<in> set xs \<Longrightarrow> read_item (ordered (PyDict (as_dict x))) = Inr x"
  shows "read_list (reread d) k read_item = Inr xs"
proof -
  have "map_raise read_item (map (\<lambda>x. ordered (PyDict (as_dict x))) xs) = Inr (map (\<lambda>x. x) xs)"
    by (intro map_raise_all_Inr assms(3))
  then show ?thesis using assms(1,2) by (simp add: read_list_def get_item_reread comp_def)
qed

lemma suggestion_items [simp]:
  "get_item (suggestion_as_dict s) ''risks'' = Inr (PyList (map (\<lambda>r. PyDict (grounded_risk_as_dict r)) (sg_risks s)))"
  "get_item (suggestion_as_dict s) ''hypotheses'' =
     Inr (PyList (map (\<lambda>h. PyDict (risk_hypothesis_as_dict h)) (sg_hypotheses s)))"
  "get_item (suggestion_as_dict s) ''requested_tests'' =
     Inr (PyList (map (\<lambda>t. PyDict (requested_test_as_dict t)) (sg_requested_tests s)))"
  "get_item (suggestion_as_dict s) ''summary'' = Inr (PyStr (sg_summary s))"
  "get_item (suggestion_as_dict s) ''summary_evidence_ids'' = Inr (strs (sg_summary_evidence_ids s))"
  "get_item (suggestion_as_dict s) ''missing_information'' = Inr (strs (sg_missing_information s))"
  "get_item (suggestion_as_dict s) ''uncertainty'' = Inr (PyStr (sg_uncertainty s))"
  "get_item (suggestion_as_dict s) ''insufficient_evidence'' = Inr (PyBool (sg_insufficient_evidence s))"
  by (simp_all add: suggestion_as_dict_def)

lemma suggestion_read_back:
  assumes "suggestion_valid s"
  shows "suggestion_fields (reread (suggestion_as_dict s)) = Inr s"
proof -
  let ?d = "suggestion_as_dict s"
  note valid = assms [unfolded suggestion_valid_def list_all_iff]
  have "read_list (reread ?d) ''risks'' read_risk = Inr (sg_risks s)"
    using valid read_risk_back by (intro read_list_back [where as_dict = grounded_risk_as_dict]) simp_all
  moreover have "read_list (reread ?d) ''hypotheses'' read_hypothesis = Inr (sg_hypotheses s)"
    using valid read_hypothesis_back by (intro read_list_back [where as_dict = risk_hypothesis_as_dict]) simp_all
  moreover have "read_list (reread ?d) ''requested_tests'' read_test = Inr (sg_requested_tests s)"
    using valid read_test_back by (intro read_list_back [where as_dict = requested_test_as_dict]) simp_all
  ultimately show ?thesis
    using valid by (cases s) (simp add: suggestion_fields_def string_at_def strings_at_def get_item_reread)
qed

lemma suggestion_fields_valid: "suggestion_fields d = Inr s \<Longrightarrow> suggestion_valid s"
  by (auto simp: suggestion_fields_def and_then_Inr suggestion_valid_def read_risk_def read_hypothesis_def
    read_test_def read_list_def elim!: map_raise_list_all)

lemma guard_errors:
  "validate_identifier v f n = Some e \<Longrightarrow> is_value_error e" "validate_text v f n = Some e \<Longrightarrow> is_value_error e"
  by (auto simp: validate_identifier_def validate_text_def elim!: first_raise_from)

lemma reference_errors: "validate_references vs f b = Some e \<Longrightarrow> is_value_error e"
  unfolding validate_references_def by (erule first_raise_from) (auto simp: list_all_iff guard_errors)

lemma post_init_errors [intro]:
  "grounded_risk_post_init r = Some e \<Longrightarrow> reader_raises err e"
  "risk_hypothesis_post_init h = Some e \<Longrightarrow> reader_raises err e"
  "requested_test_post_init t = Some e \<Longrightarrow> reader_raises err e"
  "suggestion_post_init s = Some e \<Longrightarrow> reader_raises err e"
  unfolding grounded_risk_post_init_def risk_hypothesis_post_init_def requested_test_post_init_def
    suggestion_post_init_def
  by ((erule first_raise_from, auto simp: list_all_iff guard_errors reference_errors reader_raises_value_error)[1])+

lemma suggestion_fields_raises: "raises_only (reader_raises LLMSchemaError) (suggestion_fields d)"
proof -
  have items: "raises_only (reader_raises LLMSchemaError) (read_risk v)"
    "raises_only (reader_raises LLMSchemaError) (read_hypothesis v)"
    "raises_only (reader_raises LLMSchemaError) (read_test v)" for v
    unfolding read_risk_def read_hypothesis_def read_test_def by (intro raise_rules post_init_errors; assumption)+
  show ?thesis
    unfolding suggestion_fields_def read_list_def by (intro raise_rules items post_init_errors; assumption)
qed

interpretation sr: strict_reader suggestion_as_dict suggestion_valid suggestion_fields suggestion_root_keys
  "''root''" LLMSchemaError strict_schema_error
proof
  show "plain (PyDict (suggestion_as_dict s))" for s
    by (simp add: suggestion_as_dict_def wf_dict_def list_all_iff grounded_risk_as_dict_def
      risk_hypothesis_as_dict_def requested_test_as_dict_def)
  show "\<exists>m. strict_schema_error e = LLMSchemaError m" if "reader_raises LLMSchemaError e" for e
    using that by (cases e) (auto simp: strict_schema_error_def reader_raises_def)
qed (simp_all add: suggestion_read_back suggestion_fields_valid suggestion_fields_raises)

lemma parse_suggestion_read: "parse_suggestion_json fr raw =
    (if raw = [] then Inl (LLMSchemaError ''provider output must be non-empty text'')
     else if length (utf8 raw) > MAX_PROVIDER_OUTPUT_BYTES
     then Inl (LLMSchemaError ''provider output exceeds the strict byte bound'')
     else sr.read fr raw)"
  by (simp add: parse_suggestion_json_def sr.read_def)

text \<open>
  A suggestion whose guards hold and whose canonical text is within the byte bound is read back
  from that text as it was; anything but a suggestion is refused with an LLMSchemaError, whatever the
  text is.
\<close>

theorem suggestion_json_round_trip:
  "(suggestion_valid s \<and> length (utf8 (dumps (PyDict (suggestion_as_dict s)))) \<le> MAX_PROVIDER_OUTPUT_BYTES \<longrightarrow>
     parse_suggestion_json fr (dumps (PyDict (suggestion_as_dict s))) = Inr s) \<and>
   (\<forall>raw. (\<exists>m. parse_suggestion_json fr raw = Inl (LLMSchemaError m)) \<or>
     (\<exists>s'. parse_suggestion_json fr raw = Inr s' \<and> suggestion_valid s'))"
proof -
  have "dumps (PyDict (suggestion_as_dict s)) \<noteq> []" by simp
  moreover have "(\<exists>m. parse_suggestion_json fr raw = Inl (LLMSchemaError m)) \<or>
     (\<exists>s'. parse_suggestion_json fr raw = Inr s' \<and> suggestion_valid s')" for raw
    using sr.read_raises [of fr raw] sr.read_valid [of fr raw]
    by (cases "sr.read fr raw") (auto simp: parse_suggestion_read)
  ultimately show ?thesis using sr.reads_back [of s fr]
    by (simp del: dumps.simps add: parse_suggestion_read)
qed

subsection \<open>Grounding\<close>

lemma grounded_refs: "grounded_risk_post_init r = None \<Longrightarrow> gr_evidence_ids r \<noteq> [] \<and> distinct (gr_evidence_ids r)"
  by (auto simp: grounded_risk_post_init_def validate_references_def)

text \<open>
  C26: A suggestion that is read and passes the citation check is grounded: every claim cites
  evidence of the request only, every risk cites some, and without evidence the suggestion declares
  its evidence insufficient, with no risk and no citation. When it declares its evidence sufficient
  the metrics report full citation support.
\<close>

theorem accepted_suggestion_is_grounded:
  assumes "parse_suggestion_json fr raw = Inr s" "validate_suggestion_citations s allowed = None"
  shows "set (cited_evidence_ids s) \<subseteq> set allowed \<and>
    (\<forall>r \<in> set (sg_risks s). gr_evidence_ids r \<noteq> [] \<and> set (gr_evidence_ids r) \<subseteq> set allowed) \<and>
    (allowed = [] \<longrightarrow> sg_insufficient_evidence s \<and> cited_evidence_ids s = [] \<and> sg_risks s = []) \<and>
    (sg_insufficient_evidence s \<longrightarrow> sg_risks s = []) \<and>
    (\<not> sg_insufficient_evidence s \<longrightarrow>
       (let m = evaluate_suggestion round12 s allowed in
        sm_citation_support_rate m = round12 1 \<and> sm_unsupported_claim_rate m = round12 0 \<and>
        sm_supported_claim_count m = sm_claim_count m \<and> sm_claim_count m = Suc (length (sg_risks s))))"
proof -
  have valid: "suggestion_valid s"
    using assms(1) sr.read_valid [of fr raw s] by (simp add: parse_suggestion_read split: if_splits)
  have cited: "set (cited_evidence_ids s) \<subseteq> set allowed" "allowed = [] \<longrightarrow> sg_insufficient_evidence s"
    using assms(2) by (auto simp: validate_suggestion_citations_def list_all_iff)
  have risks: "gr_evidence_ids r \<noteq> [] \<and> set (gr_evidence_ids r) \<subseteq> set allowed" if "r \<in> set (sg_risks s)" for r
    using valid cited(1) that grounded_refs [of r]
    by (auto simp: suggestion_valid_def list_all_iff cited_evidence_ids_def)
  have shape: "sg_insufficient_evidence s \<longrightarrow> sg_risks s = []"
    "\<not> sg_insufficient_evidence s \<longrightarrow> sg_summary_evidence_ids s \<noteq> []"
    using valid by (auto simp: suggestion_valid_def suggestion_post_init_def first_raise_append split: option.splits)
  have "filter (\<lambda>refs. refs \<noteq> [] \<and> list_all (\<lambda>i. i \<in> set allowed) refs)
      (sg_summary_evidence_ids s # map gr_evidence_ids (sg_risks s)) =
      sg_summary_evidence_ids s # map gr_evidence_ids (sg_risks s)" if "\<not> sg_insufficient_evidence s"
    using that shape(2) risks cited(1)
    by (intro filter_True) (auto simp: list_all_iff cited_evidence_ids_def)
  then have "\<not> sg_insufficient_evidence s \<longrightarrow>
       (let m = evaluate_suggestion round12 s allowed in
        sm_citation_support_rate m = round12 1 \<and> sm_unsupported_claim_rate m = round12 0 \<and>
        sm_supported_claim_count m = sm_claim_count m \<and> sm_claim_count m = Suc (length (sg_risks s)))"
    by (simp del: filter.simps add: evaluate_suggestion_def Let_def)
  moreover have "cited_evidence_ids s = []" if "allowed = []" using cited(1) that by simp
  ultimately show ?thesis using cited risks shape by blast
qed

subsection \<open>Privacy routing\<close>

text \<open>
  The routes on which the texts are redacted: the provider, the model and the content classes are allowed, and the
  policy sends redacted texts of the supported version to a hosted provider.
\<close>

definition redacting_route :: "privacy_policy \<Rightarrow> provider_configuration \<Rightarrow> evidence_context list \<Rightarrow> bool" where
  "redacting_route policy provider evidence \<longleftrightarrow>
     pc_provider_name provider \<in> set (pp_allowed_providers policy) \<and>
     pc_model_id provider \<in> set (pp_allowed_models policy) \<and>
     (\<forall>e \<in> set evidence. ec_content_class e \<in> set (pp_allowed_content_classes policy)) \<and>
     pp_routing_mode policy = HOSTED_REDACTED \<and> pc_kind provider = P_HOSTED \<and>
     pp_redaction_version policy = REDACTION_VERSION"

lemma text_guard_error: "validate_text v f n = Some e \<Longrightarrow> \<exists>m. e = ValueError m"
  "validate_identifier v f n = Some e \<Longrightarrow> \<exists>m. e = ValueError m"
  by (auto simp: validate_text_def validate_identifier_def raise_if_def split: if_splits)

lemma evidence_guard_error: "evidence_context_post_init e = Some x \<Longrightarrow> \<exists>m. x = ValueError m"
  unfolding evidence_context_post_init_def by (erule first_raise_from) (auto simp: text_guard_error)

lemma map_redact:
  "map_raise (redact_context REDACTION_VERSION) es = Inr (map redacted es) \<and>
     (\<forall>e \<in> set es. evidence_context_post_init (redacted e) = None) \<or>
   (\<exists>m. map_raise (redact_context REDACTION_VERSION) es = Inl (ValueError m)) \<and>
     (\<exists>e \<in> set es. evidence_context_post_init (redacted e) \<noteq> None)"
proof (induction es)
  case (Cons e es)
  show ?case
  proof (cases "evidence_context_post_init (redacted e)")
    case None
    then have "redact_context REDACTION_VERSION e = Inr (redacted e)" by (simp add: redact_context_Inr)
    with None Cons show ?thesis by auto
  next
    case (Some x)
    then have "redact_context REDACTION_VERSION e = Inl x"
      by (simp add: redact_context_def redact_text_def redacted_def construct_with_def)
    with Some evidence_guard_error [OF Some] show ?thesis by auto
  qed
qed simp

lemma redacting_route_iff: "redacting_route policy provider evidence \<longleftrightarrow>
    route_refusal policy provider evidence = None \<and> pp_routing_mode policy = HOSTED_REDACTED"
  by (auto simp: redacting_route_def route_refusal_None)

lemma route_evidence_outcome:
  "if redacting_route policy provider evidence \<and> (\<exists>e \<in> set evidence. evidence_context_post_init (redacted e) \<noteq> None)
   then \<exists>m. route_evidence policy provider evidence today = Inl (ValueError m)
   else \<exists>r. route_evidence policy provider evidence today = Inr r"
proof (cases "redacting_route policy provider evidence")
  case True
  then have "route_refusal policy provider evidence = None" "pp_routing_mode policy = HOSTED_REDACTED"
    "pp_redaction_version policy = REDACTION_VERSION"
    by (simp_all add: redacting_route_iff) (simp add: route_refusal_None)
  with True map_redact [of evidence] show ?thesis
    by (auto simp: route_evidence_def routed_evidence_def Let_def split: option.split)
next
  case False
  then show ?thesis
    by (cases "route_refusal policy provider evidence")
      (auto simp: redacting_route_iff route_evidence_def routed_evidence_def Let_def split: option.split)
qed

text \<open>
  C25: Privacy routing is exact and fails closed. It raises, and then a ValueError, exactly when the
  route redacts its texts and some redacted text is no valid evidence any more. Otherwise it returns,
  and it allows the evidence out exactly when provider, model and content classes are on the policy's
  lists, the routing mode fits the kind of provider, a hosted provider has the reviewed training,
  retention, region and storage terms, and the bytes fit. Allowed evidence is the given one, redacted
  where the mode asks for it; a refusal carries no evidence, no content class and no byte.
\<close>

theorem routing_is_exact:
  "case route_evidence policy provider evidence today of
     Inl x \<Rightarrow> (\<exists>m. x = ValueError m) \<and> redacting_route policy provider evidence \<and>
       (\<exists>e \<in> set evidence. evidence_context_post_init (redacted e) \<noteq> None)
   | Inr r \<Rightarrow>
       \<not> (redacting_route policy provider evidence \<and>
          (\<exists>e \<in> set evidence. evidence_context_post_init (redacted e) \<noteq> None)) \<and>
       (rd_allowed (rr_decision r) \<longleftrightarrow> may_route policy provider today \<and>
          (\<forall>e \<in> set evidence. ec_content_class e \<in> set (pp_allowed_content_classes policy)) \<and>
          evidence_bytes (outgoing policy evidence) \<le> pp_max_transmitted_bytes policy) \<and>
       rr_evidence r = (if rd_allowed (rr_decision r) then outgoing policy evidence else []) \<and>
       rd_transmitted_bytes (rr_decision r) = evidence_bytes (rr_evidence r) \<and>
       set (rd_transmitted_content_classes (rr_decision r)) =
         (\<lambda>e. content_class_value (ec_content_class e)) ` set (rr_evidence r)"
proof (cases "route_evidence policy provider evidence today")
  case (Inl x)
  with route_evidence_outcome [of policy provider evidence today] show ?thesis by (auto split: if_splits)
next
  case (Inr r)
  have "rr_evidence r = (if rd_allowed (rr_decision r) then outgoing policy evidence else [])"
    using route_evidence_allowed(2,3) [OF Inr] by (metis denied_def routing_simps(1,2))
  moreover have "set (rd_transmitted_content_classes (rr_decision r)) =
      (\<lambda>e. content_class_value (ec_content_class e)) ` set (rr_evidence r)"
    using Inr by (auto simp: route_evidence_def denied_def routing_def and_then_Inr Let_def
      split: option.splits if_splits)
  moreover have "\<not> (redacting_route policy provider evidence \<and>
      (\<exists>e \<in> set evidence. evidence_context_post_init (redacted e) \<noteq> None))"
    using Inr route_evidence_outcome [of policy provider evidence today] by (auto split: if_splits)
  ultimately show ?thesis using Inr route_evidence_allowed(1,4) [OF Inr] by simp
qed

text \<open>A quoted key keeps its secret: the quotation mark stands between the key word and the colon.\<close>

definition quoted_secret :: string where
  "quoted_secret = CHR 0x22 # ''password'' @ [CHR 0x22] @ '': hunter2''"

lemma redaction_examples:
  "redact quoted_secret = quoted_secret" "redact ''password: hunter2'' = ''[REDACTED]''"
  by code_simp+

subsection \<open>Concrete instances\<close>

definition sample_risk :: grounded_risk where
  "sample_risk = \<lparr>gr_statement = ''r'', gr_severity = SEV_HIGH, gr_confidence = CONF_LOW, gr_evidence_ids = [''e1'']\<rparr>"

definition sample_suggestion :: suggestion where
  "sample_suggestion = \<lparr>sg_summary = ''s'', sg_summary_evidence_ids = [''e1''], sg_risks = [sample_risk],
     sg_hypotheses = [], sg_requested_tests = [], sg_missing_information = [], sg_uncertainty = ''u'',
     sg_insufficient_evidence = False\<rparr>"

lemmas guard_simps = validate_text_def validate_references_def validate_identifier_def has_nul_def has_control_def
  isascii_def code_def

lemma sample_suggestion_facts:
  "suggestion_valid sample_suggestion"
  "length (utf8 (dumps (PyDict (suggestion_as_dict sample_suggestion)))) \<le> MAX_PROVIDER_OUTPUT_BYTES"
  "validate_suggestion_citations sample_suggestion [''e1'', ''e2''] = None"
  "\<not> sg_insufficient_evidence sample_suggestion"
proof -
  show "suggestion_valid sample_suggestion"
    by (simp add: sample_suggestion_def sample_risk_def suggestion_valid_def suggestion_post_init_def
      grounded_risk_post_init_def guard_simps)
  have "length (utf8 (dumps (PyDict (suggestion_as_dict sample_suggestion)))) < 400" by code_simp
  then show "length (utf8 (dumps (PyDict (suggestion_as_dict sample_suggestion)))) \<le> MAX_PROVIDER_OUTPUT_BYTES"
    unfolding MAX_PROVIDER_OUTPUT_BYTES_def by linarith
  show "validate_suggestion_citations sample_suggestion [''e1'', ''e2''] = None" by code_simp
qed (simp add: sample_suggestion_def)

theorem suggestion_json_round_trip_witness:
  "parse_suggestion_json id (dumps (PyDict (suggestion_as_dict sample_suggestion))) = Inr sample_suggestion"
  using suggestion_json_round_trip [of sample_suggestion id] sample_suggestion_facts(1,2)
  by (simp del: dumps.simps)

lemma sample_suggestion_parses:
  "parse_suggestion_json id (dumps (PyDict (suggestion_as_dict sample_suggestion))) = Inr sample_suggestion"
  using sr.reads_back [OF sample_suggestion_facts(1), of id] sample_suggestion_facts(2)
  unfolding parse_suggestion_read by simp

theorem accepted_suggestion_is_grounded_witness:
  "sm_claim_count (evaluate_suggestion id sample_suggestion [''e1'', ''e2'']) = 2"
  using accepted_suggestion_is_grounded [OF sample_suggestion_parses sample_suggestion_facts(3), of id]
    sample_suggestion_facts(4)
  by (simp add: Let_def sample_suggestion_def)

definition sample_provider :: provider_configuration where
  "sample_provider = \<lparr>pc_provider_name = ''p'', pc_model_id = ''m'', pc_kind = P_HOSTED, pc_region = ''eu'',
     pc_training_use_mode = T_NOT_USED_FOR_TRAINING, pc_retention_mode = R_CUSTOM_DURATION,
     pc_retention_days = Some 30, pc_supports_response_storage_disabled = True\<rparr>"

definition sample_privacy_policy :: privacy_policy where
  "sample_privacy_policy = \<lparr>pp_policy_id = ''i'', pp_policy_version = 1, pp_policy_sha256 = replicate 64 CHR ''a'',
     pp_routing_mode = HOSTED_REDACTED, pp_allowed_providers = [''p''], pp_allowed_models = [''m''],
     pp_allowed_content_classes = [C_METADATA], pp_max_transmitted_bytes = 256, pp_max_input_tokens = 256,
     pp_max_output_tokens = 64, pp_max_cost_microusd = 1, pp_redaction_version = REDACTION_VERSION,
     pp_training_use_mode = T_NOT_USED_FOR_TRAINING, pp_terms_reviewed_on = Some 738000,
     pp_retention_mode = R_CUSTOM_DURATION, pp_retention_days = Some 30, pp_allowed_regions = [''eu''],
     pp_response_storage_disabled = True, pp_connect_timeout_seconds = 1, pp_read_timeout_seconds = 1,
     pp_max_attempts = 1, pp_retry_backoff_seconds = 0\<rparr>"

definition sample_evidence :: evidence_context where
  "sample_evidence = \<lparr>ec_evidence_id = ''e1'', ec_content_class = C_METADATA,
     ec_content = ''password: hunter2'', ec_source_reference = ''r''\<rparr>"

lemma sample_redacted: "redacted sample_evidence = sample_evidence\<lparr>ec_content := ''[REDACTED]''\<rparr>"
proof -
  have "redact ''r'' = ''r''" by code_simp
  then show ?thesis using redaction_examples(2) by (simp add: redacted_def sample_evidence_def)
qed

lemma sample_redaction:
  "evidence_context_post_init (redacted sample_evidence) = None"
  "ec_content (redacted sample_evidence) = ''[REDACTED]''"
  "privacy_policy_post_init sample_privacy_policy = None" "provider_configuration_post_init sample_provider = None"
  unfolding sample_redacted
  by (simp_all add: evidence_context_post_init_def sample_evidence_def guard_simps
    privacy_policy_post_init_def sample_privacy_policy_def outside_def provider_configuration_post_init_def
    sample_provider_def short_ascii_def)

text \<open>
  Redaction can lengthen a text, because the marker may be longer than the secret: a valid source reference of 1200
  characters becomes one of 1203, which is beyond its bound, and routing the evidence raises.
\<close>

lemma no_match_at_dot: "r \<in> set REDACTIONS \<Longrightarrow> match_lengths r p (CHR ''.'' # s) = []"
  by (auto simp: REDACTIONS_def bearer_pattern_def secret_pattern_def key_pattern_def private_key_pattern_def
      sequence_def alternatives_def literal_def literal_i_def lower_def code_def)

lemma re_sub_dots:
  "r \<in> set REDACTIONS \<Longrightarrow>
   re_sub r new p (replicate (Suc n) CHR ''.'' @ s) = replicate (Suc n) CHR ''.'' @ re_sub r new (Some CHR ''.'') s"
  by (induction n arbitrary: p) (simp_all add: re_sub.simps [of _ _ _ "CHR ''.'' # _"] no_match_at_dot)

lemma token_after_dot:
  "re_sub bearer_pattern ''[REDACTED]'' (Some CHR ''.'') ''token:x'' = ''token:x''"
  "re_sub secret_pattern ''[REDACTED]'' (Some CHR ''.'') ''token:x'' = ''[REDACTED]''"
  "re_sub key_pattern ''[REDACTED]'' (Some CHR ''.'') ''[REDACTED]'' = ''[REDACTED]''"
  "re_sub private_key_pattern ''[REDACTED]'' (Some CHR ''.'') ''[REDACTED]'' = ''[REDACTED]''"
  by code_simp+

lemma redaction_lengthens:
  "redact (replicate (Suc n) CHR ''.'' @ ''token:x'') = replicate (Suc n) CHR ''.'' @ ''[REDACTED]''"
proof -
  have "bearer_pattern \<in> set REDACTIONS" "secret_pattern \<in> set REDACTIONS" "key_pattern \<in> set REDACTIONS"
    "private_key_pattern \<in> set REDACTIONS" by (simp_all add: REDACTIONS_def)
  then show ?thesis
    by (simp add: redact_def REDACTIONS_def re_sub_dots token_after_dot del: replicate.simps)
qed

definition lengthened_evidence :: evidence_context where
  "lengthened_evidence = \<lparr>ec_evidence_id = ''e1'', ec_content_class = C_METADATA, ec_content = ''password: hunter2'',
     ec_source_reference = replicate (Suc 1192) CHR ''.'' @ ''token:x''\<rparr>"

lemma lengthened_evidence_is_refused:
  "evidence_context_post_init lengthened_evidence = None"
  "evidence_context_post_init (redacted lengthened_evidence) \<noteq> None"
proof -
  have "\<not> has_nul (replicate n CHR ''.'' @ ''token:x'')" for n
    by (auto simp: has_nul_def code_def list_ex_iff)
  then have "validate_text (replicate (Suc 1192) CHR ''.'' @ ''token:x'') ''source_reference'' 1200 = None"
    unfolding validate_text_def by (simp del: replicate.simps)
  moreover have "validate_identifier ''e1'' ''evidence_id'' 160 = None"
    "validate_text ''password: hunter2'' ''evidence content'' 16000 = None"
    by (simp_all add: guard_simps)
  ultimately show "evidence_context_post_init lengthened_evidence = None"
    by (simp add: evidence_context_post_init_def lengthened_evidence_def del: replicate.simps replicate_Suc)
  show "evidence_context_post_init (redacted lengthened_evidence) \<noteq> None"
  proof -
    have "validate_text (redact (replicate (Suc 1192) CHR ''.'' @ ''token:x'')) ''source_reference'' 1200 \<noteq> None"
      unfolding redaction_lengthens validate_text_def raise_if_def by (simp del: replicate.simps)
    then show ?thesis
      by (simp add: evidence_context_post_init_def redacted_def lengthened_evidence_def
        del: replicate.simps replicate_Suc)
  qed
qed

theorem routing_is_exact_witness:
  "\<exists>r. route_evidence sample_privacy_policy sample_provider [sample_evidence] 738100 = Inr r \<and>
    rd_allowed (rr_decision r) \<and> map ec_content (rr_evidence r) = [''[REDACTED]'']"
proof -
  have kind: "ec_content_class sample_evidence = C_METADATA" by (simp add: sample_evidence_def)
  have "may_route sample_privacy_policy sample_provider 738100"
    by (simp add: may_route_def sample_privacy_policy_def sample_provider_def)
  moreover have "outgoing sample_privacy_policy [sample_evidence] = [redacted sample_evidence]"
    "pp_allowed_content_classes sample_privacy_policy = [C_METADATA]"
    "pp_max_transmitted_bytes sample_privacy_policy = 256"
    by (simp_all add: outgoing_def sample_privacy_policy_def)
  moreover have "evidence_bytes [redacted sample_evidence] \<le> 256"
    using sample_redaction(2) by (simp add: evidence_bytes_def code_def)
  moreover have "\<exists>r. route_evidence sample_privacy_policy sample_provider [sample_evidence] 738100 = Inr r \<and>
    (rd_allowed (rr_decision r) \<longleftrightarrow> may_route sample_privacy_policy sample_provider 738100 \<and>
       (\<forall>e \<in> set [sample_evidence].
          ec_content_class e \<in> set (pp_allowed_content_classes sample_privacy_policy)) \<and>
       evidence_bytes (outgoing sample_privacy_policy [sample_evidence])
         \<le> pp_max_transmitted_bytes sample_privacy_policy) \<and>
    rr_evidence r = (if rd_allowed (rr_decision r) then outgoing sample_privacy_policy [sample_evidence] else [])"
    using routing_is_exact [of sample_privacy_policy sample_provider "[sample_evidence]" 738100] sample_redaction(1)
    by (cases "route_evidence sample_privacy_policy sample_provider [sample_evidence] 738100") auto
  ultimately show ?thesis using kind sample_redaction(2) by auto
qed

end
