(* ===== verification/AiProposals.thy ===== *)
theory AiProposals
  imports StrictJson
begin

section \<open>packages/ai_core/proposals.py: generated-test proposals\<close>

text \<open>
  The proposal contract and its reader, the second interpretation of \<open>strict_reader\<close>.
  \<open>ProposalSchemaError\<close> is a ValueError.
\<close>

definition TEST_PROPOSAL_SCHEMA_VERSION :: string where
  "TEST_PROPOSAL_SCHEMA_VERSION = ''generated-test-proposal-v1''"

definition MAX_TEST_PROPOSAL_BYTES :: nat where "MAX_TEST_PROPOSAL_BYTES = 96 * 1024"

datatype proposal_risk = PR_LOW | PR_MEDIUM | PR_HIGH

fun proposal_risk_value :: "proposal_risk \<Rightarrow> string" where
  "proposal_risk_value PR_LOW = ''low''"
| "proposal_risk_value PR_MEDIUM = ''medium''"
| "proposal_risk_value PR_HIGH = ''high''"

definition proposal_risks :: "proposal_risk list" where
  "proposal_risks = [PR_LOW, PR_MEDIUM, PR_HIGH]"

subsection \<open>Guards\<close>

definition proposal_identifier :: "string \<Rightarrow> string \<Rightarrow> nat \<Rightarrow> exn option" where
  "proposal_identifier value field maximum = first_raise [
     raise_if (value = [] \<or> length value > maximum \<or> \<not> isascii value)
       (ValueError (field @ '' must be a bounded ASCII identifier'')),
     raise_if (has_control value) (ValueError (field @ '' contains control characters''))]"

definition proposal_text :: "string \<Rightarrow> string \<Rightarrow> nat \<Rightarrow> exn option" where
  "proposal_text value field maximum_bytes =
     raise_if (value = [] \<or> length (utf8 value) > maximum_bytes \<or> has_nul value)
       (ValueError (field @ '' must be non-empty and at most '' @ decimal_digits maximum_bytes @ '' UTF-8 bytes''))"

definition proposal_sha256_guard :: "string \<Rightarrow> string \<Rightarrow> exn option" where
  "proposal_sha256_guard value field =
     raise_if (\<not> is_sha256_text value) (ValueError (field @ '' must be a lowercase SHA-256''))"

subsection \<open>Records\<close>

record proposal_generation =
  pg_provider_name :: string
  pg_model_id :: string
  pg_provider_adapter_version :: string
  pg_prompt_version :: string
  pg_prompt_sha256 :: string
  pg_source_evidence_id :: string

definition proposal_generation_post_init :: "proposal_generation \<Rightarrow> exn option" where
  "proposal_generation_post_init g = first_raise [
     proposal_identifier (pg_provider_name g) ''provider_name'' 128,
     proposal_identifier (pg_model_id g) ''model_id'' 160,
     proposal_identifier (pg_provider_adapter_version g) ''provider_adapter_version'' 64,
     proposal_identifier (pg_prompt_version g) ''prompt_version'' 64,
     proposal_sha256_guard (pg_prompt_sha256 g) ''prompt_sha256'',
     proposal_identifier (pg_source_evidence_id g) ''source_evidence_id'' 160]"

definition proposal_generation_as_dict :: "proposal_generation \<Rightarrow> pydict" where
  "proposal_generation_as_dict g = [
     (''provider_name'', PyStr (pg_provider_name g)),
     (''model_id'', PyStr (pg_model_id g)),
     (''provider_adapter_version'', PyStr (pg_provider_adapter_version g)),
     (''prompt_version'', PyStr (pg_prompt_version g)),
     (''prompt_sha256'', PyStr (pg_prompt_sha256 g)),
     (''source_evidence_id'', PyStr (pg_source_evidence_id g))]"

record test_proposal =
  tp_target_behavior :: string
  tp_rationale :: string
  tp_evidence_ids :: "string list"
  tp_file_path :: string
  tp_patch :: string
  tp_commands :: "string list"
  tp_expected_result :: string
  tp_risk :: proposal_risk
  tp_test_adapter :: string
  tp_test_adapter_version :: string
  tp_generation :: proposal_generation
  tp_schema_version :: string

definition test_proposal_post_init :: "test_proposal \<Rightarrow> exn option" where
  "test_proposal_post_init p = first_raise ([
     raise_if (tp_schema_version p \<noteq> TEST_PROPOSAL_SCHEMA_VERSION)
       (ValueError ''test proposal schema version is unsupported''),
     proposal_text (tp_target_behavior p) ''target_behavior'' 500,
     proposal_text (tp_rationale p) ''rationale'' 2000,
     raise_if (tp_evidence_ids p = [] \<or> length (tp_evidence_ids p) > 50 \<or> \<not> distinct (tp_evidence_ids p))
       (ValueError ''evidence_ids must be a bounded unique non-empty tuple'')] @
     map (\<lambda>i. proposal_identifier i ''evidence_id'' 160) (tp_evidence_ids p) @ [
     proposal_text (tp_file_path p) ''file_path'' 240,
     proposal_text (tp_patch p) ''patch'' 65536,
     raise_if (tp_commands p = [] \<or> length (tp_commands p) > 5 \<or> \<not> distinct (tp_commands p))
       (ValueError ''commands must be a bounded unique non-empty tuple'')] @
     map (\<lambda>c. proposal_text c ''command'' 500) (tp_commands p) @ [
     proposal_text (tp_expected_result p) ''expected_result'' 1000,
     proposal_identifier (tp_test_adapter p) ''test_adapter'' 64,
     proposal_identifier (tp_test_adapter_version p) ''test_adapter_version'' 64])"

definition test_proposal_as_dict :: "test_proposal \<Rightarrow> pydict" where
  "test_proposal_as_dict p = [
     (''schema_version'', PyStr (tp_schema_version p)),
     (''target_behavior'', PyStr (tp_target_behavior p)),
     (''rationale'', PyStr (tp_rationale p)),
     (''evidence_ids'', strs (tp_evidence_ids p)),
     (''file_path'', PyStr (tp_file_path p)),
     (''patch'', PyStr (tp_patch p)),
     (''commands'', strs (tp_commands p)),
     (''expected_result'', PyStr (tp_expected_result p)),
     (''risk'', PyStr (proposal_risk_value (tp_risk p))),
     (''test_adapter'', PyStr (tp_test_adapter p)),
     (''test_adapter_version'', PyStr (tp_test_adapter_version p)),
     (''generation'', PyDict (proposal_generation_as_dict (tp_generation p)))]"

definition test_proposal_sha256 :: "test_proposal \<Rightarrow> string" where
  "test_proposal_sha256 p = object_sha256 (PyDict (test_proposal_as_dict p))"

subsection \<open>parse_test_proposal_json\<close>

definition proposal_root_keys :: "string list" where
  "proposal_root_keys = [''schema_version'', ''target_behavior'', ''rationale'', ''evidence_ids'', ''file_path'',
     ''patch'', ''commands'', ''expected_result'', ''risk'', ''test_adapter'', ''test_adapter_version'', ''generation'']"

definition proposal_generation_keys :: "string list" where
  "proposal_generation_keys = [''provider_name'', ''model_id'', ''provider_adapter_version'', ''prompt_version'',
     ''prompt_sha256'', ''source_evidence_id'']"

abbreviation pstring :: "pydict \<Rightarrow> string \<Rightarrow> string result" where
  "pstring d k \<equiv> string_at ProposalSchemaError d k k"

abbreviation pstrings :: "pydict \<Rightarrow> string \<Rightarrow> string list result" where
  "pstrings d k \<equiv> strings_at ProposalSchemaError d k k"

definition proposal_generation_fields :: "pydict \<Rightarrow> proposal_generation result" where
  "proposal_generation_fields d =
     and_then (pstring d ''provider_name'') (\<lambda>provider_name.
     and_then (pstring d ''model_id'') (\<lambda>model_id.
     and_then (pstring d ''provider_adapter_version'') (\<lambda>adapter_version.
     and_then (pstring d ''prompt_version'') (\<lambda>prompt_version.
     and_then (pstring d ''prompt_sha256'') (\<lambda>prompt_sha256.
     and_then (pstring d ''source_evidence_id'') (\<lambda>source_evidence_id.
       construct_with proposal_generation_post_init
         \<lparr>pg_provider_name = provider_name, pg_model_id = model_id, pg_provider_adapter_version = adapter_version,
          pg_prompt_version = prompt_version, pg_prompt_sha256 = prompt_sha256,
          pg_source_evidence_id = source_evidence_id\<rparr>))))))"

definition test_proposal_fields :: "pydict \<Rightarrow> test_proposal result" where
  "test_proposal_fields d =
     and_then (and_then (get_item d ''generation'')
       (read_object ProposalSchemaError proposal_generation_keys ''generation'')) (\<lambda>generation_data.
     and_then (proposal_generation_fields generation_data) (\<lambda>generation.
     and_then (pstring d ''schema_version'') (\<lambda>schema_version.
     and_then (pstring d ''target_behavior'') (\<lambda>target_behavior.
     and_then (pstring d ''rationale'') (\<lambda>rationale.
     and_then (pstrings d ''evidence_ids'') (\<lambda>evidence_ids.
     and_then (pstring d ''file_path'') (\<lambda>file_path.
     and_then (pstring d ''patch'') (\<lambda>patch.
     and_then (pstrings d ''commands'') (\<lambda>commands.
     and_then (pstring d ''expected_result'') (\<lambda>expected_result.
     and_then (and_then (pstring d ''risk'') (member_of proposal_risk_value proposal_risks)) (\<lambda>risk.
     and_then (pstring d ''test_adapter'') (\<lambda>test_adapter.
     and_then (pstring d ''test_adapter_version'') (\<lambda>test_adapter_version.
       construct_with test_proposal_post_init
         \<lparr>tp_target_behavior = target_behavior, tp_rationale = rationale, tp_evidence_ids = evidence_ids,
          tp_file_path = file_path, tp_patch = patch, tp_commands = commands,
          tp_expected_result = expected_result, tp_risk = risk, tp_test_adapter = test_adapter,
          tp_test_adapter_version = test_adapter_version, tp_generation = generation,
          tp_schema_version = schema_version\<rparr>)))))))))))))"

definition strict_proposal_error :: "exn \<Rightarrow> exn" where
  "strict_proposal_error e = (case e of
      ProposalSchemaError m \<Rightarrow> e
    | KeyError _ \<Rightarrow> ProposalSchemaError ''test proposal output failed strict validation''
    | TypeError _ \<Rightarrow> ProposalSchemaError ''test proposal output failed strict validation''
    | _ \<Rightarrow> if is_value_error e then ProposalSchemaError ''test proposal output failed strict validation'' else e)"

definition parse_test_proposal_json :: "(string \<Rightarrow> string) \<Rightarrow> string \<Rightarrow> test_proposal result" where
  "parse_test_proposal_json float_repr raw =
     (if length (utf8 raw) > MAX_TEST_PROPOSAL_BYTES
      then Inl (ProposalSchemaError ''test proposal output exceeds the byte limit'')
      else map_sum strict_proposal_error id (
        and_then (json_loads float_repr unique_object reject_nonfinite raw) (\<lambda>decoded.
        and_then (read_object ProposalSchemaError proposal_root_keys ''test proposal'' decoded)
          test_proposal_fields)))"

subsection \<open>The reader interprets strict_reader\<close>

definition test_proposal_valid :: "test_proposal \<Rightarrow> bool" where
  "test_proposal_valid p \<longleftrightarrow>
     test_proposal_post_init p = None \<and> proposal_generation_post_init (tp_generation p) = None"

lemma member_proposal_risk [simp]: "member_of proposal_risk_value proposal_risks (proposal_risk_value x) = Inr x"
  by (cases x) (simp_all add: member_of_def proposal_risks_def)

lemma generation_dict [simp]: "wf_dict (proposal_generation_as_dict g)"
  "has_exactly (proposal_generation_as_dict g) proposal_generation_keys"
  by (simp_all add: wf_dict_def proposal_generation_as_dict_def has_exactly_iff proposal_generation_keys_def)

lemma proposal_dict [simp]: "wf_dict (test_proposal_as_dict p)"
  "has_exactly (test_proposal_as_dict p) proposal_root_keys"
  by (simp_all add: wf_dict_def test_proposal_as_dict_def has_exactly_iff proposal_root_keys_def)

lemma generation_read_back: "proposal_generation_post_init g = None \<Longrightarrow>
    proposal_generation_fields (reread (proposal_generation_as_dict g)) = Inr g"
  by (cases g, simp add: proposal_generation_fields_def string_at_def get_item_reread)
    (simp add: proposal_generation_as_dict_def)

lemma proposal_read_back:
  assumes "test_proposal_valid p"
  shows "test_proposal_fields (reread (test_proposal_as_dict p)) = Inr p"
proof -
  have "get_item (test_proposal_as_dict p) ''generation'' = Inr (PyDict (proposal_generation_as_dict (tp_generation p)))"
    by (simp add: test_proposal_as_dict_def)
  then have "get_item (reread (test_proposal_as_dict p)) ''generation'' =
      Inr (ordered (PyDict (proposal_generation_as_dict (tp_generation p))))"
    by (simp add: get_item_reread)
  then show ?thesis
    using assms generation_read_back [of "tp_generation p"]
    by (simp del: ordered.simps add: test_proposal_fields_def read_object_reread test_proposal_valid_def)
      (cases p, simp add: string_at_def strings_at_def get_item_reread, simp add: test_proposal_as_dict_def)
qed

lemma proposal_fields_valid: "test_proposal_fields d = Inr p \<Longrightarrow> test_proposal_valid p"
  by (auto simp: test_proposal_fields_def proposal_generation_fields_def and_then_Inr test_proposal_valid_def)

lemma proposal_guard_errors:
  "proposal_identifier v f n = Some e \<Longrightarrow> is_value_error e" "proposal_text v f n = Some e \<Longrightarrow> is_value_error e"
  "proposal_sha256_guard v f = Some e \<Longrightarrow> is_value_error e"
  by (auto simp: proposal_identifier_def proposal_text_def proposal_sha256_guard_def elim!: first_raise_from)

lemma proposal_post_init_errors:
  "proposal_generation_post_init g = Some e \<Longrightarrow> reader_raises err e"
  "test_proposal_post_init p = Some e \<Longrightarrow> reader_raises err e"
  unfolding proposal_generation_post_init_def test_proposal_post_init_def
  by ((erule first_raise_from, auto simp: list_all_iff proposal_guard_errors reader_raises_value_error)[1])+

lemma proposal_fields_raises: "raises_only (reader_raises ProposalSchemaError) (test_proposal_fields d)"
  unfolding test_proposal_fields_def proposal_generation_fields_def
  by (intro raise_rules proposal_post_init_errors; assumption)

interpretation pr: strict_reader test_proposal_as_dict test_proposal_valid test_proposal_fields proposal_root_keys
  "''test proposal''" ProposalSchemaError strict_proposal_error
proof
  show "plain (PyDict (test_proposal_as_dict p))" for p
    by (simp add: test_proposal_as_dict_def wf_dict_def proposal_generation_as_dict_def)
  show "\<exists>m. strict_proposal_error e = ProposalSchemaError m" if "reader_raises ProposalSchemaError e" for e
    using that by (cases e) (auto simp: strict_proposal_error_def reader_raises_def)
qed (simp_all add: proposal_read_back proposal_fields_valid proposal_fields_raises)

lemma parse_proposal_read: "parse_test_proposal_json fr raw =
    (if length (utf8 raw) > MAX_TEST_PROPOSAL_BYTES
     then Inl (ProposalSchemaError ''test proposal output exceeds the byte limit'') else pr.read fr raw)"
  by (simp add: parse_test_proposal_json_def pr.read_def)

subsection \<open>Properties\<close>

text \<open>
  A valid proposal within the byte limit is read back from its canonical text, and that text,
  which is what its hash covers, determines every field of it. Whatever the text, the reader returns a
  valid proposal, hence one with at most five commands and fifty citations, or raises a
  ProposalSchemaError.
\<close>

theorem test_proposal_json_round_trip:
  "(test_proposal_valid p \<and> length (utf8 (dumps (PyDict (test_proposal_as_dict p)))) \<le> MAX_TEST_PROPOSAL_BYTES \<longrightarrow>
     parse_test_proposal_json fr (dumps (PyDict (test_proposal_as_dict p))) = Inr p) \<and>
   (test_proposal_valid p \<and> test_proposal_valid q \<and>
     dumps (PyDict (test_proposal_as_dict p)) = dumps (PyDict (test_proposal_as_dict q)) \<longrightarrow> p = q) \<and>
   (\<forall>raw. (\<exists>m. parse_test_proposal_json fr raw = Inl (ProposalSchemaError m)) \<or>
     (\<exists>p'. parse_test_proposal_json fr raw = Inr p' \<and> test_proposal_valid p' \<and>
       length (tp_commands p') \<in> {1..5} \<and> length (tp_evidence_ids p') \<in> {1..50}))"
proof -
  have bounds: "length (tp_commands p') \<in> {1..5} \<and> length (tp_evidence_ids p') \<in> {1..50}"
    if "test_proposal_valid p'" for p'
    using that unfolding test_proposal_valid_def test_proposal_post_init_def first_raise_None_append
    by (simp add: Suc_le_eq)
  have "p = q" if "test_proposal_valid p" "test_proposal_valid q"
      "dumps (PyDict (test_proposal_as_dict p)) = dumps (PyDict (test_proposal_as_dict q))"
    using pr.reads_back [OF that(1), of fr] pr.reads_back [OF that(2), of fr] unfolding that(3) by (simp only: sum.inject)
  moreover have "(\<exists>m. parse_test_proposal_json fr raw = Inl (ProposalSchemaError m)) \<or>
     (\<exists>p'. parse_test_proposal_json fr raw = Inr p' \<and> test_proposal_valid p' \<and>
       length (tp_commands p') \<in> {1..5} \<and> length (tp_evidence_ids p') \<in> {1..50})" for raw
  proof (cases "parse_test_proposal_json fr raw")
    case (Inl e)
    then show ?thesis using pr.read_raises [of fr raw e] by (auto simp: parse_proposal_read split: if_splits)
  next
    case (Inr p')
    then have "test_proposal_valid p'"
      using pr.read_valid [of fr raw p'] by (simp add: parse_proposal_read split: if_splits)
    then show ?thesis using Inr bounds by blast
  qed
  ultimately show ?thesis using pr.reads_back [of p fr]
    by (simp del: dumps.simps add: parse_proposal_read)
qed

definition sample_proposal :: test_proposal where
  "sample_proposal = \<lparr>tp_target_behavior = ''t'', tp_rationale = ''r'', tp_evidence_ids = [''e1''],
     tp_file_path = ''f'', tp_patch = ''p'', tp_commands = [''c''], tp_expected_result = ''x'', tp_risk = PR_LOW,
     tp_test_adapter = ''a'', tp_test_adapter_version = ''v'',
     tp_generation = \<lparr>pg_provider_name = ''p'', pg_model_id = ''m'', pg_provider_adapter_version = ''1'',
       pg_prompt_version = ''1'', pg_prompt_sha256 = replicate 64 CHR ''a'', pg_source_evidence_id = ''e''\<rparr>,
     tp_schema_version = TEST_PROPOSAL_SCHEMA_VERSION\<rparr>"

lemma sample_proposal_facts: "test_proposal_valid sample_proposal"
  "length (utf8 (dumps (PyDict (test_proposal_as_dict sample_proposal)))) \<le> MAX_TEST_PROPOSAL_BYTES"
proof -
  show "test_proposal_valid sample_proposal"
    by (simp add: sample_proposal_def test_proposal_valid_def test_proposal_post_init_def
      proposal_generation_post_init_def proposal_identifier_def proposal_text_def proposal_sha256_guard_def
      is_sha256_text_def is_hex_def hex_digits_def list_all_iff has_nul_def has_control_def isascii_def code_def utf8_def
      utf8_char_def)
  have "length (utf8 (dumps (PyDict (test_proposal_as_dict sample_proposal)))) < 700" by code_simp
  then show "length (utf8 (dumps (PyDict (test_proposal_as_dict sample_proposal)))) \<le> MAX_TEST_PROPOSAL_BYTES"
    unfolding MAX_TEST_PROPOSAL_BYTES_def by linarith
qed

theorem test_proposal_json_round_trip_witness:
  "parse_test_proposal_json id (dumps (PyDict (test_proposal_as_dict sample_proposal))) = Inr sample_proposal"
  using test_proposal_json_round_trip [of sample_proposal id sample_proposal] sample_proposal_facts
  by (simp del: dumps.simps)

end
