(* ===== verification/ReleaseContracts.thy ===== *)
theory ReleaseContracts
  imports Json
begin

section \<open>packages/release_core/contracts.py: release manifests, promotion and rollback\<close>

text \<open>
  The canonical bytes of a release are \<open>json.dumps(value, indent=2, sort_keys=True) + "\n"\<close>:
  \<open>render\<close> writes a value with a given line break and a given gap after the colon, so that it also
  covers the compact form of the other contracts. The type guards of dataclasses whose fields are
  typed here (\<open>isinstance\<close>) hold by typing; budgets given as floats are rational numbers.
\<close>

definition MANIFEST_SCHEMA_VERSION :: string where "MANIFEST_SCHEMA_VERSION = ''release-manifest-v1''"

definition ARTIFACT_SCHEMA_VERSION :: string where "ARTIFACT_SCHEMA_VERSION = ''artifact-identity-v1''"

subsection \<open>Canonical bytes\<close>

primrec render :: "(nat \<Rightarrow> string) \<Rightarrow> string \<Rightarrow> pyval \<Rightarrow> nat \<Rightarrow> string" where
  "render newline gap PyNone = (\<lambda>n. ''null'')"
| "render newline gap (PyBool b) = (\<lambda>n. if b then ''true'' else ''false'')"
| "render newline gap (PyInt i) = (\<lambda>n. dump_int i)"
| "render newline gap (PyFloat t) = (\<lambda>n. t)"
| "render newline gap (PyStr s) = (\<lambda>n. dump_str s)"
| "render newline gap (PyList xs) = (\<lambda>n.
     if xs = [] then ''[]''
     else ''['' @ newline (Suc n) @ join ('','' @ newline (Suc n)) (map (\<lambda>f. f (Suc n)) (map (render newline gap) xs)) @
       newline n @ '']'')"
| "render newline gap (PyDict d) = (\<lambda>n.
     if d = [] then ''{}''
     else ''{'' @ newline (Suc n) @
       join ('','' @ newline (Suc n)) (map (\<lambda>p. dump_str (fst p) @ '':'' @ gap @ snd p (Suc n))
         (sorted_items (map (map_prod id (render newline gap)) d))) @
       newline n @ ''}'')"

definition indentation :: "nat \<Rightarrow> string" where
  "indentation depth = CHR 0x0A # replicate (2 * depth) CHR '' ''"

definition canonical_json_bytes :: "pyval \<Rightarrow> string" where
  "canonical_json_bytes value = render indentation '' '' value 0 @ [CHR 0x0A]"

subsection \<open>Guards\<close>

definition validate_sha256 :: "string \<Rightarrow> string \<Rightarrow> exn option" where
  "validate_sha256 value field =
     raise_if (\<not> is_sha256_text value) (ValueError (field @ '' must be a lowercase SHA-256''))"

definition validate_image_digest :: "string \<Rightarrow> exn option" where
  "validate_image_digest value = first_raise [
     raise_if (\<not> startswith value ''sha256:'') (ValueError ''application_image_digest must use sha256''),
     validate_sha256 (drop 7 value) ''application_image_digest'']"

definition is_alnum :: "char \<Rightarrow> bool" where
  "is_alnum c = (48 \<le> code c \<and> code c \<le> 57 \<or> 65 \<le> code c \<and> code c \<le> 90 \<or> 97 \<le> code c \<and> code c \<le> 122)"

definition is_safe_version :: "string \<Rightarrow> bool" where
  "is_safe_version s = (case s of [] \<Rightarrow> False
     | c # cs \<Rightarrow> is_alnum c \<and> length cs \<le> 255 \<and> list_all (\<lambda>d. is_alnum d \<or> d \<in> set ''._+@/-'') cs)"

subsection \<open>Serving decisions\<close>

datatype serving_decision = KEEP_IN_WORKER | EXTRACT_FASTAPI | KEEP_SIMPLE_SERVING | DEFER_INSUFFICIENT_EVIDENCE

record workload_budget =
  wb_worker_resident_memory_mib :: int
  wb_cold_start_ms :: int
  wb_steady_state_p95_ms :: int
  wb_minimum_throughput_per_second :: rat
  wb_queue_delay_p95_ms :: int
  wb_maximum_incremental_monthly_cost_usd :: rat

definition workload_budget_post_init :: "workload_budget \<Rightarrow> exn option" where
  "workload_budget_post_init b =
     raise_if (wb_worker_resident_memory_mib b \<le> 0 \<or> wb_cold_start_ms b \<le> 0 \<or> wb_steady_state_p95_ms b \<le> 0 \<or>
         wb_minimum_throughput_per_second b \<le> 0 \<or> wb_queue_delay_p95_ms b \<le> 0 \<or>
         wb_maximum_incremental_monthly_cost_usd b \<le> 0)
       (ValueError ''all workload budgets must be positive numbers'')"

record serving_decision_record =
  sd_component :: string
  sd_decision :: serving_decision
  sd_workload :: string
  sd_budget :: workload_budget
  sd_evidence_paths :: "string list"
  sd_measured_dimensions :: "string list"
  sd_missing_dimensions :: "string list"
  sd_extraction_criteria_met :: "string list"
  sd_operational_security_cost_accepted :: bool
  sd_rationale :: "string list"

definition serving_decision_record_post_init :: "serving_decision_record \<Rightarrow> exn option" where
  "serving_decision_record_post_init r = first_raise [
     raise_if (\<not> is_safe_version (sd_component r)) (ValueError ''component must be a bounded identifier''),
     raise_if (sd_workload r = [] \<or> length (sd_workload r) > 1000) (ValueError ''workload must be present and bounded''),
     raise_if (sd_evidence_paths r = [] \<or> sd_rationale r = [])
       (ValueError ''decision evidence and rationale are required''),
     raise_if (sd_decision r = EXTRACT_FASTAPI \<and>
         (sd_extraction_criteria_met r = [] \<or> \<not> sd_operational_security_cost_accepted r))
       (ValueError ''FastAPI extraction requires a measured criterion and accepted cost''),
     raise_if (sd_decision r = DEFER_INSUFFICIENT_EVIDENCE \<and> sd_missing_dimensions r = [])
       (ValueError ''a deferral must name missing evidence''),
     raise_if (sd_decision r = DEFER_INSUFFICIENT_EVIDENCE \<and> sd_operational_security_cost_accepted r)
       (ValueError ''a deferred service cannot claim accepted operational cost'')]"

subsection \<open>Release manifests\<close>

record artifact_identity =
  ai_name :: string
  ai_version :: string
  ai_sha256 :: string
  ai_source_path :: string
  ai_schema_version :: string

definition artifact_identity_post_init :: "artifact_identity \<Rightarrow> exn option" where
  "artifact_identity_post_init a = first_raise [
     raise_if (ai_schema_version a \<noteq> ARTIFACT_SCHEMA_VERSION) (ValueError ''unsupported artifact identity schema''),
     raise_if (\<not> is_safe_version (ai_name a) \<or> \<not> is_safe_version (ai_version a))
       (ValueError ''artifact name and version must be bounded identifiers''),
     validate_sha256 (ai_sha256 a) ''artifact sha256'',
     raise_if (ai_source_path a = [] \<or> startswith (ai_source_path a) ''/'' \<or> startswith (ai_source_path a) [CHR 0x5C] \<or>
         ''..'' \<in> set (split_on CHR ''/'' (replace_char CHR 0x5C CHR ''/'' (ai_source_path a))))
       (ValueError ''artifact source_path must be repository-relative'')]"

record release_manifest =
  rm_source_revision :: string
  rm_application_image_digest :: string
  rm_sbom :: artifact_identity
  rm_active_model :: artifact_identity
  rm_dataset :: artifact_identity
  rm_model_registry_manifest_sha256 :: string
  rm_dataset_manifest_sha256 :: string
  rm_migration_tree_sha256 :: string
  rm_evaluation_bundle_sha256 :: string
  rm_build_provenance_sha256 :: string
  rm_external_repository_execution_enabled :: bool
  rm_schema_version :: string

definition release_manifest_post_init :: "release_manifest \<Rightarrow> exn option" where
  "release_manifest_post_init m = first_raise [
     raise_if (rm_schema_version m \<noteq> MANIFEST_SCHEMA_VERSION) (ValueError ''unsupported release manifest schema''),
     raise_if (length (rm_source_revision m) \<noteq> 40 \<or> \<not> is_hex (rm_source_revision m))
       (ValueError ''source_revision must be a full lowercase Git commit SHA''),
     validate_image_digest (rm_application_image_digest m),
     validate_sha256 (rm_model_registry_manifest_sha256 m) ''model_registry_manifest_sha256'',
     validate_sha256 (rm_dataset_manifest_sha256 m) ''dataset_manifest_sha256'',
     validate_sha256 (rm_migration_tree_sha256 m) ''migration_tree_sha256'',
     validate_sha256 (rm_evaluation_bundle_sha256 m) ''evaluation_bundle_sha256'',
     validate_sha256 (rm_build_provenance_sha256 m) ''build_provenance_sha256'',
     raise_if (rm_external_repository_execution_enabled m)
       (ValueError ''M15 releases cannot enable external repository execution'')]"

definition artifact_payload :: "artifact_identity \<Rightarrow> pydict" where
  "artifact_payload a = [
     (''name'', PyStr (ai_name a)), (''version'', PyStr (ai_version a)), (''sha256'', PyStr (ai_sha256 a)),
     (''source_path'', PyStr (ai_source_path a)), (''schema_version'', PyStr (ai_schema_version a))]"

definition manifest_payload :: "release_manifest \<Rightarrow> pydict" where
  "manifest_payload m = [
     (''source_revision'', PyStr (rm_source_revision m)),
     (''application_image_digest'', PyStr (rm_application_image_digest m)),
     (''sbom'', PyDict (artifact_payload (rm_sbom m))),
     (''active_model'', PyDict (artifact_payload (rm_active_model m))),
     (''dataset'', PyDict (artifact_payload (rm_dataset m))),
     (''model_registry_manifest_sha256'', PyStr (rm_model_registry_manifest_sha256 m)),
     (''dataset_manifest_sha256'', PyStr (rm_dataset_manifest_sha256 m)),
     (''migration_tree_sha256'', PyStr (rm_migration_tree_sha256 m)),
     (''evaluation_bundle_sha256'', PyStr (rm_evaluation_bundle_sha256 m)),
     (''build_provenance_sha256'', PyStr (rm_build_provenance_sha256 m)),
     (''external_repository_execution_enabled'', PyBool (rm_external_repository_execution_enabled m)),
     (''schema_version'', PyStr (rm_schema_version m))]"

definition manifest_sha256 :: "release_manifest \<Rightarrow> string" where
  "manifest_sha256 m = sha256_hex (canonical_json_bytes (PyDict (manifest_payload m)))"

subsection \<open>Promotion and rollback\<close>

datatype promotion_stage = STAGE_STAGING | STAGE_PRODUCTION

datatype rollback_strategy = FORWARD_FIX_ONLY

record promotion_evidence =
  pe_stage :: promotion_stage
  pe_release_manifest_sha256 :: string
  pe_application_image_digest :: string
  pe_active_model_sha256 :: string
  pe_migrations_passed :: bool
  pe_evaluations_passed :: bool
  pe_smoke_passed :: bool
  pe_compatibility_passed :: bool
  pe_protected_approval_reference :: string

definition promotion_evidence_post_init :: "promotion_evidence \<Rightarrow> exn option" where
  "promotion_evidence_post_init e = first_raise [
     validate_sha256 (pe_release_manifest_sha256 e) ''release_manifest_sha256'',
     validate_image_digest (pe_application_image_digest e),
     validate_sha256 (pe_active_model_sha256 e) ''active_model_sha256'',
     raise_if (\<not> (1 \<le> length (pe_protected_approval_reference e) \<and> length (pe_protected_approval_reference e) \<le> 256))
       (ValueError ''protected approval reference must be present and bounded'')]"

record rollback_evidence =
  rb_current_release_manifest_sha256 :: string
  rb_target_release_manifest_sha256 :: string
  rb_target_compatibility_passed :: bool
  rb_target_smoke_passed :: bool
  rb_database_strategy :: rollback_strategy

definition rollback_evidence_post_init :: "rollback_evidence \<Rightarrow> exn option" where
  "rollback_evidence_post_init e = first_raise [
     validate_sha256 (rb_current_release_manifest_sha256 e) ''current_release_manifest_sha256'',
     validate_sha256 (rb_target_release_manifest_sha256 e) ''target_release_manifest_sha256'']"

definition validate_promotion :: "release_manifest \<Rightarrow> promotion_evidence \<Rightarrow> exn option" where
  "validate_promotion m e = first_raise [
     raise_if (pe_release_manifest_sha256 e \<noteq> manifest_sha256 m)
       (ValueError ''promotion evidence targets a different release manifest''),
     raise_if (pe_application_image_digest e \<noteq> rm_application_image_digest m)
       (ValueError ''promotion evidence targets a different application image''),
     raise_if (pe_active_model_sha256 e \<noteq> ai_sha256 (rm_active_model m))
       (ValueError ''promotion evidence targets a different active model''),
     raise_if (\<not> (pe_migrations_passed e \<and> pe_evaluations_passed e \<and> pe_smoke_passed e \<and> pe_compatibility_passed e))
       (ValueError ''promotion requires migration, evaluation, smoke and compatibility gates'')]"

definition validate_rollback :: "rollback_evidence \<Rightarrow> exn option" where
  "validate_rollback e = first_raise [
     raise_if (rb_current_release_manifest_sha256 e = rb_target_release_manifest_sha256 e)
       (ValueError ''rollback target must differ from the current release''),
     raise_if (\<not> rb_target_compatibility_passed e \<or> \<not> rb_target_smoke_passed e)
       (ValueError ''rollback requires compatibility and smoke evidence''),
     raise_if (rb_database_strategy e \<noteq> FORWARD_FIX_ONLY)
       (ValueError ''database rollback must use forward-fix-only strategy'')]"

end
