(* ===== verification/ReleaseProofs.thy ===== *)
theory ReleaseProofs
  imports ReleaseContracts StrictJson
begin

section \<open>A release manifest is determined by its canonical bytes\<close>

text \<open>
  Indentation changes no token: \<open>lex_render\<close> gives the tokens of a rendered value for every choice
  of white space, so \<open>json.loads\<close> reads the indented text exactly as it reads the compact one.
\<close>

subsection \<open>The tokens of a rendered value\<close>

fun between :: "token list list \<Rightarrow> token list" where
  "between [] = []"
| "between [t] = t"
| "between (t # u # ts) = t @ TComma # between (u # ts)"

primrec tokens :: "pyval \<Rightarrow> token list" where
  "tokens PyNone = [TScalar PyNone]"
| "tokens (PyBool b) = [TScalar (PyBool b)]"
| "tokens (PyInt i) = [TScalar (PyInt i)]"
| "tokens (PyFloat t) = []"
| "tokens (PyStr s) = [TText s]"
| "tokens (PyList xs) = TLBracket # between (map tokens xs) @ [TRBracket]"
| "tokens (PyDict d) =
     TLBrace # between (map (\<lambda>p. TText (fst p) # TColon # snd p) (sorted_items (map (map_prod id tokens) d))) @ [TRBrace]"

definition blank :: "string \<Rightarrow> bool" where
  "blank s = list_all is_space s"

lemma lex_blank [simp]: "blank w \<Longrightarrow> lex fr (w @ s) = lex fr s"
  by (induction w) (simp_all add: blank_def lex.simps(2))

lemma blank_no_digit: "blank w \<Longrightarrow> no_digit_head s \<Longrightarrow> no_digit_head (w @ s)"
  by (cases w) (auto simp: blank_def no_digit_head_def is_space_def is_digit_def code_def)

lemma punctuation_no_digit [simp]:
  "no_digit_head (CHR '','' # s)" "no_digit_head (CHR '']'' # s)" "no_digit_head (CHR ''}'' # s)"
  by (simp_all add: delimited_no_digit)

lemma lex_join:
  assumes "blank w" "\<And>x s. x \<in> set xs \<Longrightarrow> no_digit_head s \<Longrightarrow> lex fr (f x @ s) = g x @ lex fr s" "no_digit_head rest"
  shows "lex fr (join ('','' @ w) (map f xs) @ rest) = between (map g xs) @ lex fr rest"
  using assms(2)
proof (induction xs rule: induct_list012)
  case (3 x y zs)
  have "lex fr (join ('','' @ w) (map f (y # zs)) @ rest) = between (map g (y # zs)) @ lex fr rest"
    by (rule "3.IH"(2)) (use "3.prems" in simp)
  then show ?case using assms(1) by (simp add: "3.prems")
qed (simp_all add: assms(3))

lemma render_list: "xs \<noteq> [] \<Longrightarrow> render newline gap (PyList xs) n =
    ''['' @ newline (Suc n) @ join ('','' @ newline (Suc n)) (map (\<lambda>x. render newline gap x (Suc n)) xs) @
      newline n @ '']''"
  by (simp add: comp_def)

lemma render_dict: "d \<noteq> [] \<Longrightarrow> render newline gap (PyDict d) n =
    ''{'' @ newline (Suc n) @
      join ('','' @ newline (Suc n)) (map (\<lambda>p. dump_str (fst p) @ '':'' @ gap @ render newline gap (snd p) (Suc n))
        (sorted_items d)) @ newline n @ ''}''"
  by (simp add: sorted_items_map comp_def)

lemma lex_render:
  assumes "\<And>k. blank (newline k)" "blank gap"
  shows "plain v \<Longrightarrow> no_digit_head rest \<Longrightarrow> lex fr (render newline gap v n @ rest) = tokens v @ lex fr rest"
proof (induction v arbitrary: n rest)
  case (PyList xs)
  show ?case
  proof (cases "xs = []")
    case False
    have "lex fr (join ('','' @ newline (Suc n)) (map (\<lambda>x. render newline gap x (Suc n)) xs) @ newline n @ '']'' @ rest) =
        between (map tokens xs) @ lex fr (newline n @ '']'' @ rest)"
      using PyList assms by (intro lex_join) (auto simp: list_all_iff intro!: blank_no_digit)
    then show ?thesis using False assms by (simp add: render_list del: render.simps)
  qed simp
next
  case (PyDict d)
  show ?case
  proof (cases "d = []")
    case False
    have "lex fr ((dump_str (fst p) @ '':'' @ gap @ render newline gap (snd p) (Suc n)) @ s) =
        (TText (fst p) # TColon # tokens (snd p)) @ lex fr s" if "p \<in> set (sorted_items d)" "no_digit_head s" for p s
    proof -
      from that(1) have p: "p \<in> set d" by simp
      then have "plain (snd p)" using PyDict.prems(1) by (auto simp: list_all_iff)
      moreover have "snd p \<in> Basic_BNFs.snds p" by (cases p) simp
      ultimately show ?thesis using PyDict.IH [OF p] that(2) assms(2) by (simp add: lex_dump_str)
    qed
    then have "lex fr (join ('','' @ newline (Suc n))
          (map (\<lambda>p. dump_str (fst p) @ '':'' @ gap @ render newline gap (snd p) (Suc n)) (sorted_items d)) @
          newline n @ ''}'' @ rest) =
        between (map (\<lambda>p. TText (fst p) # TColon # tokens (snd p)) (sorted_items d)) @ lex fr (newline n @ ''}'' @ rest)"
      using assms by (intro lex_join) (auto intro!: blank_no_digit)
    then show ?thesis
      using False assms by (simp add: render_dict sorted_items_map comp_def del: render.simps)
  qed (simp add: sorted_items_def)
qed (simp_all add: lex_words [unfolded append.simps] lex_dump_str lex_dump_int)

lemma render_compact: "render (\<lambda>_. []) [] v n = dumps v"
proof (induction v arbitrary: n)
  case (PyList xs)
  then show ?case by (simp add: comp_def cong: map_cong)
next
  case (PyDict d)
  have "render (\<lambda>_. []) [] (snd p) k = dumps (snd p)" if "p \<in> set d" for p k
    using PyDict [OF that, of "snd p" k] by (cases p) simp
  then have same: "map (\<lambda>p. dump_str (fst p) @ '':'' @ render (\<lambda>_. []) [] (snd p) (Suc n)) (sorted_items d) =
      map (\<lambda>p. dump_item (map_prod id dumps p)) (sorted_items d)" for n
    by (auto simp: dump_item_def)
  show ?case
  proof (cases "d = []")
    case False
    then have "render (\<lambda>_. []) [] (PyDict d) n = ''{'' @ join '','' (map (\<lambda>p. dump_str (fst p) @ '':'' @
        render (\<lambda>_. []) [] (snd p) (Suc n)) (sorted_items d)) @ ''}''"
      by (simp add: render_dict del: render.simps)
    then show ?thesis unfolding same by (simp add: sorted_items_map comp_def)
  qed (simp add: sorted_items_def)
qed simp_all

lemma json_loads_indented:
  assumes "plain v" "keeps_distinct hook"
  shows "json_loads fr hook on_const (canonical_json_bytes v) = Inr (ordered v)"
proof -
  have blank: "blank (indentation k)" "blank '' ''" "blank [CHR 0x0A]" for k
    by (simp_all add: blank_def indentation_def is_space_def code_def list_all_iff)
  have "lex fr (canonical_json_bytes v) = tokens v @ lex fr [CHR 0x0A]"
    unfolding canonical_json_bytes_def
    by (rule lex_render) (use assms blank in \<open>auto simp: no_digit_head_def is_digit_def code_def\<close>)
  also have "lex fr [CHR 0x0A] = []" using lex_blank [OF blank(3), of fr "[]"] by simp
  also have "tokens v @ [] = lex fr (dumps v)"
    using lex_render [of "\<lambda>_. []" "[]" v "[]" fr 0] assms
    by (simp add: render_compact blank_def no_digit_head_def)
  finally have "lex fr (canonical_json_bytes v) = lex fr (dumps v)" .
  then show ?thesis using json_loads_dumps [OF assms(2,1), of fr on_const] by (simp add: json_loads_def)
qed

subsection \<open>Manifests\<close>

lemma ordered_dicts_agree:
  assumes "ordered (PyDict d) = ordered (PyDict e)" "wf_dict d" "wf_dict e"
  shows "map_option ordered (map_of d k) = map_option ordered (map_of e k)"
  using assms map_of_reread [of d k] map_of_reread [of e k] by (simp add: reread_def)

lemma payload_dicts: "wf_dict (artifact_payload a)" "wf_dict (manifest_payload m)"
  by (simp_all add: wf_dict_def artifact_payload_def manifest_payload_def)

lemma manifest_plain: "plain (PyDict (manifest_payload m))"
  by (simp add: manifest_payload_def artifact_payload_def wf_dict_def)

lemma artifact_payload_inj:
  assumes "ordered (PyDict (artifact_payload a)) = ordered (PyDict (artifact_payload b))"
  shows "a = b"
proof -
  note agree = ordered_dicts_agree [OF assms payload_dicts(1) payload_dicts(1)]
  show ?thesis
    using agree [of "''name''"] agree [of "''version''"] agree [of "''sha256''"] agree [of "''source_path''"]
      agree [of "''schema_version''"]
    by (cases a; cases b) (simp add: artifact_payload_def)
qed

lemma manifest_payload_inj:
  assumes "ordered (PyDict (manifest_payload m)) = ordered (PyDict (manifest_payload n))"
  shows "m = n"
proof -
  note agree = ordered_dicts_agree [OF assms payload_dicts(2) payload_dicts(2)]
  have "rm_sbom m = rm_sbom n" "rm_active_model m = rm_active_model n" "rm_dataset m = rm_dataset n"
    using agree [of "''sbom''"] agree [of "''active_model''"] agree [of "''dataset''"]
    by (auto simp: manifest_payload_def simp del: ordered.simps intro!: artifact_payload_inj)
  then show ?thesis
    using agree [of "''source_revision''"] agree [of "''application_image_digest''"]
      agree [of "''model_registry_manifest_sha256''"] agree [of "''dataset_manifest_sha256''"]
      agree [of "''migration_tree_sha256''"] agree [of "''evaluation_bundle_sha256''"]
      agree [of "''build_provenance_sha256''"] agree [of "''external_repository_execution_enabled''"]
      agree [of "''schema_version''"]
    by (cases m; cases n) (simp add: manifest_payload_def)
qed

lemma manifest_bytes_inj:
  assumes "canonical_json_bytes (PyDict (manifest_payload m)) = canonical_json_bytes (PyDict (manifest_payload n))"
  shows "m = n"
proof -
  have "keeps_distinct unique_object" by (simp add: keeps_distinct_def unique_object_def)
  note reads = json_loads_indented [OF manifest_plain this, where fr = id and on_const = reject_nonfinite]
  show ?thesis
    using reads [of m] reads [of n] assms by (intro manifest_payload_inj) (simp del: ordered.simps)
qed

text \<open>
  An accepted promotion passed all four gates, keeps external execution off and pins the release:
  its image digest and model are those of the manifest, the canonical bytes its hash covers are read
  back by json.loads as the manifest's content, and the same evidence is accepted for another manifest
  only with a SHA-256 collision between two different texts.
\<close>

theorem promotion_pins_the_manifest:
  assumes "release_manifest_post_init m = None" "promotion_evidence_post_init e = None" "validate_promotion m e = None"
  shows "pe_migrations_passed e \<and> pe_evaluations_passed e \<and> pe_smoke_passed e \<and> pe_compatibility_passed e \<and>
    \<not> rm_external_repository_execution_enabled m \<and>
    pe_active_model_sha256 e = ai_sha256 (rm_active_model m) \<and>
    (\<exists>h. is_sha256_text h \<and> pe_application_image_digest e = ''sha256:'' @ h \<and> rm_application_image_digest m = ''sha256:'' @ h) \<and>
    pe_release_manifest_sha256 e = sha256_hex (canonical_json_bytes (PyDict (manifest_payload m))) \<and>
    json_loads fr unique_object reject_nonfinite (canonical_json_bytes (PyDict (manifest_payload m))) =
      Inr (ordered (PyDict (manifest_payload m))) \<and>
    (\<forall>n. validate_promotion n e = None \<and> n \<noteq> m \<longrightarrow>
       canonical_json_bytes (PyDict (manifest_payload n)) \<noteq> canonical_json_bytes (PyDict (manifest_payload m)) \<and>
       sha256_hex (canonical_json_bytes (PyDict (manifest_payload n))) =
         sha256_hex (canonical_json_bytes (PyDict (manifest_payload m))))"
proof -
  have read: "json_loads fr unique_object reject_nonfinite (canonical_json_bytes (PyDict (manifest_payload m))) =
      Inr (ordered (PyDict (manifest_payload m)))"
    by (rule json_loads_indented [OF manifest_plain]) (simp add: keeps_distinct_def unique_object_def)
  have hash: "pe_release_manifest_sha256 e = manifest_sha256 n" if "validate_promotion n e = None" for n
    using that by (simp add: validate_promotion_def)
  have digest: "\<exists>h. is_sha256_text h \<and> d = ''sha256:'' @ h" if "validate_image_digest d = None" for d
    using that by (auto simp: validate_image_digest_def validate_sha256_def startswith_iff)
  have "validate_image_digest (pe_application_image_digest e) = None" "\<not> rm_external_repository_execution_enabled m"
    using assms(1,2) by (simp_all add: promotion_evidence_post_init_def release_manifest_post_init_def)
  moreover have "pe_migrations_passed e \<and> pe_evaluations_passed e \<and> pe_smoke_passed e \<and> pe_compatibility_passed e"
    "pe_active_model_sha256 e = ai_sha256 (rm_active_model m)"
    "pe_application_image_digest e = rm_application_image_digest m"
    using assms(3) by (simp_all add: validate_promotion_def)
  moreover have "canonical_json_bytes (PyDict (manifest_payload n)) \<noteq> canonical_json_bytes (PyDict (manifest_payload m)) \<and>
       sha256_hex (canonical_json_bytes (PyDict (manifest_payload n))) =
         sha256_hex (canonical_json_bytes (PyDict (manifest_payload m)))"
    if "validate_promotion n e = None" "n \<noteq> m" for n
    using hash [OF that(1)] hash [OF assms(3)] manifest_bytes_inj [of n m] that(2)
    unfolding manifest_sha256_def by metis
  ultimately show ?thesis
    using read hash [OF assms(3)] digest [of "pe_application_image_digest e"] unfolding manifest_sha256_def
    by (metis (no_types))
qed

definition sample_artifact :: artifact_identity where
  "sample_artifact = \<lparr>ai_name = ''a'', ai_version = ''1'', ai_sha256 = replicate 64 CHR ''a'',
     ai_source_path = ''a'', ai_schema_version = ARTIFACT_SCHEMA_VERSION\<rparr>"

definition sample_manifest :: release_manifest where
  "sample_manifest = \<lparr>rm_source_revision = replicate 40 CHR ''a'',
     rm_application_image_digest = ''sha256:'' @ replicate 64 CHR ''b'', rm_sbom = sample_artifact,
     rm_active_model = sample_artifact, rm_dataset = sample_artifact,
     rm_model_registry_manifest_sha256 = replicate 64 CHR ''c'', rm_dataset_manifest_sha256 = replicate 64 CHR ''c'',
     rm_migration_tree_sha256 = replicate 64 CHR ''c'', rm_evaluation_bundle_sha256 = replicate 64 CHR ''c'',
     rm_build_provenance_sha256 = replicate 64 CHR ''c'', rm_external_repository_execution_enabled = False,
     rm_schema_version = MANIFEST_SCHEMA_VERSION\<rparr>"

definition sample_promotion :: promotion_evidence where
  "sample_promotion = \<lparr>pe_stage = STAGE_PRODUCTION, pe_release_manifest_sha256 = manifest_sha256 sample_manifest,
     pe_application_image_digest = ''sha256:'' @ replicate 64 CHR ''b'',
     pe_active_model_sha256 = replicate 64 CHR ''a'', pe_migrations_passed = True, pe_evaluations_passed = True,
     pe_smoke_passed = True, pe_compatibility_passed = True, pe_protected_approval_reference = ''r''\<rparr>"

theorem promotion_pins_the_manifest_witness:
  "pe_smoke_passed sample_promotion \<and>
    pe_active_model_sha256 sample_promotion = ai_sha256 (rm_active_model sample_manifest) \<and>
    json_loads id unique_object reject_nonfinite (canonical_json_bytes (PyDict (manifest_payload sample_manifest))) =
      Inr (ordered (PyDict (manifest_payload sample_manifest)))"
proof -
  have hex: "is_sha256_text (replicate 64 c)" "is_hex (replicate 40 c)" if "c \<in> set ''abc''" for c
    using that by (auto simp: is_sha256_text_def is_hex_def hex_digits_def list_all_iff)
  have "release_manifest_post_init sample_manifest = None"
    using hex by (simp add: release_manifest_post_init_def sample_manifest_def validate_image_digest_def
      validate_sha256_def startswith_def)
  moreover have "promotion_evidence_post_init sample_promotion = None"
    using hex by (simp add: promotion_evidence_post_init_def sample_promotion_def validate_image_digest_def
      validate_sha256_def startswith_def manifest_sha256_def)
  moreover have "validate_promotion sample_manifest sample_promotion = None"
    by (simp add: validate_promotion_def sample_promotion_def) (simp add: sample_manifest_def sample_artifact_def)
  ultimately show ?thesis
    using promotion_pins_the_manifest [of sample_manifest sample_promotion id] by blast
qed

end
