(* ===== verification/RetrievalText.thy ===== *)
theory RetrievalText
  imports PyText
begin

section \<open>packages/retrieval_core: contracts.py, config.py and normalization.py\<close>

text \<open>
  The schemas of evidence documents and candidates, the model artifacts and the text normalisation.
  Two functions of the standard library whose results leave the Latin-1 range are parameters:
  \<open>nfkc\<close> (\<open>unicodedata.normalize("NFKC", s)\<close>) and \<open>fold_case\<close> (\<open>str.casefold\<close>). \<open>round(x, 12)\<close> is \<open>round12\<close>. Not
  modelled: \<open>cosine_similarity\<close> (square roots of floats).
\<close>

subsection \<open>config.py\<close>

definition CHUNKING_VERSION :: string where "CHUNKING_VERSION = ''source-aware-chunker-v1''"

record model_artifact =
  ma_version :: string
  ma_model_id :: string
  ma_revision :: string
  ma_safetensors_sha256 :: string
  ma_license :: string
  ma_dimension :: "int option"

definition model_artifact_post_init :: "model_artifact \<Rightarrow> exn option" where
  "model_artifact_post_init m = first_raise [
     raise_if (ma_version m = [] \<or> ma_model_id m = []) (ValueError ''model artifact identity is required''),
     raise_if (length (ma_revision m) \<noteq> 40 \<or> \<not> is_hex (ma_revision m))
       (ValueError ''model revision must be an exact lowercase Git commit''),
     raise_if (length (ma_safetensors_sha256 m) \<noteq> 64 \<or> \<not> is_hex (ma_safetensors_sha256 m))
       (ValueError ''model artifact checksum must be lowercase SHA-256''),
     raise_if (case ma_dimension m of None \<Rightarrow> False | Some d \<Rightarrow> d < 1)
       (ValueError ''embedding dimension must be positive'')]"

definition EMBEDDING_ARTIFACT :: model_artifact where
  "EMBEDDING_ARTIFACT = \<lparr>ma_version = ''all-minilm-l6-v2-1110a24-v1'',
     ma_model_id = ''sentence-transformers/all-MiniLM-L6-v2'',
     ma_revision = ''1110a243fdf4706b3f48f1d95db1a4f5529b4d41'',
     ma_safetensors_sha256 = ''53aa51172d142c89d9012cce15ae4d6cc0ca6895895114379cacb4fab128d9db'',
     ma_license = ''Apache-2.0'', ma_dimension = Some 384\<rparr>"

definition RERANKER_ARTIFACT :: model_artifact where
  "RERANKER_ARTIFACT = \<lparr>ma_version = ''ms-marco-minilm-l6-v2-4bebbd5-v1'',
     ma_model_id = ''cross-encoder/ms-marco-MiniLM-L6-v2'',
     ma_revision = ''4bebbd56fc380a66525f95b03d4ec1a4b41a4f1e'',
     ma_safetensors_sha256 = ''821d1aa69520101d6e0737f78a042ae25b19e5cb9160701909d10434f4aeb0ae'',
     ma_license = ''Apache-2.0'', ma_dimension = None\<rparr>"

subsection \<open>contracts.py\<close>

definition MAX_CANDIDATES :: int where "MAX_CANDIDATES = 50"

datatype evidence_source_type =
  ST_PR_SUMMARY | ST_ADR | ST_INCIDENT | ST_POSTMORTEM | ST_RUNBOOK | ST_DOCUMENTATION | ST_PYTHON_SOURCE

record evidence_document =
  ed_source_type :: evidence_source_type
  ed_source_id :: string
  ed_source_version :: string
  ed_title :: string
  ed_content :: string
  ed_source_uri :: string
  ed_approved :: bool
  ed_retention_class :: string

definition evidence_document_post_init :: "evidence_document \<Rightarrow> exn option" where
  "evidence_document_post_init d = first_raise [
     raise_if (\<not> ed_approved d) (ValueError ''evidence content must be explicitly approved before ingestion''),
     raise_if (ed_source_id d = [] \<or> length (ed_source_id d) > 512 \<or> has_nul (ed_source_id d))
       (ValueError ''source ID is outside the bounded contract''),
     raise_if (ed_source_version d = [] \<or> length (ed_source_version d) > 128)
       (ValueError ''source version is outside the bounded contract''),
     raise_if (ed_title d = [] \<or> length (ed_title d) > 256 \<or> has_nul (ed_title d))
       (ValueError ''document title is outside the bounded contract''),
     raise_if (ed_source_uri d = [] \<or> length (ed_source_uri d) > 1200 \<or> has_nul (ed_source_uri d))
       (ValueError ''source URI is outside the bounded contract''),
     raise_if (ed_content d = [] \<or> length (utf8 (ed_content d)) > 262144)
       (ValueError ''document content is empty or exceeds the ingestion byte limit''),
     raise_if (ed_retention_class d \<notin> {''source_index'', ''metadata'', ''incident_record''})
       (ValueError ''retention class is not approved for evidence ingestion'')]"

record source_chunk =
  sc_sequence :: nat
  sc_heading :: string
  sc_content :: string
  sc_normalized_text :: string
  sc_start_line :: int
  sc_end_line :: int
  sc_strategy :: string
  sc_content_sha256 :: string

record chunk_candidate =
  cc_chunk_id :: string
  cc_content :: string
  cc_source_ref :: string
  cc_lexical_score :: "rat option"
  cc_semantic_score :: "rat option"
  cc_lexical_rank :: "nat option"
  cc_semantic_rank :: "nat option"
  cc_fusion_score :: "rat option"
  cc_reranker_score :: "rat option"

definition validate_query :: "string \<Rightarrow> string result" where
  "validate_query query = (let normalized = strip_space query in
     if normalized = [] \<or> length normalized > 512 \<or> length (utf8 normalized) > 2048 \<or> has_nul normalized
     then Inl (ValueError ''retrieval query is outside the bounded contract'') else Inr normalized)"

subsection \<open>normalization.py\<close>

text \<open>\<open>s.replace(old, new)\<close> for the two replacements of line ends; the general category Cc.\<close>

fun unix_line_ends :: "string \<Rightarrow> string" where
  "unix_line_ends [] = []"
| "unix_line_ends [c] = [if c = CHR 0x0D then CHR 0x0A else c]"
| "unix_line_ends (c # d # s) =
     (if c = CHR 0x0D \<and> d = CHR 0x0A then CHR 0x0A # unix_line_ends s
      else (if c = CHR 0x0D then CHR 0x0A else c) # unix_line_ends (d # s))"

definition is_control_category :: "char \<Rightarrow> bool" where
  "is_control_category c = (code c < 32 \<or> 127 \<le> code c \<and> code c \<le> 159)"

definition squeeze_blanks :: "string \<Rightarrow> string" where
  "squeeze_blanks line = re_sub (Rep True 1 (\<lambda>c. c = CHR '' '' \<or> c = CHR 0x09)) '' '' None line"

definition normalize_source_text :: "(string \<Rightarrow> string) \<Rightarrow> string \<Rightarrow> string result" where
  "normalize_source_text nfkc value =
     (if has_nul value then Inl (ValueError ''source text cannot contain NUL'')
      else let normalized = unix_line_ends (nfkc value);
               cleaned = filter (\<lambda>c. c = CHR 0x0A \<or> c = CHR 0x09 \<or> \<not> is_control_category c) normalized;
               lines = map (\<lambda>line. rstrip_space (squeeze_blanks line)) (split_on (CHR 0x0A) cleaned) in
           Inr (strip_space (join [CHR 0x0A] lines)))"

text \<open>\<open>pattern.findall\<close> and \<open>pattern.split\<close> for a pattern of one or more characters of a class.\<close>

fun runs_of :: "(char \<Rightarrow> bool) \<Rightarrow> string \<Rightarrow> string \<Rightarrow> string list" where
  "runs_of f run [] = (if run = [] then [] else [rev run])"
| "runs_of f run (c # s) =
     (if f c then runs_of f (c # run) s else (if run = [] then [] else [rev run]) @ runs_of f [] s)"

fun split_runs :: "(char \<Rightarrow> bool) \<Rightarrow> string \<Rightarrow> bool \<Rightarrow> string \<Rightarrow> string list" where
  "split_runs f part inside [] = [rev part]"
| "split_runs f part inside (c # s) =
     (if \<not> f c then split_runs f (c # part) False s
      else if inside then split_runs f part True s else rev part # split_runs f [] True s)"

definition is_ascii_word :: "char \<Rightarrow> bool" where
  "is_ascii_word c = (is_letter c \<or> is_digit c)"

definition is_upper :: "char \<Rightarrow> bool" where
  "is_upper c = (65 \<le> code c \<and> code c \<le> 90)"

definition token_char :: "char \<Rightarrow> bool" where
  "token_char c = (is_ascii_word c \<or> c \<in> set ''_./:-'')"

definition separator_char :: "char \<Rightarrow> bool" where
  "separator_char c = (c \<in> set ''_./:-'')"

text \<open>The zero-width boundary between a lower-case letter or digit and an upper-case letter.\<close>

fun camel_words :: "string \<Rightarrow> string \<Rightarrow> string list" where
  "camel_words word [] = (if word = [] then [] else [rev word])"
| "camel_words word (c # s) =
     (if word \<noteq> [] \<and> is_ascii_word (hd word) \<and> \<not> is_upper (hd word) \<and> is_upper c
      then rev word # camel_words [c] s else camel_words (c # word) s)"

definition code_tokens :: "(string \<Rightarrow> string) \<Rightarrow> string \<Rightarrow> string list" where
  "code_tokens fold_case value =
     (let originals = runs_of token_char [] value;
          candidates = concat (map (\<lambda>original.
            original # concat (map (camel_words []) (split_runs separator_char [] False original))) originals) in
      py_unique (filter (\<lambda>t. t \<noteq> []) (map fold_case candidates)))"

definition normalize_fts_text :: "(string \<Rightarrow> string) \<Rightarrow> (string \<Rightarrow> string) \<Rightarrow> string \<Rightarrow> string result" where
  "normalize_fts_text nfkc fold_case value =
     and_then (normalize_source_text nfkc value) (\<lambda>source. Inr (join '' '' (code_tokens fold_case source)))"

definition lexical_score :: "(string \<Rightarrow> string) \<Rightarrow> (rat \<Rightarrow> rat) \<Rightarrow> string \<Rightarrow> string \<Rightarrow> rat" where
  "lexical_score fold_case round12 query document =
     (let query_tokens = code_tokens fold_case query; document_tokens = code_tokens fold_case document in
      if query_tokens = [] then 0
      else if document_tokens = [] then 0
      else let
        matched = sum_list (map (\<lambda>t. min (count_list document_tokens t) 3) query_tokens);
        coverage = of_nat (length (filter (\<lambda>t. t \<in> set document_tokens) query_tokens)) / of_nat (length query_tokens);
        phrase_bonus = (if contains (fold_case document) (fold_case query) then 1 / 4 else 0) in
      round12 (coverage + of_nat matched / (3 * of_nat (length query_tokens)) + phrase_bonus))"

subsection \<open>The artifacts are valid, and term frequency never counts\<close>

lemma artifacts_valid:
  "model_artifact_post_init EMBEDDING_ARTIFACT = None" "model_artifact_post_init RERANKER_ARTIFACT = None"
  by (simp_all add: model_artifact_post_init_def EMBEDDING_ARTIFACT_def RERANKER_ARTIFACT_def is_hex_def hex_digits_def)

lemma distinct_code_tokens [simp]: "distinct (code_tokens fold_case s)"
  by (simp add: code_tokens_def Let_def)

lemma count_distinct: "distinct xs \<Longrightarrow> count_list xs x = (if x \<in> set xs then 1 else 0)"
  by (induction xs) auto

text \<open>
  Tokens are unique, so a token counts at most once: the cap of three on its frequency never acts and
  the frequency term is a third of the coverage.
\<close>

lemma lexical_score_ignores_frequency:
  assumes "code_tokens fold_case query \<noteq> []" "code_tokens fold_case document \<noteq> []"
  shows "lexical_score fold_case round12 query document =
    round12 (4 / 3 * (of_nat (length (filter (\<lambda>t. t \<in> set (code_tokens fold_case document)) (code_tokens fold_case query))) /
        of_nat (length (code_tokens fold_case query))) +
      (if contains (fold_case document) (fold_case query) then 1 / 4 else 0))"
proof -
  have "sum_list (map (\<lambda>t. min (count_list (code_tokens fold_case document) t) 3) qs) =
      length (filter (\<lambda>t. t \<in> set (code_tokens fold_case document)) qs)" for qs
    by (induction qs) (simp_all add: count_distinct)
  then show ?thesis using assms by (simp add: lexical_score_def Let_def field_simps)
qed

end
