(* ===== verification/RetrievalChunks.thy ===== *)
theory RetrievalChunks
  imports RetrievalText
begin

section \<open>packages/retrieval_core/chunking.py: bounded chunks\<close>

text \<open>
  A section is (heading, content, first line, last line). The loop of \<open>_split_bounded\<close> carries
  \<open>split_state\<close>; \<open>projected\<close> is computed before the flush, as in the code. The result of
  \<open>ast.parse\<close> is a parameter \<open>parse\<close>: \<open>None\<close> for a syntax error, otherwise the top-level functions
  and classes in order, each with its kind, name and line range.
\<close>

definition MAX_CHUNK_CHARS :: nat where "MAX_CHUNK_CHARS = 4000"
definition MAX_CHUNKS :: nat where "MAX_CHUNKS = 128"

type_synonym chunk_section = "string \<times> string \<times> int \<times> int"

subsection \<open>_split_bounded\<close>

record split_state =
  ss_pieces :: "chunk_section list"
  ss_current :: "string list"
  ss_start :: int
  ss_size :: nat

definition flush_piece :: "string \<Rightarrow> int \<Rightarrow> split_state \<Rightarrow> split_state" where
  "flush_piece heading last_line st = st\<lparr>
     ss_pieces := ss_pieces st @ [(heading, join [CHR 0x0A] (ss_current st), ss_start st, last_line)], ss_current := []\<rparr>"

function slices :: "nat \<Rightarrow> string \<Rightarrow> string list" where
  "slices n s = (if n = 0 \<or> s = [] then [] else take n s # slices n (drop n s))"
  by pat_completeness auto
termination by (relation "measure (\<lambda>(n, s). length s)") auto

declare slices.simps [simp del]

definition projected_size :: "split_state \<Rightarrow> string \<Rightarrow> nat" where
  "projected_size st line = ss_size st + length line + (if ss_current st \<noteq> [] then 1 else 0)"

definition flush_full :: "string \<Rightarrow> int \<Rightarrow> string \<Rightarrow> split_state \<Rightarrow> split_state" where
  "flush_full heading line_number line st =
     (if ss_current st \<noteq> [] \<and> projected_size st line > MAX_CHUNK_CHARS
      then (flush_piece heading (line_number - 1) st)\<lparr>ss_start := line_number, ss_size := 0\<rparr> else st)"

definition split_line :: "string \<Rightarrow> int \<Rightarrow> split_state \<Rightarrow> int \<times> string \<Rightarrow> split_state" where
  "split_line heading start_line st p =
     (let (offset, line) = p; line_number = start_line + offset;
          projected = projected_size st line; st1 = flush_full heading line_number line st in
      if length line > MAX_CHUNK_CHARS
      then let st2 = (if ss_current st1 \<noteq> [] then flush_piece heading (line_number - 1) st1 else st1) in
        st2\<lparr>ss_pieces := ss_pieces st2 @ map (\<lambda>part. (heading, part, line_number, line_number)) (slices MAX_CHUNK_CHARS line),
            ss_start := line_number + 1, ss_size := 0\<rparr>
      else st1\<lparr>ss_current := ss_current st1 @ [line], ss_size := projected\<rparr>)"

definition numbered :: "'a list \<Rightarrow> (int \<times> 'a) list" where
  "numbered xs = zip (map int [0..<length xs]) xs"

definition lines_of :: "string \<Rightarrow> string list" where
  "lines_of content = (if split_lines content = [] then [content] else split_lines content)"

definition split_bounded :: "string \<Rightarrow> string \<Rightarrow> int \<Rightarrow> chunk_section list" where
  "split_bounded content heading start_line =
     (let lines = lines_of content;
          st = foldl (split_line heading start_line)
            \<lparr>ss_pieces = [], ss_current = [], ss_start = start_line, ss_size = 0\<rparr> (numbered lines) in
      if ss_current st \<noteq> [] then ss_pieces (flush_piece heading (start_line + int (length lines) - 1) st)
      else ss_pieces st)"

subsection \<open>Markdown and Python sections\<close>

text \<open>\<open>^(#{1,6})\s+(.+?)\s*$\<close> on a single line: the text of the heading.\<close>

definition heading_of :: "string \<Rightarrow> string option" where
  "heading_of line = (let marks = takeWhile (\<lambda>c. c = CHR ''#'') line; rest = drop (length marks) line in
     if marks = [] \<or> length marks > 6 \<or> rest = [] \<or> \<not> is_space (hd rest) \<or> tl rest = [] then None
     else let text = strip_space rest in Some (if text = [] then [last rest] else text))"

record markdown_state =
  ms_sections :: "chunk_section list"
  ms_heading :: string
  ms_start :: int
  ms_lines :: "string list"

definition markdown_line :: "markdown_state \<Rightarrow> int \<times> string \<Rightarrow> markdown_state" where
  "markdown_line st p =
     (let (line_number, line) = p; found = heading_of line;
          st1 = (if found \<noteq> None \<and> ms_lines st \<noteq> []
            then st\<lparr>ms_sections := ms_sections st @
                   split_bounded (join [CHR 0x0A] (ms_lines st)) (ms_heading st) (ms_start st), ms_lines := []\<rparr>
            else st);
          st2 = (case found of None \<Rightarrow> st1
            | Some text \<Rightarrow> st1\<lparr>ms_heading := take 256 text, ms_start := line_number\<rparr>) in
      st2\<lparr>ms_lines := ms_lines st2 @ [line]\<rparr>)"

definition markdown_sections :: "string \<Rightarrow> chunk_section list" where
  "markdown_sections content =
     (let st = foldl markdown_line \<lparr>ms_sections = [], ms_heading = ''Document'', ms_start = 1, ms_lines = []\<rparr>
          (map (\<lambda>(i, l). (i + 1, l)) (numbered (split_lines content))) in
      if ms_lines st \<noteq> []
      then ms_sections st @ split_bounded (join [CHR 0x0A] (ms_lines st)) (ms_heading st) (ms_start st)
      else ms_sections st)"

record top_node =
  tn_is_class :: bool
  tn_name :: string
  tn_lineno :: nat
  tn_end_lineno :: nat

definition python_sections :: "(string \<Rightarrow> top_node list option) \<Rightarrow> string \<Rightarrow> chunk_section list" where
  "python_sections parse content = (case parse content of
      None \<Rightarrow> split_bounded content ''Python source (parse fallback)'' 1
    | Some nodes \<Rightarrow>
        let lines = split_lines content;
            first_node_line = (if nodes = [] then length lines + 1 else Min (set (map tn_lineno nodes)));
            preamble = strip_space (join [CHR 0x0A] (take (first_node_line - 1) lines));
            before_nodes = (if first_node_line > 1 \<and> preamble \<noteq> [] then split_bounded preamble ''Module preamble'' 1 else []);
            sections = before_nodes @ concat (map (\<lambda>n. split_bounded
              (join [CHR 0x0A] (drop (tn_lineno n - 1) (take (tn_end_lineno n) lines)))
              ((if tn_is_class n then ''class'' else ''function'') @ '' '' @ tn_name n) (int (tn_lineno n))) nodes) in
        if sections = [] then split_bounded content ''Python module'' 1 else sections)"

subsection \<open>chunk_document\<close>

definition sections_of ::
  "(string \<Rightarrow> top_node list option) \<Rightarrow> evidence_document \<Rightarrow> string \<Rightarrow> chunk_section list \<times> string" where
  "sections_of parse document content =
     (if ed_source_type document = ST_PYTHON_SOURCE \<or> endswith (ed_source_id document) ''.py''
      then (python_sections parse content, CHUNKING_VERSION @ '':python-ast'')
      else if endswith (ed_source_id document) ''.md'' \<or> endswith (ed_source_id document) ''.markdown'' \<or>
        ed_source_type document \<in> {ST_ADR, ST_DOCUMENTATION, ST_INCIDENT, ST_POSTMORTEM, ST_PR_SUMMARY, ST_RUNBOOK}
      then (markdown_sections content, CHUNKING_VERSION @ '':markdown-heading'')
      else (split_bounded content (ed_title document) 1, CHUNKING_VERSION @ '':bounded-fallback''))"

definition source_chunk_of ::
  "(string \<Rightarrow> string) \<Rightarrow> (string \<Rightarrow> string) \<Rightarrow> string \<Rightarrow> string \<Rightarrow> nat \<times> chunk_section \<Rightarrow> source_chunk result"
where
  "source_chunk_of nfkc fold_case title strategy p =
     (let (sequence, heading, content, start_line, end_line) = p in
      and_then (normalize_fts_text nfkc fold_case (title @ [CHR 0x0A] @ heading @ [CHR 0x0A] @ content)) (\<lambda>normalized.
        Inr \<lparr>sc_sequence = sequence, sc_heading = heading, sc_content = content, sc_normalized_text = normalized,
          sc_start_line = start_line, sc_end_line = end_line, sc_strategy = strategy,
          sc_content_sha256 = sha256_hex (utf8 content)\<rparr>))"

definition chunk_document ::
  "(string \<Rightarrow> string) \<Rightarrow> (string \<Rightarrow> string) \<Rightarrow> (string \<Rightarrow> top_node list option) \<Rightarrow> evidence_document \<Rightarrow>
    source_chunk list result"
where
  "chunk_document nfkc fold_case parse document =
     and_then (normalize_source_text nfkc (ed_content document)) (\<lambda>content.
       let (sections, strategy) = sections_of parse document content in
       if sections = [] \<or> length sections > MAX_CHUNKS
       then Inl (ValueError ''chunk count is empty or exceeds the ingestion limit'')
       else map_raise (source_chunk_of nfkc fold_case (ed_title document) strategy) (enumerate 0 sections))"

end
