(* ===== verification/RetrievalChunkProofs.thy ===== *)
theory RetrievalChunkProofs
  imports RetrievalChunks
begin

section \<open>Chunks are bounded and lose no text; after an overflow every line is a chunk\<close>

text \<open>
  \<open>split_ok\<close> is the invariant of the loop for any content. When no line is longer than a chunk the
  result is computed exactly: the size that the loop carries over a flush is the one before it, so
  after the first full chunk every further line becomes a chunk of its own.
\<close>

definition piece_text :: "chunk_section \<Rightarrow> string" where
  "piece_text p = fst (snd p)"

definition visible :: "string \<Rightarrow> string" where
  "visible s = filter (\<lambda>c. c \<noteq> CHR 0x0A) s"

lemma visible_append [simp]: "visible (s @ t) = visible s @ visible t"
  by (simp add: visible_def)

lemma visible_join: "visible (join [CHR 0x0A] ls) = concat (map visible ls)"
  by (induction "[CHR 0x0A]" ls rule: join.induct) (simp_all add: visible_def)

lemma visible_concat: "visible (concat ls) = concat (map visible ls)"
  by (induction ls) (simp_all add: visible_def)

lemma visible_id: "CHR 0x0A \<notin> set s \<Longrightarrow> visible s = s"
  by (auto simp: visible_def filter_id_conv)

lemma concat_slices: "0 < n \<Longrightarrow> concat (slices n s) = s"
  by (induction n s rule: slices.induct) (subst slices.simps, simp)

lemma slices_bounded: "p \<in> set (slices n s) \<Longrightarrow> length p \<le> n"
  by (induction n s rule: slices.induct) (subst (asm) slices.simps, auto split: if_splits)

lemma length_join_snoc:
  "length (join [c] (ls @ [l])) = (if ls = [] then length l else length (join [c] ls) + 1 + length l)"
  by (induction "[c]" ls rule: join.induct) (auto simp: join_Cons)

lemma split_lines_line: "l \<in> set (split_lines s) \<Longrightarrow> c \<in> set l \<Longrightarrow> \<not> is_line_end c"
proof (induction s arbitrary: l rule: split_lines.induct)
  case (1 s)
  show ?case
    using "1.prems"
    by (subst (asm) split_lines.simps)
      (auto simp: Let_def dest: set_takeWhileD "1.IH" split: list.splits if_splits)
qed

lemma lines_of_line: "l \<in> set (lines_of content) \<Longrightarrow> CHR 0x0A \<notin> set l"
proof -
  assume l: "l \<in> set (lines_of content)"
  have "content = []" if "split_lines content = []"
    using that by (subst (asm) split_lines.simps) (simp add: Let_def split: if_splits)
  then show ?thesis
    using l split_lines_line [of l content "CHR 0x0A"]
    by (auto simp: lines_of_def is_line_end_def code_def split: if_splits)
qed

lemma lines_of_nonempty [simp]: "lines_of content \<noteq> []"
  by (simp add: lines_of_def)

subsection \<open>The loop\<close>

definition split_prefix :: "string \<Rightarrow> int \<Rightarrow> string list \<Rightarrow> nat \<Rightarrow> split_state" where
  "split_prefix heading start_line ls j = foldl (split_line heading start_line)
     \<lparr>ss_pieces = [], ss_current = [], ss_start = start_line, ss_size = 0\<rparr> (take j (numbered ls))"

lemma split_prefix_0: "split_prefix heading s ls 0 = \<lparr>ss_pieces = [], ss_current = [], ss_start = s, ss_size = 0\<rparr>"
  by (simp add: split_prefix_def)

lemma split_prefix_Suc: "j < length ls \<Longrightarrow>
    split_prefix heading s ls (Suc j) = split_line heading s (split_prefix heading s ls j) (int j, ls ! j)"
  by (simp add: split_prefix_def numbered_def take_Suc_conv_app_nth)

lemma split_bounded_prefix: "split_bounded content heading s =
    (let st = split_prefix heading s (lines_of content) (length (lines_of content)) in
     if ss_current st \<noteq> [] then ss_pieces (flush_piece heading (s + int (length (lines_of content)) - 1) st)
     else ss_pieces st)"
  by (simp add: split_bounded_def split_prefix_def numbered_def Let_def)

definition piece_ok :: "int \<Rightarrow> int \<Rightarrow> chunk_section \<Rightarrow> bool" where
  "piece_ok s j p \<longleftrightarrow> (case p of (heading, text, first, final) \<Rightarrow>
     length text \<le> MAX_CHUNK_CHARS \<and> s \<le> first \<and> first \<le> final \<and> final < s + j)"

definition split_ok :: "int \<Rightarrow> string list \<Rightarrow> nat \<Rightarrow> split_state \<Rightarrow> bool" where
  "split_ok s ls j st \<longleftrightarrow> (\<forall>p \<in> set (ss_pieces st). piece_ok s (int j) p) \<and>
     (ss_current st = [] \<longrightarrow> ss_size st = 0 \<and> ss_start st = s + int j) \<and>
     (ss_current st \<noteq> [] \<longrightarrow> s \<le> ss_start st \<and> ss_start st < s + int j \<and>
        length (join [CHR 0x0A] (ss_current st)) \<le> ss_size st \<and>
        length (join [CHR 0x0A] (ss_current st)) \<le> MAX_CHUNK_CHARS) \<and>
     concat (map (\<lambda>p. visible (piece_text p)) (ss_pieces st)) @ concat (map visible (ss_current st)) =
       concat (map visible (take j ls))"

lemma piece_ok_Suc: "piece_ok s j p \<Longrightarrow> piece_ok s (j + 1) p"
  by (auto simp: piece_ok_def)

lemma flush_full_ok:
  assumes "split_ok s ls j st"
  shows "split_ok s ls j (flush_full heading (s + int j) line st)"
    "ss_current (flush_full heading (s + int j) line st) \<noteq> [] \<Longrightarrow>
      projected_size st line \<le> MAX_CHUNK_CHARS \<and> flush_full heading (s + int j) line st = st"
  using assms by (auto simp: flush_full_def split_ok_def flush_piece_def piece_ok_def piece_text_def visible_join)

lemma split_line_long:
  assumes "split_ok s ls j st" "length line > MAX_CHUNK_CHARS"
  shows "split_line heading s st (int j, line) = (let st1 = flush_full heading (s + int j) line st in
    st1\<lparr>ss_pieces := ss_pieces st1 @ map (\<lambda>part. (heading, part, s + int j, s + int j)) (slices MAX_CHUNK_CHARS line),
      ss_start := s + int j + 1, ss_size := 0\<rparr>)"
    "ss_current (flush_full heading (s + int j) line st) = []"
proof -
  show "ss_current (flush_full heading (s + int j) line st) = []"
    using flush_full_ok(2) [OF assms(1), where line = line and heading = heading] assms(2)
    by (fastforce simp: projected_size_def)
  then show "split_line heading s st (int j, line) = (let st1 = flush_full heading (s + int j) line st in
    st1\<lparr>ss_pieces := ss_pieces st1 @ map (\<lambda>part. (heading, part, s + int j, s + int j)) (slices MAX_CHUNK_CHARS line),
      ss_start := s + int j + 1, ss_size := 0\<rparr>)"
    using assms(2) by (simp add: split_line_def Let_def)
qed

lemma visible_slices: "concat (map visible (slices MAX_CHUNK_CHARS line)) = visible line"
  using visible_concat [of "slices MAX_CHUNK_CHARS line"] concat_slices [of MAX_CHUNK_CHARS line]
  by (simp add: MAX_CHUNK_CHARS_def)

lemma split_ok_step:
  assumes ok: "split_ok s ls j st" and j: "j < length ls"
  shows "split_ok s ls (Suc j) (split_line heading s st (int j, ls ! j))"
proof -
  define st1 where "st1 = flush_full heading (s + int j) (ls ! j) st"
  have st1: "split_ok s ls j st1" using flush_full_ok(1) [OF ok] by (simp add: st1_def)
  then have pieces: "piece_ok s (int (Suc j)) p" if "p \<in> set (ss_pieces st1)" for p
    using that piece_ok_Suc [of s "int j" p] by (simp add: split_ok_def add.commute)
  have take: "concat (map visible (take (Suc j) ls)) = concat (map visible (take j ls)) @ visible (ls ! j)"
    using j by (simp add: take_Suc_conv_app_nth)
  show ?thesis
  proof (cases "length (ls ! j) > MAX_CHUNK_CHARS")
    case True
    have "piece_ok s (int (Suc j)) (heading, part, s + int j, s + int j)" if "part \<in> set (slices MAX_CHUNK_CHARS (ls ! j))" for part
      using slices_bounded [OF that] by (simp add: piece_ok_def)
    then show ?thesis
      using split_line_long [OF ok True, of heading] st1 pieces take visible_slices [of "ls ! j"]
      by (auto simp: st1_def [symmetric] Let_def split_ok_def piece_text_def comp_def)
  next
    case False
    have size: "length (join [CHR 0x0A] (ss_current st1 @ [ls ! j])) \<le> projected_size st (ls ! j) \<and>
        length (join [CHR 0x0A] (ss_current st1 @ [ls ! j])) \<le> MAX_CHUNK_CHARS"
    proof (cases "ss_current st1 = []")
      case True
      then show ?thesis using False by (simp add: projected_size_def)
    next
      case nonempty: False
      then have "projected_size st (ls ! j) \<le> MAX_CHUNK_CHARS" "st1 = st"
        using flush_full_ok(2) [OF ok, of heading "ls ! j"] by (auto simp: st1_def)
      then show ?thesis using nonempty ok by (auto simp: length_join_snoc projected_size_def split_ok_def)
    qed
    have "s \<le> ss_start st1 \<and> ss_start st1 < s + int (Suc j)"
      using st1 by (cases "ss_current st1 = []") (auto simp: split_ok_def)
    then show ?thesis
      using False st1 pieces take size
      by (auto simp: split_line_def st1_def [symmetric] Let_def split_ok_def)
  qed
qed

lemma split_prefix_ok: "j \<le> length ls \<Longrightarrow> split_ok s ls j (split_prefix heading s ls j)"
proof (induction j)
  case 0
  then show ?case by (simp add: split_prefix_0 split_ok_def)
next
  case (Suc j)
  then show ?case using split_ok_step [of s ls j "split_prefix heading s ls j" heading] by (simp add: split_prefix_Suc)
qed

text \<open>
  Every piece of a text holds at most 4000 characters and a line range inside the text, and splitting
  loses no text: up to line ends, the pieces spell out the lines of the text in order.
\<close>

lemma pieces_are_bounded_and_complete:
  "(\<forall>(h, text, first, final) \<in> set (split_bounded content heading s).
     length text \<le> 4000 \<and> s \<le> first \<and> first \<le> final \<and> final < s + int (length (lines_of content))) \<and>
   visible (concat (map piece_text (split_bounded content heading s))) = concat (lines_of content)"
proof -
  let ?n = "length (lines_of content)"
  define st where "st = split_prefix heading s (lines_of content) ?n"
  have ok: "split_ok s (lines_of content) ?n st" unfolding st_def by (rule split_prefix_ok) simp
  define st' where "st' = (if ss_current st \<noteq> [] then flush_piece heading (s + int ?n - 1) st else st)"
  have "split_bounded content heading s = ss_pieces st'"
    by (simp add: split_bounded_prefix st_def st'_def Let_def)
  moreover have "split_ok s (lines_of content) ?n (st'\<lparr>ss_start := s + int ?n, ss_size := 0\<rparr>)" "ss_current st' = []"
    using ok by (auto simp: st'_def split_ok_def flush_piece_def piece_ok_def piece_text_def visible_join)
  moreover have "concat (map visible (lines_of content)) = concat (lines_of content)"
    by (intro arg_cong [of _ _ concat] map_idI visible_id) (rule lines_of_line)
  ultimately show ?thesis
    by (auto simp: split_ok_def piece_ok_def visible_concat MAX_CHUNK_CHARS_def comp_def)
qed

lemma split_lines_join:
  "\<forall>l \<in> set ls. \<forall>c \<in> set l. \<not> is_line_end c \<Longrightarrow> ls \<noteq> [] \<Longrightarrow> last ls \<noteq> [] \<Longrightarrow>
    split_lines (join [CHR 0x0A] ls) = ls"
proof (induction "[CHR 0x0A]" ls rule: join.induct)
  case (2 w)
  then have all: "takeWhile (\<lambda>c. \<not> is_line_end c) w = w" by (simp add: takeWhile_eq_all_conv)
  show ?case using 2 by (subst split_lines.simps) (simp add: Let_def all)
next
  case (3 w v ws)
  have "takeWhile (\<lambda>c. \<not> is_line_end c) (w @ CHR 0x0A # t) = w" for t
    using "3.prems"(1) by (simp add: takeWhile_tail is_line_end_def code_def)
  moreover obtain d ds where "join [CHR 0x0A] (v # ws) = d # ds"
    using "3.prems"(3) by (cases "join [CHR 0x0A] (v # ws)") (cases ws; auto)+
  ultimately show ?case
    using 3 by (subst split_lines.simps) (simp add: Let_def code_def)
qed simp

text \<open>Joining lines and splitting them again loses at most an empty last line.\<close>

lemma split_lines_snoc_end: "ls \<noteq> [] \<Longrightarrow> \<forall>l \<in> set ls. \<forall>c \<in> set l. \<not> is_line_end c \<Longrightarrow>
    split_lines (join [CHR 0x0A] (ls @ [[]])) = ls"
proof (induction "[CHR 0x0A]" ls rule: join.induct)
  case (2 w)
  then have all: "takeWhile (\<lambda>c. \<not> is_line_end c) (w @ [CHR 0x0A]) = w"
    by (simp add: takeWhile_tail is_line_end_def code_def)
  have "split_lines [] = []" by (subst split_lines.simps) (simp add: Let_def)
  with all show ?case by (subst split_lines.simps) (simp add: Let_def code_def)
next
  case (3 w v ws)
  have "takeWhile (\<lambda>c. \<not> is_line_end c) (w @ CHR 0x0A # t) = w" for t
    using "3.prems"(2) by (simp add: takeWhile_tail is_line_end_def code_def)
  moreover obtain d ds where "join [CHR 0x0A] (v # ws @ [[]]) = d # ds"
    by (cases "join [CHR 0x0A] (v # ws @ [[]])") (cases ws; auto)+
  ultimately show ?case
    using 3 by (subst split_lines.simps) (simp add: Let_def code_def)
qed simp

definition free_of_ends :: "string list \<Rightarrow> bool" where
  "free_of_ends ls \<longleftrightarrow> (\<forall>l \<in> set ls. \<forall>c \<in> set l. \<not> is_line_end c)"

lemma lines_of_join:
  assumes "ls \<noteq> []" "free_of_ends ls"
  shows "length (lines_of (join [CHR 0x0A] ls)) \<le> length ls" "concat (lines_of (join [CHR 0x0A] ls)) = concat ls"
proof -
  have empty: "split_lines [] = []" by (subst split_lines.simps) (simp add: Let_def)
  have "length (lines_of (join [CHR 0x0A] ls)) \<le> length ls \<and> concat (lines_of (join [CHR 0x0A] ls)) = concat ls"
  proof (cases "last ls = []")
    case True
    show ?thesis
    proof (cases "butlast ls = []")
      case single: True
      with True assms(1) have "ls = [[]]" by (metis append_butlast_last_id append_Nil)
      then show ?thesis by (simp add: lines_of_def empty)
    next
      case False
      have ls: "ls = butlast ls @ [[]]" using True assms(1) by (metis append_butlast_last_id)
      have "free_of_ends (butlast ls)" using assms(2) by (auto simp: free_of_ends_def dest: in_set_butlastD)
      then have "split_lines (join [CHR 0x0A] (butlast ls @ [[]])) = butlast ls"
        using split_lines_snoc_end [OF False] by (simp add: free_of_ends_def)
      then have "lines_of (join [CHR 0x0A] ls) = butlast ls" using ls False by (simp add: lines_of_def)
      moreover have "concat ls = concat (butlast ls)" by (subst ls) simp
      ultimately show ?thesis by simp
    qed
  next
    case False
    then have "split_lines (join [CHR 0x0A] ls) = ls"
      using assms by (intro split_lines_join) (simp_all add: free_of_ends_def)
    then show ?thesis using assms(1) by (simp add: lines_of_def)
  qed
  then show "length (lines_of (join [CHR 0x0A] ls)) \<le> length ls" "concat (lines_of (join [CHR 0x0A] ls)) = concat ls"
    by auto
qed

lemma split_lines_free: "free_of_ends (split_lines s)"
  using split_lines_line unfolding free_of_ends_def by blast

subsection \<open>Documents\<close>

text \<open>The sections of a text with the lines \<open>ls\<close> are bounded, lie inside it, and spell out its lines.\<close>

definition piece_in :: "int \<Rightarrow> chunk_section \<Rightarrow> bool" where
  "piece_in n p \<longleftrightarrow> (case p of (h, text, first, final) \<Rightarrow>
     length text \<le> 4000 \<and> 1 \<le> first \<and> first \<le> final \<and> final \<le> n)"

definition spelled :: "chunk_section list \<Rightarrow> string" where
  "spelled ps = visible (concat (map piece_text ps))"

lemma spelled_append [simp]: "spelled (ps @ qs) = spelled ps @ spelled qs" "spelled [] = []"
  by (simp_all add: spelled_def) (simp add: visible_def)

lemma split_joined:
  assumes "ls \<noteq> []" "free_of_ends ls" "1 \<le> s"
  shows "\<forall>p \<in> set (split_bounded (join [CHR 0x0A] ls) h s). piece_in (s + int (length ls) - 1) p"
    "spelled (split_bounded (join [CHR 0x0A] ls) h s) = concat ls"
proof -
  note pieces = pieces_are_bounded_and_complete [of "join [CHR 0x0A] ls" h s] and lines = lines_of_join [OF assms(1,2)]
  show "\<forall>p \<in> set (split_bounded (join [CHR 0x0A] ls) h s). piece_in (s + int (length ls) - 1) p"
    using pieces lines(1) assms(3) by (fastforce simp: piece_in_def)
  show "spelled (split_bounded (join [CHR 0x0A] ls) h s) = concat ls"
    unfolding spelled_def lines(2) [symmetric] using pieces by blast
qed

definition markdown_prefix :: "string list \<Rightarrow> nat \<Rightarrow> markdown_state" where
  "markdown_prefix ls j = foldl markdown_line \<lparr>ms_sections = [], ms_heading = ''Document'', ms_start = 1, ms_lines = []\<rparr>
     (take j (map (\<lambda>(i, l). (i + 1, l)) (numbered ls)))"

definition markdown_ok :: "string list \<Rightarrow> nat \<Rightarrow> markdown_state \<Rightarrow> bool" where
  "markdown_ok ls j st \<longleftrightarrow> (\<forall>p \<in> set (ms_sections st). piece_in (int j) p) \<and> free_of_ends (ms_lines st) \<and>
     1 \<le> ms_start st \<and> ms_start st + int (length (ms_lines st)) \<le> int j + 1 \<and>
     spelled (ms_sections st) @ concat (ms_lines st) = concat (take j ls)"

lemma piece_in_mono: "piece_in n p \<Longrightarrow> n \<le> m \<Longrightarrow> piece_in m p"
  by (auto simp: piece_in_def)

lemma markdown_flush_ok:
  assumes "markdown_ok ls j st" "ms_lines st \<noteq> []"
  shows "markdown_ok ls j (st\<lparr>ms_sections := ms_sections st @
    split_bounded (join [CHR 0x0A] (ms_lines st)) (ms_heading st) (ms_start st), ms_lines := []\<rparr>)"
proof -
  have st: "free_of_ends (ms_lines st)" "1 \<le> ms_start st" "ms_start st + int (length (ms_lines st)) \<le> int j + 1"
    using assms(1) by (auto simp: markdown_ok_def)
  note pieces = split_joined [OF assms(2) st(1,2), of "ms_heading st"]
  have "piece_in (int j) p"
    if "p \<in> set (split_bounded (join [CHR 0x0A] (ms_lines st)) (ms_heading st) (ms_start st))" for p
    using pieces(1) that st(3) piece_in_mono by fastforce
  with assms(1) pieces(2) show ?thesis by (auto simp: markdown_ok_def free_of_ends_def)
qed

lemma markdown_line_ok:
  assumes "markdown_ok ls j st" "j < length ls" "free_of_ends ls"
  shows "markdown_ok ls (Suc j) (markdown_line st (int j + 1, ls ! j))"
proof -
  define st1 where "st1 = (if heading_of (ls ! j) \<noteq> None \<and> ms_lines st \<noteq> []
    then st\<lparr>ms_sections := ms_sections st @
      split_bounded (join [CHR 0x0A] (ms_lines st)) (ms_heading st) (ms_start st), ms_lines := []\<rparr> else st)"
  have st1: "markdown_ok ls j st1" "heading_of (ls ! j) = None \<or> ms_lines st1 = []"
    using assms(1) markdown_flush_ok [OF assms(1)] by (auto simp: st1_def)
  have step: "markdown_line st (int j + 1, ls ! j) = (let st2 = (case heading_of (ls ! j) of None \<Rightarrow> st1
      | Some text \<Rightarrow> st1\<lparr>ms_heading := take 256 text, ms_start := int j + 1\<rparr>) in
      st2\<lparr>ms_lines := ms_lines st2 @ [ls ! j]\<rparr>)"
    unfolding markdown_line_def Let_def prod.case st1_def ..
  have line: "free_of_ends (ms_lines st1 @ [ls ! j])" "concat (take (Suc j) ls) = concat (take j ls) @ ls ! j"
    using st1(1) assms(2,3) by (auto simp: markdown_ok_def free_of_ends_def take_Suc_conv_app_nth)
  have pieces: "\<forall>p \<in> set (ms_sections st1). piece_in (int (Suc j)) p"
    using st1(1) piece_in_mono by (fastforce simp: markdown_ok_def)
  show ?thesis
    using st1 line pieces
    by (cases "heading_of (ls ! j)") (auto simp: step markdown_ok_def simp del: append_assoc simp: append_assoc [symmetric])
qed

lemma markdown_prefix_ok: "j \<le> length ls \<Longrightarrow> free_of_ends ls \<Longrightarrow> markdown_ok ls j (markdown_prefix ls j)"
proof (induction j)
  case 0
  then show ?case by (simp add: markdown_prefix_def markdown_ok_def free_of_ends_def)
next
  case (Suc j)
  have "markdown_prefix ls (Suc j) = markdown_line (markdown_prefix ls j) (int j + 1, ls ! j)"
    using Suc.prems(1) by (simp add: markdown_prefix_def numbered_def take_Suc_conv_app_nth)
  with markdown_line_ok [of ls j "markdown_prefix ls j"] Suc show ?case by simp
qed

lemma markdown_sections_ok:
  "(\<forall>p \<in> set (markdown_sections content). piece_in (int (length (split_lines content))) p) \<and>
   spelled (markdown_sections content) = concat (split_lines content)"
proof -
  let ?ls = "split_lines content"
  define st where "st = markdown_prefix ?ls (length ?ls)"
  have ok: "markdown_ok ?ls (length ?ls) st" unfolding st_def by (rule markdown_prefix_ok) (simp_all add: split_lines_free)
  have "markdown_sections content = (if ms_lines st \<noteq> []
      then ms_sections st @ split_bounded (join [CHR 0x0A] (ms_lines st)) (ms_heading st) (ms_start st)
      else ms_sections st)"
    by (simp add: markdown_sections_def st_def markdown_prefix_def numbered_def Let_def)
  with ok markdown_flush_ok [OF ok] show ?thesis
    by (cases "ms_lines st = []") (auto simp: markdown_ok_def)
qed

lemma fallback_sections_ok:
  "(\<forall>p \<in> set (split_bounded content h 1). piece_in (max 1 (int (length (split_lines content)))) p) \<and>
   spelled (split_bounded content h 1) = concat (split_lines content)"
proof -
  have "content = []" if "split_lines content = []"
    using that by (subst (asm) split_lines.simps) (simp add: Let_def split: if_splits)
  then have "int (length (lines_of content)) = max 1 (int (length (split_lines content)))"
    "concat (lines_of content) = concat (split_lines content)"
    by (auto simp: lines_of_def max_def Suc_le_eq not_le)
  with pieces_are_bounded_and_complete [of content h 1] show ?thesis
    by (fastforce simp: piece_in_def spelled_def)
qed

lemma python_sections_short: "(h, text, first, final) \<in> set (python_sections parse content) \<Longrightarrow> length text \<le> 4000"
  using pieces_are_bounded_and_complete
  by (fastforce simp: python_sections_def Let_def split: option.splits if_splits)

text \<open>What a chunk keeps of its section.\<close>

lemma source_chunk_fields:
  "source_chunk_of nfkc fold_case title strategy (i, h, text, first, final) = Inr c \<Longrightarrow>
   sc_sequence c = i \<and> sc_content c = text \<and> sc_start_line c = first \<and> sc_end_line c = final \<and>
   sc_content_sha256 c = sha256_hex (utf8 text)"
  by (auto simp: source_chunk_of_def and_then_Inr)

lemma chunks_of_sections:
  assumes "map_raise (source_chunk_of nfkc fold_case title strategy) (enumerate 0 ps) = Inr chunks"
  shows "length chunks = length ps" "map sc_sequence chunks = [0..<length ps]"
    "map sc_content chunks = map piece_text ps"
    "c \<in> set chunks \<Longrightarrow> \<exists>h. (h, sc_content c, sc_start_line c, sc_end_line c) \<in> set ps \<and>
       sc_content_sha256 c = sha256_hex (utf8 (sc_content c))"
proof -
  have all: "list_all2 (\<lambda>x y. source_chunk_of nfkc fold_case title strategy x = Inr y) (enumerate 0 ps) chunks"
    by (rule map_raise_Inr_nth [OF assms])
  then show len: "length chunks = length ps" by (auto dest: list_all2_lengthD)
  have nth: "sc_sequence (chunks ! i) = i \<and> sc_content (chunks ! i) = piece_text (ps ! i) \<and>
      (fst (ps ! i), sc_content (chunks ! i), sc_start_line (chunks ! i), sc_end_line (chunks ! i)) = ps ! i \<and>
      sc_content_sha256 (chunks ! i) = sha256_hex (utf8 (sc_content (chunks ! i)))" if "i < length ps" for i
  proof -
    obtain h t a b where p: "ps ! i = (h, t, a, b)" by (cases "ps ! i")
    have "source_chunk_of nfkc fold_case title strategy (i, h, t, a, b) = Inr (chunks ! i)"
      using list_all2_nthD [OF all, of i] that p by (simp add: nth_enumerate_eq)
    from source_chunk_fields [OF this] p show ?thesis by (simp add: piece_text_def)
  qed
  then show "map sc_sequence chunks = [0..<length ps]" "map sc_content chunks = map piece_text ps"
    using len by (auto intro!: nth_equalityI)
  show "\<exists>h. (h, sc_content c, sc_start_line c, sc_end_line c) \<in> set ps \<and>
      sc_content_sha256 c = sha256_hex (utf8 (sc_content c))" if "c \<in> set chunks"
  proof -
    from that len obtain i where i: "i < length ps" "c = chunks ! i" by (metis in_set_conv_nth)
    from nth [OF i(1)] i nth_mem [OF i(1)] show ?thesis by metis
  qed
qed

definition is_python :: "evidence_document \<Rightarrow> bool" where
  "is_python d \<longleftrightarrow> ed_source_type d = ST_PYTHON_SOURCE \<or> endswith (ed_source_id d) ''.py''"

lemma sections_of_ok:
  "\<not> is_python d \<Longrightarrow> p \<in> set (fst (sections_of parse d content)) \<Longrightarrow>
     piece_in (max 1 (int (length (split_lines content)))) p"
  "\<not> is_python d \<Longrightarrow> spelled (fst (sections_of parse d content)) = concat (split_lines content)"
  "(h, text, first, final) \<in> set (fst (sections_of parse d content)) \<Longrightarrow> length text \<le> 4000"
proof -
  note parts = markdown_sections_ok [of content] fallback_sections_ok [of content "ed_title d"]
  show "piece_in (max 1 (int (length (split_lines content)))) p"
    if "\<not> is_python d" "p \<in> set (fst (sections_of parse d content))"
    using that parts piece_in_mono [of "int (length (split_lines content))" p]
    by (fastforce simp: sections_of_def is_python_def split: if_splits)
  show "spelled (fst (sections_of parse d content)) = concat (split_lines content)" if "\<not> is_python d"
    using that parts by (simp add: sections_of_def is_python_def)
  show "length t \<le> 4000" if "(h, t, a, b) \<in> set (fst (sections_of parse d content))" for h t a b
    using that parts python_sections_short [of h t a b parse content]
    by (fastforce simp: sections_of_def piece_in_def split: if_splits)
qed

text \<open>
  C29: A document that is chunked has between one and 128 chunks, numbered in order from zero, each of
  at most 4000 characters and with the hash of its content. For every document but Python source the
  line range of each chunk lies inside the normalised text, and chunking loses no text: up to line
  ends, the chunks spell out the lines of the normalised text in order.
\<close>

theorem chunks_are_bounded_and_complete:
  assumes "chunk_document nfkc fold_case parse document = Inr chunks"
  shows "\<exists>content. normalize_source_text nfkc (ed_content document) = Inr content \<and>
    1 \<le> length chunks \<and> length chunks \<le> 128 \<and> map sc_sequence chunks = [0..<length chunks] \<and>
    (\<forall>c \<in> set chunks. length (sc_content c) \<le> 4000 \<and> sc_content_sha256 c = sha256_hex (utf8 (sc_content c))) \<and>
    (\<not> is_python document \<longrightarrow>
      (\<forall>c \<in> set chunks. 1 \<le> sc_start_line c \<and> sc_start_line c \<le> sc_end_line c \<and>
         sc_end_line c \<le> max 1 (int (length (split_lines content)))) \<and>
      visible (concat (map sc_content chunks)) = concat (split_lines content))"
proof -
  obtain content where content: "normalize_source_text nfkc (ed_content document) = Inr content"
      and count: "1 \<le> length (fst (sections_of parse document content))"
        "length (fst (sections_of parse document content)) \<le> 128"
      and chunks: "map_raise (source_chunk_of nfkc fold_case (ed_title document) (snd (sections_of parse document content)))
        (enumerate 0 (fst (sections_of parse document content))) = Inr chunks"
    using assms by (auto simp: chunk_document_def and_then_Inr Let_def MAX_CHUNKS_def split_def Suc_le_eq
        split: if_splits)
  let ?ps = "fst (sections_of parse document content)"
  note made = chunks_of_sections [OF chunks] and ok = sections_of_ok [where d = document and parse = parse and content = content]
  have "length (sc_content c) \<le> 4000 \<and> sc_content_sha256 c = sha256_hex (utf8 (sc_content c))" if "c \<in> set chunks" for c
    using made(4) [OF that] ok(3) by blast
  moreover have "1 \<le> sc_start_line c \<and> sc_start_line c \<le> sc_end_line c \<and>
      sc_end_line c \<le> max 1 (int (length (split_lines content)))" if "\<not> is_python document" "c \<in> set chunks" for c
    using made(4) [OF that(2)] ok(1) [OF that(1)] by (fastforce simp: piece_in_def)
  moreover have "visible (concat (map sc_content chunks)) = concat (split_lines content)" if "\<not> is_python document"
    using ok(2) [OF that] by (simp add: made(3) spelled_def)
  ultimately show ?thesis using content count made(1,2) by auto
qed

text \<open>
  Python source loses text: what stands between two definitions, a decorator or an assignment, is in no section.
\<close>

definition decorated_module :: string where
  "decorated_module = join [CHR 0x0A] [''def a(): pass'', ''LIMIT = 5'', ''@admin_only'', ''def b(): pass'']"

lemma python_sections_lose_text:
  "python_sections (\<lambda>_. Some [\<lparr>tn_is_class = False, tn_name = ''a'', tn_lineno = 1, tn_end_lineno = 1\<rparr>,
       \<lparr>tn_is_class = False, tn_name = ''b'', tn_lineno = 4, tn_end_lineno = 4\<rparr>]) decorated_module =
     [(''function a'', ''def a(): pass'', 1, 1), (''function b'', ''def b(): pass'', 4, 4)]"
  by code_simp

subsection \<open>After the first full chunk\<close>

lemma numbered_prefix_fits:
  assumes "j \<le> length ls" "\<forall>l \<in> set ls. length l \<le> MAX_CHUNK_CHARS"
    "length (join [CHR 0x0A] (take j ls)) \<le> MAX_CHUNK_CHARS"
  shows "split_prefix heading s ls j = \<lparr>ss_pieces = [], ss_current = take j ls, ss_start = s,
    ss_size = length (join [CHR 0x0A] (take j ls))\<rparr>"
  using assms
proof (induction j)
  case 0
  then show ?case by (simp add: split_prefix_0)
next
  case (Suc j)
  have j: "j < length ls" using Suc.prems(1) by simp
  have take: "take (Suc j) ls = take j ls @ [ls ! j]" using j by (simp add: take_Suc_conv_app_nth)
  have le: "length (join [CHR 0x0A] (take j ls)) \<le> MAX_CHUNK_CHARS"
    using Suc.prems(3) unfolding take length_join_snoc by (auto split: if_splits)
  have "length (ls ! j) \<le> MAX_CHUNK_CHARS" using Suc.prems(2) j by simp
  moreover have "split_prefix heading s ls j = \<lparr>ss_pieces = [], ss_current = take j ls, ss_start = s,
      ss_size = length (join [CHR 0x0A] (take j ls))\<rparr>"
    using Suc.IH Suc.prems(2) j le by simp
  moreover have "projected_size \<lparr>ss_pieces = [], ss_current = take j ls, ss_start = s,
      ss_size = length (join [CHR 0x0A] (take j ls))\<rparr> (ls ! j) = length (join [CHR 0x0A] (take (Suc j) ls))"
    unfolding take length_join_snoc by (simp add: projected_size_def)
  ultimately show ?case
    using Suc.prems(3) j take
    by (simp add: split_prefix_Suc split_line_def flush_full_def Let_def)
qed

definition one_line :: "string \<Rightarrow> int \<Rightarrow> string list \<Rightarrow> nat \<Rightarrow> chunk_section" where
  "one_line heading s ls i = (heading, ls ! i, s + int i, s + int i)"

lemma numbered_prefix_overflows:
  assumes k: "0 < k" "k \<le> j" "j < length ls" and short: "\<forall>l \<in> set ls. length l \<le> MAX_CHUNK_CHARS"
    and fits: "length (join [CHR 0x0A] (take k ls)) \<le> MAX_CHUNK_CHARS"
    and full: "length (join [CHR 0x0A] (take (Suc k) ls)) > MAX_CHUNK_CHARS"
  shows "\<exists>size. size > MAX_CHUNK_CHARS \<and> split_prefix heading s ls (Suc j) =
    \<lparr>ss_pieces = (heading, join [CHR 0x0A] (take k ls), s, s + int k - 1) # map (one_line heading s ls) [k..<j],
     ss_current = [ls ! j], ss_start = s + int j, ss_size = size\<rparr>"
  using k(2,3)
proof (induction j rule: dec_induct)
  case base
  have k': "k < length ls" using base by simp
  have take: "take (Suc k) ls = take k ls @ [ls ! k]" using k' by (simp add: take_Suc_conv_app_nth)
  have "length (ls ! k) \<le> MAX_CHUNK_CHARS" using short k' by simp
  moreover have "projected_size \<lparr>ss_pieces = [], ss_current = take k ls, ss_start = s,
      ss_size = length (join [CHR 0x0A] (take k ls))\<rparr> (ls ! k) = length (join [CHR 0x0A] (take (Suc k) ls))"
    unfolding take length_join_snoc by (simp add: projected_size_def)
  moreover have "take k ls \<noteq> []" using k(1) k' by auto
  ultimately show ?case
    using numbered_prefix_fits [OF less_imp_le [OF k'] short fits, of heading s] full k'
    by (simp add: split_prefix_Suc split_line_def flush_full_def flush_piece_def Let_def)
next
  case (step j)
  then obtain size where size: "size > MAX_CHUNK_CHARS" "split_prefix heading s ls (Suc j) =
    \<lparr>ss_pieces = (heading, join [CHR 0x0A] (take k ls), s, s + int k - 1) # map (one_line heading s ls) [k..<j],
     ss_current = [ls ! j], ss_start = s + int j, ss_size = size\<rparr>" by auto
  moreover have "length (ls ! Suc j) \<le> MAX_CHUNK_CHARS" using short step.prems by simp
  ultimately show ?case
    using step.prems step.hyps
    by (simp add: split_prefix_Suc [of "Suc j"] split_line_def flush_full_def flush_piece_def projected_size_def Let_def
      one_line_def)
qed

text \<open>
  When no line is longer than a chunk, the first chunk is the longest run of lines that fits
  4000 characters, and every later line is a chunk of its own, however short it is: the loop keeps the
  size from before the flush, so the next line seems to overflow again.
\<close>

theorem lines_after_first_chunk_stand_alone:
  assumes "\<forall>l \<in> set (lines_of content). length l \<le> 4000" "0 < k" "k < length (lines_of content)"
    "length (join [CHR 0x0A] (take k (lines_of content))) \<le> 4000"
    "length (join [CHR 0x0A] (take (Suc k) (lines_of content))) > 4000"
  shows "split_bounded content heading s =
    (heading, join [CHR 0x0A] (take k (lines_of content)), s, s + int k - 1) #
    map (\<lambda>i. (heading, lines_of content ! i, s + int i, s + int i)) [k..<length (lines_of content)]"
proof -
  let ?ls = "lines_of content"
  obtain n where n: "length ?ls = Suc n" "k \<le> n" using assms(3) by (cases "length ?ls") auto
  obtain size where "split_prefix heading s ?ls (Suc n) =
    \<lparr>ss_pieces = (heading, join [CHR 0x0A] (take k ?ls), s, s + int k - 1) # map (one_line heading s ?ls) [k..<n],
     ss_current = [?ls ! n], ss_start = s + int n, ss_size = size\<rparr>"
    using numbered_prefix_overflows [of k n ?ls heading s] assms n by (auto simp: MAX_CHUNK_CHARS_def)
  then show ?thesis
    using n by (simp add: split_bounded_prefix Let_def flush_piece_def one_line_def)
qed

subsection \<open>Concrete instances\<close>

definition three_lines :: string where
  "three_lines = join [CHR 0x0A] [replicate 3000 CHR ''a'', replicate 2000 CHR ''b'', ''c'']"

lemma three_lines: "lines_of three_lines = [replicate 3000 CHR ''a'', replicate 2000 CHR ''b'', ''c'']"
proof -
  have "split_lines three_lines = [replicate 3000 CHR ''a'', replicate 2000 CHR ''b'', ''c'']"
    unfolding three_lines_def by (rule split_lines_join) (auto simp: is_line_end_def code_def)
  then show ?thesis by (simp add: lines_of_def)
qed

text \<open>The second and the third line would fit one chunk.\<close>

theorem lines_after_first_chunk_stand_alone_witness:
  "split_bounded three_lines ''h'' 1 =
    [(''h'', replicate 3000 CHR ''a'', 1, 1), (''h'', replicate 2000 CHR ''b'', 2, 2), (''h'', ''c'', 3, 3)]"
  using lines_after_first_chunk_stand_alone [of three_lines 1 "''h''" 1]
  by (simp add: three_lines numeral_2_eq_2 upt_rec)

definition sample_runbook :: evidence_document where
  "sample_runbook = \<lparr>ed_source_type = ST_RUNBOOK, ed_source_id = ''r.md'', ed_source_version = ''1'', ed_title = ''t'',
     ed_content = join [CHR 0x0A] [''# One'', ''a'', ''# Two'', ''b''], ed_source_uri = ''u'', ed_approved = True,
     ed_retention_class = ''c''\<rparr>"

lemma sample_runbook_chunks:
  "\<exists>c d. chunk_document id id (\<lambda>_. None) sample_runbook = Inr [c, d] \<and> \<not> is_python sample_runbook"
proof -
  have content: "normalize_source_text id (ed_content sample_runbook) = Inr (ed_content sample_runbook)" by code_simp
  have "sections_of (\<lambda>_. None) sample_runbook (ed_content sample_runbook) =
      ([(''One'', join [CHR 0x0A] [''# One'', ''a''], 1, 2), (''Two'', join [CHR 0x0A] [''# Two'', ''b''], 3, 4)],
       CHUNKING_VERSION @ '':markdown-heading'')" by code_simp
  moreover obtain s1 s2 where "normalize_fts_text id id (join [CHR 0x0A] [''t'', ''One'', ''# One'', ''a'']) = Inr s1"
      "normalize_fts_text id id (join [CHR 0x0A] [''t'', ''Two'', ''# Two'', ''b'']) = Inr s2"
    by (simp add: normalize_fts_text_def normalize_source_text_def has_nul_def code_def Let_def)
  moreover have "\<not> is_python sample_runbook" by code_simp
  ultimately show ?thesis
    using content by (simp add: chunk_document_def source_chunk_of_def MAX_CHUNKS_def sample_runbook_def)
qed

theorem chunks_are_bounded_and_complete_witness:
  "\<exists>chunks. chunk_document id id (\<lambda>_. None) sample_runbook = Inr chunks \<and> length chunks = 2 \<and>
     visible (concat (map sc_content chunks)) = ''# Onea# Twob''"
proof -
  obtain c d where run: "chunk_document id id (\<lambda>_. None) sample_runbook = Inr [c, d]" "\<not> is_python sample_runbook"
    using sample_runbook_chunks by blast
  have content: "normalize_source_text id (ed_content sample_runbook) = Inr (ed_content sample_runbook)" by code_simp
  have "concat (split_lines (ed_content sample_runbook)) = ''# Onea# Twob''" by code_simp
  with chunks_are_bounded_and_complete [OF run(1)] run content show ?thesis by auto
qed

end
