(* ===== verification/RetrievalFusion.thy ===== *)
theory RetrievalFusion
  imports RetrievalText "HOL-Library.Product_Lexorder"
begin

section \<open>packages/retrieval_core/fusion.py: reciprocal-rank fusion\<close>

text \<open>
  The two dictionaries of the code are association lists in insertion order. Scores are rational
  numbers, so the sums of reciprocal ranks are exact. A reranker is a function of the query and the
  contents.
\<close>

definition RRF_K :: nat where "RRF_K = 60"

type_synonym candidate_dict = "(string \<times> chunk_candidate) list"
type_synonym score_dict = "(string \<times> rat) list"

subsection \<open>reciprocal_rank_fusion\<close>

definition score_or :: "rat option \<Rightarrow> rat" where
  "score_or score = (case score of None \<Rightarrow> 0 | Some v \<Rightarrow> v)"

definition add_score :: "nat \<Rightarrow> string \<Rightarrow> score_dict \<Rightarrow> score_dict" where
  "add_score rank i scores = dict_set i (score_or (map_of scores i) + 1 / of_nat (RRF_K + rank)) scores"

definition lexical_step :: "candidate_dict \<times> score_dict \<Rightarrow> nat \<times> chunk_candidate \<Rightarrow> candidate_dict \<times> score_dict" where
  "lexical_step st p = (let (rank, c) = p in
     (dict_set (cc_chunk_id c) (c\<lparr>cc_lexical_rank := Some rank\<rparr>) (fst st), add_score rank (cc_chunk_id c) (snd st)))"

definition semantic_step :: "candidate_dict \<times> score_dict \<Rightarrow> nat \<times> chunk_candidate \<Rightarrow> candidate_dict \<times> score_dict" where
  "semantic_step st p = (let (rank, c) = p in
     (dict_set (cc_chunk_id c) (case map_of (fst st) (cc_chunk_id c) of
          None \<Rightarrow> c\<lparr>cc_semantic_rank := Some rank\<rparr>
        | Some current \<Rightarrow> current\<lparr>cc_semantic_score := cc_semantic_score c, cc_semantic_rank := Some rank\<rparr>) (fst st),
      add_score rank (cc_chunk_id c) (snd st)))"

definition fusion_key :: "chunk_candidate \<Rightarrow> rat \<times> string" where
  "fusion_key c = (- score_or (cc_fusion_score c), cc_chunk_id c)"

definition fused :: "chunk_candidate list \<Rightarrow> chunk_candidate list \<Rightarrow> candidate_dict \<times> score_dict" where
  "fused lexical semantic =
     foldl semantic_step (foldl lexical_step ([], []) (enumerate 1 lexical)) (enumerate 1 semantic)"

definition reciprocal_rank_fusion ::
  "chunk_candidate list \<Rightarrow> chunk_candidate list \<Rightarrow> int \<Rightarrow> chunk_candidate list result" where
  "reciprocal_rank_fusion lexical semantic limit =
     (if \<not> (1 \<le> limit \<and> limit \<le> MAX_CANDIDATES)
      then Inl (ValueError ''fusion limit is outside the bounded contract'')
      else let (combined, scores) = fused lexical semantic;
               ranked = map (\<lambda>(i, c). c\<lparr>cc_fusion_score := map_of scores i\<rparr>) combined in
        Inr (take (nat limit) (sort_key fusion_key ranked)))"

subsection \<open>rerank_candidates\<close>

definition rerank_key :: "chunk_candidate \<Rightarrow> rat \<times> rat \<times> string" where
  "rerank_key c = (- score_or (cc_reranker_score c), - score_or (cc_fusion_score c), cc_chunk_id c)"

definition rerank_candidates ::
  "string \<Rightarrow> chunk_candidate list \<Rightarrow> (string \<Rightarrow> string list \<Rightarrow> rat list) \<Rightarrow> int \<Rightarrow> chunk_candidate list result" where
  "rerank_candidates query candidates score limit =
     (if \<not> (1 \<le> limit \<and> limit \<le> MAX_CANDIDATES) \<or> int (length candidates) > MAX_CANDIDATES
      then Inl (ValueError ''reranker candidate bounds were exceeded'')
      else let scores = score query (map cc_content candidates) in
        if length scores \<noteq> length candidates then Inl (ValueError ''reranker returned an invalid score contract'')
        else Inr (take (nat limit) (sort_key rerank_key
          (map (\<lambda>(c, s). c\<lparr>cc_reranker_score := Some s\<rparr>) (zip candidates scores)))))"

subsection \<open>The combined dictionary\<close>

text \<open>The sum of the reciprocal ranks of an identifier in a ranking.\<close>

definition rank_sum :: "(nat \<times> chunk_candidate) list \<Rightarrow> string \<Rightarrow> rat" where
  "rank_sum ranking i = sum_list (map (\<lambda>(rank, c). if cc_chunk_id c = i then 1 / of_nat (RRF_K + rank) else 0) ranking)"

definition same_text :: "chunk_candidate \<Rightarrow> chunk_candidate \<Rightarrow> bool" where
  "same_text c c' \<longleftrightarrow> cc_chunk_id c = cc_chunk_id c' \<and> cc_content c = cc_content c' \<and> cc_source_ref c = cc_source_ref c'"

definition fused_ok :: "(nat \<times> chunk_candidate) list \<Rightarrow> candidate_dict \<times> score_dict \<Rightarrow> bool" where
  "fused_ok seen st \<longleftrightarrow> wf_dict (fst st) \<and> keys (fst st) = keys (snd st) \<and>
     set (keys (fst st)) = cc_chunk_id ` snd ` set seen \<and>
     (\<forall>p \<in> set (fst st). cc_chunk_id (snd p) = fst p \<and> (\<exists>q \<in> set seen. same_text (snd p) (snd q))) \<and>
     (\<forall>i. score_or (map_of (snd st) i) = rank_sum seen i)"

lemma fused_okD:
  assumes "fused_ok seen st"
  shows "wf_dict (fst st)" "keys (fst st) = keys (snd st)" "set (keys (fst st)) = cc_chunk_id ` snd ` set seen"
    "p \<in> set (fst st) \<Longrightarrow> cc_chunk_id (snd p) = fst p"
    "p \<in> set (fst st) \<Longrightarrow> \<exists>q \<in> set seen. same_text (snd p) (snd q)"
    "score_or (map_of (snd st) i) = rank_sum seen i"
  using assms unfolding fused_ok_def by blast+

lemma keys_dict_set_eq: "keys d = keys e \<Longrightarrow> keys (dict_set k v d) = keys (dict_set k w e)"
proof (induction d arbitrary: e)
  case Nil
  then show ?case by (cases e) auto
next
  case (Cons p d)
  then show ?case by (cases e; cases p; cases "hd e") auto
qed

lemma set_dict_set: "p \<in> set (dict_set k v d) \<Longrightarrow> p = (k, v) \<or> p \<in> set d"
  by (induction d) (auto split: if_splits)

lemma fused_ok_step:
  assumes ok: "fused_ok seen st" and id: "cc_chunk_id new = cc_chunk_id c"
    and texts: "\<exists>q \<in> set (seen @ [(rank, c)]). same_text new (snd q)"
  shows "fused_ok (seen @ [(rank, c)])
    (dict_set (cc_chunk_id c) new (fst st), add_score rank (cc_chunk_id c) (snd st))"
proof -
  have "wf_dict (dict_set (cc_chunk_id c) new (fst st))"
    using ok by (simp add: fused_ok_def wf_dict_set)
  moreover have "keys (dict_set (cc_chunk_id c) new (fst st)) = keys (add_score rank (cc_chunk_id c) (snd st))"
    unfolding add_score_def by (rule keys_dict_set_eq) (use ok in \<open>simp add: fused_ok_def\<close>)
  moreover have "set (keys (dict_set (cc_chunk_id c) new (fst st))) = cc_chunk_id ` snd ` set (seen @ [(rank, c)])"
  proof -
    show ?thesis using fused_okD(3) [OF ok] by (simp add: keys_dict_set)
  qed
  moreover have "cc_chunk_id (snd p) = fst p \<and> (\<exists>q \<in> set (seen @ [(rank, c)]). same_text (snd p) (snd q))"
    if "p \<in> set (dict_set (cc_chunk_id c) new (fst st))" for p
  proof (cases "p = (cc_chunk_id c, new)")
    case True
    then show ?thesis using id texts by simp
  next
    case False
    then have "p \<in> set (fst st)" using set_dict_set [OF that] by blast
    then show ?thesis using fused_okD(4,5) [OF ok] by auto
  qed
  moreover have "score_or (map_of (add_score rank (cc_chunk_id c) (snd st)) i) = rank_sum (seen @ [(rank, c)]) i" for i
    using ok by (auto simp: fused_ok_def add_score_def map_of_dict_set rank_sum_def score_or_def)
  ultimately show ?thesis by (simp add: fused_ok_def)
qed

lemma fused_ok_lexical: "fused_ok seen st \<Longrightarrow> fused_ok (seen @ xs) (foldl lexical_step st xs)"
proof (induction xs arbitrary: seen st)
  case (Cons p xs)
  have "fused_ok (seen @ [p]) (lexical_step st p)"
    using fused_ok_step [OF Cons.prems] by (cases p) (simp add: lexical_step_def same_text_def)
  then show ?case using Cons.IH [of "seen @ [p]"] by simp
qed simp

lemma fused_ok_semantic: "fused_ok seen st \<Longrightarrow> fused_ok (seen @ xs) (foldl semantic_step st xs)"
proof (induction xs arbitrary: seen st)
  case (Cons p xs)
  obtain rank c where p: "p = (rank, c)" by (cases p)
  define e' where "e' = (case map_of (fst st) (cc_chunk_id c) of None \<Rightarrow> c\<lparr>cc_semantic_rank := Some rank\<rparr>
    | Some e \<Rightarrow> e\<lparr>cc_semantic_score := cc_semantic_score c, cc_semantic_rank := Some rank\<rparr>)"
  have "cc_chunk_id e' = cc_chunk_id c \<and> (\<exists>q \<in> set (seen @ [(rank, c)]). same_text e' (snd q))"
  proof (cases "map_of (fst st) (cc_chunk_id c)")
    case None
    then show ?thesis by (simp add: e'_def same_text_def)
  next
    case (Some e)
    then have "(cc_chunk_id c, e) \<in> set (fst st)" by (rule map_of_SomeD)
    note e = fused_okD(4,5) [OF Cons.prems this, simplified]
    have "same_text (e\<lparr>cc_semantic_score := cc_semantic_score c, cc_semantic_rank := Some rank\<rparr>) x \<longleftrightarrow> same_text e x" for x
      by (simp add: same_text_def)
    then show ?thesis using e by (simp add: e'_def Some)
  qed
  then have "fused_ok (seen @ [(rank, c)])
      (dict_set (cc_chunk_id c) e' (fst st), add_score rank (cc_chunk_id c) (snd st))"
    by (intro fused_ok_step [OF Cons.prems]) blast+
  then have "fused_ok (seen @ [p]) (semantic_step st p)" by (simp add: p semantic_step_def e'_def)
  then show ?case using Cons.IH [of "seen @ [p]"] by simp
qed simp

lemma fused_is_ok: "fused_ok (enumerate 1 lexical @ enumerate 1 semantic) (fused lexical semantic)"
proof -
  have "fused_ok [] ([], [])" by (simp add: fused_ok_def wf_dict_def rank_sum_def score_or_def)
  then show ?thesis
    unfolding fused_def by (metis append_Nil fused_ok_lexical fused_ok_semantic)
qed

subsection \<open>The ranking\<close>

definition rr_score :: "chunk_candidate list \<Rightarrow> chunk_candidate list \<Rightarrow> string \<Rightarrow> rat" where
  "rr_score lexical semantic i = rank_sum (enumerate 1 lexical) i + rank_sum (enumerate 1 semantic) i"

lemma rank_sum_append: "rank_sum (xs @ ys) i = rank_sum xs i + rank_sum ys i"
  by (simp add: rank_sum_def)

lemma rank_sum_distinct:
  assumes "distinct (map cc_chunk_id cs)" "j < length cs"
  shows "rank_sum (enumerate k cs) (cc_chunk_id (cs ! j)) = 1 / of_nat (RRF_K + k + j)"
  using assms
proof (induction cs arbitrary: k j)
  case (Cons c cs)
  have none: "rank_sum (enumerate m ds) i = 0" if "i \<notin> cc_chunk_id ` set ds" for m ds i
    using that by (induction ds arbitrary: m) (auto simp: rank_sum_def)
  show ?case
  proof (cases j)
    case 0
    then show ?thesis using none [of "cc_chunk_id c" cs "Suc k"] Cons.prems by (simp add: rank_sum_def)
  next
    case (Suc m)
    then have "cs ! m \<in> set cs" using Cons.prems(2) by simp
    then have "cc_chunk_id (cs ! m) \<noteq> cc_chunk_id c" using Cons.prems(1) by (metis distinct.simps(2) image_eqI list.set_map list.simps(9))
    then show ?thesis using Cons.IH [of m "Suc k"] Cons.prems Suc by (simp add: rank_sum_def)
  qed
qed simp

lemma lexical_order_sorted:
  assumes "distinct (map cc_chunk_id cs)"
  shows "sorted (map (\<lambda>i. (- rank_sum (enumerate 1 cs) i, i)) (map cc_chunk_id cs))"
proof -
  have "- rank_sum (enumerate 1 cs) (cc_chunk_id (cs ! j)) < - rank_sum (enumerate 1 cs) (cc_chunk_id (cs ! l))"
    if "j < l" "l < length cs" for j l
    using that assms rank_sum_distinct [of cs j 1] rank_sum_distinct [of cs l 1]
    by (simp add: frac_less2 del: of_nat_add)
  then show ?thesis by (auto simp: sorted_iff_nth_mono_less less_eq_prod_def)
qed

definition ranking :: "chunk_candidate list \<Rightarrow> chunk_candidate list \<Rightarrow> chunk_candidate list" where
  "ranking lexical semantic = (let (combined, scores) = fused lexical semantic in
     sort_key fusion_key (map (\<lambda>(i, c). c\<lparr>cc_fusion_score := map_of scores i\<rparr>) combined))"

lemma ranking_eq: "ranking lexical semantic = sort_key fusion_key
    (map (\<lambda>p. (snd p)\<lparr>cc_fusion_score := map_of (snd (fused lexical semantic)) (fst p)\<rparr>) (fst (fused lexical semantic)))"
  by (simp add: ranking_def case_prod_unfold Let_def)

lemma snd_enumerate: "snd ` set (enumerate k cs) = set cs"
  by (metis list.set_map map_snd_enumerate)

lemma ranking_ids:
  "distinct (map cc_chunk_id (ranking lexical semantic))"
  "cc_chunk_id ` set (ranking lexical semantic) = cc_chunk_id ` (set lexical \<union> set semantic)"
proof -
  let ?d = "fst (fused lexical semantic)"
  define xs where "xs = map (\<lambda>p. (snd p)\<lparr>cc_fusion_score := map_of (snd (fused lexical semantic)) (fst p)\<rparr>) ?d"
  note ok = fused_okD [OF fused_is_ok [of lexical semantic]]
  have ids: "map cc_chunk_id xs = keys ?d"
    unfolding xs_def keys_def map_map by (rule map_cong) (simp_all add: ok(4))
  then have "distinct (map cc_chunk_id xs)" using ok(1) by (simp add: wf_dict_def)
  then show "distinct (map cc_chunk_id (ranking lexical semantic))" by (simp add: distinct_map ranking_eq xs_def [symmetric])
  have "cc_chunk_id ` set xs = set (keys ?d)" using ids by (metis list.set_map)
  then show "cc_chunk_id ` set (ranking lexical semantic) = cc_chunk_id ` (set lexical \<union> set semantic)"
    using ok(3) by (simp add: ranking_eq xs_def [symmetric] image_Un snd_enumerate)
qed

lemma ranking_texts:
  assumes "c \<in> set (ranking lexical semantic)"
  shows "\<exists>c' \<in> set lexical \<union> set semantic. same_text c c'"
proof -
  from assms obtain p where p: "p \<in> set (fst (fused lexical semantic))"
    "c = (snd p)\<lparr>cc_fusion_score := map_of (snd (fused lexical semantic)) (fst p)\<rparr>" by (auto simp: ranking_eq)
  obtain q where "q \<in> set (enumerate 1 lexical @ enumerate 1 semantic)" "same_text (snd p) (snd q)"
    using fused_okD(5) [OF fused_is_ok p(1)] by blast
  moreover from this(1) have "snd q \<in> set lexical \<union> set semantic"
    using snd_enumerate [of 1 lexical] snd_enumerate [of 1 semantic] by auto
  ultimately show ?thesis using p(2) by (auto simp: same_text_def)
qed

lemma ranking_keys: "map fusion_key (ranking lexical semantic) =
    map (\<lambda>c. (- rr_score lexical semantic (cc_chunk_id c), cc_chunk_id c)) (ranking lexical semantic)"
proof (rule map_cong [OF refl])
  fix c
  assume "c \<in> set (ranking lexical semantic)"
  then obtain p where "p \<in> set (fst (fused lexical semantic))"
    "c = (snd p)\<lparr>cc_fusion_score := map_of (snd (fused lexical semantic)) (fst p)\<rparr>" by (auto simp: ranking_eq)
  then show "fusion_key c = (- rr_score lexical semantic (cc_chunk_id c), cc_chunk_id c)"
    using fused_okD(4,6) [OF fused_is_ok [of lexical semantic]]
    by (simp add: fusion_key_def rr_score_def rank_sum_append)
qed

lemma ranking_sorted: "sorted (map fusion_key (ranking lexical semantic))"
  by (simp add: ranking_eq)

lemma ranking_without_semantic:
  assumes "distinct (map cc_chunk_id lexical)"
  shows "map cc_chunk_id (ranking lexical []) = map cc_chunk_id lexical"
proof -
  let ?k = "\<lambda>i. (- rank_sum (enumerate 1 lexical) i, i)" and ?r = "ranking lexical []"
  have eq: "map fusion_key ?r = map ?k (map cc_chunk_id ?r)"
    by (simp add: ranking_keys rr_score_def rank_sum_def)
  have ds: "distinct (map ?k (map cc_chunk_id ?r))" "distinct (map ?k (map cc_chunk_id lexical))"
    using ranking_ids(1) [of lexical "[]"] assms by (auto simp: distinct_map inj_on_def)
  have ids: "set (map cc_chunk_id ?r) = set (map cc_chunk_id lexical)"
    using ranking_ids(2) [of lexical "[]"] by simp
  have "set (map ?k (map cc_chunk_id ?r)) = set (map ?k (map cc_chunk_id lexical))"
    unfolding list.set_map [of ?k] ids ..
  then have "map ?k (map cc_chunk_id ?r) = map ?k (map cc_chunk_id lexical)"
    by (rule sorted_distinct_set_unique [OF ranking_sorted [of lexical "[]", unfolded eq] ds(1) lexical_order_sorted [OF assms] ds(2)])
  then have "map snd (map ?k (map cc_chunk_id ?r)) = map snd (map ?k (map cc_chunk_id lexical))" by simp
  then show ?thesis by (simp add: comp_def)
qed

text \<open>
  Reciprocal-rank fusion returns the first \<open>limit\<close> candidates of one ranking: every chunk of the two
  lists occurs in it once, with a text that was given for it, its score is the sum of the
  reciprocal ranks 1/(60 + rank) over both lists, and the order is by falling score and then by
  identifier. Without semantic results the ranking keeps the lexical order.
\<close>

theorem fusion_ranks_by_reciprocal_rank:
  assumes "1 \<le> limit" "limit \<le> 50"
  shows "\<exists>ranked. reciprocal_rank_fusion lexical semantic limit = Inr (take (nat limit) ranked) \<and>
    distinct (map cc_chunk_id ranked) \<and>
    cc_chunk_id ` set ranked = cc_chunk_id ` (set lexical \<union> set semantic) \<and>
    (\<forall>c \<in> set ranked. \<exists>c' \<in> set lexical \<union> set semantic. same_text c c') \<and>
    map fusion_key ranked = map (\<lambda>c. (- rr_score lexical semantic (cc_chunk_id c), cc_chunk_id c)) ranked \<and>
    sorted (map fusion_key ranked) \<and>
    (semantic = [] \<and> distinct (map cc_chunk_id lexical) \<longrightarrow> map cc_chunk_id ranked = map cc_chunk_id lexical)"
proof -
  have "reciprocal_rank_fusion lexical semantic limit = Inr (take (nat limit) (ranking lexical semantic))"
    using assms by (simp add: reciprocal_rank_fusion_def MAX_CANDIDATES_def ranking_def split: prod.split)
  then show ?thesis
    using ranking_ids [of lexical semantic] ranking_texts [of _ lexical semantic] ranking_keys [of lexical semantic]
      ranking_sorted [of lexical semantic] ranking_without_semantic [of lexical]
    by (intro exI [of _ "ranking lexical semantic"]) blast
qed

subsection \<open>A concrete fusion\<close>

definition candidate_named :: "string \<Rightarrow> chunk_candidate" where
  "candidate_named i = \<lparr>cc_chunk_id = i, cc_content = [], cc_source_ref = [], cc_lexical_score = None,
     cc_semantic_score = None, cc_lexical_rank = None, cc_semantic_rank = None, cc_fusion_score = None,
     cc_reranker_score = None\<rparr>"

theorem fusion_ranks_by_reciprocal_rank_witness:
  "\<exists>ranked. reciprocal_rank_fusion [candidate_named ''b'', candidate_named ''a''] [] 1 = Inr (take 1 ranked) \<and>
     map cc_chunk_id ranked = [''b'', ''a'']"
proof -
  let ?l = "[candidate_named ''b'', candidate_named ''a'']"
  have l: "distinct (map cc_chunk_id ?l)" "map cc_chunk_id ?l = [''b'', ''a'']" by (simp_all add: candidate_named_def)
  have "(1::int) \<le> 50" by simp
  then obtain ranked where "reciprocal_rank_fusion ?l [] 1 = Inr (take (nat 1) ranked)"
    "[] = ([] :: chunk_candidate list) \<and> distinct (map cc_chunk_id ?l) \<longrightarrow> map cc_chunk_id ranked = map cc_chunk_id ?l"
    using fusion_ranks_by_reciprocal_rank [of 1 ?l "[]", OF order_refl] by blast
  then show ?thesis using l by (intro exI [of _ ranked]) simp
qed

end
