(* ===== verification/GithubTokens.thy ===== *)
theory GithubTokens
  imports ChangeContracts
begin

section \<open>packages/github_contracts/auth.py: the installation-token cache\<close>

text \<open>
  The cache is an \<open>OrderedDict\<close>: an association list from the least to the most recently used entry.
  A minter may raise; the state is returned with every result, so a raise leaves it visible. The
  step relation \<open>cache_step\<close> lets any minter, clock and order of calls occur.
\<close>

subsection \<open>InstallationToken\<close>

record installation_token =
  it_value :: string
  it_expires_at :: datetime

definition blank_char :: "char \<Rightarrow> bool" where
  "blank_char c = (let n = code c in 9 \<le> n \<and> n \<le> 13 \<or> 28 \<le> n \<and> n \<le> 32 \<or> n = 133 \<or> n = 160)"

definition installation_token_post_init :: "installation_token \<Rightarrow> exn option" where
  "installation_token_post_init t = first_raise [
     raise_if (length (it_value t) < 16 \<or> list_ex blank_char (it_value t))
       (ValueError ''installation token does not satisfy the bounded token contract''),
     raise_if (\<not> is_aware (it_expires_at t)) (ValueError ''installation token expiry must be timezone-aware'')]"

subsection \<open>OrderedDict\<close>

fun assign :: "'k \<Rightarrow> 'v \<Rightarrow> ('k \<times> 'v) list \<Rightarrow> ('k \<times> 'v) list" where
  "assign k v [] = [(k, v)]"
| "assign k v (p # d) = (if fst p = k then (k, v) # d else p # assign k v d)"

definition remove_key :: "'k \<Rightarrow> ('k \<times> 'v) list \<Rightarrow> ('k \<times> 'v) list" where
  "remove_key k d = filter (\<lambda>p. fst p \<noteq> k) d"

definition move_to_end :: "'k \<Rightarrow> ('k \<times> 'v) list \<Rightarrow> ('k \<times> 'v) list" where
  "move_to_end k d = remove_key k d @ filter (\<lambda>p. fst p = k) d"

fun evict :: "nat \<Rightarrow> ('k \<times> 'v) list \<Rightarrow> ('k \<times> 'v) list" where
  "evict limit [] = []"
| "evict limit (p # d) = (if length (p # d) > limit then evict limit d else p # d)"

subsection \<open>InstallationTokenCache\<close>

record token_cache =
  tc_maximum_entries :: nat
  tc_expiry_skew :: int
  tc_tokens :: "(int \<times> installation_token) list"

text \<open>\<open>expiry_skew or timedelta(seconds=60)\<close>: a zero skew is falsy, so it becomes a minute as well.\<close>

definition token_cache_init :: "int \<Rightarrow> int option \<Rightarrow> token_cache result" where
  "token_cache_init maximum_entries expiry_skew =
     (if maximum_entries < 1 \<or> maximum_entries > 1024
      then Inl (ValueError ''maximum_entries must be between 1 and 1024'')
      else Inr \<lparr>tc_maximum_entries = nat maximum_entries,
        tc_expiry_skew = (case expiry_skew of None \<Rightarrow> 60000000 | Some d \<Rightarrow> if d = 0 then 60000000 else d),
        tc_tokens = []\<rparr>)"

type_synonym token_minter = "int \<Rightarrow> string \<Rightarrow> installation_token result"

definition get_guard :: "int \<Rightarrow> string \<Rightarrow> datetime \<Rightarrow> exn option" where
  "get_guard installation_id credential_reference now = first_raise [
     raise_if (installation_id < 1) (ValueError ''installation_id must be positive''),
     raise_if (credential_reference = [] \<or> length credential_reference > 512)
       (ValueError ''credential_reference must be a bounded non-secret reference''),
     raise_if (\<not> is_aware now) (ValueError ''now must be timezone-aware'')]"

definition still_fresh :: "token_cache \<Rightarrow> datetime \<Rightarrow> installation_token \<Rightarrow> bool result" where
  "still_fresh cache now token = earlier (plus_duration now (tc_expiry_skew cache)) (it_expires_at token)"

definition cached_hit :: "token_cache \<Rightarrow> int \<Rightarrow> datetime \<Rightarrow> installation_token option result" where
  "cached_hit cache installation_id now = (case map_of (tc_tokens cache) installation_id of
      None \<Rightarrow> Inr None
    | Some cached \<Rightarrow> and_then (still_fresh cache now cached) (\<lambda>fresh. Inr (if fresh then Some cached else None)))"

definition mint_fresh :: "token_cache \<Rightarrow> token_minter \<Rightarrow> int \<Rightarrow> string \<Rightarrow> datetime \<Rightarrow> installation_token result" where
  "mint_fresh cache minter installation_id reference now =
     and_then (minter installation_id reference) (\<lambda>token.
     and_then (still_fresh cache now token) (\<lambda>fresh.
       if fresh then Inr token else Inl (ValueError ''minted installation token expires too soon'')))"

definition store_token :: "int \<Rightarrow> installation_token \<Rightarrow> token_cache \<Rightarrow> token_cache" where
  "store_token installation_id token cache = cache\<lparr>tc_tokens :=
     evict (tc_maximum_entries cache) (move_to_end installation_id (assign installation_id token (tc_tokens cache)))\<rparr>"

definition get_or_mint ::
  "token_minter \<Rightarrow> int \<Rightarrow> string \<Rightarrow> datetime \<Rightarrow> token_cache \<Rightarrow> token_cache \<times> installation_token result" where
  "get_or_mint minter installation_id credential_reference now cache =
     (case get_guard installation_id credential_reference now of
        Some e \<Rightarrow> (cache, Inl e)
      | None \<Rightarrow> (case cached_hit cache installation_id now of
          Inl e \<Rightarrow> (cache, Inl e)
        | Inr (Some cached) \<Rightarrow> (cache\<lparr>tc_tokens := move_to_end installation_id (tc_tokens cache)\<rparr>, Inr cached)
        | Inr None \<Rightarrow> (case mint_fresh cache minter installation_id credential_reference now of
            Inl e \<Rightarrow> (cache, Inl e)
          | Inr token \<Rightarrow> (store_token installation_id token cache, Inr token))))"

definition revoke_token :: "int \<Rightarrow> token_cache \<Rightarrow> token_cache" where
  "revoke_token installation_id cache = cache\<lparr>tc_tokens := remove_key installation_id (tc_tokens cache)\<rparr>"

definition clear_tokens :: "token_cache \<Rightarrow> token_cache" where
  "clear_tokens cache = cache\<lparr>tc_tokens := []\<rparr>"

subsection \<open>A least-recently-used store of at most n entries\<close>

text \<open>
  What the cache relies on: a key that is touched, stored or removed has the value one expects, and
  no other key gains a value. Lookup is \<open>map_of\<close>.
\<close>

locale lru_store =
  fixes touch :: "'k \<Rightarrow> ('k \<times> 'v) list \<Rightarrow> ('k \<times> 'v) list"
    and store :: "nat \<Rightarrow> 'k \<Rightarrow> 'v \<Rightarrow> ('k \<times> 'v) list \<Rightarrow> ('k \<times> 'v) list"
    and remove :: "'k \<Rightarrow> ('k \<times> 'v) list \<Rightarrow> ('k \<times> 'v) list"
  assumes touch_lookup: "distinct (map fst d) \<Longrightarrow> map_of (touch k d) = map_of d"
    and touch_distinct: "distinct (map fst d) \<Longrightarrow> distinct (map fst (touch k d)) \<and> length (touch k d) = length d"
    and store_same: "distinct (map fst d) \<Longrightarrow> 0 < n \<Longrightarrow> map_of (store n k v d) k = Some v"
    and store_other: "distinct (map fst d) \<Longrightarrow> j \<noteq> k \<Longrightarrow> map_of (store n k v d) j = Some w \<Longrightarrow> map_of d j = Some w"
    and store_bounded: "distinct (map fst d) \<Longrightarrow> distinct (map fst (store n k v d)) \<and> length (store n k v d) \<le> n"
    and remove_lookup: "map_of (remove k d) j = (if j = k then None else map_of d j)"
    and remove_distinct: "distinct (map fst d) \<Longrightarrow> distinct (map fst (remove k d)) \<and> length (remove k d) \<le> length d"
begin

definition good :: "nat \<Rightarrow> ('k \<Rightarrow> 'v \<Rightarrow> bool) \<Rightarrow> ('k \<times> 'v) list \<Rightarrow> bool" where
  "good n p d \<longleftrightarrow> distinct (map fst d) \<and> length d \<le> n \<and> (\<forall>k v. map_of d k = Some v \<longrightarrow> p k v)"

lemma good_touch: "good n p d \<Longrightarrow> good n p (touch k d)"
  by (simp add: good_def touch_lookup touch_distinct)

lemma good_store: "good n p d \<Longrightarrow> 0 < n \<Longrightarrow> p k v \<Longrightarrow> good n p (store n k v d)"
  using store_bounded [of d n k v] store_same [of d n k v] store_other [of d _ k n v]
  unfolding good_def by (metis option.inject)

lemma good_remove: "good n p d \<Longrightarrow> good n (\<lambda>j v. j \<noteq> k \<and> p j v) (remove k d)"
  using remove_distinct [of d k] by (auto simp: good_def remove_lookup split: if_splits)

lemma good_mono: "good n p d \<Longrightarrow> (\<And>k v. p k v \<Longrightarrow> q k v) \<Longrightarrow> good n q d"
  by (auto simp: good_def)

end

lemma map_of_filter_key: "map_of (filter (\<lambda>p. fst p \<noteq> k) d) j = (if j = k then None else map_of d j)"
  by (induction d) auto

lemma map_of_filter_same: "map_of (filter (\<lambda>p. fst p = k) d) j = (if j = k then map_of d k else None)"
  by (induction d) auto

lemma map_of_move_to_end [simp]: "map_of (move_to_end k d) = map_of d"
  by (auto simp: fun_eq_iff move_to_end_def remove_key_def map_add_def map_of_filter_key map_of_filter_same
    split: option.split)

lemma keys_filter_same: "distinct (map fst d) \<Longrightarrow> distinct (map fst (filter f d))"
  by (simp add: distinct_map_filter)

lemma move_to_end_shape: "distinct (map fst d) \<Longrightarrow>
    distinct (map fst (move_to_end k d)) \<and> length (move_to_end k d) = length d"
  using sum_length_filter_compl [of "\<lambda>p. fst p = k" d]
  by (auto simp: move_to_end_def remove_key_def keys_filter_same)

lemma map_of_assign: "map_of (assign k v d) = (map_of d)(k \<mapsto> v)"
  by (induction d) (auto simp: fun_eq_iff)

lemma assign_keys: "fst ` set (assign k v d) = insert k (fst ` set d)"
  by (induction d) auto

lemma assign_distinct: "distinct (map fst d) \<Longrightarrow> distinct (map fst (assign k v d))"
  by (induction d) (auto simp: assign_keys)

lemma evict_drop: "evict n d = drop (length d - n) d"
proof (induction d)
  case (Cons p d)
  then show ?case by (simp add: Suc_diff_le not_less less_Suc_eq_le)
qed simp

definition lru_set :: "nat \<Rightarrow> 'k \<Rightarrow> 'v \<Rightarrow> ('k \<times> 'v) list \<Rightarrow> ('k \<times> 'v) list" where
  "lru_set n k v d = evict n (move_to_end k (assign k v d))"

lemma map_of_drop: "distinct (map fst d) \<Longrightarrow> map_of (drop m d) k = Some v \<Longrightarrow> map_of d k = Some v"
  by (metis in_set_dropD map_of_eq_Some_iff map_of_SomeD)

lemma filter_key: "distinct (map fst d) \<Longrightarrow> map_of d k = Some v \<Longrightarrow> filter (\<lambda>p. fst p = k) d = [(k, v)]"
proof (induction d)
  case (Cons p d)
  show ?case
  proof (cases "fst p = k")
    case True
    then have "k \<notin> fst ` set d" using Cons.prems(1) by simp
    then have "filter (\<lambda>p. fst p = k) d = []" by (metis (mono_tags, lifting) filter_False image_eqI)
    then show ?thesis using True Cons.prems(2) by (cases p) simp
  qed (use Cons in auto)
qed simp

interpretation tokens: lru_store move_to_end lru_set remove_key
proof
  fix d :: "('k \<times> 'v) list" and k j v w and n :: nat
  assume d: "distinct (map fst d)"
  show "map_of (move_to_end k d) = map_of d" by simp
  show "distinct (map fst (move_to_end k d)) \<and> length (move_to_end k d) = length d" by (rule move_to_end_shape [OF d])
  let ?m = "move_to_end k (assign k v d)"
  have m: "distinct (map fst ?m)" using move_to_end_shape [OF assign_distinct [OF d]] by blast
  show "distinct (map fst (lru_set n k v d)) \<and> length (lru_set n k v d) \<le> n"
    using m by (simp add: lru_set_def evict_drop drop_map [symmetric] del: drop_map)
  show "map_of d j = Some w" if "j \<noteq> k" "map_of (lru_set n k v d) j = Some w"
    using map_of_drop [OF m that(2) [unfolded lru_set_def evict_drop]] that(1) by (simp add: map_of_assign)
  show "map_of (lru_set n k v d) k = Some v" if "0 < n"
  proof -
    have "filter (\<lambda>p. fst p = k) (assign k v d) = [(k, v)]"
      by (rule filter_key [OF assign_distinct [OF d]]) (simp add: map_of_assign)
    then have "?m = remove_key k (assign k v d) @ [(k, v)]" by (simp add: move_to_end_def)
    then have "(k, v) \<in> set (evict n ?m)" using that by (simp add: evict_drop)
    moreover have "distinct (map fst (evict n ?m))" using m by (simp add: evict_drop drop_map [symmetric] del: drop_map)
    ultimately show ?thesis by (simp add: lru_set_def)
  qed
  show "distinct (map fst (remove_key k d)) \<and> length (remove_key k d) \<le> length d"
    using keys_filter_same [OF d] by (simp add: remove_key_def)
next
  fix d :: "('k \<times> 'v) list" and k j
  show "map_of (remove_key k d) j = (if j = k then None else map_of d j)"
    by (simp add: remove_key_def map_of_filter_key)
qed

lemma store_token_lru: "tc_tokens (store_token i t c) = lru_set (tc_maximum_entries c) i t (tc_tokens c)"
  by (simp add: store_token_def lru_set_def)

subsection \<open>Runs\<close>

text \<open>
  What an observer of the cache sees: the tokens minted and served, revocations and clearings. A call
  that raises leaves no event and, as the first lemma says, no change.
\<close>

datatype cache_event =
    Minted int installation_token
  | Served int installation_token datetime
  | Revoked int
  | Cleared

lemma get_or_mint_raises: "get_or_mint minter i r now c = (c', Inl e) \<Longrightarrow> c' = c"
  by (auto simp: get_or_mint_def split: option.splits sum.splits)

inductive cache_run :: "token_cache \<Rightarrow> cache_event list \<Rightarrow> token_cache \<Rightarrow> bool" for c0 where
  start: "cache_run c0 [] c0"
| hit: "cache_run c0 es c \<Longrightarrow> get_guard i r now = None \<Longrightarrow> cached_hit c i now = Inr (Some t) \<Longrightarrow>
    get_or_mint minter i r now c = (c', Inr t) \<Longrightarrow> cache_run c0 (es @ [Served i t now]) c'"
| mint: "cache_run c0 es c \<Longrightarrow> get_guard i r now = None \<Longrightarrow> cached_hit c i now = Inr None \<Longrightarrow>
    get_or_mint minter i r now c = (c', Inr t) \<Longrightarrow> cache_run c0 (es @ [Minted i t, Served i t now]) c'"
| refuse: "cache_run c0 es c \<Longrightarrow> get_or_mint minter i r now c = (c', Inl e) \<Longrightarrow> cache_run c0 es c'"
| revoke: "cache_run c0 es c \<Longrightarrow> cache_run c0 (es @ [Revoked i]) (revoke_token i c)"
| clear: "cache_run c0 es c \<Longrightarrow> cache_run c0 (es @ [Cleared]) (clear_tokens c)"

text \<open>Every call of \<open>get_or_mint\<close> is one of the steps.\<close>

lemma get_or_mint_is_step:
  assumes "cache_run c0 es c"
  shows "\<exists>es'. cache_run c0 (es @ es') (fst (get_or_mint minter i r now c))"
proof (cases "get_or_mint minter i r now c")
  case (Pair c' res)
  show ?thesis
  proof (cases res)
    case (Inl e)
    then show ?thesis using cache_run.refuse [OF assms, of minter i r now c' e] Pair by (metis append_Nil2 fst_conv)
  next
    case (Inr t)
    have guard: "get_guard i r now = None" using Pair Inr by (auto simp: get_or_mint_def split: option.splits)
    obtain h where h: "cached_hit c i now = Inr h"
      using Pair Inr guard by (cases "cached_hit c i now") (auto simp: get_or_mint_def)
    show ?thesis
    proof (cases h)
      case None
      then show ?thesis using cache_run.mint [OF assms guard] h Pair Inr by (metis fst_conv)
    next
      case (Some t')
      then have "t' = t" using Pair Inr guard h by (simp add: get_or_mint_def)
      then show ?thesis using cache_run.hit [OF assms guard] h Some Pair Inr by (metis fst_conv)
    qed
  qed
qed

definition minted_since :: "cache_event list \<Rightarrow> int \<Rightarrow> installation_token \<Rightarrow> bool" where
  "minted_since es i t \<longleftrightarrow> (\<exists>xs ys. es = xs @ Minted i t # ys \<and> Revoked i \<notin> set ys \<and> Cleared \<notin> set ys)"

lemma minted_since_append:
  "minted_since es i t \<Longrightarrow> Revoked i \<notin> set fs \<Longrightarrow> Cleared \<notin> set fs \<Longrightarrow> minted_since (es @ fs) i t"
  by (fastforce simp: minted_since_def)

lemma minted_now: "Revoked i \<notin> set fs \<Longrightarrow> Cleared \<notin> set fs \<Longrightarrow> minted_since (es @ Minted i t # fs) i t"
  by (auto simp: minted_since_def)

definition serves_well :: "int \<Rightarrow> cache_event list \<Rightarrow> bool" where
  "serves_well skew es \<longleftrightarrow> (\<forall>n < length es. case es ! n of
      Served i t now \<Rightarrow> minted_since (take n es) i t \<and> instant now + skew < instant (it_expires_at t)
    | _ \<Rightarrow> True)"

lemma serves_well_snoc:
  "serves_well skew (es @ [e]) \<longleftrightarrow> serves_well skew es \<and>
    (case e of Served i t now \<Rightarrow> minted_since es i t \<and> instant now + skew < instant (it_expires_at t) | _ \<Rightarrow> True)"
  by (auto simp: serves_well_def All_less_Suc nth_append split: cache_event.split)

lemma still_fresh_instant: "still_fresh c now t = Inr True \<Longrightarrow> instant now + tc_expiry_skew c < instant (it_expires_at t)"
  by (cases now) (auto simp: still_fresh_def earlier_def split: if_splits)

lemma hit_facts:
  assumes "get_guard i r now = None" "cached_hit c i now = Inr (Some t)"
  shows "get_or_mint minter i r now c = (c\<lparr>tc_tokens := move_to_end i (tc_tokens c)\<rparr>, Inr t)"
    "map_of (tc_tokens c) i = Some t" "instant now + tc_expiry_skew c < instant (it_expires_at t)"
  using assms still_fresh_instant [of c now t]
  by (auto simp: get_or_mint_def cached_hit_def and_then_Inr split: option.splits if_splits)

lemma mint_facts:
  assumes "get_guard i r now = None" "cached_hit c i now = Inr None" "get_or_mint minter i r now c = (c', Inr t)"
  shows "c' = store_token i t c" "minter i r = Inr t" "instant now + tc_expiry_skew c < instant (it_expires_at t)"
  using assms still_fresh_instant [of c now t]
  by (auto simp: get_or_mint_def mint_fresh_def and_then_Inr split: sum.splits if_splits)

definition run_ok :: "token_cache \<Rightarrow> cache_event list \<Rightarrow> token_cache \<Rightarrow> bool" where
  "run_ok c0 es c \<longleftrightarrow> tc_maximum_entries c = tc_maximum_entries c0 \<and> tc_expiry_skew c = tc_expiry_skew c0 \<and>
     tokens.good (tc_maximum_entries c0) (minted_since es) (tc_tokens c) \<and> serves_well (tc_expiry_skew c0) es"

lemma cache_run_ok:
  assumes "cache_run c0 es c" "tc_tokens c0 = []" "0 < tc_maximum_entries c0"
  shows "run_ok c0 es c"
  using assms(1)
proof (induction rule: cache_run.induct)
  case start
  then show ?case using assms(2) by (simp add: run_ok_def tokens.good_def serves_well_def)
next
  case (hit es c i r now t minter c')
  note f = hit_facts [OF hit.hyps(2,3)]
  have "tokens.good (tc_maximum_entries c0) (minted_since (es @ [Served i t now])) (move_to_end i (tc_tokens c))"
    by (rule tokens.good_touch [OF tokens.good_mono [where p = "minted_since es"]])
      (use hit.IH in \<open>auto simp: run_ok_def intro: minted_since_append\<close>)
  moreover have "minted_since es i t" using hit.IH f(2) by (simp add: run_ok_def tokens.good_def)
  moreover have "c' = c\<lparr>tc_tokens := move_to_end i (tc_tokens c)\<rparr>"
    using hit.hyps(4) f(1) by (metis prod.inject)
  ultimately show ?case using hit.IH f(3) by (simp add: run_ok_def serves_well_snoc)
next
  case (mint es c i r now minter c' t)
  note f = mint_facts [OF mint.hyps(2-4)]
  have es: "es @ [Minted i t, Served i t now] = (es @ [Minted i t]) @ [Served i t now]" by simp
  have "tokens.good (tc_maximum_entries c0) (minted_since (es @ [Minted i t, Served i t now]))
      (lru_set (tc_maximum_entries c0) i t (tc_tokens c))"
    by (rule tokens.good_store [OF tokens.good_mono [where p = "minted_since es"]])
      (use mint.IH assms(3) in \<open>auto simp: run_ok_def intro: minted_since_append minted_now\<close>)
  moreover have "serves_well (tc_expiry_skew c0) (es @ [Minted i t, Served i t now])"
    using mint.IH f(3) minted_now [of i "[]" es t] unfolding es serves_well_snoc by (simp add: run_ok_def serves_well_snoc)
  ultimately show ?case
    using mint.IH f(1) by (simp add: run_ok_def store_token_lru) (simp add: store_token_def)
next
  case (refuse es c minter i r now c' e)
  then show ?case using get_or_mint_raises by metis
next
  case (revoke es c i)
  have "tokens.good (tc_maximum_entries c0) (minted_since (es @ [Revoked i])) (remove_key i (tc_tokens c))"
    by (rule tokens.good_mono [OF tokens.good_remove [where p = "minted_since es"]])
      (use revoke.IH in \<open>auto simp: run_ok_def intro!: minted_since_append\<close>)
  then show ?case using revoke.IH by (simp add: run_ok_def revoke_token_def serves_well_snoc)
next
  case (clear es c)
  then show ?case by (simp add: run_ok_def clear_tokens_def tokens.good_def serves_well_snoc)
qed

lemma served_again:
  assumes c: "distinct (map fst (tc_tokens c))" "0 < tc_maximum_entries c"
    and got: "get_or_mint minter i r now c = (c', Inr t)"
    and again: "get_guard i r' now' = None" "instant now' + tc_expiry_skew c < instant (it_expires_at t)"
  shows "snd (get_or_mint minter' i r' now' c') = Inr t"
proof -
  have guard: "get_guard i r now = None" using got by (auto simp: get_or_mint_def split: option.splits)
  then have aware: "is_aware now" "is_aware now'" using again(1) by (auto simp: get_guard_def)
  obtain h where h: "cached_hit c i now = Inr h"
    using got guard by (cases "cached_hit c i now") (auto simp: get_or_mint_def)
  have kept: "map_of (tc_tokens c') i = Some t \<and> tc_expiry_skew c' = tc_expiry_skew c \<and> is_aware (it_expires_at t)"
  proof (cases h)
    case None
    note f = mint_facts [OF guard h [unfolded None] got]
    have "still_fresh c now t = Inr True"
      using got guard h None by (auto simp: get_or_mint_def mint_fresh_def and_then_Inr split: sum.splits if_splits)
    then have "is_aware (it_expires_at t)" using aware by (cases now) (auto simp: still_fresh_def earlier_def split: if_splits)
    then show ?thesis
      using f(1) tokens.store_same [OF c, of i t] by (simp add: store_token_lru [symmetric]) (simp add: store_token_def)
  next
    case (Some t')
    then have t': "t' = t" using got guard h by (simp add: get_or_mint_def)
    note f = hit_facts [OF guard h [unfolded Some t']]
    have "still_fresh c now t = Inr True"
      using h f(2) by (auto simp: cached_hit_def and_then_Inr Some t' split: if_splits)
    then have "is_aware (it_expires_at t)" using aware by (cases now) (auto simp: still_fresh_def earlier_def split: if_splits)
    moreover have "c' = c\<lparr>tc_tokens := move_to_end i (tc_tokens c)\<rparr>" using got f(1) by (metis prod.inject)
    ultimately show ?thesis using f(2) by simp
  qed
  then have "cached_hit c' i now' = Inr (Some t)"
    using again(2) aware(2) by (cases now') (simp_all add: cached_hit_def still_fresh_def earlier_def)
  then show ?thesis using hit_facts(1) [OF again(1)] by simp
qed

text \<open>
  C24: In every run of the cache, with any minters and any clock, at most the configured number of tokens
  is kept, one per installation; every token served was minted for that installation after its last
  revocation and the last clearing, and outlives the call by more than the skew; and a token that was
  just returned is returned again, whatever the minter, as long as it does.
\<close>

theorem cache_serves_only_live_tokens:
  assumes "token_cache_init maximum_entries expiry_skew = Inr c0" "cache_run c0 es c"
  shows "int (length (tc_tokens c)) \<le> maximum_entries \<and> distinct (map fst (tc_tokens c)) \<and>
    (\<forall>n < length es. case es ! n of
        Served i t now \<Rightarrow> minted_since (take n es) i t \<and> instant now + tc_expiry_skew c0 < instant (it_expires_at t)
      | _ \<Rightarrow> True) \<and>
    (\<forall>minter i r now c' t minter' r' now'. get_or_mint minter i r now c = (c', Inr t) \<and> get_guard i r' now' = None \<and>
       instant now' + tc_expiry_skew c0 < instant (it_expires_at t) \<longrightarrow> snd (get_or_mint minter' i r' now' c') = Inr t)"
proof -
  have c0: "tc_tokens c0 = []" "0 < tc_maximum_entries c0" "int (tc_maximum_entries c0) = maximum_entries"
    using assms(1) by (auto simp: token_cache_init_def split: if_splits)
  note ok = cache_run_ok [OF assms(2) c0(1,2)]
  then have "tc_maximum_entries c = tc_maximum_entries c0" "tc_expiry_skew c = tc_expiry_skew c0"
    "distinct (map fst (tc_tokens c))" "length (tc_tokens c) \<le> tc_maximum_entries c0" "serves_well (tc_expiry_skew c0) es"
    by (simp_all add: run_ok_def tokens.good_def)
  then show ?thesis
    using served_again [of c] c0(2,3) unfolding serves_well_def by (auto simp del: map_map)
qed

lemma zero_skew_is_a_minute: "token_cache_init 64 (Some 0) = token_cache_init 64 None"
  by (simp add: token_cache_init_def)

definition sample_token :: installation_token where
  "sample_token = \<lparr>it_value = ''0123456789abcdef'', it_expires_at = Aware 100000000 0\<rparr>"

theorem cache_serves_only_live_tokens_witness:
  "\<exists>c0 c. token_cache_init 1 None = Inr c0 \<and>
     cache_run c0 ([] @ [Minted 7 sample_token, Served 7 sample_token (Aware 0 0)]) c \<and>
     snd (get_or_mint (\<lambda>_ _. Inl (ValueError [])) 7 ''x'' (Aware 1 0) c) = Inr sample_token"
proof -
  define c0 where "c0 = \<lparr>tc_maximum_entries = 1, tc_expiry_skew = 60000000, tc_tokens = []\<rparr>"
  let ?c = "store_token 7 sample_token c0"
  have init: "token_cache_init 1 None = Inr c0" by (simp add: token_cache_init_def c0_def)
  have guard: "get_guard 7 ''x'' (Aware 0 0) = None" "get_guard 7 ''x'' (Aware 1 0) = None" by (simp_all add: get_guard_def)
  have fresh: "still_fresh c0 (Aware 0 0) sample_token = Inr True"
    by (simp add: still_fresh_def earlier_def sample_token_def c0_def)
  have hit: "cached_hit c0 7 (Aware 0 0) = Inr None" by (simp add: cached_hit_def c0_def)
  have got: "get_or_mint (\<lambda>_ _. Inr sample_token) 7 ''x'' (Aware 0 0) c0 = (?c, Inr sample_token)"
    using guard(1) hit fresh by (simp add: get_or_mint_def mint_fresh_def)
  have "snd (get_or_mint (\<lambda>_ _. Inl (ValueError [])) 7 ''x'' (Aware 1 0) ?c) = Inr sample_token"
    using cache_serves_only_live_tokens [OF init cache_run.start] got guard(2)
    by (simp add: sample_token_def c0_def)
  then show ?thesis using init cache_run.mint [OF cache_run.start guard(1) hit got] by blast
qed

end
