(* ===== verification/BoundaryContracts.thy ===== *)
theory BoundaryContracts
  imports ChangeContracts
begin

section \<open>Small boundary contracts\<close>

text \<open>
  The provider-neutral records that cross the boundary of the packages: \<open>github_contracts/contracts.py\<close>,
  \<open>domain/object_storage.py\<close>, \<open>domain/tasks.py\<close>, \<open>observability/policy.py\<close> and
  \<open>observability/failure_policy.py\<close>, each with its guards. The protocols (providers, publishers,
  stores) have no code.
\<close>

subsection \<open>github_contracts/contracts.py\<close>

definition validate_single_line :: "string \<Rightarrow> string \<Rightarrow> nat \<Rightarrow> exn option" where
  "validate_single_line value field maximum =
     raise_if (value = [] \<or> length value > maximum \<or> has_control value)
       (ValueError (field @ '' must contain 1..'' @ decimal_digits maximum @ '' printable characters''))"

definition validate_bounded_text :: "string \<Rightarrow> string \<Rightarrow> nat \<Rightarrow> exn option" where
  "validate_bounded_text value field maximum_bytes =
     raise_if (has_nul value \<or> length (utf8 value) > maximum_bytes)
       (ValueError (field @ '' exceeds its bounded UTF-8 contract''))"

definition letter_or_digit :: "char \<Rightarrow> bool" where
  "letter_or_digit c = (48 \<le> code c \<and> code c \<le> 57 \<or> 65 \<le> code c \<and> code c \<le> 90 \<or> 97 \<le> code c \<and> code c \<le> 122)"

definition is_name_part :: "string \<Rightarrow> bool" where
  "is_name_part s = (s \<noteq> [] \<and> length s \<le> 100 \<and> list_all (\<lambda>c. letter_or_digit c \<or> c \<in> set ''_.-'') s)"

definition is_repository :: "string \<Rightarrow> bool" where
  "is_repository s = (case split_on CHR ''/'' s of [owner, name] \<Rightarrow> is_name_part owner \<and> is_name_part name | _ \<Rightarrow> False)"

definition is_ref :: "string \<Rightarrow> bool" where
  "is_ref s = (s \<noteq> [] \<and> length s \<le> 255 \<and> list_all (\<lambda>c. letter_or_digit c \<or> c \<in> set ''_./-'') s)"

definition is_sha :: "string \<Rightarrow> bool" where
  "is_sha s = (40 \<le> length s \<and> length s \<le> 64 \<and> is_hex s)"

definition is_check_name :: "string \<Rightarrow> bool" where
  "is_check_name s = (s \<noteq> [] \<and> length s \<le> 128 \<and> list_all (\<lambda>c. 32 \<le> code c \<and> code c \<noteq> 127) s)"

definition is_author_key :: "string \<Rightarrow> bool" where
  "is_author_key s = (s \<noteq> [] \<and> length s \<le> 64 \<and> list_all (\<lambda>c. letter_or_digit c \<or> c \<in> set '':_-'') s)"

record provider_file =
  pf_path :: string
  pf_additions :: int
  pf_deletions :: int
  pf_status :: string
  pf_previous_path :: "string option"
  pf_patch :: "string option"

definition provider_file_post_init :: "provider_file \<Rightarrow> exn option" where
  "provider_file_post_init f = first_raise [
     validate_single_line (pf_path f) ''path'' 1024,
     raise_if (startswith (pf_path f) ''/'' \<or> startswith (pf_path f) [CHR 0x5C] \<or>
         ''..'' \<in> set (split_on CHR ''/'' (replace_char CHR 0x5C CHR ''/'' (pf_path f))))
       (ValueError ''path must be repository-relative without parent traversal''),
     raise_if (pf_additions f < 0 \<or> pf_deletions f < 0) (ValueError ''line counts cannot be negative''),
     raise_if (pf_status f \<notin> {''added'', ''modified'', ''removed'', ''renamed'', ''copied'', ''changed''})
       (ValueError ''changed-file status is not supported''),
     (case pf_previous_path f of None \<Rightarrow> None | Some p \<Rightarrow> validate_single_line p ''previous_path'' 1024),
     (case pf_patch f of None \<Rightarrow> None | Some p \<Rightarrow> validate_bounded_text p ''patch'' 65536)]"

record check_run =
  cr_name :: string
  cr_status :: string
  cr_conclusion :: "string option"

definition check_run_post_init :: "check_run \<Rightarrow> exn option" where
  "check_run_post_init r = first_raise [
     raise_if (\<not> is_check_name (cr_name r)) (ValueError ''check name must be a bounded printable string''),
     raise_if (cr_status r \<notin> {''queued'', ''in_progress'', ''completed'', ''unknown''})
       (ValueError ''check status is not supported''),
     raise_if (case cr_conclusion r of None \<Rightarrow> False | Some c \<Rightarrow> c \<notin> {''success'', ''failure'', ''neutral'',
         ''cancelled'', ''skipped'', ''timed_out'', ''action_required'', ''stale'', ''unknown''})
       (ValueError ''check conclusion is not supported'')]"

record pull_request_snapshot =
  ps_repository :: string
  ps_number :: int
  ps_title :: string
  ps_base_sha :: string
  ps_head_sha :: string
  ps_changed_files :: "provider_file list"
  ps_repository_id :: "int option"
  ps_author_key :: "string option"
  ps_commit_count :: "int option"
  ps_body :: string
  ps_base_ref :: string
  ps_head_ref :: string
  ps_checks :: "check_run list"

definition patch_bytes :: "provider_file list \<Rightarrow> nat" where
  "patch_bytes files = sum_list (map (\<lambda>f. case pf_patch f of None \<Rightarrow> 0 | Some p \<Rightarrow> length (utf8 p)) files)"

definition pull_request_snapshot_post_init :: "pull_request_snapshot \<Rightarrow> exn option" where
  "pull_request_snapshot_post_init s = first_raise [
     raise_if (\<not> is_repository (ps_repository s)) (ValueError ''repository must be an owner/name pair''),
     raise_if (case ps_repository_id s of None \<Rightarrow> False | Some i \<Rightarrow> i < 1)
       (ValueError ''repository_id must be positive when present''),
     raise_if (case ps_author_key s of None \<Rightarrow> False | Some k \<Rightarrow> \<not> is_author_key k)
       (ValueError ''author_key must be a bounded opaque provider key''),
     raise_if (case ps_commit_count s of None \<Rightarrow> False | Some n \<Rightarrow> \<not> (1 \<le> n \<and> n \<le> 10000))
       (ValueError ''commit_count must be between 1 and 10000 when present''),
     raise_if (ps_number s < 1) (ValueError ''pull request number must be positive''),
     validate_single_line (ps_title s) ''title'' 256,
     validate_bounded_text (ps_body s) ''body'' 65536,
     raise_if (\<not> is_sha (ps_base_sha s) \<or> \<not> is_sha (ps_head_sha s))
       (ValueError ''commit identifiers must be lowercase hexadecimal SHAs''),
     raise_if (\<not> is_ref (ps_base_ref s) \<or> \<not> is_ref (ps_head_ref s))
       (ValueError ''refs must be bounded Git reference names''),
     raise_if (length (ps_changed_files s) > 1000) (ValueError ''changed file count exceeds the contract limit''),
     raise_if (patch_bytes (ps_changed_files s) > 1048576)
       (ValueError ''combined patch content exceeds the contract limit''),
     raise_if (length (ps_checks s) > 250) (ValueError ''check metadata exceeds the contract limit'')]"

datatype advisory_conclusion = ADV_NEUTRAL | ADV_ACTION_REQUIRED

record advisory_report =
  ar_repository_id :: int
  ar_pull_request_number :: int
  ar_head_sha :: string
  ar_name :: string
  ar_conclusion :: advisory_conclusion
  ar_summary :: string
  ar_details_url :: string
  ar_producer_version :: string

definition advisory_report_post_init :: "advisory_report \<Rightarrow> exn option" where
  "advisory_report_post_init r = first_raise [
     raise_if (ar_repository_id r < 1 \<or> ar_pull_request_number r < 1)
       (ValueError ''repository and pull-request identifiers must be positive''),
     raise_if (\<not> is_sha (ar_head_sha r)) (ValueError ''head_sha must be a lowercase hexadecimal SHA''),
     validate_single_line (ar_name r) ''name'' 128,
     validate_bounded_text (ar_summary r) ''summary'' 4096,
     validate_single_line (ar_details_url r) ''details_url'' 2048,
     validate_single_line (ar_producer_version r) ''producer_version'' 64]"

subsection \<open>domain/object_storage.py and domain/tasks.py\<close>

definition MAX_OBJECT_SIZE_BYTES :: nat where "MAX_OBJECT_SIZE_BYTES = 25 * 1024 * 1024"

definition validate_storage_key :: "string \<Rightarrow> exn option" where
  "validate_storage_key key =
     (let segments = split_on CHR ''/'' (replace_char CHR 0x5C CHR ''/'' key) in
      raise_if (key = [] \<or> length key > 1024 \<or> startswith key ''/'' \<or> startswith key [CHR 0x5C] \<or>
          list_ex (\<lambda>s. s \<in> {'''', ''.'', ''..''}) segments \<or> has_control key)
        (ValueError ''object key must be a bounded normalized relative path''))"

definition validate_object_input :: "string \<Rightarrow> string \<Rightarrow> string \<Rightarrow> exn option" where
  "validate_object_input contents content_type sha256 = first_raise [
     raise_if (length contents > MAX_OBJECT_SIZE_BYTES) (ValueError ''object exceeds the 25 MiB M1 limit''),
     raise_if (content_type = [] \<or> length content_type > 255 \<or> has_control content_type)
       (ValueError ''content_type must contain 1..255 printable characters''),
     raise_if (\<not> is_sha256_text sha256) (ValueError ''sha256 must be 64 lowercase hexadecimal characters'')]"

record stored_object_metadata =
  so_key :: string
  so_size :: int
  so_content_type :: string
  so_sha256 :: string

definition stored_object_metadata_post_init :: "stored_object_metadata \<Rightarrow> exn option" where
  "stored_object_metadata_post_init m = first_raise [
     validate_storage_key (so_key m),
     raise_if (so_size m < 0 \<or> so_size m > int MAX_OBJECT_SIZE_BYTES)
       (ValueError ''stored object size is outside the M1 limit''),
     validate_object_input [] (so_content_type m) (so_sha256 m)]"

record task_message =
  tm_topic :: string
  tm_payload :: "(string \<times> string) list"
  tm_idempotency_key :: string

definition task_message_post_init :: "task_message \<Rightarrow> exn option" where
  "task_message_post_init m = first_raise [
     raise_if (tm_topic m \<noteq> ''releaseproof.analysis.process_job.v1'') (ValueError ''task topic is not allowlisted''),
     raise_if (\<not> has_exactly (tm_payload m) [''organization_id'', ''job_id''])
       (ValueError ''task payload may contain only opaque organization and job IDs''),
     raise_if (tm_idempotency_key m = [] \<or> length (tm_idempotency_key m) > 255)
       (ValueError ''task idempotency key is invalid'')]"

subsection \<open>observability/policy.py and failure_policy.py\<close>

definition quota_kinds :: "string list" where
  "quota_kinds = [''webhook_requests_per_minute'', ''analysis_requests_per_hour'', ''retrieval_queries_per_minute'',
     ''embedding_items_per_day'', ''llm_requests_per_hour'', ''llm_tokens_per_day'', ''llm_cost_microusd_per_day'',
     ''runner_jobs_per_hour'', ''runner_cpu_seconds_per_day'', ''upload_bytes_per_request'', ''upload_requests_per_hour'']"

definition retention_classes :: "string list" where
  "retention_classes = [''source_snapshot'', ''embedding'', ''artifact'', ''analysis'']"

definition DEFAULT_QUOTA_LIMITS :: "(string \<times> int) list" where
  "DEFAULT_QUOTA_LIMITS = zip quota_kinds [120, 100, 120, 10000, 100, 1000000, 10000000, 20, 3600, 1048576, 20]"

definition DEFAULT_RETENTION_DAYS :: "(string \<times> int) list" where
  "DEFAULT_RETENTION_DAYS = map (\<lambda>k. (k, 365)) retention_classes"

definition read_bounded_integer :: "string \<Rightarrow> int \<Rightarrow> string \<times> pyval \<Rightarrow> (string \<times> int) result" where
  "read_bounded_integer field minimum p = (case snd p of
      PyInt i \<Rightarrow> if minimum \<le> i \<and> i \<le> 1000000000 then Inr (fst p, i)
        else Inl (ValueError (field @ ''.'' @ fst p @ '' is outside the supported bound''))
    | _ \<Rightarrow> Inl (ValueError (field @ ''.'' @ fst p @ '' must be an integer'')))"

definition validate_exact_integer_map :: "pyval \<Rightarrow> string list \<Rightarrow> string \<Rightarrow> int \<Rightarrow> (string \<times> int) list result" where
  "validate_exact_integer_map value expected field minimum = (case value of
      PyDict d \<Rightarrow> if has_exactly d expected then map_raise (read_bounded_integer field minimum) d
        else Inl (ValueError (field @ '' must contain exactly the supported versioned keys''))
    | _ \<Rightarrow> Inl (ValueError (field @ '' must contain exactly the supported versioned keys'')))"

definition validate_quota_limits :: "pyval \<Rightarrow> (string \<times> int) list result" where
  "validate_quota_limits value = validate_exact_integer_map value quota_kinds ''quota_limits'' 1"

definition validate_retention_days :: "pyval \<Rightarrow> (string \<times> int) list result" where
  "validate_retention_days value = validate_exact_integer_map value retention_classes ''retention_days'' 1"

definition int_dict :: "(string \<times> int) list \<Rightarrow> pyval" where
  "int_dict d = PyDict (map (\<lambda>p. (fst p, PyInt (snd p))) (sorted_items d))"

definition canonical_policy_hash :: "string \<Rightarrow> int \<Rightarrow> (string \<times> int) list \<Rightarrow> (string \<times> int) list \<Rightarrow> string" where
  "canonical_policy_hash schema_version version quota_limits retention_days = object_sha256 (PyDict [
     (''quota_limits'', int_dict quota_limits),
     (''retention_days'', int_dict retention_days),
     (''schema_version'', PyStr schema_version),
     (''version'', PyInt version)])"

datatype failure_component = F_POSTGRESQL | F_REDIS | F_LLM_PROVIDER | F_MODEL_ARTIFACT | F_RETRIEVAL |
  F_CELERY_WORKER | F_RUNNER

datatype failure_disposition = D_REJECT_REQUEST | D_RETAIN_AUTHORITATIVE_WORK | D_PRESERVE_DETERMINISTIC_EVIDENCE |
  D_FALL_BACK_TO_BASELINE | D_FALL_BACK_TO_LEXICAL | D_MARK_JOB_FAILED | D_UNKNOWN

record failure_drill =
  fd_component :: failure_component
  fd_injected_failure :: string
  fd_expected_disposition :: failure_disposition
  fd_false_ship_possible :: bool

definition drill :: "failure_component \<Rightarrow> string \<Rightarrow> failure_disposition \<Rightarrow> failure_drill" where
  "drill component failure disposition = \<lparr>fd_component = component, fd_injected_failure = failure,
     fd_expected_disposition = disposition, fd_false_ship_possible = False\<rparr>"

definition expected_failure_drills :: "failure_drill list" where
  "expected_failure_drills = [
     drill F_POSTGRESQL ''authoritative database unavailable'' D_REJECT_REQUEST,
     drill F_REDIS ''outbox publisher unavailable'' D_RETAIN_AUTHORITATIVE_WORK,
     drill F_LLM_PROVIDER ''hosted or local provider unavailable'' D_PRESERVE_DETERMINISTIC_EVIDENCE,
     drill F_MODEL_ARTIFACT ''learned artifact missing or checksum-invalid'' D_FALL_BACK_TO_BASELINE,
     drill F_RETRIEVAL ''semantic provider or reranker unavailable'' D_FALL_BACK_TO_LEXICAL,
     drill F_CELERY_WORKER ''job input missing or permanently invalid'' D_MARK_JOB_FAILED,
     drill F_RUNNER ''runner unavailable, timeout, or invalid result'' D_UNKNOWN]"

end
