(* ===== verification/Tenancy.thy ===== *)
theory Tenancy
  imports BoundaryContracts
begin

section \<open>apps/web: transactions, organizations and roles\<close>

text \<open>
  A table is the list of its rows in insertion order; where a row is referred to, its primary key is
  its position. A function that the code runs inside \<open>transaction.atomic\<close> maps the database to an
  error or to the new database with a result, and \<open>atomic\<close> runs it: an exception leaves the database
  as it was. Rows are locked for the length of a transaction, so transactions are steps.
\<close>

datatype quota_scope = TENANT | USER

datatype quota_kind = WEBHOOK_REQUESTS_PER_MINUTE | ANALYSIS_REQUESTS_PER_HOUR | RETRIEVAL_QUERIES_PER_MINUTE |
  EMBEDDING_ITEMS_PER_DAY | LLM_REQUESTS_PER_HOUR | LLM_TOKENS_PER_DAY | LLM_COST_MICROUSD_PER_DAY |
  RUNNER_JOBS_PER_HOUR | RUNNER_CPU_SECONDS_PER_DAY | UPLOAD_BYTES_PER_REQUEST | UPLOAD_REQUESTS_PER_HOUR

fun quota_kind_value :: "quota_kind \<Rightarrow> string" where
  "quota_kind_value WEBHOOK_REQUESTS_PER_MINUTE = ''webhook_requests_per_minute''"
| "quota_kind_value ANALYSIS_REQUESTS_PER_HOUR = ''analysis_requests_per_hour''"
| "quota_kind_value RETRIEVAL_QUERIES_PER_MINUTE = ''retrieval_queries_per_minute''"
| "quota_kind_value EMBEDDING_ITEMS_PER_DAY = ''embedding_items_per_day''"
| "quota_kind_value LLM_REQUESTS_PER_HOUR = ''llm_requests_per_hour''"
| "quota_kind_value LLM_TOKENS_PER_DAY = ''llm_tokens_per_day''"
| "quota_kind_value LLM_COST_MICROUSD_PER_DAY = ''llm_cost_microusd_per_day''"
| "quota_kind_value RUNNER_JOBS_PER_HOUR = ''runner_jobs_per_hour''"
| "quota_kind_value RUNNER_CPU_SECONDS_PER_DAY = ''runner_cpu_seconds_per_day''"
| "quota_kind_value UPLOAD_BYTES_PER_REQUEST = ''upload_bytes_per_request''"
| "quota_kind_value UPLOAD_REQUESTS_PER_HOUR = ''upload_requests_per_hour''"

text \<open>
  The exceptions of the application. \<open>OperationalPolicyError\<close> is a subclass of \<open>ValueError\<close>; those of the
  packages are wrapped in \<open>Raised\<close>.
\<close>

datatype web_error =
    Raised exn
  | Http404 string
  | DoesNotExist string
  | MultipleObjectsReturned string
  | IntegrityError string
  | ValidationError string
  | OperationalPolicyError string
  | QuotaExceededError quota_kind quota_scope int

definition atomic :: "('s \<Rightarrow> 'e + 's \<times> 'a) \<Rightarrow> 's \<Rightarrow> 's \<times> ('e + 'a)" where
  "atomic body db = (case body db of Inl e \<Rightarrow> (db, Inl e) | Inr (db', x) \<Rightarrow> (db', Inr x))"

definition lift_result :: "'a result \<Rightarrow> web_error + 'a" where
  "lift_result r = (case r of Inl e \<Rightarrow> Inl (Raised e) | Inr x \<Rightarrow> Inr x)"

definition require :: "bool \<Rightarrow> 'e \<Rightarrow> 'e + unit" where
  "require ok e = (if ok then Inr () else Inl e)"

fun index_of :: "('a \<Rightarrow> bool) \<Rightarrow> 'a list \<Rightarrow> nat option" where
  "index_of P [] = None"
| "index_of P (x # xs) = (if P x then Some 0 else map_option Suc (index_of P xs))"

text \<open>\<open>get\<close> on a query set, and \<open>order_by("-version", "-id").first()\<close>: the later of two equal versions.\<close>

definition get_one :: "web_error \<Rightarrow> 'a list \<Rightarrow> web_error + 'a" where
  "get_one missing rows = (case rows of
      [] \<Rightarrow> Inl missing
    | [row] \<Rightarrow> Inr row
    | _ \<Rightarrow> Inl (MultipleObjectsReturned ''get() returned more than one object''))"

fun newest :: "('a \<Rightarrow> int) \<Rightarrow> 'a list \<Rightarrow> 'a option" where
  "newest version [] = None"
| "newest version (x # xs) = (case newest version xs of
      None \<Rightarrow> Some x
    | Some y \<Rightarrow> Some (if version x > version y then x else y))"

lemma atomic_simps [simp]:
  "body db = Inl e \<Longrightarrow> atomic body db = (db, Inl e)"
  "body db = Inr (db', x) \<Longrightarrow> atomic body db = (db', Inr x)"
  by (simp_all add: atomic_def)

lemma atomic_Inr: "atomic body db = (db', Inr x) \<longleftrightarrow> body db = Inr (db', x)"
  by (auto simp: atomic_def split: sum.splits prod.splits)

lemma atomic_Inl: "atomic body db = (db', Inl e) \<longleftrightarrow> db' = db \<and> body db = Inl e"
  by (auto simp: atomic_def split: sum.splits prod.splits)

lemma lift_result_iffs [simp]:
  "lift_result r = Inr x \<longleftrightarrow> r = Inr x"
  "lift_result r = Inl e \<longleftrightarrow> (\<exists>x. r = Inl x \<and> e = Raised x)"
  by (auto simp: lift_result_def split: sum.splits)

lemma require_iffs [simp]:
  "require ok e = Inr u \<longleftrightarrow> ok" "require ok e = Inl e' \<longleftrightarrow> \<not> ok \<and> e' = e"
  "require True e = Inr ()" "require False e = Inl e"
  by (auto simp: require_def)

lemma index_of_None: "index_of P xs = None \<longleftrightarrow> (\<forall>x \<in> set xs. \<not> P x)"
  by (induction xs) auto

lemma index_of_Some: "index_of P xs = Some i \<Longrightarrow> i < length xs \<and> P (xs ! i)"
  by (induction xs arbitrary: i) (auto split: if_splits)

lemma index_of_append:
  "index_of P (xs @ ys) = (case index_of P xs of Some i \<Rightarrow> Some i | None \<Rightarrow> map_option ((+) (length xs)) (index_of P ys))"
  by (induction xs) (auto split: option.splits simp: map_option_case)

lemma newest_None [simp]: "newest v xs = None \<longleftrightarrow> xs = []"
  by (cases xs) (auto split: option.splits)

lemma newest_Some: "newest v xs = Some x \<Longrightarrow> x \<in> set xs \<and> (\<forall>y \<in> set xs. v y \<le> v x)"
proof (induction xs arbitrary: x)
  case Nil
  then show ?case by simp
next
  case (Cons y ys)
  show ?case
  proof (cases "newest v ys")
    case None
    with Cons.prems show ?thesis by simp
  next
    case (Some z)
    from Cons.IH [OF Some] Some Cons.prems show ?thesis
      by (auto split: if_splits)
  qed
qed

lemma quota_kind_values: "quota_kind_value k \<in> set quota_kinds"
  by (cases k) (simp_all add: quota_kinds_def)

lemma quota_kind_value_inject: "quota_kind_value k = quota_kind_value j \<longleftrightarrow> k = j"
  by (cases k; cases j) simp_all

subsection \<open>Organizations and memberships\<close>

datatype organization_lifecycle = ORG_ACTIVE | ORG_SUSPENDED | ORG_DELETING | ORG_DELETED

datatype membership_role = OWNER | ADMIN | REVIEWER | MEMBER | READ_ONLY

datatype membership_lifecycle = MEMBER_ACTIVE | MEMBER_REVOKED

record organization_row =
  og_pk :: int
  og_public_id :: string
  og_lifecycle :: organization_lifecycle

record membership_row =
  mb_organization :: int
  mb_user :: int
  mb_role :: membership_role
  mb_lifecycle :: membership_lifecycle

record tenancy_db =
  db_organizations :: "organization_row list"
  db_memberships :: "membership_row list"

record web_user =
  wu_is_authenticated :: bool
  wu_pk :: "int option"

fun ROLE_RANK :: "membership_role \<Rightarrow> nat" where
  "ROLE_RANK READ_ONLY = 0"
| "ROLE_RANK MEMBER = 1"
| "ROLE_RANK REVIEWER = 2"
| "ROLE_RANK ADMIN = 3"
| "ROLE_RANK OWNER = 4"

definition all_roles :: "membership_role list" where
  "all_roles = [OWNER, ADMIN, REVIEWER, MEMBER, READ_ONLY]"

definition not_found :: web_error where
  "not_found = Http404 ''organization not found''"

definition user_pk :: "web_user \<Rightarrow> int option" where
  "user_pk user = (if wu_is_authenticated user then wu_pk user else None)"

text \<open>A join on the memberships with \<open>distinct\<close>: an organization appears once.\<close>

definition organizations_for :: "'a tenancy_db_scheme \<Rightarrow> int \<Rightarrow> organization_row list" where
  "organizations_for db pk = filter (\<lambda>r. og_lifecycle r = ORG_ACTIVE \<and>
     list_ex (\<lambda>m. mb_organization m = og_pk r \<and> mb_user m = pk \<and> mb_lifecycle m = MEMBER_ACTIVE) (db_memberships db))
     (db_organizations db)"

definition organizations_for_user :: "web_user \<Rightarrow> 'a tenancy_db_scheme \<Rightarrow> organization_row list" where
  "organizations_for_user user db = (case user_pk user of None \<Rightarrow> [] | Some pk \<Rightarrow> organizations_for db pk)"

text \<open>\<open>parse_uuid\<close> is \<open>uuid.UUID(str(x))\<close>: \<open>None\<close> stands for its \<open>ValueError\<close>.\<close>

definition require_organization ::
  "(string \<Rightarrow> string option) \<Rightarrow> web_user \<Rightarrow> string \<Rightarrow> 'a tenancy_db_scheme \<Rightarrow> web_error + organization_row" where
  "require_organization parse_uuid user organization_public_id db = (case user_pk user of
      None \<Rightarrow> Inl not_found
    | Some pk \<Rightarrow> (case parse_uuid organization_public_id of
        None \<Rightarrow> Inl not_found
      | Some public_id \<Rightarrow> get_one not_found (filter (\<lambda>r. og_public_id r = public_id) (organizations_for db pk))))"

definition organization_is_active :: "'a tenancy_db_scheme \<Rightarrow> int \<Rightarrow> bool" where
  "organization_is_active db pk = list_ex (\<lambda>r. og_pk r = pk \<and> og_lifecycle r = ORG_ACTIVE) (db_organizations db)"

definition require_membership_role ::
  "web_user \<Rightarrow> organization_row \<Rightarrow> membership_role list \<Rightarrow> 'a tenancy_db_scheme \<Rightarrow> web_error + membership_row" where
  "require_membership_role user organization allowed_roles db = (case user_pk user of
      None \<Rightarrow> Inl not_found
    | Some pk \<Rightarrow> get_one not_found (filter (\<lambda>m. mb_lifecycle m = MEMBER_ACTIVE \<and>
        mb_organization m = og_pk organization \<and> mb_user m = pk \<and> mb_role m \<in> set allowed_roles \<and>
        organization_is_active db (mb_organization m)) (db_memberships db)))"

definition require_minimum_role ::
  "web_user \<Rightarrow> organization_row \<Rightarrow> membership_role \<Rightarrow> 'a tenancy_db_scheme \<Rightarrow> web_error + membership_row" where
  "require_minimum_role user organization minimum_role db =
     and_then (require_membership_role user organization all_roles db) (\<lambda>membership.
       if ROLE_RANK (mb_role membership) < ROLE_RANK minimum_role then Inl not_found else Inr membership)"

text \<open>The unique constraints of the two tables.\<close>

definition tenancy_ok :: "'a tenancy_db_scheme \<Rightarrow> bool" where
  "tenancy_ok db = (distinct (map og_pk (db_organizations db)) \<and> distinct (map og_public_id (db_organizations db)) \<and>
     distinct (map (\<lambda>m. (mb_organization m, mb_user m)) (db_memberships db)))"

lemma filter_unique:
  assumes f: "distinct (map f xs)" and x: "x \<in> set xs" "P x" and same: "\<And>y. P y \<Longrightarrow> f y = f x"
  shows "filter P xs = [x]"
proof -
  from f x same have "set (filter P xs) = {x}"
    by (auto simp: distinct_map dest: inj_onD)
  moreover from f have "distinct (filter P xs)" by (simp add: distinct_map)
  ultimately show ?thesis by (cases "filter P xs" rule: remdups_adj.cases) auto
qed

lemma get_one_Inr [simp]: "get_one e xs = Inr x \<longleftrightarrow> xs = [x]"
  by (auto simp: get_one_def split: list.splits)

lemma filter_single:
  assumes "distinct (map f xs)" "\<And>x y. P x \<Longrightarrow> P y \<Longrightarrow> f x = f y"
  shows "filter P xs = [x] \<longleftrightarrow> x \<in> set xs \<and> P x"
proof
  assume "x \<in> set xs \<and> P x"
  with assms show "filter P xs = [x]" by (blast intro: filter_unique [where f = f])
next
  assume "filter P xs = [x]"
  then have "x \<in> set (filter P xs)" by simp
  then show "x \<in> set xs \<and> P x" by simp
qed

lemma get_one_unique:
  assumes "distinct (map f xs)" "\<And>x y. P x \<Longrightarrow> P y \<Longrightarrow> f x = f y"
  shows "get_one e (filter P xs) = Inl e' \<longleftrightarrow> e' = e \<and> (\<forall>x \<in> set xs. \<not> P x)"
proof (cases "\<exists>x \<in> set xs. P x")
  case False
  then have "filter P xs = []" by (simp add: filter_empty_conv)
  with False show ?thesis by (auto simp: get_one_def)
next
  case True
  then obtain x where x: "x \<in> set xs \<and> P x" by blast
  then have "filter P xs = [x]" using filter_single [OF assms] by blast
  with x show ?thesis by (auto simp: get_one_def)
qed

definition holds_role :: "web_user \<Rightarrow> int \<Rightarrow> 'a tenancy_db_scheme \<Rightarrow> membership_row \<Rightarrow> bool" where
  "holds_role user organization db m = (m \<in> set (db_memberships db) \<and> user_pk user = Some (mb_user m) \<and>
     mb_organization m = organization \<and> mb_lifecycle m = MEMBER_ACTIVE \<and> organization_is_active db organization)"

lemma all_roles_UNIV [simp]: "r \<in> set all_roles"
  by (cases r) (simp_all add: all_roles_def)

lemma membership_role_iff:
  assumes "tenancy_ok db"
  shows "require_membership_role user g roles db = Inr m \<longleftrightarrow> holds_role user (og_pk g) db m \<and> mb_role m \<in> set roles"
proof (cases "user_pk user")
  case None
  then show ?thesis by (simp add: require_membership_role_def holds_role_def)
next
  case (Some pk)
  show ?thesis
    unfolding require_membership_role_def Some option.case get_one_Inr
    by (subst filter_single [where f = "\<lambda>m. (mb_organization m, mb_user m)"])
      (use assms Some in \<open>auto simp: tenancy_ok_def holds_role_def\<close>)
qed

lemma membership_role_error:
  assumes "tenancy_ok db" "require_membership_role user g roles db = Inl e"
  shows "e = not_found"
proof (cases "user_pk user")
  case None
  with assms show ?thesis by (simp add: require_membership_role_def)
next
  case (Some pk)
  from assms(2) show ?thesis
    unfolding require_membership_role_def Some option.case
    by (subst (asm) get_one_unique [where f = "\<lambda>m. (mb_organization m, mb_user m)"])
      (use assms(1) in \<open>auto simp: tenancy_ok_def\<close>)
qed

text \<open>C35: In a database that keeps its unique constraints, \<open>require_minimum_role\<close> returns a membership exactly
  when the caller is authenticated, the membership is theirs, active, in this active organization, and its rank
  is not below the minimum; every refusal is the same 404, whether the organization is foreign, suspended or the
  role too low, so a caller learns nothing about other tenants.\<close>

theorem roles_are_checked_exactly:
  assumes "tenancy_ok db"
  shows "(require_minimum_role user g minimum db = Inr m \<longleftrightarrow>
      holds_role user (og_pk g) db m \<and> ROLE_RANK minimum \<le> ROLE_RANK (mb_role m)) \<and>
    (require_minimum_role user g minimum db = Inl e \<longrightarrow> e = Http404 ''organization not found'')"
proof (cases "require_membership_role user g all_roles db")
  case (Inl e')
  with membership_role_error [OF assms Inl] membership_role_iff [OF assms, of user g all_roles m] show ?thesis
    by (auto simp: require_minimum_role_def not_found_def)
next
  case (Inr m')
  have "holds_role user (og_pk g) db x \<longleftrightarrow> x = m'" for x
    using membership_role_iff [OF assms, of user g all_roles x] Inr by auto
  with Inr show ?thesis by (auto simp: require_minimum_role_def not_found_def)
qed

lemma roles_are_checked_exactly_witness:
  "require_minimum_role \<lparr>wu_is_authenticated = True, wu_pk = Some 7\<rparr>
     \<lparr>og_pk = 1, og_public_id = ''a'', og_lifecycle = ORG_ACTIVE\<rparr> REVIEWER
     \<lparr>db_organizations = [\<lparr>og_pk = 1, og_public_id = ''a'', og_lifecycle = ORG_ACTIVE\<rparr>],
      db_memberships = [\<lparr>mb_organization = 1, mb_user = 7, mb_role = ADMIN, mb_lifecycle = MEMBER_ACTIVE\<rparr>]\<rparr>
   = Inr \<lparr>mb_organization = 1, mb_user = 7, mb_role = ADMIN, mb_lifecycle = MEMBER_ACTIVE\<rparr>"
  by (subst roles_are_checked_exactly [THEN conjunct1])
    (simp_all add: tenancy_ok_def holds_role_def user_pk_def organization_is_active_def)

end
