(* ===== verification/Quotas.thy ===== *)
theory Quotas
  imports Tenancy
begin

section \<open>apps/web/organizations/operational_services.py: policies and quotas\<close>

text \<open>
  The versioned operational policy of a tenant and the fixed-window quotas that it opens. A counter's
  primary key is its position in its table. The time is \<open>timezone.now()\<close> in microseconds of UTC, an
  argument; so are the identifiers that \<open>uuid4\<close> draws and the correlation id.
\<close>

subsection \<open>Audit log (apps/web/audit)\<close>

record audit_log =
  al_organization :: int
  al_actor :: "int option"
  al_action :: string
  al_resource_type :: string
  al_resource_public_id :: string
  al_correlation_id :: string
  al_metadata :: pydict

definition forbidden_fragments :: "string list" where
  "forbidden_fragments = [''token'', ''secret'', ''authorization'', ''cookie'', ''source'', ''patch'']"

fun safe_metadata_value :: "pyval \<Rightarrow> bool" where
  "safe_metadata_value (PyStr s) = (length s \<le> 256)"
| "safe_metadata_value (PyInt _) = True"
| "safe_metadata_value (PyBool _) = True"
| "safe_metadata_value PyNone = True"
| "safe_metadata_value _ = False"

definition validate_safe_metadata :: "pydict \<Rightarrow> web_error option" where
  "validate_safe_metadata value = first_raise (
     raise_if (length value > 20) (ValidationError ''audit metadata must be a bounded object'') #
     concat (map (\<lambda>(key, item). [
       raise_if (length key > 64) (ValidationError ''audit metadata keys must be bounded strings''),
       raise_if (list_ex (\<lambda>fragment. contains (casefold key) fragment) forbidden_fragments)
         (ValidationError ''audit metadata key is not allowed''),
       raise_if (\<not> safe_metadata_value item) (ValidationError ''audit metadata values must be bounded scalars'')])
       value))"

subsection \<open>The tables\<close>

record operational_policy =
  op_organization :: int
  op_version :: int
  op_schema_version :: string
  op_quota_limits :: pyval
  op_retention_days :: pyval
  op_policy_sha256 :: string
  op_approved_by_role :: membership_role
  op_created_by :: "int option"
  op_public_id :: string

record usage_counter =
  uc_organization :: int
  uc_actor :: "int option"
  uc_scope :: quota_scope
  uc_subject_key :: string
  uc_kind :: quota_kind
  uc_window_started_at :: int
  uc_window_ends_at :: int
  uc_limit :: int
  uc_consumed :: int
  uc_policy_version :: int
  uc_policy_sha256 :: string

record usage_reservation =
  ur_organization :: int
  ur_actor :: "int option"
  ur_counter :: nat
  ur_scope :: quota_scope
  ur_subject_key :: string
  ur_kind :: quota_kind
  ur_idempotency_key :: string
  ur_quantity :: int
  ur_correlation_id :: string

record quota_db = tenancy_db +
  db_policies :: "operational_policy list"
  db_counters :: "usage_counter list"
  db_reservations :: "usage_reservation list"
  db_audit :: "audit_log list"

definition record_audit :: "audit_log \<Rightarrow> 'a quota_db_scheme \<Rightarrow> web_error + 'a quota_db_scheme" where
  "record_audit entry db = (case first_raise [
      raise_if (length (al_action entry) > 128) (ValidationError ''action''),
      raise_if (length (al_resource_type entry) > 64) (ValidationError ''resource_type''),
      (if al_metadata entry = [] then None else validate_safe_metadata (al_metadata entry))] of
     Some e \<Rightarrow> Inl e
   | None \<Rightarrow> Inr (db\<lparr>db_audit := db_audit db @ [entry]\<rparr>))"

subsection \<open>Operational policies\<close>

definition OPERATIONAL_POLICY_SCHEMA_VERSION :: string where
  "OPERATIONAL_POLICY_SCHEMA_VERSION = ''operational-policy-v1''"

record effective_policy =
  ep_version :: int
  ep_schema_version :: string
  ep_quota_limits :: "(string \<times> int) list"
  ep_retention_days :: "(string \<times> int) list"
  ep_policy_sha256 :: string
  ep_record :: "operational_policy option"

definition policies_of :: "int \<Rightarrow> 'a quota_db_scheme \<Rightarrow> operational_policy list" where
  "policies_of organization db = filter (\<lambda>p. op_organization p = organization) (db_policies db)"

definition default_policy :: effective_policy where
  "default_policy = \<lparr>ep_version = 0, ep_schema_version = OPERATIONAL_POLICY_SCHEMA_VERSION,
     ep_quota_limits = DEFAULT_QUOTA_LIMITS, ep_retention_days = DEFAULT_RETENTION_DAYS,
     ep_policy_sha256 = canonical_policy_hash OPERATIONAL_POLICY_SCHEMA_VERSION 0 DEFAULT_QUOTA_LIMITS
       DEFAULT_RETENTION_DAYS,
     ep_record = None\<rparr>"

definition resolve_operational_policy :: "int \<Rightarrow> 'a quota_db_scheme \<Rightarrow> web_error + effective_policy" where
  "resolve_operational_policy organization db = (case newest op_version (policies_of organization db) of
      None \<Rightarrow> Inr default_policy
    | Some r \<Rightarrow> and_then (lift_result (validate_quota_limits (op_quota_limits r))) (\<lambda>quota_limits.
        and_then (lift_result (validate_retention_days (op_retention_days r))) (\<lambda>retention_days.
        Inr \<lparr>ep_version = op_version r, ep_schema_version = op_schema_version r, ep_quota_limits = quota_limits,
          ep_retention_days = retention_days, ep_policy_sha256 = op_policy_sha256 r, ep_record = Some r\<rparr>)))"

text \<open>\<open>.first()\<close> on the active memberships; an actor without a primary key matches none.\<close>

definition policy_role :: "int \<Rightarrow> web_user \<Rightarrow> 'a quota_db_scheme \<Rightarrow> web_error + membership_role" where
  "policy_role organization actor db =
     (case List.find (\<lambda>m. mb_lifecycle m = MEMBER_ACTIVE \<and> mb_organization m = organization \<and>
         wu_pk actor = Some (mb_user m)) (db_memberships db) of
        None \<Rightarrow> Inl (OperationalPolicyError ''owner_or_admin_required'')
      | Some m \<Rightarrow> if mb_role m \<notin> {OWNER, ADMIN} then Inl (OperationalPolicyError ''owner_or_admin_required'')
          else Inr (mb_role m))"

definition lock_organization :: "int \<Rightarrow> 'a quota_db_scheme \<Rightarrow> web_error + organization_row" where
  "lock_organization organization db =
     get_one (DoesNotExist ''Organization matching query does not exist.'')
       (filter (\<lambda>r. og_pk r = organization) (db_organizations db))"

definition next_version :: "int \<Rightarrow> 'a quota_db_scheme \<Rightarrow> int" where
  "next_version organization db = (case newest op_version (policies_of organization db) of
      None \<Rightarrow> 1
    | Some p \<Rightarrow> op_version p + 1)"

definition as_json_object :: "(string \<times> int) list \<Rightarrow> pyval" where
  "as_json_object d = PyDict (map (map_prod id PyInt) d)"

text \<open>
  \<open>full_clean\<close>: the model's \<open>clean\<close> and the two unique constraints. The hash of a new row is not empty,
  so it must be the expected one.
\<close>

definition policy_clean :: "operational_policy \<Rightarrow> 'a quota_db_scheme \<Rightarrow> web_error option" where
  "policy_clean p db =
     (case (validate_quota_limits (op_quota_limits p), validate_retention_days (op_retention_days p)) of
        (Inr quota_limits, Inr retention_days) \<Rightarrow> first_raise [
          raise_if (op_schema_version p \<noteq> OPERATIONAL_POLICY_SCHEMA_VERSION)
            (ValidationError ''operational policy schema version is unsupported''),
          raise_if (op_policy_sha256 p \<noteq> canonical_policy_hash (op_schema_version p) (op_version p) quota_limits
              retention_days)
            (ValidationError ''operational policy hash does not match its content''),
          raise_if (list_ex (\<lambda>q. op_version q = op_version p \<or> op_policy_sha256 q = op_policy_sha256 p)
              (policies_of (op_organization p) db))
            (ValidationError ''Operational policy with this Organization already exists.'')]
      | _ \<Rightarrow> Some (ValidationError ''operational policy values are invalid''))"

definition policy_audit :: "operational_policy \<Rightarrow> web_user \<Rightarrow> string \<Rightarrow> audit_log" where
  "policy_audit p actor correlation_id = \<lparr>al_organization = op_organization p, al_actor = wu_pk actor,
     al_action = ''operational_policy.created'', al_resource_type = ''operational_policy'',
     al_resource_public_id = op_public_id p, al_correlation_id = correlation_id,
     al_metadata = [(''policy_hash'', PyStr (op_policy_sha256 p)), (''policy_version'', PyInt (op_version p)),
       (''role'', PyStr (if op_approved_by_role p = OWNER then ''owner'' else ''admin''))]\<rparr>"

definition create_operational_policy ::
  "int \<Rightarrow> web_user \<Rightarrow> pyval \<Rightarrow> pyval \<Rightarrow> string \<Rightarrow> string \<Rightarrow> 'a quota_db_scheme \<Rightarrow>
   web_error + 'a quota_db_scheme \<times> operational_policy" where
  "create_operational_policy organization actor quota_limits retention_days public_id correlation_id db =
     and_then (policy_role organization actor db) (\<lambda>role.
     and_then (lock_organization organization db) (\<lambda>locked.
     and_then (lift_result (validate_quota_limits quota_limits)) (\<lambda>limits.
     and_then (lift_result (validate_retention_days retention_days)) (\<lambda>days.
     let version = next_version organization db;
       p = \<lparr>op_organization = organization, op_version = version,
         op_schema_version = OPERATIONAL_POLICY_SCHEMA_VERSION, op_quota_limits = as_json_object limits,
         op_retention_days = as_json_object days,
         op_policy_sha256 = canonical_policy_hash OPERATIONAL_POLICY_SCHEMA_VERSION version limits days,
         op_approved_by_role = role, op_created_by = wu_pk actor, op_public_id = public_id\<rparr> in
     case policy_clean p db of
       Some e \<Rightarrow> Inl e
     | None \<Rightarrow> and_then (record_audit (policy_audit p actor correlation_id)
         (db\<lparr>db_policies := db_policies db @ [p]\<rparr>)) (\<lambda>db'. Inr (db', p))))))"

subsection \<open>Reservations\<close>

definition quota_seconds :: "quota_kind \<Rightarrow> int" where
  "quota_seconds kind =
     (if endswith (quota_kind_value kind) ''per_day'' then 86400
      else if endswith (quota_kind_value kind) ''per_minute'' then 60 else 3600)"

definition epoch_seconds :: "int \<Rightarrow> int" where
  "epoch_seconds now = (if 0 \<le> now then now div 1000000 else - ((- now) div 1000000))"

definition quota_window :: "quota_kind \<Rightarrow> int \<Rightarrow> int \<times> int" where
  "quota_window kind now =
     (let seconds = quota_seconds kind; start = (epoch_seconds now - epoch_seconds now mod seconds) * 1000000 in
      (start, start + seconds * 1000000))"

definition limit_of :: "effective_policy \<Rightarrow> quota_kind \<Rightarrow> web_error + int" where
  "limit_of policy kind = (case map_of (ep_quota_limits policy) (quota_kind_value kind) of
      None \<Rightarrow> Inl (Raised (KeyError (quota_kind_value kind)))
    | Some limit \<Rightarrow> Inr limit)"

definition validate_upload_size :: "int \<Rightarrow> int \<Rightarrow> 'a quota_db_scheme \<Rightarrow> web_error + unit" where
  "validate_upload_size organization byte_count db =
     (if byte_count < 0 then Inl (Raised (ValueError ''upload byte count must be a non-negative integer''))
      else and_then (resolve_operational_policy organization db) (\<lambda>policy.
        and_then (limit_of policy UPLOAD_BYTES_PER_REQUEST) (\<lambda>limit.
        if byte_count > limit then Inl (QuotaExceededError UPLOAD_BYTES_PER_REQUEST TENANT 1) else Inr ())))"

record quota_request =
  qr_organization :: int
  qr_kind :: quota_kind
  qr_quantity :: int
  qr_idempotency_key :: string
  qr_actor :: "web_user option"
  qr_correlation_id :: string

record reservation_result =
  rr_reservations :: "usage_reservation list"
  rr_duplicate :: bool

record quota_subject =
  qs_scope :: quota_scope
  qs_key :: string
  qs_actor :: "int option"

definition quota_subjects :: "quota_request \<Rightarrow> organization_row \<Rightarrow> web_error + quota_subject list" where
  "quota_subjects r locked =
     (let tenant = \<lparr>qs_scope = TENANT, qs_key = ''tenant:'' @ og_public_id locked, qs_actor = None\<rparr> in
      case qr_actor r of
        None \<Rightarrow> Inr [tenant]
      | Some actor \<Rightarrow> (case wu_pk actor of
          None \<Rightarrow> Inl (Raised (ValueError ''quota actor must be persisted''))
        | Some pk \<Rightarrow> Inr [tenant, \<lparr>qs_scope = USER, qs_key = ''user:'' @ dump_int pk, qs_actor = Some pk\<rparr>]))"

definition reserved_under :: "quota_request \<Rightarrow> quota_scope \<Rightarrow> usage_reservation \<Rightarrow> bool" where
  "reserved_under r scope v = (ur_organization v = qr_organization r \<and> ur_scope v = scope \<and>
     ur_kind v = qr_kind r \<and> ur_idempotency_key v = qr_idempotency_key r)"

definition existing_reservations :: "quota_request \<Rightarrow> quota_subject list \<Rightarrow> 'a quota_db_scheme \<Rightarrow> usage_reservation list" where
  "existing_reservations r subjects db =
     List.map_filter (\<lambda>s. List.find (reserved_under r (qs_scope s)) (db_reservations db)) subjects"

definition counter_for :: "quota_request \<Rightarrow> quota_subject \<Rightarrow> int \<Rightarrow> usage_counter \<Rightarrow> bool" where
  "counter_for r s start c = (uc_organization c = qr_organization r \<and> uc_scope c = qs_scope s \<and>
     uc_subject_key c = qs_key s \<and> uc_kind c = qr_kind r \<and> uc_window_started_at c = start)"

definition new_counter :: "quota_request \<Rightarrow> quota_subject \<Rightarrow> effective_policy \<Rightarrow> int \<Rightarrow> int \<Rightarrow> usage_counter" where
  "new_counter r s policy limit now = \<lparr>uc_organization = qr_organization r, uc_actor = qs_actor s,
     uc_scope = qs_scope s, uc_subject_key = qs_key s, uc_kind = qr_kind r,
     uc_window_started_at = fst (quota_window (qr_kind r) now),
     uc_window_ends_at = snd (quota_window (qr_kind r) now), uc_limit = limit, uc_consumed = 0,
     uc_policy_version = ep_version policy, uc_policy_sha256 = ep_policy_sha256 policy\<rparr>"

definition open_counter ::
  "quota_request \<Rightarrow> quota_subject \<Rightarrow> effective_policy \<Rightarrow> int \<Rightarrow> int \<Rightarrow> usage_counter list \<Rightarrow> nat \<times> usage_counter list" where
  "open_counter r s policy limit now counters =
     (case index_of (counter_for r s (fst (quota_window (qr_kind r) now))) counters of
        Some i \<Rightarrow> (i, counters)
      | None \<Rightarrow> (length counters, counters @ [new_counter r s policy limit now]))"

text \<open>\<open>int(max(1.0, seconds left))\<close>, and once more at least 1 in the exception's constructor.\<close>

definition retry_after :: "usage_counter \<Rightarrow> int \<Rightarrow> int" where
  "retry_after c now = max 1 ((uc_window_ends_at c - now) div 1000000)"

definition new_reservation :: "quota_request \<Rightarrow> quota_subject \<Rightarrow> nat \<Rightarrow> usage_reservation" where
  "new_reservation r s counter = \<lparr>ur_organization = qr_organization r, ur_actor = qs_actor s, ur_counter = counter,
     ur_scope = qs_scope s, ur_subject_key = qs_key s, ur_kind = qr_kind r,
     ur_idempotency_key = qr_idempotency_key r, ur_quantity = qr_quantity r,
     ur_correlation_id = qr_correlation_id r\<rparr>"

definition charge_subject ::
  "quota_request \<Rightarrow> effective_policy \<Rightarrow> int \<Rightarrow> int \<Rightarrow> quota_subject \<Rightarrow> 'a quota_db_scheme \<Rightarrow>
   web_error + 'a quota_db_scheme \<times> usage_reservation" where
  "charge_subject r policy limit now s db =
     (let (i, counters) = open_counter r s policy limit now (db_counters db); c = counters ! i in
      if uc_consumed c + qr_quantity r > uc_limit c
      then Inl (QuotaExceededError (qr_kind r) (qs_scope s) (retry_after c now))
      else if list_ex (reserved_under r (qs_scope s)) (db_reservations db)
      then Inl (IntegrityError ''organizations_usage_reservation_unique'')
      else Inr (db\<lparr>db_counters := counters[i := c\<lparr>uc_consumed := uc_consumed c + qr_quantity r\<rparr>],
                 db_reservations := db_reservations db @ [new_reservation r s i]\<rparr>,
               new_reservation r s i))"

fun charge_subjects ::
  "quota_request \<Rightarrow> effective_policy \<Rightarrow> int \<Rightarrow> int \<Rightarrow> quota_subject list \<Rightarrow> 'a quota_db_scheme \<Rightarrow>
   web_error + 'a quota_db_scheme \<times> usage_reservation list" where
  "charge_subjects r policy limit now [] db = Inr (db, [])"
| "charge_subjects r policy limit now (s # ss) db =
     and_then (charge_subject r policy limit now s db) (\<lambda>(db1, v).
     and_then (charge_subjects r policy limit now ss db1) (\<lambda>(db2, vs). Inr (db2, v # vs)))"

definition quota_guard :: "quota_request \<Rightarrow> exn option" where
  "quota_guard r = first_raise [
     raise_if (qr_quantity r < 1) (ValueError ''quota quantity must be a positive integer''),
     raise_if (\<not> isascii (qr_idempotency_key r) \<or> \<not> (1 \<le> length (qr_idempotency_key r) \<and>
         length (qr_idempotency_key r) \<le> 160))
       (ValueError ''quota idempotency key must be bounded ASCII'')]"

definition reserve_windowed ::
  "quota_request \<Rightarrow> int \<Rightarrow> 'a quota_db_scheme \<Rightarrow> web_error + 'a quota_db_scheme \<times> reservation_result" where
  "reserve_windowed r now db =
     and_then (lock_organization (qr_organization r) db) (\<lambda>locked.
     and_then (resolve_operational_policy (qr_organization r) db) (\<lambda>policy.
     and_then (limit_of policy (qr_kind r)) (\<lambda>limit.
     and_then (quota_subjects r locked) (\<lambda>subjects.
     let existing = existing_reservations r subjects db in
     if existing \<noteq> [] then
       (if length existing \<noteq> length subjects \<or> list_ex (\<lambda>v. ur_quantity v \<noteq> qr_quantity r) existing
        then Inl (Raised (ValueError ''quota idempotency key conflicts with a prior reservation''))
        else Inr (db, \<lparr>rr_reservations = existing, rr_duplicate = True\<rparr>))
     else and_then (charge_subjects r policy limit now subjects db) (\<lambda>(db', reservations).
       Inr (db', \<lparr>rr_reservations = reservations, rr_duplicate = False\<rparr>))))))"

definition reserve_quota ::
  "quota_request \<Rightarrow> int \<Rightarrow> 'a quota_db_scheme \<Rightarrow> web_error + 'a quota_db_scheme \<times> reservation_result" where
  "reserve_quota r now db =
     (if qr_kind r = UPLOAD_BYTES_PER_REQUEST
      then and_then (validate_upload_size (qr_organization r) (qr_quantity r) db)
        (\<lambda>_. Inr (db, \<lparr>rr_reservations = [], rr_duplicate = False\<rparr>))
      else (case quota_guard r of Some e \<Rightarrow> Inl (Raised e) | None \<Rightarrow> reserve_windowed r now db))"

definition reserve_upload ::
  "int \<Rightarrow> int \<Rightarrow> string \<Rightarrow> web_user option \<Rightarrow> string \<Rightarrow> int \<Rightarrow> 'a quota_db_scheme \<Rightarrow>
   web_error + 'a quota_db_scheme \<times> reservation_result" where
  "reserve_upload organization byte_count idempotency_key actor correlation_id now db =
     and_then (lock_organization organization db) (\<lambda>locked.
     and_then (validate_upload_size organization byte_count db) (\<lambda>_.
     reserve_quota \<lparr>qr_organization = organization, qr_kind = UPLOAD_REQUESTS_PER_HOUR, qr_quantity = 1,
       qr_idempotency_key = idempotency_key, qr_actor = actor, qr_correlation_id = correlation_id\<rparr> now db))"

fun reserve_items ::
  "quota_request \<Rightarrow> (quota_kind \<times> int) list \<Rightarrow> int \<Rightarrow> 'a quota_db_scheme \<Rightarrow>
   web_error + 'a quota_db_scheme \<times> reservation_result list" where
  "reserve_items r [] now db = Inr (db, [])"
| "reserve_items r ((kind, quantity) # items) now db =
     and_then (reserve_quota (r\<lparr>qr_kind := kind, qr_quantity := quantity\<rparr>) now db) (\<lambda>(db1, x).
     and_then (reserve_items r items now db1) (\<lambda>(db2, xs). Inr (db2, x # xs)))"

definition reserve_quota_bundle ::
  "quota_request \<Rightarrow> (quota_kind \<times> int) list \<Rightarrow> int \<Rightarrow> 'a quota_db_scheme \<Rightarrow>
   web_error + 'a quota_db_scheme \<times> reservation_result list" where
  "reserve_quota_bundle r items now db =
     (if items = [] \<or> \<not> distinct (map fst items)
      then Inl (Raised (ValueError ''quota bundle must contain unique quota kinds''))
      else reserve_items r items now db)"

end
