(* ===== verification/QuotaProofs.thy ===== *)
theory QuotaProofs
  imports Quotas
begin

section \<open>The quota books balance\<close>

text \<open>
  \<open>books_balance\<close> is the invariant of the counters and the reservations: what a counter has consumed is
  the sum of its reservations and never more than its limit. Every transaction keeps it, whatever
  the policies and the clock; and a reservation is never lost, so repeating a request is free.
\<close>

definition charged :: "usage_reservation list \<Rightarrow> nat \<Rightarrow> int" where
  "charged rs i = sum_list (map ur_quantity (filter (\<lambda>v. ur_counter v = i) rs))"

definition counter_key :: "usage_counter \<Rightarrow> int \<times> quota_scope \<times> string \<times> quota_kind \<times> int" where
  "counter_key c = (uc_organization c, uc_scope c, uc_subject_key c, uc_kind c, uc_window_started_at c)"

definition reservation_key :: "usage_reservation \<Rightarrow> int \<times> quota_scope \<times> quota_kind \<times> string" where
  "reservation_key v = (ur_organization v, ur_scope v, ur_kind v, ur_idempotency_key v)"

definition charged_to :: "usage_reservation \<Rightarrow> usage_counter \<Rightarrow> bool" where
  "charged_to v c = (uc_organization c = ur_organization v \<and> uc_scope c = ur_scope v \<and>
     uc_subject_key c = ur_subject_key v \<and> uc_kind c = ur_kind v)"

definition sound_reservation :: "usage_counter list \<Rightarrow> usage_reservation \<Rightarrow> bool" where
  "sound_reservation cs v = (ur_counter v < length cs \<and> 0 < ur_quantity v \<and> charged_to v (cs ! ur_counter v))"

definition books_balance :: "usage_counter list \<Rightarrow> usage_reservation list \<Rightarrow> bool" where
  "books_balance cs rs =
     ((\<forall>i < length cs. uc_consumed (cs ! i) = charged rs i \<and> charged rs i \<le> uc_limit (cs ! i)) \<and>
      (\<forall>v \<in> set rs. sound_reservation cs v) \<and>
      distinct (map counter_key cs) \<and> distinct (map reservation_key rs))"

lemma charged_append: "charged (rs @ [v]) i = charged rs i + (if ur_counter v = i then ur_quantity v else 0)"
  by (simp add: charged_def)

lemma charged_fresh: "\<forall>v \<in> set rs. ur_counter v < n \<Longrightarrow> charged rs n = 0"
  unfolding charged_def by (subst filter_False) auto

lemma reserved_under_key: "reserved_under r scope v \<longleftrightarrow>
    reservation_key v = (qr_organization r, scope, qr_kind r, qr_idempotency_key r)"
  by (simp add: reserved_under_def reservation_key_def)

lemma counter_for_key: "counter_for r s start c \<longleftrightarrow>
    counter_key c = (qr_organization r, qs_scope s, qs_key s, qr_kind r, start)"
  by (simp add: counter_for_def counter_key_def)

lemma new_reservation_key:
  "reservation_key (new_reservation r s i) = (qr_organization r, qs_scope s, qr_kind r, qr_idempotency_key r)"
  by (simp add: new_reservation_def reservation_key_def)

lemma open_counter_props:
  assumes b: "books_balance cs rs" and opened: "open_counter r s policy limit now cs = (i, cs')"
  shows "i < length cs'" "counter_for r s (fst (quota_window (qr_kind r) now)) (cs' ! i)"
    "distinct (map counter_key cs')" "\<forall>v \<in> set rs. sound_reservation cs' v"
    "\<forall>j < length cs'. uc_consumed (cs' ! j) = charged rs j"
    "\<forall>j < length cs'. j \<noteq> i \<longrightarrow> charged rs j \<le> uc_limit (cs' ! j)"
proof -
  let ?start = "fst (quota_window (qr_kind r) now)"
  have "i < length cs' \<and> counter_for r s ?start (cs' ! i) \<and> distinct (map counter_key cs') \<and>
    (\<forall>v \<in> set rs. sound_reservation cs' v) \<and> (\<forall>j < length cs'. uc_consumed (cs' ! j) = charged rs j) \<and>
    (\<forall>j < length cs'. j \<noteq> i \<longrightarrow> charged rs j \<le> uc_limit (cs' ! j))"
  proof (cases "index_of (counter_for r s ?start) cs")
    case (Some k)
    with opened have "i = k" "cs' = cs" by (simp_all add: open_counter_def)
    with index_of_Some [OF Some] b show ?thesis by (simp add: books_balance_def)
  next
    case None
    with opened have i: "i = length cs" and cs': "cs' = cs @ [new_counter r s policy limit now]"
      by (simp_all add: open_counter_def)
    from None have "counter_key (new_counter r s policy limit now) \<notin> counter_key ` set cs"
      by (auto simp: index_of_None counter_for_key new_counter_def counter_key_def)
    moreover have "sound_reservation cs' v" if "v \<in> set rs" for v
      using b that by (auto simp: books_balance_def sound_reservation_def cs' nth_append)
    moreover have "charged rs (length cs) = 0"
      using b by (intro charged_fresh) (auto simp: books_balance_def sound_reservation_def)
    ultimately show ?thesis
      using b by (auto simp: i cs' books_balance_def nth_append less_Suc_eq counter_for_def new_counter_def)
  qed
  then show "i < length cs'" "counter_for r s ?start (cs' ! i)"
    "distinct (map counter_key cs')" "\<forall>v \<in> set rs. sound_reservation cs' v"
    "\<forall>j < length cs'. uc_consumed (cs' ! j) = charged rs j"
    "\<forall>j < length cs'. j \<noteq> i \<longrightarrow> charged rs j \<le> uc_limit (cs' ! j)" by blast+
qed

lemma charge_subject_cases:
  assumes "charge_subject r policy limit now s db = Inr (db', v)"
  obtains i cs where "open_counter r s policy limit now (db_counters db) = (i, cs)"
    "uc_consumed (cs ! i) + qr_quantity r \<le> uc_limit (cs ! i)"
    "\<not> list_ex (reserved_under r (qs_scope s)) (db_reservations db)" "v = new_reservation r s i"
    "db' = db\<lparr>db_counters := cs[i := (cs ! i)\<lparr>uc_consumed := uc_consumed (cs ! i) + qr_quantity r\<rparr>],
       db_reservations := db_reservations db @ [new_reservation r s i]\<rparr>"
proof -
  obtain i cs where "open_counter r s policy limit now (db_counters db) = (i, cs)" by (cases "open_counter r s policy limit now (db_counters db)")
  with assms that show thesis by (auto simp: charge_subject_def Let_def split: if_splits)
qed

lemma charge_subject_balance:
  assumes b: "books_balance (db_counters db) (db_reservations db)" and q: "0 < qr_quantity r"
    and c: "charge_subject r policy limit now s db = Inr (db', v)"
  shows "books_balance (db_counters db') (db_reservations db')"
proof -
  from c obtain i cs where opened: "open_counter r s policy limit now (db_counters db) = (i, cs)"
    and room: "uc_consumed (cs ! i) + qr_quantity r \<le> uc_limit (cs ! i)"
    and fresh: "\<not> list_ex (reserved_under r (qs_scope s)) (db_reservations db)"
    and db': "db' = db\<lparr>db_counters := cs[i := (cs ! i)\<lparr>uc_consumed := uc_consumed (cs ! i) + qr_quantity r\<rparr>],
       db_reservations := db_reservations db @ [new_reservation r s i]\<rparr>"
    by (rule charge_subject_cases)
  let ?c = "(cs ! i)\<lparr>uc_consumed := uc_consumed (cs ! i) + qr_quantity r\<rparr>"
  note o = open_counter_props [OF b opened]
  have keys: "map counter_key (cs[i := (cs ! i)\<lparr>uc_consumed := n\<rparr>]) = map counter_key cs" for n
    using o(1) by (simp add: map_update counter_key_def list_update_same_conv)
  have sound: "sound_reservation (cs[i := ?c]) w" if "sound_reservation cs w" for w
    using that o(1) by (auto simp: sound_reservation_def charged_to_def nth_list_update)
  have new: "sound_reservation (cs[i := ?c]) (new_reservation r s i)"
    using o(1,2) q by (simp add: sound_reservation_def charged_to_def counter_for_def new_reservation_def)
  have "reservation_key (new_reservation r s i) \<notin> reservation_key ` set (db_reservations db)"
    using fresh by (auto simp: list_ex_iff reserved_under_key new_reservation_key)
  with b o room sound new show ?thesis
    by (auto simp: db' books_balance_def keys charged_append nth_list_update new_reservation_def)
qed

lemma charge_subjects_balance:
  assumes "books_balance (db_counters db) (db_reservations db)" "0 < qr_quantity r"
    and "charge_subjects r policy limit now ss db = Inr (db', vs)"
  shows "books_balance (db_counters db') (db_reservations db')"
  using assms
proof (induction ss arbitrary: db db' vs)
  case Nil
  then show ?case by simp
next
  case (Cons s ss)
  then show ?case by (auto simp: and_then_Inr dest: charge_subject_balance)
qed

lemma reserve_windowed_cases:
  assumes "reserve_windowed r now db = Inr (db', res)"
  obtains (replay) locked policy subjects where
      "lock_organization (qr_organization r) db = Inr locked" "quota_subjects r locked = Inr subjects"
      "resolve_operational_policy (qr_organization r) db = Inr policy" "db' = db"
      "existing_reservations r subjects db \<noteq> []" "length (existing_reservations r subjects db) = length subjects"
      "list_all (\<lambda>v. ur_quantity v = qr_quantity r) (existing_reservations r subjects db)"
      "res = \<lparr>rr_reservations = existing_reservations r subjects db, rr_duplicate = True\<rparr>"
  | (charge) locked policy limit subjects reservations where
      "lock_organization (qr_organization r) db = Inr locked" "quota_subjects r locked = Inr subjects"
      "resolve_operational_policy (qr_organization r) db = Inr policy"
      "existing_reservations r subjects db = []"
      "charge_subjects r policy limit now subjects db = Inr (db', reservations)"
      "res = \<lparr>rr_reservations = reservations, rr_duplicate = False\<rparr>"
  using assms
  by (auto simp: reserve_windowed_def and_then_Inr Let_def list_all_iff list_ex_iff split: if_splits)

lemma reserve_quota_cases:
  assumes "reserve_quota r now db = Inr (db', res)"
  obtains (size) "qr_kind r = UPLOAD_BYTES_PER_REQUEST" "db' = db"
    | (windowed) "qr_kind r \<noteq> UPLOAD_BYTES_PER_REQUEST" "1 \<le> qr_quantity r" "quota_guard r = None"
      "reserve_windowed r now db = Inr (db', res)"
  using assms by (auto simp: reserve_quota_def and_then_Inr quota_guard_def split: if_splits option.splits)

lemma reserve_quota_balance:
  assumes "books_balance (db_counters db) (db_reservations db)" and r: "reserve_quota r now db = Inr (db', res)"
  shows "books_balance (db_counters db') (db_reservations db')"
  using r
proof (cases rule: reserve_quota_cases)
  case windowed
  from windowed(4) show ?thesis
  proof (cases rule: reserve_windowed_cases)
    case charge
    with charge_subjects_balance [OF assms(1) _ charge(5)] windowed(2) show ?thesis by simp
  qed (use assms in simp)
qed (use assms in simp)

lemma reserve_items_balance:
  assumes "books_balance (db_counters db) (db_reservations db)" "reserve_items r items now db = Inr (db', xs)"
  shows "books_balance (db_counters db') (db_reservations db')"
  using assms
  by (induction r items now db arbitrary: db' xs rule: reserve_items.induct)
    (auto simp: and_then_Inr dest: reserve_quota_balance)

subsection \<open>Every transaction\<close>

text \<open>
  The operations of the module and the changes that other parts of the application make to
  organizations and memberships, in any order, by any caller, at any time.
\<close>

inductive quota_step :: "'a quota_db_scheme \<Rightarrow> 'a quota_db_scheme \<Rightarrow> bool" where
  reserve: "quota_step db (fst (atomic (reserve_quota r now) db))"
| upload: "quota_step db (fst (atomic (reserve_upload g n key actor cid now) db))"
| several: "quota_step db (fst (atomic (reserve_quota_bundle r items now) db))"
| policy: "quota_step db (fst (atomic (create_operational_policy g user limits ds pid cid) db))"
| tenancy: "quota_step db (db\<lparr>db_organizations := gs, db_memberships := ms\<rparr>)"

definition quota_later :: "'a quota_db_scheme \<Rightarrow> 'a quota_db_scheme \<Rightarrow> bool" where
  "quota_later = quota_step\<^sup>*\<^sup>*"

definition fresh_books :: "'a quota_db_scheme \<Rightarrow> bool" where
  "fresh_books db = (db_counters db = [] \<and> db_reservations db = [])"

lemma atomic_invariant:
  assumes "P db" "\<And>db' x. body db = Inr (db', x) \<Longrightarrow> P db'"
  shows "P (fst (atomic body db))"
  using assms by (auto simp: atomic_def split: sum.splits)

lemma create_policy_tables:
  assumes "create_operational_policy g user limits ds pid cid db = Inr (db', p)"
  shows "db_counters db' = db_counters db" "db_reservations db' = db_reservations db"
  using assms
  by (auto simp: create_operational_policy_def record_audit_def and_then_Inr Let_def split: option.splits)

lemma step_balance:
  assumes "quota_step db db'" "books_balance (db_counters db) (db_reservations db)"
  shows "books_balance (db_counters db') (db_reservations db')"
  using assms
proof (cases rule: quota_step.cases)
  case (upload g n key actor cid now)
  with assms(2) show ?thesis
    by (simp, intro atomic_invariant [where P = "\<lambda>d. books_balance (db_counters d) (db_reservations d)"])
      (auto simp: reserve_upload_def and_then_Inr dest: reserve_quota_balance)
next
  case (several r items now)
  with assms(2) show ?thesis
    by (simp, intro atomic_invariant [where P = "\<lambda>d. books_balance (db_counters d) (db_reservations d)"])
      (auto simp: reserve_quota_bundle_def dest: reserve_items_balance split: if_splits)
next
  case (reserve r now)
  with assms(2) show ?thesis
    by (simp, intro atomic_invariant [where P = "\<lambda>d. books_balance (db_counters d) (db_reservations d)"])
      (auto dest: reserve_quota_balance)
next
  case (policy g user limits ds pid cid)
  with assms(2) show ?thesis
    by (simp, intro atomic_invariant [where P = "\<lambda>d. books_balance (db_counters d) (db_reservations d)"])
      (auto simp: create_policy_tables)
qed simp

lemma later_balance:
  assumes "quota_later db db'" "books_balance (db_counters db) (db_reservations db)"
  shows "books_balance (db_counters db') (db_reservations db')"
  using assms unfolding quota_later_def
  by (induction rule: rtranclp_induct) (auto dest: step_balance)

subsection \<open>Reservations are kept, so a repeated request is free\<close>

lemma charge_subjects_keep:
  "charge_subjects r policy limit now ss db = Inr (db', vs) \<Longrightarrow> db_reservations db' = db_reservations db @ vs"
  by (induction ss arbitrary: db db' vs) (fastforce simp: and_then_Inr elim: charge_subject_cases)+

definition keeps_reservations :: "'a quota_db_scheme \<Rightarrow> 'a quota_db_scheme \<Rightarrow> bool" where
  "keeps_reservations db db' = (\<exists>ws. db_reservations db' = db_reservations db @ ws)"

lemma keeps_refl [simp]: "keeps_reservations db db"
  by (simp add: keeps_reservations_def)

lemma keeps_trans [trans]: "keeps_reservations a b \<Longrightarrow> keeps_reservations b c \<Longrightarrow> keeps_reservations a c"
  by (auto simp: keeps_reservations_def)

lemma reserve_quota_keeps: "reserve_quota r now db = Inr (db', res) \<Longrightarrow> keeps_reservations db db'"
  by (erule reserve_quota_cases, simp, erule reserve_windowed_cases)
    (auto simp: keeps_reservations_def dest: charge_subjects_keep)

lemma reserve_items_keeps: "reserve_items r items now db = Inr (db', xs) \<Longrightarrow> keeps_reservations db db'"
  by (induction r items now db arbitrary: db' xs rule: reserve_items.induct)
    (auto simp: and_then_Inr dest!: reserve_quota_keeps intro: keeps_trans)

lemma step_keeps: "quota_step db db' \<Longrightarrow> keeps_reservations db db'"
proof (induction rule: quota_step.induct)
  case (reserve db r now)
  show ?case by (intro atomic_invariant [where P = "keeps_reservations db"]) (auto dest: reserve_quota_keeps)
next
  case (upload db g n key actor cid now)
  show ?case by (intro atomic_invariant [where P = "keeps_reservations db"])
      (auto simp: reserve_upload_def and_then_Inr dest: reserve_quota_keeps)
next
  case (several db r items now)
  show ?case by (intro atomic_invariant [where P = "keeps_reservations db"])
      (auto simp: reserve_quota_bundle_def dest: reserve_items_keeps split: if_splits)
next
  case (policy db g user limits ds pid cid)
  show ?case by (intro atomic_invariant [where P = "keeps_reservations db"])
      (auto simp: create_policy_tables keeps_reservations_def)
qed (simp add: keeps_reservations_def)

lemma later_keeps: "quota_later db db' \<Longrightarrow> keeps_reservations db db'"
  unfolding quota_later_def by (induction rule: rtranclp_induct) (auto intro: step_keeps keeps_trans)

lemma find_append_Some: "List.find P xs = Some x \<Longrightarrow> List.find P (xs @ ys) = Some x"
  by (induction xs) (auto split: if_splits)

lemma find_append_None: "List.find P xs = None \<Longrightarrow> List.find P (xs @ ys) = List.find P ys"
  by (induction xs) (auto split: if_splits)

text \<open>What a reservation of each subject looks like in the table.\<close>

definition found :: "quota_request \<Rightarrow> quota_scope list \<Rightarrow> usage_reservation list \<Rightarrow> usage_reservation list \<Rightarrow> bool" where
  "found r scopes rs vs = (map (\<lambda>p. List.find (reserved_under r p) rs) scopes = map Some vs)"

lemma found_later: "found r scopes rs vs \<Longrightarrow> found r scopes (rs @ rs2) vs"
  unfolding found_def by (induction scopes arbitrary: vs) (auto simp: find_append_Some)

lemma found_existing:
  "found r (map qs_scope ss) (db_reservations db) vs \<Longrightarrow> existing_reservations r ss db = vs"
  unfolding found_def existing_reservations_def
  by (induction ss arbitrary: vs) (auto simp: List.map_filter_simps)

lemma existing_found:
  assumes "length (existing_reservations r ss db) = length ss"
  shows "found r (map qs_scope ss) (db_reservations db) (existing_reservations r ss db)"
proof -
  have short: "length (List.map_filter f xs) \<le> length xs" for f :: "quota_subject \<Rightarrow> usage_reservation option" and xs
    by (induction xs) (auto simp: List.map_filter_simps split: option.splits)
  show ?thesis using assms unfolding found_def existing_reservations_def
  proof (induction ss)
    case Nil
    then show ?case by (simp add: List.map_filter_simps)
  next
    case (Cons s ss)
    with short [of _ ss] show ?case
      by (auto simp: List.map_filter_simps Suc_le_eq not_less_eq_eq dest: le_less_trans split: option.splits)
        (metis Suc_n_not_le_n short)
  qed
qed

lemma charge_subjects_found:
  assumes "charge_subjects r policy limit now ss db = Inr (db', vs)" "distinct (map qs_scope ss)"
    and "\<forall>s \<in> set ss. List.find (reserved_under r (qs_scope s)) (db_reservations db) = None"
  shows "found r (map qs_scope ss) (db_reservations db') vs \<and> list_all (\<lambda>v. ur_quantity v = qr_quantity r) vs"
  using assms
proof (induction ss arbitrary: db db' vs)
  case Nil
  then show ?case by (simp add: found_def)
next
  case (Cons s ss)
  then obtain db1 v ws where c: "charge_subject r policy limit now s db = Inr (db1, v)"
    and rest: "charge_subjects r policy limit now ss db1 = Inr (db', ws)" and vs: "vs = v # ws"
    by (auto simp: and_then_Inr)
  from c obtain i where v: "v = new_reservation r s i" and rs: "db_reservations db1 = db_reservations db @ [v]"
    by (auto elim: charge_subject_cases)
  have own: "reserved_under r (qs_scope s) v"
    by (simp add: v new_reservation_def reserved_under_def)
  have other: "\<not> reserved_under r p v" if "p \<noteq> qs_scope s" for p
    using that by (simp add: v new_reservation_def reserved_under_def)
  have "\<forall>t \<in> set ss. List.find (reserved_under r (qs_scope t)) (db_reservations db1) = None"
    using Cons.prems(2,3) other by (auto simp: rs find_append_None) (metis image_eqI)
  with Cons.IH [OF rest] Cons.prems(2) have IH: "found r (map qs_scope ss) (db_reservations db') ws"
    "list_all (\<lambda>v. ur_quantity v = qr_quantity r) ws" by auto
  have "List.find (reserved_under r (qs_scope s)) (db_reservations db1) = Some v"
    using Cons.prems(3) own by (simp add: rs find_append_None)
  then have "List.find (reserved_under r (qs_scope s)) (db_reservations db') = Some v"
    by (simp add: charge_subjects_keep [OF rest] find_append_Some)
  with IH show ?case by (simp add: found_def vs v new_reservation_def)
qed

lemma subject_scopes:
  "quota_subjects r locked = Inr ss \<Longrightarrow> map qs_scope ss = (if qr_actor r = None then [TENANT] else [TENANT, USER])"
  by (auto simp: quota_subjects_def Let_def split: option.splits)

lemma existing_none:
  "existing_reservations r ss db = [] \<longleftrightarrow>
    (\<forall>s \<in> set ss. List.find (reserved_under r (qs_scope s)) (db_reservations db) = None)"
  unfolding existing_reservations_def
  by (induction ss) (auto simp: List.map_filter_simps split: option.splits)

lemma reserved_found:
  assumes "reserve_windowed r now db = Inr (db', res)"
  obtains "found r (if qr_actor r = None then [TENANT] else [TENANT, USER]) (db_reservations db') (rr_reservations res)"
    "list_all (\<lambda>v. ur_quantity v = qr_quantity r) (rr_reservations res)"
  using assms
proof (cases rule: reserve_windowed_cases)
  case (replay locked policy subjects)
  with existing_found [of r subjects db] that subject_scopes [OF replay(2)] show thesis by simp
next
  case (charge locked policy limit subjects reservations)
  have "distinct (map qs_scope subjects)" using subject_scopes [OF charge(2)] by simp
  with charge_subjects_found [OF charge(5)] charge(4,6) that subject_scopes [OF charge(2)] show thesis
    by (simp add: existing_none)
qed

lemma limit_of_default: "\<exists>n. limit_of default_policy k = Inr n"
  by (cases k) (simp_all add: limit_of_def default_policy_def DEFAULT_QUOTA_LIMITS_def quota_kinds_def)

lemma read_bounded_key: "read_bounded_integer field m p = Inr q \<Longrightarrow> fst q = fst p"
  by (auto simp: read_bounded_integer_def split: pyval.splits if_splits)

lemma map_raise_keys:
  "map_raise (read_bounded_integer field m) d = Inr e \<Longrightarrow> map fst e = map fst d"
  by (induction d arbitrary: e) (auto simp: and_then_Inr dest: read_bounded_key)

lemma limit_of_validated:
  assumes "validate_quota_limits v = Inr limits"
  shows "quota_kind_value k \<in> fst ` set limits"
proof -
  from assms obtain d where "has_exactly d quota_kinds"
    "map_raise (read_bounded_integer ''quota_limits'' 1) d = Inr limits"
    by (auto simp: validate_quota_limits_def validate_exact_integer_map_def split: pyval.splits if_splits)
  then have "set (map fst d) = set quota_kinds" "map fst limits = map fst d"
    by (auto simp only: has_exactly_iff keys_def dest!: map_raise_keys)
  then have "fst ` set limits = set quota_kinds" by (metis list.set_map)
  with quota_kind_values [of k] show ?thesis by simp
qed

lemma limit_of_resolved:
  assumes "resolve_operational_policy g db = Inr policy"
  shows "\<exists>n. limit_of policy k = Inr n"
proof (cases "newest op_version (policies_of g db)")
  case None
  with assms limit_of_default show ?thesis by (simp add: resolve_operational_policy_def)
next
  case (Some p)
  with assms obtain limits where "validate_quota_limits (op_quota_limits p) = Inr limits" "ep_quota_limits policy = limits"
    by (fastforce simp add: resolve_operational_policy_def and_then_Inr)
  with limit_of_validated [of _ limits k] have "map_of (ep_quota_limits policy) (quota_kind_value k) \<noteq> None"
    by (simp add: map_of_eq_None_iff)
  then show ?thesis by (auto simp: limit_of_def)
qed

definition same_operation :: "quota_request \<Rightarrow> quota_request \<Rightarrow> bool" where
  "same_operation r r' = (qr_organization r' = qr_organization r \<and> qr_kind r' = qr_kind r \<and>
     qr_idempotency_key r' = qr_idempotency_key r \<and> (qr_actor r' = None) = (qr_actor r = None))"

lemma replay_existing:
  assumes r: "reserve_quota r now db = Inr (db1, res)" and kind: "qr_kind r \<noteq> UPLOAD_BYTES_PER_REQUEST"
    and later: "quota_later db1 db2" and same: "same_operation r r'"
    and ss: "quota_subjects r' locked = Inr ss"
  shows "existing_reservations r' ss db2 = rr_reservations res" "length (rr_reservations res) = length ss"
    "rr_reservations res \<noteq> []" "list_all (\<lambda>v. ur_quantity v = qr_quantity r) (rr_reservations res)"
proof -
  let ?scopes = "if qr_actor r = None then [TENANT] else [TENANT, USER]"
  from r kind have "reserve_windowed r now db = Inr (db1, res)" by (auto elim: reserve_quota_cases)
  then have f: "found r ?scopes (db_reservations db1) (rr_reservations res)"
    and q: "list_all (\<lambda>v. ur_quantity v = qr_quantity r) (rr_reservations res)"
    by (auto elim: reserved_found)
  from later_keeps [OF later] f have "found r ?scopes (db_reservations db2) (rr_reservations res)"
    by (auto simp: keeps_reservations_def intro: found_later)
  moreover have "reserved_under r' = reserved_under r"
    using same by (intro ext) (simp add: same_operation_def reserved_under_def)
  moreover have scopes: "map qs_scope ss = ?scopes" using subject_scopes [OF ss] same by (simp add: same_operation_def)
  ultimately have f2: "found r' (map qs_scope ss) (db_reservations db2) (rr_reservations res)"
    by (simp add: found_def)
  then show "existing_reservations r' ss db2 = rr_reservations res" by (rule found_existing)
  from f2 have "length (map qs_scope ss) = length (rr_reservations res)"
    unfolding found_def by (metis length_map)
  then show "length (rr_reservations res) = length ss" by simp
  with scopes show "rr_reservations res \<noteq> []" by (cases ss) (auto split: if_splits)
  show "list_all (\<lambda>v. ur_quantity v = qr_quantity r) (rr_reservations res)" by (rule q)
qed

subsection \<open>Properties\<close>

text \<open>C30: From empty books, after any sequence of reservations, uploads, bundles, policy changes and changes of
  membership, committed or rolled back: what each counter has consumed is exactly the sum of the reservations
  charged to it and at most its limit; each reservation is charged to a counter of its own tenant, scope, subject
  and kind; and no window has two counters and no key two reservations.\<close>

theorem quota_books_always_balance:
  assumes "fresh_books db" "quota_later db db'"
  shows "books_balance (db_counters db') (db_reservations db')"
  using assms later_balance [of db db'] by (simp add: fresh_books_def books_balance_def)

text \<open>C31: Once a reservation has committed, the same operation (same tenant, kind and idempotency key, with or
  without an actor as before) at any later time changes nothing: with the same quantity it returns the first
  reservations as a duplicate, whoever the actor is and even when the quota is exhausted; with any other quantity
  it is refused for ever.\<close>

theorem committed_reservation_is_replayed_for_ever:
  assumes "reserve_quota r now db = Inr (db1, res)" "qr_kind r \<noteq> UPLOAD_BYTES_PER_REQUEST"
    and "quota_later db1 db2" "same_operation r r'" "1 \<le> qr_quantity r'"
    and "lock_organization (qr_organization r) db2 = Inr locked" "quota_subjects r' locked = Inr ss"
    and "resolve_operational_policy (qr_organization r) db2 = Inr policy"
  shows "atomic (reserve_quota r' now') db2 = (db2,
    if qr_quantity r' = qr_quantity r then Inr \<lparr>rr_reservations = rr_reservations res, rr_duplicate = True\<rparr>
    else Inl (Raised (ValueError ''quota idempotency key conflicts with a prior reservation'')))"
proof -
  note e = replay_existing [OF assms(1-4,7)]
  obtain n where n: "limit_of policy (qr_kind r) = Inr n" using limit_of_resolved [OF assms(8)] by blast
  have "quota_guard r = None" using assms(1,2) by (auto elim: reserve_quota_cases)
  with assms(4,5) have guard: "quota_guard r' = None" by (auto simp: quota_guard_def same_operation_def)
  have "list_ex (\<lambda>v. ur_quantity v \<noteq> qr_quantity r') (rr_reservations res) \<longleftrightarrow> qr_quantity r' \<noteq> qr_quantity r"
    using e(3,4) by (cases "rr_reservations res") (auto simp: list_all_iff list_ex_iff)
  with e assms(2,4-8) guard n show ?thesis
    by (auto simp: atomic_def reserve_quota_def reserve_windowed_def same_operation_def Let_def)
qed

subsection \<open>A tenant with an empty ledger\<close>

definition sample_db :: quota_db where
  "sample_db = \<lparr>db_organizations = [\<lparr>og_pk = 1, og_public_id = ''t1'', og_lifecycle = ORG_ACTIVE\<rparr>],
     db_memberships = [], db_policies = [], db_counters = [], db_reservations = [], db_audit = []\<rparr>"

definition sample_request :: quota_request where
  "sample_request = \<lparr>qr_organization = 1, qr_kind = EMBEDDING_ITEMS_PER_DAY, qr_quantity = 40,
     qr_idempotency_key = ''embedding:p'', qr_actor = None, qr_correlation_id = ''c''\<rparr>"

definition sample_counter :: usage_counter where
  "sample_counter = \<lparr>uc_organization = 1, uc_actor = None, uc_scope = TENANT, uc_subject_key = ''tenant:t1'',
     uc_kind = EMBEDDING_ITEMS_PER_DAY, uc_window_started_at = 0, uc_window_ends_at = 86400000000, uc_limit = 10000,
     uc_consumed = 40, uc_policy_version = 0, uc_policy_sha256 = ep_policy_sha256 default_policy\<rparr>"

definition sample_reservation :: usage_reservation where
  "sample_reservation = \<lparr>ur_organization = 1, ur_actor = None, ur_counter = 0, ur_scope = TENANT,
     ur_subject_key = ''tenant:t1'', ur_kind = EMBEDDING_ITEMS_PER_DAY, ur_idempotency_key = ''embedding:p'',
     ur_quantity = 40, ur_correlation_id = ''c''\<rparr>"

definition sample_charged :: quota_db where
  "sample_charged = sample_db\<lparr>db_counters := [sample_counter], db_reservations := [sample_reservation]\<rparr>"

lemma sample_reserve:
  "reserve_quota sample_request 5000000 sample_db =
     Inr (sample_charged, \<lparr>rr_reservations = [sample_reservation], rr_duplicate = False\<rparr>)"
proof -
  have "limit_of default_policy EMBEDDING_ITEMS_PER_DAY = Inr 10000"
    by (simp add: limit_of_def default_policy_def DEFAULT_QUOTA_LIMITS_def quota_kinds_def)
  moreover have "resolve_operational_policy 1 sample_db = Inr default_policy"
    by (simp add: resolve_operational_policy_def policies_of_def sample_db_def)
  moreover have "quota_window EMBEDDING_ITEMS_PER_DAY 5000000 = (0, 86400000000)"
    by (simp add: quota_window_def quota_seconds_def epoch_seconds_def endswith_def)
  ultimately show ?thesis
    by (simp add: reserve_quota_def quota_guard_def sample_request_def code_def reserve_windowed_def
        lock_organization_def get_one_def quota_subjects_def existing_reservations_def List.map_filter_simps
        charge_subject_def open_counter_def new_counter_def new_reservation_def sample_charged_def
        sample_counter_def sample_reservation_def default_policy_def Let_def sample_db_def)
qed

lemma sample_later: "quota_later sample_db sample_charged"
  using quota_step.reserve [of sample_db sample_request 5000000]
  by (simp add: quota_later_def sample_reserve r_into_rtranclp)

lemma quota_books_always_balance_witness:
  "books_balance (db_counters sample_charged) (db_reservations sample_charged) \<and> db_reservations sample_charged \<noteq> []"
  using quota_books_always_balance [OF _ sample_later]
  by (simp add: fresh_books_def sample_db_def sample_charged_def)

lemma committed_reservation_is_replayed_for_ever_witness:
  "atomic (reserve_quota (sample_request\<lparr>qr_quantity := 15\<rparr>) 90000000000) sample_charged = (sample_charged,
     Inl (Raised (ValueError ''quota idempotency key conflicts with a prior reservation'')))"
proof -
  have "resolve_operational_policy 1 sample_charged = Inr default_policy"
    by (simp add: resolve_operational_policy_def policies_of_def sample_charged_def sample_db_def)
  then show ?thesis
    using committed_reservation_is_replayed_for_ever [OF sample_reserve, of sample_charged
        "sample_request\<lparr>qr_quantity := 15\<rparr>" "\<lparr>og_pk = 1, og_public_id = ''t1'', og_lifecycle = ORG_ACTIVE\<rparr>"
        "[\<lparr>qs_scope = TENANT, qs_key = ''tenant:t1'', qs_actor = None\<rparr>]" default_policy 90000000000]
    by (simp add: sample_request_def same_operation_def quota_later_def lock_organization_def get_one_def
        quota_subjects_def sample_charged_def sample_db_def Let_def)
qed

end
