(* ===== verification/Jobs.thy ===== *)
theory Jobs
  imports QuotaProofs
begin

section \<open>apps/web/analysis: jobs and the transactional outbox\<close>

text \<open>
  A job and its outbox event are created in the transaction that requests the work; the relay publishes
  events one transaction at a time; a worker runs a job in one transaction. The database extends that of
  the quotas. The broker is a function of the number of the call and the message; the analysis of a
  snapshot is a parameter that raises or returns the graph of the feature set (its own tables are not
  those of the model); \<open>clock n\<close> is the n-th reading of \<open>timezone.now()\<close>.
\<close>

datatype job_state = JOB_PENDING | JOB_RUNNING | JOB_COMPLETED | JOB_FAILED

datatype job_type = PULL_REQUEST_SNAPSHOT | INSTALLATION_LIFECYCLE | REPOSITORY_LIFECYCLE

datatype outbox_state = OUTBOX_PENDING | OUTBOX_PUBLISHED | OUTBOX_FAILED

record analysis_job =
  aj_public_id :: string
  aj_organization :: int
  aj_snapshot :: "string option"
  aj_job_type :: job_type
  aj_idempotency_key :: string
  aj_state :: job_state
  aj_attempt_count :: nat
  aj_max_attempts :: nat
  aj_available_at :: int
  aj_started_at :: "int option"
  aj_finished_at :: "int option"
  aj_outcome_code :: string
  aj_last_error_code :: string
  aj_correlation_id :: string

record outbox_event =
  ob_organization :: int
  ob_job :: nat
  ob_topic :: string
  ob_payload :: "(string \<times> string) list"
  ob_state :: outbox_state
  ob_attempt_count :: nat
  ob_max_attempts :: nat
  ob_available_at :: int
  ob_published_at :: "int option"
  ob_last_error_code :: string

record job_db = quota_db +
  db_jobs :: "analysis_job list"
  db_outbox :: "outbox_event list"

subsection \<open>create_job_with_outbox\<close>

definition new_job :: "organization_row \<Rightarrow> job_type \<Rightarrow> string \<Rightarrow> string \<Rightarrow> string option \<Rightarrow> string \<Rightarrow> int \<Rightarrow> analysis_job" where
  "new_job organization job_type idempotency_key correlation_id snapshot public_id now =
     \<lparr>aj_public_id = public_id, aj_organization = og_pk organization, aj_snapshot = snapshot,
       aj_job_type = job_type, aj_idempotency_key = idempotency_key, aj_state = JOB_PENDING, aj_attempt_count = 0,
       aj_max_attempts = 5, aj_available_at = now, aj_started_at = None, aj_finished_at = None,
       aj_outcome_code = '''', aj_last_error_code = '''', aj_correlation_id = correlation_id\<rparr>"

definition new_event :: "organization_row \<Rightarrow> nat \<Rightarrow> string \<Rightarrow> int \<Rightarrow> outbox_event" where
  "new_event organization job public_id now =
     \<lparr>ob_organization = og_pk organization, ob_job = job, ob_topic = ''releaseproof.analysis.process_job.v1'',
       ob_payload = [(''organization_id'', og_public_id organization), (''job_id'', public_id)],
       ob_state = OUTBOX_PENDING, ob_attempt_count = 0, ob_max_attempts = 5, ob_available_at = now,
       ob_published_at = None, ob_last_error_code = ''''\<rparr>"

text \<open>\<open>get_or_create\<close> looks within the tenant; the key is unique in the whole table.\<close>

definition get_or_create_job :: "organization_row \<Rightarrow> analysis_job \<Rightarrow> analysis_job list \<Rightarrow> web_error + nat \<times> bool" where
  "get_or_create_job organization job jobs =
     (case index_of (\<lambda>j. aj_organization j = og_pk organization \<and> aj_idempotency_key j = aj_idempotency_key job) jobs of
        Some i \<Rightarrow> Inr (i, False)
      | None \<Rightarrow> if list_ex (\<lambda>j. aj_idempotency_key j = aj_idempotency_key job \<or> aj_public_id j = aj_public_id job) jobs
          then Inl (IntegrityError ''analysis_analysisjob'') else Inr (length jobs, True))"

definition create_job_with_outbox ::
  "organization_row \<Rightarrow> job_type \<Rightarrow> string \<Rightarrow> string \<Rightarrow> string option \<Rightarrow> string \<Rightarrow> int \<Rightarrow> 'a job_db_scheme \<Rightarrow>
   web_error + 'a job_db_scheme \<times> nat \<times> bool" where
  "create_job_with_outbox organization job_type idempotency_key correlation_id snapshot public_id now db =
     and_then (reserve_quota \<lparr>qr_organization = og_pk organization, qr_kind = ANALYSIS_REQUESTS_PER_HOUR,
       qr_quantity = 1, qr_idempotency_key = idempotency_key, qr_actor = None,
       qr_correlation_id = correlation_id\<rparr> now db) (\<lambda>(db1, _).
     let job = new_job organization job_type idempotency_key correlation_id snapshot public_id now in
     and_then (get_or_create_job organization job (db_jobs db1)) (\<lambda>(i, created).
     if \<not> created \<and> aj_organization (db_jobs db1 ! i) \<noteq> og_pk organization
     then Inl (Raised (ValueError ''idempotency key resolved outside the organization scope''))
     else if created then
       Inr (db1\<lparr>db_jobs := db_jobs db1 @ [job],
              db_outbox := db_outbox db1 @ [new_event organization i public_id now]\<rparr>, i, created)
     else Inr (db1, i, created)))"

subsection \<open>relay_outbox_for_organization\<close>

datatype publish_outcome = Delivered | Broker_Unavailable | Publisher_Raises exn

record relay_result =
  rl_published :: nat
  rl_failed :: nat

definition due_event :: "int \<Rightarrow> int \<Rightarrow> outbox_event \<Rightarrow> bool" where
  "due_event organization now e = (ob_state e = OUTBOX_PENDING \<and> ob_organization e = organization \<and>
     ob_available_at e \<le> now \<and> ob_attempt_count e < ob_max_attempts e)"

text \<open>The default order is \<open>(available_at, id)\<close>; the sort is stable and ids ascend.\<close>

definition due_ids :: "int \<Rightarrow> int \<Rightarrow> 'a job_db_scheme \<Rightarrow> nat list" where
  "due_ids organization now db = sort_key (\<lambda>i. ob_available_at (db_outbox db ! i))
     (filter (\<lambda>i. due_event organization now (db_outbox db ! i)) [0..<length (db_outbox db)])"

definition event_message :: "'a job_db_scheme \<Rightarrow> outbox_event \<Rightarrow> task_message" where
  "event_message db e = \<lparr>tm_topic = ob_topic e, tm_payload = ob_payload e,
     tm_idempotency_key = aj_public_id (db_jobs db ! ob_job e)\<rparr>"

definition publish_failed :: "outbox_event \<Rightarrow> outbox_event" where
  "publish_failed e = e\<lparr>ob_attempt_count := ob_attempt_count e + 1, ob_last_error_code := ''broker_unavailable'',
     ob_state := (if ob_attempt_count e + 1 \<ge> ob_max_attempts e then OUTBOX_FAILED else ob_state e)\<rparr>"

definition publish_succeeded :: "int \<Rightarrow> outbox_event \<Rightarrow> outbox_event" where
  "publish_succeeded now e = e\<lparr>ob_attempt_count := ob_attempt_count e + 1, ob_state := OUTBOX_PUBLISHED,
     ob_published_at := Some now, ob_last_error_code := ''''\<rparr>"

text \<open>One turn of the loop: a transaction of its own, with what it adds to the two counts.\<close>

definition relay_event ::
  "int \<Rightarrow> (task_message \<Rightarrow> publish_outcome) \<Rightarrow> int \<Rightarrow> nat \<Rightarrow> 'a job_db_scheme \<Rightarrow>
   web_error + 'a job_db_scheme \<times> relay_result" where
  "relay_event organization publish now i db =
     (let e = db_outbox db ! i in
      if \<not> (i < length (db_outbox db) \<and> ob_state e = OUTBOX_PENDING \<and> ob_organization e = organization)
      then Inr (db, \<lparr>rl_published = 0, rl_failed = 0\<rparr>)
      else and_then (lift_result (construct_with task_message_post_init (event_message db e))) (\<lambda>message.
        case publish message of
          Publisher_Raises x \<Rightarrow> Inl (Raised x)
        | Broker_Unavailable \<Rightarrow>
            Inr (db\<lparr>db_outbox := (db_outbox db)[i := publish_failed e]\<rparr>, \<lparr>rl_published = 0, rl_failed = 1\<rparr>)
        | Delivered \<Rightarrow>
            Inr (db\<lparr>db_outbox := (db_outbox db)[i := publish_succeeded now e]\<rparr>, \<lparr>rl_published = 1, rl_failed = 0\<rparr>)))"

fun relay_events ::
  "int \<Rightarrow> (nat \<Rightarrow> task_message \<Rightarrow> publish_outcome) \<Rightarrow> (nat \<Rightarrow> int) \<Rightarrow> nat \<Rightarrow> nat list \<Rightarrow> relay_result \<Rightarrow>
   'a job_db_scheme \<Rightarrow> 'a job_db_scheme \<times> (web_error + relay_result)" where
  "relay_events organization publish clock n [] result db = (db, Inr result)"
| "relay_events organization publish clock n (i # ids) result db =
     (case atomic (relay_event organization (publish n) (clock n) i) db of
        (db', Inl e) \<Rightarrow> (db', Inl e)
      | (db', Inr delta) \<Rightarrow> relay_events organization publish clock (n + 1) ids
          \<lparr>rl_published = rl_published result + rl_published delta, rl_failed = rl_failed result + rl_failed delta\<rparr> db')"

definition relay_outbox_for_organization ::
  "int \<Rightarrow> (nat \<Rightarrow> task_message \<Rightarrow> publish_outcome) \<Rightarrow> (nat \<Rightarrow> int) \<Rightarrow> int \<Rightarrow> 'a job_db_scheme \<Rightarrow>
   'a job_db_scheme \<times> (web_error + relay_result)" where
  "relay_outbox_for_organization organization publish clock limit db =
     (if limit < 1 \<or> limit > 1000
      then (db, Inl (Raised (ValueError ''outbox relay limit must be between 1 and 1000'')))
      else relay_events organization publish clock 1 (take (nat limit) (due_ids organization (clock 0) db))
        \<lparr>rl_published = 0, rl_failed = 0\<rparr> db)"

subsection \<open>process_ingestion_job\<close>

fun web_value_error :: "web_error \<Rightarrow> bool" where
  "web_value_error (Raised e) = is_value_error e"
| "web_value_error (OperationalPolicyError _) = True"
| "web_value_error _ = False"

definition wanted_job :: "string \<Rightarrow> string \<Rightarrow> 'a job_db_scheme \<Rightarrow> analysis_job \<Rightarrow> bool" where
  "wanted_job organization_public_id job_public_id db j = (aj_public_id j = job_public_id \<and>
     list_ex (\<lambda>g. og_pk g = aj_organization j \<and> og_public_id g = organization_public_id \<and> og_lifecycle g = ORG_ACTIVE)
       (db_organizations db))"

definition started_job :: "int \<Rightarrow> analysis_job \<Rightarrow> analysis_job" where
  "started_job now j = j\<lparr>aj_state := JOB_RUNNING,
     aj_started_at := Some (case aj_started_at j of None \<Rightarrow> now | Some t \<Rightarrow> t),
     aj_attempt_count := aj_attempt_count j + 1\<rparr>"

definition failed_job :: "int \<Rightarrow> string \<Rightarrow> analysis_job \<Rightarrow> analysis_job" where
  "failed_job now error_code j = j\<lparr>aj_state := JOB_FAILED, aj_finished_at := Some now, aj_last_error_code := error_code\<rparr>"

definition completed_job :: "int \<Rightarrow> string \<Rightarrow> analysis_job \<Rightarrow> analysis_job" where
  "completed_job now outcome j = j\<lparr>aj_state := JOB_COMPLETED, aj_finished_at := Some now, aj_outcome_code := outcome\<rparr>"

definition graph_outcome :: "pydict \<Rightarrow> string" where
  "graph_outcome graph = (if map_of graph ''available'' = Some (PyBool True) then ''change_intelligence_complete''
     else ''change_intelligence_partial'')"

definition run_job ::
  "(string \<Rightarrow> web_error + pydict) \<Rightarrow> int \<Rightarrow> analysis_job \<Rightarrow> web_error + analysis_job \<times> string" where
  "run_job analyze now j =
     (if aj_job_type j \<noteq> PULL_REQUEST_SNAPSHOT then Inr (completed_job now ''lifecycle_recorded'' j, ''completed'')
      else (case aj_snapshot j of
        None \<Rightarrow> Inr (failed_job now ''snapshot_missing'' j, ''failed'')
      | Some snapshot \<Rightarrow> (case analyze snapshot of
          Inl e \<Rightarrow> if web_value_error e then Inr (failed_job now ''change_intelligence_invalid_input'' j, ''failed'')
            else Inl e
        | Inr graph \<Rightarrow> Inr (completed_job now (graph_outcome graph) j, ''completed''))))"

definition process_ingestion_job ::
  "(string \<Rightarrow> web_error + pydict) \<Rightarrow> string \<Rightarrow> string \<Rightarrow> (nat \<Rightarrow> int) \<Rightarrow> 'a job_db_scheme \<Rightarrow>
   web_error + 'a job_db_scheme \<times> string" where
  "process_ingestion_job analyze organization_public_id job_public_id clock db =
     (case index_of (wanted_job organization_public_id job_public_id db) (db_jobs db) of
        None \<Rightarrow> Inr (db, ''not_found'')
      | Some i \<Rightarrow> (let j = db_jobs db ! i in
          if aj_state j = JOB_COMPLETED then Inr (db, ''duplicate'')
          else if aj_state j = JOB_FAILED \<or> aj_attempt_count j \<ge> aj_max_attempts j then Inr (db, ''terminal'')
          else and_then (run_job analyze (clock 1) (started_job (clock 0) j)) (\<lambda>(j', outcome).
            Inr (db\<lparr>db_jobs := (db_jobs db)[i := j']\<rparr>, outcome))))"

end
