(* ===== verification/JobProofs.thy ===== *)
theory JobProofs
  imports Jobs
begin

section \<open>Jobs and outbox: invariants, finality and delivery\<close>

text \<open>
  \<open>job_step\<close> is one committed or rolled-back transaction of the system, so the relay and the workers
  interleave freely. \<open>jobs_ok\<close> holds in every reachable database; jobs and events that have ended never
  change again; and a relay whose broker delivers empties the backlog.
\<close>

inductive job_step :: "'a job_db_scheme \<Rightarrow> 'a job_db_scheme \<Rightarrow> bool" where
  create: "length pid = 36 \<Longrightarrow>
    job_step db (fst (atomic (create_job_with_outbox g job_type key cid snapshot pid now) db))"
| relay: "job_step db (fst (atomic (relay_event organization publish now i) db))"
| work: "job_step db (fst (atomic (process_ingestion_job analyze gid jid clock) db))"
| quota: "quota_step db db' \<Longrightarrow> job_step db db'"

definition job_later :: "'a job_db_scheme \<Rightarrow> 'a job_db_scheme \<Rightarrow> bool" where
  "job_later = job_step\<^sup>*\<^sup>*"

definition no_jobs :: "'a job_db_scheme \<Rightarrow> bool" where
  "no_jobs db = (db_jobs db = [] \<and> db_outbox db = [])"

definition job_ok :: "analysis_job \<Rightarrow> bool" where
  "job_ok j = (aj_max_attempts j = 5 \<and> length (aj_public_id j) = 36 \<and>
     (case aj_state j of
        JOB_PENDING \<Rightarrow> aj_attempt_count j = 0 \<and> aj_started_at j = None \<and> aj_finished_at j = None
      | JOB_RUNNING \<Rightarrow> False
      | _ \<Rightarrow> aj_attempt_count j = 1 \<and> aj_started_at j \<noteq> None \<and> aj_finished_at j \<noteq> None))"

definition event_ok :: "outbox_event \<Rightarrow> bool" where
  "event_ok e = (ob_max_attempts e = 5 \<and> ob_topic e = ''releaseproof.analysis.process_job.v1'' \<and>
     (case ob_state e of
        OUTBOX_PENDING \<Rightarrow> ob_attempt_count e < 5 \<and> ob_published_at e = None
      | OUTBOX_PUBLISHED \<Rightarrow> 1 \<le> ob_attempt_count e \<and> ob_attempt_count e \<le> 5 \<and> ob_published_at e \<noteq> None
      | OUTBOX_FAILED \<Rightarrow> ob_attempt_count e = 5 \<and> ob_published_at e = None))"

definition announces :: "nat \<Rightarrow> outbox_event \<Rightarrow> analysis_job \<Rightarrow> bool" where
  "announces i e j = (ob_job e = i \<and> ob_organization e = aj_organization j \<and>
     map fst (ob_payload e) = [''organization_id'', ''job_id''] \<and>
     map_of (ob_payload e) ''job_id'' = Some (aj_public_id j))"

definition jobs_ok :: "analysis_job list \<Rightarrow> outbox_event list \<Rightarrow> bool" where
  "jobs_ok jobs events = (length events = length jobs \<and>
     (\<forall>i < length jobs. job_ok (jobs ! i) \<and> event_ok (events ! i) \<and> announces i (events ! i) (jobs ! i)) \<and>
     distinct (map aj_public_id jobs) \<and> distinct (map aj_idempotency_key jobs))"

subsection \<open>What a transaction writes\<close>

lemma charge_subjects_frame:
  "charge_subjects r policy limit now ss db = Inr (db', vs) \<Longrightarrow> quota_db.more db' = quota_db.more db"
  by (induction ss arbitrary: db db' vs) (fastforce simp: and_then_Inr elim: charge_subject_cases)+

lemma reserve_quota_frame: "reserve_quota r now db = Inr (db', res) \<Longrightarrow> quota_db.more db' = quota_db.more db"
  by (erule reserve_quota_cases, simp, erule reserve_windowed_cases) (auto dest: charge_subjects_frame)

lemma reserve_items_frame: "reserve_items r items now db = Inr (db', xs) \<Longrightarrow> quota_db.more db' = quota_db.more db"
  by (induction r items now db arbitrary: db' xs rule: reserve_items.induct)
    (auto simp: and_then_Inr dest!: reserve_quota_frame)

lemma quota_step_frame: "quota_step db db' \<Longrightarrow> quota_db.more db' = quota_db.more db"
proof (induction rule: quota_step.induct)
  case (reserve db r now)
  show ?case by (intro atomic_invariant [where P = "\<lambda>d. quota_db.more d = quota_db.more db"])
      (auto dest: reserve_quota_frame)
next
  case (upload db g n key actor cid now)
  show ?case by (intro atomic_invariant [where P = "\<lambda>d. quota_db.more d = quota_db.more db"])
      (auto simp: reserve_upload_def and_then_Inr dest: reserve_quota_frame)
next
  case (several db r items now)
  show ?case by (intro atomic_invariant [where P = "\<lambda>d. quota_db.more d = quota_db.more db"])
      (auto simp: reserve_quota_bundle_def dest: reserve_items_frame split: if_splits)
next
  case (policy db g user limits ds pid cid)
  show ?case by (intro atomic_invariant [where P = "\<lambda>d. quota_db.more d = quota_db.more db"])
      (auto simp: create_operational_policy_def record_audit_def and_then_Inr Let_def split: option.splits)
qed simp

lemma same_more:
  fixes db db' :: "'a job_db_scheme"
  assumes "quota_db.more db' = quota_db.more db"
  shows "db_jobs db' = db_jobs db" "db_outbox db' = db_outbox db"
  using assms by (cases db; cases db'; simp)+

lemma create_cases:
  assumes "create_job_with_outbox g job_type key cid snapshot pid now db = Inr (db', i, created)"
  obtains (existing) "\<not> created" "db_jobs db' = db_jobs db" "db_outbox db' = db_outbox db"
      "i < length (db_jobs db)" "aj_idempotency_key (db_jobs db ! i) = key" "aj_organization (db_jobs db ! i) = og_pk g"
  | (fresh) "created" "i = length (db_jobs db)" "pid \<notin> aj_public_id ` set (db_jobs db)"
      "key \<notin> aj_idempotency_key ` set (db_jobs db)"
      "db_jobs db' = db_jobs db @ [new_job g job_type key cid snapshot pid now]"
      "db_outbox db' = db_outbox db @ [new_event g i pid now]"
proof -
  from assms obtain db1 res where r: "reserve_quota \<lparr>qr_organization = og_pk g, qr_kind = ANALYSIS_REQUESTS_PER_HOUR,
       qr_quantity = 1, qr_idempotency_key = key, qr_actor = None, qr_correlation_id = cid\<rparr> now db = Inr (db1, res)"
    by (auto simp: create_job_with_outbox_def and_then_Inr)
  note frame = same_more [OF reserve_quota_frame [OF r]]
  let ?found = "index_of (\<lambda>j. aj_organization j = og_pk g \<and> aj_idempotency_key j = key) (db_jobs db)"
  show thesis
  proof (cases ?found)
    case (Some k)
    with assms r frame index_of_Some [OF Some] show thesis
      by (intro existing) (auto simp: create_job_with_outbox_def get_or_create_job_def new_job_def Let_def)
  next
    case None
    with assms r frame show thesis
      by (intro fresh) (auto simp: create_job_with_outbox_def get_or_create_job_def and_then_Inr new_job_def
          Let_def list_ex_iff split: if_splits)
  qed
qed

lemma relay_cases:
  assumes "relay_event organization publish now i db = Inr (db', delta)"
  obtains (skip) "db' = db"
  | (wrote) e' where "i < length (db_outbox db)" "ob_state (db_outbox db ! i) = OUTBOX_PENDING"
      "ob_organization (db_outbox db ! i) = organization"
      "e' = publish_failed (db_outbox db ! i) \<or> e' = publish_succeeded now (db_outbox db ! i)"
      "db' = db\<lparr>db_outbox := (db_outbox db)[i := e']\<rparr>"
  using assms by (auto simp: relay_event_def and_then_Inr Let_def split: if_splits publish_outcome.splits)

lemma process_cases:
  assumes "process_ingestion_job analyze gid jid clock db = Inr (db', outcome)"
  obtains (skip) "db' = db" "outcome \<in> {''not_found'', ''duplicate'', ''terminal''}"
  | (wrote) i j' where "i < length (db_jobs db)" "wanted_job gid jid db (db_jobs db ! i)"
      "aj_state (db_jobs db ! i) \<notin> {JOB_COMPLETED, JOB_FAILED}"
      "run_job analyze (clock 1) (started_job (clock 0) (db_jobs db ! i)) = Inr (j', outcome)"
      "db' = db\<lparr>db_jobs := (db_jobs db)[i := j']\<rparr>"
proof (cases "index_of (wanted_job gid jid db) (db_jobs db)")
  case None
  with assms show thesis by (intro skip) (auto simp: process_ingestion_job_def)
next
  case (Some i)
  let ?j = "db_jobs db ! i"
  consider (ended) "aj_state ?j \<in> {JOB_COMPLETED, JOB_FAILED} \<or> aj_max_attempts ?j \<le> aj_attempt_count ?j"
    | (runs) "aj_state ?j \<notin> {JOB_COMPLETED, JOB_FAILED}" "aj_attempt_count ?j < aj_max_attempts ?j" by fastforce
  then show thesis
  proof cases
    case ended
    with assms Some show thesis
      by (intro skip) (auto simp: process_ingestion_job_def Let_def split: if_splits)
  next
    case runs
    with assms Some obtain j' where "run_job analyze (clock 1) (started_job (clock 0) ?j) = Inr (j', outcome)"
      "db' = db\<lparr>db_jobs := (db_jobs db)[i := j']\<rparr>"
      by (auto simp: process_ingestion_job_def and_then_Inr Let_def)
    with runs index_of_Some [OF Some] show thesis by (intro wrote) auto
  qed
qed

lemma run_job_writes:
  assumes "run_job analyze now j = Inr (j', outcome)"
  obtains (completed) c where "j' = completed_job now c j" | (failed) c where "j' = failed_job now c j"
  using assms by (auto simp: run_job_def split: if_splits option.splits sum.splits)

lemma published_event_ok:
  "event_ok e \<Longrightarrow> ob_state e = OUTBOX_PENDING \<Longrightarrow> event_ok (publish_failed e) \<and> event_ok (publish_succeeded now e)"
  by (auto simp: event_ok_def publish_failed_def publish_succeeded_def)

lemma run_job_ok:
  assumes "run_job analyze now (started_job t j) = Inr (j', outcome)" "job_ok j" "aj_state j \<notin> {JOB_COMPLETED, JOB_FAILED}"
  shows "job_ok j' \<and> aj_public_id j' = aj_public_id j \<and> aj_idempotency_key j' = aj_idempotency_key j \<and>
    aj_organization j' = aj_organization j \<and> aj_state j' \<in> {JOB_COMPLETED, JOB_FAILED}"
  using assms(1)
  by (rule run_job_writes) (use assms(2,3) in \<open>auto simp: job_ok_def started_job_def completed_job_def failed_job_def
      split: job_state.splits\<close>)

subsection \<open>The invariant\<close>

lemma create_ok:
  assumes "jobs_ok (db_jobs db) (db_outbox db)" "length pid = 36"
    and c: "create_job_with_outbox g job_type key cid snapshot pid now db = Inr (db', i, created)"
  shows "jobs_ok (db_jobs db') (db_outbox db')"
  using c
proof (cases rule: create_cases)
  case existing
  with assms(1) show ?thesis by simp
next
  case fresh
  with assms(1,2) show ?thesis
    by (auto simp: jobs_ok_def nth_append less_Suc_eq job_ok_def event_ok_def announces_def new_job_def new_event_def)
qed

lemma relay_ok:
  assumes "jobs_ok (db_jobs db) (db_outbox db)" and c: "relay_event organization publish now i db = Inr (db', delta)"
  shows "jobs_ok (db_jobs db') (db_outbox db')"
  using c
proof (cases rule: relay_cases)
  case skip
  with assms(1) show ?thesis by simp
next
  case (wrote e')
  let ?e = "db_outbox db ! i"
  from assms(1) wrote(1) have "event_ok ?e" "announces i ?e (db_jobs db ! i)" by (simp_all add: jobs_ok_def)
  with published_event_ok [OF _ wrote(2)] wrote(4) have "event_ok e' \<and> announces i e' (db_jobs db ! i)"
    by (auto simp: announces_def publish_failed_def publish_succeeded_def)
  with assms(1) wrote(1,5) show ?thesis by (auto simp: jobs_ok_def nth_list_update)
qed

lemma map_update_same: "i < length xs \<Longrightarrow> f y = f (xs ! i) \<Longrightarrow> map f (xs[i := y]) = map f xs"
  by (simp add: map_update list_update_same_conv)

lemma process_ok:
  assumes "jobs_ok (db_jobs db) (db_outbox db)" and c: "process_ingestion_job analyze gid jid clock db = Inr (db', outcome)"
  shows "jobs_ok (db_jobs db') (db_outbox db')"
  using c
proof (cases rule: process_cases)
  case skip
  with assms(1) show ?thesis by simp
next
  case (wrote i j')
  from assms(1) wrote(1) have "job_ok (db_jobs db ! i)" "announces i (db_outbox db ! i) (db_jobs db ! i)"
    by (simp_all add: jobs_ok_def)
  with run_job_ok [OF wrote(4) _ wrote(3)] have "job_ok j'" "aj_public_id j' = aj_public_id (db_jobs db ! i)"
    "aj_idempotency_key j' = aj_idempotency_key (db_jobs db ! i)" "announces i (db_outbox db ! i) j'"
    by (auto simp: announces_def)
  with assms(1) wrote(1,5) show ?thesis
    by (auto simp: jobs_ok_def nth_list_update map_update_same)
qed

lemma job_step_ok: "job_step db db' \<Longrightarrow> jobs_ok (db_jobs db) (db_outbox db) \<Longrightarrow> jobs_ok (db_jobs db') (db_outbox db')"
proof (induction rule: job_step.induct)
  case (create pid db g job_type key cid snapshot now)
  then show ?case by (intro atomic_invariant [where P = "\<lambda>d. jobs_ok (db_jobs d) (db_outbox d)"]) (auto dest: create_ok)
next
  case (relay db organization publish now i)
  then show ?case by (intro atomic_invariant [where P = "\<lambda>d. jobs_ok (db_jobs d) (db_outbox d)"]) (auto dest: relay_ok)
next
  case (work db analyze gid jid clock)
  then show ?case by (intro atomic_invariant [where P = "\<lambda>d. jobs_ok (db_jobs d) (db_outbox d)"]) (auto dest: process_ok)
next
  case (quota db db')
  then show ?case by (simp add: same_more [OF quota_step_frame])
qed

lemma job_later_ok: "job_later db db' \<Longrightarrow> jobs_ok (db_jobs db) (db_outbox db) \<Longrightarrow> jobs_ok (db_jobs db') (db_outbox db')"
  unfolding job_later_def by (induction rule: rtranclp_induct) (auto dest: job_step_ok)

subsection \<open>What has ended stays as it is\<close>

definition ended :: "analysis_job \<Rightarrow> bool" where
  "ended j = (aj_state j \<in> {JOB_COMPLETED, JOB_FAILED})"

definition job_kept :: "nat \<Rightarrow> 'a job_db_scheme \<Rightarrow> 'a job_db_scheme \<Rightarrow> bool" where
  "job_kept i db db' = (i < length (db_jobs db') \<and> aj_public_id (db_jobs db' ! i) = aj_public_id (db_jobs db ! i) \<and>
     (ended (db_jobs db ! i) \<longrightarrow> db_jobs db' ! i = db_jobs db ! i))"

definition event_kept :: "nat \<Rightarrow> 'a job_db_scheme \<Rightarrow> 'a job_db_scheme \<Rightarrow> bool" where
  "event_kept i db db' = (i < length (db_outbox db') \<and>
     ob_payload (db_outbox db' ! i) = ob_payload (db_outbox db ! i) \<and>
     ob_job (db_outbox db' ! i) = ob_job (db_outbox db ! i) \<and>
     (ob_state (db_outbox db ! i) \<noteq> OUTBOX_PENDING \<longrightarrow> db_outbox db' ! i = db_outbox db ! i))"

lemma create_kept:
  assumes "create_job_with_outbox g job_type key cid snapshot pid now db = Inr (db', k, created)"
  shows "i < length (db_jobs db) \<Longrightarrow> job_kept i db db'" "i < length (db_outbox db) \<Longrightarrow> event_kept i db db'"
  using assms by (auto simp: job_kept_def event_kept_def nth_append elim: create_cases)

lemma relay_kept:
  assumes "relay_event organization publish now k db = Inr (db', delta)"
  shows "i < length (db_jobs db) \<Longrightarrow> job_kept i db db'" "i < length (db_outbox db) \<Longrightarrow> event_kept i db db'"
  using assms by (auto simp: job_kept_def event_kept_def nth_list_update publish_failed_def publish_succeeded_def
      elim!: relay_cases)

lemma run_job_public_id:
  "run_job analyze now (started_job t j) = Inr (j', outcome) \<Longrightarrow> aj_public_id j' = aj_public_id j"
  by (erule run_job_writes) (simp_all add: started_job_def completed_job_def failed_job_def)

lemma process_kept:
  assumes "process_ingestion_job analyze gid jid clock db = Inr (db', outcome)"
  shows "i < length (db_jobs db) \<Longrightarrow> job_kept i db db'" "i < length (db_outbox db) \<Longrightarrow> event_kept i db db'"
  using assms
  by (auto simp: job_kept_def event_kept_def ended_def nth_list_update dest: run_job_public_id elim!: process_cases)

lemma step_job_kept: "job_step db db' \<Longrightarrow> i < length (db_jobs db) \<Longrightarrow> job_kept i db db'"
proof (induction rule: job_step.induct)
  case (create pid db g job_type key cid snapshot now)
  then show ?case by (intro atomic_invariant [where P = "job_kept i db"]) (auto dest: create_kept simp: job_kept_def)
next
  case (relay db organization publish now k)
  then show ?case by (intro atomic_invariant [where P = "job_kept i db"]) (auto dest: relay_kept simp: job_kept_def)
next
  case (work db analyze gid jid clock)
  then show ?case by (intro atomic_invariant [where P = "job_kept i db"]) (auto dest: process_kept simp: job_kept_def)
qed (simp add: job_kept_def same_more [OF quota_step_frame])

lemma step_event_kept: "job_step db db' \<Longrightarrow> i < length (db_outbox db) \<Longrightarrow> event_kept i db db'"
proof (induction rule: job_step.induct)
  case (create pid db g job_type key cid snapshot now)
  then show ?case by (intro atomic_invariant [where P = "event_kept i db"]) (auto dest: create_kept simp: event_kept_def)
next
  case (relay db organization publish now k)
  then show ?case by (intro atomic_invariant [where P = "event_kept i db"]) (auto dest: relay_kept simp: event_kept_def)
next
  case (work db analyze gid jid clock)
  then show ?case by (intro atomic_invariant [where P = "event_kept i db"]) (auto dest: process_kept simp: event_kept_def)
qed (simp add: event_kept_def same_more [OF quota_step_frame])

lemma later_job_kept: "job_later db db' \<Longrightarrow> i < length (db_jobs db) \<Longrightarrow> job_kept i db db'"
  unfolding job_later_def
proof (induction rule: rtranclp_induct)
  case base
  then show ?case by (simp add: job_kept_def)
next
  case (step db1 db2)
  then have kept: "job_kept i db db1" by simp
  then have "job_kept i db1 db2" using step_job_kept [OF step(2)] by (simp add: job_kept_def)
  with kept show ?case by (auto simp: job_kept_def)
qed

lemma later_event_kept: "job_later db db' \<Longrightarrow> i < length (db_outbox db) \<Longrightarrow> event_kept i db db'"
  unfolding job_later_def
proof (induction rule: rtranclp_induct)
  case base
  then show ?case by (simp add: event_kept_def)
next
  case (step db1 db2)
  then have kept: "event_kept i db db1" by simp
  then have "event_kept i db1 db2" using step_event_kept [OF step(2)] by (simp add: event_kept_def)
  with kept show ?case by (auto simp: event_kept_def)
qed

subsection \<open>A job runs once\<close>

definition reachable_db :: "'a job_db_scheme \<Rightarrow> bool" where
  "reachable_db db = (\<exists>db0. no_jobs db0 \<and> job_later db0 db)"

lemma reachable_ok: "reachable_db db \<Longrightarrow> jobs_ok (db_jobs db) (db_outbox db)"
  using job_later_ok by (fastforce simp: reachable_db_def no_jobs_def jobs_ok_def)

lemma reachable_later: "reachable_db db \<Longrightarrow> job_later db db' \<Longrightarrow> reachable_db db'"
  unfolding reachable_db_def job_later_def by (meson rtranclp_trans)

lemma index_of_unique:
  assumes "distinct (map f xs)" "i < length xs" "P (xs ! i)" "\<And>x. P x \<Longrightarrow> f x = f (xs ! i)"
  shows "index_of P xs = Some i"
proof (cases "index_of P xs")
  case None
  with assms(2,3) show ?thesis by (auto simp: index_of_None)
next
  case (Some k)
  with index_of_Some [OF Some] assms(4) have "k < length xs" "f (xs ! k) = f (xs ! i)" by auto
  with assms(1,2) have "k = i" by (metis distinct_conv_nth length_map nth_map)
  with Some show ?thesis by simp
qed

lemma wanted_index:
  assumes "jobs_ok (db_jobs db) (db_outbox db)" "i < length (db_jobs db)" "wanted_job gid jid db (db_jobs db ! i)"
  shows "index_of (wanted_job gid jid db) (db_jobs db) = Some i"
  using assms by (intro index_of_unique [where f = aj_public_id]) (auto simp: jobs_ok_def wanted_job_def)

lemma public_ids_unique:
  assumes "jobs_ok jobs events" "k < length jobs" "i < length jobs" "aj_public_id (jobs ! k) = aj_public_id (jobs ! i)"
  shows "k = i"
  using assms nth_eq_iff_index_eq [of "map aj_public_id jobs" k i] by (simp add: jobs_ok_def)

lemma process_ended:
  assumes "jobs_ok (db_jobs db) (db_outbox db)" "i < length (db_jobs db)" "ended (db_jobs db ! i)"
  shows "fst (atomic (process_ingestion_job analyze gid (aj_public_id (db_jobs db ! i)) clock) db) = db"
proof (cases "process_ingestion_job analyze gid (aj_public_id (db_jobs db ! i)) clock db")
  case (Inl e)
  then show ?thesis by simp
next
  case (Inr p)
  obtain db' outcome where p: "p = (db', outcome)" by (cases p)
  from Inr p have "process_ingestion_job analyze gid (aj_public_id (db_jobs db ! i)) clock db = Inr (db', outcome)" by simp
  then show ?thesis
  proof (cases rule: process_cases)
    case skip
    with Inr p show ?thesis by simp
  next
    case (wrote k j')
    from wrote(2) have "aj_public_id (db_jobs db ! k) = aj_public_id (db_jobs db ! i)" by (simp add: wanted_job_def)
    with assms(1,2) wrote(1) have "k = i" by (intro public_ids_unique) auto
    with wrote(3) assms(3) show ?thesis by (simp add: ended_def)
  qed
qed

definition analysis_settles :: "(string \<Rightarrow> web_error + pydict) \<Rightarrow> analysis_job \<Rightarrow> bool" where
  "analysis_settles analyze j = (case aj_snapshot j of None \<Rightarrow> True
     | Some s \<Rightarrow> (case analyze s of Inl e \<Rightarrow> web_value_error e | Inr g \<Rightarrow> True))"

lemma run_job_settles:
  "(\<exists>j' outcome. run_job analyze now (started_job t j) = Inr (j', outcome)) \<longleftrightarrow>
    analysis_settles analyze j \<or> aj_job_type j \<noteq> PULL_REQUEST_SNAPSHOT"
  by (auto simp: run_job_def analysis_settles_def started_job_def split: option.splits sum.splits)

lemma run_job_outcome:
  "run_job analyze now j = Inr (j', outcome) \<Longrightarrow> outcome \<in> {''completed'', ''failed''}"
  by (auto simp: run_job_def split: if_splits option.splits sum.splits)

text \<open>C32: In every reachable database, a worker that is given a pending job of an active organization, and
  whose analysis returns or raises a ValueError, ends the job in that transaction; after that, whatever else
  happens, every further delivery of the same job leaves the database exactly as it was. An analysis that raises
  anything else leaves the database as it was too, so the job can be delivered again.\<close>

theorem delivered_job_ends_exactly_once:
  assumes "reachable_db db" "i < length (db_jobs db)" "wanted_job gid jid db (db_jobs db ! i)"
    and "aj_state (db_jobs db ! i) = JOB_PENDING"
    and "atomic (process_ingestion_job analyze gid jid clock) db = (db', r)"
  shows "if analysis_settles analyze (db_jobs db ! i) \<or> aj_job_type (db_jobs db ! i) \<noteq> PULL_REQUEST_SNAPSHOT
    then r \<in> {Inr ''completed'', Inr ''failed''} \<and> ended (db_jobs db' ! i) \<and>
      (\<forall>db2 analyze2 gid2 clock2. job_later db' db2 \<longrightarrow>
        db_jobs db2 ! i = db_jobs db' ! i \<and> fst (atomic (process_ingestion_job analyze2 gid2 jid clock2) db2) = db2)
    else db' = db \<and> (\<exists>e. r = Inl e)"
proof -
  let ?j = "db_jobs db ! i"
  note ok = reachable_ok [OF assms(1)]
  from ok assms(2,4) have att: "aj_attempt_count ?j = 0" "aj_max_attempts ?j = 5"
    by (auto simp: jobs_ok_def job_ok_def)
  have run: "process_ingestion_job analyze gid jid clock db =
      and_then (run_job analyze (clock 1) (started_job (clock 0) ?j)) (\<lambda>(j', outcome).
        Inr (db\<lparr>db_jobs := (db_jobs db)[i := j']\<rparr>, outcome))"
    using wanted_index [OF ok assms(2,3)] assms(4) att by (simp add: process_ingestion_job_def Let_def)
  show ?thesis
  proof (cases "run_job analyze (clock 1) (started_job (clock 0) ?j)")
    case (Inl e)
    then have "\<not> (analysis_settles analyze ?j \<or> aj_job_type ?j \<noteq> PULL_REQUEST_SNAPSHOT)"
      using run_job_settles [of analyze "clock 1" "clock 0" ?j] by simp
    moreover from Inl run assms(5) have "db' = db" "r = Inl e" by (auto simp: atomic_def)
    ultimately show ?thesis by simp
  next
    case (Inr p)
    then obtain j' outcome where j': "run_job analyze (clock 1) (started_job (clock 0) ?j) = Inr (j', outcome)" by (cases p) auto
    with run assms(5) have db': "db' = db\<lparr>db_jobs := (db_jobs db)[i := j']\<rparr>" "r = Inr outcome" by (simp_all add: atomic_def)
    from j' have out: "outcome \<in> {''completed'', ''failed''}"
      and settled: "analysis_settles analyze ?j \<or> aj_job_type ?j \<noteq> PULL_REQUEST_SNAPSHOT"
      using run_job_outcome run_job_settles by blast+
    from run_job_ok [OF j'] ok assms(2,4) have j: "ended j'" "aj_public_id j' = aj_public_id ?j"
      by (auto simp: jobs_ok_def ended_def)
    from assms(3) have jid: "aj_public_id ?j = jid" by (simp add: wanted_job_def)
    have "job_later db db'" using job_step.work [of db analyze gid jid clock] assms(5) by (simp add: job_later_def r_into_rtranclp)
    with assms(1) have reach: "reachable_db db'" by (rule reachable_later)
    have "db_jobs db2 ! i = j' \<and> fst (atomic (process_ingestion_job analyze2 gid2 jid clock2) db2) = db2"
      if later: "job_later db' db2" for db2 analyze2 gid2 clock2
    proof -
      from later_job_kept [OF later, of i] assms(2) j db'(1) have k: "i < length (db_jobs db2)" "db_jobs db2 ! i = j'"
        by (simp_all add: job_kept_def)
      with process_ended [OF reachable_ok [OF reachable_later [OF reach later]], of i] j jid show ?thesis by simp
    qed
    with out settled j db' assms(2) show ?thesis by auto
  qed
qed

end
