(* ===== verification/JobDelivery.thy ===== *)
theory JobDelivery
  imports JobProofs
begin

section \<open>The relay empties the backlog\<close>

text \<open>
  A relay is a sequence of steps of the system. When the broker delivers, one relay publishes the first
  \<open>limit\<close> due events and the rest stay due in their order, so enough relays leave none.
\<close>

lemma relay_events_later:
  "job_later db (fst (relay_events organization publish clock n ids result db))"
proof (induction ids arbitrary: n result db)
  case Nil
  then show ?case by (simp add: job_later_def)
next
  case (Cons i ids)
  let ?a = "atomic (relay_event organization (publish n) (clock n) i) db"
  have step: "job_step db (fst ?a)" by (rule job_step.relay)
  obtain db' x where a: "?a = (db', x)" by (cases ?a)
  show ?case
  proof (cases x)
    case (Inl e)
    with a step show ?thesis by (simp add: job_later_def r_into_rtranclp)
  next
    case (Inr delta)
    from step a have "job_step db db'" by simp
    with a Inr Cons.IH show ?thesis unfolding job_later_def by (simp add: converse_rtranclp_into_rtranclp)
  qed
qed

lemma relay_later: "job_later db (fst (relay_outbox_for_organization organization publish clock limit db))"
  unfolding relay_outbox_for_organization_def by (simp add: relay_events_later) (simp add: job_later_def)

lemma message_valid:
  assumes "jobs_ok (db_jobs db) (db_outbox db)" "i < length (db_outbox db)"
  shows "construct_with task_message_post_init (event_message db (db_outbox db ! i)) =
    Inr (event_message db (db_outbox db ! i))"
proof -
  from assms have e: "event_ok (db_outbox db ! i)" "announces i (db_outbox db ! i) (db_jobs db ! i)" "job_ok (db_jobs db ! i)"
    by (simp_all add: jobs_ok_def)
  then have "keys (ob_payload (db_outbox db ! i)) = [''organization_id'', ''job_id'']"
    by (simp add: announces_def keys_def)
  with e show ?thesis
    by (auto simp: task_message_post_init_def event_message_def has_exactly_iff event_ok_def announces_def job_ok_def)
qed

text \<open>A broker that is up (or down) for the whole relay, and what the relay writes then.\<close>

definition broker :: "bool \<Rightarrow> publish_outcome" where
  "broker up = (if up then Delivered else Broker_Unavailable)"

definition relayed :: "bool \<Rightarrow> int \<Rightarrow> outbox_event \<Rightarrow> outbox_event" where
  "relayed up t e = (if up then publish_succeeded t e else publish_failed e)"

definition relayed_at :: "bool \<Rightarrow> nat set \<Rightarrow> (nat \<Rightarrow> int) \<Rightarrow> outbox_event list \<Rightarrow> outbox_event list" where
  "relayed_at up S t es = map (\<lambda>i. if i \<in> S then relayed up (t i) (es ! i) else es ! i) [0..<length es]"

lemma relay_event_up:
  assumes "jobs_ok (db_jobs db) (db_outbox db)" "i < length (db_outbox db)"
    and "ob_state (db_outbox db ! i) = OUTBOX_PENDING" "ob_organization (db_outbox db ! i) = organization"
  shows "relay_event organization (\<lambda>m. broker up) now i db =
    Inr (db\<lparr>db_outbox := (db_outbox db)[i := relayed up now (db_outbox db ! i)]\<rparr>,
      \<lparr>rl_published = if up then 1 else 0, rl_failed = if up then 0 else 1\<rparr>)"
  using message_valid [OF assms(1,2)] assms(2-4)
  by (simp add: relay_event_def Let_def lift_result_def broker_def relayed_def del: construct_with_Inr)

lemma relay_events_up:
  assumes "jobs_ok (db_jobs db) (db_outbox db)" "distinct ids"
    and "\<forall>i \<in> set ids. i < length (db_outbox db) \<and> ob_state (db_outbox db ! i) = OUTBOX_PENDING \<and>
      ob_organization (db_outbox db ! i) = organization"
  shows "\<exists>t. relay_events organization (\<lambda>n m. broker up) clock n ids result db =
    (db\<lparr>db_outbox := relayed_at up (set ids) t (db_outbox db)\<rparr>,
     Inr \<lparr>rl_published = rl_published result + (if up then length ids else 0),
       rl_failed = rl_failed result + (if up then 0 else length ids)\<rparr>)"
  using assms
proof (induction ids arbitrary: n result db)
  case Nil
  then show ?case by (simp add: relayed_at_def map_nth)
next
  case (Cons i ids)
  let ?e = "db_outbox db ! i"
  let ?db = "db\<lparr>db_outbox := (db_outbox db)[i := relayed up (clock n) ?e]\<rparr>"
  let ?result = "\<lparr>rl_published = rl_published result + (if up then 1 else 0),
    rl_failed = rl_failed result + (if up then 0 else 1)\<rparr>"
  from Cons.prems(3) have i: "i < length (db_outbox db)" "ob_state ?e = OUTBOX_PENDING" "ob_organization ?e = organization" by simp_all
  note run = relay_event_up [OF Cons.prems(1) i, of up "clock n"]
  have "jobs_ok (db_jobs ?db) (db_outbox ?db)" by (rule relay_ok [OF Cons.prems(1) run])
  moreover have "\<forall>k \<in> set ids. k < length (db_outbox ?db) \<and> ob_state (db_outbox ?db ! k) = OUTBOX_PENDING \<and>
      ob_organization (db_outbox ?db ! k) = organization"
    using Cons.prems(2,3) by (auto simp: nth_list_update)
  ultimately obtain t where t: "relay_events organization (\<lambda>n m. broker up) clock (n + 1) ids ?result ?db =
    (?db\<lparr>db_outbox := relayed_at up (set ids) t (db_outbox ?db)\<rparr>,
     Inr \<lparr>rl_published = rl_published ?result + (if up then length ids else 0),
       rl_failed = rl_failed ?result + (if up then 0 else length ids)\<rparr>)"
    using Cons.IH [of ?db "n + 1" ?result] Cons.prems(2) by (auto simp del: list_update_beyond)
  have "relayed_at up (set ids) t (db_outbox ?db) = relayed_at up (set (i # ids)) (t(i := clock n)) (db_outbox db)"
    using Cons.prems(2) i(1) by (auto simp: relayed_at_def nth_list_update)
  with t run show ?case by (intro exI [of _ "t(i := clock n)"]) (auto simp add: fun_upd_def)
qed

lemma sort_key_agree: "\<forall>x \<in> set xs. f x = g x \<Longrightarrow> sort_key f xs = sort_key g xs"
proof (induction xs)
  case (Cons x xs)
  have insort: "\<forall>y \<in> set (x # ys). f y = g y \<Longrightarrow> insort_key f x ys = insort_key g x ys" for ys
    by (induction ys) auto
  from Cons insort [of "sort_key g xs"] show ?case by simp
qed simp

lemma due_ids_props:
  "distinct (due_ids organization now db)"
  "i \<in> set (due_ids organization now db) \<longleftrightarrow> i < length (db_outbox db) \<and> due_event organization now (db_outbox db ! i)"
  by (auto simp: due_ids_def)

lemma filter_take_drop: "distinct xs \<Longrightarrow> filter (\<lambda>x. x \<notin> set (take n xs)) xs = drop n xs"
  by (metis (no_types, lifting) append_take_drop_id distinct_append disjoint_iff filter_False filter_True
      filter_append self_append_conv2)

lemma due_after_delivery:
  assumes "db_outbox db' = relayed_at True (set (take n (due_ids organization now db))) t (db_outbox db)"
  shows "due_ids organization now db' = drop n (due_ids organization now db)"
proof -
  let ?S = "set (take n (due_ids organization now db))"
  let ?ks = "filter (\<lambda>i. due_event organization now (db_outbox db ! i)) [0..<length (db_outbox db)]"
  have len: "length (db_outbox db') = length (db_outbox db)" by (simp add: assms relayed_at_def)
  have nth: "db_outbox db' ! i = (if i \<in> ?S then publish_succeeded (t i) (db_outbox db ! i) else db_outbox db ! i)"
    if "i < length (db_outbox db)" for i using that by (simp add: assms relayed_at_def relayed_def)
  have "filter (\<lambda>i. due_event organization now (db_outbox db' ! i)) [0..<length (db_outbox db')] = filter (\<lambda>i. i \<notin> ?S) ?ks"
    unfolding filter_filter len by (intro filter_cong) (auto simp: nth due_event_def publish_succeeded_def)
  then have "due_ids organization now db' = sort_key (\<lambda>i. ob_available_at (db_outbox db ! i)) (filter (\<lambda>i. i \<notin> ?S) ?ks)"
    unfolding due_ids_def by (auto intro!: sort_key_agree simp: nth publish_succeeded_def)
  also have "\<dots> = filter (\<lambda>i. i \<notin> ?S) (due_ids organization now db)"
    unfolding due_ids_def by (simp add: filter_sort)
  also have "\<dots> = drop n (due_ids organization now db)" by (rule filter_take_drop) (rule due_ids_props)
  finally show ?thesis .
qed

lemma relay_up:
  assumes ok: "jobs_ok (db_jobs db) (db_outbox db)" and limit: "1 \<le> limit" "limit \<le> 1000"
  obtains t where "relay_outbox_for_organization organization (\<lambda>n m. broker up) clock limit db =
    (db\<lparr>db_outbox := relayed_at up (set (take (nat limit) (due_ids organization (clock 0) db))) t (db_outbox db)\<rparr>,
     Inr \<lparr>rl_published = if up then min (length (due_ids organization (clock 0) db)) (nat limit) else 0,
       rl_failed = if up then 0 else min (length (due_ids organization (clock 0) db)) (nat limit)\<rparr>)"
proof -
  let ?ids = "take (nat limit) (due_ids organization (clock 0) db)"
  have ids: "\<forall>i \<in> set ?ids. i < length (db_outbox db) \<and> ob_state (db_outbox db ! i) = OUTBOX_PENDING \<and>
      ob_organization (db_outbox db ! i) = organization"
    using set_take_subset [of "nat limit" "due_ids organization (clock 0) db"]
    by (auto simp: due_ids_props due_event_def dest!: subsetD)
  have "distinct ?ids" by (simp add: due_ids_props)
  from relay_events_up [OF ok this ids, of up clock 1 "\<lparr>rl_published = 0, rl_failed = 0\<rparr>"] limit show thesis
    by (auto simp: relay_outbox_for_organization_def intro: that)
qed

primrec relay_rounds ::
  "nat \<Rightarrow> int \<Rightarrow> (nat \<Rightarrow> task_message \<Rightarrow> publish_outcome) \<Rightarrow> (nat \<Rightarrow> int) \<Rightarrow> int \<Rightarrow> 'a job_db_scheme \<Rightarrow> 'a job_db_scheme" where
  "relay_rounds 0 organization publish clock limit db = db"
| "relay_rounds (Suc k) organization publish clock limit db =
     relay_rounds k organization publish clock limit (fst (relay_outbox_for_organization organization publish clock limit db))"

lemma rounds_later: "job_later db (relay_rounds k organization publish clock limit db)"
proof (induction k arbitrary: db)
  case 0
  then show ?case by (simp add: job_later_def)
next
  case (Suc k)
  show ?case using relay_later [of db] Suc unfolding job_later_def by (simp) (meson rtranclp_trans)
qed

lemma drain:
  assumes "jobs_ok (db_jobs db) (db_outbox db)" "1 \<le> limit" "limit \<le> 1000"
    and "length (due_ids organization (clock 0) db) \<le> rounds * nat limit"
  shows "due_ids organization (clock 0) (relay_rounds rounds organization (\<lambda>n m. broker True) clock limit db) = [] \<and>
    (\<forall>i \<in> set (due_ids organization (clock 0) db).
      ob_state (db_outbox (relay_rounds rounds organization (\<lambda>n m. broker True) clock limit db) ! i) = OUTBOX_PUBLISHED)"
  using assms
proof (induction rounds arbitrary: db)
  case 0
  then show ?case by simp
next
  case (Suc k)
  let ?ids = "due_ids organization (clock 0) db" and ?n = "nat limit"
  obtain t where db1: "fst (relay_outbox_for_organization organization (\<lambda>n m. broker True) clock limit db) =
      db\<lparr>db_outbox := relayed_at True (set (take ?n ?ids)) t (db_outbox db)\<rparr>" (is "_ = ?db1")
    using relay_up [OF Suc.prems(1-3), of organization True clock] by (metis fst_conv)
  have "job_later db ?db1" using relay_later [of db] db1 by metis
  then have ok: "jobs_ok (db_jobs ?db1) (db_outbox ?db1)" using Suc.prems(1) by (rule job_later_ok)
  have due: "due_ids organization (clock 0) ?db1 = drop ?n ?ids" by (rule due_after_delivery [where t = t]) simp
  have "length (due_ids organization (clock 0) ?db1) \<le> k * ?n" using Suc.prems(4) due by simp
  note IH = Suc.IH [OF ok Suc.prems(2,3) this]
  let ?final = "relay_rounds k organization (\<lambda>n m. broker True) clock limit ?db1"
  have "ob_state (db_outbox ?final ! i) = OUTBOX_PUBLISHED" if "i \<in> set ?ids" for i
  proof (cases "i \<in> set (drop ?n ?ids)")
    case True
    with IH due show ?thesis by simp
  next
    case False
    with that have "i \<in> set (take ?n ?ids)" by (metis Un_iff append_take_drop_id set_append)
    moreover from that have i: "i < length (db_outbox db)" by (simp add: due_ids_props)
    ultimately have "ob_state (db_outbox ?db1 ! i) = OUTBOX_PUBLISHED"
      by (simp add: relayed_at_def relayed_def publish_succeeded_def)
    with later_event_kept [OF rounds_later, of i ?db1] i show ?thesis by (simp add: event_kept_def relayed_at_def)
  qed
  with IH db1 show ?case by simp
qed

subsection \<open>A broker that is down\<close>

lemma due_shrinks:
  assumes "db_outbox db' = relayed_at False S t (db_outbox db)"
  shows "set (due_ids organization now db') \<subseteq> set (due_ids organization now db)"
proof
  fix i
  assume "i \<in> set (due_ids organization now db')"
  then have i: "i < length (db_outbox db)" and due: "due_event organization now (db_outbox db' ! i)"
    using assms by (auto simp: due_ids_props relayed_at_def)
  from i assms have "db_outbox db' ! i = (if i \<in> S then publish_failed (db_outbox db ! i) else db_outbox db ! i)"
    by (simp add: relayed_at_def relayed_def)
  with due have "due_event organization now (db_outbox db ! i)"
    by (auto simp: due_event_def publish_failed_def split: if_splits)
  with i show "i \<in> set (due_ids organization now db)" by (simp add: due_ids_props)
qed

lemma outage:
  assumes "jobs_ok (db_jobs db) (db_outbox db)" "1 \<le> limit" "limit \<le> 1000"
    and "length (due_ids organization (clock 0) db) \<le> nat limit" "i \<in> set (due_ids organization (clock 0) db)"
    and "5 \<le> ob_attempt_count (db_outbox db ! i) + k"
  shows "ob_state (db_outbox (relay_rounds k organization (\<lambda>n m. broker False) clock limit db) ! i) = OUTBOX_FAILED"
  using assms
proof (induction k arbitrary: db)
  case 0
  then have "event_ok (db_outbox db ! i)" "ob_state (db_outbox db ! i) = OUTBOX_PENDING"
    by (simp_all add: due_ids_props jobs_ok_def due_event_def)
  with 0 show ?case by (simp add: event_ok_def)
next
  case (Suc k)
  let ?ids = "due_ids organization (clock 0) db" and ?e = "db_outbox db ! i"
  obtain t where db1: "fst (relay_outbox_for_organization organization (\<lambda>n m. broker False) clock limit db) =
      db\<lparr>db_outbox := relayed_at False (set (take (nat limit) ?ids)) t (db_outbox db)\<rparr>" (is "_ = ?db1")
    using relay_up [OF Suc.prems(1-3), of organization False clock] by (metis fst_conv)
  have "job_later db ?db1" using relay_later [of db] db1 by metis
  then have ok: "jobs_ok (db_jobs ?db1) (db_outbox ?db1)" using Suc.prems(1) by (rule job_later_ok)
  from Suc.prems(5) have i: "i < length (db_outbox db)" and e: "due_event organization (clock 0) ?e" by (simp_all add: due_ids_props)
  with Suc.prems(1) have "ob_max_attempts ?e = 5" by (simp add: jobs_ok_def event_ok_def)
  moreover from Suc.prems(4,5) i have e1: "db_outbox ?db1 ! i = publish_failed ?e" by (simp add: relayed_at_def relayed_def)
  ultimately have step: "if ob_attempt_count ?e < 4 then due_event organization (clock 0) (db_outbox ?db1 ! i)
      else ob_state (db_outbox ?db1 ! i) = OUTBOX_FAILED"
    using e by (simp add: due_event_def publish_failed_def)
  show ?case
  proof (cases "ob_attempt_count ?e < 4")
    case True
    with step i have "i \<in> set (due_ids organization (clock 0) ?db1)" by (simp add: due_ids_props relayed_at_def)
    moreover have "length (due_ids organization (clock 0) ?db1) \<le> length ?ids"
      using card_mono [OF _ due_shrinks [of ?db1 "set (take (nat limit) ?ids)" t db organization "clock 0"]]
      by (simp add: distinct_card due_ids_props)
    ultimately show ?thesis
      using Suc.IH [OF ok Suc.prems(2,3)] Suc.prems(4,6) db1 e1 by (simp add: publish_failed_def)
  next
    case False
    with step later_event_kept [OF rounds_later, of i ?db1] i db1 show ?thesis by (simp add: event_kept_def relayed_at_def)
  qed
qed

lemma failed_event_never_due:
  assumes "jobs_ok (db_jobs db) (db_outbox db)" "job_later db db'" "i < length (db_outbox db)"
    and "ob_state (db_outbox db ! i) = OUTBOX_FAILED"
  shows "i \<notin> set (due_ids organization now db') \<and> db_outbox db' ! i = db_outbox db ! i"
  using later_event_kept [OF assms(2,3)] assms(4) by (simp add: event_kept_def due_ids_props due_event_def)

subsection \<open>Properties\<close>

text \<open>C34: In every database that the system reaches from empty tables, by any interleaving of creations, relay
  turns, workers and quota transactions: every job has exactly one outbox event, of its own tenant, on the
  allowed topic and naming the job by its public id only; no job is ever committed as running, it is pending with
  no attempt or ended with exactly one, so the bound of five attempts on a job never takes effect; an event is
  published after one to five attempts, or failed after exactly five.\<close>

theorem every_job_has_one_event:
  assumes "no_jobs db0" "job_later db0 db"
  shows "length (db_outbox db) = length (db_jobs db) \<and> (\<forall>i < length (db_jobs db).
    let j = db_jobs db ! i; e = db_outbox db ! i in
      ob_job e = i \<and> ob_organization e = aj_organization j \<and> ob_topic e = ''releaseproof.analysis.process_job.v1'' \<and>
      map fst (ob_payload e) = [''organization_id'', ''job_id''] \<and> map_of (ob_payload e) ''job_id'' = Some (aj_public_id j) \<and>
      aj_state j \<noteq> JOB_RUNNING \<and> aj_attempt_count j = (if aj_state j = JOB_PENDING then 0 else 1) \<and>
      (ob_state e = OUTBOX_PUBLISHED \<longrightarrow> ob_attempt_count e \<in> {1..5}) \<and>
      (ob_state e = OUTBOX_FAILED \<longrightarrow> ob_attempt_count e = 5))"
proof -
  from assms have ok: "jobs_ok (db_jobs db) (db_outbox db)" using reachable_ok by (auto simp: reachable_db_def)
  have "aj_state j \<noteq> JOB_RUNNING \<and> aj_attempt_count j = (if aj_state j = JOB_PENDING then 0 else 1)" if "job_ok j" for j
    using that by (auto simp: job_ok_def split: job_state.splits)
  moreover have "(ob_state e = OUTBOX_PUBLISHED \<longrightarrow> ob_attempt_count e \<in> {1..5}) \<and>
      (ob_state e = OUTBOX_FAILED \<longrightarrow> ob_attempt_count e = 5) \<and> ob_topic e = ''releaseproof.analysis.process_job.v1''"
    if "event_ok e" for e
    using that by (auto simp: event_ok_def)
  ultimately show ?thesis using ok by (auto simp: jobs_ok_def announces_def Let_def)
qed

text \<open>
  An outage that leaves every event at least one attempt keeps the backlog: a relay that fails raises the counter of
  an event and leaves it due.
\<close>

lemma failed_relay_keeps_due:
  assumes "jobs_ok (db_jobs db) (db_outbox db)" "db_outbox db' = relayed_at False S t (db_outbox db)"
    and "\<forall>i \<in> set (due_ids organization now db). ob_attempt_count (db_outbox db ! i) + 1 < 5"
  shows "set (due_ids organization now db') = set (due_ids organization now db)"
    "i < length (db_outbox db) \<Longrightarrow> ob_attempt_count (db_outbox db' ! i) \<le> ob_attempt_count (db_outbox db ! i) + 1"
proof -
  have nth: "db_outbox db' ! i = (if i \<in> S then publish_failed (db_outbox db ! i) else db_outbox db ! i)"
    if "i < length (db_outbox db)" for i using that assms(2) by (simp add: relayed_at_def relayed_def)
  have "i \<in> set (due_ids organization now db')" if due: "i \<in> set (due_ids organization now db)" for i
  proof -
    from due have i: "i < length (db_outbox db)" "due_event organization now (db_outbox db ! i)"
      by (simp_all add: due_ids_props)
    from assms(1) i(1) have "ob_max_attempts (db_outbox db ! i) = 5" by (simp add: jobs_ok_def event_ok_def)
    moreover have "ob_attempt_count (db_outbox db ! i) + 1 < 5" using assms(3) due by blast
    ultimately have "due_event organization now (db_outbox db' ! i)"
      using i(2) nth [OF i(1)] by (simp add: due_event_def publish_failed_def)
    with i(1) show ?thesis by (simp add: due_ids_props assms(2) relayed_at_def)
  qed
  with due_shrinks [OF assms(2)] show "set (due_ids organization now db') = set (due_ids organization now db)" by blast
  show "ob_attempt_count (db_outbox db' ! i) \<le> ob_attempt_count (db_outbox db ! i) + 1" if "i < length (db_outbox db)"
    using nth [OF that] by (simp add: publish_failed_def)
qed

lemma short_outage:
  assumes "jobs_ok (db_jobs db) (db_outbox db)" "1 \<le> limit" "limit \<le> 1000"
    and "\<forall>i \<in> set (due_ids organization now db). ob_attempt_count (db_outbox db ! i) + int k < 5"
  shows "set (due_ids organization now (relay_rounds k organization (\<lambda>n m. broker False) clock limit db)) =
    set (due_ids organization now db)"
  using assms
proof (induction k arbitrary: db)
  case (Suc k)
  let ?ids = "due_ids organization (clock 0) db"
  obtain t where db1: "fst (relay_outbox_for_organization organization (\<lambda>n m. broker False) clock limit db) =
      db\<lparr>db_outbox := relayed_at False (set (take (nat limit) ?ids)) t (db_outbox db)\<rparr>" (is "_ = ?db1")
    using relay_up [OF Suc.prems(1-3), of organization False clock] by (metis fst_conv)
  have "job_later db ?db1" using relay_later [of db] db1 by metis
  then have ok: "jobs_ok (db_jobs ?db1) (db_outbox ?db1)" using Suc.prems(1) by (rule job_later_ok)
  have left: "\<forall>i \<in> set (due_ids organization now db). ob_attempt_count (db_outbox db ! i) + 1 < 5"
  proof
    fix i assume "i \<in> set (due_ids organization now db)"
    with Suc.prems(4) have "ob_attempt_count (db_outbox db ! i) + int (Suc k) < 5" by blast
    then show "ob_attempt_count (db_outbox db ! i) + 1 < 5" by simp
  qed
  have outbox: "db_outbox ?db1 = relayed_at False (set (take (nat limit) ?ids)) t (db_outbox db)" by simp
  note step = failed_relay_keeps_due [OF Suc.prems(1) outbox left]
  have same: "set (due_ids organization now ?db1) = set (due_ids organization now db)" by (rule step(1))
  have "ob_attempt_count (db_outbox ?db1 ! i) + int k < 5" if "i \<in> set (due_ids organization now ?db1)" for i
  proof -
    from that same have "i \<in> set (due_ids organization now db)" by blast
    with Suc.prems(4) have "ob_attempt_count (db_outbox db ! i) + int (Suc k) < 5" "i < length (db_outbox db)"
      by (blast, simp add: due_ids_props)
    with step(2) [of i] show ?thesis by linarith
  qed
  with Suc.IH [OF ok Suc.prems(2,3)] same db1 show ?case by simp
qed simp

text \<open>C33: An outage within the attempt budget loses nothing. Let \<open>k\<close> relays find the broker down, where every due
  event has made fewer than \<open>5 - k\<close> attempts. Then the same events are due as before, still pending, and as soon
  as the broker delivers, as many relays as it takes to cover them at the given limit leave no event due and publish
  each of them, with the payload and the job it was committed with. The runbook promises this for every outage; it
  holds up to the fifth attempt only, see \<open>five_relays_strand_the_backlog\<close>.\<close>

theorem relays_recover_after_outage:
  assumes "reachable_db db" "1 \<le> limit" "limit \<le> 1000"
    and "\<forall>j \<in> set (due_ids organization (clock' 0) db). ob_attempt_count (db_outbox db ! j) + int k < 5"
    and "length (due_ids organization (clock' 0) db) \<le> rounds * nat limit"
    and "i \<in> set (due_ids organization (clock' 0) db)"
  shows "let failing = relay_rounds k organization (\<lambda>n m. Broker_Unavailable) clock limit db;
      recovered = relay_rounds rounds organization (\<lambda>n m. Delivered) clock' limit failing in
    set (due_ids organization (clock' 0) failing) = set (due_ids organization (clock' 0) db) \<and>
    ob_state (db_outbox failing ! i) = OUTBOX_PENDING \<and>
    due_ids organization (clock' 0) recovered = [] \<and>
    ob_state (db_outbox recovered ! i) = OUTBOX_PUBLISHED \<and>
    ob_payload (db_outbox recovered ! i) = ob_payload (db_outbox db ! i) \<and>
    ob_job (db_outbox recovered ! i) = ob_job (db_outbox db ! i)"
proof -
  note ok = reachable_ok [OF assms(1)]
  define failing where "failing = relay_rounds k organization (\<lambda>n m. Broker_Unavailable) clock limit db"
  define recovered where "recovered = relay_rounds rounds organization (\<lambda>n m. Delivered) clock' limit failing"
  have same: "set (due_ids organization (clock' 0) failing) = set (due_ids organization (clock' 0) db)"
    using short_outage [OF ok assms(2-4), of clock] by (simp add: failing_def broker_def)
  have l1: "job_later db failing" and l2: "job_later failing recovered"
    by (simp_all add: failing_def recovered_def rounds_later)
  note ok1 = job_later_ok [OF l1 ok]
  have "length (due_ids organization (clock' 0) failing) = length (due_ids organization (clock' 0) db)"
    using same by (metis distinct_card due_ids_props(1))
  with drain [OF ok1 assms(2,3), of organization clock' rounds] assms(5)
  have drained: "due_ids organization (clock' 0) recovered = []"
    "\<forall>i \<in> set (due_ids organization (clock' 0) failing). ob_state (db_outbox recovered ! i) = OUTBOX_PUBLISHED"
    by (simp_all add: recovered_def broker_def)
  have i: "i < length (db_outbox db)" "i < length (db_outbox failing)"
    "ob_state (db_outbox failing ! i) = OUTBOX_PENDING"
    using assms(6) same by (auto simp: due_ids_props due_event_def)
  from later_event_kept [OF l1 i(1)] later_event_kept [OF l2 i(2)] drained assms(6) same i(3) show ?thesis
    unfolding failing_def [symmetric] Let_def recovered_def [symmetric] by (simp add: event_kept_def)
qed

text \<open>If the broker is down, five relays that each cover the backlog mark every due event failed, and after that no
  later state of the system has the event due again, so no relay ever publishes it.\<close>

theorem five_relays_strand_the_backlog:
  assumes "reachable_db db" "1 \<le> limit" "limit \<le> 1000"
    and "length (due_ids organization (clock 0) db) \<le> nat limit" "i \<in> set (due_ids organization (clock 0) db)"
    and later: "job_later (relay_rounds 5 organization (\<lambda>n m. Broker_Unavailable) clock limit db) db2"
  shows "ob_state (db_outbox db2 ! i) = OUTBOX_FAILED \<and> i \<notin> set (due_ids organization now db2)"
proof -
  note ok = reachable_ok [OF assms(1)]
  let ?db5 = "relay_rounds 5 organization (\<lambda>n m. Broker_Unavailable) clock limit db"
  have failed: "ob_state (db_outbox ?db5 ! i) = OUTBOX_FAILED"
    using outage [where clock = clock and k = 5, OF ok assms(2-5)] by (simp add: broker_def)
  have l5: "job_later db ?db5" by (rule rounds_later)
  with assms(5) have "i < length (db_outbox ?db5)" using later_event_kept [OF l5] by (simp add: event_kept_def due_ids_props)
  from failed_event_never_due [OF job_later_ok [OF l5 ok] later this failed] failed show ?thesis by simp
qed

subsection \<open>One lifecycle job\<close>

definition sample_org :: organization_row where
  "sample_org = \<lparr>og_pk = 1, og_public_id = ''t1'', og_lifecycle = ORG_ACTIVE\<rparr>"

definition empty_jobs :: job_db where
  "empty_jobs = \<lparr>db_organizations = [sample_org], db_memberships = [], db_policies = [], db_counters = [],
     db_reservations = [], db_audit = [], db_jobs = [], db_outbox = []\<rparr>"

definition sample_id :: string where
  "sample_id = replicate 36 CHR ''a''"

definition one_job :: job_db where
  "one_job = fst (atomic (create_job_with_outbox sample_org INSTALLATION_LIFECYCLE ''delivery:1'' ''c'' None sample_id
     5000000) empty_jobs)"

lemma one_job_tables:
  "db_jobs one_job = [new_job sample_org INSTALLATION_LIFECYCLE ''delivery:1'' ''c'' None sample_id 5000000]"
  "db_outbox one_job = [new_event sample_org 0 sample_id 5000000]"
  "db_organizations one_job = [sample_org]"
proof -
  let ?r = "\<lparr>qr_organization = 1, qr_kind = ANALYSIS_REQUESTS_PER_HOUR, qr_quantity = 1,
    qr_idempotency_key = ''delivery:1'', qr_actor = None, qr_correlation_id = ''c''\<rparr>"
  have "limit_of default_policy ANALYSIS_REQUESTS_PER_HOUR = Inr 100"
    by (simp add: limit_of_def default_policy_def DEFAULT_QUOTA_LIMITS_def quota_kinds_def)
  moreover have "resolve_operational_policy 1 empty_jobs = Inr default_policy"
    by (simp add: resolve_operational_policy_def policies_of_def empty_jobs_def)
  moreover have "lock_organization 1 empty_jobs = Inr sample_org"
    by (simp add: lock_organization_def empty_jobs_def sample_org_def)
  ultimately have "\<exists>cs rs res. reserve_quota ?r 5000000 empty_jobs =
      Inr (empty_jobs\<lparr>db_counters := cs, db_reservations := rs\<rparr>, res)"
    by (simp add: reserve_quota_def quota_guard_def code_def reserve_windowed_def quota_subjects_def
        existing_reservations_def List.map_filter_simps charge_subject_def open_counter_def Let_def)
      (simp add: empty_jobs_def new_counter_def)
  then obtain cs rs res where
    "reserve_quota ?r 5000000 empty_jobs = Inr (empty_jobs\<lparr>db_counters := cs, db_reservations := rs\<rparr>, res)" by blast
  then have eq: "one_job = empty_jobs\<lparr>db_counters := cs, db_reservations := rs,
      db_jobs := [new_job sample_org INSTALLATION_LIFECYCLE ''delivery:1'' ''c'' None sample_id 5000000],
      db_outbox := [new_event sample_org 0 sample_id 5000000]\<rparr>"
    by (simp add: one_job_def atomic_def create_job_with_outbox_def get_or_create_job_def sample_org_def empty_jobs_def)
  show "db_jobs one_job = [new_job sample_org INSTALLATION_LIFECYCLE ''delivery:1'' ''c'' None sample_id 5000000]"
    "db_outbox one_job = [new_event sample_org 0 sample_id 5000000]" "db_organizations one_job = [sample_org]"
    unfolding eq by (simp_all add: empty_jobs_def)
qed

lemma one_job_later: "job_later empty_jobs one_job"
  unfolding job_later_def one_job_def
  by (rule r_into_rtranclp, rule job_step.create) (simp add: sample_id_def)

lemma one_job_reachable: "reachable_db one_job"
proof -
  have "no_jobs empty_jobs" by (simp add: no_jobs_def empty_jobs_def)
  with one_job_later show ?thesis unfolding reachable_db_def by blast
qed

lemma every_job_has_one_event_witness:
  "length (db_outbox one_job) = length (db_jobs one_job) \<and> aj_attempt_count (db_jobs one_job ! 0) = 0"
  using every_job_has_one_event [OF _ one_job_later] by (simp add: no_jobs_def empty_jobs_def one_job_tables new_job_def Let_def)

lemma one_job_due: "due_ids 1 5000000 one_job = [0]"
  by (simp add: due_ids_def due_event_def one_job_tables new_event_def sample_org_def)

lemma relays_recover_after_outage_witness:
  "due_ids 1 5000000 (relay_rounds 1 1 (\<lambda>n m. Delivered) (\<lambda>n. 5000000) 1
     (relay_rounds 4 1 (\<lambda>n m. Broker_Unavailable) (\<lambda>n. 5000000) 1 one_job)) = []"
  using relays_recover_after_outage [OF one_job_reachable, of 1 1 "\<lambda>n. 5000000" 4 1 0 "\<lambda>n. 5000000"]
  by (simp add: one_job_due Let_def one_job_tables new_event_def)

lemma five_relays_strand_the_backlog_witness:
  "ob_state (db_outbox (relay_rounds 5 1 (\<lambda>n m. Broker_Unavailable) (\<lambda>n. 5000000) 1 one_job) ! 0) = OUTBOX_FAILED"
  using five_relays_strand_the_backlog [OF one_job_reachable, of 1 1 "\<lambda>n. 5000000" 0]
  by (simp add: one_job_due job_later_def)

lemma delivered_job_ends_exactly_once_witness:
  "ended (db_jobs (fst (atomic (process_ingestion_job (\<lambda>s. Inr []) ''t1'' sample_id (\<lambda>n. 6000000)) one_job)) ! 0)"
proof -
  obtain db' r where run: "atomic (process_ingestion_job (\<lambda>s. Inr []) ''t1'' sample_id (\<lambda>n. 6000000)) one_job = (db', r)"
    by fastforce
  have "wanted_job ''t1'' sample_id one_job (db_jobs one_job ! 0)" "aj_state (db_jobs one_job ! 0) = JOB_PENDING"
    by (simp_all add: wanted_job_def one_job_tables new_job_def sample_org_def)
  with delivered_job_ends_exactly_once [OF one_job_reachable _ this run]
  show ?thesis by (simp add: run one_job_tables new_job_def)
qed

end
