(* ===== verification/RetrievalEvaluation.thy ===== *)
theory RetrievalEvaluation
  imports ChangeFeatures
begin

section \<open>packages/retrieval_core/evaluation.py: ranking metrics\<close>

text \<open>
  A relevance dictionary maps items to grades; a ranking is a list of items. The metrics are real
  numbers (\<open>log2\<close> is \<open>math.log2\<close>); \<open>round12 x\<close> is \<open>round(x, 12)\<close>. The metrics lie between 0 and 1 when the
  ranking has no repetition, and the discounted gain is largest for the ideal order, by summation
  by parts. A case without a relevant item passes the constructor and divides by zero.
\<close>

datatype evaluation_error = Evaluation_Raised exn | ZeroDivisionError

record evaluation_case =
  ec_query_id :: string
  ec_relevance :: "(string \<times> int) list"

definition evaluation_case_post_init :: "evaluation_case \<Rightarrow> exn option" where
  "evaluation_case_post_init c = first_raise [
     raise_if (ec_query_id c = [] \<or> ec_relevance c = [])
       (ValueError ''evaluation cases require an ID and relevance judgments''),
     raise_if (list_ex (\<lambda>p. snd p < 0 \<or> snd p > 3) (ec_relevance c))
       (ValueError ''relevance grades must be between zero and three'')]"

definition grade_of :: "evaluation_case \<Rightarrow> string \<Rightarrow> int" where
  "grade_of c item = (case map_of (ec_relevance c) item of None \<Rightarrow> 0 | Some grade \<Rightarrow> grade)"

definition relevant_items :: "evaluation_case \<Rightarrow> string list" where
  "relevant_items c = map fst (filter (\<lambda>p. snd p > 0) (ec_relevance c))"

definition recall_at_k :: "evaluation_case \<Rightarrow> string list \<Rightarrow> nat \<Rightarrow> evaluation_error + real" where
  "recall_at_k c ranking k =
     (let relevant = remdups (relevant_items c) in
      if relevant = [] then Inl ZeroDivisionError
      else Inr (real (length (filter (\<lambda>item. item \<in> set (take k ranking)) relevant)) / real (length relevant)))"

fun first_relevant :: "evaluation_case \<Rightarrow> nat \<Rightarrow> string list \<Rightarrow> real" where
  "first_relevant c rank [] = 0"
| "first_relevant c rank (item # items) =
     (if grade_of c item > 0 then 1 / real rank else first_relevant c (rank + 1) items)"

definition reciprocal_rank :: "evaluation_case \<Rightarrow> string list \<Rightarrow> nat \<Rightarrow> real" where
  "reciprocal_rank c ranking k = first_relevant c 1 (take k ranking)"

definition gain :: "evaluation_case \<Rightarrow> string \<Rightarrow> real" where
  "gain c item = 2 ^ nat (grade_of c item) - 1"

definition dcg :: "evaluation_case \<Rightarrow> string list \<Rightarrow> nat \<Rightarrow> real" where
  "dcg c ranking k = sum_list (map (\<lambda>(rank, item). gain c item / log2 (real rank + 1)) (enumerate 1 (take k ranking)))"

definition ideal_ranking :: "evaluation_case \<Rightarrow> string list" where
  "ideal_ranking c = map fst (sort_key (\<lambda>p. (- snd p, fst p)) (ec_relevance c))"

definition ndcg_at_k :: "evaluation_case \<Rightarrow> string list \<Rightarrow> nat \<Rightarrow> real" where
  "ndcg_at_k c ranking k = (if dcg c (ideal_ranking c) k = 0 then 0 else dcg c ranking k / dcg c (ideal_ranking c) k)"

record query_metrics =
  qm_query_id :: string
  qm_recall :: real
  qm_reciprocal_rank :: real
  qm_ndcg :: real
  qm_ranking :: "string list"

record evaluation_metrics =
  em_k :: int
  em_query_count :: nat
  em_recall :: real
  em_mrr :: real
  em_ndcg :: real
  em_per_query :: "query_metrics list"

definition evaluate_case ::
  "(real \<Rightarrow> real) \<Rightarrow> (string \<times> string list) list \<Rightarrow> nat \<Rightarrow> evaluation_case \<Rightarrow> evaluation_error + query_metrics" where
  "evaluate_case round12 rankings k c =
     (case map_of rankings (ec_query_id c) of
        None \<Rightarrow> Inl (Evaluation_Raised (KeyError (ec_query_id c)))
      | Some ranking \<Rightarrow> and_then (recall_at_k c ranking k) (\<lambda>recall.
          Inr \<lparr>qm_query_id = ec_query_id c, qm_recall = round12 recall,
            qm_reciprocal_rank = round12 (reciprocal_rank c ranking k),
            qm_ndcg = round12 (ndcg_at_k c ranking k), qm_ranking = take k ranking\<rparr>))"

definition mean_of :: "(real \<Rightarrow> real) \<Rightarrow> real list \<Rightarrow> real" where
  "mean_of round12 xs = round12 (sum_list xs / real (length xs))"

definition evaluate_rankings ::
  "(real \<Rightarrow> real) \<Rightarrow> evaluation_case list \<Rightarrow> (string \<times> string list) list \<Rightarrow> int \<Rightarrow> evaluation_error + evaluation_metrics" where
  "evaluate_rankings round12 cases rankings k =
     (if cases = [] \<or> k < 1 then Inl (Evaluation_Raised (ValueError ''evaluation requires cases and a positive K''))
      else (let missing = filter (\<lambda>q. q \<notin> fst ` set rankings) (map ec_query_id cases) in
        if missing \<noteq> [] then
          Inl (Evaluation_Raised (ValueError (''rankings missing evaluation cases: '' @ join '', '' missing)))
        else and_then (map_raise (evaluate_case round12 rankings (nat k)) cases) (\<lambda>per_query.
          Inr \<lparr>em_k = k, em_query_count = length per_query,
            em_recall = mean_of round12 (map qm_recall per_query),
            em_mrr = mean_of round12 (map qm_reciprocal_rank per_query),
            em_ndcg = mean_of round12 (map qm_ndcg per_query), em_per_query = per_query\<rparr>)))"

subsection \<open>Summation by parts\<close>

lemma weighted_prefix:
  fixes w d :: "nat \<Rightarrow> real"
  assumes "\<And>i. w (Suc i) \<le> w i" "\<And>m. m \<le> n \<Longrightarrow> 0 \<le> (\<Sum>i<m. d i)"
  shows "w n * (\<Sum>i<n. d i) \<le> (\<Sum>i<n. w i * d i)"
  using assms(2)
proof (induction n)
  case 0
  then show ?case by simp
next
  case (Suc n)
  then have "w n * (\<Sum>i<n. d i) \<le> (\<Sum>i<n. w i * d i)" by simp
  moreover have "w (Suc n) * (\<Sum>i<Suc n. d i) \<le> w n * (\<Sum>i<Suc n. d i)"
    using Suc.prems [of "Suc n"] assms(1) [of n] by (intro mult_right_mono) auto
  ultimately show ?case by (simp add: distrib_left)
qed

lemma weighted_mono:
  fixes w a b :: "nat \<Rightarrow> real"
  assumes "\<And>i. w (Suc i) \<le> w i" "0 \<le> w n" "\<And>m. m \<le> n \<Longrightarrow> (\<Sum>i<m. a i) \<le> (\<Sum>i<m. b i)"
  shows "(\<Sum>i<n. w i * a i) \<le> (\<Sum>i<n. w i * b i)"
proof -
  have "0 \<le> (\<Sum>i<m. b i - a i)" if "m \<le> n" for m using assms(3) [OF that] by (simp add: sum_subtractf)
  then have "w n * (\<Sum>i<n. b i - a i) \<le> (\<Sum>i<n. w i * (b i - a i))" and "0 \<le> (\<Sum>i<n. b i - a i)"
    using weighted_prefix [of w n "\<lambda>i. b i - a i"] assms(1) by auto
  with assms(2) have "0 \<le> (\<Sum>i<n. w i * (b i - a i))" by (meson mult_nonneg_nonneg order_trans)
  then show ?thesis by (simp add: right_diff_distrib sum_subtractf)
qed

subsection \<open>The best m items\<close>

lemma sum_list_set: "distinct xs \<Longrightarrow> sum_list (map g xs) = (\<Sum>x \<in> set xs. g x)" for g :: "'a \<Rightarrow> real"
  by (simp add: sum_list_distinct_conv_sum_set)

lemma best_prefix:
  fixes g :: "'a \<Rightarrow> real"
  assumes nonneg: "\<And>x. 0 \<le> g x" and zero: "\<And>x. x \<notin> set ideal \<Longrightarrow> g x = 0"
    and ideal: "distinct ideal" "sorted_wrt (\<lambda>x y. g y \<le> g x) ideal" and xs: "distinct xs" "length xs \<le> m"
  shows "sum_list (map g xs) \<le> sum_list (map g (take m ideal))"
proof -
  let ?T = "set (take m ideal)" and ?S = "set xs"
  define S where "S = ?S \<inter> set ideal"
  have "(\<Sum>x \<in> ?S. g x) = (\<Sum>x \<in> S. g x)"
    unfolding S_def by (rule sum.mono_neutral_right) (auto simp: zero)
  moreover have "(\<Sum>x \<in> S. g x) \<le> (\<Sum>x \<in> ?T. g x)"
  proof (cases "length ideal \<le> m")
    case True
    then show ?thesis unfolding S_def by (intro sum_mono2) (auto simp: nonneg)
  next
    case False
    let ?t = "g (ideal ! m)"
    have split: "ideal = take m ideal @ drop m ideal" by simp
    have dm: "drop m ideal = ideal ! m # drop (Suc m) ideal" using False by (simp add: Cons_nth_drop_Suc)
    have above: "?t \<le> g x" if "x \<in> ?T" for x
      using ideal(2) that dm by (metis list.set_intros(1) sorted_wrt_append split)
    have below: "g x \<le> ?t" if "x \<in> S - ?T" for x
    proof -
      from that have "x \<in> set (drop m ideal)" unfolding S_def by (metis DiffE IntD2 Un_iff set_append split)
      moreover have "sorted_wrt (\<lambda>x y. g y \<le> g x) (drop m ideal)" using ideal(2) sorted_wrt_drop by blast
      ultimately show ?thesis unfolding dm by auto
    qed
    have fin: "finite S" by (simp add: S_def)
    have "card S \<le> m" using card_mono [of ?S S] card_length [of xs] xs(2) unfolding S_def by fastforce
    moreover have "card ?T = m" using False ideal(1) by (simp add: distinct_card)
    ultimately have "card (S - ?T) \<le> card (?T - S)"
      using card_Diff_subset_Int [of S ?T] card_Diff_subset_Int [of ?T S] fin
      by (simp add: Int_commute)
    then have cards: "real (card (S - ?T)) * ?t \<le> real (card (?T - S)) * ?t" by (intro mult_right_mono) (auto simp: nonneg)
    have "(\<Sum>x \<in> S - ?T. g x) \<le> real (card (S - ?T)) * ?t" using below by (rule sum_bounded_above)
    moreover have "real (card (?T - S)) * ?t \<le> (\<Sum>x \<in> ?T - S. g x)" using above by (intro sum_bounded_below) simp
    moreover have "(\<Sum>x \<in> S. g x) = (\<Sum>x \<in> S \<inter> ?T. g x) + (\<Sum>x \<in> S - ?T. g x)" using fin by (rule sum.Int_Diff)
    moreover have "(\<Sum>x \<in> ?T. g x) = (\<Sum>x \<in> S \<inter> ?T. g x) + (\<Sum>x \<in> ?T - S. g x)"
      using sum.Int_Diff [of ?T g S] by (simp add: Int_commute)
    ultimately show ?thesis using cards by linarith
  qed
  ultimately show ?thesis using xs(1) ideal(1) by (simp add: sum_list_set)
qed

subsection \<open>The metrics are fractions\<close>

definition weight :: "nat \<Rightarrow> real" where
  "weight i = 1 / log2 (real i + 2)"

definition gain_at :: "evaluation_case \<Rightarrow> string list \<Rightarrow> nat \<Rightarrow> real" where
  "gain_at c xs i = (if i < length xs then gain c (xs ! i) else 0)"

lemma weight_pos: "0 < weight i"
  by (simp add: weight_def log2_def)

lemma weight_decreases: "weight (Suc i) \<le> weight i"
  by (simp add: weight_def log2_def divide_simps)

lemma gain_at_prefix: "(\<Sum>i<m. gain_at c xs i) = sum_list (map (gain c) (take m xs))"
proof -
  have "(\<Sum>i<m. gain_at c xs i) = (\<Sum>i<min (length xs) m. gain_at c xs i)"
    by (rule sum.mono_neutral_right) (auto simp: gain_at_def)
  also have "\<dots> = sum_list (map (gain c) (take m xs))"
    by (simp add: sum_list_sum_nth gain_at_def lessThan_atLeast0)
  finally show ?thesis .
qed

lemma dcg_sum: "dcg c ranking k = (\<Sum>i<k. weight i * gain_at c (take k ranking) i)"
proof -
  let ?xs = "take k ranking"
  have "dcg c ranking k = (\<Sum>i<length ?xs. weight i * gain_at c ?xs i)"
    by (simp add: dcg_def sum_list_sum_nth nth_enumerate_eq gain_at_def weight_def lessThan_atLeast0 add.commute
        add.left_commute)
  also have "\<dots> = (\<Sum>i<k. weight i * gain_at c ?xs i)"
    by (rule sum.mono_neutral_left) (auto simp: gain_at_def)
  finally show ?thesis .
qed

definition wf_case :: "evaluation_case \<Rightarrow> bool" where
  "wf_case c = (evaluation_case_post_init c = None \<and> distinct (map fst (ec_relevance c)))"

lemma grade_nonneg: "wf_case c \<Longrightarrow> 0 \<le> grade_of c item"
  by (force simp: wf_case_def evaluation_case_post_init_def grade_of_def list_ex_iff dest: map_of_SomeD split: option.splits)

lemma gain_nonneg: "0 \<le> gain c item"
  by (simp add: gain_def)

lemma gain_mono: "grade_of c x \<le> grade_of c y \<Longrightarrow> gain c x \<le> gain c y"
  by (simp add: gain_def power_increasing nat_mono)

lemma gain_outside: "item \<notin> set (ideal_ranking c) \<Longrightarrow> gain c item = 0"
  by (auto simp: ideal_ranking_def gain_def grade_of_def split: option.splits dest!: map_of_SomeD) force

lemma ideal_props:
  assumes "wf_case c"
  shows "distinct (ideal_ranking c)" "sorted_wrt (\<lambda>x y. gain c y \<le> gain c x) (ideal_ranking c)"
proof -
  let ?key = "\<lambda>p::string \<times> int. (- snd p, fst p)" and ?ps = "ec_relevance c"
  have "mset (map fst (sort_key ?key ?ps)) = mset (map fst ?ps)" by simp
  with assms show "distinct (ideal_ranking c)"
    unfolding ideal_ranking_def wf_case_def by (metis mset_eq_imp_distinct_iff)
  have grade: "grade_of c x = g" if "(x, g) \<in> set ?ps" for x g
    using assms that by (simp add: wf_case_def grade_of_def)
  have "sorted_wrt (\<lambda>p q. ?key p \<le> ?key q) (sort_key ?key ?ps)"
    using sorted_sort_key [of ?key ?ps] by (simp add: sorted_map)
  then have "sorted_wrt (\<lambda>p q. snd q \<le> snd p) (sort_key ?key ?ps)"
    by (rule sorted_wrt_mono_rel [rotated]) (auto simp: less_eq_prod_def)
  then have "sorted_wrt (\<lambda>p q. gain c (fst q) \<le> gain c (fst p)) (sort_key ?key ?ps)"
    by (rule sorted_wrt_mono_rel [rotated]) (auto intro!: gain_mono simp: grade)
  then show "sorted_wrt (\<lambda>x y. gain c y \<le> gain c x) (ideal_ranking c)"
    by (simp add: ideal_ranking_def sorted_wrt_map)
qed

lemma dcg_best:
  assumes "wf_case c" "distinct ranking"
  shows "dcg c ranking k \<le> dcg c (ideal_ranking c) k"
  unfolding dcg_sum
proof (rule weighted_mono)
  fix m
  assume "m \<le> k"
  then show "(\<Sum>i<m. gain_at c (take k ranking) i) \<le> (\<Sum>i<m. gain_at c (take k (ideal_ranking c)) i)"
    using best_prefix [OF gain_nonneg gain_outside ideal_props [OF assms(1)], of "take m ranking" m] assms(2)
    by (simp add: gain_at_prefix min_absorb1)
qed (simp_all add: weight_decreases weight_pos less_imp_le)

lemma dcg_nonneg: "0 \<le> dcg c ranking k"
  unfolding dcg_sum by (intro sum_nonneg mult_nonneg_nonneg) (simp_all add: gain_at_def gain_nonneg weight_pos less_imp_le)

lemma relevant_gain: "item \<in> set (relevant_items c) \<Longrightarrow> wf_case c \<Longrightarrow> 0 < gain c item"
  by (auto simp: relevant_items_def gain_def grade_of_def wf_case_def)

lemma ideal_dcg_pos:
  assumes "wf_case c" "relevant_items c \<noteq> []" "1 \<le> k"
  shows "0 < dcg c (ideal_ranking c) k"
proof -
  obtain x where x: "x \<in> set (relevant_items c)" using assms(2) by (cases "relevant_items c") auto
  with assms(1) have "gain c x \<le> gain c (hd (ideal_ranking c))" and ne: "ideal_ranking c \<noteq> []"
    using best_prefix [OF gain_nonneg gain_outside ideal_props [OF assms(1)], of "[x]" 1] gain_outside [of x c]
      relevant_gain [OF x] by (cases "ideal_ranking c"; force)+
  with relevant_gain [OF x assms(1)] have "0 < gain_at c (take k (ideal_ranking c)) 0"
    using assms(3) by (cases "ideal_ranking c"; cases k) (auto simp: gain_at_def)
  then have "0 < weight 0 * gain_at c (take k (ideal_ranking c)) 0" by (simp add: weight_pos)
  also have "\<dots> \<le> dcg c (ideal_ranking c) k"
    unfolding dcg_sum using assms(3)
    by (intro member_le_sum) (auto simp: gain_at_def gain_nonneg weight_pos less_imp_le)
  finally show ?thesis .
qed

lemma first_relevant_bounds: "1 \<le> rank \<Longrightarrow> 0 \<le> first_relevant c rank xs \<and> first_relevant c rank xs \<le> 1"
  by (induction c rank xs rule: first_relevant.induct) auto

text \<open>For a case that its constructor accepts and that has a relevant item, and a ranking that repeats no
  item: recall, reciprocal rank and nDCG at any positive K are fractions between 0 and 1, and the ideal ranking
  has nDCG 1, since no ranking without repetition has a larger discounted gain.\<close>

theorem ranking_metrics_are_fractions:
  assumes "wf_case c" "relevant_items c \<noteq> []" "distinct ranking" "1 \<le> k"
  shows "(\<exists>recall. recall_at_k c ranking k = Inr recall \<and> 0 \<le> recall \<and> recall \<le> 1) \<and>
    0 \<le> reciprocal_rank c ranking k \<and> reciprocal_rank c ranking k \<le> 1 \<and>
    0 \<le> ndcg_at_k c ranking k \<and> ndcg_at_k c ranking k \<le> 1 \<and> ndcg_at_k c (ideal_ranking c) k = 1"
proof -
  let ?relevant = "remdups (relevant_items c)"
  let ?hits = "filter (\<lambda>item. item \<in> set (take k ranking)) ?relevant"
  have "recall_at_k c ranking k = Inr (real (length ?hits) / real (length ?relevant))"
    using assms(2) by (simp add: recall_at_k_def Let_def)
  moreover have "length ?hits \<le> length ?relevant" "0 < length ?relevant" using assms(2) by simp_all
  then have "0 \<le> real (length ?hits) / real (length ?relevant)" "real (length ?hits) / real (length ?relevant) \<le> 1"
    by (simp_all add: divide_le_eq_1)
  moreover have "0 \<le> ndcg_at_k c ranking k" "ndcg_at_k c ranking k \<le> 1" "ndcg_at_k c (ideal_ranking c) k = 1"
    using ideal_dcg_pos [OF assms(1,2,4)] dcg_best [OF assms(1,3), of k] dcg_nonneg [of c ranking k]
    by (simp_all add: ndcg_at_k_def)
  moreover have "0 \<le> reciprocal_rank c ranking k" "reciprocal_rank c ranking k \<le> 1"
    using first_relevant_bounds [of 1 c "take k ranking"] by (simp_all add: reciprocal_rank_def)
  ultimately show ?thesis by blast
qed

definition sample_case :: evaluation_case where
  "sample_case = \<lparr>ec_query_id = ''q'', ec_relevance = [(''a'', 1), (''b'', 3)]\<rparr>"

lemma ranking_metrics_are_fractions_witness: "ndcg_at_k sample_case [''a'', ''b''] 2 \<le> 1"
  using ranking_metrics_are_fractions [of sample_case "[''a'', ''b'']" 2]
  by (simp add: sample_case_def wf_case_def evaluation_case_post_init_def relevant_items_def)

text \<open>Two things that the hypotheses of the property exclude and the code does not.\<close>

lemma irrelevant_case_divides_by_zero:
  "evaluation_case_post_init \<lparr>ec_query_id = ''q'', ec_relevance = [(''a'', 0)]\<rparr> = None"
  "evaluate_rankings round12 [\<lparr>ec_query_id = ''q'', ec_relevance = [(''a'', 0)]\<rparr>] [(''q'', [''a''])] 1 =
    Inl ZeroDivisionError"
  by (simp_all add: evaluation_case_post_init_def evaluate_rankings_def evaluate_case_def recall_at_k_def
      relevant_items_def)

lemma repeated_item_exceeds_one:
  "1 < ndcg_at_k \<lparr>ec_query_id = ''q'', ec_relevance = [(''a'', 1)]\<rparr> [''a'', ''a''] 2"
  by (simp add: ndcg_at_k_def dcg_def ideal_ranking_def gain_def grade_of_def log2_def eval_nat_numeral)

end
