(* ===== verification/TestAdapter.thy ===== *)
theory TestAdapter
  imports AiProposals PyText
begin

section \<open>adapters/test_generation/python_fixture.py: static checks on generated tests\<close>

text \<open>
  The adapter builds a patch that adds one file, reads the file back out of a patch and checks path,
  command, format, syntax, shape and capabilities. \<open>ast.parse\<close> is the parameter \<open>parse\<close>; a tree keeps
  what the checks read, every other node is \<open>Node\<close> with its class and children. \<open>int\<close> of more than
  4300 digits raises a ValueError, as Python does by default.
\<close>

subsection \<open>Lines with their ends\<close>

text \<open>\<open>str.splitlines(keepends=True)\<close>.\<close>

function split_keep :: "string \<Rightarrow> string list" where
  "split_keep s = (if s = [] then []
     else let line = takeWhile (\<lambda>c. \<not> is_line_end c) s in
       (case drop (length line) s of
           [] \<Rightarrow> [line]
         | [c] \<Rightarrow> [line @ [c]]
         | c # d # cs \<Rightarrow> if code c = 13 \<and> code d = 10 then (line @ [c, d]) # split_keep cs
             else (line @ [c]) # split_keep (d # cs)))"
  by pat_completeness auto

termination split_keep
proof (relation "measure length")
  fix s line ds cs :: string and c d :: char
  assume "line = takeWhile (\<lambda>c. \<not> is_line_end c) s" and c: "drop (length line) s = c # ds" "ds = d # cs"
  have "length (drop (length line) s) \<le> length s" by simp
  then show "(cs, s) \<in> measure length" "(d # cs, s) \<in> measure length" using c by simp_all
qed simp

declare split_keep.simps [simp del]

subsection \<open>The patch\<close>

record static_check =
  sc_name :: string
  sc_passed :: bool
  sc_code :: string

definition static_check_as_dict :: "static_check \<Rightarrow> pydict" where
  "static_check_as_dict c =
     [(''name'', PyStr (sc_name c)), (''passed'', PyBool (sc_passed c)), (''code'', PyStr (sc_code c))]"

record static_report =
  sr_valid :: bool
  sr_checks :: "static_check list"
  sr_content_sha256 :: "string option"
  sr_validator_version :: string

definition static_report_as_dict :: "static_report \<Rightarrow> pydict" where
  "static_report_as_dict r = [
     (''validator_version'', PyStr (sr_validator_version r)),
     (''valid'', PyBool (sr_valid r)),
     (''content_sha256'', case sr_content_sha256 r of None \<Rightarrow> PyNone | Some h \<Rightarrow> PyStr h),
     (''checks'', PyList (map (\<lambda>c. PyDict (static_check_as_dict c)) (sr_checks r)))]"

definition STATIC_VALIDATION_VERSION :: string where
  "STATIC_VALIDATION_VERSION = ''python-fixture-static-v1''"

definition check :: "string \<Rightarrow> bool \<Rightarrow> string \<Rightarrow> string \<Rightarrow> static_check" where
  "check name ok yes no = \<lparr>sc_name = name, sc_passed = ok, sc_code = (if ok then yes else no)\<rparr>"

abbreviation newline :: string where "newline \<equiv> [CHR 0x0A]"

definition build_new_test_patch :: "string \<Rightarrow> string \<Rightarrow> string" where
  "build_new_test_patch file_path content =
     (let lines = split_keep content in
      ''--- /dev/null'' @ newline @ ''+++ b/'' @ file_path @ newline @
      ''@@ -0,0 +1,'' @ decimal_digits (length lines) @ '' @@'' @ newline @
      concat (map (\<lambda>line. CHR ''+'' # line) lines))"

text \<open>\<open>_HUNK_HEADER.fullmatch\<close>: the digits of the count, the first of them not zero.\<close>

definition hunk_count :: "string \<Rightarrow> string option" where
  "hunk_count line =
     (if \<not> startswith line ''@@ -0,0 +1,'' then None
      else let rest = drop 11 line; digits = takeWhile is_digit rest in
        if digits \<noteq> [] \<and> hd digits \<noteq> CHR ''0'' \<and> drop (length digits) rest = '' @@'' @ newline
        then Some digits else None)"

definition digits_value :: "string \<Rightarrow> nat" where
  "digits_value ds = foldl (\<lambda>n c. 10 * n + (code c - 48)) 0 ds"

definition int_of_digits :: "string \<Rightarrow> nat result" where
  "int_of_digits ds = (if length ds > 4300
     then Inl (ValueError ''Exceeds the limit (4300 digits) for integer string conversion'')
     else Inr (digits_value ds))"

definition patch_failed :: "string \<Rightarrow> (string option \<times> static_check) result" where
  "patch_failed reason = Inr (None, \<lparr>sc_name = ''patch'', sc_passed = False, sc_code = reason\<rparr>)"

definition extract_new_file :: "string \<Rightarrow> string \<Rightarrow> (string option \<times> static_check) result" where
  "extract_new_file file_path patch =
     (case split_keep patch of
        first # second # third # added \<Rightarrow>
          if added = [] then patch_failed ''patch_structure_invalid''
          else (case hunk_count third of
            None \<Rightarrow> patch_failed ''patch_must_add_one_declared_file''
          | Some digits \<Rightarrow>
              if first \<noteq> ''--- /dev/null'' @ newline \<or> second \<noteq> ''+++ b/'' @ file_path @ newline
              then patch_failed ''patch_must_add_one_declared_file''
              else if list_ex (\<lambda>line. \<not> startswith line ''+'' \<or> startswith line ''+++'') added
              then patch_failed ''patch_contains_non_addition''
              else and_then (int_of_digits digits) (\<lambda>count.
                if count \<noteq> length added then patch_failed ''patch_line_count_mismatch''
                else Inr (Some (concat (map tl added)),
                  \<lparr>sc_name = ''patch'', sc_passed = True, sc_code = ''new_file_patch_valid''\<rparr>)))
      | _ \<Rightarrow> patch_failed ''patch_structure_invalid'')"

subsection \<open>Path, format and command\<close>

definition as_posix :: "string \<Rightarrow> string" where
  "as_posix s = (if posix_parts s = [] then ''.'' else concat (posix_root s) @ join ''/'' (posix_names s))"

definition path_check :: "string \<Rightarrow> static_check" where
  "path_check file_path = check ''path''
     (CHR 0x5C \<notin> set file_path \<and> posix_root file_path = [] \<and> ''..'' \<notin> set (posix_parts file_path) \<and>
      posix_names file_path \<noteq> [] \<and> butlast (posix_names file_path) = [''tests'', ''generated''] \<and>
      startswith (posix_name file_path) ''test_'' \<and> posix_suffix file_path = ''.py'' \<and>
      file_path = as_posix file_path)
     ''path_allowed'' ''path_not_allowed''"

text \<open>\<open>line.rstrip("\n")\<close> and \<open>line.rstrip(" ")\<close>.\<close>

definition rstrip_char :: "char \<Rightarrow> string \<Rightarrow> string" where
  "rstrip_char d s = rev (dropWhile (\<lambda>c. c = d) (rev s))"

definition format_check :: "string \<Rightarrow> static_check" where
  "format_check content = (let lines = map (rstrip_char CHR 0x0A) (split_keep content) in
     check ''format''
       (endswith content newline \<and> CHR 0x0D \<notin> set content \<and> CHR 0x09 \<notin> set content \<and>
        list_all (\<lambda>line. length line \<le> 100) lines \<and> list_all (\<lambda>line. line = rstrip_char CHR '' '' line) lines)
       ''canonical_python_text'' ''format_policy_failed'')"

definition fixture_command :: "string \<Rightarrow> string" where
  "fixture_command file_path = ''python -m pytest -q '' @ file_path"

definition command_check :: "test_proposal \<Rightarrow> static_check" where
  "command_check p = check ''commands'' (tp_commands p = [fixture_command (tp_file_path p)])
     ''fixture_command_allowlisted'' ''command_not_allowlisted''"

subsection \<open>The syntax tree\<close>

datatype py_ast =
    Import "string list"
  | ImportFrom int "string option" "string list"
  | FunctionDef string (fn_decorators: "py_ast list") (fn_arguments: py_arguments) (fn_returns: "py_ast option")
      (fn_body: "py_ast list") (fn_type_params: "py_ast list")
  | Name string
  | Attribute py_ast string
  | ConstantNone
  | Node string "py_ast list"
and py_arguments = Arguments (posonly_args: "py_ast list") (plain_args: "py_ast list") (var_arg: "py_ast option")
      (kwonly_args: "py_ast list") (kw_defaults: "py_ast list") (kw_arg: "py_ast option") (arg_defaults: "py_ast list")

definition argument_nodes :: "py_arguments \<Rightarrow> py_ast list" where
  "argument_nodes a = posonly_args a @ plain_args a @ (case var_arg a of None \<Rightarrow> [] | Some x \<Rightarrow> [x]) @
     kwonly_args a @ kw_defaults a @ (case kw_arg a of None \<Rightarrow> [] | Some x \<Rightarrow> [x]) @ arg_defaults a"

fun child_nodes :: "py_ast \<Rightarrow> py_ast list" where
  "child_nodes (FunctionDef name decorators arguments returns body type_params) =
     argument_nodes arguments @ body @ decorators @ (case returns of None \<Rightarrow> [] | Some r \<Rightarrow> [r]) @ type_params"
| "child_nodes (Attribute value attr) = [value]"
| "child_nodes (Node cls nodes) = nodes"
| "child_nodes _ = []"

lemma argument_nodes_size: "t \<in> set (argument_nodes a) \<Longrightarrow> size t < size a"
  by (cases a) (auto simp: argument_nodes_def dest!: size_list_estimation' [of _ _ "size _" size, OF _ order_refl]
      split: option.splits)

lemma child_nodes_size: "t \<in> set (child_nodes s) \<Longrightarrow> size t < size s"
proof (cases s)
  case (FunctionDef name decorators arguments returns body type_params)
  assume "t \<in> set (child_nodes s)"
  with FunctionDef show ?thesis
    using argument_nodes_size [of t arguments]
    by (auto dest: size_list_estimation' [of _ _ "size t" size] split: option.splits)
qed (auto dest: size_list_estimation' [of _ _ "size t" size])

text \<open>\<open>ast.walk\<close>; the checks do not depend on its order.\<close>

function walk :: "py_ast \<Rightarrow> py_ast list" where
  "walk t = t # concat (map walk (child_nodes t))"
  by pat_completeness auto

termination by (relation "measure size") (auto dest: child_nodes_size)

declare walk.simps [simp del]

subsection \<open>Shape and capabilities\<close>

definition ALLOWED_IMPORT_ROOTS :: "string list" where
  "ALLOWED_IMPORT_ROOTS = [''fixture_app'', ''pytest'']"

definition FORBIDDEN_NAMES :: "string list" where
  "FORBIDDEN_NAMES = [''__import__'', ''breakpoint'', ''compile'', ''delattr'', ''eval'', ''exec'', ''getattr'', ''globals'',
     ''input'', ''locals'', ''open'', ''setattr'', ''vars'']"

definition FORBIDDEN_ATTRIBUTES :: "string list" where
  "FORBIDDEN_ATTRIBUTES = [''call'', ''check_call'', ''check_output'', ''connect'', ''execv'', ''main'', ''open'', ''popen'',
     ''putenv'', ''remove'', ''rename'', ''replace'', ''request'', ''rmdir'', ''run'', ''send'', ''setenv'', ''socket'',
     ''spawn'', ''system'', ''unlink'', ''urlopen'', ''write_bytes'', ''write_text'']"

definition FORBIDDEN_NODES :: "string list" where
  "FORBIDDEN_NODES = [''AsyncFunctionDef'', ''Await'', ''ClassDef'', ''Delete'', ''Global'', ''Lambda'', ''Nonlocal'',
     ''Yield'', ''YieldFrom'']"

definition import_root :: "string \<Rightarrow> string" where
  "import_root name = takeWhile (\<lambda>c. c \<noteq> CHR ''.'') name"

fun node_safe :: "py_ast \<Rightarrow> bool" where
  "node_safe (Node cls nodes) = (cls \<notin> set FORBIDDEN_NODES)"
| "node_safe (Import names) = list_all (\<lambda>n. import_root n \<in> set ALLOWED_IMPORT_ROOTS) names"
| "node_safe (ImportFrom level source names) = (level = 0 \<and> (case source of None \<Rightarrow> False
     | Some m \<Rightarrow> import_root m \<in> set ALLOWED_IMPORT_ROOTS) \<and> ''*'' \<notin> set names)"
| "node_safe (Name n) = (n \<notin> set FORBIDDEN_NAMES \<and> \<not> startswith n ''__'')"
| "node_safe (Attribute value attr) = (\<not> startswith attr ''__'' \<and> attr \<notin> set FORBIDDEN_ATTRIBUTES)"
| "node_safe _ = True"

definition module_nodes :: "py_ast list \<Rightarrow> py_ast list" where
  "module_nodes body = concat (map walk body)"

definition safety_check :: "py_ast list \<Rightarrow> static_check" where
  "safety_check body = check ''safety'' (list_all node_safe (module_nodes body))
     ''capabilities_within_fixture_allowlist'' ''forbidden_capability_detected''"

fun top_level_allowed :: "py_ast \<Rightarrow> bool" where
  "top_level_allowed (Import _) = True"
| "top_level_allowed (ImportFrom _ _ _) = True"
| "top_level_allowed (FunctionDef _ _ _ _ _ _) = True"
| "top_level_allowed _ = False"

fun is_function :: "py_ast \<Rightarrow> bool" where
  "is_function (FunctionDef _ _ _ _ _ _) = True"
| "is_function _ = False"

fun test_function_valid :: "py_ast \<Rightarrow> bool" where
  "test_function_valid (FunctionDef name decorators (Arguments posonly args vararg kwonly kw kwarg defaults) returns body type_params) =
     (startswith name ''test_'' \<and> decorators = [] \<and> args = [] \<and> posonly = [] \<and> kwonly = [] \<and> vararg = None \<and>
      kwarg = None \<and> defaults = [] \<and> kw = [] \<and> returns = Some ConstantNone)"
| "test_function_valid _ = False"

definition type_shape_check :: "py_ast list \<Rightarrow> static_check" where
  "type_shape_check body = (let functions = filter is_function body in
     check ''type_shape'' (list_all top_level_allowed body \<and> functions \<noteq> [] \<and> list_all test_function_valid functions)
       ''typed_test_functions_valid'' ''typed_test_function_contract_failed'')"

subsection \<open>PythonFixtureTestAdapter\<close>

definition PYTHON_FIXTURE_ADAPTER :: string where "PYTHON_FIXTURE_ADAPTER = ''python-fixture''"

definition PYTHON_FIXTURE_ADAPTER_VERSION :: string where "PYTHON_FIXTURE_ADAPTER_VERSION = ''python-fixture-v1''"

definition build_proposal ::
  "string \<Rightarrow> string \<Rightarrow> string list \<Rightarrow> string \<Rightarrow> string \<Rightarrow> string \<Rightarrow> proposal_risk \<Rightarrow> proposal_generation \<Rightarrow>
   test_proposal result" where
  "build_proposal target_behavior rationale evidence_ids file_path test_content expected_result risk generation =
     construct_with test_proposal_post_init
       \<lparr>tp_target_behavior = target_behavior, tp_rationale = rationale, tp_evidence_ids = evidence_ids,
        tp_file_path = file_path, tp_patch = build_new_test_patch file_path test_content,
        tp_commands = [fixture_command file_path], tp_expected_result = expected_result, tp_risk = risk,
        tp_test_adapter = PYTHON_FIXTURE_ADAPTER, tp_test_adapter_version = PYTHON_FIXTURE_ADAPTER_VERSION,
        tp_generation = generation, tp_schema_version = TEST_PROPOSAL_SCHEMA_VERSION\<rparr>"

definition adapter_check :: "test_proposal \<Rightarrow> static_check" where
  "adapter_check p = check ''adapter''
     (tp_test_adapter p = PYTHON_FIXTURE_ADAPTER \<and> tp_test_adapter_version p = PYTHON_FIXTURE_ADAPTER_VERSION)
     ''adapter_supported'' ''adapter_not_supported''"

definition not_checked :: "string \<Rightarrow> string \<Rightarrow> static_check" where
  "not_checked name reason = \<lparr>sc_name = name, sc_passed = False, sc_code = ''not_checked_without_valid_'' @ reason\<rparr>"

definition tree_checks :: "py_ast list option \<Rightarrow> static_check list" where
  "tree_checks tree = (case tree of
      None \<Rightarrow> [\<lparr>sc_name = ''parse'', sc_passed = False, sc_code = ''python_syntax_invalid''\<rparr>,
        not_checked ''type_shape'' ''ast'', not_checked ''safety'' ''ast'']
    | Some body \<Rightarrow> [\<lparr>sc_name = ''parse'', sc_passed = True, sc_code = ''python_ast_valid''\<rparr>,
        type_shape_check body, safety_check body])"

definition report_of :: "static_check list \<Rightarrow> string \<Rightarrow> static_report" where
  "report_of checks content = \<lparr>sr_valid = list_all sc_passed checks, sr_checks = checks,
     sr_content_sha256 = Some (sha256_hex (utf8 content)), sr_validator_version = STATIC_VALIDATION_VERSION\<rparr>"

definition validate_proposal :: "(string \<Rightarrow> py_ast list option) \<Rightarrow> test_proposal \<Rightarrow> static_report result" where
  "validate_proposal parse p =
     and_then (extract_new_file (tp_file_path p) (tp_patch p)) (\<lambda>(content, patch_check).
     let checks = [adapter_check p, path_check (tp_file_path p), patch_check, command_check p] in
     case content of
       None \<Rightarrow> Inr \<lparr>sr_valid = False, sr_checks = checks @ [not_checked ''format'' ''patch'', not_checked ''parse'' ''patch'',
           not_checked ''type_shape'' ''ast'', not_checked ''safety'' ''ast''],
         sr_content_sha256 = None, sr_validator_version = STATIC_VALIDATION_VERSION\<rparr>
     | Some text \<Rightarrow> Inr (report_of (checks @ format_check text # tree_checks (parse text)) text))"

end
