(* ===== verification/TestAdapterProofs.thy ===== *)
theory TestAdapterProofs
  imports TestAdapter
begin

section \<open>What a valid generated test is\<close>

text \<open>
  The patch that the adapter builds is read back as the same content; a report is valid only for one
  new test file under \<open>tests/generated\<close>, run by one command, whose imports and names stay within the
  allow list. The allow list is weaker than it means to be: \<open>pytest\<close> itself reaches other modules.
\<close>

subsection \<open>Lines are read back\<close>

definition plain :: "string \<Rightarrow> bool" where
  "plain s = list_all (\<lambda>c. \<not> is_line_end c) s"

text \<open>A line with its end, and any text that may follow it.\<close>

inductive line_before :: "string \<Rightarrow> string \<Rightarrow> bool" where
  one: "plain s \<Longrightarrow> is_line_end c \<Longrightarrow> \<not> (code c = 13 \<and> rest \<noteq> [] \<and> code (hd rest) = 10) \<Longrightarrow> line_before (s @ [c]) rest"
| two: "plain s \<Longrightarrow> code c = 13 \<Longrightarrow> code d = 10 \<Longrightarrow> line_before (s @ [c, d]) rest"
| last: "plain s \<Longrightarrow> s \<noteq> [] \<Longrightarrow> line_before s []"

lemma plain_takeWhile: "plain s \<Longrightarrow> is_line_end c \<Longrightarrow> takeWhile (\<lambda>c. \<not> is_line_end c) (s @ c # t) = s"
  by (simp add: plain_def list_all_iff takeWhile_tail)

lemma plain_takeWhile_all: "plain s \<Longrightarrow> takeWhile (\<lambda>c. \<not> is_line_end c) s = s"
  by (simp add: plain_def list_all_iff takeWhile_eq_all_conv)

lemma cr_is_line_end: "code c = 13 \<Longrightarrow> is_line_end c"
  by (simp add: is_line_end_def)

lemma split_keep_Nil [simp]: "split_keep [] = []"
  by (simp add: split_keep.simps)

lemma split_keep_line: "line_before l rest \<Longrightarrow> split_keep (l @ rest) = l # split_keep rest"
proof (induction rule: line_before.induct)
  case (one s c rest)
  then show ?case
    by (subst split_keep.simps) (cases rest; auto simp: plain_takeWhile Let_def)
next
  case (two s c d rest)
  then show ?case
    by (subst split_keep.simps) (auto simp: plain_takeWhile cr_is_line_end Let_def)
next
  case (last s)
  then show ?case by (subst split_keep.simps) (auto simp: plain_takeWhile_all Let_def)
qed

text \<open>Lists of lines, each followed by the others.\<close>

fun lines_ok :: "string list \<Rightarrow> bool" where
  "lines_ok [] = True"
| "lines_ok (l # ls) = (line_before l (concat ls) \<and> lines_ok ls)"

lemma split_keep_concat: "lines_ok ls \<Longrightarrow> split_keep (concat ls) = ls"
  by (induction ls) (simp_all add: split_keep_line)

lemma line_before_cases:
  assumes "s \<noteq> []"
  shows "\<exists>l rest. s = l @ rest \<and> line_before l rest \<and> l \<noteq> []"
proof -
  let ?t = "takeWhile (\<lambda>c. \<not> is_line_end c) s"
  have t: "plain ?t" by (auto simp: plain_def list_all_iff dest: set_takeWhileD)
  show ?thesis
  proof (cases "dropWhile (\<lambda>c. \<not> is_line_end c) s")
    case Nil
    then have "?t = s" by (metis append_Nil2 takeWhile_dropWhile_id)
    with t have "plain s" by simp
    with assms show ?thesis using line_before.last by (metis append_Nil2)
  next
    case (Cons c rest)
    then have c: "is_line_end c" by (simp add: dropWhile_eq_Cons_conv)
    from Cons have s: "s = ?t @ c # rest" by (metis takeWhile_dropWhile_id)
    show ?thesis
    proof (cases "code c = 13 \<and> rest \<noteq> [] \<and> code (hd rest) = 10")
      case True
      then obtain d rest' where d: "rest = d # rest'" "code d = 10" by (cases rest) auto
      with True have "line_before (?t @ [c, d]) rest'" by (intro line_before.two [OF t]) auto
      moreover from s d have "s = (?t @ [c, d]) @ rest'" by simp
      ultimately show ?thesis by blast
    next
      case False
      then have "line_before (?t @ [c]) rest" by (rule line_before.one [OF t c])
      moreover from s have "s = (?t @ [c]) @ rest" by simp
      ultimately show ?thesis by blast
    qed
  qed
qed

lemma split_keep_lines: "lines_ok (split_keep s) \<and> concat (split_keep s) = s"
proof (induction s rule: length_induct)
  case (1 s)
  show ?case
  proof (cases "s = []")
    case True
    then show ?thesis by simp
  next
    case False
    then obtain l rest where l: "s = l @ rest" "line_before l rest" "l \<noteq> []" using line_before_cases by blast
    then have "length rest < length s" by simp
    with 1 l show ?thesis by (simp add: split_keep_line)
  qed
qed

lemma line_before_plus:
  assumes "line_before l rest" "rest' = [] \<longleftrightarrow> rest = []" "rest' \<noteq> [] \<Longrightarrow> hd rest' = CHR ''+''"
  shows "line_before (CHR ''+'' # l) rest'"
  using assms
proof (cases rule: line_before.cases)
  case (one s c)
  have "plain (CHR ''+'' # s)" using one by (simp add: plain_def is_line_end_def code_def Let_def)
  moreover have "\<not> (code c = 13 \<and> rest' \<noteq> [] \<and> code (hd rest') = 10)"
    using assms(3) by (auto simp: code_def)
  ultimately show ?thesis using one line_before.one [of "CHR ''+'' # s" c rest'] by simp
next
  case (two s c d)
  have "plain (CHR ''+'' # s)" using two by (simp add: plain_def is_line_end_def code_def Let_def)
  with two show ?thesis using line_before.two [of "CHR ''+'' # s" c d rest'] by simp
next
  case last
  have "plain (CHR ''+'' # l)" using last by (simp add: plain_def is_line_end_def code_def Let_def)
  with last assms(2) show ?thesis using line_before.last [of "CHR ''+'' # l"] by simp
qed

lemma lines_ok_plus: "lines_ok ls \<Longrightarrow> lines_ok (map (\<lambda>l. CHR ''+'' # l) ls)"
proof (induction ls)
  case Nil
  then show ?case by simp
next
  case (Cons l ls)
  then have l: "line_before l (concat ls)" and ls: "lines_ok ls" by simp_all
  have "concat ls = [] \<longleftrightarrow> ls = []"
    using ls by (cases ls) (auto elim: line_before.cases)
  then have "line_before (CHR ''+'' # l) (concat (map (\<lambda>l. CHR ''+'' # l) ls))"
    by (intro line_before_plus [OF l]) (cases ls; simp)+
  with Cons.IH [OF ls] show ?case by simp
qed

subsection \<open>The count of the hunk\<close>

declare decimal_digits.simps [simp del]

lemma digit_code: "d < 10 \<Longrightarrow> code (char_of (48 + d)) = 48 + d"
  by (simp add: code_def)

lemma decimal_digits_step: "decimal_digits n = (if n < 10 then [char_of (48 + n)]
    else decimal_digits (n div 10) @ [char_of (48 + n mod 10)])"
  by (rule decimal_digits.simps)

lemma decimal_digits_are_digits: "c \<in> set (decimal_digits n) \<Longrightarrow> is_digit c"
proof (induction n rule: decimal_digits.induct)
  case (1 n)
  then show ?case by (subst (asm) (2) decimal_digits_step) (auto simp: is_digit_def digit_code split: if_splits)
qed

lemma decimal_digits_value: "digits_value (decimal_digits n) = n"
proof (induction n rule: decimal_digits.induct)
  case (1 n)
  then show ?case by (subst decimal_digits_step) (auto simp: digits_value_def digit_code)
qed

lemma decimal_digits_not_Nil: "decimal_digits n \<noteq> []"
  by (subst decimal_digits_step) simp

lemma decimal_digits_hd: "0 < n \<Longrightarrow> hd (decimal_digits n) \<noteq> CHR ''0''"
proof (induction n rule: decimal_digits.induct)
  case (1 n)
  have "char_of (48 + n) \<noteq> CHR ''0''" if "0 < n" "n < 10"
  proof
    assume "char_of (48 + n) = CHR ''0''"
    then have "code (char_of (48 + n)) = code CHR ''0''" by simp
    with that digit_code [of n] show False by (simp add: code_def)
  qed
  with 1 show ?case by (subst decimal_digits_step) (auto simp: decimal_digits_not_Nil)
qed

lemma decimal_digits_length: "n < 10 ^ Suc k \<Longrightarrow> length (decimal_digits n) \<le> Suc k"
proof (induction k arbitrary: n)
  case 0
  then show ?case by (subst decimal_digits_step) simp
next
  case (Suc k)
  then have "n div 10 < 10 ^ Suc k" by (simp add: less_mult_imp_div_less mult.commute)
  from Suc.IH [OF this] show ?case by (subst decimal_digits_step) simp
qed

lemma decimal_digits_plain: "plain (decimal_digits n)"
  unfolding plain_def list_all_iff
  using decimal_digits_are_digits by (fastforce simp: is_digit_def is_line_end_def Let_def)

lemma hunk_count_digits:
  assumes "0 < n"
  shows "hunk_count (''@@ -0,0 +1,'' @ decimal_digits n @ '' @@'' @ newline) = Some (decimal_digits n)"
proof -
  have space: "\<not> is_digit CHR '' ''" by (simp add: is_digit_def code_def)
  have "takeWhile is_digit (decimal_digits n @ '' @@'' @ newline) = decimal_digits n"
    using space by (simp add: decimal_digits_are_digits)
  then show ?thesis
    using decimal_digits_hd [OF assms] by (simp add: hunk_count_def startswith_def decimal_digits_not_Nil Let_def)
qed

subsection \<open>A patch is read back\<close>

lemma newline_before: "plain s \<Longrightarrow> line_before (s @ newline) rest"
  using line_before.one [of s "CHR 0x0A" rest] by (simp add: is_line_end_def code_def)

lemma line_before_length: "line_before l rest \<Longrightarrow> Suc 0 \<le> length l"
  by (erule line_before.cases) (auto simp: Suc_le_eq)

lemma split_keep_length: "length (split_keep s) \<le> length s"
proof -
  have "lines_ok ls \<Longrightarrow> length ls \<le> length (concat ls)" for ls
    by (induction ls) (auto dest: line_before_length)
  then show ?thesis using split_keep_lines [of s] by metis
qed

lemma split_patch:
  assumes "plain file_path"
  shows "split_keep (build_new_test_patch file_path content) =
    (''--- /dev/null'' @ newline) # (''+++ b/'' @ file_path @ newline) #
    (''@@ -0,0 +1,'' @ decimal_digits (length (split_keep content)) @ '' @@'' @ newline) #
    map (\<lambda>line. CHR ''+'' # line) (split_keep content)"
proof -
  let ?ls = "map (\<lambda>line. CHR ''+'' # line) (split_keep content)"
  have "lines_ok ?ls" using split_keep_lines [of content] by (intro lines_ok_plus) simp
  moreover have "line_before ((''--- /dev/null'') @ newline) r" for r
    by (rule newline_before) (simp add: plain_def is_line_end_def code_def)
  moreover have "line_before ((''+++ b/'' @ file_path) @ newline) r" for r
    by (rule newline_before) (use assms in \<open>simp add: plain_def is_line_end_def code_def\<close>)
  moreover have "line_before ((''@@ -0,0 +1,'' @ decimal_digits n @ '' @@'') @ newline) r" for r n
    by (rule newline_before) (use decimal_digits_plain [of n] in \<open>simp add: plain_def is_line_end_def code_def\<close>)
  ultimately have "lines_ok ((''--- /dev/null'' @ newline) # (''+++ b/'' @ file_path @ newline) #
    (''@@ -0,0 +1,'' @ decimal_digits (length (split_keep content)) @ '' @@'' @ newline) # ?ls)" (is "lines_ok ?all")
    by simp
  from split_keep_concat [OF this] show ?thesis by (simp add: build_new_test_patch_def Let_def)
qed

text \<open>C28: The patch that the adapter builds for a path without line ends and a content of at most 65536 characters
  is read back as exactly that content, and the patch check passes, unless the content is empty or has a line that
  starts with two plus signs. These two are refused: the empty content because no line is left to add, the other
  because its added line looks like a file header, although the patch is the adapter's own.\<close>

theorem generated_patch_is_read_back:
  assumes "plain file_path" "length content \<le> 65536"
  shows "extract_new_file file_path (build_new_test_patch file_path content) =
    (if content = [] then Inr (None, \<lparr>sc_name = ''patch'', sc_passed = False, sc_code = ''patch_structure_invalid''\<rparr>)
     else if \<exists>line \<in> set (split_keep content). take 2 line = ''++''
     then Inr (None, \<lparr>sc_name = ''patch'', sc_passed = False, sc_code = ''patch_contains_non_addition''\<rparr>)
     else Inr (Some content, \<lparr>sc_name = ''patch'', sc_passed = True, sc_code = ''new_file_patch_valid''\<rparr>))"
proof (cases "content = []")
  case True
  then show ?thesis using split_patch [OF assms(1), of content] by (simp add: extract_new_file_def patch_failed_def)
next
  case False
  let ?ls = "split_keep content" and ?plus = "\<lambda>line. CHR ''+'' # line"
  have ne: "?ls \<noteq> []" using split_keep_lines [of content] False by (metis concat.simps(1))
  then have count: "hunk_count (''@@ -0,0 +1,'' @ decimal_digits (length ?ls) @ '' @@'' @ newline) =
      Some (decimal_digits (length ?ls))"
    by (intro hunk_count_digits) simp
  have "length ?ls < 10 ^ Suc 4" using split_keep_length [of content] assms(2) by simp
  then have "length (decimal_digits (length ?ls)) \<le> 4300" using decimal_digits_length [of "length ?ls" 4] by simp
  then have int: "int_of_digits (decimal_digits (length ?ls)) = Inr (length ?ls)"
    by (simp add: int_of_digits_def decimal_digits_value)
  have "startswith (?plus line) ''+''" "startswith (?plus line) ''+++'' \<longleftrightarrow> take 2 line = ''++''" for line
    by (simp_all add: startswith_def take_Suc_conv_app_nth numeral_2_eq_2 numeral_3_eq_3)
  then have "list_ex (\<lambda>line. \<not> startswith line ''+'' \<or> startswith line ''+++'') (map ?plus ?ls) \<longleftrightarrow>
      (\<exists>line \<in> set ?ls. take 2 line = ''++'')"
    by (auto simp: list_ex_iff)
  moreover have "concat (map tl (map ?plus ?ls)) = content" using split_keep_lines [of content] by (simp add: o_def)
  ultimately show ?thesis
    using False ne count int by (simp add: extract_new_file_def split_patch [OF assms(1)] patch_failed_def o_def)
qed

subsection \<open>A valid report\<close>

lemma check_passed [simp]: "sc_passed (check n ok a b) = ok"
  by (simp add: check_def)

lemma valid_report_cases:
  assumes "validate_proposal parse p = Inr r" "sr_valid r"
  obtains content body where
    "extract_new_file (tp_file_path p) (tp_patch p) = Inr (Some content, \<lparr>sc_name = ''patch'', sc_passed = True, sc_code = ''new_file_patch_valid''\<rparr>)"
    "sc_passed (path_check (tp_file_path p))" "sc_passed (command_check p)" "sc_passed (format_check content)"
    "parse content = Some body" "sc_passed (type_shape_check body)" "sc_passed (safety_check body)"
    "sr_content_sha256 r = Some (sha256_hex (utf8 content))"
proof -
  from assms obtain content c where x: "extract_new_file (tp_file_path p) (tp_patch p) = Inr (content, c)"
    by (auto simp: validate_proposal_def and_then_Inr)
  then have c: "c = \<lparr>sc_name = ''patch'', sc_passed = True, sc_code = ''new_file_patch_valid''\<rparr> \<or> \<not> sc_passed c"
    by (auto simp: extract_new_file_def patch_failed_def and_then_Inr split: list.splits if_splits option.splits)
  from assms x obtain src where t: "content = Some src"
    by (cases content) (auto simp: validate_proposal_def Let_def)
  with assms x have "sc_passed c" "sc_passed (path_check (tp_file_path p))" "sc_passed (command_check p)"
    "sc_passed (format_check src)" "list_all sc_passed (tree_checks (parse src))"
    "sr_content_sha256 r = Some (sha256_hex (utf8 src))"
    by (auto simp: validate_proposal_def Let_def report_of_def)
  with x t c that show thesis
    by (cases "parse src") (auto simp: tree_checks_def not_checked_def)
qed

lemma plus_tl: "startswith l ''+'' \<Longrightarrow> CHR ''+'' # tl l = l"
  by (cases l) (auto simp: startswith_def)

lemma extracted_lines:
  assumes "extract_new_file file_path patch = Inr (Some content, c)"
  obtains digits ls where "split_keep patch = (''--- /dev/null'' @ newline) # (''+++ b/'' @ file_path @ newline) # digits # map (\<lambda>l. CHR ''+'' # l) ls"
    "ls \<noteq> []" "content = concat ls"
proof -
  from assms obtain digits added where s: "split_keep patch = (''--- /dev/null'' @ newline) # (''+++ b/'' @ file_path @ newline) # digits # added"
    and a: "added \<noteq> []" "\<not> list_ex (\<lambda>line. \<not> startswith line ''+'' \<or> startswith line ''+++'') added" "content = concat (map tl added)"
    by (auto simp: extract_new_file_def patch_failed_def and_then_Inr split: list.splits if_splits option.splits)
  have "map (\<lambda>l. CHR ''+'' # l) (map tl added) = added"
    using a(2) unfolding map_map
    by (intro map_idI) (auto simp: list_ex_iff plus_tl)
  with s a that [of digits "map tl added"] show thesis by simp
qed

text \<open>C27: If the static validation of a proposal is valid, its file is one \<open>test_*.py\<close> directly in tests/generated
  and is the only file of the patch, whose added lines are the hashed content; its only command runs pytest on that
  file; the content ends with a line end and has no carriage return or tab; and in its syntax tree every statement
  is an import or a typed test function without parameters, every import is of fixture_app or pytest, and no
  forbidden name, attribute, dunder or kind of node occurs anywhere.\<close>

theorem valid_test_is_confined:
  assumes "validate_proposal parse p = Inr r" "sr_valid r"
  shows "\<exists>name content body digits ls.
    tp_file_path p = ''tests/generated/'' @ name \<and> startswith name ''test_'' \<and> CHR ''/'' \<notin> set name \<and>
    tp_commands p = [''python -m pytest -q '' @ tp_file_path p] \<and>
    split_keep (tp_patch p) = (''--- /dev/null'' @ newline) # (''+++ b/'' @ tp_file_path p @ newline) # digits #
      map (\<lambda>l. CHR ''+'' # l) ls \<and> content = concat ls \<and>
    sr_content_sha256 r = Some (sha256_hex (utf8 content)) \<and>
    endswith content newline \<and> CHR 0x0D \<notin> set content \<and> CHR 0x09 \<notin> set content \<and>
    parse content = Some body \<and> list_all top_level_allowed body \<and> list_all node_safe (module_nodes body) \<and>
    list_all test_function_valid (filter is_function body) \<and> filter is_function body \<noteq> []"
proof -
  from assms obtain content body where v:
    "extract_new_file (tp_file_path p) (tp_patch p) = Inr (Some content, \<lparr>sc_name = ''patch'', sc_passed = True, sc_code = ''new_file_patch_valid''\<rparr>)"
    "sc_passed (path_check (tp_file_path p))" "sc_passed (command_check p)" "sc_passed (format_check content)"
    "parse content = Some body" "sc_passed (type_shape_check body)" "sc_passed (safety_check body)"
    "sr_content_sha256 r = Some (sha256_hex (utf8 content))"
    by (rule valid_report_cases)
  obtain digits ls where l: "split_keep (tp_patch p) = (''--- /dev/null'' @ newline) # (''+++ b/'' @ tp_file_path p @ newline) #
      digits # map (\<lambda>l. CHR ''+'' # l) ls" "content = concat ls"
    using extracted_lines [OF v(1)] by metis
  let ?names = "posix_names (tp_file_path p)"
  from v(2) have path: "posix_root (tp_file_path p) = []" "?names \<noteq> []" "butlast ?names = [''tests'', ''generated'']"
    "startswith (last ?names) ''test_''" "tp_file_path p = as_posix (tp_file_path p)"
    by (auto simp: path_check_def posix_name_def)
  then have "?names = [''tests'', ''generated'', last ?names]" by (metis append_Cons append_Nil append_butlast_last_id)
  moreover have "CHR ''/'' \<notin> set (last ?names)" using posix_names_safe [of "last ?names" "tp_file_path p"] path(2) by simp
  moreover have "tp_file_path p = join ''/'' ?names" using path(1,2,5) by (simp add: as_posix_def posix_parts_def)
  ultimately have "tp_file_path p = ''tests/generated/'' @ last ?names" by (metis append_Cons append_Nil join.simps(2,3))
  with v l path(4) \<open>CHR ''/'' \<notin> set (last ?names)\<close> show ?thesis
    by (intro exI [of _ "last ?names"] exI [of _ content] exI [of _ body] exI [of _ digits] exI [of _ ls])
      (simp add: command_check_def fixture_command_def format_check_def type_shape_check_def safety_check_def Let_def)
qed

subsection \<open>Concrete tests\<close>

definition no_arguments :: py_arguments where
  "no_arguments = Arguments [] [] None [] [] None []"

definition passing_source :: string where
  "passing_source = ''def test_a() -> None:'' @ newline @ ''    pass'' @ newline"

definition passing_tree :: "py_ast list" where
  "passing_tree = [FunctionDef ''test_a'' [] no_arguments (Some ConstantNone) [Node ''Pass'' []] []]"

definition passing_proposal :: test_proposal where
  "passing_proposal = \<lparr>tp_target_behavior = ''b'', tp_rationale = ''r'', tp_evidence_ids = [''e''],
     tp_file_path = ''tests/generated/test_a.py'', tp_patch = build_new_test_patch ''tests/generated/test_a.py'' passing_source,
     tp_commands = [''python -m pytest -q tests/generated/test_a.py''], tp_expected_result = ''passes'', tp_risk = PR_LOW,
     tp_test_adapter = PYTHON_FIXTURE_ADAPTER, tp_test_adapter_version = PYTHON_FIXTURE_ADAPTER_VERSION,
     tp_generation = \<lparr>pg_provider_name = ''p'', pg_model_id = ''m'', pg_provider_adapter_version = ''1'',
       pg_prompt_version = ''1'', pg_prompt_sha256 = replicate 64 CHR ''0'', pg_source_evidence_id = ''e''\<rparr>,
     tp_schema_version = TEST_PROPOSAL_SCHEMA_VERSION\<rparr>"

lemma passing_lines: "split_keep passing_source = [''def test_a() -> None:'' @ newline, ''    pass'' @ newline]"
  using split_keep_concat [of "[''def test_a() -> None:'' @ newline, ''    pass'' @ newline]"]
    newline_before [of "''def test_a() -> None:''"] newline_before [of "''    pass''" "[]"]
  by (simp add: passing_source_def plain_def is_line_end_def code_def)

lemma generated_patch_is_read_back_witness:
  "extract_new_file ''tests/generated/test_a.py'' (build_new_test_patch ''tests/generated/test_a.py'' passing_source) =
    Inr (Some passing_source, \<lparr>sc_name = ''patch'', sc_passed = True, sc_code = ''new_file_patch_valid''\<rparr>)"
proof -
  have "plain ''tests/generated/test_a.py''" by (simp add: plain_def is_line_end_def code_def)
  moreover have "passing_source \<noteq> []" "length passing_source \<le> 65536" by (simp_all add: passing_source_def)
  ultimately show ?thesis
    using generated_patch_is_read_back [of "''tests/generated/test_a.py''" passing_source]
    by (simp add: passing_lines)
qed

lemma passing_report: "\<exists>r. validate_proposal (\<lambda>s. Some passing_tree) passing_proposal = Inr r \<and> sr_valid r"
proof -
  have "split_keep (tp_patch passing_proposal) = (''--- /dev/null'' @ newline) # (''+++ b/tests/generated/test_a.py'' @ newline) #
      (''@@ -0,0 +1,'' @ decimal_digits 2 @ '' @@'' @ newline) # [''+def test_a() -> None:'' @ newline, ''+    pass'' @ newline]"
    using split_patch [of "''tests/generated/test_a.py''" passing_source]
    by (simp add: passing_proposal_def passing_lines plain_def is_line_end_def code_def numeral_2_eq_2)
  then have x: "extract_new_file ''tests/generated/test_a.py'' (tp_patch passing_proposal) =
      Inr (Some passing_source, \<lparr>sc_name = ''patch'', sc_passed = True, sc_code = ''new_file_patch_valid''\<rparr>)"
    using hunk_count_digits [of 2] decimal_digits_value [of 2] decimal_digits_length [of 2 0]
    by (simp add: extract_new_file_def startswith_def int_of_digits_def passing_source_def)
  have "sc_passed (path_check ''tests/generated/test_a.py'')" by code_simp
  moreover have "sc_passed (format_check passing_source)"
    by (simp add: format_check_def passing_lines rstrip_char_def) (simp add: passing_source_def endswith_def)
  moreover have "sc_passed (type_shape_check passing_tree)" "sc_passed (safety_check passing_tree)"
    by (simp_all add: type_shape_check_def safety_check_def passing_tree_def no_arguments_def startswith_def
        module_nodes_def walk.simps argument_nodes_def FORBIDDEN_NODES_def)
  ultimately show ?thesis
    using x by (simp add: validate_proposal_def report_of_def tree_checks_def adapter_check_def command_check_def
        fixture_command_def passing_proposal_def Let_def)
qed

lemma valid_test_is_confined_witness:
  "\<exists>r. validate_proposal (\<lambda>s. Some passing_tree) passing_proposal = Inr r \<and>
    (\<exists>name. tp_file_path passing_proposal = ''tests/generated/'' @ name \<and> startswith name ''test_'')"
  using passing_report valid_test_is_confined by blast

text \<open>
  \<open>pytest.importorskip("shutil").rmtree("/")\<close>: \<open>importorskip\<close> returns any module, and \<open>rmtree\<close> is not a
  forbidden attribute.
\<close>

definition escaping_tree :: "py_ast list" where
  "escaping_tree = [Import [''pytest''], FunctionDef ''test_a'' [] no_arguments (Some ConstantNone)
     [Node ''Expr'' [Node ''Call'' [Attribute (Node ''Call'' [Attribute (Name ''pytest'') ''importorskip'',
       Node ''Constant'' []]) ''rmtree'', Node ''Constant'' []]]] []]"

lemma importorskip_passes_the_static_checks:
  "sc_passed (type_shape_check escaping_tree) \<and> sc_passed (safety_check escaping_tree)"
  by (simp add: type_shape_check_def safety_check_def escaping_tree_def no_arguments_def startswith_def import_root_def
      module_nodes_def walk.simps argument_nodes_def FORBIDDEN_NODES_def FORBIDDEN_NAMES_def FORBIDDEN_ATTRIBUTES_def
      ALLOWED_IMPORT_ROOTS_def)

text \<open>A hunk count of more than 4300 digits is not refused but raises.\<close>

lemma long_count_raises:
  assumes "split_keep patch = (''--- /dev/null'' @ newline) # (''+++ b/'' @ file_path @ newline) # third # [''+x'']"
    and "hunk_count third = Some digits" "4300 < length digits"
  shows "extract_new_file file_path patch =
    Inl (ValueError ''Exceeds the limit (4300 digits) for integer string conversion'')"
  using assms by (simp add: extract_new_file_def int_of_digits_def startswith_def)

end
