(* ===== verification/SemanticData.thy ===== *)
theory SemanticData
  imports DatasetExtraction
begin

section \<open>packages/dataset_core/semantic.py: the outcome-blind semantic dataset\<close>

text \<open>
  Annotations are read from decoded JSON; a semantic dataset is derived from a built dataset, its
  extracted source and the annotations. \<open>SemanticDatasetError\<close>, a subclass of ValueError, is the only
  exception the module raises. A dictionary comprehension keeps the last value of a repeated key.
\<close>

datatype semantic_error = SemanticDatasetError string

definition MAX_SEMANTIC_TEXT_BYTES :: nat where "MAX_SEMANTIC_TEXT_BYTES = 4096"

definition MAX_CATEGORIES :: nat where "MAX_CATEGORIES = 16"

definition MAX_ROWS :: nat where "MAX_ROWS = 10000"

definition SEMANTIC_TEXT_VERSION :: string where "SEMANTIC_TEXT_VERSION = ''semantic-change-text-v1''"

definition sem_if :: "bool \<Rightarrow> string \<Rightarrow> semantic_error option" where
  "sem_if bad message = raise_if bad (SemanticDatasetError message)"

definition sem_check :: "semantic_error option \<Rightarrow> (unit \<Rightarrow> semantic_error + 'a) \<Rightarrow> semantic_error + 'a" where
  "sem_check c k = (case c of Some e \<Rightarrow> Inl e | None \<Rightarrow> k ())"

subsection \<open>Annotations\<close>

definition sem_string :: "pyval \<Rightarrow> string \<Rightarrow> nat \<Rightarrow> semantic_error + string" where
  "sem_string value field maximum =
     (let bad = Inl (SemanticDatasetError (field @ '' must be a bounded non-empty string'')) in
      case value of PyStr s \<Rightarrow> if s = [] \<or> length (utf8 s) > maximum then bad else Inr s | _ \<Rightarrow> bad)"

definition sem_string_list :: "pyval \<Rightarrow> string \<Rightarrow> nat \<Rightarrow> semantic_error + string list" where
  "sem_string_list value field maximum =
     (let bad = Inl (SemanticDatasetError (field @ '' must be a bounded list'')) in
      case value of
        PyList xs \<Rightarrow> if length xs > maximum then bad
          else and_then (map_raise (\<lambda>x. sem_string x field 512) xs) (\<lambda>items.
            if \<not> distinct items then Inl (SemanticDatasetError (field @ '' must not contain duplicates'')) else Inr items)
      | _ \<Rightarrow> bad)"

definition sem_checksum :: "pyval \<Rightarrow> string \<Rightarrow> semantic_error + string" where
  "sem_checksum value field = and_then (sem_string value field 64) (\<lambda>s.
     if \<not> is_sha256_text s then Inl (SemanticDatasetError (field @ '' must be a lowercase SHA-256 checksum'')) else Inr s)"

record semantic_annotations =
  sn_dataset_version :: string
  sn_source_dataset_version :: string
  sn_source_manifest_sha256 :: string
  sn_source_split_sha256 :: string
  sn_source_admission_sha256 :: string
  sn_annotation_rule_version :: string
  sn_annotator :: string
  sn_annotated_at :: datetime
  sn_outcome_blind :: bool
  sn_allowed_input_fields :: "string list"
  sn_blinded_fields :: "string list"
  sn_categories :: "string list"
  sn_annotations :: "(string \<times> string list) list"
  sn_license :: string
  sn_source_content_license :: string
  sn_usage :: string
  sn_annotation_sha256 :: string

definition ANNOTATION_FIELDS :: "string list" where
  "ANNOTATION_FIELDS = [''allowed_input_fields'', ''annotated_at'', ''annotation_rule_version'', ''annotations'',
     ''annotator'', ''blinded_fields'', ''categories'', ''dataset_version'', ''license'', ''outcome_blind'',
     ''schema_version'', ''source_admission_sha256'', ''source_content_license'', ''source_dataset_version'',
     ''source_manifest_sha256'', ''source_split_sha256'', ''usage'']"

definition ALLOWED_INPUTS :: "string list" where
  "ALLOWED_INPUTS = [''changed_files.path'', ''changed_files.status'', ''changed_files.patch'']"

definition REQUIRED_BLINDED :: "string list" where
  "REQUIRED_BLINDED = [''outcome.kind'', ''outcome.observed_at'', ''outcome.evidence_refs'', ''proxy_label'']"

definition sem_labels :: "string list \<Rightarrow> string \<times> pyval \<Rightarrow> semantic_error + string \<times> string list" where
  "sem_labels categories p =
     and_then (sem_string (PyStr (fst p)) ''annotation snapshot_id'' 128) (\<lambda>snapshot.
     and_then (sem_string_list (snd p) (''annotations.'' @ snapshot) MAX_CATEGORIES) (\<lambda>labels.
     if labels = [] \<or> \<not> sorted labels \<or> \<not> set labels \<subseteq> set categories
     then Inl (SemanticDatasetError ''semantic row labels must be sorted members of the vocabulary'')
     else Inr (snapshot, labels)))"

definition sem_vocabulary :: "pydict \<Rightarrow> semantic_error + string list" where
  "sem_vocabulary payload =
     and_then (sem_string_list (item payload ''categories'') ''categories'' MAX_CATEGORIES) (\<lambda>categories.
       if categories = [] \<or> \<not> sorted categories
       then Inl (SemanticDatasetError ''semantic categories must be non-empty and sorted'') else Inr categories)"

definition sem_fields :: "pydict \<Rightarrow> semantic_error + string list \<times> string list" where
  "sem_fields payload =
     and_then (sem_string_list (item payload ''allowed_input_fields'') ''allowed_input_fields'' 16) (\<lambda>allowed.
     if allowed \<noteq> ALLOWED_INPUTS
     then Inl (SemanticDatasetError ''semantic text fields must match the pre-outcome allowlist'')
     else and_then (sem_string_list (item payload ''blinded_fields'') ''blinded_fields'' 16) (\<lambda>blinded.
     if set blinded \<noteq> set REQUIRED_BLINDED
     then Inl (SemanticDatasetError ''semantic annotation must blind all outcome and proxy-label fields'')
     else Inr (allowed, blinded)))"

definition sem_annotations :: "pydict \<Rightarrow> string list \<Rightarrow> semantic_error + (string \<times> string list) list" where
  "sem_annotations payload categories =
     (let bad = Inl (SemanticDatasetError ''semantic annotations must be a bounded object'') in
      case item payload ''annotations'' of
        PyDict raw \<Rightarrow> if raw = [] \<or> length raw > MAX_ROWS then bad else map_raise (sem_labels categories) raw
      | _ \<Rightarrow> bad)"

definition sem_time :: "(string \<Rightarrow> datetime option) \<Rightarrow> pydict \<Rightarrow> semantic_error + datetime" where
  "sem_time fromisoformat payload =
     and_then (sem_string (item payload ''annotated_at'') ''annotated_at'' 64) (\<lambda>written.
       (case fromisoformat (utc_suffix written) of
          None \<Rightarrow> Inl (SemanticDatasetError ''annotated_at must be an ISO-8601 datetime'')
        | Some t \<Rightarrow> if is_aware t then Inr t else Inl (SemanticDatasetError ''annotated_at must be timezone aware'')))"

text \<open>The strings of the result, read in the order of the constructor call.\<close>

definition sem_member :: "pydict \<Rightarrow> string \<Rightarrow> nat \<Rightarrow> semantic_error + string" where
  "sem_member payload field maximum = sem_string (item payload field) field maximum"

definition sem_sha_member :: "pydict \<Rightarrow> string \<Rightarrow> semantic_error + string" where
  "sem_sha_member payload field = sem_checksum (item payload field) field"

definition parse_semantic_annotations ::
  "(string \<Rightarrow> datetime option) \<Rightarrow> pydict \<Rightarrow> semantic_error + semantic_annotations" where
  "parse_semantic_annotations fromisoformat payload =
     sem_check (first_raise [
       sem_if (\<not> has_exactly payload ANNOTATION_FIELDS \<or> item payload ''schema_version'' \<noteq> PyStr ''semantic-annotation-v1'')
         ''semantic annotation must exactly match schema v1'',
       sem_if (item payload ''outcome_blind'' \<noteq> PyBool True) ''semantic annotations must be outcome blind'']) (\<lambda>_.
     and_then (sem_vocabulary payload) (\<lambda>categories.
     and_then (sem_fields payload) (\<lambda>(allowed, blinded).
     and_then (sem_annotations payload categories) (\<lambda>annotations.
     and_then (sem_time fromisoformat payload) (\<lambda>annotated_at.
     and_then (sem_member payload ''dataset_version'' 512) (\<lambda>dataset_version.
     and_then (sem_member payload ''source_dataset_version'' 512) (\<lambda>source_dataset_version.
     and_then (sem_sha_member payload ''source_manifest_sha256'') (\<lambda>manifest_sha256.
     and_then (sem_sha_member payload ''source_split_sha256'') (\<lambda>split_sha256.
     and_then (sem_sha_member payload ''source_admission_sha256'') (\<lambda>admission_sha256.
     and_then (sem_member payload ''annotation_rule_version'' 512) (\<lambda>rule_version.
     and_then (sem_member payload ''annotator'' 512) (\<lambda>annotator.
     and_then (sem_member payload ''license'' 64) (\<lambda>license.
     and_then (sem_member payload ''source_content_license'' 64) (\<lambda>content_license.
     and_then (sem_member payload ''usage'' 1000) (\<lambda>usage.
       Inr \<lparr>sn_dataset_version = dataset_version, sn_source_dataset_version = source_dataset_version,
         sn_source_manifest_sha256 = manifest_sha256, sn_source_split_sha256 = split_sha256,
         sn_source_admission_sha256 = admission_sha256, sn_annotation_rule_version = rule_version,
         sn_annotator = annotator, sn_annotated_at = annotated_at, sn_outcome_blind = True,
         sn_allowed_input_fields = allowed, sn_blinded_fields = blinded, sn_categories = categories,
         sn_annotations = annotations, sn_license = license, sn_source_content_license = content_license,
         sn_usage = usage, sn_annotation_sha256 = canonical_hash (PyDict payload)\<rparr>)))))))))))))))"

subsection \<open>The text of a change\<close>

text \<open>\<open>decode_longest\<close> tries one byte fewer each time; it never reaches zero, since a character has two bytes.\<close>

definition bounded_utf8 :: "string \<Rightarrow> string \<times> bool" where
  "bounded_utf8 s = (if length (utf8 s) \<le> MAX_SEMANTIC_TEXT_BYTES then (s, False)
     else (decode_longest (utf8 s) MAX_SEMANTIC_TEXT_BYTES, True))"

definition semantic_patch :: "string option \<Rightarrow> string" where
  "semantic_patch patch = replace_char CHR 0x0D CHR 0x0A (unix_newlines
     (case patch of None \<Rightarrow> ''<patch unavailable>'' | Some p \<Rightarrow> if p = [] then ''<patch unavailable>'' else p))"

definition semantic_block :: "raw_changed_file \<Rightarrow> string" where
  "semantic_block f = ''[FILE] '' @ replace_char CHR 0x5C CHR ''/'' (rf_path f) @ [CHR 0x0A] @
     ''[STATUS] '' @ rf_status f @ [CHR 0x0A] @ ''[PATCH]'' @ [CHR 0x0A] @ semantic_patch (rf_patch f)"

definition semantic_text :: "raw_changed_file list \<Rightarrow> semantic_error + string \<times> bool" where
  "semantic_text changed_files =
     (if changed_files = [] then Inl (SemanticDatasetError ''semantic rows require changed-file input'')
      else Inr (bounded_utf8 (join [CHR 0x0A, CHR 0x0A] (map semantic_block (sort_key rf_path changed_files)))))"

subsection \<open>Rows\<close>

record semantic_row =
  sw_snapshot_id :: string
  sw_repository_numeric_id :: int
  sw_split :: dataset_split
  sw_text :: string
  sw_text_sha256 :: string
  sw_text_bytes :: nat
  sw_text_truncated :: bool
  sw_categories :: "string list"
  sw_label_vector :: "int list"
  sw_row_sha256 :: string

definition split_json :: "dataset_split \<Rightarrow> pyval" where
  "split_json s = PyStr (dataset_split_value s)"

definition semantic_row_as_dict :: "semantic_row \<Rightarrow> pydict" where
  "semantic_row_as_dict r = [
     (''categories'', strs (sw_categories r)),
     (''label_vector'', PyList (map PyInt (sw_label_vector r))),
     (''repository_numeric_id'', PyInt (sw_repository_numeric_id r)),
     (''row_sha256'', PyStr (sw_row_sha256 r)),
     (''snapshot_id'', PyStr (sw_snapshot_id r)),
     (''split'', split_json (sw_split r)),
     (''text'', PyStr (sw_text r)),
     (''text_bytes'', PyInt (int (sw_text_bytes r))),
     (''text_sha256'', PyStr (sw_text_sha256 r)),
     (''text_truncated'', PyBool (sw_text_truncated r))]"

definition text_hash :: "string \<Rightarrow> string" where
  "text_hash s = canonical_hash (PyDict [(''text'', PyStr s), (''text_version'', PyStr SEMANTIC_TEXT_VERSION)])"

definition label_vector :: "string list \<Rightarrow> string list \<Rightarrow> int list" where
  "label_vector categories labels = map (\<lambda>c. if c \<in> set labels then 1 else 0) categories"

definition semantic_row_of :: "feature_row \<Rightarrow> string \<times> bool \<Rightarrow> string list \<Rightarrow> string list \<Rightarrow> semantic_row" where
  "semantic_row_of source t categories labels =
     (let vector = label_vector categories labels; bytes = length (utf8 (fst t)) in
      \<lparr>sw_snapshot_id = fr_snapshot_id source, sw_repository_numeric_id = fr_repository_numeric_id source,
       sw_split = fr_split source, sw_text = fst t, sw_text_sha256 = text_hash (fst t), sw_text_bytes = bytes,
       sw_text_truncated = snd t, sw_categories = labels, sw_label_vector = vector,
       sw_row_sha256 = canonical_hash (PyDict [
         (''categories'', strs labels), (''label_vector'', PyList (map PyInt vector)),
         (''repository_numeric_id'', PyInt (fr_repository_numeric_id source)),
         (''snapshot_id'', PyStr (fr_snapshot_id source)), (''source_row_sha256'', PyStr (fr_row_hash source)),
         (''split'', split_json (fr_split source)), (''text_bytes'', PyInt (int bytes)),
         (''text_sha256'', PyStr (text_hash (fst t))), (''text_truncated'', PyBool (snd t)),
         (''text_version'', PyStr SEMANTIC_TEXT_VERSION)])\<rparr>)"

text \<open>The loop over the sorted ids; \<open>seen\<close> is \<open>seen_by_split\<close>.\<close>

fun semantic_rows ::
  "(string \<Rightarrow> feature_row option) \<Rightarrow> (string \<Rightarrow> extracted_snapshot option) \<Rightarrow> semantic_annotations \<Rightarrow>
   (string \<times> dataset_split) list \<Rightarrow> string list \<Rightarrow> semantic_error + semantic_row list" where
  "semantic_rows rows snapshots annotations seen [] = Inr []"
| "semantic_rows rows snapshots annotations seen (i # ids) =
     (let source = the (rows i) in
      and_then (semantic_text (xs_changed_files (the (snapshots i)))) (\<lambda>t.
      let h = text_hash (fst t) in
      if map_of seen h \<noteq> None \<and> map_of seen h \<noteq> Some (fr_split source)
      then Inl (SemanticDatasetError ''exact semantic text cannot cross frozen split boundaries'')
      else and_then (semantic_rows rows snapshots annotations ((h, fr_split source) # seen) ids) (\<lambda>rest.
        Inr (semantic_row_of source t (sn_categories annotations)
          (the (map_of (sn_annotations annotations) i)) # rest))))"

subsection \<open>The dataset\<close>

record semantic_dataset =
  sd_annotations :: semantic_annotations
  sd_source_leakage_report_sha256 :: string
  sd_rows :: "semantic_row list"
  sd_counts :: pydict
  sd_leakage_report :: pydict
  sd_synthetic :: bool
  sd_manifest_sha256 :: string

text \<open>\<open>Counter\<close> over a list, its items sorted by key.\<close>

definition counted :: "'a::linorder list \<Rightarrow> ('a \<times> nat) list" where
  "counted xs = map (\<lambda>k. (k, count_list xs k)) (sorted_set xs)"

definition included_semantic_rows :: "semantic_row list \<Rightarrow> semantic_row list" where
  "included_semantic_rows rows = filter (\<lambda>r. sw_split r \<noteq> EXCLUDED) rows"

definition semantic_counts :: "string list \<Rightarrow> semantic_row list \<Rightarrow> pydict" where
  "semantic_counts categories rows = [
     (''category_positive_counts'', PyDict (map (\<lambda>c. (c, PyInt (int (length
       (filter (\<lambda>r. c \<in> set (sw_categories r)) (included_semantic_rows rows)))))) categories)),
     (''included_rows'', PyInt (int (length (included_semantic_rows rows)))),
     (''repository_counts'', PyDict (map (\<lambda>(k, n). (dump_int k, PyInt (int n)))
       (counted (map sw_repository_numeric_id (included_semantic_rows rows))))),
     (''split_counts'', PyDict (map (\<lambda>(k, n). (k, PyInt (int n))) (counted (map (dataset_split_value \<circ> sw_split) rows)))),
     (''total_rows'', PyInt (int (length rows))),
     (''truncated_rows'', PyInt (int (length (filter sw_text_truncated rows))))]"

definition semantic_leakage_payload :: "semantic_row list \<Rightarrow> string \<Rightarrow> pydict" where
  "semantic_leakage_payload rows source_report = [
     (''limitations'', strs [
       ''The fixture contains one repository, so repository-holdout behavior is not measured.'',
       ''Outcome-blind synthetic category annotations validate the pipeline, not real label quality.'']),
     (''passed_checks'', strs [''source_m4_leakage_report_passed'', ''outcome_and_proxy_fields_blinded'',
       ''pre_outcome_text_field_allowlist_exact'', ''frozen_m4_split_inherited'', ''all_source_rows_covered_once'',
       ''no_exact_text_across_splits'']),
     (''repository_holdout_measured'', PyBool (length (counted (map sw_repository_numeric_id (included_semantic_rows rows))) > 1)),
     (''schema_version'', PyStr ''semantic-leakage-report-v1''),
     (''source_report_sha256'', PyStr source_report),
     (''violations'', PyList [])]"

definition semantic_leakage_report :: "semantic_row list \<Rightarrow> string \<Rightarrow> pydict" where
  "semantic_leakage_report rows source_report =
     semantic_leakage_payload rows source_report @
     [(''report_sha256'', PyStr (canonical_hash (PyDict (semantic_leakage_payload rows source_report))))]"

definition semantic_manifest_payload ::
  "semantic_annotations \<Rightarrow> pydict \<Rightarrow> pydict \<Rightarrow> string \<Rightarrow> pydict" where
  "semantic_manifest_payload a counts leakage source_report = [
     (''annotation_rule_version'', PyStr (sn_annotation_rule_version a)),
     (''annotation_sha256'', PyStr (sn_annotation_sha256 a)),
     (''categories'', strs (sn_categories a)),
     (''counts'', PyDict counts),
     (''dataset_version'', PyStr (sn_dataset_version a)),
     (''leakage_report'', PyDict leakage),
     (''license'', PyStr (sn_license a)),
     (''schema_version'', PyStr ''semantic-dataset-v1''),
     (''source_admission_sha256'', PyStr (sn_source_admission_sha256 a)),
     (''source_content_license'', PyStr (sn_source_content_license a)),
     (''source_dataset_version'', PyStr (sn_source_dataset_version a)),
     (''source_leakage_report_sha256'', PyStr source_report),
     (''source_manifest_sha256'', PyStr (sn_source_manifest_sha256 a)),
     (''source_split_sha256'', PyStr (sn_source_split_sha256 a)),
     (''synthetic'', PyBool True),
     (''text_version'', PyStr SEMANTIC_TEXT_VERSION),
     (''usage'', PyStr (sn_usage a))]"

definition semantic_dataset_as_dict :: "semantic_dataset \<Rightarrow> pydict" where
  "semantic_dataset_as_dict d = [
     (''manifest'', PyDict (semantic_manifest_payload (sd_annotations d) (sd_counts d) (sd_leakage_report d)
        (sd_source_leakage_report_sha256 d) @ [(''manifest_sha256'', PyStr (sd_manifest_sha256 d))])),
     (''rows'', PyList (map (\<lambda>r. PyDict (semantic_row_as_dict r)) (sd_rows d)))]"

definition semantic_lineage_guard ::
  "(datetime \<Rightarrow> string) \<Rightarrow> dataset_build \<Rightarrow> extracted_source \<Rightarrow> semantic_annotations \<Rightarrow> semantic_error option" where
  "semantic_lineage_guard isoformat source_dataset extracted annotations =
     (let m = db_manifest source_dataset; admission = xr_admission extracted;
        ids = set (map fr_snapshot_id (db_rows source_dataset)) in
      first_raise [
       sem_if (\<not> dm_synthetic m \<or> \<not> sa_synthetic admission)
         ''M11 fixture evaluation accepts only the admitted synthetic source'',
       sem_if (lr_violations (dm_leakage_report m) \<noteq> []) ''source leakage report must pass before semantic derivation'',
       sem_if (sn_source_dataset_version annotations \<noteq> dm_dataset_version m \<or>
           sn_source_manifest_sha256 annotations \<noteq> dm_manifest_hash m \<or>
           sn_source_split_sha256 annotations \<noteq> dm_split_hash m \<or>
           sn_source_admission_sha256 annotations \<noteq> admission_hash isoformat admission \<or>
           sa_source_id admission \<notin> set (keys (dm_source_payload_hashes m)))
         ''semantic annotations do not match the frozen source lineage'',
       sem_if (set (map xs_snapshot_id (xr_records extracted)) \<noteq> ids \<or> set (keys (sn_annotations annotations)) \<noteq> ids)
         ''semantic rows, source snapshots, and annotations must align exactly''])"

definition by_key :: "('a \<Rightarrow> string) \<Rightarrow> 'a list \<Rightarrow> string \<Rightarrow> 'a option" where
  "by_key f xs = map_of (rev (map (\<lambda>x. (f x, x)) xs))"

definition build_semantic_dataset ::
  "(datetime \<Rightarrow> string) \<Rightarrow> dataset_build \<Rightarrow> extracted_source \<Rightarrow> semantic_annotations \<Rightarrow> semantic_error + semantic_dataset" where
  "build_semantic_dataset isoformat source_dataset extracted annotations =
     sem_check (semantic_lineage_guard isoformat source_dataset extracted annotations) (\<lambda>_.
     and_then (semantic_rows (by_key fr_snapshot_id (db_rows source_dataset))
         (by_key xs_snapshot_id (xr_records extracted)) annotations []
         (sorted_set (map fr_snapshot_id (db_rows source_dataset)))) (\<lambda>rows.
     let report = lr_report_hash (dm_leakage_report (db_manifest source_dataset));
       counts = semantic_counts (sn_categories annotations) rows;
       leakage = semantic_leakage_report rows report in
     Inr \<lparr>sd_annotations = annotations, sd_source_leakage_report_sha256 = report, sd_rows = rows, sd_counts = counts,
       sd_leakage_report = leakage, sd_synthetic = True,
       sd_manifest_sha256 = canonical_hash (PyDict (semantic_manifest_payload annotations counts leakage report))\<rparr>))"

end
