(* ===== verification/SemanticProofs.thy ===== *)
theory SemanticProofs
  imports SemanticData ChangeDiffProofs DatasetSplitProofs
begin

section \<open>The outcome-blind semantic dataset: properties\<close>

text \<open>
  What \<open>build_semantic_dataset\<close> promises of the rows it returns: they cover the source rows in order, their
  texts are bounded and inherit the split, no text crosses a split, and no outcome is read.
\<close>

subsection \<open>Rows\<close>

lemma sem_check_Inr [simp]: "sem_check c k = Inr x \<longleftrightarrow> c = None \<and> k () = Inr x"
  by (cases c) (simp_all add: sem_check_def)

lemma sem_if_None [simp]: "sem_if b m = None \<longleftrightarrow> \<not> b"
  by (simp add: sem_if_def)

lemma semantic_rows_Cons:
  "semantic_rows rows snapshots a seen (i # ids) = Inr ws \<longleftrightarrow>
    (\<exists>t rest. semantic_text (xs_changed_files (the (snapshots i))) = Inr t \<and>
      map_of seen (text_hash (fst t)) \<in> {None, Some (fr_split (the (rows i)))} \<and>
      semantic_rows rows snapshots a ((text_hash (fst t), fr_split (the (rows i))) # seen) ids = Inr rest \<and>
      ws = semantic_row_of (the (rows i)) t (sn_categories a) (the (map_of (sn_annotations a) i)) # rest)"
proof (cases "semantic_text (xs_changed_files (the (snapshots i)))")
  case (Inr t)
  then show ?thesis
    by (cases "map_of seen (text_hash (fst t)) \<in> {None, Some (fr_split (the (rows i)))}")
      (auto simp: and_then_Inr Let_def)
qed simp

lemma semantic_row_fields [simp]:
  "sw_snapshot_id (semantic_row_of source t cs ls) = fr_snapshot_id source"
  "sw_text (semantic_row_of source t cs ls) = fst t"
  "sw_split (semantic_row_of source t cs ls) = fr_split source"
  "sw_text_bytes (semantic_row_of source t cs ls) = length (utf8 (fst t))"
  "sw_text_truncated (semantic_row_of source t cs ls) = snd t"
  "sw_repository_numeric_id (semantic_row_of source t cs ls) = fr_repository_numeric_id source"
  "sw_label_vector (semantic_row_of source t cs ls) = label_vector cs ls"
  by (simp_all add: semantic_row_of_def Let_def)

lemma semantic_rows_ids:
  "semantic_rows rows snapshots a seen ids = Inr ws \<Longrightarrow> (\<And>i. i \<in> set ids \<Longrightarrow> fr_snapshot_id (the (rows i)) = i) \<Longrightarrow>
    map sw_snapshot_id ws = ids"
proof (induction ids arbitrary: seen ws)
  case (Cons i ids)
  from Cons.prems(1) obtain t rest
    where ws: "semantic_rows rows snapshots a ((text_hash (fst t), fr_split (the (rows i))) # seen) ids = Inr rest"
      "ws = semantic_row_of (the (rows i)) t (sn_categories a) (the (map_of (sn_annotations a) i)) # rest"
    unfolding semantic_rows_Cons by blast
  have "map sw_snapshot_id rest = ids" using Cons.IH [OF ws(1)] Cons.prems(2) by simp
  then show ?case using ws(2) Cons.prems(2) [of i] by simp
qed simp

lemma semantic_rows_member:
  "semantic_rows rows snapshots a seen ids = Inr ws \<Longrightarrow> w \<in> set ws \<Longrightarrow>
    \<exists>i t. i \<in> set ids \<and> semantic_text (xs_changed_files (the (snapshots i))) = Inr t \<and>
    w = semantic_row_of (the (rows i)) t (sn_categories a) (the (map_of (sn_annotations a) i))"
proof (induction ids arbitrary: seen ws)
  case (Cons i ids)
  from Cons.prems(1) obtain t rest where t: "semantic_text (xs_changed_files (the (snapshots i))) = Inr t"
    and rest: "semantic_rows rows snapshots a ((text_hash (fst t), fr_split (the (rows i))) # seen) ids = Inr rest"
    and ws: "ws = semantic_row_of (the (rows i)) t (sn_categories a) (the (map_of (sn_annotations a) i)) # rest"
    unfolding semantic_rows_Cons by blast
  show ?case
  proof (cases "w \<in> set rest")
    case True
    from Cons.IH [OF rest True] show ?thesis unfolding list.set by blast
  next
    case False
    with ws Cons.prems(2) t show ?thesis by (intro exI [of _ i] exI [of _ t]) simp
  qed
qed simp

text \<open>A text already seen keeps its split, and so does every text added later.\<close>

lemma semantic_rows_seen:
  "semantic_rows rows snapshots a seen ids = Inr ws \<Longrightarrow> w \<in> set ws \<Longrightarrow>
    map_of seen (text_hash (sw_text w)) \<in> {None, Some (sw_split w)}"
proof (induction ids arbitrary: seen ws)
  case (Cons i ids)
  from Cons.prems(1) obtain t rest
    where fresh: "map_of seen (text_hash (fst t)) \<in> {None, Some (fr_split (the (rows i)))}"
    and rest: "semantic_rows rows snapshots a ((text_hash (fst t), fr_split (the (rows i))) # seen) ids = Inr rest"
    and ws: "ws = semantic_row_of (the (rows i)) t (sn_categories a) (the (map_of (sn_annotations a) i)) # rest"
    unfolding semantic_rows_Cons by blast
  show ?case
  proof (cases "w \<in> set rest")
    case True
    from Cons.IH [OF rest True] fresh show ?thesis by (auto split: if_splits)
  next
    case False
    with ws Cons.prems(2) fresh show ?thesis by simp
  qed
qed simp

lemma semantic_rows_splits:
  "semantic_rows rows snapshots a seen ids = Inr ws \<Longrightarrow> v \<in> set ws \<Longrightarrow> w \<in> set ws \<Longrightarrow>
    sw_text v = sw_text w \<Longrightarrow> sw_split v = sw_split w"
proof (induction ids arbitrary: seen ws)
  case (Cons i ids)
  from Cons.prems(1) obtain t rest
    where rest: "semantic_rows rows snapshots a ((text_hash (fst t), fr_split (the (rows i))) # seen) ids = Inr rest"
    and ws: "ws = semantic_row_of (the (rows i)) t (sn_categories a) (the (map_of (sn_annotations a) i)) # rest"
    unfolding semantic_rows_Cons by blast
  have first: "u \<in> set rest \<Longrightarrow> sw_text u = fst t \<Longrightarrow> sw_split u = fr_split (the (rows i))" for u
    using semantic_rows_seen [OF rest, of u] by simp
  consider (both) "v \<in> set rest" "w \<in> set rest"
    | (left) "v \<in> set rest" "sw_text w = fst t" "sw_split w = fr_split (the (rows i))"
    | (right) "w \<in> set rest" "sw_text v = fst t" "sw_split v = fr_split (the (rows i))"
    | (neither) "sw_split v = fr_split (the (rows i))" "sw_split w = fr_split (the (rows i))"
    using Cons.prems(2,3) unfolding ws by fastforce
  then show ?case
    by cases (use Cons.IH [OF rest] first Cons.prems(4) in simp_all)
qed simp

lemma semantic_rows_cong:
  "(\<And>i. i \<in> set ids \<Longrightarrow> xs_changed_files (the (snapshots i)) = xs_changed_files (the (snapshots' i))) \<Longrightarrow>
    semantic_rows rows snapshots a seen ids = semantic_rows rows snapshots' a seen ids"
proof (induction ids arbitrary: seen)
  case (Cons i ids)
  have later: "semantic_rows rows snapshots a s ids = semantic_rows rows snapshots' a s ids" for s
    by (rule Cons.IH) (use Cons.prems in simp)
  have "xs_changed_files (the (snapshots i)) = xs_changed_files (the (snapshots' i))" using Cons.prems by simp
  then show ?case
    by (cases "semantic_text (xs_changed_files (the (snapshots' i)))") (simp_all add: Let_def later)
qed simp

subsection \<open>The text\<close>

lemma bounded_utf8_bound: "length (utf8 (fst (bounded_utf8 s))) \<le> MAX_SEMANTIC_TEXT_BYTES"
proof (cases "length (utf8 s) \<le> MAX_SEMANTIC_TEXT_BYTES")
  case False
  then show ?thesis using length_fitting [of s MAX_SEMANTIC_TEXT_BYTES]
    by (simp add: bounded_utf8_def decode_longest_fitting)
qed (simp add: bounded_utf8_def)

lemma semantic_text_bound: "semantic_text fs = Inr t \<Longrightarrow> length (utf8 (fst t)) \<le> MAX_SEMANTIC_TEXT_BYTES"
  using bounded_utf8_bound by (auto simp: semantic_text_def split: if_splits)

subsection \<open>Keys\<close>

lemma by_key_Some:
  assumes "i \<in> set (map f xs)"
  shows "\<exists>x \<in> set xs. by_key f xs i = Some x \<and> f x = i"
proof -
  have "i \<in> fst ` set (rev (map (\<lambda>x. (f x, x)) xs))" using assms by force
  then obtain x where x: "by_key f xs i = Some x"
    unfolding by_key_def by (metis map_of_eq_None_iff not_None_eq)
  then have "(i, x) \<in> set (rev (map (\<lambda>x. (f x, x)) xs))" unfolding by_key_def by (rule map_of_SomeD)
  then show ?thesis using x by auto
qed

lemma by_key_map:
  assumes "\<And>x. f (h x) = f x"
  shows "by_key f (map h xs) i = map_option h (by_key f xs i)"
proof -
  have "rev (map (\<lambda>x. (f x, x)) (map h xs)) = map (\<lambda>(k, v). (k, h v)) (rev (map (\<lambda>x. (f x, x)) xs))"
    by (simp add: rev_map assms)
  then show ?thesis by (simp add: by_key_def map_of_map)
qed

subsection \<open>The dataset\<close>

text \<open>The same source with every outcome replaced.\<close>

definition with_outcomes :: "(extracted_snapshot \<Rightarrow> outcome_observation option) \<Rightarrow> extracted_source \<Rightarrow> extracted_source" where
  "with_outcomes g x = x\<lparr>xr_records := map (\<lambda>s. s\<lparr>xs_outcome := g s\<rparr>) (xr_records x)\<rparr>"

lemma with_outcomes_records:
  "xs_snapshot_id ` set (xr_records (with_outcomes g x)) = xs_snapshot_id ` set (xr_records x)"
  "xr_admission (with_outcomes g x) = xr_admission x"
  by (simp_all add: with_outcomes_def image_image)

lemma with_outcomes_guard:
  "semantic_lineage_guard isoformat b (with_outcomes g x) a = semantic_lineage_guard isoformat b x a"
  by (simp add: semantic_lineage_guard_def with_outcomes_records)

lemma with_outcomes_files:
  assumes "i \<in> xs_snapshot_id ` set (xr_records x)"
  shows "xs_changed_files (the (by_key xs_snapshot_id (xr_records (with_outcomes g x)) i)) =
    xs_changed_files (the (by_key xs_snapshot_id (xr_records x) i))"
proof -
  obtain s where s: "by_key xs_snapshot_id (xr_records x) i = Some s"
    using by_key_Some [of i xs_snapshot_id "xr_records x"] assms by auto
  have "by_key xs_snapshot_id (xr_records (with_outcomes g x)) i = Some (s\<lparr>xs_outcome := g s\<rparr>)"
    using s by (simp add: with_outcomes_def by_key_map)
  then show ?thesis using s by simp
qed

lemma semantic_dataset_reads_no_outcome:
  "build_semantic_dataset isoformat b (with_outcomes g x) a = build_semantic_dataset isoformat b x a"
proof (cases "semantic_lineage_guard isoformat b x a")
  case None
  then have ids: "xs_snapshot_id ` set (xr_records x) = set (map fr_snapshot_id (db_rows b))"
    by (simp add: semantic_lineage_guard_def Let_def)
  have "semantic_rows (by_key fr_snapshot_id (db_rows b)) (by_key xs_snapshot_id (xr_records (with_outcomes g x))) a []
      (sorted_set (map fr_snapshot_id (db_rows b))) =
    semantic_rows (by_key fr_snapshot_id (db_rows b)) (by_key xs_snapshot_id (xr_records x)) a []
      (sorted_set (map fr_snapshot_id (db_rows b)))"
    by (intro semantic_rows_cong with_outcomes_files) (simp add: ids)
  then show ?thesis by (simp add: build_semantic_dataset_def with_outcomes_guard)
qed (simp add: build_semantic_dataset_def with_outcomes_guard sem_check_def)

lemma build_semantic_rows:
  assumes "build_semantic_dataset isoformat b x a = Inr d"
  shows "semantic_rows (by_key fr_snapshot_id (db_rows b)) (by_key xs_snapshot_id (xr_records x)) a []
      (sorted_set (map fr_snapshot_id (db_rows b))) = Inr (sd_rows d)"
  using assms by (auto simp: build_semantic_dataset_def and_then_Inr Let_def)

lemma build_semantic_row:
  assumes "build_semantic_dataset isoformat b x a = Inr d" "w \<in> set (sd_rows d)"
  shows "length (utf8 (sw_text w)) \<le> MAX_SEMANTIC_TEXT_BYTES \<and> sw_text_bytes w = length (utf8 (sw_text w)) \<and>
    (\<exists>r \<in> set (db_rows b). fr_snapshot_id r = sw_snapshot_id w \<and> fr_split r = sw_split w \<and>
      fr_repository_numeric_id r = sw_repository_numeric_id w) \<and>
    sw_label_vector w = label_vector (sn_categories a) (the (map_of (sn_annotations a) (sw_snapshot_id w)))"
proof -
  obtain i t where i: "i \<in> set (sorted_set (map fr_snapshot_id (db_rows b)))"
    and t: "semantic_text (xs_changed_files (the (by_key xs_snapshot_id (xr_records x) i))) = Inr t"
    and w: "w = semantic_row_of (the (by_key fr_snapshot_id (db_rows b) i)) t (sn_categories a)
      (the (map_of (sn_annotations a) i))"
    using semantic_rows_member [OF build_semantic_rows [OF assms(1)] assms(2)] by blast
  obtain r where r: "r \<in> set (db_rows b)" "by_key fr_snapshot_id (db_rows b) i = Some r" "fr_snapshot_id r = i"
    using by_key_Some [of i fr_snapshot_id "db_rows b"] i by auto
  show ?thesis using semantic_text_bound [OF t] r w by auto
qed

text \<open>
  C23: A semantic dataset has exactly one row for each row of its source, in the order of their ids. Every row
  keeps the split and the repository of its source row, its text has at most 4096 bytes, its label vector marks
  the annotated categories, and two rows of one text are in one split. The build reads no outcome: it gives the
  same result, or the same error, whatever the outcomes of the extracted records are.
\<close>

theorem semantic_rows_are_bounded_and_outcome_blind:
  "(build_semantic_dataset isoformat b x a = Inr d \<longrightarrow>
      map sw_snapshot_id (sd_rows d) = sorted_set (map fr_snapshot_id (db_rows b)) \<and>
      (\<forall>w \<in> set (sd_rows d). length (utf8 (sw_text w)) \<le> MAX_SEMANTIC_TEXT_BYTES \<and>
        sw_text_bytes w = length (utf8 (sw_text w)) \<and>
        (\<exists>r \<in> set (db_rows b). fr_snapshot_id r = sw_snapshot_id w \<and> fr_split r = sw_split w \<and>
          fr_repository_numeric_id r = sw_repository_numeric_id w) \<and>
        sw_label_vector w = label_vector (sn_categories a) (the (map_of (sn_annotations a) (sw_snapshot_id w)))) \<and>
      (\<forall>v \<in> set (sd_rows d). \<forall>w \<in> set (sd_rows d). sw_text v = sw_text w \<longrightarrow> sw_split v = sw_split w)) \<and>
    build_semantic_dataset isoformat b (with_outcomes g x) a = build_semantic_dataset isoformat b x a"
proof (intro conjI impI)
  assume d: "build_semantic_dataset isoformat b x a = Inr d"
  have "fr_snapshot_id (the (by_key fr_snapshot_id (db_rows b) i)) = i"
    if "i \<in> set (sorted_set (map fr_snapshot_id (db_rows b)))" for i
    using by_key_Some [of i fr_snapshot_id "db_rows b"] that by auto
  then show "map sw_snapshot_id (sd_rows d) = sorted_set (map fr_snapshot_id (db_rows b))"
    by (rule semantic_rows_ids [OF build_semantic_rows [OF d]])
  show "\<forall>v \<in> set (sd_rows d). \<forall>w \<in> set (sd_rows d). sw_text v = sw_text w \<longrightarrow> sw_split v = sw_split w"
    using semantic_rows_splits [OF build_semantic_rows [OF d]] by blast
qed (use build_semantic_row semantic_dataset_reads_no_outcome in \<open>blast+\<close>)

subsection \<open>Witness\<close>

definition sample_changed_file :: raw_changed_file where
  "sample_changed_file = \<lparr>rf_path = ''a.py'', rf_additions = 1, rf_deletions = 0, rf_status = ''added'',
     rf_previous_path = None, rf_patch = None\<rparr>"

definition sample_source :: extracted_source where
  "sample_source = \<lparr>xr_admission = sample_admission, xr_payload_hash = [],
     xr_records = [sample_snapshot\<lparr>xs_changed_files := [sample_changed_file]\<rparr>]\<rparr>"

definition sample_build :: dataset_build where
  "sample_build = \<lparr>db_manifest = \<lparr>dm_dataset_version = ''v1'', dm_extraction_code_commit = [],
     dm_extraction_version = [], dm_source_admissions = [sample_admission],
     dm_source_payload_hashes = [(''s'', [])], dm_label_rule_version = [], dm_feature_schema_version = [],
     dm_feature_extractor_version = [], dm_split_rule_version = [], dm_split_policy = [], dm_split_assignments = [],
     dm_split_hash = [], dm_exclusions = [], dm_counts = [],
     dm_leakage_report = \<lparr>lr_schema_version = [], lr_passed_checks = [], lr_violations = [], lr_report_hash = []\<rparr>,
     dm_synthetic = True, dm_usage_notes = [], dm_license_notes = [], dm_known_label_weaknesses = [],
     dm_lineage = [], dm_manifest_hash = [], dm_schema_version = []\<rparr>,
     db_rows = [sample_row ''a'' 0 TRAIN]\<rparr>"

definition sample_annotations :: semantic_annotations where
  "sample_annotations = \<lparr>sn_dataset_version = ''s1'', sn_source_dataset_version = ''v1'',
     sn_source_manifest_sha256 = [], sn_source_split_sha256 = [],
     sn_source_admission_sha256 = admission_hash (\<lambda>_. ''t'') sample_admission, sn_annotation_rule_version = ''r1'',
     sn_annotator = ''n'', sn_annotated_at = Aware 0 0, sn_outcome_blind = True,
     sn_allowed_input_fields = ALLOWED_INPUTS, sn_blinded_fields = REQUIRED_BLINDED,
     sn_categories = [''docs'', ''tests''], sn_annotations = [(''a'', [''docs''])], sn_license = ''MIT'',
     sn_source_content_license = ''MIT'', sn_usage = ''u'', sn_annotation_sha256 = []\<rparr>"

lemma semantic_rows_single:
  "xs_changed_files (the (snapshots i)) \<noteq> [] \<Longrightarrow> \<exists>ws. semantic_rows rows snapshots a [] [i] = Inr ws"
  by (simp add: semantic_text_def Let_def)

theorem semantic_rows_are_bounded_and_outcome_blind_witness:
  "\<exists>d. build_semantic_dataset (\<lambda>_. ''t'') sample_build (with_outcomes (\<lambda>_. None) sample_source) sample_annotations = Inr d \<and>
     map sw_snapshot_id (sd_rows d) = [''a'']"
proof -
  have "semantic_lineage_guard (\<lambda>_. ''t'') sample_build sample_source sample_annotations = None"
    by (simp add: semantic_lineage_guard_def sample_build_def sample_source_def sample_annotations_def
        sample_snapshot_def sample_row_def Let_def)
      (simp add: sample_admission_def)
  moreover have ids: "sorted_set (map fr_snapshot_id (db_rows sample_build)) = [''a'']"
    by (simp add: sample_build_def sample_row_def sorted_set_def)
  moreover have "xs_changed_files (the (by_key xs_snapshot_id (xr_records sample_source) ''a'')) \<noteq> []"
    by (simp add: sample_source_def by_key_def sample_snapshot_def)
  ultimately have "\<exists>d. build_semantic_dataset (\<lambda>_. ''t'') sample_build sample_source sample_annotations = Inr d"
    using semantic_rows_single [of "by_key xs_snapshot_id (xr_records sample_source)" "''a''"
        "by_key fr_snapshot_id (db_rows sample_build)" sample_annotations]
    by (auto simp: build_semantic_dataset_def sem_check_def Let_def)
  with ids show ?thesis
    using semantic_rows_are_bounded_and_outcome_blind [of "\<lambda>_. ''t''" sample_build sample_source sample_annotations
        _ "\<lambda>_. None"] by auto
qed

end
