(* ===== verification/Signing.thy ===== *)
theory Signing
  imports Sha256
begin

section \<open>packages/execution_contracts/signing.py: message authentication\<close>

text \<open>
  \<open>hmac.new(key, message, hashlib.sha256).hexdigest()\<close> over the SHA-256 of theory \<open>Sha256\<close>, and the two
  functions with which the control plane and the runner sign and check a payload. A byte is a character.
\<close>

unbundle bit_operations_syntax

definition sha256_digest :: "string \<Rightarrow> string" where
  "sha256_digest s = map (\<lambda>i. char_of (nat i)) (concat (map (\<lambda>w. big_endian 4 (uint w)) (hash_words (sha256_state s))))"

text \<open>A key longer than the block of 64 bytes is hashed, and every key is padded with zeros to 64 bytes.\<close>

definition hmac_key :: "string \<Rightarrow> string" where
  "hmac_key key = (let k = if length key > 64 then sha256_digest key else key in k @ replicate (64 - length k) (CHR 0x00))"

definition xor_pad :: "nat \<Rightarrow> string \<Rightarrow> string" where
  "xor_pad pad key = map (\<lambda>c. char_of (code c XOR pad)) key"

definition hmac_sha256_hex :: "string \<Rightarrow> string \<Rightarrow> string" where
  "hmac_sha256_hex key message =
     sha256_hex (xor_pad 0x5C (hmac_key key) @ sha256_digest (xor_pad 0x36 (hmac_key key) @ message))"

definition valid_key :: "string \<Rightarrow> exn option" where
  "valid_key key = raise_if (length key < 32) (ValueError ''execution signing keys must contain at least 32 bytes'')"

definition sign_payload :: "string \<Rightarrow> string \<Rightarrow> string result" where
  "sign_payload payload key = (case valid_key key of Some e \<Rightarrow> Inl e | None \<Rightarrow> Inr (hmac_sha256_hex key payload))"

text \<open>\<open>compare_digest\<close> is equality; its constant time is not observed.\<close>

definition verify_payload_signature :: "string \<Rightarrow> string \<Rightarrow> string \<Rightarrow> bool result" where
  "verify_payload_signature payload signature key = (case valid_key key of
      Some e \<Rightarrow> Inl e
    | None \<Rightarrow> if length signature \<noteq> 64 \<or> \<not> is_hex signature then Inr False
        else and_then (sign_payload payload key) (\<lambda>expected. Inr (expected = signature)))"

lemma hmac_sha256_shape: "length (hmac_sha256_hex key message) = 64" "is_hex (hmac_sha256_hex key message)"
  by (simp_all add: hmac_sha256_hex_def sha256_hex_length sha256_hex_is_hex)

text \<open>A signature is accepted exactly when it is the one that signing gives.\<close>

lemma signature_accepted_iff:
  "verify_payload_signature payload signature key = Inr True \<longleftrightarrow> sign_payload payload key = Inr signature"
  using hmac_sha256_shape [of key payload]
  by (cases "length key < 32") (auto simp: verify_payload_signature_def sign_payload_def valid_key_def)

end
