(* ===== verification/WebhookVerify.thy ===== *)
theory WebhookVerify
  imports Jobs Json ChangeDiffs Signing
begin

section \<open>apps/web/changes/webhooks.py: verification of a delivery\<close>

text \<open>
  What is checked before anything is stored: size, signature, headers, JSON, its shape, and the fields that
  name the event and the installation. A \<open>webhook_error\<close> is one of the six exceptions of the module, an
  exception of the application below it, or the database's refusal of a value that does not fit its column.
  \<open>decode\<close> is the decoding of the body by \<open>json.loads\<close> (the encoding that \<open>json.detect_encoding\<close> finds).
  An integer literal of more than 4300 digits, and nesting beyond the recursion limit of the JSON scanner, are
  decode errors here; CPython raises a \<open>ValueError\<close> and a \<open>RecursionError\<close> of its own.
\<close>

datatype webhook_error =
    WebhookError string
  | WebhookSignatureError string
  | WebhookPayloadTooLargeError string
  | WebhookUnsupportedError string
  | WebhookTenantNotFoundError string
  | WebhookConflictError string
  | DataError string
  | ProviderError string
  | Web web_error

fun webhook_status_code :: "webhook_error \<Rightarrow> int option" where
  "webhook_status_code (WebhookError _) = Some 400"
| "webhook_status_code (WebhookSignatureError _) = Some 401"
| "webhook_status_code (WebhookPayloadTooLargeError _) = Some 413"
| "webhook_status_code (WebhookUnsupportedError _) = Some 400"
| "webhook_status_code (WebhookTenantNotFoundError _) = Some 404"
| "webhook_status_code (WebhookConflictError _) = Some 409"
| "webhook_status_code _ = None"

definition MAX_WEBHOOK_BYTES :: nat where "MAX_WEBHOOK_BYTES = 1048576"

definition MAX_JSON_DEPTH :: nat where "MAX_JSON_DEPTH = 20"

definition MAX_JSON_NODES :: nat where "MAX_JSON_NODES = 10000"

subsection \<open>The shape of the JSON\<close>

text \<open>\<open>_validate_json_shape\<close> with its two loops; the count of nodes is checked after each child.\<close>

function json_shape :: "nat \<Rightarrow> pyval \<Rightarrow> webhook_error + nat"
and shape_members :: "nat \<Rightarrow> (string \<times> pyval) list \<Rightarrow> nat \<Rightarrow> webhook_error + nat"
and shape_elements :: "nat \<Rightarrow> pyval list \<Rightarrow> nat \<Rightarrow> webhook_error + nat" where
  "json_shape depth value =
     (if depth > MAX_JSON_DEPTH then Inl (WebhookError ''JSON nesting exceeds the webhook limit'')
      else (case value of
        PyDict d \<Rightarrow> shape_members depth d 1
      | PyList xs \<Rightarrow> shape_elements depth xs 1
      | _ \<Rightarrow> Inr 1))"
| "shape_members depth [] nodes = Inr nodes"
| "shape_members depth ((key, v) # d) nodes =
     (if length key > 256 then Inl (WebhookError ''JSON object key is invalid'')
      else (case json_shape (depth + 1) v of
        Inl e \<Rightarrow> Inl e
      | Inr n \<Rightarrow> if nodes + n > MAX_JSON_NODES
          then Inl (WebhookError ''JSON node count exceeds the webhook limit'')
          else shape_members depth d (nodes + n)))"
| "shape_elements depth [] nodes = Inr nodes"
| "shape_elements depth (v # xs) nodes =
     (case json_shape (depth + 1) v of
        Inl e \<Rightarrow> Inl e
      | Inr n \<Rightarrow> if nodes + n > MAX_JSON_NODES
          then Inl (WebhookError ''JSON node count exceeds the webhook limit'')
          else shape_elements depth xs (nodes + n))"
  by pat_completeness auto
termination
  by (relation "measure (\<lambda>p. case p of Inl (d, v) \<Rightarrow> 2 * size v
      | Inr (Inl (d, m, n)) \<Rightarrow> 2 * size_list (size_prod (\<lambda>_. 0) size) m + 1
      | Inr (Inr (d, xs, n)) \<Rightarrow> 2 * size_list size xs + 1)")
    (auto simp: size_list_conv_sum_list)

declare json_shape.simps [simp del]

subsection \<open>verify_webhook\<close>

record verified_webhook =
  vw_delivery_id :: string
  vw_event_name :: string
  vw_action :: string
  vw_installation_id :: int
  vw_payload :: pydict
  vw_payload_sha256 :: string
  vw_payload_size :: nat

definition allowed_actions :: "string \<Rightarrow> string list" where
  "allowed_actions event_name =
     (if event_name = ''pull_request'' then [''opened'', ''synchronize'', ''reopened'']
      else if event_name = ''installation'' then [''created'', ''deleted'', ''suspend'', ''unsuspend'']
      else if event_name = ''installation_repositories'' then [''added'', ''removed'']
      else [])"

definition webhook_mapping :: "pyval \<Rightarrow> string \<Rightarrow> webhook_error + pydict" where
  "webhook_mapping value field = (case value of
      PyDict d \<Rightarrow> Inr d
    | _ \<Rightarrow> Inl (WebhookError (field @ '' must be an object'')))"

definition positive_int :: "pyval \<Rightarrow> string \<Rightarrow> webhook_error + int" where
  "positive_int value field = (let bad = Inl (WebhookError (field @ '' must be a positive integer'')) in
     case value of PyInt i \<Rightarrow> if i < 1 then bad else Inr i | _ \<Rightarrow> bad)"

text \<open>\<open>payload.get(key)\<close>.\<close>

definition dict_get :: "pydict \<Rightarrow> string \<Rightarrow> pyval" where
  "dict_get d key = (case map_of d key of None \<Rightarrow> PyNone | Some v \<Rightarrow> v)"

definition is_delivery_id :: "string \<Rightarrow> bool" where
  "is_delivery_id s = (s \<noteq> [] \<and> length s \<le> 100 \<and> list_all (\<lambda>c. letter_or_digit c \<or> c = CHR ''-'') s)"

definition is_event_name :: "string \<Rightarrow> bool" where
  "is_event_name s = (s \<noteq> [] \<and> length s \<le> 64 \<and>
     list_all (\<lambda>c. 97 \<le> code c \<and> code c \<le> 122 \<or> c = CHR ''_'') s)"

text \<open>\<open>^sha256=([0-9a-f]{64})$\<close>: the digits, when the header matches.\<close>

definition signature_digest :: "string \<Rightarrow> string option" where
  "signature_digest header = (let digits = drop 7 header in
     if startswith header ''sha256='' \<and> length digits = 64 \<and> is_hex digits then Some digits else None)"

text \<open>\<open>json.loads\<close> without hooks: the last of two equal keys wins, and NaN and the infinities are floats.\<close>

definition plain_loads :: "(string \<Rightarrow> string) \<Rightarrow> (string \<Rightarrow> string option) \<Rightarrow> string \<Rightarrow> webhook_error + pyval" where
  "plain_loads float_repr decode body =
     (let invalid = Inl (WebhookError ''webhook body must be valid UTF-8 JSON'') in
      case decode body of
        None \<Rightarrow> invalid
      | Some raw \<Rightarrow> (case json_loads float_repr (\<lambda>pairs. Inr (PyDict (dict_of pairs))) (\<lambda>c. Inr (PyFloat c)) raw of
          Inl e \<Rightarrow> invalid
        | Inr v \<Rightarrow> Inr v))"

definition webhook_action :: "pydict \<Rightarrow> string \<Rightarrow> webhook_error + string" where
  "webhook_action payload event_name =
     (let bad = Inl (WebhookUnsupportedError ''event/action is not allowlisted'') in
      case dict_get payload ''action'' of
        PyStr a \<Rightarrow> if a \<in> set (allowed_actions event_name) then Inr a else bad
      | _ \<Rightarrow> bad)"

definition check_signature :: "string \<Rightarrow> string \<Rightarrow> string \<Rightarrow> webhook_error + unit" where
  "check_signature body signature_header secret =
     (if length secret < 16 then Inl (WebhookSignatureError ''webhook verification is unavailable'')
      else (case signature_digest signature_header of
        None \<Rightarrow> Inl (WebhookSignatureError ''signature header is invalid'')
      | Some digits \<Rightarrow> if hmac_sha256_hex (utf8 secret) body \<noteq> digits
          then Inl (WebhookSignatureError ''signature does not match'') else Inr ()))"

definition verify_webhook ::
  "(string \<Rightarrow> string) \<Rightarrow> (string \<Rightarrow> string option) \<Rightarrow> string \<Rightarrow> string \<Rightarrow> string \<Rightarrow> string \<Rightarrow> string \<Rightarrow>
   webhook_error + verified_webhook" where
  "verify_webhook float_repr decode body signature_header delivery_id event_name secret =
     (if length body > MAX_WEBHOOK_BYTES
      then Inl (WebhookPayloadTooLargeError ''webhook body exceeds the configured limit'')
      else and_then (check_signature body signature_header secret) (\<lambda>_.
      if \<not> is_delivery_id delivery_id then Inl (WebhookError ''delivery header is invalid'')
      else if \<not> is_event_name event_name then Inl (WebhookError ''event header is invalid'')
      else and_then (plain_loads float_repr decode body) (\<lambda>decoded.
      and_then (json_shape 0 decoded) (\<lambda>_.
      and_then (webhook_mapping decoded ''payload'') (\<lambda>payload.
      and_then (webhook_action payload event_name) (\<lambda>action.
      and_then (webhook_mapping (dict_get payload ''installation'') ''installation'') (\<lambda>installation.
      and_then (positive_int (dict_get installation ''id'') ''installation.id'') (\<lambda>installation_id.
      Inr \<lparr>vw_delivery_id = delivery_id, vw_event_name = event_name, vw_action = action,
        vw_installation_id = installation_id, vw_payload = payload, vw_payload_sha256 = sha256_hex body,
        vw_payload_size = length body\<rparr>))))))))"

end
