(* ===== verification/Webhooks.thy ===== *)
theory Webhooks
  imports WebhookVerify
begin

section \<open>apps/web/changes: ingestion of a verified delivery\<close>

text \<open>
  The tables of installations, repositories, receipts and snapshots, and the three handlers, each with the
  transaction that stores a delivery together with its job, outbox event and audit row. The primary key of a
  row is its position. \<open>fresh\<close> holds what a call draws: UUIDs and the time. The provider is a parameter that
  returns a snapshot or fails.
\<close>

datatype installation_lifecycle = INSTALLATION_ACTIVE | INSTALLATION_SUSPENDED | INSTALLATION_REVOKED

datatype repository_lifecycle = REPOSITORY_ACTIVE | REPOSITORY_DISABLED | REPOSITORY_REMOVED

record github_installation =
  gi_organization :: int
  gi_github_installation_id :: int
  gi_public_id :: string
  gi_lifecycle :: installation_lifecycle
  gi_revoked_at :: "int option"

record repository_row =
  rp_organization :: int
  rp_installation :: nat
  rp_github_repository_id :: int
  rp_public_id :: string
  rp_owner :: string
  rp_name :: string
  rp_default_branch :: string
  rp_lifecycle :: repository_lifecycle

record webhook_receipt =
  wr_public_id :: string
  wr_organization :: int
  wr_installation :: nat
  wr_delivery_id :: string
  wr_event_name :: string
  wr_action :: string
  wr_payload_sha256 :: string
  wr_payload_size :: nat
  wr_correlation_id :: string

record stored_snapshot =
  ss_public_id :: string
  ss_organization :: int
  ss_repository :: nat
  ss_first_receipt :: nat
  ss_content :: pull_request_snapshot
  ss_checksum :: string

record web_db = job_db +
  db_installations :: "github_installation list"
  db_repositories :: "repository_row list"
  db_receipts :: "webhook_receipt list"
  db_snapshots :: "stored_snapshot list"

record fresh_values =
  fv_now :: int
  fv_receipt_id :: string
  fv_correlation_id :: string
  fv_snapshot_id :: string
  fv_job_id :: string
  fv_repository_id :: "nat \<Rightarrow> string"

record ingestion_result =
  ir_status :: string
  ir_delivery_id :: string
  ir_receipt_id :: string
  ir_job_id :: "string option"
  ir_snapshot_id :: "string option"

definition web :: "web_error + 'a \<Rightarrow> webhook_error + 'a" where
  "web r = (case r of Inl e \<Rightarrow> Inl (Web e) | Inr x \<Rightarrow> Inr x)"

definition rp_full_name :: "repository_row \<Rightarrow> string" where
  "rp_full_name r = rp_owner r @ ''/'' @ rp_name r"

subsection \<open>apps/web/repositories/services.py\<close>

definition BIG_INTEGER_MAX :: int where "BIG_INTEGER_MAX = 9223372036854775807"

definition repository_is_active :: "'a web_db_scheme \<Rightarrow> repository_row \<Rightarrow> bool" where
  "repository_is_active db r = (rp_lifecycle r = REPOSITORY_ACTIVE \<and> rp_installation r < length (db_installations db) \<and>
     gi_lifecycle (db_installations db ! rp_installation r) = INSTALLATION_ACTIVE)"

definition get_repository ::
  "(string \<Rightarrow> string option) \<Rightarrow> int \<Rightarrow> string \<Rightarrow> 'a web_db_scheme \<Rightarrow> web_error + repository_row" where
  "get_repository parse_uuid organization public_id db = (let missing = Http404 ''repository not found'' in
     case parse_uuid public_id of
       None \<Rightarrow> Inl missing
     | Some normalized \<Rightarrow> get_one missing (filter (\<lambda>r. repository_is_active db r \<and> rp_organization r = organization \<and>
         rp_public_id r = normalized) (db_repositories db)))"

definition get_repository_binding ::
  "(string \<Rightarrow> string option) \<Rightarrow> int \<Rightarrow> string \<Rightarrow> 'a web_db_scheme \<Rightarrow> web_error + repository_row" where
  "get_repository_binding parse_uuid organization public_id db = (let missing = Http404 ''repository not found'' in
     case parse_uuid public_id of
       None \<Rightarrow> Inl missing
     | Some normalized \<Rightarrow> get_one missing (filter (\<lambda>r. rp_organization r = organization \<and>
         rp_lifecycle r \<noteq> REPOSITORY_REMOVED \<and> rp_installation r < length (db_installations db) \<and>
         gi_lifecycle (db_installations db ! rp_installation r) = INSTALLATION_ACTIVE \<and>
         rp_public_id r = normalized) (db_repositories db)))"

text \<open>\<open>github_installation_id\<close> is unique, so the first match is the only one.\<close>

definition get_installation_by_github_id :: "int \<Rightarrow> 'a web_db_scheme \<Rightarrow> web_error + nat" where
  "get_installation_by_github_id i db =
     (if i < 1 then Inl (Http404 ''installation not found'')
      else (case index_of (\<lambda>g. gi_github_installation_id g = i) (db_installations db) of
        None \<Rightarrow> Inl (Http404 ''installation not found'')
      | Some k \<Rightarrow> Inr k))"

text \<open>
  The write of \<open>update_or_create\<close>: column bounds, then the unique constraints on the provider's id and on
  the name within the organization (a removed repository keeps its name), and \<open>full_clean\<close> afterwards.
\<close>

text \<open>\<open>RegexValidator\<close> searches, so its final dollar sign also matches before one line end.\<close>

definition name_validator :: "string \<Rightarrow> bool" where
  "name_validator s = is_name_part (if s \<noteq> [] \<and> last s = CHR 0x0A then butlast s else s)"

definition store_repository :: "nat \<Rightarrow> repository_row \<Rightarrow> 'a web_db_scheme \<Rightarrow> webhook_error + 'a web_db_scheme" where
  "store_repository i r db =
     (let others = take i (db_repositories db) @ drop (i + 1) (db_repositories db) in
      if rp_github_repository_id r > BIG_INTEGER_MAX \<or> length (rp_owner r) > 100 \<or> length (rp_name r) > 100 \<or>
         length (rp_default_branch r) > 255 \<or> has_nul (rp_owner r @ rp_name r @ rp_default_branch r)
      then Inl (DataError ''value out of range for its column'')
      else if list_ex (\<lambda>o'. rp_github_repository_id o' = rp_github_repository_id r \<or> rp_public_id o' = rp_public_id r \<or>
          rp_organization o' = rp_organization r \<and> rp_owner o' = rp_owner r \<and> rp_name o' = rp_name r) others
      then Inl (Web (IntegrityError ''repositories_repository''))
      else if \<not> name_validator (rp_owner r) \<or> \<not> name_validator (rp_name r) \<or> rp_default_branch r = []
      then Inl (Web (ValidationError ''repository''))
      else Inr (db\<lparr>db_repositories := (if i < length (db_repositories db) then (db_repositories db)[i := r]
        else db_repositories db @ [r])\<rparr>))"

definition bind_repository ::
  "int \<Rightarrow> nat \<Rightarrow> int \<Rightarrow> string \<Rightarrow> string \<Rightarrow> string \<Rightarrow> string \<Rightarrow> 'a web_db_scheme \<Rightarrow>
   webhook_error + 'a web_db_scheme \<times> nat \<times> bool" where
  "bind_repository organization installation github_repository_id owner name default_branch public_id db =
     (if gi_organization (db_installations db ! installation) \<noteq> organization
      then Inl (Web (ValidationError ''installation does not belong to organization''))
      else let r = \<lparr>rp_organization = organization, rp_installation = installation,
          rp_github_repository_id = github_repository_id, rp_public_id = public_id, rp_owner = owner, rp_name = name,
          rp_default_branch = default_branch, rp_lifecycle = REPOSITORY_ACTIVE\<rparr> in
        (case index_of (\<lambda>o'. rp_github_repository_id o' = github_repository_id) (db_repositories db) of
           None \<Rightarrow> and_then (store_repository (length (db_repositories db)) r db)
             (\<lambda>db'. Inr (db', length (db_repositories db), True))
         | Some i \<Rightarrow> if rp_organization (db_repositories db ! i) \<noteq> organization
             then Inl (Web (ValidationError ''GitHub repository is already bound to another organization''))
             else and_then (store_repository i (r\<lparr>rp_public_id := rp_public_id (db_repositories db ! i)\<rparr>) db)
               (\<lambda>db'. Inr (db', i, False))))"

subsection \<open>Receipts\<close>

text \<open>The job lookup is by correlation id; the snapshot is the one that the receipt created.\<close>

definition existing_result ::
  "verified_webhook \<Rightarrow> 'a web_db_scheme \<Rightarrow> webhook_error + ingestion_result option" where
  "existing_result w db =
     (case index_of (\<lambda>r. wr_delivery_id r = vw_delivery_id w) (db_receipts db) of
        None \<Rightarrow> Inr None
      | Some k \<Rightarrow> (let r = db_receipts db ! k in
          if wr_payload_sha256 r \<noteq> vw_payload_sha256 w
          then Inl (WebhookConflictError ''delivery ID was reused with a different payload'')
          else Inr (Some \<lparr>ir_status = ''deduplicated'', ir_delivery_id = wr_delivery_id r,
            ir_receipt_id = wr_public_id r,
            ir_job_id = map_option aj_public_id (List.find (\<lambda>j. aj_organization j = wr_organization r \<and>
              aj_correlation_id j = wr_correlation_id r) (db_jobs db)),
            ir_snapshot_id = map_option ss_public_id (List.find (\<lambda>s. ss_organization s = wr_organization r \<and>
              ss_first_receipt s = k) (db_snapshots db))\<rparr>)))"

definition new_receipt :: "verified_webhook \<Rightarrow> int \<Rightarrow> nat \<Rightarrow> fresh_values \<Rightarrow> webhook_receipt" where
  "new_receipt w organization installation fresh =
     \<lparr>wr_public_id = fv_receipt_id fresh, wr_organization = organization, wr_installation = installation,
       wr_delivery_id = vw_delivery_id w, wr_event_name = vw_event_name w, wr_action = vw_action w,
       wr_payload_sha256 = vw_payload_sha256 w, wr_payload_size = vw_payload_size w,
       wr_correlation_id = fv_correlation_id fresh\<rparr>"

text \<open>\<open>full_clean\<close>: the validators of the fields and the two unique ones.\<close>

definition receipt_clean :: "webhook_receipt \<Rightarrow> webhook_receipt list \<Rightarrow> web_error option" where
  "receipt_clean r rs = raise_if
     (\<not> is_delivery_id (wr_delivery_id r) \<or> \<not> is_event_name (wr_event_name r) \<or> wr_action r = [] \<or>
      length (wr_action r) > 64 \<or> \<not> is_sha256_text (wr_payload_sha256 r) \<or> wr_payload_size r > 2147483647 \<or>
      list_ex (\<lambda>o'. wr_delivery_id o' = wr_delivery_id r \<or> wr_public_id o' = wr_public_id r) rs)
     (ValidationError ''webhook receipt'')"

definition store_receipt ::
  "verified_webhook \<Rightarrow> int \<Rightarrow> nat \<Rightarrow> fresh_values \<Rightarrow> 'a web_db_scheme \<Rightarrow> webhook_error + 'a web_db_scheme \<times> nat" where
  "store_receipt w organization installation fresh db =
     (let r = new_receipt w organization installation fresh in
      case receipt_clean r (db_receipts db) of
        Some e \<Rightarrow> Inl (Web e)
      | None \<Rightarrow> Inr (db\<lparr>db_receipts := db_receipts db @ [r]\<rparr>, length (db_receipts db)))"

subsection \<open>pull_request\<close>

definition file_json :: "provider_file \<Rightarrow> pyval" where
  "file_json f = PyDict [(''path'', PyStr (pf_path f)), (''additions'', PyInt (pf_additions f)),
     (''deletions'', PyInt (pf_deletions f)), (''status'', PyStr (pf_status f)),
     (''previous_path'', opt_str (pf_previous_path f)), (''patch'', opt_str (pf_patch f))]"

definition check_json :: "check_run \<Rightarrow> pyval" where
  "check_json c = PyDict [(''name'', PyStr (cr_name c)), (''status'', PyStr (cr_status c)),
     (''conclusion'', opt_str (cr_conclusion c))]"

definition SNAPSHOT_SCHEMA_VERSION :: string where "SNAPSHOT_SCHEMA_VERSION = ''github-pr-snapshot-v2''"

definition snapshot_checksum :: "pull_request_snapshot \<Rightarrow> string" where
  "snapshot_checksum s = sha256_hex (utf8 (dumps (PyDict [
     (''base_ref'', PyStr (ps_base_ref s)), (''base_sha'', PyStr (ps_base_sha s)),
     (''author_key'', opt_str (ps_author_key s)), (''body'', PyStr (ps_body s)),
     (''changed_files'', PyList (map file_json (ps_changed_files s))),
     (''checks'', PyList (map check_json (ps_checks s))), (''commit_count'', opt_int (ps_commit_count s)),
     (''head_ref'', PyStr (ps_head_ref s)), (''head_sha'', PyStr (ps_head_sha s)), (''number'', PyInt (ps_number s)),
     (''repository'', PyStr (ps_repository s)), (''repository_id'', opt_int (ps_repository_id s)),
     (''schema_version'', PyStr SNAPSHOT_SCHEMA_VERSION), (''title'', PyStr (ps_title s))])))"

definition same_change :: "nat \<Rightarrow> pull_request_snapshot \<Rightarrow> stored_snapshot \<Rightarrow> bool" where
  "same_change repository p s = (ss_repository s = repository \<and> ps_number (ss_content s) = ps_number p \<and>
     ps_base_sha (ss_content s) = ps_base_sha p \<and> ps_head_sha (ss_content s) = ps_head_sha p)"

text \<open>
  \<open>full_clean\<close> of a snapshot: the validators, the bound of the integer columns, and the unique fields. The
  schema version is constant, so it does not tell two snapshots apart. That the database refuses a NUL character
  in a text or JSON column, after the validation, is not modelled.
\<close>

definition snapshot_fields_clean :: "pull_request_snapshot \<Rightarrow> bool" where
  "snapshot_fields_clean p = (0 \<le> ps_number p \<and> ps_number p \<le> 2147483647 \<and> ps_title p \<noteq> [] \<and> length (ps_title p) \<le> 256 \<and>
     ps_base_ref p \<noteq> [] \<and> length (ps_base_ref p) \<le> 255 \<and> ps_head_ref p \<noteq> [] \<and> length (ps_head_ref p) \<le> 255 \<and>
     is_sha (ps_base_sha p) \<and> is_sha (ps_head_sha p) \<and>
     (case ps_author_key p of None \<Rightarrow> True | Some k \<Rightarrow> k = [] \<or> is_author_key k) \<and>
     (case ps_commit_count p of None \<Rightarrow> True | Some n \<Rightarrow> 0 \<le> n \<and> n \<le> 2147483647) \<and>
     length (ps_changed_files p) \<le> 1000 \<and> list_all (\<lambda>f. provider_file_post_init f = None) (ps_changed_files p) \<and>
     length (ps_checks p) \<le> 250 \<and> list_all (\<lambda>c. check_run_post_init c = None) (ps_checks p))"

definition snapshot_clean :: "stored_snapshot \<Rightarrow> stored_snapshot list \<Rightarrow> web_error option" where
  "snapshot_clean s ss = raise_if
     (\<not> snapshot_fields_clean (ss_content s) \<or> \<not> is_sha256_text (ss_checksum s) \<or>
      list_ex (\<lambda>o'. ss_public_id o' = ss_public_id s \<or> ss_checksum o' = ss_checksum s \<or>
        same_change (ss_repository s) (ss_content s) o') ss)
     (ValidationError ''pull request snapshot'')"

definition get_or_store_snapshot ::
  "int \<Rightarrow> nat \<Rightarrow> nat \<Rightarrow> pull_request_snapshot \<Rightarrow> string \<Rightarrow> 'a web_db_scheme \<Rightarrow>
   webhook_error + 'a web_db_scheme \<times> stored_snapshot" where
  "get_or_store_snapshot organization repository receipt p public_id db =
     (let checksum = snapshot_checksum p in
      case List.find (\<lambda>s. ss_organization s = organization \<and> same_change repository p s) (db_snapshots db) of
        Some s \<Rightarrow> if ss_checksum s \<noteq> checksum
          then Inl (WebhookConflictError ''immutable snapshot identity has conflicting content'') else Inr (db, s)
      | None \<Rightarrow> (let s = \<lparr>ss_public_id = public_id, ss_organization = organization, ss_repository = repository,
            ss_first_receipt = receipt, ss_content = p, ss_checksum = checksum\<rparr> in
          case snapshot_clean s (db_snapshots db) of
            Some e \<Rightarrow> Inl (Web e)
          | None \<Rightarrow> Inr (db\<lparr>db_snapshots := db_snapshots db @ [s]\<rparr>, s)))"

text \<open>The row of the foreign key that the caller holds.\<close>

definition find_organization :: "int \<Rightarrow> 'a web_db_scheme \<Rightarrow> webhook_error + organization_row" where
  "find_organization organization db = web (lock_organization organization db)"

definition webhook_audit :: "int \<Rightarrow> string \<Rightarrow> string \<Rightarrow> string \<Rightarrow> string \<Rightarrow> pydict \<Rightarrow> audit_log" where
  "webhook_audit organization action resource_type public_id correlation_id metadata =
     \<lparr>al_organization = organization, al_actor = None, al_action = action, al_resource_type = resource_type,
       al_resource_public_id = public_id, al_correlation_id = correlation_id, al_metadata = metadata\<rparr>"

text \<open>What every handler does at the end of its transaction: the job with its event, and the audit row.\<close>

definition accept_delivery ::
  "int \<Rightarrow> nat \<Rightarrow> job_type \<Rightarrow> string \<Rightarrow> string option \<Rightarrow> (string \<Rightarrow> audit_log) \<Rightarrow> fresh_values \<Rightarrow> 'a web_db_scheme \<Rightarrow>
   webhook_error + 'a web_db_scheme \<times> ingestion_result" where
  "accept_delivery organization receipt job_type idempotency_key snapshot audit fresh db =
     and_then (find_organization organization db) (\<lambda>g.
     let r = db_receipts db ! receipt in
     and_then (web (create_job_with_outbox g job_type idempotency_key (wr_correlation_id r) snapshot (fv_job_id fresh)
       (fv_now fresh) db)) (\<lambda>(db1, i, created).
     and_then (web (record_audit (audit (wr_correlation_id r)) db1)) (\<lambda>db2.
     Inr (db2, \<lparr>ir_status = ''accepted'', ir_delivery_id = wr_delivery_id r, ir_receipt_id = wr_public_id r,
       ir_job_id = Some (aj_public_id (db_jobs db1 ! i)), ir_snapshot_id = snapshot\<rparr>))))"

definition pull_request_transaction ::
  "verified_webhook \<Rightarrow> int \<Rightarrow> nat \<Rightarrow> nat \<Rightarrow> pull_request_snapshot \<Rightarrow> fresh_values \<Rightarrow> 'a web_db_scheme \<Rightarrow>
   webhook_error + 'a web_db_scheme \<times> ingestion_result" where
  "pull_request_transaction w organization installation repository p fresh db =
     and_then (existing_result w db) (\<lambda>duplicate. case duplicate of
       Some result \<Rightarrow> Inr (db, result)
     | None \<Rightarrow>
       and_then (store_receipt w organization installation fresh db) (\<lambda>(db1, k).
       and_then (get_or_store_snapshot organization repository k p (fv_snapshot_id fresh) db1) (\<lambda>(db2, s).
       accept_delivery organization k PULL_REQUEST_SNAPSHOT (''snapshot:'' @ ss_checksum s) (Some (ss_public_id s))
         (\<lambda>cid. webhook_audit organization ''github.pull_request.accepted'' ''pull_request_snapshot'' (ss_public_id s) cid
           [(''event'', PyStr (vw_event_name w)), (''action'', PyStr (vw_action w))]) fresh db2)))"

text \<open>The fields that the payload must have: repository id, full name and pull request number.\<close>

definition pull_request_fields :: "pydict \<Rightarrow> webhook_error + int \<times> string \<times> int" where
  "pull_request_fields payload =
     and_then (webhook_mapping (dict_get payload ''repository'') ''repository'') (\<lambda>repository.
     and_then (positive_int (dict_get repository ''id'') ''repository.id'') (\<lambda>repository_id.
     and_then (case dict_get repository ''full_name'' of
         PyStr n \<Rightarrow> if length n > 201 then Inl (WebhookError ''repository.full_name is invalid'') else Inr n
       | _ \<Rightarrow> Inl (WebhookError ''repository.full_name is invalid'')) (\<lambda>full_name.
     and_then (webhook_mapping (dict_get payload ''pull_request'') ''pull_request'') (\<lambda>pull_request.
     and_then (positive_int (dict_get pull_request ''number'') ''pull_request.number'') (\<lambda>number.
     Inr (repository_id, full_name, number))))))"

definition bound_repository :: "int \<Rightarrow> nat \<Rightarrow> int \<Rightarrow> 'a web_db_scheme \<Rightarrow> webhook_error + nat" where
  "bound_repository organization installation repository_id db =
     (case index_of (\<lambda>r. repository_is_active db r \<and> rp_organization r = organization \<and>
         rp_installation r = installation \<and> rp_github_repository_id r = repository_id) (db_repositories db) of
        None \<Rightarrow> Inl (WebhookTenantNotFoundError ''repository binding not found'')
      | Some i \<Rightarrow> Inr i)"

definition provider_identity :: "pull_request_snapshot \<Rightarrow> repository_row \<Rightarrow> int \<Rightarrow> webhook_error + unit" where
  "provider_identity p r number =
     (if ps_repository p \<noteq> rp_full_name r \<or> ps_number p \<noteq> number
      then Inl (WebhookConflictError ''provider snapshot identity does not match the webhook'')
      else if ps_repository_id p \<notin> {None, Some (rp_github_repository_id r)}
      then Inl (WebhookConflictError ''provider repository ID does not match the server binding'')
      else Inr ())"

type_synonym github_provider = "string \<Rightarrow> int \<Rightarrow> int \<Rightarrow> webhook_error + pull_request_snapshot"

text \<open>What is decided before the transaction: the repository and the provider's snapshot.\<close>

definition prepare_pull_request ::
  "verified_webhook \<Rightarrow> nat \<Rightarrow> github_installation \<Rightarrow> github_provider \<Rightarrow> 'a web_db_scheme \<Rightarrow>
   webhook_error + nat \<times> pull_request_snapshot" where
  "prepare_pull_request w k g provider db =
     and_then (pull_request_fields (vw_payload w)) (\<lambda>(repository_id, full_name, number).
     and_then (bound_repository (gi_organization g) k repository_id db) (\<lambda>i.
     let r = db_repositories db ! i in
     if rp_full_name r \<noteq> full_name
     then Inl (WebhookConflictError ''repository identity does not match its server binding'')
     else and_then (provider (rp_full_name r) number (gi_github_installation_id g)) (\<lambda>p.
       and_then (provider_identity p r number) (\<lambda>_. Inr (i, p)))))"

definition ingest_pull_request ::
  "verified_webhook \<Rightarrow> nat \<Rightarrow> github_installation \<Rightarrow> github_provider \<Rightarrow> fresh_values \<Rightarrow> 'a web_db_scheme \<Rightarrow>
   'a web_db_scheme \<times> (webhook_error + ingestion_result)" where
  "ingest_pull_request w k g provider fresh db =
     (case prepare_pull_request w k g provider db of
        Inl e \<Rightarrow> (db, Inl e)
      | Inr (i, p) \<Rightarrow> atomic (pull_request_transaction w (gi_organization g) k i p fresh) db)"

subsection \<open>installation\<close>

text \<open>The row is saved from the copy \<open>g\<close> that the caller read before the transaction.\<close>

definition moved_installation :: "string \<Rightarrow> int \<Rightarrow> github_installation \<Rightarrow> github_installation" where
  "moved_installation action now g =
     (if action \<in> {''created'', ''unsuspend''} then g\<lparr>gi_lifecycle := INSTALLATION_ACTIVE, gi_revoked_at := None\<rparr>
      else if action = ''suspend'' then g\<lparr>gi_lifecycle := INSTALLATION_SUSPENDED\<rparr>
      else g\<lparr>gi_lifecycle := INSTALLATION_REVOKED, gi_revoked_at := Some now\<rparr>)"

definition save_installation :: "nat \<Rightarrow> github_installation \<Rightarrow> 'a web_db_scheme \<Rightarrow> 'a web_db_scheme" where
  "save_installation k g db = db\<lparr>db_installations := (db_installations db)[k := (db_installations db ! k)
     \<lparr>gi_lifecycle := gi_lifecycle g, gi_revoked_at := gi_revoked_at g\<rparr>]\<rparr>"

definition installation_transaction ::
  "verified_webhook \<Rightarrow> nat \<Rightarrow> github_installation \<Rightarrow> fresh_values \<Rightarrow> 'a web_db_scheme \<Rightarrow>
   webhook_error + 'a web_db_scheme \<times> ingestion_result" where
  "installation_transaction w k g fresh db =
     and_then (existing_result w db) (\<lambda>duplicate. case duplicate of
       Some result \<Rightarrow> Inr (db, result)
     | None \<Rightarrow>
       and_then (store_receipt w (gi_organization g) k fresh db) (\<lambda>(db1, r).
       accept_delivery (gi_organization g) r INSTALLATION_LIFECYCLE (''delivery:'' @ vw_delivery_id w) None
         (\<lambda>cid. webhook_audit (gi_organization g) (''github.installation.'' @ vw_action w) ''github_installation''
           (gi_public_id g) cid []) fresh
         (save_installation k (moved_installation (vw_action w) (fv_now fresh) g) db1)))"

subsection \<open>installation_repositories\<close>

definition repository_items :: "pydict \<Rightarrow> string \<Rightarrow> webhook_error + pydict list" where
  "repository_items payload action =
     (let key = (if action = ''added'' then ''repositories_added'' else ''repositories_removed'');
        bad = Inl (WebhookError ''repository lifecycle list is invalid'') in
      case dict_get payload key of
        PyList xs \<Rightarrow> if length xs > 100 then bad else map_raise (\<lambda>x. webhook_mapping x key) xs
      | _ \<Rightarrow> bad)"

text \<open>\<open>count("/") == 1\<close> and \<open>split("/", maxsplit=1)\<close>.\<close>

definition owner_and_name :: "pydict \<Rightarrow> webhook_error + string \<times> string" where
  "owner_and_name item' = (let bad = Inl (WebhookError ''repository.full_name is invalid'') in
     case dict_get item' ''full_name'' of
       PyStr s \<Rightarrow> (case split_on CHR ''/'' s of [owner, name] \<Rightarrow> Inr (owner, name) | _ \<Rightarrow> bad)
     | _ \<Rightarrow> bad)"

definition default_branch_of :: "(pyval \<Rightarrow> string) \<Rightarrow> pydict \<Rightarrow> string" where
  "default_branch_of to_str item' = (let v = dict_get item' ''default_branch'' in
     if truthy v then (case v of PyStr s \<Rightarrow> s | _ \<Rightarrow> to_str v) else ''main'')"

text \<open>A \<open>ValidationError\<close> of \<open>bind_repository\<close> is a conflict; other exceptions pass.\<close>

definition binding_conflict :: "webhook_error + 'a \<Rightarrow> webhook_error + 'a" where
  "binding_conflict r = (case r of
      Inl (Web (ValidationError _)) \<Rightarrow>
        Inl (WebhookConflictError ''repository binding conflicts with authoritative tenant state'')
    | _ \<Rightarrow> r)"

definition remove_repository :: "int \<Rightarrow> nat \<Rightarrow> int \<Rightarrow> 'a web_db_scheme \<Rightarrow> 'a web_db_scheme" where
  "remove_repository organization installation repository_id db = db\<lparr>db_repositories := map (\<lambda>r.
     if rp_organization r = organization \<and> rp_installation r = installation \<and> rp_github_repository_id r = repository_id
     then r\<lparr>rp_lifecycle := REPOSITORY_REMOVED\<rparr> else r) (db_repositories db)\<rparr>"

definition change_repository ::
  "(pyval \<Rightarrow> string) \<Rightarrow> string \<Rightarrow> int \<Rightarrow> nat \<Rightarrow> string \<Rightarrow> pydict \<Rightarrow> 'a web_db_scheme \<Rightarrow> webhook_error + 'a web_db_scheme" where
  "change_repository to_str action organization installation public_id item' db =
     and_then (positive_int (dict_get item' ''id'') ''repository.id'') (\<lambda>repository_id.
     and_then (owner_and_name item') (\<lambda>(owner, name).
     if action = ''added''
     then and_then (binding_conflict (bind_repository organization installation repository_id owner name
       (default_branch_of to_str item') public_id db)) (\<lambda>(db', _). Inr db')
     else Inr (remove_repository organization installation repository_id db)))"

fun change_repositories ::
  "(pyval \<Rightarrow> string) \<Rightarrow> string \<Rightarrow> int \<Rightarrow> nat \<Rightarrow> (nat \<Rightarrow> string) \<Rightarrow> nat \<Rightarrow> pydict list \<Rightarrow> 'a web_db_scheme \<Rightarrow>
   webhook_error + 'a web_db_scheme" where
  "change_repositories to_str action organization installation ids n [] db = Inr db"
| "change_repositories to_str action organization installation ids n (x # xs) db =
     and_then (change_repository to_str action organization installation (ids n) x db)
       (change_repositories to_str action organization installation ids (n + 1) xs)"

definition repositories_transaction ::
  "(pyval \<Rightarrow> string) \<Rightarrow> verified_webhook \<Rightarrow> nat \<Rightarrow> github_installation \<Rightarrow> pydict list \<Rightarrow> fresh_values \<Rightarrow>
   'a web_db_scheme \<Rightarrow> webhook_error + 'a web_db_scheme \<times> ingestion_result" where
  "repositories_transaction to_str w k g items fresh db =
     and_then (existing_result w db) (\<lambda>duplicate. case duplicate of
       Some result \<Rightarrow> Inr (db, result)
     | None \<Rightarrow>
       and_then (store_receipt w (gi_organization g) k fresh db) (\<lambda>(db1, r).
       and_then (change_repositories to_str (vw_action w) (gi_organization g) k (fv_repository_id fresh) 0 items db1) (\<lambda>db2.
       accept_delivery (gi_organization g) r REPOSITORY_LIFECYCLE (''delivery:'' @ vw_delivery_id w) None
         (\<lambda>cid. webhook_audit (gi_organization g) (''github.repositories.'' @ vw_action w) ''github_installation''
           (gi_public_id g) cid [(''repository_count'', PyInt (int (length items)))]) fresh db2)))"

definition ingest_repositories ::
  "(pyval \<Rightarrow> string) \<Rightarrow> verified_webhook \<Rightarrow> nat \<Rightarrow> github_installation \<Rightarrow> fresh_values \<Rightarrow> 'a web_db_scheme \<Rightarrow>
   'a web_db_scheme \<times> (webhook_error + ingestion_result)" where
  "ingest_repositories to_str w k g fresh db =
     (case repository_items (vw_payload w) (vw_action w) of
        Inl e \<Rightarrow> (db, Inl e)
      | Inr items \<Rightarrow> atomic (repositories_transaction to_str w k g items fresh) db)"

subsection \<open>ingest_webhook\<close>

definition handle_webhook ::
  "(pyval \<Rightarrow> string) \<Rightarrow> verified_webhook \<Rightarrow> nat \<Rightarrow> github_installation \<Rightarrow> github_provider \<Rightarrow> fresh_values \<Rightarrow>
   'a web_db_scheme \<Rightarrow> 'a web_db_scheme \<times> (webhook_error + ingestion_result)" where
  "handle_webhook to_str w k g provider fresh db =
     (if vw_event_name w = ''pull_request''
      then if gi_lifecycle g \<noteq> INSTALLATION_ACTIVE
        then (db, Inl (WebhookTenantNotFoundError ''installation is not active''))
        else ingest_pull_request w k g provider fresh db
      else if vw_event_name w = ''installation'' then atomic (installation_transaction w k g fresh) db
      else ingest_repositories to_str w k g fresh db)"

fun integrity_error :: "webhook_error \<Rightarrow> bool" where
  "integrity_error (Web (IntegrityError _)) = True"
| "integrity_error _ = False"

text \<open>An \<open>IntegrityError\<close> means that a concurrent delivery may have won; its result is then returned.\<close>

definition settle_race ::
  "verified_webhook \<Rightarrow> 'a web_db_scheme \<times> (webhook_error + ingestion_result) \<Rightarrow>
   'a web_db_scheme \<times> (webhook_error + ingestion_result)" where
  "settle_race w out = (case out of
      (db, Inl e) \<Rightarrow> if integrity_error e
        then (db, and_then (existing_result w db) (\<lambda>duplicate. case duplicate of Some result \<Rightarrow> Inr result | None \<Rightarrow> Inl e))
        else (db, Inl e)
    | (db, Inr result) \<Rightarrow> (db, Inr result))"

definition webhook_quota :: "verified_webhook \<Rightarrow> int \<Rightarrow> string \<Rightarrow> quota_request" where
  "webhook_quota w organization correlation_id = \<lparr>qr_organization = organization, qr_kind = WEBHOOK_REQUESTS_PER_MINUTE,
     qr_quantity = 1, qr_idempotency_key = ''github:'' @ vw_delivery_id w, qr_actor = None,
     qr_correlation_id = correlation_id\<rparr>"

definition ingest_webhook ::
  "(pyval \<Rightarrow> string) \<Rightarrow> verified_webhook \<Rightarrow> github_provider \<Rightarrow> fresh_values \<Rightarrow> 'a web_db_scheme \<Rightarrow>
   'a web_db_scheme \<times> (webhook_error + ingestion_result)" where
  "ingest_webhook to_str w provider fresh db =
     (case existing_result w db of
        Inl e \<Rightarrow> (db, Inl e)
      | Inr (Some result) \<Rightarrow> (db, Inr result)
      | Inr None \<Rightarrow> (case get_installation_by_github_id (vw_installation_id w) db of
          Inl _ \<Rightarrow> (db, Inl (WebhookTenantNotFoundError ''installation binding not found''))
        | Inr k \<Rightarrow> (let g = db_installations db ! k in
            case atomic (reserve_quota (webhook_quota w (gi_organization g) (fv_correlation_id fresh)) (fv_now fresh)) db of
              (db1, Inl e) \<Rightarrow> (db1, Inl (Web e))
            | (db1, Inr _) \<Rightarrow> settle_race w (handle_webhook to_str w k g provider fresh db1))))"

end
