(* ===== verification/WebhookProofs.thy ===== *)
theory WebhookProofs
  imports Webhooks
begin

section \<open>Deliveries: verification, idempotence and tenancy\<close>

text \<open>
  What a verified delivery is known to be; that a delivery which was accepted is never processed again,
  however the transactions of the system interleave; and that everything a delivery stores belongs to the
  organization of its installation.
\<close>

subsection \<open>The shape of the JSON\<close>

primrec node_count :: "pyval \<Rightarrow> nat" where
  "node_count PyNone = 1"
| "node_count (PyBool b) = 1"
| "node_count (PyInt i) = 1"
| "node_count (PyFloat t) = 1"
| "node_count (PyStr s) = 1"
| "node_count (PyList xs) = 1 + sum_list (map node_count xs)"
| "node_count (PyDict d) = 1 + sum_list (map snd (map (map_prod id node_count) d))"

primrec nesting :: "pyval \<Rightarrow> nat" where
  "nesting PyNone = 0"
| "nesting (PyBool b) = 0"
| "nesting (PyInt i) = 0"
| "nesting (PyFloat t) = 0"
| "nesting (PyStr s) = 0"
| "nesting (PyList xs) = foldr max (map Suc (map nesting xs)) 0"
| "nesting (PyDict d) = foldr max (map Suc (map snd (map (map_prod id nesting) d))) 0"

primrec short_keys :: "pyval \<Rightarrow> bool" where
  "short_keys PyNone = True"
| "short_keys (PyBool b) = True"
| "short_keys (PyInt i) = True"
| "short_keys (PyFloat t) = True"
| "short_keys (PyStr s) = True"
| "short_keys (PyList xs) = list_all (\<lambda>b. b) (map short_keys xs)"
| "short_keys (PyDict d) = list_all (\<lambda>(k, b). length k \<le> 256 \<and> b) (map (map_prod id short_keys) d)"

definition fits :: "nat \<Rightarrow> pyval \<Rightarrow> bool" where
  "fits depth v = (depth + nesting v \<le> MAX_JSON_DEPTH \<and> short_keys v)"

lemma foldr_max_le: "foldr max xs (0::nat) \<le> b \<longleftrightarrow> (\<forall>x \<in> set xs. x \<le> b)"
  by (induction xs) auto

lemma nesting_le: "(depth::nat) + foldr max (map Suc ns) 0 \<le> b \<longleftrightarrow> depth \<le> b \<and> (\<forall>n \<in> set ns. depth + 1 + n \<le> b)"
proof -
  have "depth + foldr max (map Suc ns) 0 \<le> b \<longleftrightarrow> depth \<le> b \<and> foldr max (map Suc ns) 0 \<le> b - depth" by linarith
  also have "\<dots> \<longleftrightarrow> depth \<le> b \<and> (\<forall>n \<in> set ns. Suc n \<le> b - depth)" unfolding foldr_max_le by auto
  also have "\<dots> \<longleftrightarrow> depth \<le> b \<and> (\<forall>n \<in> set ns. depth + 1 + n \<le> b)" by fastforce
  finally show ?thesis .
qed

lemma fits_dict: "fits depth (PyDict d) \<longleftrightarrow>
    depth \<le> MAX_JSON_DEPTH \<and> (\<forall>(k, v) \<in> set d. length k \<le> 256 \<and> fits (depth + 1) v)"
  unfolding fits_def nesting.simps nesting_le by (auto simp: list_all_iff)

lemma fits_list: "fits depth (PyList xs) \<longleftrightarrow> depth \<le> MAX_JSON_DEPTH \<and> (\<forall>v \<in> set xs. fits (depth + 1) v)"
  unfolding fits_def nesting.simps nesting_le by (auto simp: list_all_iff)

lemma json_shape_containers:
  "json_shape depth (PyDict d) = (if depth > MAX_JSON_DEPTH
     then Inl (WebhookError ''JSON nesting exceeds the webhook limit'') else shape_members depth d 1)"
  "json_shape depth (PyList xs) = (if depth > MAX_JSON_DEPTH
     then Inl (WebhookError ''JSON nesting exceeds the webhook limit'') else shape_elements depth xs 1)"
  by (simp_all add: json_shape.simps)

lemma one_node: "1 \<le> MAX_JSON_NODES"
  by (simp add: MAX_JSON_NODES_def)

text \<open>One turn of either loop.\<close>

lemma shape_step:
  assumes "\<forall>m. s = Inr m \<longleftrightarrow> P \<and> c \<le> M \<and> m = (c::nat)"
  shows "(case s of Inl e \<Rightarrow> Inl e | Inr n \<Rightarrow> if k + n > M then Inl x else f (k + n)) = Inr r \<longleftrightarrow>
    P \<and> k + c \<le> M \<and> f (k + c) = Inr (r::nat)"
proof (cases s)
  case (Inl e)
  with assms have "\<not> (P \<and> c \<le> M)" by auto
  with Inl show ?thesis by auto
next
  case (Inr m)
  with assms have "P \<and> c \<le> M \<and> m = c" by auto
  with Inr show ?thesis by auto
qed

lemma shape_iffs:
  shows "\<forall>n. json_shape depth v = Inr n \<longleftrightarrow> fits depth v \<and> node_count v \<le> MAX_JSON_NODES \<and> n = node_count v"
    and "\<forall>n. shape_members depth d nodes = Inr n \<longleftrightarrow> (\<forall>(k, v) \<in> set d. length k \<le> 256 \<and> fits (depth + 1) v) \<and>
     n = nodes + sum_list (map (\<lambda>p. node_count (snd p)) d) \<and> (d \<noteq> [] \<longrightarrow> n \<le> MAX_JSON_NODES)"
    and "\<forall>n. shape_elements depth xs nodes = Inr n \<longleftrightarrow> (\<forall>v \<in> set xs. fits (depth + 1) v) \<and>
     n = nodes + sum_list (map node_count xs) \<and> (xs \<noteq> [] \<longrightarrow> n \<le> MAX_JSON_NODES)"
proof (induction depth v and depth d nodes and depth xs nodes rule: json_shape_shape_members_shape_elements.induct)
  case (1 depth u)
  show ?case
  proof (cases u)
    case (PyList xs)
    then show ?thesis using 1(1) [OF _ \<open>u = PyList xs\<close>] one_node by (cases "depth > MAX_JSON_DEPTH"; cases "xs = []")
      (auto simp: json_shape_containers fits_list)
  next
    case (PyDict d)
    then show ?thesis using 1(2) [OF _ \<open>u = PyDict d\<close>] one_node by (cases "depth > MAX_JSON_DEPTH"; cases "d = []")
      (auto simp: json_shape_containers fits_dict comp_def)
  qed (auto simp: json_shape.simps fits_def MAX_JSON_NODES_def)
next
  case (3 depth key v d nodes)
  show ?case
  proof (cases "length key > 256")
    case False
    note IH = 3(1) [OF False] and later = 3(2) [OF False]
    have step: "shape_members depth ((key, v) # d) nodes = Inr n \<longleftrightarrow> fits (depth + 1) v \<and>
        nodes + node_count v \<le> MAX_JSON_NODES \<and> shape_members depth d (nodes + node_count v) = Inr n" for n
      by (simp only: shape_members.simps if_not_P [OF False] shape_step [OF IH])
    show ?thesis
    proof (cases "fits (depth + 1) v \<and> nodes + node_count v \<le> MAX_JSON_NODES")
      case True
      then have "json_shape (depth + 1) v = Inr (node_count v)" using IH by simp
      from later [OF this] True False show ?thesis unfolding step by auto
    next
      case exceeds: False
      then show ?thesis unfolding step by auto
    qed
  qed auto
next
  case (5 depth v xs nodes)
  have step: "shape_elements depth (v # xs) nodes = Inr n \<longleftrightarrow> fits (depth + 1) v \<and>
      nodes + node_count v \<le> MAX_JSON_NODES \<and> shape_elements depth xs (nodes + node_count v) = Inr n" for n
    by (simp only: shape_elements.simps shape_step [OF 5(1)])
  show ?case
  proof (cases "fits (depth + 1) v \<and> nodes + node_count v \<le> MAX_JSON_NODES")
    case True
    then have "json_shape (depth + 1) v = Inr (node_count v)" using 5(1) by simp
    from 5(2) [OF this] True show ?thesis unfolding step by auto
  next
    case False
    then show ?thesis unfolding step by auto
  qed
qed auto

lemma json_shape_Inr:
  "json_shape 0 v = Inr n \<longleftrightarrow> nesting v \<le> MAX_JSON_DEPTH \<and> short_keys v \<and> node_count v \<le> MAX_JSON_NODES \<and> n = node_count v"
  using shape_iffs(1) [of 0 v] by (auto simp: fits_def)

subsection \<open>A verified delivery\<close>

lemma signature_digest_Some: "signature_digest header = Some d \<longleftrightarrow> header = ''sha256='' @ d \<and> length d = 64 \<and> is_hex d"
  by (auto simp: signature_digest_def Let_def startswith_iff)

lemma check_signature_Inr:
  "check_signature body header secret = Inr u \<longleftrightarrow>
    16 \<le> length secret \<and> header = ''sha256='' @ hmac_sha256_hex (utf8 secret) body"
proof (cases "signature_digest header")
  case None
  then have "header \<noteq> ''sha256='' @ hmac_sha256_hex (utf8 secret) body"
    using signature_digest_Some [of header] hmac_sha256_shape [of "utf8 secret" body] by auto
  with None show ?thesis by (simp add: check_signature_def)
next
  case (Some d)
  then have "header = ''sha256='' @ d" by (simp add: signature_digest_Some)
  with Some show ?thesis by (auto simp add: check_signature_def simp del: append_Cons)
qed

lemma webhook_reads [simp]:
  "webhook_mapping v f = Inr d \<longleftrightarrow> v = PyDict d"
  "positive_int v f = Inr i \<longleftrightarrow> v = PyInt i \<and> 1 \<le> i"
  "webhook_action payload event = Inr a \<longleftrightarrow> dict_get payload ''action'' = PyStr a \<and> a \<in> set (allowed_actions event)"
  by (auto simp: webhook_mapping_def positive_int_def webhook_action_def Let_def split: pyval.splits if_splits)

lemma plain_loads_Inr:
  "plain_loads fr decode body = Inr v \<longleftrightarrow> (\<exists>raw. decode body = Some raw \<and>
    json_loads fr (\<lambda>pairs. Inr (PyDict (dict_of pairs))) (\<lambda>c. Inr (PyFloat c)) raw = Inr v)"
  by (auto simp: plain_loads_def Let_def split: option.splits sum.splits)

text \<open>
  C38: Whatever \<open>verify_webhook\<close> accepts was signed: the header is the HMAC of exactly the received bytes under the
  shared secret of at least 16 characters. The body has at most 1 MiB; it decodes to an object of at most 10000
  nodes, 20 levels and 256 characters in a key; the event and action are on the list; the installation is a
  positive integer of the payload; and the recorded hash and size are those of the received bytes.
\<close>

theorem verified_webhooks_are_authentic_and_bounded:
  assumes "verify_webhook fr decode body header delivery event secret = Inr w"
  shows "header = ''sha256='' @ hmac_sha256_hex (utf8 secret) body \<and> 16 \<le> length secret \<and>
    length body \<le> 1048576 \<and> vw_payload_size w = length body \<and> vw_payload_sha256 w = sha256_hex body \<and>
    nesting (PyDict (vw_payload w)) \<le> 20 \<and> node_count (PyDict (vw_payload w)) \<le> 10000 \<and>
    short_keys (PyDict (vw_payload w)) \<and>
    vw_delivery_id w = delivery \<and> is_delivery_id delivery \<and> vw_event_name w = event \<and>
    vw_action w \<in> set (allowed_actions event) \<and> dict_get (vw_payload w) ''action'' = PyStr (vw_action w) \<and>
    1 \<le> vw_installation_id w \<and> (\<exists>installation. dict_get (vw_payload w) ''installation'' = PyDict installation \<and>
      dict_get installation ''id'' = PyInt (vw_installation_id w))"
proof -
  have size: "\<not> length body > MAX_WEBHOOK_BYTES" and signed: "check_signature body header secret = Inr ()"
    and ids: "is_delivery_id delivery" "is_event_name event"
    using assms by (auto simp: verify_webhook_def and_then_Inr split: if_splits)
  then obtain payload n installation where p: "json_shape 0 (PyDict payload) = Inr n"
    "dict_get payload ''action'' = PyStr (vw_action w)" "vw_action w \<in> set (allowed_actions event)"
    "dict_get payload ''installation'' = PyDict installation" "dict_get installation ''id'' = PyInt (vw_installation_id w)"
    "1 \<le> vw_installation_id w" "vw_payload w = payload" "vw_delivery_id w = delivery" "vw_event_name w = event"
    "vw_payload_sha256 w = sha256_hex body" "vw_payload_size w = length body"
    using assms by (fastforce simp: verify_webhook_def and_then_Inr)
  show ?thesis
    using size signed ids p(2-) p(1) [unfolded json_shape_Inr]
    by (simp add: check_signature_Inr MAX_WEBHOOK_BYTES_def MAX_JSON_DEPTH_def MAX_JSON_NODES_def
        del: nesting.simps node_count.simps short_keys.simps)
qed

definition sample_hook :: pydict where
  "sample_hook = [(''action'', PyStr ''deleted''), (''installation'', PyDict [(''id'', PyInt 7)])]"

definition sample_secret :: string where "sample_secret = ''0123456789abcdef''"

theorem verified_webhooks_are_authentic_and_bounded_witness:
  "\<exists>w. verify_webhook id Some (dumps (PyDict sample_hook))
       (''sha256='' @ hmac_sha256_hex (utf8 sample_secret) (dumps (PyDict sample_hook))) ''d-1'' ''installation''
       sample_secret = Inr w \<and> vw_installation_id w = 7 \<and> vw_payload_sha256 w = sha256_hex (dumps (PyDict sample_hook))"
proof -
  let ?body = "dumps (PyDict sample_hook)"
  have ordered: "ordered (PyDict sample_hook) = PyDict sample_hook" "plain (PyDict sample_hook)"
    by (simp_all add: sample_hook_def sorted_items_def decimal_digits.simps wf_dict_def keys_def)
  have "json_loads id (\<lambda>pairs. Inr (PyDict (dict_of pairs))) (\<lambda>c. Inr (PyFloat c)) ?body = Inr (PyDict sample_hook)"
    using json_loads_dumps [of "\<lambda>pairs. Inr (PyDict (dict_of pairs))" "PyDict sample_hook" id] ordered
    by (simp add: keeps_distinct_def)
  then have loads: "plain_loads id Some ?body = Inr (PyDict sample_hook)" by (simp add: plain_loads_Inr)
  have shape: "json_shape 0 (PyDict sample_hook) = Inr (node_count (PyDict sample_hook))"
    unfolding json_shape_Inr by (simp add: sample_hook_def MAX_JSON_DEPTH_def MAX_JSON_NODES_def)
  have "length ?body \<le> 100" by code_simp
  then have size: "\<not> length ?body > MAX_WEBHOOK_BYTES" by (simp add: MAX_WEBHOOK_BYTES_def)
  have signed: "check_signature ?body (''sha256='' @ hmac_sha256_hex (utf8 sample_secret) ?body) sample_secret = Inr ()"
    unfolding check_signature_Inr by (simp add: sample_secret_def)
  have reads: "webhook_mapping (PyDict sample_hook) ''payload'' = Inr sample_hook"
    "webhook_action sample_hook ''installation'' = Inr ''deleted''"
    "webhook_mapping (dict_get sample_hook ''installation'') ''installation'' = Inr [(''id'', PyInt 7)]"
    "positive_int (dict_get [(''id'', PyInt 7)] ''id'') ''installation.id'' = Inr 7"
    by (simp_all add: dict_get_def sample_hook_def allowed_actions_def)
  have "is_delivery_id ''d-1'' \<and> is_event_name ''installation''"
    by (simp add: is_delivery_id_def is_event_name_def letter_or_digit_def code_def)
  then have "\<exists>w. verify_webhook id Some ?body (''sha256='' @ hmac_sha256_hex (utf8 sample_secret) ?body) ''d-1''
      ''installation'' sample_secret = Inr w \<and> vw_installation_id w = 7"
    unfolding verify_webhook_def if_not_P [OF size] signed and_then_simps loads shape reads by simp
  then show ?thesis using verified_webhooks_are_authentic_and_bounded by blast
qed

end
