(* ===== verification/WebhookRuns.thy ===== *)
theory WebhookRuns
  imports WebhookProofs JobProofs
begin

section \<open>Deliveries among the other transactions\<close>

text \<open>
  \<open>webhook_step\<close> is one transaction of the whole system: a handler of a delivery, the registration of an
  installation by an operator, a relay or a worker of theory \<open>JobProofs\<close>, or a reservation. A handler works
  with a copy \<open>g\<close> of the installation's row that was read earlier, so only its immutable organization is known to agree.
\<close>

definition copy_of :: "nat \<Rightarrow> github_installation \<Rightarrow> 'a web_db_scheme \<Rightarrow> bool" where
  "copy_of k g db = (k < length (db_installations db) \<and> gi_organization g = gi_organization (db_installations db ! k))"

inductive webhook_step :: "'a web_db_scheme \<Rightarrow> 'a web_db_scheme \<Rightarrow> bool" where
  pull: "copy_of k g db \<Longrightarrow> webhook_step db (fst (ingest_pull_request w k g provider fresh db))"
| installation: "copy_of k g db \<Longrightarrow> webhook_step db (fst (atomic (installation_transaction w k g fresh) db))"
| repositories: "copy_of k g db \<Longrightarrow> webhook_step db (fst (ingest_repositories to_str w k g fresh db))"
| register: "gi_github_installation_id g \<notin> gi_github_installation_id ` set (db_installations db) \<Longrightarrow>
    webhook_step db (db\<lparr>db_installations := db_installations db @ [g]\<rparr>)"
| relay: "webhook_step db (fst (atomic (relay_event organization publish now i) db))"
| work: "webhook_step db (fst (atomic (process_ingestion_job analyze gid jid clock) db))"
| quota: "quota_step db db' \<Longrightarrow> webhook_step db db'"

definition webhook_later :: "'a web_db_scheme \<Rightarrow> 'a web_db_scheme \<Rightarrow> bool" where
  "webhook_later = webhook_step\<^sup>*\<^sup>*"

subsection \<open>What each operation leaves alone\<close>

lemma web_Inr [simp]: "web r = Inr x \<longleftrightarrow> r = Inr x"
  by (auto simp: web_def split: sum.splits)

lemma quota_more_web:
  fixes db db' :: "'a web_db_scheme"
  assumes "quota_db.more db' = quota_db.more db"
  shows "db_installations db' = db_installations db" "db_repositories db' = db_repositories db"
    "db_receipts db' = db_receipts db" "db_snapshots db' = db_snapshots db" "db_jobs db' = db_jobs db"
  using assms by (cases db; cases db'; simp)+

lemma job_more_web:
  fixes db db' :: "'a web_db_scheme"
  assumes "job_db.more db' = job_db.more db"
  shows "db_installations db' = db_installations db" "db_repositories db' = db_repositories db"
    "db_receipts db' = db_receipts db" "db_snapshots db' = db_snapshots db"
  using assms by (cases db; cases db'; simp)+

lemma quota_more_job: "quota_db.more db' = quota_db.more db \<Longrightarrow> job_db.more db' = job_db.more db"
  by (cases db; cases db') simp

lemma create_frame:
  assumes "create_job_with_outbox g job_type key cid snapshot pid now db = Inr (db', i, created)"
  shows "job_db.more db' = job_db.more db"
proof -
  obtain db1 res where "reserve_quota \<lparr>qr_organization = og_pk g, qr_kind = ANALYSIS_REQUESTS_PER_HOUR,
       qr_quantity = 1, qr_idempotency_key = key, qr_actor = None, qr_correlation_id = cid\<rparr> now db = Inr (db1, res)"
    and "job_db.more db' = job_db.more db1"
    using assms by (auto simp: create_job_with_outbox_def and_then_Inr Let_def split: if_splits)
  then show ?thesis using quota_more_job [OF reserve_quota_frame] by fastforce
qed

lemma record_audit_frame: "record_audit entry db = Inr db' \<Longrightarrow> quota_db.more db' = quota_db.more db"
  by (auto simp: record_audit_def split: option.splits)

lemma find_organization_pk: "find_organization organization db = Inr g \<Longrightarrow> og_pk g = organization"
  by (auto simp: find_organization_def lock_organization_def get_one_def filter_eq_Cons_iff split: list.splits)

lemma accept_cases:
  assumes "accept_delivery organization k job_type key snapshot audit fresh db = Inr (db', result)"
  obtains g db1 i created where "og_pk g = organization"
    "create_job_with_outbox g job_type key (wr_correlation_id (db_receipts db ! k)) snapshot (fv_job_id fresh)
       (fv_now fresh) db = Inr (db1, i, created)"
    "job_db.more db' = job_db.more db" "db_jobs db' = db_jobs db1"
    "result = \<lparr>ir_status = ''accepted'', ir_delivery_id = wr_delivery_id (db_receipts db ! k),
      ir_receipt_id = wr_public_id (db_receipts db ! k), ir_job_id = Some (aj_public_id (db_jobs db1 ! i)),
      ir_snapshot_id = snapshot\<rparr>"
    "db_outbox db' = db_outbox db1"
proof -
  obtain g db1 i created where g: "find_organization organization db = Inr g"
    and c: "create_job_with_outbox g job_type key (wr_correlation_id (db_receipts db ! k)) snapshot (fv_job_id fresh)
       (fv_now fresh) db = Inr (db1, i, created)"
    and a: "record_audit (audit (wr_correlation_id (db_receipts db ! k))) db1 = Inr db'"
    and r: "result = \<lparr>ir_status = ''accepted'', ir_delivery_id = wr_delivery_id (db_receipts db ! k),
      ir_receipt_id = wr_public_id (db_receipts db ! k), ir_job_id = Some (aj_public_id (db_jobs db1 ! i)),
      ir_snapshot_id = snapshot\<rparr>"
    using assms by (auto simp: accept_delivery_def and_then_Inr Let_def)
  have "job_db.more db' = job_db.more db"
    using create_frame [OF c] quota_more_job [OF record_audit_frame [OF a]] by simp
  then show thesis
    using that [OF find_organization_pk [OF g] c _ _ r] quota_more_web(5) [OF record_audit_frame [OF a]]
      same_more(2) [OF record_audit_frame [OF a]] by simp
qed

lemma store_receipt_cases:
  assumes "store_receipt w organization k fresh db = Inr (db', i)"
  shows "db' = db\<lparr>db_receipts := db_receipts db @ [new_receipt w organization k fresh]\<rparr>" "i = length (db_receipts db)"
    "receipt_clean (new_receipt w organization k fresh) (db_receipts db) = None"
  using assms by (auto simp: store_receipt_def Let_def split: option.splits)

lemma accept_web:
  assumes "accept_delivery organization k job_type key snapshot audit fresh db = Inr (db', result)"
  shows "db_installations db' = db_installations db" "db_repositories db' = db_repositories db"
    "db_receipts db' = db_receipts db" "db_snapshots db' = db_snapshots db"
proof -
  have "job_db.more db' = job_db.more db" using assms by (rule accept_cases)
  then show "db_installations db' = db_installations db" "db_repositories db' = db_repositories db"
    "db_receipts db' = db_receipts db" "db_snapshots db' = db_snapshots db" by (rule job_more_web)+
qed

lemma binding_conflict_Inr [simp]: "binding_conflict r = Inr x \<longleftrightarrow> r = Inr x"
  by (auto simp: binding_conflict_def split: sum.splits webhook_error.splits web_error.splits)

definition put_at :: "nat \<Rightarrow> 'b \<Rightarrow> 'b list \<Rightarrow> 'b list" where
  "put_at i x xs = (if i < length xs then xs[i := x] else xs @ [x])"

lemma store_repository_cases:
  assumes "store_repository i r db = Inr db'"
  shows "db' = db\<lparr>db_repositories := put_at i r (db_repositories db)\<rparr>"
    "\<forall>o' \<in> set (take i (db_repositories db) @ drop (i + 1) (db_repositories db)).
       rp_github_repository_id o' \<noteq> rp_github_repository_id r"
  using assms by (auto simp: store_repository_def put_at_def Let_def list_ex_iff split: if_splits)

lemma bind_cases:
  assumes "bind_repository organization k gid owner name branch pid db = Inr (db', i, created)"
  obtains r where "store_repository i r db = Inr db'" "rp_organization r = organization" "rp_installation r = k"
    "gi_organization (db_installations db ! k) = organization" "i \<le> length (db_repositories db)"
    "\<And>j. j < length (db_repositories db) \<Longrightarrow> j = i \<Longrightarrow> rp_github_repository_id (db_repositories db ! j) = rp_github_repository_id r \<and>
       rp_organization (db_repositories db ! j) = organization"
proof (cases "index_of (\<lambda>o'. rp_github_repository_id o' = gid) (db_repositories db)")
  case None
  then show thesis using assms by (auto simp: bind_repository_def and_then_Inr Let_def intro!: that split: if_splits)
next
  case (Some j)
  then show thesis using assms index_of_Some [OF Some]
    by (auto simp: bind_repository_def and_then_Inr Let_def intro!: that split: if_splits)
qed

lemma change_cases:
  assumes "change_repository to_str action organization k pid x db = Inr db'"
  obtains (removed) gid where "db' = remove_repository organization k gid db"
    | (bound) gid owner name branch i created where
      "bind_repository organization k gid owner name branch pid db = Inr (db', i, created)"
  using assms unfolding change_repository_def and_then_Inr
  by (cases "action = ''added''") (auto simp: and_then_Inr)

lemma change_frame:
  assumes "change_repository to_str action organization k pid x db = Inr db'"
  shows "\<exists>rs. db' = db\<lparr>db_repositories := rs\<rparr>"
  using assms
proof (cases rule: change_cases)
  case (removed gid)
  then show ?thesis unfolding remove_repository_def by blast
next
  case (bound gid owner name branch i created)
  then show ?thesis by (rule bind_cases) (blast dest: store_repository_cases(1))
qed

lemma changes_frame:
  "change_repositories to_str action organization k ids n xs db = Inr db' \<Longrightarrow> \<exists>rs. db' = db\<lparr>db_repositories := rs\<rparr>"
proof (induction xs arbitrary: n db)
  case Nil
  then show ?case by (intro exI [of _ "db_repositories db"]) simp
next
  case (Cons x xs)
  then obtain db1 where "change_repository to_str action organization k (ids n) x db = Inr db1"
    and later: "change_repositories to_str action organization k ids (n + 1) xs db1 = Inr db'"
    by (auto simp: and_then_Inr)
  then obtain rs where "db1 = db\<lparr>db_repositories := rs\<rparr>" using change_frame by blast
  moreover obtain rs' where "db' = db1\<lparr>db_repositories := rs'\<rparr>" using Cons.IH [OF later] by blast
  ultimately show ?case by (intro exI [of _ rs']) simp
qed

subsection \<open>What a handler stores\<close>

lemma existing_None:
  "existing_result w db = Inr None \<longleftrightarrow> vw_delivery_id w \<notin> wr_delivery_id ` set (db_receipts db)"
proof (cases "index_of (\<lambda>r. wr_delivery_id r = vw_delivery_id w) (db_receipts db)")
  case None
  then have "vw_delivery_id w \<notin> wr_delivery_id ` set (db_receipts db)" by (auto simp: index_of_None)
  with None show ?thesis by (simp add: existing_result_def)
next
  case (Some k)
  then have "vw_delivery_id w \<in> wr_delivery_id ` set (db_receipts db)"
    using index_of_Some [OF Some] by (metis image_eqI nth_mem)
  with Some show ?thesis by (simp add: existing_result_def Let_def)
qed

lemma store_receipt_web:
  assumes "store_receipt w organization k fresh db = Inr (db1, i)"
  shows "db_installations db1 = db_installations db" "db_repositories db1 = db_repositories db"
    "db_snapshots db1 = db_snapshots db" "db_jobs db1 = db_jobs db"
    "db_receipts db1 = db_receipts db @ [new_receipt w organization k fresh]"
  using store_receipt_cases(1) [OF assms] by simp_all

lemma snapshot_cases:
  assumes "get_or_store_snapshot organization i receipt p pid db = Inr (db', s)"
  obtains (known) "db' = db" "s \<in> set (db_snapshots db)" "ss_organization s = organization" "ss_checksum s = snapshot_checksum p"
  | (fresh) "db' = db\<lparr>db_snapshots := db_snapshots db @ [s]\<rparr>" "snapshot_clean s (db_snapshots db) = None"
      "s = \<lparr>ss_public_id = pid, ss_organization = organization, ss_repository = i, ss_first_receipt = receipt,
        ss_content = p, ss_checksum = snapshot_checksum p\<rparr>"
proof (cases "List.find (\<lambda>s. ss_organization s = organization \<and> same_change i p s) (db_snapshots db)")
  case None
  with assms show thesis by (intro fresh) (auto simp: get_or_store_snapshot_def Let_def split: option.splits)
next
  case (Some s')
  with assms show thesis
    by (intro known) (auto simp: get_or_store_snapshot_def Let_def find_Some_iff split: if_splits)
qed

lemma pull_cases:
  assumes "pull_request_transaction w organization k i p fresh db = Inr (db', result)"
  obtains (duplicate) "db' = db" "existing_result w db = Inr (Some result)"
  | (fresh) db1 db2 s where "existing_result w db = Inr None"
      "store_receipt w organization k fresh db = Inr (db1, length (db_receipts db))"
      "get_or_store_snapshot organization i (length (db_receipts db)) p (fv_snapshot_id fresh) db1 = Inr (db2, s)"
      "accept_delivery organization (length (db_receipts db)) PULL_REQUEST_SNAPSHOT (''snapshot:'' @ ss_checksum s)
         (Some (ss_public_id s)) (\<lambda>cid. webhook_audit organization ''github.pull_request.accepted''
           ''pull_request_snapshot'' (ss_public_id s) cid
           [(''event'', PyStr (vw_event_name w)), (''action'', PyStr (vw_action w))]) fresh db2 = Inr (db', result)"
proof -
  obtain d where d: "existing_result w db = Inr d" using assms by (auto simp: pull_request_transaction_def and_then_Inr)
  show thesis
  proof (cases d)
    case None
    with assms d obtain db1 k' db2 s where "store_receipt w organization k fresh db = Inr (db1, k')"
      "get_or_store_snapshot organization i k' p (fv_snapshot_id fresh) db1 = Inr (db2, s)"
      "accept_delivery organization k' PULL_REQUEST_SNAPSHOT (''snapshot:'' @ ss_checksum s)
         (Some (ss_public_id s)) (\<lambda>cid. webhook_audit organization ''github.pull_request.accepted''
           ''pull_request_snapshot'' (ss_public_id s) cid
           [(''event'', PyStr (vw_event_name w)), (''action'', PyStr (vw_action w))]) fresh db2 = Inr (db', result)"
      by (auto simp: pull_request_transaction_def and_then_Inr)
    with d None fresh store_receipt_cases(2) show thesis by blast
  next
    case (Some r)
    with assms d duplicate show thesis by (auto simp: pull_request_transaction_def)
  qed
qed

lemma installation_cases:
  assumes "installation_transaction w k g fresh db = Inr (db', result)"
  obtains (duplicate) "db' = db" "existing_result w db = Inr (Some result)"
  | (fresh) db1 audit where "existing_result w db = Inr None"
      "store_receipt w (gi_organization g) k fresh db = Inr (db1, length (db_receipts db))"
      "accept_delivery (gi_organization g) (length (db_receipts db)) INSTALLATION_LIFECYCLE (''delivery:'' @ vw_delivery_id w)
         None audit fresh (save_installation k (moved_installation (vw_action w) (fv_now fresh) g) db1) = Inr (db', result)"
proof -
  obtain d where d: "existing_result w db = Inr d" using assms by (auto simp: installation_transaction_def and_then_Inr)
  show thesis
  proof (cases d)
    case None
    with assms d obtain db1 k' where r: "store_receipt w (gi_organization g) k fresh db = Inr (db1, k')"
      and a: "accept_delivery (gi_organization g) k' INSTALLATION_LIFECYCLE (''delivery:'' @ vw_delivery_id w) None
         (\<lambda>cid. webhook_audit (gi_organization g) (''github.installation.'' @ vw_action w) ''github_installation''
           (gi_public_id g) cid []) fresh
         (save_installation k (moved_installation (vw_action w) (fv_now fresh) g) db1) = Inr (db', result)"
      by (auto simp: installation_transaction_def and_then_Inr simp del: append_Cons)
    from fresh [OF _ r [unfolded store_receipt_cases(2) [OF r]] a [unfolded store_receipt_cases(2) [OF r]]] d None
    show thesis by simp
  next
    case (Some r)
    with assms d duplicate show thesis by (auto simp: installation_transaction_def)
  qed
qed

lemma repositories_cases:
  assumes "repositories_transaction to_str w k g items fresh db = Inr (db', result)"
  obtains (duplicate) "db' = db" "existing_result w db = Inr (Some result)"
  | (fresh) db1 db2 audit where "existing_result w db = Inr None"
      "store_receipt w (gi_organization g) k fresh db = Inr (db1, length (db_receipts db))"
      "change_repositories to_str (vw_action w) (gi_organization g) k (fv_repository_id fresh) 0 items db1 = Inr db2"
      "accept_delivery (gi_organization g) (length (db_receipts db)) REPOSITORY_LIFECYCLE (''delivery:'' @ vw_delivery_id w)
         None audit fresh db2 = Inr (db', result)"
proof -
  obtain d where d: "existing_result w db = Inr d" using assms by (auto simp: repositories_transaction_def and_then_Inr)
  show thesis
  proof (cases d)
    case None
    with assms d obtain db1 k' db2 where r: "store_receipt w (gi_organization g) k fresh db = Inr (db1, k')"
      and c: "change_repositories to_str (vw_action w) (gi_organization g) k (fv_repository_id fresh) 0 items db1 = Inr db2"
      and a: "accept_delivery (gi_organization g) k' REPOSITORY_LIFECYCLE (''delivery:'' @ vw_delivery_id w) None
         (\<lambda>cid. webhook_audit (gi_organization g) (''github.repositories.'' @ vw_action w) ''github_installation''
           (gi_public_id g) cid [(''repository_count'', PyInt (int (length items)))]) fresh db2 = Inr (db', result)"
      by (auto simp: repositories_transaction_def and_then_Inr simp del: append_Cons)
    from fresh [OF _ r [unfolded store_receipt_cases(2) [OF r]] c a [unfolded store_receipt_cases(2) [OF r]]] d None
    show thesis by simp
  next
    case (Some r)
    with assms d duplicate show thesis by (auto simp: repositories_transaction_def)
  qed
qed

subsection \<open>Receipts are only appended\<close>

definition recorded :: "verified_webhook \<Rightarrow> int \<Rightarrow> nat \<Rightarrow> fresh_values \<Rightarrow> 'a web_db_scheme \<Rightarrow> 'a web_db_scheme \<Rightarrow>
    ingestion_result \<Rightarrow> bool" where
  "recorded w organization k fresh db db' result = (db_receipts db' = db_receipts db @ [new_receipt w organization k fresh] \<and>
     vw_delivery_id w \<notin> wr_delivery_id ` set (db_receipts db) \<and> ir_status result = ''accepted'' \<and>
     ir_delivery_id result = vw_delivery_id w \<and> ir_receipt_id result = fv_receipt_id fresh)"

lemma accept_recorded:
  assumes a: "accept_delivery organization (length (db_receipts db)) job_type key snapshot audit fresh db2 = Inr (db', result)"
    and r: "db_receipts db2 = db_receipts db @ [new_receipt w organization k fresh]"
    and n: "existing_result w db = Inr None"
  shows "recorded w organization k fresh db db' result"
proof -
  have "db_receipts db' = db_receipts db2" by (rule accept_web [OF a])
  moreover have "ir_status result = ''accepted'' \<and> ir_delivery_id result = wr_delivery_id (db_receipts db2 ! length (db_receipts db)) \<and>
      ir_receipt_id result = wr_public_id (db_receipts db2 ! length (db_receipts db))"
    using a by (rule accept_cases) simp
  ultimately show ?thesis using r n by (simp add: recorded_def existing_None) (simp add: new_receipt_def)
qed

lemma pull_recorded:
  assumes "pull_request_transaction w organization k i p fresh db = Inr (db', result)"
  shows "db' = db \<and> existing_result w db = Inr (Some result) \<or> recorded w organization k fresh db db' result"
  using assms
proof (cases rule: pull_cases)
  case (fresh db1 db2 s)
  have "db_receipts db2 = db_receipts db1" using fresh(3) by (cases rule: snapshot_cases) simp_all
  with fresh store_receipt_web(5) [OF fresh(2)] show ?thesis by (auto intro: accept_recorded)
qed simp

lemma installation_recorded:
  assumes "installation_transaction w k g fresh db = Inr (db', result)"
  shows "db' = db \<and> existing_result w db = Inr (Some result) \<or> recorded w (gi_organization g) k fresh db db' result"
  using assms
proof (cases rule: installation_cases)
  case (fresh db1 audit)
  from fresh store_receipt_web(5) [OF fresh(2)] show ?thesis by (auto intro: accept_recorded simp: save_installation_def)
qed simp

lemma repositories_recorded:
  assumes "repositories_transaction to_str w k g items fresh db = Inr (db', result)"
  shows "db' = db \<and> existing_result w db = Inr (Some result) \<or> recorded w (gi_organization g) k fresh db db' result"
  using assms
proof (cases rule: repositories_cases)
  case (fresh db1 db2 audit)
  have "db_receipts db2 = db_receipts db1" using changes_frame [OF fresh(3)] by auto
  with fresh store_receipt_web(5) [OF fresh(2)] show ?thesis by (auto intro: accept_recorded)
qed simp

definition receipts_kept :: "'a web_db_scheme \<Rightarrow> 'a web_db_scheme \<Rightarrow> bool" where
  "receipts_kept db db' = (\<exists>later. db_receipts db' = db_receipts db @ later)"

lemma receipts_kept_refl [simp]: "receipts_kept db db"
  by (simp add: receipts_kept_def)

lemma receipts_kept_trans: "receipts_kept db db' \<Longrightarrow> receipts_kept db' db'' \<Longrightarrow> receipts_kept db db''"
  by (auto simp: receipts_kept_def)

lemma recorded_kept: "recorded w organization k fresh db db' result \<Longrightarrow> receipts_kept db db'"
  by (simp add: recorded_def receipts_kept_def)

lemma atomic_kept:
  assumes "\<And>db' x. body db = Inr (db', x) \<Longrightarrow> receipts_kept db db'"
  shows "receipts_kept db (fst (atomic body db))"
  using assms by (cases "body db") (auto simp: atomic_def)

lemma step_receipts: "webhook_step db db' \<Longrightarrow> receipts_kept db db'"
proof (induction rule: webhook_step.induct)
  case (pull k g db w provider fresh)
  show ?case unfolding ingest_pull_request_def
    by (auto split: sum.splits intro!: atomic_kept dest!: pull_recorded dest: recorded_kept)
next
  case (installation k g db w fresh)
  show ?case by (auto intro!: atomic_kept dest!: installation_recorded dest: recorded_kept)
next
  case (repositories k g db to_str w fresh)
  show ?case unfolding ingest_repositories_def
    by (auto split: sum.splits intro!: atomic_kept dest!: repositories_recorded dest: recorded_kept)
next
  case (relay db organization publish now i)
  show ?case by (rule atomic_kept) (auto elim!: relay_cases simp: receipts_kept_def)
next
  case (work db analyze gid jid clock)
  show ?case by (rule atomic_kept) (auto elim!: process_cases simp: receipts_kept_def)
next
  case (quota db db')
  then have "db_receipts db' = db_receipts db" by (intro quota_more_web(3) quota_step_frame)
  then show ?case by (simp add: receipts_kept_def)
qed (simp add: receipts_kept_def)

lemma later_receipts: "webhook_later db db' \<Longrightarrow> receipts_kept db db'"
  unfolding webhook_later_def by (induction rule: rtranclp_induct) (auto dest: step_receipts intro: receipts_kept_trans)

subsection \<open>A delivery is processed once\<close>

lemma index_of_appended:
  "\<forall>x \<in> set xs. \<not> P x \<Longrightarrow> P y \<Longrightarrow> index_of P (xs @ y # zs) = Some (length xs)"
  by (induction xs) auto

lemma handled_recorded:
  assumes "handle_webhook to_str w k g provider fresh db = (db', Inr result)"
  shows "db' = db \<and> existing_result w db = Inr (Some result) \<or> recorded w (gi_organization g) k fresh db db' result"
proof -
  consider (pull) i p where "pull_request_transaction w (gi_organization g) k i p fresh db = Inr (db', result)"
    | (installation) "installation_transaction w k g fresh db = Inr (db', result)"
    | (repositories) items where "repositories_transaction to_str w k g items fresh db = Inr (db', result)"
    using assms by (auto simp: handle_webhook_def ingest_pull_request_def ingest_repositories_def atomic_Inr
        split: if_splits sum.splits prod.splits)
  then show ?thesis
    by cases (blast dest: pull_recorded installation_recorded repositories_recorded)+
qed

lemma duplicate_status: "existing_result w db = Inr (Some r) \<Longrightarrow> ir_status r = ''deduplicated''"
  by (auto simp: existing_result_def Let_def split: option.splits if_splits)

lemma settle_accepted:
  assumes "settle_race w (db, out) = (db', Inr result)" "ir_status result = ''accepted''"
  shows "db' = db \<and> out = Inr result"
proof (cases out)
  case (Inl e)
  with assms have "existing_result w db = Inr (Some result)"
    by (auto simp: settle_race_def and_then_Inr split: if_splits option.splits)
  with duplicate_status assms(2) have False by fastforce
  then show ?thesis ..
qed (use assms in \<open>simp add: settle_race_def\<close>)

lemma accepted_recorded:
  assumes "ingest_webhook to_str w provider fresh db = (db1, Inr result)" "ir_status result = ''accepted''"
  shows "\<exists>organization k db0. db_receipts db0 = db_receipts db \<and> recorded w organization k fresh db0 db1 result"
proof -
  have none: "existing_result w db = Inr None"
    using assms duplicate_status [of w db] by (auto simp: ingest_webhook_def split: sum.splits option.splits)
  obtain k where k: "get_installation_by_github_id (vw_installation_id w) db = Inr k"
    using assms(1) none by (auto simp: ingest_webhook_def split: sum.splits)
  let ?g = "db_installations db ! k"
  obtain db0 reserved where q: "atomic (reserve_quota (webhook_quota w (gi_organization ?g) (fv_correlation_id fresh))
      (fv_now fresh)) db = (db0, reserved)" by fastforce
  obtain x where x: "reserved = Inr x"
    and h: "settle_race w (handle_webhook to_str w k ?g provider fresh db0) = (db1, Inr result)"
    using assms(1) none k q by (cases reserved) (simp_all add: ingest_webhook_def Let_def)
  obtain db2 out where o': "handle_webhook to_str w k ?g provider fresh db0 = (db2, out)" by fastforce
  have "handle_webhook to_str w k ?g provider fresh db0 = (db1, Inr result)"
    using settle_accepted [OF h [unfolded o'] assms(2)] o' by simp
  from handled_recorded [OF this] duplicate_status [of w db0 result] assms(2)
  have "recorded w (gi_organization ?g) k fresh db0 db1 result" by fastforce
  moreover have "db_receipts db0 = db_receipts db"
    using q unfolding x atomic_Inr by (intro quota_more_web(3) reserve_quota_frame)
  ultimately show ?thesis by blast
qed

text \<open>
  C39: A delivery is processed once. After \<open>ingest_webhook\<close> has accepted it, and after any further transactions of
  the system, a delivery with the same id changes nothing, not even a quota: with the same bytes it is answered
  as deduplicated with the receipt of the first, and with other bytes it is refused as a conflict.
\<close>

theorem delivery_is_processed_once:
  assumes "ingest_webhook to_str w provider fresh db = (db1, Inr result)" "ir_status result = ''accepted''"
    and "webhook_later db1 db2" and "vw_delivery_id w' = vw_delivery_id w"
  shows "(vw_payload_sha256 w' = vw_payload_sha256 w \<longrightarrow>
      (\<exists>again. ingest_webhook to_str' w' provider' fresh' db2 = (db2, Inr again) \<and> ir_status again = ''deduplicated'' \<and>
        ir_receipt_id again = ir_receipt_id result \<and> ir_delivery_id again = ir_delivery_id result)) \<and>
    (vw_payload_sha256 w' \<noteq> vw_payload_sha256 w \<longrightarrow> ingest_webhook to_str' w' provider' fresh' db2 =
      (db2, Inl (WebhookConflictError ''delivery ID was reused with a different payload'')))"
proof -
  obtain organization k db0 where r: "recorded w organization k fresh db0 db1 result"
    using accepted_recorded [OF assms(1,2)] by blast
  let ?r = "new_receipt w organization k fresh" and ?n = "length (db_receipts db0)"
  obtain later where receipts: "db_receipts db2 = db_receipts db0 @ ?r # later"
    using r later_receipts [OF assms(3)] by (auto simp: recorded_def receipts_kept_def)
  have "\<forall>x \<in> set (db_receipts db0). wr_delivery_id x \<noteq> vw_delivery_id w'"
    using r assms(4) by (force simp: recorded_def)
  then have "index_of (\<lambda>x. wr_delivery_id x = vw_delivery_id w') (db_receipts db2) = Some ?n"
    unfolding receipts using assms(4) by (intro index_of_appended) (simp_all add: new_receipt_def)
  moreover have "db_receipts db2 ! ?n = ?r" by (simp add: receipts)
  ultimately show ?thesis using r
    by (auto simp: ingest_webhook_def existing_result_def Let_def recorded_def new_receipt_def)
qed

subsection \<open>A suspension that arrives\<close>

lemma default_limits: "\<exists>limit \<ge> 1. limit_of default_policy kind = Inr limit"
  by (cases kind) (simp_all add: limit_of_def default_policy_def DEFAULT_QUOTA_LIMITS_def quota_kinds_def)

lemma reserve_fresh:
  assumes "lock_organization (qr_organization r) db = Inr locked" "policies_of (qr_organization r) db = []"
    and "quota_guard r = None" "qr_kind r \<noteq> UPLOAD_BYTES_PER_REQUEST" "qr_actor r = None" "qr_quantity r = 1"
    and "\<forall>v \<in> set (db_reservations db). ur_kind v \<noteq> qr_kind r" "\<forall>c \<in> set (db_counters db). uc_kind c \<noteq> qr_kind r"
  shows "\<exists>c v res. reserve_quota r now db = Inr (db\<lparr>db_counters := db_counters db @ [c],
      db_reservations := db_reservations db @ [v]\<rparr>, res) \<and> uc_kind c = qr_kind r \<and> ur_kind v = qr_kind r"
proof -
  obtain limit where limit: "limit_of default_policy (qr_kind r) = Inr limit" "1 \<le> limit"
    using default_limits [of "qr_kind r"] by blast
  have policy: "resolve_operational_policy (qr_organization r) db = Inr default_policy"
    using assms(2) by (simp add: resolve_operational_policy_def)
  have unreserved: "\<not> list_ex (reserved_under r scope) (db_reservations db)" for scope
    using assms(7) by (auto simp: list_ex_iff reserved_under_def)
  then have "List.find (reserved_under r scope) (db_reservations db) = None" for scope
    by (auto simp: find_None_iff list_ex_iff)
  moreover have "index_of (counter_for r s start) (db_counters db) = None" for s start
    using assms(8) by (auto simp: index_of_None counter_for_def)
  ultimately show ?thesis
    using assms(1,3-6) limit policy unreserved
    by (simp add: reserve_quota_def reserve_windowed_def quota_subjects_def existing_reservations_def
        List.map_filter_simps charge_subject_def open_counter_def new_counter_def new_reservation_def Let_def)
      (intro exI conjI, rule refl, simp_all)
qed

definition sample_tenant :: organization_row where
  "sample_tenant = \<lparr>og_pk = 1, og_public_id = ''t1'', og_lifecycle = ORG_ACTIVE\<rparr>"

definition sample_installation :: github_installation where
  "sample_installation = \<lparr>gi_organization = 1, gi_github_installation_id = 7, gi_public_id = ''i'',
     gi_lifecycle = INSTALLATION_ACTIVE, gi_revoked_at = None\<rparr>"

definition sample_web :: web_db where
  "sample_web = \<lparr>db_organizations = [sample_tenant], db_memberships = [], db_policies = [], db_counters = [],
     db_reservations = [], db_audit = [], db_jobs = [], db_outbox = [], db_installations = [sample_installation],
     db_repositories = [], db_receipts = [], db_snapshots = []\<rparr>"

definition sample_webhook :: verified_webhook where
  "sample_webhook = \<lparr>vw_delivery_id = ''d-1'', vw_event_name = ''installation'', vw_action = ''suspend'',
     vw_installation_id = 7, vw_payload = [], vw_payload_sha256 = sha256_hex [], vw_payload_size = 2\<rparr>"

definition sample_fresh :: fresh_values where
  "sample_fresh = \<lparr>fv_now = 5000000, fv_receipt_id = ''r'', fv_correlation_id = ''c'', fv_snapshot_id = ''s'',
     fv_job_id = replicate 36 (CHR ''a''), fv_repository_id = (\<lambda>n. [])\<rparr>"

lemma sample_lock: "db_organizations db = [sample_tenant] \<Longrightarrow> lock_organization 1 db = Inr sample_tenant"
  by (simp add: lock_organization_def sample_tenant_def)

lemma sample_accepts:
  assumes "db_organizations db = [sample_tenant]" "db_policies db = []" "db_jobs db = []"
    and "\<forall>v \<in> set (db_reservations db). ur_kind v \<noteq> ANALYSIS_REQUESTS_PER_HOUR"
    and "\<forall>c \<in> set (db_counters db). uc_kind c \<noteq> ANALYSIS_REQUESTS_PER_HOUR"
  shows "\<exists>db' result. accept_delivery 1 k INSTALLATION_LIFECYCLE ''delivery:d-1'' None
      (\<lambda>cid. webhook_audit 1 ''github.installation.suspend'' ''github_installation'' ''i'' cid []) sample_fresh db =
      Inr (db', result)"
proof -
  let ?r = "\<lparr>qr_organization = 1, qr_kind = ANALYSIS_REQUESTS_PER_HOUR, qr_quantity = 1,
      qr_idempotency_key = ''delivery:d-1'', qr_actor = None, qr_correlation_id = wr_correlation_id (db_receipts db ! k)\<rparr>"
  have "find_organization 1 db = Inr sample_tenant" using sample_lock [OF assms(1)] by (simp add: find_organization_def)
  moreover have "quota_guard ?r = None" by (simp add: quota_guard_def isascii_def code_def)
  then obtain c v res where "reserve_quota ?r 5000000 db =
      Inr (db\<lparr>db_counters := db_counters db @ [c], db_reservations := db_reservations db @ [v]\<rparr>, res)"
    using reserve_fresh [of ?r db sample_tenant 5000000] assms sample_lock [OF assms(1)]
    by (auto simp: policies_of_def)
  ultimately show ?thesis using assms(3)
    by (simp add: accept_delivery_def create_job_with_outbox_def get_or_create_job_def sample_fresh_def sample_tenant_def
        record_audit_def webhook_audit_def web_def Let_def)
qed

lemma sample_transaction:
  assumes "db_organizations db = [sample_tenant]" "db_policies db = []" "db_jobs db = []" "db_receipts db = []"
    and "\<forall>v \<in> set (db_reservations db). ur_kind v \<noteq> ANALYSIS_REQUESTS_PER_HOUR"
    and "\<forall>c \<in> set (db_counters db). uc_kind c \<noteq> ANALYSIS_REQUESTS_PER_HOUR"
  shows "\<exists>db' result. installation_transaction sample_webhook 0 sample_installation sample_fresh db = Inr (db', result) \<and>
    ir_status result = ''accepted'' \<and> db_receipts db' = [new_receipt sample_webhook 1 0 sample_fresh]"
proof -
  let ?g = "sample_installation" and ?db = "db\<lparr>db_receipts := [new_receipt sample_webhook 1 0 sample_fresh]\<rparr>"
  have none: "existing_result sample_webhook db = Inr None" using assms(4) by (simp add: existing_result_def)
  have "store_receipt sample_webhook 1 0 sample_fresh db = Inr (?db, 0)"
    by (simp add: store_receipt_def receipt_clean_def new_receipt_def assms(4) Let_def)
      (simp add: sample_webhook_def is_delivery_id_def is_event_name_def letter_or_digit_def code_def assms(4))
  moreover obtain db' result where "accept_delivery 1 0 INSTALLATION_LIFECYCLE ''delivery:d-1'' None
      (\<lambda>cid. webhook_audit 1 ''github.installation.suspend'' ''github_installation'' ''i'' cid []) sample_fresh
      (save_installation 0 (moved_installation ''suspend'' 5000000 ?g) ?db) = Inr (db', result)"
    using sample_accepts [of "save_installation 0 (moved_installation ''suspend'' 5000000 ?g) ?db" 0] assms
    by (auto simp: save_installation_def)
  ultimately have t: "installation_transaction sample_webhook 0 ?g sample_fresh db = Inr (db', result)"
    using none by (simp add: installation_transaction_def)
      (simp add: sample_webhook_def sample_installation_def sample_fresh_def)
  from installation_recorded [OF t] none assms(4) show ?thesis
    using t by (simp add: recorded_def sample_installation_def)
qed

lemma sample_ingested:
  "\<exists>db1 result. ingest_webhook (\<lambda>_. []) sample_webhook (\<lambda>_ _ _. Inl (ProviderError [])) sample_fresh sample_web =
    (db1, Inr result) \<and> ir_status result = ''accepted''"
proof -
  let ?g = "sample_installation"
  have found: "get_installation_by_github_id (vw_installation_id sample_webhook) sample_web = Inr 0"
    "db_installations sample_web ! 0 = ?g" "existing_result sample_webhook sample_web = Inr None"
    by (simp_all add: get_installation_by_github_id_def sample_webhook_def sample_web_def sample_installation_def
        existing_result_def)
  have fields: "vw_event_name sample_webhook = ''installation''" "fv_now sample_fresh = 5000000"
    by (simp_all add: sample_webhook_def sample_fresh_def)
  let ?q = "webhook_quota sample_webhook (gi_organization ?g) (fv_correlation_id sample_fresh)"
  have "quota_guard ?q = None" "qr_organization ?q = 1" "qr_kind ?q = WEBHOOK_REQUESTS_PER_MINUTE" "qr_actor ?q = None"
    "qr_quantity ?q = 1"
    by (simp_all add: quota_guard_def webhook_quota_def sample_webhook_def sample_installation_def isascii_def code_def)
  then obtain c v res where q: "reserve_quota ?q 5000000 sample_web =
      Inr (sample_web\<lparr>db_counters := [c], db_reservations := [v]\<rparr>, res)"
    and cv: "uc_kind c = WEBHOOK_REQUESTS_PER_MINUTE" "ur_kind v = WEBHOOK_REQUESTS_PER_MINUTE"
    using reserve_fresh [of ?q sample_web sample_tenant 5000000] sample_lock [of sample_web]
    by (auto simp: policies_of_def sample_web_def)
  let ?db1 = "sample_web\<lparr>db_counters := [c], db_reservations := [v]\<rparr>"
  obtain db' result where t: "installation_transaction sample_webhook 0 ?g sample_fresh ?db1 = Inr (db', result)"
    and status: "ir_status result = ''accepted''"
    using sample_transaction [of ?db1] cv by (auto simp: sample_web_def)
  have "ingest_webhook (\<lambda>_. []) sample_webhook (\<lambda>_ _ _. Inl (ProviderError [])) sample_fresh sample_web =
      settle_race sample_webhook (atomic (installation_transaction sample_webhook 0 ?g sample_fresh) ?db1)"
    using q fields by (simp add: ingest_webhook_def found atomic_def handle_webhook_def)
  with t status show ?thesis by (simp add: settle_race_def)
qed

theorem delivery_is_processed_once_witness:
  "\<exists>db1 result again. ingest_webhook (\<lambda>_. []) sample_webhook (\<lambda>_ _ _. Inl (ProviderError [])) sample_fresh sample_web =
     (db1, Inr result) \<and>
   ingest_webhook (\<lambda>_. []) sample_webhook (\<lambda>_ _ _. Inl (ProviderError [])) sample_fresh db1 = (db1, Inr again) \<and>
   ir_receipt_id again = ir_receipt_id result"
proof -
  obtain db1 result where i: "ingest_webhook (\<lambda>_. []) sample_webhook (\<lambda>_ _ _. Inl (ProviderError [])) sample_fresh
      sample_web = (db1, Inr result)" "ir_status result = ''accepted''" using sample_ingested by blast
  then show ?thesis
    using delivery_is_processed_once [OF i, of db1 sample_webhook] by (fastforce simp: webhook_later_def)
qed

end
