(* ===== verification/WebhookTenancy.thy ===== *)
theory WebhookTenancy
  imports WebhookRuns
begin

section \<open>Tenants never mix\<close>

text \<open>
  In every database that the system can reach, each row that a delivery stored belongs to the organization
  of its installation, and the identities that the provider gives are unique.
\<close>

definition owners_agree :: "('b \<Rightarrow> int) \<Rightarrow> 'b list \<Rightarrow> 'b list \<Rightarrow> bool" where
  "owners_agree owner xs ys = (length xs \<le> length ys \<and> (\<forall>k < length xs. owner (ys ! k) = owner (xs ! k)))"

definition belongs :: "('b \<Rightarrow> int) \<Rightarrow> 'b list \<Rightarrow> nat \<Rightarrow> int \<Rightarrow> bool" where
  "belongs owner xs k organization = (k < length xs \<and> owner (xs ! k) = organization)"

definition receipts_ok :: "github_installation list \<Rightarrow> webhook_receipt list \<Rightarrow> bool" where
  "receipts_ok gs rs = ((\<forall>r \<in> set rs. belongs gi_organization gs (wr_installation r) (wr_organization r)) \<and>
     distinct (map wr_delivery_id rs))"

definition repositories_ok :: "github_installation list \<Rightarrow> repository_row list \<Rightarrow> bool" where
  "repositories_ok gs rs = ((\<forall>r \<in> set rs. belongs gi_organization gs (rp_installation r) (rp_organization r)) \<and>
     distinct (map rp_github_repository_id rs))"

definition change_identity :: "stored_snapshot \<Rightarrow> nat \<times> int \<times> string \<times> string" where
  "change_identity s = (ss_repository s, ps_number (ss_content s), ps_base_sha (ss_content s), ps_head_sha (ss_content s))"

definition snapshots_ok :: "repository_row list \<Rightarrow> webhook_receipt list \<Rightarrow> stored_snapshot list \<Rightarrow> bool" where
  "snapshots_ok repos rs ss = ((\<forall>s \<in> set ss. belongs rp_organization repos (ss_repository s) (ss_organization s) \<and>
     belongs wr_organization rs (ss_first_receipt s) (ss_organization s) \<and> ss_checksum s = snapshot_checksum (ss_content s)) \<and>
     distinct (map ss_checksum ss) \<and> distinct (map change_identity ss))"

text \<open>A job belongs to the organization of the delivery that it came with, and so does its snapshot.\<close>

definition job_tenant :: "webhook_receipt list \<Rightarrow> stored_snapshot list \<Rightarrow> analysis_job \<Rightarrow> bool" where
  "job_tenant rs ss j = ((\<exists>r \<in> set rs. wr_correlation_id r = aj_correlation_id j \<and> wr_organization r = aj_organization j) \<and>
     (\<forall>p. aj_snapshot j = Some p \<longrightarrow> (\<exists>s \<in> set ss. ss_public_id s = p \<and> ss_organization s = aj_organization j)))"

definition events_ok :: "analysis_job list \<Rightarrow> outbox_event list \<Rightarrow> bool" where
  "events_ok jobs events = (map ob_job events = [0..<length jobs] \<and> map ob_organization events = map aj_organization jobs)"

definition jobs_tenant :: "'a web_db_scheme \<Rightarrow> bool" where
  "jobs_tenant db = (list_all (job_tenant (db_receipts db) (db_snapshots db)) (db_jobs db) \<and>
     events_ok (db_jobs db) (db_outbox db))"

definition web_ok :: "'a web_db_scheme \<Rightarrow> bool" where
  "web_ok db = (receipts_ok (db_installations db) (db_receipts db) \<and> repositories_ok (db_installations db) (db_repositories db) \<and>
     snapshots_ok (db_repositories db) (db_receipts db) (db_snapshots db) \<and> jobs_tenant db)"

subsection \<open>Tables that grow\<close>

lemma owners_refl [simp]: "owners_agree owner xs xs"
  by (simp add: owners_agree_def)

lemma owners_append [simp]: "owners_agree owner xs (xs @ ys)"
  by (simp add: owners_agree_def nth_append)

lemma owners_trans: "owners_agree owner xs ys \<Longrightarrow> owners_agree owner ys zs \<Longrightarrow> owners_agree owner xs zs"
  by (simp add: owners_agree_def)

lemma belongs_mono: "belongs owner xs k g \<Longrightarrow> owners_agree owner xs ys \<Longrightarrow> belongs owner ys k g"
  by (auto simp: belongs_def owners_agree_def)

lemma receipts_mono: "receipts_ok gs rs \<Longrightarrow> owners_agree gi_organization gs gs' \<Longrightarrow> receipts_ok gs' rs"
  by (auto simp: receipts_ok_def intro: belongs_mono)

lemma repositories_mono: "repositories_ok gs rs \<Longrightarrow> owners_agree gi_organization gs gs' \<Longrightarrow> repositories_ok gs' rs"
  by (auto simp: repositories_ok_def intro: belongs_mono)

lemma snapshots_mono:
  "snapshots_ok repos rs ss \<Longrightarrow> owners_agree rp_organization repos repos' \<Longrightarrow> owners_agree wr_organization rs rs' \<Longrightarrow>
    snapshots_ok repos' rs' ss"
  by (auto simp: snapshots_ok_def intro: belongs_mono)

lemma job_tenant_mono: "job_tenant rs ss j \<Longrightarrow> set rs \<subseteq> set rs' \<Longrightarrow> set ss \<subseteq> set ss' \<Longrightarrow> job_tenant rs' ss' j"
  unfolding job_tenant_def by blast

lemma jobs_tenant_grows:
  assumes "jobs_tenant db" "db_jobs db' = db_jobs db" "db_outbox db' = db_outbox db"
    and "set (db_receipts db) \<subseteq> set (db_receipts db')" "set (db_snapshots db) \<subseteq> set (db_snapshots db')"
  shows "jobs_tenant db'"
  using assms by (auto simp: jobs_tenant_def list_all_iff intro: job_tenant_mono)

subsection \<open>Repositories\<close>

lemma length_put_at: "i \<le> length xs \<Longrightarrow> length (put_at i x xs) = (if i < length xs then length xs else length xs + 1)"
  by (simp add: put_at_def)

lemma put_at_owners:
  assumes "\<And>j. j < length xs \<Longrightarrow> j = i \<Longrightarrow> owner (xs ! j) = owner x"
  shows "owners_agree owner xs (put_at i x xs)"
  using assms by (auto simp: put_at_def owners_agree_def nth_list_update nth_append)

lemma set_put_at: "set (put_at i x xs) \<subseteq> insert x (set xs)"
  by (auto simp: put_at_def dest: set_update_subset_insert [THEN subsetD])

lemma distinct_put_at:
  assumes "distinct (map f xs)" "\<forall>y \<in> set (take i xs @ drop (i + 1) xs). f y \<noteq> f x"
  shows "distinct (map f (put_at i x xs))"
proof (cases "i < length xs")
  case True
  then have xs: "xs = take i xs @ xs ! i # drop (i + 1) xs" by (simp add: id_take_nth_drop)
  have "xs[i := x] = take i xs @ x # drop (i + 1) xs" using True by (simp add: upd_conv_take_nth_drop)
  moreover have "distinct (map f (take i xs @ drop (i + 1) xs))"
    using assms(1) by (subst (asm) xs) auto
  ultimately show ?thesis using assms(2) True by (auto simp: put_at_def)
qed (use assms in \<open>auto simp: put_at_def\<close>)

lemma bind_ok:
  assumes "bind_repository organization k gid owner name branch pid db = Inr (db', i, created)"
    and "repositories_ok (db_installations db) (db_repositories db)" "k < length (db_installations db)"
  shows "repositories_ok (db_installations db) (db_repositories db') \<and>
    owners_agree rp_organization (db_repositories db) (db_repositories db')"
  using assms(1)
proof (rule bind_cases)
  fix r
  assume s: "store_repository i r db = Inr db'" and r: "rp_organization r = organization" "rp_installation r = k"
    and g: "gi_organization (db_installations db ! k) = organization"
    and old: "\<And>j. j < length (db_repositories db) \<Longrightarrow> j = i \<Longrightarrow>
      rp_github_repository_id (db_repositories db ! j) = rp_github_repository_id r \<and>
      rp_organization (db_repositories db ! j) = organization"
  have eq: "db_repositories db' = put_at i r (db_repositories db)" using store_repository_cases(1) [OF s] by simp
  have "distinct (map rp_github_repository_id (put_at i r (db_repositories db)))"
    using assms(2) store_repository_cases(2) [OF s] by (intro distinct_put_at) (auto simp: repositories_ok_def)
  moreover have "belongs gi_organization (db_installations db) (rp_installation r) (rp_organization r)"
    using r g assms(3) by (simp add: belongs_def)
  ultimately have "repositories_ok (db_installations db) (db_repositories db')"
    using assms(2) set_put_at [of i r "db_repositories db"] unfolding repositories_ok_def eq by blast
  moreover have "owners_agree rp_organization (db_repositories db) (db_repositories db')"
    unfolding eq by (rule put_at_owners) (use old r in simp)
  ultimately show ?thesis ..
qed

lemma remove_ok:
  assumes "repositories_ok gs (db_repositories db)"
  shows "repositories_ok gs (db_repositories (remove_repository organization k gid db)) \<and>
    owners_agree rp_organization (db_repositories db) (db_repositories (remove_repository organization k gid db))"
proof -
  let ?f = "\<lambda>r. if rp_organization r = organization \<and> rp_installation r = k \<and> rp_github_repository_id r = gid
     then r\<lparr>rp_lifecycle := REPOSITORY_REMOVED\<rparr> else r"
  have "map rp_github_repository_id (map ?f (db_repositories db)) = map rp_github_repository_id (db_repositories db)"
    by auto
  then show ?thesis using assms
    by (auto simp: remove_repository_def repositories_ok_def owners_agree_def simp del: map_map)
qed

lemma change_ok:
  assumes "change_repository to_str action organization k pid x db = Inr db'"
    and "repositories_ok (db_installations db) (db_repositories db)" "k < length (db_installations db)"
  shows "repositories_ok (db_installations db) (db_repositories db') \<and>
    owners_agree rp_organization (db_repositories db) (db_repositories db')"
  using assms(1)
proof (cases rule: change_cases)
  case (removed gid)
  then show ?thesis using remove_ok [OF assms(2)] by simp
next
  case (bound gid owner name branch i created)
  then show ?thesis by (rule bind_ok [OF _ assms(2,3)])
qed

lemma changes_ok:
  "change_repositories to_str action organization k ids n xs db = Inr db' \<Longrightarrow>
    repositories_ok (db_installations db) (db_repositories db) \<Longrightarrow> k < length (db_installations db) \<Longrightarrow>
    repositories_ok (db_installations db) (db_repositories db') \<and>
    owners_agree rp_organization (db_repositories db) (db_repositories db')"
proof (induction xs arbitrary: n db)
  case (Cons x xs)
  then obtain db1 where c: "change_repository to_str action organization k (ids n) x db = Inr db1"
    and later: "change_repositories to_str action organization k ids (n + 1) xs db1 = Inr db'"
    by (auto simp: and_then_Inr)
  have same: "db_installations db1 = db_installations db" using change_frame [OF c] by auto
  from change_ok [OF c Cons.prems(2,3)] Cons.IH [OF later] Cons.prems(3) same show ?case
    by (auto intro: owners_trans)
qed simp

subsection \<open>The end of a transaction\<close>

lemma accept_ok:
  assumes a: "accept_delivery organization k job_type key snapshot audit fresh db = Inr (db', result)"
    and ok: "jobs_tenant db" and k: "belongs wr_organization (db_receipts db) k organization"
    and s: "\<And>p. snapshot = Some p \<Longrightarrow> \<exists>s \<in> set (db_snapshots db). ss_public_id s = p \<and> ss_organization s = organization"
  shows "jobs_tenant db'"
  using a
proof (rule accept_cases)
  fix g db1 i created
  assume g: "og_pk g = organization" and c: "create_job_with_outbox g job_type key (wr_correlation_id (db_receipts db ! k))
      snapshot (fv_job_id fresh) (fv_now fresh) db = Inr (db1, i, created)" and jobs: "db_jobs db' = db_jobs db1"
    and outbox: "db_outbox db' = db_outbox db1"
  note same = accept_web(3,4) [OF a]
  show ?thesis using c
  proof (cases rule: create_cases)
    case existing
    with ok jobs outbox same show ?thesis by (simp add: jobs_tenant_def)
  next
    case new: fresh
    from k have "db_receipts db ! k \<in> set (db_receipts db)" "wr_organization (db_receipts db ! k) = organization"
      by (simp_all add: belongs_def)
    with s g have "job_tenant (db_receipts db) (db_snapshots db)
        (new_job g job_type key (wr_correlation_id (db_receipts db ! k)) snapshot (fv_job_id fresh) (fv_now fresh))"
      by (auto simp: job_tenant_def new_job_def)
    moreover have "events_ok (db_jobs db1) (db_outbox db1)"
      using ok new(2,5,6) by (simp add: jobs_tenant_def events_ok_def new_job_def new_event_def)
    ultimately show ?thesis using ok jobs outbox same new(5) by (simp add: jobs_tenant_def)
  qed
qed

lemma store_receipt_ok:
  assumes "store_receipt w organization k fresh db = Inr (db1, i)"
    and "receipts_ok (db_installations db) (db_receipts db)" "belongs gi_organization (db_installations db) k organization"
  shows "receipts_ok (db_installations db1) (db_receipts db1)"
  using store_receipt_cases(3) [OF assms(1)] store_receipt_web [OF assms(1)] assms(2,3)
  by (auto simp: receipts_ok_def receipt_clean_def list_ex_iff new_receipt_def)

lemma store_receipt_outbox: "store_receipt w organization k fresh db = Inr (db1, i) \<Longrightarrow> db_outbox db1 = db_outbox db"
  by (drule store_receipt_cases(1)) simp

lemma snapshot_ok:
  assumes "get_or_store_snapshot organization i receipt p pid db = Inr (db', s)"
    and "snapshots_ok (db_repositories db) (db_receipts db) (db_snapshots db)"
    and "belongs rp_organization (db_repositories db) i organization" "belongs wr_organization (db_receipts db) receipt organization"
  shows "snapshots_ok (db_repositories db) (db_receipts db) (db_snapshots db') \<and> s \<in> set (db_snapshots db') \<and>
    ss_organization s = organization \<and> (\<exists>ss. db' = db\<lparr>db_snapshots := db_snapshots db @ ss\<rparr>)"
  using assms(1)
proof (cases rule: snapshot_cases)
  case known
  then have "db' = db\<lparr>db_snapshots := db_snapshots db @ []\<rparr>" by simp
  with known assms(2) show ?thesis by blast
next
  case fresh
  from fresh(2) have "change_identity s \<notin> change_identity ` set (db_snapshots db)"
    "ss_checksum s \<notin> ss_checksum ` set (db_snapshots db)"
    by (auto simp: snapshot_clean_def list_ex_iff same_change_def change_identity_def)
  with fresh(1,3) assms(2-4) show ?thesis by (auto simp: snapshots_ok_def)
qed

lemma pull_ok:
  assumes t: "pull_request_transaction w organization k i p fresh db = Inr (db', result)" and ok: "web_ok db"
    and k: "belongs gi_organization (db_installations db) k organization"
    and i: "belongs rp_organization (db_repositories db) i organization"
  shows "web_ok db'"
  using t
proof (cases rule: pull_cases)
  case (fresh db1 db2 s)
  note r = store_receipt_web [OF fresh(2)] and a = accept_web [OF fresh(4)]
    and outbox = store_receipt_outbox [OF fresh(2)]
  have receipts: "receipts_ok (db_installations db1) (db_receipts db1)"
    using ok by (intro store_receipt_ok [OF fresh(2) _ k]) (simp add: web_ok_def)
  have "snapshots_ok (db_repositories db1) (db_receipts db1) (db_snapshots db1)"
    using ok r by (auto simp: web_ok_def intro: snapshots_mono)
  moreover have receipt: "belongs wr_organization (db_receipts db1) (length (db_receipts db)) organization"
    using r(5) by (simp add: belongs_def new_receipt_def)
  ultimately have s: "snapshots_ok (db_repositories db1) (db_receipts db1) (db_snapshots db2)" "s \<in> set (db_snapshots db2)"
    "ss_organization s = organization" "\<exists>ss. db2 = db1\<lparr>db_snapshots := db_snapshots db1 @ ss\<rparr>"
    using snapshot_ok [OF fresh(3)] i r(2) by simp_all
  from s(4) obtain ss where db2: "db2 = db1\<lparr>db_snapshots := db_snapshots db1 @ ss\<rparr>" by blast
  have "jobs_tenant db2"
    by (rule jobs_tenant_grows [of db]) (use ok in \<open>simp_all add: web_ok_def db2 r outbox subset_insertI\<close>)
  moreover have "belongs wr_organization (db_receipts db2) (length (db_receipts db)) organization"
    using receipt by (simp add: db2)
  moreover have "\<exists>s' \<in> set (db_snapshots db2). ss_public_id s' = p' \<and> ss_organization s' = organization"
    if "Some (ss_public_id s) = Some p'" for p' using that s(2,3) by blast
  ultimately have "jobs_tenant db'" by (rule accept_ok [OF fresh(4)])
  with receipts s(1) ok r a db2 show ?thesis by (simp add: web_ok_def)
qed (use ok in simp)

lemma save_owners: "owners_agree gi_organization gs (gs[k := (gs ! k)\<lparr>gi_lifecycle := l, gi_revoked_at := t\<rparr>])"
  by (cases "k < length gs") (auto simp: owners_agree_def nth_list_update)

lemma installation_ok:
  assumes t: "installation_transaction w k g fresh db = Inr (db', result)" and ok: "web_ok db"
    and k: "belongs gi_organization (db_installations db) k (gi_organization g)"
  shows "web_ok db'"
  using t
proof (cases rule: installation_cases)
  case (fresh db1 audit)
  note r = store_receipt_web [OF fresh(2)] and a = accept_web [OF fresh(3)]
  have saved: "owners_agree gi_organization (db_installations db) (db_installations db')"
    using r a by (simp add: save_installation_def save_owners)
  have "receipts_ok (db_installations db1) (db_receipts db1)"
    using ok by (intro store_receipt_ok [OF fresh(2) _ k]) (simp add: web_ok_def)
  then have "receipts_ok (db_installations db') (db_receipts db')"
    using saved r a by (auto simp: save_installation_def intro: receipts_mono)
  moreover have "repositories_ok (db_installations db') (db_repositories db')"
    using ok saved r a by (auto simp: web_ok_def save_installation_def intro: repositories_mono)
  moreover have "snapshots_ok (db_repositories db') (db_receipts db') (db_snapshots db')"
    using ok r a by (auto simp: web_ok_def save_installation_def intro: snapshots_mono)
  moreover have "jobs_tenant db'"
  proof (rule accept_ok [OF fresh(3)])
    show "jobs_tenant (save_installation k (moved_installation (vw_action w) (fv_now fresh) g) db1)"
      by (rule jobs_tenant_grows [of db])
        (use ok in \<open>simp_all add: web_ok_def save_installation_def r store_receipt_outbox [OF fresh(2)] subset_insertI\<close>)
  qed (simp_all add: r(5) save_installation_def belongs_def new_receipt_def)
  ultimately show ?thesis by (simp add: web_ok_def)
qed (use ok in simp)

lemma repositories_transaction_ok:
  assumes t: "repositories_transaction to_str w k g items fresh db = Inr (db', result)" and ok: "web_ok db"
    and k: "belongs gi_organization (db_installations db) k (gi_organization g)"
  shows "web_ok db'"
  using t
proof (cases rule: repositories_cases)
  case (fresh db1 db2 audit)
  note r = store_receipt_web [OF fresh(2)] and a = accept_web [OF fresh(4)]
  from changes_frame [OF fresh(3)] have same: "db_installations db2 = db_installations db1" "db_receipts db2 = db_receipts db1"
    "db_snapshots db2 = db_snapshots db1" "db_jobs db2 = db_jobs db1" "db_outbox db2 = db_outbox db1" by auto
  have repos: "repositories_ok (db_installations db1) (db_repositories db2) \<and>
      owners_agree rp_organization (db_repositories db1) (db_repositories db2)"
    using ok r k by (intro changes_ok [OF fresh(3)]) (simp_all add: web_ok_def belongs_def)
  have "receipts_ok (db_installations db1) (db_receipts db1)"
    using ok by (intro store_receipt_ok [OF fresh(2) _ k]) (simp add: web_ok_def)
  moreover have "snapshots_ok (db_repositories db2) (db_receipts db1) (db_snapshots db1)"
    using ok r repos by (auto simp: web_ok_def intro: snapshots_mono)
  moreover have "jobs_tenant db'"
  proof (rule accept_ok [OF fresh(4)])
    show "jobs_tenant db2"
      by (rule jobs_tenant_grows [of db])
        (use ok in \<open>simp_all add: web_ok_def r same store_receipt_outbox [OF fresh(2)] subset_insertI\<close>)
  qed (simp_all add: r(5) same belongs_def new_receipt_def)
  ultimately show ?thesis using repos a same by (simp add: web_ok_def)
qed (use ok in simp)

lemma prepare_belongs:
  assumes "prepare_pull_request w k g provider db = Inr (i, p)"
  shows "belongs rp_organization (db_repositories db) i (gi_organization g)"
proof -
  obtain repository_id where "bound_repository (gi_organization g) k repository_id db = Inr i"
    using assms by (auto simp: prepare_pull_request_def and_then_Inr Let_def split: if_splits)
  then show ?thesis
    by (auto simp: bound_repository_def belongs_def dest: index_of_Some split: option.splits)
qed

lemma run_job_tenant:
  "run_job analyze now (started_job t j) = Inr (j', outcome) \<Longrightarrow>
    aj_snapshot j' = aj_snapshot j \<and> aj_organization j' = aj_organization j \<and> aj_correlation_id j' = aj_correlation_id j"
  by (erule run_job_writes) (simp_all add: started_job_def completed_job_def failed_job_def)

lemma atomic_ok:
  assumes "P db" "\<And>db' x. body db = Inr (db', x) \<Longrightarrow> P db'"
  shows "P (fst (atomic body db))"
  using assms by (cases "body db") (auto simp: atomic_def)

lemma work_ok:
  assumes "process_ingestion_job analyze gid jid clock db = Inr (db', outcome)" "web_ok db"
  shows "web_ok db'"
  using assms(1)
proof (cases rule: process_cases)
  case (wrote i j')
  note same = run_job_tenant [OF wrote(4)]
  have "job_tenant (db_receipts db) (db_snapshots db) (db_jobs db ! i)"
    using assms(2) wrote(1) by (simp add: web_ok_def jobs_tenant_def list_all_iff)
  with same have "job_tenant (db_receipts db) (db_snapshots db) j'" by (simp add: job_tenant_def)
  moreover have "events_ok (db_jobs db') (db_outbox db')"
    using assms(2) wrote(1,5) same by (simp add: web_ok_def jobs_tenant_def events_ok_def map_update_same)
  ultimately show ?thesis using assms(2) wrote(1,5)
    by (auto simp: web_ok_def jobs_tenant_def list_all_iff dest: set_update_subset_insert [THEN subsetD])
qed (use assms(2) in simp)

lemma relay_web_ok:
  assumes "relay_event organization publish now i db = Inr (db', delta)" "web_ok db"
  shows "web_ok db'"
  using assms(1)
proof (cases rule: relay_cases)
  case (wrote e')
  from wrote(4) have "ob_job e' = ob_job (db_outbox db ! i)" "ob_organization e' = ob_organization (db_outbox db ! i)"
    by (auto simp: publish_failed_def publish_succeeded_def)
  with assms(2) wrote(1,5) show ?thesis by (simp add: web_ok_def jobs_tenant_def events_ok_def map_update_same)
qed (use assms(2) in simp)

lemma step_ok: "webhook_step db db' \<Longrightarrow> web_ok db \<Longrightarrow> web_ok db'"
proof (induction rule: webhook_step.induct)
  case (pull k g db w provider fresh)
  then have k: "belongs gi_organization (db_installations db) k (gi_organization g)" by (simp add: copy_of_def belongs_def)
  show ?case
  proof (cases "prepare_pull_request w k g provider db")
    case (Inr ip)
    then obtain i p where ip: "prepare_pull_request w k g provider db = Inr (i, p)" by (cases ip) simp
    have "web_ok (fst (atomic (pull_request_transaction w (gi_organization g) k i p fresh) db))"
      by (rule atomic_ok [where P = web_ok, OF pull(2)]) (rule pull_ok [OF _ pull(2) k prepare_belongs [OF ip]])
    with ip show ?thesis by (simp add: ingest_pull_request_def)
  qed (simp add: ingest_pull_request_def pull(2))
next
  case (installation k g db w fresh)
  then have k: "belongs gi_organization (db_installations db) k (gi_organization g)" by (simp add: copy_of_def belongs_def)
  show ?case
    by (rule atomic_ok [where P = web_ok, OF installation(2)]) (rule installation_ok [OF _ installation(2) k])
next
  case (repositories k g db to_str w fresh)
  then have k: "belongs gi_organization (db_installations db) k (gi_organization g)" by (simp add: copy_of_def belongs_def)
  show ?case
  proof (cases "repository_items (vw_payload w) (vw_action w)")
    case (Inr items)
    have "web_ok (fst (atomic (repositories_transaction to_str w k g items fresh) db))"
      by (rule atomic_ok [where P = web_ok, OF repositories(2)]) (rule repositories_transaction_ok [OF _ repositories(2) k])
    with Inr show ?thesis by (simp add: ingest_repositories_def)
  qed (simp add: ingest_repositories_def repositories(2))
next
  case (register g db)
  then show ?case by (auto simp: web_ok_def jobs_tenant_def intro: receipts_mono repositories_mono)
next
  case (relay db organization publish now i)
  show ?case by (rule atomic_ok [where P = web_ok, OF relay]) (rule relay_web_ok [OF _ relay])
next
  case (work db analyze gid jid clock)
  show ?case by (rule atomic_ok [where P = web_ok, OF work]) (rule work_ok [OF _ work])
next
  case (quota db db')
  then show ?case using quota_more_web [OF quota_step_frame [OF quota(1)]] same_more(2) [OF quota_step_frame [OF quota(1)]]
    by (simp add: web_ok_def jobs_tenant_def)
qed

subsection \<open>The reachable databases\<close>

definition nothing_delivered :: "'a web_db_scheme \<Rightarrow> bool" where
  "nothing_delivered db = (db_receipts db = [] \<and> db_repositories db = [] \<and> db_snapshots db = [] \<and> db_jobs db = [] \<and>
     db_outbox db = [])"

lemma later_ok: "webhook_later db db' \<Longrightarrow> web_ok db \<Longrightarrow> web_ok db'"
  unfolding webhook_later_def by (induction rule: rtranclp_induct) (auto dest: step_ok)

text \<open>
  C40: Whatever deliveries, relays, workers and reservations interleave, starting from a database without deliveries:
  every receipt and repository belongs to the organization of its installation, every snapshot to that of its
  repository and of the receipt that created it, and every job, with a snapshot or without, to that of a receipt of
  its correlation id, and to that of its snapshot; the jobs and the outbox events correspond one to one, in order and
  with the same organizations. Delivery ids, the provider's repository ids and the identities (repository, number,
  base and head) of snapshots are unique, and the checksum of a snapshot is the hash of its content.
\<close>

theorem deliveries_stay_in_their_tenant:
  assumes "nothing_delivered db0" "webhook_later db0 db"
  shows "(\<forall>r \<in> set (db_receipts db). belongs gi_organization (db_installations db) (wr_installation r) (wr_organization r)) \<and>
    (\<forall>r \<in> set (db_repositories db). belongs gi_organization (db_installations db) (rp_installation r) (rp_organization r)) \<and>
    (\<forall>s \<in> set (db_snapshots db). belongs rp_organization (db_repositories db) (ss_repository s) (ss_organization s) \<and>
      belongs wr_organization (db_receipts db) (ss_first_receipt s) (ss_organization s) \<and>
      ss_checksum s = snapshot_checksum (ss_content s)) \<and>
    (\<forall>j \<in> set (db_jobs db).
      (\<exists>r \<in> set (db_receipts db). wr_correlation_id r = aj_correlation_id j \<and> wr_organization r = aj_organization j) \<and>
      (\<forall>p. aj_snapshot j = Some p \<longrightarrow>
        (\<exists>s \<in> set (db_snapshots db). ss_public_id s = p \<and> ss_organization s = aj_organization j))) \<and>
    map ob_job (db_outbox db) = [0..<length (db_jobs db)] \<and>
    map ob_organization (db_outbox db) = map aj_organization (db_jobs db) \<and>
    distinct (map wr_delivery_id (db_receipts db)) \<and> distinct (map rp_github_repository_id (db_repositories db)) \<and>
    distinct (map change_identity (db_snapshots db))"
proof -
  have "web_ok db0" using assms(1)
    by (simp add: nothing_delivered_def web_ok_def receipts_ok_def repositories_ok_def snapshots_ok_def
        jobs_tenant_def events_ok_def)
  then have "web_ok db" using later_ok [OF assms(2)] by simp
  then show ?thesis
    by (auto simp: web_ok_def receipts_ok_def repositories_ok_def snapshots_ok_def jobs_tenant_def events_ok_def
        list_all_iff job_tenant_def)
qed

theorem deliveries_stay_in_their_tenant_witness:
  "\<exists>db r. webhook_later sample_web db \<and> db_receipts db = [r] \<and>
     belongs gi_organization (db_installations db) (wr_installation r) (wr_organization r)"
proof -
  have start: "nothing_delivered sample_web" by (simp add: nothing_delivered_def sample_web_def)
  obtain db result where t: "installation_transaction sample_webhook 0 sample_installation sample_fresh sample_web =
      Inr (db, result)" "db_receipts db = [new_receipt sample_webhook 1 0 sample_fresh]"
    using sample_transaction [of sample_web] by (auto simp: sample_web_def)
  have "webhook_step sample_web (fst (atomic (installation_transaction sample_webhook 0 sample_installation sample_fresh)
      sample_web))" by (rule webhook_step.installation) (simp add: copy_of_def sample_web_def)
  then have "webhook_later sample_web db" using t(1) by (simp add: webhook_later_def r_into_rtranclp)
  with deliveries_stay_in_their_tenant [OF start this] t(2) show ?thesis by auto
qed

subsection \<open>What the handlers refuse\<close>

text \<open>
  A removed repository keeps its name, so a repository that is deleted and created again on the provider's side
  (a new id under the old name) can never be bound: the insert violates the unique constraint on the name.
\<close>

lemma recreated_repository_is_refused:
  assumes "old \<in> set (db_repositories db)" "rp_lifecycle old = REPOSITORY_REMOVED" "rp_organization old = organization"
    and "gid \<notin> rp_github_repository_id ` set (db_repositories db)" "gi_organization (db_installations db ! k) = organization"
    and "gid \<le> BIG_INTEGER_MAX" "length (rp_owner old) \<le> 100" "length (rp_name old) \<le> 100" "length branch \<le> 255"
    and "\<not> has_nul (rp_owner old @ rp_name old @ branch)"
  shows "bind_repository organization k gid (rp_owner old) (rp_name old) branch pid db =
    Inl (Web (IntegrityError ''repositories_repository''))"
proof -
  have "index_of (\<lambda>r. rp_github_repository_id r = gid) (db_repositories db) = None"
    using assms(4) by (auto simp: index_of_None)
  then show ?thesis using assms
    by (auto simp: bind_repository_def store_repository_def list_ex_iff Let_def)
qed

text \<open>
  A lifecycle delivery needs a unit of the analysis quota. When that is used up the whole transaction is rolled
  back, so an installation that the provider has suspended or deleted stays as it was.
\<close>

lemma exhausted_quota_blocks_revocation:
  assumes "existing_result w db = Inr None" "store_receipt w (gi_organization g) k fresh db = Inr (db1, r)"
    and "db2 = save_installation k (moved_installation (vw_action w) (fv_now fresh) g) db1"
    and "find_organization (gi_organization g) db2 = Inr organization"
    and "reserve_quota \<lparr>qr_organization = og_pk organization, qr_kind = ANALYSIS_REQUESTS_PER_HOUR, qr_quantity = 1,
      qr_idempotency_key = ''delivery:'' @ vw_delivery_id w, qr_actor = None,
      qr_correlation_id = wr_correlation_id (db_receipts db2 ! r)\<rparr> (fv_now fresh) db2 = Inl e"
  shows "atomic (installation_transaction w k g fresh) db = (db, Inl (Web e))"
  using assms
  by (simp add: atomic_def installation_transaction_def accept_delivery_def create_job_with_outbox_def web_def del: append_Cons)

end
