(* ===== verification/ModelRegistry.thy ===== *)
theory ModelRegistry
  imports Quotas Drift
begin

section \<open>apps/web/risk: the model registry\<close>

text \<open>
  The tables of governed artifacts, lifecycle events and deployments with their \<open>full_clean\<close>, and the four
  operations of \<open>governance_services.py\<close> that move a model through its lifecycle. The primary key of an
  artifact is its position. The rows that an operation changes are locked, so each is one transaction. The text
  columns hold no NUL, which the database driver refuses; public ids and the correlation id are arguments.
\<close>

datatype registry_error = Web_Error web_error | ModelGovernanceError string

definition from_web :: "web_error + 'a \<Rightarrow> registry_error + 'a" where
  "from_web r = (case r of Inl e \<Rightarrow> Inl (Web_Error e) | Inr x \<Rightarrow> Inr x)"

definition no_error :: "registry_error option \<Rightarrow> registry_error + unit" where
  "no_error r = (case r of None \<Rightarrow> Inr () | Some e \<Rightarrow> Inl e)"

definition guard_raised :: "exn option \<Rightarrow> registry_error + unit" where
  "guard_raised r = no_error (map_option (\<lambda>e. Web_Error (Raised e)) r)"

definition MODEL_LIFECYCLE_POLICY_VERSION :: string where
  "MODEL_LIFECYCLE_POLICY_VERSION = ''model-lifecycle-v1''"

fun membership_role_value :: "membership_role \<Rightarrow> string" where
  "membership_role_value OWNER = ''owner''"
| "membership_role_value ADMIN = ''admin''"
| "membership_role_value REVIEWER = ''reviewer''"
| "membership_role_value MEMBER = ''member''"
| "membership_role_value READ_ONLY = ''read_only''"

fun model_lifecycle_value :: "model_lifecycle \<Rightarrow> string" where
  "model_lifecycle_value CANDIDATE = ''candidate''"
| "model_lifecycle_value STAGING = ''staging''"
| "model_lifecycle_value ACTIVE = ''active''"
| "model_lifecycle_value RETIRED = ''retired''"

subsection \<open>Artifacts\<close>

text \<open>What a caller registers; a stored row adds the tenant, the creator and a public id.\<close>

record artifact_identity =
  gm_model_name :: string
  gm_artifact_version :: string
  gm_artifact_sha256 :: string
  gm_artifact_uri :: string
  gm_algorithm :: string
  gm_formal_experiment_sha256 :: string
  gm_mlflow_run_id :: string
  gm_dataset_version :: string
  gm_dataset_manifest_sha256 :: string
  gm_feature_schema_version :: string
  gm_input_schema_sha256 :: string
  gm_runtime_compatibility :: pydict
  gm_synthetic :: bool
  gm_contains_customer_data :: bool

record governed_artifact =
  ga_organization :: int
  ga_public_id :: string
  ga_identity :: artifact_identity
  ga_created_by :: "int option"

definition safe_mapping_item :: "string \<times> pyval \<Rightarrow> bool" where
  "safe_mapping_item item = (case item of (key, value) \<Rightarrow>
     1 \<le> length key \<and> length key \<le> 128 \<and> isascii key \<and>
     (case value of
        PyStr s \<Rightarrow> 1 \<le> length s \<and> length s \<le> 512 \<and> isascii s
      | PyFloat t \<Rightarrow> t \<notin> {''inf'', ''-inf'', ''nan''}
      | PyInt _ \<Rightarrow> True
      | PyBool _ \<Rightarrow> True
      | _ \<Rightarrow> False))"

definition validate_safe_string_mapping :: "pydict \<Rightarrow> bool" where
  "validate_safe_string_mapping value =
     (1 \<le> length value \<and> length value \<le> 64 \<and> list_all safe_mapping_item value)"

definition text_column :: "nat \<Rightarrow> string \<Rightarrow> bool" where
  "text_column maximum s = (s \<noteq> [] \<and> length s \<le> maximum)"

text \<open>\<open>urlparse\<close> first drops leading control characters and blanks and every tab and line end.\<close>

definition stored_url :: "string \<Rightarrow> parsed_url" where
  "stored_url uri = urlparse (filter (\<lambda>c. code c \<notin> {9, 10, 13}) (dropWhile (\<lambda>c. code c \<le> 32) uri))"

definition artifact_uri_clean :: "string \<Rightarrow> bool" where
  "artifact_uri_clean uri = (let url = stored_url uri; user = user_info (pu_netloc url) in
     pu_scheme url \<in> {''artifact'', ''s3'', ''mlflow-artifacts''} \<and>
     before (CHR '':'') user = [] \<and> after (CHR '':'') user = [] \<and> pu_query url = [] \<and> pu_fragment url = [])"

definition artifact_fields_clean :: "artifact_identity \<Rightarrow> bool" where
  "artifact_fields_clean a = (text_column 128 (gm_model_name a) \<and> text_column 128 (gm_artifact_version a) \<and>
     is_sha256_text (gm_artifact_sha256 a) \<and> text_column 1024 (gm_artifact_uri a) \<and> text_column 128 (gm_algorithm a) \<and>
     is_sha256_text (gm_formal_experiment_sha256 a) \<and> text_column 64 (gm_mlflow_run_id a) \<and>
     text_column 128 (gm_dataset_version a) \<and> is_sha256_text (gm_dataset_manifest_sha256 a) \<and>
     text_column 128 (gm_feature_schema_version a) \<and> is_sha256_text (gm_input_schema_sha256 a) \<and>
     validate_safe_string_mapping (gm_runtime_compatibility a))"

definition artifact_exists :: "int \<Rightarrow> string \<Rightarrow> string \<Rightarrow> string \<Rightarrow> governed_artifact \<Rightarrow> bool" where
  "artifact_exists organization model_name version sha256 g = (ga_organization g = organization \<and>
     gm_model_name (ga_identity g) = model_name \<and>
     (gm_artifact_version (ga_identity g) = version \<or> gm_artifact_sha256 (ga_identity g) = sha256))"

text \<open>
  \<open>full_clean\<close>: \<open>clean\<close> runs whatever the fields hold, and a malformed host raises a plain \<open>ValueError\<close> from
  \<open>urlparse\<close>; every other violation is one \<open>ValidationError\<close>, the unique constraints included.
\<close>

definition artifact_full_clean ::
  "(string \<Rightarrow> bool) \<Rightarrow> governed_artifact \<Rightarrow> governed_artifact list \<Rightarrow> web_error option" where
  "artifact_full_clean valid_host g rows = (let a = ga_identity g in first_raise [
     raise_if (bad_brackets valid_host (pu_netloc (stored_url (gm_artifact_uri a))))
       (Raised (ValueError ''Invalid IPv6 URL'')),
     raise_if (\<not> artifact_fields_clean a \<or> \<not> artifact_uri_clean (gm_artifact_uri a) \<or>
         gm_synthetic a \<and> gm_contains_customer_data a \<or>
         list_ex (\<lambda>o'. ga_public_id o' = ga_public_id g \<or> artifact_exists (ga_organization g) (gm_model_name a)
           (gm_artifact_version a) (gm_artifact_sha256 a) o') rows)
       (ValidationError ''governed model artifact'')])"

subsection \<open>Lifecycle events\<close>

record lifecycle_row =
  me_organization :: int
  me_artifact :: nat
  me_sequence :: int
  me_from_state :: "model_lifecycle option"
  me_to_state :: model_lifecycle
  me_action :: lifecycle_action
  me_evaluation_sha256 :: string
  me_compatibility :: pydict
  me_compatibility_sha256 :: string
  me_reviewer_role :: string
  me_approval_sha256 :: string
  me_reason :: string
  me_actor :: "int option"
  me_event_sha256 :: string

record deployment_row =
  md_organization :: int
  md_model_name :: string
  md_active_artifact :: nat
  md_rollback_artifact :: "nat option"
  md_generation :: int

record registry_db = quota_db +
  db_artifacts :: "governed_artifact list"
  db_events :: "lifecycle_row list"
  db_deployments :: "deployment_row list"

definition artifact_sha :: "'a registry_db_scheme \<Rightarrow> nat \<Rightarrow> string" where
  "artifact_sha db i = gm_artifact_sha256 (ga_identity (db_artifacts db ! i))"

definition history :: "'a registry_db_scheme \<Rightarrow> nat \<Rightarrow> lifecycle_row list" where
  "history db i = filter (\<lambda>e. me_artifact e = i) (db_events db)"

definition latest_event :: "'a registry_db_scheme \<Rightarrow> nat \<Rightarrow> lifecycle_row option" where
  "latest_event db i = newest me_sequence (history db i)"

text \<open>\<open>order_by("sequence", "id").first()\<close>.\<close>

fun oldest :: "('a \<Rightarrow> int) \<Rightarrow> 'a list \<Rightarrow> 'a option" where
  "oldest version [] = None"
| "oldest version (x # xs) = (case oldest version xs of
      None \<Rightarrow> Some x
    | Some y \<Rightarrow> Some (if version y < version x then y else x))"

definition artifact_state :: "'a registry_db_scheme \<Rightarrow> nat \<Rightarrow> model_lifecycle option" where
  "artifact_state db i = map_option me_to_state (latest_event db i)"

definition user_reference :: "int option \<Rightarrow> string" where
  "user_reference pk = ''user:'' @ (case pk of None \<Rightarrow> ''None'' | Some i \<Rightarrow> dump_int i)"

definition validate_compatibility_report :: "pydict \<Rightarrow> bool" where
  "validate_compatibility_report value =
     (has_exactly value REQUIRED_COMPATIBILITY_CHECKS \<and> list_all (\<lambda>p. is_boolean (snd p)) value)"

text \<open>The payloads that \<open>ModelLifecycleEvent.clean\<close> rebuilds from the columns.\<close>

definition row_approval_payload :: "lifecycle_row \<Rightarrow> string \<Rightarrow> pydict" where
  "row_approval_payload e sha256 = [
     (''approved_action'', PyStr (lifecycle_action_value (me_action e))),
     (''artifact_sha256'', PyStr sha256),
     (''compatibility'', PyDict [(''checks'', PyDict (sorted_items (me_compatibility e))), (''passed'', PyBool True),
        (''report_sha256'', PyStr (me_compatibility_sha256 e))]),
     (''evaluation_sha256'', PyStr (me_evaluation_sha256 e)),
     (''reason'', PyStr (me_reason e)),
     (''reviewer_id'', PyStr (user_reference (me_actor e))),
     (''reviewer_role'', PyStr (me_reviewer_role e))]"

definition row_event_payload :: "lifecycle_row \<Rightarrow> string \<Rightarrow> pydict" where
  "row_event_payload e sha256 = [
     (''action'', PyStr (lifecycle_action_value (me_action e))),
     (''actor_id'', opt_int (me_actor e)),
     (''approval_sha256'', PyStr (me_approval_sha256 e)),
     (''artifact_sha256'', PyStr sha256),
     (''compatibility_sha256'', PyStr (me_compatibility_sha256 e)),
     (''evaluation_sha256'', PyStr (me_evaluation_sha256 e)),
     (''from_state'', opt_str (map_option model_lifecycle_value (me_from_state e))),
     (''policy_version'', PyStr MODEL_LIFECYCLE_POLICY_VERSION),
     (''reason'', PyStr (me_reason e)),
     (''reviewer_role'', PyStr (me_reviewer_role e)),
     (''sequence'', PyInt (me_sequence e)),
     (''to_state'', PyStr (model_lifecycle_value (me_to_state e)))]"

definition registration_clean :: "lifecycle_row \<Rightarrow> bool" where
  "registration_clean e = (me_from_state e = None \<and> me_evaluation_sha256 e = [] \<and> me_compatibility e = [] \<and>
     me_compatibility_sha256 e = [] \<and> me_reviewer_role e = [] \<and> me_approval_sha256 e = [])"

definition transition_clean :: "lifecycle_row \<Rightarrow> string \<Rightarrow> bool" where
  "transition_clean e sha256 = (me_evaluation_sha256 e \<noteq> [] \<and> me_compatibility_sha256 e \<noteq> [] \<and>
     me_reviewer_role e \<noteq> [] \<and> me_approval_sha256 e \<noteq> [] \<and>
     validate_compatibility_report (me_compatibility e) \<and> list_all (\<lambda>p. is_true (snd p)) (me_compatibility e) \<and>
     me_compatibility_sha256 e = canonical_hash (PyDict (sorted_items (me_compatibility e))) \<and>
     me_approval_sha256 e = canonical_hash (PyDict (row_approval_payload e sha256)))"

definition blank_or_sha256 :: "string \<Rightarrow> bool" where
  "blank_or_sha256 s = (s = [] \<or> is_sha256_text s)"

definition event_full_clean :: "lifecycle_row \<Rightarrow> 'a registry_db_scheme \<Rightarrow> web_error option" where
  "event_full_clean e db = (let sha256 = artifact_sha db (me_artifact e) in raise_if
     (\<not> (0 \<le> me_sequence e \<and> me_sequence e \<le> 2147483647) \<or>
      \<not> blank_or_sha256 (me_evaluation_sha256 e) \<or> \<not> blank_or_sha256 (me_compatibility_sha256 e) \<or>
      me_reviewer_role e \<notin> {[], ''owner'', ''admin''} \<or> \<not> blank_or_sha256 (me_approval_sha256 e) \<or>
      \<not> text_column 1000 (me_reason e) \<or> me_actor e = None \<or> \<not> is_sha256_text (me_event_sha256 e) \<or>
      ga_organization (db_artifacts db ! me_artifact e) \<noteq> me_organization e \<or>
      \<not> (if me_action e = REGISTER then registration_clean e else transition_clean e sha256) \<or>
      me_event_sha256 e \<noteq> canonical_hash (PyDict (row_event_payload e sha256)) \<or>
      list_ex (\<lambda>o'. me_sequence o' = me_sequence e \<or> me_event_sha256 o' = me_event_sha256 e) (history db (me_artifact e)))
     (ValidationError ''model lifecycle event''))"

subsection \<open>governance_services.py: recording an event\<close>

definition require_model_admin ::
  "web_user \<Rightarrow> organization_row \<Rightarrow> 'a registry_db_scheme \<Rightarrow> registry_error + membership_role" where
  "require_model_admin actor organization db =
     and_then (from_web (require_minimum_role actor organization ADMIN db)) (\<lambda>m. Inr (mb_role m))"

definition validate_approval_actor :: "promotion_approval \<Rightarrow> web_user \<Rightarrow> membership_role \<Rightarrow> registry_error + unit" where
  "validate_approval_actor approval actor role =
     require (pa_reviewer_id approval = user_reference (wu_pk actor) \<and>
       pa_reviewer_role approval = membership_role_value role) (ModelGovernanceError ''approval_actor_mismatch'')"

definition approval_text :: "(promotion_approval \<Rightarrow> string) \<Rightarrow> promotion_approval option \<Rightarrow> string" where
  "approval_text f approval = (case approval of None \<Rightarrow> [] | Some a \<Rightarrow> f a)"

definition event_payload ::
  "string \<Rightarrow> model_lifecycle option \<Rightarrow> model_lifecycle \<Rightarrow> lifecycle_action \<Rightarrow> int option \<Rightarrow> string \<Rightarrow>
   promotion_approval option \<Rightarrow> int \<Rightarrow> pydict" where
  "event_payload sha256 current target action actor reason approval sequence = [
     (''action'', PyStr (lifecycle_action_value action)),
     (''actor_id'', opt_int actor),
     (''artifact_sha256'', PyStr sha256),
     (''compatibility_sha256'', PyStr (approval_text (cr_report_sha256 \<circ> pa_compatibility) approval)),
     (''evaluation_sha256'', PyStr (approval_text pa_evaluation_sha256 approval)),
     (''from_state'', opt_str (map_option model_lifecycle_value current)),
     (''policy_version'', PyStr ''model-lifecycle-v1''),
     (''approval_sha256'', PyStr (approval_text approval_sha256 approval)),
     (''reviewer_role'', PyStr (approval_text pa_reviewer_role approval)),
     (''reason'', PyStr reason),
     (''sequence'', PyInt sequence),
     (''to_state'', PyStr (model_lifecycle_value target))]"

definition new_event ::
  "nat \<Rightarrow> model_lifecycle option \<Rightarrow> model_lifecycle \<Rightarrow> lifecycle_action \<Rightarrow> web_user \<Rightarrow> string \<Rightarrow>
   promotion_approval option \<Rightarrow> 'a registry_db_scheme \<Rightarrow> lifecycle_row" where
  "new_event i current target action actor reason approval db =
     (let sequence = (case latest_event db i of None \<Rightarrow> 1 | Some e \<Rightarrow> me_sequence e + 1) in
      \<lparr>me_organization = ga_organization (db_artifacts db ! i), me_artifact = i, me_sequence = sequence,
        me_from_state = current, me_to_state = target, me_action = action,
        me_evaluation_sha256 = approval_text pa_evaluation_sha256 approval,
        me_compatibility = (case approval of None \<Rightarrow> [] | Some a \<Rightarrow> sorted_items (cr_checks (pa_compatibility a))),
        me_compatibility_sha256 = approval_text (cr_report_sha256 \<circ> pa_compatibility) approval,
        me_reviewer_role = approval_text pa_reviewer_role approval,
        me_approval_sha256 = approval_text approval_sha256 approval, me_reason = reason, me_actor = wu_pk actor,
        me_event_sha256 = canonical_hash (PyDict
          (event_payload (artifact_sha db i) current target action (wu_pk actor) reason approval sequence))\<rparr>)"

text \<open>\<open>_event\<close>.\<close>

definition record_event ::
  "nat \<Rightarrow> model_lifecycle option \<Rightarrow> model_lifecycle \<Rightarrow> lifecycle_action \<Rightarrow> web_user \<Rightarrow> string \<Rightarrow>
   promotion_approval option \<Rightarrow> 'a registry_db_scheme \<Rightarrow> registry_error + 'a registry_db_scheme \<times> lifecycle_row" where
  "record_event i current target action actor reason approval db =
     and_then (guard_raised (validate_model_transition current target action approval)) (\<lambda>_.
     and_then (require (case approval of None \<Rightarrow> True | Some a \<Rightarrow> pa_artifact_sha256 a = artifact_sha db i)
       (ModelGovernanceError ''approval_artifact_mismatch'')) (\<lambda>_.
     and_then (require (case approval of None \<Rightarrow> True | Some a \<Rightarrow> pa_reason a = reason)
       (ModelGovernanceError ''approval_reason_mismatch'')) (\<lambda>_.
     let e = new_event i current target action actor reason approval db in
     and_then (no_error (map_option Web_Error (event_full_clean e db))) (\<lambda>_.
     Inr (db\<lparr>db_events := db_events db @ [e]\<rparr>, e)))))"

subsection \<open>governance_services.py: registration and promotion\<close>

definition same_identity :: "artifact_identity \<Rightarrow> artifact_identity \<Rightarrow> bool" where
  "same_identity a b = (a\<lparr>gm_runtime_compatibility := []\<rparr> = b\<lparr>gm_runtime_compatibility := []\<rparr> \<and>
     py_eq (PyDict (gm_runtime_compatibility a)) (PyDict (gm_runtime_compatibility b)))"

definition registry_audit ::
  "int \<Rightarrow> web_user \<Rightarrow> string \<Rightarrow> string \<Rightarrow> string \<Rightarrow> pydict \<Rightarrow> audit_log" where
  "registry_audit organization actor action public_id correlation_id metadata =
     \<lparr>al_organization = organization, al_actor = wu_pk actor, al_action = action,
       al_resource_type = ''governed_model_artifact'', al_resource_public_id = public_id,
       al_correlation_id = correlation_id, al_metadata = metadata\<rparr>"

text \<open>The new row, its registration event and the audit row.\<close>

definition registration_transaction ::
  "(string \<Rightarrow> bool) \<Rightarrow> organization_row \<Rightarrow> web_user \<Rightarrow> artifact_identity \<Rightarrow> string \<Rightarrow> string \<Rightarrow> 'a registry_db_scheme \<Rightarrow>
   registry_error + 'a registry_db_scheme \<times> lifecycle_row" where
  "registration_transaction valid_host organization actor identity public_id correlation_id db =
     (let g = \<lparr>ga_organization = og_pk organization, ga_public_id = public_id, ga_identity = identity,
        ga_created_by = wu_pk actor\<rparr> in
      and_then (no_error (map_option Web_Error (artifact_full_clean valid_host g (db_artifacts db)))) (\<lambda>_.
      and_then (record_event (length (db_artifacts db)) None CANDIDATE REGISTER actor
          ''Registered exact immutable artifact as a candidate.'' None (db\<lparr>db_artifacts := db_artifacts db @ [g]\<rparr>))
        (\<lambda>(db1, e).
      and_then (from_web (record_audit (registry_audit (og_pk organization) actor ''risk.model_artifact.registered''
          public_id correlation_id [(''artifact_sha256'', PyStr (gm_artifact_sha256 identity)),
            (''artifact_version'', PyStr (gm_artifact_version identity)),
            (''model_name'', PyStr (gm_model_name identity))]) db1)) (\<lambda>db2. Inr (db2, e)))))"

definition register_model_artifact ::
  "(string \<Rightarrow> bool) \<Rightarrow> organization_row \<Rightarrow> web_user \<Rightarrow> artifact_identity \<Rightarrow> string \<Rightarrow> string \<Rightarrow> 'a registry_db_scheme \<Rightarrow>
   registry_error + 'a registry_db_scheme \<times> (nat \<times> lifecycle_row \<times> bool)" where
  "register_model_artifact valid_host organization actor identity public_id correlation_id db =
     and_then (require_model_admin actor organization db) (\<lambda>_.
     case index_of (\<lambda>g. ga_organization g = og_pk organization \<and>
         gm_model_name (ga_identity g) = gm_model_name identity \<and>
         gm_artifact_version (ga_identity g) = gm_artifact_version identity) (db_artifacts db) of
       Some i \<Rightarrow>
         if \<not> same_identity (ga_identity (db_artifacts db ! i)) identity
         then Inl (ModelGovernanceError ''artifact_version_identity_conflict'')
         else (case oldest me_sequence (history db i) of
             None \<Rightarrow> Inl (ModelGovernanceError ''artifact_registration_event_missing'')
           | Some e \<Rightarrow> Inr (db, i, e, False))
     | None \<Rightarrow>
         and_then (registration_transaction valid_host organization actor identity public_id correlation_id db)
           (\<lambda>(db', e). Inr (db', length (db_artifacts db), e, True)))"

definition find_artifact ::
  "organization_row \<Rightarrow> string \<Rightarrow> 'a registry_db_scheme \<Rightarrow> registry_error + nat" where
  "find_artifact organization public_id db =
     (case index_of (\<lambda>g. ga_organization g = og_pk organization \<and> ga_public_id g = public_id) (db_artifacts db) of
        None \<Rightarrow> Inl (Web_Error (Http404 ''model artifact not found''))
      | Some i \<Rightarrow> Inr i)"

definition promote_model_to_staging ::
  "organization_row \<Rightarrow> string \<Rightarrow> promotion_approval \<Rightarrow> web_user \<Rightarrow> string \<Rightarrow> 'a registry_db_scheme \<Rightarrow>
   registry_error + 'a registry_db_scheme \<times> lifecycle_row" where
  "promote_model_to_staging organization public_id approval actor correlation_id db =
     and_then (require_model_admin actor organization db) (\<lambda>role.
     and_then (validate_approval_actor approval actor role) (\<lambda>_.
     and_then (find_artifact organization public_id db) (\<lambda>i.
     and_then (record_event i (artifact_state db i) STAGING PROMOTE_TO_STAGING actor (pa_reason approval) (Some approval) db)
       (\<lambda>(db1, e).
     and_then (from_web (record_audit (registry_audit (og_pk organization) actor ''risk.model_artifact.staged''
         public_id correlation_id [(''artifact_version'', PyStr (gm_artifact_version (ga_identity (db_artifacts db ! i)))),
           (''event'', PyStr (me_event_sha256 e))]) db1)) (\<lambda>db2. Inr (db2, e))))))"

subsection \<open>governance_services.py: activation and rollback\<close>

definition deployment_full_clean :: "deployment_row \<Rightarrow> 'a registry_db_scheme \<Rightarrow> web_error option" where
  "deployment_full_clean d db = (let ours = (\<lambda>i. ga_organization (db_artifacts db ! i) = md_organization d \<and>
       gm_model_name (ga_identity (db_artifacts db ! i)) = md_model_name d) in raise_if
     (\<not> text_column 128 (md_model_name d) \<or> \<not> (0 \<le> md_generation d \<and> md_generation d \<le> 2147483647) \<or>
      \<not> ours (md_active_artifact d) \<or> (case md_rollback_artifact d of None \<Rightarrow> False | Some i \<Rightarrow> \<not> ours i) \<or>
      md_rollback_artifact d = Some (md_active_artifact d))
     (ValidationError ''model deployment''))"

definition find_deployment :: "int \<Rightarrow> string \<Rightarrow> 'a registry_db_scheme \<Rightarrow> nat option" where
  "find_deployment organization model_name db =
     index_of (\<lambda>d. md_organization d = organization \<and> md_model_name d = model_name) (db_deployments db)"

text \<open>\<open>full_clean\<close> and \<open>save\<close>: the row found before is updated, or the first one of the model inserted.\<close>

definition save_deployment ::
  "nat option \<Rightarrow> deployment_row \<Rightarrow> 'a registry_db_scheme \<Rightarrow> registry_error + 'a registry_db_scheme" where
  "save_deployment k d db =
     and_then (no_error (map_option Web_Error (deployment_full_clean d db))) (\<lambda>_.
     Inr (db\<lparr>db_deployments := (case k of None \<Rightarrow> db_deployments db @ [d] | Some j \<Rightarrow> (db_deployments db)[j := d])\<rparr>))"

definition retire_previous ::
  "nat \<Rightarrow> nat \<Rightarrow> promotion_approval option \<Rightarrow> web_user \<Rightarrow> membership_role \<Rightarrow> 'a registry_db_scheme \<Rightarrow>
   registry_error + 'a registry_db_scheme" where
  "retire_previous previous i retirement actor role db =
     (if previous = i then Inl (ModelGovernanceError ''artifact_already_active'')
      else (case retirement of
          None \<Rightarrow> Inl (ModelGovernanceError ''replacement_retirement_approval_required'')
        | Some a \<Rightarrow> and_then (validate_approval_actor a actor role) (\<lambda>_.
            and_then (record_event previous (artifact_state db previous) RETIRED RETIRE actor (pa_reason a) (Some a) db)
              (\<lambda>(db', e). Inr db'))))"

definition activated_deployment ::
  "int \<Rightarrow> string \<Rightarrow> nat \<Rightarrow> deployment_row option \<Rightarrow> deployment_row" where
  "activated_deployment organization model_name i deployment = (case deployment of
      None \<Rightarrow> \<lparr>md_organization = organization, md_model_name = model_name, md_active_artifact = i,
        md_rollback_artifact = None, md_generation = 1\<rparr>
    | Some d \<Rightarrow> d\<lparr>md_rollback_artifact := Some (md_active_artifact d), md_active_artifact := i,
        md_generation := md_generation d + 1\<rparr>)"

definition activate_model ::
  "organization_row \<Rightarrow> string \<Rightarrow> promotion_approval \<Rightarrow> web_user \<Rightarrow> promotion_approval option \<Rightarrow> string \<Rightarrow>
   'a registry_db_scheme \<Rightarrow> registry_error + 'a registry_db_scheme \<times> (deployment_row \<times> lifecycle_row)" where
  "activate_model organization public_id approval actor retirement correlation_id db =
     and_then (require_model_admin actor organization db) (\<lambda>role.
     and_then (validate_approval_actor approval actor role) (\<lambda>_.
     and_then (find_artifact organization public_id db) (\<lambda>i.
     let identity = ga_identity (db_artifacts db ! i);
       k = find_deployment (og_pk organization) (gm_model_name identity) db;
       deployment = map_option (\<lambda>j. db_deployments db ! j) k in
     and_then (case deployment of None \<Rightarrow> Inr db
         | Some d \<Rightarrow> retire_previous (md_active_artifact d) i retirement actor role db) (\<lambda>db1.
     and_then (record_event i (artifact_state db1 i) ACTIVE ACTIVATE actor (pa_reason approval) (Some approval) db1)
       (\<lambda>(db2, e).
     let d' = activated_deployment (og_pk organization) (gm_model_name identity) i deployment in
     and_then (save_deployment k d' db2) (\<lambda>db3.
     and_then (from_web (record_audit (registry_audit (og_pk organization) actor ''risk.model_artifact.activated''
         public_id correlation_id [(''artifact_version'', PyStr (gm_artifact_version identity)),
           (''event'', PyStr (me_event_sha256 e)), (''generation'', PyInt (md_generation d'))]) db3))
       (\<lambda>db4. Inr (db4, d', e))))))))"

definition rollback_model ::
  "organization_row \<Rightarrow> string \<Rightarrow> promotion_approval \<Rightarrow> promotion_approval \<Rightarrow> web_user \<Rightarrow> string \<Rightarrow> 'a registry_db_scheme \<Rightarrow>
   registry_error + 'a registry_db_scheme \<times> (deployment_row \<times> lifecycle_row)" where
  "rollback_model organization model_name approval retirement actor correlation_id db =
     and_then (require_model_admin actor organization db) (\<lambda>role.
     and_then (validate_approval_actor approval actor role) (\<lambda>_.
     and_then (validate_approval_actor retirement actor role) (\<lambda>_.
     case find_deployment (og_pk organization) model_name db of
       None \<Rightarrow> Inl (ModelGovernanceError ''rollback_artifact_unavailable'')
     | Some j \<Rightarrow> (let d = db_deployments db ! j; current = md_active_artifact d in
         case md_rollback_artifact d of
           None \<Rightarrow> Inl (ModelGovernanceError ''rollback_artifact_unavailable'')
         | Some target \<Rightarrow>
             and_then (record_event current (artifact_state db current) RETIRED RETIRE actor (pa_reason retirement)
               (Some retirement) db) (\<lambda>(db1, _).
             and_then (record_event target (artifact_state db1 target) ACTIVE ROLLBACK actor (pa_reason approval)
               (Some approval) db1) (\<lambda>(db2, e).
             let d' = d\<lparr>md_active_artifact := target, md_rollback_artifact := Some current,
               md_generation := md_generation d + 1\<rparr>; g = db_artifacts db ! target in
             and_then (save_deployment (Some j) d' db2) (\<lambda>db3.
             and_then (from_web (record_audit (registry_audit (og_pk organization) actor ''risk.model_artifact.rolled_back''
                 (ga_public_id g) correlation_id [(''artifact_version'', PyStr (gm_artifact_version (ga_identity g))),
                   (''event'', PyStr (me_event_sha256 e)), (''generation'', PyInt (md_generation d'))]) db3))
               (\<lambda>db4. Inr (db4, d', e)))))))))"

end
