(* ===== verification/RegistryProofs.thy ===== *)
theory RegistryProofs
  imports ModelRegistry GovernanceProofs
begin

section \<open>The model registry: one active artifact, named by its deployment\<close>

text \<open>
  \<open>registry_step\<close> is one committed call of the registry, or any change of other tables. Its invariant has two
  parts: the books (each artifact's events are numbered 1, 2, ... and form a legal lifecycle) and the pointers (a
  deployment names an active artifact and a retired one, and an active artifact is named). An operation moves the
  states and the pointers together; in between they disagree, so the two parts are kept apart.
\<close>

lemma from_web_Inr [simp]: "from_web r = Inr x \<longleftrightarrow> r = Inr x"
  by (simp add: from_web_def split: sum.splits)

lemma no_error_Inr [simp]: "no_error r = Inr u \<longleftrightarrow> r = None"
  by (simp add: no_error_def split: option.splits)

lemma guard_raised_Inr [simp]: "guard_raised r = Inr u \<longleftrightarrow> r = None"
  by (simp add: guard_raised_def)

lemma record_audit_same:
  assumes "record_audit entry db = Inr db'"
  shows "db' = db\<lparr>db_audit := db_audit db @ [entry]\<rparr>"
  using assms by (simp add: record_audit_def split: option.splits)

subsection \<open>Books\<close>

fun chain_from :: "model_lifecycle option \<Rightarrow> lifecycle_row list \<Rightarrow> bool" where
  "chain_from s [] = True"
| "chain_from s (e # es) = (me_from_state e = s \<and> expected_action s (me_to_state e) = Some (me_action e) \<and>
     chain_from (Some (me_to_state e)) es)"

definition end_state :: "model_lifecycle option \<Rightarrow> lifecycle_row list \<Rightarrow> model_lifecycle option" where
  "end_state s es = (if es = [] then s else Some (me_to_state (last es)))"

lemma chain_from_snoc:
  "chain_from s (es @ [e]) \<longleftrightarrow> chain_from s es \<and> me_from_state e = end_state s es \<and>
     expected_action (end_state s es) (me_to_state e) = Some (me_action e)"
  by (induction es arbitrary: s) (auto simp: end_state_def)

lemma chain_actions: "chain_from None es \<Longrightarrow> actions_of (end_state None es) (map me_action es)"
proof (induction es rule: rev_induct)
  case (snoc e es)
  then have "actions_of (Some (me_to_state e)) (map me_action es @ [me_action e])"
    by (intro actions_step [of "end_state None es"]) (auto simp: chain_from_snoc)
  then show ?case by (simp add: end_state_def)
qed (simp add: end_state_def)

definition numbered :: "lifecycle_row list \<Rightarrow> bool" where
  "numbered es = (map me_sequence es = map int [1..<Suc (length es)])"

definition books_ok :: "'a registry_db_scheme \<Rightarrow> bool" where
  "books_ok db = ((\<forall>i. chain_from None (history db i) \<and> numbered (history db i)) \<and>
     (\<forall>e \<in> set (db_events db). me_artifact e < length (db_artifacts db)))"

lemma newest_snoc: "(\<And>y. y \<in> set xs \<Longrightarrow> v y \<le> v x) \<Longrightarrow> newest v (xs @ [x]) = Some x"
  by (induction xs) fastforce+

lemma numbered_snoc: "numbered (es @ [e]) \<longleftrightarrow> numbered es \<and> me_sequence e = int (length es) + 1"
  by (auto simp: numbered_def)

lemma numbered_below: "numbered es \<Longrightarrow> e \<in> set es \<Longrightarrow> me_sequence e \<le> int (length es)"
proof -
  assume n: "numbered es" and "e \<in> set es"
  then have "me_sequence e \<in> set (map me_sequence es)" by simp
  with n show ?thesis unfolding numbered_def by auto
qed

lemma newest_numbered:
  assumes "numbered es"
  shows "newest me_sequence es = (if es = [] then None else Some (last es))"
proof (cases es rule: rev_cases)
  case (snoc fs e)
  with assms have "newest me_sequence (fs @ [e]) = Some e"
    by (intro newest_snoc) (auto simp: numbered_snoc dest!: numbered_below)
  with snoc show ?thesis by simp
qed simp

lemma numbered_last: "numbered es \<Longrightarrow> es \<noteq> [] \<Longrightarrow> me_sequence (last es) = int (length es)"
  by (cases es rule: rev_cases) (auto simp: numbered_snoc)

lemma state_is_end: "books_ok db \<Longrightarrow> artifact_state db i = end_state None (history db i)"
  by (simp add: books_ok_def artifact_state_def latest_event_def newest_numbered end_state_def)

lemma history_append:
  "history (db\<lparr>db_events := db_events db @ [e]\<rparr>) j = history db j @ (if me_artifact e = j then [e] else [])"
  by (simp add: history_def)

lemma new_event_simps [simp]:
  "me_artifact (new_event i s t a actor reason p db) = i" "me_from_state (new_event i s t a actor reason p db) = s"
  "me_to_state (new_event i s t a actor reason p db) = t" "me_action (new_event i s t a actor reason p db) = a"
  "me_actor (new_event i s t a actor reason p db) = wu_pk actor" "me_reason (new_event i s t a actor reason p db) = reason"
  "me_organization (new_event i s t a actor reason p db) = ga_organization (db_artifacts db ! i)"
  by (simp_all add: new_event_def Let_def)

lemma new_event_sequence:
  "books_ok db \<Longrightarrow> me_sequence (new_event i s t a actor reason p db) = int (length (history db i)) + 1"
  by (simp add: new_event_def Let_def latest_event_def books_ok_def newest_numbered numbered_last)

lemma record_event_Inr:
  assumes "record_event i s t a actor reason p db = Inr (db', e)"
  shows "e = new_event i s t a actor reason p db" "db' = db\<lparr>db_events := db_events db @ [e]\<rparr>"
    "expected_action s t = Some a" "event_full_clean e db = None"
  using assms by (auto simp: record_event_def and_then_Inr Let_def dest: transition_event)

text \<open>A recorded event moves its own artifact to the target and leaves the others alone.\<close>

lemma record_event_books:
  assumes "books_ok db" "i < length (db_artifacts db)"
    and "record_event i (artifact_state db i) t a actor reason p db = Inr (db', e)"
  shows "books_ok db'" "artifact_state db' = (artifact_state db)(i := Some t)"
    "db_artifacts db' = db_artifacts db" "db_deployments db' = db_deployments db"
proof -
  note r = record_event_Inr [OF assms(3)]
  let ?e = "new_event i (artifact_state db i) t a actor reason p db"
  have h: "history db' j = history db j @ (if i = j then [?e] else [])" for j
    unfolding r(2) history_append by (simp add: r(1))
  have "chain_from None (history db' j) \<and> numbered (history db' j)" for j
    using assms(1) new_event_sequence [OF assms(1), of i "artifact_state db i" t a actor reason p] r(3)
      state_is_end [OF assms(1), of i]
    unfolding h by (auto simp: books_ok_def chain_from_snoc numbered_snoc)
  with assms(1,2) show books: "books_ok db'" by (auto simp: books_ok_def r(1,2))
  show "artifact_state db' = (artifact_state db)(i := Some t)"
  proof
    fix j
    show "artifact_state db' j = ((artifact_state db)(i := Some t)) j"
      unfolding state_is_end [OF books] h using state_is_end [OF assms(1), of j] by (auto simp: end_state_def)
  qed
  show "db_artifacts db' = db_artifacts db" "db_deployments db' = db_deployments db" by (simp_all add: r(2))
qed

subsection \<open>Pointers\<close>

definition deployment_key :: "deployment_row \<Rightarrow> int \<times> string" where
  "deployment_key d = (md_organization d, md_model_name d)"

definition artifact_key :: "governed_artifact \<Rightarrow> int \<times> string" where
  "artifact_key g = (ga_organization g, gm_model_name (ga_identity g))"

definition stands :: "(nat \<Rightarrow> model_lifecycle option) \<Rightarrow> governed_artifact list \<Rightarrow> nat \<Rightarrow> model_lifecycle \<Rightarrow>
    deployment_row \<Rightarrow> bool" where
  "stands st arts i s d = (i < length arts \<and> st i = Some s \<and> artifact_key (arts ! i) = deployment_key d)"

definition pointers_ok :: "(nat \<Rightarrow> model_lifecycle option) \<Rightarrow> governed_artifact list \<Rightarrow> deployment_row list \<Rightarrow> bool" where
  "pointers_ok st arts deps = (distinct (map deployment_key deps) \<and>
     (\<forall>d \<in> set deps. stands st arts (md_active_artifact d) ACTIVE d \<and>
       (case md_rollback_artifact d of None \<Rightarrow> True | Some r \<Rightarrow> stands st arts r RETIRED d)) \<and>
     (\<forall>i < length arts. st i = Some ACTIVE \<longrightarrow> (\<exists>d \<in> set deps. md_active_artifact d = i)))"

lemma stands_key: "stands st arts i s d \<Longrightarrow> stands st' arts i s' d' \<Longrightarrow> deployment_key d = deployment_key d'"
  by (auto simp: stands_def)

text \<open>Another state for an artifact without a pointer that is not and does not become active.\<close>

lemma pointers_keep:
  assumes "pointers_ok st arts deps" "\<And>i. i < length arts \<Longrightarrow> st i \<in> {Some ACTIVE, Some RETIRED} \<Longrightarrow> st' i = st i"
    and "\<And>i. st' i = Some ACTIVE \<Longrightarrow> st i = Some ACTIVE"
  shows "pointers_ok st' arts deps"
proof -
  have keep: "stands st' arts i s d" if "stands st arts i s d" "s \<in> {ACTIVE, RETIRED}" for i s d
    using that assms(2) [of i] by (auto simp: stands_def)
  show ?thesis
    using assms(1,3) keep unfolding pointers_ok_def by (auto split: option.splits)
qed

lemma pointers_insert:
  assumes ok: "pointers_ok st arts deps" and i: "i < length arts" "st i = Some STAGING"
    and d: "artifact_key (arts ! i) = deployment_key d" "md_active_artifact d = i" "md_rollback_artifact d = None"
    and new: "\<forall>d' \<in> set deps. deployment_key d' \<noteq> deployment_key d"
  shows "pointers_ok (st(i := Some ACTIVE)) arts (deps @ [d])"
proof -
  have keep: "stands (st(i := Some ACTIVE)) arts x s d'" if "stands st arts x s d'" "s \<in> {ACTIVE, RETIRED}" for x s d'
    using that i by (auto simp: stands_def)
  have "stands (st(i := Some ACTIVE)) arts i ACTIVE d" using i d by (simp add: stands_def)
  with ok keep d new show ?thesis unfolding pointers_ok_def by (auto split: option.splits)
qed

text \<open>The swap that an activation over a running model and a rollback both make.\<close>

lemma pointers_swap:
  assumes ok: "pointers_ok st arts deps" and j: "j < length deps" and d: "deps ! j = d"
    and x: "x < length arts" "artifact_key (arts ! x) = deployment_key d" "x \<noteq> md_active_artifact d"
    and d': "deployment_key d' = deployment_key d" "md_active_artifact d' = x"
      "md_rollback_artifact d' = Some (md_active_artifact d)"
  shows "pointers_ok (st(md_active_artifact d := Some RETIRED, x := Some ACTIVE)) arts (deps[j := d'])"
proof -
  let ?a = "md_active_artifact d" and ?st = "st(md_active_artifact d := Some RETIRED, x := Some ACTIVE)"
  have a: "stands st arts ?a ACTIVE d" using ok j d unfolding pointers_ok_def by (metis nth_mem)
  have dist: "distinct (map deployment_key deps)" using ok by (simp add: pointers_ok_def)
  have other: "deployment_key (deps ! k) \<noteq> deployment_key d" if "k < length deps" "k \<noteq> j" for k
    using nth_eq_iff_index_eq [OF dist, of k j] that j d by auto
  have keep: "stands ?st arts y s (deps ! k)" if "stands st arts y s (deps ! k)" "k < length deps" "k \<noteq> j" for y s k
    using that other [of k] a x by (auto simp: stands_def)
  have mine: "stands ?st arts x ACTIVE d'" "stands ?st arts ?a RETIRED d'"
    using a x d' by (auto simp: stands_def)
  have each: "stands ?st arts (md_active_artifact (deps[j := d'] ! k)) ACTIVE (deps[j := d'] ! k) \<and>
      (case md_rollback_artifact (deps[j := d'] ! k) of None \<Rightarrow> True | Some r \<Rightarrow> stands ?st arts r RETIRED (deps[j := d'] ! k))"
    if k: "k < length deps" for k
  proof (cases "k = j")
    case False
    moreover have "stands st arts (md_active_artifact (deps ! k)) ACTIVE (deps ! k) \<and>
        (case md_rollback_artifact (deps ! k) of None \<Rightarrow> True | Some r \<Rightarrow> stands st arts r RETIRED (deps ! k))"
      using ok k unfolding pointers_ok_def by (metis nth_mem)
    ultimately show ?thesis using keep k by (auto split: option.splits)
  qed (use mine d' j in simp)
  have "\<exists>e \<in> set (deps[j := d']). md_active_artifact e = y" if y: "y < length arts" "?st y = Some ACTIVE" for y
  proof (cases "y = x")
    case True
    then show ?thesis using d' set_update_memI [OF j, of d'] by blast
  next
    case False
    with y have "st y = Some ACTIVE" "y \<noteq> ?a" by (auto split: if_splits)
    with ok y obtain k where "k < length deps" "md_active_artifact (deps ! k) = y"
      unfolding pointers_ok_def by (metis in_set_conv_nth)
    moreover from this d \<open>y \<noteq> ?a\<close> have "k \<noteq> j" by auto
    ultimately have "deps[j := d'] ! k = deps ! k" "k < length (deps[j := d'])" by simp_all
    with \<open>md_active_artifact (deps ! k) = y\<close> show ?thesis by (metis nth_mem)
  qed
  moreover have "map deployment_key (deps[j := d']) = map deployment_key deps"
    using d' d j by (simp add: map_update list_update_same_conv)
  ultimately show ?thesis using each dist unfolding pointers_ok_def by (simp add: all_set_conv_all_nth)
qed

subsection \<open>The invariant\<close>

definition registry_ok :: "'a registry_db_scheme \<Rightarrow> bool" where
  "registry_ok db = (books_ok db \<and> pointers_ok (artifact_state db) (db_artifacts db) (db_deployments db) \<and>
     (\<forall>i < length (db_artifacts db). history db i \<noteq> []) \<and>
     distinct (map (\<lambda>g. (artifact_key g, gm_artifact_version (ga_identity g))) (db_artifacts db)) \<and>
     distinct (map (\<lambda>g. (artifact_key g, gm_artifact_sha256 (ga_identity g))) (db_artifacts db)))"

definition registry_tables ::
  "'a registry_db_scheme \<Rightarrow> governed_artifact list \<times> lifecycle_row list \<times> deployment_row list" where
  "registry_tables db = (db_artifacts db, db_events db, db_deployments db)"

lemma same_tables:
  assumes "registry_tables db' = registry_tables db"
  shows "history db' = history db" "artifact_state db' = artifact_state db" "books_ok db' = books_ok db"
    "registry_ok db' = registry_ok db"
proof -
  from assms have t: "db_artifacts db' = db_artifacts db" "db_events db' = db_events db"
      "db_deployments db' = db_deployments db" by (simp_all add: registry_tables_def)
  then show h: "history db' = history db" by (simp add: history_def fun_eq_iff)
  then show st: "artifact_state db' = artifact_state db" by (simp add: fun_eq_iff artifact_state_def latest_event_def)
  from h t show "books_ok db' = books_ok db" by (simp add: books_ok_def)
  with h st t show "registry_ok db' = registry_ok db" by (simp add: registry_ok_def)
qed

lemma audit_tables: "record_audit entry db = Inr db' \<Longrightarrow> registry_tables db' = registry_tables db"
  by (drule record_audit_same) (simp add: registry_tables_def)

text \<open>Recording an event writes no artifact and no deployment, and loses no history.\<close>

lemma record_event_history:
  assumes "record_event i s t a actor reason p db = Inr (db', e)" "history db j \<noteq> []"
  shows "history db' j \<noteq> []"
  using assms record_event_Inr(2) [OF assms(1)] by (simp add: history_append)

lemma find_artifact_Inr:
  assumes "find_artifact organization public_id db = Inr i"
  shows "i < length (db_artifacts db)" "ga_organization (db_artifacts db ! i) = og_pk organization"
  using assms by (auto simp: find_artifact_def split: option.splits dest!: index_of_Some)

lemma find_deployment_Some:
  assumes "find_deployment organization model_name db = Some j"
  shows "j < length (db_deployments db)" "deployment_key (db_deployments db ! j) = (organization, model_name)"
  using assms by (auto simp: find_deployment_def deployment_key_def dest!: index_of_Some)

lemma find_deployment_None:
  "find_deployment organization model_name db = None \<Longrightarrow> d \<in> set (db_deployments db) \<Longrightarrow>
     deployment_key d \<noteq> (organization, model_name)"
  by (auto simp: find_deployment_def deployment_key_def index_of_None)

lemma save_deployment_Inr:
  assumes "save_deployment k d db = Inr db'"
  shows "db' = db\<lparr>db_deployments := (case k of None \<Rightarrow> db_deployments db @ [d] | Some j \<Rightarrow> (db_deployments db)[j := d])\<rparr>"
  using assms by (auto simp: save_deployment_def and_then_Inr)

lemma books_deployments [simp]: "books_ok (db\<lparr>db_deployments := ds\<rparr>) = books_ok db"
  "artifact_state (db\<lparr>db_deployments := ds\<rparr>) = artifact_state db" "history (db\<lparr>db_deployments := ds\<rparr>) = history db"
  by (simp_all add: books_ok_def history_def fun_eq_iff artifact_state_def latest_event_def)

lemma pointers_register:
  assumes "pointers_ok st arts deps"
  shows "pointers_ok (st(length arts := Some CANDIDATE)) (arts @ [g]) deps"
proof -
  have "stands (st(length arts := Some CANDIDATE)) (arts @ [g]) i s d" if "stands st arts i s d" for i s d
    using that by (auto simp: stands_def nth_append)
  with assms show ?thesis unfolding pointers_ok_def by (auto simp: less_Suc_eq split: option.splits)
qed

lemma registration_ok:
  assumes ok: "registry_ok db"
    and r: "registration_transaction valid_host organization actor identity public_id correlation_id db = Inr (db', e)"
  shows "registry_ok db'"
proof -
  let ?g = "\<lparr>ga_organization = og_pk organization, ga_public_id = public_id, ga_identity = identity,
    ga_created_by = wu_pk actor\<rparr>" and ?n = "length (db_artifacts db)"
  let ?db = "db\<lparr>db_artifacts := db_artifacts db @ [?g]\<rparr>"
  from r obtain db1 entry where clean: "artifact_full_clean valid_host ?g (db_artifacts db) = None"
      and ev: "record_event ?n None CANDIDATE REGISTER actor ''Registered exact immutable artifact as a candidate.'' None ?db
        = Inr (db1, e)" and audit: "record_audit entry db1 = Inr db'"
    by (auto simp: registration_transaction_def Let_def and_then_Inr)
  have hist: "history ?db = history db" "artifact_state ?db = artifact_state db"
    by (simp_all add: history_def artifact_state_def latest_event_def fun_eq_iff)
  have fresh: "history db ?n = []" using ok by (auto simp: registry_ok_def books_ok_def history_def filter_empty_conv)
  then have none: "artifact_state ?db ?n = None" unfolding hist by (simp add: artifact_state_def latest_event_def)
  have "books_ok ?db" using ok by (auto simp: registry_ok_def books_ok_def hist less_SucI)
  note b = record_event_books [OF this _ ev [folded none], simplified]
  have "history db1 i = history db i @ (if ?n = i then [e] else [])" for i
    unfolding record_event_Inr(2) [OF ev] history_append hist by (simp add: record_event_Inr(1) [OF ev])
  then have "history db1 i \<noteq> []" if "i < Suc ?n" for i
    using that ok by (auto simp: less_Suc_eq registry_ok_def)
  moreover have "pointers_ok (artifact_state db1) (db_artifacts db1) (db_deployments db1)"
    unfolding b(2,3,4) hist using ok by (simp add: registry_ok_def pointers_register)
  moreover have "\<not> list_ex (artifact_exists (og_pk organization) (gm_model_name identity) (gm_artifact_version identity)
      (gm_artifact_sha256 identity)) (db_artifacts db)"
    using clean by (auto simp: artifact_full_clean_def Let_def list_ex_iff)
  ultimately have "registry_ok db1"
    using ok b(1,3) by (auto simp: registry_ok_def list_ex_iff artifact_exists_def artifact_key_def)
  with same_tables(4) [OF audit_tables [OF audit]] show ?thesis by simp
qed

lemma promotion_ok:
  assumes ok: "registry_ok db" and r: "promote_model_to_staging organization public_id p actor correlation_id db = Inr (db', e)"
  shows "registry_ok db'"
proof -
  from r obtain i db1 entry where i: "i < length (db_artifacts db)"
      and ev: "record_event i (artifact_state db i) STAGING PROMOTE_TO_STAGING actor (pa_reason p) (Some p) db = Inr (db1, e)"
      and audit: "record_audit entry db1 = Inr db'"
    by (auto simp: promote_model_to_staging_def and_then_Inr dest: find_artifact_Inr)
  have "books_ok db" using ok by (simp add: registry_ok_def)
  note b = record_event_books [OF this i ev]
  from record_event_Inr(3) [OF ev] have c: "artifact_state db i = Some CANDIDATE"
    by (cases "(artifact_state db i, STAGING)" rule: expected_action.cases) simp_all
  have "pointers_ok ((artifact_state db)(i := Some STAGING)) (db_artifacts db) (db_deployments db)"
  proof (rule pointers_keep)
    show "pointers_ok (artifact_state db) (db_artifacts db) (db_deployments db)" using ok by (simp add: registry_ok_def)
  qed (simp_all add: c split: if_splits, auto simp: c)
  then have "pointers_ok (artifact_state db1) (db_artifacts db1) (db_deployments db1)" by (simp only: b(2-4))
  moreover have "\<forall>j < length (db_artifacts db). history db1 j \<noteq> []"
    using ok record_event_history [OF ev] by (simp add: registry_ok_def)
  ultimately have "registry_ok db1" using ok b(1) unfolding registry_ok_def b(3) by blast
  with same_tables(4) [OF audit_tables [OF audit]] show ?thesis by simp
qed

lemma expected_activation: "expected_action s ACTIVE = Some ACTIVATE \<Longrightarrow> s = Some STAGING"
  by (cases "(s, ACTIVE)" rule: expected_action.cases) simp_all

lemma deployed_active:
  assumes "registry_ok db" "j < length (db_deployments db)"
  shows "stands (artifact_state db) (db_artifacts db) (md_active_artifact (db_deployments db ! j)) ACTIVE (db_deployments db ! j)"
    "md_rollback_artifact (db_deployments db ! j) = Some r \<Longrightarrow>
       stands (artifact_state db) (db_artifacts db) r RETIRED (db_deployments db ! j)"
  using assms unfolding registry_ok_def pointers_ok_def by (metis nth_mem, metis (no_types, lifting) nth_mem option.simps(5))

text \<open>Two events, retirement and start of a model, followed by the new pointers.\<close>

lemma replacement_ok:
  assumes ok: "registry_ok db" and j: "j < length (db_deployments db)" and d: "d = db_deployments db ! j"
    and x: "x < length (db_artifacts db)" "artifact_key (db_artifacts db ! x) = deployment_key d" "x \<noteq> md_active_artifact d"
    and ev1: "record_event (md_active_artifact d) (artifact_state db (md_active_artifact d)) RETIRED RETIRE actor r1 p1 db = Inr (db1, e1)"
    and ev2: "record_event x (artifact_state db1 x) ACTIVE act actor r2 p2 db1 = Inr (db2, e2)"
    and d': "deployment_key d' = deployment_key d" "md_active_artifact d' = x"
      "md_rollback_artifact d' = Some (md_active_artifact d)"
    and save: "save_deployment (Some j) d' db2 = Inr db3"
  shows "registry_ok db3"
proof -
  let ?a = "md_active_artifact d"
  have "books_ok db" "pointers_ok (artifact_state db) (db_artifacts db) (db_deployments db)" using ok by (simp_all add: registry_ok_def)
  note swap = pointers_swap [OF this(2) j d [symmetric] x d']
  have "?a < length (db_artifacts db)" using deployed_active(1) [OF ok j] by (simp add: stands_def d)
  note b1 = record_event_books [OF \<open>books_ok db\<close> this ev1]
  have "x < length (db_artifacts db1)" using x(1) by (simp only: b1(3))
  note b2 = record_event_books [OF b1(1) this ev2]
  note s = save_deployment_Inr [OF save, simplified]
  have "pointers_ok (artifact_state db3) (db_artifacts db3) (db_deployments db3)"
    using swap by (simp add: s b1(2-4) b2(2-4))
  moreover have "\<forall>i < length (db_artifacts db). history db3 i \<noteq> []"
    using ok record_event_history [OF ev1] record_event_history [OF ev2] by (simp add: s registry_ok_def)
  moreover have "books_ok db3" "db_artifacts db3 = db_artifacts db" using b2(1) by (simp_all add: s b1(3) b2(3))
  ultimately show ?thesis using ok by (simp add: registry_ok_def)
qed

lemma first_activation_ok:
  assumes ok: "registry_ok db" and i: "i < length (db_artifacts db)"
    and ev: "record_event i (artifact_state db i) ACTIVE ACTIVATE actor r p db = Inr (db1, e)"
    and d: "artifact_key (db_artifacts db ! i) = deployment_key d" "md_active_artifact d = i" "md_rollback_artifact d = None"
    and new: "\<forall>d' \<in> set (db_deployments db). deployment_key d' \<noteq> deployment_key d"
    and save: "save_deployment None d db1 = Inr db2"
  shows "registry_ok db2"
proof -
  have "books_ok db" "pointers_ok (artifact_state db) (db_artifacts db) (db_deployments db)" using ok by (simp_all add: registry_ok_def)
  note b = record_event_books [OF this(1) i ev]
  note s = save_deployment_Inr [OF save, simplified]
  from record_event_Inr(3) [OF ev] have "artifact_state db i = Some STAGING" by (rule expected_activation)
  from pointers_insert [OF \<open>pointers_ok _ _ _\<close> i this d new]
  have "pointers_ok (artifact_state db2) (db_artifacts db2) (db_deployments db2)" by (simp add: s b(2-4))
  moreover have "\<forall>i < length (db_artifacts db). history db2 i \<noteq> []"
    using ok record_event_history [OF ev] by (simp add: s registry_ok_def)
  moreover have "books_ok db2" "db_artifacts db2 = db_artifacts db" using b(1) by (simp_all add: s b(3))
  ultimately show ?thesis using ok by (simp add: registry_ok_def)
qed

lemma activation_ok:
  assumes ok: "registry_ok db"
    and r: "activate_model organization public_id p actor retirement correlation_id db = Inr (db', result)"
  shows "registry_ok db'"
proof -
  from r obtain i role where f: "find_artifact organization public_id db = Inr i"
    by (auto simp: activate_model_def and_then_Inr)
  note i = find_artifact_Inr [OF f]
  let ?name = "gm_model_name (ga_identity (db_artifacts db ! i))"
  let ?k = "find_deployment (og_pk organization) ?name db"
  let ?dep = "map_option (\<lambda>j. db_deployments db ! j) ?k"
  let ?d' = "activated_deployment (og_pk organization) ?name i ?dep"
  have key: "artifact_key (db_artifacts db ! i) = (og_pk organization, ?name)" using i by (simp add: artifact_key_def)
  from r f obtain role db1 db2 e db3 entry where
      old: "(case ?dep of None \<Rightarrow> Inr db | Some d \<Rightarrow> retire_previous (md_active_artifact d) i retirement actor role db) = Inr db1"
      and ev: "record_event i (artifact_state db1 i) ACTIVE ACTIVATE actor (pa_reason p) (Some p) db1 = Inr (db2, e)"
      and save: "save_deployment ?k ?d' db2 = Inr db3" and audit: "record_audit entry db3 = Inr db'"
    by (auto simp: activate_model_def and_then_Inr Let_def)
  have "registry_ok db3"
  proof (cases ?k)
    case None
    with old have "db1 = db" by simp
    with first_activation_ok [OF ok i(1), of actor "pa_reason p" "Some p" db2 e ?d' db3] ev save None key
      find_deployment_None [OF None] show ?thesis by (simp add: activated_deployment_def deployment_key_def)
  next
    case (Some j)
    let ?d = "db_deployments db ! j"
    note j = find_deployment_Some [OF Some]
    from old Some obtain q e1 where "i \<noteq> md_active_artifact ?d" and
        ev1: "record_event (md_active_artifact ?d) (artifact_state db (md_active_artifact ?d)) RETIRED RETIRE actor
          (pa_reason q) (Some q) db = Inr (db1, e1)"
      by (auto simp: retire_previous_def and_then_Inr split: if_splits option.splits)
    from replacement_ok [OF ok j(1) refl i(1) _ this(1) ev1 ev, of ?d' db3] save Some key j(2)
    show ?thesis by (simp add: activated_deployment_def deployment_key_def)
  qed
  with same_tables(4) [OF audit_tables [OF audit]] show ?thesis by simp
qed

lemma rollback_ok:
  assumes ok: "registry_ok db"
    and r: "rollback_model organization model_name p q actor correlation_id db = Inr (db', result)"
  shows "registry_ok db'"
proof -
  from r obtain j where k: "find_deployment (og_pk organization) model_name db = Some j"
    by (auto simp: rollback_model_def and_then_Inr split: option.splits)
  let ?d = "db_deployments db ! j"
  note j = find_deployment_Some [OF k]
  from r k obtain x db1 e1 db2 e db3 entry where
      x: "md_rollback_artifact ?d = Some x" and
      ev1: "record_event (md_active_artifact ?d) (artifact_state db (md_active_artifact ?d)) RETIRED RETIRE actor
        (pa_reason q) (Some q) db = Inr (db1, e1)" and
      ev: "record_event x (artifact_state db1 x) ACTIVE ROLLBACK actor (pa_reason p) (Some p) db1 = Inr (db2, e)" and
      save: "save_deployment (Some j) (?d\<lparr>md_active_artifact := x, md_rollback_artifact := Some (md_active_artifact ?d),
        md_generation := md_generation ?d + 1\<rparr>) db2 = Inr db3" and audit: "record_audit entry db3 = Inr db'"
    by (auto simp: rollback_model_def and_then_Inr Let_def split: option.splits)
  note stand = deployed_active [OF ok j(1)]
  have "x \<noteq> md_active_artifact ?d" using stand(1) stand(2) [OF x] by (auto simp: stands_def)
  then have "registry_ok db3"
    using replacement_ok [OF ok j(1) refl _ _ _ ev1 ev _ _ _ save] stand(1) stand(2) [OF x]
    by (auto simp: stands_def deployment_key_def)
  with same_tables(4) [OF audit_tables [OF audit]] show ?thesis by simp
qed

subsection \<open>Every reachable registry\<close>

inductive registry_step :: "'a registry_db_scheme \<Rightarrow> 'a registry_db_scheme \<Rightarrow> bool" where
  register: "registry_step db (fst (atomic (register_model_artifact valid_host organization actor identity public_id cid) db))"
| promote: "registry_step db (fst (atomic (promote_model_to_staging organization public_id approval actor cid) db))"
| activate: "registry_step db (fst (atomic (activate_model organization public_id approval actor retirement cid) db))"
| rollback: "registry_step db (fst (atomic (rollback_model organization model_name approval retirement_approval actor cid) db))"
| elsewhere: "registry_tables db' = registry_tables db \<Longrightarrow> registry_step db db'"

lemma atomic_keeps:
  assumes "P db" "\<And>db' x. body db = Inr (db', x) \<Longrightarrow> P db'"
  shows "P (fst (atomic body db))"
  using assms by (auto simp: atomic_def split: sum.splits)

lemma register_ok:
  assumes ok: "registry_ok db"
    and r: "register_model_artifact valid_host organization actor identity public_id cid db = Inr (db', x)"
  shows "registry_ok db'"
proof -
  from r have "db' = db \<or> (\<exists>e. registration_transaction valid_host organization actor identity public_id cid db = Inr (db', e))"
    by (auto simp: register_model_artifact_def and_then_Inr split: option.splits if_splits)
  with ok registration_ok [OF ok] show ?thesis by blast
qed

lemma registry_step_ok: "registry_step db db' \<Longrightarrow> registry_ok db \<Longrightarrow> registry_ok db'"
proof (induction rule: registry_step.induct)
  case (elsewhere db' db)
  then show ?case using same_tables(4) by blast
next
  case (rollback db organization model_name approval retirement_approval actor cid)
  show ?case by (rule atomic_keeps [where P = registry_ok]) (use rollback rollback_ok in \<open>auto simp: split_paired_all\<close>)
next
  case (register db valid_host organization actor identity public_id cid)
  then show ?case by (rule atomic_keeps) (rule register_ok [OF register])
next
  case (promote db organization public_id approval actor cid)
  then show ?case by (rule atomic_keeps) (rule promotion_ok [OF promote])
next
  case (activate db organization public_id approval actor retirement cid)
  then show ?case by (rule atomic_keeps) (rule activation_ok [OF activate])
qed

lemma registry_run_ok: "registry_step\<^sup>*\<^sup>* db db' \<Longrightarrow> registry_ok db \<Longrightarrow> registry_ok db'"
  by (induction rule: rtranclp_induct) (auto dest: registry_step_ok)

definition empty_registry :: "'a registry_db_scheme \<Rightarrow> bool" where
  "empty_registry db = (registry_tables db = ([], [], []))"

lemma empty_registry_ok: "empty_registry db \<Longrightarrow> registry_ok db"
  by (simp add: empty_registry_def registry_tables_def registry_ok_def books_ok_def history_def numbered_def pointers_ok_def)

lemma one_active:
  assumes p: "pointers_ok st arts deps" and j: "j < length arts" "st i = Some ACTIVE" "st j = Some ACTIVE"
    and same: "artifact_key (arts ! i) = artifact_key (arts ! j)" and i: "i < length arts"
  shows "i = j"
proof -
  from p i j obtain d d' where d: "d \<in> set deps" "md_active_artifact d = i" "d' \<in> set deps" "md_active_artifact d' = j"
    unfolding pointers_ok_def by metis
  with p same have "deployment_key d = deployment_key d'" by (auto simp: pointers_ok_def stands_def)
  with p d have "d = d'" by (auto simp: pointers_ok_def distinct_map dest: inj_onD)
  with d show ?thesis by simp
qed

lemma distinct_artifacts:
  assumes "registry_ok db" "j < length (db_artifacts db)" "artifact_key (db_artifacts db ! i) = artifact_key (db_artifacts db ! j)"
    and "gm_artifact_version (ga_identity (db_artifacts db ! i)) = gm_artifact_version (ga_identity (db_artifacts db ! j)) \<or>
      artifact_sha db i = artifact_sha db j" and "i < length (db_artifacts db)"
  shows "i = j"
proof -
  have "f (db_artifacts db ! i) = f (db_artifacts db ! j) \<Longrightarrow> distinct (map f (db_artifacts db)) \<Longrightarrow> i = j" for f :: "_ \<Rightarrow> 'b"
    using nth_eq_iff_index_eq [of "map f (db_artifacts db)" i j] assms(2,5) by simp
  from this [of "\<lambda>g. (artifact_key g, gm_artifact_version (ga_identity g))"]
    this [of "\<lambda>g. (artifact_key g, gm_artifact_sha256 (ga_identity g))"] assms(1,3,4)
  show ?thesis by (auto simp: registry_ok_def artifact_sha_def)
qed

text \<open>
  C36: Whatever registrations, promotions, activations and rollbacks interleave, starting from an empty registry: the
  events of an artifact are numbered 1, 2, ... and their actions are those of a legal lifecycle that ends in its current
  state; an artifact is active exactly when a deployment names it; a deployment of a tenant's model names an active
  artifact of that model and, for a rollback, a retired one; no model of a tenant has two active artifacts; and no two
  artifacts of a model share a version or a checksum.
\<close>

theorem active_artifact_is_the_deployed_one:
  assumes "empty_registry db0" "registry_step\<^sup>*\<^sup>* db0 db" "i < length (db_artifacts db)"
  shows "map me_sequence (history db i) = map int [1..<Suc (length (history db i))] \<and>
    actions_of (artifact_state db i) (map me_action (history db i)) \<and> history db i \<noteq> [] \<and>
    (artifact_state db i = Some ACTIVE \<longleftrightarrow> (\<exists>d \<in> set (db_deployments db). md_active_artifact d = i)) \<and>
    (\<forall>d \<in> set (db_deployments db).
      artifact_key (db_artifacts db ! md_active_artifact d) = deployment_key d \<and>
      (\<forall>r. md_rollback_artifact d = Some r \<longrightarrow> artifact_state db r = Some RETIRED \<and>
        artifact_key (db_artifacts db ! r) = deployment_key d)) \<and>
    (\<forall>j < length (db_artifacts db). artifact_state db i = Some ACTIVE \<longrightarrow> artifact_state db j = Some ACTIVE \<longrightarrow>
      artifact_key (db_artifacts db ! i) = artifact_key (db_artifacts db ! j) \<longrightarrow> i = j) \<and>
    (\<forall>j < length (db_artifacts db). artifact_key (db_artifacts db ! i) = artifact_key (db_artifacts db ! j) \<longrightarrow>
      gm_artifact_version (ga_identity (db_artifacts db ! i)) = gm_artifact_version (ga_identity (db_artifacts db ! j)) \<or>
      artifact_sha db i = artifact_sha db j \<longrightarrow> i = j)"
proof -
  have ok: "registry_ok db" using registry_run_ok [OF assms(2) empty_registry_ok [OF assms(1)]] .
  then have books: "books_ok db" and p: "pointers_ok (artifact_state db) (db_artifacts db) (db_deployments db)"
    by (simp_all add: registry_ok_def)
  have "actions_of (artifact_state db i) (map me_action (history db i))"
    unfolding state_is_end [OF books] using books by (intro chain_actions) (simp add: books_ok_def)
  moreover have "map me_sequence (history db i) = map int [1..<Suc (length (history db i))]"
    using books by (simp add: books_ok_def numbered_def)
  moreover have "artifact_state db i = Some ACTIVE \<longleftrightarrow> (\<exists>d \<in> set (db_deployments db). md_active_artifact d = i)"
    using p assms(3) by (auto simp: pointers_ok_def stands_def)
  moreover have "artifact_key (db_artifacts db ! md_active_artifact d) = deployment_key d \<and>
      (\<forall>r. md_rollback_artifact d = Some r \<longrightarrow> artifact_state db r = Some RETIRED \<and>
        artifact_key (db_artifacts db ! r) = deployment_key d)" if "d \<in> set (db_deployments db)" for d
    using p that by (auto simp: pointers_ok_def stands_def split: option.splits)
  moreover have "i = j" if "j < length (db_artifacts db)" "artifact_state db i = Some ACTIVE" "artifact_state db j = Some ACTIVE"
      "artifact_key (db_artifacts db ! i) = artifact_key (db_artifacts db ! j)" for j
    using p that assms(3) by (rule one_active)
  moreover have "i = j" if "j < length (db_artifacts db)" "artifact_key (db_artifacts db ! i) = artifact_key (db_artifacts db ! j)"
      "gm_artifact_version (ga_identity (db_artifacts db ! i)) = gm_artifact_version (ga_identity (db_artifacts db ! j)) \<or>
       artifact_sha db i = artifact_sha db j" for j
    using ok that assms(3) by (rule distinct_artifacts)
  moreover have "history db i \<noteq> []" using ok assms(3) by (simp add: registry_ok_def)
  ultimately show ?thesis by blast
qed

subsection \<open>The columns pass their own check\<close>

lemma sorted_items_twice [simp]: "sorted_items (sorted_items d) = sorted_items d"
  unfolding sorted_items_def by (rule sort_key_id_if_sorted) simp

lemma canonical_hash_perm:
  assumes "wf_dict d" "mset d = mset e"
  shows "canonical_hash (PyDict d) = canonical_hash (PyDict e)"
proof -
  have "wf_dict (map (map_prod id dumps) d)" using assms(1) by (simp add: wf_dict_def keys_def comp_def)
  moreover have "mset (map (map_prod id dumps) d) = mset (map (map_prod id dumps) e)" using assms(2) by simp
  ultimately have "sorted_items (map (map_prod id dumps) d) = sorted_items (map (map_prod id dumps) e)"
    by (rule sorted_items_perm)
  then show ?thesis by (simp add: canonical_hash_def)
qed

lemma canonical_hash_is_sha256 [simp]: "is_sha256_text (canonical_hash v)"
  by (simp add: canonical_hash_def)

lemma sha256_not_blank: "is_sha256_text s \<Longrightarrow> s \<noteq> []"
  by (auto simp: is_sha256_text_def)

text \<open>The service and the model build the same event payload, in another order.\<close>

lemma event_hash_agrees:
  "me_event_sha256 (new_event i s t a actor reason p db) =
     canonical_hash (PyDict (row_event_payload (new_event i s t a actor reason p db) (artifact_sha db i)))"
  unfolding new_event_def Let_def row_event_payload_def event_payload_def lifecycle_row.simps
    MODEL_LIFECYCLE_POLICY_VERSION_def
  by (rule canonical_hash_perm) (simp_all add: wf_dict_def)

lemma approval_hash_agrees:
  assumes "compatibility_passed (pa_compatibility p)" "pa_approved_action p = a" "pa_artifact_sha256 p = artifact_sha db i"
    and "pa_reviewer_id p = user_reference (wu_pk actor)"
  shows "me_approval_sha256 (new_event i s t a actor (pa_reason p) (Some p) db) =
    canonical_hash (PyDict (row_approval_payload (new_event i s t a actor (pa_reason p) (Some p) db) (artifact_sha db i)))"
  using assms by (simp add: new_event_def Let_def row_approval_payload_def approval_text_def approval_sha256_def
      promotion_approval_as_dict_def compatibility_report_as_dict_def)

lemma approved_event_clean:
  assumes a: "a \<noteq> REGISTER" "compatibility_passed (pa_compatibility p)" "pa_approved_action p = a"
    and p: "promotion_approval_post_init p = None" "compatibility_report_post_init (pa_compatibility p) = None"
    and actor: "pa_artifact_sha256 p = artifact_sha db i" "pa_reviewer_id p = user_reference (wu_pk actor)"
  shows "transition_clean (new_event i s t a actor (pa_reason p) (Some p) db) (artifact_sha db i)"
proof -
  let ?e = "new_event i s t a actor (pa_reason p) (Some p) db"
  have cols: "me_evaluation_sha256 ?e = pa_evaluation_sha256 p" "me_reviewer_role ?e = pa_reviewer_role p"
      "me_compatibility ?e = sorted_items (cr_checks (pa_compatibility p))" "me_approval_sha256 ?e = approval_sha256 p"
      "me_compatibility_sha256 ?e = cr_report_sha256 (pa_compatibility p)"
    by (simp_all add: new_event_def Let_def approval_text_def)
  have "is_sha256_text (pa_evaluation_sha256 p)" "pa_reviewer_role p \<in> {''owner'', ''admin''}"
    using p(1) by (auto simp: promotion_approval_post_init_def checksum_guard_def)
  then have "pa_evaluation_sha256 p \<noteq> []" "pa_reviewer_role p \<noteq> []" using sha256_not_blank by auto
  moreover have "approval_sha256 p \<noteq> []" "cr_report_sha256 (pa_compatibility p) \<noteq> []"
    using p(2) by (auto simp: approval_sha256_def compatibility_report_post_init_def intro!: sha256_not_blank)
  moreover have "validate_compatibility_report (sorted_items (cr_checks (pa_compatibility p)))"
    using p(2) by (auto simp: validate_compatibility_report_def compatibility_report_post_init_def has_exactly_iff
        keys_def list_all_iff)
  moreover have "list_all (\<lambda>p. is_true (snd p)) (sorted_items (cr_checks (pa_compatibility p)))"
    using a(2) by (simp add: compatibility_passed_def list_all_iff)
  moreover have "cr_report_sha256 (pa_compatibility p) = canonical_hash (PyDict (sorted_items (cr_checks (pa_compatibility p))))"
    using p(2) by (simp add: compatibility_report_post_init_def)
  ultimately show ?thesis
    unfolding transition_clean_def approval_hash_agrees [OF a(2,3) actor, symmetric] unfolding cols by simp
qed

definition well_formed_approval :: "promotion_approval \<Rightarrow> bool" where
  "well_formed_approval p = (promotion_approval_post_init p = None \<and>
     compatibility_report_post_init (pa_compatibility p) = None)"

lemma event_cleanI:
  assumes "1 \<le> me_sequence e" "me_sequence e \<le> 2147483647" "is_sha256_text (me_evaluation_sha256 e)"
    and "is_sha256_text (me_compatibility_sha256 e)" "me_reviewer_role e \<in> {''owner'', ''admin''}"
    and "is_sha256_text (me_approval_sha256 e)" "text_column 1000 (me_reason e)" "me_actor e \<noteq> None"
    and "is_sha256_text (me_event_sha256 e)" "ga_organization (db_artifacts db ! me_artifact e) = me_organization e"
    and "me_action e \<noteq> REGISTER" "transition_clean e (artifact_sha db (me_artifact e))"
    and "me_event_sha256 e = canonical_hash (PyDict (row_event_payload e (artifact_sha db (me_artifact e))))"
    and "\<not> list_ex (\<lambda>o'. me_sequence o' = me_sequence e \<or> me_event_sha256 o' = me_event_sha256 e) (history db (me_artifact e))"
  shows "event_full_clean e db = None"
  using assms by (simp add: event_full_clean_def Let_def blank_or_sha256_def)

text \<open>
  C37: The service and the model's own check agree: an approval that passes its constructor, names this artifact, was
  given by the acting administrator and authorises a legal transition is always recorded as the next event, with the
  numbers and hashes that \<open>ModelLifecycleEvent.clean\<close> recomputes from the columns. The only other conditions are the
  range of the sequence column and that the new hash is not the one of an earlier event.
\<close>

theorem approved_transition_is_recorded:
  assumes "books_ok db" "wu_pk actor = Some u" "length (history db i) < 2147483647"
    and t: "validate_model_transition (artifact_state db i) t a (Some p) = None" and p: "well_formed_approval p"
    and actor: "validate_approval_actor p actor role = Inr ()" "pa_artifact_sha256 p = artifact_sha db i"
    and fresh: "me_event_sha256 (new_event i (artifact_state db i) t a actor (pa_reason p) (Some p) db)
      \<notin> me_event_sha256 ` set (history db i)"
  shows "\<exists>e. record_event i (artifact_state db i) t a actor (pa_reason p) (Some p) db =
      Inr (db\<lparr>db_events := db_events db @ [e]\<rparr>, e) \<and>
    me_sequence e = int (length (history db i)) + 1 \<and> me_to_state e = t \<and>
    me_approval_sha256 e = approval_sha256 p"
proof -
  let ?e = "new_event i (artifact_state db i) t a actor (pa_reason p) (Some p) db"
  note seq = new_event_sequence [OF assms(1), of i "artifact_state db i" t a actor "pa_reason p" "Some p"]
  have act: "a \<noteq> REGISTER" "compatibility_passed (pa_compatibility p)" "pa_approved_action p = a"
    using t by (auto simp: validate_model_transition_def split: if_splits)
  have reviewer: "pa_reviewer_id p = user_reference (wu_pk actor)" using actor(1) by (simp add: validate_approval_actor_def)
  have cols: "me_evaluation_sha256 ?e = pa_evaluation_sha256 p" "me_reviewer_role ?e = pa_reviewer_role p"
      "me_approval_sha256 ?e = approval_sha256 p" "me_compatibility_sha256 ?e = cr_report_sha256 (pa_compatibility p)"
    by (simp_all add: new_event_def Let_def approval_text_def)
  have init: "is_sha256_text (pa_evaluation_sha256 p)" "pa_reviewer_role p \<in> {''owner'', ''admin''}"
      "text_column 1000 (pa_reason p)" "is_sha256_text (cr_report_sha256 (pa_compatibility p))"
    using p by (auto simp: well_formed_approval_def promotion_approval_post_init_def checksum_guard_def bounded_text_def
        text_column_def compatibility_report_post_init_def)
  have "\<not> list_ex (\<lambda>o'. me_sequence o' = me_sequence ?e \<or> me_event_sha256 o' = me_event_sha256 ?e) (history db i)"
  proof -
    have "numbered (history db i)" using assms(1) by (simp add: books_ok_def)
    then have "me_sequence o' \<noteq> me_sequence ?e" if "o' \<in> set (history db i)" for o'
      using numbered_below that seq by fastforce
    then show ?thesis using fresh unfolding list_ex_iff by (metis image_eqI)
  qed
  moreover have "transition_clean ?e (artifact_sha db i)"
    using approved_event_clean [OF act _ _ actor(2) reviewer] p by (simp add: well_formed_approval_def)
  moreover have "is_sha256_text (me_event_sha256 ?e)" unfolding event_hash_agrees by simp
  ultimately have "event_full_clean ?e db = None"
    by (intro event_cleanI) (use init assms(2,3) seq act(1) event_hash_agrees in \<open>simp_all add: cols approval_sha256_def\<close>)
  with t actor(2) seq cols(3) show ?thesis
    by (simp add: record_event_def Let_def no_error_def guard_raised_def)
qed

subsection \<open>A registry with one staged model\<close>

lemma registration_is_recorded:
  assumes "wu_pk actor = Some u" "history db i = []" "text_column 1000 reason"
  shows "record_event i None CANDIDATE REGISTER actor reason None db =
    Inr (db\<lparr>db_events := db_events db @ [new_event i None CANDIDATE REGISTER actor reason None db]\<rparr>,
      new_event i None CANDIDATE REGISTER actor reason None db)"
proof -
  let ?e = "new_event i None CANDIDATE REGISTER actor reason None db"
  have cols: "registration_clean ?e" "me_sequence ?e = 1" "me_reviewer_role ?e = []" "me_evaluation_sha256 ?e = []"
      "me_compatibility_sha256 ?e = []" "me_approval_sha256 ?e = []"
    using assms(2) by (simp_all add: registration_clean_def new_event_def Let_def approval_text_def latest_event_def)
  have hash: "is_sha256_text (me_event_sha256 ?e)" unfolding event_hash_agrees by simp
  have "event_full_clean ?e db = None"
    unfolding event_full_clean_def Let_def new_event_simps assms(2)
    using assms cols hash event_hash_agrees [of i None CANDIDATE REGISTER actor reason None db]
    by (simp add: blank_or_sha256_def)
  then show ?thesis
    by (simp add: record_event_def Let_def no_error_def guard_raised_def validate_model_transition_def)
qed

definition sample_admin :: web_user where "sample_admin = \<lparr>wu_is_authenticated = True, wu_pk = Some 7\<rparr>"

definition sample_org :: organization_row where
  "sample_org = \<lparr>og_pk = 1, og_public_id = ''o'', og_lifecycle = ORG_ACTIVE\<rparr>"

definition sample_registry :: registry_db where
  "sample_registry = \<lparr>db_organizations = [sample_org],
     db_memberships = [\<lparr>mb_organization = 1, mb_user = 7, mb_role = ADMIN, mb_lifecycle = MEMBER_ACTIVE\<rparr>],
     db_policies = [], db_counters = [], db_reservations = [], db_audit = [], db_artifacts = [], db_events = [],
     db_deployments = []\<rparr>"

definition sample_sha :: string where "sample_sha = replicate 64 (CHR ''a'')"

definition sample_identity :: artifact_identity where
  "sample_identity = \<lparr>gm_model_name = ''m'', gm_artifact_version = ''1'', gm_artifact_sha256 = sample_sha,
     gm_artifact_uri = ''s3://b/k'', gm_algorithm = ''l'', gm_formal_experiment_sha256 = sample_sha, gm_mlflow_run_id = ''r'',
     gm_dataset_version = ''d'', gm_dataset_manifest_sha256 = sample_sha, gm_feature_schema_version = ''f'',
     gm_input_schema_sha256 = sample_sha, gm_runtime_compatibility = [(''python'', PyStr ''3'')], gm_synthetic = True,
     gm_contains_customer_data = False\<rparr>"

definition sample_artifact :: governed_artifact where
  "sample_artifact = \<lparr>ga_organization = 1, ga_public_id = ''p'', ga_identity = sample_identity, ga_created_by = Some 7\<rparr>"

definition sample_reason :: string where "sample_reason = ''Registered exact immutable artifact as a candidate.''"

lemma sample_sha_is_text [simp]: "is_sha256_text sample_sha" "length sample_sha = 64"
  by (simp_all add: sample_sha_def is_sha256_text_def is_hex_def hex_digits_def list_all_iff)

lemma sample_role: "require_model_admin sample_admin sample_org (sample_registry\<lparr>db_artifacts := as, db_events := es, db_audit := ls\<rparr>) = Inr ADMIN"
  by (simp add: require_model_admin_def from_web_def require_minimum_role_def require_membership_role_def user_pk_def
      sample_admin_def sample_org_def sample_registry_def get_one_def all_roles_def organization_is_active_def)

lemma sample_artifact_clean: "artifact_full_clean (\<lambda>_. True) sample_artifact [] = None"
proof -
  have "stored_url ''s3://b/k'' = \<lparr>pu_scheme = ''s3'', pu_netloc = ''b'', pu_query = [], pu_fragment = []\<rparr>"
    by (simp add: stored_url_def urlparse_def url_scheme_def before_def after_def code_def startswith_def is_alpha_def
        is_scheme_char_def casefold_def casefold_char_def Let_def)
  then show ?thesis
    by (simp add: artifact_full_clean_def artifact_fields_clean_def artifact_uri_clean_def sample_artifact_def
        sample_identity_def text_column_def validate_safe_string_mapping_def safe_mapping_item_def isascii_def code_def
        bad_brackets_def user_info_def before_def after_def Let_def)
qed

definition sample_registered :: registry_db where
  "sample_registered = fst (atomic (register_model_artifact (\<lambda>_. True) sample_org sample_admin sample_identity ''p'' ''c'')
     sample_registry)"

lemma sample_registered_rows:
  "db_artifacts sample_registered = [sample_artifact]" "\<exists>e. db_events sample_registered = [e] \<and> me_artifact e = 0 \<and>
     me_to_state e = CANDIDATE"
proof -
  let ?db = "sample_registry\<lparr>db_artifacts := [sample_artifact]\<rparr>"
  let ?e = "new_event 0 None CANDIDATE REGISTER sample_admin sample_reason None ?db"
  have ev: "record_event 0 None CANDIDATE REGISTER sample_admin sample_reason None ?db = Inr (?db\<lparr>db_events := [?e]\<rparr>, ?e)"
    using registration_is_recorded [of sample_admin 7 ?db 0 sample_reason]
    by (simp add: sample_admin_def history_def sample_registry_def text_column_def sample_reason_def)
  have audit: "record_audit (registry_audit 1 sample_admin ''risk.model_artifact.registered'' ''p'' ''c''
      [(''artifact_sha256'', PyStr sample_sha), (''artifact_version'', PyStr ''1''), (''model_name'', PyStr ''m'')])
      (?db\<lparr>db_events := [?e]\<rparr>) = Inr (?db\<lparr>db_events := [?e], db_audit := [registry_audit 1 sample_admin
        ''risk.model_artifact.registered'' ''p'' ''c'' [(''artifact_sha256'', PyStr sample_sha),
        (''artifact_version'', PyStr ''1''), (''model_name'', PyStr ''m'')]]\<rparr>)"
    by (simp add: record_audit_def registry_audit_def validate_safe_metadata_def forbidden_fragments_def casefold_def
        casefold_char_def code_def startswith_def sample_registry_def)
  have empty: "db_artifacts sample_registry = []" by (simp add: sample_registry_def)
  have row: "\<lparr>ga_organization = og_pk sample_org, ga_public_id = ''p'', ga_identity = sample_identity,
      ga_created_by = wu_pk sample_admin\<rparr> = sample_artifact"
    by (simp add: sample_artifact_def sample_org_def sample_admin_def)
  have trans: "\<exists>db. registration_transaction (\<lambda>_. True) sample_org sample_admin sample_identity ''p'' ''c'' sample_registry =
      Inr (db, ?e) \<and> db_artifacts db = [sample_artifact] \<and> db_events db = [?e]"
    unfolding registration_transaction_def Let_def row empty sample_artifact_clean
    using ev audit
    by (simp add: no_error_def from_web_def sample_org_def sample_identity_def sample_reason_def sample_registry_def)
  have role: "require_model_admin sample_admin sample_org sample_registry = Inr ADMIN"
    using sample_role [of "[]" "[]" "[]"] by (simp add: sample_registry_def)
  from trans role show "db_artifacts sample_registered = [sample_artifact]"
      "\<exists>e. db_events sample_registered = [e] \<and> me_artifact e = 0 \<and> me_to_state e = CANDIDATE"
    by (auto simp: sample_registered_def register_model_artifact_def empty)
qed

theorem active_artifact_is_the_deployed_one_witness:
  "registry_step\<^sup>*\<^sup>* sample_registry sample_registered \<and> db_artifacts sample_registered = [sample_artifact] \<and>
   artifact_state sample_registered 0 = Some CANDIDATE \<and> map me_action (history sample_registered 0) = [REGISTER]"
proof -
  have start: "empty_registry sample_registry" by (simp add: empty_registry_def registry_tables_def sample_registry_def)
  have run: "registry_step\<^sup>*\<^sup>* sample_registry sample_registered"
    unfolding sample_registered_def by (rule r_into_rtranclp) (rule registry_step.register)
  obtain e where e: "db_events sample_registered = [e]" "me_artifact e = 0" "me_to_state e = CANDIDATE"
    using sample_registered_rows(2) by blast
  then have state: "artifact_state sample_registered 0 = Some CANDIDATE"
    by (simp add: artifact_state_def latest_event_def history_def)
  have "actions_of (artifact_state sample_registered 0) (map me_action (history sample_registered 0))"
    using active_artifact_is_the_deployed_one [OF start run, of 0] sample_registered_rows(1) by simp
  with run state sample_registered_rows(1) show ?thesis by simp
qed

definition sample_approval :: promotion_approval where
  "sample_approval = \<lparr>pa_artifact_sha256 = sample_sha, pa_approved_action = PROMOTE_TO_STAGING,
     pa_reviewer_id = user_reference (Some 7), pa_reviewer_role = ''admin'', pa_reason = ''r'',
     pa_evaluation_sha256 = sample_sha, pa_compatibility =
       \<lparr>cr_checks = map (\<lambda>k. (k, PyBool True)) REQUIRED_COMPATIBILITY_CHECKS,
        cr_report_sha256 = canonical_hash (PyDict (sorted_items (map (\<lambda>k. (k, PyBool True)) REQUIRED_COMPATIBILITY_CHECKS)))\<rparr>\<rparr>"

definition sample_books :: registry_db where
  "sample_books = sample_registry\<lparr>db_artifacts := [sample_artifact], db_events := [\<lparr>me_organization = 1, me_artifact = 0,
     me_sequence = 1, me_from_state = None, me_to_state = CANDIDATE, me_action = REGISTER, me_evaluation_sha256 = [],
     me_compatibility = [], me_compatibility_sha256 = [], me_reviewer_role = [], me_approval_sha256 = [], me_reason = ''r'',
     me_actor = Some 7, me_event_sha256 = []\<rparr>]\<rparr>"

theorem approved_transition_is_recorded_witness:
  "\<exists>e. record_event 0 (Some CANDIDATE) STAGING PROMOTE_TO_STAGING sample_admin ''r'' (Some sample_approval) sample_books =
     Inr (sample_books\<lparr>db_events := db_events sample_books @ [e]\<rparr>, e) \<and> me_sequence e = 2"
proof -
  have h: "length (history sample_books 0) = 1" "me_event_sha256 ` set (history sample_books 0) = {[]}"
    by (simp_all add: history_def sample_books_def)
  have state: "artifact_state sample_books 0 = Some CANDIDATE"
    by (simp add: artifact_state_def latest_event_def history_def sample_books_def)
  have books: "books_ok sample_books" by (simp add: books_ok_def history_def sample_books_def numbered_def)
  have trans: "validate_model_transition (artifact_state sample_books 0) STAGING PROMOTE_TO_STAGING (Some sample_approval) = None"
    unfolding state by (simp add: validate_model_transition_def sample_approval_def compatibility_passed_def is_true_def list_all_iff)
  have checks: "has_exactly (map (\<lambda>k. (k, PyBool True)) REQUIRED_COMPATIBILITY_CHECKS) REQUIRED_COMPATIBILITY_CHECKS"
    by (simp add: has_exactly_iff keys_def comp_def)
  have wf: "well_formed_approval sample_approval"
    by (simp add: well_formed_approval_def promotion_approval_post_init_def compatibility_report_post_init_def checks
        sample_approval_def checksum_guard_def bounded_text_def isascii_def has_control_def code_def user_reference_def
        dump_int_def decimal_digits.simps is_boolean_def list_all_iff)
  have act: "validate_approval_actor sample_approval sample_admin ADMIN = Inr ()"
    by (simp add: validate_approval_actor_def sample_approval_def sample_admin_def)
  have sha: "pa_artifact_sha256 sample_approval = artifact_sha sample_books 0"
    by (simp add: sample_approval_def artifact_sha_def sample_books_def sample_artifact_def sample_identity_def)
  have fresh: "me_event_sha256 (new_event 0 (artifact_state sample_books 0) STAGING PROMOTE_TO_STAGING sample_admin
      (pa_reason sample_approval) (Some sample_approval) sample_books) \<notin> me_event_sha256 ` set (history sample_books 0)"
    unfolding h event_hash_agrees using sha256_not_blank canonical_hash_is_sha256 by auto
  have admin: "wu_pk sample_admin = Some 7" by (simp add: sample_admin_def)
  from approved_transition_is_recorded [OF books admin _ trans wf act sha fresh]
  have "\<exists>e. record_event 0 (Some CANDIDATE) STAGING PROMOTE_TO_STAGING sample_admin (pa_reason sample_approval)
      (Some sample_approval) sample_books = Inr (sample_books\<lparr>db_events := db_events sample_books @ [e]\<rparr>, e) \<and>
      me_sequence e = 2" by (auto simp: h state)
  moreover have "pa_reason sample_approval = ''r''" by (simp add: sample_approval_def)
  ultimately show ?thesis by simp
qed

end
