(* ===== verification/Spec2Isabelle.thy ===== *)
theory Spec2Isabelle
  imports AgentRun DifferentialProofs BlastRadius GovernanceProofs DatasetBuildProofs BaselineProofs AiProofs AiProposals
    ReleaseProofs RetrievalChunkProofs RetrievalFusion GithubTokens BoundaryContracts
    JobDelivery RetrievalEvaluation TestAdapterProofs SemanticProofs WebhookTenancy
    RegistryProofs
begin

text \<open>
  ReleaseProof turns a pull request into an advisory release recommendation. The change is
  normalised, its import graph walked and its features computed; evidence is collected by a bounded
  investigation graph, by differential runs of the base and the candidate revision in a sandbox, and
  by generated tests; a policy fuses everything into SHIP, REVIEW, HOLD or UNKNOWN. Around this core
  stand the dataset pipeline that turns past changes into labelled rows, the governance of the risk
  models that are trained on them, the privacy gate in front of a language model, retrieval over
  evidence documents, and the release manifests. A web application keeps tenants, quotas and jobs in a
  database and delivers the jobs through an outbox. The source is under \<open>src/packages\<close>; paths below
  are relative to that directory unless they start with \<open>apps\<close> or \<open>adapters\<close>.

  \<^bold>\<open>How a call is modelled.\<close> A Python call that may raise returns \<open>exn + 'a\<close>: \<open>Inl\<close> carries the
  exception with its class and message, and each \<open>raise\<close> and early return of the source is a branch, in
  the order of the source (theory \<open>Prelude\<close>). A dataclass is a record, its \<open>__post_init__\<close> a function
  from the record that returns it or raises; an \<open>Enum\<close> is a datatype with a function to its text.
  A mutable object is a record that a method takes and returns. A value whose type no code checks is
  a \<open>pyval\<close> (theory \<open>PyValue\<close>), with Python's equality between numbers and booleans.

  \<^bold>\<open>Theories and the code they model.\<close>

  \<^item> \<open>Prelude\<close>, \<open>PyValue\<close>, \<open>Json\<close>, \<open>Sha256\<close>, \<open>PyText\<close>, \<open>StrictJson\<close>: what the components share of
    Python. \<open>json.dumps\<close> and \<open>json.loads\<close> with hooks, SHA-256 on 32-bit words, \<open>str.strip\<close>,
    \<open>str.splitlines\<close> and the part of \<open>re\<close> that the source uses, and the two hooks and typed reads of the
    strict readers.
  \<^item> \<open>Recommendation\<close>: \<open>recommendation_core/policy.py\<close>, with \<open>recommendation\<close> a linear order by caution.
  \<^item> \<open>AgentContracts\<close>, \<open>AgentTools\<close>, \<open>AgentGuards\<close>, \<open>AgentGraph\<close>, \<open>AgentRun\<close>: \<open>agent_core\<close>. The graph
    is a state record and one function for each node; \<open>run_investigation\<close> follows the edges.
  \<^item> \<open>ExecutionContracts\<close>, \<open>ExecutionProofs\<close>, \<open>Differential\<close>, \<open>DifferentialProofs\<close>:
    \<open>execution_contracts/contracts.py\<close> and \<open>differential.py\<close>.
  \<^item> \<open>ChangeContracts\<close>, \<open>ChangeDiffs\<close>, \<open>ChangeDiffProofs\<close>, \<open>ChangeGraph\<close>, \<open>BlastRadius\<close>,
    \<open>ChangeHistory\<close>, \<open>ChangeFeatures\<close>, \<open>ChangeAnalysis\<close>: \<open>change_intel\<close>.
  \<^item> \<open>Governance\<close>, \<open>Drift\<close>, \<open>GovernanceProofs\<close>: \<open>ml_core/governance.py\<close>.
  \<^item> \<open>Baseline\<close>, \<open>BaselineEvaluation\<close>, \<open>BaselineProofs\<close>: \<open>ml_core/baseline.py\<close>, the integer risk score and the
    evaluation that chooses its threshold.
  \<^item> \<open>DatasetContracts\<close>, \<open>DatasetSplits\<close>, \<open>DatasetSplitProofs\<close>, \<open>DatasetExtraction\<close>,
    \<open>DatasetMaterialize\<close>, \<open>DatasetBuildProofs\<close>, \<open>SemanticData\<close>, \<open>SemanticProofs\<close>: \<open>dataset_core\<close>.
  \<^item> \<open>AiContracts\<close>, \<open>AiPolicy\<close>, \<open>AiSchema\<close>, \<open>AiProofs\<close>, \<open>AiProposals\<close>: \<open>ai_core\<close>.
  \<^item> \<open>TestAdapter\<close>, \<open>TestAdapterProofs\<close>: \<open>adapters/test_generation/python_fixture.py\<close>, over a datatype of the
    syntax tree nodes that its checks look at.
  \<^item> \<open>ReleaseContracts\<close>, \<open>ReleaseProofs\<close>: \<open>release_core/contracts.py\<close>.
  \<^item> \<open>RetrievalText\<close>, \<open>RetrievalChunks\<close>, \<open>RetrievalChunkProofs\<close>, \<open>RetrievalFusion\<close>, \<open>RetrievalEvaluation\<close>:
    \<open>retrieval_core\<close>.
  \<^item> \<open>GithubTokens\<close>: \<open>github_contracts/auth.py\<close>. \<open>BoundaryContracts\<close>: \<open>github_contracts/contracts.py\<close>,
    \<open>domain\<close>, \<open>observability/policy.py\<close> and \<open>failure_policy.py\<close>.
  \<^item> \<open>Tenancy\<close>, \<open>Quotas\<close>, \<open>QuotaProofs\<close>: \<open>apps/web/organizations/services.py\<close>,
    \<open>operational_services.py\<close> and \<open>apps/web/audit\<close>. \<open>Jobs\<close>, \<open>JobProofs\<close>, \<open>JobDelivery\<close>:
    \<open>apps/web/analysis/services.py\<close>. A table is a list of rows. A function under \<open>transaction.atomic\<close> takes
    the database and returns it changed, or raises and leaves it as it was; a transaction that holds its row
    locks is one step of the inductive relations \<open>quota_step\<close> and \<open>job_step\<close>, and the reachable databases are
    what any interleaving of such steps leaves. A savepoint inside a transaction is the same at its place.
  \<^item> \<open>ModelRegistry\<close>, \<open>RegistryProofs\<close>: the artifacts, lifecycle events and deployments of \<open>apps/web/risk\<close> and the
    four operations of \<open>governance_services.py\<close> on them, with \<open>registry_step\<close> one committed call.
  \<^item> \<open>Signing\<close>: \<open>execution_contracts/signing.py\<close>, HMAC over the SHA-256 of \<open>Sha256\<close>.
  \<^item> \<open>WebhookVerify\<close>, \<open>Webhooks\<close>, \<open>WebhookProofs\<close>, \<open>WebhookRuns\<close>, \<open>WebhookTenancy\<close>:
    \<open>apps/web/changes/webhooks.py\<close> with the receipt and snapshot models and \<open>apps/web/repositories\<close>. A
    delivery is checked against its signature and its bounds, then stored with its effects by one of three
    transactions; \<open>webhook_step\<close> is one delivery on the database.

  \<^bold>\<open>Interfaces.\<close>

  \<^item> \<open>sealed_contract\<close> (\<open>PyValue\<close>): an object that stores the hash of its own content. It is
    interpreted on the recommendation decision. \<open>json_contract\<close> extends it by a parser of the JSON
    text; the execution plan, the execution result, the differential plan and the differential result
    interpret it, and their round trips are facts of the locale.
  \<^item> \<open>strict_reader\<close> (\<open>StrictJson\<close>): a reader that refuses duplicate keys, unknown keys and constants
    such as NaN. The suggestion reader and the proposal reader interpret it.
  \<^item> \<open>evidence_tools\<close> (\<open>AgentRun\<close>): what the nodes rely on when they call a tool. The bounded tools
    interpret it.
  \<^item> \<open>lru_store\<close> (\<open>GithubTokens\<close>): a map with a bound that forgets its least recently used entry. The
    \<open>OrderedDict\<close> operations of the token cache interpret it.

  \<^bold>\<open>What the lemmas show.\<close> In each component: which arguments a constructor accepts and with which
  exception it refuses the others; that accepted objects keep their invariant; that an object
  survives its JSON text; and what acceptance means for the rest of the system. The larger results
  are these.

  \<^item> The fused recommendation follows the documented precedence and more cautious evidence never gives
    a less cautious recommendation. An investigation returns, with its steps and calls within its budget, when
    at most 64 references are authorised and each answer of the provider holds at most 16 claims and 64 citations
    (beyond that it can raise, as two lemmas show), and a run that reports completion has passed verification.
  \<^item> An accepted plan is isolated (no network, pinned image, six bounded resources), an accepted result is
    consistent with its outcome, an accepted differential result is the one derived
    from its observations, and a difference is named exactly when the fact of that name differs.
  \<^item> Recorded dependency chains are the shortest ones and an untruncated blast radius is complete.
  \<^item> Features of a change do not depend on history after the prediction time; labels need a complete
    window; the leakage checks accept exactly the rows without a leak.
  \<^item> A model is active only after a promotion that its governance checks allowed; a drift report passes only on
    full evidence.
  \<^item> A riskier change never gets a lower baseline score, and the frozen threshold is the best candidate on the
    validation rows.
  \<^item> A language model sees evidence only when the routing policy allows it (routing raises exactly when
    redaction makes a text invalid), and a suggestion is accepted only when every citation resolves.
  \<^item> A generated test that passes the static checks is one new file under tests/generated, run by one
    command, and its syntax tree holds no forbidden node, import, name or attribute; the patch reader gets
    back the content that the patch writer was given, unless it is empty or has a line that starts with two plus signs.
  \<^item> A semantic dataset covers its source rows, keeps their split, bounds its texts and does not depend on
    any recorded outcome.
  \<^item> In every reachable database each usage counter equals the sum of its charged reservations, a job has one
    outbox event and ends exactly once; an outage of fewer than five relays loses no
    event, while five relays without a broker strand them, against the runbook. A member acts exactly when role, membership and organization allow it.
  \<^item> A webhook is accepted only with the signature of its bytes under the shared secret and within the bounds
    on size and nesting. A delivery that arrives again is a duplicate and changes nothing, and in every
    reachable database a receipt, its snapshot, its repository, its job and the job's event belong to one organization.
  \<^item> In every reachable registry of models an artifact is active exactly when a deployment names it, its events form
    a legal lifecycle, and what the service hashes is what the model's own check recomputes.
  \<^item> Chunks are bounded and, but for Python source, complete; ranking metrics are fractions; fusion ranks by the sum of reciprocal ranks; the token cache
    serves a token only before its refresh margin.

  \<^bold>\<open>Bounds and fuel.\<close> \<open>run_investigation\<close> is followed with \<open>max_steps + 2\<close> edges: the guard charges a step
  at each node and refuses after \<open>max_steps\<close>, and the final node is reached by one edge more, so the
  bound is never the reason to stop (the termination property has no fuel in its conclusion). The
  breadth-first loop ends by the measure of unvisited modules and edges; the JSON lexer and parser, the
  regular expression search, the splitting of lines and the slices of a text are recursive on the
  length of what is left. The bounds of the code itself (bytes, items, nesting) are the constants of the
  source.

  \<^bold>\<open>Restrictions.\<close> A string is a list of characters below U+0100, so UTF-8 lengths are exact for them and
  text outside this range is not covered. A float is a rational (a real where the code takes a
  logarithm), so arithmetic on scores is exact; \<open>repr\<close> of a float is the parameter
  \<open>float_repr\<close>. The interpreter's limits (4300 digits of an integer text, recursion depth) are not
  modelled, but for the hunk count that \<open>TestAdapter\<close> reads. A date is its ordinal and an instant a number of microseconds in UTC.

  \<^bold>\<open>Parameters\<close> stand for code outside the repository or for what a caller supplies: the
  model provider, the workflow engine, the clock and the cancellation flag of an investigation; the
  parser of Python source (\<open>ast.parse\<close>); \<open>datetime.isoformat\<close> and \<open>fromisoformat\<close>; the decoding of
  bytes with replacement; \<open>round\<close> of a float; \<open>unicodedata.normalize\<close> and \<open>str.casefold\<close>; the token
  minter; a reranker; the check of a host name; the message broker, the analysis run by a job, the
  pull request that the provider answers with, the database clock and new UUIDs. Each named hypothesis states documented behaviour of
  such a function, and a witness instantiates it.

  \<^bold>\<open>Not modelled.\<close> \<open>ml_core/classical.py\<close> and \<open>semantic.py\<close>: numerical work whose results
  depend on float rounding and on numpy. The set-up of
  telemetry, logging and metrics: input and output only. The other adapters, the Docker runner and the
  evaluation scripts: calls of external programs and services. Of the Django application the views, forms,
  migrations, the retention workflow, the policies of hosted language models and the remaining services.
\<close>

end
